(* ===== verification/Prelude.thy ===== *)
theory Prelude
  imports Main "HOL-Library.Multiset" "HOL-Library.Sublist" "HOL-Library.Char_ord"
    "HOL-Library.List_Lexorder" "HOL-Library.Product_Lexorder"
begin

text \<open>
  Shared vocabulary of the development.

  Go's \<^verbatim>\<open>string\<close> and \<^verbatim>\<open>[]byte\<close> are byte sequences and are \<^typ>\<open>string\<close> here: a \<^typ>\<open>char\<close>
  is one byte. With the orders of Char_ord and List_Lexorder the comparison \<open>s < t\<close> of two strings
  is Go's, byte by byte with a proper prefix first. Positions in a source text
  (\<^verbatim>\<open>ir.SourcePosition\<close>) are \<^typ>\<open>int\<close>; an index found by a search is \<^typ>\<open>nat option\<close>, \<^const>\<open>None\<close>
  for Go's \<open>-1\<close>.

  \<^verbatim>\<open>sort.Slice\<close> and \<^verbatim>\<open>sort.SliceStable\<close> are \<open>sort_by\<close>, a stable insertion sort over the source's
  own comparator. For \<^verbatim>\<open>SliceStable\<close> that is the value Go computes; for \<^verbatim>\<open>Slice\<close> it is the value Go
  computes whenever elements that compare equal are equal, and one of the allowed values otherwise.
\<close>

named_theorems span_simps \<open>equations of source spans and positions\<close>
named_theorems shape \<open>facts on the shape of a component's state that every step keeps\<close>

section \<open>Lists and options\<close>

lemma concat_map_nested:
  "concat (map f (concat xss)) = concat (map (\<lambda>xs. concat (map f xs)) xss)"
  by (induction xss) auto

lemma fold_inv: "P s \<Longrightarrow> (\<And>x s. P s \<Longrightarrow> P (f x s)) \<Longrightarrow> P (fold f xs s)"
  by (induction xs arbitrary: s) auto

lemma fold_invariant_list:
  assumes "P s" and "\<And>x s. x \<in> set xs \<Longrightarrow> P s \<Longrightarrow> P (f x s)"
  shows "P (fold f xs s)"
  using assms by (induction xs arbitrary: s) auto

lemma map_last_update:
  "xs \<noteq> [] \<Longrightarrow> xs[length xs - 1 := f (xs ! (length xs - 1))] = butlast xs @ [f (last xs)]"
  by (induction xs rule: rev_induct) (auto simp: nth_append list_update_append)

lemma take_drop_middle:
  "s \<le> e \<Longrightarrow> e \<le> length xs \<Longrightarrow> take s xs @ take (e - s) (drop s xs) @ drop e xs = xs"
  by (metis append.assoc append_take_drop_id le_add_diff_inverse take_add)

section \<open>Sorting with the source's comparators\<close>

fun insert_by :: "('a \<Rightarrow> 'a \<Rightarrow> bool) \<Rightarrow> 'a \<Rightarrow> 'a list \<Rightarrow> 'a list" where
  "insert_by lt x [] = [x]"
| "insert_by lt x (y # ys) = (if lt y x then y # insert_by lt x ys else x # y # ys)"

definition sort_by :: "('a \<Rightarrow> 'a \<Rightarrow> bool) \<Rightarrow> 'a list \<Rightarrow> 'a list" where
  "sort_by lt xs = foldr (insert_by lt) xs []"

lemma sort_by_Nil [simp]: "sort_by lt [] = []"
  by (simp add: sort_by_def)

lemma sort_by_Cons [simp]: "sort_by lt (x # xs) = insert_by lt x (sort_by lt xs)"
  by (simp add: sort_by_def)

lemma mset_insert_by [simp]: "mset (insert_by lt x xs) = add_mset x (mset xs)"
  by (induction xs) auto

lemma mset_sort_by [simp]: "mset (sort_by lt xs) = mset xs"
  by (induction xs) auto

lemma set_insert_by [simp]: "set (insert_by lt x xs) = insert x (set xs)"
  by (induction xs) auto

lemma set_sort_by [simp]: "set (sort_by lt xs) = set xs"
  by (induction xs) auto

lemma length_sort_by [simp]: "length (sort_by lt xs) = length xs"
  using mset_eq_length mset_sort_by by metis

lemma insert_by_cong:
  "(\<And>y. y \<in> set ys \<Longrightarrow> lt y x = lt' y x) \<Longrightarrow> insert_by lt x ys = insert_by lt' x ys"
  by (induction ys) auto

text \<open>
  A comparator handed to \<^verbatim>\<open>sort.Slice\<close> must be a strict weak order; what the sorted slice promises
  is proved once here, for every comparator that is one.
\<close>

locale weak_order =
  fixes lt :: "'a \<Rightarrow> 'a \<Rightarrow> bool"
  assumes asym: "lt x y \<Longrightarrow> \<not> lt y x"
    and neg_trans: "\<not> lt x y \<Longrightarrow> \<not> lt y z \<Longrightarrow> \<not> lt x z"
begin

lemma irrefl [simp]: "\<not> lt x x"
  using asym by blast

lemma trans: "lt x y \<Longrightarrow> lt y z \<Longrightarrow> lt x z"
  using asym neg_trans by blast

lemma sorted_insert_by:
  "sorted_wrt (\<lambda>x y. \<not> lt y x) xs \<Longrightarrow> sorted_wrt (\<lambda>x y. \<not> lt y x) (insert_by lt a xs)"
proof (induction xs)
  case (Cons y ys)
  show ?case
  proof (cases "lt y a")
    case True
    with Cons show ?thesis using asym by auto
  next
    case False
    with Cons.prems have "\<not> lt z a" if "z \<in> set ys" for z
      using that neg_trans by auto
    with False Cons show ?thesis by auto
  qed
qed simp

lemma sorted_sort_by: "sorted_wrt (\<lambda>x y. \<not> lt y x) (sort_by lt xs)"
  by (induction xs) (auto intro: sorted_insert_by)

lemma sort_by_sorted_id: "sorted_wrt (\<lambda>x y. \<not> lt y x) xs \<Longrightarrow> sort_by lt xs = xs"
proof (induction xs)
  case (Cons x xs)
  then show ?case by (cases xs) auto
qed simp

lemma sort_by_idem [simp]: "sort_by lt (sort_by lt xs) = sort_by lt xs"
  by (rule sort_by_sorted_id [OF sorted_sort_by])

lemma sorted_unique:
  assumes "sorted_wrt (\<lambda>x y. \<not> lt y x) xs" and "sorted_wrt (\<lambda>x y. \<not> lt y x) ys"
    and "mset xs = mset ys"
    and tot: "\<And>x y. x \<in> set xs \<Longrightarrow> y \<in> set xs \<Longrightarrow> \<not> lt x y \<Longrightarrow> \<not> lt y x \<Longrightarrow> x = y"
  shows "xs = ys"
  using assms
proof (induction xs arbitrary: ys)
  case Nil
  then show ?case by simp
next
  case (Cons x xs)
  then obtain y ys' where ys: "ys = y # ys'" by (cases ys) auto
  have sets: "insert x (set xs) = insert y (set ys')"
    using Cons.prems(3) ys by (metis list.simps(15) set_mset_mset)
  have "\<not> lt x y \<or> x = y" "\<not> lt y x \<or> x = y"
    using Cons.prems(1,2) sets ys by auto
  then have xy: "x = y"
    using Cons.prems(4)[of x y] sets by auto
  moreover have "xs = ys'"
  proof (rule Cons.IH)
    show "mset xs = mset ys'" using Cons.prems(3) xy ys by simp
  qed (use Cons.prems xy ys in auto)
  ultimately show ?case using ys by simp
qed

lemma sort_by_perm:
  assumes "mset xs = mset ys"
    and "\<And>x y. x \<in> set xs \<Longrightarrow> y \<in> set xs \<Longrightarrow> \<not> lt x y \<Longrightarrow> \<not> lt y x \<Longrightarrow> x = y"
  shows "sort_by lt xs = sort_by lt ys"
  by (rule sorted_unique) (use assms in \<open>auto intro: sorted_sort_by\<close>)

end

text \<open>
  Every comparator of the sources compares a key: a tuple of strings and integers, first component
  first. A comparator that is \<open>key a < key b\<close> for a key in a linear order is a strict weak order.
\<close>

lemma weak_order_key: "weak_order (\<lambda>a b. key a < (key b :: 'k::linorder))"
  by unfold_locales auto

lemma weak_order_by_key:
  fixes key :: "'a \<Rightarrow> 'k::linorder"
  assumes "\<And>a b. lt a b \<longleftrightarrow> key a < key b"
  shows "weak_order lt"
  by unfold_locales (auto simp: assms)

lemma key_total:
  fixes key :: "'a \<Rightarrow> 'k::linorder"
  assumes "\<And>a b. lt a b \<longleftrightarrow> key a < key b" and "\<not> lt a b" "\<not> lt b a"
  shows "key a = key b"
  using assms by auto

lemma map_sort_by_key:
  fixes key :: "'a \<Rightarrow> 'k::linorder"
  assumes "\<And>a b. lt a b \<longleftrightarrow> key a < key b"
  shows "map key (sort_by lt xs) = sort_by (<) (map key xs)"
proof (induction xs)
  case (Cons x xs)
  have "map key (insert_by lt x ys) = insert_by (<) (key x) (map key ys)" for ys
    by (induction ys) (simp_all add: assms)
  with Cons show ?case by simp
qed simp

interpretation str_order: weak_order "(<) :: string \<Rightarrow> string \<Rightarrow> bool"
  by (rule weak_order_by_key [of _ "\<lambda>s. s"]) simp

text \<open>The comparators are chains of \<open>if\<close>; so is the order of tuples.\<close>

lemma pair_less_if:
  "(x :: 'a::linorder, y :: 'b::linorder) < (x', y') \<longleftrightarrow> (if x \<noteq> x' then x < x' else y < y')"
  by auto

text \<open>\<^verbatim>\<open>sort.Strings\<close>.\<close>

definition sort_strings :: "string list \<Rightarrow> string list" where
  "sort_strings xs = sort_by (<) xs"

lemma set_sort_strings [simp]: "set (sort_strings xs) = set xs"
  by (simp add: sort_strings_def)

lemma mset_sort_strings [simp]: "mset (sort_strings xs) = mset xs"
  by (simp add: sort_strings_def)

lemma sort_strings_cong: "mset xs = mset ys \<Longrightarrow> sort_strings xs = sort_strings ys"
  unfolding sort_strings_def by (rule str_order.sort_by_perm) auto

lemma sorted_sort_strings: "sorted (sort_strings xs)"
  using str_order.sorted_sort_by [of xs]
  by (simp add: sort_strings_def not_less sorted_wrt_iff_nth_less sorted_iff_nth_mono_less)

section \<open>Maps of slices\<close>

text \<open>Go's \<^verbatim>\<open>m[k] = append(m[k], x)\<close> on a map kept as an association list, keys in the order they first
  appear.\<close>

fun add_to_group :: "'k \<Rightarrow> 'a \<Rightarrow> ('k \<times> 'a list) list \<Rightarrow> ('k \<times> 'a list) list" where
  "add_to_group k x [] = [(k, [x])]"
| "add_to_group k x ((k', xs) # gs) = (if k = k' then (k', xs @ [x]) # gs else (k', xs) # add_to_group k x gs)"

lemma add_to_group_keys:
  "set (map fst (add_to_group k x gs)) = insert k (set (map fst gs))"
  "distinct (map fst gs) \<Longrightarrow> distinct (map fst (add_to_group k x gs))"
  by (induction k x gs rule: add_to_group.induct) auto

lemma add_to_group_member:
  "g \<in> set (add_to_group k x gs) \<Longrightarrow> distinct (map fst gs) \<Longrightarrow>
   (fst g \<noteq> k \<and> g \<in> set gs) \<or>
   (fst g = k \<and> (k \<notin> set (map fst gs) \<and> snd g = [x] \<or> (\<exists>xs. (k, xs) \<in> set gs \<and> snd g = xs @ [x])))"
  by (induction k x gs rule: add_to_group.induct) (auto split: if_splits)

end
