(* ===== verification/Go_Strings.thy ===== *)
theory Go_Strings
  imports Prelude
begin

text \<open>
  The part of Go's packages \<^verbatim>\<open>strings\<close>, \<^verbatim>\<open>strconv\<close>, \<^verbatim>\<open>unicode\<close> and \<^verbatim>\<open>unicode/utf8\<close> the program uses,
  on byte strings.

  White space is Unicode's White_Space set in its UTF-8 encoding, so \<^verbatim>\<open>TrimSpace\<close> and \<^verbatim>\<open>Fields\<close> are
  exact for every byte string: the lead bytes C2, E1, E2, E3 never occur inside another encoded rune,
  so a position where one of the encodings matches is a rune boundary, from either end.
  \<^verbatim>\<open>ToLower\<close> and \<^verbatim>\<open>EqualFold\<close> fold the ASCII letters and leave bytes from 0x80 on alone, and
  \<^verbatim>\<open>%q\<close> leaves those bytes unescaped: these three are exact for ASCII text.
\<close>

section \<open>Characters\<close>

abbreviation byte_of :: "char \<Rightarrow> nat" where
  "byte_of c \<equiv> of_char c"

definition ascii_space :: "char \<Rightarrow> bool" where
  "ascii_space c \<longleftrightarrow> c = CHR '' '' \<or> (9 \<le> byte_of c \<and> byte_of c \<le> 13)"

definition is_digit :: "char \<Rightarrow> bool" where
  "is_digit c \<longleftrightarrow> 48 \<le> byte_of c \<and> byte_of c \<le> 57"

definition is_upper :: "char \<Rightarrow> bool" where
  "is_upper c \<longleftrightarrow> 65 \<le> byte_of c \<and> byte_of c \<le> 90"

definition is_lower :: "char \<Rightarrow> bool" where
  "is_lower c \<longleftrightarrow> 97 \<le> byte_of c \<and> byte_of c \<le> 122"

text \<open>\<^verbatim>\<open>unicode.IsSpace(rune(b))\<close> and \<^verbatim>\<open>unicode.IsLetter(rune(b))\<close> for a byte: the Latin-1 rows.\<close>

definition latin1_space :: "char \<Rightarrow> bool" where
  "latin1_space c \<longleftrightarrow> ascii_space c \<or> byte_of c = 0x85 \<or> byte_of c = 0xA0"

definition latin1_letter :: "char \<Rightarrow> bool" where
  "latin1_letter c \<longleftrightarrow> is_upper c \<or> is_lower c \<or> byte_of c = 0xAA \<or> byte_of c = 0xB5 \<or> byte_of c = 0xBA
     \<or> (0xC0 \<le> byte_of c \<and> byte_of c \<noteq> 0xD7 \<and> byte_of c \<noteq> 0xF7)"

definition lower_char :: "char \<Rightarrow> char" where
  "lower_char c = (if is_upper c then char_of (byte_of c + 32) else c)"

definition to_lower :: "string \<Rightarrow> string" where
  "to_lower s = map lower_char s"

definition equal_fold :: "string \<Rightarrow> string \<Rightarrow> bool" where
  "equal_fold s t \<longleftrightarrow> to_lower s = to_lower t"

lemma length_to_lower [simp]: "length (to_lower s) = length s"
  by (simp add: to_lower_def)

lemma to_lower_Nil [simp]: "to_lower [] = []"
  by (simp add: to_lower_def)

lemma to_lower_append: "to_lower (s @ t) = to_lower s @ to_lower t"
  by (simp add: to_lower_def)

lemma byte_of_lower_char: "byte_of (lower_char c) = (if is_upper c then byte_of c + 32 else byte_of c)"
  by (auto simp: lower_char_def is_upper_def)

lemma lower_char_idem [simp]: "lower_char (lower_char c) = lower_char c"
  by (auto simp: lower_char_def is_upper_def)

lemma to_lower_idem [simp]: "to_lower (to_lower s) = to_lower s"
  by (simp add: to_lower_def)

section \<open>Trimming\<close>

definition ws2 :: "char \<Rightarrow> char \<Rightarrow> bool" where
  "ws2 a b \<longleftrightarrow> byte_of a = 0xC2 \<and> (byte_of b = 0x85 \<or> byte_of b = 0xA0)"

definition ws3 :: "char \<Rightarrow> char \<Rightarrow> char \<Rightarrow> bool" where
  "ws3 a b c \<longleftrightarrow>
     byte_of a = 0xE1 \<and> byte_of b = 0x9A \<and> byte_of c = 0x80
   \<or> byte_of a = 0xE2 \<and> byte_of b = 0x80 \<and>
       (0x80 \<le> byte_of c \<and> byte_of c \<le> 0x8A \<or> byte_of c = 0xA8 \<or> byte_of c = 0xA9 \<or> byte_of c = 0xAF)
   \<or> byte_of a = 0xE2 \<and> byte_of b = 0x81 \<and> byte_of c = 0x9F
   \<or> byte_of a = 0xE3 \<and> byte_of b = 0x80 \<and> byte_of c = 0x80"

text \<open>The length of the white-space rune at the front of a string, and at the front of a reversed
  one (its last rune); 0 when there is none.\<close>

definition ws_head :: "string \<Rightarrow> nat" where
  "ws_head s = (case s of [] \<Rightarrow> 0 | a # t \<Rightarrow>
     if ascii_space a then 1 else case t of [] \<Rightarrow> 0 | b # u \<Rightarrow>
     if ws2 a b then 2 else case u of [] \<Rightarrow> 0 | c # _ \<Rightarrow>
     if ws3 a b c then 3 else 0)"

definition ws_last :: "string \<Rightarrow> nat" where
  "ws_last r = (case r of [] \<Rightarrow> 0 | a # t \<Rightarrow>
     if ascii_space a then 1 else case t of [] \<Rightarrow> 0 | b # u \<Rightarrow>
     if ws2 b a then 2 else case u of [] \<Rightarrow> 0 | c # _ \<Rightarrow>
     if ws3 c b a then 3 else 0)"

lemma ws_head_append: "ws_head p \<noteq> 0 \<Longrightarrow> ws_head (p @ q) = ws_head p"
  by (auto simp: ws_head_def split: list.splits if_splits)

function strip :: "(string \<Rightarrow> nat) \<Rightarrow> string \<Rightarrow> string" where
  "strip h s = (if s = [] \<or> h s = 0 then s else strip h (drop (h s) s))"
  by pat_completeness auto
termination
  by (relation "measure (\<lambda>(h, s). length s)") auto

declare strip.simps [simp del]

lemma strip_Nil [simp]: "strip h [] = []"
  by (simp add: strip.simps)

lemma strip_stop [simp]: "h s = 0 \<Longrightarrow> strip h s = s"
  by (simp add: strip.simps)

lemma strip_step: "h s \<noteq> 0 \<Longrightarrow> s \<noteq> [] \<Longrightarrow> strip h s = strip h (drop (h s) s)"
  by (subst strip.simps) simp

lemma strip_suffix: "\<exists>p. s = p @ strip h s"
proof (induction h s rule: strip.induct)
  case (1 h s)
  show ?case
  proof (cases "s = [] \<or> h s = 0")
    case True
    then show ?thesis by (auto simp: strip.simps)
  next
    case False
    with 1 obtain p where "drop (h s) s = p @ strip h (drop (h s) s)" by blast
    then have "s = (take (h s) s @ p) @ strip h s"
      using False strip_step [of h s] by (metis append.assoc append_take_drop_id)
    then show ?thesis by blast
  qed
qed

lemma strip_head: "strip h s = [] \<or> h (strip h s) = 0"
proof (induction h s rule: strip.induct)
  case (1 h s)
  then show ?case by (cases "s = [] \<or> h s = 0") (auto simp: strip.simps [of h s])
qed

lemma strip_idem [simp]: "strip h (strip h s) = strip h s"
  using strip_head [of h s] by auto

lemma length_strip: "length (strip h s) \<le> length s"
  using strip_suffix [of s h] by (metis length_append le_add2)

definition trim_left_space :: "string \<Rightarrow> string" where
  "trim_left_space s = strip ws_head s"

definition trim_right_space :: "string \<Rightarrow> string" where
  "trim_right_space s = rev (strip ws_last (rev s))"

text \<open>\<^verbatim>\<open>strings.TrimSpace\<close>.\<close>

definition trim_space :: "string \<Rightarrow> string" where
  "trim_space s = trim_right_space (trim_left_space s)"

lemma trim_space_Nil [simp]: "trim_space [] = []"
  by (simp add: trim_space_def trim_left_space_def trim_right_space_def)

lemma trim_right_space_prefix: "\<exists>q. s = trim_right_space s @ q"
proof -
  obtain p where "rev s = p @ strip ws_last (rev s)" using strip_suffix by blast
  then have "s = rev (strip ws_last (rev s)) @ rev p" by (metis rev_append rev_rev_ident)
  then show ?thesis by (auto simp: trim_right_space_def)
qed

lemma trim_space_infix: "\<exists>p q. s = p @ trim_space s @ q"
proof -
  obtain p where "s = p @ trim_left_space s"
    using strip_suffix by (auto simp: trim_left_space_def)
  moreover obtain q where "trim_left_space s = trim_space s @ q"
    using trim_right_space_prefix by (auto simp: trim_space_def)
  ultimately have "s = p @ trim_space s @ q" by metis
  then show ?thesis by blast
qed

lemma length_trim_space: "length (trim_space s) \<le> length s"
  using trim_space_infix [of s] by (metis le_add1 le_add2 le_trans length_append)

lemma set_trim_space: "set (trim_space s) \<subseteq> set s"
  using trim_space_infix [of s] by (metis set_append Un_upper1 Un_upper2 subset_trans)

lemma trim_space_head: "trim_space s = [] \<or> ws_head (trim_space s) = 0"
proof -
  obtain q where q: "trim_left_space s = trim_space s @ q"
    using trim_right_space_prefix by (auto simp: trim_space_def)
  have "trim_left_space s = [] \<or> ws_head (trim_left_space s) = 0"
    using strip_head by (simp add: trim_left_space_def)
  then show ?thesis using q ws_head_append [of "trim_space s" q] by auto
qed

lemma trim_space_idem [simp]: "trim_space (trim_space s) = trim_space s"
proof -
  have "trim_left_space (trim_space s) = trim_space s"
    using trim_space_head [of s] by (auto simp: trim_left_space_def)
  moreover have "trim_right_space (trim_space s) = trim_space s"
    by (simp add: trim_space_def trim_right_space_def)
  ultimately show ?thesis by (metis trim_space_def)
qed

lemma ascii_no_ws [simp]:
  "byte_of a < 128 \<Longrightarrow> \<not> ws2 a b" "byte_of b < 128 \<Longrightarrow> \<not> ws2 a b"
  "byte_of a < 128 \<Longrightarrow> \<not> ws3 a b c" "byte_of c < 128 \<Longrightarrow> \<not> ws3 a b c"
  by (auto simp: ws2_def ws3_def)

lemma ws_head_ascii: "s \<noteq> [] \<Longrightarrow> \<not> ascii_space (hd s) \<Longrightarrow> byte_of (hd s) < 128 \<Longrightarrow> ws_head s = 0"
  by (cases s) (auto simp: ws_head_def split: list.splits)

lemma ws_last_ascii: "s \<noteq> [] \<Longrightarrow> \<not> ascii_space (hd s) \<Longrightarrow> byte_of (hd s) < 128 \<Longrightarrow> ws_last s = 0"
  by (cases s) (auto simp: ws_last_def split: list.splits)

text \<open>A string that starts and ends with a visible ASCII byte is its own trim.\<close>

lemma trim_space_ends:
  assumes "s \<noteq> []" "\<not> ascii_space (hd s)" "byte_of (hd s) < 128"
    "\<not> ascii_space (last s)" "byte_of (last s) < 128"
  shows "trim_space s = s"
  using assms ws_head_ascii [of s] ws_last_ascii [of "rev s"]
  by (simp add: trim_space_def trim_left_space_def trim_right_space_def hd_rev)

text \<open>\<^verbatim>\<open>strings.TrimLeft\<close>, \<^verbatim>\<open>TrimRight\<close> and \<^verbatim>\<open>Trim\<close> with an ASCII cut set.\<close>

definition trim_left :: "string \<Rightarrow> string \<Rightarrow> string" where
  "trim_left s cs = dropWhile (\<lambda>c. c \<in> set cs) s"

definition trim_right :: "string \<Rightarrow> string \<Rightarrow> string" where
  "trim_right s cs = rev (dropWhile (\<lambda>c. c \<in> set cs) (rev s))"

definition trim_set :: "string \<Rightarrow> string \<Rightarrow> string" where
  "trim_set s cs = trim_right (trim_left s cs) cs"

lemma trim_right_Nil [simp]: "trim_right [] cs = []"
  by (simp add: trim_right_def)

lemma trim_right_prefix: "\<exists>q. s = trim_right s cs @ q"
  by (metis rev_append rev_rev_ident takeWhile_dropWhile_id trim_right_def)

lemma set_trim_right: "set (trim_right s cs) \<subseteq> set s"
  using trim_right_prefix [of s cs] by (metis Un_upper1 set_append)

section \<open>Searching and splitting\<close>

definition has_prefix :: "string \<Rightarrow> string \<Rightarrow> bool" where
  "has_prefix s p \<longleftrightarrow> take (length p) s = p"

definition has_suffix :: "string \<Rightarrow> string \<Rightarrow> bool" where
  "has_suffix s p \<longleftrightarrow> length p \<le> length s \<and> drop (length s - length p) s = p"

definition trim_prefix :: "string \<Rightarrow> string \<Rightarrow> string" where
  "trim_prefix s p = (if has_prefix s p then drop (length p) s else s)"

definition trim_suffix :: "string \<Rightarrow> string \<Rightarrow> string" where
  "trim_suffix s p = (if has_suffix s p then take (length s - length p) s else s)"

lemma has_prefix_Nil [simp]: "has_prefix s []"
  by (simp add: has_prefix_def)

lemma has_prefix_append [simp]: "has_prefix (p @ s) p"
  by (simp add: has_prefix_def)

lemma has_prefix_Cons [simp]: "has_prefix (c # s) (d # p) \<longleftrightarrow> c = d \<and> has_prefix s p"
  by (auto simp: has_prefix_def)

lemma has_prefix_Nil_Cons [simp]: "\<not> has_prefix [] (d # p)"
  by (simp add: has_prefix_def)

lemma has_prefix_iff: "has_prefix s p \<longleftrightarrow> (\<exists>t. s = p @ t)"
  by (metis append_eq_conv_conj append_take_drop_id has_prefix_def)

lemma has_prefix_prefix: "has_prefix s p \<longleftrightarrow> prefix p s"
  by (auto simp: has_prefix_iff prefix_def)

lemma has_suffix_append [simp]: "has_suffix (s @ p) p"
  by (simp add: has_suffix_def)

lemma has_suffix_iff: "has_suffix s p \<longleftrightarrow> (\<exists>t. s = t @ p)"
  by (metis add_diff_cancel_right' append_eq_conv_conj append_take_drop_id has_suffix_def
      le_add2 length_append)

lemma trim_suffix_append [simp]: "trim_suffix (s @ p) p = s"
  by (simp add: trim_suffix_def)

lemma trim_prefix_append [simp]: "trim_prefix (p @ s) p = s"
  by (simp add: trim_prefix_def)

text \<open>\<^verbatim>\<open>strings.Index\<close> and \<^verbatim>\<open>strings.IndexByte\<close>.\<close>

fun index_of :: "string \<Rightarrow> string \<Rightarrow> nat option" where
  "index_of [] sub = (if sub = [] then Some 0 else None)"
| "index_of (c # cs) sub =
     (if has_prefix (c # cs) sub then Some 0 else map_option Suc (index_of cs sub))"

fun index_byte :: "string \<Rightarrow> char \<Rightarrow> nat option" where
  "index_byte [] b = None"
| "index_byte (c # cs) b = (if c = b then Some 0 else map_option Suc (index_byte cs b))"

definition contains :: "string \<Rightarrow> string \<Rightarrow> bool" where
  "contains s sub \<longleftrightarrow> index_of s sub \<noteq> None"

lemma index_of_bound: "index_of s sub = Some i \<Longrightarrow> i + length sub \<le> length s"
proof (induction s arbitrary: i)
  case (Cons c cs)
  then show ?case
    by (auto simp: has_prefix_prefix dest: prefix_length_le split: if_splits)
qed (auto split: if_splits)

lemma index_of_match: "index_of s sub = Some i \<Longrightarrow> take (length sub) (drop i s) = sub"
  by (induction s arbitrary: i) (auto simp: has_prefix_def split: if_splits)

lemma index_of_append: "sub \<noteq> [] \<Longrightarrow> index_of (p @ sub @ s) sub \<noteq> None"
  by (induction p) (cases sub; auto simp: has_prefix_iff)+

lemma index_of_exists: "index_of (p @ sub @ s) sub \<noteq> None"
proof (cases "sub = []")
  case True
  then show ?thesis by (cases "p @ s") auto
qed (rule index_of_append)

lemma index_byte_bound: "index_byte s b = Some i \<Longrightarrow> i < length s"
  by (induction s arbitrary: i) (auto split: if_splits)

lemma index_byte_nth: "index_byte s b = Some i \<Longrightarrow> s ! i = b"
  by (induction s arbitrary: i) (auto split: if_splits)

lemma index_byte_None: "index_byte s b = None \<longleftrightarrow> b \<notin> set s"
  by (induction s) auto

lemma index_byte_split:
  "index_byte s b = Some i \<Longrightarrow> s = take i s @ b # drop (Suc i) s \<and> b \<notin> set (take i s)"
  by (induction s arbitrary: i) (auto split: if_splits)

text \<open>\<^verbatim>\<open>strings.Cut\<close>, \<^verbatim>\<open>strings.Split\<close> and \<^verbatim>\<open>strings.SplitN(_, sep, 2)\<close> at a one-byte separator.\<close>

definition cut_at :: "string \<Rightarrow> char \<Rightarrow> string \<times> string \<times> bool" where
  "cut_at s b = (case index_byte s b of
      Some i \<Rightarrow> (take i s, drop (Suc i) s, True) | None \<Rightarrow> (s, [], False))"

fun split_on :: "char \<Rightarrow> string \<Rightarrow> string list" where
  "split_on b [] = [[]]"
| "split_on b (c # cs) =
     (if c = b then [] # split_on b cs
      else case split_on b cs of [] \<Rightarrow> [[c]] | w # ws \<Rightarrow> (c # w) # ws)"

definition split_n2 :: "string \<Rightarrow> char \<Rightarrow> string list" where
  "split_n2 s b = (case cut_at s b of (x, y, found) \<Rightarrow> if found then [x, y] else [x])"

fun join_with :: "string \<Rightarrow> string list \<Rightarrow> string" where
  "join_with sep [] = []"
| "join_with sep [w] = w"
| "join_with sep (w # v # ws) = w @ sep @ join_with sep (v # ws)"

fun replace_byte :: "string \<Rightarrow> char \<Rightarrow> string \<Rightarrow> string" where
  "replace_byte [] b new = []"
| "replace_byte (c # cs) b new = (if c = b then new @ replace_byte cs b new
                                  else c # replace_byte cs b new)"

lemma split_on_not_Nil [simp]: "split_on b s \<noteq> []"
  by (cases s) (auto split: list.splits)

lemma split_on_no_sep: "w \<in> set (split_on b s) \<Longrightarrow> b \<notin> set w"
  by (induction s arbitrary: w) (auto split: if_splits list.splits)

lemma join_split: "join_with [b] (split_on b s) = s"
proof (induction s)
  case (Cons c cs)
  obtain w ws where "split_on b cs = w # ws" by (cases "split_on b cs") auto
  with Cons show ?case by (cases ws) auto
qed simp

lemma split_on_notin: "b \<notin> set s \<Longrightarrow> split_on b s = [s]"
  by (induction s) auto

lemma split_on_append_sep: "split_on b (s @ b # t) = split_on b s @ split_on b t"
proof (induction s)
  case (Cons c s)
  obtain w ws where "split_on b s = w # ws" by (cases "split_on b s") auto
  then show ?case using Cons by simp
qed simp

lemma split_on_append: "b \<notin> set w \<Longrightarrow> split_on b (w @ b # s) = w # split_on b s"
  by (induction w) auto

lemma split_join:
  "ws \<noteq> [] \<Longrightarrow> (\<And>w. w \<in> set ws \<Longrightarrow> b \<notin> set w) \<Longrightarrow> split_on b (join_with [b] ws) = ws"
proof (induction ws)
  case (Cons w ws)
  then show ?case by (cases ws) (auto simp: split_on_append split_on_notin)
qed simp

text \<open>\<^verbatim>\<open>strings.Fields\<close>: the maximal runs between white-space runes.\<close>

function str_fields_from :: "string \<Rightarrow> string \<Rightarrow> string list" where
  "str_fields_from cur s =
     (let flush = (if cur = [] then [] else [cur]) in
      if s = [] then flush
      else if ws_head s = 0 then str_fields_from (cur @ [hd s]) (tl s)
      else flush @ str_fields_from [] (drop (ws_head s) s))"
  by pat_completeness auto
termination
  by (relation "measure (\<lambda>(cur, s). length s)") auto

declare str_fields_from.simps [simp del]

definition str_fields :: "string \<Rightarrow> string list" where
  "str_fields s = str_fields_from [] s"

lemma str_fields_from_nonempty: "w \<in> set (str_fields_from cur s) \<Longrightarrow> w \<noteq> []"
proof (induction cur s rule: str_fields_from.induct)
  case (1 cur s)
  show ?case
    using "1.prems" "1.IH" by (subst (asm) str_fields_from.simps) (auto simp: Let_def split: if_splits)
qed

lemma str_fields_nonempty: "w \<in> set (str_fields s) \<Longrightarrow> w \<noteq> []"
  by (auto simp: str_fields_def dest: str_fields_from_nonempty)

section \<open>Numbers in decimal\<close>

definition digit_char :: "nat \<Rightarrow> char" where
  "digit_char n = char_of (48 + n)"

fun nat_digits :: "nat \<Rightarrow> string" where
  "nat_digits n = (if n < 10 then [digit_char n] else nat_digits (n div 10) @ [digit_char (n mod 10)])"

declare nat_digits.simps [simp del]

text \<open>\<^verbatim>\<open>%d\<close> and \<^verbatim>\<open>strconv.Itoa\<close>.\<close>

definition itoa :: "int \<Rightarrow> string" where
  "itoa i = (if i < 0 then CHR ''-'' # nat_digits (nat (- i)) else nat_digits (nat i))"

definition digit_val :: "char \<Rightarrow> nat" where
  "digit_val c = byte_of c - 48"

definition digits_val :: "string \<Rightarrow> nat" where
  "digits_val s = foldl (\<lambda>n c. 10 * n + digit_val c) 0 s"

definition int64_max :: int where "int64_max = 9223372036854775807"
definition int64_min :: int where "int64_min = -9223372036854775808"

text \<open>The sum or product of two \<^verbatim>\<open>int\<close> is reduced to 64 bits.\<close>

definition wrap64 :: "int \<Rightarrow> int" where
  "wrap64 i = (i + 2 ^ 63) mod 2 ^ 64 - 2 ^ 63"

lemma wrap64_id: "0 \<le> i \<Longrightarrow> i \<le> int64_max \<Longrightarrow> wrap64 i = i"
  by (simp add: wrap64_def int64_max_def)

text \<open>\<^verbatim>\<open>strconv.Atoi\<close>: \<^const>\<open>None\<close> for an error, which is a syntax error or a value outside \<^verbatim>\<open>int\<close>.\<close>

definition atoi :: "string \<Rightarrow> int option" where
  "atoi s =
     (let (neg, ds) = (case s of [] \<Rightarrow> (False, []) | c # cs \<Rightarrow>
            if c = CHR ''-'' then (True, cs) else if c = CHR ''+'' then (False, cs) else (False, s));
          v = (if neg then - int (digits_val ds) else int (digits_val ds))
      in if ds \<noteq> [] \<and> list_all is_digit ds \<and> int64_min \<le> v \<and> v \<le> int64_max then Some v else None)"

lemma byte_of_digit_char: "n < 10 \<Longrightarrow> byte_of (digit_char n) = 48 + n"
  by (simp add: digit_char_def)

lemma is_digit_digit_char [simp]: "n < 10 \<Longrightarrow> is_digit (digit_char n)"
  by (simp add: is_digit_def byte_of_digit_char)

lemma nat_digits_all: "list_all is_digit (nat_digits n)"
  by (induction n rule: nat_digits.induct) (subst nat_digits.simps, auto)

lemma nat_digits_not_Nil [simp]: "nat_digits n \<noteq> []"
  by (subst nat_digits.simps) simp

lemma digits_val_snoc: "digits_val (s @ [c]) = 10 * digits_val s + digit_val c"
  by (simp add: digits_val_def)

lemma digits_val_nat_digits [simp]: "digits_val (nat_digits n) = n"
proof (induction n rule: nat_digits.induct)
  case (1 n)
  show ?case
  proof (cases "n < 10")
    case True
    then show ?thesis
      by (subst nat_digits.simps) (simp add: digits_val_def digit_val_def byte_of_digit_char)
  next
    case False
    with 1 have "digits_val (nat_digits n) = 10 * (n div 10) + n mod 10"
      by (subst nat_digits.simps) (simp add: digits_val_snoc digit_val_def byte_of_digit_char)
    then show ?thesis by simp
  qed
qed

lemma nat_digits_inj: "nat_digits m = nat_digits n \<Longrightarrow> m = n"
  by (metis digits_val_nat_digits)

lemma nat_digits_digit: "c \<in> set (nat_digits n) \<Longrightarrow> is_digit c"
  using nat_digits_all by (auto simp: list_all_iff)

lemma not_digit_minus [simp]: "\<not> is_digit (CHR ''-'')" "\<not> is_digit (CHR ''+'')"
  by (simp_all add: is_digit_def)

lemma atoi_itoa:
  assumes "int64_min \<le> i" "i \<le> int64_max"
  shows "atoi (itoa i) = Some i"
proof -
  obtain c cs where d: "nat_digits (nat i) = c # cs" by (cases "nat_digits (nat i)") auto
  have "is_digit c" using nat_digits_digit [of c "nat i"] d by simp
  then have "c \<noteq> CHR ''-''" "c \<noteq> CHR ''+''" by auto
  then show ?thesis
    using assms d nat_digits_all [of "nat i"] nat_digits_all [of "nat (- i)"]
      digits_val_nat_digits [of "nat i"]
    by (auto simp: atoi_def itoa_def)
qed

lemma itoa_inj: "itoa i = itoa j \<Longrightarrow> i = j"
proof -
  assume eq: "itoa i = itoa j"
  have h: "hd (nat_digits n) \<noteq> CHR ''-''" for n
    using nat_digits_digit [of "hd (nat_digits n)" n] by (metis hd_in_set nat_digits_not_Nil not_digit_minus(1))
  show ?thesis
    using eq h [of "nat i"] h [of "nat j"]
    by (auto simp: itoa_def split: if_splits dest!: nat_digits_inj) (metis h list.sel(1))+
qed

text \<open>\<^verbatim>\<open>strconv.ParseInt(s, 10, 64)\<close> on a run of digits, its error ignored: out of range it returns
  the largest \<^verbatim>\<open>int64\<close>.\<close>

definition parse_digits_sat :: "string \<Rightarrow> int" where
  "parse_digits_sat ds = min (int (digits_val ds)) int64_max"

lemma parse_digits_sat_range: "0 \<le> parse_digits_sat ds" "parse_digits_sat ds \<le> int64_max"
  by (auto simp: parse_digits_sat_def int64_max_def)

text \<open>\<^verbatim>\<open>%q\<close> (\<^verbatim>\<open>strconv.Quote\<close>).\<close>

definition hex_digit :: "nat \<Rightarrow> char" where
  "hex_digit n = (if n < 10 then char_of (48 + n) else char_of (87 + n))"

definition hex_byte :: "nat \<Rightarrow> string" where
  "hex_byte n = [hex_digit (n div 16), hex_digit (n mod 16)]"

definition quote_char :: "char \<Rightarrow> string" where
  "quote_char c =
     (if c = CHR 0x22 then [CHR 0x5C, CHR 0x22]
      else if c = CHR 0x5C then [CHR 0x5C, CHR 0x5C]
      else if byte_of c = 7 then [CHR 0x5C, CHR ''a'']
      else if byte_of c = 8 then [CHR 0x5C, CHR ''b'']
      else if byte_of c = 12 then [CHR 0x5C, CHR ''f'']
      else if byte_of c = 10 then [CHR 0x5C, CHR ''n'']
      else if byte_of c = 13 then [CHR 0x5C, CHR ''r'']
      else if byte_of c = 9 then [CHR 0x5C, CHR ''t'']
      else if byte_of c = 11 then [CHR 0x5C, CHR ''v'']
      else if byte_of c < 32 \<or> byte_of c = 127 then [CHR 0x5C, CHR ''x''] @ hex_byte (byte_of c)
      else [c])"

definition quote :: "string \<Rightarrow> string" where
  "quote s = [CHR 0x22] @ concat (map quote_char s) @ [CHR 0x22]"

end
