(* ===== verification/Go_Paths.thy ===== *)
theory Go_Paths
  imports Go_Strings
begin

text \<open>
  Go's \<^verbatim>\<open>path/filepath\<close> on a Unix host, where the separator is the slash and \<^verbatim>\<open>ToSlash\<close>,
  \<^verbatim>\<open>FromSlash\<close> and \<^verbatim>\<open>VolumeName\<close> do nothing. These functions are lexical; the ones that ask the
  system (\<^verbatim>\<open>Abs\<close>, \<^verbatim>\<open>EvalSymlinks\<close>, \<^verbatim>\<open>os.Stat\<close>) are parameters of the components that call them.
\<close>

abbreviation slash :: char where "slash \<equiv> CHR ''/''"

definition is_abs :: "string \<Rightarrow> bool" where
  "is_abs p \<longleftrightarrow> has_prefix p ''/''"

section \<open>Clean\<close>

text \<open>The loop of \<^verbatim>\<open>filepath.Clean\<close>, one path element at a time; the output written so far is the
  stack of its elements, the last one on top.\<close>

definition clean_step :: "bool \<Rightarrow> string list \<Rightarrow> string \<Rightarrow> string list" where
  "clean_step rooted st seg =
     (if seg = [] \<or> seg = ''.'' then st
      else if seg = ''..'' then
        (case st of
           last_seg # below \<Rightarrow> if last_seg \<noteq> ''..'' then below else if rooted then st else seg # st
         | [] \<Rightarrow> if rooted then st else seg # st)
      else seg # st)"

definition clean_segs :: "string \<Rightarrow> string list" where
  "clean_segs p = rev (foldl (clean_step (is_abs p)) [] (split_on slash p))"

definition render_path :: "bool \<Rightarrow> string list \<Rightarrow> string" where
  "render_path rooted segs =
     (let body = join_with ''/'' segs; r = (if rooted then slash # body else body)
      in if r = [] then ''.'' else r)"

definition path_clean :: "string \<Rightarrow> string" where
  "path_clean p = render_path (is_abs p) (clean_segs p)"

text \<open>What a cleaned path's stack of elements looks like: \<open>..\<close> only at the bottom of a relative path.\<close>

fun clean_stack :: "bool \<Rightarrow> string list \<Rightarrow> bool" where
  "clean_stack rooted [] \<longleftrightarrow> True"
| "clean_stack rooted (a # st) \<longleftrightarrow>
     a \<noteq> [] \<and> a \<noteq> ''.'' \<and> slash \<notin> set a \<and>
     (a = ''..'' \<longrightarrow> \<not> rooted \<and> set st \<subseteq> {''..''}) \<and> clean_stack rooted st"

lemma clean_stack_step:
  "clean_stack rooted st \<Longrightarrow> slash \<notin> set seg \<Longrightarrow> clean_stack rooted (clean_step rooted st seg)"
proof (cases st)
  case (Cons last_seg below)
  assume "clean_stack rooted st" "slash \<notin> set seg"
  moreover have "set below \<subseteq> {''..''}" if "last_seg = ''..''"
    using Cons that \<open>clean_stack rooted st\<close> by simp
  ultimately show ?thesis using Cons by (auto simp: clean_step_def)
qed (auto simp: clean_step_def)

lemma clean_stack_foldl:
  "clean_stack rooted st \<Longrightarrow> \<forall>s\<in>set segs. slash \<notin> set s \<Longrightarrow>
   clean_stack rooted (foldl (clean_step rooted) st segs)"
  by (induction segs arbitrary: st) (auto simp: clean_stack_step)

lemma clean_segs_stack: "clean_stack (is_abs p) (rev (clean_segs p))"
  unfolding clean_segs_def rev_rev_ident
  by (rule clean_stack_foldl) (auto dest: split_on_no_sep)

lemma clean_stack_refold:
  "clean_stack rooted st \<Longrightarrow> foldl (clean_step rooted) [] (rev st) = st"
proof (induction st)
  case (Cons a st)
  then have "foldl (clean_step rooted) [] (rev st) = st" by simp
  then have "foldl (clean_step rooted) [] (rev (a # st)) = clean_step rooted st a" by simp
  also have "\<dots> = a # st"
    using Cons.prems by (cases st) (auto simp: clean_step_def)
  finally show ?case .
qed simp

lemma clean_stack_seg:
  "clean_stack rooted st \<Longrightarrow> s \<in> set st \<Longrightarrow> s \<noteq> [] \<and> s \<noteq> ''.'' \<and> slash \<notin> set s"
  by (induction st) auto

lemma clean_segs_seg:
  assumes "s \<in> set (clean_segs p)"
  shows "s \<noteq> []" "s \<noteq> ''.''" "slash \<notin> set s"
  using clean_stack_seg [OF clean_segs_stack [of p], of s] assms by auto

lemma join_with_head:
  "segs \<noteq> [] \<Longrightarrow> hd segs \<noteq> [] \<Longrightarrow> join_with sep segs \<noteq> [] \<and> hd (join_with sep segs) = hd (hd segs)"
  by (induction sep segs rule: join_with.induct) auto

lemma is_abs_hd: "is_abs p \<longleftrightarrow> p \<noteq> [] \<and> hd p = slash"
  by (cases p) (auto simp: is_abs_def)

lemma hd_clean_segs:
  assumes "clean_segs p \<noteq> []"
  shows "hd (clean_segs p) \<noteq> []" "hd (hd (clean_segs p)) \<noteq> slash"
  using clean_segs_seg [OF hd_in_set [OF assms]] by (auto simp: hd_in_set neq_Nil_conv)

lemma is_abs_path_clean [simp]: "is_abs (path_clean p) = is_abs p"
proof (cases "clean_segs p = []")
  case True
  then show ?thesis by (auto simp: path_clean_def render_path_def is_abs_hd)
next
  case False
  with hd_clean_segs [OF False] join_with_head [OF False, of "''/''"] show ?thesis
    by (auto simp: path_clean_def render_path_def Let_def is_abs_hd)
qed

lemma split_path_clean:
  "foldl (clean_step (is_abs p)) [] (split_on slash (path_clean p)) = rev (clean_segs p)"
proof -
  let ?segs = "clean_segs p"
  have fold: "foldl (clean_step (is_abs p)) [] ?segs = rev ?segs"
    using clean_stack_refold [OF clean_segs_stack [of p]] by simp
  show ?thesis
  proof (cases "?segs = []")
    case True
    then show ?thesis
      by (auto simp: path_clean_def render_path_def Let_def clean_step_def)
  next
    case False
    have sj: "split_on slash (join_with ''/'' ?segs) = ?segs"
      using split_join [OF False, of slash] clean_segs_seg(3) by auto
    have "join_with ''/'' ?segs \<noteq> []"
      using join_with_head [OF False] hd_clean_segs [OF False] by auto
    then show ?thesis
      using sj fold
      by (auto simp: path_clean_def render_path_def Let_def clean_step_def [of _ "[]" "[]"])
  qed
qed

lemma split_rel_clean:
  assumes "\<not> is_abs p"
  shows "split_on slash (path_clean p) = (if clean_segs p = [] then [''.''] else clean_segs p)"
proof (cases "clean_segs p = []")
  case True
  then show ?thesis using assms by (simp add: path_clean_def render_path_def)
next
  case False
  have "join_with ''/'' (clean_segs p) \<noteq> []"
    using join_with_head [OF False] hd_clean_segs [OF False] by auto
  moreover have "split_on slash (join_with ''/'' (clean_segs p)) = clean_segs p"
    using split_join [OF False, of slash] clean_segs_seg(3) by auto
  ultimately show ?thesis
    using False assms by (simp add: path_clean_def render_path_def Let_def)
qed

lemma clean_segs_path_clean [simp]: "clean_segs (path_clean p) = clean_segs p"
  by (simp add: clean_segs_def [of "path_clean p"] split_path_clean)

lemma path_clean_idem [simp]: "path_clean (path_clean p) = path_clean p"
  by (simp add: path_clean_def [of "path_clean p"]) (simp add: path_clean_def)

lemma path_clean_not_Nil [simp]: "path_clean p \<noteq> []"
  by (simp add: path_clean_def render_path_def Let_def)

lemma dots_only_at_front:
  "clean_stack rooted (rev segs) \<Longrightarrow> ''..'' \<in> set segs \<Longrightarrow> hd segs = ''..'' \<and> \<not> rooted"
proof (induction segs rule: rev_induct)
  case (snoc a segs)
  show ?case
  proof (cases "''..'' \<in> set segs")
    case True
    with snoc show ?thesis by (cases segs) auto
  next
    case False
    with snoc.prems have "a = ''..''" by simp
    with snoc.prems False have "segs = []" by (cases segs) auto
    with \<open>a = ''..''\<close> snoc.prems show ?thesis by simp
  qed
qed simp

section \<open>Join, Dir, Base, Ext, Rel\<close>

fun path_join :: "string list \<Rightarrow> string" where
  "path_join [] = []"
| "path_join (e # es) = (if e = [] then path_join es else path_clean (join_with ''/'' (e # es)))"

definition after_last_slash :: "string \<Rightarrow> string" where
  "after_last_slash p = rev (takeWhile (\<lambda>c. c \<noteq> slash) (rev p))"

definition path_dir :: "string \<Rightarrow> string" where
  "path_dir p = path_clean (take (length p - length (after_last_slash p)) p)"

definition path_base :: "string \<Rightarrow> string" where
  "path_base p =
     (if p = [] then ''.''
      else let b = after_last_slash (trim_right p ''/'') in if b = [] then ''/'' else b)"

definition path_ext :: "string \<Rightarrow> string" where
  "path_ext p =
     (let r = takeWhile (\<lambda>c. c \<noteq> slash \<and> c \<noteq> CHR ''.'') (rev p)
      in case drop (length r) (rev p) of
           c # _ \<Rightarrow> if c = CHR ''.'' then CHR ''.'' # rev r else []
         | [] \<Rightarrow> [])"

fun strip_common :: "string list \<Rightarrow> string list \<Rightarrow> string list \<times> string list" where
  "strip_common (x # xs) (y # ys) = (if x = y then strip_common xs ys else (x # xs, y # ys))"
| "strip_common xs ys = (xs, ys)"

text \<open>\<^verbatim>\<open>filepath.Rel\<close>: \<^const>\<open>None\<close> for its error.\<close>

definition path_rel :: "string \<Rightarrow> string \<Rightarrow> string option" where
  "path_rel base targ =
     (let b = path_clean base; t = path_clean targ in
      if t = b then Some ''.''
      else if is_abs b \<noteq> is_abs t then None
      else case strip_common (clean_segs base) (clean_segs targ) of (bs, ts) \<Rightarrow>
        if bs \<noteq> [] \<and> hd bs = ''..'' then None
        else Some (join_with ''/'' (map (\<lambda>_. ''..'') bs @ ts)))"

lemma path_ext_suffix: "has_suffix p (path_ext p)"
proof -
  define r where "r = takeWhile (\<lambda>c. c \<noteq> slash \<and> c \<noteq> CHR ''.'') (rev p)"
  have eq: "rev p = r @ drop (length r) (rev p)"
    by (metis r_def takeWhile_eq_take append_take_drop_id)
  show ?thesis
  proof (cases "drop (length r) (rev p)")
    case Nil
    then show ?thesis by (simp add: path_ext_def r_def [symmetric] has_suffix_def)
  next
    case (Cons c rest)
    then have "p = rev rest @ c # rev r"
      using eq by (metis append.assoc append_Cons append_Nil rev.simps(2) rev_append rev_rev_ident)
    moreover have "path_ext p = (if c = CHR ''.'' then CHR ''.'' # rev r else [])"
      unfolding path_ext_def r_def [symmetric] Let_def using Cons by simp
    ultimately show ?thesis by (auto simp: has_suffix_iff)
  qed
qed

lemma strip_common_spec:
  "strip_common xs ys = (us, vs) \<Longrightarrow> \<exists>ps. xs = ps @ us \<and> ys = ps @ vs"
proof (induction xs ys rule: strip_common.induct)
  case (1 x xs y ys)
  show ?case
  proof (cases "x = y")
    case True
    with 1 obtain ps where "xs = ps @ us" "ys = ps @ vs" by auto
    with True show ?thesis by (intro exI [of _ "x # ps"]) simp
  qed (use 1 in auto)
qed auto

section \<open>Paths below a base\<close>

text \<open>Elements without \<open>..\<close> are appended to the base's by \<^verbatim>\<open>Join\<close>.\<close>

lemma foldl_clean_down:
  "\<forall>s\<in>set segs. s \<noteq> [] \<and> s \<noteq> ''.'' \<and> s \<noteq> ''..'' \<Longrightarrow> foldl (clean_step rooted) st segs = rev segs @ st"
  by (induction segs arbitrary: st) (simp_all add: clean_step_def)

lemma clean_segs_join:
  assumes "is_abs base" "\<not> is_abs p" "clean_segs p \<noteq> []" "''..'' \<notin> set (clean_segs p)"
  shows "clean_segs (path_join [base, path_clean p]) = clean_segs base @ clean_segs p"
    and "is_abs (path_join [base, path_clean p])"
proof -
  have "base \<noteq> []" using assms(1) by (auto simp: is_abs_def)
  then have j: "path_join [base, path_clean p] = path_clean (base @ slash # path_clean p)"
    by (simp add: path_clean_not_Nil)
  have ab: "is_abs (base @ slash # path_clean p)"
    using assms(1) by (cases base) (auto simp: is_abs_def)
  have "split_on slash (path_clean p) = clean_segs p" using assms(2,3) by (simp add: split_rel_clean)
  moreover have "\<forall>s\<in>set (clean_segs p). s \<noteq> [] \<and> s \<noteq> ''.'' \<and> s \<noteq> ''..''"
    using clean_segs_seg(1,2) assms(4) by blast
  ultimately have "clean_segs (base @ slash # path_clean p) = clean_segs base @ clean_segs p"
    using ab assms(1) by (simp add: clean_segs_def [of "base @ _"] clean_segs_def [of base] split_on_append_sep foldl_clean_down)
  then show "clean_segs (path_join [base, path_clean p]) = clean_segs base @ clean_segs p"
    "is_abs (path_join [base, path_clean p])"
    using ab unfolding j by simp_all
qed

lemma path_rel_inside:
  assumes "is_abs base" "path_rel base p = Some r" "r \<noteq> ''..''" "\<not> has_prefix r ''../''"
  shows "is_abs p \<and> (\<exists>vs. clean_segs p = clean_segs base @ vs)"
proof (cases "path_clean p = path_clean base")
  case True
  then show ?thesis
    using assms(1) by (metis append_Nil2 clean_segs_path_clean is_abs_path_clean)
next
  case False
  obtain bs ts where st: "strip_common (clean_segs base) (clean_segs p) = (bs, ts)" by fastforce
  have "is_abs p" and r: "r = join_with ''/'' (map (\<lambda>_. ''..'') bs @ ts)"
    using assms(1,2) False st by (auto simp: path_rel_def Let_def split: if_splits)
  have "bs = []"
  proof (cases bs)
    case (Cons b bs')
    show ?thesis
    proof (cases "map (\<lambda>_. ''..'') bs' @ ts")
      case Nil
      then show ?thesis using r Cons assms(3) by simp
    next
      case c2: (Cons x xs)
      then show ?thesis using r Cons assms(4) by simp
    qed
  qed
  with strip_common_spec [OF st] \<open>is_abs p\<close> show ?thesis by auto
qed

end
