(* ===== verification/Ir.thy ===== *)
theory Ir
  imports Go_Paths
begin

text \<open>
  The intermediate representation of \<^verbatim>\<open>internal/ir/types.go\<close>: identities, spans, sections, symbols,
  references, diagnostics and documents. The string types of the source that enumerate their values
  are datatypes, with the string each value stands for; a reference kind may also be a string of
  neither constant, because the resolver has a branch for that.
\<close>

definition IdentityContractVersion :: string where
  "IdentityContractVersion = ''0.2.0''"

record Identity =
  idn_contract :: string
  idn_semantic :: string
  idn_occurrence :: string
  idn_store :: string

definition zero_identity :: Identity where
  "zero_identity = \<lparr>idn_contract = [], idn_semantic = [], idn_occurrence = [], idn_store = []\<rparr>"

datatype Severity = SeverityError | SeverityWarning | SeverityInfo

fun severity_str :: "Severity \<Rightarrow> string" where
  "severity_str SeverityError = ''error''"
| "severity_str SeverityWarning = ''warning''"
| "severity_str SeverityInfo = ''info''"

record SourcePosition =
  Line :: int
  Column :: int

record SourceSpan =
  Start :: SourcePosition
  End :: SourcePosition

definition zero_position :: SourcePosition where
  "zero_position = \<lparr>Line = 0, Column = 0\<rparr>"

definition zero_span :: SourceSpan where
  "zero_span = \<lparr>Start = zero_position, End = zero_position\<rparr>"

datatype SourceLineKind = SourceLineComment | SourceLineKeyValue | SourceLineBlank | SourceLineMalformed

record SourceLine =
  ln_kind :: SourceLineKind
  ln_key :: string
  ln_value :: string
  ln_text :: string
  ln_span :: SourceSpan

datatype SectionKind = SectionOther | SectionStatedef | SectionState | SectionCommand

record Section =
  sec_header :: string
  sec_kind :: SectionKind
  sec_span :: SourceSpan
  sec_lines :: "SourceLine list"

datatype SymbolKind = SymbolSection | SymbolStateDef | SymbolStateController | SymbolCommand

fun symbol_kind_str :: "SymbolKind \<Rightarrow> string" where
  "symbol_kind_str SymbolSection = ''section''"
| "symbol_kind_str SymbolStateDef = ''state''"
| "symbol_kind_str SymbolStateController = ''state-controller''"
| "symbol_kind_str SymbolCommand = ''command''"

record Symbol =
  sym_id :: string
  sym_identity :: Identity
  sym_kind :: SymbolKind
  sym_name :: string
  sym_span :: SourceSpan
  sym_section :: string
  sym_raw :: string

datatype ReferenceKind = ReferenceState | ReferenceCommand | ReferenceOther string

fun reference_kind_str :: "ReferenceKind \<Rightarrow> string" where
  "reference_kind_str ReferenceState = ''state''"
| "reference_kind_str ReferenceCommand = ''command''"
| "reference_kind_str (ReferenceOther s) = s"

record Reference =
  ref_id :: string
  ref_identity :: Identity
  ref_kind :: ReferenceKind
  ref_name :: string
  ref_raw :: string
  ref_source :: string
  ref_target :: string
  ref_span :: SourceSpan
  ref_dynamic :: bool

record Diagnostic =
  dg_code :: string
  dg_severity :: Severity
  dg_message :: string
  dg_path :: string
  dg_start :: SourcePosition
  dg_end :: SourcePosition
  dg_related :: string

record Document =
  doc_version :: string
  doc_path :: string
  doc_file_type :: string
  doc_sections :: "Section list"
  doc_symbols :: "Symbol list"
  doc_references :: "Reference list"
  doc_diagnostics :: "Diagnostic list"

definition NewDocument :: "string \<Rightarrow> string \<Rightarrow> Document" where
  "NewDocument path file_type =
     \<lparr>doc_version = IdentityContractVersion, doc_path = path, doc_file_type = file_type,
      doc_sections = [], doc_symbols = [], doc_references = [], doc_diagnostics = []\<rparr>"

text \<open>Well-formed positions and spans, as the scanner makes them: one-based, start before end.\<close>

definition position_ok :: "SourcePosition \<Rightarrow> bool" where
  "position_ok p \<longleftrightarrow> 1 \<le> Line p \<and> 1 \<le> Column p"

definition span_ok :: "SourceSpan \<Rightarrow> bool" where
  "span_ok s \<longleftrightarrow> position_ok (Start s) \<and> Line (End s) = Line (Start s)
     \<and> Column (Start s) < Column (End s)"

text \<open>A diagnostic an editor can place: one-based and not ending before it starts.\<close>

definition diagnostic_ok :: "Diagnostic \<Rightarrow> bool" where
  "diagnostic_ok d \<longleftrightarrow> position_ok (dg_start d) \<and> position_ok (dg_end d) \<and>
     (Line (dg_start d), Column (dg_start d)) \<le> (Line (dg_end d), Column (dg_end d))"

declare position_ok_def [span_simps] span_ok_def [span_simps] diagnostic_ok_def [span_simps]

lemma symbol_kind_str_inj: "symbol_kind_str a = symbol_kind_str b \<Longrightarrow> a = b"
  by (cases a; cases b) simp_all

lemma severity_str_inj: "severity_str a = severity_str b \<Longrightarrow> a = b"
  by (cases a; cases b) simp_all

end
