(* ===== verification/Adapter.thy ===== *)
theory Adapter
  imports Ir
begin

text \<open>
  \<^verbatim>\<open>internal/parser/adapter/adapter.go\<close>: the fold that turns the scanner's tokens into an IR document.
  The loop's variables (the document, the index of the current section, the pending state
  controller) are the record \<open>fs_state\<close>; one loop iteration is \<open>from_syntax_step\<close>, whose parts follow
  the cases of the loop body. A \<^verbatim>\<open>continue\<close> that skips the rest of an iteration is a returned flag.
\<close>

section \<open>Tokens\<close>

datatype TokenKind = TokenSection | TokenKeyValue | TokenComment | TokenBlank | TokenMalformed

record Token =
  tok_kind :: TokenKind
  tok_span :: SourceSpan
  tok_text :: string
  tok_key :: string
  tok_value :: string

text \<open>The section payload of the scanner; \<^verbatim>\<open>adapter.Section\<close>.\<close>

record SyntaxSection =
  ss_header :: string
  ss_kind :: SectionKind
  ss_span :: SourceSpan

section \<open>Names and identifiers\<close>

definition detectFileType :: "string \<Rightarrow> string" where
  "detectFileType path =
     (let ext = to_lower (path_ext path) in
      if ext = ''.def'' then ''def''
      else if ext = ''.cns'' then ''cns''
      else if ext = ''.cmd'' then ''cmd''
      else if ext = ''.st'' then ''st''
      else ''text'')"

definition sectionKind :: "string \<Rightarrow> SectionKind" where
  "sectionKind header =
     (case str_fields (to_lower header) of
        [] \<Rightarrow> SectionOther
      | p # _ \<Rightarrow>
          if p = ''statedef'' then SectionStatedef
          else if p = ''state'' then SectionState
          else if p = ''command'' then SectionCommand
          else SectionOther)"

definition sectionHeaderArgument :: "string \<Rightarrow> string" where
  "sectionHeaderArgument header =
     (case str_fields header of
        p # _ # _ \<Rightarrow> trim_space (trim_prefix header p)
      | _ \<Rightarrow> [])"

definition stateHeaderID :: "string \<Rightarrow> string" where
  "stateHeaderID raw =
     (case cut_at raw (CHR '','') of (ident, _, _) \<Rightarrow>
        (case str_fields ident of [] \<Rightarrow> [] | f # _ \<Rightarrow> f))"

definition canonicalStateName :: "string \<Rightarrow> string" where
  "canonicalStateName raw =
     (let name = stateHeaderID raw in
      if name = [] then ''state:unknown''
      else ''state:'' @ (if name = ''+1'' then ''-10'' else name))"

definition canonicalStateControllerName :: "string \<Rightarrow> string" where
  "canonicalStateControllerName raw =
     (let name = stateHeaderID raw in
      if name = [] then ''state-controller:unknown''
      else ''state-controller:'' @ (if name = ''+1'' then ''-10'' else name))"

definition normalizeStateReferenceValue :: "string \<Rightarrow> string" where
  "normalizeStateReferenceValue value = (if trim_space value = ''+1'' then ''-10'' else value)"

definition makeDiagnostic ::
  "string \<Rightarrow> Severity \<Rightarrow> string \<Rightarrow> string \<Rightarrow> int \<Rightarrow> SourceSpan \<Rightarrow> Diagnostic" where
  "makeDiagnostic path severity message code line span =
     (let colStart = Column (Start span);
          colEnd0 = Column (End span);
          colEnd1 = (if colEnd0 < colStart then colStart else colEnd0)
      in \<lparr>dg_code = code, dg_severity = severity, dg_message = message, dg_path = path,
          dg_start = \<lparr>Line = line, Column = (if colStart < 1 then 1 else colStart)\<rparr>,
          dg_end = \<lparr>Line = line, Column = (if colEnd1 < 1 then 1 else colEnd1)\<rparr>,
          dg_related = []\<rparr>)"

definition canonicalPathID :: "string \<Rightarrow> string" where
  "canonicalPathID path = trim_prefix (path_clean (trim_space path)) ''./''"

definition stripQuotes :: "string \<Rightarrow> string" where
  "stripQuotes s0 =
     (let s = trim_space s0 in
      if 2 \<le> length s \<and>
         (hd s = CHR 0x22 \<and> last s = CHR 0x22 \<or> hd s = CHR 0x27 \<and> last s = CHR 0x27)
      then butlast (tl s) else s)"

definition symbolIdentity :: "string \<Rightarrow> int \<Rightarrow> string \<Rightarrow> Identity" where
  "symbolIdentity semanticKey lineNo pathID =
     \<lparr>idn_contract = IdentityContractVersion,
      idn_semantic = semanticKey,
      idn_occurrence = semanticKey @ ''@'' @ pathID @ '':'' @ itoa lineNo,
      idn_store = semanticKey @ '':'' @ itoa lineNo @ '':'' @ pathID\<rparr>"

definition referenceIdentity :: "string \<Rightarrow> int \<Rightarrow> string \<Rightarrow> Identity" where
  "referenceIdentity semanticKey lineNo pathID =
     \<lparr>idn_contract = IdentityContractVersion, idn_semantic = semanticKey,
      idn_occurrence = pathID @ '':'' @ itoa lineNo, idn_store = []\<rparr>"

definition stateSymbolID :: "string \<Rightarrow> int \<Rightarrow> string \<Rightarrow> string" where
  "stateSymbolID name lineNo pathID = name @ '':'' @ itoa lineNo @ '':'' @ pathID"

definition stateControllerSymbolID :: "string \<Rightarrow> int \<Rightarrow> string \<Rightarrow> string" where
  "stateControllerSymbolID name lineNo pathID = name @ '':'' @ itoa lineNo @ '':'' @ pathID"

definition commandSymbolID :: "string \<Rightarrow> int \<Rightarrow> string \<Rightarrow> string" where
  "commandSymbolID name lineNo pathID = ''command:'' @ name @ '':'' @ itoa lineNo @ '':'' @ pathID"

text \<open>The variadic \<^verbatim>\<open>occurrence\<close> is a list; only its first element is read.\<close>

definition referenceID :: "string \<Rightarrow> int \<Rightarrow> string \<Rightarrow> string list \<Rightarrow> string" where
  "referenceID kind lineNo pathID occurrence =
     (let suffix = (case occurrence of [] \<Rightarrow> [] | o1 # _ \<Rightarrow> if o1 \<noteq> [] then '':'' @ o1 else [])
      in ''ref:'' @ kind @ '':'' @ itoa lineNo @ '':'' @ pathID @ suffix)"

definition isTriggerKey :: "string \<Rightarrow> bool" where
  "isTriggerKey key =
     (if key = ''triggerall'' then True
      else if \<not> has_prefix key ''trigger'' then False
      else let suffix = trim_prefix key ''trigger'' in
        if suffix = [] then False else atoi suffix \<noteq> None)"

definition isIdentifierChar :: "char \<Rightarrow> bool" where
  "isIdentifierChar ch \<longleftrightarrow> ch = CHR ''_'' \<or> ch = CHR ''-'' \<or> is_digit ch \<or> is_lower ch \<or> is_upper ch"

definition allowsPositionalLines :: "string \<Rightarrow> bool" where
  "allowsPositionalLines header0 =
     (let header = to_lower (trim_space header0) in
      header = ''characters'' \<or> header = ''stages'' \<or> header = ''extrastages'' \<or>
      has_prefix header ''begin action '')"

section \<open>Command references in a trigger value\<close>

definition parseReferenceValue :: "string \<Rightarrow> string" where
  "parseReferenceValue v0 =
     (let v = trim_space v0 in
      if has_prefix v [CHR 0x22] then
        (case index_byte (tl v) (CHR 0x22) of Some e \<Rightarrow> take e (tl v) | None \<Rightarrow> tl v)
      else (case str_fields v of [] \<Rightarrow> [] | f # _ \<Rightarrow> f))"

text \<open>One iteration of the loop at an offset: \<^const>\<open>None\<close> for \<^verbatim>\<open>break\<close>, else what it appends and the
  next offset.\<close>

definition extract_step :: "string \<Rightarrow> nat \<Rightarrow> (string list \<times> nat) option" where
  "extract_step v offset =
     (let segment = drop offset v in
      case index_of (to_lower segment) ''command'' of
        None \<Rightarrow> None
      | Some i \<Rightarrow>
          if i > length segment then None
          else let e = i + offset + length ''command'' in
            if e > length v then None
            else if e < length v \<and> isIdentifierChar (v ! e) then Some ([], e)
            else (case index_byte (drop e v) (CHR ''='') of
                None \<Rightarrow> None
              | Some q \<Rightarrow>
                  (let equals = q + e;
                       cmd = parseReferenceValue (trim_space (drop (equals + 1) v))
                   in Some (if cmd \<noteq> [] then [cmd] else [], equals + 1))))"

lemma extract_step_progress: "extract_step v offset = Some (out, nxt) \<Longrightarrow> offset < nxt"
  by (auto simp: extract_step_def Let_def split: option.splits if_splits)

lemma extract_step_nonempty: "extract_step v offset = Some (out, nxt) \<Longrightarrow> list_all (\<lambda>w. w \<noteq> []) out"
  by (auto simp: extract_step_def Let_def split: option.splits if_splits)

function extract_from :: "string \<Rightarrow> nat \<Rightarrow> string list" where
  "extract_from v offset =
     (if offset < length v then
        (case extract_step v offset of
           None \<Rightarrow> []
         | Some (out, nxt) \<Rightarrow> out @ extract_from v nxt)
      else [])"
  by pat_completeness auto
termination
  by (relation "measure (\<lambda>(v, offset). length v - offset)") (auto dest: extract_step_progress intro: diff_less_mono2)

declare extract_from.simps [simp del]

definition extractCommandReferences :: "string \<Rightarrow> string list" where
  "extractCommandReferences v = extract_from v 0"

lemma extract_from_nonempty: "list_all (\<lambda>w. w \<noteq> []) (extract_from v offset)"
proof (induction v offset rule: extract_from.induct)
  case (1 v offset)
  then show ?case
    by (auto simp: extract_from.simps [of v offset] dest: extract_step_nonempty split: option.splits)
qed

section \<open>The document fold\<close>

record stateControllerContext =
  ctx_symbolID :: string
  ctx_sectionHeader :: string
  ctx_stateName :: string
  ctx_controllerType :: string
  ctx_pendingValue :: string
  ctx_pendingValueSpan :: SourceSpan
  ctx_pendingValuePresent :: bool

record fs_state =
  fs_doc :: Document
  fs_current :: "nat option"
  fs_controller :: "stateControllerContext option"

definition add_diag :: "Diagnostic \<Rightarrow> Document \<Rightarrow> Document" where
  "add_diag d doc = doc\<lparr>doc_diagnostics := doc_diagnostics doc @ [d]\<rparr>"

definition add_symbol :: "Symbol \<Rightarrow> Document \<Rightarrow> Document" where
  "add_symbol s doc = doc\<lparr>doc_symbols := doc_symbols doc @ [s]\<rparr>"

definition add_reference :: "Reference \<Rightarrow> Document \<Rightarrow> Document" where
  "add_reference r doc = doc\<lparr>doc_references := doc_references doc @ [r]\<rparr>"

definition add_line :: "nat \<Rightarrow> SourceLine \<Rightarrow> Document \<Rightarrow> Document" where
  "add_line i l doc = doc\<lparr>doc_sections := (doc_sections doc)
     [i := (doc_sections doc ! i)\<lparr>sec_lines := sec_lines (doc_sections doc ! i) @ [l]\<rparr>]\<rparr>"

definition state_target_type :: "string \<Rightarrow> bool" where
  "state_target_type t \<longleftrightarrow> t = ''changestate'' \<or> t = ''selfstate''"

definition state_reference ::
  "stateControllerContext \<Rightarrow> string \<Rightarrow> SourceSpan \<Rightarrow> string \<Rightarrow> Reference" where
  "state_reference ctx v fallbackSpan pathID =
     (let isDynamic = (atoi v = None);
          ident = referenceID ''state'' (Line (Start fallbackSpan)) pathID [];
          identity = (referenceIdentity (''state:'' @ v) (Line (Start fallbackSpan)) pathID)
                       \<lparr>idn_store := ident\<rparr>
      in \<lparr>ref_id = ident, ref_identity = identity, ref_kind = ReferenceState,
          ref_name = ''state:'' @ v, ref_raw = v, ref_source = ctx_symbolID ctx,
          ref_target = ''state:'' @ v, ref_span = ctx_pendingValueSpan ctx, ref_dynamic = isDynamic\<rparr>)"

definition emitStateReference ::
  "stateControllerContext \<Rightarrow> Document \<Rightarrow> SourceSpan \<Rightarrow> string \<Rightarrow> stateControllerContext \<times> Document" where
  "emitStateReference ctx doc fallbackSpan pathID =
     (if \<not> ctx_pendingValuePresent ctx then (ctx, doc)
      else let v0 = trim_space (ctx_pendingValue ctx);
               ctx' = ctx\<lparr>ctx_pendingValuePresent := False\<rparr>
        in if \<not> state_target_type (ctx_controllerType ctx') then (ctx', doc)
        else let v = normalizeStateReferenceValue (stripQuotes v0)
          in if v = [] then (ctx', doc)
          else (ctx', add_reference (state_reference ctx' v fallbackSpan pathID) doc))"

definition sectionRefSymbol :: "Section option \<Rightarrow> stateControllerContext option \<Rightarrow> string" where
  "sectionRefSymbol section ctx =
     (case ctx of
        Some c \<Rightarrow> if ctx_symbolID c \<noteq> [] then ctx_symbolID c
                  else (case section of None \<Rightarrow> [] | Some s \<Rightarrow> sec_header s)
      | None \<Rightarrow> (case section of None \<Rightarrow> [] | Some s \<Rightarrow> sec_header s))"

text \<open>The case of a section header.\<close>

definition statedef_symbol :: "string \<Rightarrow> string \<Rightarrow> Section \<Rightarrow> int \<Rightarrow> Document \<Rightarrow> Document" where
  "statedef_symbol path pathID section lineNo doc =
     (let stateArg = sectionHeaderArgument (sec_header section);
          stateName = canonicalStateName stateArg;
          doc1 = add_symbol
            \<lparr>sym_id = stateSymbolID stateName lineNo pathID,
             sym_identity = symbolIdentity stateName lineNo pathID,
             sym_kind = SymbolStateDef, sym_name = stateName, sym_span = sec_span section,
             sym_section = sec_header section, sym_raw = trim_space stateArg\<rparr> doc
      in if trim_space stateArg = []
         then add_diag (makeDiagnostic path SeverityError ''missing state id'' ''malformed-statedef''
                          lineNo (sec_span section)) doc1
         else doc1)"

definition controller_symbol :: "string \<Rightarrow> Section \<Rightarrow> int \<Rightarrow> Symbol" where
  "controller_symbol pathID section lineNo =
     (let stateArg = sectionHeaderArgument (sec_header section);
          sectionName = canonicalStateControllerName stateArg
      in \<lparr>sym_id = stateControllerSymbolID sectionName lineNo pathID,
          sym_identity = symbolIdentity sectionName lineNo pathID,
          sym_kind = SymbolStateController, sym_name = sectionName, sym_span = sec_span section,
          sym_section = sec_header section, sym_raw = trim_space stateArg\<rparr>)"

definition new_controller :: "Symbol \<Rightarrow> Section \<Rightarrow> stateControllerContext" where
  "new_controller symbol section =
     \<lparr>ctx_symbolID = sym_id symbol, ctx_sectionHeader = sec_header section,
      ctx_stateName = sym_name symbol, ctx_controllerType = [], ctx_pendingValue = [],
      ctx_pendingValueSpan = zero_span, ctx_pendingValuePresent = False\<rparr>"

definition on_section :: "string \<Rightarrow> string \<Rightarrow> Token \<Rightarrow> fs_state \<Rightarrow> fs_state" where
  "on_section path pathID token st =
     (let lineNo = Line (Start (tok_span token)); header = trim_space (tok_text token); doc = fs_doc st in
      if header = [] then
        st\<lparr>fs_doc := add_diag (makeDiagnostic path SeverityError ''empty section header''
                                ''malformed-section'' lineNo (tok_span token)) doc,
           fs_current := None, fs_controller := None\<rparr>
      else
        let section = \<lparr>sec_header = header, sec_kind = sectionKind header,
                       sec_span = tok_span token, sec_lines = []\<rparr>;
            doc1 = doc\<lparr>doc_sections := doc_sections doc @ [section]\<rparr>;
            st1 = st\<lparr>fs_doc := doc1, fs_current := Some (length (doc_sections doc1) - 1),
                     fs_controller := None\<rparr>
        in case sec_kind section of
             SectionStatedef \<Rightarrow> st1\<lparr>fs_doc := statedef_symbol path pathID section lineNo doc1\<rparr>
           | SectionState \<Rightarrow>
               (let symbol = controller_symbol pathID section lineNo
                in st1\<lparr>fs_doc := add_symbol symbol doc1,
                       fs_controller := Some (new_controller symbol section)\<rparr>)
           | _ \<Rightarrow> st1)"

text \<open>A \<^verbatim>\<open>name\<close> key in a command section; the flag is the \<^verbatim>\<open>continue\<close> of an empty name.\<close>

definition command_name_key ::
  "string \<Rightarrow> string \<Rightarrow> Section \<Rightarrow> string \<Rightarrow> SourceSpan \<Rightarrow> int \<Rightarrow> Document \<Rightarrow> Document \<times> bool" where
  "command_name_key path pathID section v lineSpan lineNo doc =
     (let cmd = stripQuotes (trim_space v);
          rawName = trim_space v;
          doc1 = (if length rawName < 2 \<or> hd rawName \<noteq> CHR 0x22 \<or> last rawName \<noteq> CHR 0x22
                  then add_diag (makeDiagnostic path SeverityWarning ''command name should be quoted''
                                   ''unquoted-command-name'' lineNo lineSpan) doc
                  else doc)
      in if cmd = []
         then (add_diag (makeDiagnostic path SeverityWarning ''empty command name''
                           ''malformed-command'' lineNo lineSpan) doc1, True)
         else (add_symbol
            \<lparr>sym_id = commandSymbolID cmd lineNo pathID,
             sym_identity = symbolIdentity (''command:'' @ cmd) lineNo pathID,
             sym_kind = SymbolCommand, sym_name = ''command:'' @ cmd, sym_span = lineSpan,
             sym_section = sec_header section, sym_raw = cmd\<rparr> doc1, False))"

text \<open>A \<^verbatim>\<open>type\<close> or \<^verbatim>\<open>value\<close> key in a state controller; the flag is the \<^verbatim>\<open>continue\<close> of a type that
  names no state.\<close>

definition controller_key ::
  "string \<Rightarrow> string \<Rightarrow> string \<Rightarrow> SourceSpan \<Rightarrow> stateControllerContext \<Rightarrow> Document \<Rightarrow>
   stateControllerContext \<times> Document \<times> bool" where
  "controller_key pathID lowerKey v lineSpan ctx doc =
     (if lowerKey = ''type'' then
        (let ctx1 = ctx\<lparr>ctx_controllerType := to_lower (stripQuotes v)\<rparr> in
         if \<not> state_target_type (ctx_controllerType ctx1)
         then (ctx1\<lparr>ctx_pendingValue := [], ctx_pendingValuePresent := False\<rparr>, doc, True)
         else case emitStateReference ctx1 doc lineSpan pathID of (c, d) \<Rightarrow> (c, d, False))
      else if lowerKey = ''value'' then
        (let ctx1 = ctx\<lparr>ctx_pendingValue := trim_space v, ctx_pendingValueSpan := lineSpan,
                        ctx_pendingValuePresent := True\<rparr> in
         if state_target_type (ctx_controllerType ctx1)
         then case emitStateReference ctx1 doc lineSpan pathID of (c, d) \<Rightarrow> (c, d, False)
         else (ctx1, doc, False))
      else (ctx, doc, False))"

text \<open>The command references of a trigger line, each with its position in the line.\<close>

definition command_reference ::
  "string \<Rightarrow> string \<Rightarrow> string \<Rightarrow> SourceSpan \<Rightarrow> int \<Rightarrow> nat \<Rightarrow> string \<Rightarrow> Reference" where
  "command_reference pathID source v lineSpan lineNo occurrence cmd =
     (let ident = referenceID ''command'' lineNo pathID [itoa (int occurrence)];
          identity = (referenceIdentity (''command:'' @ cmd) lineNo pathID)\<lparr>idn_store := ident\<rparr>
      in \<lparr>ref_id = ident, ref_identity = identity, ref_kind = ReferenceCommand,
          ref_name = ''command:'' @ cmd, ref_raw = v, ref_source = source,
          ref_target = ''command:'' @ cmd, ref_span = lineSpan, ref_dynamic = False\<rparr>)"

definition trigger_references ::
  "string \<Rightarrow> string \<Rightarrow> string \<Rightarrow> SourceSpan \<Rightarrow> int \<Rightarrow> Document \<Rightarrow> Document" where
  "trigger_references pathID source v lineSpan lineNo doc =
     fold (\<lambda>(occurrence, cmd) d.
             if cmd = [] then d
             else add_reference (command_reference pathID source v lineSpan lineNo occurrence cmd) d)
       (List.enumerate 0 (extractCommandReferences (trim_space v))) doc"

text \<open>The three blocks of a key-value iteration after the line is stored: command name, controller
  keys, triggers. The flags are \<^verbatim>\<open>continue\<close>.\<close>

definition kv_command ::
  "string \<Rightarrow> string \<Rightarrow> Section \<Rightarrow> string \<Rightarrow> Token \<Rightarrow> Document \<Rightarrow> Document \<times> bool" where
  "kv_command path pathID section lowerKey token doc =
     (if sec_kind section = SectionCommand \<and> lowerKey = ''name''
      then command_name_key path pathID section (tok_value token) (tok_span token)
             (Line (Start (tok_span token))) doc
      else (doc, False))"

definition kv_controller ::
  "string \<Rightarrow> Section \<Rightarrow> string \<Rightarrow> Token \<Rightarrow> stateControllerContext option \<Rightarrow> Document \<Rightarrow>
   stateControllerContext option \<times> Document \<times> bool" where
  "kv_controller pathID section lowerKey token ctrl doc =
     (case ctrl of
        None \<Rightarrow> (None, doc, False)
      | Some ctx \<Rightarrow>
          if sec_kind section = SectionState
          then (case controller_key pathID lowerKey (tok_value token) (tok_span token) ctx doc of
                  (c, d, b) \<Rightarrow> (Some c, d, b))
          else (Some ctx, doc, False))"

definition kv_trigger ::
  "string \<Rightarrow> string \<Rightarrow> Section \<Rightarrow> string \<Rightarrow> Token \<Rightarrow> stateControllerContext option \<Rightarrow> Document \<Rightarrow>
   Document" where
  "kv_trigger path pathID section lowerKey token ctrl doc =
     (let lineSpan = tok_span token; lineNo = Line (Start lineSpan) in
      if sec_kind section = SectionState \<and> isTriggerKey lowerKey
      then trigger_references pathID (sectionRefSymbol (Some section) ctrl) (tok_value token)
             lineSpan lineNo doc
      else if sec_kind section = SectionState \<and> has_prefix lowerKey ''trigger''
      then add_diag (makeDiagnostic path SeverityWarning ''invalid trigger key'' ''malformed-trigger''
                       lineNo lineSpan) doc
      else doc)"

definition key_value_line :: "Token \<Rightarrow> SourceLine" where
  "key_value_line token =
     \<lparr>ln_kind = SourceLineKeyValue, ln_key = tok_key token, ln_value = tok_value token,
      ln_text = [], ln_span = tok_span token\<rparr>"

definition on_key_value :: "string \<Rightarrow> string \<Rightarrow> Token \<Rightarrow> nat \<Rightarrow> fs_state \<Rightarrow> fs_state" where
  "on_key_value path pathID token i st =
     (if tok_key token = [] then
        st\<lparr>fs_doc := add_diag (makeDiagnostic path SeverityError ''empty key'' ''malformed-line''
              (Line (Start (tok_span token))) (tok_span token)) (fs_doc st)\<rparr>
      else
        let doc1 = add_line i (key_value_line token) (fs_doc st);
            section = doc_sections doc1 ! i;
            lowerKey = to_lower (tok_key token)
        in case kv_command path pathID section lowerKey token doc1 of (doc2, stop) \<Rightarrow>
           if stop then st\<lparr>fs_doc := doc2\<rparr>
           else case kv_controller pathID section lowerKey token (fs_controller st) doc2 of
             (ctrl, doc3, stop2) \<Rightarrow>
               if stop2 then st\<lparr>fs_doc := doc3, fs_controller := ctrl\<rparr>
               else st\<lparr>fs_doc := kv_trigger path pathID section lowerKey token ctrl doc3,
                       fs_controller := ctrl\<rparr>)"

definition on_malformed :: "string \<Rightarrow> Token \<Rightarrow> nat \<Rightarrow> fs_state \<Rightarrow> fs_state" where
  "on_malformed path token i st =
     (let lineSpan = tok_span token; doc = fs_doc st; section = doc_sections doc ! i;
          doc1 = (if allowsPositionalLines (sec_header section) then doc
                  else add_diag (makeDiagnostic path SeverityError ''expected key=value''
                         ''malformed-line'' (Line (Start lineSpan)) lineSpan) doc)
      in st\<lparr>fs_doc := add_line i \<lparr>ln_kind = SourceLineMalformed, ln_key = [], ln_value = [],
                                   ln_text = trim_space (tok_text token), ln_span = lineSpan\<rparr> doc1\<rparr>)"

definition on_comment :: "Token \<Rightarrow> fs_state \<Rightarrow> fs_state" where
  "on_comment token st =
     (case fs_current st of
        None \<Rightarrow> st
      | Some i \<Rightarrow> st\<lparr>fs_doc := add_line i \<lparr>ln_kind = SourceLineComment, ln_key = [], ln_value = [],
                                  ln_text = tok_text token, ln_span = tok_span token\<rparr> (fs_doc st)\<rparr>)"

definition orphan_line :: "string \<Rightarrow> Token \<Rightarrow> fs_state \<Rightarrow> fs_state" where
  "orphan_line path token st =
     st\<lparr>fs_doc := add_diag (makeDiagnostic path SeverityError ''key outside section'' ''orphan-line''
          (Line (Start (tok_span token))) (tok_span token)) (fs_doc st)\<rparr>"

definition from_syntax_step :: "string \<Rightarrow> string \<Rightarrow> Token \<Rightarrow> fs_state \<Rightarrow> fs_state" where
  "from_syntax_step path pathID token st =
     (case tok_kind token of
        TokenSection \<Rightarrow> on_section path pathID token st
      | TokenComment \<Rightarrow> on_comment token st
      | TokenBlank \<Rightarrow> st
      | TokenMalformed \<Rightarrow>
          (case fs_current st of None \<Rightarrow> orphan_line path token st
                               | Some i \<Rightarrow> on_malformed path token i st)
      | TokenKeyValue \<Rightarrow>
          (case fs_current st of None \<Rightarrow> orphan_line path token st
                               | Some i \<Rightarrow> on_key_value path pathID token i st))"

definition from_syntax_init :: "string \<Rightarrow> fs_state" where
  "from_syntax_init path =
     \<lparr>fs_doc = NewDocument path (detectFileType path), fs_current = None, fs_controller = None\<rparr>"

text \<open>The parameter \<^verbatim>\<open>sections\<close> of \<^verbatim>\<open>FromSyntax\<close> is not read by its body.\<close>

definition FromSyntax :: "string \<Rightarrow> SyntaxSection list \<Rightarrow> Token list \<Rightarrow> Document" where
  "FromSyntax path sections tokens =
     fs_doc (fold (from_syntax_step path (canonicalPathID path)) tokens (from_syntax_init path))"

end
