(* ===== verification/Sha256.thy ===== *)
theory Sha256
  imports Go_Strings "HOL-Library.Word"
begin

text \<open>
  \<^verbatim>\<open>crypto/sha256.Sum256\<close> and \<^verbatim>\<open>encoding/hex.EncodeToString\<close>, as FIPS 180-4 states them, on byte
  strings shorter than 2 to the 61 bytes. The components call it only through \<open>sha256_hex\<close>; their
  lemmas need of it nothing but that it is a function and that its value is 64 hexadecimal digits.
\<close>

unbundle bit_operations_syntax

type_synonym u32 = "32 word"

text \<open>The round constants and the initial hash value, as decimal numbers.\<close>

definition sha_k :: "u32 list" where
  "sha_k =
    [1116352408, 1899447441, 3049323471, 3921009573, 961987163, 1508970993,
     2453635748, 2870763221, 3624381080, 310598401, 607225278, 1426881987,
     1925078388, 2162078206, 2614888103, 3248222580, 3835390401, 4022224774,
     264347078, 604807628, 770255983, 1249150122, 1555081692, 1996064986,
     2554220882, 2821834349, 2952996808, 3210313671, 3336571891, 3584528711,
     113926993, 338241895, 666307205, 773529912, 1294757372, 1396182291,
     1695183700, 1986661051, 2177026350, 2456956037, 2730485921, 2820302411,
     3259730800, 3345764771, 3516065817, 3600352804, 4094571909, 275423344,
     430227734, 506948616, 659060556, 883997877, 958139571, 1322822218,
     1537002063, 1747873779, 1955562222, 2024104815, 2227730452, 2361852424,
     2428436474, 2756734187, 3204031479, 3329325298]"

definition sha_init :: "u32 list" where
  "sha_init = [1779033703, 3144134277, 1013904242, 2773480762, 1359893119, 2600822924, 528734635, 1541459225]"

definition rotr32 :: "nat \<Rightarrow> u32 \<Rightarrow> u32" where
  "rotr32 n x = drop_bit n x OR push_bit (32 - n) x"

fun be_bytes :: "nat \<Rightarrow> int \<Rightarrow> int list" where
  "be_bytes 0 n = []"
| "be_bytes (Suc k) n = be_bytes k (n div 256) @ [n mod 256]"

definition sha_pad :: "int list \<Rightarrow> int list" where
  "sha_pad bs = (let l = length bs in bs @ [0x80] @ replicate ((119 - l mod 64) mod 64) 0 @ be_bytes 8 (8 * int l))"

fun be_words :: "int list \<Rightarrow> u32 list" where
  "be_words (a # b # c # d # rest) = word_of_int (((a * 256 + b) * 256 + c) * 256 + d) # be_words rest"
| "be_words _ = []"

text \<open>The message schedule: \<open>n\<close> more words after the ones so far, kept newest first.\<close>

fun sha_schedule :: "nat \<Rightarrow> u32 list \<Rightarrow> u32 list" where
  "sha_schedule 0 w = w"
| "sha_schedule (Suc n) w =
     (let w2 = w ! 1; w7 = w ! 6; w15 = w ! 14; w16 = w ! 15;
          s1 = rotr32 17 w2 XOR rotr32 19 w2 XOR drop_bit 10 w2;
          s0 = rotr32 7 w15 XOR rotr32 18 w15 XOR drop_bit 3 w15
      in sha_schedule n ((s1 + w7 + s0 + w16) # w))"

fun sha_round :: "u32 \<times> u32 \<Rightarrow> u32 list \<Rightarrow> u32 list" where
  "sha_round (k, w) [a, b, c, d, e, f, g, h] =
     (let s1 = rotr32 6 e XOR rotr32 11 e XOR rotr32 25 e;
          ch = (e AND f) XOR (NOT e AND g);
          t1 = h + s1 + ch + k + w;
          s0 = rotr32 2 a XOR rotr32 13 a XOR rotr32 22 a;
          maj = (a AND b) XOR (a AND c) XOR (b AND c)
      in [t1 + (s0 + maj), a, b, c, d + t1, e, f, g])"
| "sha_round _ st = st"

definition sha_block :: "u32 list \<Rightarrow> u32 list \<Rightarrow> u32 list" where
  "sha_block block h =
     map2 (+) h (fold sha_round (zip sha_k (rev (sha_schedule 48 (rev block)))) h)"

fun sha_blocks :: "nat \<Rightarrow> u32 list \<Rightarrow> u32 list \<Rightarrow> u32 list" where
  "sha_blocks 0 ws h = h"
| "sha_blocks (Suc n) ws h = sha_blocks n (drop 16 ws) (sha_block (take 16 ws) h)"

definition sha256_words :: "string \<Rightarrow> u32 list" where
  "sha256_words s =
     (let ws = be_words (sha_pad (map of_char s)) in sha_blocks (length ws div 16) ws sha_init)"

definition sha256_bytes :: "string \<Rightarrow> int list" where
  "sha256_bytes s = concat (map (\<lambda>w. be_bytes 4 (uint w)) (sha256_words s))"

definition hex_encode :: "int list \<Rightarrow> string" where
  "hex_encode bs = concat (map (\<lambda>b. hex_byte (nat b)) bs)"

definition sha256_hex :: "string \<Rightarrow> string" where
  "sha256_hex s = hex_encode (sha256_bytes s)"

section \<open>The digest is 64 hexadecimal digits\<close>

lemma length_sha_round [simp]: "length (sha_round kw st) = length st"
proof (cases "(kw, st)" rule: sha_round.cases)
  case (1 k w a b c d e f g h)
  then show ?thesis by (simp add: Let_def)
qed auto

lemma length_fold_round [simp]: "length (fold sha_round kws st) = length st"
  by (induction kws arbitrary: st) auto

lemma length_sha_blocks [simp]: "length (sha_blocks n ws h) = length h"
  by (induction n arbitrary: ws h) (auto simp: sha_block_def)

lemma length_be_bytes [simp]: "length (be_bytes k n) = k"
  by (induction k arbitrary: n) auto

lemma length_sha256_hex: "length (sha256_hex s) = 64"
proof -
  have "length (sha256_words s) = 8"
    by (simp add: sha256_words_def Let_def sha_init_def)
  then have "length (sha256_bytes s) = 32"
    by (simp add: sha256_bytes_def length_concat comp_def sum_list_triv)
  then show ?thesis
    by (simp add: sha256_hex_def hex_encode_def length_concat comp_def hex_byte_def sum_list_triv)
qed

lemma sha256_hex_not_Nil [simp]: "sha256_hex s \<noteq> []"
  using length_sha256_hex [of s] by auto

lemma be_bytes_range: "b \<in> set (be_bytes k n) \<Longrightarrow> 0 \<le> b \<and> b < 256"
  by (induction k arbitrary: n) auto

lemma hex_byte_ascii: "n < 256 \<Longrightarrow> c \<in> set (hex_byte n) \<Longrightarrow> byte_of c < 0x80"
  by (auto simp: hex_byte_def hex_digit_def)

lemma sha256_hex_ascii: "list_all (\<lambda>c. byte_of c < 0x80) (sha256_hex s)"
proof -
  have "nat b < 256" if "b \<in> set (sha256_bytes s)" for b
    using that be_bytes_range [of b 4] by (fastforce simp: sha256_bytes_def)
  then show ?thesis by (fastforce simp: list_all_iff sha256_hex_def hex_encode_def dest: hex_byte_ascii)
qed

end
