(* ===== verification/Scanner.thy ===== *)
theory Scanner
  imports Adapter Sha256
begin

text \<open>
  \<^verbatim>\<open>internal/syntax/syntax.go\<close>: the line scanner, the tokens it makes of a line, and the source
  snapshot. The loops over byte indices are recursions over the bytes still to be read; \<open>cur\<close> is the
  text between the loop's \<^verbatim>\<open>start\<close> and its index.
\<close>

section \<open>Lines\<close>

abbreviation CR :: char where "CR \<equiv> CHR 0x0D"
abbreviation LF :: char where "LF \<equiv> CHR 0x0A"

record lineInfo =
  li_no :: int
  li_text :: string
  li_ending :: string

fun scan_lines :: "int \<Rightarrow> string \<Rightarrow> string \<Rightarrow> lineInfo list" where
  "scan_lines no cur [] = [\<lparr>li_no = no, li_text = cur, li_ending = []\<rparr>]"
| "scan_lines no cur (c # cs) =
     (if c = CR then
        (case cs of
           d # ds \<Rightarrow>
             if d = LF then \<lparr>li_no = no, li_text = cur, li_ending = [CR, LF]\<rparr> # scan_lines (no + 1) [] ds
             else \<lparr>li_no = no, li_text = cur, li_ending = [CR]\<rparr> # scan_lines (no + 1) [] cs
         | [] \<Rightarrow> \<lparr>li_no = no, li_text = cur, li_ending = [CR]\<rparr> # scan_lines (no + 1) [] cs)
      else if c = LF then \<lparr>li_no = no, li_text = cur, li_ending = [LF]\<rparr> # scan_lines (no + 1) [] cs
      else scan_lines no (cur @ [c]) cs)"

definition splitLines :: "string \<Rightarrow> lineInfo list" where
  "splitLines source = (if source = [] then [] else scan_lines 1 [] source)"

section \<open>Code and comment\<close>

text \<open>The scan of \<^verbatim>\<open>splitLine\<close> from index \<open>i\<close>: the index where the comment starts.\<close>

fun find_comment :: "string \<Rightarrow> nat \<Rightarrow> bool \<Rightarrow> bool \<Rightarrow> string \<Rightarrow> nat option" where
  "find_comment raw i inQuote escaped [] = None"
| "find_comment raw i inQuote escaped (ch # rest) =
     (if escaped then find_comment raw (Suc i) inQuote False rest
      else if ch = CHR 0x5C then find_comment raw (Suc i) inQuote True rest
      else if ch = CHR 0x22 then find_comment raw (Suc i) (\<not> inQuote) False rest
      else if inQuote then find_comment raw (Suc i) inQuote False rest
      else if ch = CHR '';'' then Some i
      else if ch = slash \<and> has_prefix rest ''/'' \<and> trim_space (take i raw) = [] then Some i
      else find_comment raw (Suc i) inQuote False rest)"

definition splitLine :: "string \<Rightarrow> string \<times> string \<times> int" where
  "splitLine raw =
     (case find_comment raw 0 False False raw of
        Some idx \<Rightarrow>
          (let delimiterLen = (if has_prefix (drop idx raw) ''//'' then 2 else 1)
           in (trim_right (take idx raw) [CHR '' '', CHR 0x09],
               trim_space (drop (idx + delimiterLen) raw), int idx))
      | None \<Rightarrow> (trim_right raw [CHR '' '', CHR 0x09], [], - 1))"

definition splitKeyValue :: "string \<Rightarrow> string \<times> string \<times> bool" where
  "splitKeyValue line =
     (case index_byte line (CHR ''='') of
        None \<Rightarrow> ([], [], False)
      | Some idx \<Rightarrow>
          (let key = trim_space (take idx line); v = trim_space (drop (idx + 1) line)
           in if key = [] then ([], v, True) else (key, v, True)))"

definition parseSectionHeader :: "string \<Rightarrow> string \<times> bool" where
  "parseSectionHeader line =
     (let trim = trim_space line in
      if length trim < 2 \<or> trim = ''['' then ([], False)
      else if \<not> has_prefix trim ''['' \<or> \<not> has_suffix trim '']'' then ([], False)
      else (trim_space (take (length trim - 2) (drop 1 trim)), True))"

section \<open>Spans\<close>

definition tokenSpanAt :: "string \<Rightarrow> string \<Rightarrow> int \<Rightarrow> int \<Rightarrow> SourceSpan" where
  "tokenSpanAt raw token lineNo startColumn =
     (let start =
        (if startColumn \<le> 0 then
           (if token \<noteq> [] then
              (case index_of raw token of Some idx \<Rightarrow> int idx + 1 | None \<Rightarrow> 1)
            else
              (let trimmed = trim_space raw in
               if trimmed = [] then 1
               else (case index_of raw trimmed of Some idx \<Rightarrow> int idx + 1 | None \<Rightarrow> 1)))
         else startColumn);
          end1 =
        (if token = [] then
           (let t = trim_right raw [CR] in if t = [] then start else start + int (length t))
         else start + int (length token));
          end2 = (if end1 < start then start else end1)
      in \<lparr>Start = \<lparr>Line = lineNo, Column = start\<rparr>, End = \<lparr>Line = lineNo, Column = end2 + 1\<rparr>\<rparr>)"

definition tokenSpan :: "string \<Rightarrow> string \<Rightarrow> int \<Rightarrow> SourceSpan" where
  "tokenSpan raw token lineNo = tokenSpanAt raw token lineNo (- 1)"

text \<open>\<^verbatim>\<open>commentIdx\<close> is an \<^verbatim>\<open>int\<close> that is \<open>-1\<close> for no comment; the slice is taken only when it is an index.\<close>

definition makeCommentToken :: "int \<Rightarrow> string \<Rightarrow> string \<Rightarrow> int \<Rightarrow> Token" where
  "makeCommentToken lineNo raw comment commentIdx =
     (let text0 = trim_space comment;
          text1 = (if text0 = [] then '';'' else text0);
          start =
        (if text1 \<noteq> '';'' \<and> 0 \<le> commentIdx then
           (case index_of (drop (nat commentIdx + 1) raw) text1 of
              Some offset \<Rightarrow> commentIdx + 1 + int offset + 1
            | None \<Rightarrow> commentIdx + 1)
         else commentIdx + 1)
      in \<lparr>tok_kind = TokenComment, tok_span = tokenSpanAt raw text1 lineNo start, tok_text = text1,
          tok_key = [], tok_value = []\<rparr>)"

section \<open>Tokens of a line\<close>

text \<open>The copies of \<^verbatim>\<open>sectionKind\<close> and \<^verbatim>\<open>detectFileType\<close> this package keeps.\<close>

definition syntax_sectionKind :: "string \<Rightarrow> SectionKind" where
  "syntax_sectionKind header =
     (case str_fields (to_lower header) of
        [] \<Rightarrow> SectionOther
      | p # _ \<Rightarrow>
          if p = ''statedef'' then SectionStatedef
          else if p = ''state'' then SectionState
          else if p = ''command'' then SectionCommand
          else SectionOther)"

definition syntax_detectFileType :: "string \<Rightarrow> string" where
  "syntax_detectFileType path =
     (let ext = to_lower (path_ext path) in
      if ext = ''.def'' then ''def''
      else if ext = ''.cns'' then ''cns''
      else if ext = ''.cmd'' then ''cmd''
      else if ext = ''.st'' then ''st''
      else ''text'')"

definition comment_tail :: "lineInfo \<Rightarrow> string \<Rightarrow> int \<Rightarrow> Token list" where
  "comment_tail line commentText commentIdx =
     (if commentText \<noteq> [] then [makeCommentToken (li_no line) (li_text line) commentText commentIdx] else [])"

definition line_tokens :: "lineInfo \<Rightarrow> Token list \<times> SyntaxSection list" where
  "line_tokens line =
     (case splitLine (li_text line) of (codeText, commentText, commentIdx) \<Rightarrow>
      let trimmedCode = trim_space codeText in
      if trimmedCode = [] then
        (if commentText \<noteq> []
         then ([makeCommentToken (li_no line) (li_text line) commentText commentIdx], [])
         else ([\<lparr>tok_kind = TokenBlank, tok_span = tokenSpan (li_text line) [] (li_no line),
                 tok_text = [], tok_key = [], tok_value = []\<rparr>], []))
      else case parseSectionHeader trimmedCode of (header0, ok) \<Rightarrow>
      if ok then
        (let header = trim_space header0;
             span = tokenSpan (li_text line) (trim_space trimmedCode) (li_no line)
         in (\<lparr>tok_kind = TokenSection, tok_span = span, tok_text = header, tok_key = [],
              tok_value = []\<rparr> # comment_tail line commentText commentIdx,
             [\<lparr>ss_header = header, ss_kind = syntax_sectionKind header, ss_span = span\<rparr>]))
      else case splitKeyValue trimmedCode of (key, v, hasEq) \<Rightarrow>
      let lineSpan = tokenSpan (li_text line) (trim_space trimmedCode) (li_no line) in
      if \<not> hasEq \<or> key = [] then
        (\<lparr>tok_kind = TokenMalformed, tok_span = lineSpan, tok_text = trim_space trimmedCode,
          tok_key = [], tok_value = []\<rparr> # comment_tail line commentText commentIdx, [])
      else
        (\<lparr>tok_kind = TokenKeyValue, tok_span = lineSpan, tok_text = trim_space trimmedCode,
          tok_key = key, tok_value = v\<rparr> # comment_tail line commentText commentIdx, []))"

definition parseSyntaxLines :: "string \<Rightarrow> Token list \<times> SyntaxSection list" where
  "parseSyntaxLines source =
     (let lines = splitLines source
      in (concat (map (fst \<circ> line_tokens) lines), concat (map (snd \<circ> line_tokens) lines)))"

section \<open>Snapshots\<close>

definition syntax_normalizePath :: "string \<Rightarrow> string" where
  "syntax_normalizePath path0 =
     (let path = trim_space path0 in if path = [] then [] else path_clean path)"

record SourceSnapshot =
  sn_raw :: string
  sn_lineEndings :: "string list"
  sn_normalizedPath :: string
  sn_fileType :: string
  sn_contentHash :: string
  sn_version :: string
  sn_identityContract :: string
  sn_parsedDoc :: "Document option"

text \<open>A \<^verbatim>\<open>nil\<close> byte slice is \<^const>\<open>None\<close>, which is not the empty slice.\<close>

definition newSourceSnapshot :: "string \<Rightarrow> string option \<Rightarrow> SourceSnapshot option" where
  "newSourceSnapshot path source_opt =
     (case source_opt of
        None \<Rightarrow> None
      | Some source \<Rightarrow>
          (let normalizedPath = syntax_normalizePath path
           in Some \<lparr>sn_raw = source, sn_lineEndings = map li_ending (splitLines source),
                    sn_normalizedPath = normalizedPath,
                    sn_fileType = syntax_detectFileType normalizedPath,
                    sn_contentHash = sha256_hex source, sn_version = IdentityContractVersion,
                    sn_identityContract = IdentityContractVersion, sn_parsedDoc = None\<rparr>))"

record ParsedDocument =
  pd_path :: string
  pd_source :: "SourceSnapshot option"
  pd_tokens :: "Token list"
  pd_sections :: "SyntaxSection list"
  pd_document :: "Document option"

definition syntax_Parse :: "string \<Rightarrow> string option \<Rightarrow> ParsedDocument option" where
  "syntax_Parse path source_opt =
     (case newSourceSnapshot path source_opt of
        None \<Rightarrow> None
      | Some snapshot \<Rightarrow>
          (case parseSyntaxLines (case source_opt of None \<Rightarrow> [] | Some b \<Rightarrow> b) of (tokens, sections) \<Rightarrow>
           let parsedDoc = FromSyntax (sn_normalizedPath snapshot) sections tokens;
               snapshot' = snapshot\<lparr>sn_parsedDoc := Some parsedDoc\<rparr>
           in Some \<lparr>pd_path = sn_normalizedPath snapshot, pd_source = Some snapshot',
                    pd_tokens = tokens, pd_sections = sections, pd_document = Some parsedDoc\<rparr>))"

text \<open>\<^verbatim>\<open>append([]byte(nil), b...)\<close>: the copy of an empty slice is \<^verbatim>\<open>nil\<close>.\<close>

definition copy_bytes :: "string \<Rightarrow> string option" where
  "copy_bytes b = (if b = [] then None else Some b)"

definition snapshot_Bytes :: "SourceSnapshot option \<Rightarrow> string option" where
  "snapshot_Bytes s = (case s of None \<Rightarrow> None | Some sn \<Rightarrow> copy_bytes (sn_raw sn))"

definition snapshot_LineEndings :: "SourceSnapshot option \<Rightarrow> string list" where
  "snapshot_LineEndings s = (case s of None \<Rightarrow> [] | Some sn \<Rightarrow> sn_lineEndings sn)"

definition snapshot_Hash :: "SourceSnapshot option \<Rightarrow> string" where
  "snapshot_Hash s = (case s of None \<Rightarrow> [] | Some sn \<Rightarrow> sn_contentHash sn)"

definition RoundTrip :: "ParsedDocument option \<Rightarrow> string option" where
  "RoundTrip doc =
     (case doc of None \<Rightarrow> None
      | Some d \<Rightarrow> if pd_source d = None then None else snapshot_Bytes (pd_source d))"

text \<open>\<^verbatim>\<open>parser.Parse\<close>: the converted byte slice is never \<^verbatim>\<open>nil\<close>, so neither is the document.\<close>

definition parser_Parse :: "string \<Rightarrow> string \<Rightarrow> Document option" where
  "parser_Parse path source =
     (case syntax_Parse path (Some source) of None \<Rightarrow> None | Some parsed \<Rightarrow> pd_document parsed)"

lemma parser_Parse_eq:
  "parser_Parse path source =
     Some (FromSyntax (syntax_normalizePath path) (snd (parseSyntaxLines source))
             (fst (parseSyntaxLines source)))"
  by (simp add: parser_Parse_def syntax_Parse_def newSourceSnapshot_def case_prod_beta Let_def)

end
