(* ===== verification/Adapter_Props.thy ===== *)
theory Adapter_Props
  imports Adapter
begin

text \<open>
  What the document fold keeps: every reference comes from a state controller of the document and is
  well formed, no line of a section is lost or moved, every header opens one section and every
  \<^verbatim>\<open>[Statedef]\<close> one symbol, and every diagnostic can be placed in the file.
\<close>

section \<open>The elementary updates\<close>

definition controller_ids :: "Document \<Rightarrow> string set" where
  "controller_ids doc = sym_id ` {s \<in> set (doc_symbols doc). sym_kind s = SymbolStateController}"

text \<open>A reference as the rest of the program relies on it: its name is its target, the identity
  carries both, a state target is never empty nor the alias \<open>+1\<close> and is dynamic exactly when it is no
  integer, a command target is never empty nor dynamic.\<close>

definition reference_ok :: "Reference \<Rightarrow> bool" where
  "reference_ok r \<longleftrightarrow>
     ref_name r = ref_target r \<and> idn_semantic (ref_identity r) = ref_target r \<and>
     idn_store (ref_identity r) = ref_id r \<and>
     (case ref_kind r of
        ReferenceState \<Rightarrow> ref_target r = ''state:'' @ ref_raw r \<and> ref_raw r \<noteq> [] \<and>
          trim_space (ref_raw r) \<noteq> ''+1'' \<and> (ref_dynamic r \<longleftrightarrow> atoi (ref_raw r) = None)
      | ReferenceCommand \<Rightarrow> (\<exists>cmd. cmd \<noteq> [] \<and> ref_target r = ''command:'' @ cmd) \<and> \<not> ref_dynamic r
      | ReferenceOther _ \<Rightarrow> False)"

definition refs_ok :: "Document \<Rightarrow> bool" where
  "refs_ok doc \<longleftrightarrow>
     (\<forall>r \<in> set (doc_references doc). ref_source r \<in> controller_ids doc \<and> reference_ok r)"

lemma add_diag_sel [simp]:
  "doc_sections (add_diag d doc) = doc_sections doc"
  "doc_symbols (add_diag d doc) = doc_symbols doc"
  "doc_references (add_diag d doc) = doc_references doc"
  "doc_diagnostics (add_diag d doc) = doc_diagnostics doc @ [d]"
  "doc_path (add_diag d doc) = doc_path doc"
  by (simp_all add: add_diag_def)

lemma add_symbol_sel [simp]:
  "doc_sections (add_symbol s doc) = doc_sections doc"
  "doc_symbols (add_symbol s doc) = doc_symbols doc @ [s]"
  "doc_references (add_symbol s doc) = doc_references doc"
  "doc_diagnostics (add_symbol s doc) = doc_diagnostics doc"
  "doc_path (add_symbol s doc) = doc_path doc"
  by (simp_all add: add_symbol_def)

lemma add_reference_sel [simp]:
  "doc_sections (add_reference r doc) = doc_sections doc"
  "doc_symbols (add_reference r doc) = doc_symbols doc"
  "doc_references (add_reference r doc) = doc_references doc @ [r]"
  "doc_diagnostics (add_reference r doc) = doc_diagnostics doc"
  "doc_path (add_reference r doc) = doc_path doc"
  by (simp_all add: add_reference_def)

lemma map_update_same: "f x = f (xs ! i) \<Longrightarrow> map f (xs[i := x]) = map f xs"
  by (cases "i < length xs") (metis list_update_id map_update nth_map, simp add: list_update_beyond)

lemma add_line_sel [simp]:
  "doc_symbols (add_line i l doc) = doc_symbols doc"
  "doc_references (add_line i l doc) = doc_references doc"
  "doc_diagnostics (add_line i l doc) = doc_diagnostics doc"
  "doc_path (add_line i l doc) = doc_path doc"
  "length (doc_sections (add_line i l doc)) = length (doc_sections doc)"
  "map sec_kind (doc_sections (add_line i l doc)) = map sec_kind (doc_sections doc)"
  "map sec_header (doc_sections (add_line i l doc)) = map sec_header (doc_sections doc)"
  by (simp_all add: add_line_def map_update_same)

lemma add_line_kind [simp]: "sec_kind (doc_sections (add_line i l doc) ! j) = sec_kind (doc_sections doc ! j)"
  by (cases "i = j"; cases "i < length (doc_sections doc)")
    (simp_all add: add_line_def list_update_beyond)

lemma controller_ids_updates [simp]:
  "controller_ids (add_diag d doc) = controller_ids doc"
  "controller_ids (add_reference r doc) = controller_ids doc"
  "controller_ids (add_line i l doc) = controller_ids doc"
  by (simp_all add: controller_ids_def)

lemma controller_ids_add_symbol:
  "controller_ids (add_symbol s doc) =
     (if sym_kind s = SymbolStateController then insert (sym_id s) (controller_ids doc) else controller_ids doc)"
  by (auto simp: controller_ids_def)

lemma controller_ids_sections [simp]: "controller_ids (doc\<lparr>doc_sections := ss\<rparr>) = controller_ids doc"
  by (simp add: controller_ids_def)

lemma refs_ok_updates [simp]:
  "refs_ok (add_diag d doc) = refs_ok doc"
  "refs_ok (add_line i l doc) = refs_ok doc"
  "refs_ok (doc\<lparr>doc_sections := ss\<rparr>) = refs_ok doc"
  by (simp_all add: refs_ok_def)

lemma refs_ok_add_symbol [simp]: "refs_ok doc \<Longrightarrow> refs_ok (add_symbol s doc)"
  by (simp add: refs_ok_def controller_ids_add_symbol)

lemma refs_ok_add_reference:
  "refs_ok (add_reference r doc) \<longleftrightarrow> refs_ok doc \<and> ref_source r \<in> controller_ids doc \<and> reference_ok r"
  by (auto simp: refs_ok_def)

section \<open>References come from controllers\<close>

text \<open>The loop invariant: the current section is the last one; inside a \<^verbatim>\<open>[State]\<close> section there is a
  pending controller, and a pending controller is a symbol of the document.\<close>

definition fs_inv :: "fs_state \<Rightarrow> bool" where
  "fs_inv st \<longleftrightarrow>
     (\<forall>i. fs_current st = Some i \<longrightarrow> Suc i = length (doc_sections (fs_doc st))) \<and>
     (\<forall>c. fs_controller st = Some c \<longrightarrow>
        ctx_symbolID c \<in> controller_ids (fs_doc st) \<and> ctx_symbolID c \<noteq> []) \<and>
     (\<forall>i. fs_current st = Some i \<and> sec_kind (doc_sections (fs_doc st) ! i) = SectionState
        \<longrightarrow> fs_controller st \<noteq> None) \<and>
     refs_ok (fs_doc st)"

lemma fs_inv_init: "fs_inv (from_syntax_init path)"
  by (simp add: fs_inv_def from_syntax_init_def NewDocument_def refs_ok_def)

lemma fs_inv_doc:
  assumes "fs_inv st" and "length (doc_sections d) = length (doc_sections (fs_doc st))"
    and "map sec_kind (doc_sections d) = map sec_kind (doc_sections (fs_doc st))"
    and "controller_ids (fs_doc st) \<subseteq> controller_ids d" and "refs_ok d"
  shows "fs_inv (st\<lparr>fs_doc := d\<rparr>)"
proof -
  have "sec_kind (doc_sections d ! i) = sec_kind (doc_sections (fs_doc st) ! i)"
    if "Suc i = length (doc_sections d)" for i
    using assms(2,3) that by (metis lessI nth_map)
  with assms show ?thesis unfolding fs_inv_def by auto
qed

lemma canonical_controller_not_Nil [simp]: "canonicalStateControllerName raw \<noteq> []"
  by (simp add: canonicalStateControllerName_def Let_def)

lemma fs_inv_on_section: "fs_inv st \<Longrightarrow> fs_inv (on_section path pathID token st)"
  by (auto simp: fs_inv_def on_section_def Let_def statedef_symbol_def controller_ids_add_symbol
      controller_symbol_def new_controller_def stateControllerSymbolID_def nth_append
      split: SectionKind.splits)

lemma normalize_not_plus_one: "trim_space (normalizeStateReferenceValue v) \<noteq> ''+1''"
proof -
  have "trim_space ''-10'' = ''-10''"
    by (rule trim_space_ends) (simp_all add: ascii_space_def)
  then show ?thesis by (simp add: normalizeStateReferenceValue_def)
qed

lemma reference_ok_state:
  "v = normalizeStateReferenceValue w \<Longrightarrow> v \<noteq> [] \<Longrightarrow> reference_ok (state_reference ctx v sp pathID)"
  by (simp add: reference_ok_def state_reference_def Let_def referenceIdentity_def
      normalize_not_plus_one)

lemma state_reference_source [simp]: "ref_source (state_reference ctx v sp pathID) = ctx_symbolID ctx"
  by (simp add: state_reference_def Let_def)

text \<open>The two outcomes of emitting a state reference: the document as it was, or one more well-formed
  reference from the controller.\<close>

definition emitted :: "stateControllerContext \<Rightarrow> Document \<Rightarrow> Document \<Rightarrow> bool" where
  "emitted ctx doc doc' \<longleftrightarrow> doc' = doc \<or>
     (\<exists>r. doc' = add_reference r doc \<and> ref_source r = ctx_symbolID ctx \<and> reference_ok r)"

lemma emitted_refl [simp]: "emitted ctx doc doc"
  by (simp add: emitted_def)

lemma emitted_sel:
  assumes "emitted ctx doc doc'"
  shows "doc_sections doc' = doc_sections doc" "doc_symbols doc' = doc_symbols doc"
    "doc_diagnostics doc' = doc_diagnostics doc" "controller_ids doc' = controller_ids doc"
    "refs_ok doc \<Longrightarrow> ctx_symbolID ctx \<in> controller_ids doc \<Longrightarrow> refs_ok doc'"
  using assms by (auto simp: emitted_def refs_ok_add_reference)

lemma emit_state_reference:
  "emitted ctx doc (snd (emitStateReference ctx doc sp pathID))"
  "ctx_symbolID (fst (emitStateReference ctx doc sp pathID)) = ctx_symbolID ctx"
  by (auto simp: emitStateReference_def Let_def emitted_def reference_ok_state)

lemma controller_key:
  "emitted ctx doc (fst (snd (controller_key pathID k v sp ctx doc)))"
  "ctx_symbolID (fst (controller_key pathID k v sp ctx doc)) = ctx_symbolID ctx"
proof -
  have e: "emitted ctx doc (snd (emitStateReference c doc sp pathID))"
    "ctx_symbolID (fst (emitStateReference c doc sp pathID)) = ctx_symbolID ctx"
    if "ctx_symbolID c = ctx_symbolID ctx" for c
    using emit_state_reference [of c doc sp pathID] that by (auto simp: emitted_def)
  show "emitted ctx doc (fst (snd (controller_key pathID k v sp ctx doc)))"
    by (simp add: controller_key_def Let_def case_prod_beta e)
  show "ctx_symbolID (fst (controller_key pathID k v sp ctx doc)) = ctx_symbolID ctx"
    by (simp add: controller_key_def Let_def case_prod_beta e)
qed

lemma command_name_key:
  fixes path pathID sect v sp n doc
  defines "doc' \<equiv> fst (command_name_key path pathID sect v sp n doc)"
  shows "doc_sections doc' = doc_sections doc" "controller_ids doc' = controller_ids doc"
    "doc_references doc' = doc_references doc" "refs_ok doc \<Longrightarrow> refs_ok doc'"
  unfolding doc'_def
  by (simp_all add: command_name_key_def Let_def controller_ids_add_symbol)

lemma trigger_references_sel:
  "doc_sections (trigger_references pathID src v sp n doc) = doc_sections doc"
  "doc_symbols (trigger_references pathID src v sp n doc) = doc_symbols doc"
  "doc_diagnostics (trigger_references pathID src v sp n doc) = doc_diagnostics doc"
  "controller_ids (trigger_references pathID src v sp n doc) = controller_ids doc"
proof -
  let ?P = "\<lambda>d. doc_sections d = doc_sections doc \<and> doc_symbols d = doc_symbols doc \<and>
    doc_diagnostics d = doc_diagnostics doc \<and> controller_ids d = controller_ids doc"
  have "?P (trigger_references pathID src v sp n doc)"
    unfolding trigger_references_def by (rule fold_inv [where P = ?P]) (auto simp: case_prod_beta)
  then show "doc_sections (trigger_references pathID src v sp n doc) = doc_sections doc"
    "doc_symbols (trigger_references pathID src v sp n doc) = doc_symbols doc"
    "doc_diagnostics (trigger_references pathID src v sp n doc) = doc_diagnostics doc"
    "controller_ids (trigger_references pathID src v sp n doc) = controller_ids doc"
    by simp_all
qed

lemma trigger_references_ok:
  assumes "refs_ok doc" "src \<in> controller_ids doc"
  shows "refs_ok (trigger_references pathID src v sp n doc)"
proof -
  let ?P = "\<lambda>d. refs_ok d \<and> controller_ids d = controller_ids doc"
  have "?P (trigger_references pathID src v sp n doc)"
    unfolding trigger_references_def
    by (rule fold_inv [where P = ?P])
      (use assms in \<open>auto simp: case_prod_beta refs_ok_add_reference reference_ok_def command_reference_def
        referenceIdentity_def Let_def\<close>)
  then show ?thesis by simp
qed

text \<open>A controller option that the blocks of one iteration may hand on.\<close>

definition ctrl_ok :: "Document \<Rightarrow> stateControllerContext option \<Rightarrow> bool" where
  "ctrl_ok doc ctrl \<longleftrightarrow>
     (\<forall>c. ctrl = Some c \<longrightarrow> ctx_symbolID c \<in> controller_ids doc \<and> ctx_symbolID c \<noteq> [])"

lemma kv_command_keeps:
  assumes "refs_ok doc" "kv_command path pathID sect k token doc = (doc', b)"
  shows "refs_ok doc'" "doc_sections doc' = doc_sections doc" "controller_ids doc' = controller_ids doc"
  using assms command_name_key [where doc = doc]
  by (auto simp: kv_command_def split: if_splits dest!: arg_cong [where f = fst])

lemma kv_controller_keeps:
  assumes "refs_ok doc" "ctrl_ok doc ctrl"
    "kv_controller pathID sect k token ctrl doc = (ctrl', doc', b)"
  shows "refs_ok doc'" "doc_sections doc' = doc_sections doc" "ctrl_ok doc' ctrl'"
    "controller_ids doc' = controller_ids doc" "ctrl' = None \<longleftrightarrow> ctrl = None"
proof -
  have "refs_ok doc' \<and> doc_sections doc' = doc_sections doc \<and> ctrl_ok doc' ctrl' \<and>
    controller_ids doc' = controller_ids doc \<and> (ctrl' = None \<longleftrightarrow> ctrl = None)"
  proof (cases ctrl)
    case None
    with assms show ?thesis by (auto simp: kv_controller_def)
  next
    case (Some ctx)
    obtain c d b' where eq: "controller_key pathID k (tok_value token) (tok_span token) ctx doc = (c, d, b')"
      by (metis prod_cases3)
    have e: "emitted ctx doc d" "ctx_symbolID c = ctx_symbolID ctx"
      using controller_key [where ctx = ctx and doc = doc and pathID = pathID and k = k
          and v = "tok_value token" and sp = "tok_span token"] by (simp_all add: eq)
    show ?thesis
    proof (cases "sec_kind sect = SectionState")
      case True
      then have "ctrl' = Some c" "doc' = d"
        using assms(3) Some eq by (simp_all add: kv_controller_def)
      with e emitted_sel [OF e(1)] assms(1,2) Some show ?thesis by (simp add: ctrl_ok_def)
    next
      case False
      then have "ctrl' = ctrl" "doc' = doc"
        using assms(3) Some by (simp_all add: kv_controller_def)
      with assms(1,2) show ?thesis by simp
    qed
  qed
  then show "refs_ok doc'" "doc_sections doc' = doc_sections doc" "ctrl_ok doc' ctrl'"
    "controller_ids doc' = controller_ids doc" "ctrl' = None \<longleftrightarrow> ctrl = None" by simp_all
qed

lemma kv_trigger_keeps:
  assumes "refs_ok doc" "ctrl_ok doc ctrl" "sec_kind sect = SectionState \<longrightarrow> ctrl \<noteq> None"
  shows "refs_ok (kv_trigger path pathID sect k token ctrl doc)"
    "doc_sections (kv_trigger path pathID sect k token ctrl doc) = doc_sections doc"
    "controller_ids (kv_trigger path pathID sect k token ctrl doc) = controller_ids doc"
  using assms
  by (auto simp: kv_trigger_def Let_def trigger_references_sel ctrl_ok_def sectionRefSymbol_def
      intro!: trigger_references_ok)

lemma fs_inv_on_key_value:
  assumes inv: "fs_inv st" and cur: "fs_current st = Some i"
  shows "fs_inv (on_key_value path pathID token i st)"
proof (cases "tok_key token = []")
  case True
  with inv show ?thesis
    unfolding on_key_value_def by (auto intro!: fs_inv_doc simp: fs_inv_def)
next
  case False
  define doc1 where "doc1 = add_line i (key_value_line token) (fs_doc st)"
  define sect where "sect = doc_sections doc1 ! i"
  define k where "k = to_lower (tok_key token)"
  obtain doc2 b where c2: "kv_command path pathID sect k token doc1 = (doc2, b)" by fastforce
  obtain ctrl doc3 b2 where c3: "kv_controller pathID sect k token (fs_controller st) doc2 = (ctrl, doc3, b2)"
    by (metis prod_cases3)
  have eq: "on_key_value path pathID token i st =
     (if b then st\<lparr>fs_doc := doc2\<rparr>
      else if b2 then st\<lparr>fs_doc := doc3, fs_controller := ctrl\<rparr>
      else st\<lparr>fs_doc := kv_trigger path pathID sect k token ctrl doc3, fs_controller := ctrl\<rparr>)"
    using False c2 c3 by (simp add: on_key_value_def doc1_def [symmetric] sect_def [symmetric] k_def [symmetric] Let_def)
  have r1: "refs_ok doc1" and i1: "controller_ids doc1 = controller_ids (fs_doc st)"
    and l1: "length (doc_sections doc1) = length (doc_sections (fs_doc st))"
    and k1: "sec_kind (doc_sections doc1 ! j) = sec_kind (doc_sections (fs_doc st) ! j)" for j
    using inv by (auto simp: doc1_def fs_inv_def)
  note k2 = kv_command_keeps [OF r1 c2]
  have ok2: "ctrl_ok doc2 (fs_controller st)"
    using inv k2(3) i1 by (auto simp: ctrl_ok_def fs_inv_def)
  note k3 = kv_controller_keeps [OF k2(1) ok2 c3]
  have ctl: "sec_kind sect = SectionState \<longrightarrow> ctrl \<noteq> None"
    using inv cur k1 k3(5) by (auto simp: fs_inv_def sect_def)
  note k4 = kv_trigger_keeps [OF k3(1,3) ctl, of path pathID k token]
  show ?thesis
    using inv cur k1 l1 i1 k2 k3 k4 ok2 unfolding eq by (auto simp: fs_inv_def ctrl_ok_def)
qed

lemma fs_inv_on_malformed: "fs_inv st \<Longrightarrow> fs_inv (on_malformed path token i st)"
  unfolding on_malformed_def Let_def by (rule fs_inv_doc) (auto simp: fs_inv_def)

lemma fs_inv_on_comment: "fs_inv st \<Longrightarrow> fs_inv (on_comment token st)"
  unfolding on_comment_def by (auto intro!: fs_inv_doc simp: fs_inv_def split: option.split)

lemma fs_inv_orphan: "fs_inv st \<Longrightarrow> fs_inv (orphan_line path token st)"
  unfolding orphan_line_def by (rule fs_inv_doc) (auto simp: fs_inv_def)

lemma fs_inv_step: "fs_inv st \<Longrightarrow> fs_inv (from_syntax_step path pathID token st)"
  by (auto simp: from_syntax_step_def fs_inv_on_section fs_inv_on_comment fs_inv_orphan
      fs_inv_on_malformed fs_inv_on_key_value split: TokenKind.split option.split)

lemma fs_inv_fold: "fs_inv st \<Longrightarrow> fs_inv (fold (from_syntax_step path pathID) tokens st)"
  by (rule fold_inv [where P = fs_inv]) (auto intro: fs_inv_step)

section \<open>What one iteration appends\<close>

lemma kv_command_sections [simp]:
  "doc_sections (fst (kv_command path pathID sect k token doc)) = doc_sections doc"
  "doc_references (fst (kv_command path pathID sect k token doc)) = doc_references doc"
  by (simp_all add: kv_command_def command_name_key)

lemma kv_controller_sections [simp]:
  "doc_sections (fst (snd (kv_controller pathID sect k token ctrl doc))) = doc_sections doc"
  "doc_symbols (fst (snd (kv_controller pathID sect k token ctrl doc))) = doc_symbols doc"
  using emitted_sel(1,2) [OF controller_key(1)]
  by (simp_all add: kv_controller_def case_prod_beta split: option.split)

lemma kv_trigger_sections [simp]:
  "doc_sections (kv_trigger path pathID sect k token ctrl doc) = doc_sections doc"
  "doc_symbols (kv_trigger path pathID sect k token ctrl doc) = doc_symbols doc"
  by (simp_all add: kv_trigger_def Let_def trigger_references_sel)

lemma on_key_value_sections:
  "doc_sections (fs_doc (on_key_value path pathID token i st)) =
     (if tok_key token = [] then doc_sections (fs_doc st)
      else doc_sections (add_line i (key_value_line token) (fs_doc st)))"
  "fs_current (on_key_value path pathID token i st) = fs_current st"
  by (simp_all add: on_key_value_def Let_def case_prod_beta)

definition all_lines :: "Document \<Rightarrow> SourceLine list" where
  "all_lines doc = concat (map sec_lines (doc_sections doc))"

lemma all_lines_add_line:
  assumes "Suc i = length (doc_sections doc)"
  shows "all_lines (add_line i l doc) = all_lines doc @ [l]"
proof -
  obtain xs x where d: "doc_sections doc = xs @ [x]"
    using assms by (metis append_butlast_last_id list.size(3) nat.simps(3))
  with assms have "i = length xs" by simp
  then show ?thesis by (simp add: all_lines_def add_line_def d nth_append)
qed

text \<open>The line a token contributes to the section it stands in, and whether the next token stands in
  a section.\<close>

definition section_line :: "bool \<Rightarrow> Token \<Rightarrow> SourceLine list" where
  "section_line inside token =
     (if \<not> inside then []
      else case tok_kind token of
        TokenComment \<Rightarrow> [\<lparr>ln_kind = SourceLineComment, ln_key = [], ln_value = [],
                          ln_text = tok_text token, ln_span = tok_span token\<rparr>]
      | TokenMalformed \<Rightarrow> [\<lparr>ln_kind = SourceLineMalformed, ln_key = [], ln_value = [],
                          ln_text = trim_space (tok_text token), ln_span = tok_span token\<rparr>]
      | TokenKeyValue \<Rightarrow> if tok_key token = [] then [] else [key_value_line token]
      | _ \<Rightarrow> [])"

definition enters_section :: "bool \<Rightarrow> Token \<Rightarrow> bool" where
  "enters_section inside token =
     (if tok_kind token = TokenSection then trim_space (tok_text token) \<noteq> [] else inside)"

fun section_lines :: "bool \<Rightarrow> Token list \<Rightarrow> SourceLine list" where
  "section_lines inside [] = []"
| "section_lines inside (t # ts) = section_line inside t @ section_lines (enters_section inside t) ts"

lemma on_section_sections:
  "doc_sections (fs_doc (on_section path pathID token st)) =
     (if trim_space (tok_text token) = [] then doc_sections (fs_doc st)
      else doc_sections (fs_doc st) @
        [\<lparr>sec_header = trim_space (tok_text token), sec_kind = sectionKind (trim_space (tok_text token)),
          sec_span = tok_span token, sec_lines = []\<rparr>])"
  "fs_current (on_section path pathID token st) \<noteq> None \<longleftrightarrow> trim_space (tok_text token) \<noteq> []"
  by (auto simp: on_section_def Let_def statedef_symbol_def split: SectionKind.split)

lemma step_lines:
  assumes "fs_inv st"
  shows "all_lines (fs_doc (from_syntax_step path pathID token st)) =
     all_lines (fs_doc st) @ section_line (fs_current st \<noteq> None) token"
    and "fs_current (from_syntax_step path pathID token st) \<noteq> None \<longleftrightarrow>
     enters_section (fs_current st \<noteq> None) token"
proof -
  have last: "Suc i = length (doc_sections (fs_doc st))" if "fs_current st = Some i" for i
    using assms that by (simp add: fs_inv_def)
  have al: "all_lines d = all_lines d'" if "doc_sections d = doc_sections d'" for d d'
    using that by (simp add: all_lines_def)
  show "all_lines (fs_doc (from_syntax_step path pathID token st)) =
     all_lines (fs_doc st) @ section_line (fs_current st \<noteq> None) token"
  proof (cases "tok_kind token")
    case TokenSection
    then show ?thesis
      by (simp add: from_syntax_step_def section_line_def all_lines_def on_section_sections)
  next
    case TokenKeyValue
    then show ?thesis
      using last al [OF on_key_value_sections(1) [of path pathID token _ st, THEN trans]]
      by (auto simp: from_syntax_step_def section_line_def orphan_line_def all_lines_add_line
          all_lines_def [of "fs_doc (on_key_value _ _ _ _ _)"] on_key_value_sections
          all_lines_def [symmetric] all_lines_def [of "add_diag _ _"] split: option.split)
  next
    case TokenComment
    then show ?thesis
      using last by (auto simp: from_syntax_step_def section_line_def on_comment_def all_lines_add_line
          split: option.split)
  next
    case TokenBlank
    then show ?thesis by (simp add: from_syntax_step_def section_line_def)
  next
    case TokenMalformed
    then show ?thesis
      using last by (auto simp: from_syntax_step_def section_line_def on_malformed_def Let_def
          orphan_line_def all_lines_add_line all_lines_def [of "add_diag _ _"] all_lines_def [symmetric]
          split: option.split)
  qed
  show "fs_current (from_syntax_step path pathID token st) \<noteq> None \<longleftrightarrow>
     enters_section (fs_current st \<noteq> None) token"
    by (auto simp: from_syntax_step_def enters_section_def on_section_sections on_key_value_sections
        on_comment_def on_malformed_def orphan_line_def Let_def
        simp del: not_None_eq split: TokenKind.split option.split)
qed

lemma fold_lines:
  "fs_inv st \<Longrightarrow> all_lines (fs_doc (fold (from_syntax_step path pathID) tokens st)) =
     all_lines (fs_doc st) @ section_lines (fs_current st \<noteq> None) tokens"
  by (induction tokens arbitrary: st) (simp_all add: step_lines fs_inv_step del: not_None_eq)

text \<open>Headers, and the symbols that headers make.\<close>

definition header_symbols :: "Document \<Rightarrow> (string \<times> SourceSpan \<times> SymbolKind) list" where
  "header_symbols doc =
     map (\<lambda>s. (sym_section s, sym_span s, sym_kind s))
       (filter (\<lambda>s. sym_kind s = SymbolStateDef \<or> sym_kind s = SymbolStateController) (doc_symbols doc))"

fun header_symbol_kind :: "SectionKind \<Rightarrow> SymbolKind list" where
  "header_symbol_kind SectionStatedef = [SymbolStateDef]"
| "header_symbol_kind SectionState = [SymbolStateController]"
| "header_symbol_kind _ = []"

definition state_headers :: "Document \<Rightarrow> (string \<times> SourceSpan \<times> SymbolKind) list" where
  "state_headers doc =
     concat (map (\<lambda>s. map (\<lambda>k. (sec_header s, sec_span s, k)) (header_symbol_kind (sec_kind s)))
       (doc_sections doc))"

lemma header_symbols_updates [simp]:
  "header_symbols (add_diag d doc) = header_symbols doc"
  "header_symbols (add_reference r doc) = header_symbols doc"
  "header_symbols (add_line i l doc) = header_symbols doc"
  "header_symbols (doc\<lparr>doc_sections := ss\<rparr>) = header_symbols doc"
  by (simp_all add: header_symbols_def)

lemma header_symbols_cong: "doc_symbols d = doc_symbols d' \<Longrightarrow> header_symbols d = header_symbols d'"
  by (simp add: header_symbols_def)

lemma state_headers_add_line [simp]: "state_headers (add_line i l doc) = state_headers doc"
proof (cases "i < length (doc_sections doc)")
  case True
  let ?f = "\<lambda>s. map (\<lambda>k. (sec_header s, sec_span s, k)) (header_symbol_kind (sec_kind s))"
  have "map ?f (doc_sections (add_line i l doc)) = map ?f (doc_sections doc)"
    unfolding add_line_def by (simp add: map_update_same)
  then show ?thesis by (simp add: state_headers_def)
qed (simp add: state_headers_def add_line_def list_update_beyond)

lemma state_headers_add_diag [simp]: "state_headers (add_diag d doc) = state_headers doc"
  by (simp add: state_headers_def)

lemma header_symbols_kv_command [simp]:
  "header_symbols (fst (kv_command path pathID sect k token doc)) = header_symbols doc"
  by (simp add: kv_command_def command_name_key_def Let_def header_symbols_def)

lemma header_symbols_on_key_value:
  "header_symbols (fs_doc (on_key_value path pathID token i st)) = header_symbols (fs_doc st)"
  by (simp add: on_key_value_def Let_def case_prod_beta
      header_symbols_cong [OF kv_trigger_sections(2)] header_symbols_cong [OF kv_controller_sections(2)])

lemma state_headers_cong: "doc_sections d = doc_sections d' \<Longrightarrow> state_headers d = state_headers d'"
  by (simp add: state_headers_def)

lemma step_headers:
  assumes "header_symbols (fs_doc st) = state_headers (fs_doc st)"
  shows "header_symbols (fs_doc (from_syntax_step path pathID token st)) =
     state_headers (fs_doc (from_syntax_step path pathID token st))"
proof -
  have kv: "state_headers (fs_doc (on_key_value path pathID token i st)) = state_headers (fs_doc st)" for i
    using state_headers_cong [OF on_key_value_sections(1) [of path pathID token i st, THEN trans]]
    by (cases "tok_key token = []")
      (simp_all add: state_headers_def [of "fs_doc (on_key_value _ _ _ _ _)"] on_key_value_sections
        state_headers_def [symmetric])
  have sec: "header_symbols (fs_doc (on_section path pathID token st)) =
      state_headers (fs_doc (on_section path pathID token st))"
    using assms
    by (auto simp: on_section_def Let_def statedef_symbol_def controller_symbol_def header_symbols_def
        state_headers_def split: SectionKind.split)
  show ?thesis
    by (cases "tok_kind token"; cases "fs_current st")
      (simp_all add: assms kv sec from_syntax_step_def header_symbols_on_key_value on_comment_def
        on_malformed_def orphan_line_def Let_def)
qed

section \<open>Diagnostics\<close>

lemma makeDiagnostic_ok: "1 \<le> line \<Longrightarrow> diagnostic_ok (makeDiagnostic path sev msg c line sp)"
  by (simp add: makeDiagnostic_def Let_def span_simps)

end
