(* ===== verification/Scanner_Props.thy ===== *)
theory Scanner_Props
  imports Scanner Adapter_Props
begin

text \<open>
  The scanner splits a file into lines without losing a byte, its split is the only one, each line
  makes at most one code token and then at most one comment, and every token's span lies on its line
  and, for code, covers the text of the token.
\<close>

section \<open>Lines\<close>

definition plain :: "string \<Rightarrow> bool" where
  "plain t \<longleftrightarrow> CR \<notin> set t \<and> LF \<notin> set t"

definition join_lines :: "(string \<times> string) list \<Rightarrow> string" where
  "join_lines ps = concat (map (\<lambda>(t, e). t @ e) ps)"

lemma join_lines_simps [simp]:
  "join_lines [] = []" "join_lines ((t, e) # ps) = t @ e @ join_lines ps"
  by (simp_all add: join_lines_def)

text \<open>A split of a file: line texts without terminators, each line but the last terminated, and a lone
  CR never followed by an LF, which would be one terminator.\<close>

fun lines_ok :: "(string \<times> string) list \<Rightarrow> bool" where
  "lines_ok [] \<longleftrightarrow> False"
| "lines_ok [(t, e)] \<longleftrightarrow> plain t \<and> e = []"
| "lines_ok ((t, e) # (u, f) # ps) \<longleftrightarrow> plain t \<and> (e = [CR] \<or> e = [LF] \<or> e = [CR, LF]) \<and>
     \<not> (e = [CR] \<and> has_prefix (u @ f) [LF]) \<and> lines_ok ((u, f) # ps)"

definition line_pair :: "lineInfo \<Rightarrow> string \<times> string" where
  "line_pair l = (li_text l, li_ending l)"

lemma line_pair_simp [simp]: "line_pair \<lparr>li_no = n, li_text = t, li_ending = e\<rparr> = (t, e)"
  by (simp add: line_pair_def)

lemma scan_lines_plain: "plain t \<Longrightarrow> scan_lines no cur (t @ rest) = scan_lines no (cur @ t) rest"
  by (induction t arbitrary: cur) (auto simp: plain_def)

lemma lines_ok_head_LF:
  "lines_ok ((u, f) # ps) \<Longrightarrow> has_prefix (join_lines ((u, f) # ps)) [LF] \<Longrightarrow> has_prefix (u @ f) [LF]"
  by (cases ps; cases u) auto

text \<open>The scanner finds exactly the lines it is given.\<close>

lemma scan_lines_join:
  "lines_ok ((t, e) # ps) \<Longrightarrow>
   map line_pair (scan_lines no cur (join_lines ((t, e) # ps))) = (cur @ t, e) # ps"
proof (induction ps arbitrary: no cur t e)
  case Nil
  then show ?case by (simp add: scan_lines_plain [of t _ _ "[]", simplified])
next
  case (Cons q ps)
  obtain u f where q: "q = (u, f)" by (cases q) auto
  let ?rest = "join_lines ((u, f) # ps)"
  have t: "plain t" and rest: "lines_ok ((u, f) # ps)"
    and e: "e = [CR] \<or> e = [LF] \<or> e = [CR, LF]" and cr: "e = [CR] \<Longrightarrow> \<not> has_prefix (u @ f) [LF]"
    using Cons.prems q by auto
  have IH: "map line_pair (scan_lines n [] ?rest) = (u, f) # ps" for n
    using Cons.IH [OF rest, of n "[]"] by simp
  have lf: "\<not> has_prefix ?rest [LF]" if "e = [CR]"
    using lines_ok_head_LF [OF rest] cr that by blast
  have "map line_pair (scan_lines no (cur @ t) (e @ ?rest)) = (cur @ t, e) # (u, f) # ps"
    using e IH lf by (cases ?rest) (auto split: list.splits)
  then show ?case
    using scan_lines_plain [OF t, of no cur "e @ ?rest"] q by simp
qed

text \<open>The four shapes of a scan step.\<close>

lemma scan_lines_cases:
  "scan_lines no cur (CR # LF # ds) =
     \<lparr>li_no = no, li_text = cur, li_ending = [CR, LF]\<rparr> # scan_lines (no + 1) [] ds"
  "\<not> has_prefix cs [LF] \<Longrightarrow> scan_lines no cur (CR # cs) =
     \<lparr>li_no = no, li_text = cur, li_ending = [CR]\<rparr> # scan_lines (no + 1) [] cs"
  "scan_lines no cur (LF # cs) =
     \<lparr>li_no = no, li_text = cur, li_ending = [LF]\<rparr> # scan_lines (no + 1) [] cs"
  "c \<noteq> CR \<Longrightarrow> c \<noteq> LF \<Longrightarrow> scan_lines no cur (c # cs) = scan_lines no (cur @ [c]) cs"
  by (cases cs; simp)+

lemma scan_induct [case_names Nil CRLF CR LF Other]:
  assumes "\<And>no cur. P no cur []"
    and "\<And>no cur ds. P (no + 1) [] ds \<Longrightarrow> P no cur (CR # LF # ds)"
    and "\<And>no cur cs. \<not> has_prefix cs [LF] \<Longrightarrow> P (no + 1) [] cs \<Longrightarrow> P no cur (CR # cs)"
    and "\<And>no cur cs. P (no + 1) [] cs \<Longrightarrow> P no cur (LF # cs)"
    and "\<And>no cur c cs. c \<noteq> CR \<Longrightarrow> c \<noteq> LF \<Longrightarrow> P no (cur @ [c]) cs \<Longrightarrow> P no cur (c # cs)"
  shows "P no cur s"
proof (induction "length s" arbitrary: no cur s rule: less_induct)
  case less
  show ?case
  proof (cases s)
    case Nil
    then show ?thesis using assms(1) by simp
  next
    case (Cons c cs)
    consider (crlf) ds where "c = CR" "cs = LF # ds" | (cr) "c = CR" "\<not> has_prefix cs [LF]"
      | (lf) "c = LF" | (other) "c \<noteq> CR" "c \<noteq> LF"
      by (cases cs) auto
    then show ?thesis
    proof cases
      case crlf
      with assms(2) less Cons show ?thesis by simp
    next
      case cr
      with assms(3) less Cons show ?thesis by simp
    next
      case lf
      with assms(4) less Cons show ?thesis by simp
    next
      case other
      with assms(5) less Cons show ?thesis by simp
    qed
  qed
qed

lemma has_prefix_append_left: "has_prefix (u @ f) p \<Longrightarrow> has_prefix (u @ f @ r) p"
  by (metis append.assoc has_prefix_iff)

definition scan_good :: "string \<Rightarrow> string \<Rightarrow> (string \<times> string) list \<Rightarrow> bool" where
  "scan_good cur s ps \<longleftrightarrow> lines_ok ps \<and> join_lines ps = cur @ s \<and>
     (\<exists>u f qs. ps = (u, f) # qs \<and> (cur = [] \<longrightarrow> has_prefix (u @ f) [LF] \<longrightarrow> has_prefix s [LF]))"

lemma scan_good_line:
  assumes "scan_good [] s ps" "plain cur" "e = [CR] \<or> e = [LF] \<or> e = [CR, LF]"
    "e = [CR] \<Longrightarrow> \<not> has_prefix s [LF]"
  shows "scan_good cur (e @ s) ((cur, e) # ps)"
  using assms by (auto simp: scan_good_def)

lemma plain_Nil [simp]: "plain []"
  by (simp add: plain_def)

lemma scan_lines_good: "plain cur \<Longrightarrow> scan_good cur s (map line_pair (scan_lines no cur s))"
proof (induction no cur s rule: scan_induct)
  case (Nil no cur)
  then show ?case by (simp add: scan_good_def)
next
  case (CRLF no cur ds)
  then show ?case
    using scan_good_line [where e = "[CR, LF]"] by (simp add: scan_lines_cases del: scan_lines.simps)
next
  case (CR no cur cs)
  then show ?case
    using scan_good_line [where e = "[CR]"] by (simp add: scan_lines_cases del: scan_lines.simps)
next
  case (LF no cur cs)
  then show ?case
    using scan_good_line [where e = "[LF]"] by (simp add: scan_lines_cases del: scan_lines.simps)
next
  case (Other no cur c cs)
  then have "scan_good (cur @ [c]) cs (map line_pair (scan_lines no cur (c # cs)))"
    by (simp add: plain_def scan_lines_cases del: scan_lines.simps)
  then obtain u f qs where L: "map line_pair (scan_lines no cur (c # cs)) = (u, f) # qs"
    and ok: "lines_ok ((u, f) # qs)" and j: "u @ f @ join_lines qs = cur @ c # cs"
    by (auto simp: scan_good_def simp del: scan_lines.simps)
  have "\<not> has_prefix (u @ f) [LF]" if "cur = []"
    using j that Other(2) has_prefix_append_left [of u f "[LF]" "join_lines qs"] by auto
  with ok j show ?case unfolding scan_good_def L by simp
qed

lemma lines_unique:
  assumes "lines_ok ps" "lines_ok qs" "join_lines ps = join_lines qs"
  shows "ps = qs"
proof -
  obtain t e ps' where "ps = (t, e) # ps'" using assms(1) by (cases ps) auto
  moreover obtain u f qs' where "qs = (u, f) # qs'" using assms(2) by (cases qs) auto
  ultimately have "map line_pair (scan_lines 1 [] (join_lines ps)) = ps"
    "map line_pair (scan_lines 1 [] (join_lines qs)) = qs"
    using scan_lines_join [of t e ps' 1 "[]"] scan_lines_join [of u f qs' 1 "[]"] assms(1,2)
    by simp_all
  with assms(3) show ?thesis by metis
qed

text \<open>
  The interface of a line splitter, which both \<^verbatim>\<open>internal/syntax\<close> and \<^verbatim>\<open>internal/document\<close> provide:
  it loses no byte and cuts only at terminators. Its clients may use that the split is then unique.
\<close>

locale line_splitter =
  fixes split :: "string \<Rightarrow> 'l list" and pair :: "'l \<Rightarrow> string \<times> string"
  assumes split_Nil: "split [] = []"
    and split_ok: "s \<noteq> [] \<Longrightarrow> lines_ok (map pair (split s))"
    and split_lossless: "join_lines (map pair (split s)) = s"
begin

lemma split_unique: "lines_ok ps \<Longrightarrow> join_lines ps = s \<Longrightarrow> s \<noteq> [] \<Longrightarrow> map pair (split s) = ps"
  by (rule lines_unique) (simp_all add: split_ok split_lossless)

lemma split_inj: "map pair (split s) = map pair (split s') \<Longrightarrow> s = s'"
  by (metis split_lossless)

lemma agrees:
  assumes "line_splitter split' pair'"
  shows "map pair' (split' s) = map pair (split s)"
proof (cases "s = []")
  case True
  then show ?thesis using assms by (simp add: split_Nil line_splitter.split_Nil)
next
  case False
  then show ?thesis
    using assms by (intro lines_unique)
      (simp_all add: split_ok split_lossless line_splitter.split_ok line_splitter.split_lossless)
qed

end

interpretation scanner: line_splitter splitLines line_pair
proof
  show "splitLines [] = []" by (simp add: splitLines_def)
  fix s
  show "s \<noteq> [] \<Longrightarrow> lines_ok (map line_pair (splitLines s))"
    using scan_lines_good [of "[]" s 1] by (simp add: splitLines_def scan_good_def)
  show "join_lines (map line_pair (splitLines s)) = s"
    using scan_lines_good [of "[]" s 1] by (simp add: splitLines_def scan_good_def)
qed

lemma scan_lines_numbers:
  "map li_no (scan_lines no cur s) = map (\<lambda>i. no + int i) [0..<length (scan_lines no cur s)]"
proof (induction no cur s rule: scan_induct)
  case (Nil no cur)
  then show ?case by simp
next
  have shift: "map (\<lambda>i. n + int i) [0..<Suc k] = n # map (\<lambda>i. (n + 1) + int i) [0..<k]" for n k
    by (simp only: map_upt_Suc) (simp add: algebra_simps)
  {
    case (CRLF no cur ds)
    then show ?case
      by (simp only: scan_lines_cases list.map list.size lineInfo.simps shift add_Suc_right add_0_right
          not_False_eq_True)
  next
    case (CR no cur cs)
    then show ?case
      by (simp only: scan_lines_cases list.map list.size lineInfo.simps shift add_Suc_right add_0_right
          not_False_eq_True)
  next
    case (LF no cur cs)
    then show ?case
      by (simp only: scan_lines_cases list.map list.size lineInfo.simps shift add_Suc_right add_0_right
          not_False_eq_True)
  }
next
  case (Other no cur c cs)
  then show ?case by (simp only: scan_lines_cases not_False_eq_True)
qed

section \<open>Spans\<close>

lemma tokenSpanAt_line [simp]:
  "Line (Start (tokenSpanAt raw token n c)) = n" "Line (End (tokenSpanAt raw token n c)) = n"
  by (simp_all add: tokenSpanAt_def Let_def)

lemma tokenSpanAt_columns:
  "1 \<le> Column (Start (tokenSpanAt raw token n c))"
  "Column (Start (tokenSpanAt raw token n c)) < Column (End (tokenSpanAt raw token n c))"
  by (auto simp: tokenSpanAt_def Let_def split: option.split)

lemma tokenSpanAt_ok: "1 \<le> n \<Longrightarrow> span_ok (tokenSpanAt raw token n c)"
  using tokenSpanAt_columns [of raw token n c] by (simp add: span_ok_def position_ok_def)

text \<open>The text a code token covers. The end column is one more than the end of a half-open range.\<close>

lemma tokenSpan_covers:
  assumes "token \<noteq> []" "raw = p @ token @ q"
  shows "take (length token) (drop (nat (Column (Start (tokenSpan raw token n))) - 1) raw) = token"
    and "Column (End (tokenSpan raw token n)) = Column (Start (tokenSpan raw token n)) + int (length token) + 1"
    and "Column (End (tokenSpan raw token n)) \<le> int (length raw) + 2"
proof -
  obtain i where i: "index_of raw token = Some i"
    using index_of_exists [of p token q] assms(2) by auto
  then have "tokenSpan raw token n =
      \<lparr>Start = \<lparr>Line = n, Column = int i + 1\<rparr>,
       End = \<lparr>Line = n, Column = int i + 1 + int (length token) + 1\<rparr>\<rparr>"
    using assms(1) by (simp add: tokenSpan_def tokenSpanAt_def)
  then show "take (length token) (drop (nat (Column (Start (tokenSpan raw token n))) - 1) raw) = token"
    "Column (End (tokenSpan raw token n)) = Column (Start (tokenSpan raw token n)) + int (length token) + 1"
    "Column (End (tokenSpan raw token n)) \<le> int (length raw) + 2"
    using index_of_match [OF i] index_of_bound [OF i] by (simp_all add: nat_add_distrib)
qed

lemma splitLine_code_prefix:
  assumes "splitLine raw = (codeText, comment, idx)"
  shows "\<exists>q. raw = codeText @ q"
proof (cases "find_comment raw 0 False False raw")
  case None
  then have "codeText = trim_right raw [CHR '' '', CHR 0x09]"
    using assms by (simp add: splitLine_def)
  then show ?thesis using trim_right_prefix [of raw] by metis
next
  case (Some i)
  then have "codeText = trim_right (take i raw) [CHR '' '', CHR 0x09]"
    using assms by (simp add: splitLine_def Let_def)
  then obtain q where "take i raw = codeText @ q" using trim_right_prefix by metis
  then have "raw = codeText @ q @ drop i raw" by (metis append.assoc append_take_drop_id)
  then show ?thesis by blast
qed

text \<open>What holds of every token a line makes.\<close>

definition is_code :: "Token \<Rightarrow> bool" where
  "is_code t \<longleftrightarrow> tok_kind t = TokenSection \<or> tok_kind t = TokenKeyValue \<or> tok_kind t = TokenMalformed"

definition token_line :: "Token \<Rightarrow> int" where
  "token_line t = Line (Start (tok_span t))"

text \<open>A token lies on its line; a key-value or malformed token's span starts where its text does.\<close>

definition token_on_line :: "lineInfo \<Rightarrow> Token \<Rightarrow> bool" where
  "token_on_line l t \<longleftrightarrow> token_line t = li_no l \<and>
     Line (End (tok_span t)) = li_no l \<and>
     1 \<le> Column (Start (tok_span t)) \<and> Column (Start (tok_span t)) < Column (End (tok_span t)) \<and>
     (tok_kind t = TokenKeyValue \<or> tok_kind t = TokenMalformed \<longrightarrow>
        tok_text t \<noteq> [] \<and>
        take (length (tok_text t)) (drop (nat (Column (Start (tok_span t))) - 1) (li_text l)) = tok_text t \<and>
        Column (End (tok_span t)) = Column (Start (tok_span t)) + int (length (tok_text t)) + 1)"

lemma comment_token:
  "tok_kind (makeCommentToken n raw c i) = TokenComment"
  "token_line (makeCommentToken n raw c i) = n"
  by (simp_all add: makeCommentToken_def Let_def token_line_def)

lemma comment_token_on_line:
  "n = li_no l \<Longrightarrow> token_on_line l (makeCommentToken n raw c i)"
  using tokenSpanAt_columns by (simp add: makeCommentToken_def Let_def token_on_line_def token_line_def)

lemma comment_tail_facts:
  "filter is_code (comment_tail l c i) = []"
  "list_all (token_on_line l) (comment_tail l c i)"
  by (simp_all add: comment_tail_def is_code_def comment_token comment_token_on_line)

lemma code_span_on_line:
  assumes "splitLine (li_text l) = (codeText, c, i)" "trim_space codeText \<noteq> []"
  defines "T \<equiv> trim_space codeText" and "sp \<equiv> tokenSpan (li_text l) (trim_space codeText) (li_no l)"
  shows "take (length T) (drop (nat (Column (Start sp)) - 1) (li_text l)) = T"
    and "Column (End sp) = Column (Start sp) + int (length T) + 1"
proof -
  obtain q where "li_text l = codeText @ q" using splitLine_code_prefix [OF assms(1)] by blast
  moreover obtain a b where "codeText = a @ T @ b" using trim_space_infix T_def by blast
  ultimately have "li_text l = a @ T @ (b @ q)" by simp
  from tokenSpan_covers [OF assms(2) [folded T_def] this, of "li_no l"]
  show "take (length T) (drop (nat (Column (Start sp)) - 1) (li_text l)) = T"
    "Column (End sp) = Column (Start sp) + int (length T) + 1"
    by (simp_all add: sp_def T_def)
qed

lemma line_tokens_facts:
  "list_all (token_on_line l) (fst (line_tokens l)) \<and> length (filter is_code (fst (line_tokens l))) \<le> 1"
proof -
  obtain codeText c i where sp: "splitLine (li_text l) = (codeText, c, i)" by (metis prod_cases3)
  obtain h ok where hd: "parseSectionHeader (trim_space codeText) = (h, ok)" by fastforce
  obtain k v eq where kv: "splitKeyValue (trim_space codeText) = (k, v, eq)" by (metis prod_cases3)
  note defs = line_tokens_def sp hd kv Let_def comment_tail_facts token_on_line_def token_line_def
    is_code_def tokenSpan_def tokenSpanAt_columns
  show ?thesis
  proof (cases "trim_space codeText = []")
    case True
    then show ?thesis by (simp add: defs comment_token comment_token_on_line [unfolded token_on_line_def token_line_def])
  next
    case False
    note cs = code_span_on_line [OF sp False]
    show ?thesis
      using False cs by (cases ok; cases "\<not> eq \<or> k = []") (simp_all add: defs)
  qed
qed

end
