(* ===== verification/Parser_Props.thy ===== *)
theory Parser_Props
  imports Scanner_Props
begin

text \<open>
  The parser as a whole, from bytes to the IR document: what the scanner guarantees of its tokens
  makes the identifiers of a document unique and its diagnostics well formed.
\<close>

section \<open>Code tokens stand on different lines\<close>

lemma distinct_concat_lines:
  assumes "distinct (map f ls)" and "\<And>l. l \<in> set ls \<Longrightarrow> length (g l) \<le> 1"
    and "\<And>l x. l \<in> set ls \<Longrightarrow> x \<in> set (g l) \<Longrightarrow> h x = f l"
  shows "distinct (map h (concat (map g ls)))"
  using assms
proof (induction ls)
  case (Cons l ls)
  have "distinct (map h (g l))"
    using Cons.prems(2) [of l] by (cases "g l" rule: list.exhaust; cases "tl (g l)") auto
  moreover have "h ` set (g l) \<inter> h ` (\<Union>x\<in>set ls. set (g x)) = {}"
    using Cons.prems(1,3) by fastforce
  ultimately show ?case using Cons by auto
qed simp

lemma splitLines_numbers: "map li_no (splitLines s) = map (\<lambda>i. 1 + int i) [0..<length (splitLines s)]"
  using scan_lines_numbers [of 1 "[]" s] by (simp add: splitLines_def)

lemma splitLines_no: "l \<in> set (splitLines s) \<Longrightarrow> 1 \<le> li_no l \<and> li_no l \<le> int (length (splitLines s))"
proof -
  assume "l \<in> set (splitLines s)"
  then have "li_no l \<in> set (map li_no (splitLines s))" by simp
  then show ?thesis unfolding splitLines_numbers by auto
qed

lemma splitLines_distinct: "distinct (map li_no (splitLines s))"
  unfolding splitLines_numbers by (simp add: distinct_map inj_on_def)

lemma tokens_of_lines: "fst (parseSyntaxLines s) = concat (map (fst \<circ> line_tokens) (splitLines s))"
  by (simp add: parseSyntaxLines_def Let_def)

lemma token_source_line:
  assumes "t \<in> set (fst (parseSyntaxLines s))"
  shows "\<exists>l \<in> set (splitLines s). token_on_line l t"
proof -
  obtain l where "l \<in> set (splitLines s)" "t \<in> set (fst (line_tokens l))"
    using assms by (auto simp: tokens_of_lines)
  with line_tokens_facts [of l] show ?thesis by (auto simp: list_all_iff)
qed

lemma token_line_bounds:
  "t \<in> set (fst (parseSyntaxLines s)) \<Longrightarrow> 1 \<le> token_line t \<and> token_line t \<le> int (length (splitLines s))"
  using token_source_line [of t s] splitLines_no by (auto simp: token_on_line_def)

lemma code_tokens_distinct: "distinct (map token_line (filter is_code (fst (parseSyntaxLines s))))"
proof -
  have "distinct (map token_line (concat (map (\<lambda>l. filter is_code (fst (line_tokens l))) (splitLines s))))"
  proof (rule distinct_concat_lines [where f = li_no])
    show "distinct (map li_no (splitLines s))" by (rule splitLines_distinct)
    fix l x
    show "length (filter is_code (fst (line_tokens l))) \<le> 1" using line_tokens_facts by blast
    show "x \<in> set (filter is_code (fst (line_tokens l))) \<Longrightarrow> token_line x = li_no l"
      using line_tokens_facts [of l] by (auto simp: list_all_iff token_on_line_def)
  qed
  then show ?thesis by (simp add: tokens_of_lines filter_concat comp_def)
qed

section \<open>Identifiers that carry their line\<close>

text \<open>
  A fold that appends identifiers, each tied to the line of the token it came from: identifiers are
  unique when the tokens' lines are.
\<close>

lemma fold_distinct_ids:
  assumes step: "\<And>t s. \<exists>xs. items (f t s) = items s @ xs \<and> distinct xs \<and>
      (\<forall>x\<in>set xs. code t \<and> at (line t) x)"
    and inj: "\<And>n m x. at n x \<Longrightarrow> at m x \<Longrightarrow> n = m"
    and "distinct (map line (filter code ts))" "distinct (items s)"
    and "\<And>x t. x \<in> set (items s) \<Longrightarrow> t \<in> set ts \<Longrightarrow> code t \<Longrightarrow> \<not> at (line t) x"
  shows "distinct (items (fold f ts s))"
  using assms(3-)
proof (induction ts arbitrary: s)
  case (Cons t ts)
  obtain xs where xs: "items (f t s) = items s @ xs" "distinct xs"
    "\<And>x. x \<in> set xs \<Longrightarrow> code t \<and> at (line t) x"
    using step [of t s] by blast
  have fresh: "\<not> at (line u) x" if "x \<in> set xs" "u \<in> set ts" "code u" for x u
  proof
    assume "at (line u) x"
    with xs(3) [OF that(1)] inj have "code t" "line u = line t" by auto
    moreover have "line u \<in> set (map line (filter code ts))" using that(2,3) by simp
    ultimately show False using Cons.prems(1) by simp
  qed
  have "distinct (items (f t s))"
    using xs Cons.prems(2,3) by fastforce
  moreover have "\<not> at (line u) x" if "x \<in> set (items (f t s))" "u \<in> set ts" "code u" for x u
    using that xs(1) fresh Cons.prems(3) by auto
  moreover have "distinct (map line (filter code ts))"
    using Cons.prems(1) by (simp split: if_splits)
  ultimately show ?case using Cons.IH by simp
qed simp

lemma itoa_no_colon: "CHR '':'' \<notin> set (itoa n)"
proof -
  have "\<not> is_digit (CHR '':'')" by (simp add: is_digit_def)
  then show ?thesis using nat_digits_digit by (auto simp: itoa_def)
qed

lemma last_sep_unique:
  "x @ c # a = y @ c # b \<Longrightarrow> c \<notin> set a \<Longrightarrow> c \<notin> set b \<Longrightarrow> a = b"
proof -
  assume eq: "x @ c # a = y @ c # b" and "c \<notin> set a" "c \<notin> set b"
  then have "takeWhile (\<lambda>d. d \<noteq> c) (rev a @ c # rev x) = rev a"
    "takeWhile (\<lambda>d. d \<noteq> c) (rev b @ c # rev y) = rev b"
    by (auto simp: takeWhile_append)
  moreover have "rev a @ c # rev x = rev b @ c # rev y"
    using arg_cong [OF eq, of rev] by simp
  ultimately show "a = b" by simp
qed

lemma first_sep_unique:
  "a @ c # x = b @ c # y \<Longrightarrow> c \<notin> set a \<Longrightarrow> c \<notin> set b \<Longrightarrow> a = b"
  using last_sep_unique [of "rev x" c "rev a" "rev y" "rev b"]
  by (metis append.assoc append_Cons append_Nil rev.simps(2) rev_append rev_rev_ident set_rev)

definition symbol_at :: "string \<Rightarrow> int \<Rightarrow> string \<Rightarrow> bool" where
  "symbol_at pathID n x \<longleftrightarrow> (\<exists>name. x = name @ '':'' @ itoa n @ '':'' @ pathID)"

definition reference_at :: "string \<Rightarrow> int \<Rightarrow> string \<Rightarrow> bool" where
  "reference_at pathID n x \<longleftrightarrow>
     x = referenceID ''state'' n pathID [] \<or> (\<exists>i. x = referenceID ''command'' n pathID [itoa i])"

lemma symbol_at_inj:
  assumes "symbol_at p n x" "symbol_at p m x"
  shows "n = m"
proof -
  obtain a b where "a @ '':'' @ itoa n @ '':'' @ p = b @ '':'' @ itoa m @ '':'' @ p"
    using assms by (auto simp: symbol_at_def)
  then have "a @ CHR '':'' # itoa n = b @ CHR '':'' # itoa m" by simp
  then show ?thesis using last_sep_unique itoa_no_colon itoa_inj by metis
qed

lemma itoa_not_Nil [simp]: "itoa n \<noteq> []"
  by (simp add: itoa_def)

lemma reference_at_inj: "reference_at p n x \<Longrightarrow> reference_at p m x \<Longrightarrow> n = m"
  by (auto simp: reference_at_def referenceID_def Let_def dest!: first_sep_unique
      intro: itoa_inj simp: itoa_no_colon)

lemma referenceID_command_inj:
  "referenceID k n p [itoa i] = referenceID k n p [itoa j] \<Longrightarrow> i = j"
  by (auto simp: referenceID_def Let_def intro: itoa_inj)

section \<open>Symbols\<close>

lemma kv_command_symbols:
  "\<exists>ss. doc_symbols (fst (kv_command path pathID sect k token doc)) = doc_symbols doc @ ss \<and>
     distinct (map sym_id ss) \<and> (\<forall>s\<in>set ss. symbol_at pathID (token_line token) (sym_id s))"
proof -
  have at: "symbol_at pathID n (commandSymbolID cmd n pathID)" for n cmd
    unfolding symbol_at_def commandSymbolID_def by (rule exI [of _ "''command:'' @ cmd"]) simp
  show ?thesis
    by (simp add: kv_command_def command_name_key_def Let_def token_line_def at)
qed

lemma on_key_value_symbols:
  "\<exists>ss. doc_symbols (fs_doc (on_key_value path pathID token i st)) = doc_symbols (fs_doc st) @ ss \<and>
     distinct (map sym_id ss) \<and> (\<forall>s\<in>set ss. symbol_at pathID (token_line token) (sym_id s))"
  using kv_command_symbols [of path pathID _ _ token "add_line i (key_value_line token) (fs_doc st)"]
  by (auto simp: on_key_value_def Let_def case_prod_beta)

lemma on_section_symbols:
  "\<exists>ss. doc_symbols (fs_doc (on_section path pathID token st)) = doc_symbols (fs_doc st) @ ss \<and>
     distinct (map sym_id ss) \<and> (\<forall>s\<in>set ss. symbol_at pathID (token_line token) (sym_id s))"
proof -
  have at: "symbol_at pathID n (stateSymbolID name n pathID)"
    "symbol_at pathID n (stateControllerSymbolID name n pathID)" for n name
    by (auto simp: symbol_at_def stateSymbolID_def stateControllerSymbolID_def)
  show ?thesis
    by (auto simp: on_section_def Let_def statedef_symbol_def controller_symbol_def token_line_def at
        split: SectionKind.split)
qed

lemma step_symbols:
  "\<exists>ss. map sym_id (doc_symbols (fs_doc (from_syntax_step path pathID token st))) =
      map sym_id (doc_symbols (fs_doc st)) @ ss \<and> distinct ss \<and>
      (\<forall>x\<in>set ss. is_code token \<and> symbol_at pathID (token_line token) x)"
proof -
  have nop: "\<exists>ss. map sym_id (doc_symbols (fs_doc st)) = map sym_id (doc_symbols (fs_doc st)) @ ss \<and>
      distinct ss \<and> (\<forall>x\<in>set ss. is_code token \<and> symbol_at pathID (token_line token) x)" by simp
  show ?thesis
  proof (cases "tok_kind token")
    case TokenSection
    obtain ss where "doc_symbols (fs_doc (on_section path pathID token st)) = doc_symbols (fs_doc st) @ ss"
      "distinct (map sym_id ss)" "\<forall>s\<in>set ss. symbol_at pathID (token_line token) (sym_id s)"
      using on_section_symbols by blast
    with TokenSection show ?thesis
      by (intro exI [of _ "map sym_id ss"]) (auto simp: from_syntax_step_def is_code_def)
  next
    case TokenKeyValue
    show ?thesis
    proof (cases "fs_current st")
      case None
      with TokenKeyValue nop show ?thesis by (simp add: from_syntax_step_def orphan_line_def)
    next
      case (Some i)
      obtain ss where "doc_symbols (fs_doc (on_key_value path pathID token i st)) = doc_symbols (fs_doc st) @ ss"
        "distinct (map sym_id ss)" "\<forall>s\<in>set ss. symbol_at pathID (token_line token) (sym_id s)"
        using on_key_value_symbols by blast
      with TokenKeyValue Some show ?thesis
        by (intro exI [of _ "map sym_id ss"]) (auto simp: from_syntax_step_def is_code_def)
    qed
  qed (use nop in \<open>auto simp: from_syntax_step_def on_comment_def on_malformed_def orphan_line_def Let_def
      split: option.split\<close>)
qed

lemma fold_symbols_distinct:
  assumes "distinct (map token_line (filter is_code tokens))"
  shows "distinct (map sym_id (doc_symbols (FromSyntax path secs tokens)))"
  unfolding FromSyntax_def
  by (rule fold_distinct_ids [where items = "\<lambda>st. map sym_id (doc_symbols (fs_doc st))"
        and code = is_code and line = token_line and at = "symbol_at (canonicalPathID path)"])
    (use step_symbols assms symbol_at_inj in \<open>auto simp: from_syntax_init_def NewDocument_def\<close>)

section \<open>References\<close>

lemma emit_references:
  "\<exists>rs. doc_references (snd (emitStateReference ctx doc sp pathID)) = doc_references doc @ rs \<and>
     (rs = [] \<or> map ref_id rs = [referenceID ''state'' (Line (Start sp)) pathID []])"
  by (simp add: emitStateReference_def Let_def state_reference_def)

lemma kv_controller_references:
  "\<exists>rs. doc_references (fst (snd (kv_controller pathID sect k token ctrl doc))) = doc_references doc @ rs \<and>
     (rs = [] \<or> map ref_id rs = [referenceID ''state'' (token_line token) pathID []])"
proof (cases ctrl)
  case (Some ctx)
  show ?thesis
    using emit_references
    by (auto simp: Some kv_controller_def controller_key_def Let_def case_prod_beta token_line_def)
qed (simp add: kv_controller_def)

lemma fold_add_references:
  assumes "list_all (\<lambda>w. w \<noteq> []) cmds"
  shows "doc_references (fold (\<lambda>(i, cmd) d. if cmd = [] then d else add_reference (mk i cmd) d)
      (List.enumerate n cmds) doc) = doc_references doc @ map (\<lambda>(i, cmd). mk i cmd) (List.enumerate n cmds)"
  using assms by (induction cmds arbitrary: n doc) auto

lemma trigger_references_refs:
  "doc_references (trigger_references pathID src v sp n doc) =
     doc_references doc @ map (\<lambda>(i, cmd). command_reference pathID src v sp n i cmd)
       (List.enumerate 0 (extractCommandReferences (trim_space v)))"
  unfolding trigger_references_def
  by (rule fold_add_references) (simp add: extractCommandReferences_def extract_from_nonempty)

lemma command_reference_ids:
  "map ref_id (map (\<lambda>(i, cmd). command_reference pathID src v sp n i cmd) (List.enumerate 0 cmds)) =
     map (\<lambda>i. referenceID ''command'' n pathID [itoa (int i)]) [0..<length cmds]"
proof -
  have "map ref_id (map (\<lambda>(i, cmd). command_reference pathID src v sp n i cmd) (List.enumerate m cmds)) =
     map (\<lambda>i. referenceID ''command'' n pathID [itoa (int i)]) [m..<m + length cmds]" for m
  proof (induction cmds arbitrary: m)
    case (Cons c cmds)
    have "[m..<m + length (c # cmds)] = m # [Suc m..<Suc m + length cmds]"
      by (simp add: upt_conv_Cons del: upt_Suc)
    then show ?case
      using Cons.IH [of "Suc m"] by (simp add: command_reference_def Let_def del: upt_Suc)
  qed simp
  from this [of 0] show ?thesis by simp
qed

lemma kv_trigger_references:
  "\<exists>rs k. doc_references (kv_trigger path pathID sect key token ctrl doc) = doc_references doc @ rs \<and>
     map ref_id rs = map (\<lambda>i. referenceID ''command'' (token_line token) pathID [itoa (int i)]) [0..<k]"
proof (cases "sec_kind sect = SectionState \<and> isTriggerKey key")
  case True
  then show ?thesis
    using command_reference_ids
    by (auto simp: kv_trigger_def Let_def trigger_references_refs token_line_def)
next
  case False
  then show ?thesis
    by (intro exI [of _ "[]"] exI [of _ 0]) (auto simp: kv_trigger_def Let_def)
qed

lemma referenceID_kinds: "referenceID ''state'' n p [] \<noteq> referenceID ''command'' n p [o1]"
  by (simp add: referenceID_def Let_def)

lemma on_key_value_references:
  "\<exists>xs. map ref_id (doc_references (fs_doc (on_key_value path pathID token i st))) =
      map ref_id (doc_references (fs_doc st)) @ xs \<and> distinct xs \<and>
      (\<forall>x\<in>set xs. reference_at pathID (token_line token) x)"
proof (cases "tok_key token = []")
  case True
  then show ?thesis by (simp add: on_key_value_def)
next
  case False
  define doc1 where "doc1 = add_line i (key_value_line token) (fs_doc st)"
  define sect where "sect = doc_sections doc1 ! i"
  define key where "key = to_lower (tok_key token)"
  obtain doc2 b where c2: "kv_command path pathID sect key token doc1 = (doc2, b)" by fastforce
  obtain ctrl doc3 b2 where c3: "kv_controller pathID sect key token (fs_controller st) doc2 = (ctrl, doc3, b2)"
    by (metis prod_cases3)
  have r2: "doc_references doc2 = doc_references (fs_doc st)"
    using kv_command_sections(2) [of path pathID sect key token doc1] unfolding c2 by (simp add: doc1_def)
  obtain rs where r3: "doc_references doc3 = doc_references doc2 @ rs"
    "rs = [] \<or> map ref_id rs = [referenceID ''state'' (token_line token) pathID []]"
    using kv_controller_references [of pathID sect key token "fs_controller st" doc2] c3 by auto
  obtain qs k where r4: "doc_references (kv_trigger path pathID sect key token ctrl doc3) = doc_references doc3 @ qs"
    "map ref_id qs = map (\<lambda>i. referenceID ''command'' (token_line token) pathID [itoa (int i)]) [0..<k]"
    using kv_trigger_references by blast
  have d4: "distinct (map ref_id qs)"
    unfolding r4(2) by (auto simp: distinct_map inj_on_def dest: referenceID_command_inj)
  have at: "\<forall>x \<in> set (map ref_id qs). reference_at pathID (token_line token) x"
    unfolding r4(2) by (auto simp: reference_at_def)
  have d34: "distinct (map ref_id (rs @ qs))" and at34: "\<forall>x \<in> set (map ref_id (rs @ qs)). reference_at pathID (token_line token) x"
    using r3(2) r4(2) d4 at referenceID_kinds by (auto simp: reference_at_def)
  show ?thesis
    using False c2 c3 r2 r3 r4(1) d34 at34
    by (cases b; cases b2)
      (auto simp: on_key_value_def doc1_def [symmetric] sect_def [symmetric] key_def [symmetric] Let_def)
qed

lemma step_references:
  "\<exists>xs. map ref_id (doc_references (fs_doc (from_syntax_step path pathID token st))) =
      map ref_id (doc_references (fs_doc st)) @ xs \<and> distinct xs \<and>
      (\<forall>x\<in>set xs. is_code token \<and> reference_at pathID (token_line token) x)"
proof (cases "tok_kind token = TokenKeyValue")
  case True
  then have "is_code token" by (simp add: is_code_def)
  with True on_key_value_references [of path pathID token _ st] show ?thesis
    by (cases "fs_current st") (simp_all add: from_syntax_step_def orphan_line_def)
next
  case False
  have "doc_references (fs_doc (from_syntax_step path pathID token st)) = doc_references (fs_doc st)"
    using False
    by (cases "tok_kind token"; cases "fs_current st")
      (simp_all add: from_syntax_step_def on_section_def on_comment_def on_malformed_def orphan_line_def
        statedef_symbol_def Let_def split: SectionKind.split)
  then show ?thesis by simp
qed

lemma fold_references_distinct:
  assumes "distinct (map token_line (filter is_code tokens))"
  shows "distinct (map ref_id (doc_references (FromSyntax path secs tokens)))"
  unfolding FromSyntax_def
  by (rule fold_distinct_ids [where items = "\<lambda>st. map ref_id (doc_references (fs_doc st))"
        and code = is_code and line = token_line and at = "reference_at (canonicalPathID path)"])
    (use step_references assms reference_at_inj in \<open>auto simp: from_syntax_init_def NewDocument_def\<close>)

section \<open>Diagnostics\<close>

definition diags_ok :: "string \<Rightarrow> Document \<Rightarrow> bool" where
  "diags_ok path doc \<longleftrightarrow> (\<forall>d \<in> set (doc_diagnostics doc). diagnostic_ok d \<and> dg_path d = path)"

lemma diags_ok_add_diag:
  "1 \<le> n \<Longrightarrow> diags_ok path doc \<Longrightarrow> diags_ok path (add_diag (makeDiagnostic path sev msg c n sp) doc)"
  using makeDiagnostic_ok by (simp add: diags_ok_def) (simp add: makeDiagnostic_def Let_def)

lemma diags_ok_updates [simp]:
  "diags_ok path (add_symbol s doc) = diags_ok path doc"
  "diags_ok path (add_line i l doc) = diags_ok path doc"
  "diags_ok path (doc\<lparr>doc_sections := ss\<rparr>) = diags_ok path doc"
  by (simp_all add: diags_ok_def)

lemma diags_ok_on_key_value:
  assumes "1 \<le> token_line token" "diags_ok path (fs_doc st)"
  shows "diags_ok path (fs_doc (on_key_value path pathID token i st))"
proof -
  note ln = assms(1) [unfolded token_line_def]
  have c: "diags_ok path (fst (kv_command path pathID sect k token doc))" if "diags_ok path doc" for sect k doc
    using that ln by (simp add: kv_command_def command_name_key_def Let_def diags_ok_add_diag)
  have t: "diags_ok path (kv_trigger path pathID sect k token ctrl doc)" if "diags_ok path doc" for sect k ctrl doc
    using that ln by (simp add: kv_trigger_def Let_def diags_ok_add_diag)
      (simp add: diags_ok_def trigger_references_sel)
  have k: "diags_ok path (fst (snd (kv_controller pathID sect k token ctrl doc)))" if "diags_ok path doc" for sect k ctrl doc
    using that emitted_sel(3) [OF controller_key(1)]
    by (simp add: kv_controller_def case_prod_beta diags_ok_def split: option.split)
  show ?thesis
    using assms ln by (simp add: on_key_value_def Let_def case_prod_beta diags_ok_add_diag c t k)
qed

lemma step_diags:
  assumes "1 \<le> token_line token" "diags_ok path (fs_doc st)"
  shows "diags_ok path (fs_doc (from_syntax_step path pathID token st))"
  using assms diags_ok_on_key_value [OF assms]
  by (cases "tok_kind token"; cases "fs_current st")
    (simp_all add: from_syntax_step_def on_section_def on_comment_def on_malformed_def orphan_line_def
      statedef_symbol_def Let_def token_line_def diags_ok_add_diag split: SectionKind.split)

lemma fold_diags_ok:
  assumes "\<And>t. t \<in> set tokens \<Longrightarrow> 1 \<le> token_line t"
  shows "diags_ok path (FromSyntax path secs tokens)"
proof -
  have "diags_ok path (fs_doc (from_syntax_init path))"
    by (simp add: from_syntax_init_def NewDocument_def diags_ok_def)
  then show ?thesis
    unfolding FromSyntax_def
    by (rule fold_invariant_list [where P = "\<lambda>st. diags_ok path (fs_doc st)"]) (rule step_diags [OF assms])
qed

end
