(* ===== verification/Parser_Claims.thy ===== *)
theory Parser_Claims
  imports Parser_Props
begin

text \<open>
  What the parser promises its clients (\<^verbatim>\<open>internal/index\<close>, \<^verbatim>\<open>internal/semantics\<close>, the rename provider),
  stated of \<^verbatim>\<open>parser.Parse\<close> on any path and any bytes.
\<close>

lemma from_syntax_inv: "fs_inv (fold (from_syntax_step path pathID) tokens (from_syntax_init path))"
  by (rule fs_inv_fold [OF fs_inv_init])

lemma from_syntax_refs: "refs_ok (FromSyntax path secs tokens)"
  using from_syntax_inv by (simp add: FromSyntax_def fs_inv_def)

lemma from_syntax_lines: "all_lines (FromSyntax path secs tokens) = section_lines False tokens"
  unfolding FromSyntax_def
  by (subst fold_lines [OF fs_inv_init]) (simp add: from_syntax_init_def NewDocument_def all_lines_def)

lemma from_syntax_headers:
  "header_symbols (FromSyntax path secs tokens) = state_headers (FromSyntax path secs tokens)"
  unfolding FromSyntax_def
  by (rule fold_inv [where P = "\<lambda>st. header_symbols (fs_doc st) = state_headers (fs_doc st)"])
    (simp_all add: step_headers, simp add: from_syntax_init_def NewDocument_def header_symbols_def
      state_headers_def)

text \<open>Parsing never fails, and every reference of the parsed document starts at a state controller
  symbol of the same document and is well formed: its target is \<^verbatim>\<open>state:\<close> or \<^verbatim>\<open>command:\<close> followed by a
  non-empty value, the alias \<^verbatim>\<open>+1\<close> has been normalised away, and a state reference is dynamic exactly
  when its value is not an integer.\<close>

theorem parsed_references_sound:
  "\<exists>doc. parser_Parse path source = Some doc \<and>
     list_all (\<lambda>r. reference_ok r \<and>
       list_ex (\<lambda>s. sym_kind s = SymbolStateController \<and> sym_id s = ref_source r) (doc_symbols doc))
       (doc_references doc)"
  using from_syntax_refs [of "syntax_normalizePath path" "snd (parseSyntaxLines source)" "fst (parseSyntaxLines source)"]
  by (fastforce simp: parser_Parse_eq refs_ok_def controller_ids_def list_all_iff list_ex_iff)

text \<open>No line of a section is lost, duplicated, reordered or attributed to the wrong section: the
  lines of the parsed document, section after section, are the lines its tokens stand for, in the
  order of the file, from the first section header on.\<close>

theorem parsed_lines_complete:
  "\<exists>doc. parser_Parse path source = Some doc \<and>
     concat (map sec_lines (doc_sections doc)) = section_lines False (fst (parseSyntaxLines source))"
  using from_syntax_lines by (simp add: parser_Parse_eq all_lines_def [symmetric])

text \<open>C12: The identifiers the IR hands out are unique within a document: no two symbols and no two
  references of a parsed file share an identifier, whatever the file holds.\<close>

theorem parsed_ids_unique:
  "\<exists>doc. parser_Parse path source = Some doc \<and>
     distinct (map sym_id (doc_symbols doc)) \<and> distinct (map ref_id (doc_references doc))"
  using fold_symbols_distinct [OF code_tokens_distinct] fold_references_distinct [OF code_tokens_distinct]
  by (simp add: parser_Parse_eq)

text \<open>Every \<^verbatim>\<open>[Statedef]\<close> and \<^verbatim>\<open>[State]\<close> header of the parsed file makes exactly one symbol of the
  matching kind with the header's text and span, in the order of the file, and no other symbol is a
  state definition or a controller.\<close>

theorem parsed_headers_have_symbols:
  "\<exists>doc. parser_Parse path source = Some doc \<and>
     map (\<lambda>s. (sym_section s, sym_span s, sym_kind s))
       (filter (\<lambda>s. sym_kind s \<in> {SymbolStateDef, SymbolStateController}) (doc_symbols doc)) =
     concat (map (\<lambda>s. map (\<lambda>k. (sec_header s, sec_span s, k)) (header_symbol_kind (sec_kind s)))
       (doc_sections doc))"
  using from_syntax_headers by (simp add: parser_Parse_eq header_symbols_def state_headers_def)

text \<open>Every diagnostic the parser reports can be shown: it names the normalised path of the file,
  its positions are one-based and it does not end before it starts.\<close>

theorem parsed_diagnostics_placeable:
  "\<exists>doc. parser_Parse path source = Some doc \<and>
     list_all (\<lambda>d. diagnostic_ok d \<and> dg_path d = syntax_normalizePath path) (doc_diagnostics doc)"
  using fold_diags_ok [of "fst (parseSyntaxLines source)" "syntax_normalizePath path"] token_line_bounds
  by (simp add: parser_Parse_eq diags_ok_def list_all_iff)

text \<open>The scanner splits a file in the only way that loses nothing and cuts at line terminators: a
  list of (text, terminator) pairs is what \<^verbatim>\<open>splitLines\<close> returns for a non-empty file if and only if
  no text holds a CR or LF, every line but the last has a terminator, no CR terminator stands before an
  LF, and the pairs in order are the file; the lines are numbered from one.\<close>

theorem split_lines_exact:
  "(s \<noteq> [] \<and> map (\<lambda>l. (li_text l, li_ending l)) (splitLines s) = ps \<longleftrightarrow>
      s \<noteq> [] \<and> lines_ok ps \<and> concat (map (\<lambda>(t, e). t @ e) ps) = s) \<and>
   map li_no (splitLines s) = map (\<lambda>i. 1 + int i) [0..<length (splitLines s)]"
  using scanner.split_ok [of s] scanner.split_lossless [of s] scanner.split_unique [of ps s]
    splitLines_numbers [of s]
  by (auto simp: line_pair_def [abs_def] join_lines_def)

text \<open>The span of a key-value or malformed-line token lies on one line of the file and its start
  column points at the token's text, byte for byte. Its end column is one past the half-open end that
  the comment of \<^verbatim>\<open>ir.SourceSpan\<close> promises.\<close>

theorem token_spans_point_at_text:
  "list_all (\<lambda>t.
     list_ex (\<lambda>l. li_no l = Line (Start (tok_span t)) \<and> li_no l = Line (End (tok_span t)) \<and>
        take (length (tok_text t)) (drop (nat (Column (Start (tok_span t))) - 1) (li_text l)) = tok_text t \<and>
        Column (End (tok_span t)) = Column (Start (tok_span t)) + int (length (tok_text t)) + 1)
       (splitLines source))
     (filter (\<lambda>t. tok_kind t \<in> {TokenKeyValue, TokenMalformed}) (fst (parseSyntaxLines source)))"
  using token_source_line [of _ source]
  by (fastforce simp: list_all_iff list_ex_iff token_on_line_def token_line_def)

end
