(* ===== verification/DocumentSnapshot.thy ===== *)
theory DocumentSnapshot
  imports Parser_Props
begin

text \<open>
  \<^verbatim>\<open>internal/document/document.go\<close>: the immutable snapshot of a parsed file, its construction with
  every error, its accessors and its equality. The package has its own copies of \<^verbatim>\<open>splitLines\<close> and
  \<^verbatim>\<open>normalizePath\<close>; the copies are modelled on their own and compared with the originals.
  A \<^verbatim>\<open>*Snapshot\<close> is \<open>Snapshot option\<close>, \<^const>\<open>None\<close> for \<^verbatim>\<open>nil\<close>.
\<close>

section \<open>The snapshot\<close>

datatype snapshot_error = ErrNilSource | ErrBlankPath | ErrInvalidVersion string | ErrNilParsedDoc

record Snapshot =
  snap_raw :: string
  snap_lineEndings :: "string list"
  snap_normalizedPath :: string
  snap_fileType :: string
  snap_contentHash :: string
  snap_version :: string
  snap_identityContract :: string
  snap_parsedDoc :: "Document option"

record doc_lineInfo =
  dl_text :: string
  dl_ending :: string

text \<open>The loop of \<^verbatim>\<open>splitLines\<close>; \<open>cur\<close> is \<^verbatim>\<open>source[start:i]\<close>. When the loop ends \<^verbatim>\<open>start\<close> is at most
  \<^verbatim>\<open>len(source)\<close>, so one of the two branches after it appends the last line.\<close>

fun document_scan :: "string \<Rightarrow> string \<Rightarrow> doc_lineInfo list" where
  "document_scan cur [] = [\<lparr>dl_text = cur, dl_ending = []\<rparr>]"
| "document_scan cur (c # cs) =
     (if c = CR then
        (case cs of
           d # ds \<Rightarrow>
             if d = LF then \<lparr>dl_text = cur, dl_ending = [CR, LF]\<rparr> # document_scan [] ds
             else \<lparr>dl_text = cur, dl_ending = [CR]\<rparr> # document_scan [] cs
         | [] \<Rightarrow> \<lparr>dl_text = cur, dl_ending = [CR]\<rparr> # document_scan [] cs)
      else if c = LF then \<lparr>dl_text = cur, dl_ending = [LF]\<rparr> # document_scan [] cs
      else document_scan (cur @ [c]) cs)"

definition document_splitLines :: "string \<Rightarrow> doc_lineInfo list" where
  "document_splitLines source = (if source = [] then [] else document_scan [] source)"

definition document_lineEndings :: "string \<Rightarrow> string list" where
  "document_lineEndings source = map dl_ending (document_splitLines source)"

definition document_normalizePath :: "string \<Rightarrow> string" where
  "document_normalizePath path = trim_prefix (path_clean (trim_space path)) ''./''"

definition NewSnapshot :: "string \<Rightarrow> string option \<Rightarrow> snapshot_error + Snapshot" where
  "NewSnapshot path source_opt =
     (case source_opt of
        None \<Rightarrow> Inl ErrNilSource
      | Some source \<Rightarrow>
          (let normalizedPath = document_normalizePath path in
           if trim_space path = [] then Inl ErrBlankPath
           else if normalizedPath = [] then Inl ErrBlankPath
           else case parser_Parse normalizedPath source of
                  None \<Rightarrow> Inl ErrNilParsedDoc
                | Some doc \<Rightarrow>
                    if doc_version doc \<noteq> IdentityContractVersion
                    then Inl (ErrInvalidVersion (doc_version doc))
                    else Inr \<lparr>snap_raw = source, snap_lineEndings = document_lineEndings source,
                              snap_normalizedPath = normalizedPath, snap_fileType = doc_file_type doc,
                              snap_contentHash = sha256_hex source, snap_version = doc_version doc,
                              snap_identityContract = IdentityContractVersion,
                              snap_parsedDoc = Some doc\<rparr>))"

text \<open>\<^verbatim>\<open>MustSnapshot\<close> panics with the error: \<^const>\<open>Inl\<close> here is the panic.\<close>

definition MustSnapshot :: "string \<Rightarrow> string option \<Rightarrow> snapshot_error + Snapshot" where
  "MustSnapshot path source_opt =
     (case NewSnapshot path source_opt of Inl err \<Rightarrow> Inl err | Inr snapshot \<Rightarrow> Inr snapshot)"

definition Snapshot_NormalizedPath :: "Snapshot option \<Rightarrow> string" where
  "Snapshot_NormalizedPath s = (case s of None \<Rightarrow> [] | Some sn \<Rightarrow> snap_normalizedPath sn)"

definition Snapshot_FileType :: "Snapshot option \<Rightarrow> string" where
  "Snapshot_FileType s = (case s of None \<Rightarrow> [] | Some sn \<Rightarrow> snap_fileType sn)"

definition Snapshot_Hash :: "Snapshot option \<Rightarrow> string" where
  "Snapshot_Hash s = (case s of None \<Rightarrow> [] | Some sn \<Rightarrow> snap_contentHash sn)"

definition Snapshot_Version :: "Snapshot option \<Rightarrow> string" where
  "Snapshot_Version s = (case s of None \<Rightarrow> [] | Some sn \<Rightarrow> snap_version sn)"

definition Snapshot_IdentityContract :: "Snapshot option \<Rightarrow> string" where
  "Snapshot_IdentityContract s = (case s of None \<Rightarrow> [] | Some sn \<Rightarrow> snap_identityContract sn)"

definition Snapshot_ParsedDocument :: "Snapshot option \<Rightarrow> Document option" where
  "Snapshot_ParsedDocument s = (case s of None \<Rightarrow> None | Some sn \<Rightarrow> snap_parsedDoc sn)"

definition Snapshot_Bytes :: "Snapshot option \<Rightarrow> string option" where
  "Snapshot_Bytes s = (case s of None \<Rightarrow> None | Some sn \<Rightarrow> copy_bytes (snap_raw sn))"

definition Snapshot_LineEndings :: "Snapshot option \<Rightarrow> string list" where
  "Snapshot_LineEndings s = (case s of None \<Rightarrow> [] | Some sn \<Rightarrow> snap_lineEndings sn)"

text \<open>\<^verbatim>\<open>Equal\<close>. The two loops compare element by element under an equal-length guard. A snapshot with a
  \<^verbatim>\<open>nil\<close> parsed document equals another such snapshot on its header fields alone.\<close>

fun equal_elements :: "'a list \<Rightarrow> 'a list \<Rightarrow> bool" where
  "equal_elements (x # xs) (y # ys) = (if x \<noteq> y then False else equal_elements xs ys)"
| "equal_elements _ _ = True"

definition Snapshot_Equal :: "Snapshot option \<Rightarrow> Snapshot option \<Rightarrow> bool" where
  "Snapshot_Equal so oo =
     (case (so, oo) of
        (Some s, Some t) \<Rightarrow>
          if snap_normalizedPath s \<noteq> snap_normalizedPath t then False
          else if snap_fileType s \<noteq> snap_fileType t then False
          else if snap_contentHash s \<noteq> snap_contentHash t then False
          else if snap_version s \<noteq> snap_version t then False
          else if snap_identityContract s \<noteq> snap_identityContract t then False
          else
            (case (snap_parsedDoc s, snap_parsedDoc t) of
               (Some d, Some e) \<Rightarrow>
                 if length (snap_raw s) \<noteq> length (snap_raw t) then False
                 else if \<not> equal_elements (snap_raw s) (snap_raw t) then False
                 else if length (snap_lineEndings s) \<noteq> length (snap_lineEndings t) then False
                 else if \<not> equal_elements (snap_lineEndings s) (snap_lineEndings t) then False
                 else doc_version d = doc_version e \<and> doc_path d = doc_path e \<and>
                      doc_file_type d = doc_file_type e
             | (None, None) \<Rightarrow> True
             | _ \<Rightarrow> False)
      | (None, None) \<Rightarrow> True
      | _ \<Rightarrow> False)"

section \<open>The copies agree\<close>

lemma document_scan_eq: "map line_pair (scan_lines no cur s) = map (\<lambda>l. (dl_text l, dl_ending l)) (document_scan cur s)"
proof (induction no cur s rule: scan_lines.induct)
  case (2 no cur c cs)
  then show ?case by (cases cs) simp_all
qed simp

lemma document_split_pairs:
  "map (\<lambda>l. (dl_text l, dl_ending l)) (document_splitLines s) = map line_pair (splitLines s)"
  by (simp add: document_splitLines_def splitLines_def document_scan_eq)

interpretation snapshot: line_splitter document_splitLines "\<lambda>l. (dl_text l, dl_ending l)"
  by unfold_locales
    (simp_all only: document_split_pairs scanner.split_ok scanner.split_lossless not_False_eq_True,
      simp add: document_splitLines_def)

text \<open>A cleaned path never starts with \<^verbatim>\<open>./\<close>, so the \<^verbatim>\<open>TrimPrefix\<close> of \<^verbatim>\<open>normalizePath\<close> does nothing.\<close>

lemma path_clean_no_dot_slash: "\<not> has_prefix (path_clean p) ''./''"
proof
  assume "has_prefix (path_clean p) ''./''"
  then obtain r where r: "path_clean p = CHR ''.'' # slash # r"
    by (auto simp: has_prefix_iff)
  then have "\<not> is_abs (path_clean p)" by (simp add: is_abs_def)
  then have "\<not> is_abs p" by simp
  from split_rel_clean [OF this] r have "''.'' # split_on slash r = clean_segs p"
    by (simp split: if_splits)
  then have "''.'' \<in> set (clean_segs p)" by (metis list.set_intros(1))
  then show False using clean_segs_seg(2) by blast
qed

lemma document_normalizePath_eq: "document_normalizePath path = path_clean (trim_space path)"
  using path_clean_no_dot_slash by (simp add: document_normalizePath_def trim_prefix_def)

section \<open>Equality\<close>

lemma equal_elements_eq: "length xs = length ys \<Longrightarrow> equal_elements xs ys \<longleftrightarrow> xs = ys"
  by (induction xs ys rule: equal_elements.induct) auto

definition doc_meta :: "Document \<Rightarrow> string \<times> string \<times> string" where
  "doc_meta d = (doc_version d, doc_path d, doc_file_type d)"

lemma doc_meta_updates [simp]:
  "doc_meta (add_diag g d) = doc_meta d" "doc_meta (add_symbol s d) = doc_meta d"
  "doc_meta (add_reference r d) = doc_meta d" "doc_meta (add_line i l d) = doc_meta d"
  "doc_meta (d\<lparr>doc_sections := ss\<rparr>) = doc_meta d"
  by (simp_all add: doc_meta_def add_diag_def add_symbol_def add_reference_def add_line_def)

lemma doc_meta_emit [simp]: "doc_meta (snd (emitStateReference ctx doc sp pathID)) = doc_meta doc"
  by (simp add: emitStateReference_def Let_def)

lemma doc_meta_triggers [simp]: "doc_meta (trigger_references pathID src v sp n doc) = doc_meta doc"
  unfolding trigger_references_def
  by (rule fold_inv [where P = "\<lambda>d. doc_meta d = doc_meta doc"]) (auto simp: case_prod_beta)

lemma doc_meta_key_value: "doc_meta (fs_doc (on_key_value path pathID token i st)) = doc_meta (fs_doc st)"
  by (simp add: on_key_value_def kv_command_def command_name_key_def kv_controller_def controller_key_def
      kv_trigger_def Let_def case_prod_beta split: option.split)

lemma doc_meta_step: "doc_meta (fs_doc (from_syntax_step path pathID token st)) = doc_meta (fs_doc st)"
  by (cases "tok_kind token"; cases "fs_current st")
    (simp_all add: from_syntax_step_def doc_meta_key_value on_section_def on_comment_def on_malformed_def
      orphan_line_def statedef_symbol_def Let_def split: SectionKind.split)

lemma from_syntax_meta:
  "doc_meta (FromSyntax path secs tokens) = (IdentityContractVersion, path, detectFileType path)"
  unfolding FromSyntax_def
  by (rule fold_inv [where P = "\<lambda>st. doc_meta (fs_doc st) = (IdentityContractVersion, path, detectFileType path)"])
    (simp_all add: doc_meta_step, simp add: from_syntax_init_def NewDocument_def doc_meta_def)

lemma from_syntax_meta_sel [simp]:
  "doc_version (FromSyntax path secs tokens) = IdentityContractVersion"
  "doc_path (FromSyntax path secs tokens) = path"
  "doc_file_type (FromSyntax path secs tokens) = detectFileType path"
  using from_syntax_meta [of path secs tokens] by (simp_all add: doc_meta_def)

text \<open>The snapshot \<^verbatim>\<open>NewSnapshot\<close> makes of a path that is not blank.\<close>

definition snapshot_of :: "string \<Rightarrow> string \<Rightarrow> Snapshot" where
  "snapshot_of path source =
     (let n = path_clean (trim_space path); m = syntax_normalizePath n;
          doc = FromSyntax m (snd (parseSyntaxLines source)) (fst (parseSyntaxLines source))
      in \<lparr>snap_raw = source, snap_lineEndings = map li_ending (splitLines source),
          snap_normalizedPath = n, snap_fileType = detectFileType m,
          snap_contentHash = sha256_hex source, snap_version = IdentityContractVersion,
          snap_identityContract = IdentityContractVersion, snap_parsedDoc = Some doc\<rparr>)"

lemma document_lineEndings_eq: "document_lineEndings s = map li_ending (splitLines s)"
proof -
  have "map snd (map (\<lambda>l. (dl_text l, dl_ending l)) (document_splitLines s)) = map snd (map line_pair (splitLines s))"
    by (simp only: document_split_pairs)
  then show ?thesis by (simp add: document_lineEndings_def line_pair_def comp_def)
qed

lemma NewSnapshot_eq:
  "NewSnapshot path (Some source) = (if trim_space path = [] then Inl ErrBlankPath else Inr (snapshot_of path source))"
  by (simp add: NewSnapshot_def Let_def document_normalizePath_eq parser_Parse_eq snapshot_of_def
      document_lineEndings_eq)

lemma snapshot_of_equal:
  "Snapshot_Equal (Some (snapshot_of p b)) (Some (snapshot_of q c)) \<longleftrightarrow>
     path_clean (trim_space p) = path_clean (trim_space q) \<and> b = c"
  by (auto simp: Snapshot_Equal_def snapshot_of_def Let_def equal_elements_eq)

text \<open>The path a snapshot reports is not always the path of the document it holds: the two packages
  normalise the path once each, and a path that cleans to one ending in white space loses the white
  space on the second pass.\<close>

lemma snapshot_path_agrees:
  "trim_space (path_clean (trim_space path)) = path_clean (trim_space path) \<Longrightarrow>
   map_option doc_path (snap_parsedDoc (snapshot_of path source)) = Some (snap_normalizedPath (snapshot_of path source))"
  by (simp add: snapshot_of_def Let_def syntax_normalizePath_def)

lemma snapshot_path_differs:
  "snap_normalizedPath (snapshot_of ''a /.'' source) = ''a '' \<and>
   map_option doc_path (snap_parsedDoc (snapshot_of ''a /.'' source)) = Some ''a''"
proof -
  have "path_clean (trim_space ''a /.'') = ''a ''" "syntax_normalizePath ''a '' = ''a''" by code_simp+
  then show ?thesis by (simp add: snapshot_of_def Let_def)
qed

section \<open>Claims\<close>

text \<open>\<^verbatim>\<open>NewSnapshot\<close> fails in exactly two ways, in this order: on a \<^verbatim>\<open>nil\<close> source and on a path of
  white space. Its errors for an invalid parser version and a \<^verbatim>\<open>nil\<close> parser document never happen.
  Otherwise the snapshot holds the source bytes and their digest, the normalised path, the line
  endings the scanner finds, and the document the parser makes of that path and those bytes.\<close>

theorem new_snapshot_result:
  "NewSnapshot path source_opt =
     (case source_opt of
        None \<Rightarrow> Inl ErrNilSource
      | Some source \<Rightarrow>
          if trim_space path = [] then Inl ErrBlankPath
          else Inr \<lparr>snap_raw = source, snap_lineEndings = map li_ending (splitLines source),
                    snap_normalizedPath = path_clean (trim_space path),
                    snap_fileType = detectFileType (syntax_normalizePath (path_clean (trim_space path))),
                    snap_contentHash = sha256_hex source, snap_version = IdentityContractVersion,
                    snap_identityContract = IdentityContractVersion,
                    snap_parsedDoc = parser_Parse (path_clean (trim_space path)) source\<rparr>)"
  by (simp add: NewSnapshot_eq snapshot_of_def Let_def parser_Parse_eq split: option.split)
    (simp add: NewSnapshot_def)

text \<open>Two snapshots the package made are \<^verbatim>\<open>Equal\<close> if and only if they were made of the same bytes
  under paths that normalise to the same path: the eight fields it compares decide neither more nor
  less.\<close>

theorem snapshot_equal_iff:
  assumes "NewSnapshot p (Some b) = Inr s" and "NewSnapshot q (Some c) = Inr t"
  shows "Snapshot_Equal (Some s) (Some t) \<longleftrightarrow>
    document_normalizePath p = document_normalizePath q \<and> b = c"
  using assms by (auto simp: NewSnapshot_eq snapshot_of_equal document_normalizePath_eq split: if_splits)

theorem snapshot_equal_iff_witness:
  "\<exists>s t. NewSnapshot ''a.cns'' (Some ''x'') = Inr s \<and> NewSnapshot ''./a.cns'' (Some ''x'') = Inr t \<and>
     Snapshot_Equal (Some s) (Some t)"
proof -
  have "NewSnapshot ''a.cns'' (Some ''x'') = Inr (snapshot_of ''a.cns'' ''x'')"
    "NewSnapshot ''./a.cns'' (Some ''x'') = Inr (snapshot_of ''./a.cns'' ''x'')"
  proof -
    have "trim_space ''a.cns'' \<noteq> []" "trim_space ''./a.cns'' \<noteq> []" by code_simp+
    then show "NewSnapshot ''a.cns'' (Some ''x'') = Inr (snapshot_of ''a.cns'' ''x'')"
      "NewSnapshot ''./a.cns'' (Some ''x'') = Inr (snapshot_of ''./a.cns'' ''x'')"
      by (simp_all add: NewSnapshot_eq)
  qed
  moreover have "document_normalizePath ''a.cns'' = document_normalizePath ''./a.cns''" by code_simp
  ultimately show ?thesis using snapshot_equal_iff by blast
qed

end
