(* ===== verification/Go_Utf8.thy ===== *)
theory Go_Utf8
  imports Go_Strings
begin

text \<open>
  Go's \<^verbatim>\<open>unicode/utf8\<close> and \<^verbatim>\<open>strconv.Unquote\<close> on byte strings: decoding of one rune with the error
  rune of width one, encoding, and the escape sequences of a double-quoted string.
\<close>

section \<open>Runes\<close>

text \<open>\<^verbatim>\<open>utf8.RuneStart\<close>: not a continuation byte.\<close>

definition rune_start :: "char \<Rightarrow> bool" where
  "rune_start c \<longleftrightarrow> \<not> (0x80 \<le> byte_of c \<and> byte_of c < 0xC0)"

definition rune_error :: nat where
  "rune_error = 0xFFFD"

definition is_cont :: "char \<Rightarrow> bool" where
  "is_cont c \<longleftrightarrow> 0x80 \<le> byte_of c \<and> byte_of c < 0xC0"

definition in_bytes :: "nat \<Rightarrow> nat \<Rightarrow> char \<Rightarrow> bool" where
  "in_bytes lo hi c \<longleftrightarrow> lo \<le> byte_of c \<and> byte_of c \<le> hi"

text \<open>The allowed second bytes after a lead byte, \<^const>\<open>None\<close> for a byte that starts no long rune,
  with the number of bytes of the rune.\<close>

definition lead_byte :: "char \<Rightarrow> (nat \<times> nat \<times> nat) option" where
  "lead_byte c =
     (let b = byte_of c in
      if 0xC2 \<le> b \<and> b \<le> 0xDF then Some (2, 0x80, 0xBF)
      else if b = 0xE0 then Some (3, 0xA0, 0xBF)
      else if b = 0xED then Some (3, 0x80, 0x9F)
      else if 0xE1 \<le> b \<and> b \<le> 0xEF then Some (3, 0x80, 0xBF)
      else if b = 0xF0 then Some (4, 0x90, 0xBF)
      else if b = 0xF4 then Some (4, 0x80, 0x8F)
      else if 0xF1 \<le> b \<and> b \<le> 0xF3 then Some (4, 0x80, 0xBF)
      else None)"

text \<open>\<^verbatim>\<open>utf8.DecodeRuneInString\<close>: the rune and its width.\<close>

definition decode_rune :: "string \<Rightarrow> nat \<times> nat" where
  "decode_rune s =
     (case s of
        [] \<Rightarrow> (rune_error, 0)
      | c # cs \<Rightarrow>
          if byte_of c < 0x80 then (byte_of c, 1)
          else case lead_byte c of
            None \<Rightarrow> (rune_error, 1)
          | Some (n, lo, hi) \<Rightarrow>
              (case cs of
                 [] \<Rightarrow> (rune_error, 1)
               | d # ds \<Rightarrow>
                   if \<not> in_bytes lo hi d then (rune_error, 1)
                   else if n = 2 then ((byte_of c - 0xC0) * 64 + (byte_of d - 0x80), 2)
                   else case ds of
                          [] \<Rightarrow> (rune_error, 1)
                        | e # es \<Rightarrow>
                            if \<not> is_cont e then (rune_error, 1)
                            else if n = 3
                            then ((byte_of c - 0xE0) * 4096 + (byte_of d - 0x80) * 64 + (byte_of e - 0x80), 3)
                            else case es of
                                   [] \<Rightarrow> (rune_error, 1)
                                 | f # _ \<Rightarrow>
                                     if \<not> is_cont f then (rune_error, 1)
                                     else ((byte_of c - 0xF0) * 262144 + (byte_of d - 0x80) * 4096 +
                                           (byte_of e - 0x80) * 64 + (byte_of f - 0x80), 4)))"

definition valid_rune :: "nat \<Rightarrow> bool" where
  "valid_rune r \<longleftrightarrow> r < 0xD800 \<or> 0xDFFF < r \<and> r \<le> 0x10FFFF"

definition encode_rune :: "nat \<Rightarrow> string" where
  "encode_rune r0 =
     (let r = (if valid_rune r0 then r0 else rune_error) in
      if r < 0x80 then [char_of r]
      else if r < 0x800 then [char_of (0xC0 + r div 64), char_of (0x80 + r mod 64)]
      else if r < 0x10000
      then [char_of (0xE0 + r div 4096), char_of (0x80 + r div 64 mod 64), char_of (0x80 + r mod 64)]
      else [char_of (0xF0 + r div 262144), char_of (0x80 + r div 4096 mod 64),
            char_of (0x80 + r div 64 mod 64), char_of (0x80 + r mod 64)])"

lemma decode_rune_width: "s \<noteq> [] \<Longrightarrow> 0 < snd (decode_rune s) \<and> snd (decode_rune s) \<le> length s"
  by (auto simp: decode_rune_def Let_def split: list.split option.split)

text \<open>A valid rune is decoded from the bytes it is encoded as, whatever follows.\<close>

lemma div_mod_64: "n = r + 64 * k \<Longrightarrow> r < 64 \<Longrightarrow> n div 64 = k \<and> n mod 64 = (r :: nat)"
  by simp

lemma encode_decode2:
  assumes "0xC2 \<le> b" "b \<le> 0xDF" "0x80 \<le> x" "x \<le> 0xBF"
  shows "encode_rune ((b - 0xC0) * 64 + (x - 0x80)) = [char_of b, char_of x]"
proof -
  define p q where "p = b - 0xC0" and "q = x - 0x80"
  then have "b = 0xC0 + p" "x = 0x80 + q" "2 \<le> p" "p < 32" "q < 64" using assms by auto
  then show ?thesis by (simp add: encode_rune_def valid_rune_def Let_def)
qed

lemma encode_decode3:
  assumes "0xE0 \<le> b" "b \<le> 0xEF" "0x80 \<le> x" "x \<le> 0xBF" "0x80 \<le> y" "y \<le> 0xBF"
    and "b = 0xE0 \<longrightarrow> 0xA0 \<le> x" "b = 0xED \<longrightarrow> x \<le> 0x9F"
  shows "encode_rune ((b - 0xE0) * 4096 + (x - 0x80) * 64 + (y - 0x80)) = [char_of b, char_of x, char_of y]"
proof -
  define p q r where d: "p = b - 0xE0" "q = x - 0x80" "r = y - 0x80"
  then have e: "b = 0xE0 + p" "x = 0x80 + q" "y = 0x80 + r" "p < 16" "q < 64" "r < 64"
    "p = 0 \<longrightarrow> 32 \<le> q" "p = 13 \<longrightarrow> q < 32" using assms by auto
  define n where "n = p * 4096 + q * 64 + r"
  have "n = r + 64 * (q + 64 * p)" by (simp add: n_def)
  from div_mod_64 [OF this e(6)] div_mod_64 [OF refl e(5), of p]
  have n: "n div 4096 = p" "n div 64 mod 64 = q" "n mod 64 = r"
    using div_mult2_eq [of n 64 64] by simp_all
  have "0x800 \<le> n" "n < 0x10000" unfolding n_def using e by (cases "p = 0"; auto)+
  moreover have "valid_rune n"
  proof (cases "p \<le> 13")
    case True
    then have "n < 0xD800" unfolding n_def using e by (cases "p = 13") auto
    then show ?thesis by (simp add: valid_rune_def)
  next
    case False
    then have "0xDFFF < n" unfolding n_def by auto
    with \<open>n < 0x10000\<close> show ?thesis by (simp add: valid_rune_def)
  qed
  ultimately show ?thesis using n e by (simp add: encode_rune_def Let_def d(1-3) [symmetric] n_def [symmetric])
qed

lemma encode_decode4:
  assumes "0xF0 \<le> b" "b \<le> 0xF4" "0x80 \<le> x" "x \<le> 0xBF" "0x80 \<le> y" "y \<le> 0xBF" "0x80 \<le> z" "z \<le> 0xBF"
    and "b = 0xF0 \<longrightarrow> 0x90 \<le> x" "b = 0xF4 \<longrightarrow> x \<le> 0x8F"
  shows "encode_rune ((b - 0xF0) * 262144 + (x - 0x80) * 4096 + (y - 0x80) * 64 + (z - 0x80)) =
    [char_of b, char_of x, char_of y, char_of z]"
proof -
  define p q r t where d: "p = b - 0xF0" "q = x - 0x80" "r = y - 0x80" "t = z - 0x80"
  then have e: "b = 0xF0 + p" "x = 0x80 + q" "y = 0x80 + r" "z = 0x80 + t" "p \<le> 4" "q < 64" "r < 64" "t < 64"
    "p = 0 \<longrightarrow> 16 \<le> q" "p = 4 \<longrightarrow> q < 16" using assms by auto
  define n where "n = p * 262144 + q * 4096 + r * 64 + t"
  have "n = t + 64 * (r + 64 * (q + 64 * p))" by (simp add: n_def)
  from div_mod_64 [OF this e(8)] div_mod_64 [OF refl e(7), of "q + 64 * p"] div_mod_64 [OF refl e(6), of p]
  have n: "n div 262144 = p" "n div 4096 mod 64 = q" "n div 64 mod 64 = r" "n mod 64 = t"
    using div_mult2_eq [of n 64 64] div_mult2_eq [of n 4096 64] by simp_all
  have "0x10000 \<le> n" unfolding n_def using e by (cases "p = 0") auto
  moreover have "n \<le> 0x10FFFF" unfolding n_def using e by (cases "p = 4") auto
  ultimately show ?thesis using n e
    by (simp add: encode_rune_def valid_rune_def Let_def d(1-4) [symmetric] n_def [symmetric])
qed

lemma decode_rune_encode:
  assumes "decode_rune s = (r, w)" "s \<noteq> []" "\<not> (r = rune_error \<and> w = 1)"
  shows "encode_rune r = take w s" and "decode_rune (take w s @ t) = (r, w)"
proof -
  obtain c cs where s: "s = c # cs" using assms(2) by (cases s) auto
  have "encode_rune r = take w s \<and> decode_rune (take w s @ t) = (r, w)"
  proof (cases "byte_of c < 0x80")
    case True
    with assms show ?thesis by (auto simp: s decode_rune_def encode_rune_def valid_rune_def)
  next
    case big: False
    obtain n lo hi where l: "lead_byte c = Some (n, lo, hi)"
      using assms big by (cases "lead_byte c") (auto simp: s decode_rune_def)
    obtain d ds where cs: "cs = d # ds" using assms big l by (cases cs) (auto simp: s decode_rune_def)
    have d: "in_bytes lo hi d" using assms big l by (auto simp: s cs decode_rune_def split: if_splits)
    consider "n = 2" | "n = 3" | "n = 4" using l by (auto simp: lead_byte_def Let_def split: if_splits)
    then show ?thesis
    proof cases
      case 1
      with l d have b: "0xC2 \<le> byte_of c" "byte_of c \<le> 0xDF" "0x80 \<le> byte_of d" "byte_of d \<le> 0xBF"
        by (auto simp: lead_byte_def Let_def in_bytes_def split: if_splits)
      then show ?thesis using assms(1) big l d 1 encode_decode2 [OF b] by (auto simp: s cs decode_rune_def)
    next
      case 2
      obtain e es where ds: "ds = e # es" using assms big l d 2 by (cases ds) (auto simp: s cs decode_rune_def)
      have e: "is_cont e" using assms big l d 2 by (auto simp: s cs ds decode_rune_def split: if_splits)
      with 2 l d have b: "0xE0 \<le> byte_of c" "byte_of c \<le> 0xEF" "0x80 \<le> byte_of d" "byte_of d \<le> 0xBF"
        "0x80 \<le> byte_of e" "byte_of e \<le> 0xBF" "byte_of c = 0xE0 \<longrightarrow> 0xA0 \<le> byte_of d" "byte_of c = 0xED \<longrightarrow> byte_of d \<le> 0x9F"
        by (auto simp: lead_byte_def Let_def in_bytes_def is_cont_def split: if_splits)
      then show ?thesis using assms(1) big l d e 2 encode_decode3 [OF b] by (auto simp: s cs ds decode_rune_def)
    next
      case 3
      obtain e es where ds: "ds = e # es" using assms big l d 3 by (cases ds) (auto simp: s cs decode_rune_def)
      have e: "is_cont e" using assms big l d 3 by (auto simp: s cs ds decode_rune_def split: if_splits)
      obtain f fs where es: "es = f # fs" using assms big l d 3 e by (cases es) (auto simp: s cs ds decode_rune_def)
      have f: "is_cont f" using assms big l d 3 e by (auto simp: s cs ds es decode_rune_def split: if_splits)
      with 3 l d e have b: "0xF0 \<le> byte_of c" "byte_of c \<le> 0xF4" "0x80 \<le> byte_of d" "byte_of d \<le> 0xBF"
        "0x80 \<le> byte_of e" "byte_of e \<le> 0xBF" "0x80 \<le> byte_of f" "byte_of f \<le> 0xBF"
        "byte_of c = 0xF0 \<longrightarrow> 0x90 \<le> byte_of d" "byte_of c = 0xF4 \<longrightarrow> byte_of d \<le> 0x8F"
        by (auto simp: lead_byte_def Let_def in_bytes_def is_cont_def split: if_splits)
      then show ?thesis using assms(1) big l d e f 3 encode_decode4 [OF b] by (auto simp: s cs ds es decode_rune_def)
    qed
  qed
  then show "encode_rune r = take w s" "decode_rune (take w s @ t) = (r, w)" by auto
qed

section \<open>Unquote\<close>

definition unhex :: "char \<Rightarrow> nat option" where
  "unhex c =
     (let b = byte_of c in
      if 48 \<le> b \<and> b \<le> 57 then Some (b - 48)
      else if 97 \<le> b \<and> b \<le> 102 then Some (b - 87)
      else if 65 \<le> b \<and> b \<le> 70 then Some (b - 55)
      else None)"

fun unhex_all :: "nat \<Rightarrow> string \<Rightarrow> nat option" where
  "unhex_all acc [] = Some acc"
| "unhex_all acc (c # cs) = (case unhex c of None \<Rightarrow> None | Some x \<Rightarrow> unhex_all (acc * 16 + x) cs)"

definition octal :: "char \<Rightarrow> nat option" where
  "octal c = (if 48 \<le> byte_of c \<and> byte_of c \<le> 55 then Some (byte_of c - 48) else None)"

text \<open>\<^verbatim>\<open>strconv.UnquoteChar\<close> with the quote \<^verbatim>\<open>"\<close>: the rune, whether it is written in UTF-8, and what is
  left of the string. A rune of eight hexadecimal digits beyond \<^verbatim>\<open>int32\<close> is out of range either way.\<close>

definition unquote_hex :: "nat \<Rightarrow> string \<Rightarrow> (nat \<times> string) option" where
  "unquote_hex n s =
     (if length s < n then None
      else case unhex_all 0 (take n s) of None \<Rightarrow> None | Some v \<Rightarrow> Some (v, drop n s))"

definition unquote_escape :: "char \<Rightarrow> string \<Rightarrow> (nat \<times> bool \<times> string) option" where
  "unquote_escape c s =
     (if c = CHR ''a'' then Some (7, False, s)
      else if c = CHR ''b'' then Some (8, False, s)
      else if c = CHR ''f'' then Some (12, False, s)
      else if c = CHR ''n'' then Some (10, False, s)
      else if c = CHR ''r'' then Some (13, False, s)
      else if c = CHR ''t'' then Some (9, False, s)
      else if c = CHR ''v'' then Some (11, False, s)
      else if c = CHR ''x'' then
        (case unquote_hex 2 s of None \<Rightarrow> None | Some (v, r) \<Rightarrow> Some (v, False, r))
      else if c = CHR ''u'' \<or> c = CHR ''U'' then
        (case unquote_hex (if c = CHR ''u'' then 4 else 8) s of
           None \<Rightarrow> None
         | Some (v, r) \<Rightarrow> if valid_rune v then Some (v, True, r) else None)
      else case octal c of
        Some v0 \<Rightarrow>
          (case s of
             d # e # r \<Rightarrow>
               (case (octal d, octal e) of
                  (Some x, Some y) \<Rightarrow>
                    (let v = v0 * 64 + x * 8 + y in if 255 < v then None else Some (v, False, r))
                | _ \<Rightarrow> None)
           | _ \<Rightarrow> None)
      | None \<Rightarrow>
          if c = CHR 0x5C then Some (0x5C, False, s)
          else if c = CHR 0x22 then Some (0x22, False, s)
          else None)"

definition unquote_char :: "string \<Rightarrow> (nat \<times> bool \<times> string) option" where
  "unquote_char s =
     (case s of
        [] \<Rightarrow> None
      | c # cs \<Rightarrow>
          if c = CHR 0x22 then None
          else if 0x80 \<le> byte_of c
          then (case decode_rune s of (r, width) \<Rightarrow> Some (r, True, drop width s))
          else if c \<noteq> CHR 0x5C then Some (byte_of c, False, cs)
          else case cs of [] \<Rightarrow> None | d # ds \<Rightarrow> unquote_escape d ds)"

lemma unquote_hex_length: "unquote_hex n s = Some (v, r) \<Longrightarrow> length r \<le> length s"
  by (auto simp: unquote_hex_def split: if_splits option.splits)

lemma unquote_escape_length: "unquote_escape c s = Some (v, b, r) \<Longrightarrow> length r \<le> length s"
  by (auto simp: unquote_escape_def Let_def dest: unquote_hex_length
      split: if_splits option.splits list.splits prod.splits)

lemma unquote_char_length: "unquote_char s = Some (v, b, r) \<Longrightarrow> length r < length s"
proof -
  assume a: "unquote_char s = Some (v, b, r)"
  then obtain c cs where s: "s = c # cs" by (cases s) (auto simp: unquote_char_def)
  show ?thesis
    using a decode_rune_width [of s] unquote_escape_length
    by (cases "decode_rune s")
      (fastforce simp: s unquote_char_def split: if_splits list.splits)
qed

text \<open>The loop of \<^verbatim>\<open>unquote\<close> after the opening quote. The bytes of a string with no escape and valid
  UTF-8, which Go copies in one go, are those the loop appends one rune at a time.\<close>

function unquote_loop :: "string \<Rightarrow> string option" where
  "unquote_loop s =
     (case s of
        [] \<Rightarrow> None
      | c # cs \<Rightarrow>
          if c = CHR 0x22 then (if cs = [] then Some [] else None)
          else case unquote_char s of
                 None \<Rightarrow> None
               | Some (r, multibyte, rest) \<Rightarrow>
                   if c = CHR 0x0A then None
                   else map_option (\<lambda>out. (if r < 0x80 \<or> \<not> multibyte then [char_of r] else encode_rune r) @ out)
                          (unquote_loop rest))"
  by pat_completeness auto
termination
  by (relation "measure length") (use unquote_char_length in fastforce)+

declare unquote_loop.simps [simp del]

text \<open>\<^verbatim>\<open>strconv.Unquote\<close> of a text that starts with a double quote.\<close>

definition unquote :: "string \<Rightarrow> string option" where
  "unquote s =
     (if length s < 2 \<or> hd s \<noteq> CHR 0x22 then None else unquote_loop (tl s))"

definition plain_char :: "char \<Rightarrow> bool" where
  "plain_char c \<longleftrightarrow> byte_of c < 0x80 \<and> c \<noteq> CHR 0x22 \<and> c \<noteq> CHR 0x5C \<and> c \<noteq> CHR 0x0A"

lemma unquote_loop_plain: "list_all plain_char t \<Longrightarrow> unquote_loop (t @ [CHR 0x22]) = Some t"
proof (induction t)
  case Nil
  then show ?case by (simp add: unquote_loop.simps)
next
  case (Cons c t)
  then show ?case
    by (subst unquote_loop.simps) (simp add: plain_char_def unquote_char_def)
qed

lemma unquote_plain: "list_all plain_char t \<Longrightarrow> unquote (CHR 0x22 # t @ [CHR 0x22]) = Some t"
  by (simp add: unquote_def unquote_loop_plain)

end
