(* ===== verification/Expr.thy ===== *)
theory Expr
  imports Ir Go_Utf8 "HOL-Library.Word" "HOL-Library.Signed_Division"
begin

text \<open>
  \<^verbatim>\<open>internal/expr/expr.go\<close>, first half: the syntax tree of a trigger expression and its evaluation.
  \<^verbatim>\<open>int64\<close> and \<^verbatim>\<open>int\<close> are 64-bit words read as two's complement. A \<^verbatim>\<open>Value\<close> keeps all its fields,
  whatever its kind; a field the code does not set is the zero value. The operands inside a tree are
  never \<^verbatim>\<open>nil\<close> here (the parser makes no such tree); the tree handed to \<^verbatim>\<open>Evaluate\<close> may be. Evaluation
  has no effect, so \<^verbatim>\<open>evalUnary\<close>, \<^verbatim>\<open>evalBinary\<close> and \<^verbatim>\<open>evalVar\<close> take the results of their operands.
\<close>

type_synonym int64 = "64 word"

datatype Operator =
    OpAdd | OpSub | OpMul | OpDiv | OpMod | OpEq | OpNeq | OpAssignEq
  | OpLt | OpLte | OpGt | OpGte | OpAnd | OpOr | OpNot

datatype NodeType =
    NodeInt | NodeString | NodeUnary | NodeBinary | NodeVar | NodeRandom | NodeCommand | NodePos
  | NodeStateType | NodeCond | NodeUnsupported

datatype Node =
    IntLiteral int64 SourceSpan
  | StringLiteral string SourceSpan
  | UnaryExpr Operator Node SourceSpan
  | BinaryExpr Operator Node Node SourceSpan
  | VarExpr Node SourceSpan
  | RandomExpr SourceSpan
  | CommandExpr SourceSpan
  | PosExpr string SourceSpan
  | StateTypeExpr SourceSpan
  | CondExpr Node Node Node SourceSpan
  | UnsupportedExpr string "Node list" SourceSpan

fun node_type :: "Node \<Rightarrow> NodeType" where
  "node_type (IntLiteral _ _) = NodeInt"
| "node_type (StringLiteral _ _) = NodeString"
| "node_type (UnaryExpr _ _ _) = NodeUnary"
| "node_type (BinaryExpr _ _ _ _) = NodeBinary"
| "node_type (VarExpr _ _) = NodeVar"
| "node_type (RandomExpr _) = NodeRandom"
| "node_type (CommandExpr _) = NodeCommand"
| "node_type (PosExpr _ _) = NodePos"
| "node_type (StateTypeExpr _) = NodeStateType"
| "node_type (CondExpr _ _ _ _) = NodeCond"
| "node_type (UnsupportedExpr _ _ _) = NodeUnsupported"

fun node_span :: "Node \<Rightarrow> SourceSpan" where
  "node_span (IntLiteral _ sp) = sp"
| "node_span (StringLiteral _ sp) = sp"
| "node_span (UnaryExpr _ _ sp) = sp"
| "node_span (BinaryExpr _ _ _ sp) = sp"
| "node_span (VarExpr _ sp) = sp"
| "node_span (RandomExpr sp) = sp"
| "node_span (CommandExpr sp) = sp"
| "node_span (PosExpr _ sp) = sp"
| "node_span (StateTypeExpr sp) = sp"
| "node_span (CondExpr _ _ _ sp) = sp"
| "node_span (UnsupportedExpr _ _ sp) = sp"

section \<open>Values, inputs and results\<close>

datatype EvalClass = EvalFinite | EvalDynamic | EvalUnsupported

text \<open>\<open>ValueNone\<close> is the empty kind of a zero \<^verbatim>\<open>Value\<close>.\<close>

datatype ValueKind = ValueNone | ValueInt | ValueBool | ValueString

record Value =
  v_kind :: ValueKind
  v_int :: int64
  v_bool :: bool
  v_string :: string

definition zero_value :: Value where
  "zero_value = \<lparr>v_kind = ValueNone, v_int = 0, v_bool = False, v_string = []\<rparr>"

definition int_value :: "int64 \<Rightarrow> Value" where
  "int_value n = zero_value\<lparr>v_kind := ValueInt, v_int := n\<rparr>"

definition bool_value :: "bool \<Rightarrow> Value" where
  "bool_value b = zero_value\<lparr>v_kind := ValueBool, v_bool := b\<rparr>"

definition string_value :: "string \<Rightarrow> Value" where
  "string_value s = zero_value\<lparr>v_kind := ValueString, v_string := s\<rparr>"

record EvalResult =
  er_value :: Value
  er_class :: EvalClass
  er_reason :: string

text \<open>The composite literals of the code: a finite result, and a result without a value.\<close>

definition finite_result :: "Value \<Rightarrow> EvalResult" where
  "finite_result v = \<lparr>er_value = v, er_class = EvalFinite, er_reason = []\<rparr>"

definition dynamic_result :: "string \<Rightarrow> EvalResult" where
  "dynamic_result why = \<lparr>er_value = zero_value, er_class = EvalDynamic, er_reason = why\<rparr>"

definition unsupported_result :: "string \<Rightarrow> EvalResult" where
  "unsupported_result why = \<lparr>er_value = zero_value, er_class = EvalUnsupported, er_reason = why\<rparr>"

text \<open>\<^verbatim>\<open>Inputs\<close>: \<^const>\<open>None\<close> for a \<^verbatim>\<open>nil\<close> pointer or map.\<close>

record Inputs =
  in_Vars :: "(int64 \<Rightarrow> int64 option) option"
  in_PosY :: "int64 option"
  in_Command :: "string option"
  in_StateType :: "string option"
  in_Random :: "int64 option"

section \<open>Evaluation\<close>

definition toBool :: "Value \<Rightarrow> bool option" where
  "toBool v =
     (case v_kind v of
        ValueBool \<Rightarrow> Some (v_bool v)
      | ValueInt \<Rightarrow> Some (v_int v \<noteq> 0)
      | _ \<Rightarrow> None)"

definition quoted :: "string \<Rightarrow> string" where
  "quoted s = [CHR 0x27] @ s @ [CHR 0x27]"

definition evalUnary :: "Operator \<Rightarrow> EvalResult \<Rightarrow> EvalResult" where
  "evalUnary op r =
     (if er_class r \<noteq> EvalFinite then r
      else case op of
        OpNot \<Rightarrow>
          (case toBool (er_value r) of
             None \<Rightarrow> unsupported_result (quoted ''!'' @ '' expects boolean-like operand'')
           | Some b \<Rightarrow> finite_result (bool_value (\<not> b)))
      | OpSub \<Rightarrow>
          if v_kind (er_value r) \<noteq> ValueInt
          then unsupported_result (quoted ''-'' @ '' expects integer operand'')
          else finite_result (int_value (- v_int (er_value r)))
      | _ \<Rightarrow> unsupported_result ''unsupported unary operator'')"

definition evalLogical :: "Operator \<Rightarrow> EvalResult \<Rightarrow> EvalResult \<Rightarrow> EvalResult" where
  "evalLogical op left right =
     (if er_class left = EvalUnsupported then left
      else if er_class left = EvalDynamic then left
      else case toBool (er_value left) of
        None \<Rightarrow> unsupported_result ''logical operand must be boolean-like''
      | Some leftBool \<Rightarrow>
          if op = OpAnd then
            (if \<not> leftBool then finite_result (bool_value False)
             else if er_class right = EvalUnsupported then right
             else if er_class right = EvalDynamic then right
             else case toBool (er_value right) of
               None \<Rightarrow> unsupported_result ''logical rhs must be boolean-like''
             | Some rightBool \<Rightarrow> finite_result (bool_value (leftBool \<and> rightBool)))
          else if er_class right = EvalUnsupported then right
          else if er_class right = EvalDynamic then right
          else if leftBool then finite_result (bool_value True)
          else case toBool (er_value right) of
            None \<Rightarrow> unsupported_result ''logical rhs must be boolean-like''
          | Some rightBool \<Rightarrow> finite_result (bool_value (leftBool \<or> rightBool)))"

definition evalEquality :: "Operator \<Rightarrow> EvalResult \<Rightarrow> EvalResult \<Rightarrow> EvalResult" where
  "evalEquality op left right =
     (if er_class left = EvalUnsupported \<or> er_class right = EvalUnsupported
      then unsupported_result ''unsupported comparison operand''
      else if er_class left = EvalDynamic \<or> er_class right = EvalDynamic
      then dynamic_result ''comparison requires runtime input''
      else if v_kind (er_value left) \<noteq> v_kind (er_value right)
      then unsupported_result ''mixed types in comparison''
      else
        (let finish = (\<lambda>equal. finite_result (bool_value (if op = OpNeq then \<not> equal else equal))) in
         case v_kind (er_value left) of
           ValueInt \<Rightarrow> finish (v_int (er_value left) = v_int (er_value right))
         | ValueBool \<Rightarrow> finish (v_bool (er_value left) = v_bool (er_value right))
         | ValueString \<Rightarrow> finish (v_string (er_value left) = v_string (er_value right))
         | ValueNone \<Rightarrow> unsupported_result ''unsupported comparison kind''))"

definition evalOrder :: "Operator \<Rightarrow> EvalResult \<Rightarrow> EvalResult \<Rightarrow> EvalResult" where
  "evalOrder op left right =
     (if er_class left = EvalUnsupported \<or> er_class right = EvalUnsupported
      then unsupported_result ''unsupported comparison operand''
      else if er_class left = EvalDynamic \<or> er_class right = EvalDynamic
      then dynamic_result ''comparison requires runtime input''
      else if v_kind (er_value left) \<noteq> ValueInt \<or> v_kind (er_value right) \<noteq> ValueInt
      then unsupported_result ''comparison requires integers''
      else
        (let l = sint (v_int (er_value left)); r = sint (v_int (er_value right)) in
         finite_result (bool_value
           (case op of OpLt \<Rightarrow> l < r | OpLte \<Rightarrow> l \<le> r | OpGt \<Rightarrow> r < l | OpGte \<Rightarrow> r \<le> l | _ \<Rightarrow> False))))"

text \<open>Division and remainder of \<^verbatim>\<open>int64\<close> truncate toward zero; \<open>of_int\<close> wraps the one quotient that
  does not fit.\<close>

definition evalArithmetic :: "Operator \<Rightarrow> EvalResult \<Rightarrow> EvalResult \<Rightarrow> EvalResult" where
  "evalArithmetic op left right =
     (if er_class left = EvalUnsupported \<or> er_class right = EvalUnsupported
      then unsupported_result ''unsupported arithmetic operand''
      else if er_class left = EvalDynamic \<or> er_class right = EvalDynamic
      then dynamic_result ''arithmetic requires runtime input''
      else if v_kind (er_value left) \<noteq> ValueInt \<or> v_kind (er_value right) \<noteq> ValueInt
      then unsupported_result ''arithmetic expects integers''
      else
        (let l = v_int (er_value left); r = v_int (er_value right) in
         case op of
           OpAdd \<Rightarrow> finite_result (int_value (l + r))
         | OpSub \<Rightarrow> finite_result (int_value (l - r))
         | OpMul \<Rightarrow> finite_result (int_value (l * r))
         | OpDiv \<Rightarrow>
             if r = 0 then unsupported_result ''division by zero''
             else finite_result (int_value (of_int (sint l sdiv sint r)))
         | OpMod \<Rightarrow>
             if r = 0 then unsupported_result ''mod by zero''
             else finite_result (int_value (of_int (sint l smod sint r)))
         | _ \<Rightarrow> finite_result (int_value 0)))"

definition evalBinary :: "Operator \<Rightarrow> EvalResult \<Rightarrow> EvalResult \<Rightarrow> EvalResult" where
  "evalBinary op left right =
     (if op \<in> {OpAnd, OpOr} then evalLogical op left right
      else if op \<in> {OpEq, OpNeq, OpAssignEq} then evalEquality op left right
      else if op \<in> {OpLt, OpLte, OpGt, OpGte} then evalOrder op left right
      else if op \<in> {OpAdd, OpSub, OpMul, OpDiv, OpMod} then evalArithmetic op left right
      else unsupported_result ''unsupported binary operator'')"

definition evalVar :: "EvalResult \<Rightarrow> Inputs \<Rightarrow> EvalResult" where
  "evalVar index inp =
     (if er_class index \<noteq> EvalFinite then index
      else if v_kind (er_value index) \<noteq> ValueInt then unsupported_result ''var index must be integer''
      else case in_Vars inp of
        None \<Rightarrow> dynamic_result ''vars table not supplied''
      | Some vars \<Rightarrow>
          (case vars (v_int (er_value index)) of
             None \<Rightarrow> dynamic_result ''var index unresolved''
           | Some v \<Rightarrow> finite_result (int_value v)))"

definition input_result :: "string \<Rightarrow> ('a \<Rightarrow> Value) \<Rightarrow> 'a option \<Rightarrow> EvalResult" where
  "input_result why mk inp =
     (case inp of None \<Rightarrow> dynamic_result why | Some v \<Rightarrow> finite_result (mk v))"

fun eval_node :: "Node \<Rightarrow> Inputs \<Rightarrow> EvalResult" where
  "eval_node (IntLiteral v _) inp = finite_result (int_value v)"
| "eval_node (StringLiteral v _) inp = finite_result (string_value v)"
| "eval_node (UnaryExpr op operand _) inp = evalUnary op (eval_node operand inp)"
| "eval_node (BinaryExpr op left right _) inp = evalBinary op (eval_node left inp) (eval_node right inp)"
| "eval_node (VarExpr index _) inp = evalVar (eval_node index inp) inp"
| "eval_node (RandomExpr _) inp =
     input_result ''random requires runtime input'' int_value (in_Random inp)"
| "eval_node (CommandExpr _) inp =
     input_result ''command requires runtime input'' string_value (in_Command inp)"
| "eval_node (PosExpr axis _) inp =
     (if axis \<noteq> ''y'' then unsupported_result ''unsupported pos axis''
      else input_result ''pos y requires runtime input'' int_value (in_PosY inp))"
| "eval_node (StateTypeExpr _) inp =
     input_result ''statetype requires runtime input'' string_value (in_StateType inp)"
| "eval_node (CondExpr condition then_node else_node _) inp =
     (let c = eval_node condition inp in
      if er_class c \<noteq> EvalFinite then c
      else case toBool (er_value c) of
        None \<Rightarrow> unsupported_result ''cond condition is not boolean-like''
      | Some b \<Rightarrow> if b then eval_node then_node inp else eval_node else_node inp)"
| "eval_node (UnsupportedExpr name _ _) inp =
     unsupported_result (''unsupported expression node: '' @ name)"

definition Evaluate :: "Node option \<Rightarrow> Inputs \<Rightarrow> EvalResult" where
  "Evaluate node inp =
     (case node of None \<Rightarrow> unsupported_result ''nil node'' | Some n \<Rightarrow> eval_node n inp)"

end
