(* ===== verification/Expr_Props.thy ===== *)
theory Expr_Props
  imports Expr
begin

text \<open>
  What evaluation promises: results are well formed and typed, an answer does not change when more of
  the runtime state is known, "dynamic" is only answered for want of an input, and integers are
  two's complement.
\<close>

named_theorems results \<open>results and the evaluation of one operator\<close>

lemmas [results] = finite_result_def dynamic_result_def unsupported_result_def zero_value_def
  int_value_def bool_value_def string_value_def

lemma result_sel [simp]:
  "er_value (finite_result v) = v" "er_class (finite_result v) = EvalFinite" "er_reason (finite_result v) = []"
  "er_value (dynamic_result w) = zero_value" "er_class (dynamic_result w) = EvalDynamic"
  "er_reason (dynamic_result w) = w"
  "er_value (unsupported_result w) = zero_value" "er_class (unsupported_result w) = EvalUnsupported"
  "er_reason (unsupported_result w) = w"
  by (simp_all add: results)

lemma value_sel [simp]:
  "v_kind (int_value n) = ValueInt" "v_int (int_value n) = n"
  "v_kind (bool_value b) = ValueBool" "v_bool (bool_value b) = b"
  "v_kind (string_value s) = ValueString" "v_string (string_value s) = s"
  "v_kind zero_value = ValueNone"
  by (simp_all add: results)

lemma toBool_simps [simp]:
  "toBool (int_value n) = Some (n \<noteq> 0)" "toBool (bool_value b) = Some b"
  "toBool (string_value s) = None" "toBool zero_value = None"
  by (simp_all add: toBool_def)

section \<open>Well-formed results\<close>

definition value_ok :: "Value \<Rightarrow> bool" where
  "value_ok v \<longleftrightarrow>
     (case v_kind v of
        ValueInt \<Rightarrow> v = int_value (v_int v)
      | ValueBool \<Rightarrow> v = bool_value (v_bool v)
      | ValueString \<Rightarrow> v = string_value (v_string v)
      | ValueNone \<Rightarrow> False)"

definition result_ok :: "EvalResult \<Rightarrow> bool" where
  "result_ok r \<longleftrightarrow>
     (if er_class r = EvalFinite then value_ok (er_value r) \<and> er_reason r = []
      else er_value r = zero_value \<and> er_reason r \<noteq> [])"

lemma result_ok_simps [simp]:
  "result_ok (finite_result v) = value_ok v"
  "result_ok (dynamic_result w) = (w \<noteq> [])"
  "result_ok (unsupported_result w) = (w \<noteq> [])"
  by (auto simp: result_ok_def)

lemma value_ok_simps [simp]:
  "value_ok (int_value n)" "value_ok (bool_value b)" "value_ok (string_value s)"
  by (simp_all add: value_ok_def)

lemma evalUnary_ok: "result_ok r \<Longrightarrow> result_ok (evalUnary op r)"
  by (auto simp: evalUnary_def quoted_def split: Operator.split option.split)

lemma evalLogical_ok: "result_ok l \<Longrightarrow> result_ok r \<Longrightarrow> result_ok (evalLogical op l r)"
  by (auto simp: evalLogical_def split: option.split)

lemma evalEquality_ok: "result_ok (evalEquality op l r)"
  by (auto simp: evalEquality_def Let_def split: ValueKind.split)

lemma evalOrder_ok: "result_ok (evalOrder op l r)"
  by (auto simp: evalOrder_def Let_def)

lemma evalArithmetic_ok: "result_ok (evalArithmetic op l r)"
  by (auto simp: evalArithmetic_def Let_def split: Operator.split)

lemma evalVar_ok: "result_ok i \<Longrightarrow> result_ok (evalVar i inp)"
  by (auto simp: evalVar_def split: option.split)

lemma eval_node_ok: "result_ok (eval_node n inp)"
  by (induction n inp rule: eval_node.induct)
    (auto simp: evalUnary_ok evalBinary_def evalLogical_ok evalEquality_ok evalOrder_ok evalArithmetic_ok
      evalVar_ok input_result_def Let_def split: option.split)

lemma Evaluate_ok: "result_ok (Evaluate node inp)"
  by (cases node) (simp_all add: Evaluate_def eval_node_ok)

text \<open>The kind an expression has when it has a value, read off the tree.\<close>

fun static_kind :: "Node \<Rightarrow> ValueKind option" where
  "static_kind (IntLiteral _ _) = Some ValueInt"
| "static_kind (StringLiteral _ _) = Some ValueString"
| "static_kind (UnaryExpr op _ _) = (if op = OpNot then Some ValueBool else Some ValueInt)"
| "static_kind (BinaryExpr op _ _ _) =
     (if op \<in> {OpAdd, OpSub, OpMul, OpDiv, OpMod} then Some ValueInt else Some ValueBool)"
| "static_kind (VarExpr _ _) = Some ValueInt"
| "static_kind (RandomExpr _) = Some ValueInt"
| "static_kind (CommandExpr _) = Some ValueString"
| "static_kind (PosExpr _ _) = Some ValueInt"
| "static_kind (StateTypeExpr _) = Some ValueString"
| "static_kind (CondExpr _ a b _) = (if static_kind a = static_kind b then static_kind a else None)"
| "static_kind (UnsupportedExpr _ _ _) = None"

lemma kind_of_operators:
  "er_class (evalLogical op l r) = EvalFinite \<Longrightarrow> v_kind (er_value (evalLogical op l r)) = ValueBool"
  "er_class (evalEquality op l r) = EvalFinite \<Longrightarrow> v_kind (er_value (evalEquality op l r)) = ValueBool"
  "er_class (evalOrder op l r) = EvalFinite \<Longrightarrow> v_kind (er_value (evalOrder op l r)) = ValueBool"
  "er_class (evalArithmetic op l r) = EvalFinite \<Longrightarrow> v_kind (er_value (evalArithmetic op l r)) = ValueInt"
  by (simp_all add: evalLogical_def evalEquality_def evalOrder_def evalArithmetic_def Let_def
      split: option.splits if_splits ValueKind.splits Operator.splits)

lemma kind_of_binary:
  "er_class (evalBinary op l r) = EvalFinite \<Longrightarrow>
   v_kind (er_value (evalBinary op l r)) =
     (if op \<in> {OpAdd, OpSub, OpMul, OpDiv, OpMod} then ValueInt else ValueBool)"
  by (cases op) (simp_all add: evalBinary_def kind_of_operators)

lemma eval_static_kind:
  "static_kind n = Some k \<Longrightarrow> er_class (eval_node n inp) = EvalFinite \<Longrightarrow> v_kind (er_value (eval_node n inp)) = k"
proof (induction n inp arbitrary: k rule: eval_node.induct)
  case (3 op operand sp inp)
  then show ?case by (auto simp: evalUnary_def split: Operator.splits option.splits if_splits)
next
  case (4 op l r sp inp)
  then show ?case using kind_of_binary by (simp split: if_splits)
qed (auto simp: evalVar_def input_result_def Let_def split: option.splits if_splits)

section \<open>More inputs\<close>

definition option_le :: "'a option \<Rightarrow> 'a option \<Rightarrow> bool" where
  "option_le x y \<longleftrightarrow> (case x of None \<Rightarrow> True | Some a \<Rightarrow> y = Some a)"

definition inputs_le :: "Inputs \<Rightarrow> Inputs \<Rightarrow> bool" where
  "inputs_le a b \<longleftrightarrow>
     (case in_Vars a of None \<Rightarrow> True
      | Some f \<Rightarrow> (case in_Vars b of None \<Rightarrow> False | Some g \<Rightarrow> f \<subseteq>\<^sub>m g)) \<and>
     option_le (in_PosY a) (in_PosY b) \<and> option_le (in_Command a) (in_Command b) \<and>
     option_le (in_StateType a) (in_StateType b) \<and> option_le (in_Random a) (in_Random b)"

definition settled :: "EvalResult \<Rightarrow> EvalResult \<Rightarrow> bool" where
  "settled r r' \<longleftrightarrow> er_class r \<noteq> EvalDynamic \<longrightarrow> r' = r"

lemma settled_finite: "settled r r' \<Longrightarrow> er_class r = EvalFinite \<Longrightarrow> r' = r"
  by (simp add: settled_def)

lemma settled_unsupported: "settled r r' \<Longrightarrow> er_class r = EvalUnsupported \<Longrightarrow> r' = r"
  by (simp add: settled_def)

lemma settled_evalUnary: "settled r r' \<Longrightarrow> settled (evalUnary op r) (evalUnary op r')"
  by (auto simp: settled_def evalUnary_def)

lemma settled_evalLogical:
  "settled l l' \<Longrightarrow> settled r r' \<Longrightarrow> settled (evalLogical op l r) (evalLogical op l' r')"
  by (cases "er_class l"; cases "er_class r"; cases "toBool (er_value l)")
    (simp_all add: settled_def evalLogical_def)

lemma settled_strict:
  assumes "settled l l'" "settled r r'"
    and "\<And>x y. er_class x = EvalUnsupported \<or> er_class y = EvalUnsupported \<Longrightarrow> f x y = unsupported_result w"
    and "\<And>x y. er_class x \<noteq> EvalUnsupported \<Longrightarrow> er_class y \<noteq> EvalUnsupported \<Longrightarrow>
      er_class x = EvalDynamic \<or> er_class y = EvalDynamic \<Longrightarrow> er_class (f x y) = EvalDynamic"
  shows "settled (f l r) (f l' r')"
  using assms by (cases "er_class l"; cases "er_class r") (simp_all add: settled_def)

lemma settled_evalBinary:
  assumes "settled l l'" "settled r r'"
  shows "settled (evalBinary op l r) (evalBinary op l' r')"
proof -
  have "settled (evalEquality op l r) (evalEquality op l' r')"
    by (rule settled_strict [OF assms]) (auto simp: evalEquality_def)
  moreover have "settled (evalOrder op l r) (evalOrder op l' r')"
    by (rule settled_strict [OF assms]) (auto simp: evalOrder_def)
  moreover have "settled (evalArithmetic op l r) (evalArithmetic op l' r')"
    by (rule settled_strict [OF assms]) (auto simp: evalArithmetic_def)
  ultimately show ?thesis
    using settled_evalLogical [OF assms] by (simp add: evalBinary_def settled_def)
qed

lemma settled_evalVar:
  "inputs_le a b \<Longrightarrow> settled i i' \<Longrightarrow> settled (evalVar i a) (evalVar i' b)"
  by (auto simp: settled_def evalVar_def inputs_le_def map_le_def dom_def split: option.splits)

lemma settled_input: "option_le x y \<Longrightarrow> settled (input_result w mk x) (input_result w mk y)"
  by (auto simp: settled_def input_result_def option_le_def split: option.splits)

lemma eval_settled: "inputs_le a b \<Longrightarrow> settled (eval_node n a) (eval_node n b)"
proof (induction n)
  case (CondExpr c t e sp)
  then show ?case by (auto simp: settled_def Let_def split: option.splits)
qed (auto simp: settled_evalUnary settled_evalBinary settled_evalVar settled_input inputs_le_def,
    simp_all add: settled_def)

section \<open>Missing inputs\<close>

text \<open>The tree asks for an input that is not there.\<close>

fun lacks :: "Inputs \<Rightarrow> Node \<Rightarrow> bool" where
  "lacks inp (UnaryExpr _ n _) = lacks inp n"
| "lacks inp (BinaryExpr _ l r _) = (lacks inp l \<or> lacks inp r)"
| "lacks inp (VarExpr i _) =
     (lacks inp i \<or>
      (case in_Vars inp of None \<Rightarrow> True | Some vars \<Rightarrow> vars (v_int (er_value (eval_node i inp))) = None))"
| "lacks inp (RandomExpr _) = (in_Random inp = None)"
| "lacks inp (CommandExpr _) = (in_Command inp = None)"
| "lacks inp (PosExpr _ _) = (in_PosY inp = None)"
| "lacks inp (StateTypeExpr _) = (in_StateType inp = None)"
| "lacks inp (CondExpr c a b _) = (lacks inp c \<or> lacks inp a \<or> lacks inp b)"
| "lacks inp _ = False"

lemma dynamic_operators:
  assumes "er_class (evalBinary op l r) = EvalDynamic"
  shows "er_class l = EvalDynamic \<or> er_class r = EvalDynamic"
proof (rule ccontr)
  assume n: "\<not> ?thesis"
  then have "er_class (evalLogical op l r) \<noteq> EvalDynamic" "er_class (evalEquality op l r) \<noteq> EvalDynamic"
    "er_class (evalOrder op l r) \<noteq> EvalDynamic" "er_class (evalArithmetic op l r) \<noteq> EvalDynamic"
    by (simp_all add: evalLogical_def evalEquality_def evalOrder_def evalArithmetic_def Let_def
        split: option.split ValueKind.split Operator.split)
  with assms show False by (simp add: evalBinary_def split: if_splits)
qed

lemma dynamic_lacks: "er_class (eval_node n inp) = EvalDynamic \<Longrightarrow> lacks inp n"
proof (induction n inp rule: eval_node.induct)
  case (4 op l r sp inp)
  then show ?case using dynamic_operators by fastforce
qed (auto simp: evalUnary_def evalVar_def input_result_def Let_def split: option.splits if_splits Operator.splits)

section \<open>Integers\<close>

text \<open>The value of an integer expression over the unbounded integers.\<close>

fun ideal :: "Node \<Rightarrow> int option" where
  "ideal (IntLiteral v _) = Some (sint v)"
| "ideal (UnaryExpr op n _) =
     (case ideal n of Some a \<Rightarrow> if op = OpSub then Some (- a) else None | None \<Rightarrow> None)"
| "ideal (BinaryExpr op l r _) =
     (case (ideal l, ideal r) of
        (Some a, Some b) \<Rightarrow>
          if op = OpAdd then Some (a + b) else if op = OpSub then Some (a - b)
          else if op = OpMul then Some (a * b) else None
      | _ \<Rightarrow> None)"
| "ideal _ = None"

lemma eval_ideal: "ideal n = Some k \<Longrightarrow> eval_node n inp = finite_result (int_value (of_int k))"
  by (induction n arbitrary: k)
    (auto simp: evalUnary_def evalBinary_def evalArithmetic_def split: option.splits if_splits)

lemma sint_of_int64: "- (2 ^ 63) \<le> k \<Longrightarrow> k < 2 ^ 63 \<Longrightarrow> sint (of_int k :: int64) = k"
  by (simp add: signed_of_int signed_take_bit_int_eq_self)

lemma sdiv_smod_bounds:
  assumes "(r :: int) \<noteq> 0"
  shows "l = l sdiv r * r + l smod r" "\<bar>l smod r\<bar> < \<bar>r\<bar>" "l smod r = 0 \<or> sgn (l smod r) = sgn l"
proof -
  show "l = l sdiv r * r + l smod r" by (simp add: sdiv_mult_smod_eq)
  show "\<bar>l smod r\<bar> < \<bar>r\<bar>" using assms by (simp add: smod_int_alt_def abs_mult abs_sgn_eq)
  show "l smod r = 0 \<or> sgn (l smod r) = sgn l"
  proof -
    have "0 \<le> \<bar>l\<bar> mod \<bar>r\<bar>" using assms by simp
    then have "\<bar>l\<bar> mod \<bar>r\<bar> = 0 \<or> sgn (\<bar>l\<bar> mod \<bar>r\<bar>) = 1" by (simp add: sgn_if)
    then show ?thesis by (auto simp: smod_int_alt_def sgn_mult)
  qed
qed

section \<open>Claims\<close>

text \<open>C15: Evaluation is total and its answer well formed, for every tree and every state: a finite
  answer carries exactly one typed value, all other fields of the value zero, and no reason; any other
  answer carries no value and a reason. When the tree has a kind by its operators, a finite answer has
  that kind.\<close>

theorem evaluate_well_formed:
  "(let r = Evaluate (Some n) inp in
    if er_class r = EvalFinite
    then er_reason r = [] \<and>
      er_value r \<in> {int_value (v_int (er_value r)), bool_value (v_bool (er_value r)), string_value (v_string (er_value r))} \<and>
      static_kind n \<in> {None, Some (v_kind (er_value r))}
    else er_value r = zero_value \<and> er_reason r \<noteq> [])"
  using eval_node_ok [of n inp] eval_static_kind [of n _ inp]
  by (cases "static_kind n") (auto simp: Evaluate_def Let_def result_ok_def value_ok_def split: ValueKind.splits)

text \<open>An answer is stable: once an expression evaluates to a value, or to "unsupported", supplying
  further runtime inputs gives the very same result. Only "dynamic" may change.\<close>

theorem evaluate_stable_under_inputs:
  assumes "inputs_le a b" and "er_class (Evaluate node a) \<noteq> EvalDynamic"
  shows "Evaluate node b = Evaluate node a"
  using assms eval_settled [OF assms(1)] by (cases node) (auto simp: Evaluate_def settled_def)

theorem evaluate_stable_under_inputs_witness:
  "Evaluate (Some (BinaryExpr OpAnd (IntLiteral 0 zero_span) (RandomExpr zero_span) zero_span))
     \<lparr>in_Vars = None, in_PosY = None, in_Command = None, in_StateType = None, in_Random = Some 3\<rparr>
   = Evaluate (Some (BinaryExpr OpAnd (IntLiteral 0 zero_span) (RandomExpr zero_span) zero_span))
     \<lparr>in_Vars = None, in_PosY = None, in_Command = None, in_StateType = None, in_Random = None\<rparr>"
  by (rule evaluate_stable_under_inputs)
    (simp_all add: inputs_le_def option_le_def Evaluate_def evalBinary_def evalLogical_def)

text \<open>"Dynamic" is only answered for want of an input: the tree then holds \<^verbatim>\<open>random\<close>, \<^verbatim>\<open>command\<close>,
  \<^verbatim>\<open>pos\<close> or \<^verbatim>\<open>statetype\<close> with that input absent, or a \<^verbatim>\<open>var\<close> whose index the table does not hold.\<close>

theorem evaluate_dynamic_lacks_input:
  assumes "er_class (Evaluate (Some n) inp) = EvalDynamic"
  shows "lacks inp n"
  using assms dynamic_lacks by (simp add: Evaluate_def)

theorem evaluate_dynamic_lacks_input_witness:
  "lacks \<lparr>in_Vars = Some (\<lambda>_. None), in_PosY = None, in_Command = None, in_StateType = None, in_Random = Some 1\<rparr>
     (BinaryExpr OpAdd (RandomExpr zero_span) (VarExpr (IntLiteral 7 zero_span) zero_span) zero_span)"
  by (rule evaluate_dynamic_lacks_input)
    (simp add: Evaluate_def evalBinary_def evalArithmetic_def evalVar_def input_result_def)

text \<open>C14: Integer arithmetic is that of the integers modulo \<^verbatim>\<open>2^64\<close>: an expression of literals, \<^verbatim>\<open>+\<close>, \<^verbatim>\<open>-\<close>,
  \<^verbatim>\<open>*\<close> and unary \<^verbatim>\<open>-\<close> evaluates to its mathematical value wrapped to \<^verbatim>\<open>int64\<close>, however the
  intermediate results overflow, and exactly to that value when it fits.\<close>

theorem evaluate_arithmetic_wraps:
  assumes "ideal n = Some k"
  shows "Evaluate (Some n) inp = finite_result (int_value (of_int k)) \<and>
    (if - (2 ^ 63) \<le> k \<and> k < 2 ^ 63 then sint (v_int (er_value (Evaluate (Some n) inp))) = k
     else sint (v_int (er_value (Evaluate (Some n) inp))) \<noteq> k)"
proof -
  have "sint (of_int k :: int64) \<noteq> k" if "\<not> (- (2 ^ 63) \<le> k \<and> k < 2 ^ 63)"
    using that sint_range_size [of "of_int k :: int64"] by (auto simp: word_size)
  then show ?thesis
    using eval_ideal [OF assms, of inp] sint_of_int64 [of k] by (simp add: Evaluate_def)
qed

theorem evaluate_arithmetic_wraps_witness:
  "sint (v_int (er_value (Evaluate (Some
     (BinaryExpr OpAdd (IntLiteral 9223372036854775807 zero_span) (IntLiteral 1 zero_span) zero_span)) \<lparr>in_Vars = None, in_PosY = None, in_Command = None, in_StateType = None, in_Random = None\<rparr>))) \<noteq> 2 ^ 63"
  using evaluate_arithmetic_wraps [of "BinaryExpr OpAdd (IntLiteral 9223372036854775807 zero_span) (IntLiteral 1 zero_span) zero_span" "2 ^ 63" "\<lparr>in_Vars = None, in_PosY = None, in_Command = None, in_StateType = None, in_Random = None\<rparr>"]
  by simp

text \<open>Division and remainder are \<^verbatim>\<open>int64\<close>'s: by zero they are unsupported and never panic; otherwise
  the quotient and the remainder recompose the dividend, the remainder is smaller than the divisor in
  magnitude and has the dividend's sign, and the quotient of the least integer by \<^verbatim>\<open>-1\<close> wraps to itself.\<close>

theorem evaluate_division:
  "(let q = Evaluate (Some (BinaryExpr OpDiv (IntLiteral l s1) (IntLiteral r s2) s3)) inp;
        m = Evaluate (Some (BinaryExpr OpMod (IntLiteral l s1) (IntLiteral r s2) s3)) inp
    in if r = 0 then er_class q = EvalUnsupported \<and> er_class m = EvalUnsupported
       else er_class q = EvalFinite \<and> er_class m = EvalFinite \<and>
         l = v_int (er_value q) * r + v_int (er_value m) \<and>
         \<bar>sint (v_int (er_value m))\<bar> < \<bar>sint r\<bar> \<and>
         (v_int (er_value m) = 0 \<or> sgn (sint (v_int (er_value m))) = sgn (sint l)))"
proof (cases "r = 0")
  case True
  then show ?thesis by (simp add: Evaluate_def evalBinary_def evalArithmetic_def Let_def)
next
  case False
  then have nz: "sint r \<noteq> 0" by (metis sint_0 signed_word_eqI)
  define q m where "q = sint l sdiv sint r" and "m = sint l smod sint r"
  have "\<bar>m\<bar> < \<bar>sint r\<bar>" and sg: "m = 0 \<or> sgn m = sgn (sint l)" and rec: "sint l = q * sint r + m"
    using sdiv_smod_bounds [OF nz, of "sint l"] by (simp_all add: q_def m_def)
  moreover have "\<bar>sint r\<bar> \<le> 2 ^ 63"
    using sint_range_size [of r] by (auto simp: word_size)
  ultimately have sm: "sint (of_int m :: int64) = m" and lt: "\<bar>m\<bar> < \<bar>sint r\<bar>"
    by (auto intro!: sint_of_int64)
  have "l = of_int (sint l)" by simp
  also have "\<dots> = of_int q * r + of_int m" by (subst rec) simp
  finally have l: "of_int q * r + of_int m = l" by (rule sym)
  have e: "Evaluate (Some (BinaryExpr OpDiv (IntLiteral l s1) (IntLiteral r s2) s3)) inp = finite_result (int_value (of_int q))"
    "Evaluate (Some (BinaryExpr OpMod (IntLiteral l s1) (IntLiteral r s2) s3)) inp = finite_result (int_value (of_int m))"
    using False by (simp_all add: Evaluate_def evalBinary_def evalArithmetic_def Let_def q_def m_def)
  show ?thesis
    unfolding e Let_def using False l sm lt sg by auto
qed

text \<open>\<^verbatim>\<open>||\<close> does not stop at a true left operand: the right one must still have a value, though not a
  boolean one, while \<^verbatim>\<open>&&\<close> stops at a false one.\<close>

lemma logical_or_is_not_lazy:
  "er_class (Evaluate (Some (BinaryExpr OpOr (IntLiteral 1 s) (RandomExpr s) s)) inp) = EvalFinite \<longleftrightarrow> in_Random inp \<noteq> None"
  "er_class (Evaluate (Some (BinaryExpr OpAnd (IntLiteral 0 s) (RandomExpr s) s)) inp) = EvalFinite"
  "er_class (Evaluate (Some (BinaryExpr OpOr (IntLiteral 1 s) (StringLiteral t s) s)) inp) = EvalFinite"
  "er_class (Evaluate (Some (BinaryExpr OpOr (IntLiteral 0 s) (StringLiteral t s) s)) inp) = EvalUnsupported"
  by (simp_all add: Evaluate_def evalBinary_def evalLogical_def input_result_def split: option.split)

end
