(* ===== verification/Expr_Parser.thy ===== *)
theory Expr_Parser
  imports Expr
begin

text \<open>
  \<^verbatim>\<open>internal/expr/expr.go\<close>, the lexer. One iteration of the loop of \<^verbatim>\<open>lex\<close> at byte index \<open>i\<close> is
  \<open>lex_step\<close>: what it appends and the index it leaves; the loop is \<open>lex_from\<close>. Bytes are classed as
  the Latin-1 runes \<^verbatim>\<open>unicode.IsSpace(rune(ch))\<close> and \<^verbatim>\<open>unicode.IsLetter(rune(ch))\<close> make of them.
\<close>

datatype tokenType =
    tokEOF | tokInt | tokString | tokIdent | tokPlus | tokMinus | tokStar | tokSlash | tokPercent
  | tokEqual | tokEqEq | tokNotEq | tokNot | tokLess | tokLessEq | tokGreater | tokGreaterEq
  | tokAndAnd | tokOrOr | tokLParen | tokRParen | tokComma

record expr_token =
  et_kind :: tokenType
  et_text :: string
  et_span :: SourceSpan

record ParseError =
  pe_Code :: string
  pe_Message :: string
  pe_Span :: SourceSpan

definition ParseError_Error :: "ParseError \<Rightarrow> string" where
  "ParseError_Error e = pe_Code e @ '': '' @ pe_Message e"

section \<open>Positions\<close>

fun advance_position :: "SourcePosition \<Rightarrow> string \<Rightarrow> SourcePosition" where
  "advance_position p [] = p"
| "advance_position p (c # cs) =
     advance_position
       (if c = CHR 0x0A then \<lparr>Line = Line p + 1, Column = 1\<rparr> else p\<lparr>Column := Column p + 1\<rparr>) cs"

text \<open>\<^verbatim>\<open>positionFor\<close> scans \<^verbatim>\<open>source[0:index]\<close>; its callers pass no negative index, and \<^const>\<open>take\<close> clamps
  one that is too large.\<close>

definition positionFor :: "string \<Rightarrow> nat \<Rightarrow> SourcePosition" where
  "positionFor source index = advance_position \<lparr>Line = 1, Column = 1\<rparr> (take index source)"

definition spanFrom :: "string \<Rightarrow> nat \<Rightarrow> nat \<Rightarrow> SourceSpan" where
  "spanFrom source start stop =
     (let e = min (max start stop) (length source)
      in \<lparr>Start = positionFor source start, End = positionFor source e\<rparr>)"

definition lastSpan :: "string \<Rightarrow> SourceSpan" where
  "lastSpan source = spanFrom source (length source) (length source)"

definition spanCover :: "SourceSpan \<Rightarrow> SourceSpan \<Rightarrow> SourceSpan" where
  "spanCover a b = \<lparr>Start = Start a, End = End b\<rparr>"

section \<open>The lexer\<close>

definition isIdentStart :: "char \<Rightarrow> bool" where
  "isIdentStart ch \<longleftrightarrow> ch = CHR ''_'' \<or> latin1_letter ch"

definition isIdentPart :: "char \<Rightarrow> bool" where
  "isIdentPart ch \<longleftrightarrow> ch = CHR ''_'' \<or> latin1_letter ch \<or> is_digit ch"

text \<open>The loop over the body of a quoted string: the index of the closing quote, or of the end.\<close>

fun scan_string :: "string \<Rightarrow> nat \<Rightarrow> nat" where
  "scan_string [] i = i"
| "scan_string [c] i = (if c = CHR 0x22 then i else i + 1)"
| "scan_string (c # d # cs) i =
     (if c = CHR 0x22 then i
      else if c = CHR 0x5C then scan_string cs (i + 2)
      else scan_string (d # cs) (i + 1))"

definition slice :: "string \<Rightarrow> nat \<Rightarrow> nat \<Rightarrow> string" where
  "slice s i j = take (j - i) (drop i s)"

definition make_token :: "string \<Rightarrow> tokenType \<Rightarrow> nat \<Rightarrow> nat \<Rightarrow> expr_token" where
  "make_token source kind start stop =
     \<lparr>et_kind = kind, et_text = slice source start stop, et_span = spanFrom source start stop\<rparr>"

type_synonym lex_result = "expr_token list \<times> ParseError list \<times> nat"

definition emit_token :: "string \<Rightarrow> tokenType \<Rightarrow> nat \<Rightarrow> nat \<Rightarrow> lex_result" where
  "emit_token source kind start stop = ([make_token source kind start stop], [], stop)"

definition lex_error :: "string \<Rightarrow> string \<Rightarrow> string \<Rightarrow> nat \<Rightarrow> nat \<Rightarrow> lex_result" where
  "lex_error source errcode message start stop =
     ([], [\<lparr>pe_Code = errcode, pe_Message = message, pe_Span = spanFrom source start stop\<rparr>], stop)"

text \<open>An operator of one byte, or of two when \<open>d\<close> follows.\<close>

definition lex_pair :: "string \<Rightarrow> nat \<Rightarrow> char \<Rightarrow> tokenType \<Rightarrow> tokenType \<Rightarrow> lex_result" where
  "lex_pair source i d long short =
     (if has_prefix (drop (i + 1) source) [d] then emit_token source long i (i + 2)
      else emit_token source short i (i + 1))"

definition lex_double :: "string \<Rightarrow> nat \<Rightarrow> char \<Rightarrow> tokenType \<Rightarrow> string \<Rightarrow> lex_result" where
  "lex_double source i d kind message =
     (if has_prefix (drop (i + 1) source) [d] then emit_token source kind i (i + 2)
      else lex_error source ''unexpected-char'' message i (i + 1))"

definition lex_operator :: "string \<Rightarrow> nat \<Rightarrow> char \<Rightarrow> lex_result" where
  "lex_operator source i ch =
     (if ch = CHR ''+'' then emit_token source tokPlus i (i + 1)
      else if ch = CHR ''-'' then emit_token source tokMinus i (i + 1)
      else if ch = CHR ''*'' then emit_token source tokStar i (i + 1)
      else if ch = CHR ''/'' then emit_token source tokSlash i (i + 1)
      else if ch = CHR ''%'' then emit_token source tokPercent i (i + 1)
      else if ch = CHR ''!'' then lex_pair source i (CHR ''='') tokNotEq tokNot
      else if ch = CHR ''='' then lex_pair source i (CHR ''='') tokEqEq tokEqual
      else if ch = CHR ''<'' then lex_pair source i (CHR ''='') tokLessEq tokLess
      else if ch = CHR ''>'' then lex_pair source i (CHR ''='') tokGreaterEq tokGreater
      else if ch = CHR ''&'' then
        lex_double source i (CHR ''&'') tokAndAnd (''unexpected '' @ quoted ''&'' @ '', expected &&'')
      else if ch = CHR ''|'' then
        lex_double source i (CHR ''|'') tokOrOr (''unexpected '' @ quoted ''|'' @ '', expected ||'')
      else if ch = CHR ''('' then emit_token source tokLParen i (i + 1)
      else if ch = CHR '')'' then emit_token source tokRParen i (i + 1)
      else if ch = CHR '','' then emit_token source tokComma i (i + 1)
      else lex_error source ''unexpected-char'' ''unexpected character'' i (i + 1))"

text \<open>One iteration. An unterminated string breaks off the loop: its index is the end of the source.\<close>

definition lex_step :: "string \<Rightarrow> nat \<Rightarrow> lex_result" where
  "lex_step source i =
     (let ch = source ! i; rest = drop i source in
      if latin1_space ch then ([], [], i + 1)
      else if is_digit ch then emit_token source tokInt i (i + length (takeWhile is_digit rest))
      else if ch = CHR 0x22 then
        (let j = scan_string (drop (i + 1) source) (i + 1) in
         if length source \<le> j
         then lex_error source ''unterminated-string'' ''unterminated string literal'' i (length source)
         else emit_token source tokString i (j + 1))
      else if isIdentStart ch then emit_token source tokIdent i (i + length (takeWhile isIdentPart rest))
      else lex_operator source i ch)"

lemma lex_operator_bounds:
  assumes "i < length source"
  shows "i < snd (snd (lex_operator source i ch)) \<and> snd (snd (lex_operator source i ch)) \<le> length source"
proof -
  have "has_prefix (drop (i + 1) source) [d] \<Longrightarrow> i + 2 \<le> length source" for d
    by (cases "drop (i + 1) source") (auto simp: not_less_eq_eq dest: arg_cong [of _ _ length])
  then show ?thesis
    using assms
    by (auto simp: lex_operator_def lex_pair_def lex_double_def emit_token_def lex_error_def)
qed

lemma lex_step_bounds:
  assumes "i < length source"
  shows "i < snd (snd (lex_step source i)) \<and> snd (snd (lex_step source i)) \<le> length source"
proof -
  have tw: "i + length (takeWhile P (drop i source)) \<le> length source" for P
    using length_takeWhile_le [of P "drop i source"] assms by simp
  have hd: "drop i source = source ! i # drop (Suc i) source" using assms by (simp add: Cons_nth_drop_Suc)
  have sc: "k \<le> scan_string s k" for s k
    by (induction s k rule: scan_string.induct) auto
  have "0 < length (takeWhile P (drop i source))" if "P (source ! i)" for P
    using that unfolding hd by simp
  from this [of is_digit] this [of isIdentPart] show ?thesis
    using assms tw [of is_digit] tw [of isIdentPart] lex_operator_bounds [OF assms]
      sc [of "i + 1" "drop (i + 1) source"]
    by (auto simp: lex_step_def Let_def emit_token_def lex_error_def isIdentStart_def isIdentPart_def)
qed

function lex_from :: "string \<Rightarrow> nat \<Rightarrow> expr_token list \<times> ParseError list" where
  "lex_from source i =
     (if i < length source
      then (case lex_step source i of (ts, es, j) \<Rightarrow>
            case lex_from source j of (ts', es') \<Rightarrow> (ts @ ts', es @ es'))
      else ([], []))"
  by pat_completeness auto
termination
  by (relation "measure (\<lambda>(source, i). length source - i)")
    (simp, metis lex_step_bounds diff_less_mono2 in_measure old.prod.case order_less_le_trans snd_conv)

declare lex_from.simps [simp del]

definition lex :: "string \<Rightarrow> expr_token list \<times> ParseError list" where
  "lex source = lex_from source 0"

text \<open>
  \<^verbatim>\<open>internal/expr/expr.go\<close>, the recursive-descent parser. The parser is the record \<open>eparser\<close>, passed
  along; a parse function returns the node (\<^const>\<open>None\<close> for \<^verbatim>\<open>nil\<close>) and the parser it leaves. The
  functions call each other around one cycle, \<^verbatim>\<open>parseUnaryExpr\<close> to \<^verbatim>\<open>parsePrimary\<close> to \<^verbatim>\<open>parseOrExpr\<close>
  and back: each takes the function it calls as an argument, and \<open>parseUnaryExpr\<close> ties the knot with
  fuel, whose end is the outer \<^const>\<open>None\<close>. The fuel counts tokens: \<open>Parse\<close> starts with one more than
  there are, and \<open>Expr_Parser_Props\<close> proves it never runs out.
\<close>

record eparser =
  ep_source :: string
  ep_tokens :: "expr_token list"
  ep_pos :: nat
  ep_errors :: "ParseError list"

type_synonym parsed = "(Node option \<times> eparser) option"

definition newParser :: "string \<Rightarrow> eparser" where
  "newParser source =
     (case lex source of (toks, errs) \<Rightarrow>
      \<lparr>ep_source = source, ep_tokens = toks, ep_pos = 0, ep_errors = errs\<rparr>)"

section \<open>The token cursor\<close>

definition eof_token :: "eparser \<Rightarrow> expr_token" where
  "eof_token p = \<lparr>et_kind = tokEOF, et_text = [], et_span = lastSpan (ep_source p)\<rparr>"

definition peek :: "eparser \<Rightarrow> expr_token" where
  "peek p = (if length (ep_tokens p) \<le> ep_pos p then eof_token p else ep_tokens p ! ep_pos p)"

definition prev :: "eparser \<Rightarrow> expr_token" where
  "prev p =
     (if ep_pos p = 0 then eof_token p
      else if length (ep_tokens p) \<le> ep_pos p - 1 then eof_token p
      else ep_tokens p ! (ep_pos p - 1))"

definition advance :: "eparser \<Rightarrow> eparser" where
  "advance p = p\<lparr>ep_pos := ep_pos p + 1\<rparr>"

definition advanceIf :: "tokenType \<Rightarrow> eparser \<Rightarrow> bool \<times> eparser" where
  "advanceIf kind p = (if et_kind (peek p) = kind then (True, advance p) else (False, p))"

definition addError :: "string \<Rightarrow> string \<Rightarrow> SourceSpan \<Rightarrow> eparser \<Rightarrow> eparser" where
  "addError errcode message span p =
     p\<lparr>ep_errors := ep_errors p @ [\<lparr>pe_Code = errcode, pe_Message = message, pe_Span = span\<rparr>]\<rparr>"

definition expect :: "tokenType \<Rightarrow> string \<Rightarrow> string \<Rightarrow> eparser \<Rightarrow> bool \<times> eparser" where
  "expect kind errcode message p =
     (case advanceIf kind p of
        (True, q) \<Rightarrow> (True, q)
      | (False, q) \<Rightarrow> (False, addError errcode message (et_span (peek q)) q))"

text \<open>\<^verbatim>\<open>if node == nil { err; return nil }\<close> and \<^verbatim>\<open>if !p.expect(...) { return nil }\<close>.\<close>

definition with_node :: "parsed \<Rightarrow> (eparser \<Rightarrow> eparser) \<Rightarrow> (Node \<Rightarrow> eparser \<Rightarrow> parsed) \<Rightarrow> parsed" where
  "with_node r err k =
     (case r of
        None \<Rightarrow> None
      | Some (None, q) \<Rightarrow> Some (None, err q)
      | Some (Some node, q) \<Rightarrow> k node q)"

definition with_token :: "tokenType \<Rightarrow> string \<Rightarrow> eparser \<Rightarrow> (eparser \<Rightarrow> parsed) \<Rightarrow> parsed" where
  "with_token kind message p k =
     (case expect kind ''expected-token'' message p of
        (True, q) \<Rightarrow> k q
      | (False, q) \<Rightarrow> Some (None, q))"

definition expected_here :: "string \<Rightarrow> eparser \<Rightarrow> eparser" where
  "expected_here message p = addError ''expected-expression'' message (et_span (peek p)) p"

section \<open>Binary operators\<close>

text \<open>The loop of one precedence level: \<open>ops\<close> says which tokens are operators of the level, \<open>err\<close> is
  the error when the right operand is missing.\<close>

fun level_loop :: "nat \<Rightarrow> (eparser \<Rightarrow> parsed) \<Rightarrow> (tokenType \<Rightarrow> Operator option) \<Rightarrow>
    (expr_token \<Rightarrow> eparser \<Rightarrow> eparser) \<Rightarrow> Node \<Rightarrow> eparser \<Rightarrow> parsed" where
  "level_loop 0 sub ops err left p = None"
| "level_loop (Suc n) sub ops err left p =
     (case ops (et_kind (peek p)) of
        None \<Rightarrow> Some (Some left, p)
      | Some op \<Rightarrow>
          with_node (sub (advance p)) (err (peek p))
            (\<lambda>right q. level_loop n sub ops err
               (BinaryExpr op left right (spanCover (node_span left) (node_span right))) q))"

definition parse_level :: "nat \<Rightarrow> (eparser \<Rightarrow> parsed) \<Rightarrow> (tokenType \<Rightarrow> Operator option) \<Rightarrow>
    (expr_token \<Rightarrow> eparser \<Rightarrow> eparser) \<Rightarrow> eparser \<Rightarrow> parsed" where
  "parse_level n sub ops err p = with_node (sub p) (\<lambda>q. q) (level_loop n sub ops err)"

fun mul_ops :: "tokenType \<Rightarrow> Operator option" where
  "mul_ops tokStar = Some OpMul"
| "mul_ops tokSlash = Some OpDiv"
| "mul_ops tokPercent = Some OpMod"
| "mul_ops _ = None"

fun add_ops :: "tokenType \<Rightarrow> Operator option" where
  "add_ops tokPlus = Some OpAdd"
| "add_ops tokMinus = Some OpSub"
| "add_ops _ = None"

fun cmp_ops :: "tokenType \<Rightarrow> Operator option" where
  "cmp_ops tokLess = Some OpLt"
| "cmp_ops tokLessEq = Some OpLte"
| "cmp_ops tokGreater = Some OpGt"
| "cmp_ops tokGreaterEq = Some OpGte"
| "cmp_ops _ = None"

fun equality_ops :: "tokenType \<Rightarrow> Operator option" where
  "equality_ops tokEqEq = Some OpEq"
| "equality_ops tokNotEq = Some OpNeq"
| "equality_ops tokEqual = Some OpAssignEq"
| "equality_ops _ = None"

fun and_ops :: "tokenType \<Rightarrow> Operator option" where
  "and_ops tokAndAnd = Some OpAnd"
| "and_ops _ = None"

fun or_ops :: "tokenType \<Rightarrow> Operator option" where
  "or_ops tokOrOr = Some OpOr"
| "or_ops _ = None"

definition right_missing :: "expr_token \<Rightarrow> eparser \<Rightarrow> eparser" where
  "right_missing opTok p = expected_here ''expected right expression'' p"

definition right_missing_after :: "string \<Rightarrow> expr_token \<Rightarrow> eparser \<Rightarrow> eparser" where
  "right_missing_after op opTok p =
     addError ''expected-expression'' (''expected right expression after '' @ quoted op) (et_span opTok) p"

definition parseMulExpr :: "nat \<Rightarrow> (eparser \<Rightarrow> parsed) \<Rightarrow> eparser \<Rightarrow> parsed" where
  "parseMulExpr n unary = parse_level n unary mul_ops right_missing"

definition parseAddExpr :: "nat \<Rightarrow> (eparser \<Rightarrow> parsed) \<Rightarrow> eparser \<Rightarrow> parsed" where
  "parseAddExpr n unary = parse_level n (parseMulExpr n unary) add_ops right_missing"

definition parseCmpExpr :: "nat \<Rightarrow> (eparser \<Rightarrow> parsed) \<Rightarrow> eparser \<Rightarrow> parsed" where
  "parseCmpExpr n unary = parse_level n (parseAddExpr n unary) cmp_ops right_missing"

definition parseEqualityExpr :: "nat \<Rightarrow> (eparser \<Rightarrow> parsed) \<Rightarrow> eparser \<Rightarrow> parsed" where
  "parseEqualityExpr n unary = parse_level n (parseCmpExpr n unary) equality_ops right_missing"

definition parseAndExpr :: "nat \<Rightarrow> (eparser \<Rightarrow> parsed) \<Rightarrow> eparser \<Rightarrow> parsed" where
  "parseAndExpr n unary = parse_level n (parseEqualityExpr n unary) and_ops (right_missing_after ''&&'')"

definition parseOrExpr :: "nat \<Rightarrow> (eparser \<Rightarrow> parsed) \<Rightarrow> eparser \<Rightarrow> parsed" where
  "parseOrExpr n unary = parse_level n (parseAndExpr n unary) or_ops (right_missing_after ''||'')"

section \<open>Primary expressions\<close>

definition parse_string_literal :: "expr_token \<Rightarrow> eparser \<Rightarrow> parsed" where
  "parse_string_literal tok p =
     (case unquote (et_text tok) of
        None \<Rightarrow> Some (None, addError ''invalid-string'' ''malformed quoted string'' (et_span tok) p)
      | Some v \<Rightarrow> Some (Some (StringLiteral v (et_span tok)), p))"

definition parse_group :: "(eparser \<Rightarrow> parsed) \<Rightarrow> eparser \<Rightarrow> parsed" where
  "parse_group expr p =
     with_node (expr p) (\<lambda>q. q)
       (\<lambda>node q. with_token tokRParen (''expected '' @ quoted '')'' @ '' after grouped expression'') q
          (\<lambda>q. Some (Some node, q)))"

definition parse_var :: "(eparser \<Rightarrow> parsed) \<Rightarrow> expr_token \<Rightarrow> eparser \<Rightarrow> parsed" where
  "parse_var expr tok p =
     with_token tokLParen (''expected '' @ quoted ''('' @ '' after var'') p (\<lambda>p.
     with_node (expr p) (expected_here ''expected var index'') (\<lambda>arg p.
     with_token tokRParen (''expected '' @ quoted '')'' @ '' after var index'') p (\<lambda>p.
     Some (Some (VarExpr arg (spanCover (et_span tok) (et_span (prev p)))), p))))"

function skip_to_rparen :: "eparser \<Rightarrow> eparser" where
  "skip_to_rparen p =
     (if et_kind (peek p) \<noteq> tokEOF \<and> et_kind (peek p) \<noteq> tokRParen then skip_to_rparen (advance p) else p)"
  by pat_completeness auto
termination
  by (relation "measure (\<lambda>p. length (ep_tokens p) - ep_pos p)")
    (auto simp: peek_def eof_token_def advance_def split: if_splits)

declare skip_to_rparen.simps [simp del]

definition parse_random :: "expr_token \<Rightarrow> eparser \<Rightarrow> parsed" where
  "parse_random tok p =
     (let p1 =
        (case advanceIf tokLParen p of
           (False, q) \<Rightarrow> q
         | (True, q) \<Rightarrow>
             (case advanceIf tokRParen q of
                (True, r) \<Rightarrow> r
              | (False, r) \<Rightarrow>
                  snd (expect tokRParen ''expected-token'' (''expected '' @ quoted '')'' @ '' after random'')
                    (skip_to_rparen
                      (addError ''random-arity'' ''random accepts no arguments'' (et_span (peek r)) r)))))
      in Some (Some (RandomExpr (et_span tok)), p1))"

definition parse_pos :: "expr_token \<Rightarrow> eparser \<Rightarrow> parsed" where
  "parse_pos tok p =
     (let nxt = peek p in
      if et_kind nxt \<noteq> tokIdent
      then Some (None, addError ''expected-token'' ''expected axis after pos'' (et_span nxt) p)
      else Some (Some (PosExpr (to_lower (et_text nxt)) (spanCover (et_span tok) (et_span nxt))), advance p))"

definition parse_cond :: "(eparser \<Rightarrow> parsed) \<Rightarrow> expr_token \<Rightarrow> eparser \<Rightarrow> parsed" where
  "parse_cond expr tok p =
     with_token tokLParen (''expected '' @ quoted ''('' @ '' after cond'') p (\<lambda>p.
     with_node (expr p) (expected_here ''expected cond condition'') (\<lambda>c p.
     with_token tokComma ''expected first comma in cond'' p (\<lambda>p.
     with_node (expr p) (expected_here ''expected cond true branch'') (\<lambda>t p.
     with_token tokComma ''expected second comma in cond'' p (\<lambda>p.
     with_node (expr p) (expected_here ''expected cond false branch'') (\<lambda>e p.
     with_token tokRParen (''expected '' @ quoted '')'' @ '' after cond'') p (\<lambda>p.
     Some (Some (CondExpr c t e (spanCover (et_span tok) (et_span (prev p)))), p))))))))"

definition append_node :: "Node list \<Rightarrow> Node option \<Rightarrow> Node list" where
  "append_node args arg = (case arg of None \<Rightarrow> args | Some a \<Rightarrow> args @ [a])"

fun args_loop :: "nat \<Rightarrow> (eparser \<Rightarrow> parsed) \<Rightarrow> Node list \<Rightarrow> eparser \<Rightarrow> (Node list \<times> eparser) option" where
  "args_loop 0 expr args p = None"
| "args_loop (Suc n) expr args p =
     (case advanceIf tokComma p of
        (False, q) \<Rightarrow> Some (args, q)
      | (True, q) \<Rightarrow>
          (case expr q of None \<Rightarrow> None | Some (arg, r) \<Rightarrow> args_loop n expr (append_node args arg) r))"

definition parse_args :: "nat \<Rightarrow> (eparser \<Rightarrow> parsed) \<Rightarrow> eparser \<Rightarrow> (Node list \<times> eparser) option" where
  "parse_args n expr p =
     (if et_kind (peek p) \<noteq> tokRParen
      then (case expr p of None \<Rightarrow> None | Some (arg, q) \<Rightarrow> args_loop n expr (append_node [] arg) q)
      else Some ([], p))"

text \<open>Both outcomes of the closing \<^verbatim>\<open>expect\<close> build the same node.\<close>

definition parse_call :: "nat \<Rightarrow> (eparser \<Rightarrow> parsed) \<Rightarrow> string \<Rightarrow> expr_token \<Rightarrow> eparser \<Rightarrow> parsed" where
  "parse_call n expr name tok p =
     (case advanceIf tokLParen p of
        (False, q) \<Rightarrow> Some (Some (UnsupportedExpr name [] (et_span tok)), q)
      | (True, q) \<Rightarrow>
          (case parse_args n expr q of
             None \<Rightarrow> None
           | Some (args, r) \<Rightarrow>
               (let s = snd (expect tokRParen ''expected-token''
                         (''expected '' @ quoted '')'' @ '' after function call'') r)
                in Some (Some (UnsupportedExpr name args (spanCover (et_span tok) (et_span (prev s)))), s))))"

definition parse_ident :: "nat \<Rightarrow> (eparser \<Rightarrow> parsed) \<Rightarrow> expr_token \<Rightarrow> eparser \<Rightarrow> parsed" where
  "parse_ident n expr tok p =
     (let name = to_lower (et_text tok) in
      if name = ''var'' then parse_var expr tok p
      else if name = ''random'' then parse_random tok p
      else if name = ''command'' then Some (Some (CommandExpr (et_span tok)), p)
      else if name = ''pos'' then parse_pos tok p
      else if name = ''statetype'' then Some (Some (StateTypeExpr (et_span tok)), p)
      else if name = ''cond'' then parse_cond expr tok p
      else parse_call n expr name tok p)"

definition parsePrimary :: "nat \<Rightarrow> (eparser \<Rightarrow> parsed) \<Rightarrow> eparser \<Rightarrow> parsed" where
  "parsePrimary n expr p =
     (let tok = peek p in
      case et_kind tok of
        tokEOF \<Rightarrow> Some (None, addError ''expected-expression'' ''unexpected end of expression'' (et_span tok) p)
      | tokInt \<Rightarrow> Some (Some (IntLiteral (of_int (parse_digits_sat (et_text tok))) (et_span tok)), advance p)
      | tokString \<Rightarrow> parse_string_literal tok (advance p)
      | tokLParen \<Rightarrow> parse_group expr (advance p)
      | tokIdent \<Rightarrow> parse_ident n expr tok (advance p)
      | _ \<Rightarrow> Some (None, advance (addError ''unexpected-token'' ''unexpected token'' (et_span tok) p)))"

section \<open>The knot\<close>

definition parse_prefix :: "(eparser \<Rightarrow> parsed) \<Rightarrow> Operator \<Rightarrow> string \<Rightarrow> eparser \<Rightarrow> parsed" where
  "parse_prefix unary op opText p =
     with_node (unary (advance p)) (expected_here (''expected expression after '' @ quoted opText))
       (\<lambda>node q. Some (Some (UnaryExpr op node (spanCover (et_span (peek p)) (node_span node))), q))"

primrec parseUnaryExpr :: "nat \<Rightarrow> eparser \<Rightarrow> parsed" where
  "parseUnaryExpr 0 = (\<lambda>p. None)"
| "parseUnaryExpr (Suc n) = (\<lambda>p.
     case et_kind (peek p) of
       tokNot \<Rightarrow> parse_prefix (parseUnaryExpr n) OpNot ''!'' p
     | tokMinus \<Rightarrow> parse_prefix (parseUnaryExpr n) OpSub ''-'' p
     | _ \<Rightarrow> parsePrimary n (parseOrExpr n (parseUnaryExpr n)) p)"

definition expr_Parse :: "string \<Rightarrow> (Node option \<times> ParseError list) option" where
  "expr_Parse source =
     (let p = newParser source; n = length (ep_tokens p) + 1 in
      case parseOrExpr n (parseUnaryExpr n) p of
        None \<Rightarrow> None
      | Some (node, q) \<Rightarrow>
          if ep_errors q \<noteq> [] then Some (None, ep_errors q)
          else (case expect tokEOF ''expected-token'' ''unexpected trailing input'' q of
                  (False, r) \<Rightarrow> Some (None, ep_errors r)
                | (True, r) \<Rightarrow> Some (node, [])))"

end
