(* ===== verification/Expr_Parser_Props.thy ===== *)
theory Expr_Parser_Props
  imports Expr_Parser
begin

text \<open>
  The expression parser terminates, returns a node or at least one error and never both, and builds
  the tree its grammar gives: \<open>derives\<close> is that grammar, over tokens, with the precedence levels of
  \<^verbatim>\<open>expr.go\<close>. A parse function's contract is the locale \<open>subparser\<close>; a precedence level is proved to
  keep it for any operators and any operand parser.
\<close>

section \<open>The grammar\<close>

definition level_ops :: "nat \<Rightarrow> tokenType \<Rightarrow> Operator option" where
  "level_ops l =
     (if l = 1 then mul_ops else if l = 2 then add_ops else if l = 3 then cmp_ops
      else if l = 4 then equality_ops else if l = 5 then and_ops else or_ops)"

definition reserved_names :: "string set" where
  "reserved_names = {''var'', ''random'', ''command'', ''pos'', ''statetype'', ''cond''}"

definition ident :: "expr_token \<Rightarrow> string \<Rightarrow> bool" where
  "ident t name \<longleftrightarrow> et_kind t = tokIdent \<and> to_lower (et_text t) = name"

inductive derives :: "nat \<Rightarrow> expr_token list \<Rightarrow> Node \<Rightarrow> bool"
  and derives_args :: "expr_token list \<Rightarrow> Node list \<Rightarrow> bool" where
  tighter: "derives l ts n \<Longrightarrow> l < 6 \<Longrightarrow> derives (Suc l) ts n"
| binary: "derives (Suc l) ts a \<Longrightarrow> level_ops (Suc l) (et_kind t) = Some op \<Longrightarrow> derives l us b \<Longrightarrow> l < 6 \<Longrightarrow>
    derives (Suc l) (ts @ t # us) (BinaryExpr op a b (spanCover (node_span a) (node_span b)))"
| negation: "et_kind t = tokNot \<Longrightarrow> derives 0 ts n \<Longrightarrow>
    derives 0 (t # ts) (UnaryExpr OpNot n (spanCover (et_span t) (node_span n)))"
| minus: "et_kind t = tokMinus \<Longrightarrow> derives 0 ts n \<Longrightarrow>
    derives 0 (t # ts) (UnaryExpr OpSub n (spanCover (et_span t) (node_span n)))"
| int: "et_kind t = tokInt \<Longrightarrow> derives 0 [t] (IntLiteral (of_int (parse_digits_sat (et_text t))) (et_span t))"
| string: "et_kind t = tokString \<Longrightarrow> unquote (et_text t) = Some v \<Longrightarrow> derives 0 [t] (StringLiteral v (et_span t))"
| group: "et_kind t = tokLParen \<Longrightarrow> derives 6 ts n \<Longrightarrow> et_kind u = tokRParen \<Longrightarrow> derives 0 (t # ts @ [u]) n"
| var: "ident t ''var'' \<Longrightarrow> et_kind o1 = tokLParen \<Longrightarrow> derives 6 ts n \<Longrightarrow> et_kind u = tokRParen \<Longrightarrow>
    derives 0 (t # o1 # ts @ [u]) (VarExpr n (spanCover (et_span t) (et_span u)))"
| random: "ident t ''random'' \<Longrightarrow> derives 0 [t] (RandomExpr (et_span t))"
| random_call: "ident t ''random'' \<Longrightarrow> et_kind o1 = tokLParen \<Longrightarrow> et_kind u = tokRParen \<Longrightarrow>
    derives 0 [t, o1, u] (RandomExpr (et_span t))"
| command: "ident t ''command'' \<Longrightarrow> derives 0 [t] (CommandExpr (et_span t))"
| pos: "ident t ''pos'' \<Longrightarrow> et_kind a = tokIdent \<Longrightarrow>
    derives 0 [t, a] (PosExpr (to_lower (et_text a)) (spanCover (et_span t) (et_span a)))"
| statetype: "ident t ''statetype'' \<Longrightarrow> derives 0 [t] (StateTypeExpr (et_span t))"
| cond: "ident t ''cond'' \<Longrightarrow> et_kind o1 = tokLParen \<Longrightarrow> derives 6 cs c \<Longrightarrow> et_kind k1 = tokComma \<Longrightarrow>
    derives 6 ts n \<Longrightarrow> et_kind k2 = tokComma \<Longrightarrow> derives 6 es e \<Longrightarrow> et_kind u = tokRParen \<Longrightarrow>
    derives 0 (t # o1 # cs @ k1 # ts @ k2 # es @ [u]) (CondExpr c n e (spanCover (et_span t) (et_span u)))"
| name: "ident t f \<Longrightarrow> f \<notin> reserved_names \<Longrightarrow> derives 0 [t] (UnsupportedExpr f [] (et_span t))"
| call0: "ident t f \<Longrightarrow> f \<notin> reserved_names \<Longrightarrow> et_kind o1 = tokLParen \<Longrightarrow> et_kind u = tokRParen \<Longrightarrow>
    derives 0 [t, o1, u] (UnsupportedExpr f [] (spanCover (et_span t) (et_span u)))"
| call: "ident t f \<Longrightarrow> f \<notin> reserved_names \<Longrightarrow> et_kind o1 = tokLParen \<Longrightarrow> derives_args ts args \<Longrightarrow> et_kind u = tokRParen \<Longrightarrow>
    derives 0 (t # o1 # ts @ [u]) (UnsupportedExpr f args (spanCover (et_span t) (et_span u)))"
| arg: "derives 6 ts n \<Longrightarrow> derives_args ts [n]"
| args: "derives_args ts ns \<Longrightarrow> et_kind k = tokComma \<Longrightarrow> derives 6 us n \<Longrightarrow> derives_args (ts @ k # us) (ns @ [n])"

section \<open>Runs of the parser\<close>

definition rest :: "eparser \<Rightarrow> expr_token list" where
  "rest p = drop (ep_pos p) (ep_tokens p)"

text \<open>\<open>runs p ts q\<close>: from \<open>p\<close> the parser went to \<open>q\<close> over the tokens \<open>ts\<close>; errors are only added.\<close>

definition runs :: "eparser \<Rightarrow> expr_token list \<Rightarrow> eparser \<Rightarrow> bool" where
  "runs p ts q \<longleftrightarrow>
     ep_tokens q = ep_tokens p \<and> ep_source q = ep_source p \<and> ep_pos q = ep_pos p + length ts \<and>
     rest p = ts @ rest q \<and> (\<exists>es. ep_errors q = ep_errors p @ es)"

lemma runs_refl [simp]: "runs p [] p"
  by (simp add: runs_def)

lemma runs_trans: "runs p ts q \<Longrightarrow> runs q us r \<Longrightarrow> runs p (ts @ us) r"
  by (auto simp: runs_def)

lemma runs_errors: "runs p ts q \<Longrightarrow> ep_errors q = [] \<Longrightarrow> ep_errors p = []"
  by (auto simp: runs_def)

lemma runs_rest: "runs p ts q \<Longrightarrow> length (rest q) = length (rest p) - length ts"
  by (auto simp: runs_def)

lemma runs_rest_le: "runs p ts q \<Longrightarrow> length (rest q) \<le> length (rest p)"
  by (auto simp: runs_def)

lemma runs_rest_less: "runs p ts q \<Longrightarrow> ts \<noteq> [] \<Longrightarrow> length (rest q) < length (rest p)"
  by (auto simp: runs_def)

lemma peek_rest: "peek p = (case rest p of [] \<Rightarrow> eof_token p | t # _ \<Rightarrow> t)"
  by (auto simp: peek_def rest_def Cons_nth_drop_Suc [symmetric] not_le)

lemma peek_kind: "et_kind (peek p) \<noteq> tokEOF \<Longrightarrow> rest p = peek p # tl (rest p)"
  by (simp add: peek_rest eof_token_def split: list.splits)

lemma runs_advance: "et_kind (peek p) \<noteq> tokEOF \<Longrightarrow> runs p [peek p] (advance p)"
  using peek_kind [of p]
  by (simp add: runs_def advance_def) (simp add: rest_def drop_Suc tl_drop)

lemma runs_addError [simp]: "runs p [] (addError c m s p)"
  by (simp add: runs_def addError_def rest_def)

lemma errors_addError [simp]: "ep_errors (addError c m s p) \<noteq> []"
  by (simp add: addError_def)

lemma runs_prev:
  assumes "runs p (ts @ [t]) q"
  shows "prev q = t"
proof -
  have r: "drop (ep_pos p) (ep_tokens p) = ts @ t # rest q" and q: "ep_pos q = Suc (ep_pos p + length ts)"
    "ep_tokens q = ep_tokens p"
    using assms by (simp_all add: runs_def rest_def)
  have l: "ep_pos p + length ts < length (ep_tokens p)"
    using arg_cong [OF r, of length] by simp
  have "ep_tokens p ! (ep_pos p + length ts) = t"
    using arg_cong [OF r, of "\<lambda>xs. xs ! length ts"] l by (simp add: nth_append)
  with q l show ?thesis by (simp add: prev_def)
qed

lemma advanceIf_runs:
  assumes "kind \<noteq> tokEOF"
  shows "advanceIf kind p = (True, q) \<Longrightarrow> \<exists>t. et_kind t = kind \<and> runs p [t] q"
    and "advanceIf kind p = (False, q) \<Longrightarrow> q = p"
  using assms runs_advance [of p] by (auto simp: advanceIf_def split: if_splits)

lemma expect_runs:
  assumes "kind \<noteq> tokEOF"
  shows "expect kind c m p = (True, q) \<Longrightarrow> \<exists>t. et_kind t = kind \<and> runs p [t] q"
    and "expect kind c m p = (False, q) \<Longrightarrow> runs p [] q \<and> ep_errors q \<noteq> []"
proof -
  obtain b r where a: "advanceIf kind p = (b, r)" by fastforce
  show "expect kind c m p = (True, q) \<Longrightarrow> \<exists>t. et_kind t = kind \<and> runs p [t] q"
    using advanceIf_runs(1) [OF assms, of p q] a by (cases b) (auto simp: expect_def)
  show "expect kind c m p = (False, q) \<Longrightarrow> runs p [] q \<and> ep_errors q \<noteq> []"
    using advanceIf_runs(2) [OF assms, of p r] a by (cases b) (auto simp: expect_def)
qed

section \<open>The contract of a parse function\<close>

text \<open>\<open>good D p x\<close>: the result \<open>x\<close> of a parse function started at \<open>p\<close> is there, consumed tokens \<open>ts\<close>, and is
  either no node with an error, or a node from at least one token which, if no error was met, \<open>D\<close> allows
  for \<open>ts\<close>.\<close>

definition good :: "(expr_token list \<Rightarrow> Node \<Rightarrow> bool) \<Rightarrow> eparser \<Rightarrow> parsed \<Rightarrow> bool" where
  "good D p x \<longleftrightarrow>
     (\<exists>r q ts. x = Some (r, q) \<and> runs p ts q \<and>
        (case r of None \<Rightarrow> ep_errors q \<noteq> []
         | Some node \<Rightarrow> ts \<noteq> [] \<and> (ep_errors q = [] \<longrightarrow> D ts node)))"

locale subparser =
  fixes n :: nat and f :: "eparser \<Rightarrow> parsed" and D :: "expr_token list \<Rightarrow> Node \<Rightarrow> bool"
  assumes good: "length (rest p) < n \<Longrightarrow> good D p (f p)"

lemma goodI:
  "x = Some (Some node, q) \<Longrightarrow> runs p ts q \<Longrightarrow> ts \<noteq> [] \<Longrightarrow> (ep_errors q = [] \<Longrightarrow> D ts node) \<Longrightarrow> good D p x"
  by (auto simp: good_def)

lemma good_fail: "runs p ts q \<Longrightarrow> ep_errors q \<noteq> [] \<Longrightarrow> good D p (Some (None, q))"
  by (auto simp: good_def)

text \<open>Sequencing: after \<open>us\<close> tokens read from \<open>p0\<close>, a sub-parser and then a continuation.\<close>

lemma good_with_node:
  assumes "runs p0 us p" "good D p x"
    and "\<And>q. ep_errors q \<noteq> [] \<Longrightarrow> runs q [] (err q) \<and> ep_errors (err q) \<noteq> []"
    and "\<And>node ts q. ts \<noteq> [] \<Longrightarrow> runs p ts q \<Longrightarrow> runs p0 (us @ ts) q \<Longrightarrow> (ep_errors q = [] \<Longrightarrow> D ts node) \<Longrightarrow>
      good E p0 (k node q)"
  shows "good E p0 (with_node x err k)"
proof -
  obtain r q ts where x: "x = Some (r, q)" and run: "runs p ts q"
    and r: "case r of None \<Rightarrow> ep_errors q \<noteq> [] | Some node \<Rightarrow> ts \<noteq> [] \<and> (ep_errors q = [] \<longrightarrow> D ts node)"
    using assms(2) by (auto simp: good_def)
  have run0: "runs p0 (us @ ts) q" by (rule runs_trans [OF assms(1) run])
  show ?thesis
  proof (cases r)
    case None
    with r have e: "ep_errors q \<noteq> []" by simp
    with assms(3) have "runs p0 ((us @ ts) @ []) (err q)" "ep_errors (err q) \<noteq> []"
      using runs_trans [OF run0] by blast+
    then show ?thesis using None x by (simp add: with_node_def good_fail)
  next
    case (Some node)
    then show ?thesis using r x run run0 assms(4) [of ts q node] by (simp add: with_node_def)
  qed
qed

lemma good_with_token:
  assumes "runs p0 us p" "kind \<noteq> tokEOF"
    and "\<And>t q. et_kind t = kind \<Longrightarrow> runs p [t] q \<Longrightarrow> runs p0 (us @ [t]) q \<Longrightarrow> good E p0 (k q)"
  shows "good E p0 (with_token kind m p k)"
proof -
  obtain b q where e: "expect kind ''expected-token'' m p = (b, q)" by fastforce
  show ?thesis
  proof (cases b)
    case True
    then show ?thesis
      using e expect_runs(1) [OF assms(2)] runs_trans [OF assms(1)] assms(3)
      by (fastforce simp: with_token_def)
  next
    case False
    then have "runs p [] q" "ep_errors q \<noteq> []"
      using e expect_runs(2) [OF assms(2), of _ m p q] by auto
    with runs_trans [OF assms(1), of "[]" q] show ?thesis
      using e False by (simp add: with_token_def good_fail)
  qed
qed

section \<open>A precedence level\<close>

locale operator_level = subparser +
  fixes ops :: "tokenType \<Rightarrow> Operator option" and err :: "expr_token \<Rightarrow> eparser \<Rightarrow> eparser"
    and E :: "expr_token list \<Rightarrow> Node \<Rightarrow> bool"
  assumes no_eof: "ops tokEOF = None"
    and err_adds: "runs q [] (err t q) \<and> ep_errors (err t q) \<noteq> []"
    and up: "D ts a \<Longrightarrow> E ts a"
    and bin: "E ts a \<Longrightarrow> ops (et_kind t) = Some op \<Longrightarrow> D us b \<Longrightarrow>
      E (ts @ t # us) (BinaryExpr op a b (spanCover (node_span a) (node_span b)))"
begin

lemma loop_good:
  assumes "runs p0 ts p" "ts \<noteq> []" "ep_errors p = [] \<Longrightarrow> E ts left"
    and "length (rest p) < m" "length (rest p) < n"
  shows "good E p0 (level_loop m f ops err left p)"
  using assms
proof (induction m arbitrary: p ts left)
  case (Suc m)
  show ?case
  proof (cases "ops (et_kind (peek p))")
    case None
    with Suc.prems show ?thesis by (auto intro: goodI)
  next
    case (Some op)
    with no_eof have k: "et_kind (peek p) \<noteq> tokEOF" by auto
    note run = runs_advance [OF this]
    have len: "length (rest (advance p)) < n" "length (rest (advance p)) < length (rest p)"
      using Suc.prems(5) runs_rest_less [OF run] by simp_all
    have "good E p0 (with_node (f (advance p)) (err (peek p))
        (\<lambda>right q. level_loop m f ops err
           (BinaryExpr op left right (spanCover (node_span left) (node_span right))) q))"
    proof (rule good_with_node [OF runs_trans [OF Suc.prems(1) run] good [OF len(1)]])
      show "runs q [] (err (peek p) q) \<and> ep_errors (err (peek p) q) \<noteq> []" for q
        by (rule err_adds)
      fix right us q
      assume us: "runs (advance p) us q" "runs p0 ((ts @ [peek p]) @ us) q"
        and d: "ep_errors q = [] \<Longrightarrow> D us right"
      show "good E p0 (level_loop m f ops err
           (BinaryExpr op left right (spanCover (node_span left) (node_span right))) q)"
      proof (rule Suc.IH)
        show "runs p0 (ts @ peek p # us) q" using us(2) by simp
        show "length (rest q) < m" "length (rest q) < n"
          using runs_rest_le [OF us(1)] len Suc.prems(4) by simp_all
        assume e: "ep_errors q = []"
        then have "ep_errors p = []" using runs_errors [OF runs_trans [OF run us(1)]] by simp
        with Suc.prems(3) Some d e show "E (ts @ peek p # us)
            (BinaryExpr op left right (spanCover (node_span left) (node_span right)))"
          by (intro bin) auto
      qed simp
    qed
    with Some show ?thesis by simp
  qed
qed simp

lemma level_good: "subparser n (parse_level n f ops err) E"
proof
  fix p
  assume l: "length (rest p) < n"
  show "good E p (parse_level n f ops err p)"
    unfolding parse_level_def
  proof (rule good_with_node [OF runs_refl good [OF l]])
    fix node ts q
    assume "ts \<noteq> []" "runs p ts q" "ep_errors q = [] \<Longrightarrow> D ts node"
    then show "good E p (level_loop n f ops err node q)"
      using l runs_rest_le [of p ts q] by (intro loop_good) (auto intro: up)
  qed simp
qed

end

section \<open>Primary expressions\<close>

lemma err_here [simp]: "runs q [] (expected_here m q)" "ep_errors (expected_here m q) \<noteq> []"
  by (simp_all add: expected_here_def)

context subparser
begin

text \<open>The sub-parser called in the middle of a phrase that began at \<open>p0\<close>.\<close>

lemma then_node:
  assumes "runs p0 us p" "length (rest p) < n"
    and "\<And>q. ep_errors q \<noteq> [] \<Longrightarrow> runs q [] (err q) \<and> ep_errors (err q) \<noteq> []"
    and "\<And>node ts q. runs p0 (us @ ts) q \<Longrightarrow> length (rest q) < n \<Longrightarrow>
      (ep_errors q = [] \<Longrightarrow> ep_errors p = [] \<and> D ts node) \<Longrightarrow> good E p0 (k node q)"
  shows "good E p0 (with_node (f p) err k)"
proof (rule good_with_node [OF assms(1) good [OF assms(2)] assms(3)])
  fix node ts q
  assume q: "runs p ts q" "runs p0 (us @ ts) q" "ep_errors q = [] \<Longrightarrow> D ts node"
  have "length (rest q) < n" using runs_rest_le [OF q(1)] assms(2) by simp
  with q show "good E p0 (k node q)" using runs_errors [OF q(1)] by (intro assms(4)) auto
qed

lemma then_token:
  assumes "runs p0 us p" "length (rest p) < n" "kind \<noteq> tokEOF"
    and "\<And>t q. et_kind t = kind \<Longrightarrow> runs p0 (us @ [t]) q \<Longrightarrow> length (rest q) < n \<Longrightarrow> prev q = t \<Longrightarrow>
      (ep_errors q = [] \<Longrightarrow> ep_errors p = []) \<Longrightarrow> good E p0 (k q)"
  shows "good E p0 (with_token kind m p k)"
proof (rule good_with_token [OF assms(1,3)])
  fix t q
  assume t: "et_kind t = kind" "runs p [t] q" "runs p0 (us @ [t]) q"
  have "length (rest q) < n" using runs_rest_le [OF t(2)] assms(2) by simp
  with t show "good E p0 (k q)"
    using runs_errors [OF t(2)] runs_prev [OF t(3)] by (intro assms(4)) auto
qed

lemma args_loop_good:
  assumes "runs p0 ts p" "length (rest p) < m" "length (rest p) < n"
    and "ep_errors p = [] \<Longrightarrow> derives_args ts args" and "\<And>ts node. D ts node \<Longrightarrow> derives 6 ts node"
  shows "\<exists>ns q us. args_loop m f args p = Some (ns, q) \<and> runs p0 us q \<and> length (rest q) \<le> length (rest p) \<and>
    (ep_errors q = [] \<longrightarrow> derives_args us ns)"
  using assms(1-4)
proof (induction m arbitrary: p ts args)
  case (Suc m)
  obtain b q where a: "advanceIf tokComma p = (b, q)" by fastforce
  show ?case
  proof (cases b)
    case False
    with a advanceIf_runs(2) [of tokComma p q] have "q = p" by simp
    with a False Suc.prems show ?thesis by auto
  next
    case True
    then obtain k where k: "et_kind k = tokComma" "runs p [k] q"
      using advanceIf_runs(1) [of tokComma p q] a by auto
    have l: "length (rest q) < length (rest p)" by (rule runs_rest_less [OF k(2)]) simp
    obtain r s us where f: "f q = Some (r, s)" and run: "runs q us s"
      and r: "case r of None \<Rightarrow> ep_errors s \<noteq> [] | Some node \<Rightarrow> us \<noteq> [] \<and> (ep_errors s = [] \<longrightarrow> D us node)"
      using good [of q] l Suc.prems(3) by (auto simp: good_def)
    have run0: "runs p0 (ts @ k # us) s"
      using runs_trans [OF Suc.prems(1) runs_trans [OF k(2) run]] by simp
    have "derives_args (ts @ k # us) (append_node args r)" if e: "ep_errors s = []"
    proof -
      have "ep_errors p = []" using runs_errors [OF runs_trans [OF k(2) run] e] .
      with Suc.prems(4) k(1) r e assms(5) show ?thesis
        by (auto simp: append_node_def split: option.splits intro: derives_derives_args.args)
    qed
    with Suc.IH [OF run0] l Suc.prems(2,3) runs_rest_le [OF run] a f True show ?thesis
      by fastforce
  qed
qed simp

end

lemma string_literal_good:
  assumes "runs p0 [t] p" "et_kind t = tokString"
  shows "good (derives 0) p0 (parse_string_literal t p)"
proof (cases "unquote (et_text t)")
  case None
  show ?thesis
    unfolding parse_string_literal_def None option.case
    by (rule good_fail [OF runs_trans [OF assms(1) runs_addError] errors_addError])
next
  case (Some v)
  then show ?thesis
    using assms by (auto simp: parse_string_literal_def intro!: goodI [OF _ assms(1)] derives_derives_args.string)
qed

locale expression = subparser n expr "derives 6" for n expr
begin

lemma group_good:
  assumes "runs p0 [t] p" "length (rest p) < n" "et_kind t = tokLParen"
  shows "good (derives 0) p0 (parse_group expr p)"
  unfolding parse_group_def
  apply (rule then_node [OF assms(1,2)], simp)
  apply (rule then_token, assumption, assumption, simp)
  apply (rule goodI [OF refl], assumption, simp)
  using assms(3) by (auto intro: derives_derives_args.group)

lemma var_good:
  assumes "runs p0 [t] p" "length (rest p) < n" "ident t ''var''"
  shows "good (derives 0) p0 (parse_var expr t p)"
  unfolding parse_var_def
  apply (rule then_token [OF assms(1,2)], simp)
  apply (rule then_node, assumption, assumption, simp)
  apply (rule then_token, assumption, assumption, simp)
  apply (rule goodI [OF refl], assumption, simp)
  using assms(3) by (auto intro: derives_derives_args.var)

lemma cond_good:
  assumes "runs p0 [t] p" "length (rest p) < n" "ident t ''cond''"
  shows "good (derives 0) p0 (parse_cond expr t p)"
  unfolding parse_cond_def
  apply (rule then_token [OF assms(1,2)], simp)
  apply (rule then_node, assumption, assumption, simp)
  apply (rule then_token, assumption, assumption, simp)
  apply (rule then_node, assumption, assumption, simp)
  apply (rule then_token, assumption, assumption, simp)
  apply (rule then_node, assumption, assumption, simp)
  apply (rule then_token, assumption, assumption, simp)
  apply (rule goodI [OF refl], assumption, simp)
  using assms(3) by (auto intro: derives_derives_args.cond)

lemma args_good:
  assumes "runs p0 us p" "length (rest p) < n" "et_kind (peek p) \<noteq> tokRParen"
  shows "\<exists>ns q ts. parse_args n expr p = Some (ns, q) \<and> runs p ts q \<and> length (rest q) \<le> length (rest p) \<and>
    (ep_errors q = [] \<longrightarrow> derives_args ts ns)"
proof -
  obtain r s ts where f: "expr p = Some (r, s)" and run: "runs p ts s"
    and r: "case r of None \<Rightarrow> ep_errors s \<noteq> [] | Some node \<Rightarrow> ts \<noteq> [] \<and> (ep_errors s = [] \<longrightarrow> derives 6 ts node)"
    using good [OF assms(2)] by (auto simp: good_def)
  have "derives_args ts (append_node [] r)" if "ep_errors s = []"
    using r that by (auto simp: append_node_def split: option.splits intro: derives_derives_args.arg)
  from args_loop_good [OF run _ _ this, of n] f runs_rest_le [OF run] assms(2,3) show ?thesis
    by (fastforce simp: parse_args_def)
qed

lemma call_good:
  assumes "runs p0 [t] p" "length (rest p) < n" "ident t name" "name \<notin> reserved_names"
  shows "good (derives 0) p0 (parse_call n expr name t p)"
proof -
  obtain b q where a: "advanceIf tokLParen p = (b, q)" by fastforce
  show ?thesis
  proof (cases b)
    case False
    with a advanceIf_runs(2) [of tokLParen p q] have "q = p" by simp
    then show ?thesis
      using a False assms by (auto simp: parse_call_def intro!: goodI [OF refl assms(1)] derives_derives_args.name)
  next
    case True
    then obtain o1 where o1: "et_kind o1 = tokLParen" "runs p [o1] q"
      using advanceIf_runs(1) [of tokLParen p q] a by auto
    have l: "length (rest q) < n" using runs_rest_le [OF o1(2)] assms(2) by simp
    have run0: "runs p0 [t, o1] q" using runs_trans [OF assms(1) o1(2)] by simp
    obtain ns r ts where args: "parse_args n expr q = Some (ns, r)" "runs q ts r"
      and d: "ep_errors r = [] \<Longrightarrow> ts = [] \<and> ns = [] \<or> derives_args ts ns"
    proof (cases "et_kind (peek q) = tokRParen")
      case True
      then show ?thesis by (intro that [of "[]" q "[]"]) (auto simp: parse_args_def)
    next
      case False
      with args_good [OF run0 l] that show ?thesis by blast
    qed
    have run1: "runs p0 ([t, o1] @ ts) r" by (rule runs_trans [OF run0 args(2)])
    obtain c s where e: "expect tokRParen ''expected-token''
        (''expected '' @ quoted '')'' @ '' after function call'') r = (c, s)" by fastforce
    have res: "parse_call n expr name t p =
        Some (Some (UnsupportedExpr name ns (spanCover (et_span t) (et_span (prev s)))), s)"
      using a True args(1) e by (simp add: parse_call_def)
    show ?thesis
    proof (cases c)
      case False
      with e expect_runs(2) [of tokRParen _ _ r s] have "runs r [] s" "ep_errors s \<noteq> []" by auto
      with runs_trans [OF run1, of "[]" s] show ?thesis by (intro goodI [OF res]) auto
    next
      case True
      then obtain u where u: "et_kind u = tokRParen" "runs r [u] s"
        using e expect_runs(1) [of tokRParen _ _ r s] by fastforce
      have run2: "runs p0 (([t, o1] @ ts) @ [u]) s" by (rule runs_trans [OF run1 u(2)])
      show ?thesis
      proof (rule goodI [OF res run2])
        assume "ep_errors s = []"
        with d runs_errors [OF u(2)] have "ts = [] \<and> ns = [] \<or> derives_args ts ns" by blast
        with assms(3,4) o1(1) u(1) show "derives 0 (([t, o1] @ ts) @ [u])
            (UnsupportedExpr name ns (spanCover (et_span t) (et_span (prev s))))"
          unfolding runs_prev [OF run2]
          by (auto intro: derives_derives_args.call0 derives_derives_args.call)
      qed simp
    qed
  qed
qed

end

lemma skip_runs: "\<exists>ts. runs p ts (skip_to_rparen p)"
proof (induction p rule: skip_to_rparen.induct)
  case (1 p)
  show ?case
  proof (cases "et_kind (peek p) \<noteq> tokEOF \<and> et_kind (peek p) \<noteq> tokRParen")
    case True
    with 1 obtain ts where "runs (advance p) ts (skip_to_rparen (advance p))" by blast
    with runs_trans [OF runs_advance] True show ?thesis by (subst skip_to_rparen.simps) fastforce
  next
    case False
    then show ?thesis by (subst skip_to_rparen.simps) (auto intro: exI [of _ "[]"])
  qed
qed

lemma random_good:
  assumes "runs p0 [t] p" "ident t ''random''"
  shows "good (derives 0) p0 (parse_random t p)"
proof -
  obtain b q where a: "advanceIf tokLParen p = (b, q)" by fastforce
  show ?thesis
  proof (cases b)
    case False
    with a advanceIf_runs(2) [of tokLParen p q] have "q = p" by simp
    then show ?thesis
      using a False assms by (auto simp: parse_random_def intro!: goodI [OF refl assms(1)] derives_derives_args.random)
  next
    case True
    then obtain o1 where o1: "et_kind o1 = tokLParen" "runs p [o1] q"
      using advanceIf_runs(1) [of tokLParen p q] a by auto
    have run0: "runs p0 [t, o1] q" using runs_trans [OF assms(1) o1(2)] by simp
    obtain c r where a2: "advanceIf tokRParen q = (c, r)" by fastforce
    show ?thesis
    proof (cases c)
      case True
      then obtain u where u: "et_kind u = tokRParen" "runs q [u] r"
        using advanceIf_runs(1) [of tokRParen q r] a2 by auto
      have run1: "runs p0 [t, o1, u] r" using runs_trans [OF run0 u(2)] by simp
      show ?thesis
        using a a2 \<open>b\<close> True assms(2) o1(1) u(1)
        by (auto simp: parse_random_def intro!: goodI [OF refl run1] derives_derives_args.random_call)
    next
      case False
      define s where "s = addError ''random-arity'' ''random accepts no arguments'' (et_span (peek r)) r"
      define m where "m = ''expected '' @ quoted '')'' @ '' after random''"
      define z where "z = snd (expect tokRParen ''expected-token'' m (skip_to_rparen s))"
      have "r = q" using a2 False advanceIf_runs(2) [of tokRParen q r] by simp
      then have "runs q ([] @ []) s" unfolding s_def by (simp del: append_Nil2)
      then obtain ts where ts: "runs p0 ([t, o1] @ ts) (skip_to_rparen s)"
        using skip_runs [of s] runs_trans [OF run0] runs_trans [of q "[]" s] by (metis append_Nil append_assoc)
      have se: "ep_errors s \<noteq> []" by (simp add: s_def)
      obtain us where us: "runs (skip_to_rparen s) us z"
        using expect_runs [of tokRParen "''expected-token''" m "skip_to_rparen s"]
        by (cases "expect tokRParen ''expected-token'' m (skip_to_rparen s)"; cases "fst (expect tokRParen ''expected-token'' m (skip_to_rparen s))")
          (auto simp: z_def)
      have ze: "ep_errors z \<noteq> []"
        using se runs_errors [OF us] skip_runs [of s] runs_errors by blast
      have "parse_random t p = Some (Some (RandomExpr (et_span t)), z)"
        using a a2 \<open>b\<close> False \<open>r = q\<close> by (simp add: parse_random_def s_def z_def m_def)
      from goodI [OF this runs_trans [OF ts us]] ze show ?thesis by simp
    qed
  qed
qed

lemma pos_good:
  assumes "runs p0 [t] p" "ident t ''pos''"
  shows "good (derives 0) p0 (parse_pos t p)"
proof (cases "et_kind (peek p) = tokIdent")
  case True
  then have "runs p0 ([t] @ [peek p]) (advance p)"
    by (intro runs_trans [OF assms(1) runs_advance]) simp
  then show ?thesis
    using True assms(2)
    by (auto simp: parse_pos_def Let_def intro!: goodI [OF refl] derives_derives_args.pos [of t "peek p", simplified])
next
  case False
  then show ?thesis
    unfolding parse_pos_def Let_def
    by (simp add: good_fail [OF runs_trans [OF assms(1) runs_addError] errors_addError])
qed

lemma ident_good:
  assumes "expression n expr" "runs p0 [t] p" "length (rest p) < n" "et_kind t = tokIdent"
  shows "good (derives 0) p0 (parse_ident n expr t p)"
proof -
  define name where "name = to_lower (et_text t)"
  have id: "ident t name" using assms(4) by (simp add: ident_def name_def)
  consider "name = ''var''" | "name = ''random''" | "name = ''command''" | "name = ''pos''"
    | "name = ''statetype''" | "name = ''cond''" | "name \<notin> reserved_names"
    by (auto simp: reserved_names_def)
  then show ?thesis
  proof cases
    case 1
    with expression.var_good [OF assms(1-3)] id show ?thesis by (simp add: parse_ident_def name_def [symmetric])
  next
    case 2
    with random_good [OF assms(2)] id show ?thesis by (simp add: parse_ident_def name_def [symmetric])
  next
    case 3
    with id assms(2) show ?thesis
      by (auto simp: parse_ident_def name_def [symmetric] intro!: goodI [OF refl assms(2)] derives_derives_args.command)
  next
    case 4
    with pos_good [OF assms(2)] id show ?thesis by (simp add: parse_ident_def name_def [symmetric])
  next
    case 5
    with id assms(2) show ?thesis
      by (auto simp: parse_ident_def name_def [symmetric] intro!: goodI [OF refl assms(2)] derives_derives_args.statetype)
  next
    case 6
    with expression.cond_good [OF assms(1-3)] id show ?thesis by (simp add: parse_ident_def name_def [symmetric])
  next
    case 7
    with expression.call_good [OF assms(1-3) id] show ?thesis
      by (auto simp: parse_ident_def name_def [symmetric] reserved_names_def)
  qed
qed

lemma primary_good:
  assumes "expression n expr" "length (rest p) < Suc n"
  shows "good (derives 0) p (parsePrimary n expr p)"
proof (cases "et_kind (peek p) = tokEOF")
  case True
  then show ?thesis
    by (auto simp: parsePrimary_def Let_def intro: good_fail [OF runs_addError errors_addError])
next
  case False
  note run = runs_advance [OF this]
  have l: "length (rest (advance p)) < n" using runs_rest_less [OF run] assms(2) by simp
  have other: "good (derives 0) p (Some (None, advance (addError c m s p)))" for c m s
  proof -
    have "peek (addError c m s p) = peek p" by (simp add: peek_def eof_token_def addError_def)
    then have "runs p ([] @ [peek p]) (advance (addError c m s p))"
      using False runs_advance [of "addError c m s p"] runs_trans [OF runs_addError] by metis
    then show ?thesis by (rule good_fail) (simp add: advance_def addError_def)
  qed
  show ?thesis
    using False other string_literal_good [OF run] expression.group_good [OF assms(1) run l]
      ident_good [OF assms(1) run l]
    by (cases "et_kind (peek p)")
      (auto simp: parsePrimary_def Let_def intro!: goodI [OF refl run] derives_derives_args.int)
qed

section \<open>The levels and the knot\<close>

lemma right_missing_adds:
  "runs q [] (right_missing t q) \<and> ep_errors (right_missing t q) \<noteq> []"
  "runs q [] (right_missing_after w t q) \<and> ep_errors (right_missing_after w t q) \<noteq> []"
  by (simp_all add: right_missing_def right_missing_after_def)

lemma level_step:
  assumes "subparser n f (derives l)" "l < 6" "level_ops (Suc l) = ops" "ops tokEOF = None"
    and "\<And>q t. runs q [] (err t q) \<and> ep_errors (err t q) \<noteq> []"
  shows "operator_level n f (derives l) ops err (derives (Suc l))"
  by (intro operator_level.intro operator_level_axioms.intro)
    (use assms in \<open>auto intro: derives_derives_args.tighter derives_derives_args.binary\<close>)

lemma level_next:
  assumes "subparser n f (derives l)" "m = Suc l" "l < 6" "level_ops m = ops" "ops tokEOF = None"
    and "\<And>q t. runs q [] (err t q) \<and> ep_errors (err t q) \<noteq> []"
  shows "subparser n (parse_level n f ops err) (derives m)"
  using operator_level.level_good [OF level_step] assms by blast

lemma or_expr_subparser:
  assumes "subparser n unary (derives 0)"
  shows "subparser n (parseOrExpr n unary) (derives 6)"
proof -
  have ops: "level_ops 1 = mul_ops" "level_ops 2 = add_ops" "level_ops 3 = cmp_ops" "level_ops 4 = equality_ops"
    "level_ops 5 = and_ops" "level_ops 6 = or_ops"
    by (simp_all add: level_ops_def)
  note step = right_missing_adds
  have "subparser n (parseMulExpr n unary) (derives 1)"
    unfolding parseMulExpr_def by (rule level_next [OF assms]) (simp_all add: ops step del: One_nat_def)
  then have "subparser n (parseAddExpr n unary) (derives 2)"
    unfolding parseAddExpr_def by (rule level_next) (simp_all add: ops step)
  then have "subparser n (parseCmpExpr n unary) (derives 3)"
    unfolding parseCmpExpr_def by (rule level_next) (simp_all add: ops step)
  then have "subparser n (parseEqualityExpr n unary) (derives 4)"
    unfolding parseEqualityExpr_def by (rule level_next) (simp_all add: ops step)
  then have "subparser n (parseAndExpr n unary) (derives 5)"
    unfolding parseAndExpr_def by (rule level_next) (simp_all add: ops step)
  then show ?thesis
    unfolding parseOrExpr_def by (rule level_next) (simp_all add: ops step)
qed

lemma prefix_good:
  assumes "subparser n unary (derives 0)" "et_kind (peek p) \<noteq> tokEOF" "length (rest p) < Suc n"
    and "\<And>ts node. derives 0 ts node \<Longrightarrow>
      derives 0 (peek p # ts) (UnaryExpr op node (spanCover (et_span (peek p)) (node_span node)))"
  shows "good (derives 0) p (parse_prefix unary op w p)"
proof -
  note run = runs_advance [OF assms(2)]
  have l: "length (rest (advance p)) < n" using runs_rest_less [OF run] assms(3) by simp
  show ?thesis
    unfolding parse_prefix_def
    apply (rule subparser.then_node [OF assms(1) run l], simp)
    apply (rule goodI [OF refl], assumption, simp)
    using assms(4) by simp
qed

lemma unary_subparser: "subparser n (parseUnaryExpr n) (derives 0)"
proof (induction n)
  case 0
  show ?case by unfold_locales simp
next
  case (Suc n)
  have or_expr: "expression n (parseOrExpr n (parseUnaryExpr n))"
    by (rule expression.intro [OF or_expr_subparser [OF Suc.IH]])
  show ?case
  proof
    fix p
    assume l: "length (rest p) < Suc n"
    note pre = prefix_good [OF Suc.IH _ l]
    show "good (derives 0) p (parseUnaryExpr (Suc n) p)"
      using primary_good [OF or_expr l] pre [of OpNot "''!''"] pre [of OpSub "''-''"]
      by (cases "et_kind (peek p)")
        (simp_all add: derives_derives_args.negation derives_derives_args.minus)
  qed
qed

interpretation unary: subparser n "parseUnaryExpr n" "derives 0" for n
  by (rule unary_subparser)

interpretation product: operator_level n "parseUnaryExpr n" "derives 0" mul_ops right_missing "derives 1" for n
  using level_step [where l = 0 and ops = mul_ops and err = right_missing, OF unary_subparser]
  by (simp add: level_ops_def right_missing_adds)

interpretation grouped: expression n "parseOrExpr n (parseUnaryExpr n)" for n
  by (rule expression.intro [OF or_expr_subparser [OF unary_subparser]])

section \<open>Parse\<close>

lemma lex_operator_not_eof: "list_all (\<lambda>t. et_kind t \<noteq> tokEOF) (fst (lex_operator source i ch))"
  by (simp add: lex_operator_def lex_pair_def lex_double_def emit_token_def lex_error_def make_token_def)

lemma lex_step_not_eof: "list_all (\<lambda>t. et_kind t \<noteq> tokEOF) (fst (lex_step source i))"
  using lex_operator_not_eof by (simp add: lex_step_def Let_def emit_token_def lex_error_def make_token_def)

lemma lex_not_eof: "list_all (\<lambda>t. et_kind t \<noteq> tokEOF) (fst (lex_from source i))"
proof (induction source i rule: lex_from.induct)
  case (1 source i)
  show ?case
  proof (cases "i < length source")
    case True
    then show ?thesis
      using 1 lex_step_not_eof [of source i] by (subst lex_from.simps) (auto split: prod.split)
  next
    case False
    then show ?thesis by (subst lex_from.simps) simp
  qed
qed

lemma rest_newParser: "rest (newParser source) = fst (lex source)"
  by (cases "lex source") (simp add: newParser_def rest_def)

lemma expr_Parse_cases:
  "\<exists>node errs. expr_Parse source = Some (node, errs) \<and> (node = None \<longleftrightarrow> errs \<noteq> []) \<and>
     (\<forall>n. node = Some n \<longrightarrow> snd (lex source) = [] \<and> derives 6 (fst (lex source)) n)"
proof -
  define p where "p = newParser source"
  define k where "k = length (ep_tokens p) + 1"
  have "length (rest p) < k" by (simp add: k_def rest_def)
  then obtain r q ts where f: "parseOrExpr k (parseUnaryExpr k) p = Some (r, q)" and run: "runs p ts q"
    and r: "case r of None \<Rightarrow> ep_errors q \<noteq> [] | Some node \<Rightarrow> ts \<noteq> [] \<and> (ep_errors q = [] \<longrightarrow> derives 6 ts node)"
    using grouped.good [of p k] by (auto simp: good_def)
  have p0: "ep_errors p = snd (lex source)" "rest p = fst (lex source)"
    by (simp_all add: p_def rest_newParser) (cases "lex source", simp add: newParser_def)
  have P: "expr_Parse source =
      (if ep_errors q \<noteq> [] then Some (None, ep_errors q)
       else (case expect tokEOF ''expected-token'' ''unexpected trailing input'' q of
               (False, s) \<Rightarrow> Some (None, ep_errors s) | (True, s) \<Rightarrow> Some (r, [])))"
    unfolding expr_Parse_def Let_def p_def [symmetric] k_def [symmetric] f by simp
  show ?thesis
  proof (cases "ep_errors q = []")
    case False
    then show ?thesis by (simp add: P)
  next
    case True
    then obtain node where n: "r = Some node" "derives 6 ts node" using r by (cases r) auto
    show ?thesis
    proof (cases "et_kind (peek q) = tokEOF")
      case eof: True
      have "list_all (\<lambda>t. et_kind t \<noteq> tokEOF) (rest p)"
        using lex_not_eof [of source 0] by (simp add: p0 lex_def)
      then have "rest q = []" using run eof by (auto simp: runs_def peek_rest split: list.splits)
      then have "ts = fst (lex source)" "snd (lex source) = []"
        using run p0 runs_errors [OF run True] by (simp_all add: runs_def)
      moreover have "expr_Parse source = Some (r, [])"
        using True eof by (simp add: P expect_def advanceIf_def)
      ultimately show ?thesis using n by simp
    next
      case False
      then have "\<exists>q'. expect tokEOF ''expected-token'' ''unexpected trailing input'' q = (False, q') \<and> ep_errors q' \<noteq> []"
        by (simp add: expect_def advanceIf_def)
      then show ?thesis using True by (auto simp: P)
    qed
  qed
qed

section \<open>The lexer loses nothing\<close>

text \<open>From byte \<open>i\<close> on, the source is white space, tokens with their text and span, and reported bytes.\<close>

inductive lexed :: "string \<Rightarrow> nat \<Rightarrow> expr_token list \<Rightarrow> ParseError list \<Rightarrow> bool" for source where
  stop: "lexed source (length source) [] []"
| blank: "i < length source \<Longrightarrow> latin1_space (source ! i) \<Longrightarrow> lexed source (i + 1) ts es \<Longrightarrow> lexed source i ts es"
| tok: "i < j \<Longrightarrow> j \<le> length source \<Longrightarrow> et_text t = slice source i j \<Longrightarrow> et_span t = spanFrom source i j \<Longrightarrow>
    lexed source j ts es \<Longrightarrow> lexed source i (t # ts) es"
| err: "i < j \<Longrightarrow> j \<le> length source \<Longrightarrow> pe_Span e = spanFrom source i j \<Longrightarrow>
    lexed source j ts es \<Longrightarrow> lexed source i ts (e # es)"

definition token_or_error :: "string \<Rightarrow> nat \<Rightarrow> lex_result \<Rightarrow> bool" where
  "token_or_error source i x \<longleftrightarrow>
     (\<exists>k j. x = emit_token source k i j) \<or> (\<exists>c m j. x = lex_error source c m i j)"

lemma token_or_error_intros:
  "token_or_error source i (emit_token source k i j)"
  "token_or_error source i (lex_error source c m i j)"
  "token_or_error source i x \<Longrightarrow> token_or_error source i y \<Longrightarrow> token_or_error source i (if b then x else y)"
  unfolding token_or_error_def by blast+ (cases b; simp)

lemma lex_operator_result: "token_or_error source i (lex_operator source i ch)"
  unfolding lex_operator_def lex_pair_def lex_double_def
  by (intro token_or_error_intros)

lemma lex_step_result:
  "lex_step source i = ([], [], i + 1) \<and> latin1_space (source ! i) \<or> token_or_error source i (lex_step source i)"
  unfolding lex_step_def Let_def
  by (cases "latin1_space (source ! i)") (auto intro: token_or_error_intros lex_operator_result)

lemma lexed_lex_from: "i \<le> length source \<Longrightarrow> lexed source i (fst (lex_from source i)) (snd (lex_from source i))"
proof (induction source i rule: lex_from.induct)
  case (1 source i)
  show ?case
  proof (cases "i < length source")
    case False
    then have "i = length source" using 1 by simp
    with False show ?thesis by (subst (1 2) lex_from.simps) (simp add: stop)
  next
    case True
    obtain ts es j where st: "lex_step source i = (ts, es, j)" by (metis prod_cases3)
    have b: "i < j" "j \<le> length source" using lex_step_bounds [OF True] st by simp_all
    have IH: "lexed source j (fst (lex_from source j)) (snd (lex_from source j))"
      using "1.IH" [OF True] st b by fastforce
    have eq: "lex_from source i = (ts @ fst (lex_from source j), es @ snd (lex_from source j))"
      using True st by (subst lex_from.simps) (simp add: case_prod_beta)
    have "ts = [] \<and> es = [] \<and> j = i + 1 \<and> latin1_space (source ! i) \<or>
        (\<exists>k. ts = [make_token source k i j] \<and> es = []) \<or>
        (\<exists>c m. ts = [] \<and> es = [\<lparr>pe_Code = c, pe_Message = m, pe_Span = spanFrom source i j\<rparr>])"
      using lex_step_result [of source i] st
      by (auto simp: token_or_error_def emit_token_def lex_error_def)
    then show ?thesis
      using lexed.tok [OF b _ _ IH] lexed.err [OF b _ IH] lexed.blank [OF True] IH
      unfolding eq by (auto simp: make_token_def)
  qed
qed

section \<open>Claims\<close>

text \<open>C9: Parsing an expression always returns, and returns either a tree or at least one error, never
  both and never neither. The fuel of the model, one more than the number of tokens, never runs out,
  so no input makes the recursive descent or one of its loops run forever.\<close>

theorem expr_parse_total:
  "\<exists>node errs. expr_Parse source = Some (node, errs) \<and> (node = None \<longleftrightarrow> errs \<noteq> [])"
  using expr_Parse_cases by blast

text \<open>C10: A tree the parser returns is one its grammar gives for the whole input: the six binary levels
  bind in the order \<^verbatim>\<open>* / %\<close>, \<^verbatim>\<open>+ -\<close>, comparisons, equality, \<^verbatim>\<open>&&\<close>, \<^verbatim>\<open>||\<close>, each to the left, prefix operators
  bind tightest, parentheses leave no node, and every token of the source is used; spans are those the
  grammar assigns. The source then has no lexical error.\<close>

theorem expr_parse_follows_grammar:
  assumes "expr_Parse source = Some (Some n, errs)"
  shows "errs = [] \<and> snd (lex source) = [] \<and> derives 6 (fst (lex source)) n"
  using assms expr_Parse_cases [of source] by auto

theorem expr_parse_follows_grammar_witness:
  "\<exists>n. expr_Parse ''1+2*x'' = Some (Some n, []) \<and> derives 6 (fst (lex ''1+2*x'')) n"
proof -
  have "case expr_Parse ''1+2*x'' of Some (Some n, es) \<Rightarrow> es = [] | _ \<Rightarrow> False" by code_simp
  then obtain n where "expr_Parse ''1+2*x'' = Some (Some n, [])"
    by (auto split: option.splits prod.splits)
  with expr_parse_follows_grammar show ?thesis by blast
qed

text \<open>The lexer accounts for every byte of the source, in order: each byte is white space, belongs
  to exactly one token whose text and span are that stretch of the source, or is reported by an error
  with its span. No byte is dropped silently or read twice.\<close>

theorem lex_accounts_for_every_byte:
  "lexed source 0 (fst (lex source)) (snd (lex source))"
  unfolding lex_def by (rule lexed_lex_from) simp

end
