(* ===== verification/Patch.thy ===== *)
theory Patch
  imports Ir Go_Paths Go_Utf8 Sha256
begin

text \<open>
  \<^verbatim>\<open>internal/patch/patch.go\<close>, the preview: paths, spans, the guards on an edit and the edited bytes.
  What the code asks of the operating system is the record \<open>os_view\<close>: \<^verbatim>\<open>filepath.Abs\<close>,
  \<^verbatim>\<open>filepath.EvalSymlinks\<close> and \<^verbatim>\<open>os.ReadFile\<close>, each \<^const>\<open>None\<close> where Go returns an error. An error
  of \<^verbatim>\<open>prepare\<close> carries the path it is reported for.
\<close>

section \<open>Data\<close>

record Span =
  ByteStart :: int
  ByteEnd :: int
  span_Start :: SourcePosition
  span_End :: SourcePosition

record Edit =
  ed_Path :: string
  ed_ContentHash :: string
  ed_IdentityContract :: string
  ed_Identity :: Identity
  ed_Span :: Span
  ed_OldText :: string
  ed_NewText :: string

record FilePreview =
  fp_Path :: string
  fp_OldHash :: string
  fp_NewHash :: string
  fp_Bytes :: string

datatype patch_error =
    ErrPathEscape
  | ErrResolve string
  | ErrRead string
  | ErrStaleHash string
  | ErrIdentityContract string
  | ErrOutOfRange string
  | ErrOldText string
  | ErrOverlap string

record os_view =
  os_abs :: "string \<Rightarrow> string option"
  os_eval_symlinks :: "string \<Rightarrow> string option"
  os_read :: "string \<Rightarrow> string option"

definition digest :: "string \<Rightarrow> string" where
  "digest content = sha256_hex content"

section \<open>Paths\<close>

definition canonicalRelative :: "string \<Rightarrow> string option" where
  "canonicalRelative path0 =
     (let path = trim_space path0 in
      if path = [] \<or> is_abs path then None
      else let clean = path_clean path in
        if clean = ''.'' \<or> clean = ''..'' \<or> has_prefix clean ''../'' then None else Some clean)"

definition resolvePath :: "os_view \<Rightarrow> string \<Rightarrow> string \<Rightarrow> patch_error + string" where
  "resolvePath os root rel0 =
     (case canonicalRelative rel0 of
        None \<Rightarrow> Inl ErrPathEscape
      | Some rel \<Rightarrow>
          (case os_abs os root of
             None \<Rightarrow> Inl (ErrResolve root)
           | Some base0 \<Rightarrow>
               (case os_eval_symlinks os base0 of
                  None \<Rightarrow> Inl (ErrResolve root)
                | Some base \<Rightarrow>
                    (let candidate = path_join [base, rel];
                         resolved = (case os_eval_symlinks os candidate of Some r \<Rightarrow> r | None \<Rightarrow> candidate)
                     in case path_rel base resolved of
                          None \<Rightarrow> Inl ErrPathEscape
                        | Some inside \<Rightarrow>
                            if inside = ''..'' \<or> has_prefix inside ''../'' \<or> is_abs inside
                            then Inl ErrPathEscape else Inr candidate))))"

section \<open>Spans\<close>

text \<open>The byte offsets where lines start: 0 and one past every LF.\<close>

fun line_starts_from :: "nat \<Rightarrow> string \<Rightarrow> nat list" where
  "line_starts_from i [] = []"
| "line_starts_from i (c # cs) =
     (if c = CHR 0x0A then (i + 1) # line_starts_from (i + 1) cs else line_starts_from (i + 1) cs)"

definition line_starts :: "string \<Rightarrow> nat list" where
  "line_starts content = 0 # line_starts_from 0 content"

definition line_end :: "string \<Rightarrow> nat \<Rightarrow> nat" where
  "line_end content base =
     base + length (takeWhile (\<lambda>c. c \<noteq> CHR 0x0D \<and> c \<noteq> CHR 0x0A) (drop base content))"

definition to_byte :: "string \<Rightarrow> SourcePosition \<Rightarrow> int option" where
  "to_byte content pos =
     (let base = line_starts content ! nat (Line pos - 1); stop = line_end content base; col = Column pos - 1 in
      if col < 0 \<or> int stop < int base + col then None
      else if int base + col < int stop \<and> \<not> rune_start (content ! nat (int base + col)) then None
      else Some (int base + col))"

definition lineByteOffsets :: "string \<Rightarrow> SourcePosition \<Rightarrow> SourcePosition \<Rightarrow> (int \<times> int) option" where
  "lineByteOffsets content start stop =
     (let n = int (length (line_starts content)) in
      if n < Line start \<or> n < Line stop then None
      else case to_byte content start of
        None \<Rightarrow> None
      | Some a \<Rightarrow> (case to_byte content stop of None \<Rightarrow> None | Some b \<Rightarrow> Some (a, b)))"

text \<open>\<^verbatim>\<open>validateSpan\<close>: true for \<^verbatim>\<open>nil\<close>, false for \<^verbatim>\<open>ErrOutOfRange\<close>. Positions are checked only when
  one of them is not the zero position.\<close>

definition validateSpan :: "Span \<Rightarrow> string \<Rightarrow> bool" where
  "validateSpan s content =
     (if ByteStart s < 0 \<or> ByteEnd s < ByteStart s \<or> int (length content) < ByteEnd s then False
      else if span_Start s \<noteq> zero_position \<or> span_End s \<noteq> zero_position then
        (if Line (span_Start s) < 1 \<or> Column (span_Start s) < 1 \<or>
            Line (span_End s) < Line (span_Start s) \<or> Column (span_End s) < 1 then False
         else case lineByteOffsets content (span_Start s) (span_End s) of
                None \<Rightarrow> False
              | Some (a, b) \<Rightarrow> a = ByteStart s \<and> b = ByteEnd s)
      else True)"

section \<open>Preview of one file\<close>

definition bytes_between :: "string \<Rightarrow> int \<Rightarrow> int \<Rightarrow> string" where
  "bytes_between content a b = take (nat b - nat a) (drop (nat a) content)"

definition check_edit :: "string \<Rightarrow> string \<Rightarrow> string \<Rightarrow> Edit \<Rightarrow> patch_error option" where
  "check_edit path hash original e =
     (if canonicalRelative (ed_Path e) \<noteq> Some path then Some ErrPathEscape
      else if ed_ContentHash e = [] \<or> ed_ContentHash e \<noteq> hash then Some (ErrStaleHash path)
      else if ed_IdentityContract e \<noteq> IdentityContractVersion \<or>
          idn_contract (ed_Identity e) \<noteq> [] \<and> idn_contract (ed_Identity e) \<noteq> IdentityContractVersion
      then Some (ErrIdentityContract path)
      else if \<not> validateSpan (ed_Span e) original then Some (ErrOutOfRange path)
      else if bytes_between original (ByteStart (ed_Span e)) (ByteEnd (ed_Span e)) \<noteq> ed_OldText e
      then Some (ErrOldText path)
      else None)"

fun first_error :: "('a \<Rightarrow> 'e option) \<Rightarrow> 'a list \<Rightarrow> 'e option" where
  "first_error f [] = None"
| "first_error f (x # xs) = (case f x of Some e \<Rightarrow> Some e | None \<Rightarrow> first_error f xs)"

definition edit_less :: "Edit \<Rightarrow> Edit \<Rightarrow> bool" where
  "edit_less a b =
     (if ByteStart (ed_Span a) \<noteq> ByteStart (ed_Span b) then ByteStart (ed_Span a) < ByteStart (ed_Span b)
      else if ByteEnd (ed_Span a) \<noteq> ByteEnd (ed_Span b) then ByteEnd (ed_Span a) < ByteEnd (ed_Span b)
      else if ed_NewText a \<noteq> ed_NewText b then ed_NewText a < ed_NewText b
      else ed_OldText a < ed_OldText b)"

fun overlapping :: "Edit list \<Rightarrow> bool" where
  "overlapping (a # b # es) = (ByteStart (ed_Span b) < ByteEnd (ed_Span a) \<or> overlapping (b # es))"
| "overlapping _ = False"

definition splice :: "Edit \<Rightarrow> string \<Rightarrow> string" where
  "splice e content =
     take (nat (ByteStart (ed_Span e))) content @ ed_NewText e @ drop (nat (ByteEnd (ed_Span e))) content"

text \<open>The loop from the last edit to the first.\<close>

definition apply_edits :: "Edit list \<Rightarrow> string \<Rightarrow> string" where
  "apply_edits es content = foldr splice es content"

definition preview_file :: "os_view \<Rightarrow> string \<Rightarrow> string \<times> Edit list \<Rightarrow> patch_error + FilePreview" where
  "preview_file os root group_of =
     (case group_of of (path, edits0) \<Rightarrow>
      case resolvePath os root path of
        Inl err \<Rightarrow> Inl err
      | Inr abs_path \<Rightarrow>
          (case os_read os abs_path of
             None \<Rightarrow> Inl (ErrRead path)
           | Some original \<Rightarrow>
               (let hash = digest original in
                case first_error (check_edit path hash original) edits0 of
                  Some err \<Rightarrow> Inl err
                | None \<Rightarrow>
                    (let edits = sort_by edit_less edits0 in
                     if overlapping edits then Inl (ErrOverlap path)
                     else let result = apply_edits edits original in
                       Inr \<lparr>fp_Path = path, fp_OldHash = hash, fp_NewHash = digest result, fp_Bytes = result\<rparr>))))"

section \<open>Preview of a patch\<close>

fun group_edits :: "(string \<times> Edit list) list \<Rightarrow> Edit list \<Rightarrow> (string \<times> Edit list) list option" where
  "group_edits gs [] = Some gs"
| "group_edits gs (e # es) =
     (case canonicalRelative (ed_Path e) of
        None \<Rightarrow> None
      | Some path \<Rightarrow> group_edits (add_to_group path e gs) es)"

definition sorted_groups :: "(string \<times> 'a list) list \<Rightarrow> (string \<times> 'a list) list" where
  "sorted_groups gs = sort_by (\<lambda>a b. fst a < fst b) gs"

fun collect :: "('a \<Rightarrow> 'e + 'b) \<Rightarrow> 'a list \<Rightarrow> 'e + 'b list" where
  "collect f [] = Inr []"
| "collect f (x # xs) =
     (case f x of
        Inl e \<Rightarrow> Inl e
      | Inr y \<Rightarrow> (case collect f xs of Inl e \<Rightarrow> Inl e | Inr ys \<Rightarrow> Inr (y # ys)))"

definition prepare :: "os_view \<Rightarrow> string \<Rightarrow> Edit list \<Rightarrow> patch_error + FilePreview list" where
  "prepare os root edits =
     (if trim_space root = [] then Inl ErrPathEscape
      else case group_edits [] edits of
        None \<Rightarrow> Inl ErrPathEscape
      | Some gs \<Rightarrow> collect (preview_file os root) (sorted_groups gs))"

text \<open>\<^verbatim>\<open>PreviewPatch\<close> and its aliases.\<close>

definition PreviewPatch :: "os_view \<Rightarrow> string \<Rightarrow> Edit list \<Rightarrow> patch_error + FilePreview list" where
  "PreviewPatch os root p = prepare os root p"

section \<open>Plans\<close>

record PatchPlan =
  pl_Version :: string
  pl_OperationID :: string
  pl_WorkspaceRoot :: string
  pl_WorkspaceIdentity :: string
  pl_Profile :: string
  pl_InputSnapshot :: string
  pl_Edits :: "Edit list"
  pl_Postconditions :: "string list"

definition PlanVersion :: string where
  "PlanVersion = ''1''"

datatype plan_error =
    PlanUnsupportedVersion | PlanMissingSnapshot | PlanNoEdits | PlanEditInvalid

definition plan_edit_invalid :: "Edit \<Rightarrow> bool" where
  "plan_edit_invalid e \<longleftrightarrow>
     ed_ContentHash e = [] \<or> ed_IdentityContract e = [] \<or> ByteStart (ed_Span e) < 0 \<or>
     ByteEnd (ed_Span e) < ByteStart (ed_Span e)"

definition plan_Validate :: "PatchPlan \<Rightarrow> plan_error option" where
  "plan_Validate p =
     (if pl_Version p = [] \<or> pl_Version p \<noteq> PlanVersion then Some PlanUnsupportedVersion
      else if trim_space (pl_InputSnapshot p) = [] then Some PlanMissingSnapshot
      else if length (pl_Edits p) = 0 then Some PlanNoEdits
      else if list_ex plan_edit_invalid (pl_Edits p) then Some PlanEditInvalid
      else None)"

text \<open>\<^verbatim>\<open>UnifiedDiff\<close>; the file is read at \<^verbatim>\<open>filepath.Join(root, path)\<close>.\<close>

definition diff_file :: "os_view \<Rightarrow> string \<Rightarrow> FilePreview \<Rightarrow> string" where
  "diff_file os root f =
     ''--- a/'' @ fp_Path f @ [CHR 0x0A] @ ''+++ b/'' @ fp_Path f @ [CHR 0x0A] @ ''@@'' @ [CHR 0x0A] @
     (case os_read os (path_join [root, fp_Path f]) of
        None \<Rightarrow> []
      | Some old \<Rightarrow> ''-'' @ trim_suffix old [CHR 0x0A] @ [CHR 0x0A] @
                    ''+'' @ trim_suffix (fp_Bytes f) [CHR 0x0A] @ [CHR 0x0A])"

definition UnifiedDiff :: "os_view \<Rightarrow> string \<Rightarrow> FilePreview list \<Rightarrow> string" where
  "UnifiedDiff os root files = concat (map (diff_file os root) files)"

end
