(* ===== verification/Patch_Props.thy ===== *)
theory Patch_Props
  imports Patch
begin

text \<open>
  What a preview promises: paths that stay inside the workspace, edits that were made for the bytes
  they are applied to, a result that is the original with exactly the named ranges replaced, and an
  answer that does not depend on the order of the edits.
\<close>

section \<open>Paths stay inside\<close>

lemma canonicalRelative_segs:
  assumes "canonicalRelative path = Some c"
  shows "\<not> is_abs c" "clean_segs c \<noteq> []" "''..'' \<notin> set (clean_segs c)" "path_clean c = c"
proof -
  define p where "p = trim_space path"
  have c: "c = path_clean p" and p: "\<not> is_abs p" "c \<noteq> ''.''" "c \<noteq> ''..''" "\<not> has_prefix c ''../''"
    using assms by (auto simp: canonicalRelative_def Let_def p_def [symmetric] split: if_splits)
  show "\<not> is_abs c" "path_clean c = c" using c p(1) by simp_all
  have r: "c = join_with ''/'' (clean_segs p) \<or> clean_segs p = [] \<and> c = ''.''"
  proof (cases "clean_segs p = []")
    case True
    then show ?thesis using c p(1) by (simp add: path_clean_def render_path_def)
  next
    case False
    then have "join_with ''/'' (clean_segs p) \<noteq> []"
      using join_with_head [OF False] hd_clean_segs [OF False] by blast
    then show ?thesis using c p(1) by (simp add: path_clean_def render_path_def)
  qed
  show ne: "clean_segs c \<noteq> []"
  proof
    assume "clean_segs c = []"
    then have "clean_segs p = []" using c by simp
    then have "c = ''.''" using c p(1) by (simp add: path_clean_def render_path_def)
    with p(2) show False ..
  qed
  show "''..'' \<notin> set (clean_segs c)"
  proof
    assume "''..'' \<in> set (clean_segs c)"
    then have hd: "hd (clean_segs p) = ''..''"
      using dots_only_at_front [OF clean_segs_stack [of p]] c by simp
    from ne c obtain ws where "clean_segs p = hd (clean_segs p) # ws" by (cases "clean_segs p") auto
    with hd r c ne have "c = join_with ''/'' (''..'' # ws)" by auto
    with p(3,4) show False by (cases ws) auto
  qed
qed

lemma canonicalRelative_idem: "canonicalRelative path = Some c \<Longrightarrow> trim_space c = c \<Longrightarrow> canonicalRelative c = Some c"
  using canonicalRelative_segs(1,4) [of path c]
  by (auto simp: canonicalRelative_def Let_def split: if_splits)

lemma resolvePath_inside:
  assumes "resolvePath os root rel = Inr candidate" "os_abs os root = Some a" "os_eval_symlinks os a = Some base"
    and "is_abs base"
  shows "\<exists>segs. clean_segs candidate = clean_segs base @ segs \<and> segs \<noteq> [] \<and> ''..'' \<notin> set segs \<and> is_abs candidate"
    and "\<exists>vs. clean_segs (case os_eval_symlinks os candidate of Some r \<Rightarrow> r | None \<Rightarrow> candidate) = clean_segs base @ vs"
proof -
  obtain c where c: "canonicalRelative rel = Some c"
    using assms(1) by (auto simp: resolvePath_def split: option.splits)
  note cs = canonicalRelative_segs [OF c]
  define resolved where "resolved = (case os_eval_symlinks os candidate of Some r \<Rightarrow> r | None \<Rightarrow> candidate)"
  have cand: "candidate = path_join [base, c]"
    and "\<exists>inside. path_rel base resolved = Some inside \<and> inside \<noteq> ''..'' \<and> \<not> has_prefix inside ''../''"
    using assms(1-3) c by (auto simp: resolvePath_def Let_def resolved_def split: option.splits if_splits)
  then show "\<exists>vs. clean_segs (case os_eval_symlinks os candidate of Some r \<Rightarrow> r | None \<Rightarrow> candidate) = clean_segs base @ vs"
    using path_rel_inside [OF assms(4)] unfolding resolved_def by blast
  have "clean_segs candidate = clean_segs base @ clean_segs c" "is_abs candidate"
    using clean_segs_join [OF assms(4) cs(1-3)] by (simp_all add: cand cs(4))
  with cs show "\<exists>segs. clean_segs candidate = clean_segs base @ segs \<and> segs \<noteq> [] \<and> ''..'' \<notin> set segs \<and> is_abs candidate"
    by blast
qed

section \<open>Splicing\<close>

text \<open>The edited content read forwards: from offset \<open>pos\<close> on, what stands between the edits and the
  new texts.\<close>

fun patched :: "string \<Rightarrow> int \<Rightarrow> Edit list \<Rightarrow> string" where
  "patched content pos [] = drop (nat pos) content"
| "patched content pos (e # es) =
     bytes_between content pos (ByteStart (ed_Span e)) @ ed_NewText e @
     patched content (ByteEnd (ed_Span e)) es"

text \<open>In order, inside the content and apart.\<close>

fun ranges_ok :: "nat \<Rightarrow> int \<Rightarrow> Edit list \<Rightarrow> bool" where
  "ranges_ok len pos [] \<longleftrightarrow> 0 \<le> pos \<and> pos \<le> int len"
| "ranges_ok len pos (e # es) \<longleftrightarrow>
     0 \<le> pos \<and> pos \<le> ByteStart (ed_Span e) \<and> ByteStart (ed_Span e) \<le> ByteEnd (ed_Span e) \<and>
     ranges_ok len (ByteEnd (ed_Span e)) es"

lemma ranges_ok_pos: "ranges_ok len pos es \<Longrightarrow> 0 \<le> pos \<and> pos \<le> int len"
  by (induction len pos es rule: ranges_ok.induct) auto

lemma apply_edits_patched:
  "ranges_ok (length content) pos es \<Longrightarrow>
   apply_edits es content = take (nat pos) content @ patched content pos es"
proof (induction es arbitrary: pos)
  case Nil
  then show ?case by (simp add: apply_edits_def)
next
  case (Cons e es)
  let ?s = "nat (ByteStart (ed_Span e))" and ?t = "nat (ByteEnd (ed_Span e))"
  have ok: "ranges_ok (length content) (ByteEnd (ed_Span e)) es" using Cons.prems by simp
  have le: "nat pos \<le> ?s" "?s \<le> ?t" "?t \<le> length content"
    using Cons.prems ranges_ok_pos [OF ok] by auto
  have "apply_edits (e # es) content = splice e (take ?t content @ patched content (ByteEnd (ed_Span e)) es)"
    using Cons.IH [OF ok] by (simp add: apply_edits_def)
  also have "\<dots> = take ?s content @ ed_NewText e @ patched content (ByteEnd (ed_Span e)) es"
    using le by (simp add: splice_def min_def)
  also have "take ?s content = take (nat pos) content @ bytes_between content pos (ByteStart (ed_Span e))"
    using le(1) by (metis bytes_between_def le_add_diff_inverse take_add)
  finally show ?case by simp
qed

lemma sorted_ranges:
  assumes "\<forall>e\<in>set es. 0 \<le> ByteStart (ed_Span e) \<and> ByteStart (ed_Span e) \<le> ByteEnd (ed_Span e) \<and>
      ByteEnd (ed_Span e) \<le> int len"
    and "\<not> overlapping es" "0 \<le> pos" "pos \<le> int len" "es \<noteq> [] \<Longrightarrow> pos \<le> ByteStart (ed_Span (hd es))"
  shows "ranges_ok len pos es"
  using assms
proof (induction es arbitrary: pos)
  case (Cons e es)
  then show ?case by (cases es) auto
qed simp

section \<open>The order of the edits\<close>

definition edit_key :: "Edit \<Rightarrow> int \<times> int \<times> string \<times> string" where
  "edit_key e = (ByteStart (ed_Span e), ByteEnd (ed_Span e), ed_NewText e, ed_OldText e)"

lemma edit_less_key: "edit_less a b \<longleftrightarrow> edit_key a < edit_key b"
  by (auto simp: edit_less_def edit_key_def)

interpretation edits: weak_order edit_less
  by (rule weak_order_by_key [OF edit_less_key])

lemma splice_key: "edit_key e = edit_key e' \<Longrightarrow> splice e = splice e'"
  by (simp add: edit_key_def splice_def fun_eq_iff)

lemma apply_edits_key:
  "map edit_key es = map edit_key es' \<Longrightarrow> apply_edits es content = apply_edits es' content"
proof (induction es arbitrary: es')
  case (Cons e es)
  then obtain e' ds where "es' = e' # ds" "edit_key e = edit_key e'" "map edit_key es = map edit_key ds" by auto
  with Cons.IH [of ds] show ?case by (simp add: apply_edits_def splice_key [of e e'])
qed (simp add: apply_edits_def)

lemma overlapping_key: "map edit_key es = map edit_key es' \<Longrightarrow> overlapping es = overlapping es'"
proof (induction es arbitrary: es' rule: overlapping.induct)
  case (1 a b es)
  then obtain a' b' ds where "es' = a' # b' # ds" by auto
  with 1 show ?case by (auto simp: edit_key_def)
qed auto

lemma sort_edits_perm:
  assumes "mset es = mset es'"
  shows "map edit_key (sort_by edit_less es) = map edit_key (sort_by edit_less es')"
proof -
  have "map edit_key (sort_by edit_less xs) = sort_by (<) (map edit_key xs)" for xs
    by (rule map_sort_by_key [OF edit_less_key])
  moreover have "sort_by (<) (map edit_key es) = sort_by (<) (map edit_key es')"
    by (rule weak_order.sort_by_perm [OF weak_order_key [of "\<lambda>x. x"]])
      (simp_all add: assms)
  ultimately show ?thesis by simp
qed

section \<open>Grouping\<close>

definition edits_of :: "Edit list \<Rightarrow> string \<Rightarrow> Edit list" where
  "edits_of edits path = filter (\<lambda>e. canonicalRelative (ed_Path e) = Some path) edits"

definition edit_paths :: "Edit list \<Rightarrow> string set" where
  "edit_paths edits = {p. \<exists>e\<in>set edits. canonicalRelative (ed_Path e) = Some p}"

definition groups_ok :: "(string \<times> Edit list) list \<Rightarrow> Edit list \<Rightarrow> bool" where
  "groups_ok gs seen \<longleftrightarrow>
     distinct (map fst gs) \<and> set (map fst gs) = edit_paths seen \<and>
     (\<forall>g\<in>set gs. snd g = edits_of seen (fst g))"

lemma groups_ok_add:
  assumes "groups_ok gs seen" "canonicalRelative (ed_Path e) = Some path"
  shows "groups_ok (add_to_group path e gs) (seen @ [e])"
proof -
  have none: "edits_of seen p = []" if "p \<notin> edit_paths seen" for p
    using that by (auto simp: edits_of_def edit_paths_def filter_empty_conv)
  have app: "edits_of (seen @ [e]) p = edits_of seen p @ (if p = path then [e] else [])" for p
    using assms(2) by (auto simp: edits_of_def)
  have "edit_paths (seen @ [e]) = insert path (edit_paths seen)"
    using assms(2) by (auto simp: edit_paths_def)
  moreover have "snd g = edits_of (seen @ [e]) (fst g)" if "g \<in> set (add_to_group path e gs)" for g
    using add_to_group_member [OF that] assms(1) none [of path]
    by (fastforce simp: groups_ok_def app)
  ultimately show ?thesis
    using assms(1) by (simp add: groups_ok_def add_to_group_keys add_to_group_keys(1) [simplified])
qed

lemma group_edits_ok:
  assumes "groups_ok gs seen"
  shows "if list_all (\<lambda>e. canonicalRelative (ed_Path e) \<noteq> None) es
     then \<exists>gs'. group_edits gs es = Some gs' \<and> groups_ok gs' (seen @ es)
     else group_edits gs es = None"
  using assms
proof (induction es arbitrary: gs seen)
  case (Cons e es)
  show ?case
  proof (cases "canonicalRelative (ed_Path e)")
    case (Some path)
    with Cons.IH [OF groups_ok_add [OF Cons.prems Some]] show ?thesis by (auto split: if_splits)
  qed simp
qed simp

text \<open>The groups in the order in which they are read, in closed form.\<close>

definition group_list :: "Edit list \<Rightarrow> (string \<times> Edit list) list" where
  "group_list edits =
     map (\<lambda>p. (p, edits_of edits p))
       (sort_strings (remdups (map (\<lambda>e. the (canonicalRelative (ed_Path e))) edits)))"

lemma sorted_groups_eq:
  assumes "groups_ok gs edits" "list_all (\<lambda>e. canonicalRelative (ed_Path e) \<noteq> None) edits"
  shows "sorted_groups gs = group_list edits"
proof -
  let ?ks = "remdups (map (\<lambda>e. the (canonicalRelative (ed_Path e))) edits)"
  have "set ?ks = edit_paths edits"
    using assms(2) by (force simp: edit_paths_def list_all_iff image_def)
  then have "mset (map fst gs) = mset ?ks"
    using assms(1) set_eq_iff_mset_eq_distinct [of "map fst gs" ?ks]
    by (simp add: groups_ok_def del: mset_map)
  then have keys: "map fst (sorted_groups gs) = sort_strings ?ks"
    using map_sort_by_key [of "\<lambda>a b. fst a < fst b" fst gs] str_order.sort_by_perm [of "map fst gs" ?ks]
    by (simp add: sorted_groups_def sort_strings_def)
  have "sorted_groups gs = map (\<lambda>g. (fst g, snd g)) (sorted_groups gs)" by simp
  also have "\<dots> = map (\<lambda>g. (fst g, edits_of edits (fst g))) (sorted_groups gs)"
    by (rule map_cong [OF refl]) (use assms(1) in \<open>simp add: sorted_groups_def groups_ok_def\<close>)
  also have "\<dots> = map (\<lambda>p. (p, edits_of edits p)) (map fst (sorted_groups gs))" by simp
  finally show ?thesis unfolding keys group_list_def .
qed

lemma prepare_eq:
  "prepare os root edits =
     (if trim_space root = [] \<or> \<not> list_all (\<lambda>e. canonicalRelative (ed_Path e) \<noteq> None) edits
      then Inl ErrPathEscape else collect (preview_file os root) (group_list edits))"
proof -
  have "groups_ok [] []" by (simp add: groups_ok_def edit_paths_def)
  from group_edits_ok [OF this, of edits] show ?thesis
    by (auto simp: prepare_def sorted_groups_eq split: if_splits)
qed

section \<open>One file\<close>

lemma first_error_None: "first_error f xs = None \<longleftrightarrow> (\<forall>x\<in>set xs. f x = None)"
  by (induction xs) (auto split: option.splits)

lemma collect_Inr: "collect f xs = Inr ys \<longleftrightarrow> map f xs = map Inr ys"
proof (induction xs arbitrary: ys)
  case (Cons x xs)
  show ?case
  proof (cases "f x")
    case (Inr y)
    show ?thesis
    proof (cases ys)
      case (Cons z zs)
      with Inr Cons.IH [of zs] show ?thesis by (cases "collect f xs") simp_all
    qed (use Inr in \<open>simp split: sum.split\<close>)
  qed auto
qed auto

lemma validateSpan_range:
  "validateSpan s content \<Longrightarrow> 0 \<le> ByteStart s \<and> ByteStart s \<le> ByteEnd s \<and> ByteEnd s \<le> int (length content)"
  by (auto simp: validateSpan_def split: if_splits)

text \<open>What a file of a successful preview is, with the content \<open>original\<close> it was read as.\<close>

definition file_preview_ok :: "string \<Rightarrow> string \<Rightarrow> Edit list \<Rightarrow> FilePreview \<Rightarrow> bool" where
  "file_preview_ok path original edits f \<longleftrightarrow>
     fp_Path f = path \<and> fp_OldHash f = digest original \<and> fp_NewHash f = digest (fp_Bytes f) \<and>
     list_all (\<lambda>e. ed_ContentHash e = digest original \<and> ed_IdentityContract e = IdentityContractVersion \<and>
       validateSpan (ed_Span e) original \<and>
       bytes_between original (ByteStart (ed_Span e)) (ByteEnd (ed_Span e)) = ed_OldText e) edits \<and>
     ranges_ok (length original) 0 (sort_by edit_less edits) \<and>
     fp_Bytes f = patched original 0 (sort_by edit_less edits)"

lemma preview_file_ok:
  assumes "preview_file os root (path, edits) = Inr f"
  shows "\<exists>abs_path original. resolvePath os root path = Inr abs_path \<and> os_read os abs_path = Some original \<and>
    file_preview_ok path original edits f"
proof -
  obtain abs_path original where r: "resolvePath os root path = Inr abs_path" "os_read os abs_path = Some original"
    using assms by (auto simp: preview_file_def split: sum.splits option.splits)
  define es where "es = sort_by edit_less edits"
  have e: "first_error (check_edit path (digest original) original) edits = None" and o: "\<not> overlapping es"
    and f: "f = \<lparr>fp_Path = path, fp_OldHash = digest original,
      fp_NewHash = digest (apply_edits es original), fp_Bytes = apply_edits es original\<rparr>"
    using assms r by (auto simp: preview_file_def Let_def es_def split: option.splits if_splits)
  have c: "list_all (\<lambda>e. ed_ContentHash e = digest original \<and> ed_IdentityContract e = IdentityContractVersion \<and>
       validateSpan (ed_Span e) original \<and>
       bytes_between original (ByteStart (ed_Span e)) (ByteEnd (ed_Span e)) = ed_OldText e) edits"
    using e by (auto simp: first_error_None list_all_iff check_edit_def split: if_splits)
  then have "\<forall>e\<in>set es. 0 \<le> ByteStart (ed_Span e) \<and> ByteStart (ed_Span e) \<le> ByteEnd (ed_Span e) \<and>
      ByteEnd (ed_Span e) \<le> int (length original)"
    using validateSpan_range by (auto simp: list_all_iff es_def)
  then have "ranges_ok (length original) 0 es"
    using o by (intro sorted_ranges) (cases es; auto)+
  with c r f show ?thesis
    using apply_edits_patched [of original 0 es] by (auto simp: file_preview_ok_def es_def)
qed

lemma preview_file_perm:
  assumes "preview_file os root (path, es) = Inr f" "mset es = mset es'"
  shows "preview_file os root (path, es') = Inr f"
proof -
  note k = sort_edits_perm [OF assms(2)]
  have "(first_error (check_edit p h c) es = None) = (first_error (check_edit p h c) es' = None)" for p h c
    unfolding first_error_None using assms(2) by (metis set_mset_mset)
  then have fe: "first_error (check_edit p h c) es = None \<Longrightarrow> first_error (check_edit p h c) es' = None" for p h c
    by blast
  obtain abs_path original where r: "resolvePath os root path = Inr abs_path" "os_read os abs_path = Some original"
    using assms by (auto simp: preview_file_def split: sum.splits option.splits)
  have "first_error (check_edit path (digest original) original) es = None"
    using assms(1) r by (simp add: preview_file_def Let_def split: option.splits)
  with assms(1) r fe [OF this] overlapping_key [OF k] apply_edits_key [OF k, of original] show ?thesis
    by (simp add: preview_file_def Let_def split: if_splits)
qed

lemma group_list_perm:
  assumes "mset es = mset es'"
  shows "map fst (group_list es) = map fst (group_list es')"
    and "mset (edits_of es p) = mset (edits_of es' p)"
proof -
  let ?ks = "\<lambda>es. map (\<lambda>e. the (canonicalRelative (ed_Path e))) es"
  have "set (?ks es) = set (?ks es')"
    unfolding set_map mset_eq_setD [OF assms] ..
  then have "mset (remdups (?ks es)) = mset (remdups (?ks es'))"
    using set_eq_iff_mset_eq_distinct [of "remdups (?ks es)" "remdups (?ks es')"]
    by (simp only: distinct_remdups set_remdups simp_thms)
  from sort_strings_cong [OF this] show "map fst (group_list es) = map fst (group_list es')"
    by (simp add: group_list_def comp_def)
  show "mset (edits_of es p) = mset (edits_of es' p)"
    using assms by (simp add: edits_of_def)
qed

end
