(* ===== verification/Patch_Claims.thy ===== *)
theory Patch_Claims
  imports Patch_Props Expr_Parser
begin

text \<open>
  The properties of previews, with concrete patches on a small workspace as their witnesses, and the
  agreement of \<^verbatim>\<open>lineByteOffsets\<close> with the positions \<^verbatim>\<open>internal/expr\<close> counts.
\<close>

section \<open>Positions\<close>

lemma line_starts_position:
  "k < length (line_starts_from i cs) \<Longrightarrow> i \<le> line_starts_from i cs ! k \<and>
   advance_position p (take (line_starts_from i cs ! k - i) cs) = \<lparr>Line = Line p + int k + 1, Column = 1\<rparr>"
proof (induction i cs arbitrary: k p rule: line_starts_from.induct)
  case (2 i c cs)
  show ?case
  proof (cases "c = CHR 0x0A")
    case True
    show ?thesis
    proof (cases k)
      case 0
      then show ?thesis using True by simp
    next
      case (Suc m)
      with 2 True have IH: "i + 1 \<le> line_starts_from (i + 1) cs ! m"
        "advance_position \<lparr>Line = Line p + 1, Column = 1\<rparr> (take (line_starts_from (i + 1) cs ! m - (i + 1)) cs)
         = \<lparr>Line = Line p + 1 + int m + 1, Column = 1\<rparr>"
        by (simp_all add: "2.IH"(1))
      then have "line_starts_from (i + 1) cs ! m - i = Suc (line_starts_from (i + 1) cs ! m - (i + 1))" by simp
      with IH True Suc show ?thesis by simp
    qed
  next
    case False
    with 2 have IH: "i + 1 \<le> line_starts_from (i + 1) cs ! k"
        "advance_position (p\<lparr>Column := Column p + 1\<rparr>) (take (line_starts_from (i + 1) cs ! k - (i + 1)) cs)
         = \<lparr>Line = Line p + int k + 1, Column = 1\<rparr>"
      by (simp_all add: "2.IH"(2))
    then have "line_starts_from (i + 1) cs ! k - i = Suc (line_starts_from (i + 1) cs ! k - (i + 1))" by simp
    with IH False show ?thesis by simp
  qed
qed simp

lemma advance_position_append: "advance_position p (s @ t) = advance_position (advance_position p s) t"
  by (induction p s rule: advance_position.induct) simp_all

lemma advance_position_no_LF:
  "CHR 0x0A \<notin> set s \<Longrightarrow> advance_position p s = p\<lparr>Column := Column p + int (length s)\<rparr>"
  by (induction p s rule: advance_position.induct) auto

lemma positionFor_line_start:
  "k < length (line_starts content) \<Longrightarrow> positionFor content (line_starts content ! k) = \<lparr>Line = int k + 1, Column = 1\<rparr>"
  using line_starts_position [of "k - 1" 0 content "\<lparr>Line = 1, Column = 1\<rparr>"]
  by (cases k) (simp_all add: line_starts_def positionFor_def)

lemma line_starts_bound: "x \<in> set (line_starts_from i cs) \<Longrightarrow> x \<le> i + length cs"
  by (induction i cs rule: line_starts_from.induct) (auto split: if_splits)

lemma to_byte_position:
  assumes "to_byte content pos = Some b" "1 \<le> Line pos" "Line pos \<le> int (length (line_starts content))"
  shows "0 \<le> b \<and> b \<le> int (length content) \<and> positionFor content (nat b) = pos"
proof -
  define base where "base = line_starts content ! nat (Line pos - 1)"
  define run where "run = takeWhile (\<lambda>c. c \<noteq> CHR 0x0D \<and> c \<noteq> CHR 0x0A) (drop base content)"
  define col where "col = nat (Column pos - 1)"
  have c: "1 \<le> Column pos" "int base + (Column pos - 1) \<le> int (base + length run)" "b = int base + (Column pos - 1)"
    using assms(1) by (auto simp: to_byte_def Let_def base_def run_def line_end_def split: if_splits)
  then have le: "col \<le> length run" and b: "nat b = base + col" by (simp_all add: col_def)
  have p: "positionFor content base = \<lparr>Line = Line pos, Column = 1\<rparr>"
    using positionFor_line_start [of "nat (Line pos - 1)" content] assms(2,3) by (simp add: base_def)
  have rl: "length run \<le> length content - base"
    using length_takeWhile_le [of _ "drop base content"] by (simp add: run_def)
  have "take col (drop base content) = take col run"
    using le by (metis run_def takeWhile_eq_take take_take min.absorb1)
  moreover have "CHR 0x0A \<notin> set (take col run)"
    using set_takeWhileD by (fastforce simp: run_def dest: in_set_takeD)
  moreover have "take (base + col) content = take base content @ take col (drop base content)"
    by (simp add: take_add)
  ultimately have "positionFor content (base + col) = pos"
    using p le c(1) by (simp add: positionFor_def advance_position_append advance_position_no_LF col_def)
  moreover have "b \<le> int (length content)"
  proof (cases "base \<le> length content")
    case True
    then show ?thesis using b le rl c(1,3) by linarith
  next
    case False
    have "base \<in> set (line_starts content)"
      using assms(2,3) by (simp add: base_def)
    with False line_starts_bound [of base 0 content] show ?thesis by (auto simp: line_starts_def)
  qed
  ultimately show ?thesis using c b by simp
qed

section \<open>A small workspace\<close>

definition demo_os :: os_view where
  "demo_os = \<lparr>os_abs = Some, os_eval_symlinks = Some, os_read = (\<lambda>p. if p = ''/w/a.cns'' then Some ''abcdef'' else None)\<rparr>"

definition demo_edit :: "int \<Rightarrow> int \<Rightarrow> string \<Rightarrow> string \<Rightarrow> Edit" where
  "demo_edit a b old new =
     \<lparr>ed_Path = ''a.cns'', ed_ContentHash = digest ''abcdef'', ed_IdentityContract = IdentityContractVersion,
      ed_Identity = zero_identity,
      ed_Span = \<lparr>ByteStart = a, ByteEnd = b, span_Start = zero_position, span_End = zero_position\<rparr>,
      ed_OldText = old, ed_NewText = new\<rparr>"

lemma digest_not_Nil [simp]: "digest s \<noteq> []"
  by (simp add: digest_def sha256_hex_not_Nil)

lemma demo_resolve: "resolvePath demo_os ''/w'' ''a.cns'' = Inr ''/w/a.cns''"
  by code_simp

lemma demo_check:
  "0 \<le> a \<Longrightarrow> a \<le> b \<Longrightarrow> b \<le> 6 \<Longrightarrow> bytes_between ''abcdef'' a b = old \<Longrightarrow>
   check_edit ''a.cns'' (digest ''abcdef'') ''abcdef'' (demo_edit a b old new) = None"
proof -
  have "canonicalRelative ''a.cns'' = Some ''a.cns''" by code_simp
  then show "0 \<le> a \<Longrightarrow> a \<le> b \<Longrightarrow> b \<le> 6 \<Longrightarrow> bytes_between ''abcdef'' a b = old \<Longrightarrow> ?thesis"
    by (simp add: check_edit_def demo_edit_def validateSpan_def zero_identity_def)
qed

definition demo_edits :: "Edit list" where
  "demo_edits = [demo_edit 4 5 ''e'' ''XY'', demo_edit 1 3 ''bc'' []]"

lemma demo_prepare:
  assumes "es = demo_edits \<or> es = rev demo_edits"
  shows "prepare demo_os ''/w'' es =
     Inr [\<lparr>fp_Path = ''a.cns'', fp_OldHash = digest ''abcdef'', fp_NewHash = digest ''adXYf'', fp_Bytes = ''adXYf''\<rparr>]"
proof -
  have c: "canonicalRelative ''a.cns'' = Some ''a.cns''" "trim_space ''/w'' \<noteq> []" by code_simp+
  have s: "sort_by edit_less es = [demo_edit 1 3 ''bc'' [], demo_edit 4 5 ''e'' ''XY'']"
    using assms by (auto simp: demo_edits_def demo_edit_def edit_less_def)
  have e: "first_error (check_edit ''a.cns'' (digest ''abcdef'') ''abcdef'') es = None"
    using assms by (auto simp: demo_edits_def demo_check bytes_between_def)
  have a: "apply_edits [demo_edit 1 3 ''bc'' [], demo_edit 4 5 ''e'' ''XY''] ''abcdef'' = ''adXYf''"
    by (simp add: apply_edits_def splice_def demo_edit_def)
  have g: "group_edits [] es = Some [(''a.cns'', es)]"
    using assms by (auto simp: demo_edits_def) (simp_all add: demo_edit_def c)
  have o: "\<not> overlapping [demo_edit 1 3 ''bc'' [], demo_edit 4 5 ''e'' ''XY'']"
    by (simp add: demo_edit_def)
  have r: "os_read demo_os ''/w/a.cns'' = Some ''abcdef''" by (simp add: demo_os_def)
  show ?thesis
    by (simp add: prepare_def c g sorted_groups_def preview_file_def demo_resolve r Let_def e s a o del: overlapping.simps)
qed

section \<open>Claims\<close>

text \<open>What the code relies on of \<^verbatim>\<open>filepath.Abs\<close> and \<^verbatim>\<open>filepath.EvalSymlinks\<close>.\<close>

definition os_paths_absolute :: "os_view \<Rightarrow> bool" where
  "os_paths_absolute os \<longleftrightarrow>
     (\<forall>p q. os_abs os p = Some q \<longrightarrow> is_abs q) \<and>
     (\<forall>p q. is_abs p \<longrightarrow> os_eval_symlinks os p = Some q \<longrightarrow> is_abs q)"

text \<open>C3: An edit cannot reach outside the workspace. Whatever path it names, the file handed out
  by \<^verbatim>\<open>resolvePath\<close> lies strictly below the resolved workspace root, element by element and without \<^verbatim>\<open>..\<close>, and
  the file its symbolic links lead to lies inside the root as well.\<close>

theorem resolved_path_inside_workspace:
  assumes "os_paths_absolute os" and "resolvePath os root rel = Inr candidate"
  shows "\<exists>base. Option.bind (os_abs os root) (os_eval_symlinks os) = Some base \<and> is_abs candidate \<and>
    (\<exists>segs. clean_segs candidate = clean_segs base @ segs \<and> segs \<noteq> [] \<and> ''..'' \<notin> set segs) \<and>
    (\<exists>vs. clean_segs (case os_eval_symlinks os candidate of Some r \<Rightarrow> r | None \<Rightarrow> candidate) = clean_segs base @ vs)"
proof -
  obtain a base where ab: "os_abs os root = Some a" "os_eval_symlinks os a = Some base"
    using assms(2) by (auto simp: resolvePath_def split: option.splits)
  with assms(1) have "is_abs base" unfolding os_paths_absolute_def by blast
  from resolvePath_inside [OF assms(2) ab this] ab show ?thesis by auto
qed

theorem resolved_path_inside_workspace_witness:
  "\<exists>segs. clean_segs ''/w/a.cns'' = clean_segs ''/w'' @ segs \<and> segs \<noteq> []"
proof -
  have "os_paths_absolute (demo_os\<lparr>os_abs := \<lambda>p. Some ''/w''\<rparr>)"
    by (simp add: os_paths_absolute_def demo_os_def is_abs_def)
  moreover have "resolvePath (demo_os\<lparr>os_abs := \<lambda>p. Some ''/w''\<rparr>) ''/w'' ''a.cns'' = Inr ''/w/a.cns''"
    by code_simp
  ultimately show ?thesis
    using resolved_path_inside_workspace [of "demo_os\<lparr>os_abs := \<lambda>p. Some ''/w''\<rparr>" "''/w''" "''a.cns''" "''/w/a.cns''"]
    by (auto simp: demo_os_def)
qed

text \<open>C4: A preview that succeeds lists each edited file once, in path order, and for each the file's
  current content was the one every edit was made for: its hash, the identity contract, the span and
  the expected old text all match. The new bytes are the old ones with exactly the edits' ranges
  replaced: read forwards, the text between the ranges is untouched and in place.\<close>

theorem preview_sound:
  assumes "PreviewPatch os root edits = Inr files"
  shows "map fp_Path files = sort_strings (remdups (map (\<lambda>e. the (canonicalRelative (ed_Path e))) edits)) \<and>
    list_all (\<lambda>f. \<exists>abs_path original. resolvePath os root (fp_Path f) = Inr abs_path \<and>
      os_read os abs_path = Some original \<and>
      file_preview_ok (fp_Path f) original
        (filter (\<lambda>e. canonicalRelative (ed_Path e) = Some (fp_Path f)) edits) f) files"
proof -
  have m: "map (preview_file os root) (group_list edits) = map Inr files"
    using assms by (auto simp: PreviewPatch_def prepare_eq collect_Inr split: if_splits)
  have one: "\<exists>abs_path original. resolvePath os root p = Inr abs_path \<and> os_read os abs_path = Some original \<and>
      file_preview_ok p original (edits_of edits p) f" if "preview_file os root (p, edits_of edits p) = Inr f" for p f
    by (rule preview_file_ok [OF that])
  have path: "fp_Path f = p" if "preview_file os root (p, edits_of edits p) = Inr f" for p f
    using one [OF that] by (auto simp: file_preview_ok_def)
  have len: "length (group_list edits) = length files" using m by (metis length_map)
  have nth: "preview_file os root (group_list edits ! i) = Inr (files ! i)" if "i < length files" for i
    using m that len by (metis nth_map)
  have gl: "snd (group_list edits ! i) = edits_of edits (fst (group_list edits ! i))" if "i < length files" for i
    using that len by (simp add: group_list_def)
  have eq: "preview_file os root (fst (group_list edits ! i), edits_of edits (fst (group_list edits ! i))) = Inr (files ! i)"
    if "i < length files" for i
    using nth [OF that] gl [OF that] by (metis prod.collapse)
  have "map fp_Path files = map fst (group_list edits)"
    by (rule nth_equalityI) (use len eq path in auto)
  then have "map fp_Path files = sort_strings (remdups (map (\<lambda>e. the (canonicalRelative (ed_Path e))) edits))"
    by (simp add: group_list_def comp_def)
  moreover have "\<exists>abs_path original. resolvePath os root (fp_Path f) = Inr abs_path \<and>
      os_read os abs_path = Some original \<and> file_preview_ok (fp_Path f) original (edits_of edits (fp_Path f)) f"
    if "f \<in> set files" for f
    using that one eq path by (metis in_set_conv_nth)
  ultimately show ?thesis by (simp add: list_all_iff edits_of_def)
qed

theorem preview_sound_witness:
  "\<exists>f. PreviewPatch demo_os ''/w'' demo_edits = Inr [f] \<and> fp_Path f = ''a.cns'' \<and> fp_Bytes f = ''adXYf'' \<and>
     fp_OldHash f = digest ''abcdef''"
proof -
  let ?f = "\<lparr>fp_Path = ''a.cns'', fp_OldHash = digest ''abcdef'', fp_NewHash = digest ''adXYf'', fp_Bytes = ''adXYf''\<rparr>"
  have p: "PreviewPatch demo_os ''/w'' demo_edits = Inr [?f]" by (simp add: PreviewPatch_def demo_prepare)
  from preview_sound [OF p] demo_resolve
  have "\<exists>original. file_preview_ok ''a.cns'' original
      (filter (\<lambda>e. canonicalRelative (ed_Path e) = Some ''a.cns'') demo_edits) ?f" by auto
  with p show ?thesis by (auto simp: file_preview_ok_def)
qed

text \<open>The order in which a patch lists its edits does not matter: if a preview succeeds, so does the
  preview of any reordering of the same edits, with the same files and the same bytes.\<close>

theorem preview_order_independent:
  assumes "mset edits = mset edits'" and "PreviewPatch os root edits = Inr files"
  shows "PreviewPatch os root edits' = Inr files"
proof -
  have "set edits = set edits'" by (rule mset_eq_setD [OF assms(1)])
  then have ok: "list_all P edits = list_all P edits'" for P by (simp add: list_all_iff)
  have step: "preview_file os root (p, edits_of edits p) = Inr f \<Longrightarrow> preview_file os root (p, edits_of edits' p) = Inr f" for p f
    using preview_file_perm group_list_perm(2) [OF assms(1)] by blast
  have keys: "sort_strings (remdups (map (\<lambda>e. the (canonicalRelative (ed_Path e))) edits)) =
      sort_strings (remdups (map (\<lambda>e. the (canonicalRelative (ed_Path e))) edits'))"
    using group_list_perm(1) [OF assms(1)] by (simp add: group_list_def comp_def)
  have "map (preview_file os root) (group_list edits) = map Inr files"
    using assms(2) by (auto simp: PreviewPatch_def prepare_eq collect_Inr split: if_splits)
  then have "map (preview_file os root) (group_list edits') = map Inr files"
    unfolding group_list_def keys [symmetric] list_eq_iff_nth_eq by (simp add: step)
  with assms(2) show ?thesis
    by (auto simp: PreviewPatch_def prepare_eq ok collect_Inr split: if_splits)
qed

theorem preview_order_independent_witness:
  "\<exists>f. PreviewPatch demo_os ''/w'' (rev demo_edits) = Inr [f] \<and> fp_Bytes f = ''adXYf''"
  using preview_order_independent [of demo_edits "rev demo_edits" demo_os "''/w''"] demo_prepare
  by (simp add: PreviewPatch_def)

text \<open>When an edit gives line and column positions, they and its byte offsets name the same place:
  a span that passes \<^verbatim>\<open>validateSpan\<close> with positions has the positions that \<^verbatim>\<open>internal/expr\<close> counts for
  those byte offsets in the same content.\<close>

theorem validated_positions_match_bytes:
  assumes "validateSpan s content" and "span_Start s \<noteq> zero_position \<or> span_End s \<noteq> zero_position"
  shows "positionFor content (nat (ByteStart s)) = span_Start s \<and> positionFor content (nat (ByteEnd s)) = span_End s"
proof -
  have b: "1 \<le> Line (span_Start s)" "1 \<le> Line (span_End s)"
    and o: "lineByteOffsets content (span_Start s) (span_End s) = Some (ByteStart s, ByteEnd s)"
    using assms by (auto simp: validateSpan_def split: if_splits option.splits)
  from o have "to_byte content (span_Start s) = Some (ByteStart s)" "to_byte content (span_End s) = Some (ByteEnd s)"
    "Line (span_Start s) \<le> int (length (line_starts content))" "Line (span_End s) \<le> int (length (line_starts content))"
    by (auto simp: lineByteOffsets_def Let_def split: if_splits option.splits)
  with b to_byte_position show ?thesis by blast
qed

theorem validated_positions_match_bytes_witness:
  "positionFor [CHR ''a'', CHR 0x0A, CHR ''b'', CHR ''c''] 3 = \<lparr>Line = 2, Column = 2\<rparr>"
proof -
  let ?s = "\<lparr>ByteStart = 2, ByteEnd = 3, span_Start = \<lparr>Line = 2, Column = 1\<rparr>, span_End = \<lparr>Line = 2, Column = 2\<rparr>\<rparr>"
  have "validateSpan ?s [CHR ''a'', CHR 0x0A, CHR ''b'', CHR ''c'']" by code_simp
  from validated_positions_match_bytes [OF this] show ?thesis by (simp add: zero_position_def)
qed

end
