(* ===== verification/Patch_Tx.thy ===== *)
theory Patch_Tx
  imports Patch_Props
begin

text \<open>
  \<^verbatim>\<open>internal/patch/patch.go\<close>, the writers: \<^verbatim>\<open>ApplyPatch\<close>, \<^verbatim>\<open>ApplyAtomic\<close> with its journal and backups, and
  \<^verbatim>\<open>Recover\<close>. The file system is the record \<open>fs\<close>: the files by path, the journal file of the workspace
  (kept as the value its JSON encodes), the names \<^verbatim>\<open>os.CreateTemp\<close> will pick, and a script of faults.
  Every system call that changes something takes the next entry of the script: \<^const>\<open>True\<close> makes it fail
  without effect. \<open>fs_log\<close> records the files and the journal after every such call, latest first: what
  is on disk if the process dies there.
\<close>

section \<open>The file system\<close>

record disk_file =
  f_bytes :: string
  f_mode :: nat

record Journal =
  j_Phase :: string
  j_Root :: string
  j_Backups :: "string list"

type_synonym disk = "(string \<Rightarrow> disk_file option) \<times> Journal option"

record fs =
  fs_files :: "string \<Rightarrow> disk_file option"
  fs_journal :: "Journal option"
  fs_temps :: "string list"
  fs_faults :: "bool list"
  fs_log :: "disk list"

definition next_fault :: "fs \<Rightarrow> bool" where
  "next_fault s = (case fs_faults s of [] \<Rightarrow> False | b # _ \<Rightarrow> b)"

text \<open>One system call: \<open>effect\<close> is what it does when it can, \<^const>\<open>None\<close> when it cannot.\<close>

definition sys_call :: "(fs \<Rightarrow> fs option) \<Rightarrow> fs \<Rightarrow> bool \<times> fs" where
  "sys_call effect s0 =
     (let s = s0\<lparr>fs_faults := tl (fs_faults s0)\<rparr> in
      if next_fault s0 then (False, s)
      else case effect s of
             None \<Rightarrow> (False, s)
           | Some s' \<Rightarrow> (True, s'\<lparr>fs_log := (fs_files s', fs_journal s') # fs_log s'\<rparr>))"

definition os_remove :: "string \<Rightarrow> fs \<Rightarrow> bool \<times> fs" where
  "os_remove p = sys_call (\<lambda>s. if fs_files s p = None then None else Some (s\<lparr>fs_files := (fs_files s)(p := None)\<rparr>))"

definition os_rename :: "string \<Rightarrow> string \<Rightarrow> fs \<Rightarrow> bool \<times> fs" where
  "os_rename a b = sys_call (\<lambda>s.
     case fs_files s a of
       None \<Rightarrow> None
     | Some f \<Rightarrow> Some (s\<lparr>fs_files := (fs_files s)(a := None, b := Some f)\<rparr>))"

definition os_write_file :: "string \<Rightarrow> string \<Rightarrow> fs \<Rightarrow> bool \<times> fs" where
  "os_write_file p content = sys_call (\<lambda>s.
     Some (s\<lparr>fs_files := (fs_files s)(p := Some
       (case fs_files s p of
          None \<Rightarrow> \<lparr>f_bytes = content, f_mode = 420\<rparr>
        | Some f \<Rightarrow> f\<lparr>f_bytes := content\<rparr>))\<rparr>))"

definition write_journal :: "Journal \<Rightarrow> fs \<Rightarrow> bool \<times> fs" where
  "write_journal j = sys_call (\<lambda>s. Some (s\<lparr>fs_journal := Some j\<rparr>))"

definition remove_journal :: "fs \<Rightarrow> bool \<times> fs" where
  "remove_journal = sys_call (\<lambda>s. if fs_journal s = None then None else Some (s\<lparr>fs_journal := None\<rparr>))"

text \<open>\<^verbatim>\<open>os.CreateTemp\<close> makes a file that did not exist; the name is the next of \<open>fs_temps\<close>.\<close>

definition os_create_temp :: "fs \<Rightarrow> string option \<times> fs" where
  "os_create_temp s0 =
     (case sys_call (\<lambda>s. case fs_temps s of
                [] \<Rightarrow> None
              | t # ts \<Rightarrow> if fs_files s t \<noteq> None then None
                  else Some (s\<lparr>fs_temps := ts, fs_files := (fs_files s)(t := Some \<lparr>f_bytes = [], f_mode = 384\<rparr>)\<rparr>)) s0 of
        (ok, s1) \<Rightarrow> (if ok then Some (hd (fs_temps s0)) else None, s1))"

text \<open>\<^verbatim>\<open>Write\<close>, \<^verbatim>\<open>Sync\<close> and \<^verbatim>\<open>Close\<close> on the temporary file, one call that stores the bytes.\<close>

definition os_store :: "string \<Rightarrow> string \<Rightarrow> fs \<Rightarrow> bool \<times> fs" where
  "os_store p content = sys_call (\<lambda>s.
     case fs_files s p of None \<Rightarrow> None
     | Some f \<Rightarrow> Some (s\<lparr>fs_files := (fs_files s)(p := Some (f\<lparr>f_bytes := content\<rparr>))\<rparr>))"

definition os_chmod :: "string \<Rightarrow> nat \<Rightarrow> fs \<Rightarrow> bool \<times> fs" where
  "os_chmod p mode = sys_call (\<lambda>s.
     case fs_files s p of None \<Rightarrow> None
     | Some f \<Rightarrow> Some (s\<lparr>fs_files := (fs_files s)(p := Some (f\<lparr>f_mode := mode\<rparr>))\<rparr>))"

text \<open>What \<^verbatim>\<open>prepare\<close> and \<^verbatim>\<open>resolvePath\<close> see of the file system.\<close>

definition fs_view :: "os_view \<Rightarrow> fs \<Rightarrow> os_view" where
  "fs_view env s = env\<lparr>os_read := \<lambda>p. map_option f_bytes (fs_files s p)\<rparr>"

section \<open>ApplyPatch\<close>

datatype apply_error =
    PrepareFailed patch_error
  | WriteFailed string
  | TransactionError string

fun write_files :: "os_view \<Rightarrow> string \<Rightarrow> FilePreview list \<Rightarrow> fs \<Rightarrow> apply_error option \<times> fs" where
  "write_files env root [] s = (None, s)"
| "write_files env root (f # fps) s =
     (case resolvePath (fs_view env s) root (fp_Path f) of
        Inl err \<Rightarrow> (Some (PrepareFailed err), s)
      | Inr path \<Rightarrow>
          (case os_write_file path (fp_Bytes f) s of
             (False, s') \<Rightarrow> (Some (WriteFailed (fp_Path f)), s')
           | (True, s') \<Rightarrow> write_files env root fps s'))"

definition ApplyPatch :: "os_view \<Rightarrow> string \<Rightarrow> Edit list \<Rightarrow> fs \<Rightarrow> (apply_error + FilePreview list) \<times> fs" where
  "ApplyPatch env root edits s =
     (case prepare (fs_view env s) root edits of
        Inl err \<Rightarrow> (Inl (PrepareFailed err), s)
      | Inr files \<Rightarrow>
          (case write_files env root files s of
             (Some err, s') \<Rightarrow> (Inl err, s')
           | (None, s') \<Rightarrow> (Inr files, s')))"

section \<open>ApplyAtomic\<close>

definition backup_path :: "string \<Rightarrow> string" where
  "backup_path path = path @ ''.ikm-backup''"

text \<open>\<^verbatim>\<open>backup\<close>: the path and its backup. The mode it also keeps is never read.\<close>

type_synonym backup = "string \<times> string"

fun rollback :: "backup list \<Rightarrow> fs \<Rightarrow> fs" where
  "rollback [] s = s"
| "rollback ((path, temp) # bs) s =
     rollback bs (snd (os_rename temp path (snd (os_remove path s))))"

text \<open>The first half of the loop body for one file: the staged temporary file, or the phase that
  failed. A temporary file that could not be filled is removed.\<close>

definition stage_file :: "FilePreview \<Rightarrow> nat \<Rightarrow> fs \<Rightarrow> (string + string) \<times> fs" where
  "stage_file f mode s =
     (case os_create_temp s of
        (None, s1) \<Rightarrow> (Inl ''stage'', s1)
      | (Some name, s1) \<Rightarrow>
          (case os_store name (fp_Bytes f) s1 of
             (False, s2) \<Rightarrow> (Inl ''stage'', snd (os_remove name s2))
           | (True, s2) \<Rightarrow>
               (case os_chmod name mode s2 of
                  (False, s3) \<Rightarrow> (Inl ''stage'', snd (os_remove name s3))
                | (True, s3) \<Rightarrow> (Inr name, s3))))"

text \<open>The whole loop body: the failed phase or \<^const>\<open>None\<close>, the backups made so far, the journal.\<close>

definition replace_file :: "os_view \<Rightarrow> string \<Rightarrow> FilePreview \<Rightarrow> backup list \<Rightarrow> Journal \<Rightarrow> fs \<Rightarrow>
    string option \<times> backup list \<times> Journal \<times> fs" where
  "replace_file env root f bs j s =
     (case resolvePath (fs_view env s) root (fp_Path f) of
        Inl _ \<Rightarrow> (Some ''validate'', bs, j, s)
      | Inr path \<Rightarrow>
          (case fs_files s path of
             None \<Rightarrow> (Some ''validate'', bs, j, s)
           | Some info \<Rightarrow>
               (case stage_file f (f_mode info) s of
                  (Inl phase, s1) \<Rightarrow> (Some phase, bs, j, s1)
                | (Inr name, s1) \<Rightarrow>
                    (let bak = backup_path path; s2 = snd (os_remove bak s1) in
                     case os_rename path bak s2 of
                       (False, s3) \<Rightarrow> (Some ''backup'', bs, j, snd (os_remove name s3))
                     | (True, s3) \<Rightarrow>
                         (let bs' = bs @ [(path, bak)];
                              j' = j\<lparr>j_Phase := ''replacing'', j_Backups := j_Backups j @ [bak]\<rparr> in
                          case write_journal j' s3 of
                            (False, s4) \<Rightarrow> (Some ''journal'', bs', j', s4)
                          | (True, s4) \<Rightarrow>
                              (case os_rename name path s4 of
                                 (False, s5) \<Rightarrow> (Some ''replace'', bs', j', s5)
                               | (True, s5) \<Rightarrow> (None, bs', j', s5)))))))"

text \<open>The loop over the files; a failed phase rolls back what was replaced so far.\<close>

fun replace_files :: "os_view \<Rightarrow> string \<Rightarrow> FilePreview list \<Rightarrow> backup list \<Rightarrow> Journal \<Rightarrow> fs \<Rightarrow>
    string option \<times> backup list \<times> fs" where
  "replace_files env root [] bs j s = (None, bs, s)"
| "replace_files env root (f # fps) bs j s =
     (case replace_file env root f bs j s of
        (Some phase, bs', _, s') \<Rightarrow> (Some phase, bs', rollback bs' s')
      | (None, bs', j', s') \<Rightarrow> replace_files env root fps bs' j' s')"

fun remove_backups :: "backup list \<Rightarrow> fs \<Rightarrow> fs" where
  "remove_backups [] s = s"
| "remove_backups ((_, temp) # bs) s = remove_backups bs (snd (os_remove temp s))"

definition ApplyAtomic :: "os_view \<Rightarrow> string \<Rightarrow> Edit list \<Rightarrow> fs \<Rightarrow> (apply_error + FilePreview list) \<times> fs" where
  "ApplyAtomic env root edits s =
     (case prepare (fs_view env s) root edits of
        Inl err \<Rightarrow> (Inl (PrepareFailed err), s)
      | Inr files \<Rightarrow>
          (let j = \<lparr>j_Phase = ''staging'', j_Root = root, j_Backups = []\<rparr> in
           case write_journal j s of
             (False, s1) \<Rightarrow> (Inl (TransactionError ''journal''), s1)
           | (True, s1) \<Rightarrow>
               (case replace_files env root files [] j s1 of
                  (Some phase, _, s2) \<Rightarrow> (Inl (TransactionError phase), s2)
                | (None, bs, s2) \<Rightarrow> (Inr files, snd (remove_journal (remove_backups bs s2))))))"

section \<open>Recover\<close>

datatype recover_error = NoJournal | RenameFailed string | RemoveJournalFailed

fun restore_backups :: "string list \<Rightarrow> fs \<Rightarrow> recover_error option \<times> fs" where
  "restore_backups [] s = (None, s)"
| "restore_backups (bak # baks) s =
     (let target = trim_suffix bak ''.ikm-backup'' in
      if fs_files s bak \<noteq> None then
        (case os_rename bak target (snd (os_remove target s)) of
           (False, s') \<Rightarrow> (Some (RenameFailed bak), s')
         | (True, s') \<Rightarrow> restore_backups baks s')
      else restore_backups baks s)"

definition Recover :: "fs \<Rightarrow> recover_error option \<times> fs" where
  "Recover s =
     (case fs_journal s of
        None \<Rightarrow> (Some NoJournal, s)
      | Some j \<Rightarrow>
          (case restore_backups (j_Backups j) s of
             (Some err, s') \<Rightarrow> (Some err, s')
           | (None, s') \<Rightarrow>
               (case remove_journal s' of
                  (False, s'') \<Rightarrow> (Some RemoveJournalFailed, s'')
                | (True, s'') \<Rightarrow> (None, s''))))"

end
