(* ===== verification/Patch_Tx_Props.thy ===== *)
theory Patch_Tx_Props
  imports Patch_Tx
begin

text \<open>
  The transaction of \<^verbatim>\<open>ApplyAtomic\<close>: under at most one failing system call, at any point, either every
  file is replaced or every file is as it was; and \<^verbatim>\<open>Recover\<close> undoes what the journal names. Also the
  points where the process may die and \<^verbatim>\<open>Recover\<close> does not help.
\<close>

section \<open>Fault scripts\<close>

definition quiet :: "fs \<Rightarrow> bool" where
  "quiet s \<longleftrightarrow> list_all Not (fs_faults s)"

fun at_most_one :: "bool list \<Rightarrow> bool" where
  "at_most_one [] = True"
| "at_most_one (b # bs) = (if b then list_all Not bs else at_most_one bs)"

definition once :: "fs \<Rightarrow> bool" where
  "once s \<longleftrightarrow> at_most_one (fs_faults s)"

lemma at_most_one_quiet: "list_all Not bs \<Longrightarrow> at_most_one bs"
  by (induction bs) auto

lemma quiet_once: "quiet s \<Longrightarrow> once s"
  by (simp add: quiet_def once_def at_most_one_quiet)

text \<open>A call that can do its work either does it, or fails and was the one fault.\<close>

lemma sys_call_once:
  assumes "sys_call effect s = (ok, s')" "once s"
    and "effect (s\<lparr>fs_faults := tl (fs_faults s)\<rparr>) = Some r" "fs_faults r = tl (fs_faults s)"
  shows "if ok then fs_files s' = fs_files r \<and> fs_journal s' = fs_journal r \<and> fs_temps s' = fs_temps r \<and> once s'
     else fs_files s' = fs_files s \<and> fs_journal s' = fs_journal s \<and> fs_temps s' = fs_temps s \<and> quiet s'"
    and "quiet s \<Longrightarrow> ok \<and> quiet s'"
  using assms
  by (cases "fs_faults s"; auto simp: sys_call_def Let_def next_fault_def quiet_def once_def split: if_splits)+

lemma os_rename_once:
  assumes "os_rename a b s = (ok, s')" "once s" "fs_files s a = Some f"
  shows "if ok then fs_files s' = (fs_files s)(a := None, b := Some f) \<and> fs_journal s' = fs_journal s \<and>
       fs_temps s' = fs_temps s \<and> once s'
     else fs_files s' = fs_files s \<and> fs_journal s' = fs_journal s \<and> fs_temps s' = fs_temps s \<and> quiet s'"
    and "quiet s \<Longrightarrow> ok \<and> quiet s'"
  using sys_call_once [OF assms(1) [unfolded os_rename_def] assms(2)] assms(3) by simp_all

lemma write_journal_once:
  assumes "write_journal j s = (ok, s')" "once s"
  shows "if ok then fs_files s' = fs_files s \<and> fs_journal s' = Some j \<and> fs_temps s' = fs_temps s \<and> once s'
     else fs_files s' = fs_files s \<and> fs_journal s' = fs_journal s \<and> fs_temps s' = fs_temps s \<and> quiet s'"
    and "quiet s \<Longrightarrow> ok \<and> quiet s'"
  using sys_call_once [OF assms(1) [unfolded write_journal_def] assms(2)] by simp_all

lemma os_store_once:
  assumes "os_store p c s = (ok, s')" "once s" "fs_files s p = Some f"
  shows "if ok then fs_files s' = (fs_files s)(p := Some (f\<lparr>f_bytes := c\<rparr>)) \<and> fs_journal s' = fs_journal s \<and>
       fs_temps s' = fs_temps s \<and> once s'
     else fs_files s' = fs_files s \<and> fs_journal s' = fs_journal s \<and> fs_temps s' = fs_temps s \<and> quiet s'"
    and "quiet s \<Longrightarrow> ok \<and> quiet s'"
  using sys_call_once [OF assms(1) [unfolded os_store_def] assms(2)] assms(3) by simp_all

lemma os_chmod_once:
  assumes "os_chmod p m s = (ok, s')" "once s" "fs_files s p = Some f"
  shows "if ok then fs_files s' = (fs_files s)(p := Some (f\<lparr>f_mode := m\<rparr>)) \<and> fs_journal s' = fs_journal s \<and>
       fs_temps s' = fs_temps s \<and> once s'
     else fs_files s' = fs_files s \<and> fs_journal s' = fs_journal s \<and> fs_temps s' = fs_temps s \<and> quiet s'"
    and "quiet s \<Longrightarrow> ok \<and> quiet s'"
  using sys_call_once [OF assms(1) [unfolded os_chmod_def] assms(2)] assms(3) by simp_all

text \<open>A removal whose outcome is ignored.\<close>

lemma os_remove_any:
  assumes "once s"
  shows "(\<forall>x. x \<noteq> p \<longrightarrow> fs_files (snd (os_remove p s)) x = fs_files s x) \<and>
    fs_journal (snd (os_remove p s)) = fs_journal s \<and> fs_temps (snd (os_remove p s)) = fs_temps s \<and>
    once (snd (os_remove p s)) \<and> (quiet s \<longrightarrow> quiet (snd (os_remove p s)))"
    and "fs_files (snd (os_remove p s)) p \<in> {None, fs_files s p}"
  using assms
  by (cases "fs_faults s"; auto simp: os_remove_def sys_call_def Let_def next_fault_def quiet_def once_def at_most_one_quiet)+

section \<open>Undoing\<close>

text \<open>The names of a transaction: targets \<open>ps\<close>, temporary names \<open>T\<close>.\<close>

definition tx_names :: "string list \<Rightarrow> string set \<Rightarrow> bool" where
  "tx_names ps T \<longleftrightarrow> distinct ps \<and> backup_path ` set ps \<inter> set ps = {} \<and>
     T \<inter> set ps = {} \<and> T \<inter> backup_path ` set ps = {}"

definition hidden :: "string list \<Rightarrow> string set \<Rightarrow> string set" where
  "hidden ps T = backup_path ` set ps \<union> T"

lemma backup_path_inj [simp]: "backup_path p = backup_path q \<longleftrightarrow> p = q"
  by (simp add: backup_path_def)

text \<open>Every target in \<open>d\<close> has its original as backup; every file that is neither such a target nor a
  backup or temporary name is the original.\<close>

definition undoable :: "(string \<Rightarrow> disk_file option) \<Rightarrow> string list \<Rightarrow> string set \<Rightarrow> string list \<Rightarrow> fs \<Rightarrow> bool" where
  "undoable orig ps T d s \<longleftrightarrow>
     (\<forall>p\<in>set d. orig p \<noteq> None \<and> fs_files s (backup_path p) = orig p) \<and>
     (\<forall>x. x \<notin> set d \<longrightarrow> x \<notin> hidden ps T \<longrightarrow> fs_files s x = orig x)"

lemma undo_one:
  assumes "quiet s" "undoable orig ps T (p # d) s" "distinct (p # d)" "set (p # d) \<subseteq> set ps" "tx_names ps T"
    and "r = os_rename (backup_path p) p (snd (os_remove p s))"
  shows "fst r" "quiet (snd r)" "undoable orig ps T d (snd r)" "fs_journal (snd r) = fs_journal s"
proof -
  define s1 where "s1 = snd (os_remove p s)"
  obtain ok s2 where r: "r = (ok, s2)" by fastforce
  have o: "once s" using assms(1) by (rule quiet_once)
  have names: "backup_path q \<noteq> p \<and> p \<noteq> backup_path q" if "q \<in> set (p # d)" for q
    using assms(4,5) that by (auto simp: tx_names_def)
  note rem = os_remove_any(1) [OF o, of p, folded s1_def]
  have q1: "quiet s1" using rem assms(1) by blast
  obtain f where f: "orig p = Some f" using assms(2) by (auto simp: undoable_def)
  have b: "fs_files s1 (backup_path p) = Some f"
    using rem assms(2) names f by (auto simp: undoable_def)
  note ren = os_rename_once [OF assms(6) [unfolded r, folded s1_def, symmetric] quiet_once [OF q1] b]
  show "fst r" "quiet (snd r)" using ren(2) [OF q1] r by simp_all
  show "fs_journal (snd r) = fs_journal s" using ren rem r by (simp split: if_splits)
  have files: "fs_files s2 = (fs_files s1)(backup_path p := None, p := Some f)"
    using ren q1 by auto
  have "fs_files s2 (backup_path q) = orig q \<and> orig q \<noteq> None" if "q \<in> set d" for q
    using that assms(2,3) names files rem by (auto simp: undoable_def)
  moreover have "fs_files s2 x = orig x" if "x \<notin> set d" "x \<notin> hidden ps T" for x
    using that assms(2,4) files rem f by (auto simp: undoable_def hidden_def)
  ultimately show "undoable orig ps T d (snd r)" by (simp add: undoable_def r)
qed

definition pairs :: "string list \<Rightarrow> backup list" where
  "pairs d = map (\<lambda>p. (p, backup_path p)) d"

lemma rollback_restores:
  assumes "quiet s" "undoable orig ps T d s" "distinct d" "set d \<subseteq> set ps" "tx_names ps T"
  shows "\<forall>x. x \<notin> hidden ps T \<longrightarrow> fs_files (rollback (pairs d) s) x = orig x"
  using assms
proof (induction d arbitrary: s)
  case Nil
  then show ?case by (simp add: pairs_def undoable_def)
next
  case (Cons p d)
  note u = undo_one [OF Cons.prems(1,2,3,4,5) refl]
  from Cons.IH [OF u(2,3)] Cons.prems(3-5) show ?case by (simp add: pairs_def)
qed

lemma trim_backup: "trim_suffix (backup_path p) ''.ikm-backup'' = p"
  by (simp add: trim_suffix_def has_suffix_def backup_path_def)

lemma restore_restores:
  assumes "quiet s" "undoable orig ps T d s" "distinct d" "set d \<subseteq> set ps" "tx_names ps T"
  shows "\<exists>s'. restore_backups (map backup_path d) s = (None, s') \<and> quiet s' \<and> fs_journal s' = fs_journal s \<and>
    (\<forall>x. x \<notin> hidden ps T \<longrightarrow> fs_files s' x = orig x)"
  using assms
proof (induction d arbitrary: s)
  case Nil
  then show ?case by (simp add: undoable_def)
next
  case (Cons p d)
  obtain ok s1 where r: "os_rename (backup_path p) p (snd (os_remove p s)) = (ok, s1)" by fastforce
  note u = undo_one [OF Cons.prems(1,2,3,4,5) r [symmetric]]
  have "fs_files s (backup_path p) \<noteq> None" using Cons.prems(2) by (simp add: undoable_def)
  then show ?case
    using Cons.IH [OF u(2,3) [simplified]] Cons.prems(3-5) u(1,4) r
    by (simp add: trim_backup Let_def del: not_None_eq)
qed

section \<open>One file\<close>

lemma resolvePath_view [simp]: "resolvePath (fs_view env s) root rel = resolvePath env root rel"
  unfolding resolvePath_def fs_view_def by (simp cong: option.case_cong)

lemma stage_file_once:
  assumes "stage_file f mode s = (r, s')" "once s" "fs_temps s = t # ts" "fs_files s t = None"
  shows "case r of
      Inr name \<Rightarrow> name = t \<and> once s' \<and> fs_temps s' = ts \<and> fs_journal s' = fs_journal s \<and>
        fs_files s' = (fs_files s)(t := Some \<lparr>f_bytes = fp_Bytes f, f_mode = mode\<rparr>)
    | Inl _ \<Rightarrow> quiet s' \<and> (\<forall>x. x \<noteq> t \<longrightarrow> fs_files s' x = fs_files s x)"
    and "quiet s \<Longrightarrow> r = Inr t \<and> quiet s'"
proof -
  let ?create = "\<lambda>s. case fs_temps s of
                [] \<Rightarrow> None
              | t # ts \<Rightarrow> if fs_files s t \<noteq> None then None
                  else Some (s\<lparr>fs_temps := ts, fs_files := (fs_files s)(t := Some \<lparr>f_bytes = [], f_mode = 384\<rparr>)\<rparr>)"
  obtain ok s1 where c: "sys_call ?create s = (ok, s1)" by fastforce
  have c1: "if ok then fs_files s1 = (fs_files s)(t := Some \<lparr>f_bytes = [], f_mode = 384\<rparr>) \<and>
        fs_journal s1 = fs_journal s \<and> fs_temps s1 = ts \<and> once s1
      else fs_files s1 = fs_files s \<and> fs_journal s1 = fs_journal s \<and> fs_temps s1 = fs_temps s \<and> quiet s1"
    and cq: "quiet s \<Longrightarrow> ok \<and> quiet s1"
    using sys_call_once [OF c assms(2)] assms(3,4) by simp_all
  have created: "os_create_temp s = (if ok then Some t else None, s1)"
    using c assms(3) by (simp add: os_create_temp_def)
  show "case r of
      Inr name \<Rightarrow> name = t \<and> once s' \<and> fs_temps s' = ts \<and> fs_journal s' = fs_journal s \<and>
        fs_files s' = (fs_files s)(t := Some \<lparr>f_bytes = fp_Bytes f, f_mode = mode\<rparr>)
    | Inl _ \<Rightarrow> quiet s' \<and> (\<forall>x. x \<noteq> t \<longrightarrow> fs_files s' x = fs_files s x)"
  proof (cases ok)
    case False
    then show ?thesis using assms(1) created c1 by (auto simp: stage_file_def)
  next
    case True
    then have s1: "fs_files s1 t = Some \<lparr>f_bytes = [], f_mode = 384\<rparr>" "once s1" using c1 by simp_all
    obtain ok2 s2 where st: "os_store t (fp_Bytes f) s1 = (ok2, s2)" by fastforce
    note st1 = os_store_once(1) [OF st s1(2,1)]
    show ?thesis
    proof (cases ok2)
      case False
      then have q: "quiet s2" "fs_files s2 = fs_files s1" using st1 by simp_all
      have "s' = snd (os_remove t s2)" "\<exists>ph. r = Inl ph"
        using assms(1) created True st False by (auto simp: stage_file_def)
      then show ?thesis
        using os_remove_any(1) [OF quiet_once [OF q(1)], of t] q c1 True by auto
    next
      case ok2: True
      then have s2: "once s2" "fs_files s2 t = Some \<lparr>f_bytes = fp_Bytes f, f_mode = 384\<rparr>"
        using st1 by simp_all
      obtain ok3 s3 where ch: "os_chmod t mode s2 = (ok3, s3)" by fastforce
      note ch1 = os_chmod_once(1) [OF ch s2]
      show ?thesis
      proof (cases ok3)
        case False
        then have q: "quiet s3" "fs_files s3 = fs_files s2" using ch1 by simp_all
        have "s' = snd (os_remove t s3)" "\<exists>ph. r = Inl ph"
          using assms(1) created True st ok2 ch False by (auto simp: stage_file_def)
        then show ?thesis
          using os_remove_any(1) [OF quiet_once [OF q(1)], of t] q c1 True st1 ok2 by auto
      next
        case ok3: True
        then have "r = Inr t" "s' = s3"
          using assms(1) created True st ok2 ch by (auto simp: stage_file_def)
        then show ?thesis using ch1 ok3 st1 ok2 c1 True by simp
      qed
    qed
  qed
  assume q: "quiet s"
  then have s1: "ok" "quiet s1" "fs_files s1 t = Some \<lparr>f_bytes = [], f_mode = 384\<rparr>" using cq c1 by auto
  obtain ok2 s2 where st: "os_store t (fp_Bytes f) s1 = (ok2, s2)" by fastforce
  note st1 = os_store_once [OF st quiet_once [OF s1(2)] s1(3)]
  have s2: "ok2" "quiet s2" "fs_files s2 t = Some \<lparr>f_bytes = fp_Bytes f, f_mode = 384\<rparr>"
    using st1(1) st1(2) [OF s1(2)] by simp_all
  obtain ok3 s3 where ch: "os_chmod t mode s2 = (ok3, s3)" by fastforce
  from os_chmod_once(2) [OF ch quiet_once [OF s2(2)] s2(3) s2(2)]
  show "r = Inr t \<and> quiet s'"
    using assms(1) created s1(1) st s2(1) ch by (simp add: stage_file_def)
qed

text \<open>The state between two files: the targets in \<open>d\<close> are replaced, the others untouched, the journal
  names the backups made.\<close>

definition tx_state :: "(string \<Rightarrow> disk_file option) \<Rightarrow> (string \<Rightarrow> disk_file option) \<Rightarrow> string list \<Rightarrow> string set \<Rightarrow>
    string list \<Rightarrow> Journal \<Rightarrow> fs \<Rightarrow> bool" where
  "tx_state orig new ps T d j s \<longleftrightarrow>
     undoable orig ps T d s \<and> (\<forall>p\<in>set d. fs_files s p = new p) \<and>
     set (fs_temps s) \<subseteq> T \<and> distinct (fs_temps s) \<and> (\<forall>t\<in>set (fs_temps s). fs_files s t = None) \<and>
     fs_journal s = Some j \<and> j_Backups j = map backup_path d"

lemma tx_names_disjoint:
  assumes "tx_names ps T" "p \<in> set ps" "t \<in> T"
  shows "q \<in> set ps \<Longrightarrow> backup_path q \<noteq> p" "p \<noteq> t" "q \<in> set ps \<Longrightarrow> backup_path q \<noteq> t"
  using assms by (auto simp: tx_names_def)

lemma backup_not_temp: "tx_names ps T \<Longrightarrow> q \<in> set ps \<Longrightarrow> backup_path q \<notin> T"
  by (force simp: tx_names_def)

text \<open>Changes at temporary names, at the target's backup and at the target do not hurt.\<close>

lemma undoable_frame:
  assumes "undoable orig ps T d s" "tx_names ps T" "set d \<subseteq> set ps" "p \<in> set ps" "p \<notin> set d"
    and "\<And>x. x \<notin> T \<Longrightarrow> x \<noteq> backup_path p \<Longrightarrow> fs_files s' x = fs_files s x"
  shows "undoable orig ps T d s'"
proof -
  have "backup_path q \<notin> T" "backup_path q \<noteq> backup_path p" if "q \<in> set d" for q
    using that assms(3,5) backup_not_temp [OF assms(2)] by auto
  moreover have "x \<notin> T" "x \<noteq> backup_path p" if "x \<notin> hidden ps T" for x
    using that assms(4) by (auto simp: hidden_def)
  ultimately show ?thesis using assms(1,6) by (simp add: undoable_def)
qed

lemma undoable_snoc:
  assumes "undoable orig ps T d s" "tx_names ps T" "set d \<subseteq> set ps" "p \<in> set ps" "p \<notin> set d"
    and "\<And>x. x \<notin> T \<Longrightarrow> x \<noteq> backup_path p \<Longrightarrow> x \<noteq> p \<Longrightarrow> fs_files s' x = fs_files s x"
    and "fs_files s' (backup_path p) = orig p" "orig p \<noteq> None"
  shows "undoable orig ps T (d @ [p]) s'"
proof -
  have "backup_path q \<notin> T" "backup_path q \<noteq> backup_path p" "backup_path q \<noteq> p" if "q \<in> set d" for q
    using that assms(2-5) backup_not_temp [OF assms(2)] by (auto simp: tx_names_def)
  moreover have "x \<notin> T" "x \<noteq> backup_path p" if "x \<notin> hidden ps T" for x
    using that assms(4) by (auto simp: hidden_def)
  ultimately show ?thesis using assms(1,6-8) by (auto simp: undoable_def)
qed

lemma replace_file_once:
  assumes "replace_file env root f (pairs d) j s = (ph, bs', j', s')" "once s"
    and "tx_state orig new ps T d j s" "tx_names ps T" "set (d @ [p]) \<subseteq> set ps" "distinct (d @ [p])"
    and "resolvePath env root (fp_Path f) = Inr p" "orig p = Some info"
    and "new p = Some \<lparr>f_bytes = fp_Bytes f, f_mode = f_mode info\<rparr>" "fs_temps s = t # ts"
  shows "(if ph = None
     then bs' = pairs (d @ [p]) \<and> tx_state orig new ps T (d @ [p]) j' s' \<and> once s' \<and> fs_temps s' = ts
     else quiet s' \<and> (\<exists>d'. bs' = pairs d' \<and> distinct d' \<and> set d' \<subseteq> set ps \<and> undoable orig ps T d' s')) \<and>
     (quiet s \<longrightarrow> ph = None \<and> quiet s')"
proof -
  have t: "t \<in> T" "fs_files s t = None" using assms(3,10) by (auto simp: tx_state_def)
  have p: "p \<in> set ps" "p \<notin> set d" "set d \<subseteq> set ps" "distinct d" using assms(5,6) by auto
  note names = tx_names_disjoint [OF assms(4) p(1) t(1)] tx_names_disjoint(1) [OF assms(4) p(1) t(1) p(1)]
    tx_names_disjoint(3) [OF assms(4) p(1) t(1) p(1)]
  have ph: "p \<notin> hidden ps T" using names p(1) assms(4) by (auto simp: hidden_def tx_names_def)
  have U: "undoable orig ps T d s" using assms(3) by (simp add: tx_state_def)
  have sp: "fs_files s p = Some info" using U p(2) ph assms(8) by (simp add: undoable_def)
  obtain r s1 where st: "stage_file f (f_mode info) s = (r, s1)" by fastforce
  note stage = stage_file_once [OF st assms(2,10) t(2)]
  note frame = undoable_frame [OF U assms(4) p(3,1,2)]
  note snoc = undoable_snoc [OF U assms(4) p(3,1,2)]
  show ?thesis
  proof (cases r)
    case (Inl phase)
    then have "ph = Some phase" "bs' = pairs d" "s' = s1"
      using assms(1,7) sp st by (simp_all add: replace_file_def)
    moreover have "undoable orig ps T d s1" by (rule frame) (use stage(1) Inl t(1) in auto)
    ultimately show ?thesis using stage Inl p(3,4) by auto
  next
    case (Inr name)
    define bak where "bak = backup_path p"
    define s2 where "s2 = snd (os_remove bak s1)"
    have s1: "name = t" "once s1" "fs_temps s1 = ts" "fs_journal s1 = fs_journal s"
      "fs_files s1 = (fs_files s)(t := Some \<lparr>f_bytes = fp_Bytes f, f_mode = f_mode info\<rparr>)"
      using stage(1) Inr by simp_all
    have bak: "bak \<noteq> p" "bak \<noteq> t" "p \<noteq> t" using names p(1) by (auto simp: bak_def)
    have s2: "\<And>x. x \<noteq> bak \<Longrightarrow> fs_files s2 x = fs_files s1 x" "fs_temps s2 = ts" "once s2"
      "fs_journal s2 = fs_journal s" and s2q: "quiet s1 \<Longrightarrow> quiet s2"
      using os_remove_any(1) [OF s1(2), of bak] s1 by (simp_all add: s2_def)
    have s2p: "fs_files s2 p = Some info" "fs_files s2 t = Some \<lparr>f_bytes = fp_Bytes f, f_mode = f_mode info\<rparr>"
      using s2(1) bak s1(5) sp by auto
    obtain ok s3 where ren: "os_rename p bak s2 = (ok, s3)" by fastforce
    note r1 = os_rename_once [OF ren s2(3) s2p(1)]
    show ?thesis
    proof (cases ok)
      case False
      then have s3: "quiet s3" "fs_files s3 = fs_files s2" using r1 by simp_all
      have res: "ph = Some ''backup''" "bs' = pairs d" "s' = snd (os_remove t s3)"
        using assms(1,7) sp st Inr ren False s1(1)
        by (simp_all add: replace_file_def Let_def bak_def s2_def)
      note rem = os_remove_any(1) [OF quiet_once [OF s3(1)], of t]
      have "fs_files s' x = fs_files s x" if "x \<notin> T" "x \<noteq> backup_path p" for x
      proof -
        have "x \<noteq> t" "x \<noteq> bak" using that t(1) by (auto simp: bak_def)
        then show ?thesis using rem res(3) s3 s2(1) s1(5) by simp
      qed
      then have "undoable orig ps T d s'" by (rule frame)
      then show ?thesis
        using res rem s3(1) p(3,4) r1(2) False stage(2) s2q by auto
    next
      case True
      then have s3: "fs_files s3 = (fs_files s2)(p := None, bak := Some info)" "once s3" "fs_temps s3 = ts"
        "fs_journal s3 = fs_journal s"
        using r1(1) s2 by simp_all
      have U3: "undoable orig ps T (d @ [p]) s3"
        by (rule snoc) (use s3(1) s2(1) s1(5) t(1) assms(8) bak in \<open>auto simp: bak_def\<close>)
      define jn where "jn = j\<lparr>j_Phase := ''replacing'', j_Backups := j_Backups j @ [bak]\<rparr>"
      obtain ok2 s4 where wj: "write_journal jn s3 = (ok2, s4)" by fastforce
      note w1 = write_journal_once [OF wj s3(2)]
      have files4: "fs_files s4 = fs_files s3" using w1(1) by (simp split: if_splits)
      have U4: "undoable orig ps T (d @ [p]) s4" using U3 files4 by (simp add: undoable_def)
      have dp: "distinct (d @ [p])" "set (d @ [p]) \<subseteq> set ps" by (fact assms(6), fact assms(5))
      have ex: "\<exists>d'. pairs (d @ [p]) = pairs d' \<and> distinct d' \<and> set d' \<subseteq> set ps \<and> undoable orig ps T d' z"
        if "undoable orig ps T (d @ [p]) z" for z
        using that dp by blast
      have pairs: "pairs d @ [(p, bak)] = pairs (d @ [p])" by (simp add: pairs_def bak_def)
      show ?thesis
      proof (cases ok2)
        case False
        then have "ph = Some ''journal''" "bs' = pairs (d @ [p])" "s' = s4"
          using assms(1,7) sp st Inr ren True wj
          by (simp_all add: replace_file_def Let_def bak_def s2_def jn_def pairs [unfolded bak_def])
        then show ?thesis
          using w1 False ex [OF U4] r1(2) stage(2) s2q by auto
      next
        case ok2: True
        have s4: "once s4" "fs_temps s4 = ts" "fs_journal s4 = Some jn" using w1(1) ok2 s3(3) by simp_all
        have s4t: "fs_files s4 t = Some \<lparr>f_bytes = fp_Bytes f, f_mode = f_mode info\<rparr>"
          using files4 s3(1) s2p(2) bak by simp
        obtain ok3 s5 where rn: "os_rename t p s4 = (ok3, s5)" by fastforce
        note r2 = os_rename_once [OF rn s4(1) s4t]
        have res: "ph = (if ok3 then None else Some ''replace'')" "bs' = pairs (d @ [p])" "j' = jn" "s' = s5"
          using assms(1,7) sp st Inr ren True wj ok2 rn s1(1)
          by (cases ok3; simp add: replace_file_def Let_def bak_def s2_def jn_def pairs [unfolded bak_def])+
        show ?thesis
        proof (cases ok3)
          case False
          then have "undoable orig ps T (d @ [p]) s5" using U4 r2(1) by (simp add: undoable_def)
          from ex [OF this] show ?thesis using res False r2 w1(2) r1(2) stage(2) s2q by auto
        next
          case ok3: True
          then have s5: "fs_files s5 = (fs_files s4)(t := None, p := Some \<lparr>f_bytes = fp_Bytes f, f_mode = f_mode info\<rparr>)"
            "once s5" "fs_temps s5 = ts" "fs_journal s5 = Some jn"
            using r2(1) s4 by simp_all
          have "undoable orig ps T (d @ [p]) s5"
            by (rule snoc) (use s5(1) files4 s3(1) s2(1) s1(5) t(1) assms(8) bak in \<open>auto simp: bak_def\<close>)
          moreover have "fs_files s5 q = new q" if "q \<in> set (d @ [p])" for q
          proof (cases "q = p")
            case False
            then have "q \<in> set d" using that by simp
            then have "q \<noteq> t" "q \<noteq> bak" "fs_files s q = new q"
              using p(1,3) t(1) assms(3,4) by (auto simp: tx_names_def tx_state_def bak_def)
            then show ?thesis using False s5(1) files4 s3(1) s2(1) s1(5) by simp
          qed (use s5(1) assms(9) in simp)
          moreover have "fs_files s5 u = None" if "u \<in> set ts" for u
          proof -
            have "u \<in> T" "u \<noteq> t" "fs_files s u = None"
              using that assms(3,10) by (auto simp: tx_state_def)
            moreover from this(1) have "u \<noteq> p" "u \<noteq> bak"
              using p(1) assms(4) by (auto simp: tx_names_def bak_def)
            ultimately show ?thesis using s5(1) files4 s3(1) s2(1) s1(5) by simp
          qed
          moreover have "set ts \<subseteq> T" "distinct ts" using assms(3,10) by (auto simp: tx_state_def)
          moreover have "j_Backups jn = map backup_path (d @ [p])"
            using assms(3) by (simp add: tx_state_def jn_def bak_def)
          ultimately have "tx_state orig new ps T (d @ [p]) jn s5"
            using s5(3,4) by (simp add: tx_state_def)
          then show ?thesis using res ok3 s5(2,3) r2(2) w1(2) r1(2) stage(2) s2q by auto
        qed
      qed
    qed
  qed
qed

section \<open>All files\<close>

definition target_ok :: "os_view \<Rightarrow> string \<Rightarrow> (string \<Rightarrow> disk_file option) \<Rightarrow> (string \<Rightarrow> disk_file option) \<Rightarrow>
    FilePreview \<Rightarrow> string \<Rightarrow> bool" where
  "target_ok env root orig new f p \<longleftrightarrow>
     resolvePath env root (fp_Path f) = Inr p \<and>
     (\<exists>info. orig p = Some info \<and> new p = Some \<lparr>f_bytes = fp_Bytes f, f_mode = f_mode info\<rparr>)"

lemma replace_files_once:
  assumes "replace_files env root files (pairs d) j s = (ph, bs', s')" "once s"
    and "tx_state orig new ps T d j s" "tx_names ps T" "ps = d @ qs"
    and "list_all2 (target_ok env root orig new) files qs" "length files \<le> length (fs_temps s)"
  shows "(if ph = None then bs' = pairs ps \<and> (\<exists>j'. tx_state orig new ps T ps j' s') \<and> once s'
     else \<forall>x. x \<notin> hidden ps T \<longrightarrow> fs_files s' x = orig x) \<and> (quiet s \<longrightarrow> ph = None \<and> quiet s')"
  using assms
proof (induction files arbitrary: d j s qs)
  case Nil
  then show ?case by auto
next
  case (Cons f files)
  from Cons.prems(6) obtain p qs' where qs: "qs = p # qs'" and tp: "target_ok env root orig new f p"
    and rest: "list_all2 (target_ok env root orig new) files qs'"
    by (auto simp: list_all2_Cons1)
  from Cons.prems(7) obtain t ts where ts: "fs_temps s = t # ts" by (cases "fs_temps s") auto
  from tp obtain info where info: "resolvePath env root (fp_Path f) = Inr p" "orig p = Some info"
    "new p = Some \<lparr>f_bytes = fp_Bytes f, f_mode = f_mode info\<rparr>"
    by (auto simp: target_ok_def)
  have dp: "set (d @ [p]) \<subseteq> set ps" "distinct (d @ [p])"
    using Cons.prems(4,5) qs by (auto simp: tx_names_def)
  obtain ph1 bs1 j1 s1 where step: "replace_file env root f (pairs d) j s = (ph1, bs1, j1, s1)"
    by (metis prod_cases4)
  note one = replace_file_once [OF step Cons.prems(2,3,4) dp info ts]
  show ?case
  proof (cases ph1)
    case (Some phase)
    with one obtain d' where d': "quiet s1" "bs1 = pairs d'" "distinct d'" "set d' \<subseteq> set ps" "undoable orig ps T d' s1"
      and nq: "\<not> quiet s" by auto
    have "ph = Some phase" "s' = rollback bs1 s1" using Cons.prems(1) step Some by auto
    with rollback_restores [OF d'(1,5,3,4) Cons.prems(4)] d'(2) nq show ?thesis by simp
  next
    case None
    with one have s1: "bs1 = pairs (d @ [p])" "tx_state orig new ps T (d @ [p]) j1 s1" "once s1" "fs_temps s1 = ts"
      and q: "quiet s \<Longrightarrow> quiet s1" by auto
    have run: "replace_files env root files (pairs (d @ [p])) j1 s1 = (ph, bs', s')"
      using Cons.prems(1) step None s1(1) by simp
    have "ps = (d @ [p]) @ qs'" "length files \<le> length (fs_temps s1)"
      using Cons.prems(5,7) qs ts s1(4) by simp_all
    from Cons.IH [OF run s1(3,2) Cons.prems(4) this(1) rest this(2)] q show ?thesis by auto
  qed
qed

lemma remove_backups_keeps:
  "once s \<Longrightarrow> (\<forall>x. x \<notin> backup_path ` set d \<longrightarrow> fs_files (remove_backups (pairs d) s) x = fs_files s x) \<and>
     fs_journal (remove_backups (pairs d) s) = fs_journal s \<and>
     once (remove_backups (pairs d) s) \<and> (quiet s \<longrightarrow> quiet (remove_backups (pairs d) s))"
proof (induction d arbitrary: s)
  case (Cons p d)
  note rem = os_remove_any(1) [OF Cons.prems, of "backup_path p"]
  then have "once (snd (os_remove (backup_path p) s))" by blast
  from Cons.IH [OF this] rem show ?case by (simp add: pairs_def)
qed (simp add: pairs_def)

lemma remove_journal_once:
  assumes "once s" "fs_journal s \<noteq> None"
  shows "fs_files (snd (remove_journal s)) = fs_files s"
    and "quiet s \<Longrightarrow> fs_journal (snd (remove_journal s)) = None \<and> quiet (snd (remove_journal s)) \<and> fst (remove_journal s)"
proof -
  obtain ok s' where r: "remove_journal s = (ok, s')" by fastforce
  have "if ok then fs_files s' = fs_files s \<and> fs_journal s' = None \<and> fs_temps s' = fs_temps s \<and> once s'
      else fs_files s' = fs_files s \<and> fs_journal s' = fs_journal s \<and> fs_temps s' = fs_temps s \<and> quiet s'"
    and q: "quiet s \<Longrightarrow> ok \<and> quiet s'"
    using sys_call_once [OF r [unfolded remove_journal_def] assms(1)] assms(2) by (simp_all del: not_None_eq)
  then show "fs_files (snd (remove_journal s)) = fs_files s"
    "quiet s \<Longrightarrow> fs_journal (snd (remove_journal s)) = None \<and> quiet (snd (remove_journal s)) \<and> fst (remove_journal s)"
    using r by (auto split: if_splits)
qed

section \<open>The transaction\<close>

definition targets :: "os_view \<Rightarrow> string \<Rightarrow> FilePreview list \<Rightarrow> string list" where
  "targets env root files = map (\<lambda>f. projr (resolvePath env root (fp_Path f))) files"

definition new_content :: "os_view \<Rightarrow> string \<Rightarrow> FilePreview list \<Rightarrow> (string \<Rightarrow> disk_file option) \<Rightarrow> string \<Rightarrow> disk_file option" where
  "new_content env root files orig p =
     (case map_of (zip (targets env root files) files) p of
        None \<Rightarrow> orig p
      | Some f \<Rightarrow> map_option (\<lambda>d. d\<lparr>f_bytes := fp_Bytes f\<rparr>) (orig p))"

text \<open>What the transaction needs of names: temporary names are fresh, and no edited file is the backup
  of an edited file.\<close>

definition fresh_names :: "os_view \<Rightarrow> string \<Rightarrow> FilePreview list \<Rightarrow> fs \<Rightarrow> bool" where
  "fresh_names env root files s \<longleftrightarrow>
     distinct (fs_temps s) \<and> length files \<le> length (fs_temps s) \<and>
     (\<forall>t\<in>set (fs_temps s). fs_files s t = None) \<and>
     tx_names (targets env root files) (set (fs_temps s))"

definition scratch_names :: "os_view \<Rightarrow> string \<Rightarrow> FilePreview list \<Rightarrow> fs \<Rightarrow> string set" where
  "scratch_names env root files s = hidden (targets env root files) (set (fs_temps s))"

lemma prepare_targets:
  assumes "prepare (fs_view env s) root edits = Inr files" "distinct (targets env root files)"
  shows "list_all2 (target_ok env root (fs_files s) (new_content env root files (fs_files s))) files (targets env root files)"
proof -
  have m: "map (preview_file (fs_view env s) root) (group_list edits) = map Inr files"
    using assms(1) by (auto simp: prepare_eq collect_Inr split: if_splits)
  then have len: "length (group_list edits) = length files" by (metis length_map)
  have lt: "length (targets env root files) = length files" by (simp add: targets_def)
  have "target_ok env root (fs_files s) (new_content env root files (fs_files s)) (files ! i) (targets env root files ! i)"
    if i: "i < length files" for i
  proof -
    obtain path es where g: "group_list edits ! i = (path, es)" by fastforce
    then have "preview_file (fs_view env s) root (path, es) = Inr (files ! i)"
      using m i len by (metis nth_map)
    from preview_file_ok [OF this] obtain p c where pc: "resolvePath env root path = Inr p"
      "os_read (fs_view env s) p = Some c" "fp_Path (files ! i) = path"
      by (auto simp: file_preview_ok_def)
    have tp: "targets env root files ! i = p" using i pc by (simp add: targets_def)
    obtain info where info: "fs_files s p = Some info" using pc(2) by (auto simp: fs_view_def)
    have "map_of (zip (targets env root files) files) p = Some (files ! i)"
      using map_of_zip_nth [OF lt assms(2), of i] i lt tp by simp
    then show ?thesis
      using pc info tp by (simp add: target_ok_def new_content_def)
  qed
  then show ?thesis by (simp add: list_all2_conv_all_nth lt)
qed

lemma new_content_other: "p \<notin> set (targets env root files) \<Longrightarrow> new_content env root files orig p = orig p"
  by (auto simp: new_content_def targets_def split: option.split dest!: map_of_SomeD set_zip_leftD)

lemma apply_atomic_outcome:
  assumes "prepare (fs_view env s) root edits = Inr files" "once s" "fresh_names env root files s"
    and "ApplyAtomic env root edits s = (res, s')"
  shows "(case res of
      Inr files' \<Rightarrow> files' = files \<and>
        (\<forall>x. x \<notin> scratch_names env root files s \<longrightarrow> fs_files s' x = new_content env root files (fs_files s) x)
    | Inl _ \<Rightarrow> (\<forall>x. x \<notin> scratch_names env root files s \<longrightarrow> fs_files s' x = fs_files s x)) \<and>
    (quiet s \<longrightarrow> res = Inr files \<and> fs_journal s' = None)"
proof -
  define ps where "ps = targets env root files"
  define T where "T = set (fs_temps s)"
  define new where "new = new_content env root files (fs_files s)"
  have names: "tx_names ps T" using assms(3) by (simp add: fresh_names_def ps_def T_def)
  then have tg: "list_all2 (target_ok env root (fs_files s) new) files ps"
    using prepare_targets [OF assms(1)] by (simp add: tx_names_def ps_def new_def)
  define j where "j = \<lparr>j_Phase = ''staging'', j_Root = root, j_Backups = []\<rparr>"
  obtain ok s1 where wj: "write_journal j s = (ok, s1)" by fastforce
  note w1 = write_journal_once [OF wj assms(2)]
  show ?thesis
  proof (cases ok)
    case False
    then have "res = Inl (TransactionError ''journal'')" "s' = s1"
      using assms(1,4) wj by (simp_all add: ApplyAtomic_def Let_def j_def [symmetric])
    then show ?thesis using w1 False by auto
  next
    case True
    then have s1: "fs_files s1 = fs_files s" "fs_journal s1 = Some j" "fs_temps s1 = fs_temps s" "once s1"
      using w1(1) by simp_all
    have st: "tx_state (fs_files s) new ps T [] j s1"
      using s1 assms(3) by (simp add: tx_state_def undoable_def T_def fresh_names_def j_def)
    obtain ph bs s2 where run: "replace_files env root files (pairs []) j s1 = (ph, bs, s2)" by (metis prod_cases3)
    have "length files \<le> length (fs_temps s1)" using s1(3) assms(3) by (simp add: fresh_names_def)
    note loop = replace_files_once [OF run s1(4) st names _ tg this, simplified]
    have hid: "scratch_names env root files s = hidden ps T" by (simp add: scratch_names_def ps_def T_def)
    show ?thesis
    proof (cases ph)
      case (Some phase)
      then have "res = Inl (TransactionError phase)" "s' = s2"
        using assms(1,4) wj True run by (simp_all add: ApplyAtomic_def Let_def j_def [symmetric] pairs_def)
      then show ?thesis using loop Some w1(2) hid by auto
    next
      case None
      then have s2: "bs = pairs ps" "once s2" "\<exists>j'. tx_state (fs_files s) new ps T ps j' s2" and q: "quiet s1 \<Longrightarrow> quiet s2"
        using loop by auto
      have res: "res = Inr files" "s' = snd (remove_journal (remove_backups (pairs ps) s2))"
        using assms(1,4) wj True run None s2(1)
        by (simp_all add: ApplyAtomic_def Let_def j_def [symmetric] pairs_def)
      note rb = remove_backups_keeps [OF s2(2), of ps]
      have jn: "fs_journal (remove_backups (pairs ps) s2) \<noteq> None" using rb s2(3) by (auto simp: tx_state_def)
      note rj = remove_journal_once [OF _ jn]
      have "fs_files s2 x = new x" if "x \<notin> hidden ps T" for x
        using that s2(3) new_content_other [of x env root files "fs_files s"]
        by (cases "x \<in> set ps") (auto simp: tx_state_def undoable_def new_def ps_def)
      moreover have "fs_files s' x = fs_files s2 x" if "x \<notin> hidden ps T" for x
        using that rj(1) rb res(2) by (auto simp: hidden_def)
      ultimately show ?thesis
        using res rj(2) rb q w1(2) hid by (auto simp: new_def)
    qed
  qed
qed

end
