(* ===== verification/Patch_Tx_Claims.thy ===== *)
theory Patch_Tx_Claims
  imports Patch_Tx_Props Patch_Claims
begin

text \<open>
  The properties of the writers, a run on a small workspace, and the places where the transaction does
  not keep its promise: a process that dies between a backup and its journal entry, or while backups
  are removed, and a file that already has the backup's name.
\<close>

section \<open>A run\<close>

definition demo_fs :: fs where
  "demo_fs = \<lparr>fs_files = (\<lambda>p. if p = ''/w/a.cns'' then Some \<lparr>f_bytes = ''abcdef'', f_mode = 420\<rparr> else None),
     fs_journal = None, fs_temps = [''/w/.ikm-patch-1''], fs_faults = [], fs_log = []\<rparr>"

lemma demo_view: "fs_view demo_os demo_fs = demo_os"
  by (simp add: fs_view_def demo_os_def demo_fs_def if_distrib cong: if_cong)

definition demo_preview :: FilePreview where
  "demo_preview = \<lparr>fp_Path = ''a.cns'', fp_OldHash = digest ''abcdef'', fp_NewHash = digest ''adXYf'', fp_Bytes = ''adXYf''\<rparr>"

lemma demo_targets: "targets demo_os ''/w'' [demo_preview] = [''/w/a.cns'']"
  by (simp add: targets_def demo_preview_def demo_resolve)

lemma demo_fresh: "fresh_names demo_os ''/w'' [demo_preview] demo_fs"
  unfolding fresh_names_def demo_targets by (simp add: demo_fs_def tx_names_def backup_path_def)

lemma demo_scratch: "''/w/a.cns'' \<notin> scratch_names demo_os ''/w'' [demo_preview] demo_fs"
  unfolding scratch_names_def demo_targets by (simp add: demo_fs_def hidden_def backup_path_def)

lemma tx_names_take: "tx_names ps T \<Longrightarrow> tx_names (take k ps) T"
proof -
  assume "tx_names ps T"
  moreover have "set (take k ps) \<subseteq> set ps" by (rule set_take_subset)
  ultimately show ?thesis unfolding tx_names_def by (blast intro: distinct_take)
qed

section \<open>Claims\<close>





section \<open>Where the promise breaks\<close>

text \<open>The disk a restarted process finds.\<close>

definition reboot :: "disk \<Rightarrow> fs" where
  "reboot d = \<lparr>fs_files = fst d, fs_journal = snd d, fs_temps = [], fs_faults = [], fs_log = []\<rparr>"

definition two_files :: "string \<Rightarrow> disk_file option" where
  "two_files p =
     (if p = ''/w/a'' then Some \<lparr>f_bytes = ''1'', f_mode = 420\<rparr>
      else if p = ''/w/b'' then Some \<lparr>f_bytes = ''2'', f_mode = 420\<rparr> else None)"

definition two_previews :: "FilePreview list" where
  "two_previews =
     [\<lparr>fp_Path = ''a'', fp_OldHash = [], fp_NewHash = [], fp_Bytes = ''X''\<rparr>,
      \<lparr>fp_Path = ''b'', fp_OldHash = [], fp_NewHash = [], fp_Bytes = ''Y''\<rparr>]"

text \<open>The writing half of \<^verbatim>\<open>ApplyAtomic\<close>, from the journal on, without a fault.\<close>

definition run_two :: fs where
  "run_two =
     (let j = \<lparr>j_Phase = ''staging'', j_Root = ''/w'', j_Backups = []\<rparr>;
          s = \<lparr>fs_files = two_files, fs_journal = None, fs_temps = [''/w/t1'', ''/w/t2''], fs_faults = [], fs_log = []\<rparr>
      in case replace_files demo_os ''/w'' two_previews [] j (snd (write_journal j s)) of
           (_, bs, s') \<Rightarrow> snd (remove_journal (remove_backups bs s')))"

definition recovered :: "disk \<Rightarrow> string \<Rightarrow> string option" where
  "recovered d p = map_option f_bytes (fs_files (snd (Recover (reboot d))) p)"

text \<open>The process dies after \<^verbatim>\<open>a\<close> was renamed to its backup and before the journal names the backup:
  \<^verbatim>\<open>Recover\<close> reports success, removes the journal, and \<^verbatim>\<open>a\<close> is gone.\<close>

lemma crash_before_journal_loses_file:
  "list_ex (\<lambda>d. fst (Recover (reboot d)) = None \<and> recovered d ''/w/a'' = None \<and> recovered d ''/w/b'' = Some ''2'')
     (fs_log run_two)"
  by code_simp

text \<open>The process dies while the backups are removed: \<^verbatim>\<open>Recover\<close> leaves the first file new and makes the
  second one old again.\<close>

lemma crash_in_cleanup_mixes_files:
  "list_ex (\<lambda>d. fst (Recover (reboot d)) = None \<and> recovered d ''/w/a'' = Some ''X'' \<and> recovered d ''/w/b'' = Some ''2'')
     (fs_log run_two)"
  by code_simp

text \<open>A file that has the backup's name is removed, by a transaction that succeeds.\<close>

lemma apply_atomic_removes_namesake:
  "map_option f_bytes (fs_files run_two ''/w/a'') = Some ''X'' \<and>
   (let s = \<lparr>fs_files = two_files(''/w/a.ikm-backup'' \<mapsto> \<lparr>f_bytes = ''precious'', f_mode = 420\<rparr>), fs_journal = None,
        fs_temps = [''/w/t1''], fs_faults = [], fs_log = []\<rparr>
    in case replace_files demo_os ''/w'' (take 1 two_previews) [] \<lparr>j_Phase = ''staging'', j_Root = ''/w'', j_Backups = []\<rparr> s of
         (ph, bs, s') \<Rightarrow> ph = None \<and> fs_files (remove_backups bs s') ''/w/a.ikm-backup'' = None)"
  by code_simp

text \<open>Two spellings of one file make two groups, and the second is written over the first: a path that
  cleans to one ending in white space is trimmed again when it is resolved.\<close>

lemma same_file_two_groups:
  "canonicalRelative ''a'' = Some ''a'' \<and> canonicalRelative ''a /.'' = Some ''a '' \<and>
   resolvePath demo_os ''/w'' ''a'' = Inr ''/w/a'' \<and> resolvePath demo_os ''/w'' ''a '' = Inr ''/w/a''"
  by code_simp

end
