(* ===== verification/Semantics.thy ===== *)
theory Semantics
  imports Ir Go_Paths
begin

text \<open>
  \<^verbatim>\<open>internal/semantics/semantics.go\<close>: the symbol index of a set of documents and the resolution of every
  reference against it. The index, a Go map from names to symbols, is an association list. The slice
  of a name is sorted in place while the index is listed, so later look-ups see it sorted. A \<^verbatim>\<open>nil\<close>
  workspace is \<^const>\<open>None\<close>.
\<close>

section \<open>Data\<close>

record IndexedSymbol =
  ix_Path :: string
  ix_Symbol :: Symbol

record SymbolIndexEntry =
  ie_Name :: string
  ie_Symbols :: "IndexedSymbol list"

datatype Classification = ExactResolution | AmbiguousResolution | InvalidResolution | DynamicResolution

record ReferenceResolution =
  rr_ReferenceID :: string
  rr_ReferenceIdentity :: Identity
  rr_SourcePath :: string
  rr_SourceSymbol :: string
  rr_TargetSymbolID :: string
  rr_TargetIdentity :: Identity
  rr_TargetPath :: string
  rr_Classification :: Classification
  rr_Resolved :: bool
  rr_IsDynamic :: bool

record ResolveResult =
  res_Index :: "SymbolIndexEntry list"
  res_References :: "ReferenceResolution list"
  res_Diagnostics :: "Diagnostic list"

section \<open>Diagnostics\<close>

definition normalizeStart :: "SourcePosition \<Rightarrow> SourcePosition" where
  "normalizeStart pos =
     (if Line pos < 1 then \<lparr>Line = 1, Column = 1\<rparr>
      else if Column pos < 1 then \<lparr>Line = Line pos, Column = 1\<rparr>
      else pos)"

definition normalizeEnd :: "SourcePosition \<Rightarrow> SourcePosition \<Rightarrow> SourcePosition" where
  "normalizeEnd start stop0 =
     (let stop1 = (if Line stop0 < 1 then stop0\<lparr>Line := Line start\<rparr> else stop0);
          stop2 = (if Column stop1 < 1 then stop1\<lparr>Column := 1\<rparr> else stop1)
      in if Line stop2 < Line start \<or> Line stop2 = Line start \<and> Column stop2 \<le> Column start
         then \<lparr>Line = Line start, Column = Column start + 1\<rparr> else stop2)"

definition makeSemanticDiagnostic ::
  "string \<Rightarrow> SourceSpan \<Rightarrow> string \<Rightarrow> string \<Rightarrow> Severity \<Rightarrow> string \<Rightarrow> Diagnostic" where
  "makeSemanticDiagnostic path span related diagcode severity message =
     (let start = Start span; stop0 = End span;
          stop1 = (if Line stop0 = 0 then stop0\<lparr>Line := Line start\<rparr> else stop0);
          stop = (if Column stop1 = 0 then stop1\<lparr>Column := Column start + 1\<rparr> else stop1)
      in \<lparr>dg_code = diagcode, dg_severity = severity, dg_message = message, dg_path = path,
          dg_start = normalizeStart start, dg_end = normalizeEnd start stop, dg_related = related\<rparr>)"

section \<open>Packages\<close>

definition root_less :: "string \<Rightarrow> string \<Rightarrow> bool" where
  "root_less a b = (if length a \<noteq> length b then length b < length a else a < b)"

fun collect_roots :: "string list \<Rightarrow> string list \<Rightarrow> Document list \<Rightarrow> string list" where
  "collect_roots seen roots [] = roots"
| "collect_roots seen roots (doc # docs) =
     (if \<not> equal_fold (path_ext (doc_path doc)) ''.def'' then collect_roots seen roots docs
      else let root = path_clean (path_dir (doc_path doc)); key = to_lower root in
        if key \<in> set seen then collect_roots seen roots docs
        else collect_roots (key # seen) (roots @ [root]) docs)"

definition semanticPackageRoots :: "Document list \<Rightarrow> string list" where
  "semanticPackageRoots documents = sort_by root_less (collect_roots [] [] documents)"

definition root_contains :: "string \<Rightarrow> string \<Rightarrow> bool" where
  "root_contains candidate path \<longleftrightarrow>
     path = candidate \<or> has_prefix path (trim_right candidate ''/'' @ ''/'')"

fun find_root :: "string \<Rightarrow> string list \<Rightarrow> string option" where
  "find_root path [] = None"
| "find_root path (root # roots) =
     (let candidate = to_lower (path_clean root) in
      if root_contains candidate path then Some candidate else find_root path roots)"

definition semanticPackageRoot :: "string \<Rightarrow> string list \<Rightarrow> string" where
  "semanticPackageRoot path0 roots =
     (let path = to_lower (path_clean path0) in
      case find_root path roots of
        Some r \<Rightarrow> r
      | None \<Rightarrow> to_lower (path_clean (path_dir path)))"

definition slashed :: "string \<Rightarrow> string" where
  "slashed path = ''/'' @ trim_set (to_lower path) ''/'' @ ''/''"

definition isCharacterSourcePath :: "string \<Rightarrow> bool" where
  "isCharacterSourcePath path = contains (slashed path) ''/chars/''"

definition isGlobalRuntimeSourcePath :: "string \<Rightarrow> bool" where
  "isGlobalRuntimeSourcePath path = contains (slashed path) ''/data/''"

section \<open>The index\<close>

definition doc_less :: "Document \<Rightarrow> Document \<Rightarrow> bool" where
  "doc_less a b = (if doc_path a = doc_path b then doc_file_type a < doc_file_type b else doc_path a < doc_path b)"

definition symbol_less :: "IndexedSymbol \<Rightarrow> IndexedSymbol \<Rightarrow> bool" where
  "symbol_less a b =
     (let sa = Start (sym_span (ix_Symbol a)); sb = Start (sym_span (ix_Symbol b)) in
      if ix_Path a \<noteq> ix_Path b then ix_Path a < ix_Path b
      else if Line sa \<noteq> Line sb then Line sa < Line sb
      else if Column sa \<noteq> Column sb then Column sa < Column sb
      else sym_id (ix_Symbol a) < sym_id (ix_Symbol b))"

type_synonym symbol_index = "(string \<times> IndexedSymbol list) list"

definition is_indexed :: "Symbol \<Rightarrow> bool" where
  "is_indexed s \<longleftrightarrow> sym_kind s = SymbolStateDef \<or> sym_kind s = SymbolCommand"

definition index_symbol :: "Document \<Rightarrow> Symbol \<Rightarrow> symbol_index \<Rightarrow> symbol_index" where
  "index_symbol doc s idx =
     (if is_indexed s then add_to_group (sym_name s) \<lparr>ix_Path = doc_path doc, ix_Symbol = s\<rparr> idx else idx)"

definition index_document :: "Document \<Rightarrow> symbol_index \<Rightarrow> symbol_index" where
  "index_document doc idx = fold (index_symbol doc) (doc_symbols doc) idx"

text \<open>\<^verbatim>\<open>indexByName\<close> after every slice has been sorted, in the order of the names.\<close>

definition build_index :: "Document list \<Rightarrow> symbol_index" where
  "build_index documents =
     (let idx = fold index_document documents [];
          names = sort_strings (map fst idx)
      in map (\<lambda>name. (name, sort_by symbol_less (case map_of idx name of None \<Rightarrow> [] | Some syms \<Rightarrow> syms))) names)"

definition duplicate_diagnostics :: "string \<Rightarrow> IndexedSymbol list \<Rightarrow> Diagnostic list" where
  "duplicate_diagnostics name symbols =
     (case symbols of
        first # others \<Rightarrow>
          if others \<noteq> [] \<and> sym_kind (ix_Symbol first) \<noteq> SymbolCommand then
            map (\<lambda>sym. makeSemanticDiagnostic (ix_Path sym) (sym_span (ix_Symbol sym)) (sym_id (ix_Symbol first))
                  ''duplicate-definition'' SeverityError (''duplicate definition for '' @ name))
              (filter (\<lambda>sym. ix_Path sym = ix_Path first) others)
          else []
      | [] \<Rightarrow> [])"

definition lookup_name :: "symbol_index \<Rightarrow> string \<Rightarrow> IndexedSymbol list" where
  "lookup_name idx name = (case map_of idx name of None \<Rightarrow> [] | Some syms \<Rightarrow> syms)"

definition targetsFor :: "string list \<Rightarrow> symbol_index \<Rightarrow> string \<Rightarrow> string \<Rightarrow> IndexedSymbol list" where
  "targetsFor roots idx name sourcePath =
     (let targets = lookup_name idx name; sourceRoot = semanticPackageRoot sourcePath roots in
      if sourceRoot = [] then targets
      else let local = filter (\<lambda>t. semanticPackageRoot (ix_Path t) roots = sourceRoot) targets in
        if local \<noteq> [] then local
        else if isCharacterSourcePath sourcePath
        then filter (\<lambda>t. \<not> isCharacterSourcePath (ix_Path t)) targets
        else targets)"

section \<open>References\<close>

definition initial_resolution :: "Document \<Rightarrow> Reference \<Rightarrow> ReferenceResolution" where
  "initial_resolution doc ref =
     \<lparr>rr_ReferenceID = ref_id ref, rr_ReferenceIdentity = ref_identity ref, rr_SourcePath = doc_path doc,
      rr_SourceSymbol = ref_source ref, rr_TargetSymbolID = [], rr_TargetIdentity = zero_identity,
      rr_TargetPath = [], rr_Classification = InvalidResolution, rr_Resolved = False,
      rr_IsDynamic = ref_dynamic ref\<rparr>"

definition resolve_to :: "ReferenceResolution \<Rightarrow> IndexedSymbol \<Rightarrow> ReferenceResolution" where
  "resolve_to res target =
     res\<lparr>rr_Resolved := True, rr_Classification := ExactResolution,
         rr_TargetSymbolID := sym_id (ix_Symbol target), rr_TargetIdentity := sym_identity (ix_Symbol target),
         rr_TargetPath := ix_Path target\<rparr>"

definition reference_diagnostic :: "Document \<Rightarrow> Reference \<Rightarrow> string \<Rightarrow> Severity \<Rightarrow> string \<Rightarrow> Diagnostic" where
  "reference_diagnostic doc ref diagcode severity message =
     makeSemanticDiagnostic (doc_path doc) (ref_span ref) (ref_source ref) diagcode severity message"

definition resolve_state :: "(string \<Rightarrow> string \<Rightarrow> IndexedSymbol list) \<Rightarrow> Document \<Rightarrow> Reference \<Rightarrow>
    ReferenceResolution \<times> Diagnostic list" where
  "resolve_state targets_for doc ref =
     (let res = initial_resolution doc ref in
      if ref_dynamic ref then
        (res\<lparr>rr_Classification := DynamicResolution\<rparr>,
         [reference_diagnostic doc ref ''dynamic-reference'' SeverityWarning
            (''dynamic state reference '' @ quote (ref_target ref) @ '' cannot be resolved'')])
      else case targets_for (ref_target ref) (doc_path doc) of
        [] \<Rightarrow> (res, [reference_diagnostic doc ref ''undefined-state'' SeverityError
                       (''undefined state '' @ quote (ref_target ref))])
      | [target] \<Rightarrow> (resolve_to res target, [])
      | targets \<Rightarrow>
          (res\<lparr>rr_Classification := AmbiguousResolution\<rparr>,
           [reference_diagnostic doc ref ''ambiguous-state'' SeverityError
              (''state reference '' @ quote (ref_target ref) @ '' matches '' @
               itoa (int (length targets)) @ '' definitions'')]))"

definition resolve_command :: "(string \<Rightarrow> string \<Rightarrow> IndexedSymbol list) \<Rightarrow> Document \<Rightarrow> Reference \<Rightarrow>
    ReferenceResolution \<times> Diagnostic list" where
  "resolve_command targets_for doc ref =
     (let res = initial_resolution doc ref in
      case targets_for (ref_target ref) (doc_path doc) of
        [] \<Rightarrow> (res, [reference_diagnostic doc ref ''undefined-command'' SeverityError
                       (''undefined command '' @ quote (ref_target ref))])
      | target # _ \<Rightarrow> (resolve_to res target, []))"

definition resolve_reference :: "(string \<Rightarrow> string \<Rightarrow> IndexedSymbol list) \<Rightarrow> Document \<Rightarrow> Reference \<Rightarrow>
    ReferenceResolution \<times> Diagnostic list" where
  "resolve_reference targets_for doc ref =
     (if (ref_kind ref = ReferenceState \<or> ref_kind ref = ReferenceCommand) \<and> isGlobalRuntimeSourcePath (doc_path doc)
      then
        ((initial_resolution doc ref)\<lparr>rr_Classification := DynamicResolution, rr_IsDynamic := True\<rparr>,
         [reference_diagnostic doc ref ''dynamic-reference'' SeverityWarning
            (''shared runtime reference '' @ quote (ref_target ref) @ '' depends on the active character'')])
      else if ref_kind ref = ReferenceState then resolve_state targets_for doc ref
      else if ref_kind ref = ReferenceCommand then resolve_command targets_for doc ref
      else (initial_resolution doc ref, []))"

section \<open>The order of the results\<close>

definition identity_key :: "ReferenceResolution \<Rightarrow> string" where
  "identity_key r =
     (let k = idn_occurrence (rr_ReferenceIdentity r) in if k = [] then rr_ReferenceID r else k)"

definition reference_less :: "ReferenceResolution \<Rightarrow> ReferenceResolution \<Rightarrow> bool" where
  "reference_less a b =
     (if rr_SourcePath a \<noteq> rr_SourcePath b then rr_SourcePath a < rr_SourcePath b
      else if identity_key a \<noteq> identity_key b then identity_key a < identity_key b
      else
        (let sa = idn_store (rr_ReferenceIdentity a); sb = idn_store (rr_ReferenceIdentity b) in
         if sa \<noteq> sb then
           (if sa = [] \<and> sb \<noteq> [] then False
            else if sa \<noteq> [] \<and> sb = [] then True
            else sa < sb)
         else if idn_semantic (rr_ReferenceIdentity a) \<noteq> idn_semantic (rr_ReferenceIdentity b)
         then idn_semantic (rr_ReferenceIdentity a) < idn_semantic (rr_ReferenceIdentity b)
         else if rr_ReferenceID a \<noteq> rr_ReferenceID b then rr_ReferenceID a < rr_ReferenceID b
         else rr_SourceSymbol a < rr_SourceSymbol b))"

definition diagnostic_less :: "Diagnostic \<Rightarrow> Diagnostic \<Rightarrow> bool" where
  "diagnostic_less a b =
     (if dg_path a \<noteq> dg_path b then dg_path a < dg_path b
      else if Line (dg_start a) \<noteq> Line (dg_start b) then Line (dg_start a) < Line (dg_start b)
      else if Column (dg_start a) \<noteq> Column (dg_start b) then Column (dg_start a) < Column (dg_start b)
      else if Line (dg_end a) \<noteq> Line (dg_end b) then Line (dg_end a) < Line (dg_end b)
      else if Column (dg_end a) \<noteq> Column (dg_end b) then Column (dg_end a) < Column (dg_end b)
      else if dg_code a \<noteq> dg_code b then dg_code a < dg_code b
      else if severity_str (dg_severity a) \<noteq> severity_str (dg_severity b)
      then severity_str (dg_severity a) < severity_str (dg_severity b)
      else dg_related a < dg_related b)"

section \<open>Resolve\<close>

definition resolve_documents :: "Document list \<Rightarrow> ResolveResult" where
  "resolve_documents docs =
     (let documents = sort_by doc_less docs;
          roots = semanticPackageRoots documents;
          idx = build_index documents;
          resolved = concat (map (\<lambda>doc. map (resolve_reference (targetsFor roots idx) doc) (doc_references doc)) documents)
      in \<lparr>res_Index = map (\<lambda>(name, syms). \<lparr>ie_Name = name, ie_Symbols = syms\<rparr>) idx,
          res_References = sort_by reference_less (map fst resolved),
          res_Diagnostics = sort_by diagnostic_less
            (concat (map (\<lambda>(name, syms). duplicate_diagnostics name syms) idx) @ concat (map snd resolved))\<rparr>)"

definition Resolve :: "Document list option \<Rightarrow> ResolveResult" where
  "Resolve workspace =
     (case workspace of
        None \<Rightarrow> \<lparr>res_Index = [], res_References = [], res_Diagnostics = []\<rparr>
      | Some docs \<Rightarrow> resolve_documents docs)"

end
