(* ===== verification/Semantics_Props.thy ===== *)
theory Semantics_Props
  imports Semantics
begin

text \<open>
  What resolution promises: comparators that are orders, an index that holds every definition once,
  candidates chosen by package, one answer per reference, and an answer that does not depend on the
  order in which the documents are given.
\<close>

section \<open>The comparators are orders\<close>

definition doc_key :: "Document \<Rightarrow> string \<times> string" where
  "doc_key d = (doc_path d, doc_file_type d)"

definition symbol_key :: "IndexedSymbol \<Rightarrow> string \<times> int \<times> int \<times> string" where
  "symbol_key s = (ix_Path s, Line (Start (sym_span (ix_Symbol s))), Column (Start (sym_span (ix_Symbol s))),
     sym_id (ix_Symbol s))"

definition reference_key :: "ReferenceResolution \<Rightarrow> string \<times> string \<times> bool \<times> string \<times> string \<times> string \<times> string" where
  "reference_key r = (rr_SourcePath r, identity_key r, idn_store (rr_ReferenceIdentity r) = [],
     idn_store (rr_ReferenceIdentity r), idn_semantic (rr_ReferenceIdentity r), rr_ReferenceID r, rr_SourceSymbol r)"

definition diagnostic_key :: "Diagnostic \<Rightarrow> string \<times> int \<times> int \<times> int \<times> int \<times> string \<times> string \<times> string" where
  "diagnostic_key d = (dg_path d, Line (dg_start d), Column (dg_start d), Line (dg_end d), Column (dg_end d),
     dg_code d, severity_str (dg_severity d), dg_related d)"

lemma doc_less_key: "doc_less a b \<longleftrightarrow> doc_key a < doc_key b"
  by (auto simp: doc_less_def doc_key_def)

lemma symbol_less_key: "symbol_less a b \<longleftrightarrow> symbol_key a < symbol_key b"
  by (auto simp: symbol_less_def symbol_key_def Let_def)

lemma reference_less_key: "reference_less a b \<longleftrightarrow> reference_key a < reference_key b"
  by (auto simp: reference_less_def reference_key_def Let_def)

lemma diagnostic_less_key: "diagnostic_less a b \<longleftrightarrow> diagnostic_key a < diagnostic_key b"
  by (auto simp: diagnostic_less_def diagnostic_key_def)

lemma root_less_key: "root_less a b \<longleftrightarrow> (- int (length a), a) < (- int (length b), b)"
  by (auto simp: root_less_def)

interpretation docs: weak_order doc_less
  by (rule weak_order_by_key [OF doc_less_key])

interpretation symbols: weak_order symbol_less
  by (rule weak_order_by_key [OF symbol_less_key])

interpretation references: weak_order reference_less
  by (rule weak_order_by_key [OF reference_less_key])

interpretation diagnostics: weak_order diagnostic_less
  by (rule weak_order_by_key [OF diagnostic_less_key])

interpretation roots: weak_order root_less
  by (rule weak_order_by_key [OF root_less_key])

section \<open>The index\<close>

lemma lookup_add_to_group:
  "lookup_name (add_to_group k x gs) name = (if name = k then lookup_name gs name @ [x] else lookup_name gs name)"
  by (induction k x gs rule: add_to_group.induct) (auto simp: lookup_name_def)

definition definitions_of :: "Document list \<Rightarrow> string \<Rightarrow> IndexedSymbol list" where
  "definitions_of docs name =
     concat (map (\<lambda>doc. map (\<lambda>s. \<lparr>ix_Path = doc_path doc, ix_Symbol = s\<rparr>)
       (filter (\<lambda>s. is_indexed s \<and> sym_name s = name) (doc_symbols doc))) docs)"

lemma lookup_index_symbols:
  "lookup_name (fold (index_symbol doc) ss idx) name =
     lookup_name idx name @ map (\<lambda>s. \<lparr>ix_Path = doc_path doc, ix_Symbol = s\<rparr>)
       (filter (\<lambda>s. is_indexed s \<and> sym_name s = name) ss)"
  by (induction ss arbitrary: idx) (auto simp: index_symbol_def lookup_add_to_group)

lemma lookup_index_documents:
  "lookup_name (fold index_document docs idx) name = lookup_name idx name @ definitions_of docs name"
  by (induction docs arbitrary: idx) (auto simp: index_document_def lookup_index_symbols definitions_of_def)

lemma map_of_tabulate: "map_of (map (\<lambda>n. (n, f n)) ns) x = (if x \<in> set ns then Some (f x) else None)"
  by (induction ns) auto

lemma lookup_build_index: "lookup_name (build_index docs) name = sort_by symbol_less (definitions_of docs name)"
proof -
  let ?idx = "fold index_document docs []"
  have l: "lookup_name ?idx name = definitions_of docs name"
    using lookup_index_documents [of docs "[]" name] by (simp add: lookup_name_def)
  show ?thesis
  proof (cases "name \<in> fst ` set ?idx")
    case True
    then show ?thesis
      using l by (simp add: build_index_def Let_def lookup_name_def map_of_tabulate)
  next
    case False
    then have "map_of ?idx name = None" by (simp add: map_of_eq_None_iff)
    then have "definitions_of docs name = []" using l by (simp add: lookup_name_def)
    with False show ?thesis
      by (simp add: build_index_def Let_def lookup_name_def map_of_tabulate)
  qed
qed

lemma definitions_member:
  "t \<in> set (definitions_of docs name) \<longleftrightarrow>
   (\<exists>d\<in>set docs. ix_Symbol t \<in> set (doc_symbols d) \<and> ix_Path t = doc_path d \<and> is_indexed (ix_Symbol t) \<and>
      sym_name (ix_Symbol t) = name)"
  by (cases t) (auto simp: definitions_of_def)

lemma index_symbols_keys:
  "distinct (map fst idx) \<Longrightarrow> distinct (map fst (fold (index_symbol doc) ss idx)) \<and>
   fst ` set (fold (index_symbol doc) ss idx) = fst ` set idx \<union> sym_name ` {s \<in> set ss. is_indexed s}"
proof (induction ss arbitrary: idx)
  case (Cons s ss)
  have "distinct (map fst (index_symbol doc s idx))"
    "fst ` set (index_symbol doc s idx) = fst ` set idx \<union> sym_name ` {x \<in> {s}. is_indexed x}"
  proof -
    have "{x \<in> {s}. is_indexed x} = (if is_indexed s then {s} else {})" by auto
    then show "distinct (map fst (index_symbol doc s idx))"
      "fst ` set (index_symbol doc s idx) = fst ` set idx \<union> sym_name ` {x \<in> {s}. is_indexed x}"
      using Cons.prems
      by (simp_all add: index_symbol_def add_to_group_keys(2) add_to_group_keys(1) [simplified])
  qed
  with Cons.IH [OF this(1)] show ?case by auto
qed simp

lemma index_documents_keys:
  "distinct (map fst idx) \<Longrightarrow> distinct (map fst (fold index_document docs idx)) \<and>
   fst ` set (fold index_document docs idx) =
     fst ` set idx \<union> {sym_name s | s d. d \<in> set docs \<and> s \<in> set (doc_symbols d) \<and> is_indexed s}"
proof (induction docs arbitrary: idx)
  case (Cons d docs)
  have "distinct (map fst (index_document d idx))"
    "fst ` set (index_document d idx) = fst ` set idx \<union> sym_name ` {s \<in> set (doc_symbols d). is_indexed s}"
    using index_symbols_keys [OF Cons.prems] by (simp_all add: index_document_def)
  with Cons.IH [OF this(1)] show ?case by auto
qed simp

lemma build_index_names:
  "distinct (map fst (build_index docs))" "sorted (map fst (build_index docs))"
  "set (map fst (build_index docs)) = {sym_name s | s d. d \<in> set docs \<and> s \<in> set (doc_symbols d) \<and> is_indexed s}"
proof -
  note k = index_documents_keys [of "[]" docs, simplified]
  have n: "map fst (build_index docs) = sort_strings (map fst (fold index_document docs []))"
    by (simp add: build_index_def Let_def comp_def)
  show "sorted (map fst (build_index docs))" unfolding n by (rule sorted_sort_strings)
  show "distinct (map fst (build_index docs))"
    unfolding n using k mset_eq_imp_distinct_iff [OF mset_sort_strings] by blast
  show "set (map fst (build_index docs)) = {sym_name s | s d. d \<in> set docs \<and> s \<in> set (doc_symbols d) \<and> is_indexed s}"
    unfolding n using k by simp
qed

lemma build_index_entry:
  assumes "(name, syms) \<in> set (build_index docs)"
  shows "syms = sort_by symbol_less (definitions_of docs name)"
proof -
  have "map_of (build_index docs) name = Some syms"
    using assms build_index_names(1) by (simp add: map_of_eq_Some_iff)
  then show ?thesis using lookup_build_index [of docs name] by (simp add: lookup_name_def)
qed

section \<open>Candidates\<close>

lemma targets_subset: "set (targetsFor roots idx name path) \<subseteq> set (lookup_name idx name)"
  by (auto simp: targetsFor_def Let_def)

lemma semanticPackageRoot_not_Nil: "semanticPackageRoot path roots \<noteq> []"
proof -
  have "find_root p roots = Some r \<Longrightarrow> r \<noteq> []" for p r
    by (induction roots) (auto simp: Let_def to_lower_def split: if_splits)
  then show ?thesis
    by (auto simp: semanticPackageRoot_def Let_def to_lower_def split: option.splits)
qed

lemma targetsFor_cases:
  "targetsFor roots idx name path =
     (let local = filter (\<lambda>t. semanticPackageRoot (ix_Path t) roots = semanticPackageRoot path roots) (lookup_name idx name) in
      if local \<noteq> [] then local
      else if isCharacterSourcePath path then filter (\<lambda>t. \<not> isCharacterSourcePath (ix_Path t)) (lookup_name idx name)
      else lookup_name idx name)"
  by (simp add: targetsFor_def semanticPackageRoot_not_Nil Let_def)

section \<open>One reference\<close>

text \<open>What an answer says of its reference: an exact one names a candidate, any other names none, is
  reported, and is not resolved.\<close>

definition answer_ok :: "(string \<Rightarrow> string \<Rightarrow> IndexedSymbol list) \<Rightarrow> Document \<Rightarrow> Reference \<Rightarrow>
    ReferenceResolution \<Rightarrow> Diagnostic list \<Rightarrow> bool" where
  "answer_ok targets_for doc ref r ds \<longleftrightarrow>
     rr_SourcePath r = doc_path doc \<and> rr_ReferenceID r = ref_id ref \<and> rr_SourceSymbol r = ref_source ref \<and>
     rr_ReferenceIdentity r = ref_identity ref \<and>
     (rr_Resolved r \<longleftrightarrow> rr_Classification r = ExactResolution) \<and>
     (if rr_Classification r = ExactResolution then
        ds = [] \<and> ref_kind ref \<in> {ReferenceState, ReferenceCommand} \<and>
        (\<exists>t\<in>set (targets_for (ref_target ref) (doc_path doc)).
           rr_TargetSymbolID r = sym_id (ix_Symbol t) \<and> rr_TargetPath r = ix_Path t \<and>
           rr_TargetIdentity r = sym_identity (ix_Symbol t)) \<and>
        (ref_kind ref = ReferenceState \<longrightarrow> \<not> ref_dynamic ref \<and> length (targets_for (ref_target ref) (doc_path doc)) = 1)
      else rr_TargetSymbolID r = [] \<and> rr_TargetPath r = [] \<and>
        (ref_kind ref \<in> {ReferenceState, ReferenceCommand} \<longrightarrow>
           length ds = 1 \<and> dg_path (hd ds) = doc_path doc \<and> dg_related (hd ds) = ref_source ref \<and>
           dg_start (hd ds) = normalizeStart (Start (ref_span ref))))"

lemma reference_diagnostic_sel [simp]:
  "dg_path (reference_diagnostic doc ref c sev m) = doc_path doc"
  "dg_related (reference_diagnostic doc ref c sev m) = ref_source ref"
  "dg_start (reference_diagnostic doc ref c sev m) = normalizeStart (Start (ref_span ref))"
  by (simp_all add: reference_diagnostic_def makeSemanticDiagnostic_def Let_def)

lemma initial_resolution_sel [simp]:
  "rr_SourcePath (initial_resolution doc ref) = doc_path doc"
  "rr_ReferenceID (initial_resolution doc ref) = ref_id ref"
  "rr_SourceSymbol (initial_resolution doc ref) = ref_source ref"
  "rr_ReferenceIdentity (initial_resolution doc ref) = ref_identity ref"
  "rr_Classification (initial_resolution doc ref) = InvalidResolution"
  "rr_Resolved (initial_resolution doc ref) = False"
  "rr_TargetSymbolID (initial_resolution doc ref) = []"
  "rr_TargetPath (initial_resolution doc ref) = []"
  by (simp_all add: initial_resolution_def)

lemma resolve_reference_ok:
  "answer_ok tf doc ref (fst (resolve_reference tf doc ref)) (snd (resolve_reference tf doc ref))"
proof -
  have s: "answer_ok tf doc ref (fst (resolve_state tf doc ref)) (snd (resolve_state tf doc ref))"
    if "ref_kind ref = ReferenceState"
    using that by (auto simp: resolve_state_def Let_def answer_ok_def resolve_to_def split: list.split)
  have c: "answer_ok tf doc ref (fst (resolve_command tf doc ref)) (snd (resolve_command tf doc ref))"
    if "ref_kind ref = ReferenceCommand"
    using that by (auto simp: resolve_command_def Let_def answer_ok_def resolve_to_def split: list.split)
  have o: "answer_ok tf doc ref (initial_resolution doc ref) []"
    if "ref_kind ref \<noteq> ReferenceState" "ref_kind ref \<noteq> ReferenceCommand"
    using that by (simp add: answer_ok_def)
  show ?thesis
    using s c o by (auto simp: resolve_reference_def) (auto simp: answer_ok_def)
qed

section \<open>The order of the documents\<close>

lemma sort_docs_perm:
  assumes "mset docs = mset docs'" "distinct (map doc_key docs)"
  shows "sort_by doc_less docs = sort_by doc_less docs'"
proof (rule docs.sort_by_perm [OF assms(1)])
  fix a b
  assume "a \<in> set docs" "b \<in> set docs" "\<not> doc_less a b" "\<not> doc_less b a"
  then show "a = b"
    using assms(2) by (auto simp: doc_less_key distinct_map inj_on_def)
qed

end
