(* ===== verification/Semantics_Claims.thy ===== *)
theory Semantics_Claims
  imports Semantics_Props
begin

text \<open>The properties of \<^verbatim>\<open>semantics.Resolve\<close>.\<close>

lemma resolve_references_perm:
  "mset (res_References (resolve_documents docs)) =
     mset (concat (map (\<lambda>d. map (\<lambda>r. fst (resolve_reference
       (targetsFor (semanticPackageRoots (sort_by doc_less docs)) (build_index (sort_by doc_less docs))) d r))
       (doc_references d)) docs))"
proof -
  have c: "mset (concat (map f xs)) = \<Sum>\<^sub># (image_mset (mset \<circ> f) (mset xs))" for f :: "Document \<Rightarrow> ReferenceResolution list" and xs
    by (simp add: mset_concat flip: sum_mset_sum_list)
  have "mset (concat (map f (sort_by doc_less docs))) = mset (concat (map f docs))" for f :: "Document \<Rightarrow> ReferenceResolution list"
    unfolding c by simp
  then show ?thesis
    by (simp add: resolve_documents_def Let_def map_concat comp_def)
qed

lemma resolve_reference_member:
  assumes "r \<in> set (res_References (resolve_documents docs))"
  shows "\<exists>d\<in>set docs. \<exists>ref\<in>set (doc_references d). \<exists>ds.
    set ds \<subseteq> set (res_Diagnostics (resolve_documents docs)) \<and>
    answer_ok (targetsFor (semanticPackageRoots (sort_by doc_less docs)) (build_index (sort_by doc_less docs))) d ref r ds"
proof -
  let ?tf = "targetsFor (semanticPackageRoots (sort_by doc_less docs)) (build_index (sort_by doc_less docs))"
  have "r \<in># mset (res_References (resolve_documents docs))" using assms by simp
  then obtain d ref where m: "d \<in> set docs" "ref \<in> set (doc_references d)" "r = fst (resolve_reference ?tf d ref)"
    unfolding resolve_references_perm by auto
  have "set (snd (resolve_reference ?tf d ref)) \<subseteq> set (res_Diagnostics (resolve_documents docs))"
    using m(1,2) by (force simp: resolve_documents_def Let_def)
  with m resolve_reference_ok [of ?tf d ref] show ?thesis by blast
qed

lemma candidates_are_definitions:
  assumes "t \<in> set (targetsFor roots (build_index (sort_by doc_less docs)) name path)"
  shows "\<exists>d\<in>set docs. ix_Symbol t \<in> set (doc_symbols d) \<and> ix_Path t = doc_path d \<and> is_indexed (ix_Symbol t) \<and>
    sym_name (ix_Symbol t) = name"
proof -
  have "t \<in> set (definitions_of (sort_by doc_less docs) name)"
    using assms targets_subset by (fastforce simp: lookup_build_index)
  then show ?thesis unfolding definitions_member by simp
qed

text \<open>Every reference gets exactly one answer: the resolutions are, as a multiset, one per reference
  of the documents, each naming the file, the identifier and the source symbol of its reference.\<close>

theorem resolve_answers_every_reference:
  "mset (map (\<lambda>r. (rr_SourcePath r, rr_ReferenceID r, rr_SourceSymbol r)) (res_References (Resolve (Some docs)))) =
   mset (concat (map (\<lambda>d. map (\<lambda>r. (doc_path d, ref_id r, ref_source r)) (doc_references d)) docs))"
proof -
  have a: "rr_SourcePath (fst (resolve_reference tf d r)) = doc_path d"
    "rr_ReferenceID (fst (resolve_reference tf d r)) = ref_id r"
    "rr_SourceSymbol (fst (resolve_reference tf d r)) = ref_source r" for tf d r
    using resolve_reference_ok [of tf d r] by (simp_all add: answer_ok_def)
  show ?thesis
    by (simp only: mset_map resolve_references_perm [of docs] Resolve_def option.case)
      (simp add: a map_concat comp_def flip: mset_map)
qed


definition demo_symbol :: Symbol where
  "demo_symbol = \<lparr>sym_id = ''s1'', sym_identity = zero_identity, sym_kind = SymbolStateDef, sym_name = ''state:200'',
     sym_span = zero_span, sym_section = [], sym_raw = []\<rparr>"

definition demo_reference :: Reference where
  "demo_reference = \<lparr>ref_id = ''r1'', ref_identity = zero_identity, ref_kind = ReferenceState, ref_name = ''state:200'',
     ref_raw = ''200'', ref_source = ''c1'', ref_target = ''state:200'', ref_span = zero_span, ref_dynamic = False\<rparr>"

definition demo_document :: Document where
  "demo_document = (NewDocument ''a.cns'' ''cns'')\<lparr>doc_symbols := [demo_symbol], doc_references := [demo_reference]\<rparr>"

lemma demo_resolution:
  "res_References (Resolve (Some [demo_document])) = [resolve_to (initial_resolution demo_document demo_reference)
     \<lparr>ix_Path = ''a.cns'', ix_Symbol = demo_symbol\<rparr>]"
  by code_simp


text \<open>Definitions of a reference's own package take precedence, wherever the files lie: either every
  candidate is in the package of the referring file, or that package does not define the name at all; and
  then a file below \<^verbatim>\<open>chars/\<close> is never given a definition from another character.\<close>

theorem targets_respect_packages:
  "(let idx = build_index docs; candidates = targetsFor roots idx name path;
        same = (\<lambda>t. semanticPackageRoot (ix_Path t) roots = semanticPackageRoot path roots)
    in if list_ex same (definitions_of docs name)
       then candidates = filter same (sort_by symbol_less (definitions_of docs name))
       else if isCharacterSourcePath path
       then candidates = filter (\<lambda>t. \<not> isCharacterSourcePath (ix_Path t)) (sort_by symbol_less (definitions_of docs name))
       else candidates = sort_by symbol_less (definitions_of docs name))"
  by (auto simp: Let_def targetsFor_cases lookup_build_index list_ex_iff filter_empty_conv)

text \<open>Resolution is deterministic: documents with different paths or types give the same index, the
  same resolutions and the same diagnostics, in the same order, however the workspace enumerates them.\<close>

theorem resolve_order_independent:
  assumes "mset docs = mset docs'" and "distinct (map (\<lambda>d. (doc_path d, doc_file_type d)) docs)"
  shows "Resolve (Some docs) = Resolve (Some docs')"
  using sort_docs_perm [OF assms(1)] assms(2)
  by (simp add: Resolve_def resolve_documents_def doc_key_def [abs_def])

theorem resolve_order_independent_witness:
  "Resolve (Some [demo_document, NewDocument ''b.cns'' ''cns'']) = Resolve (Some [NewDocument ''b.cns'' ''cns'', demo_document])"
  by (rule resolve_order_independent) (simp_all add: demo_document_def NewDocument_def)

text \<open>The index lists every name that is defined, once and in order, with exactly its definitions, by
  file and position.\<close>

theorem index_lists_definitions:
  "(let entries = res_Index (Resolve (Some docs)) in
    distinct (map ie_Name entries) \<and> sorted (map ie_Name entries) \<and>
    set (map ie_Name entries) = {sym_name s | s d. d \<in> set docs \<and> s \<in> set (doc_symbols d) \<and> is_indexed s} \<and>
    list_all (\<lambda>e. mset (ie_Symbols e) = mset (definitions_of docs (ie_Name e)) \<and>
      sorted_wrt (\<lambda>a b. \<not> symbol_less b a) (ie_Symbols e)) entries)"
proof -
  define ds where "ds = sort_by doc_less docs"
  have e: "res_Index (Resolve (Some docs)) = map (\<lambda>(name, syms). \<lparr>ie_Name = name, ie_Symbols = syms\<rparr>) (build_index ds)"
    by (simp add: Resolve_def resolve_documents_def Let_def ds_def)
  then have n: "map ie_Name (res_Index (Resolve (Some docs))) = map fst (build_index ds)"
    by (simp add: comp_def case_prod_beta)
  have "mset (definitions_of ds name) = mset (definitions_of docs name)" for name
    unfolding definitions_of_def mset_concat by (simp add: ds_def flip: sum_mset_sum_list)
  then have "mset (ie_Symbols x) = mset (definitions_of docs (ie_Name x)) \<and>
      sorted_wrt (\<lambda>a b. \<not> symbol_less b a) (ie_Symbols x)" if "x \<in> set (res_Index (Resolve (Some docs)))" for x
    using that symbols.sorted_sort_by by (auto simp: e dest!: build_index_entry [of _ _ ds])
  then show ?thesis
    using build_index_names [of ds] by (simp add: Let_def list_all_iff n del: set_map) (simp add: ds_def)
qed

text \<open>Only the definitions in the file of the first one are compared: a second file may define a state
  twice without a word.\<close>

definition demo_twice :: Document where
  "demo_twice = (NewDocument ''b.cns'' ''cns'')\<lparr>doc_symbols := [demo_symbol, demo_symbol\<lparr>sym_id := ''s2''\<rparr>]\<rparr>"

lemma duplicate_in_second_file_unreported:
  "res_Diagnostics (Resolve (Some [demo_twice])) \<noteq> [] \<and>
   res_Diagnostics (Resolve (Some [demo_document, demo_twice])) \<noteq> [] \<and>
   list_all (\<lambda>g. dg_code g \<noteq> ''duplicate-definition'') (res_Diagnostics (Resolve (Some [demo_document, demo_twice])))"
  by code_simp

end
