(* ===== verification/Index.thy ===== *)
theory Index
  imports Semantics
begin

text \<open>
  \<^verbatim>\<open>internal/index/index.go\<close>: the SQL script that loads a parsed workspace and its resolution into a
  database. A statement is a string; \<^verbatim>\<open>%d\<close> is \<^const>\<open>itoa\<close> and \<^verbatim>\<open>%s\<close> is the string. The map
  \<^verbatim>\<open>seenByKey\<close> is a function that counts, the map of candidates an association list. Of
  \<^verbatim>\<open>workspace.LoadResult\<close> the two fields that are read.
\<close>

section \<open>Data\<close>

record LoadResult =
  ws_Documents :: "Document list"
  ws_Diagnostics :: "Diagnostic list"

record symbolExportRow =
  sx_doc :: Document
  sx_symbol :: Symbol

record referenceExportRow =
  rx_id :: string
  rx_documentPath :: string
  rx_kind :: string
  rx_name :: string
  rx_raw :: string
  rx_sourceSymbol :: string
  rx_target :: string
  rx_targetSymbolID :: string
  rx_targetPath :: string
  rx_classification :: string
  rx_resolved :: bool
  rx_isDynamic :: bool
  rx_startLine :: int
  rx_startColumn :: int
  rx_endLine :: int
  rx_endColumn :: int

definition tableDocuments :: string where "tableDocuments = ''ikm_documents''"
definition tableSymbols :: string where "tableSymbols = ''ikm_symbols''"
definition tableReferences :: string where "tableReferences = ''ikm_references''"
definition tableDiagnostics :: string where "tableDiagnostics = ''ikm_diagnostics''"
definition ftsDocuments :: string where "ftsDocuments = ''ikm_documents_fts''"
definition ftsSymbols :: string where "ftsSymbols = ''ikm_symbols_fts''"
definition ftsReferences :: string where "ftsReferences = ''ikm_references_fts''"
definition ftsDiagnostics :: string where "ftsDiagnostics = ''ikm_diagnostics_fts''"

lemmas table_names = tableDocuments_def tableSymbols_def tableReferences_def tableDiagnostics_def
  ftsDocuments_def ftsSymbols_def ftsReferences_def ftsDiagnostics_def

fun classification_str :: "Classification \<Rightarrow> string" where
  "classification_str ExactResolution = ''exact''"
| "classification_str AmbiguousResolution = ''ambiguous''"
| "classification_str InvalidResolution = ''invalid''"
| "classification_str DynamicResolution = ''dynamic''"

section \<open>Literals\<close>

definition quoteString :: "string \<Rightarrow> string" where
  "quoteString v =
     (let escaped = replace_byte v (CHR 0x00) [CHR 0x5C, CHR ''x'', CHR ''0'', CHR ''0'']
      in CHR 0x27 # replace_byte escaped (CHR 0x27) [CHR 0x27, CHR 0x27] @ [CHR 0x27])"

definition quoteNullableString :: "string \<Rightarrow> string" where
  "quoteNullableString v = (if v = [] then ''NULL'' else quoteString v)"

definition boolToInt :: "bool \<Rightarrow> int" where
  "boolToInt v = (if v then 1 else 0)"

definition normalizeLine :: "int \<Rightarrow> int" where
  "normalizeLine v = (if v < 1 then 1 else v)"

definition index_normalizeStart :: "int \<Rightarrow> int" where
  "index_normalizeStart v = (if v < 1 then 1 else v)"

definition normalizeColumn :: "int \<Rightarrow> int" where
  "normalizeColumn v = (if v < 1 then 1 else v)"

definition classificationValue :: "string \<Rightarrow> string" where
  "classificationValue v = (if v = [] then ''unresolved'' else v)"

definition index_canonicalPath :: "string \<Rightarrow> string" where
  "index_canonicalPath path =
     (let clean = trim_space path in if clean = [] \<or> clean = ''.'' then ''memory'' else path_clean clean)"

section \<open>Statements\<close>

text \<open>The shape every row has: the text before \<^verbatim>\<open>VALUES\<close> and the values between commas.\<close>

definition insert_sql :: "string \<Rightarrow> string \<Rightarrow> string list \<Rightarrow> string" where
  "insert_sql table columns vals =
     ''INSERT INTO '' @ table @ '' ('' @ columns @ '') VALUES ('' @ join_with '', '' vals @ '');''"

definition insertDocument :: "Document \<Rightarrow> string" where
  "insertDocument doc = insert_sql tableDocuments ''path, file_type, version''
     [quoteString (doc_path doc), quoteString (doc_file_type doc), quoteString (doc_version doc)]"

definition insertDocumentFTS :: "Document \<Rightarrow> string" where
  "insertDocumentFTS doc = insert_sql ftsDocuments ''path, file_type, version''
     [quoteString (doc_path doc), quoteString (doc_file_type doc), quoteString (doc_version doc)]"

definition insertSymbol :: "string \<Rightarrow> Symbol \<Rightarrow> string" where
  "insertSymbol docPath s = insert_sql tableSymbols
     ''id, document_path, kind, name, section, raw, start_line, start_column, end_line, end_column''
     [quoteString (sym_id s), quoteString docPath, quoteString (symbol_kind_str (sym_kind s)),
      quoteString (sym_name s), quoteString (sym_section s), quoteString (sym_raw s),
      itoa (Line (Start (sym_span s))), itoa (Column (Start (sym_span s))),
      itoa (Line (End (sym_span s))), itoa (Column (End (sym_span s)))]"

definition insertSymbolFTS :: "string \<Rightarrow> Symbol \<Rightarrow> string" where
  "insertSymbolFTS docPath s = insert_sql ftsSymbols ''document_path, kind, name, section, raw''
     [quoteString docPath, quoteString (symbol_kind_str (sym_kind s)), quoteString (sym_name s),
      quoteString (sym_section s), quoteString (sym_raw s)]"

definition insertReference :: "referenceExportRow \<Rightarrow> string" where
  "insertReference row = insert_sql tableReferences
     (''id, document_path, kind, name, raw, source_symbol, target, target_symbol_id, target_path, '' @
      ''classification, resolved, is_dynamic, start_line, start_column, end_line, end_column'')
     [quoteString (rx_id row), quoteString (rx_documentPath row), quoteString (rx_kind row),
      quoteString (rx_name row), quoteString (rx_raw row), quoteString (rx_sourceSymbol row),
      quoteString (rx_target row), quoteNullableString (rx_targetSymbolID row),
      quoteNullableString (rx_targetPath row), quoteString (classificationValue (rx_classification row)),
      itoa (boolToInt (rx_resolved row)), itoa (boolToInt (rx_isDynamic row)),
      itoa (normalizeLine (rx_startLine row)), itoa (normalizeColumn (rx_startColumn row)),
      itoa (normalizeLine (rx_endLine row)), itoa (normalizeColumn (rx_endColumn row))]"

definition insertReferenceFTS :: "referenceExportRow \<Rightarrow> string" where
  "insertReferenceFTS row = insert_sql ftsReferences
     ''document_path, kind, name, raw, source_symbol, target, target_symbol_id, target_path, classification''
     [quoteString (rx_documentPath row), quoteString (rx_kind row), quoteString (rx_name row),
      quoteString (rx_raw row), quoteString (rx_sourceSymbol row), quoteString (rx_target row),
      quoteNullableString (rx_targetSymbolID row), quoteNullableString (rx_targetPath row),
      quoteString (classificationValue (rx_classification row))]"

definition insertDiagnostic :: "Diagnostic \<Rightarrow> string" where
  "insertDiagnostic d = insert_sql tableDiagnostics
     ''path, code, severity, message, related_symbol, start_line, start_column, end_line, end_column''
     [quoteString (dg_path d), quoteString (dg_code d), quoteString (severity_str (dg_severity d)),
      quoteString (dg_message d), quoteNullableString (dg_related d),
      itoa (index_normalizeStart (Line (dg_start d))), itoa (normalizeColumn (Column (dg_start d))),
      itoa (normalizeLine (Line (dg_end d))), itoa (normalizeColumn (Column (dg_end d)))]"

definition insertDiagnosticFTS :: "Diagnostic \<Rightarrow> string" where
  "insertDiagnosticFTS d = insert_sql ftsDiagnostics ''path, code, severity, message, related_symbol''
     [quoteString (dg_path d), quoteString (dg_code d), quoteString (severity_str (dg_severity d)),
      quoteString (dg_message d), quoteNullableString (dg_related d)]"

definition schemaSQL :: "string list" where
  "schemaSQL =
     [''-- Stable schema for ikemen index output.'',
      ''CREATE TABLE IF NOT EXISTS '' @ tableDocuments @ '' ('',
      ''    path TEXT PRIMARY KEY NOT NULL,'',
      ''    file_type TEXT NOT NULL,'',
      ''    version TEXT NOT NULL'',
      '');'',
      ''CREATE TABLE IF NOT EXISTS '' @ tableSymbols @ '' ('',
      ''    id TEXT PRIMARY KEY NOT NULL,'',
      ''    document_path TEXT NOT NULL,'',
      ''    kind TEXT NOT NULL,'',
      ''    name TEXT NOT NULL,'',
      ''    section TEXT NOT NULL,'',
      ''    raw TEXT NOT NULL,'',
      ''    start_line INTEGER NOT NULL,'',
      ''    start_column INTEGER NOT NULL,'',
      ''    end_line INTEGER NOT NULL,'',
      ''    end_column INTEGER NOT NULL'',
      '');'',
      ''CREATE TABLE IF NOT EXISTS '' @ tableReferences @ '' ('',
      ''    id TEXT NOT NULL,'',
      ''    document_path TEXT NOT NULL,'',
      ''    kind TEXT NOT NULL,'',
      ''    name TEXT NOT NULL,'',
      ''    raw TEXT NOT NULL,'',
      ''    source_symbol TEXT NOT NULL,'',
      ''    target TEXT NOT NULL,'',
      ''    target_symbol_id TEXT,'',
      ''    target_path TEXT,'',
      ''    classification TEXT NOT NULL,'',
      ''    resolved INTEGER NOT NULL,'',
      ''    is_dynamic INTEGER NOT NULL,'',
      ''    start_line INTEGER NOT NULL,'',
      ''    start_column INTEGER NOT NULL,'',
      ''    end_line INTEGER NOT NULL,'',
      ''    end_column INTEGER NOT NULL,'',
      ''    PRIMARY KEY ('',
      ''        document_path,'',
      ''        source_symbol,'',
      ''        target,'',
      ''        kind,'',
      ''        start_line,'',
      ''        start_column,'',
      ''        end_line,'',
      ''        end_column'',
      ''    )'',
      '');'',
      ''CREATE TABLE IF NOT EXISTS '' @ tableDiagnostics @ '' ('',
      ''    path TEXT NOT NULL,'',
      ''    code TEXT NOT NULL,'',
      ''    severity TEXT NOT NULL,'',
      ''    message TEXT NOT NULL,'',
      ''    related_symbol TEXT,'',
      ''    start_line INTEGER NOT NULL,'',
      ''    start_column INTEGER NOT NULL,'',
      ''    end_line INTEGER NOT NULL,'',
      ''    end_column INTEGER NOT NULL'',
      '');'',
      ''-- FTS5: full-text index over documents'',
      ''CREATE VIRTUAL TABLE IF NOT EXISTS '' @ ftsDocuments @ '' USING fts5(path, file_type, version);'',
      ''-- FTS5: full-text index over symbols'',
      ''CREATE VIRTUAL TABLE IF NOT EXISTS '' @ ftsSymbols @ '' USING fts5(document_path, kind, name, section, raw);'',
      ''-- FTS5: full-text index over references'',
      ''CREATE VIRTUAL TABLE IF NOT EXISTS '' @ ftsReferences @ '' USING fts5(document_path, kind, name, raw, source_symbol, target, target_symbol_id, target_path, classification);'',
      ''-- FTS5: full-text index over diagnostics'',
      ''CREATE VIRTUAL TABLE IF NOT EXISTS '' @ ftsDiagnostics @ '' USING fts5(path, code, severity, message, related_symbol);'']"

definition refreshStatements :: "string list" where
  "refreshStatements =
     [''DELETE FROM '' @ tableReferences @ '';'',
      ''DELETE FROM '' @ tableDiagnostics @ '';'',
      ''DELETE FROM '' @ tableSymbols @ '';'',
      ''DELETE FROM '' @ tableDocuments @ '';'',
      ''DELETE FROM '' @ ftsReferences @ '';'',
      ''DELETE FROM '' @ ftsDiagnostics @ '';'',
      ''DELETE FROM '' @ ftsSymbols @ '';'',
      ''DELETE FROM '' @ ftsDocuments @ '';'']"

section \<open>The order of the rows\<close>

definition document_less :: "Document \<Rightarrow> Document \<Rightarrow> bool" where
  "document_less left right =
     (let leftPath = index_canonicalPath (doc_path left); rightPath = index_canonicalPath (doc_path right) in
      if leftPath \<noteq> rightPath then leftPath < rightPath
      else if doc_file_type left \<noteq> doc_file_type right then doc_file_type left < doc_file_type right
      else doc_version left < doc_version right)"

definition sortedDocuments :: "Document list \<Rightarrow> Document list" where
  "sortedDocuments docs = sort_by document_less docs"

definition symbol_row_less :: "symbolExportRow \<Rightarrow> symbolExportRow \<Rightarrow> bool" where
  "symbol_row_less a b =
     (let aPath = index_canonicalPath (doc_path (sx_doc a)); bPath = index_canonicalPath (doc_path (sx_doc b));
          s = sx_symbol a; t = sx_symbol b in
      if aPath \<noteq> bPath then aPath < bPath
      else if sym_kind s \<noteq> sym_kind t then symbol_kind_str (sym_kind s) < symbol_kind_str (sym_kind t)
      else if sym_name s \<noteq> sym_name t then sym_name s < sym_name t
      else if Line (Start (sym_span s)) \<noteq> Line (Start (sym_span t))
      then Line (Start (sym_span s)) < Line (Start (sym_span t))
      else if Column (Start (sym_span s)) \<noteq> Column (Start (sym_span t))
      then Column (Start (sym_span s)) < Column (Start (sym_span t))
      else sym_id s < sym_id t)"

definition sortedSymbols :: "Document list \<Rightarrow> symbolExportRow list" where
  "sortedSymbols docs = sort_by symbol_row_less
     (concat (map (\<lambda>doc. map (\<lambda>s. \<lparr>sx_doc = doc, sx_symbol = s\<rparr>) (doc_symbols doc)) docs))"

definition reference_row_less :: "referenceExportRow \<Rightarrow> referenceExportRow \<Rightarrow> bool" where
  "reference_row_less left right =
     (let leftPath = index_canonicalPath (rx_documentPath left);
          rightPath = index_canonicalPath (rx_documentPath right) in
      if leftPath \<noteq> rightPath then leftPath < rightPath
      else if rx_id left \<noteq> rx_id right then rx_id left < rx_id right
      else if rx_sourceSymbol left \<noteq> rx_sourceSymbol right then rx_sourceSymbol left < rx_sourceSymbol right
      else if rx_startLine left \<noteq> rx_startLine right then rx_startLine left < rx_startLine right
      else if rx_startColumn left \<noteq> rx_startColumn right then rx_startColumn left < rx_startColumn right
      else rx_name left < rx_name right)"

definition sortedReferenceRows :: "referenceExportRow list \<Rightarrow> referenceExportRow list" where
  "sortedReferenceRows rows = sort_by reference_row_less rows"

definition diagnostic_row_less :: "Diagnostic \<Rightarrow> Diagnostic \<Rightarrow> bool" where
  "diagnostic_row_less left right =
     (if dg_path left \<noteq> dg_path right then dg_path left < dg_path right
      else if Line (dg_start left) \<noteq> Line (dg_start right) then Line (dg_start left) < Line (dg_start right)
      else if Column (dg_start left) \<noteq> Column (dg_start right)
      then Column (dg_start left) < Column (dg_start right)
      else if Line (dg_end left) \<noteq> Line (dg_end right) then Line (dg_end left) < Line (dg_end right)
      else if Column (dg_end left) \<noteq> Column (dg_end right) then Column (dg_end left) < Column (dg_end right)
      else if dg_code left \<noteq> dg_code right then dg_code left < dg_code right
      else if dg_severity left \<noteq> dg_severity right
      then severity_str (dg_severity left) < severity_str (dg_severity right)
      else if dg_message left \<noteq> dg_message right then dg_message left < dg_message right
      else dg_related left < dg_related right)"

definition sortedDiagnostics :: "Diagnostic list \<Rightarrow> Diagnostic list" where
  "sortedDiagnostics diags = sort_by diagnostic_row_less diags"

section \<open>Reference rows\<close>

definition referenceExportID :: "string \<Rightarrow> int \<Rightarrow> string \<Rightarrow> string" where
  "referenceExportID kind lineNo path =
     ''ref:'' @ kind @ '':'' @ itoa (normalizeLine lineNo) @ '':'' @ index_canonicalPath path"

definition refLookupKey :: "string \<Rightarrow> string \<Rightarrow> string" where
  "refLookupKey path ident = index_canonicalPath path @ CHR 0x00 # ident"

text \<open>\<^const>\<open>remdups\<close> keeps the last of equal elements; the loop keeps the first.\<close>

definition referenceResolutionLookupKeys :: "string \<Rightarrow> Identity \<Rightarrow> string \<Rightarrow> string list" where
  "referenceResolutionLookupKeys path identity legacyID =
     map (refLookupKey path)
       (rev (remdups (rev (filter (\<lambda>k. k \<noteq> []) [idn_store identity, idn_occurrence identity, legacyID]))))"

type_synonym referenceByKey = "(string \<times> Reference list) list"

definition index_reference :: "string \<Rightarrow> Reference \<Rightarrow> referenceByKey \<Rightarrow> referenceByKey" where
  "index_reference docPath ref out =
     fold (\<lambda>key. add_to_group key ref)
       (referenceResolutionLookupKeys docPath (ref_identity ref) (ref_id ref)) out"

definition buildReferenceLookup :: "Document list \<Rightarrow> referenceByKey" where
  "buildReferenceLookup docs =
     fold (\<lambda>doc. fold (index_reference (index_canonicalPath (doc_path doc))) (doc_references doc)) docs []"

fun referenceCandidates :: "referenceByKey \<Rightarrow> (string \<Rightarrow> nat) \<Rightarrow> string list \<Rightarrow>
    Reference option \<times> (string \<Rightarrow> nat)" where
  "referenceCandidates base seen [] = (None, seen)"
| "referenceCandidates base seen (key # keys) =
     (let candidates = (case map_of base key of None \<Rightarrow> [] | Some rs \<Rightarrow> rs); next1 = seen key in
      if length candidates \<le> next1 then referenceCandidates base seen keys
      else (Some (candidates ! next1), seen(key := next1 + 1)))"

definition referenceResultLookupID :: "Identity \<Rightarrow> string \<Rightarrow> string" where
  "referenceResultLookupID identity legacyID =
     (if idn_store identity \<noteq> [] then idn_store identity
      else if idn_occurrence identity \<noteq> [] then idn_occurrence identity else legacyID)"

definition inferredReferenceKind :: "ReferenceResolution \<Rightarrow> string" where
  "inferredReferenceKind ref =
     (if has_prefix (idn_semantic (rr_TargetIdentity ref)) ''command:'' then ''command''
      else if has_prefix (idn_semantic (rr_TargetIdentity ref)) ''state:'' then ''state''
      else if has_prefix (rr_TargetSymbolID ref) ''command:'' then ''command''
      else if has_prefix (rr_TargetSymbolID ref) ''state:'' then ''state''
      else ''unknown'')"

definition matched_row :: "ReferenceResolution \<Rightarrow> Reference \<Rightarrow> referenceExportRow" where
  "matched_row ref parsed =
     \<lparr>rx_id = ref_id parsed, rx_documentPath = index_canonicalPath (rr_SourcePath ref),
      rx_kind = reference_kind_str (ref_kind parsed), rx_name = ref_name parsed, rx_raw = ref_raw parsed,
      rx_sourceSymbol = ref_source parsed, rx_target = ref_target parsed,
      rx_targetSymbolID = rr_TargetSymbolID ref, rx_targetPath = rr_TargetPath ref,
      rx_classification = classification_str (rr_Classification ref),
      rx_resolved = rr_Resolved ref, rx_isDynamic = rr_IsDynamic ref,
      rx_startLine = Line (Start (ref_span parsed)),
      rx_startColumn = normalizeColumn (Column (Start (ref_span parsed))),
      rx_endLine = normalizeLine (Line (End (ref_span parsed))),
      rx_endColumn = normalizeColumn (Column (End (ref_span parsed)))\<rparr>"

definition unmatched_row :: "ReferenceResolution \<Rightarrow> referenceExportRow" where
  "unmatched_row ref =
     \<lparr>rx_id = referenceResultLookupID (rr_ReferenceIdentity ref) (rr_ReferenceID ref),
      rx_documentPath = index_canonicalPath (rr_SourcePath ref),
      rx_kind = inferredReferenceKind ref,
      rx_name = (if idn_semantic (rr_ReferenceIdentity ref) \<noteq> [] then idn_semantic (rr_ReferenceIdentity ref)
                 else rr_SourceSymbol ref),
      rx_raw = [], rx_sourceSymbol = rr_SourceSymbol ref,
      rx_target = (if idn_semantic (rr_TargetIdentity ref) \<noteq> [] then idn_semantic (rr_TargetIdentity ref)
                   else rr_TargetSymbolID ref),
      rx_targetSymbolID = rr_TargetSymbolID ref, rx_targetPath = rr_TargetPath ref,
      rx_classification = classification_str (rr_Classification ref),
      rx_resolved = rr_Resolved ref, rx_isDynamic = rr_IsDynamic ref,
      rx_startLine = 1, rx_startColumn = 1, rx_endLine = 1, rx_endColumn = 2\<rparr>"

definition named_row :: "referenceExportRow \<Rightarrow> referenceExportRow" where
  "named_row row =
     (if rx_id row = []
      then row\<lparr>rx_id := referenceExportID (rx_kind row) (rx_startLine row) (rx_documentPath row)\<rparr> else row)"

fun resolution_rows :: "referenceByKey \<Rightarrow> (string \<Rightarrow> nat) \<Rightarrow> ReferenceResolution list \<Rightarrow> referenceExportRow list" where
  "resolution_rows base seen [] = []"
| "resolution_rows base seen (ref # refs) =
     (let sourcePath = index_canonicalPath (rr_SourcePath ref);
          keys = referenceResolutionLookupKeys sourcePath (rr_ReferenceIdentity ref) (rr_ReferenceID ref);
          (parsed, seen') = referenceCandidates base seen keys;
          entry = (case parsed of Some p \<Rightarrow> matched_row ref p | None \<Rightarrow> unmatched_row ref)
      in named_row entry # resolution_rows base seen' refs)"

definition parsed_row :: "Document \<Rightarrow> Reference \<Rightarrow> referenceExportRow" where
  "parsed_row doc ref =
     \<lparr>rx_id = referenceExportID (reference_kind_str (ref_kind ref)) (Line (Start (ref_span ref))) (doc_path doc),
      rx_documentPath = index_canonicalPath (doc_path doc), rx_kind = reference_kind_str (ref_kind ref),
      rx_name = ref_name ref, rx_raw = ref_raw ref, rx_sourceSymbol = ref_source ref, rx_target = ref_target ref,
      rx_targetSymbolID = [], rx_targetPath = [], rx_classification = ''unresolved'',
      rx_resolved = False, rx_isDynamic = ref_dynamic ref,
      rx_startLine = normalizeLine (Line (Start (ref_span ref))),
      rx_startColumn = normalizeColumn (Column (Start (ref_span ref))),
      rx_endLine = normalizeLine (Line (End (ref_span ref))),
      rx_endColumn = normalizeColumn (Column (End (ref_span ref)))\<rparr>"

fun disambiguate_from :: "(string \<Rightarrow> nat) \<Rightarrow> referenceExportRow list \<Rightarrow> referenceExportRow list" where
  "disambiguate_from seen [] = []"
| "disambiguate_from seen (row # rows) =
     (let row1 = named_row row; base = rx_id row1; n = seen base + 1; seen' = seen(base := n) in
      (if n = 1 then row1 else row1\<lparr>rx_id := base @ '':'' @ itoa (int n - 1)\<rparr>) # disambiguate_from seen' rows)"

definition disambiguateReferenceIDs :: "referenceExportRow list \<Rightarrow> referenceExportRow list" where
  "disambiguateReferenceIDs rows = disambiguate_from (\<lambda>_. 0) rows"

definition resolveReferenceRows :: "Document list \<Rightarrow> ReferenceResolution list \<Rightarrow> referenceExportRow list" where
  "resolveReferenceRows docs refs =
     (if docs = [] \<and> refs = [] then []
      else if refs \<noteq> []
      then disambiguateReferenceIDs (resolution_rows (buildReferenceLookup docs) (\<lambda>_. 0) refs)
      else disambiguateReferenceIDs (concat (map (\<lambda>doc. map (parsed_row doc) (doc_references doc)) docs)))"

section \<open>Export\<close>

text \<open>The four loops: the row statements in order.\<close>

definition row_statements :: "LoadResult \<Rightarrow> ResolveResult \<Rightarrow> string list" where
  "row_statements ws sr =
     (let documents = sortedDocuments (ws_Documents ws);
          symbols = sortedSymbols documents;
          refs = sortedReferenceRows (resolveReferenceRows documents (res_References sr));
          diagnostics = sortedDiagnostics (ws_Diagnostics ws @ res_Diagnostics sr)
      in concat (map (\<lambda>doc. [insertDocument doc, insertDocumentFTS doc]) documents) @
         concat (map (\<lambda>row. [insertSymbol (doc_path (sx_doc row)) (sx_symbol row),
                             insertSymbolFTS (doc_path (sx_doc row)) (sx_symbol row)]) symbols) @
         concat (map (\<lambda>row. [insertReference row, insertReferenceFTS row]) refs) @
         concat (map (\<lambda>diag. [insertDiagnostic diag, insertDiagnosticFTS diag]) diagnostics))"

definition Export :: "LoadResult \<Rightarrow> ResolveResult \<Rightarrow> string" where
  "Export ws sr =
     join_with [CHR 0x0A]
       ([''BEGIN TRANSACTION;''] @ schemaSQL @ refreshStatements @ row_statements ws sr @ [''COMMIT;''])"

end
