(* ===== verification/Index_Props.thy ===== *)
theory Index_Props
  imports Index Semantics_Props Parser_Props
begin

text \<open>
  Facts about the SQL script of \<^verbatim>\<open>internal/index\<close>. The reader of the script is specified here: \<open>sql_pieces\<close>
  cuts a script at the semicolons outside string literals and comments, \<open>sql_literals\<close> reads the
  string literals of a statement, with a doubled quote for a quote.
\<close>

section \<open>A reader of SQL scripts\<close>

datatype sql_mode = InText | InDash | InLiteral | InComment

fun next_mode :: "sql_mode \<Rightarrow> char \<Rightarrow> sql_mode" where
  "next_mode InLiteral c = (if c = CHR 0x27 then InText else InLiteral)"
| "next_mode InComment c = (if c = CHR 0x0A then InText else InComment)"
| "next_mode InText c = (if c = CHR 0x27 then InLiteral else if c = CHR ''-'' then InDash else InText)"
| "next_mode InDash c = (if c = CHR 0x27 then InLiteral else if c = CHR ''-'' then InComment else InText)"

definition cuts :: "sql_mode \<Rightarrow> char \<Rightarrow> bool" where
  "cuts m c \<longleftrightarrow> c = CHR '';'' \<and> (m = InText \<or> m = InDash)"

fun sql_pieces :: "sql_mode \<Rightarrow> string \<Rightarrow> string list" where
  "sql_pieces m [] = [[]]"
| "sql_pieces m (c # cs) =
     (if cuts m c then [] # sql_pieces InText cs
      else case sql_pieces (next_mode m c) cs of [] \<Rightarrow> [] | w # ws \<Rightarrow> (c # w) # ws)"

definition mode_after :: "sql_mode \<Rightarrow> string \<Rightarrow> sql_mode" where
  "mode_after m s = foldl next_mode m s"

lemma mode_after_simps [simp]:
  "mode_after m [] = m" "mode_after m (c # s) = mode_after (next_mode m c) s"
  "mode_after m (s @ t) = mode_after (mode_after m s) t"
  by (simp_all add: mode_after_def)

lemma sql_pieces_not_Nil [simp]: "sql_pieces m s \<noteq> []"
  by (induction m s rule: sql_pieces.induct) (auto split: list.splits)

lemma cuts_next_mode: "cuts m c \<Longrightarrow> next_mode m c = InText"
  by (cases m) (auto simp: cuts_def)

lemma sql_pieces_append:
  "sql_pieces m (s @ t) =
     butlast (sql_pieces m s) @ (last (sql_pieces m s) @ hd (sql_pieces (mode_after m s) t)) # tl (sql_pieces (mode_after m s) t)"
proof (induction s arbitrary: m)
  case (Cons c s)
  show ?case
  proof (cases "cuts m c")
    case True
    then show ?thesis using Cons [of InText] by (simp add: cuts_next_mode)
  next
    case False
    obtain w ws where "sql_pieces (next_mode m c) s = w # ws" by (cases "sql_pieces (next_mode m c) s") auto
    with False show ?thesis using Cons [of "next_mode m c"] by (cases ws) auto
  qed
qed simp

text \<open>Text that leaves the reader where it was and holds no cut.\<close>

definition neutral :: "string \<Rightarrow> bool" where
  "neutral s \<longleftrightarrow> sql_pieces InText s = [s] \<and> mode_after InText s = InText"

lemma neutral_append: "neutral s \<Longrightarrow> sql_pieces InText (s @ t) = (s @ hd (sql_pieces InText t)) # tl (sql_pieces InText t)"
  by (simp add: neutral_def sql_pieces_append)

lemma neutral_Nil [simp]: "neutral []"
  by (simp add: neutral_def)

lemma neutral_concat [intro]: "neutral s \<Longrightarrow> neutral t \<Longrightarrow> neutral (s @ t)"
  by (simp add: neutral_def sql_pieces_append)

definition plain_sql :: "char \<Rightarrow> bool" where
  "plain_sql c \<longleftrightarrow> c \<noteq> CHR 0x27 \<and> c \<noteq> CHR '';'' \<and> c \<noteq> CHR ''-''"

lemma neutral_plain: "list_all plain_sql s \<Longrightarrow> neutral s"
  by (induction s) (auto simp: neutral_def plain_sql_def cuts_def)

lemma neutral_itoa: "neutral (itoa n)"
proof -
  have p: "is_digit c \<Longrightarrow> plain_sql c" for c
    by (auto simp: plain_sql_def is_digit_def)
  then have d: "list_all plain_sql (nat_digits k)" for k
    using nat_digits_digit by (auto simp: list_all_iff)
  have "neutral (CHR ''-'' # nat_digits k)" for k
  proof -
    obtain c cs where n: "nat_digits k = c # cs" by (cases "nat_digits k") auto
    with d [of k] neutral_plain [of cs] show ?thesis
      by (auto simp: neutral_def plain_sql_def cuts_def)
  qed
  with d show ?thesis by (simp add: itoa_def neutral_plain)
qed

lemma literal_body:
  "sql_pieces InLiteral (replace_byte v (CHR 0x27) [CHR 0x27, CHR 0x27] @ [CHR 0x27]) =
     [replace_byte v (CHR 0x27) [CHR 0x27, CHR 0x27] @ [CHR 0x27]] \<and>
   mode_after InLiteral (replace_byte v (CHR 0x27) [CHR 0x27, CHR 0x27] @ [CHR 0x27]) = InText"
  by (induction v) (auto simp: cuts_def)

lemma neutral_quote: "neutral (quoteString v)"
  using literal_body by (simp add: neutral_def quoteString_def Let_def cuts_def)

lemma neutral_nullable: "neutral (quoteNullableString v)"
  by (simp add: quoteNullableString_def neutral_quote neutral_plain plain_sql_def)

lemma neutral_join: "list_all neutral vs \<Longrightarrow> neutral (join_with '', '' vs)"
proof (induction vs rule: induct_list012)
  case (3 v w vs)
  have "neutral ('', '' @ t)" if "neutral t" for t
    using neutral_concat [OF neutral_plain [of "'', ''"] that] by (simp add: plain_sql_def)
  with 3 show ?case by auto
qed auto

text \<open>A statement: neutral text and its semicolon.\<close>

definition one_statement :: "string \<Rightarrow> bool" where
  "one_statement s \<longleftrightarrow> (\<exists>b. s = b @ '';'' \<and> neutral b)"

lemma one_statement_insert:
  assumes "list_all plain_sql table" and "list_all plain_sql columns" and "list_all neutral vals"
  shows "one_statement (insert_sql table columns vals)"
proof -
  have "neutral (''INSERT INTO '' @ table @ '' ('' @ columns @ '') VALUES ('')"
    using assms(1,2) by (intro neutral_plain) (simp add: plain_sql_def)
  moreover have "neutral ('')'')" by (intro neutral_plain) (simp add: plain_sql_def)
  ultimately have "neutral ((''INSERT INTO '' @ table @ '' ('' @ columns @ '') VALUES ('') @ join_with '', '' vals @ '')'')"
    using neutral_join [OF assms(3)] by blast
  then show ?thesis unfolding one_statement_def insert_sql_def by (intro exI) (auto simp: append_assoc)
qed

lemma row_statement_cases:
  assumes "s \<in> set (row_statements ws sr)"
  shows "one_statement s"
proof -
  note facts = one_statement_insert neutral_quote neutral_nullable neutral_itoa
  have "one_statement (insertDocument d)" "one_statement (insertDocumentFTS d)" for d
    unfolding insertDocument_def insertDocumentFTS_def
    by (rule one_statement_insert; simp add: facts table_names plain_sql_def)+
  moreover have "one_statement (insertSymbol p x)" "one_statement (insertSymbolFTS p x)" for p x
    unfolding insertSymbol_def insertSymbolFTS_def
    by (rule one_statement_insert; simp add: facts table_names plain_sql_def)+
  moreover have "one_statement (insertReference r)" "one_statement (insertReferenceFTS r)" for r
    unfolding insertReference_def insertReferenceFTS_def
    by (rule one_statement_insert; simp add: facts table_names plain_sql_def)+
  moreover have "one_statement (insertDiagnostic g)" "one_statement (insertDiagnosticFTS g)" for g
    unfolding insertDiagnostic_def insertDiagnosticFTS_def
    by (rule one_statement_insert; simp add: facts table_names plain_sql_def)+
  ultimately show ?thesis using assms by (auto simp: row_statements_def Let_def)
qed

lemma pieces_of_statements:
  assumes "\<And>s. s \<in> set ss \<Longrightarrow> one_statement s" and "neutral e"
  shows "sql_pieces InText (concat (map (\<lambda>s. CHR 0x0A # s) ss) @ e) = map (\<lambda>s. CHR 0x0A # butlast s) ss @ [e]"
  using assms(1)
proof (induction ss)
  case Nil
  with assms(2) show ?case by (simp add: neutral_def)
next
  case (Cons s ss)
  obtain b where b: "s = b @ '';''" "neutral b" using Cons.prems by (auto simp: one_statement_def)
  have "neutral (CHR 0x0A # b)"
    using neutral_concat [of "[CHR 0x0A]" b] b(2) by (simp add: neutral_plain plain_sql_def)
  from neutral_append [OF this] Cons b(1) show ?case by (simp add: cuts_def butlast_append)
qed

lemma join_with_last: "ss \<noteq> [] \<Longrightarrow> \<exists>p. join_with sep ss = p @ last ss"
  by (induction sep ss rule: join_with.induct) (auto intro: exI [of _ "[]"] simp flip: append_assoc)

lemma join_lines: "ss \<noteq> [] \<Longrightarrow> join_with sep (ss @ ts) = join_with sep ss @ concat (map (\<lambda>t. sep @ t) ts)"
proof (induction ss rule: induct_list012)
  case (2 s)
  have "join_with sep (s # ts) = s @ concat (map (\<lambda>t. sep @ t) ts)" for s
    by (induction ts arbitrary: s) auto
  then show ?case by simp
qed auto

section \<open>Reading the values back\<close>

fun read_literal :: "string \<Rightarrow> string \<times> string" where
  "read_literal [] = ([], [])"
| "read_literal [c] = (if c = CHR 0x27 then ([], []) else ([c], []))"
| "read_literal (c # d # cs) =
     (if c = CHR 0x27 then
        (if d = CHR 0x27 then (case read_literal cs of (v, r) \<Rightarrow> (c # v, r)) else ([], d # cs))
      else (case read_literal (d # cs) of (v, r) \<Rightarrow> (c # v, r)))"

lemma read_literal_shorter: "length (snd (read_literal s)) \<le> length s"
  by (induction s rule: read_literal.induct) (auto split: prod.splits)

function sql_literals :: "string \<Rightarrow> string list" where
  "sql_literals [] = []"
| "sql_literals (c # cs) =
     (if c = CHR 0x27 then fst (read_literal cs) # sql_literals (snd (read_literal cs)) else sql_literals cs)"
  by pat_completeness auto
termination
  by (relation "measure length") (use read_literal_shorter in \<open>auto simp: le_imp_less_Suc\<close>)

definition nul_escaped :: "string \<Rightarrow> string" where
  "nul_escaped v = replace_byte v (CHR 0x00) [CHR 0x5C, CHR ''x'', CHR ''0'', CHR ''0'']"

lemma nul_escaped_id: "CHR 0x00 \<notin> set v \<Longrightarrow> nul_escaped v = v"
  unfolding nul_escaped_def by (induction v) auto

lemma read_literal_body:
  assumes "rest = [] \<or> hd rest \<noteq> CHR 0x27"
  shows "read_literal (replace_byte v (CHR 0x27) [CHR 0x27, CHR 0x27] @ CHR 0x27 # rest) = (v, rest)"
proof (induction v)
  case Nil
  with assms show ?case by (cases rest) auto
next
  case (Cons c v)
  show ?case
  proof (cases "c = CHR 0x27")
    case False
    obtain d ds where "replace_byte v (CHR 0x27) [CHR 0x27, CHR 0x27] @ CHR 0x27 # rest = d # ds"
      by (cases "replace_byte v (CHR 0x27) [CHR 0x27, CHR 0x27]") auto
    with Cons False show ?thesis by simp
  qed (use Cons in simp)
qed

text \<open>A value of a row and the literals it stands for.\<close>

definition reads_as :: "string \<Rightarrow> string list \<Rightarrow> bool" where
  "reads_as s ls \<longleftrightarrow> (\<forall>rest. rest = [] \<or> hd rest \<noteq> CHR 0x27 \<longrightarrow> sql_literals (s @ rest) = ls @ sql_literals rest)"

lemma reads_quote: "reads_as (quoteString v) [nul_escaped v]"
  using read_literal_body by (simp add: reads_as_def quoteString_def Let_def nul_escaped_def)

lemma reads_plain: "CHR 0x27 \<notin> set s \<Longrightarrow> reads_as s []"
  unfolding reads_as_def by (induction s) auto

lemma reads_nullable: "reads_as (quoteNullableString v) (if v = [] then [] else [nul_escaped v])"
  by (simp add: quoteNullableString_def reads_quote reads_plain)

lemma reads_itoa: "reads_as (itoa n) []"
proof (rule reads_plain)
  have "is_digit c \<Longrightarrow> c \<noteq> CHR 0x27" for c by (auto simp: is_digit_def)
  then show "CHR 0x27 \<notin> set (itoa n)" using nat_digits_digit by (auto simp: itoa_def)
qed

lemma reads_append: "reads_as s ls \<Longrightarrow> reads_as (c # t) ms \<Longrightarrow> c \<noteq> CHR 0x27 \<Longrightarrow> reads_as (s @ c # t) (ls @ ms)"
  by (simp add: reads_as_def)

lemma reads_join: "list_all2 reads_as vs lss \<Longrightarrow> reads_as (join_with '', '' vs) (concat lss)"
proof (induction vs arbitrary: lss rule: induct_list012)
  case (3 v w vs)
  then obtain l lss' where l: "lss = l # lss'" "reads_as v l" "list_all2 reads_as (w # vs) lss'"
    by (auto simp: list_all2_Cons1)
  have "reads_as ('', '' @ t) ms" if "reads_as t ms" for t ms
    using that by (simp add: reads_as_def)
  with 3 l show ?case using reads_append [OF l(2), of "CHR '',''"] by simp
qed (auto simp: reads_plain list_all2_Cons1)

lemma insert_sql_literals:
  assumes "CHR 0x27 \<notin> set table" "CHR 0x27 \<notin> set columns" "list_all2 reads_as vals lss"
  shows "sql_literals (insert_sql table columns vals) = concat lss"
proof -
  have "reads_as (''INSERT INTO '' @ table @ '' ('' @ columns @ '') VALUES '') []"
    using assms(1,2) by (intro reads_plain) simp
  moreover have "reads_as (CHR ''('' # join_with '', '' vals) (concat lss)"
    using reads_join [OF assms(3)] by (simp add: reads_as_def)
  moreover have "reads_as (''INSERT INTO '' @ table @ '' ('' @ columns @ '') VALUES '' @ CHR ''('' # join_with '', '' vals) (concat lss)"
    using reads_append [OF calculation] by simp
  ultimately show ?thesis
    unfolding insert_sql_def by (simp add: reads_as_def)
qed

section \<open>The order of the rows\<close>

definition document_key :: "Document \<Rightarrow> string \<times> string \<times> string" where
  "document_key d = (index_canonicalPath (doc_path d), doc_file_type d, doc_version d)"

interpretation export_documents: weak_order document_less
  by (rule weak_order_by_key [of _ document_key])
    (auto simp: document_less_def document_key_def Let_def)

definition diagnostic_row_key ::
  "Diagnostic \<Rightarrow> string \<times> int \<times> int \<times> int \<times> int \<times> string \<times> string \<times> string \<times> string" where
  "diagnostic_row_key d = (dg_path d, Line (dg_start d), Column (dg_start d), Line (dg_end d), Column (dg_end d),
     dg_code d, severity_str (dg_severity d), dg_message d, dg_related d)"

lemma severity_str_eq: "severity_str a = severity_str b \<longleftrightarrow> a = b"
  using severity_str_inj by blast

lemma diagnostic_row_less_key: "diagnostic_row_less a b \<longleftrightarrow> diagnostic_row_key a < diagnostic_row_key b"
  by (simp only: diagnostic_row_less_def diagnostic_row_key_def pair_less_if severity_str_eq)

interpretation export_diagnostics: weak_order diagnostic_row_less
  by (rule weak_order_by_key [OF diagnostic_row_less_key])

lemma sortedDiagnostics_perm: "mset xs = mset ys \<Longrightarrow> sortedDiagnostics xs = sortedDiagnostics ys"
  unfolding sortedDiagnostics_def
proof (rule export_diagnostics.sort_by_perm)
  fix a b
  assume "\<not> diagnostic_row_less a b" "\<not> diagnostic_row_less b a"
  from key_total [OF diagnostic_row_less_key this] show "a = b"
    by (cases a; cases b; cases "dg_start a"; cases "dg_start b"; cases "dg_end a"; cases "dg_end b")
      (auto simp: diagnostic_row_key_def dest: severity_str_inj)
qed

lemma sortedDocuments_perm:
  assumes "mset docs = mset docs'" "distinct (map (\<lambda>d. (index_canonicalPath (doc_path d), doc_file_type d)) docs)"
  shows "sortedDocuments docs = sortedDocuments docs'"
  unfolding sortedDocuments_def
proof (rule export_documents.sort_by_perm [OF assms(1)])
  fix a b
  assume m: "a \<in> set docs" "b \<in> set docs" "\<not> document_less a b" "\<not> document_less b a"
  then have "index_canonicalPath (doc_path a) = index_canonicalPath (doc_path b) \<and> doc_file_type a = doc_file_type b"
    by (auto simp: document_less_def Let_def split: if_splits)
  then show "a = b" using m assms(2) by (auto simp: distinct_map inj_on_def)
qed

section \<open>Identifiers of parsed symbols\<close>

lemma parsed_symbol_ids:
  "x \<in> set (map sym_id (doc_symbols (FromSyntax path secs tokens))) \<Longrightarrow>
   \<exists>n. symbol_at (canonicalPathID path) n x"
proof -
  define ids where "ids st = set (map sym_id (doc_symbols (fs_doc st)))" for st :: fs_state
  have "\<forall>x\<in>ids (fold (from_syntax_step path (canonicalPathID path)) tokens (from_syntax_init path)).
      \<exists>n. symbol_at (canonicalPathID path) n x"
  proof (rule fold_inv)
    fix token st
    assume "\<forall>x\<in>ids st. \<exists>n. symbol_at (canonicalPathID path) n x"
    then show "\<forall>x\<in>ids (from_syntax_step path (canonicalPathID path) token st). \<exists>n. symbol_at (canonicalPathID path) n x"
      using step_symbols [of path "canonicalPathID path" token st] unfolding ids_def by fastforce
  qed (simp add: ids_def from_syntax_init_def NewDocument_def)
  moreover assume "x \<in> set (map sym_id (doc_symbols (FromSyntax path secs tokens)))"
  ultimately show ?thesis unfolding FromSyntax_def ids_def by blast
qed

lemma symbol_at_path:
  "symbol_at p n x \<Longrightarrow> symbol_at q m x \<Longrightarrow> CHR '':'' \<notin> set p \<Longrightarrow> CHR '':'' \<notin> set q \<Longrightarrow> p = q"
  unfolding symbol_at_def using last_sep_unique [of _ "CHR '':''" p _ q]
  by (metis append_Cons append_Nil append.assoc)

lemma parsed_symbol_at:
  assumes "parser_Parse path source = Some d" and "x \<in> sym_id ` set (doc_symbols d)"
  shows "\<exists>n. symbol_at (canonicalPathID (syntax_normalizePath path)) n x"
proof -
  have "d = FromSyntax (syntax_normalizePath path) (snd (parseSyntaxLines source)) (fst (parseSyntaxLines source))"
    using assms(1) by (simp add: parser_Parse_eq)
  with assms(2) show ?thesis
    using parsed_symbol_ids [of x "syntax_normalizePath path" "snd (parseSyntaxLines source)" "fst (parseSyntaxLines source)"]
    by (simp only: set_map)
qed

lemma parsed_symbol_ids_distinct:
  assumes "distinct (map (\<lambda>(path, source). canonicalPathID (syntax_normalizePath path)) files)"
    and "list_all (\<lambda>(path, source). CHR '':'' \<notin> set (canonicalPathID (syntax_normalizePath path))) files"
    and "map (\<lambda>(path, source). parser_Parse path source) files = map Some docs"
  shows "distinct (concat (map (\<lambda>d. map sym_id (doc_symbols d)) docs))"
  using assms(3) assms(1,2)
proof (induction files arbitrary: docs)
  case (Cons f files)
  let ?p = "\<lambda>path. canonicalPathID (syntax_normalizePath path)"
  obtain path source where f: "f = (path, source)" by (cases f)
  obtain d ds where docs: "docs = d # ds" using Cons.prems(1) by (cases docs) auto
  with Cons.prems(1) f have p: "parser_Parse path source = Some d" by simp
  have "x \<notin> sym_id ` set (doc_symbols d')" if d': "d' \<in> set ds" and x: "x \<in> sym_id ` set (doc_symbols d)" for d' x
  proof
    assume x': "x \<in> sym_id ` set (doc_symbols d')"
    from d' have "Some d' \<in> set (map (\<lambda>(path, source). parser_Parse path source) files)"
      using Cons.prems(1) by (simp add: docs)
    then obtain path' source' where p': "(path', source') \<in> set files" "parser_Parse path' source' = Some d'" by auto
    have nc: "CHR '':'' \<notin> set (?p path)" "CHR '':'' \<notin> set (?p path')"
      using Cons.prems(3) p'(1) by (auto simp: f list_all_iff)
    from parsed_symbol_at [OF p x] parsed_symbol_at [OF p'(2) x'] have "?p path = ?p path'"
      using symbol_at_path nc by blast
    then show False using Cons.prems(2) p'(1) by (force simp: f)
  qed
  then have disj: "set (map sym_id (doc_symbols d)) \<inter> set (concat (map (\<lambda>d. map sym_id (doc_symbols d)) ds)) = {}"
    by auto
  moreover have "distinct (concat (map (\<lambda>d. map sym_id (doc_symbols d)) ds))"
    by (rule Cons.IH) (use Cons.prems in \<open>auto simp: docs\<close>)
  moreover have "distinct (map sym_id (doc_symbols d))"
    using p fold_symbols_distinct [OF code_tokens_distinct] by (auto simp: parser_Parse_eq)
  ultimately show ?case unfolding docs by (simp only: list.map concat.simps distinct_append)
qed simp

lemma exported_symbol_ids:
  "mset (map (\<lambda>row. sym_id (sx_symbol row)) (sortedSymbols (sortedDocuments docs))) =
   mset (concat (map (\<lambda>d. map sym_id (doc_symbols d)) docs))"
proof -
  have c: "mset (concat (map f xs)) = \<Sum>\<^sub># (image_mset (mset \<circ> f) (mset xs))" for f :: "Document \<Rightarrow> string list" and xs
    by (induction xs) auto
  have "mset (map (\<lambda>row. sym_id (sx_symbol row)) (sortedSymbols ds)) =
      mset (concat (map (\<lambda>d. map sym_id (doc_symbols d)) ds))" for ds
    unfolding mset_map sortedSymbols_def mset_sort_by
    by (simp only: mset_map [symmetric] map_concat map_map comp_def symbolExportRow.simps)
  then show ?thesis by (simp only: c sortedDocuments_def mset_sort_by)
qed

end
