(* ===== verification/Index_Claims.thy ===== *)
theory Index_Claims
  imports Index_Props
begin

text \<open>The properties of the SQL export.\<close>

section \<open>Statement boundaries\<close>

definition fixed_lines :: "string list" where
  "fixed_lines = ''BEGIN TRANSACTION;'' # schemaSQL @ refreshStatements"

lemma fixed_lines_end: "mode_after InText (join_with [CHR 0x0A] fixed_lines) = InText"
  by (simp add: fixed_lines_def schemaSQL_def refreshStatements_def table_names)

lemma last_piece: "mode_after m s = InText \<or> mode_after m s = InDash \<Longrightarrow> last (sql_pieces m (s @ '';'')) = []"
  by (auto simp: sql_pieces_append cuts_def)

lemma fixed_lines_last: "last (sql_pieces InText (join_with [CHR 0x0A] fixed_lines)) = []"
proof -
  have "last fixed_lines = (''DELETE FROM '' @ ftsDocuments) @ '';''" "fixed_lines \<noteq> []"
    by (simp_all add: fixed_lines_def refreshStatements_def)
  then obtain s where s: "join_with [CHR 0x0A] fixed_lines = s @ '';''"
    using join_with_last [of fixed_lines "[CHR 0x0A]"] by (metis append.assoc)
  have "mode_after InText s = InText \<or> mode_after InText s = InDash"
    using fixed_lines_end by (cases "mode_after InText s") (auto simp: s)
  then show ?thesis by (simp add: s last_piece)
qed

lemma Export_eq:
  "Export ws sr = join_with [CHR 0x0A] fixed_lines @
     concat (map (\<lambda>s. CHR 0x0A # s) (row_statements ws sr @ [''COMMIT;'']))"
  using join_lines [of fixed_lines "[CHR 0x0A]" "row_statements ws sr @ [''COMMIT;'']"]
  by (simp add: Export_def fixed_lines_def)

text \<open>C7: No text of a workspace can reach the database engine as SQL: cut at the semicolons outside
  string literals and comments, the exported script is the same fixed schema and clean-up statements
  for every workspace, then exactly the row statements, whole and in order, then \<^verbatim>\<open>COMMIT\<close>.\<close>

theorem export_statements_exact:
  "sql_pieces InText (Export ws sr) =
     butlast (sql_pieces InText (join_with [CHR 0x0A] fixed_lines)) @
     map (\<lambda>s. CHR 0x0A # butlast s) (row_statements ws sr) @ [CHR 0x0A # ''COMMIT'', []]"
proof -
  have c: "one_statement ''COMMIT;''"
    unfolding one_statement_def by (rule exI [of _ "''COMMIT''"]) (simp add: neutral_plain plain_sql_def)
  have "sql_pieces InText (concat (map (\<lambda>s. CHR 0x0A # s) (row_statements ws sr @ [''COMMIT;''])) @ []) =
      map (\<lambda>s. CHR 0x0A # butlast s) (row_statements ws sr @ [''COMMIT;'']) @ [[]]"
    by (rule pieces_of_statements) (use c row_statement_cases in auto)
  then show ?thesis
    by (simp add: Export_eq sql_pieces_append [of _ "join_with [CHR 0x0A] fixed_lines"]
        fixed_lines_end fixed_lines_last del: map_append concat_append map_map)
      (cases "row_statements ws sr", auto)
qed

section \<open>Values\<close>

lemma no_quote_names [simp]:
  "CHR 0x27 \<notin> set tableDocuments" "CHR 0x27 \<notin> set tableSymbols" "CHR 0x27 \<notin> set tableReferences"
  "CHR 0x27 \<notin> set tableDiagnostics"
  by (simp_all add: table_names)


section \<open>Determinism\<close>

text \<open>The script depends only on what the workspace holds: documents that differ in canonical path or
  type, given with their diagnostics in any order and resolved in any order, export to the same SQL.\<close>

theorem export_order_independent:
  assumes "mset docs = mset docs'" and "mset diags = mset diags'"
    and "distinct (map (\<lambda>d. (index_canonicalPath (doc_path d), doc_file_type d)) docs)"
  shows "Export \<lparr>ws_Documents = docs, ws_Diagnostics = diags\<rparr> (Resolve (Some docs)) =
    Export \<lparr>ws_Documents = docs', ws_Diagnostics = diags'\<rparr> (Resolve (Some docs'))"
proof -
  have "distinct (map doc_key docs)"
    using assms(3) by (auto simp: distinct_map inj_on_def doc_key_def)
  then have "Resolve (Some docs) = Resolve (Some docs')"
    using sort_docs_perm [OF assms(1)] by (simp add: Resolve_def resolve_documents_def)
  moreover have "sortedDocuments docs = sortedDocuments docs'"
    by (rule sortedDocuments_perm [OF assms(1,3)])
  moreover have "sortedDiagnostics (diags @ gs) = sortedDiagnostics (diags' @ gs)" for gs
    by (rule sortedDiagnostics_perm) (simp add: assms(2))
  ultimately show ?thesis by (simp add: Export_def row_statements_def Let_def)
qed

theorem export_order_independent_witness:
  "Export \<lparr>ws_Documents = [NewDocument ''a.cns'' ''cns'', NewDocument ''b.cns'' ''cns''], ws_Diagnostics = []\<rparr>
     (Resolve (Some [NewDocument ''a.cns'' ''cns'', NewDocument ''b.cns'' ''cns''])) =
   Export \<lparr>ws_Documents = [NewDocument ''b.cns'' ''cns'', NewDocument ''a.cns'' ''cns''], ws_Diagnostics = []\<rparr>
     (Resolve (Some [NewDocument ''b.cns'' ''cns'', NewDocument ''a.cns'' ''cns'']))"
proof (rule export_order_independent)
  have "index_canonicalPath ''a.cns'' \<noteq> index_canonicalPath ''b.cns''" by code_simp
  then show "distinct (map (\<lambda>d. (index_canonicalPath (doc_path d), doc_file_type d))
      [NewDocument ''a.cns'' ''cns'', NewDocument ''b.cns'' ''cns''])"
    by (simp add: NewDocument_def)
qed simp_all

section \<open>Keys\<close>

text \<open>The primary key of the symbol table holds for every parsed workspace: the identifiers of all
  exported symbols differ, across files too, when the files have different path identifiers and no
  path identifier holds a colon.\<close>

theorem export_symbol_ids_distinct:
  assumes "distinct (map (\<lambda>(path, source). canonicalPathID (syntax_normalizePath path)) files)"
    and "list_all (\<lambda>(path, source). CHR '':'' \<notin> set (canonicalPathID (syntax_normalizePath path))) files"
    and "map (\<lambda>(path, source). parser_Parse path source) files = map Some docs"
  shows "distinct (map (\<lambda>row. sym_id (sx_symbol row)) (sortedSymbols (sortedDocuments docs)))"
proof -
  have "distinct (concat (map (\<lambda>d. map sym_id (doc_symbols d)) docs))"
    using parsed_symbol_ids_distinct [OF assms] .
  moreover have "mset (map (\<lambda>row. sym_id (sx_symbol row)) (sortedSymbols (sortedDocuments docs))) =
      mset (concat (map (\<lambda>d. map sym_id (doc_symbols d)) docs))"
    by (rule exported_symbol_ids)
  ultimately show ?thesis using mset_eq_imp_distinct_iff by blast
qed

definition demo_source :: string where
  "demo_source = ''[Statedef 1]''"

theorem export_symbol_ids_distinct_witness:
  "\<exists>a b. parser_Parse ''a.cns'' demo_source = Some a \<and> parser_Parse ''b.cns'' demo_source = Some b \<and>
     distinct (map (\<lambda>row. sym_id (sx_symbol row)) (sortedSymbols (sortedDocuments [a, b])))"
proof -
  obtain a b where p: "parser_Parse ''a.cns'' demo_source = Some a" "parser_Parse ''b.cns'' demo_source = Some b"
    by (simp add: parser_Parse_eq)
  have "canonicalPathID (syntax_normalizePath ''a.cns'') = ''a.cns''"
    "canonicalPathID (syntax_normalizePath ''b.cns'') = ''b.cns''" by code_simp+
  with p show ?thesis
    using export_symbol_ids_distinct [of "[(''a.cns'', demo_source), (''b.cns'', demo_source)]" "[a, b]"] by simp
qed

text \<open>The primary key of the reference table does not hold: two tests of one command in one trigger have the
  same source, target, kind and span, so the database refuses the second row, while its full-text row
  is still inserted.\<close>

definition reference_row_key :: "referenceExportRow \<Rightarrow> string \<times> string \<times> string \<times> string \<times> int \<times> int \<times> int \<times> int" where
  "reference_row_key r = (rx_documentPath r, rx_sourceSymbol r, rx_target r, rx_kind r,
     normalizeLine (rx_startLine r), normalizeColumn (rx_startColumn r),
     normalizeLine (rx_endLine r), normalizeColumn (rx_endColumn r))"

definition repeated_command :: string where
  "repeated_command = ''[State 1]'' @ CHR 0x0A # ''trigger1 = command = a || command = a''"

lemma export_repeats_reference_key:
  "\<exists>d. parser_Parse ''a.cns'' repeated_command = Some d \<and>
     length (resolveReferenceRows [d] (res_References (Resolve (Some [d])))) = 2 \<and>
     \<not> distinct (map reference_row_key (resolveReferenceRows [d] (res_References (Resolve (Some [d])))))"
  unfolding parser_Parse_eq option.inject simp_thms(40) by code_simp

end
