(* ===== verification/Go_Json.thy ===== *)
theory Go_Json
  imports Go_Utf8
begin

text \<open>
  Go's \<^verbatim>\<open>encoding/json\<close> as the sources use it: the values, \<^verbatim>\<open>json.Marshal\<close> and the decoder. An object is
  a list of fields in the order they are written: declaration order for a struct, sorted keys for a
  map (\<open>json_map\<close>). A number is its literal. Marshal replaces every byte that is not part of a valid
  rune by the replacement character and escapes \<^verbatim>\<open><\<close>, \<^verbatim>\<open>>\<close> and \<^verbatim>\<open>&\<close>. The decoder's limit of 10000
  nested values is not modelled.
\<close>

datatype json =
    JNull
  | JBool bool
  | JNum string
  | JStr string
  | JArr "json list"
  | JObj "(string \<times> json) list"

abbreviation JInt :: "int \<Rightarrow> json" where
  "JInt i \<equiv> JNum (itoa i)"

definition json_unicode :: "nat \<Rightarrow> string" where
  "json_unicode n = [CHR 0x5C, CHR ''u''] @ hex_byte (n div 256) @ hex_byte (n mod 256)"

definition json_escape_byte :: "char \<Rightarrow> string" where
  "json_escape_byte c =
     (if c = CHR 0x22 \<or> c = CHR 0x5C then [CHR 0x5C, c]
      else if c = CHR 0x08 then [CHR 0x5C, CHR ''b'']
      else if c = CHR 0x0C then [CHR 0x5C, CHR ''f'']
      else if c = CHR 0x0A then [CHR 0x5C, CHR ''n'']
      else if c = CHR 0x0D then [CHR 0x5C, CHR ''r'']
      else if c = CHR 0x09 then [CHR 0x5C, CHR ''t'']
      else if byte_of c < 0x20 \<or> c = CHR ''<'' \<or> c = CHR ''>'' \<or> c = CHR ''&'' then json_unicode (byte_of c)
      else [c])"

definition json_escape_rune :: "string \<Rightarrow> string" where
  "json_escape_rune s =
     (let (r, w) = decode_rune s in
      if byte_of (hd s) < 0x80 then json_escape_byte (hd s)
      else if r = rune_error \<and> w = 1 then json_unicode rune_error
      else if r = 0x2028 \<or> r = 0x2029 then json_unicode r
      else take w s)"

function json_escape :: "string \<Rightarrow> string" where
  "json_escape s = (if s = [] then [] else json_escape_rune s @ json_escape (drop (snd (decode_rune s)) s))"
  by pat_completeness auto
termination
  by (relation "measure length") (use decode_rune_width in auto)

declare json_escape.simps [simp del]

definition json_string :: "string \<Rightarrow> string" where
  "json_string s = CHR 0x22 # json_escape s @ [CHR 0x22]"

fun json_encode :: "json \<Rightarrow> string" where
  "json_encode JNull = ''null''"
| "json_encode (JBool b) = (if b then ''true'' else ''false'')"
| "json_encode (JNum lit) = lit"
| "json_encode (JStr s) = json_string s"
| "json_encode (JArr xs) = CHR ''['' # join_with '','' (map json_encode xs) @ '']''"
| "json_encode (JObj fs) =
     CHR ''{'' # join_with '','' (map (\<lambda>(k, v). json_string k @ CHR '':'' # json_encode v) fs) @ ''}''"

definition json_map :: "(string \<times> json) list \<Rightarrow> json" where
  "json_map kvs = JObj (sort_by (\<lambda>a b. fst a < fst b) kvs)"

text \<open>A slice field: \<^verbatim>\<open>nil\<close>, which the empty list stands for, is written \<^verbatim>\<open>null\<close>; a field with
  \<^verbatim>\<open>omitempty\<close> is left out when it is empty.\<close>

definition json_slice :: "('a \<Rightarrow> json) \<Rightarrow> 'a list \<Rightarrow> json" where
  "json_slice f xs = (if xs = [] then JNull else JArr (map f xs))"

definition omit_empty :: "string \<Rightarrow> string \<Rightarrow> (string \<times> json) list" where
  "omit_empty name v = (if v = [] then [] else [(name, JStr v)])"

text \<open>Escaped text is ASCII-safe: no quote, backslash or control byte is left bare, so a string ends where
  the writer ended it.\<close>

lemma json_escape_Nil [simp]: "json_escape [] = []"
  by (simp add: json_escape.simps)

lemma json_escape_ascii:
  "byte_of c < 0x80 \<Longrightarrow> json_escape (c # s) = json_escape_byte c @ json_escape s"
  by (subst json_escape.simps) (simp add: json_escape_rune_def decode_rune_def)

definition json_plain :: "char \<Rightarrow> bool" where
  "json_plain c \<longleftrightarrow> 0x20 \<le> byte_of c \<and> byte_of c < 0x80 \<and>
     c \<noteq> CHR 0x22 \<and> c \<noteq> CHR 0x5C \<and> c \<noteq> CHR ''<'' \<and> c \<noteq> CHR ''>'' \<and> c \<noteq> CHR ''&''"

lemma json_plain_byte: "json_plain c \<Longrightarrow> json_escape_byte c = [c]"
proof -
  assume p: "json_plain c"
  then have "32 \<le> byte_of c" by (simp add: json_plain_def)
  then have "c \<noteq> CHR 0x08" "c \<noteq> CHR 0x0C" "c \<noteq> CHR 0x0A" "c \<noteq> CHR 0x0D" "c \<noteq> CHR 0x09"
    by clarsimp+
  with p show ?thesis unfolding json_plain_def json_escape_byte_def by simp
qed

lemma json_escape_plain: "list_all json_plain s \<Longrightarrow> json_escape s = s"
proof (induction s)
  case (Cons c s)
  then have "byte_of c < 0x80" "json_plain c" by (simp_all add: json_plain_def)
  with Cons show ?case by (simp add: json_escape_ascii json_plain_byte)
qed simp

section \<open>Decoding\<close>

definition json_ws :: "string \<Rightarrow> string" where
  "json_ws s = dropWhile (\<lambda>c. c = CHR '' '' \<or> c = CHR 0x09 \<or> c = CHR 0x0A \<or> c = CHR 0x0D) s"

definition json_hex4 :: "string \<Rightarrow> nat option" where
  "json_hex4 s = (if length s < 4 then None else unhex_all 0 (take 4 s))"

text \<open>The rune of an escape \<^verbatim>\<open>\u\<close> with the digits of \<open>r\<close>, before the text \<open>s\<close>: a low surrogate that
  follows a high one completes it, a lone surrogate is the replacement character.\<close>

definition json_surrogate :: "nat \<Rightarrow> string \<Rightarrow> nat \<times> nat" where
  "json_surrogate r s =
     (case s of
        b # u # es \<Rightarrow>
          if b = CHR 0x5C \<and> u = CHR ''u'' then
            (case json_hex4 es of
               Some r2 \<Rightarrow> if r < 0xDC00 \<and> 0xDC00 \<le> r2 \<and> r2 < 0xE000
                          then ((r - 0xD800) * 1024 + (r2 - 0xDC00) + 0x10000, 12) else (rune_error, 6)
             | None \<Rightarrow> (rune_error, 6))
          else (rune_error, 6)
      | _ \<Rightarrow> (rune_error, 6))"

text \<open>One piece of a string body: the bytes it stands for and how many it is written with.\<close>

definition json_escaped_piece :: "string \<Rightarrow> (string \<times> nat) option" where
  "json_escaped_piece s =
     (case s of
        [] \<Rightarrow> None
      | e # ds \<Rightarrow>
          if e = CHR 0x22 \<or> e = CHR 0x5C \<or> e = CHR 0x2F then Some ([e], 2)
          else if e = CHR ''b'' then Some ([CHR 0x08], 2)
          else if e = CHR ''f'' then Some ([CHR 0x0C], 2)
          else if e = CHR ''n'' then Some ([CHR 0x0A], 2)
          else if e = CHR ''r'' then Some ([CHR 0x0D], 2)
          else if e = CHR ''t'' then Some ([CHR 0x09], 2)
          else if e = CHR ''u'' then
            (case json_hex4 ds of
               None \<Rightarrow> None
             | Some r \<Rightarrow>
                 if 0xD800 \<le> r \<and> r < 0xE000
                 then (case json_surrogate r (drop 4 ds) of (rune, n) \<Rightarrow> Some (encode_rune rune, n))
                 else Some (encode_rune r, 6))
          else None)"

definition json_piece :: "string \<Rightarrow> (string \<times> nat) option" where
  "json_piece s =
     (case s of
        [] \<Rightarrow> None
      | c # cs \<Rightarrow>
          if byte_of c < 0x20 then None
          else if c = CHR 0x5C then json_escaped_piece cs
          else if byte_of c < 0x80 then Some ([c], 1)
          else (case decode_rune s of (r, w) \<Rightarrow> Some (encode_rune r, w)))"

lemma json_surrogate_width: "json_surrogate r s = (x, n) \<Longrightarrow> n = 6 \<or> n = 12"
  by (auto simp: json_surrogate_def split: list.splits option.splits if_splits)

lemma json_piece_progress: "json_piece s = Some (out, n) \<Longrightarrow> 0 < n"
proof (cases s)
  case (Cons c cs)
  assume p: "json_piece s = Some (out, n)"
  then show ?thesis
    using decode_rune_width [of s] json_surrogate_width
    by (fastforce simp: Cons json_piece_def json_escaped_piece_def split: if_splits option.splits list.splits prod.splits)
qed (simp add: json_piece_def)

text \<open>The rest of a string after its opening quote: its value and the text behind its closing quote.\<close>

function json_body :: "string \<Rightarrow> (string \<times> string) option" where
  "json_body s =
     (case s of
        [] \<Rightarrow> None
      | c # cs \<Rightarrow>
          if c = CHR 0x22 then Some ([], cs)
          else (case json_piece s of
                  None \<Rightarrow> None
                | Some (out, n) \<Rightarrow>
                    (case json_body (drop n s) of None \<Rightarrow> None | Some (v, rest) \<Rightarrow> Some (out @ v, rest))))"
  by pat_completeness auto
termination
  by (relation "measure length") (auto dest: json_piece_progress)

declare json_body.simps [simp del]

text \<open>A number literal, as JSON's grammar has it.\<close>

definition json_digits :: "string \<Rightarrow> string \<times> string" where
  "json_digits s = (takeWhile is_digit s, dropWhile is_digit s)"

definition json_fraction :: "string \<Rightarrow> (string \<times> string) option" where
  "json_fraction s =
     (case s of
        c # cs \<Rightarrow> if c = CHR ''.''
                  then (case json_digits cs of (ds, rest) \<Rightarrow> if ds = [] then None else Some (c # ds, rest))
                  else Some ([], s)
      | [] \<Rightarrow> Some ([], s))"

definition json_exponent :: "string \<Rightarrow> (string \<times> string) option" where
  "json_exponent s =
     (case s of
        c # cs \<Rightarrow>
          if c = CHR ''e'' \<or> c = CHR ''E'' then
            (let sgn = takeWhile (\<lambda>d. d = CHR ''+'' \<or> d = CHR ''-'') (take 1 cs) in
             case json_digits (drop (length sgn) cs) of (ds, rest) \<Rightarrow> if ds = [] then None else Some (c # sgn @ ds, rest))
          else Some ([], s)
      | [] \<Rightarrow> Some ([], s))"

definition json_number :: "string \<Rightarrow> (json \<times> string) option" where
  "json_number s =
     (let sgn = (if s \<noteq> [] \<and> hd s = CHR ''-'' then [CHR ''-''] else []); s1 = drop (length sgn) s in
      if s1 = [] \<or> \<not> is_digit (hd s1) then None
      else let (whole, s2) = (if hd s1 = CHR ''0'' then ([CHR ''0''], tl s1) else json_digits s1) in
        (case json_fraction s2 of
           None \<Rightarrow> None
         | Some (fraction, s3) \<Rightarrow>
             (case json_exponent s3 of
                None \<Rightarrow> None
              | Some (exponent, s4) \<Rightarrow> Some (JNum (sgn @ whole @ fraction @ exponent), s4))))"

text \<open>Values, by recursive descent. The fuel counts calls; \<open>json_value_fuel\<close> below says how much is enough.\<close>

fun json_value :: "nat \<Rightarrow> string \<Rightarrow> (json \<times> string) option"
  and json_elements :: "nat \<Rightarrow> string \<Rightarrow> (json list \<times> string) option"
  and json_members :: "nat \<Rightarrow> string \<Rightarrow> ((string \<times> json) list \<times> string) option" where
  "json_value 0 s = None"
| "json_value (Suc n) s =
     (case json_ws s of
        [] \<Rightarrow> None
      | c # cs \<Rightarrow>
          if c = CHR 0x22 then map_option (\<lambda>(v, r). (JStr v, r)) (json_body cs)
          else if c = CHR ''['' then
            (if json_ws cs \<noteq> [] \<and> hd (json_ws cs) = CHR '']'' then Some (JArr [], tl (json_ws cs))
             else map_option (\<lambda>(vs, r). (JArr vs, r)) (json_elements n cs))
          else if c = CHR ''{'' then
            (if json_ws cs \<noteq> [] \<and> hd (json_ws cs) = CHR ''}'' then Some (JObj [], tl (json_ws cs))
             else map_option (\<lambda>(fs, r). (JObj fs, r)) (json_members n cs))
          else if has_prefix (c # cs) ''true'' then Some (JBool True, drop 4 (c # cs))
          else if has_prefix (c # cs) ''false'' then Some (JBool False, drop 5 (c # cs))
          else if has_prefix (c # cs) ''null'' then Some (JNull, drop 4 (c # cs))
          else json_number (c # cs))"
| "json_elements 0 s = None"
| "json_elements (Suc n) s =
     (case json_value n s of
        None \<Rightarrow> None
      | Some (v, r) \<Rightarrow>
          (case json_ws r of
             [] \<Rightarrow> None
           | c # cs \<Rightarrow>
               if c = CHR '','' then map_option (\<lambda>(vs, r'). (v # vs, r')) (json_elements n cs)
               else if c = CHR '']'' then Some ([v], cs) else None))"
| "json_members 0 s = None"
| "json_members (Suc n) s =
     (case json_ws s of
        [] \<Rightarrow> None
      | q # qs \<Rightarrow>
          if q \<noteq> CHR 0x22 then None
          else case json_body qs of
            None \<Rightarrow> None
          | Some (k, r) \<Rightarrow>
              (case json_ws r of
                 [] \<Rightarrow> None
               | d # ds \<Rightarrow>
                   if d \<noteq> CHR '':'' then None
                   else case json_value n ds of
                     None \<Rightarrow> None
                   | Some (v, r2) \<Rightarrow>
                       (case json_ws r2 of
                          [] \<Rightarrow> None
                        | c # cs \<Rightarrow>
                            if c = CHR '','' then map_option (\<lambda>(fs, r'). ((k, v) # fs, r')) (json_members n cs)
                            else if c = CHR ''}'' then Some ([(k, v)], cs) else None)))"

text \<open>\<^verbatim>\<open>Decoder.Decode\<close> reads the first value of its input; \<^verbatim>\<open>json.Unmarshal\<close> wants nothing after it.\<close>

definition json_first :: "string \<Rightarrow> json option" where
  "json_first s = map_option fst (json_value (2 * length s + 2) s)"

definition json_unmarshal :: "string \<Rightarrow> json option" where
  "json_unmarshal s =
     (case json_value (2 * length s + 2) s of
        None \<Rightarrow> None | Some (v, rest) \<Rightarrow> if json_ws rest = [] then Some v else None)"

text \<open>
  Encoding and decoding: the decoder reads back what \<^verbatim>\<open>json.Marshal\<close> writes, up to bytes outside UTF-8,
  so that values of valid text with the same JSON are the same; and the decoder's fuel is enough.
\<close>

section \<open>Text\<close>

definition piece_value :: "string \<Rightarrow> string" where
  "piece_value s =
     (if decode_rune s = (rune_error, 1) then encode_rune rune_error else take (snd (decode_rune s)) s)"

function utf8_repair :: "string \<Rightarrow> string" where
  "utf8_repair s = (if s = [] then [] else piece_value s @ utf8_repair (drop (snd (decode_rune s)) s))"
  by pat_completeness auto
termination
  by (relation "measure length") (use decode_rune_width in auto)

declare utf8_repair.simps [simp del]

definition valid_utf8 :: "string \<Rightarrow> bool" where
  "valid_utf8 s \<longleftrightarrow> utf8_repair s = s"

lemma utf8_repair_Nil [simp]: "utf8_repair [] = []"
  by (simp add: utf8_repair.simps)

lemma decode_rune_ascii: "byte_of c < 0x80 \<Longrightarrow> decode_rune (c # s) = (byte_of c, 1)"
  by (simp add: decode_rune_def)

lemma utf8_repair_ascii: "byte_of c < 0x80 \<Longrightarrow> utf8_repair (c # s) = c # utf8_repair s"
  by (subst utf8_repair.simps) (simp add: decode_rune_ascii piece_value_def rune_error_def)

lemma valid_utf8_ascii: "list_all (\<lambda>c. byte_of c < 0x80) s \<Longrightarrow> valid_utf8 s"
  unfolding valid_utf8_def by (induction s) (auto simp: utf8_repair_ascii)

lemma unhex_digit: "n < 16 \<Longrightarrow> unhex (hex_digit n) = Some n"
  by (simp add: unhex_def hex_digit_def Let_def)

lemma unhex_unicode:
  assumes "n < 65536"
  shows "json_hex4 (hex_byte (n div 256) @ hex_byte (n mod 256) @ t) = Some n"
proof -
  have "n div 256 div 16 < 16" "n div 256 mod 16 < 16" "n mod 256 div 16 < 16" "n mod 256 mod 16 < 16"
    using assms by auto
  moreover have "((p div 16 * 16 + p mod 16) * 16 + q div 16) * 16 + q mod 16 = p * 256 + q" for p q :: nat
  proof -
    have "((p div 16 * 16 + p mod 16) * 16 + q div 16) * 16 + q mod 16 = (p div 16 * 16 + p mod 16) * 256 + (q div 16 * 16 + q mod 16)"
      by (simp only: distrib_right mult.assoc)
    then show ?thesis by (simp only: div_mult_mod_eq)
  qed
  from this [of "n div 256" "n mod 256"]
  have "((n div 256 div 16 * 16 + n div 256 mod 16) * 16 + n mod 256 div 16) * 16 + n mod 256 mod 16 = n"
    by (simp only: div_mult_mod_eq)
  ultimately show ?thesis
    by (simp add: json_hex4_def hex_byte_def unhex_digit)
qed

lemma piece_unicode:
  assumes "n < 0xD800 \<or> 0xDFFF < n" "n < 65536"
  shows "json_piece (json_unicode n @ t) = Some (encode_rune n, 6)"
proof -
  have "\<not> (0xD800 \<le> n \<and> n < 0xE000)" using assms(1) by auto
  then show ?thesis
    using unhex_unicode [OF assms(2), of t] by (auto simp: json_piece_def json_unicode_def json_escaped_piece_def)
qed

lemma length_unicode: "length (json_unicode n) = 6"
  by (simp add: json_unicode_def hex_byte_def)

lemma piece_escape_byte:
  assumes "byte_of c < 0x80"
  shows "json_piece (json_escape_byte c @ t) = Some ([c], length (json_escape_byte c)) \<and>
    hd (json_escape_byte c) \<noteq> CHR 0x22 \<and> json_escape_byte c \<noteq> []"
proof -
  consider "c = CHR 0x22 \<or> c = CHR 0x5C" | "c = CHR 0x08" | "c = CHR 0x0C" | "c = CHR 0x0A" | "c = CHR 0x0D" | "c = CHR 0x09"
    | "json_escape_byte c = json_unicode (byte_of c)"
    | "json_escape_byte c = [c]" "c \<noteq> CHR 0x22" "c \<noteq> CHR 0x5C" "\<not> byte_of c < 0x20"
    unfolding json_escape_byte_def by argo
  then show ?thesis
  proof cases
    case 7
    have "encode_rune (byte_of c) = [c]" using assms by (simp add: encode_rune_def valid_rune_def)
    with 7 assms piece_unicode [of "byte_of c" t] show ?thesis
      by (simp add: length_unicode) (simp add: json_unicode_def)
  next
    case 8
    with assms show ?thesis by (simp add: json_piece_def)
  qed (auto simp: json_escape_byte_def json_piece_def json_escaped_piece_def)
qed

lemma piece_escape_rune:
  assumes "s \<noteq> []"
  shows "json_piece (json_escape_rune s @ t) = Some (piece_value s, length (json_escape_rune s)) \<and>
    hd (json_escape_rune s) \<noteq> CHR 0x22 \<and> json_escape_rune s \<noteq> []"
proof -
  obtain c cs where s: "s = c # cs" using assms by (cases s) auto
  obtain r w where d: "decode_rune s = (r, w)" by fastforce
  have w: "0 < w" using decode_rune_width [OF assms] d by simp
  show ?thesis
  proof (cases "byte_of c < 0x80")
    case True
    then have "piece_value s = [c]" by (simp add: s piece_value_def decode_rune_ascii rune_error_def)
    with True piece_escape_byte [OF True, of t] show ?thesis by (simp add: json_escape_rune_def s)
  next
    case big: False
    show ?thesis
    proof (cases "r = rune_error \<and> w = 1")
      case True
      have "json_escape_rune s = json_unicode rune_error" "piece_value s = encode_rune rune_error"
        using True big d by (simp_all add: json_escape_rune_def s piece_value_def)
      then show ?thesis using piece_unicode [of rune_error t]
        by (simp add: rune_error_def length_unicode) (simp add: json_unicode_def)
    next
      case False
      note dec = decode_rune_encode [OF d assms False]
      have v: "piece_value s = take w s" using d False by (auto simp: piece_value_def)
      show ?thesis
      proof (cases "r = 0x2028 \<or> r = 0x2029")
        case True
        have "json_escape_rune s = json_unicode r" using True big d by (auto simp: json_escape_rune_def s rune_error_def)
        then show ?thesis using piece_unicode [of r t] True dec(1) v
          by (auto simp: length_unicode) (simp_all add: json_unicode_def)
      next
        case plain: False
        then have e: "json_escape_rune s = take w s" using False big d by (auto simp: json_escape_rune_def s)
        obtain ts where tw: "take w s = c # ts" using w by (cases w) (auto simp: s)
        have "length (take w s) = w" using decode_rune_width [OF assms] d by simp
        moreover have "c \<noteq> CHR 0x5C" "c \<noteq> CHR 0x22" "\<not> byte_of c < 0x20" using big by auto
        ultimately show ?thesis
          using dec(1) dec(2) [of t] big by (simp add: e v tw json_piece_def)
      qed
    qed
  qed
qed

lemma json_body_step:
  assumes "c \<noteq> CHR 0x22" "json_piece (c # cs) = Some (out, n)"
  shows "json_body (c # cs) = (case json_body (drop n (c # cs)) of None \<Rightarrow> None | Some (v, rest) \<Rightarrow> Some (out @ v, rest))"
  by (subst json_body.simps) (simp add: assms)

lemma json_body_escape: "json_body (json_escape s @ CHR 0x22 # t) = Some (utf8_repair s, t)"
proof (induction s rule: json_escape.induct)
  case (1 s)
  show ?case
  proof (cases "s = []")
    case True
    then show ?thesis by (simp add: json_body.simps)
  next
    case False
    let ?rest = "json_escape (drop (snd (decode_rune s)) s) @ CHR 0x22 # t"
    note p = piece_escape_rune [OF False, of ?rest]
    then obtain c cs where c: "json_escape_rune s = c # cs" "c \<noteq> CHR 0x22" by (cases "json_escape_rune s") auto
    have "json_escape s @ CHR 0x22 # t = c # cs @ ?rest"
      using False c by (simp add: json_escape.simps [of s])
    then show ?thesis
      using 1 [OF False] False p c(2) json_body_step [of c "cs @ ?rest"]
      by (simp add: c(1) utf8_repair.simps [of s])
  qed
qed

section \<open>Fuel\<close>

lemma json_mono:
  "json_value n s = Some x \<Longrightarrow> json_value (Suc n) s = Some x"
  "json_elements n s = Some y \<Longrightarrow> json_elements (Suc n) s = Some y"
  "json_members n s = Some z \<Longrightarrow> json_members (Suc n) s = Some z"
proof (induction n s and n s and n s arbitrary: x and y and z rule: json_value_json_elements_json_members.induct)
  case (2 n s)
  show ?case
  proof (cases "json_ws s")
    case Nil
    with 2 show ?thesis by simp
  next
    case (Cons c cs)
    with 2 show ?thesis by (auto simp del: json_elements.simps json_members.simps split: if_splits)
  qed
next
  case (4 n s)
  obtain v r where v: "json_value n s = Some (v, r)" using "4.prems" by (auto split: option.splits)
  obtain c cs where r: "json_ws r = c # cs" using "4.prems" v by (auto split: list.splits)
  show ?case
  proof (cases "c = CHR '',''")
    case True
    with "4.prems" v r obtain vs r' where t: "json_elements n cs = Some (vs, r')" "y = (v # vs, r')" by auto
    have "json_elements (Suc n) cs = Some (vs, r')" by (rule "4.IH"(2) [OF v refl r True t(1)])
    then show ?thesis
      using "4.IH"(1) [OF v] t(2) r True by (simp del: json_elements.simps) (simp add: json_elements.simps(2) [of "Suc n"])
  next
    case False
    with "4.prems" v r "4.IH"(1) [OF v] show ?thesis by (simp add: json_elements.simps(2) [of "Suc n"] split: if_splits)
  qed
next
  case (6 n s)
  obtain qs where q: "json_ws s = CHR 0x22 # qs" using "6.prems" by (auto split: list.splits if_splits)
  obtain k r where b: "json_body qs = Some (k, r)" using "6.prems" q by (auto split: option.splits)
  obtain ds where d: "json_ws r = CHR '':'' # ds" using "6.prems" q b by (auto split: list.splits if_splits)
  obtain v r2 where v: "json_value n ds = Some (v, r2)" using "6.prems" q b d by (auto split: option.splits)
  obtain c cs where r2: "json_ws r2 = c # cs" using "6.prems" q b d v by (auto split: list.splits)
  note pre = q _ b refl d _ v
  show ?case
  proof (cases "c = CHR '',''")
    case True
    with "6.prems" q b d v r2 obtain fs r' where t: "json_members n cs = Some (fs, r')" "z = ((k, v) # fs, r')" by auto
    have "json_members (Suc n) cs = Some (fs, r')"
      by (rule "6.IH"(2) [OF q _ b refl d _ v refl r2 True t(1)]) simp_all
    moreover have "json_value (Suc n) ds = Some (v, r2)"
      by (rule "6.IH"(1) [OF q _ b refl d _ v]) simp_all
    ultimately show ?thesis
      using t(2) r2 True q b d by (simp add: json_members.simps(2) [of "Suc n"] del: json_members.simps json_value.simps)
  next
    case False
    have "json_value (Suc n) ds = Some (v, r2)"
      by (rule "6.IH"(1) [OF q _ b refl d _ v]) simp_all
    with False "6.prems" q b d v r2 show ?thesis
      by (simp add: json_members.simps(2) [of "Suc n"] del: json_value.simps split: if_splits)
  qed
qed simp_all

lemma json_mono_le:
  assumes "n \<le> m"
  shows "json_value n s = Some x \<Longrightarrow> json_value m s = Some x"
    and "json_elements n s = Some y \<Longrightarrow> json_elements m s = Some y"
    and "json_members n s = Some z \<Longrightarrow> json_members m s = Some z"
  using assms by (induction m rule: dec_induct) (auto intro: json_mono simp del: json_value.simps json_elements.simps json_members.simps)

lemma json_ws_shorter: "length (json_ws s) \<le> length s"
  by (simp add: json_ws_def length_dropWhile_le)

lemma json_body_shorter: "json_body s = Some (v, r) \<Longrightarrow> length r < length s"
proof (induction s arbitrary: v rule: json_body.induct)
  case (1 s)
  show ?case
  proof (cases s)
    case (Cons c cs)
    show ?thesis
    proof (cases "c = CHR 0x22")
      case True
      with 1(2) Cons show ?thesis by (simp add: json_body.simps)
    next
      case False
      with 1(2) Cons obtain out n v' where p: "json_piece s = Some (out, n)" "json_body (drop n s) = Some (v', r)"
        by (auto simp: json_body.simps [of "c # cs"] split: option.splits)
      with 1(1) [OF Cons False p(1) refl p(2)] show ?thesis by simp
    qed
  qed (use 1(2) in \<open>simp add: json_body.simps\<close>)
qed

lemma json_number_shorter:
  assumes "json_number s = Some (v, r)"
  shows "length r < length s"
proof -
  have f: "json_fraction s2 = Some (fr, s3) \<Longrightarrow> length s3 \<le> length s2" for s2 fr s3
    by (auto simp: json_fraction_def json_digits_def length_dropWhile_le le_SucI split: list.splits if_splits)
  have e: "json_exponent s3 = Some (ex, s4) \<Longrightarrow> length s4 \<le> length s3" for s3 ex s4
  proof -
    assume "json_exponent s3 = Some (ex, s4)"
    then have "s4 = s3 \<or> (\<exists>k. s4 = dropWhile is_digit (drop k (tl s3)))"
      by (auto simp: json_exponent_def json_digits_def Let_def split: list.splits if_splits)
    then show ?thesis
      using length_dropWhile_le [of is_digit] by (metis diff_le_self le_trans length_drop length_tl order_refl)
  qed
  define sgn where "sgn = (if s \<noteq> [] \<and> hd s = CHR ''-'' then [CHR ''-''] else [])"
  define s1 where "s1 = drop (length sgn) s"
  have eq: "json_number s = (if s1 = [] \<or> \<not> is_digit (hd s1) then None
      else let (whole, s2) = (if hd s1 = CHR ''0'' then ([CHR ''0''], tl s1) else json_digits s1) in
        (case json_fraction s2 of
           None \<Rightarrow> None
         | Some (fraction, s3) \<Rightarrow>
             (case json_exponent s3 of
                None \<Rightarrow> None
              | Some (exponent, s4) \<Rightarrow> Some (JNum (sgn @ whole @ fraction @ exponent), s4))))"
    by (simp only: json_number_def Let_def sgn_def s1_def)
  have s1: "s1 \<noteq> []" "is_digit (hd s1)" "length s1 \<le> length s"
    using assms unfolding eq by (auto simp: s1_def split: if_splits)
  obtain whole s2 where w: "(if hd s1 = CHR ''0'' then ([CHR ''0''], tl s1) else json_digits s1) = (whole, s2)" by fastforce
  have "length s2 < length s1"
    using w s1 length_dropWhile_le [of is_digit "tl s1"]
    by (cases s1) (auto simp: json_digits_def split: if_splits)
  moreover obtain fr s3 ex where "json_fraction s2 = Some (fr, s3)" "json_exponent s3 = Some (ex, r)"
    using assms s1(1,2) unfolding eq w Let_def by (auto split: option.splits)
  ultimately show ?thesis using f e s1(3) by (meson le_less_trans less_le_trans)
qed

lemma json_shorter:
  "json_value n s = Some (v, r) \<Longrightarrow> length r < length s"
  "json_elements n s = Some (vs, r) \<Longrightarrow> length r < length s"
  "json_members n s = Some (fs, r) \<Longrightarrow> length r < length s"
proof (induction n s and n s and n s arbitrary: v r and vs r and fs r
    rule: json_value_json_elements_json_members.induct)
  case (2 n s)
  obtain c cs where c: "json_ws s = c # cs" using "2.prems" by (cases "json_ws s") auto
  then have "length (c # cs) \<le> length s" using json_ws_shorter [of s] by simp
  moreover have "length r < length (c # cs)"
  proof -
    have tl: "length (tl (json_ws cs)) \<le> length cs" using json_ws_shorter [of cs] by simp
    consider (str) w where "json_body cs = Some (w, r)" | (close) "r = tl (json_ws cs)"
      | (arr) vs where "c \<noteq> CHR 0x22" "c = CHR ''[''" "\<not> (json_ws cs \<noteq> [] \<and> hd (json_ws cs) = CHR '']'')" "json_elements n cs = Some (vs, r)"
      | (obj) fs where "c \<noteq> CHR 0x22" "c \<noteq> CHR ''[''" "c = CHR ''{''" "\<not> (json_ws cs \<noteq> [] \<and> hd (json_ws cs) = CHR ''}'')"
          "json_members n cs = Some (fs, r)"
      | (word) k where "r = drop k cs" | (number) "json_number (c # cs) = Some (v, r)"
      using "2.prems" c by (auto simp: drop_Cons' split: if_splits)
    then show ?thesis
    proof cases
      case str
      then show ?thesis using json_body_shorter by fastforce
    next
      case close
      then show ?thesis using tl by simp
    next
      case arr
      then show ?thesis using "2.IH"(1) [OF c arr(1-4)] by simp
    next
      case obj
      then show ?thesis using "2.IH"(2) [OF c obj(1-5)] by simp
    next
      case word
      then show ?thesis by simp
    next
      case number
      then show ?thesis by (rule json_number_shorter)
    qed
  qed
  ultimately show ?case by simp
next
  case (4 n s)
  obtain v' r1 where v: "json_value n s = Some (v', r1)" using "4.prems" by (auto split: option.splits)
  obtain c cs where c: "json_ws r1 = c # cs" using "4.prems" v by (auto split: list.splits)
  have "length cs < length s"
    using "4.IH"(1) [OF v] json_ws_shorter [of r1] c by simp
  then show ?case using "4.prems" "4.IH"(2) [OF v refl c] v c by (fastforce split: if_splits)
next
  case (6 n s)
  obtain qs where q: "json_ws s = CHR 0x22 # qs" using "6.prems" by (auto split: list.splits if_splits)
  obtain k r1 where b: "json_body qs = Some (k, r1)" using "6.prems" q by (auto split: option.splits)
  obtain ds where d: "json_ws r1 = CHR '':'' # ds" using "6.prems" q b by (auto split: list.splits if_splits)
  obtain v' r2 where v: "json_value n ds = Some (v', r2)" using "6.prems" q b d by (auto split: option.splits)
  obtain c cs where r2: "json_ws r2 = c # cs" using "6.prems" q b d v by (auto split: list.splits)
  have "length cs < length s"
    using json_ws_shorter [of s] json_ws_shorter [of r1] json_ws_shorter [of r2] q d r2 json_body_shorter [OF b]
      "6.IH"(1) [OF q _ b refl d _ v] by simp
  then show ?case using "6.prems" "6.IH"(2) [OF q _ b refl d _ v refl r2] q b d v r2 by (fastforce split: if_splits)
qed simp_all

lemma json_fuel_step:
  "(2 * length s + 1 \<le> n \<longrightarrow> json_value (Suc n) s = json_value n s) \<and>
   (2 * length s + 2 \<le> n \<longrightarrow> json_elements (Suc n) s = json_elements n s) \<and>
   (2 * length s + 2 \<le> n \<longrightarrow> json_members (Suc n) s = json_members n s)"
proof (induction "length s" arbitrary: s n rule: less_induct)
  case less
  have val: "json_value (Suc n) s = json_value n s" if n: "2 * length s + 1 \<le> n" for n
  proof (cases "json_ws s")
    case (Cons c cs)
    obtain m where m: "n = Suc m" using n by (cases n) auto
    have "length cs < length s" using json_ws_shorter [of s] Cons by simp
    moreover have "2 * length cs + 2 \<le> m" using calculation n m by simp
    ultimately have "json_elements (Suc m) cs = json_elements m cs" "json_members (Suc m) cs = json_members m cs"
      using less by blast+
    then show ?thesis using Cons by (simp add: m del: json_elements.simps json_members.simps)
  next
    case Nil
    with n show ?thesis by (cases n) simp_all
  qed
  have el: "json_elements (Suc n) s = json_elements n s" if n: "2 * length s + 2 \<le> n" for n
  proof -
    obtain m where m: "n = Suc m" using n by (cases n) auto
    have v: "json_value (Suc m) s = json_value m s" using val n m by simp
    have "json_elements (Suc m) cs = json_elements m cs"
      if "json_value m s = Some (v, r)" "json_ws r = c # cs" for v r c cs
    proof -
      have "length cs < length s" using json_shorter(1) [OF that(1)] json_ws_shorter [of r] that(2) by simp
      then show ?thesis using less [of cs] n m by simp
    qed
    then show ?thesis
      unfolding m json_elements.simps(2) v by (auto split: option.splits list.splits simp del: json_elements.simps)
  qed
  have mem: "json_members (Suc n) s = json_members n s" if n: "2 * length s + 2 \<le> n" for n
  proof -
    obtain m where m: "n = Suc m" using n by (cases n) auto
    have v: "json_value (Suc m) ds = json_value m ds \<and>
        (json_value m ds = Some (v, r2) \<longrightarrow> json_ws r2 = c # cs \<longrightarrow> json_members (Suc m) cs = json_members m cs)"
      if "json_ws s = q # qs" "json_body qs = Some (k, r)" "json_ws r = d # ds" for q qs k r d ds v r2 c cs
    proof -
      have l: "length ds < length s"
        using json_ws_shorter [of s] json_ws_shorter [of r] json_body_shorter [OF that(2)] that by simp
      have "json_members (Suc m) cs = json_members m cs" if "json_value m ds = Some (v, r2)" "json_ws r2 = c # cs"
      proof -
        have "length cs < length s" using json_shorter(1) [OF that(1)] json_ws_shorter [of r2] that(2) l by simp
        then show ?thesis using less [of cs] n m by simp
      qed
      with l show ?thesis using less [of ds] n m by simp
    qed
    note steps = json_members.simps(2) [of "Suc m" s] json_members.simps(2) [of m s]
    show ?thesis
    proof (cases "json_ws s")
      case ws: (Cons q qs)
      show ?thesis
      proof (cases "json_body qs")
        case body: (Some kr)
        obtain k r where kr: "kr = (k, r)" by fastforce
        show ?thesis
        proof (cases "json_ws r")
          case wr: (Cons d ds)
          note vv = v [OF ws body [unfolded kr] wr]
          have e: "json_value (Suc m) ds = json_value m ds" using vv by blast
          show ?thesis
          proof (cases "json_value m ds")
            case val: (Some vr)
            obtain w r2 where vr: "vr = (w, r2)" by fastforce
            show ?thesis
            proof (cases "json_ws r2")
              case wr2: (Cons c cs)
              have "json_members (Suc m) cs = json_members m cs" using vv val vr wr2 by blast
              then show ?thesis
                by (simp add: m steps ws body kr wr e val vr wr2 del: json_members.simps json_value.simps)
            qed (simp add: m steps ws body kr wr e val vr del: json_members.simps json_value.simps)
          qed (simp add: m steps ws body kr wr e del: json_members.simps json_value.simps)
        qed (simp add: m ws body kr)
      qed (simp add: m ws)
    qed (simp add: m)
  qed
  show ?case using val el mem by blast
qed

lemma json_value_fuel: "2 * length s + 1 \<le> n \<Longrightarrow> json_value n s = json_value (2 * length s + 1) s"
  by (induction n rule: dec_induct) (use json_fuel_step in auto)

lemma json_value_enough: "json_value n s = Some x \<Longrightarrow> json_value (2 * length s + 2) s = Some x"
  using json_mono_le(1) [of n "max n (2 * length s + 2)" s x] json_value_fuel [of s "max n (2 * length s + 2)"]
    json_value_fuel [of s "2 * length s + 2"] by simp

section \<open>Values\<close>

fun json_repair :: "json \<Rightarrow> json" where
  "json_repair (JStr s) = JStr (utf8_repair s)"
| "json_repair (JArr xs) = JArr (map json_repair xs)"
| "json_repair (JObj fs) = JObj (map (\<lambda>(k, v). (utf8_repair k, json_repair v)) fs)"
| "json_repair j = j"

text \<open>Every number a struct field writes is an integer.\<close>

fun json_ints :: "json \<Rightarrow> bool" where
  "json_ints (JNum lit) \<longleftrightarrow> (\<exists>i. lit = itoa i)"
| "json_ints (JArr xs) \<longleftrightarrow> list_all json_ints xs"
| "json_ints (JObj fs) \<longleftrightarrow> list_all (\<lambda>(k, v). json_ints v) fs"
| "json_ints j \<longleftrightarrow> True"

definition json_stop :: "string \<Rightarrow> bool" where
  "json_stop s \<longleftrightarrow> s = [] \<or> hd s = CHR '','' \<or> hd s = CHR '']'' \<or> hd s = CHR ''}''"

lemma nat_digits_zero: "hd (nat_digits n) = CHR ''0'' \<Longrightarrow> n = 0"
proof (induction n rule: nat_digits.induct)
  case (1 n)
  show ?case
  proof (cases "n < 10")
    case True
    have "byte_of (digit_char n) = 48 + n" using True by (simp add: digit_char_def)
    with 1(2) True show ?thesis by (simp add: nat_digits.simps [of n])
  qed (use 1 in \<open>simp add: nat_digits.simps [of n] hd_append\<close>)
qed

lemma json_number_itoa:
  assumes "json_stop rest"
  shows "json_number (itoa i @ rest) = Some (JNum (itoa i), rest)"
proof -
  have stop: "rest = [] \<or> \<not> is_digit (hd rest)" "json_fraction rest = Some ([], rest)" "json_exponent rest = Some ([], rest)"
    using assms by (auto simp: json_stop_def json_fraction_def json_exponent_def is_digit_def split: list.splits)
  define k where "k = nat (if i < 0 then - i else i)"
  define sgn where "sgn = (if i < 0 then [CHR ''-''] else [])"
  have i: "itoa i = sgn @ nat_digits k" by (simp add: itoa_def k_def sgn_def)
  obtain d ds where nd: "nat_digits k = d # ds" by (cases "nat_digits k") auto
  have all: "\<forall>c\<in>set (nat_digits k). is_digit c" using nat_digits_digit by blast
  then have d: "is_digit d" "d \<noteq> CHR ''-''" by (auto simp: nd)
  have sg: "(if itoa i @ rest \<noteq> [] \<and> hd (itoa i @ rest) = CHR ''-'' then [CHR ''-''] else []) = sgn"
    using d by (simp add: i nd sgn_def)
  have s1: "drop (length sgn) (itoa i @ rest) = nat_digits k @ rest" by (simp add: i)
  have w: "(if hd (nat_digits k @ rest) = CHR ''0'' then ([CHR ''0''], tl (nat_digits k @ rest)) else json_digits (nat_digits k @ rest))
      = (nat_digits k, rest)"
  proof (cases "d = CHR ''0''")
    case True
    then have "nat_digits k = ''0''" using nat_digits_zero [of k] nd by (simp add: nat_digits.simps digit_char_def)
    then show ?thesis by simp
  next
    case False
    have "takeWhile is_digit (nat_digits k @ rest) = nat_digits k" "dropWhile is_digit (nat_digits k @ rest) = rest"
      using all stop(1) by (auto simp: takeWhile_append dropWhile_append takeWhile_eq_Nil_iff dropWhile_eq_self_iff)
    with False show ?thesis by (simp add: nd json_digits_def)
  qed
  show ?thesis
    unfolding json_number_def Let_def sg s1 w prod.case stop(2,3) option.case
    using d by (simp add: nd i)
qed

lemma itoa_first: "itoa i \<noteq> [] \<and> (is_digit (hd (itoa i)) \<or> hd (itoa i) = CHR ''-'')"
proof -
  obtain d ds where "nat_digits (nat i) = d # ds" by (cases "nat_digits (nat i)") auto
  then show ?thesis using nat_digits_digit [of d "nat i"] by (auto simp: itoa_def)
qed

lemma json_ws_id: "s \<noteq> [] \<Longrightarrow> hd s \<notin> {CHR '' '', CHR 0x09, CHR 0x0A, CHR 0x0D} \<Longrightarrow> json_ws s = s"
  by (cases s) (auto simp: json_ws_def)

lemma json_ws_stop: "json_stop s \<Longrightarrow> json_ws s = s"
  by (cases s) (auto simp: json_stop_def json_ws_def)

lemma json_encode_first:
  "json_ints j \<Longrightarrow> json_encode j \<noteq> [] \<and> hd (json_encode j) \<notin> {CHR '' '', CHR 0x09, CHR 0x0A, CHR 0x0D, CHR '']'', CHR ''}''}"
proof (cases j)
  case (JNum lit)
  moreover assume "json_ints j"
  ultimately obtain i where "lit = itoa i" by auto
  then show ?thesis using itoa_first [of i] by (auto simp: JNum is_digit_def)
qed (auto simp: json_string_def)

definition reads_back :: "json \<Rightarrow> bool" where
  "reads_back j \<longleftrightarrow> (\<forall>rest. json_stop rest \<longrightarrow> (\<exists>n. json_value n (json_encode j @ rest) = Some (json_repair j, rest)))"

lemma json_stop_simps [simp]:
  "json_stop (CHR '','' # s)" "json_stop (CHR '']'' # s)" "json_stop (CHR ''}'' # s)"
  by (simp_all add: json_stop_def)

lemma reads_backE:
  assumes "reads_back j" and "json_stop rest"
  obtains n where "json_value n (json_encode j @ rest) = Some (json_repair j, rest)"
  using assms unfolding reads_back_def by blast

lemma reads_back_elements:
  assumes "list_all reads_back xs" and "list_all json_ints xs" and "xs \<noteq> []"
  shows "\<exists>n. json_elements n (join_with '','' (map json_encode xs) @ CHR '']'' # rest) = Some (map json_repair xs, rest)"
  using assms
proof (induction xs rule: induct_list012)
  case (2 x)
  then obtain n where "json_value n (json_encode x @ CHR '']'' # rest) = Some (json_repair x, CHR '']'' # rest)"
    using reads_backE [of x "CHR '']'' # rest"] by auto
  then have "json_elements (Suc n) (json_encode x @ CHR '']'' # rest) = Some ([json_repair x], rest)"
    by (simp add: json_ws_stop json_stop_def)
  then show ?case by (auto simp del: json_elements.simps json_members.simps)
next
  case (3 x y ys)
  let ?t = "join_with '','' (map json_encode (y # ys)) @ CHR '']'' # rest"
  obtain n where n: "json_value n (json_encode x @ CHR '','' # ?t) = Some (json_repair x, CHR '','' # ?t)"
    using 3(3) reads_backE [of x "CHR '','' # ?t"] by auto
  obtain m where m: "json_elements m ?t = Some (map json_repair (y # ys), rest)"
    using 3 by auto
  have "json_elements (Suc (max n m)) (json_encode x @ CHR '','' # ?t) = Some (json_repair x # map json_repair (y # ys), rest)"
    using json_mono_le(1) [OF max.cobounded1 n, of m] json_mono_le(2) [OF max.cobounded2 m, of n]
    by (simp add: json_ws_stop json_stop_def)
  then show ?case by (auto simp del: json_elements.simps json_members.simps)
qed simp

lemma reads_back_members:
  assumes "list_all (\<lambda>(k, v). reads_back v) fs" and "list_all (\<lambda>(k, v). json_ints v) fs" and "fs \<noteq> []"
  shows "\<exists>n. json_members n (join_with '','' (map (\<lambda>(k, v). json_string k @ CHR '':'' # json_encode v) fs) @ CHR ''}'' # rest) =
    Some (map (\<lambda>(k, v). (utf8_repair k, json_repair v)) fs, rest)"
  using assms
proof (induction fs rule: induct_list012)
  case (2 x)
  obtain k v where x: "x = (k, v)" by (cases x)
  with 2 obtain n where "json_value n (json_encode v @ CHR ''}'' # rest) = Some (json_repair v, CHR ''}'' # rest)"
    using reads_backE [of v "CHR ''}'' # rest"] by auto
  then have "json_members (Suc n) (json_string k @ CHR '':'' # json_encode v @ CHR ''}'' # rest) = Some ([(utf8_repair k, json_repair v)], rest)"
    by (simp add: json_string_def json_ws_id json_body_escape json_stop_def)
  then show ?case by (auto simp: x simp del: json_elements.simps json_members.simps)
next
  case (3 x y ys)
  obtain k v where x: "x = (k, v)" by (cases x)
  let ?t = "join_with '','' (map (\<lambda>(k, v). json_string k @ CHR '':'' # json_encode v) (y # ys)) @ CHR ''}'' # rest"
  obtain n where n: "json_value n (json_encode v @ CHR '','' # ?t) = Some (json_repair v, CHR '','' # ?t)"
    using 3(3) x reads_backE [of v "CHR '','' # ?t"] by auto
  obtain m where m: "json_members m ?t = Some (map (\<lambda>(k, v). (utf8_repair k, json_repair v)) (y # ys), rest)"
    using 3 by auto
  have "json_members (Suc (max n m)) (json_string k @ CHR '':'' # json_encode v @ CHR '','' # ?t) =
      Some ((utf8_repair k, json_repair v) # map (\<lambda>(k, v). (utf8_repair k, json_repair v)) (y # ys), rest)"
    using json_mono_le(1) [OF max.cobounded1 n, of m] json_mono_le(3) [OF max.cobounded2 m, of n]
    by (simp add: json_string_def json_ws_id json_body_escape json_stop_def)
  then show ?case by (auto simp: x simp del: json_elements.simps json_members.simps)
qed simp

lemma json_reads_back: "json_ints j \<Longrightarrow> reads_back j"
proof (induction j)
  case (JNum lit)
  then obtain i where i: "lit = itoa i" by auto
  show ?case
    unfolding reads_back_def
  proof (intro allI impI)
    fix rest assume r: "json_stop rest"
    obtain c cs where c: "itoa i = c # cs" "is_digit c \<or> c = CHR ''-''" using itoa_first [of i] by (cases "itoa i") auto
    then have "json_ws (itoa i @ rest) = c # cs @ rest" by (auto simp: json_ws_def is_digit_def)
    moreover have "c \<noteq> CHR 0x22 \<and> c \<noteq> CHR ''['' \<and> c \<noteq> CHR ''{'' \<and> c \<noteq> CHR ''t'' \<and> c \<noteq> CHR ''f'' \<and> c \<noteq> CHR ''n''"
      using c(2) by (auto simp: is_digit_def)
    ultimately have "json_value (Suc 0) (itoa i @ rest) = Some (JNum (itoa i), rest)"
      using json_number_itoa [OF r, of i] c(1) by (simp add: has_prefix_def)
    then show "\<exists>n. json_value n (json_encode (JNum lit) @ rest) = Some (json_repair (JNum lit), rest)"
      unfolding i json_encode.simps json_repair.simps by (rule exI)
  qed
next
  case (JStr s)
  have "json_value (Suc 0) (json_string s @ rest) = Some (JStr (utf8_repair s), rest)" for rest
    by (simp add: json_string_def json_ws_id json_body_escape)
  then show ?case unfolding reads_back_def json_encode.simps json_repair.simps by blast
next
  case (JArr xs)
  show ?case
    unfolding reads_back_def
  proof (intro allI impI)
    fix rest assume "json_stop rest"
    show "\<exists>n. json_value n (json_encode (JArr xs) @ rest) = Some (json_repair (JArr xs), rest)"
    proof (cases "xs = []")
      case True
      then have "json_value (Suc 0) (json_encode (JArr xs) @ rest) = Some (json_repair (JArr xs), rest)"
        by (simp add: json_ws_id)
      then show ?thesis by blast
    next
      case False
      let ?t = "join_with '','' (map json_encode xs) @ CHR '']'' # rest"
      have "list_all reads_back xs" "list_all json_ints xs" using JArr by (auto simp: list_all_iff)
      then obtain n where n: "json_elements n ?t = Some (map json_repair xs, rest)"
        using reads_back_elements False by blast
      obtain y ys where xs: "xs = y # ys" using False by (cases xs) auto
      have "json_ws ?t \<noteq> [] \<and> hd (json_ws ?t) \<noteq> CHR '']''"
        using json_encode_first [of y] JArr(2) json_ws_id [of ?t] by (cases ys) (auto simp: xs hd_append)
      then have "json_value (Suc n) (CHR ''['' # ?t) = Some (JArr (map json_repair xs), rest)"
        using n by (simp add: json_ws_id)
      then show ?thesis by (auto simp del: json_value.simps)
    qed
  qed
next
  case (JObj fs)
  show ?case
    unfolding reads_back_def
  proof (intro allI impI)
    fix rest assume "json_stop rest"
    show "\<exists>n. json_value n (json_encode (JObj fs) @ rest) = Some (json_repair (JObj fs), rest)"
    proof (cases "fs = []")
      case True
      then have "json_value (Suc 0) (json_encode (JObj fs) @ rest) = Some (json_repair (JObj fs), rest)"
        by (simp add: json_ws_id)
      then show ?thesis by blast
    next
      case False
      let ?t = "join_with '','' (map (\<lambda>(k, v). json_string k @ CHR '':'' # json_encode v) fs) @ CHR ''}'' # rest"
      have "list_all (\<lambda>(k, v). reads_back v) fs" "list_all (\<lambda>(k, v). json_ints v) fs"
        using JObj by (fastforce simp: list_all_iff)+
      then obtain n where n: "json_members n ?t = Some (map (\<lambda>(k, v). (utf8_repair k, json_repair v)) fs, rest)"
        using reads_back_members False by blast
      obtain y ys where fs: "fs = y # ys" using False by (cases fs) auto
      have "hd ?t = CHR 0x22" by (cases y; cases ys) (auto simp: fs json_string_def)
      moreover have "?t \<noteq> []" by simp
      ultimately have "json_ws ?t \<noteq> [] \<and> hd (json_ws ?t) \<noteq> CHR ''}''"
        using json_ws_id [of ?t] by auto
      then have "json_value (Suc n) (CHR ''{'' # ?t) = Some (JObj (map (\<lambda>(k, v). (utf8_repair k, json_repair v)) fs), rest)"
        using n by (simp add: json_ws_id)
      then show ?thesis by (auto simp del: json_value.simps)
    qed
  qed
qed (auto simp: reads_back_def json_ws_id has_prefix_def intro!: exI [of _ "Suc 0"])

lemma json_unmarshal_encode: "json_ints j \<Longrightarrow> json_unmarshal (json_encode j) = Some (json_repair j)"
proof -
  assume "json_ints j"
  then obtain n where "json_value n (json_encode j) = Some (json_repair j, [])"
    using json_reads_back [of j] by (auto simp: reads_back_def json_stop_def dest: spec [of _ "[]"])
  from json_value_enough [OF this] show ?thesis by (simp add: json_unmarshal_def json_ws_def)
qed

lemma json_encode_inj:
  "json_encode j = json_encode j' \<Longrightarrow> json_ints j \<Longrightarrow> json_ints j' \<Longrightarrow> json_repair j = json_repair j'"
  using json_unmarshal_encode [of j] json_unmarshal_encode [of j'] by simp

end
