(* ===== verification/Mutation.thy ===== *)
theory Mutation
  imports Patch_Tx Go_Json
begin

text \<open>
  \<^verbatim>\<open>internal/mutation\<close>: how a change of the workspace comes to be. A provider turns a request into a
  proposal (\<^verbatim>\<open>rename.go\<close>, \<^verbatim>\<open>fix.go\<close>), the registry finds providers by kind (\<^verbatim>\<open>provider.go\<close>), the
  authorizer turns a plan into a token that can be redeemed once (\<^verbatim>\<open>authorize.go\<close>) and the service
  redeems it and runs the transaction (\<^verbatim>\<open>service.go\<close>). A \<^verbatim>\<open>nil\<close> pointer is \<^const>\<open>None\<close>. The context is
  an argument only where it is consulted. A result of Go's \<^verbatim>\<open>(Proposal, error)\<close> is a pair.
\<close>

section \<open>Plans as JSON\<close>

definition json_position :: "SourcePosition \<Rightarrow> json" where
  "json_position p = JObj [(''line'', JInt (Line p)), (''column'', JInt (Column p))]"

definition json_identity :: "Identity \<Rightarrow> json" where
  "json_identity i = JObj [(''contractVersion'', JStr (idn_contract i)), (''semanticKey'', JStr (idn_semantic i)),
     (''occurrence'', JStr (idn_occurrence i)), (''store'', JStr (idn_store i))]"

definition json_edit :: "Edit \<Rightarrow> json" where
  "json_edit e = JObj [(''Path'', JStr (ed_Path e)), (''ContentHash'', JStr (ed_ContentHash e)),
     (''IdentityContract'', JStr (ed_IdentityContract e)), (''Identity'', json_identity (ed_Identity e)),
     (''Span'', JObj [(''ByteStart'', JInt (ByteStart (ed_Span e))), (''ByteEnd'', JInt (ByteEnd (ed_Span e))),
        (''Start'', json_position (span_Start (ed_Span e))), (''End'', json_position (span_End (ed_Span e)))]),
     (''OldText'', JStr (ed_OldText e)), (''NewText'', JStr (ed_NewText e))]"

definition json_plan :: "PatchPlan \<Rightarrow> json" where
  "json_plan p = JObj
     ([(''version'', JStr (pl_Version p)), (''operationId'', JStr (pl_OperationID p)),
       (''workspaceRoot'', JStr (pl_WorkspaceRoot p)), (''workspaceIdentity'', JStr (pl_WorkspaceIdentity p))] @
      omit_empty ''profile'' (pl_Profile p) @
      [(''inputSnapshot'', JStr (pl_InputSnapshot p)), (''edits'', json_slice json_edit (pl_Edits p))] @
      (if pl_Postconditions p = [] then [] else [(''postconditions'', JArr (map JStr (pl_Postconditions p)))]))"

definition plan_edit_less :: "Edit \<Rightarrow> Edit \<Rightarrow> bool" where
  "plan_edit_less a b =
     (if ed_Path a \<noteq> ed_Path b then ed_Path a < ed_Path b
      else ByteStart (ed_Span a) < ByteStart (ed_Span b))"

text \<open>\<^verbatim>\<open>PatchPlan.JSON\<close> sorts the edits in place: the receiver is a copy, the slice is not. The second
  component is the caller's plan afterwards.\<close>

definition plan_JSON :: "PatchPlan \<Rightarrow> string \<times> PatchPlan" where
  "plan_JSON plan =
     (let plan' = plan\<lparr>pl_Edits := sort_by plan_edit_less (pl_Edits plan)\<rparr>;
          p = (if pl_Version plan = [] then plan'\<lparr>pl_Version := PlanVersion\<rparr> else plan')
      in (json_encode (json_plan p), plan'))"

section \<open>The authorizer\<close>

datatype mutation_error =
    WriteDisabled | AuthorizerUnavailable | InvalidToken | StaleToken
  | ContextDone | AuthorizationRequired | PlanInvalid plan_error | ApplyFailed apply_error

record Authorizer =
  au_AllowWrite :: bool
  au_tokens :: "string \<Rightarrow> PatchPlan option"

definition NewAuthorizer :: "bool \<Rightarrow> Authorizer" where
  "NewAuthorizer allow = \<lparr>au_AllowWrite = allow, au_tokens = Map.empty\<rparr>"

definition plan_token :: "PatchPlan \<Rightarrow> string" where
  "plan_token plan = sha256_hex (fst (plan_JSON plan))"

definition Issue :: "PatchPlan \<Rightarrow> Authorizer option \<Rightarrow> (mutation_error + string) \<times> Authorizer option" where
  "Issue plan auth =
     (case auth of
        None \<Rightarrow> (Inl WriteDisabled, None)
      | Some a \<Rightarrow>
          if \<not> au_AllowWrite a then (Inl WriteDisabled, Some a)
          else let token = plan_token plan in
            (Inr token, Some (a\<lparr>au_tokens := (au_tokens a)(token \<mapsto> snd (plan_JSON plan))\<rparr>)))"

definition Consume :: "string \<Rightarrow> string \<Rightarrow> Authorizer option \<Rightarrow> (mutation_error + PatchPlan) \<times> Authorizer option" where
  "Consume token currentSnapshot auth =
     (case auth of
        None \<Rightarrow> (Inl AuthorizerUnavailable, None)
      | Some a \<Rightarrow>
          (case au_tokens a token of
             None \<Rightarrow> (Inl InvalidToken, Some a)
           | Some p \<Rightarrow>
               if currentSnapshot \<noteq> [] \<and> pl_InputSnapshot p \<noteq> currentSnapshot then (Inl StaleToken, Some a)
               else (Inr p, Some (a\<lparr>au_tokens := (au_tokens a)(token := None)\<rparr>))))"

section \<open>The service\<close>

definition service_Apply :: "bool \<Rightarrow> os_view \<Rightarrow> string \<Rightarrow> string \<Rightarrow> string \<Rightarrow> Authorizer option \<Rightarrow> fs \<Rightarrow>
    (mutation_error + FilePreview list) \<times> Authorizer option \<times> fs" where
  "service_Apply cancelled env root token snapshot auth s =
     (if cancelled then (Inl ContextDone, auth, s)
      else if auth = None then (Inl AuthorizationRequired, auth, s)
      else case Consume token snapshot auth of
        (Inl err, auth') \<Rightarrow> (Inl err, auth', s)
      | (Inr plan, auth') \<Rightarrow>
          (case plan_Validate plan of
             Some err \<Rightarrow> (Inl (PlanInvalid err), auth', s)
           | None \<Rightarrow>
               (case ApplyAtomic env root (pl_Edits plan) s of
                  (Inl err, s') \<Rightarrow> (Inl (ApplyFailed err), auth', s')
                | (Inr files, s') \<Rightarrow> (Inr files, auth', s'))))"

definition ToolNames :: "bool \<Rightarrow> string list" where
  "ToolNames writeEnabled =
     (if \<not> writeEnabled then []
      else [''rename.prepare'', ''fix.prepare'', ''patch.plan'', ''patch.diff'', ''patch.apply'', ''patch.recover''])"

section \<open>Providers\<close>

record Candidate =
  cd_ID :: string
  cd_Path :: string
  cd_Reason :: string

record Proposal =
  pp_Plan :: PatchPlan
  pp_Confidence :: string
  pp_Candidates :: "Candidate list"
  pp_Skipped :: "Candidate list"
  pp_Refusal :: string

record Request =
  rq_Root :: string
  rq_SymbolID :: string
  rq_Replacement :: string
  rq_Snapshot :: string
  rq_AllowAmbiguous :: bool

datatype 'e provider_error =
    ResolverUnavailable | ResolverFailed 'e | ErrAmbiguous | FixUnavailable | NoDeterministicFix | Refused string

definition zero_plan :: PatchPlan where
  "zero_plan = \<lparr>pl_Version = [], pl_OperationID = [], pl_WorkspaceRoot = [], pl_WorkspaceIdentity = [],
     pl_Profile = [], pl_InputSnapshot = [], pl_Edits = [], pl_Postconditions = []\<rparr>"

definition zero_proposal :: Proposal where
  "zero_proposal = \<lparr>pp_Plan = zero_plan, pp_Confidence = [], pp_Candidates = [], pp_Skipped = [], pp_Refusal = []\<rparr>"

record mutation_Reference =
  mr_Path :: string
  mr_Start :: int
  mr_End :: int
  mr_Old :: string
  mr_New :: string
  mr_Hash :: string
  mr_IdentityContract :: string
  mr_Classification :: string
  mr_Reason :: string

definition reference_edit :: "mutation_Reference \<Rightarrow> Edit" where
  "reference_edit r =
     \<lparr>ed_Path = mr_Path r, ed_ContentHash = mr_Hash r, ed_IdentityContract = mr_IdentityContract r,
      ed_Identity = zero_identity,
      ed_Span = \<lparr>ByteStart = mr_Start r, ByteEnd = mr_End r, span_Start = zero_position, span_End = zero_position\<rparr>,
      ed_OldText = mr_Old r, ed_NewText = mr_New r\<rparr>"

text \<open>The loop over the definition and its references: the edits and the skipped candidates.\<close>

fun rename_loop :: "mutation_Reference list \<Rightarrow> Edit list \<times> Candidate list" where
  "rename_loop [] = ([], [])"
| "rename_loop (r # rs) =
     (case rename_loop rs of (edits, skipped) \<Rightarrow>
        if mr_Classification r \<noteq> ''exact''
        then (edits, \<lparr>cd_ID = [], cd_Path = mr_Path r, cd_Reason = ''reference is '' @ mr_Classification r\<rparr> # skipped)
        else (reference_edit r # edits, skipped))"

definition rename_Prepare ::
  "(Request \<Rightarrow> 'e + mutation_Reference \<times> mutation_Reference list) option \<Rightarrow> Request \<Rightarrow>
   Proposal \<times> 'e provider_error option" where
  "rename_Prepare resolver r =
     (case resolver of
        None \<Rightarrow> (zero_proposal\<lparr>pp_Refusal := ''resolver unavailable''\<rparr>, Some ResolverUnavailable)
      | Some resolve \<Rightarrow>
          (case resolve r of
             Inl err \<Rightarrow> (zero_proposal, Some (ResolverFailed err))
           | Inr (def, refs) \<Rightarrow>
               (case rename_loop (def # refs) of (edits0, skipped) \<Rightarrow>
                  let edits = sort_by plan_edit_less edits0 in
                  if edits = []
                  then (zero_proposal\<lparr>pp_Skipped := skipped, pp_Refusal := ''no exact references''\<rparr>, Some ErrAmbiguous)
                  else (zero_proposal\<lparr>pp_Confidence := ''exact'', pp_Skipped := skipped,
                          pp_Plan := zero_plan\<lparr>pl_Version := PlanVersion, pl_WorkspaceRoot := rq_Root r,
                                               pl_InputSnapshot := rq_Snapshot r, pl_Edits := edits\<rparr>\<rparr>, None))))"

record Fix =
  fx_DiagnosticID :: string
  fx_Edit :: Edit
  fx_Deterministic :: bool
  fx_Reason :: string

definition fix_step :: "Fix \<Rightarrow> Proposal \<Rightarrow> Proposal" where
  "fix_step f out =
     (if \<not> fx_Deterministic f
      then out\<lparr>pp_Skipped := pp_Skipped out @
                 [\<lparr>cd_ID = fx_DiagnosticID f, cd_Path = [], cd_Reason = ''fix is not deterministic''\<rparr>]\<rparr>
      else out\<lparr>pp_Plan := (pp_Plan out)\<lparr>pl_Edits := pl_Edits (pp_Plan out) @ [fx_Edit f]\<rparr>\<rparr>)"

definition fix_Prepare ::
  "(Request \<Rightarrow> 'e + Fix list) option \<Rightarrow> Request \<Rightarrow> Proposal \<times> 'e provider_error option" where
  "fix_Prepare resolver r =
     (case resolver of
        None \<Rightarrow> (zero_proposal\<lparr>pp_Refusal := ''fix resolver unavailable''\<rparr>, Some FixUnavailable)
      | Some resolve \<Rightarrow>
          (case resolve r of
             Inl err \<Rightarrow> (zero_proposal, Some (ResolverFailed err))
           | Inr fixes \<Rightarrow>
               (let out = fold fix_step fixes
                      (zero_proposal\<lparr>pp_Confidence := ''exact'',
                         pp_Plan := zero_plan\<lparr>pl_Version := PlanVersion, pl_WorkspaceRoot := rq_Root r,
                                              pl_InputSnapshot := rq_Snapshot r\<rparr>\<rparr>)
                in if length (pl_Edits (pp_Plan out)) = 0 then (out, Some NoDeterministicFix) else (out, None))))"

definition provider_Validate :: "Proposal \<Rightarrow> 'e provider_error option" where
  "provider_Validate proposal = (if pp_Refusal proposal \<noteq> [] then Some (Refused (pp_Refusal proposal)) else None)"

section \<open>The registry of providers\<close>

datatype register_error = InvalidProvider | AlreadyRegistered

type_synonym 'p provider_registry = "string \<Rightarrow> 'p option"

definition Register :: "string \<Rightarrow> 'p option \<Rightarrow> 'p provider_registry \<Rightarrow> register_error option \<times> 'p provider_registry" where
  "Register kind provider r =
     (case provider of
        None \<Rightarrow> (Some InvalidProvider, r)
      | Some p \<Rightarrow>
          if kind = [] then (Some InvalidProvider, r)
          else if r kind \<noteq> None then (Some AlreadyRegistered, r)
          else (None, r(kind \<mapsto> p)))"

definition registry_Get :: "string \<Rightarrow> 'p provider_registry \<Rightarrow> 'p option" where
  "registry_Get kind r = r kind"

end
