(* ===== verification/Registry.thy ===== *)
theory Registry
  imports Prelude
begin

text \<open>
  The contract of a registry: an operation that adds an entry under a key unless the entry is
  inadmissible or the key is taken, and a look-up. Two components keep such a registry, the mutation
  providers by kind and the public operations by name; what their clients rely on is proved once.
\<close>

fun register_all :: "('v \<Rightarrow> 's \<Rightarrow> 'e option \<times> 's) \<Rightarrow> 'v list \<Rightarrow> 's \<Rightarrow> 's" where
  "register_all register [] s = s"
| "register_all register (v # vs) s = register_all register vs (snd (register v s))"

locale registry =
  fixes register :: "'v \<Rightarrow> 's \<Rightarrow> 'e option \<times> 's"
    and lookup :: "'s \<Rightarrow> 'k \<Rightarrow> 'w option"
    and key :: "'v \<Rightarrow> 'k"
    and entry :: "'v \<Rightarrow> 'w"
    and admissible :: "'v \<Rightarrow> bool"
  assumes accepts: "admissible v \<Longrightarrow> lookup s (key v) = None \<Longrightarrow>
      fst (register v s) = None \<and> lookup (snd (register v s)) = (lookup s)(key v \<mapsto> entry v)"
    and refuses: "\<not> admissible v \<or> lookup s (key v) \<noteq> None \<Longrightarrow>
      fst (register v s) \<noteq> None \<and> snd (register v s) = s"
begin

lemma accepted_iff: "fst (register v s) = None \<longleftrightarrow> admissible v \<and> lookup s (key v) = None"
  using accepts refuses by blast

lemma keeps_entries: "lookup s k = Some w \<Longrightarrow> lookup (snd (register v s)) k = Some w"
proof (cases "admissible v \<and> lookup s (key v) = None")
  case True
  moreover assume "lookup s k = Some w"
  ultimately show ?thesis using accepts [of v s] by auto
next
  case False
  moreover assume "lookup s k = Some w"
  ultimately show ?thesis using refuses [of v s] by auto
qed

lemma lookup_register:
  "lookup (snd (register v s)) k =
     (if lookup s k = None \<and> admissible v \<and> key v = k then Some (entry v) else lookup s k)"
  using accepts [of v s] refuses [of v s] by (cases "admissible v \<and> lookup s (key v) = None") auto

text \<open>The first admissible entry of a key stays.\<close>

lemma first_wins:
  "lookup (register_all register vs s) k =
     (case lookup s k of Some w \<Rightarrow> Some w
      | None \<Rightarrow> map_option entry (find (\<lambda>v. admissible v \<and> key v = k) vs))"
  by (induction vs arbitrary: s) (auto simp: lookup_register split: option.split)

end

end
