(* ===== verification/Mutation_Claims.thy ===== *)
theory Mutation_Claims
  imports Mutation Registry Patch_Tx_Claims Go_Json
begin

text \<open>
  The properties of \<^verbatim>\<open>internal/mutation\<close>. The operations of the authorizer hold its mutex from the
  first access of the token map to the last, so the runs of concurrent callers are the interleavings of
  \<open>Issue\<close> and \<open>Consume\<close>: the step relation \<open>auth_step\<close> and its runs.
\<close>

section \<open>The registry of providers\<close>

interpretation providers: registry "\<lambda>(kind, p). Register kind p" "\<lambda>r kind. registry_Get kind r" fst
    "\<lambda>(kind, p). the p" "\<lambda>(kind, p). kind \<noteq> [] \<and> p \<noteq> None"
  by unfold_locales
    (auto simp: Register_def registry_Get_def fun_eq_iff split: option.splits if_splits prod.splits)

section \<open>Runs of the authorizer\<close>

datatype auth_label = Issued string PatchPlan | Redeemed string PatchPlan | Declined

inductive auth_step :: "Authorizer \<Rightarrow> auth_label \<Rightarrow> Authorizer \<Rightarrow> bool" where
  issue: "Issue plan (Some a) = (Inr t, Some a') \<Longrightarrow> auth_step a (Issued t (snd (plan_JSON plan))) a'"
| issue_refused: "Issue plan (Some a) = (Inl err, Some a') \<Longrightarrow> auth_step a Declined a'"
| consume: "Consume t snapshot (Some a) = (Inr p, Some a') \<Longrightarrow> auth_step a (Redeemed t p) a'"
| consume_refused: "Consume t snapshot (Some a) = (Inl err, Some a') \<Longrightarrow> auth_step a Declined a'"

inductive_cases auth_step_cases: "auth_step a l a'"

inductive auth_run :: "Authorizer \<Rightarrow> auth_label list \<Rightarrow> Authorizer \<Rightarrow> bool" for a where
  start: "auth_run a [] a"
| more: "auth_run a ls b \<Longrightarrow> auth_step b l c \<Longrightarrow> auth_run a (ls @ [l]) c"

text \<open>The abstract state: what the history of a token says it is worth.\<close>

fun worth_step :: "auth_label \<Rightarrow> (string \<Rightarrow> PatchPlan option) \<Rightarrow> string \<Rightarrow> PatchPlan option" where
  "worth_step (Issued t p) m = m(t \<mapsto> p)"
| "worth_step (Redeemed t p) m = m(t := None)"
| "worth_step Declined m = m"

definition worth :: "auth_label list \<Rightarrow> string \<Rightarrow> PatchPlan option" where
  "worth ls = fold worth_step ls Map.empty"

lemma auth_step_worth:
  assumes "auth_step a l b"
  shows "au_tokens b = worth_step l (au_tokens a)" and "au_AllowWrite b = au_AllowWrite a"
    and "l = Issued t p \<Longrightarrow> au_AllowWrite a" and "l = Redeemed t p \<Longrightarrow> au_tokens a t = Some p"
  using assms
  by (auto elim!: auth_step_cases simp: Issue_def Consume_def Let_def split: if_splits option.splits)

lemma auth_run_worth:
  "auth_run a ls b \<Longrightarrow> a = NewAuthorizer allow \<Longrightarrow> au_tokens b = worth ls \<and> au_AllowWrite b = allow"
  by (induction rule: auth_run.induct)
    (simp_all add: NewAuthorizer_def worth_def auth_step_worth(1,2))

lemma auth_run_split:
  "auth_run a ls c \<Longrightarrow> ls = xs @ l # ys \<Longrightarrow> \<exists>b b'. auth_run a xs b \<and> auth_step b l b'"
proof (induction arbitrary: ys rule: auth_run.induct)
  case (more ls b l' c)
  then show ?case by (cases ys rule: rev_cases) auto
qed simp

text \<open>A token is worth a plan exactly when the last event about it issued that plan.\<close>

fun about :: "string \<Rightarrow> auth_label \<Rightarrow> bool" where
  "about t (Issued t' p) = (t' = t)"
| "about t (Redeemed t' p) = (t' = t)"
| "about t Declined = False"

lemma worth_Some:
  "worth ls t = Some p \<longleftrightarrow> (\<exists>us vs. ls = us @ Issued t p # vs \<and> \<not> list_ex (about t) vs)"
proof (induction ls rule: rev_induct)
  case Nil
  then show ?case by (simp add: worth_def)
next
  case (snoc l ls)
  have w: "worth (ls @ [l]) = worth_step l (worth ls)" by (simp add: worth_def)
  show ?case
  proof (cases "about t l")
    case True
    then have "worth (ls @ [l]) t = Some p \<longleftrightarrow> l = Issued t p" using w by (cases l) auto
    moreover have "(\<exists>us vs. ls @ [l] = us @ Issued t p # vs \<and> \<not> list_ex (about t) vs) \<longleftrightarrow> l = Issued t p"
    proof
      assume "\<exists>us vs. ls @ [l] = us @ Issued t p # vs \<and> \<not> list_ex (about t) vs"
      then obtain us vs where e: "ls @ [l] = us @ Issued t p # vs" "\<not> list_ex (about t) vs" by blast
      with True show "l = Issued t p" by (cases vs rule: rev_cases) auto
    next
      assume "l = Issued t p"
      then show "\<exists>us vs. ls @ [l] = us @ Issued t p # vs \<and> \<not> list_ex (about t) vs"
        by (intro exI [of _ ls] exI [of _ "[]"]) simp
    qed
    ultimately show ?thesis by simp
  next
    case False
    then have "worth (ls @ [l]) t = worth ls t" using w by (cases l) auto
    moreover have "(\<exists>us vs. ls @ [l] = us @ Issued t p # vs \<and> \<not> list_ex (about t) vs) \<longleftrightarrow>
        (\<exists>us vs. ls = us @ Issued t p # vs \<and> \<not> list_ex (about t) vs)"
    proof
      assume "\<exists>us vs. ls @ [l] = us @ Issued t p # vs \<and> \<not> list_ex (about t) vs"
      then obtain us vs where e: "ls @ [l] = us @ Issued t p # vs" "\<not> list_ex (about t) vs" by blast
      with False show "\<exists>us vs. ls = us @ Issued t p # vs \<and> \<not> list_ex (about t) vs"
        by (cases vs rule: rev_cases) auto
    next
      assume "\<exists>us vs. ls = us @ Issued t p # vs \<and> \<not> list_ex (about t) vs"
      then obtain us vs where "ls = us @ Issued t p # vs" "\<not> list_ex (about t) vs" by blast
      with False show "\<exists>us vs. ls @ [l] = us @ Issued t p # vs \<and> \<not> list_ex (about t) vs"
        by (intro exI [of _ us] exI [of _ "vs @ [l]"]) simp
    qed
    ultimately show ?thesis using snoc by simp
  qed
qed

text \<open>C6: A token is good for one change, and only the change it was issued for: in every run of an
  authorizer, however its callers interleave, a redemption is preceded by the issue of the same plan
  under that token with nothing about the token in between, and an authorizer without the write
  capability issues and redeems nothing.\<close>

theorem token_redeemed_once:
  assumes "auth_run (NewAuthorizer allow) (xs @ Redeemed t p # ys) a"
  shows "allow \<and> (\<exists>us vs. xs = us @ Issued t p # vs \<and> \<not> list_ex (about t) vs)"
proof -
  obtain b b' where b: "auth_run (NewAuthorizer allow) xs b" "auth_step b (Redeemed t p) b'"
    using auth_run_split [OF assms refl] by blast
  then have "worth xs t = Some p"
    using auth_run_worth [OF b(1) refl] auth_step_worth(4) [OF b(2) refl] by simp
  then obtain us vs where xs: "xs = us @ Issued t p # vs" "\<not> list_ex (about t) vs"
    using worth_Some by blast
  obtain c c' where c: "auth_run (NewAuthorizer allow) us c" "auth_step c (Issued t p) c'"
    using auth_run_split [OF b(1) xs(1)] by blast
  then have allow using auth_run_worth [OF c(1) refl] auth_step_worth(3) [OF c(2) refl] by simp
  with xs show ?thesis by blast
qed

definition demo_plan :: PatchPlan where
  "demo_plan = zero_plan\<lparr>pl_Version := PlanVersion, pl_InputSnapshot := ''s''\<rparr>"

lemma demo_plan_JSON: "snd (plan_JSON demo_plan) = demo_plan"
  by (simp add: plan_JSON_def demo_plan_def zero_plan_def Let_def)

lemma demo_run:
  "auth_run (NewAuthorizer True) [Issued (plan_token demo_plan) demo_plan, Redeemed (plan_token demo_plan) demo_plan]
     (NewAuthorizer True)"
proof -
  let ?t = "plan_token demo_plan" and ?a = "NewAuthorizer True"
  have "auth_step ?a (Issued ?t (snd (plan_JSON demo_plan))) (?a\<lparr>au_tokens := [?t \<mapsto> demo_plan]\<rparr>)"
    by (rule auth_step.issue) (simp add: Issue_def NewAuthorizer_def Let_def demo_plan_JSON)
  then have 1: "auth_step ?a (Issued ?t demo_plan) (?a\<lparr>au_tokens := [?t \<mapsto> demo_plan]\<rparr>)"
    by (simp only: demo_plan_JSON)
  have 2: "auth_step (?a\<lparr>au_tokens := [?t \<mapsto> demo_plan]\<rparr>) (Redeemed ?t demo_plan) ?a"
    by (rule auth_step.consume [of _ "[]"]) (simp add: Consume_def NewAuthorizer_def)
  show ?thesis
    using auth_run.more [OF auth_run.more [OF auth_run.start 1] 2] by simp
qed

theorem token_redeemed_once_witness:
  "\<exists>us vs. [Issued (plan_token demo_plan) demo_plan] = us @ Issued (plan_token demo_plan) demo_plan # vs \<and>
     \<not> list_ex (about (plan_token demo_plan)) vs"
  using token_redeemed_once [of True "[Issued (plan_token demo_plan) demo_plan]" "plan_token demo_plan" demo_plan "[]"]
    demo_run by auto

section \<open>The service\<close>

lemma service_Apply_cases:
  "(\<exists>err auth'. service_Apply cancelled env root token snapshot auth s = (Inl err, auth', s)) \<or>
   (\<exists>a p. \<not> cancelled \<and> auth = Some a \<and> au_tokens a token = Some p \<and>
      (snapshot = [] \<or> pl_InputSnapshot p = snapshot) \<and> plan_Validate p = None \<and>
      service_Apply cancelled env root token snapshot auth s =
        (case ApplyAtomic env root (pl_Edits p) s of (r, s') \<Rightarrow>
          ((case r of Inl err \<Rightarrow> Inl (ApplyFailed err) | Inr files \<Rightarrow> Inr files),
           Some (a\<lparr>au_tokens := (au_tokens a)(token := None)\<rparr>), s')))"
  by (auto simp: service_Apply_def Consume_def split: option.split if_split sum.split prod.split)


definition edit_plan :: PatchPlan where
  "edit_plan = demo_plan\<lparr>pl_Edits := demo_edits\<rparr>"

lemma edit_plan_stored: "snd (plan_JSON edit_plan) = edit_plan\<lparr>pl_Edits := rev demo_edits\<rparr>"
  by (simp add: plan_JSON_def edit_plan_def demo_plan_def zero_plan_def Let_def demo_edits_def)
    (simp add: demo_edit_def plan_edit_less_def)

lemma edit_plan_run:
  "auth_run (NewAuthorizer True) [Issued (plan_token edit_plan) (edit_plan\<lparr>pl_Edits := rev demo_edits\<rparr>)]
     ((NewAuthorizer True)\<lparr>au_tokens := [plan_token edit_plan \<mapsto> edit_plan\<lparr>pl_Edits := rev demo_edits\<rparr>]\<rparr>)"
proof -
  have "auth_step (NewAuthorizer True) (Issued (plan_token edit_plan) (snd (plan_JSON edit_plan)))
      ((NewAuthorizer True)\<lparr>au_tokens := [plan_token edit_plan \<mapsto> edit_plan\<lparr>pl_Edits := rev demo_edits\<rparr>]\<rparr>)"
    by (rule auth_step.issue) (simp add: Issue_def NewAuthorizer_def Let_def edit_plan_stored)
  then show ?thesis using auth_run.more [OF auth_run.start] edit_plan_stored by fastforce
qed


section \<open>Providers\<close>

lemma rename_loop_eq:
  "rename_loop rs = (map reference_edit (filter (\<lambda>r. mr_Classification r = ''exact'') rs),
     map (\<lambda>r. \<lparr>cd_ID = [], cd_Path = mr_Path r, cd_Reason = ''reference is '' @ mr_Classification r\<rparr>)
       (filter (\<lambda>r. mr_Classification r \<noteq> ''exact'') rs))"
  by (induction rs) simp_all

interpretation plan_edits: weak_order plan_edit_less
  by (rule weak_order_by_key [of _ "\<lambda>e. (ed_Path e, ByteStart (ed_Span e))"])
    (auto simp: plan_edit_less_def)

text \<open>A rename edits the exact occurrences and nothing else: the edits of the proposal are those of the
  exactly resolved definition and references, each once and in file order, every other occurrence is
  listed as skipped, and the proposal is refused just when there is nothing exact to edit.\<close>

theorem rename_edits_exact_references:
  "(case rename_Prepare (Some (\<lambda>_. Inr (def, refs))) r of (p, err) \<Rightarrow>
     let exact = filter (\<lambda>x. mr_Classification x = ''exact'') (def # refs);
         other = filter (\<lambda>x. mr_Classification x \<noteq> ''exact'') (def # refs)
     in mset (pl_Edits (pp_Plan p)) = mset (map reference_edit exact) \<and>
        sorted_wrt (\<lambda>a b. \<not> plan_edit_less b a) (pl_Edits (pp_Plan p)) \<and>
        map cd_Path (pp_Skipped p) = map mr_Path other \<and>
        err = (if exact = [] then Some (ErrAmbiguous :: unit provider_error) else None) \<and>
        provider_Validate p = (if exact = [] then Some (Refused ''no exact references'' :: unit provider_error) else None) \<and>
        (exact = [] \<or> pl_InputSnapshot (pp_Plan p) = rq_Snapshot r))"
proof -
  have n: "sort_by plan_edit_less xs = [] \<longleftrightarrow> xs = []" for xs
    by (metis length_0_conv length_sort_by)
  define all where "all = def # refs"
  show ?thesis
    unfolding rename_Prepare_def option.case sum.case prod.case rename_loop_eq all_def [symmetric]
    using plan_edits.sorted_sort_by [of "map reference_edit (filter (\<lambda>r. mr_Classification r = ''exact'') all)"]
    by (simp add: Let_def n provider_Validate_def zero_proposal_def zero_plan_def comp_def filter_empty_conv)
qed

text \<open>The occurrences that are skipped may include the definition: the references are then renamed to a name
  nothing defines.\<close>

definition demo_occurrence :: "string \<Rightarrow> string \<Rightarrow> mutation_Reference" where
  "demo_occurrence path classification = \<lparr>mr_Path = path, mr_Start = 0, mr_End = 1, mr_Old = ''x'', mr_New = ''y'',
     mr_Hash = ''h'', mr_IdentityContract = ''0.2.0'', mr_Classification = classification, mr_Reason = []\<rparr>"

definition demo_request :: Request where
  "demo_request = \<lparr>rq_Root = ''/w'', rq_SymbolID = [], rq_Replacement = ''y'', rq_Snapshot = ''s'', rq_AllowAmbiguous = False\<rparr>"

lemma rename_without_definition:
  "(case rename_Prepare (Some (\<lambda>_. Inr (demo_occurrence ''def.cns'' ''ambiguous'', [demo_occurrence ''use.cns'' ''exact'']))) demo_request
    of (p, err) \<Rightarrow> map ed_Path (pl_Edits (pp_Plan p)) = [''use.cns''] \<and> pp_Confidence p = ''exact'' \<and>
         err = (None :: unit provider_error option))"
  by code_simp

text \<open>A plan is identified by its JSON, and JSON cannot tell bytes outside UTF-8 apart: two plans that
  write different bytes share a token, and redeeming it runs the plan issued last.\<close>

definition byte_plan :: "char \<Rightarrow> PatchPlan" where
  "byte_plan b = demo_plan\<lparr>pl_Edits := [reference_edit ((demo_occurrence ''a.cns'' ''exact'')\<lparr>mr_New := [b]\<rparr>)]\<rparr>"

lemma token_confuses_plans:
  "plan_token (byte_plan (CHR 0x82)) = plan_token (byte_plan (CHR 0x83)) \<and>
   map ed_NewText (pl_Edits (byte_plan (CHR 0x82))) \<noteq> map ed_NewText (pl_Edits (byte_plan (CHR 0x83))) \<and>
   plan_Validate (byte_plan (CHR 0x82)) = None \<and> plan_Validate (byte_plan (CHR 0x83)) = None"
proof -
  have "json_string [CHR 0x82] = json_string [CHR 0x83]"
    by (simp add: json_string_def json_escape.simps json_escape_rune_def decode_rune_def lead_byte_def)
  then have "fst (plan_JSON (byte_plan (CHR 0x82))) = fst (plan_JSON (byte_plan (CHR 0x83)))"
    by (simp add: byte_plan_def plan_JSON_def demo_plan_def zero_plan_def PlanVersion_def reference_edit_def Let_def
        json_plan_def json_slice_def json_edit_def)
  moreover have "map ed_NewText (pl_Edits (byte_plan (CHR 0x82))) \<noteq> map ed_NewText (pl_Edits (byte_plan (CHR 0x83)))"
    by (simp add: byte_plan_def reference_edit_def)
  moreover have "plan_Validate (byte_plan (CHR 0x82)) = None \<and> plan_Validate (byte_plan (CHR 0x83)) = None" by code_simp
  ultimately show ?thesis by (simp add: plan_token_def)
qed

text \<open>
  What a token of \<^verbatim>\<open>internal/mutation/authorize.go\<close> stands for: the JSON of a plan is read back to the
  plan by any conforming reader, so only the texts of a plan that are not UTF-8 are lost in its token.
\<close>

definition edit_texts :: "Edit \<Rightarrow> string list" where
  "edit_texts e = [ed_Path e, ed_ContentHash e, ed_IdentityContract e, idn_contract (ed_Identity e), idn_semantic (ed_Identity e),
     idn_occurrence (ed_Identity e), idn_store (ed_Identity e), ed_OldText e, ed_NewText e]"

definition plan_texts :: "PatchPlan \<Rightarrow> string list" where
  "plan_texts p = [pl_Version p, pl_OperationID p, pl_WorkspaceRoot p, pl_WorkspaceIdentity p, pl_Profile p, pl_InputSnapshot p] @
     concat (map edit_texts (pl_Edits p)) @ pl_Postconditions p"

definition plan_utf8 :: "PatchPlan \<Rightarrow> bool" where
  "plan_utf8 p \<longleftrightarrow> list_all valid_utf8 (plan_texts p)"

text \<open>The plan that is encoded: sorted edits and a version.\<close>

definition issued :: "PatchPlan \<Rightarrow> PatchPlan" where
  "issued p = (snd (plan_JSON p))\<lparr>pl_Version := (if pl_Version p = [] then PlanVersion else pl_Version p)\<rparr>"

lemma fst_plan_JSON: "fst (plan_JSON p) = json_encode (json_plan (issued p))"
  by (simp add: plan_JSON_def issued_def Let_def)

lemma json_repair_edit: "list_all valid_utf8 (edit_texts e) \<Longrightarrow> json_repair (json_edit e) = json_edit e"
  by (simp add: edit_texts_def json_edit_def json_identity_def json_position_def valid_utf8_def utf8_repair_ascii)

lemma json_repair_plan: "plan_utf8 p \<Longrightarrow> json_repair (json_plan p) = json_plan p"
  by (auto simp: plan_utf8_def plan_texts_def json_plan_def omit_empty_def json_slice_def valid_utf8_def utf8_repair_ascii
      list_all_iff intro!: json_repair_edit [unfolded valid_utf8_def list_all_iff, rule_format] map_idI)

lemma json_ints_plan: "json_ints (json_plan p)"
  by (auto simp: json_plan_def omit_empty_def json_slice_def json_edit_def json_identity_def json_position_def list_all_iff)

lemma issued_utf8: "plan_utf8 p \<Longrightarrow> plan_utf8 (issued p)"
  by (auto simp: plan_utf8_def plan_texts_def issued_def plan_JSON_def Let_def list_all_iff PlanVersion_def intro: valid_utf8_ascii)

lemma json_position_inj: "json_position p = json_position q \<Longrightarrow> p = q"
  by (auto simp: json_position_def intro!: SourcePosition.equality dest: itoa_inj)

lemma json_identity_inj: "json_identity i = json_identity j \<Longrightarrow> i = j"
  by (auto simp: json_identity_def intro!: Identity.equality)

lemma json_edit_inj: "json_edit d = json_edit e \<Longrightarrow> d = e"
  by (auto simp: json_edit_def intro!: Edit.equality Span.equality dest: itoa_inj json_position_inj json_identity_inj)

lemma map_JStr: "map JStr xs = map JStr ys \<longleftrightarrow> xs = ys"
  by (rule inj_map_eq_map) (simp add: inj_def)

lemma json_plan_inj: "json_plan p = json_plan q \<Longrightarrow> p = q"
proof (rule PatchPlan.equality)
  assume "json_plan p = json_plan q"
  then show "pl_Edits p = pl_Edits q"
    using inj_onI [of _ json_edit] json_edit_inj
    by (auto simp: json_plan_def json_slice_def omit_empty_def inj_map_eq_map [OF injI, of json_edit] split: if_splits)
qed (auto simp: json_plan_def omit_empty_def map_JStr split: if_splits)

text \<open>The bytes a token hashes determine the plan it stands for: the JSON of a plan whose texts are UTF-8
  reads back to exactly the plan that was issued (edits sorted, version filled in), and two such plans
  have the same bytes only when they are issued as the same plan. A token that stands for two of them
  is a collision of SHA-256.\<close>

theorem plan_bytes_determine_plan:
  assumes "plan_utf8 p" and "plan_utf8 q"
  shows "json_unmarshal (fst (plan_JSON p)) = Some (json_plan (issued p)) \<and>
    (fst (plan_JSON p) = fst (plan_JSON q) \<longleftrightarrow> issued p = issued q) \<and>
    (plan_token p = plan_token q \<longrightarrow>
       issued p = issued q \<or> (\<exists>x y. x \<noteq> y \<and> sha256_hex x = sha256_hex y))"
proof -
  have r: "json_unmarshal (fst (plan_JSON r)) = Some (json_plan (issued r))" if "plan_utf8 r" for r
    using json_unmarshal_encode [OF json_ints_plan] json_repair_plan [OF issued_utf8 [OF that]] by (simp add: fst_plan_JSON)
  have "issued p = issued q" if "fst (plan_JSON p) = fst (plan_JSON q)"
    using that r [OF assms(1)] r [OF assms(2)] json_plan_inj [of "issued p" "issued q"] by simp
  then have "fst (plan_JSON p) = fst (plan_JSON q) \<longleftrightarrow> issued p = issued q" by (auto simp: fst_plan_JSON)
  with r [OF assms(1)] show ?thesis unfolding plan_token_def by blast
qed

theorem plan_bytes_determine_plan_witness:
  "json_unmarshal (fst (plan_JSON (byte_plan CHR ''y''))) = Some (json_plan (issued (byte_plan CHR ''y''))) \<and>
   fst (plan_JSON (byte_plan CHR ''y'')) \<noteq> fst (plan_JSON (byte_plan CHR ''z''))"
proof -
  have "plan_utf8 (byte_plan CHR ''y'')" "plan_utf8 (byte_plan CHR ''z'')"
    by (simp_all add: plan_utf8_def plan_texts_def byte_plan_def demo_plan_def zero_plan_def PlanVersion_def edit_texts_def
        valid_utf8_ascii reference_edit_def demo_occurrence_def zero_identity_def)
  moreover have "issued (byte_plan CHR ''y'') \<noteq> issued (byte_plan CHR ''z'')"
    by (simp add: issued_def plan_JSON_def byte_plan_def demo_plan_def zero_plan_def PlanVersion_def Let_def reference_edit_def)
  ultimately show ?thesis using plan_bytes_determine_plan [of "byte_plan CHR ''y''" "byte_plan CHR ''z''"] by blast
qed

end
