(* ===== verification/Capability.thy ===== *)
theory Capability
  imports Go_Json Registry
begin

text \<open>
  \<^verbatim>\<open>internal/capability/registry.go\<close>: the declarations of the public operations, from which the command
  line and the MCP server take their tables. The map of entries is an association list in the order of
  registration; Go enumerates it in any order. A schema's properties, a \<^verbatim>\<open>map[string]any\<close>, are
  JSON fields in any order, written with sorted keys. A \<^verbatim>\<open>nil\<close> registry is \<^const>\<open>None\<close>.
\<close>

section \<open>Data\<close>

definition AuthorityRead :: string where "AuthorityRead = ''read''"
definition AuthorityWrite :: string where "AuthorityWrite = ''write''"
definition AuthorityRuntime :: string where "AuthorityRuntime = ''runtime''"

lemmas authorities = AuthorityRead_def AuthorityWrite_def AuthorityRuntime_def

record Budget =
  bu_MaxItems :: int
  bu_MaxBytes :: int
  bu_MaxDuration :: string

record Pagination =
  pg_Supported :: bool
  pg_DefaultSize :: int
  pg_MaximumSize :: int

record Ordering =
  or_Keys :: "string list"
  or_Stable :: bool
  or_Descending :: bool

record Authorization =
  az_Authority :: string
  az_RequiresApproval :: bool

record Schema =
  sc_Schema :: string
  sc_ID :: string
  sc_Type :: string
  sc_Properties :: "(string \<times> json) list"
  sc_Required :: "string list"
  sc_AdditionalProperties :: "bool option"

record Descriptor =
  de_Name :: string
  de_Description :: string
  de_Authorization :: Authorization
  de_Input :: Schema
  de_Output :: Schema
  de_Budget :: Budget
  de_Pagination :: Pagination
  de_Ordering :: Ordering

type_synonym capabilities = "(string \<times> Descriptor) list"

datatype capability_error =
    NilRegistry | NameRequired | InvalidAuthority string string | CapabilityRegistered string | StableWithoutKeys string
  | NameDisagrees string string | InputDrift string | OutputDrift string

section \<open>Registration\<close>

definition capability_Register :: "Descriptor \<Rightarrow> capabilities option \<Rightarrow> capability_error option \<times> capabilities option" where
  "capability_Register d reg =
     (case reg of
        None \<Rightarrow> (Some NilRegistry, None)
      | Some r \<Rightarrow>
          (let authority = az_Authority (de_Authorization d) in
           if de_Name d = [] then (Some NameRequired, reg)
           else if authority \<noteq> AuthorityRead \<and> authority \<noteq> AuthorityWrite \<and> authority \<noteq> AuthorityRuntime
           then (Some (InvalidAuthority (de_Name d) authority), reg)
           else if map_of r (de_Name d) \<noteq> None then (Some (CapabilityRegistered (de_Name d)), reg)
           else if or_Stable (de_Ordering d) \<and> length (or_Keys (de_Ordering d)) = 0
           then (Some (StableWithoutKeys (de_Name d)), reg)
           else (None, Some (r @ [(de_Name d, d)]))))"

definition capability_Get :: "string \<Rightarrow> capabilities option \<Rightarrow> Descriptor option" where
  "capability_Get name reg = (case reg of None \<Rightarrow> None | Some r \<Rightarrow> map_of r name)"

definition name_less :: "Descriptor \<Rightarrow> Descriptor \<Rightarrow> bool" where
  "name_less a b \<longleftrightarrow> de_Name a < de_Name b"

definition capability_List :: "capabilities option \<Rightarrow> Descriptor list" where
  "capability_List reg = (case reg of None \<Rightarrow> [] | Some r \<Rightarrow> sort_by name_less (map snd r))"

record Availability =
  av_Read :: bool
  av_Write :: bool
  av_Runtime :: bool

definition AllAvailability :: Availability where
  "AllAvailability = \<lparr>av_Read = True, av_Write = True, av_Runtime = True\<rparr>"

definition allowed :: "Availability \<Rightarrow> Descriptor \<Rightarrow> bool" where
  "allowed a d \<longleftrightarrow>
     az_Authority (de_Authorization d) = AuthorityRead \<and> av_Read a \<or>
     az_Authority (de_Authorization d) = AuthorityWrite \<and> av_Write a \<or>
     az_Authority (de_Authorization d) = AuthorityRuntime \<and> av_Runtime a"

definition capability_Filter :: "Availability \<Rightarrow> capabilities option \<Rightarrow> Descriptor list" where
  "capability_Filter a reg = filter (allowed a) (capability_List reg)"

section \<open>Bindings\<close>

record Binding =
  bi_Name :: string
  bi_Description :: string
  bi_InputSchema :: Schema
  bi_OutputSchema :: Schema

definition bindings :: "Descriptor list \<Rightarrow> Binding list" where
  "bindings ds = map (\<lambda>d. \<lparr>bi_Name = de_Name d, bi_Description = de_Description d,
     bi_InputSchema = de_Input d, bi_OutputSchema = de_Output d\<rparr>) ds"

definition CLIBindings :: "Availability \<Rightarrow> capabilities option \<Rightarrow> Binding list" where
  "CLIBindings a reg = bindings (capability_Filter a reg)"

definition MCPDefinitions :: "Availability \<Rightarrow> capabilities option \<Rightarrow> Binding list" where
  "MCPDefinitions a reg = bindings (capability_Filter a reg)"

text \<open>The objects inside a \<^verbatim>\<open>map[string]any\<close> are maps too: their keys are sorted at every level.\<close>

fun json_sorted :: "json \<Rightarrow> json" where
  "json_sorted (JArr xs) = JArr (map json_sorted xs)"
| "json_sorted (JObj fs) = json_map (map (\<lambda>(k, v). (k, json_sorted v)) fs)"
| "json_sorted j = j"

definition json_schema :: "Schema \<Rightarrow> json" where
  "json_schema s = JObj
     (omit_empty ''$schema'' (sc_Schema s) @ omit_empty ''$id'' (sc_ID s) @ [(''type'', JStr (sc_Type s))] @
      (if sc_Properties s = [] then [] else [(''properties'', json_sorted (JObj (sc_Properties s)))]) @
      (if sc_Required s = [] then [] else [(''required'', JArr (map JStr (sc_Required s)))]) @
      (case sc_AdditionalProperties s of None \<Rightarrow> [] | Some b \<Rightarrow> [(''additionalProperties'', JBool b)]))"

definition equalJSON :: "Schema \<Rightarrow> Schema \<Rightarrow> bool" where
  "equalJSON a b \<longleftrightarrow> json_encode (json_schema a) = json_encode (json_schema b)"

definition ValidateBinding :: "Descriptor \<Rightarrow> Binding \<Rightarrow> capability_error option" where
  "ValidateBinding d b =
     (if de_Name d \<noteq> bi_Name b then Some (NameDisagrees (bi_Name b) (de_Name d))
      else if \<not> equalJSON (de_Input d) (bi_InputSchema b) then Some (InputDrift (de_Name d))
      else if \<not> equalJSON (de_Output d) (bi_OutputSchema b) then Some (OutputDrift (de_Name d))
      else None)"

section \<open>The default registry\<close>

definition schema_type :: "string \<Rightarrow> json" where
  "schema_type t = JObj [(''type'', JStr t)]"

definition object_schema :: "(string \<times> json) list \<Rightarrow> string list \<Rightarrow> Schema" where
  "object_schema props required = \<lparr>sc_Schema = [], sc_ID = [], sc_Type = ''object'', sc_Properties = props,
     sc_Required = required, sc_AdditionalProperties = None\<rparr>"

definition documentSchema :: Schema where
  "documentSchema = object_schema [(''uri'', JObj [(''type'', JStr ''string''), (''minLength'', JInt 1)])] [''uri'']"

definition positionSchema :: Schema where
  "positionSchema = object_schema
     [(''uri'', JObj [(''type'', JStr ''string''), (''minLength'', JInt 1)]),
      (''line'', JObj [(''type'', JStr ''integer''), (''minimum'', JInt 0)]),
      (''character'', JObj [(''type'', JStr ''integer''), (''minimum'', JInt 0)])] [''uri'', ''line'', ''character'']"

definition workspace_schema :: Schema where
  "workspace_schema = object_schema
     [(''root'', JObj [(''type'', JStr ''string''), (''minLength'', JInt 1)]),
      (''limit'', JObj [(''type'', JStr ''integer''), (''minimum'', JInt 1), (''maximum'', JInt 1000)]),
      (''cursor'', schema_type ''string'')] [''root'']"

definition default_names :: "string list" where
  "default_names = [''document_diagnostics'', ''document_symbols'', ''hover'', ''definition'', ''references'',
     ''workspace_status'', ''diagnostics'', ''symbols'', ''search'', ''graph_dependencies'', ''graph_dependents'',
     ''graph_path'', ''graph_impact'', ''edge_explain'', ''inspect_workspace'', ''inspect_character'',
     ''inspect_stage'', ''inspect_file'', ''export_jsonl'', ''export_scip'', ''export_sql'']"

definition default_descriptor :: "string \<Rightarrow> Descriptor" where
  "default_descriptor name =
     (let input0 = documentSchema;
          input1 = (if contains name ''search'' \<or> contains name ''graph'' \<or> contains name ''inspect'' \<or>
                       contains name ''export'' then workspace_schema else input0);
          input = (if name = ''hover'' \<or> name = ''definition'' then positionSchema else input1)
      in \<lparr>de_Name = name, de_Description = ''Read-only IKEMEN workspace operation.'',
          de_Authorization = \<lparr>az_Authority = AuthorityRead, az_RequiresApproval = False\<rparr>,
          de_Input = input,
          de_Output = object_schema
            [(''schemaVersion'', schema_type ''string''), (''operation'', schema_type ''string''),
             (''status'', schema_type ''string''), (''result'', schema_type ''object'')] [],
          de_Budget = \<lparr>bu_MaxItems = 1000, bu_MaxBytes = 1048576, bu_MaxDuration = ''30s''\<rparr>,
          de_Pagination = \<lparr>pg_Supported = True, pg_DefaultSize = 100, pg_MaximumSize = 1000\<rparr>,
          de_Ordering = \<lparr>or_Keys = [''path'', ''name'', ''id''], or_Stable = True, or_Descending = False\<rparr>\<rparr>)"

definition DefaultRegistry :: "capabilities option" where
  "DefaultRegistry = register_all (capability_Register \<circ> default_descriptor) default_names (Some [])"

section \<open>Claims\<close>

definition admissible :: "Descriptor \<Rightarrow> bool" where
  "admissible d \<longleftrightarrow> de_Name d \<noteq> [] \<and> az_Authority (de_Authorization d) \<in> {AuthorityRead, AuthorityWrite, AuthorityRuntime} \<and>
     (\<not> or_Stable (de_Ordering d) \<or> or_Keys (de_Ordering d) \<noteq> [])"

interpretation capabilities: registry "\<lambda>d r. map_prod id the (capability_Register d (Some r))" "\<lambda>r. map_of r" de_Name id admissible
  by unfold_locales
    (auto simp: capability_Register_def admissible_def Let_def fun_eq_iff map_add_def split: option.splits if_splits)

text \<open>What every registry keeps: the entries are admissible, under their own names, which differ.\<close>

definition registry_ok :: "capabilities \<Rightarrow> bool" where
  "registry_ok r \<longleftrightarrow> distinct (map fst r) \<and> list_all (\<lambda>(name, d). name = de_Name d \<and> admissible d) r"

lemma registry_ok_Register:
  "registry_ok r \<Longrightarrow> \<exists>r'. snd (capability_Register d (Some r)) = Some r' \<and> registry_ok r'"
  by (auto simp: capability_Register_def registry_ok_def admissible_def Let_def map_of_eq_None_iff split: if_splits)

lemma registry_ok_all:
  "registry_ok r \<Longrightarrow> \<exists>r'. register_all (capability_Register \<circ> f) ds (Some r) = Some r' \<and> registry_ok r'"
proof (induction ds arbitrary: r)
  case (Cons d ds)
  obtain r' where "snd (capability_Register (f d) (Some r)) = Some r'" "registry_ok r'"
    using registry_ok_Register [OF Cons.prems] by blast
  with Cons.IH [of r'] show ?case by simp
qed simp

interpretation by_name: weak_order name_less
  by (rule weak_order_by_key [of _ de_Name]) (simp add: name_less_def)

lemma registry_ok_names: "registry_ok r \<Longrightarrow> map fst r = map (de_Name \<circ> snd) r"
  by (auto simp: registry_ok_def list_all_iff)

lemma capability_List_any_order:
  assumes "registry_ok r" and "mset ys = mset (map snd r)"
  shows "sort_by name_less ys = capability_List (Some r)"
  unfolding capability_List_def option.case
proof (rule by_name.sort_by_perm [OF assms(2)])
  fix a b
  assume m: "a \<in> set ys" "b \<in> set ys" and "\<not> name_less a b" "\<not> name_less b a"
  then have n: "de_Name a = de_Name b" by (simp add: name_less_def)
  have "distinct (map de_Name (map snd r))"
    using assms(1) registry_ok_names [OF assms(1)] by (simp add: registry_ok_def comp_def)
  moreover have "a \<in> set (map snd r)" "b \<in> set (map snd r)" using m assms(2) by (metis set_mset_mset)+
  ultimately show "a = b" using n unfolding distinct_map [of de_Name] inj_on_def by blast
qed

text \<open>The properties of the registry of public operations.\<close>

definition register_list :: "Descriptor list \<Rightarrow> capabilities" where
  "register_list ds = register_all (\<lambda>d r. map_prod id the (capability_Register d (Some r))) ds []"

lemma register_all_some:
  "register_all capability_Register ds (Some r) =
     Some (register_all (\<lambda>d r. map_prod id the (capability_Register d (Some r))) ds r)"
proof (induction ds arbitrary: r)
  case (Cons d ds)
  obtain r' where "snd (capability_Register d (Some r)) = Some r'"
    by (cases "capability_Register d (Some r)") (auto simp: capability_Register_def Let_def split: if_splits)
  with Cons show ?case by simp
qed simp

lemma register_list_ok: "registry_ok (register_list ds)"
  using registry_ok_all [of "[]" "\<lambda>d. d" ds] by (auto simp: register_list_def register_all_some comp_def registry_ok_def)

lemma register_list_find: "map_of (register_list ds) name = find (\<lambda>d. admissible d \<and> de_Name d = name) ds"
  using capabilities.first_wins [of ds "[]" name] by (simp add: register_list_def option.map_id)

lemma registry_ok_member: "registry_ok r \<Longrightarrow> d \<in> set (map snd r) \<longleftrightarrow> map_of r (de_Name d) = Some d"
  unfolding registry_ok_def list_all_iff by (force dest: map_of_SomeD simp: map_of_eq_Some_iff)

lemma set_capability_List: "set (capability_List (Some r)) = set (map snd r)"
  by (simp add: capability_List_def)

lemma capability_List_sorted:
  assumes "registry_ok r"
  shows "sorted_wrt (<) (map de_Name (capability_List (Some r)))"
proof -
  have s: "map de_Name (capability_List (Some r)) = sort_by (<) (map fst r)"
    unfolding capability_List_def option.case registry_ok_names [OF assms]
    using map_sort_by_key [of name_less de_Name "map snd r"] by (simp add: name_less_def)
  have "sorted (sort_by (<) (map fst r))" using sorted_sort_strings by (simp add: sort_strings_def)
  moreover have "distinct (sort_by (<) (map fst r))"
    using assms mset_eq_imp_distinct_iff [OF mset_sort_by] unfolding registry_ok_def by blast
  ultimately show ?thesis by (simp add: s strict_sorted_iff)
qed

text \<open>C13: The listing of operations is exact. Whatever is registered, in whatever order: a name answers with
  the first admissible declaration under it, and everything else is refused without a trace; the listing
  has every registered operation once, in the order of the names, however Go enumerates the map; a
  filtered listing has just the operations whose authority is available; and with all authorities
  available nothing is hidden.\<close>

theorem capability_listing_exact:
  "(case register_all capability_Register ds (Some []) of None \<Rightarrow> False | Some r \<Rightarrow>
     capability_Get name (Some r) = find (\<lambda>d. admissible d \<and> de_Name d = name) ds \<and>
     sorted_wrt (<) (map de_Name (capability_List (Some r))) \<and>
     (\<lambda>enumeration. sort_by name_less enumeration) ` {ys. mset ys = mset (map snd r)} = {capability_List (Some r)} \<and>
     set (capability_Filter a (Some r)) = {d. allowed a d \<and> capability_Get (de_Name d) (Some r) = Some d} \<and>
     capability_Filter AllAvailability (Some r) = capability_List (Some r))"
proof -
  define r where "r = register_list ds"
  have ok: "registry_ok r" by (simp add: r_def register_list_ok)
  have all: "filter (allowed AllAvailability) (capability_List (Some r)) = capability_List (Some r)"
    using ok unfolding filter_id_conv set_capability_List
    by (auto simp: allowed_def AllAvailability_def registry_ok_def list_all_iff admissible_def)
  have order: "(\<lambda>ys. sort_by name_less ys) ` {ys. mset ys = mset (map snd r)} = {capability_List (Some r)}"
  proof (rule set_eqI, rule iffI)
    fix x assume "x \<in> {capability_List (Some r)}"
    then show "x \<in> (\<lambda>ys. sort_by name_less ys) ` {ys. mset ys = mset (map snd r)}"
      by (intro image_eqI [of _ _ "map snd r"]) (simp_all add: capability_List_def)
  qed (use capability_List_any_order [OF ok] in auto)
  have "set (capability_Filter a (Some r)) = {d. allowed a d \<and> capability_Get (de_Name d) (Some r) = Some d}"
    using registry_ok_member [OF ok] by (auto simp: capability_Filter_def set_capability_List capability_Get_def simp del: set_map)
  then show ?thesis
    using capability_List_sorted [OF ok] register_list_find order all
    by (simp add: register_all_some capability_Get_def capability_Filter_def flip: register_list_def) (simp add: r_def)
qed

lemma register_all_comp: "register_all (f \<circ> g) xs s = register_all f (map g xs) s"
  by (induction xs arbitrary: s) auto

lemma default_names_distinct: "distinct default_names"
  by code_simp

lemma default_admissible: "n \<noteq> [] \<Longrightarrow> admissible (default_descriptor n)"
  by (simp add: admissible_def default_descriptor_def Let_def)

lemma DefaultRegistry_eq: "DefaultRegistry = Some (register_list (map default_descriptor default_names))"
  by (simp add: DefaultRegistry_def register_all_comp register_all_some register_list_def)

lemma default_Name [simp]: "de_Name (default_descriptor n) = n"
  by (simp add: default_descriptor_def Let_def)

lemma default_find:
  "find (\<lambda>d. admissible d \<and> de_Name d = n) (map default_descriptor names) =
     (if n \<noteq> [] \<and> n \<in> set names then Some (default_descriptor n) else None)"
  by (induction names) (auto simp: default_admissible, auto simp: admissible_def)

text \<open>The default registry declares all of its 21 operations, none of them lost to a name clash or a
  refused declaration; each only reads, so a client without the read authority is offered nothing, and
  the command line and the MCP server are given the same table, which agrees with the declarations.\<close>

theorem default_registry_read_only:
  "set (map de_Name (capability_List DefaultRegistry)) = set default_names \<and>
   length (capability_List DefaultRegistry) = 21 \<and>
   capability_Filter \<lparr>av_Read = False, av_Write = w, av_Runtime = x\<rparr> DefaultRegistry = [] \<and>
   CLIBindings a DefaultRegistry = MCPDefinitions a DefaultRegistry \<and>
   list_all2 (\<lambda>d b. ValidateBinding d b = None) (capability_Filter a DefaultRegistry) (CLIBindings a DefaultRegistry)"
proof -
  define r where "r = register_list (map default_descriptor default_names)"
  have ok: "registry_ok r" by (simp add: r_def register_list_ok)
  have ne: "[] \<notin> set default_names" by (simp add: default_names_def)
  have get: "map_of r n = (if n \<in> set default_names then Some (default_descriptor n) else None)" for n
    using ne by (auto simp: r_def register_list_find default_find)
  have "set (map fst r) = dom (map_of r)" by (simp add: dom_map_of_conv_image_fst)
  also have "\<dots> = set default_names" unfolding dom_def get by simp
  finally have dom: "set (map fst r) = set default_names" .
  then have names: "set (map de_Name (capability_List (Some r))) = set default_names"
    using registry_ok_names [OF ok] by (simp add: set_capability_List image_image)
  have "length r = card (set default_names)"
    using ok dom unfolding registry_ok_def by (metis distinct_card length_map)
  then have len: "length (capability_List (Some r)) = 21"
    using distinct_card [OF default_names_distinct] by (simp add: capability_List_def) (simp add: default_names_def)
  have "az_Authority (de_Authorization d) = AuthorityRead" if "d \<in> set (capability_List (Some r))" for d
  proof -
    have "map_of r (de_Name d) = Some d" using that registry_ok_member [OF ok] by (simp add: set_capability_List)
    then have "d = default_descriptor (de_Name d)" by (simp add: get split: if_splits)
    then show ?thesis by (metis (no_types, lifting) Authorization.select_convs(1) Descriptor.select_convs(3) default_descriptor_def)
  qed
  then have "capability_Filter \<lparr>av_Read = False, av_Write = w, av_Runtime = x\<rparr> (Some r) = []"
    by (auto simp: capability_Filter_def filter_empty_conv allowed_def authorities)
  with names len show ?thesis
    by (simp add: DefaultRegistry_eq CLIBindings_def MCPDefinitions_def bindings_def ValidateBinding_def equalJSON_def
        list_all2_map2 list.rel_refl flip: r_def)
qed

end
