(* ===== verification/Contract.thy ===== *)
theory Contract
  imports Go_Json Go_Paths
begin

text \<open>
  \<^verbatim>\<open>internal/contract/contract.go\<close>: the envelope every operation answers with and the exit codes of the
  command line. \<^verbatim>\<open>Result\<close> and \<^verbatim>\<open>Evidence\<close>, of type \<^verbatim>\<open>any\<close>, are JSON values. A \<^verbatim>\<open>nil\<close> slice and an
  empty one are the same list, and both are written \<^verbatim>\<open>[]\<close> where the code replaces \<^verbatim>\<open>nil\<close>.
\<close>

definition SchemaVersion :: string where
  "SchemaVersion = ''0.1.0''"

definition StatusComplete :: string where "StatusComplete = ''complete''"
definition StatusPartial :: string where "StatusPartial = ''partial''"
definition StatusBlocked :: string where "StatusBlocked = ''blocked''"
definition StatusFailed :: string where "StatusFailed = ''failed''"

record Workspace =
  wk_Root :: string
  wk_Profile :: string
  wk_Configuration :: string

record Page =
  pa_Limit :: int
  pa_Returned :: int
  pa_NextCursor :: string

record Truncation =
  tr_Truncated :: bool
  tr_Reasons :: "string list"

record contract_Diagnostic =
  cdg_Code :: string
  cdg_Severity :: string
  cdg_Message :: string
  cdg_Path :: string
  cdg_Evidence :: "json option"

record Envelope =
  en_SchemaVersion :: string
  en_Operation :: string
  en_Tool :: string
  en_Status :: string
  en_Workspace :: Workspace
  en_Snapshot_ID :: string
  en_Result :: json
  en_Diagnostics :: "contract_Diagnostic list"
  en_Page :: Page
  en_Truncation :: Truncation

definition relativePath :: "string \<Rightarrow> string" where
  "relativePath path0 =
     (let path = trim_space path0 in
      if path = [] \<or> is_abs path \<or> 2 \<le> length path \<and> path ! 1 = CHR '':'' \<or> has_prefix path [CHR 0x5C, CHR 0x5C]
      then [] else path_clean path)"

text \<open>What \<^verbatim>\<open>CanonicalJSON\<close> does to its copy of the envelope before it is written.\<close>

definition canonical_envelope :: "Envelope \<Rightarrow> Envelope" where
  "canonical_envelope e0 =
     (let e1 = (if en_SchemaVersion e0 = [] then e0\<lparr>en_SchemaVersion := SchemaVersion\<rparr> else e0);
          e2 = (if en_Status e1 = [] then e1\<lparr>en_Status := StatusComplete\<rparr> else e1)
      in e2\<lparr>en_Workspace := (en_Workspace e2)\<lparr>wk_Root := relativePath (wk_Root (en_Workspace e2))\<rparr>,
            en_Diagnostics := map (\<lambda>d. d\<lparr>cdg_Path := relativePath (cdg_Path d)\<rparr>) (en_Diagnostics e2)\<rparr>)"

definition json_workspace :: "Workspace \<Rightarrow> json" where
  "json_workspace w = JObj (omit_empty ''root'' (wk_Root w) @ omit_empty ''profile'' (wk_Profile w) @
     omit_empty ''configurationDigest'' (wk_Configuration w))"

definition json_diagnostic :: "contract_Diagnostic \<Rightarrow> json" where
  "json_diagnostic d = JObj ([(''code'', JStr (cdg_Code d)), (''severity'', JStr (cdg_Severity d)),
     (''message'', JStr (cdg_Message d))] @ omit_empty ''path'' (cdg_Path d) @
     (case cdg_Evidence d of None \<Rightarrow> [] | Some v \<Rightarrow> [(''evidence'', v)]))"

definition json_envelope :: "Envelope \<Rightarrow> json" where
  "json_envelope e = JObj
     [(''schemaVersion'', JStr (en_SchemaVersion e)), (''operation'', JStr (en_Operation e)),
      (''tool'', JStr (en_Tool e)), (''status'', JStr (en_Status e)),
      (''workspace'', json_workspace (en_Workspace e)),
      (''snapshot'', JObj (omit_empty ''id'' (en_Snapshot_ID e))),
      (''result'', en_Result e),
      (''diagnostics'', JArr (map json_diagnostic (en_Diagnostics e))),
      (''page'', JObj ([(''limit'', JInt (pa_Limit (en_Page e))), (''returned'', JInt (pa_Returned (en_Page e)))] @
                       omit_empty ''nextCursor'' (pa_NextCursor (en_Page e)))),
      (''truncated'', JObj [(''truncated'', JBool (tr_Truncated (en_Truncation e))),
                            (''reasons'', JArr (map JStr (tr_Reasons (en_Truncation e))))])]"

text \<open>The receiver is a copy, its slice of diagnostics is not: their paths are rewritten in the caller's
  envelope too, the second component.\<close>

definition CanonicalJSON :: "Envelope \<Rightarrow> string \<times> Envelope" where
  "CanonicalJSON e =
     (json_encode (json_envelope (canonical_envelope e)),
      e\<lparr>en_Diagnostics := en_Diagnostics (canonical_envelope e)\<rparr>)"

section \<open>Failures\<close>

datatype FailureKind =
    FailureFindings | FailureUsage | FailureInput | FailureInternal | FailureBudget | FailureConflict
  | FailureRuntime | FailureOther string

fun failure_str :: "FailureKind \<Rightarrow> string" where
  "failure_str FailureFindings = ''findings''"
| "failure_str FailureUsage = ''usage''"
| "failure_str FailureInput = ''input''"
| "failure_str FailureInternal = ''internal''"
| "failure_str FailureBudget = ''budget''"
| "failure_str FailureConflict = ''conflict''"
| "failure_str FailureRuntime = ''runtime''"
| "failure_str (FailureOther s) = s"

record contract_Error =
  er_Kind :: FailureKind
  er_Code :: string
  er_Message :: string

definition contract_Error_Error :: "contract_Error \<Rightarrow> string" where
  "contract_Error_Error e = er_Code e @ '': '' @ er_Message e"

fun exit_code :: "FailureKind \<Rightarrow> int" where
  "exit_code FailureFindings = 1"
| "exit_code FailureUsage = 2"
| "exit_code FailureInput = 3"
| "exit_code FailureInternal = 4"
| "exit_code FailureBudget = 5"
| "exit_code FailureConflict = 6"
| "exit_code FailureRuntime = 7"
| "exit_code (FailureOther _) = 0"

definition ExitCode :: "FailureKind \<Rightarrow> bool \<Rightarrow> int" where
  "ExitCode kind legacy =
     (if legacy then (if failure_str kind = [] then 0 else 1) else exit_code kind)"

section \<open>Claims\<close>

definition host_path :: "string \<Rightarrow> bool" where
  "host_path p \<longleftrightarrow> has_prefix p ''/'' \<or> 2 \<le> length p \<and> p ! 1 = CHR '':'' \<or> has_prefix p [CHR 0x5C, CHR 0x5C]"

text \<open>A path is checked before it is cleaned: a drive behind \<^verbatim>\<open>./\<close> comes out as a path of the host, and is
  then removed when the envelope is written a second time.\<close>

lemma relative_path_leaks_drive:
  "relativePath ''./C:/Users/x'' = ''C:/Users/x'' \<and> host_path (relativePath ''./C:/Users/x'') \<and>
   relativePath (relativePath ''./C:/Users/x'') = []"
  by code_simp

lemma relativePath_relative: "\<not> is_abs (relativePath p)"
  by (simp add: relativePath_def Let_def) (simp add: is_abs_def)

text \<open>An envelope never shows an absolute path of the host: the workspace root and the path of every
  diagnostic it is written with are relative and clean, or empty; the version and the status are never
  empty; and the result, the operation and the snapshot are the caller's.\<close>

theorem canonical_envelope_relative:
  "(let e' = canonical_envelope e; paths = wk_Root (en_Workspace e') # map cdg_Path (en_Diagnostics e') in
    list_all (\<lambda>p. p = [] \<or> \<not> is_abs p \<and> path_clean p = p) paths \<and>
    map cdg_Message (en_Diagnostics e') = map cdg_Message (en_Diagnostics e) \<and>
    en_SchemaVersion e' \<noteq> [] \<and> en_Status e' \<noteq> [] \<and>
    en_Result e' = en_Result e \<and> en_Operation e' = en_Operation e \<and> en_Snapshot_ID e' = en_Snapshot_ID e)"
proof -
  have "relativePath p = [] \<or> \<not> is_abs (relativePath p) \<and> path_clean (relativePath p) = relativePath p" for p
    using relativePath_relative [of p] by (auto simp: relativePath_def Let_def)
  then show ?thesis
    by (simp add: canonical_envelope_def Let_def list_all_iff SchemaVersion_def StatusComplete_def comp_def)
qed

end
