(* ===== verification/Go_Any.thy ===== *)
theory Go_Any
  imports Go_Json
begin

text \<open>
  The finite float64 values of Go, as \<^verbatim>\<open>strconv.ParseFloat\<close> reads them from a number literal of JSON, and
  the two formats they are written in: \<^verbatim>\<open>%v\<close> and \<^verbatim>\<open>json.Marshal\<close>. A value is a sign, a mantissa
  below \<open>2 ^ 53\<close> and an exponent of two from \<open>-1074\<close>. All arithmetic is exact, on natural numbers.
\<close>

record float64 =
  fl_neg :: bool
  fl_mant :: nat
  fl_exp :: int

fun bit_len :: "nat \<Rightarrow> nat" where
  "bit_len n = (if n = 0 then 0 else Suc (bit_len (n div 2)))"

declare bit_len.simps [simp del]

section \<open>Reading\<close>

text \<open>\<open>num / den / 2 ^ e\<close>, rounded down and to the nearest number, a tie to the even one.\<close>

definition scale_down :: "nat \<Rightarrow> nat \<Rightarrow> int \<Rightarrow> nat \<times> nat" where
  "scale_down num den e = (num * 2 ^ nat (- e), den * 2 ^ nat e)"

definition round_even :: "nat \<times> nat \<Rightarrow> nat" where
  "round_even q =
     (case q of (num, den) \<Rightarrow>
        (let d = num div den; r = num mod den in if 2 * r < den \<or> (2 * r = den \<and> even d) then d else Suc d))"

text \<open>The float64 nearest to \<open>num / den\<close>; none when it is out of range.\<close>

definition nearest_float :: "bool \<Rightarrow> nat \<Rightarrow> nat \<Rightarrow> float64 option" where
  "nearest_float neg num den =
     (if num = 0 then Some \<lparr>fl_neg = neg, fl_mant = 0, fl_exp = - 1074\<rparr>
      else let e0 = int (bit_len num) - int (bit_len den) - 53;
               e1 = (case scale_down num den e0 of (n, d) \<Rightarrow> if n div d < 2 ^ 53 then e0 else e0 + 1);
               e = max e1 (- 1074);
               m = round_even (scale_down num den e);
               (m', e') = (if m = 2 ^ 53 then (2 ^ 52, e + 1) else (m, e))
           in if 971 < e' then None else Some \<lparr>fl_neg = neg, fl_mant = m', fl_exp = e'\<rparr>)"

text \<open>The number \<open>d * 10 ^ x\<close>.\<close>

definition float_of_decimal :: "bool \<Rightarrow> nat \<Rightarrow> int \<Rightarrow> float64 option" where
  "float_of_decimal neg d x = nearest_float neg (d * 10 ^ nat x) (10 ^ nat (- x))"

text \<open>A literal of JSON's grammar: sign, digits, fraction and exponent.\<close>

definition parse_float :: "string \<Rightarrow> float64 option" where
  "parse_float lit =
     (let neg = (take 1 lit = ''-''); s = (if neg then tl lit else lit);
          mant = takeWhile (\<lambda>c. c \<noteq> CHR ''e'' \<and> c \<noteq> CHR ''E'') s;
          ex = drop (Suc (length mant)) s;
          whole = takeWhile is_digit mant; frac = drop (Suc (length whole)) mant;
          x = (case ex of
                 [] \<Rightarrow> 0
               | c # cs \<Rightarrow> if c = CHR ''-'' then - int (digits_val cs)
                          else if c = CHR ''+'' then int (digits_val cs) else int (digits_val ex))
      in float_of_decimal neg (digits_val (whole @ frac)) (x - int (length frac)))"

lemma bit_len_gt: "2 ^ k \<le> n \<Longrightarrow> k < bit_len n"
proof (induction k arbitrary: n)
  case 0
  then show ?case by (subst bit_len.simps) simp
next
  case (Suc k)
  then have "2 ^ k \<le> n div 2" by simp
  moreover have "n \<noteq> 0" using Suc.prems by (cases n) simp_all
  ultimately show ?case using Suc.IH [of "n div 2"] by (subst bit_len.simps) simp
qed

lemma nearest_float_range: "2 ^ (bit_len den + 1024) \<le> num \<Longrightarrow> nearest_float neg num den = None"
  using bit_len_gt [of "bit_len den + 1024" num] by (cases "num = 0")
     (auto simp: nearest_float_def Let_def split: prod.splits if_splits)

section \<open>Writing\<close>

text \<open>\<open>num / den = m * 2 ^ e\<close>.\<close>

definition float_ratio :: "float64 \<Rightarrow> nat \<times> nat" where
  "float_ratio f = (fl_mant f * 2 ^ nat (fl_exp f), 2 ^ nat (- fl_exp f))"

fun leading_zeros :: "nat \<Rightarrow> nat \<Rightarrow> nat \<Rightarrow> nat" where
  "leading_zeros 0 num den = 0"
| "leading_zeros (Suc k) num den = (if den \<le> 10 * num then 0 else Suc (leading_zeros k (10 * num) den))"

text \<open>The position of the decimal point: \<open>10 ^ (p - 1) \<le> num / den < 10 ^ p\<close>. The smallest float64 has
  323 leading zeros.\<close>

definition decimal_point :: "nat \<times> nat \<Rightarrow> int" where
  "decimal_point q =
     (case q of (num, den) \<Rightarrow>
        if den \<le> num then int (length (nat_digits (num div den))) else - int (leading_zeros 330 num den))"

text \<open>The decimal with \<open>n\<close> digits next to \<open>f\<close> that reads back as \<open>f\<close>, if there is one: the nearer of the
  two neighbours.\<close>

definition digits_at :: "float64 \<Rightarrow> nat \<Rightarrow> nat option" where
  "digits_at f n =
     (let p = decimal_point (float_ratio f); x = p - int n;
          (num, den) = (case float_ratio f of (a, b) \<Rightarrow> (a * 10 ^ nat (- x), b * 10 ^ nat x));
          lo = num div den;
          near = round_even (num, den);
          ok = (\<lambda>d. float_of_decimal (fl_neg f) d x = Some f)
      in if ok lo \<and> ok (Suc lo) then Some near
         else if ok lo then Some lo
         else if ok (Suc lo) then Some (Suc lo) else None)"

fun shortest_from :: "float64 \<Rightarrow> nat \<Rightarrow> nat \<Rightarrow> nat \<times> nat" where
  "shortest_from f n 0 = (the (digits_at f n), n)"
| "shortest_from f n (Suc k) =
     (case digits_at f n of Some d \<Rightarrow> (d, n) | None \<Rightarrow> shortest_from f (Suc n) k)"

text \<open>The digits and the decimal point of the shortest decimal; 17 digits always suffice.\<close>

definition shortest :: "float64 \<Rightarrow> string \<times> int" where
  "shortest f =
     (if fl_mant f = 0 then ([], 0)
      else case shortest_from f 1 16 of (d, n) \<Rightarrow>
        (let p = decimal_point (float_ratio f) in
         (rev (dropWhile (\<lambda>c. c = CHR ''0'') (rev (nat_digits d))), if d = 10 ^ n then p + 1 else p)))"

definition exponent_digits :: "int \<Rightarrow> string" where
  "exponent_digits x =
     (if x < 0 then CHR ''-'' # (if - x < 10 then CHR ''0'' # itoa (- x) else itoa (- x))
      else CHR ''+'' # (if x < 10 then CHR ''0'' # itoa x else itoa x))"

definition format_e :: "bool \<Rightarrow> string \<Rightarrow> int \<Rightarrow> string" where
  "format_e neg ds p =
     (if neg then ''-'' else []) @ take 1 ds @ (if length ds \<le> 1 then [] else CHR ''.'' # tl ds) @
     CHR ''e'' # exponent_digits (p - 1)"

definition format_f :: "bool \<Rightarrow> string \<Rightarrow> int \<Rightarrow> string" where
  "format_f neg ds p =
     (if neg then ''-'' else []) @
     (if 0 < p then take (nat p) ds @ replicate (nat p - length ds) (CHR ''0'') else ''0'') @
     (if p < int (length ds) \<and> ds \<noteq> []
      then CHR ''.'' # replicate (nat (- p)) (CHR ''0'') @ drop (nat p) ds else [])"

text \<open>\<^verbatim>\<open>%v\<close> is \<^verbatim>\<open>%g\<close> with the shortest digits: an exponent below \<open>-4\<close> or from 6 on is written.\<close>

definition format_v_float :: "float64 \<Rightarrow> string" where
  "format_v_float f =
     (case shortest f of (ds, p) \<Rightarrow>
        if ds \<noteq> [] \<and> (p - 1 < - 4 \<or> 6 \<le> p - 1) then format_e (fl_neg f) ds p else format_f (fl_neg f) ds p)"

text \<open>\<^verbatim>\<open>json.Marshal\<close> writes an exponent below \<open>1e-6\<close> and from \<open>1e21\<close> on, \<^verbatim>\<open>e-09\<close> as \<^verbatim>\<open>e-9\<close>.\<close>

definition json_float :: "float64 \<Rightarrow> string" where
  "json_float f =
     (case shortest f of (ds, p) \<Rightarrow>
        if ds \<noteq> [] \<and> (p - 1 < - 6 \<or> 21 \<le> p - 1)
        then (let s = format_e (fl_neg f) ds p; n = length s in
              if 4 \<le> n \<and> take 3 (drop (n - 4) s) = ''e-0'' then take (n - 2) s @ drop (n - 1) s else s)
        else format_f (fl_neg f) ds p)"

text \<open>\<^verbatim>\<open>==\<close>: the two zeros are equal.\<close>

definition float_eq :: "float64 \<Rightarrow> float64 \<Rightarrow> bool" where
  "float_eq a b \<longleftrightarrow> a = b \<or> (fl_mant a = 0 \<and> fl_mant b = 0)"

lemma float_eq_refl [simp]: "float_eq a a"
  by (simp add: float_eq_def)

text \<open>
  A value of Go's type \<^verbatim>\<open>any\<close> as \<^verbatim>\<open>encoding/json\<close> decodes it: a map is the list of its entries in key
  order. Also its \<^verbatim>\<open>%v\<close> and \<^verbatim>\<open>%T\<close> formats and \<^verbatim>\<open>reflect.DeepEqual\<close>.
\<close>

datatype any =
    VNull
  | VBool bool
  | VInt int
  | VFloat float64
  | VStr string
  | VArr "any list"
  | VObj "(string \<times> any) list"

text \<open>A map filled from a list of entries, the last one of a key winning, read in key order.\<close>

definition as_map :: "(string \<times> 'a) list \<Rightarrow> (string \<times> 'a) list" where
  "as_map kvs = map (\<lambda>k. (k, the (map_of (rev kvs) k))) (sort_strings (remdups (map fst kvs)))"

lemma distinct_sort_strings: "distinct (sort_strings xs) \<longleftrightarrow> distinct xs"
  by (rule mset_eq_imp_distinct_iff) simp

lemma as_map_keys [simp]: "map fst (as_map kvs) = sort_strings (remdups (map fst kvs))"
  by (simp add: as_map_def comp_def)

lemma as_map_member: "(k, v) \<in> set (as_map kvs) \<Longrightarrow> (k, v) \<in> set kvs"
proof -
  assume "(k, v) \<in> set (as_map kvs)"
  then have k: "k \<in> set (map fst kvs)" and v: "v = the (map_of (rev kvs) k)" by (auto simp: as_map_def)
  then obtain w where "map_of (rev kvs) k = Some w" by (cases "map_of (rev kvs) k") (auto simp: map_of_eq_None_iff)
  then show ?thesis using v map_of_SomeD by fastforce
qed

lemma as_map_ok: "sorted (map fst (as_map kvs))" "distinct (map fst (as_map kvs))"
  by (simp_all add: sorted_sort_strings distinct_sort_strings)

text \<open>\<^verbatim>\<open>json.Unmarshal\<close> into \<^verbatim>\<open>any\<close>: every number is a float64, and one out of range is an error.\<close>

fun json_any :: "json \<Rightarrow> any option" where
  "json_any JNull = Some VNull"
| "json_any (JBool b) = Some (VBool b)"
| "json_any (JNum lit) = map_option VFloat (parse_float lit)"
| "json_any (JStr s) = Some (VStr s)"
| "json_any (JArr xs) = map_option VArr (those (map json_any xs))"
| "json_any (JObj fs) = map_option (\<lambda>vs. VObj (as_map (zip (map fst fs) vs))) (those (map (\<lambda>(k, v). json_any v) fs))"

text \<open>\<^verbatim>\<open>reflect.DeepEqual\<close> on decoded values.\<close>

fun deep_equal :: "any \<Rightarrow> any \<Rightarrow> bool" where
  "deep_equal (VFloat a) (VFloat b) \<longleftrightarrow> float_eq a b"
| "deep_equal (VArr xs) (VArr ys) \<longleftrightarrow> list_all2 deep_equal xs ys"
| "deep_equal (VObj fs) (VObj gs) \<longleftrightarrow> list_all2 (\<lambda>(k, v) (k', v'). k = k' \<and> deep_equal v v') fs gs"
| "deep_equal a b \<longleftrightarrow> a = b"

text \<open>\<^verbatim>\<open>%v\<close> and \<^verbatim>\<open>%T\<close>.\<close>

fun format_v :: "any \<Rightarrow> string" where
  "format_v VNull = ''<nil>''"
| "format_v (VBool b) = (if b then ''true'' else ''false'')"
| "format_v (VInt i) = itoa i"
| "format_v (VFloat f) = format_v_float f"
| "format_v (VStr s) = s"
| "format_v (VArr xs) = CHR ''['' # join_with '' '' (map format_v xs) @ '']''"
| "format_v (VObj fs) = ''map['' @ join_with '' '' (map (\<lambda>(k, v). k @ CHR '':'' # format_v v) fs) @ '']''"

fun type_name :: "any \<Rightarrow> string" where
  "type_name VNull = ''<nil>''"
| "type_name (VBool _) = ''bool''"
| "type_name (VInt _) = ''int64''"
| "type_name (VFloat _) = ''float64''"
| "type_name (VStr _) = ''string''"
| "type_name (VArr _) = ''[]interface {}''"
| "type_name (VObj _) = ''map[string]interface {}''"

text \<open>\<^verbatim>\<open>x.(string)\<close> on the entry of a key.\<close>

definition string_entry :: "string \<Rightarrow> (string \<times> any) list \<Rightarrow> string option" where
  "string_entry k m = (case map_of m k of Some (VStr s) \<Rightarrow> Some s | _ \<Rightarrow> None)"

text \<open>\<^verbatim>\<open>json.Unmarshal\<close> into a \<^verbatim>\<open>map[string]any\<close>: \<^verbatim>\<open>null\<close> is the nil map.\<close>

definition json_any_map :: "string \<Rightarrow> (string \<times> any) list option" where
  "json_any_map s =
     (case json_unmarshal s of
        Some (JObj fs) \<Rightarrow> (case json_any (JObj fs) of Some (VObj m) \<Rightarrow> Some m | _ \<Rightarrow> None)
      | Some JNull \<Rightarrow> Some []
      | _ \<Rightarrow> None)"

section \<open>Structs\<close>

text \<open>The fields of a struct: \<^verbatim>\<open>null\<close> leaves a field alone, a value of the wrong type is an error, and a
  second object for a map field is added to the first.\<close>

definition decode_string :: "json \<Rightarrow> (string \<Rightarrow> 'r \<Rightarrow> 'r) \<Rightarrow> 'r \<Rightarrow> 'r option" where
  "decode_string v set_field r = (case v of JNull \<Rightarrow> Some r | JStr s \<Rightarrow> Some (set_field s r) | _ \<Rightarrow> None)"

definition decode_int64 :: "json \<Rightarrow> (int \<Rightarrow> 'r \<Rightarrow> 'r) \<Rightarrow> 'r \<Rightarrow> 'r option" where
  "decode_int64 v set_field r =
     (case v of JNull \<Rightarrow> Some r | JNum lit \<Rightarrow> map_option (\<lambda>i. set_field i r) (atoi lit) | _ \<Rightarrow> None)"

definition decode_map :: "json \<Rightarrow> (string \<times> any) list option \<Rightarrow> (string \<times> any) list option option" where
  "decode_map v old =
     (case v of
        JNull \<Rightarrow> Some None
      | JObj fs \<Rightarrow> map_option (\<lambda>vs. Some (as_map ((case old of None \<Rightarrow> [] | Some m \<Rightarrow> m) @ zip (map fst fs) vs)))
                     (those (map (\<lambda>(k, v). json_any v) fs))
      | _ \<Rightarrow> None)"

fun decode_fields :: "(string \<Rightarrow> json \<Rightarrow> 'r \<Rightarrow> 'r option) \<Rightarrow> (string \<times> json) list \<Rightarrow> 'r \<Rightarrow> 'r option" where
  "decode_fields field [] r = Some r"
| "decode_fields field ((k, v) # fs) r = Option.bind (field k v r) (decode_fields field fs)"

text \<open>A nested struct: \<^verbatim>\<open>null\<close> leaves it alone, an object sets the fields it names, anything else is an error.\<close>

definition decode_struct :: "(string \<Rightarrow> json \<Rightarrow> 'r \<Rightarrow> 'r option) \<Rightarrow> json \<Rightarrow> 'r \<Rightarrow> 'r option" where
  "decode_struct field v r =
     (case v of JNull \<Rightarrow> Some r | JObj fs \<Rightarrow> decode_fields field fs r | _ \<Rightarrow> None)"

definition decode_bool :: "json \<Rightarrow> (bool \<Rightarrow> 'r \<Rightarrow> 'r) \<Rightarrow> 'r \<Rightarrow> 'r option" where
  "decode_bool v set_field r = (case v of JNull \<Rightarrow> Some r | JBool b \<Rightarrow> Some (set_field b r) | _ \<Rightarrow> None)"

text \<open>A slice of structs: \<^verbatim>\<open>null\<close> empties it, an array replaces it element by element. A second array for the
  same field is decoded into the elements of the first, which the list keeps.\<close>

fun decode_elements :: "('r \<Rightarrow> json \<Rightarrow> 'r option) \<Rightarrow> 'r \<Rightarrow> 'r list \<Rightarrow> json list \<Rightarrow> 'r list option" where
  "decode_elements el zero old [] = Some []"
| "decode_elements el zero old (v # vs) =
     Option.bind (el (case old of [] \<Rightarrow> zero | r # _ \<Rightarrow> r) v)
       (\<lambda>r. map_option (\<lambda>rs. r # rs) (decode_elements el zero (tl old) vs))"

definition decode_slice :: "('r \<Rightarrow> json \<Rightarrow> 'r option) \<Rightarrow> 'r \<Rightarrow> json \<Rightarrow> 'r list \<Rightarrow> 'r list option" where
  "decode_slice el zero v old =
     (case v of JNull \<Rightarrow> Some [] | JArr vs \<Rightarrow> decode_elements el zero old vs | _ \<Rightarrow> None)"

end
