(* ===== verification/Go_System.thy ===== *)
theory Go_System
  imports Go_Paths
begin

text \<open>
  What the program asks of the operating system, as one view of it at one moment, and \<^verbatim>\<open>bufio.Scanner\<close>.
  A query that fails has no result; what the error says is not modelled.
\<close>

record file_info =
  fi_dir :: bool
  fi_size :: int

text \<open>\<^verbatim>\<open>os.Getwd\<close>, \<^verbatim>\<open>os.Stat\<close>, \<^verbatim>\<open>os.Lstat\<close>, \<^verbatim>\<open>filepath.EvalSymlinks\<close>, \<^verbatim>\<open>os.ReadFile\<close> and the names of \<^verbatim>\<open>os.ReadDir\<close>.\<close>

record sys =
  sys_cwd :: "string option"
  sys_stat :: "string \<Rightarrow> file_info option"
  sys_lstat :: "string \<Rightarrow> bool"
  sys_eval :: "string \<Rightarrow> string option"
  sys_read :: "string \<Rightarrow> string option"
  sys_list :: "string \<Rightarrow> string list"

definition sys_exists :: "sys \<Rightarrow> string \<Rightarrow> bool" where
  "sys_exists sy p \<longleftrightarrow> sys_stat sy p \<noteq> None"

definition sys_is_dir :: "sys \<Rightarrow> string \<Rightarrow> bool" where
  "sys_is_dir sy p \<longleftrightarrow> (case sys_stat sy p of Some i \<Rightarrow> fi_dir i | None \<Rightarrow> False)"

text \<open>\<^verbatim>\<open>filepath.Abs\<close>, given the working directory or none when it cannot be read.\<close>

definition abs_path :: "string option \<Rightarrow> string \<Rightarrow> string option" where
  "abs_path cwd p =
     (if is_abs p then Some (path_clean p) else map_option (\<lambda>d. path_join [d, p]) cwd)"

lemma abs_path_not_Nil: "abs_path cwd (path_clean p) \<noteq> Some []"
  by (auto simp: abs_path_def)

section \<open>Lines\<close>

text \<open>\<^verbatim>\<open>bufio.Scanner\<close> with a buffer of \<open>b\<close> bytes: the lines, without their terminators, and whether a line
  did not fit.\<close>

definition drop_cr :: "string \<Rightarrow> string" where
  "drop_cr s = (if s \<noteq> [] \<and> last s = CHR 0x0D then butlast s else s)"

function scan_tokens :: "nat \<Rightarrow> string \<Rightarrow> string list \<times> bool" where
  "scan_tokens b s =
     (if s = [] then ([], False)
      else let raw = takeWhile (\<lambda>c. c \<noteq> CHR 0x0A) s in
        if b \<le> length raw then ([], True)
        else case scan_tokens b (drop (Suc (length raw)) s) of (ls, long) \<Rightarrow> (drop_cr raw # ls, long))"
  by pat_completeness auto
termination by (relation "measure (\<lambda>(b, s). length s)") auto

declare scan_tokens.simps [simp del]

text \<open>The lines of a text: what its newlines end, and what is left if that is not empty.\<close>

definition text_lines :: "string \<Rightarrow> string list" where
  "text_lines s = (let ls = split_on (CHR 0x0A) s in if last ls = [] then butlast ls else ls)"

lemma text_lines_Nil [simp]: "text_lines [] = []"
  by (simp add: text_lines_def)

lemma text_lines_step:
  assumes "s \<noteq> []" and "raw = takeWhile (\<lambda>c. c \<noteq> CHR 0x0A) s"
  shows "text_lines s = raw # text_lines (drop (Suc (length raw)) s)"
proof (cases "dropWhile (\<lambda>c. c \<noteq> CHR 0x0A) s")
  case Nil
  then have "CHR 0x0A \<notin> set s" and raw: "raw = s" using assms(2) by (auto simp: dropWhile_eq_Nil_conv takeWhile_eq_all_conv)
  then show ?thesis using assms(1) by (simp add: text_lines_def split_on_notin)
next
  case (Cons c t)
  then have c: "c = CHR 0x0A" using hd_dropWhile [of "\<lambda>c. c \<noteq> CHR 0x0A" s] by auto
  have s: "s = raw @ CHR 0x0A # t"
    using takeWhile_dropWhile_id [of "\<lambda>c. c \<noteq> CHR 0x0A" s] unfolding assms(2) Cons c by simp
  moreover have "CHR 0x0A \<notin> set raw" using assms(2) by (auto dest: set_takeWhileD)
  ultimately show ?thesis by (simp add: text_lines_def split_on_append Let_def)
qed

lemma scan_tokens_lines:
  "scan_tokens b s = (map drop_cr (takeWhile (\<lambda>l. length l < b) (text_lines s)), \<not> list_all (\<lambda>l. length l < b) (text_lines s))"
proof (induction b s rule: scan_tokens.induct)
  case (1 b s)
  show ?case
  proof (cases "s = []")
    case True
    then show ?thesis by (simp add: scan_tokens.simps)
  next
    case False
    define raw where "raw = takeWhile (\<lambda>c. c \<noteq> CHR 0x0A) s"
    from 1 [OF False raw_def] text_lines_step [OF False raw_def] False show ?thesis
      by (subst scan_tokens.simps) (auto simp: Let_def raw_def [symmetric] not_le)
  qed
qed

end
