(* ===== verification/Oracle.thy ===== *)
theory Oracle
  imports Go_Any Go_System
begin

text \<open>
  \<^verbatim>\<open>internal/oracle\<close>: a runtime snapshot is compared with an expected one (\<^verbatim>\<open>oracle.go\<close>), and a command
  runs only as a policy allows (\<^verbatim>\<open>policy.go\<close>). The process and the system (\<^verbatim>\<open>exec.Cmd\<close>, \<^verbatim>\<open>os.Getwd\<close>,
  \<^verbatim>\<open>os.Stat\<close>) are arguments.
\<close>

section \<open>Values\<close>

definition normal_number :: "string \<Rightarrow> any" where
  "normal_number lit =
     (case atoi lit of
        Some i \<Rightarrow> VInt i
      | None \<Rightarrow> (case parse_float lit of Some f \<Rightarrow> VFloat f | None \<Rightarrow> VStr lit))"

fun normalizeValue :: "json \<Rightarrow> any" where
  "normalizeValue JNull = VNull"
| "normalizeValue (JBool b) = VBool b"
| "normalizeValue (JNum lit) = normal_number lit"
| "normalizeValue (JStr s) = VStr s"
| "normalizeValue (JArr xs) = VArr (map normalizeValue xs)"
| "normalizeValue (JObj fs) = VObj (as_map (map (\<lambda>(k, v). (k, normalizeValue v)) fs))"

definition normalizeJSON :: "string \<Rightarrow> any option" where
  "normalizeJSON payload = map_option normalizeValue (json_first payload)"

fun snapshot_json :: "any \<Rightarrow> json" where
  "snapshot_json VNull = JNull"
| "snapshot_json (VBool b) = JBool b"
| "snapshot_json (VInt i) = JInt i"
| "snapshot_json (VFloat f) = JNum (json_float f)"
| "snapshot_json (VStr s) = JStr s"
| "snapshot_json (VArr xs) = JArr (map snapshot_json xs)"
| "snapshot_json (VObj fs) = JObj (map (\<lambda>(k, v). (k, snapshot_json v)) fs)"

definition mustMarshalJSON :: "any \<Rightarrow> string" where
  "mustMarshalJSON v = json_encode (snapshot_json v)"

section \<open>Differences\<close>

record Mismatch =
  mm_Path :: string
  mm_Kind :: string
  mm_Message :: string
  mm_Expected :: any
  mm_Actual :: any

definition formatMismatchMessage :: "string \<Rightarrow> string \<Rightarrow> any \<Rightarrow> any \<Rightarrow> string" where
  "formatMismatchMessage path kind expected actual =
     (if kind = ''missing'' then path @ '': expected key exists but was missing in actual snapshot''
      else if kind = ''unexpected'' then path @ '': unexpected key in actual snapshot''
      else if kind = ''length'' then path @ '': lengths differ; expected='' @ format_v expected @ '' actual='' @ format_v actual
      else if kind = ''type'' then path @ '': type mismatch; expected='' @ type_name expected @ '' actual='' @ type_name actual
      else path @ '': value mismatch; expected='' @ format_v expected @ '' actual='' @ format_v actual)"

definition mismatch :: "string \<Rightarrow> string \<Rightarrow> any \<Rightarrow> any \<Rightarrow> Mismatch" where
  "mismatch path kind expected actual =
     \<lparr>mm_Path = path, mm_Kind = kind, mm_Message = formatMismatchMessage path kind expected actual,
      mm_Expected = expected, mm_Actual = actual\<rparr>"

definition jsonPointer :: "string \<Rightarrow> string \<Rightarrow> string" where
  "jsonPointer base key =
     base @ CHR ''.'' # replace_byte (replace_byte key (CHR ''~'') ''~0'') (CHR ''/'') ''~1''"

definition item_path :: "string \<Rightarrow> nat \<Rightarrow> string" where
  "item_path path index = path @ CHR ''['' # nat_digits index @ '']''"

text \<open>The entries of \<open>rs\<close> whose keys are not among those of \<open>fs\<close>: what is left of the set \<^verbatim>\<open>seen\<close>.\<close>

definition unexpected_keys :: "string \<Rightarrow> (string \<times> any) list \<Rightarrow> (string \<times> any) list \<Rightarrow> Mismatch list" where
  "unexpected_keys path fs rs =
     map (\<lambda>(k, v). mismatch (jsonPointer path k) ''unexpected'' VNull v) (filter (\<lambda>(k, v). k \<notin> set (map fst fs)) rs)"

definition extra_items :: "string \<Rightarrow> nat \<Rightarrow> string \<Rightarrow> any list \<Rightarrow> (any \<Rightarrow> any \<times> any) \<Rightarrow> Mismatch list" where
  "extra_items path from kind xs pair =
     map (\<lambda>i. case pair (xs ! i) of (e, a) \<Rightarrow> mismatch (item_path path i) kind e a) [from..<length xs]"

definition length_mismatch :: "string \<Rightarrow> nat \<Rightarrow> nat \<Rightarrow> Mismatch list" where
  "length_mismatch path m n = (if m = n then [] else [mismatch path ''length'' (VInt (int m)) (VInt (int n))])"

fun diffJSONValues :: "string \<Rightarrow> any \<Rightarrow> any \<Rightarrow> Mismatch list"
  and diff_members :: "string \<Rightarrow> (string \<times> any) list \<Rightarrow> (string \<times> any) list \<Rightarrow> Mismatch list"
  and diff_items :: "string \<Rightarrow> nat \<Rightarrow> any list \<Rightarrow> any list \<Rightarrow> Mismatch list" where
  "diffJSONValues path (VObj fs) actual =
     (case actual of
        VObj rs \<Rightarrow> diff_members path fs rs @ unexpected_keys path fs rs
      | _ \<Rightarrow> [mismatch path ''type'' (VObj fs) actual])"
| "diffJSONValues path (VArr ls) actual =
     (case actual of
        VArr rs \<Rightarrow> length_mismatch path (length ls) (length rs) @ diff_items path 0 ls rs @
          extra_items path (length rs) ''missing'' ls (\<lambda>x. (x, VNull)) @
          extra_items path (length ls) ''unexpected'' rs (\<lambda>x. (VNull, x))
      | _ \<Rightarrow> [mismatch path ''type'' (VArr ls) actual])"
| "diffJSONValues path expected actual =
     (if deep_equal expected actual then [] else [mismatch path ''value'' expected actual])"
| "diff_members path [] rs = []"
| "diff_members path ((k, v) # fs) rs =
     (case map_of rs k of
        None \<Rightarrow> mismatch (jsonPointer path k) ''missing'' v VNull # diff_members path fs rs
      | Some w \<Rightarrow> diffJSONValues (jsonPointer path k) v w @ diff_members path fs rs)"
| "diff_items path i (l # ls) (r # rs) = diffJSONValues (item_path path i) l r @ diff_items path (Suc i) ls rs"
| "diff_items path i _ _ = []"

definition diffJSON :: "any \<Rightarrow> any \<Rightarrow> Mismatch list" where
  "diffJSON expected actual = diffJSONValues ''$'' expected actual"

section \<open>Comparison\<close>

record oracle_Request =
  oq_Command :: string
  oq_Args :: "string list"
  oq_WorkingDir :: string
  oq_Timeout :: int

record RunResult =
  rr_Stdout :: string
  rr_Stderr :: string
  rr_ExitCode :: int

record Comparison =
  cmp_Request :: oracle_Request
  cmp_ExpectedSnapshot :: string
  cmp_ActualSnapshot :: string
  cmp_Mismatches :: "Mismatch list"
  cmp_Stdout :: string
  cmp_Stderr :: string
  cmp_ExitCode :: int

definition zero_comparison :: Comparison where
  "zero_comparison = \<lparr>cmp_Request = \<lparr>oq_Command = [], oq_Args = [], oq_WorkingDir = [], oq_Timeout = 0\<rparr>,
     cmp_ExpectedSnapshot = [], cmp_ActualSnapshot = [], cmp_Mismatches = [], cmp_Stdout = [], cmp_Stderr = [], cmp_ExitCode = 0\<rparr>"

definition Match :: "Comparison \<Rightarrow> bool" where
  "Match c \<longleftrightarrow> cmp_Mismatches c = []"

datatype 'e compare_error = ExpectedMalformed | ActualMalformed | RunFailed 'e

text \<open>The runner gets the deadline its context carries, if the request sets one.\<close>

type_synonym 'e runner = "int option \<Rightarrow> oracle_Request \<Rightarrow> RunResult \<times> 'e option"

definition Compare :: "'e runner \<Rightarrow> oracle_Request \<Rightarrow> string \<Rightarrow> Comparison \<times> 'e compare_error option" where
  "Compare run request expectedSnapshot =
     (case normalizeJSON expectedSnapshot of
        None \<Rightarrow> (zero_comparison, Some ExpectedMalformed)
      | Some expected \<Rightarrow>
          (case run (if 0 < oq_Timeout request then Some (oq_Timeout request) else None) request of (raw, err) \<Rightarrow>
            let c = \<lparr>cmp_Request = request, cmp_ExpectedSnapshot = mustMarshalJSON expected, cmp_ActualSnapshot = rr_Stdout raw,
                     cmp_Mismatches = [], cmp_Stdout = rr_Stdout raw, cmp_Stderr = rr_Stderr raw, cmp_ExitCode = rr_ExitCode raw\<rparr>
            in case err of
                 Some e \<Rightarrow> (c, Some (RunFailed e))
               | None \<Rightarrow>
                   (case normalizeJSON (rr_Stdout raw) of
                      None \<Rightarrow> (c, Some ActualMalformed)
                    | Some actual \<Rightarrow>
                        (c\<lparr>cmp_ActualSnapshot := mustMarshalJSON actual, cmp_Mismatches := diffJSON expected actual\<rparr>, None))))"

section \<open>Processes\<close>

text \<open>How a process ends: \<^verbatim>\<open>exec.ExitError\<close> with or without a process state, or any other error with its
  text. The outcome also says whether the deadline passed.\<close>

datatype exec_error = Exited int string | ExitStateLost string | NotStarted string

fun exec_text :: "exec_error \<Rightarrow> string" where
  "exec_text (Exited _ t) = t"
| "exec_text (ExitStateLost t) = t"
| "exec_text (NotStarted t) = t"

record exec_result =
  ex_stdout :: string
  ex_stderr :: string
  ex_error :: "exec_error option"
  ex_deadline :: bool

text \<open>The command, its arguments, the directory if one is set, and the deadline.\<close>

type_synonym exec = "string \<Rightarrow> string list \<Rightarrow> string option \<Rightarrow> int option \<Rightarrow> exec_result"

fun resolveExitCode :: "exec_error \<Rightarrow> int" where
  "resolveExitCode (Exited code _) = code"
| "resolveExitCode (ExitStateLost _) = 1"
| "resolveExitCode (NotStarted _) = - 1"

record CommandError =
  ce_Command :: string
  ce_Args :: "string list"
  ce_WorkingDir :: string
  ce_ExitCode :: int
  ce_Stdout :: string
  ce_Stderr :: string
  ce_Err :: exec_error

definition CommandError_Error :: "CommandError \<Rightarrow> string" where
  "CommandError_Error e = ''snapshot command failed: command='' @ quote (ce_Command e) @
     '' args=['' @ join_with '' '' (ce_Args e) @ ''] exit='' @ itoa (ce_ExitCode e) @ '': '' @ exec_text (ce_Err e)"

definition DefaultRunner_Run :: "exec \<Rightarrow> int option \<Rightarrow> oracle_Request \<Rightarrow> RunResult \<times> CommandError option" where
  "DefaultRunner_Run execute deadline request =
     (let r = execute (oq_Command request) (oq_Args request)
                (if oq_WorkingDir request \<noteq> [] then Some (oq_WorkingDir request) else None) deadline
      in case ex_error r of
           None \<Rightarrow> (\<lparr>rr_Stdout = ex_stdout r, rr_Stderr = ex_stderr r, rr_ExitCode = 0\<rparr>, None)
         | Some err \<Rightarrow>
             (\<lparr>rr_Stdout = ex_stdout r, rr_Stderr = ex_stderr r, rr_ExitCode = resolveExitCode err\<rparr>,
              Some \<lparr>ce_Command = oq_Command request, ce_Args = oq_Args request, ce_WorkingDir = oq_WorkingDir request,
                ce_ExitCode = resolveExitCode err, ce_Stdout = ex_stdout r, ce_Stderr = ex_stderr r, ce_Err = err\<rparr>))"

section \<open>Policy\<close>

record Policy =
  po_Enabled :: bool
  po_AllowedExecutables :: "string list"
  po_MaxStdout :: int
  po_MaxStderr :: int
  po_Timeout :: int
  po_DisposableRoot :: string

record Outcome =
  oc_Kind :: string
  oc_ExitCode :: int
  oc_Stdout :: string
  oc_Stderr :: string
  oc_TimedOut :: bool

definition oracle_bound :: "string \<Rightarrow> int \<Rightarrow> string" where
  "oracle_bound data limit = (if limit \<le> 0 \<or> int (length data) \<le> limit then data else take (nat limit) data)"

datatype guard_error = GuardRefused string | GuardFailed CommandError

definition refused :: "string \<Rightarrow> Outcome \<times> guard_error option" where
  "refused msg = (\<lparr>oc_Kind = ''refused'', oc_ExitCode = 0, oc_Stdout = [], oc_Stderr = [], oc_TimedOut = False\<rparr>, Some (GuardRefused msg))"

definition executable_allowed :: "string option \<Rightarrow> string list \<Rightarrow> string \<Rightarrow> bool" where
  "executable_allowed cwd candidates command \<longleftrightarrow>
     list_ex (\<lambda>candidate. equal_fold (case abs_path cwd (path_clean candidate) of Some c \<Rightarrow> c | None \<Rightarrow> []) command) candidates"

text \<open>The last component is the request that was run, if any.\<close>

definition RunGuarded :: "string option \<Rightarrow> (string \<Rightarrow> bool) \<Rightarrow> exec \<Rightarrow> Policy \<Rightarrow> string list \<Rightarrow>
    (Outcome \<times> guard_error option) \<times> oracle_Request option" where
  "RunGuarded cwd is_dir execute p args =
     (if \<not> po_Enabled p then (refused ''runtime capability disabled'', None)
      else if po_AllowedExecutables p = [] \<or> args = [] then (refused ''runtime executable allowlist is empty'', None)
      else case abs_path cwd (path_clean (hd args)) of
        None \<Rightarrow> (refused ''invalid executable'', None)
      | Some command \<Rightarrow>
          if \<not> executable_allowed cwd (po_AllowedExecutables p) command then (refused ''executable is not allowed'', None)
          else case abs_path cwd (path_clean (po_DisposableRoot p)) of
            None \<Rightarrow> (refused ''disposable root is required'', None)
          | Some root \<Rightarrow>
              if root = [] then (refused ''disposable root is required'', None)
              else if \<not> is_dir root then (refused ''invalid disposable root'', None)
              else let deadline = (if 0 < po_Timeout p then Some (po_Timeout p) else None);
                       request = \<lparr>oq_Command = command, oq_Args = tl args, oq_WorkingDir = root, oq_Timeout = po_Timeout p\<rparr>;
                       late = ex_deadline (execute command (tl args) (Some root) deadline)
                   in case DefaultRunner_Run execute deadline request of (raw, e) \<Rightarrow>
                        ((\<lparr>oc_Kind = (if late then ''timed_out'' else if e \<noteq> None then ''failed'' else ''complete''),
                           oc_ExitCode = rr_ExitCode raw, oc_Stdout = oracle_bound (rr_Stdout raw) (po_MaxStdout p),
                           oc_Stderr = oracle_bound (rr_Stderr raw) (po_MaxStderr p), oc_TimedOut = late\<rparr>,
                          map_option GuardFailed e), Some request))"

text \<open>
  What \<^verbatim>\<open>internal/oracle\<close> promises: a comparison matches exactly when the two snapshots are equal, and a
  guarded command runs only under its policy, with bounded output.
\<close>

section \<open>Canonical snapshots\<close>

fun snapshot_ok :: "any \<Rightarrow> bool" where
  "snapshot_ok (VArr xs) \<longleftrightarrow> list_all snapshot_ok xs"
| "snapshot_ok (VObj fs) \<longleftrightarrow> sorted (map fst fs) \<and> distinct (map fst fs) \<and> list_all (\<lambda>(k, v). snapshot_ok v) fs"
| "snapshot_ok _ \<longleftrightarrow> True"

lemma normalizeValue_ok: "snapshot_ok (normalizeValue j)"
proof (induction j)
  case (JObj fs)
  have "snapshot_ok v" if "(k, v) \<in> set (as_map (map (\<lambda>(k, v). (k, normalizeValue v)) fs))" for k v
    using JObj as_map_member [OF that] by fastforce
  then show ?case using as_map_ok [of "map (\<lambda>(k, v). (k, normalizeValue v)) fs"] by (auto simp: list_all_iff simp del: as_map_keys)
qed (auto simp: normal_number_def list_all_iff split: option.splits)

lemma normalizeJSON_ok: "normalizeJSON s = Some v \<Longrightarrow> snapshot_ok v"
  by (auto simp: normalizeJSON_def normalizeValue_ok)

section \<open>No difference means equal\<close>

lemma diff_members_Nil:
  "(\<And>k v w. (k, v) \<in> set fs \<Longrightarrow> map_of rs k = Some w \<Longrightarrow> diffJSONValues (jsonPointer path k) v w = [] \<longleftrightarrow> deep_equal v w) \<Longrightarrow>
   diff_members path fs rs = [] \<longleftrightarrow> (\<forall>(k, v) \<in> set fs. \<exists>w. map_of rs k = Some w \<and> deep_equal v w)"
  by (induction fs) (auto split: option.splits)

lemma diff_items_Nil:
  "(\<And>i l r. l \<in> set ls \<Longrightarrow> r \<in> set rs \<Longrightarrow> diffJSONValues (item_path path i) l r = [] \<longleftrightarrow> deep_equal l r) \<Longrightarrow>
   length ls = length rs \<Longrightarrow> diff_items path i ls rs = [] \<longleftrightarrow> list_all2 deep_equal ls rs"
proof (induction ls arbitrary: rs i)
  case (Cons l ls)
  then obtain r rs' where "rs = r # rs'" by (cases rs) auto
  with Cons show ?case by auto
qed simp

lemma same_entries:
  assumes "sorted (map fst fs)" "distinct (map fst fs)" "sorted (map fst rs)" "distinct (map fst rs)"
  shows "(\<forall>(k, v) \<in> set fs. \<exists>w. map_of rs k = Some w \<and> P v w) \<and> (\<forall>(k, w) \<in> set rs. k \<in> set (map fst fs)) \<longleftrightarrow>
    list_all2 (\<lambda>(k, v) (k', w). k = k' \<and> P v w) fs rs"
    (is "?L \<longleftrightarrow> ?R")
proof
  assume L: ?L
  have "k \<in> set (map fst rs)" if "k \<in> set (map fst fs)" for k
  proof -
    obtain v where "(k, v) \<in> set fs" using \<open>k \<in> set (map fst fs)\<close> by force
    then obtain w where "map_of rs k = Some w" using L by blast
    then show ?thesis using map_of_SomeD by force
  qed
  moreover have "k \<in> set (map fst fs)" if "k \<in> set (map fst rs)" for k using L that by force
  ultimately have "set (map fst fs) = set (map fst rs)" by blast
  then have k: "map fst fs = map fst rs" using assms sorted_distinct_set_unique by blast
  then have len: "length fs = length rs" by (metis length_map)
  have "fst (fs ! i) = fst (rs ! i) \<and> P (snd (fs ! i)) (snd (rs ! i))" if "i < length fs" for i
  proof -
    have e: "fst (fs ! i) = fst (rs ! i)" using k that len by (metis nth_map)
    have "map_of rs (fst (fs ! i)) = Some (snd (rs ! i))"
      using assms(4) that len by (simp add: e)
    moreover have "\<exists>w. map_of rs (fst (fs ! i)) = Some w \<and> P (snd (fs ! i)) w"
    proof -
      have "case fs ! i of (k, v) \<Rightarrow> \<exists>w. map_of rs k = Some w \<and> P v w"
        by (rule bspec [OF conjunct1 [OF L] nth_mem [OF that]])
      then show ?thesis by (cases "fs ! i") simp
    qed
    ultimately show ?thesis using e by simp
  qed
  then show ?R using len by (simp add: list_all2_conv_all_nth case_prod_unfold)
next
  assume R: ?R
  then have len: "length fs = length rs"
    and nth: "\<And>i. i < length fs \<Longrightarrow> fst (fs ! i) = fst (rs ! i) \<and> P (snd (fs ! i)) (snd (rs ! i))"
    by (auto simp: list_all2_conv_all_nth case_prod_unfold)
  have "map_of rs (fst (fs ! i)) = Some (snd (rs ! i)) \<and> P (snd (fs ! i)) (snd (rs ! i))" if "i < length fs" for i
  proof -
    have "(fst (fs ! i), snd (rs ! i)) \<in> set rs"
      using nth [OF that] nth_mem [of i rs] that len by (metis prod.collapse)
    then show ?thesis using nth [OF that] assms(4) by simp
  qed
  then have "\<exists>w. map_of rs (fst x) = Some w \<and> P (snd x) w" if "x \<in> set fs" for x
    using that unfolding in_set_conv_nth by blast
  then have "\<forall>(k, v) \<in> set fs. \<exists>w. map_of rs k = Some w \<and> P v w" by fastforce
  moreover have "map fst fs = map fst rs" using len nth by (intro nth_equalityI) simp_all
  then have "set (map fst fs) = set (map fst rs)" by simp
  then have "\<forall>(k, w) \<in> set rs. k \<in> set (map fst fs)" by force
  ultimately show ?L by blast
qed

lemma unexpected_Nil: "unexpected_keys path fs rs = [] \<longleftrightarrow> (\<forall>(k, w) \<in> set rs. k \<in> set (map fst fs))"
  by (auto simp: unexpected_keys_def filter_empty_conv)

lemma diff_Nil_iff: "snapshot_ok a \<Longrightarrow> snapshot_ok b \<Longrightarrow> diffJSONValues path a b = [] \<longleftrightarrow> deep_equal a b"
proof (induction a arbitrary: b path)
  case (VArr ls)
  show ?case
  proof (cases b)
    case (VArr rs)
    have "diffJSONValues (item_path path i) l r = [] \<longleftrightarrow> deep_equal l r" if "l \<in> set ls" "r \<in> set rs" for i l r
      using VArr.IH [OF that(1)] VArr.prems that VArr by (auto simp: list_all_iff)
    then have "diff_items path 0 ls rs = [] \<longleftrightarrow> list_all2 deep_equal ls rs" if "length ls = length rs"
      using diff_items_Nil that by blast
    then show ?thesis using VArr by (auto simp: length_mismatch_def extra_items_def dest: list_all2_lengthD)
  qed auto
next
  case (VObj fs)
  show ?case
  proof (cases b)
    case (VObj rs)
    have "diffJSONValues (jsonPointer path k) v w = [] \<longleftrightarrow> deep_equal v w" if "(k, v) \<in> set fs" "map_of rs k = Some w" for k v w
      using VObj.IH [OF that(1), of v] VObj.prems that VObj map_of_SomeD [OF that(2)] by (fastforce simp: list_all_iff)
    from diff_members_Nil [OF this, of fs]
    have "diff_members path fs rs = [] \<longleftrightarrow> (\<forall>(k, v) \<in> set fs. \<exists>w. map_of rs k = Some w \<and> deep_equal v w)" by blast
    then show ?thesis using same_entries [of fs rs deep_equal] VObj.prems VObj by (auto simp: unexpected_Nil)
  qed auto
qed auto

text \<open>A snapshot comparison succeeds and matches exactly when the expected snapshot decodes, the runner
  succeeds, its output decodes and the two values are deeply equal.\<close>

theorem compare_matches_iff_equal:
  "snd (Compare run request expected) = None \<and> Match (fst (Compare run request expected)) \<longleftrightarrow>
   (\<exists>v raw w. normalizeJSON expected = Some v \<and>
      run (if 0 < oq_Timeout request then Some (oq_Timeout request) else None) request = (raw, None) \<and>
      normalizeJSON (rr_Stdout raw) = Some w \<and> deep_equal v w)"
proof (cases "normalizeJSON expected")
  case v: (Some v)
  obtain raw err where r: "run (if 0 < oq_Timeout request then Some (oq_Timeout request) else None) request = (raw, err)" by fastforce
  show ?thesis
  proof (cases "err = None \<and> normalizeJSON (rr_Stdout raw) \<noteq> None")
    case True
    then obtain w where w: "normalizeJSON (rr_Stdout raw) = Some w" by blast
    with True v show ?thesis
      using diff_Nil_iff [OF normalizeJSON_ok [OF v] normalizeJSON_ok [OF w]]
      unfolding Compare_def r by (simp add: r Match_def diffJSON_def)
  next
    case False
    with v show ?thesis
      unfolding Compare_def r by (auto simp: r Let_def split: option.splits)
  qed
qed (simp add: Compare_def)

section \<open>Limits of the comparison\<close>

text \<open>A number no float64 can hold is compared as the text of its literal, so it equals that text.\<close>

lemma huge_number_equals_string: "normalizeJSON ''1e999'' = normalizeJSON [CHR 0x22, CHR ''1'', CHR ''e'', CHR ''9'', CHR ''9'', CHR ''9'', CHR 0x22]"
proof -
  have "json_first ''1e999'' = Some (JNum ''1e999'')" by code_simp
  moreover have "json_first [CHR 0x22, CHR ''1'', CHR ''e'', CHR ''9'', CHR ''9'', CHR ''9'', CHR 0x22] = Some (JStr ''1e999'')" by code_simp
  moreover have "atoi ''1e999'' = None" by code_simp
  moreover have "parse_float ''1e999'' = float_of_decimal False 1 999"
    by (simp add: parse_float_def is_digit_def digits_val_def digit_val_def)
  moreover have "float_of_decimal False 1 999 = None"
  proof -
    have p: "(2::nat) ^ (3 * n) \<le> 10 ^ n" for n
    proof (induction n)
      case (Suc n)
      have "(2::nat) ^ (3 * Suc n) = 8 * 2 ^ (3 * n)" by (simp add: power_add)
      with Suc show ?case by simp
    qed simp
    have "(2::nat) ^ (1 + 1024) \<le> 2 ^ (3 * 999)" by (rule power_increasing) simp_all
    also note p [of 999]
    finally have "(2::nat) ^ (1 + 1024) \<le> 10 ^ 999" .
    moreover have "bit_len 1 = 1" by (simp add: bit_len.simps)
    ultimately have "nearest_float False (10 ^ 999) 1 = None" using nearest_float_range [of 1 "10 ^ 999" False] by (simp only:)
    moreover have "nat 999 = 999" "nat (- 999) = 0" by simp_all
    ultimately show ?thesis unfolding float_of_decimal_def by (simp only: mult_1 power_0)
  qed
  ultimately show ?thesis by (simp add: normalizeJSON_def normal_number_def)
qed

text \<open>A dot in a key is not escaped, so a path may name two values.\<close>

lemma dotted_paths_clash: "jsonPointer (jsonPointer ''$'' ''a'') ''b'' = jsonPointer ''$'' ''a.b''"
  by code_simp

section \<open>The policy\<close>

lemma oracle_bound_prefix: "\<exists>n. oracle_bound data limit = take n data"
  by (auto simp: oracle_bound_def intro: exI [of _ "length data"])

lemma oracle_bound_limit: "limit \<le> 0 \<or> int (length (oracle_bound data limit)) \<le> limit"
  by (auto simp: oracle_bound_def)

text \<open>C17: A guarded command runs only when the capability is enabled, its executable is one of the allowed ones up
  to letter case, and its directory is the disposable root, which exists; otherwise the outcome is
  refused and no process has any influence on it. What is kept of its output is a prefix within the limits.\<close>

theorem guarded_run_within_policy:
  "case RunGuarded cwd is_dir execute p args of ((out, err), started) \<Rightarrow>
     (case started of
        None \<Rightarrow> oc_Kind out = ''refused'' \<and> oc_Stdout out = [] \<and> oc_Stderr out = [] \<and> err \<noteq> None \<and>
          (\<forall>execute'. RunGuarded cwd is_dir execute' p args = ((out, err), None))
      | Some rq \<Rightarrow>
          po_Enabled p \<and> args \<noteq> [] \<and> oq_Args rq = tl args \<and>
          abs_path cwd (path_clean (hd args)) = Some (oq_Command rq) \<and>
          (\<exists>candidate c. candidate \<in> set (po_AllowedExecutables p) \<and> abs_path cwd (path_clean candidate) = Some c \<and>
             to_lower c = to_lower (oq_Command rq)) \<and>
          abs_path cwd (path_clean (po_DisposableRoot p)) = Some (oq_WorkingDir rq) \<and> is_dir (oq_WorkingDir rq) \<and>
          (let r = execute (oq_Command rq) (oq_Args rq) (Some (oq_WorkingDir rq))
                     (if 0 < po_Timeout p then Some (po_Timeout p) else None)
           in (\<exists>n. oc_Stdout out = take n (ex_stdout r)) \<and> (\<exists>n. oc_Stderr out = take n (ex_stderr r)) \<and>
              (po_MaxStdout p \<le> 0 \<or> int (length (oc_Stdout out)) \<le> po_MaxStdout p) \<and>
              (po_MaxStderr p \<le> 0 \<or> int (length (oc_Stderr out)) \<le> po_MaxStderr p) \<and>
              (err = None \<longleftrightarrow> ex_error r = None)))"
proof (cases "RunGuarded cwd is_dir execute p args")
  case (Pair oe started)
  then obtain out err where fields: "RunGuarded cwd is_dir execute p args = ((out, err), started)" by fastforce
  show ?thesis
  proof (cases started)
    case None
    with fields show ?thesis
      by (auto simp: RunGuarded_def refused_def DefaultRunner_Run_def Let_def split: if_splits option.splits)
  next
    case (Some rq)
    note f = fields [unfolded Some RunGuarded_def]
    obtain command root where c: "po_Enabled p" "args \<noteq> []" "abs_path cwd (path_clean (hd args)) = Some command"
        "executable_allowed cwd (po_AllowedExecutables p) command" "abs_path cwd (path_clean (po_DisposableRoot p)) = Some root" "is_dir root"
        "rq = \<lparr>oq_Command = command, oq_Args = tl args, oq_WorkingDir = root, oq_Timeout = po_Timeout p\<rparr>" "root \<noteq> []"
      using f by (auto simp: Let_def split: if_splits option.splits prod.splits)
    obtain candidate q where q: "candidate \<in> set (po_AllowedExecutables p)" "abs_path cwd (path_clean candidate) = Some q"
        "to_lower q = to_lower command"
      using c(3,4) abs_path_not_Nil [of cwd "hd args"]
      by (auto simp: executable_allowed_def list_ex_iff equal_fold_def to_lower_def split: option.splits)
    define r where "r = execute command (tl args) (Some root) (if 0 < po_Timeout p then Some (po_Timeout p) else None)"
    have o: "oc_Stdout out = oracle_bound (ex_stdout r) (po_MaxStdout p)" "oc_Stderr out = oracle_bound (ex_stderr r) (po_MaxStderr p)"
        "err = None \<longleftrightarrow> ex_error r = None"
      using f c by (auto simp: Let_def r_def DefaultRunner_Run_def split: if_splits option.splits)
    show ?thesis
      unfolding fields Some prod.case option.case
      using c q o r_def oracle_bound_prefix oracle_bound_limit by (auto simp: Let_def)
  qed
qed

text \<open>An empty disposable root is not noticed: it cleans to the current directory.\<close>

lemma empty_root_is_working_directory:
  "snd (RunGuarded (Some ''/home'') (\<lambda>d. d = ''/home'') execute
     \<lparr>po_Enabled = True, po_AllowedExecutables = [''/bin/x''], po_MaxStdout = 0, po_MaxStderr = 0, po_Timeout = 0, po_DisposableRoot = []\<rparr>
     [''/bin/x'']) =
   Some \<lparr>oq_Command = ''/bin/x'', oq_Args = [], oq_WorkingDir = ''/home'', oq_Timeout = 0\<rparr>"
proof -
  have "path_clean ''/bin/x'' = ''/bin/x''" "path_clean [] = ''.''" "path_join [''/home'', ''.''] = ''/home''" by code_simp+
  then show ?thesis
    by (simp add: RunGuarded_def abs_path_def is_abs_def has_prefix_def executable_allowed_def equal_fold_def Let_def split: prod.splits)
qed

end
