(* ===== verification/Trace.thy ===== *)
theory Trace
  imports Oracle Ir Go_Json
begin

text \<open>
  \<^verbatim>\<open>internal/trace\<close>: the bounded bridge to an external runtime. Its output is captured up to a limit, read
  as one JSON object per line, and the events are correlated with the documents of the workspace. The
  process, the clock and the working directory are arguments; a \<^verbatim>\<open>map[string]any\<close> is the list of its
  entries in key order, \<^const>\<open>None\<close> when it is nil. A reader is the bytes it yields: a reader that fails
  midway is not modelled, the bridge only reads from memory.
\<close>

section \<open>Configuration and capture\<close>

definition DefaultMaxOutputBytes :: int where
  "DefaultMaxOutputBytes = 1024 * 1024"

record trace_Config =
  tc_Command :: string
  tc_Args :: "string list"
  tc_WorkingDir :: string
  tc_MaxStdoutBytes :: int
  tc_MaxStderrBytes :: int

definition withDefaults :: "trace_Config \<Rightarrow> trace_Config" where
  "withDefaults cfg =
     (let cfg1 = (if tc_MaxStdoutBytes cfg \<le> 0 then cfg\<lparr>tc_MaxStdoutBytes := DefaultMaxOutputBytes\<rparr> else cfg)
      in if tc_MaxStderrBytes cfg1 \<le> 0 then cfg1\<lparr>tc_MaxStderrBytes := DefaultMaxOutputBytes\<rparr> else cfg1)"

definition trace_bound :: "string \<Rightarrow> int \<Rightarrow> string" where
  "trace_bound data limit = (if limit \<le> 0 \<or> int (length data) \<le> limit then data else take (nat limit) data)"

record limitedWriter =
  lw_w :: string
  lw_n :: int

definition lw_Write :: "string \<Rightarrow> limitedWriter \<Rightarrow> int \<times> limitedWriter" where
  "lw_Write p w =
     (if lw_n w \<le> 0 then (int (length p), w)
      else let q = (if lw_n w < int (length p) then take (nat (lw_n w)) p else p) in
        (int (length p), \<lparr>lw_w = lw_w w @ q, lw_n = lw_n w - int (length q)\<rparr>))"

record RawResult =
  raw_Stdout :: string
  raw_Stderr :: string
  raw_ExitCode :: int

text \<open>A process writes chunks; how it ends is its exit code or another error.\<close>

record process =
  pr_stdout :: "string list"
  pr_stderr :: "string list"
  pr_error :: "exec_error option"

definition writer_run :: "string list \<Rightarrow> int \<Rightarrow> limitedWriter" where
  "writer_run chunks n = foldl (\<lambda>w p. snd (lw_Write p w)) \<lparr>lw_w = [], lw_n = n\<rparr> chunks"

fun trace_exit_code :: "exec_error \<Rightarrow> int" where
  "trace_exit_code (Exited code _) = code"
| "trace_exit_code (ExitStateLost _) = - 1"
| "trace_exit_code (NotStarted _) = - 1"

definition CommandRunner_Run :: "(string \<Rightarrow> string list \<Rightarrow> string \<Rightarrow> process) \<Rightarrow> trace_Config \<Rightarrow> RawResult \<times> exec_error option" where
  "CommandRunner_Run start cfg =
     (let pr = start (tc_Command cfg) (tc_Args cfg) (tc_WorkingDir cfg);
          cfg' = withDefaults cfg;
          code = (case pr_error pr of None \<Rightarrow> 0 | Some err \<Rightarrow> trace_exit_code err)
      in (\<lparr>raw_Stdout = lw_w (writer_run (pr_stdout pr) (tc_MaxStdoutBytes cfg')),
           raw_Stderr = lw_w (writer_run (pr_stderr pr) (tc_MaxStderrBytes cfg')), raw_ExitCode = code\<rparr>, pr_error pr))"

section \<open>Events\<close>

record Event =
  ev_Sequence :: int
  ev_Type :: string
  ev_Timestamp :: string
  ev_Path :: string
  ev_Identity :: Identity
  ev_Context :: "(string \<times> any) list option"
  ev_Payload :: "(string \<times> any) list option"

definition zero_event :: Event where
  "zero_event = \<lparr>ev_Sequence = 0, ev_Type = [], ev_Timestamp = [], ev_Path = [], ev_Identity = zero_identity,
     ev_Context = None, ev_Payload = None\<rparr>"

definition identity_field :: "string \<Rightarrow> json \<Rightarrow> Identity \<Rightarrow> Identity option" where
  "identity_field k v i =
     (if equal_fold k ''contractVersion'' then decode_string v (\<lambda>s. idn_contract_update (\<lambda>_. s)) i
      else if equal_fold k ''semanticKey'' then decode_string v (\<lambda>s. idn_semantic_update (\<lambda>_. s)) i
      else if equal_fold k ''occurrence'' then decode_string v (\<lambda>s. idn_occurrence_update (\<lambda>_. s)) i
      else if equal_fold k ''store'' then decode_string v (\<lambda>s. idn_store_update (\<lambda>_. s)) i
      else Some i)"

definition decode_identity :: "json \<Rightarrow> Identity \<Rightarrow> Identity option" where
  "decode_identity v i = (case v of JNull \<Rightarrow> Some i | JObj fs \<Rightarrow> decode_fields identity_field fs i | _ \<Rightarrow> None)"

definition event_field :: "string \<Rightarrow> json \<Rightarrow> Event \<Rightarrow> Event option" where
  "event_field k v e =
     (if equal_fold k ''seq'' then decode_int64 v (\<lambda>i. ev_Sequence_update (\<lambda>_. i)) e
      else if equal_fold k ''type'' then decode_string v (\<lambda>s. ev_Type_update (\<lambda>_. s)) e
      else if equal_fold k ''timestamp'' then decode_string v (\<lambda>s. ev_Timestamp_update (\<lambda>_. s)) e
      else if equal_fold k ''path'' then decode_string v (\<lambda>s. ev_Path_update (\<lambda>_. s)) e
      else if equal_fold k ''identity'' then map_option (\<lambda>i. e\<lparr>ev_Identity := i\<rparr>) (decode_identity v (ev_Identity e))
      else if equal_fold k ''context'' then map_option (\<lambda>m. e\<lparr>ev_Context := m\<rparr>) (decode_map v (ev_Context e))
      else if equal_fold k ''payload'' then map_option (\<lambda>m. e\<lparr>ev_Payload := m\<rparr>) (decode_map v (ev_Payload e))
      else Some e)"

section \<open>Lines\<close>

datatype trace_cause = LineTooLarge nat int | DecodeFailed | NotAnObject

record trace_ParseError =
  pe_Line :: nat
  pe_Code :: string
  pe_Err :: trace_cause

datatype line_result = LineEvent Event | LineError string trace_cause

definition parse_event :: "int \<Rightarrow> string \<Rightarrow> line_result" where
  "parse_event limit l =
     (if limit < int (length l) then LineError ''line-too-large'' (LineTooLarge (length l) limit)
      else case json_unmarshal l of
        None \<Rightarrow> LineError ''malformed-json'' DecodeFailed
      | Some JNull \<Rightarrow> LineError ''invalid-event'' NotAnObject
      | Some (JObj fs) \<Rightarrow>
          (case decode_fields event_field fs zero_event of
             None \<Rightarrow> LineError ''invalid-event'' DecodeFailed
           | Some e \<Rightarrow>
               (case map_of (rev fs) ''seq'' of
                  Some (JNum lit) \<Rightarrow> (case atoi lit of Some n \<Rightarrow> LineEvent (e\<lparr>ev_Sequence := n\<rparr>) | None \<Rightarrow> LineEvent e)
                | _ \<Rightarrow> LineEvent e))
      | Some _ \<Rightarrow> LineError ''malformed-json'' DecodeFailed)"

fun parse_lines :: "int \<Rightarrow> nat \<Rightarrow> string list \<Rightarrow> Event list \<times> trace_ParseError list" where
  "parse_lines limit n [] = ([], [])"
| "parse_lines limit n (l # ls) =
     (case parse_lines limit (Suc n) ls of (es, errs) \<Rightarrow>
        (case parse_event limit l of
           LineEvent e \<Rightarrow> (e # es, errs)
         | LineError code err \<Rightarrow> (es, \<lparr>pe_Line = Suc n, pe_Code = code, pe_Err = err\<rparr> # errs)))"

datatype parse_failure = NilReader | TokenTooLong

definition ParseJSONL :: "string option \<Rightarrow> int \<Rightarrow> (Event list \<times> trace_ParseError list) \<times> parse_failure option" where
  "ParseJSONL r maxLineBytes =
     (case r of
        None \<Rightarrow> (([], []), Some NilReader)
      | Some input \<Rightarrow>
          let limit = (if maxLineBytes \<le> 0 then 1024 * 1024 else maxLineBytes) in
          case scan_tokens (nat (max 1024 (limit + 1))) input of (ls, long) \<Rightarrow>
            (parse_lines limit 0 ls, if long then Some TokenTooLong else None))"

section \<open>The bridge\<close>

record 't trace_Result =
  tr_Config :: trace_Config
  tr_Stdout :: string
  tr_Stderr :: string
  tr_ExitCode :: int
  tr_StartedAt :: 't
  tr_FinishedAt :: 't
  tr_Events :: "Event list"
  tr_ParseErrors :: "trace_ParseError list"

datatype 'e bridge_error = CommandRequired | BridgeCancelled | BridgeRunFailed 'e | BridgeParseFailed parse_failure | BridgeExit int

text \<open>The clock is read twice: the two times it gives are arguments.\<close>

definition Bridge_Run :: "(trace_Config \<Rightarrow> RawResult \<times> 'e option) \<Rightarrow> 't \<Rightarrow> 't \<Rightarrow> bool \<Rightarrow> trace_Config \<Rightarrow>
    't trace_Result \<times> 'e bridge_error option" where
  "Bridge_Run run started finished cancelled cfg0 =
     (let cfg = withDefaults cfg0;
          blank = \<lparr>tr_Config = cfg, tr_Stdout = [], tr_Stderr = [], tr_ExitCode = 0, tr_StartedAt = started,
            tr_FinishedAt = finished, tr_Events = [], tr_ParseErrors = []\<rparr>
      in if trim_space (tc_Command cfg) = [] then (blank, Some CommandRequired)
         else if cancelled then (blank, Some BridgeCancelled)
         else case run cfg of (raw, err) \<Rightarrow>
           let out = trace_bound (raw_Stdout raw) (tc_MaxStdoutBytes cfg) in
           case ParseJSONL (Some out) (tc_MaxStdoutBytes cfg) of ((events, errs), parseErr) \<Rightarrow>
             (blank\<lparr>tr_Stdout := out, tr_Stderr := trace_bound (raw_Stderr raw) (tc_MaxStderrBytes cfg),
                tr_ExitCode := raw_ExitCode raw, tr_Events := events, tr_ParseErrors := errs\<rparr>,
              case err of
                Some e \<Rightarrow> Some (BridgeRunFailed e)
              | None \<Rightarrow>
                  (case parseErr of
                     Some f \<Rightarrow> Some (BridgeParseFailed f)
                   | None \<Rightarrow> if raw_ExitCode raw \<noteq> 0 then Some (BridgeExit (raw_ExitCode raw)) else None)))"

definition ExitError_Error :: "int \<Rightarrow> string" where
  "ExitError_Error code = ''trace runtime exited with status '' @ itoa code"

definition trace_Explain :: "'t trace_Result \<Rightarrow> string" where
  "trace_Explain result =
     (if tr_ExitCode result \<noteq> 0
      then ''runtime exited with status '' @ itoa (tr_ExitCode result) @ '' after '' @ nat_digits (length (tr_Events result)) @ '' loader events''
      else if 0 < length (tr_ParseErrors result)
      then ''runtime produced '' @ nat_digits (length (tr_ParseErrors result)) @ '' malformed trace lines''
      else ''runtime completed with '' @ nat_digits (length (tr_Events result)) @ '' loader events'')"

section \<open>Correlation\<close>

record Correlation =
  co_Matched :: bool
  co_DocumentPath :: string
  co_Identity :: Identity
  co_SymbolID :: string
  co_EdgeID :: string
  co_SourceSpan :: SourceSpan

definition trace_canonicalPath :: "string option \<Rightarrow> string \<Rightarrow> string \<Rightarrow> string" where
  "trace_canonicalPath cwd path root =
     (let p1 = path_clean (trim_space (replace_byte path (CHR 0x5C) ''/''));
          p2 = (if root \<noteq> [] \<and> \<not> is_abs p1 then path_join [root, p1] else p1);
          p3 = (case abs_path cwd p2 of Some q \<Rightarrow> q | None \<Rightarrow> p2)
      in to_lower (path_clean p3))"

definition no_identity :: "Identity \<Rightarrow> bool" where
  "no_identity a \<longleftrightarrow> idn_semantic a = [] \<and> idn_occurrence a = [] \<and> idn_store a = []"

definition identityMatches :: "Identity \<Rightarrow> Identity \<Rightarrow> bool" where
  "identityMatches a b \<longleftrightarrow>
     no_identity a \<or>
     ((idn_semantic a = [] \<or> idn_semantic a = idn_semantic b) \<and>
      (idn_occurrence a = [] \<or> idn_occurrence a = idn_occurrence b) \<and> (idn_store a = [] \<or> idn_store a = idn_store b))"

text \<open>The inner loop over the symbols of a document: the first that matches.\<close>

definition match_symbols :: "Event \<Rightarrow> Document \<Rightarrow> Correlation \<Rightarrow> Correlation" where
  "match_symbols event doc c =
     (case find (\<lambda>s. identityMatches (ev_Identity event) (sym_identity s)) (doc_symbols doc) of
        Some s \<Rightarrow> c\<lparr>co_DocumentPath := doc_path doc, co_Matched := True, co_SymbolID := sym_id s\<rparr>
      | None \<Rightarrow> c)"

fun correlate_docs :: "string option \<Rightarrow> Event \<Rightarrow> string \<Rightarrow> Document list \<Rightarrow> Correlation \<Rightarrow> Correlation" where
  "correlate_docs cwd event path [] c = c"
| "correlate_docs cwd event path (doc # docs) c =
     (if \<not> (ev_Path event = [] \<or> path = trace_canonicalPath cwd (doc_path doc) []) then correlate_docs cwd event path docs c
      else let c1 = match_symbols event doc c;
               c2 = (if \<not> co_Matched c1 \<and> no_identity (ev_Identity event)
                     then c1\<lparr>co_DocumentPath := doc_path doc, co_Matched := True\<rparr> else c1)
           in if co_Matched c2 then c2 else correlate_docs cwd event path docs c2)"

definition correlate_event :: "string option \<Rightarrow> Document list \<Rightarrow> string \<Rightarrow> Event \<Rightarrow> Event \<times> Correlation" where
  "correlate_event cwd docs workspaceRoot event =
     (event, correlate_docs cwd event (trace_canonicalPath cwd (ev_Path event) workspaceRoot) docs
        \<lparr>co_Matched = False, co_DocumentPath = [], co_Identity = ev_Identity event, co_SymbolID = [], co_EdgeID = [],
         co_SourceSpan = zero_span\<rparr>)"

definition Correlate :: "string option \<Rightarrow> Event list \<Rightarrow> Document list \<Rightarrow> string \<Rightarrow> (Event \<times> Correlation) list" where
  "Correlate cwd events docs workspaceRoot = map (correlate_event cwd docs workspaceRoot) events"

text \<open>
  What \<^verbatim>\<open>internal/trace\<close> promises: the captured output is the bounded prefix of what the process wrote,
  every line of it is an event or an error, and an event is attributed to the first document that fits.
\<close>

section \<open>Capture\<close>

text \<open>The writer refines a stream of which only the first \<open>n\<close> bytes matter.\<close>

definition captures :: "int \<Rightarrow> string \<Rightarrow> limitedWriter \<Rightarrow> bool" where
  "captures n s w \<longleftrightarrow> lw_w w = take (nat n) s \<and> (lw_n w = n - int (length s) \<or> lw_n w \<le> 0 \<and> n \<le> int (length s))"

lemma captures_init: "captures n [] \<lparr>lw_w = [], lw_n = n\<rparr>"
  by (simp add: captures_def)

lemma captures_Write: "captures n s w \<Longrightarrow> captures n (s @ p) (snd (lw_Write p w)) \<and> fst (lw_Write p w) = int (length p)"
  by (auto simp: captures_def lw_Write_def Let_def nat_diff_distrib)

lemma captures_run: "captures n s w \<Longrightarrow> captures n (s @ concat ps) (foldl (\<lambda>w p. snd (lw_Write p w)) w ps)"
proof (induction ps arbitrary: s w)
  case (Cons p ps)
  from Cons.IH [OF conjunct1 [OF captures_Write [OF Cons.prems]]] show ?case by simp
qed simp

lemma writer_run_prefix: "lw_w (writer_run ps n) = take (nat n) (concat ps)"
  using captures_run [OF captures_init, of n ps] by (simp add: captures_def writer_run_def)

lemma withDefaults_pos: "0 < tc_MaxStdoutBytes (withDefaults cfg)" "0 < tc_MaxStderrBytes (withDefaults cfg)"
  by (auto simp: withDefaults_def DefaultMaxOutputBytes_def Let_def)

lemma withDefaults_idem [simp]: "withDefaults (withDefaults cfg) = withDefaults cfg"
  by (simp add: withDefaults_def DefaultMaxOutputBytes_def Let_def)

lemma trace_bound_take: "0 < n \<Longrightarrow> trace_bound s n = take (nat n) s"
  by (simp add: trace_bound_def)


section \<open>Lines\<close>

lemma parse_lines_events:
  "fst (parse_lines limit n ls) = List.map_filter (\<lambda>l. case parse_event limit l of LineEvent e \<Rightarrow> Some e | LineError _ _ \<Rightarrow> None) ls"
proof (induction ls arbitrary: n)
  case (Cons l ls)
  obtain es errs where r: "parse_lines limit (Suc n) ls = (es, errs)" by fastforce
  with Cons [of "Suc n"] show ?case by (simp add: List.map_filter_simps split: line_result.split)
qed (simp add: List.map_filter_simps)

lemma parse_lines_length: "length (fst (parse_lines limit n ls)) + length (snd (parse_lines limit n ls)) = length ls"
proof (induction ls arbitrary: n)
  case (Cons l ls)
  obtain es errs where r: "parse_lines limit (Suc n) ls = (es, errs)" by fastforce
  with Cons [of "Suc n"] show ?case by (simp split: line_result.split)
qed simp

lemma parse_lines_errors:
  "list_all (\<lambda>err. n < pe_Line err \<and> pe_Line err \<le> n + length ls \<and>
     parse_event limit (ls ! (pe_Line err - Suc n)) = LineError (pe_Code err) (pe_Err err)) (snd (parse_lines limit n ls)) \<and>
   sorted_wrt (<) (map pe_Line (snd (parse_lines limit n ls)))"
proof (induction ls arbitrary: n)
  case (Cons l ls)
  obtain es errs where r: "parse_lines limit (Suc n) ls = (es, errs)" by fastforce
  have ih: "Suc n < pe_Line err \<and> pe_Line err \<le> Suc n + length ls \<and>
      parse_event limit (ls ! (pe_Line err - Suc (Suc n))) = LineError (pe_Code err) (pe_Err err)" if "err \<in> set errs" for err
    using Cons.IH [of "Suc n"] that by (simp add: r list_all_iff)
  have "n < pe_Line err \<and> pe_Line err \<le> n + length (l # ls) \<and>
      parse_event limit ((l # ls) ! (pe_Line err - Suc n)) = LineError (pe_Code err) (pe_Err err)" if "err \<in> set errs" for err
  proof -
    have "pe_Line err - Suc n = Suc (pe_Line err - Suc (Suc n))" using ih [OF that] by linarith
    then show ?thesis using ih [OF that] by simp
  qed
  then have "list_all (\<lambda>err. n < pe_Line err \<and> pe_Line err \<le> n + length (l # ls) \<and>
      parse_event limit ((l # ls) ! (pe_Line err - Suc n)) = LineError (pe_Code err) (pe_Err err)) errs"
    unfolding list_all_iff by blast
  moreover have "sorted_wrt (<) (map pe_Line errs)" using Cons.IH [of "Suc n"] by (simp add: r)
  moreover have "\<forall>err \<in> set errs. Suc n < pe_Line err" using ih by blast
  ultimately show ?case by (auto simp: r split: line_result.splits)
qed simp

text \<open>Reading a trace accounts for every line: the lines up to the first that does not fit the buffer are
  read in order, each gives exactly one event or one error, the events keep their order, an error names
  its line and its cause, and reading fails exactly when a line did not fit.\<close>

theorem trace_lines_accounted:
  "case ParseJSONL (Some input) limit of ((events, errors), failure) \<Rightarrow>
     let cap = (if limit \<le> 0 then 1024 * 1024 else limit); fits = (\<lambda>l. length l < nat (max 1024 (cap + 1)));
         ls = map drop_cr (takeWhile fits (text_lines input))
     in events = List.map_filter (\<lambda>l. case parse_event cap l of LineEvent e \<Rightarrow> Some e | LineError _ _ \<Rightarrow> None) ls \<and>
        length events + length errors = length ls \<and>
        list_all (\<lambda>err. 0 < pe_Line err \<and> pe_Line err \<le> length ls \<and>
          parse_event cap (ls ! (pe_Line err - 1)) = LineError (pe_Code err) (pe_Err err)) errors \<and>
        sorted_wrt (<) (map pe_Line errors) \<and>
        (failure = None \<longleftrightarrow> list_all fits (text_lines input))"
proof -
  define cap where "cap = (if limit \<le> 0 then 1024 * 1024 else limit)"
  define fits where "fits = (\<lambda>l :: string. length l < nat (max 1024 (cap + 1)))"
  define ls where "ls = map drop_cr (takeWhile fits (text_lines input))"
  obtain events errors where p: "parse_lines cap 0 ls = (events, errors)" by fastforce
  have "ParseJSONL (Some input) limit = ((events, errors), if list_all fits (text_lines input) then None else Some TokenTooLong)"
    by (simp add: ParseJSONL_def Let_def cap_def [symmetric] scan_tokens_lines fits_def [symmetric] ls_def [symmetric] p)
  then show ?thesis
    unfolding Let_def cap_def [symmetric] fits_def [symmetric] ls_def [symmetric]
    using parse_lines_events [of cap 0 ls] parse_lines_length [of cap 0 ls] parse_lines_errors [of 0 ls cap]
    by (simp add: p)
qed

section \<open>Correlation\<close>

definition event_fits :: "string option \<Rightarrow> string \<Rightarrow> Event \<Rightarrow> Document \<Rightarrow> bool" where
  "event_fits cwd root event doc \<longleftrightarrow>
     (ev_Path event = [] \<or> trace_canonicalPath cwd (ev_Path event) root = trace_canonicalPath cwd (doc_path doc) []) \<and>
     (list_ex (\<lambda>s. identityMatches (ev_Identity event) (sym_identity s)) (doc_symbols doc) \<or> no_identity (ev_Identity event))"

lemma find_list_ex: "find P xs = None \<longleftrightarrow> \<not> list_ex P xs"
  by (induction xs) auto

lemma correlate_docs_find:
  assumes "\<not> co_Matched c"
  shows "correlate_docs cwd event (trace_canonicalPath cwd (ev_Path event) root) docs c =
    (case find (event_fits cwd root event) docs of
       None \<Rightarrow> c
     | Some doc \<Rightarrow> (case find (\<lambda>s. identityMatches (ev_Identity event) (sym_identity s)) (doc_symbols doc) of
           None \<Rightarrow> c\<lparr>co_DocumentPath := doc_path doc, co_Matched := True\<rparr>
         | Some s \<Rightarrow> c\<lparr>co_DocumentPath := doc_path doc, co_Matched := True, co_SymbolID := sym_id s\<rparr>))"
  using assms
proof (induction docs)
  case (Cons doc docs)
  define found where "found = find (\<lambda>s. identityMatches (ev_Identity event) (sym_identity s)) (doc_symbols doc)"
  have "list_ex (\<lambda>s. identityMatches (ev_Identity event) (sym_identity s)) (doc_symbols doc) \<longleftrightarrow> found \<noteq> None"
    by (simp add: found_def find_list_ex del: not_None_eq)
  then show ?case
    using Cons by (cases found) (simp_all add: event_fits_def match_symbols_def found_def [symmetric])
qed simp

text \<open>Each event is attributed, in order, to the first document whose path is the event's (any document if
  the event has none) and which has a symbol of the event's identity (or the event has no identity), and
  to the first such symbol; an event that fits no document stays unmatched.\<close>

theorem correlate_first_fit:
  "map fst (Correlate cwd events docs root) = events \<and>
   list_all (\<lambda>(event, c).
     co_Identity c = ev_Identity event \<and>
     (case find (event_fits cwd root event) docs of
        None \<Rightarrow> \<not> co_Matched c \<and> co_DocumentPath c = [] \<and> co_SymbolID c = []
      | Some doc \<Rightarrow> co_Matched c \<and> co_DocumentPath c = doc_path doc \<and>
          co_SymbolID c = (case find (\<lambda>s. identityMatches (ev_Identity event) (sym_identity s)) (doc_symbols doc) of
            None \<Rightarrow> [] | Some s \<Rightarrow> sym_id s)))
     (Correlate cwd events docs root)"
  by (simp add: Correlate_def comp_def correlate_event_def list_all_iff correlate_docs_find split: option.split)

text \<open>An event with a path only is attributed to the first symbol of the document, not to the document.\<close>

lemma event_without_identity_takes_first_symbol:
  assumes "doc_symbols doc = s # ss" and "no_identity (ev_Identity event)"
  shows "co_SymbolID (snd (correlate_event cwd [doc] root (event\<lparr>ev_Path := []\<rparr>))) = sym_id s"
  using assms by (simp add: correlate_event_def match_symbols_def identityMatches_def)

text \<open>A quoted sequence number is taken off its quotes only after the decoder has refused it.\<close>

lemma quoted_sequence_refused:
  "parse_event 100 (json_encode (JObj [(''seq'', JStr ''5'')])) = LineError ''invalid-event'' DecodeFailed"
proof -
  have "json_unmarshal (json_encode (JObj [(''seq'', JStr ''5'')])) = Some (JObj [(''seq'', JStr ''5'')])"
    using json_unmarshal_encode [of "JObj [(''seq'', JStr ''5'')]"] valid_utf8_ascii [of "''seq''"] valid_utf8_ascii [of "''5''"]
    by (simp add: valid_utf8_def)
  moreover have "length (json_encode (JObj [(''seq'', JStr ''5'')])) = 11"
    by (simp add: json_string_def json_escape_plain json_plain_def)
  moreover have "event_field ''seq'' (JStr ''5'') zero_event = None"
    by (simp add: event_field_def decode_int64_def equal_fold_def)
  ultimately show ?thesis by (simp add: parse_event_def del: json_encode.simps)
qed

text \<open>Document paths are taken relative to the working directory, event paths relative to the root.\<close>

lemma relative_document_unmatched:
  "trace_canonicalPath (Some ''/tmp'') ''a.cns'' ''/w'' \<noteq> trace_canonicalPath (Some ''/tmp'') ''a.cns'' []"
  by code_simp

end
