(* ===== verification/Workspace_Path.thy ===== *)
theory Workspace_Path
  imports Go_System Go_Utf8
begin

text \<open>
  \<^verbatim>\<open>internal/workspace/path.go\<close>: the authority that decides which files of the host a workspace may
  touch. A path or \<^verbatim>\<open>file:\<close> URI is decoded, made absolute, resolved through symbolic links as far as it
  exists and refused unless it lies in the workspace or in an external root. The parser \<^verbatim>\<open>net/url.Parse\<close>
  is an argument that gives scheme, host and path: nothing below depends on which ones it gives.
\<close>

datatype path_fault = PathFault string string

record PathAuthority =
  pa_root :: string
  pa_external :: "string list"
  pa_insensitive :: bool

record AuthorizedPath =
  ap_Canonical :: string
  ap_Relative :: string
  ap_External :: bool

section \<open>Canonical paths\<close>

text \<open>\<^verbatim>\<open>canonicalPath\<close> climbs to the nearest existing ancestor and remembers the names below it, the last
  climbed first. Every step shortens the path or stops.\<close>

function climb :: "sys \<Rightarrow> string \<Rightarrow> string list \<Rightarrow> string \<times> string list" where
  "climb sy p parts =
     (if sys_lstat sy p then (p, parts)
      else let parent = path_dir p in
        if parent = p \<or> length p \<le> length parent then (p, parts) else climb sy parent (path_base p # parts))"
  by pat_completeness auto
termination by (relation "measure (\<lambda>(sy, p, parts). length p)") auto

declare climb.simps [simp del]

definition workspace_canonicalPath :: "sys \<Rightarrow> string \<Rightarrow> string option" where
  "workspace_canonicalPath sy raw =
     (case abs_path (sys_cwd sy) (path_clean raw) of
        None \<Rightarrow> None
      | Some p \<Rightarrow>
          (case sys_eval sy p of
             Some resolved \<Rightarrow> Some (path_clean resolved)
           | None \<Rightarrow>
               (case climb sy p [] of (q, parts) \<Rightarrow>
                  (case sys_eval sy q of
                     None \<Rightarrow> None
                   | Some resolved \<Rightarrow> Some (path_clean (foldl (\<lambda>acc part. path_join [acc, part]) resolved parts))))))"

definition within :: "string \<Rightarrow> string \<Rightarrow> bool \<Rightarrow> bool" where
  "within path0 root0 insensitive =
     (let path = (if insensitive then to_lower path0 else path0); root = (if insensitive then to_lower root0 else root0)
      in path = root \<or> has_prefix path (trim_right root ''/'' @ ''/''))"

section \<open>The authority\<close>

fun external_roots :: "sys \<Rightarrow> string list \<Rightarrow> string list \<Rightarrow> path_fault + string list" where
  "external_roots sy [] acc = Inr acc"
| "external_roots sy (raw # rest) acc =
     (if trim_space raw = [] then external_roots sy rest acc
      else case workspace_canonicalPath sy raw of
        None \<Rightarrow> Inl (PathFault ''invalid-external-root'' raw)
      | Some p \<Rightarrow>
          if \<not> sys_is_dir sy p then Inl (PathFault ''invalid-external-root'' raw)
          else external_roots sy rest (acc @ [p]))"

definition NewPathAuthority :: "sys \<Rightarrow> string \<Rightarrow> string list \<Rightarrow> path_fault + PathAuthority" where
  "NewPathAuthority sy root externalRoots =
     (case workspace_canonicalPath sy root of
        None \<Rightarrow> Inl (PathFault ''invalid-root'' root)
      | Some canonical \<Rightarrow>
          if \<not> sys_is_dir sy canonical then Inl (PathFault ''invalid-root'' root)
          else case external_roots sy externalRoots [] of
            Inl e \<Rightarrow> Inl e
          | Inr external \<Rightarrow> Inr \<lparr>pa_root = canonical, pa_external = external, pa_insensitive = False\<rparr>)"

definition PathAuthority_Root :: "PathAuthority option \<Rightarrow> string" where
  "PathAuthority_Root a = (case a of None \<Rightarrow> [] | Some a' \<Rightarrow> pa_root a')"

text \<open>\<^verbatim>\<open>url.PathUnescape\<close>.\<close>

function path_unescape :: "string \<Rightarrow> string option" where
  "path_unescape s =
     (case s of
        [] \<Rightarrow> Some []
      | c # cs \<Rightarrow>
          if c = CHR ''%'' then
            (if length cs < 2 then None
             else case unhex_all 0 (take 2 cs) of
               None \<Rightarrow> None
             | Some b \<Rightarrow> map_option (\<lambda>r. char_of b # r) (path_unescape (drop 2 cs)))
          else map_option (\<lambda>r. c # r) (path_unescape cs))"
  by pat_completeness auto
termination by (relation "measure length") auto

declare path_unescape.simps [simp del]

text \<open>What \<^verbatim>\<open>url.Parse\<close> gives: scheme, host and path.\<close>

type_synonym url_parse = "string \<Rightarrow> (string \<times> string \<times> string) option"

definition decodePath :: "url_parse \<Rightarrow> string \<Rightarrow> path_fault + string" where
  "decodePath parse raw =
     (let v = trim_space raw in
      if has_prefix (to_lower v) ''file://'' then
        (case parse v of
           None \<Rightarrow> Inl (PathFault ''invalid-uri'' raw)
         | Some (scheme, host, path) \<Rightarrow>
             if scheme \<noteq> ''file'' then Inl (PathFault ''invalid-uri'' raw)
             else let named =
                 (if host \<noteq> [] \<and> \<not> equal_fold host ''localhost''
                  then (if length host = 2 \<and> host ! 1 = CHR '':'' then host @ path else [CHR 0x5C, CHR 0x5C] @ host @ path)
                  else path)
               in case path_unescape named of
                    None \<Rightarrow> Inl (PathFault ''unescape'' raw)
                  | Some u \<Rightarrow> Inr (replace_byte u (CHR 0x5C) ''/''))
      else Inr (replace_byte v (CHR 0x5C) ''/''))"

definition choose_base :: "PathAuthority \<Rightarrow> string \<Rightarrow> string \<times> bool" where
  "choose_base a canonical =
     (if within canonical (pa_root a) (pa_insensitive a) then (pa_root a, False)
      else case find (\<lambda>ext. within canonical ext (pa_insensitive a)) (pa_external a) of
        Some ext \<Rightarrow> (ext, True)
      | None \<Rightarrow> (pa_root a, False))"

definition PathAuthority_Resolve :: "url_parse \<Rightarrow> sys \<Rightarrow> PathAuthority option \<Rightarrow> string \<Rightarrow> path_fault + AuthorizedPath" where
  "PathAuthority_Resolve parse sy authority raw =
     (case authority of
        None \<Rightarrow> Inl (PathFault ''invalid-authority'' [])
      | Some a \<Rightarrow>
          (case decodePath parse raw of
             Inl e \<Rightarrow> Inl e
           | Inr v \<Rightarrow>
               if v = [] then Inl (PathFault ''empty'' raw)
               else case workspace_canonicalPath sy (if is_abs v then v else path_join [pa_root a, v]) of
                 None \<Rightarrow> Inl (PathFault ''invalid'' raw)
               | Some canonical \<Rightarrow>
                   (case choose_base a canonical of (base, external) \<Rightarrow>
                      if \<not> within canonical base (pa_insensitive a) then Inl (PathFault ''outside-root'' raw)
                      else case path_rel base canonical of
                        None \<Rightarrow> Inl (PathFault ''rel'' raw)
                      | Some rel \<Rightarrow>
                          Inr \<lparr>ap_Canonical = canonical, ap_Relative = (if rel = ''.'' then [] else rel), ap_External = external\<rparr>)))"

text \<open>\<^verbatim>\<open>url.PathEscape\<close>: letters, digits and the marks \<^verbatim>\<open>-_.~$&+=:@\<close> stay.\<close>

definition path_escape :: "string \<Rightarrow> string" where
  "path_escape s =
     concat (map (\<lambda>c. if is_upper c \<or> is_lower c \<or> is_digit c \<or> c \<in> set ''-_.~$&+=:@'' then [c]
        else CHR ''%'' # map (\<lambda>h. if is_lower h then char_of (byte_of h - 32) else h) (hex_byte (byte_of c))) s)"

definition WorkspaceURI :: "url_parse \<Rightarrow> sys \<Rightarrow> PathAuthority option \<Rightarrow> string \<Rightarrow> path_fault + string" where
  "WorkspaceURI parse sy authority raw =
     (case PathAuthority_Resolve parse sy authority raw of
        Inl e \<Rightarrow> Inl e
      | Inr p \<Rightarrow> if ap_External p then Inr (''external:/'' @ path_escape (ap_Relative p)) else Inr (''workspace:/'' @ ap_Relative p))"

end
