(* ===== verification/Startup_Manifest.thy ===== *)
theory Startup_Manifest
  imports Workspace_Path Go_Any "HOL-Library.AList"
begin

text \<open>
  \<^verbatim>\<open>internal/workspace/startup_manifest.go\<close>: the files the game loads before gameplay, found by following
  \<^verbatim>\<open>save/config.json\<close>, \<^verbatim>\<open>select.def\<close> and the \<^verbatim>\<open>[Files]\<close> sections of every definition. Go visits the keys
  of a map in any order: \<open>order\<close>, an argument, is the order taken for a list of keys.
\<close>

section \<open>Texts\<close>

definition quotes :: string where
  "quotes = [CHR 0x22, CHR 0x27]"

fun jsonStrings :: "any \<Rightarrow> string list" where
  "jsonStrings (VStr s) = [s]"
| "jsonStrings (VArr xs) = concat (map jsonStrings xs)"
| "jsonStrings _ = []"

fun unique_from :: "string option \<Rightarrow> string list \<Rightarrow> string list" where
  "unique_from prev [] = []"
| "unique_from prev (v # vs) = (if prev = Some v then unique_from prev vs else v # unique_from (Some v) vs)"

definition uniqueStrings :: "string list \<Rightarrow> string list" where
  "uniqueStrings xs = unique_from None xs"

definition splitRefs :: "string \<Rightarrow> string list" where
  "splitRefs v0 =
     (let v = trim_set (trim_space (hd (split_n2 v0 (CHR '';'')))) quotes in
      if v = [] then []
      else filter (\<lambda>p. p \<noteq> []) (map (\<lambda>p. trim_set (trim_space p) quotes) (split_on (CHR '','') v)))"

text \<open>A line of a definition: nothing, a section header with its name, or text.\<close>

datatype manifest_text = SkipLine | HeaderLine string | TextLine string

definition manifest_line :: "string \<Rightarrow> manifest_text" where
  "manifest_line raw =
     (let line = trim_space raw in
      if line = [] \<or> has_prefix line '';'' \<or> has_prefix line ''#'' then SkipLine
      else if has_prefix line ''['' then
        (case index_byte line (CHR '']'') of
           Some i \<Rightarrow> HeaderLine (trim_space (take (i - 1) (tl line)))
         | None \<Rightarrow> TextLine line)
      else TextLine line)"

type_synonym manifest_sections = "(string \<times> (string \<times> string) list) list"

definition section_entry :: "string \<Rightarrow> string \<Rightarrow> string \<Rightarrow> manifest_sections \<Rightarrow> manifest_sections" where
  "section_entry sec k v m =
     AList.update sec (AList.update k v (case map_of m sec of Some es \<Rightarrow> es | None \<Rightarrow> [])) m"

definition section_step :: "string \<times> manifest_sections \<Rightarrow> string \<Rightarrow> string \<times> manifest_sections" where
  "section_step st raw =
     (case st of (sec, m) \<Rightarrow>
        (case manifest_line raw of
           SkipLine \<Rightarrow> (sec, m)
         | HeaderLine name \<Rightarrow> (name, AList.update name [] m)
         | TextLine line \<Rightarrow>
             (case index_byte line (CHR ''='') of
                Some i \<Rightarrow> (sec, section_entry sec (trim_space (take i line)) (trim_space (drop (Suc i) line)) m)
              | None \<Rightarrow> (sec, section_entry sec (CHR ''_'' # nat_digits (length (the (map_of m sec)))) line m))))"

definition parseManifestSections :: "string \<Rightarrow> manifest_sections" where
  "parseManifestSections text = snd (foldl section_step ([], [([], [])]) (split_on (CHR 0x0A) text))"

definition section_line_step :: "string \<times> (string \<times> string list) list \<Rightarrow> string \<Rightarrow> string \<times> (string \<times> string list) list" where
  "section_line_step st raw =
     (case st of (sec, m) \<Rightarrow>
        (case manifest_line raw of
           SkipLine \<Rightarrow> (sec, m)
         | HeaderLine name \<Rightarrow> (name, m)
         | TextLine line \<Rightarrow> (sec, add_to_group sec line m)))"

definition parseManifestSectionLines :: "string \<Rightarrow> (string \<times> string list) list" where
  "parseManifestSectionLines text = snd (foldl section_line_step ([], []) (split_on (CHR 0x0A) text))"

definition readFile :: "sys \<Rightarrow> string \<Rightarrow> string" where
  "readFile sy p = (case sys_read sy p of Some b \<Rightarrow> b | None \<Rightarrow> [])"

section \<open>Paths\<close>

text \<open>The spelling of a path on disk, letter case aside: down from the nearest existing ancestor, each name
  as the directory lists it.\<close>

fun descend :: "sys \<Rightarrow> string \<Rightarrow> string list \<Rightarrow> string" where
  "descend sy cur [] = cur"
| "descend sy cur (part # parts) =
     (case find (\<lambda>name. to_lower name = to_lower part) (sys_list sy cur) of
        None \<Rightarrow> []
      | Some name \<Rightarrow> descend sy (path_join [cur, name]) parts)"

function nearest_existing :: "sys \<Rightarrow> string \<Rightarrow> string list \<Rightarrow> (string \<times> string list) option" where
  "nearest_existing sy cur parts =
     (let parent = path_dir cur in
      if parent = cur \<or> length cur \<le> length parent then None
      else if sys_exists sy parent then Some (parent, path_base cur # parts)
      else nearest_existing sy parent (path_base cur # parts))"
  by pat_completeness auto
termination by (relation "measure (\<lambda>(sy, cur, parts). length cur)") auto

declare nearest_existing.simps [simp del]

definition caseInsensitiveExisting :: "sys \<Rightarrow> string \<Rightarrow> string" where
  "caseInsensitiveExisting sy path =
     (case abs_path (sys_cwd sy) (path_clean path) of
        None \<Rightarrow> []
      | Some p \<Rightarrow>
          if sys_exists sy p then p
          else case nearest_existing sy p [] of None \<Rightarrow> [] | Some (cur, parts) \<Rightarrow> descend sy cur parts)"

definition withinPath :: "sys \<Rightarrow> string \<Rightarrow> string \<Rightarrow> bool" where
  "withinPath sy root p =
     (let abs_or_empty = (\<lambda>x. case abs_path (sys_cwd sy) x of Some a \<Rightarrow> a | None \<Rightarrow> []);
          r = to_lower (path_clean (abs_or_empty root)); q = to_lower (path_clean (abs_or_empty p))
      in q = r \<or> has_prefix q (trim_right r ''/'' @ ''/''))"

text \<open>The candidates that exist, in order; none when one of them lies outside the root.\<close>

fun found_candidates :: "sys \<Rightarrow> string \<Rightarrow> string list \<Rightarrow> string list option" where
  "found_candidates sy root [] = Some []"
| "found_candidates sy root (c # cs) =
     (let p = caseInsensitiveExisting sy c in
      if p = [] then found_candidates sy root cs
      else if withinPath sy root p then map_option (\<lambda>ps. p # ps) (found_candidates sy root cs)
      else None)"

definition variant_candidates :: "string \<Rightarrow> string \<Rightarrow> string \<Rightarrow> string list" where
  "variant_candidates root declaring v =
     (if is_abs v then [v] else [path_join [declaring, v], path_join [root, ''data'', v], path_join [root, v]])"

fun resolve_variants :: "sys \<Rightarrow> string \<Rightarrow> string \<Rightarrow> string list \<Rightarrow> string \<times> bool" where
  "resolve_variants sy root declaring [] = ([], False)"
| "resolve_variants sy root declaring (v # vs) =
     (case found_candidates sy root (variant_candidates root declaring (replace_byte v (CHR 0x5C) ''/'')) of
        None \<Rightarrow> ([], False)
      | Some ps \<Rightarrow>
          (let found = uniqueStrings ps in
           if found \<noteq> [] then (hd found, 1 < length found) else resolve_variants sy root declaring vs))"

definition resolveManifestPath :: "sys \<Rightarrow> string \<Rightarrow> string \<Rightarrow> string \<Rightarrow> string \<times> bool" where
  "resolveManifestPath sy root raw0 declaring =
     (let raw = trim_set (trim_space raw0) quotes in
      if raw = [] then ([], False)
      else resolve_variants sy root declaring (raw # (if has_prefix raw ''='' then [trim_prefix raw ''=''] else [])))"

section \<open>The walk\<close>

text \<open>The map \<^verbatim>\<open>seen\<close> holds relative paths and, behind an \<^verbatim>\<open>@\<close>, the definitions already read.\<close>

record manifest =
  mf_seen :: "string list"
  mf_out :: "string list"
  mf_diags :: "string list"

definition rel_to :: "string \<Rightarrow> string \<Rightarrow> string" where
  "rel_to root p = (case path_rel root p of Some r \<Rightarrow> r | None \<Rightarrow> [])"

definition record_path :: "string \<Rightarrow> string \<Rightarrow> manifest \<Rightarrow> manifest" where
  "record_path root p st =
     (let rel = rel_to root p in
      if rel \<in> set (mf_seen st) then st else st\<lparr>mf_seen := rel # mf_seen st, mf_out := mf_out st @ [rel]\<rparr>)"

definition add_diagnostic :: "string \<Rightarrow> string \<Rightarrow> manifest \<Rightarrow> manifest" where
  "add_diagnostic kind path st = st\<lparr>mf_diags := mf_diags st @ [kind @ CHR '':'' # path]\<rparr>"

definition manifest_add :: "sys \<Rightarrow> string \<Rightarrow> string \<Rightarrow> string \<Rightarrow> manifest \<Rightarrow> string \<times> manifest" where
  "manifest_add sy root path declaring st =
     (case resolveManifestPath sy root path declaring of (p, amb) \<Rightarrow>
        let st1 = (if amb then add_diagnostic ''ambiguous-manifest-path'' path st else st) in
        if p = [] then ([], add_diagnostic ''missing-manifest-file'' path st1)
        else (p, record_path root p st1))"

definition character_candidates :: "string \<Rightarrow> string list" where
  "character_candidates path =
     (let unix = replace_byte path (CHR 0x5C) ''/'' in
      if equal_fold (path_ext unix) ''.def'' then [path]
      else let clean = trim_suffix unix ''/'' in [clean @ ''/'' @ path_base clean @ ''.def'', clean @ ''.def'', path])"

fun try_candidates :: "sys \<Rightarrow> string \<Rightarrow> string list \<Rightarrow> string \<times> bool" where
  "try_candidates sy root [] = ([], False)"
| "try_candidates sy root (c # cs) =
     (case resolveManifestPath sy root c (path_join [root, ''chars'']) of (p, amb) \<Rightarrow>
        if p \<noteq> [] then (p, amb) else try_candidates sy root cs)"

definition addCharacter :: "sys \<Rightarrow> string \<Rightarrow> string \<Rightarrow> manifest \<Rightarrow> string \<times> manifest" where
  "addCharacter sy root path0 st =
     (let path = trim_prefix (trim_set (trim_space path0) quotes) ''='' in
      if to_lower path \<in> {[], ''empty'', ''randomselect''} then ([], st)
      else case try_candidates sy root (character_candidates path) of (p, amb) \<Rightarrow>
        if p = [] then ([], add_diagnostic ''missing-manifest-file'' path st)
        else (p, record_path root p (if amb then add_diagnostic ''ambiguous-manifest-path'' path st else st)))"

definition is_manifest_key :: "string \<Rightarrow> bool" where
  "is_manifest_key kl \<longleftrightarrow>
     kl \<in> {''select'', ''fight'', ''fonts'', ''assets'', ''cmd'', ''command'', ''cns'', ''st'', ''stcommon'', ''air'', ''sff'', ''snd''} \<or>
     contains kl ''asset''"

definition skip_common :: "sys \<Rightarrow> string \<Rightarrow> string \<Rightarrow> string \<Rightarrow> string \<Rightarrow> bool" where
  "skip_common sy root base kl ref \<longleftrightarrow>
     kl = ''stcommon'' \<and> equal_fold (path_base (replace_byte ref (CHR 0x5C) ''/'')) ''common1.cns'' \<and>
     fst (resolveManifestPath sy root ref base) = []"

text \<open>The references of one definition file, in the order they are visited: the values of the loading keys
  of its \<^verbatim>\<open>[Files]\<close> sections.\<close>

definition file_refs :: "(string list \<Rightarrow> string list) \<Rightarrow> manifest_sections \<Rightarrow> (string \<times> string) list" where
  "file_refs order sections =
     concat (map (\<lambda>sec.
        if to_lower sec = ''files'' then
          (let es = the (map_of sections sec) in
           concat (map (\<lambda>k. if is_manifest_key (to_lower k)
              then map (\<lambda>ref. (to_lower k, ref)) (splitRefs (the (map_of es k))) else []) (order (map fst es))))
        else []) (order (map fst sections)))"

text \<open>The argument counts down from 65: the code stops below depth 64.\<close>

primrec manifest_walk :: "nat \<Rightarrow> (string list \<Rightarrow> string list) \<Rightarrow> sys \<Rightarrow> string \<Rightarrow> string \<Rightarrow> manifest \<Rightarrow> manifest" where
  "manifest_walk 0 order sy root path st = st"
| "manifest_walk (Suc n) order sy root path st =
     (let key = CHR ''@'' # to_lower (path_clean path) in
      if path = [] \<or> key \<in> set (mf_seen st) then st
      else let st1 = st\<lparr>mf_seen := key # mf_seen st\<rparr> in
        (case sys_read sy path of
           None \<Rightarrow> st1
         | Some b \<Rightarrow>
             if to_lower (path_ext path) \<noteq> ''.def'' then st1
             else foldl (\<lambda>s (kl, ref).
                 if skip_common sy root (path_dir path) kl ref then s
                 else case manifest_add sy root ref (path_dir path) s of (p, s') \<Rightarrow>
                   if p \<noteq> [] then manifest_walk n order sy root p s' else s')
               st1 (file_refs order (parseManifestSections b))))"

definition add_and_walk :: "(string list \<Rightarrow> string list) \<Rightarrow> sys \<Rightarrow> string \<Rightarrow> string \<Rightarrow> string \<Rightarrow> manifest \<Rightarrow> string \<times> manifest" where
  "add_and_walk order sy root path declaring st =
     (case manifest_add sy root path declaring st of (p, st') \<Rightarrow>
        (p, if p \<noteq> [] then manifest_walk 65 order sy root p st' else st'))"

section \<open>The roots of the walk\<close>

definition config_key_step :: "(string list \<Rightarrow> string list) \<Rightarrow> sys \<Rightarrow> string \<Rightarrow> (string \<times> any) list \<Rightarrow> manifest \<Rightarrow> string \<Rightarrow> manifest" where
  "config_key_step order sy root raw st key =
     (if to_lower key \<in> {''system'', ''motif'', ''startstage'', ''trainingchar'', ''commonstates''}
      then foldl (\<lambda>s ref.
          case add_and_walk order sy root ref root s of (p, s') \<Rightarrow>
            if p = [] \<and> equal_fold key ''trainingchar'' then snd (add_and_walk order sy root (ref @ ''.def'') root s') else s')
        st (jsonStrings (the (map_of raw key)))
      else st)"

definition select_line_step :: "(string list \<Rightarrow> string list) \<Rightarrow> sys \<Rightarrow> string \<Rightarrow> string \<Rightarrow> string \<Rightarrow> manifest \<Rightarrow> string \<Rightarrow> manifest" where
  "select_line_step order sy root base low st line =
     (case splitRefs line of
        [] \<Rightarrow> st
      | ref # rest \<Rightarrow>
          if low = ''characters'' then
            (case addCharacter sy root ref st of (p, st1) \<Rightarrow>
              let st2 = (if p \<noteq> [] then manifest_walk 65 order sy root p st1 else st1) in
              case rest of
                [] \<Rightarrow> st2
              | stage # _ \<Rightarrow>
                  if contains (to_lower stage) ''.def'' \<or> CHR ''/'' \<in> set stage \<or> CHR 0x5C \<in> set stage
                  then snd (add_and_walk order sy root stage base st2) else st2)
          else snd (add_and_walk order sy root ref base st))"

definition select_section_step :: "(string list \<Rightarrow> string list) \<Rightarrow> sys \<Rightarrow> string \<Rightarrow> string \<Rightarrow> (string \<times> string list) list \<Rightarrow> manifest \<Rightarrow> string \<Rightarrow> manifest" where
  "select_section_step order sy root base sections st sec =
     (let low = to_lower sec in
      if low \<in> {''characters'', ''stages'', ''extrastages''}
      then foldl (select_line_step order sy root base low) st (the (map_of sections sec)) else st)"

definition resolveStartupManifest :: "(string list \<Rightarrow> string list) \<Rightarrow> sys \<Rightarrow> string \<Rightarrow> string list \<times> string list" where
  "resolveStartupManifest order sy root0 =
     (let root = (case abs_path (sys_cwd sy) root0 of Some r \<Rightarrow> r | None \<Rightarrow> []);
          st0 = \<lparr>mf_seen = [], mf_out = [], mf_diags = []\<rparr>;
          st1 = (case sys_read sy (path_join [root, ''save'', ''config.json'']) of
                   None \<Rightarrow> st0
                 | Some b \<Rightarrow>
                     (case json_any_map b of
                        None \<Rightarrow> st0
                      | Some raw \<Rightarrow> foldl (config_key_step order sy root raw) st0 (order (map fst raw))));
          (p1, st2) = manifest_add sy root ''data/select.def'' root st1;
          (p2, st3) = (if p1 = [] then manifest_add sy root ''select.def'' root st2 else (p1, st2));
          st4 = (if p2 = [] then st3
                 else let sections = parseManifestSectionLines (readFile sy p2) in
                   foldl (select_section_step order sy root (path_dir p2) sections) st3 (order (map fst sections)))
      in (sort_strings (mf_out st4), uniqueStrings (sort_strings (mf_diags st4))))"

end
