(* ===== verification/Profile.thy ===== *)
theory Profile
  imports Go_System
begin

text \<open>
  \<^verbatim>\<open>internal/profile/profile.go\<close>: how a compatibility profile reads the source paths authored in game
  files and resolves them. \<^verbatim>\<open>runtime.GOOS\<close> is that of a Unix host, as the separator of \<open>Go_Paths\<close> is.
\<close>

section \<open>Profiles\<close>

datatype CasePolicy = CasePolicySensitive | CasePolicyInsensitive

datatype SlashNormalization = SlashNormalizationPortable | SlashNormalizationNativeOnly

datatype ExternalPathPolicy = ExternalPathPolicyAllowAll | ExternalPathPolicyWorkspaceOnly

definition ToleranceLeadingEqualsPath :: string where "ToleranceLeadingEqualsPath = ''leading-equals-path''"
definition ToleranceCaseInsensitiveLookup :: string where "ToleranceCaseInsensitiveLookup = ''case-insensitive-lookup''"
definition ToleranceEmptyStateSections :: string where "ToleranceEmptyStateSections = ''empty-state-sections''"

record CompatibilityProfile =
  cp_Name :: string
  cp_WorkspaceRoot :: string
  cp_EqualsLiteralLeadingSlash :: bool
  cp_SlashNormalization :: SlashNormalization
  cp_CasePolicy :: CasePolicy
  cp_FallbackRoots :: "string list"
  cp_ExternalPathPolicy :: ExternalPathPolicy
  cp_RuntimeTolerance :: "string \<rightharpoonup> bool"

definition defaultCasePolicy :: CasePolicy where
  "defaultCasePolicy = CasePolicySensitive"

definition NewStrictPortableProfile :: "string \<Rightarrow> CompatibilityProfile" where
  "NewStrictPortableProfile workspaceRoot =
     \<lparr>cp_Name = ''strict/portable'', cp_WorkspaceRoot = workspaceRoot, cp_EqualsLiteralLeadingSlash = False,
      cp_SlashNormalization = SlashNormalizationPortable, cp_CasePolicy = defaultCasePolicy,
      cp_FallbackRoots = [''.'', ''data''], cp_ExternalPathPolicy = ExternalPathPolicyAllowAll,
      cp_RuntimeTolerance = [ToleranceCaseInsensitiveLookup \<mapsto> True]\<rparr>"

definition NewDistributionProfile :: "string \<Rightarrow> CompatibilityProfile" where
  "NewDistributionProfile workspaceRoot =
     \<lparr>cp_Name = ''distribution'', cp_WorkspaceRoot = workspaceRoot, cp_EqualsLiteralLeadingSlash = True,
      cp_SlashNormalization = SlashNormalizationPortable, cp_CasePolicy = defaultCasePolicy,
      cp_FallbackRoots = [''.'', ''data''], cp_ExternalPathPolicy = ExternalPathPolicyAllowAll,
      cp_RuntimeTolerance = [ToleranceLeadingEqualsPath \<mapsto> True, ToleranceEmptyStateSections \<mapsto> True]\<rparr>"

definition case_policy_num :: "CasePolicy \<Rightarrow> int" where
  "case_policy_num c = (case c of CasePolicySensitive \<Rightarrow> 0 | CasePolicyInsensitive \<Rightarrow> 1)"

definition slash_num :: "SlashNormalization \<Rightarrow> int" where
  "slash_num s = (case s of SlashNormalizationPortable \<Rightarrow> 0 | SlashNormalizationNativeOnly \<Rightarrow> 1)"

definition external_num :: "ExternalPathPolicy \<Rightarrow> int" where
  "external_num e = (case e of ExternalPathPolicyAllowAll \<Rightarrow> 0 | ExternalPathPolicyWorkspaceOnly \<Rightarrow> 1)"

definition profile_String :: "CompatibilityProfile \<Rightarrow> string" where
  "profile_String p = ''profile(name='' @ quote (cp_Name p) @ '', workspaceRoot='' @ quote (cp_WorkspaceRoot p) @
     '', equalsLiteral='' @ (if cp_EqualsLiteralLeadingSlash p then ''true'' else ''false'') @
     '', casePolicy='' @ itoa (case_policy_num (cp_CasePolicy p)) @ '', slash='' @ itoa (slash_num (cp_SlashNormalization p)) @
     '', external='' @ itoa (external_num (cp_ExternalPathPolicy p)) @ '')''"

section \<open>Authored values\<close>

definition NormalizeCase :: "CompatibilityProfile \<Rightarrow> string \<Rightarrow> string" where
  "NormalizeCase p path =
     (let path' = trim_space path in if cp_CasePolicy p = CasePolicyInsensitive then to_lower path' else path')"

definition DedupKey :: "CompatibilityProfile \<Rightarrow> string \<Rightarrow> string" where
  "DedupKey p path = NormalizeCase p (path_clean (trim_space path))"

definition isUNC :: "string \<Rightarrow> bool" where
  "isUNC v \<longleftrightarrow> has_prefix v [CHR 0x5C, CHR 0x5C] \<or> has_prefix v ''//''"

definition hasDriveLetter :: "string \<Rightarrow> bool" where
  "hasDriveLetter v \<longleftrightarrow> 2 \<le> length v \<and> v ! 1 = CHR '':''"

definition isAbsoluteValue :: "string \<Rightarrow> bool" where
  "isAbsoluteValue v \<longleftrightarrow> isUNC v \<or> hasDriveLetter v \<or> is_abs v"

definition profile_stripQuotes :: "string \<Rightarrow> string" where
  "profile_stripQuotes v0 =
     (let v = trim_space v0 in
      if 2 \<le> length v \<and> ((hd v = CHR 0x22 \<and> last v = CHR 0x22) \<or> (hd v = CHR 0x27 \<and> last v = CHR 0x27))
      then butlast (tl v) else v)"

definition normalizeSlashSeparators :: "CompatibilityProfile \<Rightarrow> string \<Rightarrow> string" where
  "normalizeSlashSeparators p v =
     (if cp_SlashNormalization p = SlashNormalizationNativeOnly then path_clean v
      else path_clean (replace_byte v (CHR 0x5C) ''/''))"

definition leading_separators :: "CompatibilityProfile \<Rightarrow> bool \<Rightarrow> string \<Rightarrow> string" where
  "leading_separators p hadEquals v =
     (if hadEquals then
        (if cp_EqualsLiteralLeadingSlash p then CHR ''='' # v else trim_left v [CHR 0x5C, CHR 0x5C, CHR ''/''])
      else if has_prefix v [CHR 0x5C] \<and> \<not> isUNC v then trim_left v [CHR 0x5C, CHR ''/''] else v)"

definition NormalizeSourceValue :: "CompatibilityProfile \<Rightarrow> string \<Rightarrow> string" where
  "NormalizeSourceValue p raw =
     (let v0 = trim_space raw in
      if v0 = [] then []
      else let hadEquals = has_prefix v0 ''='';
               v1 = (if hadEquals then trim_space (trim_prefix v0 ''='') else v0);
               v2 = trim_space (profile_stripQuotes v1)
           in if v2 = [] then []
              else let v3 = trim_space (normalizeSlashSeparators p (leading_separators p hadEquals v2))
                   in if v3 = [] \<or> v3 = ''.'' then [] else v3)"

section \<open>Resolution\<close>

definition resolvedWorkspaceRoot :: "sys \<Rightarrow> CompatibilityProfile \<Rightarrow> string" where
  "resolvedWorkspaceRoot sy p =
     (if trim_space (cp_WorkspaceRoot p) \<noteq> [] then path_clean (trim_space (cp_WorkspaceRoot p))
      else case sys_cwd sy of Some wd \<Rightarrow> path_clean wd | None \<Rightarrow> [])"

definition isWithinWorkspaceRoot :: "sys \<Rightarrow> CompatibilityProfile \<Rightarrow> string \<Rightarrow> bool" where
  "isWithinWorkspaceRoot sy p path =
     (if resolvedWorkspaceRoot sy p = [] then False
      else let fold_case = (\<lambda>s. if cp_CasePolicy p = CasePolicyInsensitive then to_lower s else s);
               root = fold_case (path_clean (resolvedWorkspaceRoot sy p)); candidate = fold_case (path_clean path)
           in if candidate = root then True
              else let root' = (if has_suffix root ''/'' then trim_right root ''/'' else root)
                   in if root' = [] then False else has_prefix candidate (root' @ ''/''))"

definition add_root :: "string \<Rightarrow> string list \<Rightarrow> string list" where
  "add_root candidate roots = (let c = path_clean (trim_space candidate) in if c \<in> set roots then roots else roots @ [c])"

definition fallback_root :: "string \<Rightarrow> string \<Rightarrow> string list \<Rightarrow> string list" where
  "fallback_root workspaceRoot root0 roots =
     (let root = trim_space root0 in
      if root = [] then roots
      else if is_abs root then add_root root roots
      else if workspaceRoot \<noteq> [] then add_root (path_join [workspaceRoot, root]) roots
      else add_root root roots)"

definition resolveSourceRoots :: "sys \<Rightarrow> CompatibilityProfile \<Rightarrow> string \<Rightarrow> string list" where
  "resolveSourceRoots sy p baseDir =
     foldl (\<lambda>roots r. fallback_root (resolvedWorkspaceRoot sy p) r roots) (add_root baseDir []) (cp_FallbackRoots p)"

definition ResolveSourcePath :: "sys \<Rightarrow> CompatibilityProfile \<Rightarrow> string \<Rightarrow> string \<Rightarrow> string" where
  "ResolveSourcePath sy p baseDir raw =
     (let v = NormalizeSourceValue p raw in
      if v = [] then []
      else if isAbsoluteValue v then
        (if cp_ExternalPathPolicy p = ExternalPathPolicyWorkspaceOnly \<and> \<not> isWithinWorkspaceRoot sy p v then [] else path_clean v)
      else case find (sys_exists sy) (map (\<lambda>root. path_clean (path_join [root, v])) (resolveSourceRoots sy p baseDir)) of
        Some candidate \<Rightarrow> candidate
      | None \<Rightarrow> path_clean (path_join [baseDir, v]))"

end
