(* ===== verification/Workspace_Config.thy ===== *)
theory Workspace_Config
  imports Startup_Manifest Profile Sha256 Go_Json
begin

text \<open>
  \<^verbatim>\<open>internal/workspace/config.go\<close>: the configuration of a workspace, from the defaults, the file
  \<^verbatim>\<open>.ikm/config.json\<close> and the flags. A slice that the code tells from nil is an option. The texts of
  wrapped errors are left out. A key that the file repeats is read as Go reads it, except that a \<^verbatim>\<open>null\<close>
  inside a repeated list is an empty text.
\<close>

section \<open>Data\<close>

definition ConfigVersion :: string where "ConfigVersion = ''0.1''"
definition ConfigDirName :: string where "ConfigDirName = ''.ikm''"
definition ConfigFileName :: string where "ConfigFileName = ''config.json''"

record Budgets =
  bu_MaxFiles :: int
  bu_MaxBytes :: int
  bu_MaxItems :: int
  bu_MaxDepth :: int
  bu_MaxDurationMS :: int

record WorkspaceConfig =
  wc_Version :: string
  wc_Root :: string
  wc_Profile :: string
  wc_EntryPoints :: "string list option"
  wc_StartupManifest :: "string list"
  wc_StartupDiagnostics :: "string list"
  wc_Cache :: string
  wc_Adapters :: "string list option"
  wc_ExternalRoots :: "string list option"
  wc_Includes :: "string list option"
  wc_Excludes :: "string list option"
  wc_Budgets :: Budgets
  wc_entryPointsExplicit :: bool

record ConfigFlags =
  cf_Root :: string
  cf_Profile :: string
  cf_Cache :: string
  cf_EntryPoints :: "string list option"
  cf_Adapters :: "string list option"
  cf_ExternalRoots :: "string list option"
  cf_Includes :: "string list option"
  cf_Excludes :: "string list option"
  cf_Budgets :: "Budgets option"

record ConfigError =
  cfe_Code :: string
  cfe_Field :: string

definition config_error :: "string \<Rightarrow> string \<Rightarrow> ConfigError" where
  "config_error code fld = \<lparr>cfe_Code = code, cfe_Field = fld\<rparr>"

text \<open>The message, given the text of the wrapped error.\<close>

definition ConfigError_Error :: "ConfigError \<Rightarrow> string \<Rightarrow> string" where
  "ConfigError_Error e err =
     (if cfe_Field e = [] then ''configuration.'' @ cfe_Code e @ '': '' @ err
      else ''configuration.'' @ cfe_Code e @ '' ('' @ cfe_Field e @ ''): '' @ err)"

definition defaultBudgets :: Budgets where
  "defaultBudgets = \<lparr>bu_MaxFiles = 100000, bu_MaxBytes = 2 ^ 30, bu_MaxItems = 10000, bu_MaxDepth = 64, bu_MaxDurationMS = 120000\<rparr>"

definition zero_budgets :: Budgets where
  "zero_budgets = \<lparr>bu_MaxFiles = 0, bu_MaxBytes = 0, bu_MaxItems = 0, bu_MaxDepth = 0, bu_MaxDurationMS = 0\<rparr>"

definition zero_config :: WorkspaceConfig where
  "zero_config = \<lparr>wc_Version = [], wc_Root = [], wc_Profile = [], wc_EntryPoints = None, wc_StartupManifest = [],
     wc_StartupDiagnostics = [], wc_Cache = [], wc_Adapters = None, wc_ExternalRoots = None, wc_Includes = None,
     wc_Excludes = None, wc_Budgets = zero_budgets, wc_entryPointsExplicit = False\<rparr>"

definition DefaultWorkspaceConfig :: WorkspaceConfig where
  "DefaultWorkspaceConfig = zero_config\<lparr>wc_Version := ConfigVersion, wc_Profile := ''strict/portable'', wc_Cache := ''memory'',
     wc_Budgets := defaultBudgets\<rparr>"

section \<open>The file\<close>

definition json_text :: "json \<Rightarrow> string \<Rightarrow> string option" where
  "json_text v old = (case v of JNull \<Rightarrow> Some old | JStr s \<Rightarrow> Some s | _ \<Rightarrow> None)"

definition json_int :: "json \<Rightarrow> int \<Rightarrow> int option" where
  "json_int v old = (case v of JNull \<Rightarrow> Some old | JNum lit \<Rightarrow> atoi lit | _ \<Rightarrow> None)"

definition json_texts :: "json \<Rightarrow> string list option option" where
  "json_texts v = (case v of JNull \<Rightarrow> Some None | JArr xs \<Rightarrow> map_option Some (those (map (\<lambda>x. json_text x []) xs)) | _ \<Rightarrow> None)"

definition budget_field :: "string \<times> json \<Rightarrow> Budgets \<Rightarrow> Budgets option" where
  "budget_field kv b =
     (case kv of (k, v) \<Rightarrow>
        if equal_fold k ''maxFiles'' then map_option (\<lambda>i. b\<lparr>bu_MaxFiles := i\<rparr>) (json_int v (bu_MaxFiles b))
        else if equal_fold k ''maxBytes'' then map_option (\<lambda>i. b\<lparr>bu_MaxBytes := i\<rparr>) (json_int v (bu_MaxBytes b))
        else if equal_fold k ''maxItems'' then map_option (\<lambda>i. b\<lparr>bu_MaxItems := i\<rparr>) (json_int v (bu_MaxItems b))
        else if equal_fold k ''maxDepth'' then map_option (\<lambda>i. b\<lparr>bu_MaxDepth := i\<rparr>) (json_int v (bu_MaxDepth b))
        else if equal_fold k ''maxDurationMs'' then map_option (\<lambda>i. b\<lparr>bu_MaxDurationMS := i\<rparr>) (json_int v (bu_MaxDurationMS b))
        else None)"

fun decode_all :: "('f \<Rightarrow> 'r \<Rightarrow> 'r option) \<Rightarrow> 'f list \<Rightarrow> 'r \<Rightarrow> 'r option" where
  "decode_all step [] r = Some r"
| "decode_all step (f # fs) r = Option.bind (step f r) (decode_all step fs)"

definition json_budgets :: "json \<Rightarrow> Budgets \<Rightarrow> Budgets option" where
  "json_budgets v b = (case v of JNull \<Rightarrow> Some b | JObj fs \<Rightarrow> decode_all budget_field fs b | _ \<Rightarrow> None)"

definition config_field :: "string \<times> json \<Rightarrow> WorkspaceConfig \<Rightarrow> WorkspaceConfig option" where
  "config_field kv c =
     (case kv of (k, v) \<Rightarrow>
        if equal_fold k ''version'' then map_option (\<lambda>s. c\<lparr>wc_Version := s\<rparr>) (json_text v (wc_Version c))
        else if equal_fold k ''root'' then map_option (\<lambda>s. c\<lparr>wc_Root := s\<rparr>) (json_text v (wc_Root c))
        else if equal_fold k ''profile'' then map_option (\<lambda>s. c\<lparr>wc_Profile := s\<rparr>) (json_text v (wc_Profile c))
        else if equal_fold k ''entryPoints'' then map_option (\<lambda>x. c\<lparr>wc_EntryPoints := x\<rparr>) (json_texts v)
        else if equal_fold k ''startupManifest'' then map_option (\<lambda>x. c\<lparr>wc_StartupManifest := (case x of None \<Rightarrow> [] | Some l \<Rightarrow> l)\<rparr>) (json_texts v)
        else if equal_fold k ''startupDiagnostics'' then map_option (\<lambda>x. c\<lparr>wc_StartupDiagnostics := (case x of None \<Rightarrow> [] | Some l \<Rightarrow> l)\<rparr>) (json_texts v)
        else if equal_fold k ''cache'' then map_option (\<lambda>s. c\<lparr>wc_Cache := s\<rparr>) (json_text v (wc_Cache c))
        else if equal_fold k ''adapters'' then map_option (\<lambda>x. c\<lparr>wc_Adapters := x\<rparr>) (json_texts v)
        else if equal_fold k ''externalRoots'' then map_option (\<lambda>x. c\<lparr>wc_ExternalRoots := x\<rparr>) (json_texts v)
        else if equal_fold k ''includes'' then map_option (\<lambda>x. c\<lparr>wc_Includes := x\<rparr>) (json_texts v)
        else if equal_fold k ''excludes'' then map_option (\<lambda>x. c\<lparr>wc_Excludes := x\<rparr>) (json_texts v)
        else if equal_fold k ''budgets'' then map_option (\<lambda>b. c\<lparr>wc_Budgets := b\<rparr>) (json_budgets v (wc_Budgets c))
        else None)"

text \<open>\<^verbatim>\<open>Decoder.Decode\<close> with \<^verbatim>\<open>DisallowUnknownFields\<close>.\<close>

definition decode_config :: "string \<Rightarrow> WorkspaceConfig option" where
  "decode_config data =
     (case json_first data of
        Some (JObj fs) \<Rightarrow> decode_all config_field fs zero_config
      | Some JNull \<Rightarrow> Some zero_config
      | _ \<Rightarrow> None)"

definition or_else :: "'a option \<Rightarrow> 'a option \<Rightarrow> 'a option" where
  "or_else a b = (case a of None \<Rightarrow> b | Some _ \<Rightarrow> a)"

definition nonempty_or :: "string \<Rightarrow> string \<Rightarrow> string" where
  "nonempty_or a b = (if a \<noteq> [] then a else b)"

definition apply_file :: "WorkspaceConfig \<Rightarrow> WorkspaceConfig \<Rightarrow> WorkspaceConfig" where
  "apply_file fileCfg cfg =
     cfg\<lparr>wc_Version := nonempty_or (wc_Version fileCfg) (wc_Version cfg),
       wc_Profile := nonempty_or (wc_Profile fileCfg) (wc_Profile cfg),
       wc_Cache := nonempty_or (wc_Cache fileCfg) (wc_Cache cfg),
       wc_entryPointsExplicit := (if wc_Cache fileCfg \<noteq> [] then wc_EntryPoints fileCfg \<noteq> None else wc_entryPointsExplicit cfg),
       wc_EntryPoints := or_else (wc_EntryPoints fileCfg) (wc_EntryPoints cfg),
       wc_Adapters := or_else (wc_Adapters fileCfg) (wc_Adapters cfg),
       wc_ExternalRoots := or_else (wc_ExternalRoots fileCfg) (wc_ExternalRoots cfg),
       wc_Includes := or_else (wc_Includes fileCfg) (wc_Includes cfg),
       wc_Excludes := or_else (wc_Excludes fileCfg) (wc_Excludes cfg),
       wc_Budgets := (if wc_Budgets fileCfg \<noteq> zero_budgets then wc_Budgets fileCfg else wc_Budgets cfg)\<rparr>"

definition apply_flags :: "ConfigFlags \<Rightarrow> WorkspaceConfig \<Rightarrow> WorkspaceConfig" where
  "apply_flags flags cfg =
     cfg\<lparr>wc_Profile := nonempty_or (cf_Profile flags) (wc_Profile cfg),
       wc_Cache := nonempty_or (cf_Cache flags) (wc_Cache cfg),
       wc_EntryPoints := or_else (cf_EntryPoints flags) (wc_EntryPoints cfg),
       wc_entryPointsExplicit := (cf_EntryPoints flags \<noteq> None \<or> wc_entryPointsExplicit cfg),
       wc_ExternalRoots := or_else (cf_ExternalRoots flags) (wc_ExternalRoots cfg),
       wc_Includes := or_else (cf_Includes flags) (wc_Includes cfg),
       wc_Excludes := or_else (cf_Excludes flags) (wc_Excludes cfg),
       wc_Budgets := (case cf_Budgets flags of Some b \<Rightarrow> b | None \<Rightarrow> wc_Budgets cfg)\<rparr>"

section \<open>Validation and digest\<close>

definition validateConfig :: "WorkspaceConfig \<Rightarrow> ConfigError option" where
  "validateConfig cfg =
     (let b = wc_Budgets cfg in
      if wc_Version cfg \<noteq> ConfigVersion then Some (config_error ''unsupported-version'' ''version'')
      else if trim_space (wc_Profile cfg) \<noteq> ''strict/portable'' \<and> trim_space (wc_Profile cfg) \<noteq> ''distribution''
      then Some (config_error ''invalid-profile'' ''profile'')
      else if wc_Cache cfg \<noteq> ''memory'' \<and> wc_Cache cfg \<noteq> ''disk'' \<and> wc_Cache cfg \<noteq> ''disabled''
      then Some (config_error ''invalid-limit'' ''cache'')
      else if bu_MaxFiles b \<le> 0 \<or> bu_MaxBytes b \<le> 0 \<or> bu_MaxItems b \<le> 0 \<or> bu_MaxDepth b \<le> 0 \<or> bu_MaxDurationMS b \<le> 0
      then Some (config_error ''invalid-limit'' ''budgets'')
      else None)"

definition sortedClean :: "string list option \<Rightarrow> string list" where
  "sortedClean xs = sort_strings (filter (\<lambda>v. v \<noteq> []) (map trim_space (case xs of None \<Rightarrow> [] | Some l \<Rightarrow> l)))"

definition normalizeConfig :: "WorkspaceConfig \<Rightarrow> WorkspaceConfig" where
  "normalizeConfig cfg =
     cfg\<lparr>wc_EntryPoints := Some (sortedClean (wc_EntryPoints cfg)), wc_Adapters := Some (sortedClean (wc_Adapters cfg)),
       wc_ExternalRoots := Some (sortedClean (wc_ExternalRoots cfg)), wc_Includes := Some (sortedClean (wc_Includes cfg)),
       wc_Excludes := Some (sortedClean (wc_Excludes cfg))\<rparr>"

definition json_opt_texts :: "string list option \<Rightarrow> json" where
  "json_opt_texts x = (case x of None \<Rightarrow> JNull | Some l \<Rightarrow> JArr (map JStr l))"

definition omit_empty_texts :: "string \<Rightarrow> string list \<Rightarrow> (string \<times> json) list" where
  "omit_empty_texts name l = (if l = [] then [] else [(name, JArr (map JStr l))])"

definition config_json :: "WorkspaceConfig \<Rightarrow> json" where
  "config_json c = JObj
     ([(''version'', JStr (wc_Version c)), (''root'', JStr (wc_Root c)), (''profile'', JStr (wc_Profile c)),
       (''entryPoints'', json_opt_texts (wc_EntryPoints c))] @
      omit_empty_texts ''startupManifest'' (wc_StartupManifest c) @
      omit_empty_texts ''startupDiagnostics'' (wc_StartupDiagnostics c) @
      [(''cache'', JStr (wc_Cache c)), (''adapters'', json_opt_texts (wc_Adapters c)),
       (''externalRoots'', json_opt_texts (wc_ExternalRoots c)), (''includes'', json_opt_texts (wc_Includes c)),
       (''excludes'', json_opt_texts (wc_Excludes c)),
       (''budgets'', JObj [(''maxFiles'', JInt (bu_MaxFiles (wc_Budgets c))), (''maxBytes'', JInt (bu_MaxBytes (wc_Budgets c))),
          (''maxItems'', JInt (bu_MaxItems (wc_Budgets c))), (''maxDepth'', JInt (bu_MaxDepth (wc_Budgets c))),
          (''maxDurationMs'', JInt (bu_MaxDurationMS (wc_Budgets c)))])])"

definition Digest :: "WorkspaceConfig \<Rightarrow> string" where
  "Digest c = sha256_hex (json_encode (config_json (normalizeConfig c)))"

section \<open>Resolution\<close>

definition isSemanticSourcePath :: "string \<Rightarrow> bool" where
  "isSemanticSourcePath path \<longleftrightarrow> to_lower (path_ext path) \<in> {''.def'', ''.cns'', ''.cmd'', ''.st'', ''.txt'', ''.reb1''}"

definition derive_entry_points :: "(string list \<Rightarrow> string list) \<Rightarrow> sys \<Rightarrow> string \<Rightarrow> WorkspaceConfig \<Rightarrow> WorkspaceConfig" where
  "derive_entry_points order sy root cfg =
     (if wc_EntryPoints cfg \<noteq> None \<and> wc_EntryPoints cfg \<noteq> Some [] then cfg
      else case resolveStartupManifest order sy root of (manifest, diags) \<Rightarrow>
        let entries = filter isSemanticSourcePath manifest in
        cfg\<lparr>wc_StartupManifest := manifest, wc_StartupDiagnostics := diags,
          wc_EntryPoints := (if entries = [] then wc_EntryPoints cfg else Some entries)\<rparr>)"

definition ResolveConfig :: "(string list \<Rightarrow> string list) \<Rightarrow> sys \<Rightarrow> string \<Rightarrow> ConfigFlags \<Rightarrow> ConfigError + WorkspaceConfig" where
  "ResolveConfig order sy root0 flags =
     (let root = (if cf_Root flags \<noteq> [] then trim_space (cf_Root flags) else trim_space root0) in
      if root = [] then Inl (config_error ''invalid-root'' [])
      else case abs_path (sys_cwd sy) (path_clean root) of
        None \<Rightarrow> Inl (config_error ''invalid-root'' [])
      | Some full \<Rightarrow>
          if \<not> sys_is_dir sy full then Inl (config_error ''invalid-root'' [])
          else case (case sys_read sy (path_join [full, ConfigDirName, ConfigFileName]) of
                       None \<Rightarrow> Some DefaultWorkspaceConfig
                     | Some data \<Rightarrow> map_option (\<lambda>fc. apply_file fc DefaultWorkspaceConfig) (decode_config data)) of
            None \<Rightarrow> Inl (config_error ''invalid'' [])
          | Some cfg1 \<Rightarrow>
              let cfg = (apply_flags flags (derive_entry_points order sy full cfg1))\<lparr>wc_Root := full\<rparr> in
              case validateConfig cfg of Some e \<Rightarrow> Inl e | None \<Rightarrow> Inr (normalizeConfig cfg))"

definition ProfileValue :: "WorkspaceConfig \<Rightarrow> CompatibilityProfile" where
  "ProfileValue c =
     (let p = (if wc_Profile c = ''distribution'' then NewDistributionProfile (wc_Root c) else NewStrictPortableProfile (wc_Root c));
          roots = (case wc_ExternalRoots c of None \<Rightarrow> [] | Some l \<Rightarrow> l)
      in p\<lparr>cp_Name := wc_Profile c, cp_FallbackRoots := (if roots \<noteq> [] then roots else cp_FallbackRoots p)\<rparr>)"

end
