(* ===== verification/Workspace_Discovery.thy ===== *)
theory Workspace_Discovery
  imports Go_Utf8 Go_Paths Workspace_Config
begin

text \<open>
  \<^verbatim>\<open>filepath.Match\<close> on a Unix host: a pattern is parsed into tokens, a malformed one matches nothing. What
  stands between two stars is matched at its leftmost place and not tried again further on.
\<close>

datatype glob = GStar | GAny | GLit char | GClass bool "(nat \<times> nat) list"

text \<open>One end of a range: a rune, escaped or not, that is not the end of the pattern.\<close>

definition glob_esc :: "string \<Rightarrow> (nat \<times> string) option" where
  "glob_esc s =
     (case s of
        [] \<Rightarrow> None
      | c # cs \<Rightarrow>
          if c = CHR ''-'' \<or> c = CHR '']'' then None
          else let t = (if c = CHR 0x5C then cs else s) in
            if t = [] then None
            else case decode_rune t of (r, w) \<Rightarrow>
              if r = rune_error \<and> w = 1 then None
              else if drop w t = [] then None else Some (r, drop w t))"

lemma glob_esc_shorter: "glob_esc s = Some (r, t) \<Longrightarrow> length t < length s"
  using decode_rune_width [of s] decode_rune_width [of "tl s"]
  by (cases s) (auto simp: glob_esc_def Let_def split: if_splits prod.splits)

text \<open>The ranges of a class, up to its bracket; a class has at least one.\<close>

function glob_ranges :: "bool \<Rightarrow> string \<Rightarrow> ((nat \<times> nat) list \<times> string) option" where
  "glob_ranges some_range s =
     (if s \<noteq> [] \<and> hd s = CHR '']'' \<and> some_range then Some ([], tl s)
      else case glob_esc s of
        None \<Rightarrow> None
      | Some (lo, t) \<Rightarrow>
          if hd t = CHR ''-'' then
            (case glob_esc (tl t) of
               None \<Rightarrow> None
             | Some (hi, u) \<Rightarrow>
                 (case glob_ranges True u of None \<Rightarrow> None | Some (rs, rest) \<Rightarrow> Some ((lo, hi) # rs, rest)))
          else (case glob_ranges True t of None \<Rightarrow> None | Some (rs, rest) \<Rightarrow> Some ((lo, lo) # rs, rest)))"
  by pat_completeness auto
termination
  by (relation "measure (\<lambda>(b, s). length s)") (auto dest!: glob_esc_shorter)

declare glob_ranges.simps [simp del]

fun glob_parse :: "nat \<Rightarrow> string \<Rightarrow> glob list option" where
  "glob_parse fuel [] = Some []"
| "glob_parse 0 (c # cs) = None"
| "glob_parse (Suc n) (c # cs) =
     (if c = CHR ''*'' then map_option (\<lambda>g. GStar # g) (glob_parse n cs)
      else if c = CHR ''?'' then map_option (\<lambda>g. GAny # g) (glob_parse n cs)
      else if c = CHR ''['' then
        (let neg = (cs \<noteq> [] \<and> hd cs = CHR ''^'') in
         case glob_ranges False (if neg then tl cs else cs) of
           None \<Rightarrow> None
         | Some (rs, rest) \<Rightarrow> map_option (\<lambda>g. GClass neg rs # g) (glob_parse n rest))
      else if c = CHR 0x5C then
        (case cs of [] \<Rightarrow> None | d # ds \<Rightarrow> map_option (\<lambda>g. GLit d # g) (glob_parse n ds))
      else map_option (\<lambda>g. GLit c # g) (glob_parse n cs))"

text \<open>The stretches of a pattern: whether stars stand before, and the tokens up to the next star.\<close>

fun glob_chunks :: "bool \<Rightarrow> glob list \<Rightarrow> glob list \<Rightarrow> (bool \<times> glob list) list" where
  "glob_chunks star acc [] = (if star \<or> acc \<noteq> [] then [(star, acc)] else [])"
| "glob_chunks star acc (g # gs) =
     (if g = GStar then (if acc = [] then glob_chunks True [] gs else (star, acc) # glob_chunks True [] gs)
      else glob_chunks star (acc @ [g]) gs)"

text \<open>A question mark does not match a separator; a class may.\<close>

fun glob_chunk :: "glob list \<Rightarrow> string \<Rightarrow> string option" where
  "glob_chunk [] s = Some s"
| "glob_chunk (GAny # g) s = (if s = [] \<or> hd s = slash then None else glob_chunk g (drop (snd (decode_rune s)) s))"
| "glob_chunk (GLit c # g) s = (if s = [] \<or> hd s \<noteq> c then None else glob_chunk g (tl s))"
| "glob_chunk (GClass neg rs # g) s =
     (if s = [] then None
      else let r = fst (decode_rune s) in
        if list_ex (\<lambda>(lo, hi). lo \<le> r \<and> r \<le> hi) rs = neg then None else glob_chunk g (drop (snd (decode_rune s)) s))"
| "glob_chunk (GStar # g) s = None"

definition accepted_rest :: "bool \<Rightarrow> string option \<Rightarrow> bool" where
  "accepted_rest longer t \<longleftrightarrow> (case t of None \<Rightarrow> False | Some u \<Rightarrow> u = [] \<or> longer)"

fun glob_match :: "(bool \<times> glob list) list \<Rightarrow> string \<Rightarrow> bool" where
  "glob_match [] s \<longleftrightarrow> s = []"
| "glob_match ((star, chunk) # ps) s \<longleftrightarrow>
     (if star \<and> chunk = [] then slash \<notin> set s
      else if accepted_rest (ps \<noteq> []) (glob_chunk chunk s) then glob_match ps (the (glob_chunk chunk s))
      else if star then
        (case find (\<lambda>i. accepted_rest (ps \<noteq> []) (glob_chunk chunk (drop i s)))
                [1..<Suc (length (takeWhile (\<lambda>c. c \<noteq> slash) s))] of
           None \<Rightarrow> False
         | Some i \<Rightarrow> glob_match ps (the (glob_chunk chunk (drop i s))))
      else False)"

definition path_match :: "string \<Rightarrow> string \<Rightarrow> bool" where
  "path_match pattern name =
     (case glob_parse (length pattern) pattern of None \<Rightarrow> False | Some g \<Rightarrow> glob_match (glob_chunks False [] g) name)"

text \<open>
  \<^verbatim>\<open>internal/workspace/discovery.go\<close> and \<^verbatim>\<open>session.go\<close>: the inventory of a workspace and the session that
  keeps the last one. The tree under the root, as \<^verbatim>\<open>filepath.WalkDir\<close> reads it, is an argument; a
  directory that cannot be listed is \<open>EFail\<close>.
\<close>

section \<open>Data\<close>

definition ManifestVersion :: string where "ManifestVersion = ''0.1''"

record DiscoveredFile =
  df_Path :: string
  df_Kind :: string
  df_Active :: bool
  df_Reason :: string
  df_EntryPoint :: string
  df_Size :: int
  df_SHA256 :: string

record DiscoveryResult =
  dr_Version :: string
  dr_Root :: string
  dr_Files :: "DiscoveredFile list"
  dr_Orphans :: int
  dr_Truncated :: bool
  dr_Reasons :: "string list"
  dr_Diagnostics :: "string list"
  dr_ConfigDigest :: string

record ws_Snapshot =
  sn_Version :: string
  sn_ID :: string
  sn_Files :: "DiscoveredFile list"
  sn_Truncated :: bool
  sn_Reasons :: "string list"

datatype entry = EFile | EDir "(string \<times> entry) list" | EFail

section \<open>What is left out\<close>

definition loadIgnore :: "sys \<Rightarrow> string \<Rightarrow> string list" where
  "loadIgnore sy root =
     (case sys_read sy (path_join [root, ''.ikmignore'']) of
        None \<Rightarrow> []
      | Some b \<Rightarrow> sort_strings (filter (\<lambda>l. l \<noteq> [] \<and> \<not> has_prefix l ''#'') (map trim_space (split_on (CHR 0x0A) b))))"

definition ignored_by :: "string \<Rightarrow> string \<Rightarrow> bool" where
  "ignored_by path p0 =
     (let p = trim_prefix (trim_space p0) ''/'' in
      path_match p path \<or> (has_suffix p ''/'' \<and> has_prefix path p) \<or> has_prefix path (p @ ''/''))"

definition ignored :: "string \<Rightarrow> string list \<Rightarrow> bool" where
  "ignored path pats \<longleftrightarrow> list_ex (ignored_by path) pats"

definition defaultExcluded :: "string \<Rightarrow> bool" where
  "defaultExcluded rel0 =
     (let rel = to_lower rel0 in
      list_ex (\<lambda>p. has_prefix rel p \<or> contains rel (CHR ''/'' # p))
        [''_upstream/'', ''tooling/'', ''cache/'', ''logs/'', ''log/'', ''generated/''])"

definition generatedBinary :: "string \<Rightarrow> bool" where
  "generatedBinary rel \<longleftrightarrow>
     to_lower (path_ext rel) \<in> {''.exe'', ''.dll'', ''.so'', ''.dylib'', ''.zip'', ''.7z'', ''.rar'', ''.png'', ''.jpg'', ''.jpeg'',
       ''.gif'', ''.bmp'', ''.wav'', ''.mp3'', ''.ogg''}"

definition skip_file :: "string list \<Rightarrow> string \<Rightarrow> bool" where
  "skip_file pats rel \<longleftrightarrow> ignored rel pats \<or> has_prefix rel ''.ikm/'' \<or> defaultExcluded rel \<or> generatedBinary rel"

text \<open>\<^verbatim>\<open>filepath.WalkDir\<close> with the callback of \<^verbatim>\<open>Discover\<close>: the files it collects, none if a directory fails.\<close>

fun walk_entry :: "string \<Rightarrow> string list \<Rightarrow> string \<Rightarrow> entry \<Rightarrow> string list option"
  and walk_children :: "string \<Rightarrow> string list \<Rightarrow> string \<Rightarrow> (string \<times> entry) list \<Rightarrow> string list option" where
  "walk_entry root pats path EFile = Some (if skip_file pats (rel_to root path) then [] else [path])"
| "walk_entry root pats path EFail =
     (if path \<noteq> root \<and> (ignored (rel_to root path) pats \<or> defaultExcluded (rel_to root path)) then Some [] else None)"
| "walk_entry root pats path (EDir es) =
     (if path \<noteq> root \<and> (ignored (rel_to root path) pats \<or> defaultExcluded (rel_to root path)) then Some []
      else walk_children root pats path es)"
| "walk_children root pats path [] = Some []"
| "walk_children root pats path ((name, e) # es) =
     (case walk_entry root pats (path_join [path, name]) e of
        None \<Rightarrow> None
      | Some ps \<Rightarrow> map_option (\<lambda>qs. ps @ qs) (walk_children root pats path es))"

section \<open>Discovery\<close>

fun active_entries :: "url_parse \<Rightarrow> sys \<Rightarrow> PathAuthority \<Rightarrow> string list \<Rightarrow> (string \<rightharpoonup> string) \<Rightarrow> (string \<rightharpoonup> string)" where
  "active_entries parse sy a [] m = m"
| "active_entries parse sy a (ep # eps) m =
     active_entries parse sy a eps
       (case PathAuthority_Resolve parse sy (Some a) ep of Inl _ \<Rightarrow> m | Inr p \<Rightarrow> m(ap_Canonical p \<mapsto> ep))"

definition discovered_file :: "sys \<Rightarrow> string \<Rightarrow> int \<Rightarrow> (string \<rightharpoonup> string) \<Rightarrow> string \<Rightarrow> file_info \<Rightarrow> DiscoveredFile" where
  "discovered_file sy root maxBytes entries p st =
     \<lparr>df_Path = rel_to root p, df_Kind = path_ext p, df_Active = (entries p \<noteq> None), df_Reason = ''fallback-inventory'',
      df_EntryPoint = (case entries p of None \<Rightarrow> [] | Some ep \<Rightarrow> ep), df_Size = fi_size st,
      df_SHA256 = (if fi_size st \<le> maxBytes then (case sys_read sy p of Some b \<Rightarrow> sha256_hex b | None \<Rightarrow> []) else [])\<rparr>"

fun inventory :: "sys \<Rightarrow> WorkspaceConfig \<Rightarrow> (string \<rightharpoonup> string) \<Rightarrow> string list \<Rightarrow> DiscoveryResult \<Rightarrow> DiscoveryResult" where
  "inventory sy cfg entries [] d = d"
| "inventory sy cfg entries (p # ps) d =
     (case sys_stat sy p of
        None \<Rightarrow> inventory sy cfg entries ps d
      | Some st \<Rightarrow>
          (let f = discovered_file sy (dr_Root d) (bu_MaxBytes (wc_Budgets cfg)) entries p st;
               d' = d\<lparr>dr_Files := dr_Files d @ [f], dr_Orphans := (if df_Active f then dr_Orphans d else dr_Orphans d + 1)\<rparr>
           in if bu_MaxFiles (wc_Budgets cfg) \<le> int (length (dr_Files d'))
              then d'\<lparr>dr_Truncated := True, dr_Reasons := [''maxFiles'']\<rparr>
              else inventory sy cfg entries ps d'))"

datatype discover_error = AuthorityError path_fault | WalkError

definition Discover :: "url_parse \<Rightarrow> sys \<Rightarrow> entry \<Rightarrow> string \<Rightarrow> WorkspaceConfig \<Rightarrow> discover_error + DiscoveryResult" where
  "Discover parse sy tree root cfg =
     (case NewPathAuthority sy root (case wc_ExternalRoots cfg of None \<Rightarrow> [] | Some l \<Rightarrow> l) of
        Inl e \<Rightarrow> Inl (AuthorityError e)
      | Inr a \<Rightarrow>
          (let d = \<lparr>dr_Version = ManifestVersion, dr_Root = pa_root a, dr_Files = [], dr_Orphans = 0, dr_Truncated = False,
                 dr_Reasons = [], dr_Diagnostics = wc_StartupDiagnostics cfg, dr_ConfigDigest = Digest cfg\<rparr>;
               entries = active_entries parse sy a
                 ((case wc_EntryPoints cfg of None \<Rightarrow> [] | Some l \<Rightarrow> l) @ wc_StartupManifest cfg) Map.empty
           in case walk_entry (pa_root a) (loadIgnore sy (pa_root a)) (pa_root a) tree of
                None \<Rightarrow> Inl WalkError
              | Some paths \<Rightarrow> Inr (inventory sy cfg entries (sort_strings paths) d)))"

section \<open>Snapshots\<close>

definition file_less :: "DiscoveredFile \<Rightarrow> DiscoveredFile \<Rightarrow> bool" where
  "file_less a b =
     (if df_Path a \<noteq> df_Path b then df_Path a < df_Path b
      else if df_SHA256 a \<noteq> df_SHA256 b then df_SHA256 a < df_SHA256 b
      else df_EntryPoint a < df_EntryPoint b)"

definition json_file :: "DiscoveredFile \<Rightarrow> json" where
  "json_file f = JObj ([(''path'', JStr (df_Path f)), (''kind'', JStr (df_Kind f)), (''active'', JBool (df_Active f)),
     (''reason'', JStr (df_Reason f))] @ omit_empty ''entryPoint'' (df_EntryPoint f) @
     [(''size'', JInt (df_Size f)), (''sha256'', JStr (df_SHA256 f))])"

definition snapshot_identity :: "DiscoveredFile list \<Rightarrow> bool \<Rightarrow> string list \<Rightarrow> json" where
  "snapshot_identity files truncated reasons =
     JObj ([(''files'', JArr (map json_file files)), (''truncated'', JBool truncated)] @ omit_empty_texts ''reasons'' reasons)"

definition discovery_Snapshot :: "DiscoveryResult \<Rightarrow> ws_Snapshot" where
  "discovery_Snapshot d =
     (let files = sort_by file_less (dr_Files d) in
      \<lparr>sn_Version = ManifestVersion,
       sn_ID = sha256_hex (json_encode (snapshot_identity (filter df_Active files) (dr_Truncated d) (dr_Reasons d))),
       sn_Files = files, sn_Truncated = dr_Truncated d, sn_Reasons = dr_Reasons d\<rparr>)"

end
