(* ===== verification/Workspace_Session.thy ===== *)
theory Workspace_Session
  imports Workspace_Discovery "HOL-Library.Word"
begin

text \<open>
  \<^verbatim>\<open>internal/workspace/session.go\<close>: scans of one session by any number of threads. \<^verbatim>\<open>Session.Scan\<close> takes the
  lock twice, so it is five steps of its thread: begin (cancel the running scan, become the running
  one), find (read the disk), test for cancellation, commit, and each may be interleaved with steps of
  other scans. A scan is a number, used once. Its caller may cancel it at any time.
\<close>

datatype phase =
    Idle
  | Begun
  | Found ws_Snapshot
  | Tested ws_Snapshot
  | Returned ws_Snapshot
  | Stopped

record session =
  se_current :: ws_Snapshot
  se_generation :: "64 word"
  se_running :: "nat option"
  se_cancelled :: "nat set"
  se_phase :: "nat \<Rightarrow> phase"

definition zero_snapshot :: ws_Snapshot where
  "zero_snapshot = \<lparr>sn_Version = [], sn_ID = [], sn_Files = [], sn_Truncated = False, sn_Reasons = []\<rparr>"

definition NewSession :: session where
  "NewSession = \<lparr>se_current = zero_snapshot, se_generation = 0, se_running = None, se_cancelled = {}, se_phase = (\<lambda>_. Idle)\<rparr>"

definition set_phase :: "nat \<Rightarrow> phase \<Rightarrow> session \<Rightarrow> session" where
  "set_phase i ph s = s\<lparr>se_phase := (se_phase s)(i := ph)\<rparr>"

definition scan_begin :: "nat \<Rightarrow> session \<Rightarrow> session" where
  "scan_begin i s =
     set_phase i Begun
       (s\<lparr>se_cancelled := (case se_running s of None \<Rightarrow> se_cancelled s | Some j \<Rightarrow> insert j (se_cancelled s)), se_running := Some i\<rparr>)"

definition scan_test :: "nat \<Rightarrow> ws_Snapshot \<Rightarrow> session \<Rightarrow> session" where
  "scan_test i snap s = set_phase i (if i \<in> se_cancelled s then Stopped else Tested snap) s"

definition scan_commit :: "nat \<Rightarrow> ws_Snapshot \<Rightarrow> session \<Rightarrow> session" where
  "scan_commit i snap s =
     set_phase i (Returned snap) (s\<lparr>se_current := snap, se_generation := se_generation s + 1, se_running := None\<rparr>)"

datatype scan_label =
    Begin nat
  | Find nat DiscoveryResult
  | Fail nat
  | Test nat
  | Commit nat ws_Snapshot
  | CallerCancels nat

fun scan_of :: "scan_label \<Rightarrow> nat" where
  "scan_of (Begin i) = i"
| "scan_of (Find i d) = i"
| "scan_of (Fail i) = i"
| "scan_of (Test i) = i"
| "scan_of (Commit i snap) = i"
| "scan_of (CallerCancels i) = i"

inductive scan_step :: "session \<Rightarrow> scan_label \<Rightarrow> session \<Rightarrow> bool" where
  begin_scan: "se_phase s i = Idle \<Longrightarrow> scan_step s (Begin i) (scan_begin i s)"
| find_files: "se_phase s i = Begun \<Longrightarrow> scan_step s (Find i d) (set_phase i (Found (discovery_Snapshot d)) s)"
| find_fails: "se_phase s i = Begun \<Longrightarrow> scan_step s (Fail i) (set_phase i Stopped s)"
| test_done: "se_phase s i = Found snap \<Longrightarrow> scan_step s (Test i) (scan_test i snap s)"
| commit_scan: "se_phase s i = Tested snap \<Longrightarrow> scan_step s (Commit i snap) (scan_commit i snap s)"
| caller_cancels: "se_phase s i \<noteq> Idle \<Longrightarrow> scan_step s (CallerCancels i) (s\<lparr>se_cancelled := insert i (se_cancelled s)\<rparr>)"

inductive_cases scan_stepE: "scan_step s l s'"
inductive_simps scan_step_simps [simp]:
  "scan_step s (Begin i) s'" "scan_step s (Find i d) s'" "scan_step s (Fail i) s'" "scan_step s (Test i) s'"
  "scan_step s (Commit i snap) s'" "scan_step s (CallerCancels i) s'"

inductive scan_run :: "session \<Rightarrow> scan_label list \<Rightarrow> session \<Rightarrow> bool" where
  stop: "scan_run s [] s"
| more: "scan_run s ls t \<Longrightarrow> scan_step t l u \<Longrightarrow> scan_run s (ls @ [l]) u"

section \<open>What every run keeps\<close>

fun commits :: "scan_label list \<Rightarrow> ws_Snapshot list" where
  "commits [] = []"
| "commits (Commit i snap # ls) = snap # commits ls"
| "commits (_ # ls) = commits ls"

lemma commits_append [simp]: "commits (xs @ ys) = commits xs @ commits ys"
  by (induction xs rule: commits.induct) simp_all

lemmas scan_defs = scan_begin_def scan_test_def scan_commit_def set_phase_def

lemma step_phase_other: "scan_step s l s' \<Longrightarrow> j \<noteq> scan_of l \<Longrightarrow> se_phase s' j = se_phase s j"
  by (auto simp: scan_defs elim!: scan_stepE)

lemma run_current:
  "scan_run s ls t \<Longrightarrow> s = NewSession \<Longrightarrow>
   se_current t = last (zero_snapshot # commits ls) \<and> se_generation t = of_nat (length (commits ls))"
proof (induction rule: scan_run.induct)
  case (more s ls t l u)
  then show ?case by (cases l) (auto simp: scan_defs)
qed (simp add: NewSession_def)

text \<open>
  What a session promises under any interleaving of scans, and what it does not: a scan that was
  overtaken between its test and its commit still overwrites the newer inventory.
\<close>

section \<open>Runs\<close>

lemma run_append: "scan_run s ls t \<Longrightarrow> scan_run r ks s \<Longrightarrow> scan_run r (ks @ ls) t"
  by (induction rule: scan_run.induct) (auto intro: scan_run.more simp flip: append_assoc)

lemma run_one: "scan_step s l t \<Longrightarrow> scan_run s [l] t"
  using scan_run.more [OF scan_run.stop] by fastforce

lemma run_Cons: "scan_step s l t \<Longrightarrow> scan_run t ls u \<Longrightarrow> scan_run s (l # ls) u"
  using run_append [OF _ run_one] by fastforce

text \<open>How many of its own steps a scan still has before it.\<close>

fun phase_rank :: "phase \<Rightarrow> nat" where
  "phase_rank Idle = 4"
| "phase_rank Begun = 3"
| "phase_rank (Found _) = 2"
| "phase_rank (Tested _) = 1"
| "phase_rank (Returned _) = 0"
| "phase_rank Stopped = 0"

definition scan_steps :: "nat \<Rightarrow> scan_label list \<Rightarrow> nat" where
  "scan_steps i ls = length (filter (\<lambda>l. scan_of l = i \<and> (\<forall>j. l \<noteq> CallerCancels j)) ls)"

lemma step_rank:
  assumes "scan_step s l t"
  shows "phase_rank (se_phase t i) + scan_steps i [l] \<le> phase_rank (se_phase s i)"
  using assms by (cases rule: scan_step.cases) (auto simp: scan_defs scan_steps_def)

lemma run_rank: "scan_run s ls t \<Longrightarrow> phase_rank (se_phase t i) + scan_steps i ls \<le> phase_rank (se_phase s i)"
proof (induction rule: scan_run.induct)
  case (more s ls t l u)
  then show ?case using step_rank [of t l u i] by (simp add: scan_steps_def)
qed (simp add: scan_steps_def)

definition own_step :: "nat \<Rightarrow> scan_label \<Rightarrow> bool" where
  "own_step i l \<longleftrightarrow> scan_of l = i \<and> l \<noteq> Fail i \<and> l \<noteq> CallerCancels i"

lemma own_step_simps [simp]: "own_step i (Find i d)" "own_step i (Test i)" "own_step i (Commit i snap)"
  by (simp_all add: own_step_def)

text \<open>The inventory a scan will hand out, if the disk gives \<open>d\<close>.\<close>

fun found_by :: "DiscoveryResult \<Rightarrow> phase \<Rightarrow> ws_Snapshot" where
  "found_by d (Found snap) = snap"
| "found_by d (Tested snap) = snap"
| "found_by d (Returned snap) = snap"
| "found_by d _ = discovery_Snapshot d"

fun past_test :: "phase \<Rightarrow> bool" where
  "past_test (Tested snap) = True"
| "past_test (Returned snap) = True"
| "past_test _ = False"

lemma finish_tested: "se_phase s i = Tested snap \<Longrightarrow> \<exists>t. scan_run s [Commit i snap] t \<and> se_phase t i = Returned snap"
  by (rule exI [of _ "scan_commit i snap s"], rule conjI, rule run_one) (simp_all add: scan_defs)

lemma finish_found: "se_phase s i = Found snap \<Longrightarrow>
   \<exists>ls t. scan_run s ls t \<and> length ls \<le> 2 \<and> list_all (own_step i) ls \<and> se_phase t i = (if i \<in> se_cancelled s then Stopped else Returned snap)"
proof -
  assume f: "se_phase s i = Found snap"
  then have st: "scan_step s (Test i) (scan_test i snap s)" by simp
  show ?thesis
  proof (cases "i \<in> se_cancelled s")
    case True
    then show ?thesis using run_one [OF st] by (intro exI [of _ "[Test i]"]) (auto simp: scan_defs)
  next
    case False
    then have "se_phase (scan_test i snap s) i = Tested snap" by (simp add: scan_defs)
    from finish_tested [OF this] obtain t where "scan_run (scan_test i snap s) [Commit i snap] t" "se_phase t i = Returned snap" by blast
    then show ?thesis using False run_append [OF _ run_one [OF st]] by (intro exI [of _ "[Test i] @ [Commit i snap]"]) auto
  qed
qed

lemma finish_begun: "se_phase s i = Begun \<Longrightarrow>
   \<exists>ks t. scan_run s (Find i d # ks) t \<and> length ks \<le> 2 \<and> list_all (own_step i) ks \<and>
     se_phase t i = (if i \<in> se_cancelled s then Stopped else Returned (discovery_Snapshot d))"
proof -
  assume b: "se_phase s i = Begun"
  let ?s = "set_phase i (Found (discovery_Snapshot d)) s"
  have st: "scan_step s (Find i d) ?s" using b by simp
  have "se_phase ?s i = Found (discovery_Snapshot d)" by (simp add: set_phase_def)
  from finish_found [OF this] obtain ks t where "scan_run ?s ks t" "length ks \<le> 2" "list_all (own_step i) ks"
      "se_phase t i = (if i \<in> se_cancelled ?s then Stopped else Returned (discovery_Snapshot d))" by blast
  moreover have "se_cancelled ?s = se_cancelled s" by (simp add: set_phase_def)
  ultimately show ?thesis using run_append [OF _ run_one [OF st], of ks] by (intro exI [of _ ks] exI [of _ t]) simp
qed



section \<open>Superseded scans\<close>

definition out_of_date :: "nat \<Rightarrow> session \<Rightarrow> bool" where
  "out_of_date i s \<longleftrightarrow> i \<in> se_cancelled s \<and> (\<forall>snap. se_phase s i \<noteq> Tested snap) \<and> se_phase s i \<noteq> Idle"

lemma out_of_date_step: "scan_step s l t \<Longrightarrow> out_of_date i s \<Longrightarrow> out_of_date i t \<and> (\<forall>snap. l \<noteq> Commit i snap)"
  by (cases rule: scan_step.cases) (auto simp: out_of_date_def scan_defs split: option.splits if_splits)

lemma out_of_date_run: "scan_run s ls t \<Longrightarrow> out_of_date i s \<Longrightarrow> out_of_date i t \<and> (\<forall>snap. Commit i snap \<notin> set ls)"
  by (induction rule: scan_run.induct) (auto dest: out_of_date_step)



text \<open>The test and the commit are not one step: the older of two scans may commit last, and the session then
  shows, as its newest inventory, one that was read before the other scan began.\<close>

lemma older_scan_overwrites:
  "\<exists>s. scan_run NewSession [Begin 0, Find 0 old, Test 0, Begin 1, Find 1 new, Test 1,
      Commit 1 (discovery_Snapshot new), Commit 0 (discovery_Snapshot old)] s \<and>
    se_current s = discovery_Snapshot old \<and> se_generation s = 2"
proof -
  define s1 where "s1 = scan_test 0 (discovery_Snapshot old) (set_phase 0 (Found (discovery_Snapshot old)) (scan_begin 0 NewSession))"
  define s2 where "s2 = scan_test 1 (discovery_Snapshot new) (set_phase 1 (Found (discovery_Snapshot new)) (scan_begin 1 s1))"
  define s3 where "s3 = scan_commit 0 (discovery_Snapshot old) (scan_commit 1 (discovery_Snapshot new) s2)"
  note begun = run_Cons [OF scan_step.begin_scan] and found = run_Cons [OF scan_step.find_files]
    and tested = run_Cons [OF scan_step.test_done] and committed = run_Cons [OF scan_step.commit_scan]
  have p1: "se_phase s1 = (\<lambda>_. Idle)(0 := Tested (discovery_Snapshot old))" "se_cancelled s1 = {}" "se_running s1 = Some 0"
    by (auto simp: s1_def scan_defs NewSession_def)
  have p2: "se_phase s2 = (se_phase s1)(1 := Tested (discovery_Snapshot new))"
    by (auto simp: s2_def scan_defs p1)
  have "scan_run s2 [Commit 1 (discovery_Snapshot new), Commit 0 (discovery_Snapshot old)] s3"
    unfolding s3_def by (rule committed, simp add: p2, rule committed, simp add: p2 p1 scan_defs, rule scan_run.stop)
  then have "scan_run s1 [Begin 1, Find 1 new, Test 1, Commit 1 (discovery_Snapshot new), Commit 0 (discovery_Snapshot old)] s3"
    unfolding s2_def by (intro begun found tested) (simp_all add: p1 scan_defs)
  from this [unfolded s1_def] have "scan_run NewSession [Begin 0, Find 0 old, Test 0, Begin 1, Find 1 new, Test 1,
      Commit 1 (discovery_Snapshot new), Commit 0 (discovery_Snapshot old)] s3"
    by - (rule begun, simp add: NewSession_def, rule found, simp add: scan_defs, rule tested, simp add: scan_defs, assumption)
  moreover have "se_current s3 = discovery_Snapshot old \<and> se_generation s3 = 2"
    by (simp add: s3_def s2_def s1_def scan_defs NewSession_def)
  ultimately show ?thesis by blast
qed

end
