(* ===== verification/Workspace_Path_Claims.thy ===== *)
theory Workspace_Path_Claims
  imports Workspace_Path
begin

text \<open>
  What the path authority promises: a path it hands out lies below the root it names, whatever was asked
  for and however the URI was parsed. The lemmas on cleaned absolute paths come first.
\<close>

section \<open>Cleaned absolute paths\<close>

lemma abs_no_dots: "is_abs p \<Longrightarrow> ''..'' \<notin> set (clean_segs p)"
  using dots_only_at_front [OF clean_segs_stack [of p]] by auto

lemma path_clean_abs: "is_abs p \<Longrightarrow> path_clean p = slash # join_with ''/'' (clean_segs p)"
  by (simp add: path_clean_def render_path_def Let_def)

lemma split_segs: "clean_segs p \<noteq> [] \<Longrightarrow> split_on slash (join_with ''/'' (clean_segs p)) = clean_segs p"
  using split_join [of "clean_segs p" slash] clean_segs_seg(3) by auto

lemma join_with_last_seg:
  "xs \<noteq> [] \<Longrightarrow> last xs \<noteq> [] \<Longrightarrow> join_with sep xs \<noteq> [] \<and> last (join_with sep xs) = last (last xs)"
  by (induction sep xs rule: join_with.induct) (auto simp: last_append)

lemma clean_no_trailing_slash:
  assumes "is_abs p" "clean_segs p \<noteq> []"
  shows "trim_right (path_clean p) ''/'' = path_clean p" "last (path_clean p) \<noteq> slash"
proof -
  have l: "last (clean_segs p) \<in> set (clean_segs p)" using assms(2) by simp
  from clean_segs_seg(1,3) [OF l] have "last (last (clean_segs p)) \<noteq> slash" by (metis last_in_set)
  then show "last (path_clean p) \<noteq> slash"
    using join_with_last_seg [OF assms(2), of "''/''"] clean_segs_seg(1) [OF l] assms(1) by (simp add: path_clean_abs)
  then show "trim_right (path_clean p) ''/'' = path_clean p"
    by (cases "path_clean p" rule: rev_cases) (simp_all add: trim_right_def)
qed

lemma below_base:
  assumes "is_abs b" "is_abs p"
    and "path_clean p = path_clean b \<or> has_prefix (path_clean p) (trim_right (path_clean b) ''/'' @ ''/'')"
  shows "\<exists>segs. clean_segs p = clean_segs b @ segs"
proof (cases "clean_segs b = [] \<or> path_clean p = path_clean b")
  case True
  then show ?thesis by (metis append_Nil append_Nil2 clean_segs_path_clean)
next
  case False
  then have b: "clean_segs b \<noteq> []" and "has_prefix (path_clean p) (path_clean b @ ''/'')"
    using assms(3) clean_no_trailing_slash(1) [OF assms(1)] by auto
  then obtain rest where "path_clean p = path_clean b @ slash # rest"
    by (auto simp: has_prefix_def) (metis append.assoc append_Cons append_Nil append_take_drop_id)
  then have j: "join_with ''/'' (clean_segs p) = join_with ''/'' (clean_segs b) @ slash # rest"
    using assms(1,2) by (simp add: path_clean_abs)
  then have "clean_segs p \<noteq> []" by auto
  then have "clean_segs p = split_on slash (join_with ''/'' (clean_segs b) @ slash # rest)"
    using split_segs [of p] j by simp
  also have "\<dots> = clean_segs b @ split_on slash rest"
    by (simp only: split_on_append_sep split_segs [OF b])
  finally show ?thesis by blast
qed

lemma strip_common_prefix: "strip_common bs (bs @ ts) = ([], ts)"
  by (induction bs) (cases ts, simp_all)

lemma path_rel_below:
  assumes "is_abs b" "is_abs p" "clean_segs p = clean_segs b @ segs"
  shows "path_rel b p = Some (if segs = [] then ''.'' else join_with ''/'' segs)"
proof -
  have "path_clean p = path_clean b \<longleftrightarrow> segs = []"
    using assms by (metis append_self_conv clean_segs_path_clean path_clean_abs)
  then show ?thesis
    using assms by (auto simp: path_rel_def Let_def strip_common_prefix)
qed

section \<open>Climbing\<close>

lemma length_join: "xs \<noteq> [] \<Longrightarrow> Suc (length (join_with ''/'' xs)) = sum_list (map (\<lambda>s. Suc (length s)) xs)"
  by (induction "''/''" xs rule: join_with.induct) auto

lemma sum_clean_step: "sum_list (map (\<lambda>s. Suc (length s)) (clean_step rooted st seg)) \<le> sum_list (map (\<lambda>s. Suc (length s)) st) + Suc (length seg)"
  by (auto simp: clean_step_def split: list.splits)

lemma sum_clean: "sum_list (map (\<lambda>s. Suc (length s)) (foldl (clean_step rooted) st segs)) \<le>
    sum_list (map (\<lambda>s. Suc (length s)) st) + sum_list (map (\<lambda>s. Suc (length s)) segs)"
proof (induction segs arbitrary: st)
  case (Cons seg segs)
  show ?case using Cons.IH [of "clean_step rooted st seg"] sum_clean_step [of rooted st seg] by simp
qed simp

lemma sum_split: "sum_list (map (\<lambda>s. Suc (length s)) (split_on slash s)) = Suc (length s)"
  using length_join [OF split_on_not_Nil [of slash s]] by (simp add: join_split)

lemma length_path_clean_abs: "is_abs p \<Longrightarrow> length (path_clean p) \<le> length p"
proof -
  assume a: "is_abs p"
  then obtain q where p: "p = slash # q" by (cases p) (auto simp: is_abs_hd)
  have "sum_list (map (\<lambda>s. Suc (length s)) (clean_segs p)) \<le> Suc (length q)"
    using sum_clean [of True "[]" "split_on slash q"] sum_split [of q] a
    by (simp add: clean_segs_def p clean_step_def rev_map [symmetric])
  then show ?thesis
    using length_join [of "clean_segs p"] a by (cases "clean_segs p = []") (auto simp: path_clean_abs p)
qed

lemma path_dir_shorter:
  assumes "is_abs p" "path_clean p = p"
  shows "is_abs (path_dir p)" "path_dir p = p \<or> length (path_dir p) < length p"
proof -
  define k where "k = length p - length (after_last_slash p)"
  have p: "p \<noteq> []" "hd p = slash" using assms(1) by (auto simp: is_abs_hd)
  have "length (takeWhile (\<lambda>c. c \<noteq> slash) (rev p)) < length (rev p)"
  proof -
    obtain q where "p = slash # q" using p by (cases p) auto
    then show ?thesis
      using length_takeWhile_le [of "\<lambda>c. c \<noteq> slash" "rev q"] by (simp add: takeWhile_append split: if_splits)
  qed
  then have k: "0 < k" by (simp add: k_def after_last_slash_def)
  then have a: "is_abs (take k p)" using p by (auto simp: is_abs_hd)
  have d: "path_dir p = path_clean (take k p)" by (simp add: path_dir_def k_def)
  then show "is_abs (path_dir p)" using a by simp
  show "path_dir p = p \<or> length (path_dir p) < length p"
  proof (cases "after_last_slash p = []")
    case True
    have "last p = slash"
    proof -
      obtain xs x where x: "p = xs @ [x]" using p(1) by (metis rev_exhaust)
      then show ?thesis using True by (auto simp: after_last_slash_def split: if_splits)
    qed
    then have "clean_segs p = []" using clean_no_trailing_slash(2) [OF assms(1)] assms(2) by metis
    then show ?thesis using d True assms(2) by (simp add: k_def)
  next
    case False
    then have "0 < length (after_last_slash p)" "0 < length p" using p by simp_all
    then have "k < length p" unfolding k_def by linarith
    then show ?thesis using length_path_clean_abs [OF a] d by simp
  qed
qed

text \<open>The loop of the code: the second test in \<^const>\<open>climb\<close> never fires on the paths it is called with.\<close>

lemma climb_loop:
  assumes "is_abs p" "path_clean p = p"
  shows "climb sy p parts =
    (if sys_lstat sy p \<or> path_dir p = p then (p, parts) else climb sy (path_dir p) (path_base p # parts))"
  using path_dir_shorter [OF assms] by (subst climb.simps) (auto simp: Let_def)

lemma climb_abs: "is_abs p \<Longrightarrow> path_clean p = p \<Longrightarrow> is_abs (fst (climb sy p parts))"
proof (induction sy p parts rule: climb.induct)
  case (1 sy p parts)
  note c = climb_loop [OF 1(2,3), of sy parts]
  show ?case
  proof (cases "sys_lstat sy p \<or> path_dir p = p")
    case False
    then have "is_abs (fst (climb sy (path_dir p) (path_base p # parts)))"
      using 1(1) [OF _ refl] path_dir_shorter [OF 1(2,3)] by (auto simp: path_dir_def)
    then show ?thesis using c False by simp
  qed (use c 1 in simp)
qed

text \<open>What the code relies on of \<^verbatim>\<open>os.Getwd\<close> and \<^verbatim>\<open>filepath.EvalSymlinks\<close>.\<close>

definition sys_paths_ok :: "sys \<Rightarrow> bool" where
  "sys_paths_ok sy \<longleftrightarrow>
     (\<forall>d. sys_cwd sy = Some d \<longrightarrow> is_abs d) \<and> (\<forall>p q. is_abs p \<longrightarrow> sys_eval sy p = Some q \<longrightarrow> is_abs q)"

lemma path_join_abs: "is_abs d \<Longrightarrow> is_abs (path_join [d, p])"
  using is_abs_path_clean [of "join_with ''/'' [d, p]"] by (cases d) (simp_all add: is_abs_hd)

lemma abs_path_abs:
  assumes "sys_paths_ok sy" "abs_path (sys_cwd sy) p = Some q"
  shows "is_abs q" "path_clean q = q"
proof -
  show "is_abs q"
    using assms path_join_abs by (auto simp: abs_path_def sys_paths_ok_def simp del: path_join.simps split: if_splits)
  show "path_clean q = q"
  proof (cases "is_abs p")
    case False
    then obtain d where "is_abs d" "q = path_join [d, p]"
      using assms by (auto simp: abs_path_def sys_paths_ok_def simp del: path_join.simps)
    then show ?thesis by (cases d) (simp_all add: is_abs_hd)
  qed (use assms in \<open>auto simp: abs_path_def\<close>)
qed

lemma foldl_join_abs: "is_abs d \<Longrightarrow> is_abs (foldl (\<lambda>acc part. path_join [acc, part]) d parts)"
  by (induction parts arbitrary: d) (simp_all add: path_join_abs del: path_join.simps)

lemma canonicalPath_abs:
  assumes "sys_paths_ok sy" "workspace_canonicalPath sy raw = Some c"
  shows "is_abs c" "path_clean c = c"
proof -
  obtain p where p: "abs_path (sys_cwd sy) (path_clean raw) = Some p"
    using assms(2) by (auto simp: workspace_canonicalPath_def split: option.splits)
  note pa = abs_path_abs [OF assms(1) p]
  have e: "is_abs q" if "is_abs p" "sys_eval sy p = Some q" for p q
    using assms(1) that unfolding sys_paths_ok_def by blast
  obtain q parts where q: "climb sy p [] = (q, parts)" by fastforce
  have "is_abs q" using climb_abs [OF pa, of sy "[]"] q by simp
  then show "is_abs c" "path_clean c = c"
    using assms(2) p q pa e foldl_join_abs by (auto simp: workspace_canonicalPath_def split: option.splits)
qed

lemma external_roots_member:
  "external_roots sy raws acc = Inr roots \<Longrightarrow> r \<in> set roots \<Longrightarrow>
   r \<in> set acc \<or> (\<exists>raw \<in> set raws. workspace_canonicalPath sy raw = Some r \<and> sys_is_dir sy r)"
  by (induction sy raws acc rule: external_roots.induct) (fastforce split: if_splits option.splits)+

section \<open>Authorized paths\<close>

lemma within_below:
  assumes "is_abs b" "path_clean b = b" "is_abs p" "path_clean p = p" "within p b False"
  shows "\<exists>segs. clean_segs p = clean_segs b @ segs"
  using below_base [OF assms(1,3)] assms by (simp add: within_def)

text \<open>C16: A path is handed out only below an authorized root: the canonical path lies in the workspace root, or,
  when it is marked external, in one of the external roots, element by element and without \<^verbatim>\<open>..\<close>; the
  relative path is exactly the elements below that root. This holds for every URI and however it is parsed.\<close>

theorem authorized_path_inside:
  assumes "sys_paths_ok sy" and "NewPathAuthority sy root externalRoots = Inr a"
    and "PathAuthority_Resolve parse sy (Some a) raw = Inr p"
  shows "\<exists>base segs. (if ap_External p then base \<in> set (pa_external a) else base = pa_root a) \<and> sys_is_dir sy base \<and>
    is_abs (ap_Canonical p) \<and> path_clean (ap_Canonical p) = ap_Canonical p \<and>
    clean_segs (ap_Canonical p) = clean_segs base @ segs \<and> ''..'' \<notin> set segs \<and> ap_Relative p = join_with ''/'' segs"
proof -
  have a: "pa_insensitive a = False" "workspace_canonicalPath sy root = Some (pa_root a)" "sys_is_dir sy (pa_root a)"
      "external_roots sy externalRoots [] = Inr (pa_external a)"
    using assms(2) by (auto simp: NewPathAuthority_def split: option.splits sum.splits if_splits)
  have ext: "sys_is_dir sy r \<and> is_abs r \<and> path_clean r = r" if "r \<in> set (pa_external a)" for r
    using external_roots_member [OF a(4) that] canonicalPath_abs [OF assms(1)] by auto
  note root = canonicalPath_abs [OF assms(1) a(2)]
  obtain v base rel where v: "workspace_canonicalPath sy v = Some (ap_Canonical p)"
    and base: "choose_base a (ap_Canonical p) = (base, ap_External p)" "within (ap_Canonical p) base False"
      "path_rel base (ap_Canonical p) = Some rel" "ap_Relative p = (if rel = ''.'' then [] else rel)"
    using assms(3) a(1)
    by (auto simp: PathAuthority_Resolve_def simp del: path_join.simps split: option.splits sum.splits if_splits prod.splits)
  note c = canonicalPath_abs [OF assms(1) v]
  have mem: "if ap_External p then base \<in> set (pa_external a) else base = pa_root a"
    using base(1) by (auto simp: choose_base_def find_Some_iff split: if_splits option.splits)
  have ok: "sys_is_dir sy base" "is_abs base" "path_clean base = base"
    using mem ext root a(3) by (auto split: if_splits)
  obtain segs where segs: "clean_segs (ap_Canonical p) = clean_segs base @ segs"
    using within_below [OF ok(2,3) c base(2)] by blast
  have "''..'' \<notin> set segs" using abs_no_dots [OF c(1)] segs by auto
  moreover have "join_with ''/'' segs \<noteq> ''.''" if "segs \<noteq> []"
  proof (cases segs)
    case (Cons s ss)
    then have "s \<noteq> []" "s \<noteq> ''.''" using segs clean_segs_seg [of s "ap_Canonical p"] by simp_all
    with Cons show ?thesis by (cases ss; cases s) auto
  qed (use that in simp)
  then have "ap_Relative p = join_with ''/'' segs"
    using path_rel_below [OF ok(2) c(1) segs] base(3,4) by (auto split: if_splits)
  ultimately show ?thesis using mem ok(1) c segs by blast
qed

definition demo_sys :: sys where
  "demo_sys = \<lparr>sys_cwd = Some ''/w'', sys_stat = (\<lambda>p. if p \<in> {''/w'', ''/x''} then Some \<lparr>fi_dir = True, fi_size = 0\<rparr> else None),
     sys_lstat = (\<lambda>p. p \<in> {''/'', ''/w'', ''/x''}), sys_eval = (\<lambda>p. if p \<in> {''/'', ''/w'', ''/x''} then Some p else None),
     sys_read = (\<lambda>_. None), sys_list = (\<lambda>_. [])\<rparr>"

theorem authorized_path_inside_witness:
  "\<exists>segs. clean_segs ''/w/a/b.cns'' = clean_segs ''/w'' @ segs \<and> ''a/b.cns'' = join_with ''/'' segs"
proof -
  have "sys_paths_ok demo_sys" by (auto simp: sys_paths_ok_def demo_sys_def is_abs_def split: if_splits)
  moreover have "NewPathAuthority demo_sys ''/w'' [''/x''] = Inr \<lparr>pa_root = ''/w'', pa_external = [''/x''], pa_insensitive = False\<rparr>"
    by code_simp
  moreover have "PathAuthority_Resolve (\<lambda>_. None) demo_sys (Some \<lparr>pa_root = ''/w'', pa_external = [''/x''], pa_insensitive = False\<rparr>)
      ''a/./b.cns'' = Inr \<lparr>ap_Canonical = ''/w/a/b.cns'', ap_Relative = ''a/b.cns'', ap_External = False\<rparr>"
    by code_simp
  ultimately show ?thesis
    using authorized_path_inside [of demo_sys "''/w''" "[''/x'']" "\<lparr>pa_root = ''/w'', pa_external = [''/x''], pa_insensitive = False\<rparr>"]
    by fastforce
qed

text \<open>The path of a URI is unescaped twice, by the parser and again here: a percent sign in a file name is
  refused.\<close>

lemma percent_in_uri_refused:
  "decodePath (\<lambda>_. Some (''file'', [], ''/w/100%.cns'')) ''file:///w/100%25.cns'' = Inl (PathFault ''unescape'' ''file:///w/100%25.cns'')"
  by code_simp

end
