(* ===== verification/Workspace_Load.thy ===== *)
theory Workspace_Load
  imports Workspace_Config Scanner
begin

text \<open>
  \<^verbatim>\<open>internal/workspace/workspace.go\<close>: a character definition is parsed, the sources its \<^verbatim>\<open>[Files]\<close> section
  names are resolved by a profile and parsed once each; for a \<^verbatim>\<open>select.def\<close> the startup manifest follows.
  The text of a failed read, \<open>read_error\<close>, is an argument.
\<close>

record workspace_LoadResult =
  wl_Documents :: "Document list"
  wl_Diagnostics :: "Diagnostic list"
  wl_ConfigDigest :: string
  wl_Profile :: string

record sourceRef =
  sr_path :: string
  sr_key :: string
  sr_span :: SourceSpan

definition at_least_one :: "int \<Rightarrow> int \<Rightarrow> int" where
  "at_least_one n fallback = (if n < 1 then fallback else n)"

definition makeWorkspaceDiagnostic :: "string \<Rightarrow> SourceSpan \<Rightarrow> string \<Rightarrow> Severity \<Rightarrow> string \<Rightarrow> Diagnostic" where
  "makeWorkspaceDiagnostic path span code severity message =
     (let sl = at_least_one (Line (Start span)) 1; sc = at_least_one (Column (Start span)) 1 in
      \<lparr>dg_code = code, dg_severity = severity, dg_message = message, dg_path = path,
       dg_start = \<lparr>Line = sl, Column = sc\<rparr>,
       dg_end = \<lparr>Line = at_least_one (Line (End span)) sl, Column = at_least_one (Column (End span)) sc\<rparr>,
       dg_related = []\<rparr>)"

definition first_position :: SourceSpan where
  "first_position = \<lparr>Start = \<lparr>Line = 1, Column = 1\<rparr>, End = \<lparr>Line = 1, Column = 1\<rparr>\<rparr>"

definition isWorkspaceFileKey :: "string \<Rightarrow> bool" where
  "isWorkspaceFileKey key0 =
     (let key = to_lower (trim_space key0) in
      if key \<in> {''cmd'', ''cns'', ''st'', ''stcommon''} then True
      else has_prefix key ''st'' \<and> drop 2 key \<noteq> [] \<and> atoi (drop 2 key) \<noteq> None)"

definition line_reference :: "CompatibilityProfile \<Rightarrow> SourceLine \<Rightarrow> sourceRef option" where
  "line_reference p l =
     (if ln_kind l \<noteq> SourceLineKeyValue \<or> \<not> isWorkspaceFileKey (ln_key l) then None
      else let v = NormalizeSourceValue p (ln_value l) in
        if v = [] then None else Some \<lparr>sr_path = v, sr_key = trim_space (ln_key l), sr_span = ln_span l\<rparr>)"

definition sourceReferences :: "Document \<Rightarrow> CompatibilityProfile \<Rightarrow> sourceRef list" where
  "sourceReferences doc p =
     concat (map (\<lambda>s. if equal_fold (trim_space (sec_header s)) ''files''
        then List.map_filter (line_reference p) (sec_lines s) else []) (doc_sections doc))"

definition parseWorkspaceFile :: "sys \<Rightarrow> string \<Rightarrow> Document option" where
  "parseWorkspaceFile sy path = Option.bind (sys_read sy path) (parser_Parse path)"

definition canonicalWorkspacePath :: "sys \<Rightarrow> string \<Rightarrow> string" where
  "canonicalWorkspacePath sy path =
     (let c0 = path_clean (trim_space path);
          c = (case abs_path (sys_cwd sy) c0 of Some a \<Rightarrow> a | None \<Rightarrow> c0)
      in case sys_eval sy c of Some r \<Rightarrow> path_clean r | None \<Rightarrow> c)"

definition optional_common :: "sourceRef \<Rightarrow> bool" where
  "optional_common ref \<longleftrightarrow> equal_fold (sr_key ref) ''stcommon'' \<and> equal_fold (path_base (sr_path ref)) ''common1.cns''"

text \<open>One reference: the keys seen and the result after it.\<close>

definition load_reference :: "sys \<Rightarrow> CompatibilityProfile \<Rightarrow> string \<Rightarrow> string list \<times> workspace_LoadResult \<Rightarrow> sourceRef \<Rightarrow>
    string list \<times> workspace_LoadResult" where
  "load_reference sy p defPath st ref =
     (case st of (seen, res) \<Rightarrow>
        let resolved0 = ResolveSourcePath sy p (path_dir defPath) (sr_path ref) in
        if resolved0 = [] then (seen, res)
        else let resolved = canonicalWorkspacePath sy resolved0; key = DedupKey p resolved in
          if key \<in> set seen then (seen, res)
          else case parseWorkspaceFile sy resolved of
            None \<Rightarrow>
              (key # seen,
               if optional_common ref then res
               else res\<lparr>wl_Diagnostics := wl_Diagnostics res @ [makeWorkspaceDiagnostic defPath (sr_span ref) ''missing-source''
                  SeverityError (''unable to read source '' @ quote (sr_path ref))]\<rparr>)
          | Some doc \<Rightarrow>
              (key # seen,
               res\<lparr>wl_Documents := wl_Documents res @ [doc], wl_Diagnostics := wl_Diagnostics res @ doc_diagnostics doc\<rparr>))"

definition load_manifest_file :: "sys \<Rightarrow> string \<Rightarrow> workspace_LoadResult \<Rightarrow> string \<Rightarrow> workspace_LoadResult" where
  "load_manifest_file sy root res rel =
     (if \<not> isSemanticSourcePath rel then res
      else case parseWorkspaceFile sy (canonicalWorkspacePath sy (path_join [root, rel])) of
        None \<Rightarrow> res
      | Some doc \<Rightarrow> res\<lparr>wl_Documents := wl_Documents res @ [doc], wl_Diagnostics := wl_Diagnostics res @ doc_diagnostics doc\<rparr>)"

definition load_manifest :: "(string list \<Rightarrow> string list) \<Rightarrow> sys \<Rightarrow> string \<Rightarrow> workspace_LoadResult \<Rightarrow> workspace_LoadResult" where
  "load_manifest order sy defPath res =
     (if \<not> equal_fold (path_base defPath) ''select.def'' then res
      else let dir = path_dir defPath; root = (if equal_fold (path_base dir) ''data'' then path_dir dir else dir) in
        case resolveStartupManifest order sy root of (rels, diags) \<Rightarrow>
          foldl (load_manifest_file sy root)
            (res\<lparr>wl_Diagnostics := wl_Diagnostics res @
               map (\<lambda>msg. makeWorkspaceDiagnostic defPath zero_span ''startup-manifest'' SeverityWarning msg) diags\<rparr>) rels)"

definition LoadWorkspaceWithProfile :: "(string \<Rightarrow> string) \<Rightarrow> (string list \<Rightarrow> string list) \<Rightarrow> sys \<Rightarrow> string \<Rightarrow> CompatibilityProfile \<Rightarrow>
    workspace_LoadResult" where
  "LoadWorkspaceWithProfile read_error order sy defPath0 p0 =
     (let p = (if cp_Name p0 = [] then NewStrictPortableProfile [] else p0);
          res = \<lparr>wl_Documents = [], wl_Diagnostics = [], wl_ConfigDigest = [], wl_Profile = cp_Name p\<rparr>
      in if trim_space defPath0 = []
         then res\<lparr>wl_Diagnostics := [makeWorkspaceDiagnostic [] first_position ''empty-workspace-path'' SeverityError
                ''workspace definition path is empty'']\<rparr>
         else let clean = path_clean (trim_space defPath0);
                  defPath = (case abs_path (sys_cwd sy) clean of Some a \<Rightarrow> a | None \<Rightarrow> clean)
           in case parseWorkspaceFile sy defPath of
                None \<Rightarrow> res\<lparr>wl_Diagnostics := [makeWorkspaceDiagnostic defPath first_position ''missing-source'' SeverityError (read_error defPath)]\<rparr>
              | Some root \<Rightarrow>
                  (let res1 = res\<lparr>wl_Documents := [root], wl_Diagnostics := doc_diagnostics root\<rparr>;
                       seen = [DedupKey p (canonicalWorkspacePath sy defPath)]
                   in load_manifest order sy defPath
                        (snd (foldl (load_reference sy p defPath) (seen, res1) (sourceReferences root p)))))"

definition LoadWorkspace :: "(string \<Rightarrow> string) \<Rightarrow> (string list \<Rightarrow> string list) \<Rightarrow> sys \<Rightarrow> string \<Rightarrow> workspace_LoadResult" where
  "LoadWorkspace read_error order sy defPath =
     LoadWorkspaceWithProfile read_error order sy defPath (NewStrictPortableProfile [])"

definition LoadWorkspaceConfigured :: "(string \<Rightarrow> string) \<Rightarrow> (string list \<Rightarrow> string list) \<Rightarrow> sys \<Rightarrow> string \<Rightarrow> ConfigFlags \<Rightarrow>
    ConfigError option + workspace_LoadResult" where
  "LoadWorkspaceConfigured read_error order sy defPath flags =
     (case abs_path (sys_cwd sy) (path_dir defPath) of
        None \<Rightarrow> Inl None
      | Some root \<Rightarrow>
          (case ResolveConfig order sy root flags of
             Inl e \<Rightarrow> Inl (Some e)
           | Inr cfg \<Rightarrow>
               Inr ((LoadWorkspaceWithProfile read_error order sy defPath (ProfileValue cfg))\<lparr>wl_ConfigDigest := Digest cfg\<rparr>)))"

end
