(* ===== verification/Workspace_Claims.thy ===== *)
theory Workspace_Claims
  imports Workspace_Path_Claims Workspace_Load Workspace_Discovery
begin

text \<open>
  What profiles, configuration, discovery and loading promise (\<^verbatim>\<open>internal/profile\<close>,
  \<^verbatim>\<open>internal/workspace\<close>).
\<close>

section \<open>Profiles\<close>

lemma isWithin_below:
  assumes "cp_CasePolicy p = CasePolicySensitive" "is_abs (resolvedWorkspaceRoot sy p)" "isWithinWorkspaceRoot sy p path"
  shows "is_abs path \<and> (\<exists>segs. clean_segs path = clean_segs (resolvedWorkspaceRoot sy p) @ segs)"
proof -
  define root where "root = path_clean (resolvedWorkspaceRoot sy p)"
  have root: "is_abs root" "path_clean root = root" using assms(2) by (simp_all add: root_def)
  have c: "path_clean path = root \<or> (trim_right root ''/'' \<noteq> [] \<and> has_prefix (path_clean path) (trim_right root ''/'' @ ''/''))"
  proof (cases "has_suffix root ''/''")
    case False
    then have "trim_right root ''/'' = root"
      using clean_no_trailing_slash(1) [OF root(1)] root by (cases "clean_segs root = []") (auto simp: path_clean_abs [of root] has_suffix_def)
    then show ?thesis using assms(1,3) False by (auto simp: isWithinWorkspaceRoot_def Let_def root_def [symmetric] split: if_splits)
  qed (use assms(1,3) in \<open>auto simp: isWithinWorkspaceRoot_def Let_def root_def [symmetric] split: if_splits\<close>)
  have "is_abs path"
  proof (cases "path_clean path = root")
    case True
    then show ?thesis using root by (metis is_abs_path_clean)
  next
    case False
    with c obtain q where "path_clean path = trim_right root ''/'' @ q" "trim_right root ''/'' \<noteq> []"
      by (auto simp: has_prefix_def) (metis append_assoc append_take_drop_id)
    moreover obtain r where "root = trim_right root ''/'' @ r" using trim_right_prefix by blast
    ultimately have "hd (path_clean path) = hd root" by (metis hd_append2)
    then show ?thesis using root(1) is_abs_path_clean [of path] by (simp add: is_abs_hd)
  qed
  moreover have "\<exists>segs. clean_segs path = clean_segs root @ segs"
    using below_base [OF root(1) \<open>is_abs path\<close>] c root(2) by auto
  ultimately show ?thesis by (simp add: root_def)
qed

text \<open>Under the policy that keeps to the workspace, an absolute path that resolves at all resolves to one
  below the workspace root, element by element and without \<^verbatim>\<open>..\<close>.\<close>

theorem workspace_only_absolute_inside:
  assumes "cp_ExternalPathPolicy p = ExternalPathPolicyWorkspaceOnly" and "cp_CasePolicy p = CasePolicySensitive"
    and "is_abs (resolvedWorkspaceRoot sy p)" and "isAbsoluteValue (NormalizeSourceValue p raw)"
    and "ResolveSourcePath sy p baseDir raw \<noteq> []"
  shows "\<exists>segs. clean_segs (ResolveSourcePath sy p baseDir raw) = clean_segs (resolvedWorkspaceRoot sy p) @ segs \<and> ''..'' \<notin> set segs"
proof -
  let ?v = "NormalizeSourceValue p raw"
  have v: "?v \<noteq> []" "isWithinWorkspaceRoot sy p ?v" and r: "ResolveSourcePath sy p baseDir raw = path_clean ?v"
    using assms by (auto simp: ResolveSourcePath_def Let_def split: if_splits)
  from isWithin_below [OF assms(2,3) v(2)] obtain segs where
    "is_abs ?v" "clean_segs ?v = clean_segs (resolvedWorkspaceRoot sy p) @ segs" by blast
  then show ?thesis using abs_no_dots [of ?v] r by auto
qed

definition only_workspace :: CompatibilityProfile where
  "only_workspace = (NewStrictPortableProfile ''/w'')\<lparr>cp_ExternalPathPolicy := ExternalPathPolicyWorkspaceOnly\<rparr>"

theorem workspace_only_absolute_inside_witness:
  "\<exists>segs. clean_segs ''/w/a.cns'' = clean_segs ''/w'' @ segs"
proof -
  have "ResolveSourcePath demo_sys only_workspace ''/w'' ''/w/x/../a.cns'' = ''/w/a.cns''"
    and "resolvedWorkspaceRoot demo_sys only_workspace = ''/w''"
    and "isAbsoluteValue (NormalizeSourceValue only_workspace ''/w/x/../a.cns'')" by code_simp+
  then show ?thesis
    using workspace_only_absolute_inside [of only_workspace demo_sys "''/w/x/../a.cns''" "''/w''"]
    by (auto simp: only_workspace_def NewStrictPortableProfile_def defaultCasePolicy_def is_abs_def)
qed

text \<open>The policy does not look at relative paths: they leave the workspace through \<^verbatim>\<open>..\<close>.\<close>

lemma workspace_only_relative_escapes:
  "ResolveSourcePath demo_sys only_workspace ''/w'' ''../etc/passwd'' = ''/etc/passwd''"
  by code_simp

section \<open>Configuration\<close>

lemma sortedClean_idem [simp]: "sortedClean (Some (sortedClean xs)) = sortedClean xs"
proof -
  have t: "\<forall>v \<in> set (sortedClean xs). trim_space v = v \<and> v \<noteq> []" by (auto simp: sortedClean_def)
  then have "map trim_space (sortedClean xs) = sortedClean xs" by (simp add: map_idI)
  moreover have "filter (\<lambda>v. v \<noteq> []) (sortedClean xs) = sortedClean xs" using t by (simp add: filter_id_conv)
  moreover have "sort_strings (sortedClean xs) = sortedClean xs" by (simp add: sortedClean_def sort_strings_cong)
  ultimately show ?thesis by (simp add: sortedClean_def [of "Some _"])
qed

lemma normalizeConfig_idem [simp]: "normalizeConfig (normalizeConfig c) = normalizeConfig c"
  by (simp add: normalizeConfig_def)

lemma validate_normalize [simp]: "validateConfig (normalizeConfig c) = validateConfig c"
  unfolding validateConfig_def Let_def by (simp add: normalizeConfig_def)

definition file_config :: "sys \<Rightarrow> string \<Rightarrow> WorkspaceConfig" where
  "file_config sy root =
     (case sys_read sy (path_join [root, ConfigDirName, ConfigFileName]) of
        None \<Rightarrow> zero_config | Some data \<Rightarrow> (case decode_config data of Some c \<Rightarrow> c | None \<Rightarrow> zero_config))"

lemma apply_zero: "apply_file zero_config DefaultWorkspaceConfig = DefaultWorkspaceConfig"
  by (simp add: apply_file_def zero_config_def DefaultWorkspaceConfig_def nonempty_or_def or_else_def)

lemma derive_entry_points_fields:
  "wc_Profile (derive_entry_points order sy root c) = wc_Profile c" "wc_Cache (derive_entry_points order sy root c) = wc_Cache c"
  "wc_Adapters (derive_entry_points order sy root c) = wc_Adapters c" "wc_ExternalRoots (derive_entry_points order sy root c) = wc_ExternalRoots c"
  "wc_Includes (derive_entry_points order sy root c) = wc_Includes c" "wc_Excludes (derive_entry_points order sy root c) = wc_Excludes c"
  "wc_Budgets (derive_entry_points order sy root c) = wc_Budgets c"
  by (auto simp: derive_entry_points_def Let_def split: prod.splits)

lemma error_codes [simp]: "cfe_Code (config_error code fld) = code"
  by (simp add: config_error_def)

lemma validate_codes: "validateConfig c = Some e \<Longrightarrow> cfe_Code e \<in> {''unsupported-version'', ''invalid-profile'', ''invalid-limit''}"
  by (auto simp: validateConfig_def Let_def split: if_splits)

text \<open>A resolved configuration is valid and normal, its root is an existing directory, and every setting is
  the flag's if there is one, else the file's, else the default; an error has one of the documented codes.\<close>

theorem resolved_config_valid:
  "case ResolveConfig order sy root flags of
     Inl e \<Rightarrow> cfe_Code e \<in> {''invalid-root'', ''invalid'', ''unsupported-version'', ''invalid-profile'', ''invalid-limit''}
   | Inr c \<Rightarrow>
       validateConfig c = None \<and> normalizeConfig c = c \<and> sys_is_dir sy (wc_Root c) \<and>
       abs_path (sys_cwd sy) (path_clean (trim_space (if cf_Root flags = [] then root else cf_Root flags))) = Some (wc_Root c) \<and>
       (let fc = file_config sy (wc_Root c) in
        wc_Profile c = nonempty_or (cf_Profile flags) (nonempty_or (wc_Profile fc) ''strict/portable'') \<and>
        wc_Cache c = nonempty_or (cf_Cache flags) (nonempty_or (wc_Cache fc) ''memory'') \<and>
        wc_ExternalRoots c = Some (sortedClean (or_else (cf_ExternalRoots flags) (wc_ExternalRoots fc))) \<and>
        wc_Includes c = Some (sortedClean (or_else (cf_Includes flags) (wc_Includes fc))) \<and>
        wc_Excludes c = Some (sortedClean (or_else (cf_Excludes flags) (wc_Excludes fc))) \<and>
        wc_Budgets c = (case cf_Budgets flags of Some b \<Rightarrow> b
          | None \<Rightarrow> if wc_Budgets fc \<noteq> zero_budgets then wc_Budgets fc else defaultBudgets))"
proof (cases "ResolveConfig order sy root flags")
  case (Inl e)
  then show ?thesis
    unfolding ResolveConfig_def Let_def
    by (auto simp: error_codes simp del: path_join.simps split: if_splits option.splits dest: validate_codes)
next
  case (Inr c)
  define base where "base = trim_space (if cf_Root flags = [] then root else cf_Root flags)"
  have base: "base = (if cf_Root flags \<noteq> [] then trim_space (cf_Root flags) else trim_space root)" by (simp add: base_def)
  note r = Inr [unfolded ResolveConfig_def base [symmetric] Let_def]
  have b: "base \<noteq> []" using r by (auto split: if_splits)
  obtain full where f: "abs_path (sys_cwd sy) (path_clean base) = Some full"
    using r b by (cases "abs_path (sys_cwd sy) (path_clean base)") simp_all
  have dir: "sys_is_dir sy full" using r b f by (cases "sys_is_dir sy full") simp_all
  define cfg1 where "cfg1 = apply_file (file_config sy full) DefaultWorkspaceConfig"
  define cfg where "cfg = (apply_flags flags (derive_entry_points order sy full cfg1))\<lparr>wc_Root := full\<rparr>"
  have "(case validateConfig cfg of Some e \<Rightarrow> Inl e | None \<Rightarrow> Inr (normalizeConfig cfg)) = (Inr c :: ConfigError + WorkspaceConfig)"
  proof (cases "sys_read sy (path_join [full, ConfigDirName, ConfigFileName])")
    case None
    then have "cfg1 = DefaultWorkspaceConfig" by (simp add: cfg1_def file_config_def apply_zero del: path_join.simps)
    then show ?thesis
      using r b f dir None by (simp add: cfg_def del: path_join.simps split: option.splits)
  next
    case (Some data)
    then obtain fc where fc: "decode_config data = Some fc"
      using r b f dir by (cases "decode_config data") (simp_all del: path_join.simps)
    then have "cfg1 = apply_file fc DefaultWorkspaceConfig" using Some by (simp add: cfg1_def file_config_def del: path_join.simps)
    then show ?thesis
      using r b f dir Some fc by (simp add: cfg_def del: path_join.simps split: option.splits)
  qed
  then have c: "c = normalizeConfig cfg" "validateConfig cfg = None" by (simp_all split: option.splits)
  have "wc_Root c = full" by (simp add: c cfg_def normalizeConfig_def)
  with Inr c f dir show ?thesis
    unfolding base_def [symmetric]
    by (simp add: Let_def) (simp add: normalizeConfig_def cfg_def cfg1_def apply_flags_def derive_entry_points_fields apply_file_def
        DefaultWorkspaceConfig_def zero_config_def or_else_def split: option.split)
qed

text \<open>The adapters of the flags are never used.\<close>

lemma adapters_flag_ignored: "ResolveConfig order sy root (flags\<lparr>cf_Adapters := x\<rparr>) = ResolveConfig order sy root flags"
proof -
  have "apply_flags (flags\<lparr>cf_Adapters := x\<rparr>) = apply_flags flags" by (rule ext) (simp add: apply_flags_def)
  moreover have "cf_Root (flags\<lparr>cf_Adapters := x\<rparr>) = cf_Root flags" by simp
  ultimately show ?thesis unfolding ResolveConfig_def by (simp only:)
qed

text \<open>A profile name is trimmed when it is validated but not when it is used.\<close>

lemma padded_profile_is_strict:
  "validateConfig (DefaultWorkspaceConfig\<lparr>wc_Profile := '' distribution''\<rparr>) = None \<and>
   \<not> cp_EqualsLiteralLeadingSlash (ProfileValue (DefaultWorkspaceConfig\<lparr>wc_Profile := '' distribution''\<rparr>))"
  by code_simp

text \<open>A file that sets some of the budgets sets the others to zero, and is then refused.\<close>

lemma partial_budgets_refused:
  "validateConfig (apply_file (zero_config\<lparr>wc_Budgets := zero_budgets\<lparr>bu_MaxFiles := 5\<rparr>\<rparr>) DefaultWorkspaceConfig) =
   Some (config_error ''invalid-limit'' ''budgets'')"
  by code_simp

section \<open>Discovery\<close>

definition file_of :: "sys \<Rightarrow> WorkspaceConfig \<Rightarrow> string \<Rightarrow> (string \<rightharpoonup> string) \<Rightarrow> string \<Rightarrow> DiscoveredFile option" where
  "file_of sy cfg root entries p = map_option (discovered_file sy root (bu_MaxBytes (wc_Budgets cfg)) entries p) (sys_stat sy p)"

lemma inventory_files:
  assumes "n = nat (bu_MaxFiles (wc_Budgets cfg))" "length (dr_Files d) < max 1 n" "\<not> dr_Truncated d"
    "dr_Orphans d = int (length (filter (\<lambda>f. \<not> df_Active f) (dr_Files d)))"
  shows "dr_Files (inventory sy cfg entries ps d) = take (max 1 n) (dr_Files d @ List.map_filter (file_of sy cfg (dr_Root d) entries) ps) \<and>
    (dr_Truncated (inventory sy cfg entries ps d) \<longleftrightarrow>
      max 1 n \<le> length (dr_Files d @ List.map_filter (file_of sy cfg (dr_Root d) entries) ps)) \<and>
    dr_Orphans (inventory sy cfg entries ps d) = int (length (filter (\<lambda>f. \<not> df_Active f) (dr_Files (inventory sy cfg entries ps d))))"
  using assms(2-)
proof (induction ps arbitrary: d)
  case (Cons p ps)
  show ?case
  proof (cases "sys_stat sy p")
    case None
    then show ?thesis using Cons by (simp add: file_of_def List.map_filter_simps)
  next
    case (Some st)
    let ?f = "discovered_file sy (dr_Root d) (bu_MaxBytes (wc_Budgets cfg)) entries p st"
    let ?d = "d\<lparr>dr_Files := dr_Files d @ [?f], dr_Orphans := (if df_Active ?f then dr_Orphans d else dr_Orphans d + 1)\<rparr>"
    have f: "file_of sy cfg (dr_Root d) entries p = Some ?f" by (simp add: file_of_def Some)
    show ?thesis
    proof (cases "bu_MaxFiles (wc_Budgets cfg) \<le> int (length (dr_Files d) + 1)")
      case True
      then have "max 1 n = Suc (length (dr_Files d))" using Cons.prems(1) assms(1) by linarith
      then show ?thesis using True Cons.prems by (simp add: Some f Let_def List.map_filter_simps)
    next
      case False
      define d' where "d' = ?d"
      have d': "dr_Files d' = dr_Files d @ [?f]" "dr_Root d' = dr_Root d" "\<not> dr_Truncated d'" using Cons.prems by (simp_all add: d'_def)
      have "length (dr_Files d') < max 1 n" using False assms(1) d' by simp
      moreover have "dr_Orphans d' = int (length (filter (\<lambda>f. \<not> df_Active f) (dr_Files d')))" using Cons.prems by (simp add: d'_def)
      moreover have "inventory sy cfg entries (p # ps) d = inventory sy cfg entries ps d'" using False by (simp add: Some Let_def d'_def)
      moreover have "dr_Files d @ List.map_filter (file_of sy cfg (dr_Root d) entries) (p # ps) =
          dr_Files d' @ List.map_filter (file_of sy cfg (dr_Root d') entries) ps"
        by (simp add: f d' List.map_filter_simps)
      ultimately show ?thesis using Cons.IH [of d'] d' by simp
    qed
  qed
next
  case Nil
  then show ?case by (auto simp: List.map_filter_simps)
qed


section \<open>Loading\<close>

text \<open>The elements whose key is new, in order.\<close>

fun fresh_by :: "('a \<Rightarrow> 'k) \<Rightarrow> 'k list \<Rightarrow> 'a list \<Rightarrow> 'a list" where
  "fresh_by key seen [] = []"
| "fresh_by key seen (x # xs) = (if key x \<in> set seen then fresh_by key seen xs else x # fresh_by key (key x # seen) xs)"

lemma fresh_by_subset: "x \<in> set (fresh_by key seen xs) \<Longrightarrow> key x \<notin> set seen"
  by (induction key seen xs rule: fresh_by.induct) (auto split: if_splits)

lemma fresh_by_distinct: "distinct (map key (fresh_by key seen xs))"
proof (induction key seen xs rule: fresh_by.induct)
  case (2 key seen x xs)
  then show ?case using fresh_by_subset [of _ key "key x # seen" xs] by fastforce
qed simp

definition resolved_sources :: "sys \<Rightarrow> CompatibilityProfile \<Rightarrow> string \<Rightarrow> sourceRef list \<Rightarrow> string list" where
  "resolved_sources sy p defPath refs =
     map (canonicalWorkspacePath sy) (filter (\<lambda>r. r \<noteq> []) (map (\<lambda>ref. ResolveSourcePath sy p (path_dir defPath) (sr_path ref)) refs))"

lemma load_references_documents:
  "wl_Documents (snd (foldl (load_reference sy p defPath) (seen, res) refs)) =
   wl_Documents res @ List.map_filter (parseWorkspaceFile sy) (fresh_by (DedupKey p) seen (resolved_sources sy p defPath refs))"
proof (induction refs arbitrary: seen res)
  case (Cons ref refs)
  define r0 where "r0 = ResolveSourcePath sy p (path_dir defPath) (sr_path ref)"
  define r where "r = canonicalWorkspacePath sy r0"
  have rs: "resolved_sources sy p defPath (ref # refs) =
      (if r0 = [] then resolved_sources sy p defPath refs else r # resolved_sources sy p defPath refs)"
    by (simp add: resolved_sources_def r0_def r_def)
  obtain seen' res' where step: "load_reference sy p defPath (seen, res) ref = (seen', res')" by fastforce
  have "(r0 = [] \<or> DedupKey p r \<in> set seen) \<and> seen' = seen \<and> res' = res \<or>
      r0 \<noteq> [] \<and> DedupKey p r \<notin> set seen \<and> seen' = DedupKey p r # seen \<and>
      wl_Documents res' = wl_Documents res @ (case parseWorkspaceFile sy r of None \<Rightarrow> [] | Some doc \<Rightarrow> [doc])"
    using step by (auto simp: load_reference_def Let_def r0_def [symmetric] r_def [symmetric] split: if_splits option.splits)
  then show ?case
    using Cons [of seen' res'] step rs by (auto simp: List.map_filter_simps split: option.splits)
qed (simp add: resolved_sources_def List.map_filter_simps)

text \<open>A loaded workspace holds the definition and then every source its \<^verbatim>\<open>[Files]\<close> sections name that can be
  read, each once, in the order named, parsed from what the disk holds; no two sources have the same
  deduplication key and none has the definition's.\<close>

theorem loaded_sources_once:
  assumes "cp_Name p \<noteq> []" and "trim_space given \<noteq> []" and "defPath = (case abs_path (sys_cwd sy) (path_clean (trim_space given)) of Some a \<Rightarrow> a | None \<Rightarrow> path_clean (trim_space given))"
    and "parseWorkspaceFile sy defPath = Some root" and "\<not> equal_fold (path_base defPath) ''select.def''"
  shows "\<exists>paths. wl_Documents (LoadWorkspaceWithProfile read_error order sy given p) = root # List.map_filter (parseWorkspaceFile sy) paths \<and>
    distinct (map (DedupKey p) (canonicalWorkspacePath sy defPath # paths)) \<and>
    set (map (DedupKey p) (canonicalWorkspacePath sy defPath # paths)) =
      insert (DedupKey p (canonicalWorkspacePath sy defPath)) (DedupKey p ` set (resolved_sources sy p defPath (sourceReferences root p)))"
proof -
  let ?seen = "[DedupKey p (canonicalWorkspacePath sy defPath)]"
  let ?paths = "fresh_by (DedupKey p) ?seen (resolved_sources sy p defPath (sourceReferences root p))"
  have keys: "set (map key (fresh_by key seen xs)) \<union> set seen = set (map key xs) \<union> set seen" for key :: "string \<Rightarrow> string" and seen xs
    by (induction key seen xs rule: fresh_by.induct) auto
  have "wl_Documents (LoadWorkspaceWithProfile read_error order sy given p) = root # List.map_filter (parseWorkspaceFile sy) ?paths"
    using assms by (simp add: LoadWorkspaceWithProfile_def Let_def load_manifest_def load_references_documents)
  moreover have "distinct (map (DedupKey p) (canonicalWorkspacePath sy defPath # ?paths))"
    using fresh_by_distinct [of "DedupKey p" ?seen] fresh_by_subset [of _ "DedupKey p" ?seen] by fastforce
  ultimately show ?thesis
    using keys [of "DedupKey p" ?seen "resolved_sources sy p defPath (sourceReferences root p)"]
    by (intro exI [of _ ?paths]) auto
qed

definition one_file_sys :: "string \<Rightarrow> sys" where
  "one_file_sys p = demo_sys\<lparr>sys_stat := (\<lambda>q. if q = p then Some \<lparr>fi_dir = False, fi_size = 0\<rparr> else sys_stat demo_sys q),
     sys_read := (\<lambda>q. if q = p then Some [] else None)\<rparr>"

definition empty_document :: "string \<Rightarrow> Document" where
  "empty_document p = FromSyntax (syntax_normalizePath p) (snd (parseSyntaxLines [])) (fst (parseSyntaxLines []))"

lemma parse_one_file: "parseWorkspaceFile (one_file_sys p) q = (if q = p then Some (empty_document p) else None)"
  by (simp add: parseWorkspaceFile_def one_file_sys_def parser_Parse_eq empty_document_def)

theorem loaded_sources_once_witness:
  "\<exists>paths. wl_Documents (LoadWorkspaceWithProfile (\<lambda>_. []) id (one_file_sys ''/w/c.def'') ''c.def'' only_workspace) =
     empty_document ''/w/c.def'' # List.map_filter (parseWorkspaceFile (one_file_sys ''/w/c.def'')) paths"
proof -
  have "''/w/c.def'' = (case abs_path (sys_cwd (one_file_sys ''/w/c.def'')) (path_clean (trim_space ''c.def'')) of
      Some a \<Rightarrow> a | None \<Rightarrow> path_clean (trim_space ''c.def''))" by code_simp
  moreover have "\<not> equal_fold (path_base ''/w/c.def'') ''select.def''" "trim_space ''c.def'' \<noteq> []" "cp_Name only_workspace \<noteq> []" by code_simp+
  ultimately show ?thesis
    using loaded_sources_once [of only_workspace "''c.def''" "''/w/c.def''" "one_file_sys ''/w/c.def''" "empty_document ''/w/c.def''" "\<lambda>_. []" id]
    by (auto simp: parse_one_file)
qed

text \<open>A \<^verbatim>\<open>select.def\<close> is part of its own startup manifest and that list is not checked against what is
  loaded: its document is there twice.\<close>

lemma select_document_twice:
  "wl_Documents (LoadWorkspace (\<lambda>_. []) id (one_file_sys ''/w/select.def'') ''/w/select.def'') =
   [empty_document ''/w/select.def'', empty_document ''/w/select.def'']"
proof -
  let ?sy = "one_file_sys ''/w/select.def''" and ?p = "NewStrictPortableProfile []"
  have "resolveStartupManifest id ?sy ''/w'' = ([''select.def''], [''missing-manifest-file:data/select.def''])" by code_simp
  moreover have "doc_sections (empty_document ''/w/select.def'') = []" by code_simp
  moreover have "abs_path (sys_cwd ?sy) (path_clean (trim_space ''/w/select.def'')) = Some ''/w/select.def''"
    "path_base ''/w/select.def'' = ''select.def''" "path_dir ''/w/select.def'' = ''/w''" "path_base ''/w'' = ''w''"
    "canonicalWorkspacePath ?sy (path_join [''/w'', ''select.def'']) = ''/w/select.def''" "isSemanticSourcePath ''select.def''"
    "trim_space ''/w/select.def'' \<noteq> []" "cp_Name ?p \<noteq> []" "\<not> equal_fold ''w'' ''data''" "equal_fold ''select.def'' ''select.def''"
    by code_simp+
  ultimately show ?thesis
    by (simp add: LoadWorkspace_def LoadWorkspaceWithProfile_def Let_def parse_one_file sourceReferences_def load_manifest_def
        load_manifest_file_def del: path_join.simps)
qed

end
