(* ===== verification/Graph.thy ===== *)
theory Graph
  imports Go_Any Go_System Sha256
begin

text \<open>
  \<^verbatim>\<open>internal/graph/graph.go\<close>: the graph of what \<^verbatim>\<open>select.def\<close>, the configuration and the \<^verbatim>\<open>[Files]\<close> sections of
  the characters name, with the status of every target on disk.
\<close>

datatype graph_Kind = NodeConfig | NodeMotif | NodeSelect | NodeCharacter | NodeStage | NodeAsset | NodeOption

fun graph_kind_str :: "graph_Kind \<Rightarrow> string" where
  "graph_kind_str NodeConfig = ''config''"
| "graph_kind_str NodeMotif = ''motif''"
| "graph_kind_str NodeSelect = ''select''"
| "graph_kind_str NodeCharacter = ''character''"
| "graph_kind_str NodeStage = ''stage''"
| "graph_kind_str NodeAsset = ''asset''"
| "graph_kind_str NodeOption = ''option''"

datatype graph_Status = StatusResolved | StatusMissing | StatusAmbiguous | StatusConditional

fun graph_status_str :: "graph_Status \<Rightarrow> string" where
  "graph_status_str StatusResolved = ''resolved''"
| "graph_status_str StatusMissing = ''missing''"
| "graph_status_str StatusAmbiguous = ''ambiguous''"
| "graph_status_str StatusConditional = ''conditional''"

record graph_Span =
  gs_Path :: string
  gs_Line :: nat

record graph_Node =
  gn_ID :: string
  gn_Kind :: graph_Kind
  gn_Authored :: string
  gn_Path :: string
  gn_Status :: graph_Status
  gn_Span :: graph_Span

record graph_Edge =
  ge_From :: string
  ge_To :: string
  ge_Syntax :: string
  ge_Rule :: string
  ge_Confidence :: string
  ge_Status :: graph_Status
  ge_Authored :: string
  ge_Span :: graph_Span

record graph_Diagnostic =
  gd_Code :: string
  gd_Message :: string
  gd_Span :: graph_Span

record graph =
  gr_Nodes :: "graph_Node list"
  gr_Edges :: "graph_Edge list"
  gr_Diagnostics :: "graph_Diagnostic list"

definition graph_span :: "string \<Rightarrow> nat \<Rightarrow> graph_Span" where
  "graph_span p line = \<lparr>gs_Path = p, gs_Line = line\<rparr>"

definition graph_id :: "graph_Kind \<Rightarrow> string \<Rightarrow> string" where
  "graph_id k p = graph_kind_str k @ CHR '':'' # take 16 (sha256_hex (graph_kind_str k @ CHR '':'' # path_clean p))"

definition graph_node :: "graph_Kind \<Rightarrow> string \<Rightarrow> string \<Rightarrow> graph_Status \<Rightarrow> graph_Span \<Rightarrow> graph_Node" where
  "graph_node kind authored p status span =
     \<lparr>gn_ID = graph_id kind p, gn_Kind = kind, gn_Authored = authored, gn_Path = p, gn_Status = status, gn_Span = span\<rparr>"

definition graph_edge :: "graph_Node \<Rightarrow> graph_Node \<Rightarrow> string \<Rightarrow> string \<Rightarrow> string \<Rightarrow> graph_Edge" where
  "graph_edge from to syntax rule confidence =
     \<lparr>ge_From = gn_ID from, ge_To = gn_ID to, ge_Syntax = syntax, ge_Rule = rule, ge_Confidence = confidence,
      ge_Status = gn_Status to, ge_Authored = gn_Authored to, ge_Span = gn_Span to\<rparr>"

text \<open>A new node and the edge that leads to it.\<close>

definition grow :: "graph_Node \<Rightarrow> graph_Node \<Rightarrow> string \<Rightarrow> string \<Rightarrow> string \<Rightarrow> graph \<Rightarrow> graph" where
  "grow from to syntax rule confidence g =
     g\<lparr>gr_Nodes := gr_Nodes g @ [to], gr_Edges := gr_Edges g @ [graph_edge from to syntax rule confidence]\<rparr>"

definition status_on_disk :: "sys \<Rightarrow> string \<Rightarrow> graph_Status" where
  "status_on_disk sy p = (if sys_exists sy p then StatusResolved else StatusMissing)"

section \<open>The configuration\<close>

definition config_target :: "sys \<Rightarrow> string \<Rightarrow> graph_Node \<Rightarrow> (string \<times> any) list \<Rightarrow> graph \<Rightarrow> string \<Rightarrow> graph" where
  "config_target sy cfgPath cfgNode obj g key =
     (case string_entry key obj of
        None \<Rightarrow> g
      | Some raw \<Rightarrow>
          if raw = [] then g
          else let p = (if is_abs raw then raw else path_join [path_dir cfgPath, raw]);
                   k = (if key = ''select'' then NodeSelect else NodeMotif)
            in grow cfgNode (graph_node k raw (path_clean p) (status_on_disk sy p) (graph_span cfgPath 1))
                 (''config.'' @ key) ''config-to-target'' ''exact'' g)"

definition config_part :: "sys \<Rightarrow> string \<Rightarrow> graph_Node \<Rightarrow> graph \<Rightarrow> graph" where
  "config_part sy root selectNode g =
     (let cfgPath = path_join [root, ''save'', ''config.json''] in
      case sys_read sy cfgPath of
        None \<Rightarrow> g
      | Some cfg \<Rightarrow>
          let cfgNode = graph_node NodeConfig ''save/config.json'' cfgPath StatusResolved (graph_span cfgPath 1);
              edge = \<lparr>ge_From = gn_ID cfgNode, ge_To = gn_ID selectNode, ge_Syntax = ''config.select'', ge_Rule = ''config-to-select'',
                ge_Confidence = ''exact'', ge_Status = StatusResolved, ge_Authored = ''save/config.json'', ge_Span = graph_span cfgPath 1\<rparr>;
              g1 = g\<lparr>gr_Nodes := gr_Nodes g @ [cfgNode], gr_Edges := gr_Edges g @ [edge]\<rparr>
          in case json_any_map cfg of
               None \<Rightarrow> g1
             | Some obj \<Rightarrow> foldl (config_target sy cfgPath cfgNode obj) g1 [''motif'', ''system'', ''select''])"

section \<open>The files of a character\<close>

text \<open>The section and the line number, and the graph, after one line.\<close>

definition is_header_line :: "string \<Rightarrow> bool" where
  "is_header_line v \<longleftrightarrow> has_prefix v ''['' \<and> has_suffix v '']''"

definition manifest_edge_line :: "sys \<Rightarrow> string \<Rightarrow> graph_Node \<Rightarrow> string \<times> nat \<times> graph \<Rightarrow> string \<Rightarrow> string \<times> nat \<times> graph" where
  "manifest_edge_line sy def character st raw =
     (case st of (sec, line0, g) \<Rightarrow>
        let line = line0 + 1; v = trim_space raw in
        if is_header_line v then (to_lower (trim_set v ''[]''), line, g)
        else if sec \<noteq> ''files'' \<or> v = [] \<or> has_prefix v '';'' then (sec, line, g)
        else case split_n2 v (CHR ''='') of
          [_, w] \<Rightarrow>
            (let authored = trim_space w in
             if authored = [] then (sec, line, g)
             else let target = path_clean (if is_abs authored then authored else path_join [path_dir def, authored]);
                      status = status_on_disk sy target
               in (sec, line, grow character (graph_node NodeAsset authored target status (graph_span def line))
                    ''def.files'' ''character-asset'' (if status = StatusResolved then ''exact'' else ''inferred'') g))
        | _ \<Rightarrow> (sec, line, g))"

definition addManifestEdges :: "sys \<Rightarrow> graph_Node \<Rightarrow> string \<Rightarrow> graph \<Rightarrow> graph" where
  "addManifestEdges sy character def g =
     (case sys_read sy def of
        None \<Rightarrow> g
      | Some b \<Rightarrow> snd (snd (foldl (manifest_edge_line sy def character) ([], 0, g) (fst (scan_tokens 65536 b)))))"

section \<open>The roster\<close>

definition option_node :: "graph_Node \<Rightarrow> graph_Span \<Rightarrow> graph \<Rightarrow> string \<Rightarrow> graph" where
  "option_node n span g opt =
     (let v = trim_space opt in
      if v = [] then g else grow n (graph_node NodeOption v v StatusResolved span) ''select-option'' ''row-option'' ''exact'' g)"

definition roster_status :: "sys \<Rightarrow> string \<Rightarrow> string \<Rightarrow> graph_Status" where
  "roster_status sy authored target =
     (if equal_fold authored ''randomselect'' \<or> equal_fold authored ''random'' then StatusConditional
      else status_on_disk sy target)"

definition roster_diagnostic :: "string \<Rightarrow> graph_Status \<Rightarrow> graph_Span \<Rightarrow> graph \<Rightarrow> graph" where
  "roster_diagnostic authored status span g =
     (if status = StatusResolved then g
      else g\<lparr>gr_Diagnostics := gr_Diagnostics g @
        [\<lparr>gd_Code = (if status = StatusConditional then ''conditional-target'' else ''missing-target''),
          gd_Message = ''roster target '' @ authored @ '' is '' @ graph_status_str status, gd_Span = span\<rparr>]\<rparr>)"

definition roster_entry :: "sys \<Rightarrow> string \<Rightarrow> graph_Node \<Rightarrow> string \<Rightarrow> nat \<Rightarrow> string \<Rightarrow> string list \<Rightarrow> graph \<Rightarrow> graph" where
  "roster_entry sy sp selectNode sec line authored options g =
     (let kind = (if sec = ''characters'' then NodeCharacter else NodeStage);
          target = path_clean (if is_abs authored then authored else path_join [path_dir sp, authored]);
          status = roster_status sy authored target;
          span = graph_span sp line;
          n = graph_node kind authored target status span;
          g1 = grow selectNode n (''select.'' @ sec) ''roster-entry'' (if status = StatusResolved then ''exact'' else ''inferred'')
                 (roster_diagnostic authored status span g);
          g2 = foldl (option_node n span) g1 options
      in if kind = NodeCharacter \<and> status = StatusResolved then addManifestEdges sy n target g2 else g2)"

definition select_line :: "sys \<Rightarrow> string \<Rightarrow> graph_Node \<Rightarrow> string \<times> nat \<times> graph \<Rightarrow> string \<Rightarrow> string \<times> nat \<times> graph" where
  "select_line sy sp selectNode st raw =
     (case st of (sec, line0, g) \<Rightarrow>
        let line = line0 + 1; v = trim_space raw in
        if is_header_line v then (to_lower (trim_space (butlast (tl v))), line, g)
        else if sec \<notin> {''characters'', ''stages'', ''extrastages''} then (sec, line, g)
        else if v = [] \<or> has_prefix v '';'' \<or> has_prefix v ''#'' then (sec, line, g)
        else let parts = split_on (CHR '','') v; authored = trim_space (hd parts) in
          if authored = [] then (sec, line, g)
          else (sec, line, roster_entry sy sp selectNode sec line authored (tl parts) g))"

definition edge_less :: "graph_Edge \<Rightarrow> graph_Edge \<Rightarrow> bool" where
  "edge_less a b = (if ge_From a \<noteq> ge_From b then ge_From a < ge_From b else ge_To a < ge_To b)"

datatype graph_error = RootUnknown | SelectUnreadable string

definition graph_Build :: "sys \<Rightarrow> string \<Rightarrow> string \<Rightarrow> graph_error + graph" where
  "graph_Build sy root0 selectPath =
     (case abs_path (sys_cwd sy) root0 of
        None \<Rightarrow> Inl RootUnknown
      | Some root \<Rightarrow>
          let sp = path_clean (if is_abs selectPath then selectPath else path_join [root, selectPath]) in
          case sys_read sy sp of
            None \<Rightarrow> Inl (SelectUnreadable sp)
          | Some data \<Rightarrow>
              let selectNode = graph_node NodeSelect selectPath sp StatusResolved (graph_span sp 1);
                  g0 = \<lparr>gr_Nodes = [selectNode], gr_Edges = [], gr_Diagnostics = []\<rparr>;
                  g1 = config_part sy root selectNode g0;
                  g2 = snd (snd (foldl (select_line sy sp selectNode) ([], 0, g1) (fst (scan_tokens 65536 data))))
              in Inr (g2\<lparr>gr_Nodes := sort_by (\<lambda>a b. gn_ID a < gn_ID b) (gr_Nodes g2),
                         gr_Edges := sort_by edge_less (gr_Edges g2)\<rparr>))"

text \<open>
  What the asset graph promises: edges join nodes of the graph and always lead away from the
  configuration, so there are no cycles; every node but the two roots is reached by an edge; statuses say
  what is on disk; and every roster entry that is not resolved has its diagnostic. Also what it does not:
  a line longer than the buffer ends the roster silently.
\<close>

fun rank :: "graph_Kind \<Rightarrow> nat" where
  "rank NodeConfig = 0"
| "rank NodeSelect = 1"
| "rank NodeMotif = 1"
| "rank NodeCharacter = 2"
| "rank NodeStage = 2"
| "rank NodeAsset = 3"
| "rank NodeOption = 3"

text \<open>The status a node of a target shows.\<close>

definition expected_status :: "sys \<Rightarrow> graph_Node \<Rightarrow> graph_Status" where
  "expected_status sy n =
     (if gn_Kind n \<in> {NodeCharacter, NodeStage} then roster_status sy (gn_Authored n) (gn_Path n) else status_on_disk sy (gn_Path n))"

definition node_ok :: "sys \<Rightarrow> graph_Node \<Rightarrow> bool" where
  "node_ok sy n \<longleftrightarrow> gn_ID n = graph_id (gn_Kind n) (gn_Path n) \<and>
     (gn_Kind n \<in> {NodeConfig, NodeMotif, NodeSelect, NodeOption} \<or> gn_Status n = expected_status sy n)"

definition edge_ok :: "graph_Node list \<Rightarrow> graph_Edge \<Rightarrow> bool" where
  "edge_ok ns e \<longleftrightarrow> (\<exists>n \<in> set ns. \<exists>m \<in> set ns. ge_From e = gn_ID n \<and> ge_To e = gn_ID m \<and>
     ge_Status e = gn_Status m \<and> rank (gn_Kind n) < rank (gn_Kind m))"

definition reached :: "graph_Edge list \<Rightarrow> graph_Node \<Rightarrow> bool" where
  "reached es n \<longleftrightarrow> gn_ID n \<in> ge_To ` set es \<or> gn_Kind n \<in> {NodeConfig, NodeSelect}"

text \<open>The entries of the roster that are not resolved.\<close>

definition unresolved :: "graph_Node list \<Rightarrow> graph_Span multiset" where
  "unresolved ns = mset (map gn_Span (filter (\<lambda>n. gn_Kind n \<in> {NodeCharacter, NodeStage} \<and> gn_Status n \<noteq> StatusResolved) ns))"

definition graph_ok :: "sys \<Rightarrow> graph \<Rightarrow> bool" where
  "graph_ok sy g \<longleftrightarrow> list_all (node_ok sy) (gr_Nodes g) \<and> list_all (edge_ok (gr_Nodes g)) (gr_Edges g) \<and>
     list_all (reached (gr_Edges g)) (gr_Nodes g)"

definition diagnosed :: "graph \<Rightarrow> bool" where
  "diagnosed g \<longleftrightarrow> mset (map gd_Span (gr_Diagnostics g)) = unresolved (gr_Nodes g)"

section \<open>Growing a graph\<close>

lemma edge_ok_more: "edge_ok ns e \<Longrightarrow> set ns \<subseteq> set ms \<Longrightarrow> edge_ok ms e"
  by (auto simp: edge_ok_def)

lemma reached_more: "reached es n \<Longrightarrow> set es \<subseteq> set fs \<Longrightarrow> reached fs n"
  by (auto simp: reached_def)

lemma unresolved_append [simp]: "unresolved (ms @ ns) = unresolved ms + unresolved ns"
  by (simp add: unresolved_def)

lemma unresolved_one: "unresolved [n] =
    (if gn_Kind n \<in> {NodeCharacter, NodeStage} \<and> gn_Status n \<noteq> StatusResolved then {#gn_Span n#} else {#})"
  by (simp add: unresolved_def)

lemma grow_simps [simp]:
  "gr_Nodes (grow from to sy r c g) = gr_Nodes g @ [to]"
  "gr_Edges (grow from to sy r c g) = gr_Edges g @ [graph_edge from to sy r c]"
  "gr_Diagnostics (grow from to sy r c g) = gr_Diagnostics g"
  by (simp_all add: grow_def)

lemma graph_node_simps [simp]:
  "gn_ID (graph_node k a p st sp) = graph_id k p" "gn_Kind (graph_node k a p st sp) = k"
  "gn_Authored (graph_node k a p st sp) = a" "gn_Path (graph_node k a p st sp) = p"
  "gn_Status (graph_node k a p st sp) = st" "gn_Span (graph_node k a p st sp) = sp"
  by (simp_all add: graph_node_def)

lemma graph_ok_grow:
  assumes "graph_ok sy g" and "from \<in> set (gr_Nodes g)" and "rank (gn_Kind from) < rank (gn_Kind to)" and "node_ok sy to"
  shows "graph_ok sy (grow from to syn r c g)"
proof -
  have "edge_ok (gr_Nodes g @ [to]) (graph_edge from to syn r c)"
    using assms(2,3) by (fastforce simp: edge_ok_def graph_edge_def)
  moreover have "reached (gr_Edges g @ [graph_edge from to syn r c]) to" by (simp add: reached_def graph_edge_def)
  ultimately show ?thesis using assms(1,4)
    by (auto simp: graph_ok_def list_all_iff intro: edge_ok_more reached_more)
qed

text \<open>What every step keeps: the invariants, and every node there was.\<close>

definition keeps :: "sys \<Rightarrow> graph_Node \<Rightarrow> graph \<Rightarrow> bool" where
  "keeps sy n g \<longleftrightarrow> graph_ok sy g \<and> diagnosed g \<and> n \<in> set (gr_Nodes g)"

lemma keeps_grow:
  assumes "keeps sy n g" and "from \<in> set (gr_Nodes g)" and "rank (gn_Kind from) < rank (gn_Kind to)" and "node_ok sy to"
    and "gn_Kind to \<notin> {NodeCharacter, NodeStage} \<or> gn_Status to = StatusResolved"
  shows "keeps sy n (grow from to syn r c g)"
  using assms graph_ok_grow [of sy g "from" to syn r c] by (auto simp: keeps_def diagnosed_def unresolved_one)

lemma foldl_inv: "P s \<Longrightarrow> (\<And>s x. P s \<Longrightarrow> P (f s x)) \<Longrightarrow> P (foldl f s xs)"
  by (induction xs arbitrary: s) auto

section \<open>The steps\<close>

lemma keeps_manifest_line:
  assumes "keeps sy n (snd (snd st))" and "c \<in> set (gr_Nodes (snd (snd st)))" and "gn_Kind c = NodeCharacter"
  shows "keeps sy n (snd (snd (manifest_edge_line sy def c st raw))) \<and> c \<in> set (gr_Nodes (snd (snd (manifest_edge_line sy def c st raw))))"
  using assms
  by (auto simp: manifest_edge_line_def Let_def node_ok_def expected_status_def split: prod.splits list.splits intro!: keeps_grow)

lemma keeps_manifest_edges:
  assumes "keeps sy n g" and "c \<in> set (gr_Nodes g)" and "gn_Kind c = NodeCharacter"
  shows "keeps sy n (addManifestEdges sy c def g)"
proof (cases "sys_read sy def")
  case (Some b)
  have "keeps sy n (snd (snd (foldl (manifest_edge_line sy def c) ([], 0, g) ls))) \<and>
      c \<in> set (gr_Nodes (snd (snd (foldl (manifest_edge_line sy def c) ([], 0, g) ls))))" for ls
    by (rule foldl_inv) (use assms keeps_manifest_line in auto)
  then show ?thesis using Some by (simp add: addManifestEdges_def)
qed (use assms in \<open>simp add: addManifestEdges_def\<close>)

lemma keeps_options:
  assumes "keeps sy n g" and "m \<in> set (gr_Nodes g)" and "rank (gn_Kind m) = 2"
  shows "keeps sy n (foldl (option_node m span) g opts) \<and> m \<in> set (gr_Nodes (foldl (option_node m span) g opts))"
  by (rule foldl_inv) (use assms in \<open>auto simp: option_node_def Let_def node_ok_def intro!: keeps_grow\<close>)

lemma keeps_roster_entry:
  assumes "keeps sy n g" and "gn_Kind n = NodeSelect"
  shows "keeps sy n (roster_entry sy sp n sec line authored options g)"
proof -
  define kind where "kind = (if sec = ''characters'' then NodeCharacter else NodeStage)"
  define target where "target = path_clean (if is_abs authored then authored else path_join [path_dir sp, authored])"
  define status where "status = roster_status sy authored target"
  define m where "m = graph_node kind authored target status (graph_span sp line)"
  define g1 where "g1 = grow n m (''select.'' @ sec) ''roster-entry'' (if status = StatusResolved then ''exact'' else ''inferred'')
                 (roster_diagnostic authored status (graph_span sp line) g)"
  define g2 where "g2 = foldl (option_node m (graph_span sp line)) g1 options"
  have kind: "kind \<in> {NodeCharacter, NodeStage}" by (simp add: kind_def)
  have "graph_ok sy (roster_diagnostic authored status (graph_span sp line) g)" "n \<in> set (gr_Nodes (roster_diagnostic authored status (graph_span sp line) g))"
    using assms by (auto simp: roster_diagnostic_def graph_ok_def keeps_def)
  moreover have "node_ok sy m" using kind by (auto simp: m_def node_ok_def status_def expected_status_def)
  moreover have "rank (gn_Kind n) < rank (gn_Kind m)" using kind assms(2) by (auto simp: m_def)
  ultimately have "graph_ok sy g1" "n \<in> set (gr_Nodes g1)" unfolding g1_def by (auto intro: graph_ok_grow)
  moreover have "diagnosed g1"
    using assms(1) kind by (auto simp: g1_def m_def roster_diagnostic_def diagnosed_def keeps_def unresolved_one)
  ultimately have k1: "keeps sy n g1" by (simp add: keeps_def)
  have "m \<in> set (gr_Nodes g1)" "rank (gn_Kind m) = 2" using kind by (auto simp: g1_def m_def)
  from keeps_options [OF k1 this, of "graph_span sp line" options]
  have k2: "keeps sy n g2" "m \<in> set (gr_Nodes g2)" by (simp_all add: g2_def)
  have "roster_entry sy sp n sec line authored options g =
      (if kind = NodeCharacter \<and> status = StatusResolved then addManifestEdges sy m target g2 else g2)"
    unfolding roster_entry_def Let_def g2_def g1_def m_def status_def target_def kind_def ..
  moreover have "gn_Kind m = kind" by (simp add: m_def)
  ultimately show ?thesis using k2 keeps_manifest_edges [OF k2] by auto
qed

text \<open>What the start of the graph has: the select node is in it.\<close>

lemma keeps_select_line:
  assumes "keeps sy n (snd (snd st))" and "gn_Kind n = NodeSelect"
  shows "keeps sy n (snd (snd (select_line sy sp n st raw)))"
  using assms keeps_roster_entry [OF assms(1,2)] by (auto simp: select_line_def Let_def split: prod.splits)

lemma keeps_config:
  assumes "keeps sy n g" and "gn_Kind n = NodeSelect" and "gn_Status n = StatusResolved"
  shows "keeps sy n (config_part sy root n g)"
proof (cases "sys_read sy (path_join [root, ''save'', ''config.json''])")
  case (Some cfg)
  define cfgPath where "cfgPath = path_join [root, ''save'', ''config.json'']"
  define c where "c = graph_node NodeConfig ''save/config.json'' cfgPath StatusResolved (graph_span cfgPath 1)"
  define e where "e = \<lparr>ge_From = gn_ID c, ge_To = gn_ID n, ge_Syntax = ''config.select'', ge_Rule = ''config-to-select'',
                ge_Confidence = ''exact'', ge_Status = StatusResolved, ge_Authored = ''save/config.json'', ge_Span = graph_span cfgPath 1\<rparr>"
  define g1 where "g1 = g\<lparr>gr_Nodes := gr_Nodes g @ [c], gr_Edges := gr_Edges g @ [e]\<rparr>"
  have c: "gn_Kind c = NodeConfig" "node_ok sy c" by (simp_all add: c_def node_ok_def)
  have "edge_ok (gr_Nodes g1) e"
    using assms c by (auto simp: edge_ok_def e_def g1_def keeps_def intro!: bexI [of _ c] bexI [of _ n])
  then have "graph_ok sy g1"
    using assms(1) c by (auto simp: g1_def graph_ok_def keeps_def list_all_iff reached_def intro: edge_ok_more)
  then have k1: "keeps sy n g1 \<and> c \<in> set (gr_Nodes g1)" using assms(1) c by (auto simp: keeps_def g1_def diagnosed_def unresolved_one)
  have "keeps sy n (foldl (config_target sy cfgPath c obj) g1 ks) \<and> c \<in> set (gr_Nodes (foldl (config_target sy cfgPath c obj) g1 ks))" for obj ks
    by (rule foldl_inv) (use c k1 in \<open>auto simp: config_target_def Let_def node_ok_def split: option.splits intro!: keeps_grow\<close>)
  moreover have "config_part sy root n g =
      (case json_any_map cfg of None \<Rightarrow> g1 | Some obj \<Rightarrow> foldl (config_target sy cfgPath c obj) g1 [''motif'', ''system'', ''select''])"
    using Some unfolding config_part_def Let_def g1_def e_def c_def cfgPath_def by simp
  ultimately show ?thesis using k1 by (simp split: option.splits del: foldl.simps)
qed (use assms in \<open>simp add: config_part_def Let_def\<close>)

section \<open>No cycles\<close>

definition id_rank :: "string \<Rightarrow> nat" where
  "id_rank s =
     (let k = takeWhile (\<lambda>c. c \<noteq> CHR '':'') s in
      if k = ''config'' then 0 else if k \<in> {''select'', ''motif''} then 1 else if k \<in> {''character'', ''stage''} then 2 else 3)"

lemma id_rank: "id_rank (graph_id k p) = rank k"
  by (cases k) (simp_all add: id_rank_def graph_id_def)

definition edge_pairs :: "graph \<Rightarrow> (string \<times> string) set" where
  "edge_pairs g = (\<lambda>e. (ge_From e, ge_To e)) ` set (gr_Edges g)"

lemma graph_ok_acyclic: "graph_ok sy g \<Longrightarrow> acyclic (edge_pairs g)"
proof -
  assume ok: "graph_ok sy g"
  have "edge_pairs g \<subseteq> measure id_rank"
  proof (clarsimp simp: edge_pairs_def)
    fix e assume "e \<in> set (gr_Edges g)"
    then obtain n m where "n \<in> set (gr_Nodes g)" "m \<in> set (gr_Nodes g)" "ge_From e = gn_ID n" "ge_To e = gn_ID m"
        "rank (gn_Kind n) < rank (gn_Kind m)"
      using ok by (auto simp: graph_ok_def list_all_iff edge_ok_def)
    then show "id_rank (ge_From e) < id_rank (ge_To e)"
      using ok id_rank by (auto simp: graph_ok_def list_all_iff node_ok_def)
  qed
  then show ?thesis using wf_acyclic [OF wf_measure] acyclic_subset by blast
qed

lemma weak_order_node_ids: "weak_order (\<lambda>a b. gn_ID a < gn_ID b)"
  by (rule weak_order_key)


section \<open>A long line\<close>

text \<open>\<^verbatim>\<open>scan.Err()\<close> is not asked for: a line of 64 KiB ends the roster, and nothing says so.\<close>

lemma long_line_ends_roster:
  assumes "65536 \<le> length l" and "CHR 0x0A \<notin> set l"
  shows "foldl (select_line sy sp n) st (fst (scan_tokens 65536 (l @ CHR 0x0A # rest))) = st"
proof -
  have "takeWhile (\<lambda>c. c \<noteq> CHR 0x0A) (l @ CHR 0x0A # rest) = l"
    using assms(2) by (induction l) auto
  then show ?thesis using assms(1) by (subst scan_tokens.simps) (auto simp: Let_def)
qed

end
