(* ===== verification/Lsp_Protocol.thy ===== *)
theory Lsp_Protocol
  imports Go_Any Go_Json
begin

text \<open>
  \<^verbatim>\<open>internal/lsp/protocol.go\<close>: the frames of the language server protocol on a stream of bytes, requests and
  responses. A stream is the bytes that are still to come, and reading gives what is left of it.
\<close>

definition MaxFrameSize :: int where
  "MaxFrameSize = 16777216"

text \<open>\<^verbatim>\<open>io.EOF\<close>, \<^verbatim>\<open>io.ErrUnexpectedEOF\<close> and \<^verbatim>\<open>ErrMalformedFrame\<close>.\<close>

datatype frame_error = FrameEOF | FrameUnexpectedEOF | MalformedFrame

definition json_valid :: "string \<Rightarrow> bool" where
  "json_valid s \<longleftrightarrow> json_unmarshal s \<noteq> None"

text \<open>The header lines up to the empty one; the last header of a name wins.\<close>

definition header_line :: "string \<Rightarrow> string" where
  "header_line raw = trim_suffix raw [CHR 0x0D]"

function read_headers :: "(string \<Rightarrow> string option) \<Rightarrow> string \<Rightarrow> (frame_error + (string \<Rightarrow> string option)) \<times> string" where
  "read_headers headers s =
     (case index_byte s (CHR 0x0A) of
        None \<Rightarrow> (Inl FrameEOF, [])
      | Some i \<Rightarrow>
          let line = header_line (take i s); rest = drop (Suc i) s in
          if line = [] then (Inr headers, rest)
          else case split_n2 line (CHR '':'') of
            [name, v] \<Rightarrow> read_headers (headers(to_lower (trim_space name) \<mapsto> trim_space v)) rest
          | _ \<Rightarrow> (Inl MalformedFrame, rest))"
  by pat_completeness auto
termination
proof (relation "measure (\<lambda>(h, s). length s)", goal_cases)
  case (2 h s i line rest)
  then have "s \<noteq> []" by auto
  with 2 show ?case by simp
qed simp

declare read_headers.simps [simp del]

definition frame_length :: "(string \<Rightarrow> string option) \<Rightarrow> int option" where
  "frame_length headers =
     (case atoi (case headers ''content-length'' of None \<Rightarrow> [] | Some v \<Rightarrow> v) of
        None \<Rightarrow> None
      | Some n \<Rightarrow> if n < 0 \<or> MaxFrameSize < n then None else Some n)"

definition ReadFrame :: "string \<Rightarrow> (frame_error + string) \<times> string" where
  "ReadFrame s =
     (case read_headers Map.empty s of
        (Inl e, rest) \<Rightarrow> (Inl e, rest)
      | (Inr headers, rest) \<Rightarrow>
          (case frame_length headers of
             None \<Rightarrow> (Inl MalformedFrame, rest)
           | Some n \<Rightarrow>
               let body = take (nat n) rest; rest' = drop (nat n) rest in
               if 0 < n \<and> rest = [] then (Inl FrameEOF, [])
               else if int (length rest) < n then (Inl FrameUnexpectedEOF, [])
               else if \<not> json_valid body then (Inl MalformedFrame, rest') else (Inr body, rest')))"

definition WriteFrame :: "string \<Rightarrow> frame_error + string" where
  "WriteFrame body =
     (if MaxFrameSize < int (length body) \<or> \<not> json_valid body then Inl MalformedFrame
      else Inr (''Content-Length: '' @ itoa (int (length body)) @ [CHR 0x0D, CHR 0x0A, CHR 0x0D, CHR 0x0A] @ body))"

section \<open>Requests and responses\<close>

text \<open>A raw message is the value it holds; an absent one is \<^const>\<open>None\<close>.\<close>

record lsp_Request =
  rq_JSONRPC :: string
  rq_ID :: "json option"
  rq_Method :: string
  rq_Params :: "json option"

record lsp_Error =
  le_Code :: int
  le_Message :: string

definition request_field :: "string \<Rightarrow> json \<Rightarrow> lsp_Request \<Rightarrow> lsp_Request option" where
  "request_field k v r =
     (if equal_fold k ''jsonrpc'' then decode_string v (\<lambda>s. rq_JSONRPC_update (\<lambda>_. s)) r
      else if equal_fold k ''id'' then Some (r\<lparr>rq_ID := Some v\<rparr>)
      else if equal_fold k ''method'' then decode_string v (\<lambda>s. rq_Method_update (\<lambda>_. s)) r
      else if equal_fold k ''params'' then Some (r\<lparr>rq_Params := Some v\<rparr>)
      else Some r)"

definition zero_request :: lsp_Request where
  "zero_request = \<lparr>rq_JSONRPC = [], rq_ID = None, rq_Method = [], rq_Params = None\<rparr>"

definition decodeRequest :: "json \<Rightarrow> lsp_Request option" where
  "decodeRequest v =
     (case decode_struct request_field v zero_request of
        None \<Rightarrow> None
      | Some r \<Rightarrow> if rq_JSONRPC r \<noteq> ''2.0'' \<or> rq_Method r = [] then None else Some r)"

text \<open>The value of an identifier, as it is written back: numbers keep their literals, objects become maps.\<close>

fun json_echo :: "json \<Rightarrow> json" where
  "json_echo (JArr vs) = JArr (map json_echo vs)"
| "json_echo (JObj fs) = JObj (as_map (map (\<lambda>(k, v). (k, json_echo v)) fs))"
| "json_echo v = v"

definition rawID :: "json option \<Rightarrow> json" where
  "rawID raw = (case raw of None \<Rightarrow> JNull | Some v \<Rightarrow> json_echo v)"

definition isNotification :: "json option \<Rightarrow> bool" where
  "isNotification raw \<longleftrightarrow> raw = None"

text \<open>A response has a result or an error, never both.\<close>

datatype 'r lsp_Response = Answer (resp_id: json) 'r | Refusal (resp_id: json) lsp_Error

definition error_json :: "lsp_Error \<Rightarrow> json" where
  "error_json e = JObj [(''code'', JInt (le_Code e)), (''message'', JStr (le_Message e))]"

definition response_json :: "('r \<Rightarrow> json) \<Rightarrow> 'r lsp_Response \<Rightarrow> json" where
  "response_json result r =
     (case r of
        Refusal i e \<Rightarrow> JObj [(''jsonrpc'', JStr ''2.0''), (''id'', i), (''error'', error_json e)]
      | Answer i v \<Rightarrow> JObj [(''jsonrpc'', JStr ''2.0''), (''id'', i), (''result'', result v)])"

section \<open>Frames are read back\<close>

lemma index_byte_append_notin: "c \<notin> set s \<Longrightarrow> index_byte (s @ c # t) c = Some (length s)"
  by (induction s) auto

lemma trim_space_blank: "trim_space (CHR '' '' # s) = trim_space s"
proof -
  have "ws_head (CHR '' '' # s) = 1" by (simp add: ws_head_def ascii_space_def)
  then show ?thesis using strip_step [of ws_head "CHR '' '' # s"] by (simp add: trim_space_def trim_left_space_def)
qed

lemma trim_space_itoa: "0 \<le> n \<Longrightarrow> trim_space (itoa n) = itoa n"
proof -
  assume "0 \<le> n"
  then have d: "itoa n = nat_digits (nat n)" by (simp add: itoa_def)
  have "is_digit (hd (itoa n))" "is_digit (last (itoa n))"
    unfolding d by (simp_all add: nat_digits_digit [of _ "nat n"])
  then show ?thesis by (intro trim_space_ends) (auto simp: d is_digit_def ascii_space_def)
qed

lemma itoa_plain: "0 \<le> n \<Longrightarrow> c \<in> set (itoa n) \<Longrightarrow> is_digit c"
  using nat_digits_digit by (simp add: itoa_def)

lemma read_headers_line:
  assumes "index_byte s (CHR 0x0A) = Some i" and "split_n2 (header_line (take i s)) (CHR '':'') = [name, v]"
    and "header_line (take i s) \<noteq> []"
  shows "read_headers h s = read_headers (h(to_lower (trim_space name) \<mapsto> trim_space v)) (drop (Suc i) s)"
  using assms by (subst read_headers.simps) (simp add: Let_def)

lemma read_frame_written:
  assumes "WriteFrame body = Inr w"
  shows "ReadFrame (w @ rest) = (Inr body, rest)"
proof -
  let ?n = "int (length body)"
  define h where "h = ''Content-Length: '' @ itoa ?n @ [CHR 0x0D]"
  have ok: "\<not> MaxFrameSize < ?n" "json_valid body" and w: "w = h @ CHR 0x0A # CHR 0x0D # CHR 0x0A # body"
    using assms by (auto simp: WriteFrame_def h_def split: if_splits)
  have no_nl: "CHR 0x0A \<notin> set (itoa ?n)" using itoa_plain [of ?n "CHR 0x0A"] by (auto simp: is_digit_def)
  have i1: "index_byte (w @ rest) (CHR 0x0A) = Some (length h)"
    using index_byte_append_notin [of "CHR 0x0A" h "CHR 0x0D # CHR 0x0A # body @ rest"] no_nl by (simp add: w h_def)
  have l1: "take (length h) (w @ rest) = h" "drop (Suc (length h)) (w @ rest) = CHR 0x0D # CHR 0x0A # body @ rest"
    by (simp_all add: w)
  have h1: "header_line h = ''Content-Length: '' @ itoa ?n"
    using trim_suffix_append [of "''Content-Length: '' @ itoa ?n" "[CHR 0x0D]"] by (simp add: header_line_def h_def)
  have s1: "split_n2 (''Content-Length: '' @ itoa ?n) (CHR '':'') = [''Content-Length'', CHR '' '' # itoa ?n]"
    by (simp add: split_n2_def cut_at_def)
  have name: "to_lower (trim_space ''Content-Length'') = ''content-length''" by code_simp
  have "read_headers Map.empty (w @ rest) = read_headers [''content-length'' \<mapsto> itoa ?n] (CHR 0x0D # CHR 0x0A # body @ rest)"
    using read_headers_line [OF i1, of "''Content-Length''" "CHR '' '' # itoa ?n" Map.empty]
    unfolding l1 h1 s1 name by (simp add: trim_space_blank trim_space_itoa)
  also have "\<dots> = (Inr [''content-length'' \<mapsto> itoa ?n], body @ rest)"
    by (subst read_headers.simps) (simp add: header_line_def trim_suffix_def has_suffix_def)
  finally have "read_headers Map.empty (w @ rest) = (Inr [''content-length'' \<mapsto> itoa ?n], body @ rest)" .
  moreover have "frame_length [''content-length'' \<mapsto> itoa ?n] = Some ?n"
    using ok(1) by (simp add: frame_length_def atoi_itoa int64_min_def int64_max_def MaxFrameSize_def)
  ultimately show ?thesis using ok(2) by (auto simp: ReadFrame_def)
qed

text \<open>Reading always gets on: what is left is shorter.\<close>

lemma read_headers_shorter: "read_headers h s = (Inr h', rest) \<Longrightarrow> length rest < length s"
proof (induction h s rule: read_headers.induct)
  case (1 h s)
  show ?case
  proof (cases "index_byte s (CHR 0x0A)")
    case (Some i)
    define line where "line = header_line (take i s)"
    define left where "left = drop (Suc i) s"
    have shorter: "length left < length s" using Some by (cases s) (simp_all add: left_def)
    have step: "read_headers h s = (if line = [] then (Inr h, left)
        else case split_n2 line (CHR '':'') of
          [name, v] \<Rightarrow> read_headers (h(to_lower (trim_space name) \<mapsto> trim_space v)) left
        | _ \<Rightarrow> (Inl MalformedFrame, left))"
      unfolding line_def left_def by (subst read_headers.simps) (simp add: Some Let_def)
    show ?thesis
    proof (cases "line = []")
      case True
      then show ?thesis using 1(2) step shorter by simp
    next
      case False
      then obtain name v where nv: "split_n2 line (CHR '':'') = [name, v]"
        using 1(2) step by (auto split: list.splits)
      have "read_headers (h(to_lower (trim_space name) \<mapsto> trim_space v)) left = (Inr h', rest)"
        using 1(2) step False nv by simp
      from 1(1) [OF Some line_def left_def False nv refl refl this] show ?thesis using shorter by simp
    qed
  qed (use 1 in \<open>simp add: read_headers.simps\<close>)
qed

lemma read_frame_shorter: "ReadFrame s = (Inr body, rest) \<Longrightarrow> length rest < length s"
  by (auto simp: ReadFrame_def Let_def split: prod.splits sum.splits option.splits if_splits dest!: read_headers_shorter)

end
