(* ===== verification/Lsp_Server.thy ===== *)
theory Lsp_Server
  imports Lsp_Protocol Scanner Semantics "HOL-Library.AList"
begin

text \<open>
  \<^verbatim>\<open>internal/lsp/server.go\<close>: the language server. Its state is the map of open documents; every document is
  kept under its path and under its URI. Go visits that map in no particular order: the order is an
  argument. \<^verbatim>\<open>url.Parse\<close> is an argument too, and so is what the context answers, once when a request is taken up
  and once for all later questions. Writing to the client does not fail.
\<close>

type_synonym lsp_docs = "(string \<times> Document) list"

type_synonym lsp_order = "string list \<Rightarrow> string list"

text \<open>Scheme, opaque part, host and path.\<close>

type_synonym lsp_url = "string \<Rightarrow> (string \<times> string \<times> string \<times> string) option"

definition lsp_NewServer :: lsp_docs where
  "lsp_NewServer = []"

definition uriForPath :: "string \<Rightarrow> string" where
  "uriForPath path = ''file://'' @ path"

definition pathForURI :: "lsp_url \<Rightarrow> string \<Rightarrow> string" where
  "pathForURI parse raw =
     (case parse raw of
        None \<Rightarrow> raw
      | Some (scheme, opaque, host, path) \<Rightarrow>
          if scheme = [] then raw
          else let p = (if path \<noteq> [] then path else if opaque \<noteq> [] then opaque else host) in
            if 2 < length p \<and> p ! 0 = CHR ''/'' \<and> p ! 2 = CHR '':'' then tl p else p)"

section \<open>The documents\<close>

definition context_error :: string where
  "context_error = ''context canceled''"

definition store_document :: "string \<Rightarrow> Document \<Rightarrow> lsp_docs \<Rightarrow> lsp_docs" where
  "store_document path doc docs =
     AList.update (uriForPath path) doc (AList.update path doc (AList.update (path_clean path) doc (AList.update path doc docs)))"

definition SetDocument :: "bool \<Rightarrow> string \<Rightarrow> string \<Rightarrow> lsp_docs \<Rightarrow> string option \<times> lsp_docs" where
  "SetDocument cancelled path source docs =
     (if cancelled then (Some context_error, docs)
      else if trim_space path = [] then (Some ''lsp: empty document path'', docs)
      else case parser_Parse path source of
        None \<Rightarrow> (Some ''lsp: parser returned nil document'', docs)
      | Some doc \<Rightarrow> (None, store_document path doc docs))"

definition RemoveDocument :: "lsp_url \<Rightarrow> string \<Rightarrow> lsp_docs \<Rightarrow> lsp_docs" where
  "RemoveDocument parse pathOrURI docs =
     (let path = pathForURI parse pathOrURI in
      AList.delete (uriForPath path) (AList.delete path (AList.delete (path_clean path)
        (AList.delete path (AList.delete pathOrURI docs)))))"

text \<open>The other documents, one per path, with the one asked about.\<close>

fun distinct_paths :: "string list \<Rightarrow> Document list \<Rightarrow> Document list" where
  "distinct_paths seen [] = []"
| "distinct_paths seen (d # ds) =
     (if doc_path d \<in> set seen then distinct_paths seen ds else d # distinct_paths (doc_path d # seen) ds)"

definition open_documents :: "lsp_order \<Rightarrow> lsp_docs \<Rightarrow> Document list" where
  "open_documents order docs = map (\<lambda>k. the (map_of docs k)) (order (map fst docs))"

definition workspaceDocuments :: "lsp_order \<Rightarrow> lsp_docs \<Rightarrow> Document \<Rightarrow> Document list" where
  "workspaceDocuments order docs doc =
     sort_by (\<lambda>a b. doc_path a < doc_path b) (doc # distinct_paths [doc_path doc] (open_documents order docs))"

section \<open>Positions\<close>

record lsp_Position =
  lp_Line :: int
  lp_Character :: int

record lsp_Range =
  lr_Start :: lsp_Position
  lr_End :: lsp_Position

record lsp_Diagnostic =
  ld_Range :: lsp_Range
  ld_Severity :: int
  ld_Code :: string
  ld_Message :: string

record DocumentSymbol =
  ls_Name :: string
  ls_Kind :: int
  ls_Range :: lsp_Range

record lsp_Location =
  lo_URI :: string
  lo_Range :: lsp_Range

record lsp_Hover =
  lh_Value :: string
  lh_Range :: lsp_Range

definition convert_position :: "SourcePosition \<Rightarrow> lsp_Position" where
  "convert_position p = \<lparr>lp_Line = Line p - 1, lp_Character = Column p - 1\<rparr>"

definition convertRange :: "SourceSpan \<Rightarrow> lsp_Range" where
  "convertRange s = \<lparr>lr_Start = convert_position (Start s), lr_End = convert_position (End s)\<rparr>"

fun severity_number :: "Severity \<Rightarrow> int" where
  "severity_number SeverityError = 1"
| "severity_number SeverityWarning = 2"
| "severity_number SeverityInfo = 3"

definition convertDiagnostic :: "Diagnostic \<Rightarrow> lsp_Diagnostic" where
  "convertDiagnostic d =
     \<lparr>ld_Range = \<lparr>lr_Start = convert_position (dg_start d), lr_End = convert_position (dg_end d)\<rparr>,
      ld_Severity = severity_number (dg_severity d), ld_Code = dg_code d, ld_Message = dg_message d\<rparr>"

definition containsPosition :: "SourceSpan \<Rightarrow> lsp_Position \<Rightarrow> bool" where
  "containsPosition span pos =
     (let line = lp_Line pos + 1; col = lp_Character pos + 1 in
      if line < Line (Start span) \<or> Line (End span) < line then False
      else if line = Line (Start span) \<and> col < Column (Start span) then False
      else if line = Line (End span) \<and> 0 < Column (End span) \<and> Column (End span) < col then False
      else True)"

definition symbolAt :: "Document \<Rightarrow> lsp_Position \<Rightarrow> Symbol option" where
  "symbolAt doc pos = find (\<lambda>s. containsPosition (sym_span s) pos) (doc_symbols doc)"

definition referenceAt :: "Document \<Rightarrow> lsp_Position \<Rightarrow> Reference option" where
  "referenceAt doc pos = find (\<lambda>r. containsPosition (ref_span r) pos) (doc_references doc)"

section \<open>Parameters\<close>

record lsp_params =
  pr_URI :: string
  pr_Text :: string
  pr_Position :: lsp_Position
  pr_IncludeDeclaration :: bool

definition zero_params :: lsp_params where
  "zero_params = \<lparr>pr_URI = [], pr_Text = [], pr_Position = \<lparr>lp_Line = 0, lp_Character = 0\<rparr>, pr_IncludeDeclaration = False\<rparr>"

definition text_document_field :: "string \<Rightarrow> json \<Rightarrow> lsp_params \<Rightarrow> lsp_params option" where
  "text_document_field k v p =
     (if equal_fold k ''uri'' then decode_string v (\<lambda>s. pr_URI_update (\<lambda>_. s)) p
      else if equal_fold k ''text'' then decode_string v (\<lambda>s. pr_Text_update (\<lambda>_. s)) p
      else Some p)"

definition position_field :: "string \<Rightarrow> json \<Rightarrow> lsp_Position \<Rightarrow> lsp_Position option" where
  "position_field k v p =
     (if equal_fold k ''line'' then decode_int64 v (\<lambda>i. lp_Line_update (\<lambda>_. i)) p
      else if equal_fold k ''character'' then decode_int64 v (\<lambda>i. lp_Character_update (\<lambda>_. i)) p
      else Some p)"

definition context_field :: "string \<Rightarrow> json \<Rightarrow> lsp_params \<Rightarrow> lsp_params option" where
  "context_field k v p =
     (if equal_fold k ''includeDeclaration'' then decode_bool v (\<lambda>b. pr_IncludeDeclaration_update (\<lambda>_. b)) p else Some p)"

definition text_params_field :: "string \<Rightarrow> json \<Rightarrow> lsp_params \<Rightarrow> lsp_params option" where
  "text_params_field k v p =
     (if equal_fold k ''textDocument'' then decode_struct text_document_field v p else Some p)"

definition position_params_field :: "string \<Rightarrow> json \<Rightarrow> lsp_params \<Rightarrow> lsp_params option" where
  "position_params_field k v p =
     (if equal_fold k ''textDocument'' then decode_struct text_document_field v p
      else if equal_fold k ''position'' then map_option (\<lambda>q. p\<lparr>pr_Position := q\<rparr>) (decode_struct position_field v (pr_Position p))
      else if equal_fold k ''context'' then decode_struct context_field v p
      else Some p)"

definition decode_params :: "(string \<Rightarrow> json \<Rightarrow> lsp_params \<Rightarrow> lsp_params option) \<Rightarrow> json option \<Rightarrow> lsp_params option" where
  "decode_params field raw =
     (case raw of
        None \<Rightarrow> None
      | Some v \<Rightarrow> (case decode_struct field v zero_params of None \<Rightarrow> None | Some p \<Rightarrow> if pr_URI p = [] then None else Some p))"

text \<open>The document a request is about. Its text, when the request carries one, is stored first.\<close>

definition lsp_document :: "lsp_url \<Rightarrow> bool \<Rightarrow> lsp_docs \<Rightarrow> json option \<Rightarrow> (string + Document) \<times> lsp_docs" where
  "lsp_document parse cancelled docs raw =
     (case decode_params text_params_field raw of
        None \<Rightarrow> (Inl ''invalid params'', docs)
      | Some p \<Rightarrow>
          (case (if pr_Text p = [] then (None, docs) else SetDocument cancelled (pathForURI parse (pr_URI p)) (pr_Text p) docs) of
             (Some e, docs') \<Rightarrow> (Inl e, docs')
           | (None, docs') \<Rightarrow>
               (Inr (case map_of docs' (pr_URI p) of
                  Some doc \<Rightarrow> doc
                | None \<Rightarrow>
                    (case map_of docs' (pathForURI parse (pr_URI p)) of
                       Some doc \<Rightarrow> doc
                     | None \<Rightarrow> NewDocument (pathForURI parse (pr_URI p)) [])), docs')))"

definition positionParams :: "lsp_url \<Rightarrow> bool \<Rightarrow> lsp_docs \<Rightarrow> json option \<Rightarrow> (string + Document \<times> lsp_params) \<times> lsp_docs" where
  "positionParams parse cancelled docs raw =
     (case decode_params position_params_field raw of
        None \<Rightarrow> (Inl ''invalid params'', docs)
      | Some p \<Rightarrow>
          (case lsp_document parse cancelled docs raw of
             (Inl e, docs') \<Rightarrow> (Inl e, docs')
           | (Inr doc, docs') \<Rightarrow> (Inr (doc, p), docs')))"

section \<open>Requests\<close>

datatype lsp_result =
    ResNull
  | ResCapabilities
  | ResDiagnostics "lsp_Diagnostic list"
  | ResSymbols "DocumentSymbol list"
  | ResHover lsp_Hover
  | ResLocations "lsp_Location list"

definition refuse :: "json \<Rightarrow> int \<Rightarrow> string \<Rightarrow> 'r lsp_Response" where
  "refuse i code message = Refusal i \<lparr>le_Code = code, le_Message = message\<rparr>"

definition request_cancelled :: "json \<Rightarrow> 'r lsp_Response" where
  "request_cancelled i = refuse i (-32800) ''request cancelled''"

definition position_less :: "lsp_Position \<Rightarrow> lsp_Position \<Rightarrow> bool" where
  "position_less a b \<longleftrightarrow> lp_Line a < lp_Line b \<or> lp_Line a = lp_Line b \<and> lp_Character a < lp_Character b"

definition location_less :: "lsp_Location \<Rightarrow> lsp_Location \<Rightarrow> bool" where
  "location_less a b \<longleftrightarrow> lo_URI a < lo_URI b \<or>
     lo_URI a = lo_URI b \<and> lp_Line (lr_Start (lo_Range a)) < lp_Line (lr_Start (lo_Range b))"

definition lsp_diagnostics :: "lsp_url \<Rightarrow> lsp_order \<Rightarrow> bool \<Rightarrow> lsp_docs \<Rightarrow> json \<Rightarrow> json option \<Rightarrow> lsp_result lsp_Response \<times> lsp_docs" where
  "lsp_diagnostics parse order cancelled docs i raw =
     (case lsp_document parse cancelled docs raw of
        (Inl e, docs') \<Rightarrow> (refuse i (-32602) e, docs')
      | (Inr doc, docs') \<Rightarrow>
          let others = filter (\<lambda>d. doc_path d \<noteq> doc_path doc) (open_documents order docs');
              found = doc_diagnostics doc @ res_Diagnostics (Resolve (Some (doc # others)))
          in if found \<noteq> [] \<and> cancelled then (request_cancelled i, docs')
             else (Answer i (ResDiagnostics (sort_by (\<lambda>a b. position_less (lr_Start (ld_Range a)) (lr_Start (ld_Range b)))
                     (map convertDiagnostic (filter (\<lambda>d. dg_path d = doc_path doc) found)))), docs'))"

definition document_symbol :: "Symbol \<Rightarrow> DocumentSymbol" where
  "document_symbol s =
     \<lparr>ls_Name = sym_name s,
      ls_Kind = (if sym_kind s = SymbolCommand then 6 else if sym_kind s = SymbolStateDef then 5 else 13),
      ls_Range = convertRange (sym_span s)\<rparr>"

definition lsp_symbols :: "lsp_url \<Rightarrow> bool \<Rightarrow> lsp_docs \<Rightarrow> json \<Rightarrow> json option \<Rightarrow> lsp_result lsp_Response \<times> lsp_docs" where
  "lsp_symbols parse cancelled docs i raw =
     (case lsp_document parse cancelled docs raw of
        (Inl e, docs') \<Rightarrow> (refuse i (-32602) e, docs')
      | (Inr doc, docs') \<Rightarrow>
          if doc_symbols doc \<noteq> [] \<and> cancelled then (request_cancelled i, docs')
          else (Answer i (ResSymbols (sort_by (\<lambda>a b. ls_Name a < ls_Name b) (map document_symbol (doc_symbols doc)))), docs'))"

text \<open>The resolutions of a reference that found their target.\<close>

definition resolutions_of :: "Reference \<Rightarrow> Document list \<Rightarrow> ReferenceResolution list" where
  "resolutions_of ref ws = filter (\<lambda>r. rr_ReferenceID r = ref_id ref \<and> rr_Resolved r) (res_References (Resolve (Some ws)))"

text \<open>Every resolution and every document overwrites the symbol found before.\<close>

definition hover_symbol :: "Reference \<Rightarrow> Document list \<Rightarrow> Symbol option" where
  "hover_symbol ref ws =
     foldl (\<lambda>sym r. foldl (\<lambda>sym' d. case find (\<lambda>s. sym_id s = rr_TargetSymbolID r) (doc_symbols d) of None \<Rightarrow> sym' | Some s \<Rightarrow> Some s)
        sym ws) None (resolutions_of ref ws)"

definition lsp_hover :: "lsp_url \<Rightarrow> lsp_order \<Rightarrow> bool \<Rightarrow> lsp_docs \<Rightarrow> json \<Rightarrow> json option \<Rightarrow> lsp_result lsp_Response \<times> lsp_docs" where
  "lsp_hover parse order cancelled docs i raw =
     (case positionParams parse cancelled docs raw of
        (Inl e, docs') \<Rightarrow> (refuse i (-32602) e, docs')
      | (Inr (doc, p), docs') \<Rightarrow>
          if cancelled then (request_cancelled i, docs')
          else let sym = (case symbolAt doc (pr_Position p) of
              Some s \<Rightarrow> Some s
            | None \<Rightarrow>
                (case referenceAt doc (pr_Position p) of
                   None \<Rightarrow> None
                 | Some ref \<Rightarrow> hover_symbol ref (workspaceDocuments order docs' doc)))
          in case sym of
               None \<Rightarrow> (Answer i ResNull, docs')
             | Some s \<Rightarrow>
                 (Answer i (ResHover \<lparr>lh_Value = ''**'' @ sym_name s @ ''** ('' @ symbol_kind_str (sym_kind s) @ '')'',
                    lh_Range = convertRange (sym_span s)\<rparr>), docs'))"

definition symbol_locations :: "string \<Rightarrow> Document list \<Rightarrow> lsp_Location list" where
  "symbol_locations target ws =
     concat (map (\<lambda>d. map (\<lambda>s. \<lparr>lo_URI = uriForPath (doc_path d), lo_Range = convertRange (sym_span s)\<rparr>)
       (filter (\<lambda>s. sym_id s = target) (doc_symbols d))) ws)"

definition target_at :: "Document \<Rightarrow> lsp_Position \<Rightarrow> Document list \<Rightarrow> string \<times> Identity" where
  "target_at doc pos ws =
     (case symbolAt doc pos of
        Some s \<Rightarrow> (sym_id s, sym_identity s)
      | None \<Rightarrow>
          (case referenceAt doc pos of
             None \<Rightarrow> ([], zero_identity)
           | Some ref \<Rightarrow>
               (case resolutions_of ref ws of
                  [] \<Rightarrow> ([], zero_identity)
                | r # _ \<Rightarrow> (rr_TargetSymbolID r, rr_TargetIdentity r))))"

definition lsp_definition :: "lsp_url \<Rightarrow> lsp_order \<Rightarrow> bool \<Rightarrow> lsp_docs \<Rightarrow> json \<Rightarrow> json option \<Rightarrow> lsp_result lsp_Response \<times> lsp_docs" where
  "lsp_definition parse order cancelled docs i raw =
     (case positionParams parse cancelled docs raw of
        (Inl e, docs') \<Rightarrow> (refuse i (-32602) e, docs')
      | (Inr (doc, p), docs') \<Rightarrow>
          if cancelled then (request_cancelled i, docs')
          else let ws = workspaceDocuments order docs' doc; target = fst (target_at doc (pr_Position p) ws)
            in (Answer i (ResLocations (sort_by location_less (symbol_locations target ws))), docs'))"

definition reference_locations :: "ReferenceResolution \<Rightarrow> Document list \<Rightarrow> lsp_Location list" where
  "reference_locations r ws =
     concat (map (\<lambda>d. map (\<lambda>ref. \<lparr>lo_URI = uriForPath (doc_path d), lo_Range = convertRange (ref_span ref)\<rparr>)
       (filter (\<lambda>ref. ref_id ref = rr_ReferenceID r) (doc_references d))) (filter (\<lambda>d. doc_path d = rr_SourcePath r) ws))"

definition refers_to :: "string \<Rightarrow> Identity \<Rightarrow> ReferenceResolution \<Rightarrow> bool" where
  "refers_to target identity r \<longleftrightarrow>
     rr_Resolved r \<and> (target = [] \<or> rr_TargetSymbolID r = target \<or> rr_TargetIdentity r = identity)"

definition lsp_references :: "lsp_url \<Rightarrow> lsp_order \<Rightarrow> bool \<Rightarrow> lsp_docs \<Rightarrow> json \<Rightarrow> json option \<Rightarrow> lsp_result lsp_Response \<times> lsp_docs" where
  "lsp_references parse order cancelled docs i raw =
     (case positionParams parse cancelled docs raw of
        (Inl e, docs') \<Rightarrow> (refuse i (-32602) e, docs')
      | (Inr (doc, p), docs') \<Rightarrow>
          if cancelled then (request_cancelled i, docs')
          else let ws = workspaceDocuments order docs' doc; (target, identity) = target_at doc (pr_Position p) ws;
                   uses = concat (map (\<lambda>r. reference_locations r ws)
                     (filter (refers_to target identity) (res_References (Resolve (Some ws)))));
                   decls = (if pr_IncludeDeclaration p \<and> target \<noteq> [] then symbol_locations target ws else [])
            in (Answer i (ResLocations (sort_by location_less (uses @ decls))), docs'))"

section \<open>Notifications\<close>

record change_params =
  cg_URI :: string
  cg_Changes :: "string list"

definition change_field :: "string \<Rightarrow> json \<Rightarrow> change_params \<Rightarrow> change_params option" where
  "change_field k v p =
     (if equal_fold k ''textDocument'' then
        decode_struct (\<lambda>k v p. if equal_fold k ''uri'' then decode_string v (\<lambda>s. cg_URI_update (\<lambda>_. s)) p else Some p) v p
      else if equal_fold k ''contentChanges'' then
        map_option (\<lambda>cs. p\<lparr>cg_Changes := cs\<rparr>)
          (decode_slice (\<lambda>old v. decode_struct (\<lambda>k v t. if equal_fold k ''text'' then decode_string v (\<lambda>s _. s) t else Some t) v old)
             [] v (cg_Changes p))
      else Some p)"

definition handleNotification :: "lsp_url \<Rightarrow> bool \<Rightarrow> string \<Rightarrow> json option \<Rightarrow> lsp_docs \<Rightarrow> lsp_docs" where
  "handleNotification parse cancelled method raw docs =
     (if method = ''textDocument/didOpen'' then
        (case decode_params text_params_field raw of
           None \<Rightarrow> docs
         | Some p \<Rightarrow> snd (SetDocument cancelled (pathForURI parse (pr_URI p)) (pr_Text p) docs))
      else if method = ''textDocument/didChange'' then
        (case Option.bind raw (\<lambda>v. decode_struct change_field v \<lparr>cg_URI = [], cg_Changes = []\<rparr>) of
           None \<Rightarrow> docs
         | Some p \<Rightarrow>
             if cg_URI p = [] \<or> cg_Changes p = [] then docs
             else snd (SetDocument cancelled (pathForURI parse (cg_URI p)) (last (cg_Changes p)) docs))
      else if method = ''textDocument/didClose'' then
        (case decode_params text_params_field raw of
           None \<Rightarrow> docs
         | Some p \<Rightarrow> RemoveDocument parse (pr_URI p) docs)
      else docs)"

section \<open>Dispatch\<close>

definition dispatch :: "lsp_url \<Rightarrow> lsp_order \<Rightarrow> bool \<Rightarrow> lsp_docs \<Rightarrow> json \<Rightarrow> string \<Rightarrow> json option \<Rightarrow> lsp_result lsp_Response \<times> lsp_docs" where
  "dispatch parse order cancelled docs i method params =
     (if method = ''initialize'' then (Answer i ResCapabilities, docs)
      else if method = ''shutdown'' then (Answer i ResNull, docs)
      else if method = ''textDocument/diagnostic'' then lsp_diagnostics parse order cancelled docs i params
      else if method = ''textDocument/documentSymbol'' then lsp_symbols parse cancelled docs i params
      else if method = ''textDocument/hover'' then lsp_hover parse order cancelled docs i params
      else if method = ''textDocument/definition'' then lsp_definition parse order cancelled docs i params
      else if method = ''textDocument/references'' then lsp_references parse order cancelled docs i params
      else (refuse i (-32601) ''method not found'', docs))"

text \<open>\<^verbatim>\<open>Handle\<close> on the value a message holds. A number that is no float64 does not decode.\<close>

definition handle_value :: "lsp_url \<Rightarrow> lsp_order \<Rightarrow> bool \<times> bool \<Rightarrow> lsp_docs \<Rightarrow> json \<Rightarrow> lsp_result lsp_Response option \<times> lsp_docs" where
  "handle_value parse order cancelled docs v =
     (if fst cancelled then (Some (request_cancelled JNull), docs)
      else if json_any v = None then (Some (refuse JNull (-32700) ''parse error''), docs)
      else case v of
        JObj fs \<Rightarrow>
          (case decodeRequest v of
             None \<Rightarrow> (Some (refuse JNull (-32600) ''invalid request''), docs)
           | Some rq \<Rightarrow>
               if isNotification (rq_ID rq) then (None, handleNotification parse (snd cancelled) (rq_Method rq) (rq_Params rq) docs)
               else (case dispatch parse order (snd cancelled) docs (rawID (rq_ID rq)) (rq_Method rq) (rq_Params rq) of
                 (resp, docs') \<Rightarrow> (Some resp, docs')))
      | _ \<Rightarrow> (Some (refuse JNull (-32600) ''invalid request''), docs))"

definition lsp_Handle :: "lsp_url \<Rightarrow> lsp_order \<Rightarrow> bool \<times> bool \<Rightarrow> lsp_docs \<Rightarrow> string \<Rightarrow> lsp_result lsp_Response option \<times> lsp_docs" where
  "lsp_Handle parse order cancelled docs body =
     (if fst cancelled then (Some (request_cancelled JNull), docs)
      else case json_unmarshal body of
        None \<Rightarrow> (Some (refuse JNull (-32700) ''parse error''), docs)
      | Some v \<Rightarrow> handle_value parse order cancelled docs v)"

section \<open>Answers on the wire\<close>

definition position_json :: "lsp_Position \<Rightarrow> json" where
  "position_json p = JObj [(''line'', JInt (lp_Line p)), (''character'', JInt (lp_Character p))]"

definition range_json :: "lsp_Range \<Rightarrow> json" where
  "range_json r = JObj [(''start'', position_json (lr_Start r)), (''end'', position_json (lr_End r))]"

definition lsp_diagnostic_json :: "lsp_Diagnostic \<Rightarrow> json" where
  "lsp_diagnostic_json d =
     JObj ((''range'', range_json (ld_Range d)) #
       (if ld_Severity d = 0 then [] else [(''severity'', JInt (ld_Severity d))]) @ omit_empty ''code'' (ld_Code d) @
       [(''message'', JStr (ld_Message d))])"

definition symbol_json :: "DocumentSymbol \<Rightarrow> json" where
  "symbol_json s =
     JObj [(''name'', JStr (ls_Name s)), (''kind'', JInt (ls_Kind s)), (''range'', range_json (ls_Range s)),
       (''selectionRange'', range_json (ls_Range s))]"

definition location_json :: "lsp_Location \<Rightarrow> json" where
  "location_json l = JObj [(''uri'', JStr (lo_URI l)), (''range'', range_json (lo_Range l))]"

definition hover_json :: "lsp_Hover \<Rightarrow> json" where
  "hover_json h =
     JObj [(''contents'', JObj [(''kind'', JStr ''markdown''), (''value'', JStr (lh_Value h))]), (''range'', range_json (lh_Range h))]"

fun result_json :: "lsp_result \<Rightarrow> json" where
  "result_json ResNull = JNull"
| "result_json ResCapabilities =
     JObj [(''capabilities'', json_map [(''textDocumentSync'', JInt 1), (''diagnosticProvider'', JBool True),
       (''documentSymbolProvider'', JBool True), (''hoverProvider'', JBool True), (''definitionProvider'', JBool True),
       (''referencesProvider'', JBool True)])]"
| "result_json (ResDiagnostics ds) = JObj [(''items'', JArr (map lsp_diagnostic_json ds)), (''kind'', JStr ''full'')]"
| "result_json (ResSymbols ss) = JArr (map symbol_json ss)"
| "result_json (ResHover h) = hover_json h"
| "result_json (ResLocations ls) = JArr (map location_json ls)"

definition encodeFrame :: "lsp_result lsp_Response \<Rightarrow> json" where
  "encodeFrame r = response_json result_json r"

section \<open>The loop\<close>

datatype serve_end = ServeDone | ServeCancelled | ServeFailed frame_error

text \<open>The items of a batch are handled in order; the answers of the notifications among them are left out.\<close>

fun handle_batch :: "lsp_url \<Rightarrow> lsp_order \<Rightarrow> bool \<times> bool \<Rightarrow> lsp_docs \<Rightarrow> json list \<Rightarrow> lsp_result lsp_Response list \<times> lsp_docs" where
  "handle_batch parse order cancelled docs [] = ([], docs)"
| "handle_batch parse order cancelled docs (v # vs) =
     (case handle_value parse order cancelled docs v of (resp, docs1) \<Rightarrow>
        case handle_batch parse order cancelled docs1 vs of (resps, docs2) \<Rightarrow>
          ((case resp of None \<Rightarrow> resps | Some r \<Rightarrow> r # resps), docs2))"

text \<open>What one message is answered with, if anything.\<close>

definition serve_message :: "lsp_url \<Rightarrow> lsp_order \<Rightarrow> bool \<times> bool \<Rightarrow> lsp_docs \<Rightarrow> string \<Rightarrow> json option \<times> lsp_docs" where
  "serve_message parse order cancelled docs body =
     (case Option.bind (json_unmarshal body) (\<lambda>v. map_option (\<lambda>_. v) (json_any v)) of
        None \<Rightarrow> (Some (encodeFrame (refuse JNull (-32700) ''parse error'')), docs)
      | Some (JArr []) \<Rightarrow> (Some (encodeFrame (refuse JNull (-32600) ''invalid request'')), docs)
      | Some (JArr items) \<Rightarrow>
          (case handle_batch parse order cancelled docs items of (resps, docs') \<Rightarrow>
             (if resps = [] then None else Some (JArr (map encodeFrame resps)), docs'))
      | Some _ \<Rightarrow>
          (case lsp_Handle parse order cancelled docs body of (resp, docs') \<Rightarrow> (map_option encodeFrame resp, docs')))"

text \<open>What the context answers at the \<open>n\<close>-th message: before it is read, and while it is handled. The frames
  written, the documents and how the loop ended.\<close>

function lsp_Serve :: "lsp_url \<Rightarrow> lsp_order \<Rightarrow> (nat \<Rightarrow> bool \<times> bool \<times> bool) \<Rightarrow> nat \<Rightarrow> lsp_docs \<Rightarrow> string \<Rightarrow>
    string list \<times> lsp_docs \<times> serve_end" where
  "lsp_Serve parse order ctx n docs s =
     (if fst (ctx n) then ([], docs, ServeCancelled)
      else case ReadFrame s of
        (Inl FrameEOF, _) \<Rightarrow> ([], docs, ServeDone)
      | (Inl e, _) \<Rightarrow> ([], docs, ServeFailed e)
      | (Inr body, rest) \<Rightarrow>
          (case serve_message parse order (snd (ctx n)) docs body of
             (None, docs') \<Rightarrow> lsp_Serve parse order ctx (Suc n) docs' rest
           | (Some reply, docs') \<Rightarrow>
               (case WriteFrame (json_encode reply) of
                  Inl e \<Rightarrow> ([], docs', ServeFailed e)
                | Inr w \<Rightarrow>
                    (case lsp_Serve parse order ctx (Suc n) docs' rest of (ws, docs'', e) \<Rightarrow> (w # ws, docs'', e)))))"
  by pat_completeness auto
termination
  by (relation "measure (\<lambda>(parse, order, ctx, n, docs, s). length s)") (auto dest: read_frame_shorter [OF sym])

declare lsp_Serve.simps [simp del]

end
