(* ===== verification/Lsp_Claims.thy ===== *)
theory Lsp_Claims
  imports Lsp_Server Semantics_Claims
begin

text \<open>
  What the language server promises: a stream of frames is read back and answered message by message, every
  request gets one answer with its identifier, and the open documents are a map from paths to what was
  last sent. Also what it does not.
\<close>

section \<open>Frames\<close>

text \<open>The frames of some messages, one after the other.\<close>

fun frames :: "string list \<Rightarrow> (frame_error + string)" where
  "frames [] = Inr []"
| "frames (b # bs) = (case WriteFrame b of Inl e \<Rightarrow> Inl e | Inr w \<Rightarrow> (case frames bs of Inl e \<Rightarrow> Inl e | Inr s \<Rightarrow> Inr (w @ s)))"

text \<open>The answers to some messages, and the documents after them.\<close>

fun conversation :: "lsp_url \<Rightarrow> lsp_order \<Rightarrow> (nat \<Rightarrow> bool \<times> bool \<times> bool) \<Rightarrow> nat \<Rightarrow> lsp_docs \<Rightarrow> string list \<Rightarrow> json list \<times> lsp_docs" where
  "conversation parse order ctx n docs [] = ([], docs)"
| "conversation parse order ctx n docs (b # bs) =
     (case serve_message parse order (snd (ctx n)) docs b of (reply, docs1) \<Rightarrow>
        case conversation parse order ctx (Suc n) docs1 bs of (replies, docs2) \<Rightarrow>
          ((case reply of None \<Rightarrow> replies | Some r \<Rightarrow> r # replies), docs2))"

lemma read_frame_Nil: "ReadFrame [] = (Inl FrameEOF, [])"
  by (simp add: ReadFrame_def read_headers.simps)

lemma serve_conversation:
  assumes "frames bodies = Inr s" and "conversation parse order ctx n docs bodies = (replies, docs')"
    and "frames (map json_encode replies) = Inr out" and "list_all (\<lambda>k. \<not> fst (ctx k)) [n ..< Suc (n + length bodies)]"
  shows "\<exists>ws. lsp_Serve parse order ctx n docs s = (ws, docs', ServeDone) \<and> concat ws = out"
  using assms
proof (induction bodies arbitrary: n docs s replies out)
  case Nil
  then show ?case by (subst lsp_Serve.simps) (simp add: read_frame_Nil)
next
  case (Cons b bs)
  obtain w t where w: "WriteFrame b = Inr w" "frames bs = Inr t" "s = w @ t"
    using Cons.prems(1) by (auto split: sum.splits)
  obtain reply docs1 where m: "serve_message parse order (snd (ctx n)) docs b = (reply, docs1)" by fastforce
  obtain rs docs2 where c: "conversation parse order ctx (Suc n) docs1 bs = (rs, docs2)" by fastforce
  have r: "replies = (case reply of None \<Rightarrow> rs | Some r \<Rightarrow> r # rs)" "docs2 = docs'" using Cons.prems(2) m c by simp_all
  have ctx: "\<not> fst (ctx n)" "list_all (\<lambda>k. \<not> fst (ctx k)) [Suc n ..< Suc (Suc n + length bs)]"
    using Cons.prems(4) by (auto simp: list_all_iff simp del: upt_Suc)
  note frame = read_frame_written [OF w(1), of t]
  show ?case
  proof (cases reply)
    case None
    then have "frames (map json_encode rs) = Inr out" using r(1) Cons.prems(3) by simp
    from Cons.IH [OF w(2) c [unfolded r(2)] this ctx(2)] show ?thesis
      using ctx(1) frame m None by (subst lsp_Serve.simps) (simp add: w(3))
  next
    case (Some v)
    then obtain u out' where u: "WriteFrame (json_encode v) = Inr u" "frames (map json_encode rs) = Inr out'" "out = u @ out'"
      using r(1) Cons.prems(3) by (auto split: sum.splits)
    from Cons.IH [OF w(2) c [unfolded r(2)] u(2) ctx(2)] obtain ws where
      "lsp_Serve parse order ctx (Suc n) docs1 t = (ws, docs', ServeDone)" "concat ws = out'" by blast
    then show ?thesis
      using ctx(1) frame m Some u by (subst lsp_Serve.simps) (simp add: w(3))
  qed
qed

text \<open>C24: The server reads back the messages a client frames and answers them one by one in order: on the frames
  of any list of messages it writes exactly the frames of their answers, none for notifications, ends with
  the input and keeps the documents the messages left.\<close>

theorem serve_answers_in_order:
  assumes "frames bodies = Inr s" and "conversation parse order ctx 0 docs bodies = (replies, docs')"
    and "frames (map json_encode replies) = Inr out" and "list_all (\<lambda>k. \<not> fst (ctx k)) [0 ..< Suc (length bodies)]"
  shows "\<exists>ws. lsp_Serve parse order ctx 0 docs s = (ws, docs', ServeDone) \<and> concat ws = out"
  using serve_conversation [OF assms(1-3)] assms(4) by simp

definition demo_frame :: "string \<Rightarrow> string" where
  "demo_frame body = ''Content-Length: '' @ itoa (int (length body)) @ [CHR 0x0D, CHR 0x0A, CHR 0x0D, CHR 0x0A] @ body"

lemma write_encoded:
  "json_ints j \<Longrightarrow> length (json_encode j) \<le> 16777216 \<Longrightarrow> WriteFrame (json_encode j) = Inr (demo_frame (json_encode j))"
  by (simp add: WriteFrame_def MaxFrameSize_def json_valid_def json_unmarshal_encode demo_frame_def)

definition demo_refusal :: json where
  "demo_refusal = encodeFrame (refuse JNull (-32600) ''invalid request'')"

theorem serve_answers_in_order_witness:
  "\<exists>ws. lsp_Serve (\<lambda>_. None) id (\<lambda>_. (False, False, False)) 0 [] (demo_frame ''[]'' @ demo_frame ''null'') = (ws, [], ServeDone) \<and>
     concat ws = demo_frame (json_encode demo_refusal) @ demo_frame (json_encode demo_refusal)"
proof -
  have json: "json_unmarshal ''[]'' = Some (JArr [])" "json_unmarshal ''null'' = Some JNull" by code_simp+
  have 1: "frames [''[]'', ''null''] = Inr (demo_frame ''[]'' @ demo_frame ''null'')" by code_simp
  have 2: "conversation (\<lambda>_. None) id (\<lambda>_. (False, False, False)) 0 [] [''[]'', ''null''] = ([demo_refusal, demo_refusal], [])"
    using json by (simp add: serve_message_def lsp_Handle_def handle_value_def demo_refusal_def)
  have "digit_char 0 = CHR ''0''" "digit_char 2 = CHR ''2''" "digit_char 3 = CHR ''3''" "digit_char 6 = CHR ''6''" by code_simp+
  then have "itoa (-32600) = ''-32600''"
    by (simp add: itoa_def nat_digits.simps [of 32600] nat_digits.simps [of 3260] nat_digits.simps [of 326]
        nat_digits.simps [of 32] nat_digits.simps [of 3])
  then have len: "length (json_encode demo_refusal) \<le> 16777216"
    by (simp add: demo_refusal_def encodeFrame_def response_json_def refuse_def error_json_def json_string_def json_escape_plain json_plain_def)
  have "json_ints demo_refusal" by (auto simp: demo_refusal_def encodeFrame_def response_json_def refuse_def error_json_def)
  from write_encoded [OF this len] have 3: "frames (map json_encode [demo_refusal, demo_refusal]) =
      Inr (demo_frame (json_encode demo_refusal) @ demo_frame (json_encode demo_refusal))" by simp
  show ?thesis by (rule serve_answers_in_order [OF 1 2 3]) (simp add: list_all_iff)
qed

text \<open>A header or a whole body that is missing counts as the end of the input: the server stops as if the
  client had closed the stream between two messages.\<close>

lemma cut_header_is_the_end:
  assumes "CHR 0x0A \<notin> set s" and "\<not> fst (ctx n)"
  shows "lsp_Serve parse order ctx n docs s = ([], docs, ServeDone)"
proof -
  have "index_byte s (CHR 0x0A) = None" using assms(1) by (induction s) auto
  then show ?thesis using assms(2) by (subst lsp_Serve.simps) (simp add: ReadFrame_def read_headers.simps)
qed

section \<open>Requests\<close>

lemma dispatch_id: "resp_id (fst (dispatch parse order cancelled docs i method params)) = i"
  by (auto simp: dispatch_def lsp_diagnostics_def lsp_symbols_def lsp_hover_def lsp_definition_def lsp_references_def
      refuse_def request_cancelled_def Let_def split: prod.splits sum.splits option.splits)

definition lsp_methods :: "string list" where
  "lsp_methods = [''initialize'', ''shutdown'', ''textDocument/diagnostic'', ''textDocument/documentSymbol'', ''textDocument/hover'',
     ''textDocument/definition'', ''textDocument/references'']"

definition message_value :: "string \<Rightarrow> json option" where
  "message_value body = Option.bind (json_unmarshal body) (\<lambda>v. map_option (\<lambda>_. v) (json_any v))"

definition valid_request :: "json \<Rightarrow> lsp_Request option" where
  "valid_request v = (case v of JObj _ \<Rightarrow> decodeRequest v | _ \<Rightarrow> None)"

text \<open>Every message is answered as JSON-RPC asks: what is not JSON, or holds a number out of range, is a parse error;
  what is not a valid request object is an invalid request, both without an identifier; a notification is
  not answered; and a request is answered once, with its own identifier, an unknown method being
  refused without touching the documents.\<close>

theorem every_request_answered:
  "case lsp_Handle parse order (False, later) docs body of (resp, docs') \<Rightarrow>
     (case message_value body of
        None \<Rightarrow> resp = Some (Refusal JNull \<lparr>le_Code = -32700, le_Message = ''parse error''\<rparr>) \<and> docs' = docs
      | Some v \<Rightarrow>
          (case valid_request v of
             None \<Rightarrow> resp = Some (Refusal JNull \<lparr>le_Code = -32600, le_Message = ''invalid request''\<rparr>) \<and> docs' = docs
           | Some rq \<Rightarrow>
               (case rq_ID rq of
                  None \<Rightarrow> resp = None \<and> docs' = handleNotification parse later (rq_Method rq) (rq_Params rq) docs
                | Some i \<Rightarrow>
                    (\<exists>r. resp = Some r \<and> resp_id r = json_echo i) \<and>
                    (rq_Method rq \<in> set lsp_methods \<or>
                      resp = Some (Refusal (json_echo i) \<lparr>le_Code = -32601, le_Message = ''method not found''\<rparr>) \<and> docs' = docs))))"
proof (cases "message_value body")
  case None
  then show ?thesis by (auto simp: message_value_def lsp_Handle_def handle_value_def refuse_def split: option.splits)
next
  case (Some v)
  then have v: "json_unmarshal body = Some v" "json_any v \<noteq> None" by (auto simp: message_value_def bind_eq_Some_conv)
  show ?thesis
  proof (cases "valid_request v")
    case None
    then have "handle_value parse order (False, later) docs v = (Some (refuse JNull (-32600) ''invalid request''), docs)"
      using v(2) by (cases v) (auto simp: handle_value_def valid_request_def)
    then show ?thesis using None Some v(1) by (simp add: lsp_Handle_def refuse_def)
  next
    case rq: (Some rq)
    then obtain fs where o: "v = JObj fs" "decodeRequest v = Some rq" by (cases v) (auto simp: valid_request_def)
    show ?thesis
    proof (cases "rq_ID rq")
      case None
      then have "handle_value parse order (False, later) docs v = (None, handleNotification parse later (rq_Method rq) (rq_Params rq) docs)"
        using v(2) o by (simp add: handle_value_def isNotification_def)
      then show ?thesis using None Some rq v by (simp add: lsp_Handle_def)
    next
      case i: (Some i)
      obtain r docs' where d: "dispatch parse order later docs (json_echo i) (rq_Method rq) (rq_Params rq) = (r, docs')" by fastforce
      then have h: "handle_value parse order (False, later) docs v = (Some r, docs')"
        using v(2) o i by (auto simp: handle_value_def isNotification_def rawID_def)
      have "resp_id r = json_echo i" using dispatch_id [of parse order later docs "json_echo i" "rq_Method rq" "rq_Params rq"] d by simp
      moreover have "rq_Method rq \<in> set lsp_methods \<or> r = Refusal (json_echo i) \<lparr>le_Code = -32601, le_Message = ''method not found''\<rparr> \<and> docs' = docs"
        using d by (auto simp: dispatch_def lsp_methods_def refuse_def split: if_splits)
      ultimately show ?thesis using i Some rq v h by (auto simp: lsp_Handle_def)
    qed
  qed
qed

section \<open>The open documents\<close>

text \<open>What a client does to its documents, as the notifications it sends. A path is plain when its URI is read
  as that path, which is what \<^verbatim>\<open>url.Parse\<close> does with a \<^verbatim>\<open>file\<close> URI without escapes.\<close>

datatype client = Opens string string | Changes string "string list" string | Closes string

definition plain_path :: "lsp_url \<Rightarrow> string \<Rightarrow> bool" where
  "plain_path parse p \<longleftrightarrow> has_prefix p ''/'' \<and> trim_space p = p \<and> path_clean p = p \<and> pathForURI parse (uriForPath p) = p"

fun client_path :: "client \<Rightarrow> string" where
  "client_path (Opens p t) = p"
| "client_path (Changes p ts t) = p"
| "client_path (Closes p) = p"

definition text_document :: "string \<Rightarrow> (string \<times> json) list \<Rightarrow> string \<times> json" where
  "text_document p others = (''textDocument'', JObj ((''uri'', JStr (uriForPath p)) # others))"

fun notification :: "client \<Rightarrow> string \<times> json" where
  "notification (Opens p t) = (''textDocument/didOpen'', JObj [text_document p [(''text'', JStr t)]])"
| "notification (Changes p ts t) =
     (''textDocument/didChange'', JObj [text_document p [],
       (''contentChanges'', JArr (map (\<lambda>t. JObj [(''text'', JStr t)]) (ts @ [t])))])"
| "notification (Closes p) = (''textDocument/didClose'', JObj [text_document p []])"

definition notified :: "lsp_url \<Rightarrow> lsp_docs \<Rightarrow> client \<Rightarrow> lsp_docs" where
  "notified parse docs c = handleNotification parse False (fst (notification c)) (Some (snd (notification c))) docs"

text \<open>The abstract state: the text every open path was last sent with.\<close>

fun client_step :: "(string \<rightharpoonup> string) \<Rightarrow> client \<Rightarrow> (string \<rightharpoonup> string)" where
  "client_step m (Opens p t) = m(p \<mapsto> t)"
| "client_step m (Changes p ts t) = m(p \<mapsto> t)"
| "client_step m (Closes p) = m(p := None)"

definition docs_refine :: "(string \<rightharpoonup> string) \<Rightarrow> lsp_docs \<Rightarrow> bool" where
  "docs_refine m docs \<longleftrightarrow> (\<forall>p. has_prefix p ''/'' \<longrightarrow>
     map_of docs (uriForPath p) = Option.bind (m p) (parser_Parse p) \<and> map_of docs p = Option.bind (m p) (parser_Parse p))"

lemma uri_not_path: "has_prefix p ''/'' \<Longrightarrow> uriForPath q \<noteq> p"
  by (auto simp: uriForPath_def has_prefix_def)

lemma uri_inj [simp]: "uriForPath p = uriForPath q \<longleftrightarrow> p = q"
  by (simp add: uriForPath_def)

lemma uri_not_Nil [simp]: "uriForPath p \<noteq> []"
  by (simp add: uriForPath_def)

lemma map_of_store:
  "map_of (store_document p d docs) k = (if k = uriForPath p \<or> k = p \<or> k = path_clean p then Some d else map_of docs k)"
  by (simp add: store_document_def update_conv')

lemma map_of_remove:
  assumes "pathForURI parse u = p"
  shows "map_of (RemoveDocument parse u docs) k =
    (if k = uriForPath p \<or> k = p \<or> k = path_clean p \<or> k = u then None else map_of docs k)"
  using assms by (simp add: RemoveDocument_def Let_def delete_conv')

lemma refine_store:
  assumes "docs_refine m docs" and "plain_path parse p"
  shows "docs_refine (m(p \<mapsto> t)) (snd (SetDocument False p t docs))"
proof -
  have p: "has_prefix p ''/''" "trim_space p \<noteq> []" "path_clean p = p" using assms(2) by (auto simp: plain_path_def has_prefix_def)
  obtain doc where d: "parser_Parse p t = Some doc" using parser_Parse_eq by blast
  then have "snd (SetDocument False p t docs) = store_document p doc docs" using p by (simp add: SetDocument_def)
  then show ?thesis
    using assms(1) d p uri_not_path [OF p(1)] uri_not_path by (auto simp: docs_refine_def map_of_store)
qed

lemma refine_remove:
  assumes "docs_refine m docs" and "plain_path parse p"
  shows "docs_refine (m(p := None)) (RemoveDocument parse (uriForPath p) docs)"
proof -
  have p: "has_prefix p ''/''" "path_clean p = p" "pathForURI parse (uriForPath p) = p" using assms(2) by (auto simp: plain_path_def)
  show ?thesis
    using assms(1) p uri_not_path [OF p(1)] uri_not_path by (auto simp: docs_refine_def map_of_remove [OF p(3)])
qed

lemma equal_fold_self_keys:
  "equal_fold ''textDocument'' ''textDocument''" "equal_fold ''uri'' ''uri''" "equal_fold ''text'' ''text''" "\<not> equal_fold ''text'' ''uri''"
  "equal_fold ''contentChanges'' ''contentChanges''" "\<not> equal_fold ''contentChanges'' ''textDocument''"
  by code_simp+

lemma change_texts:
  "decode_elements (\<lambda>old v. decode_struct (\<lambda>k v t. if equal_fold k ''text'' then decode_string v (\<lambda>s _. s) t else Some t) v old) [] []
     (map (\<lambda>t. JObj [(''text'', JStr t)]) ts) = Some ts"
  by (induction ts) (simp_all add: decode_struct_def decode_string_def equal_fold_self_keys)

lemma refine_step:
  assumes "docs_refine m docs" and "plain_path parse (client_path c)"
  shows "docs_refine (client_step m c) (notified parse docs c)"
proof (cases c)
  case (Opens p t)
  then have "notified parse docs c = snd (SetDocument False p t docs)"
    using assms(2) by (simp add: notified_def handleNotification_def decode_params_def decode_struct_def text_params_field_def text_document_def
        text_document_field_def decode_string_def equal_fold_self_keys zero_params_def plain_path_def)
  then show ?thesis using refine_store [OF assms(1)] assms(2) Opens by simp
next
  case (Changes p ts t)
  then have "notified parse docs c = snd (SetDocument False p t docs)"
    using assms(2) change_texts [of "ts @ [t]"]
    by (simp add: notified_def handleNotification_def decode_struct_def change_field_def text_document_def decode_slice_def
        decode_string_def equal_fold_self_keys plain_path_def)
  then show ?thesis using refine_store [OF assms(1)] assms(2) Changes by simp
next
  case (Closes p)
  then have "notified parse docs c = RemoveDocument parse (uriForPath p) docs"
    by (simp add: notified_def handleNotification_def decode_params_def decode_struct_def text_params_field_def text_document_def
        text_document_field_def decode_string_def equal_fold_self_keys zero_params_def)
  then show ?thesis using refine_remove [OF assms(1)] assms(2) Closes by simp
qed

lemma refine_steps:
  "docs_refine m docs \<Longrightarrow> list_all (\<lambda>c. plain_path parse (client_path c)) cs \<Longrightarrow>
   docs_refine (foldl client_step m cs) (foldl (notified parse) docs cs)"
  by (induction cs arbitrary: m docs) (auto dest: refine_step)

text \<open>C23: The server's map of documents, kept under several keys each, refines a map from paths to texts: after
  any notifications about plain paths, a request about the URI of a path finds the document parsed from the
  text the path was opened or changed with last, and an empty one when it is closed or was never opened.\<close>

theorem documents_refine_texts:
  assumes "list_all (\<lambda>c. plain_path parse (client_path c)) cs" and "plain_path parse p"
  shows "fst (lsp_document parse False (foldl (notified parse) lsp_NewServer cs) (Some (JObj [text_document p []]))) =
    Inr (case foldl client_step Map.empty cs p of None \<Rightarrow> NewDocument p [] | Some t \<Rightarrow> the (parser_Parse p t))"
proof -
  let ?docs = "foldl (notified parse) lsp_NewServer cs"
  have "docs_refine Map.empty lsp_NewServer" by (simp add: docs_refine_def lsp_NewServer_def)
  from refine_steps [OF this assms(1)] assms(2)
  have r: "map_of ?docs (uriForPath p) = Option.bind (foldl client_step Map.empty cs p) (parser_Parse p)"
      "map_of ?docs p = Option.bind (foldl client_step Map.empty cs p) (parser_Parse p)"
    by (auto simp: docs_refine_def plain_path_def)
  have "decode_params text_params_field (Some (JObj [text_document p []])) = Some (zero_params\<lparr>pr_URI := uriForPath p\<rparr>)"
    by (simp add: decode_params_def decode_struct_def text_params_field_def text_document_def text_document_field_def
        decode_string_def equal_fold_self_keys)
  then show ?thesis
    using assms(2) r parser_Parse_eq [of p]
    by (auto simp: lsp_document_def plain_path_def zero_params_def split: option.splits)
qed

definition demo_parse :: lsp_url where
  "demo_parse raw = (if has_prefix raw ''file://'' then Some (''file'', [], [], drop 7 raw) else None)"

theorem documents_refine_texts_witness:
  "fst (lsp_document demo_parse False
      (foldl (notified demo_parse) lsp_NewServer [Opens ''/a.cns'' ''x'', Changes ''/a.cns'' [''y''] ''z'', Opens ''/b.cns'' ''x'', Closes ''/b.cns''])
      (Some (JObj [text_document ''/a.cns'' []]))) = Inr (the (parser_Parse ''/a.cns'' ''z''))"
proof -
  have "plain_path demo_parse ''/a.cns''" "plain_path demo_parse ''/b.cns''" by code_simp+
  then show ?thesis
    using documents_refine_texts [of demo_parse "[Opens ''/a.cns'' ''x'', Changes ''/a.cns'' [''y''] ''z'', Opens ''/b.cns'' ''x'', Closes ''/b.cns'']" "''/a.cns''"]
    by simp
qed

section \<open>What the server does not promise\<close>

text \<open>A place with neither a symbol nor a reference has no target, and then every resolved reference of the
  workspace is an answer.\<close>

lemma no_target_lists_every_reference:
  assumes "symbolAt doc pos = None" and "referenceAt doc pos = None"
  shows "fst (target_at doc pos ws) = [] \<and> filter (refers_to (fst (target_at doc pos ws)) i) rs = filter rr_Resolved rs"
proof -
  have "refers_to [] i = rr_Resolved" by (rule ext) (simp add: refers_to_def)
  then show ?thesis using assms by (simp add: target_at_def)
qed

text \<open>An open document is in the map twice, under its path and its URI, and the diagnostics of another document are
  made from both: its states are then defined twice, and a reference to one is ambiguous.\<close>

lemma open_document_counted_twice:
  assumes "plain_path parse p" and "plain_path parse q" and "p \<noteq> q"
  shows "mset (filter (\<lambda>d. d = e) (open_documents id (store_document q e (store_document p d [])))) = (if d = e then replicate_mset 4 e else {#e, e#})"
proof -
  have pq: "has_prefix p ''/''" "has_prefix q ''/''" "path_clean p = p" "path_clean q = q" using assms by (auto simp: plain_path_def)
  have n: "uriForPath p \<noteq> q" "uriForPath q \<noteq> p" "q \<noteq> uriForPath p" "p \<noteq> uriForPath q" "uriForPath p \<noteq> p" "p \<noteq> uriForPath p" "uriForPath q \<noteq> q" "q \<noteq> uriForPath q"
    using uri_not_path pq by metis+
  show ?thesis
    using assms(3) n by (auto simp: open_documents_def store_document_def pq numeral_eq_Suc)
qed

definition demo_caller :: Document where
  "demo_caller = (NewDocument ''/a.cns'' ''cns'')\<lparr>doc_references := [\<lparr>ref_id = ''r'', ref_identity = zero_identity, ref_kind = ReferenceState,
     ref_name = ''200'', ref_raw = ''200'', ref_source = ''s'', ref_target = ''200'',
     ref_span = \<lparr>Start = \<lparr>Line = 1, Column = 1\<rparr>, End = \<lparr>Line = 1, Column = 2\<rparr>\<rparr>, ref_dynamic = False\<rparr>]\<rparr>"

definition demo_callee :: Document where
  "demo_callee = (NewDocument ''/b.cns'' ''cns'')\<lparr>doc_symbols := [\<lparr>sym_id = ''t'', sym_identity = zero_identity, sym_kind = SymbolStateDef,
     sym_name = ''200'', sym_span = \<lparr>Start = \<lparr>Line = 1, Column = 1\<rparr>, End = \<lparr>Line = 1, Column = 2\<rparr>\<rparr>, sym_section = [], sym_raw = []\<rparr>]\<rparr>"

lemma open_callee_is_ambiguous:
  "map dg_code (res_Diagnostics (Resolve (Some [demo_caller, demo_callee]))) = [] \<and>
   (case lsp_diagnostics demo_parse id False (store_document ''/b.cns'' demo_callee (store_document ''/a.cns'' demo_caller [])) JNull
      (Some (JObj [text_document ''/a.cns'' []])) of (Answer i (ResDiagnostics ds), docs) \<Rightarrow> map ld_Code ds = [''ambiguous-state''] | _ \<Rightarrow> False)"
  by code_simp

text \<open>A location shows the path of a document as it is: for a path with a blank that is not the URI it was opened under,
  and no URI at all.\<close>

lemma location_uri_unescaped:
  assumes "parse ''file:///a%20b.cns'' = Some (''file'', [], [], ''/a b.cns'')"
  shows "uriForPath (pathForURI parse ''file:///a%20b.cns'') = ''file:///a b.cns''"
  using assms by (simp add: uriForPath_def pathForURI_def)

end
