(* ===== verification/Service.thy ===== *)
theory Service
  imports Workspace_Load DocumentSnapshot Semantics "HOL-Library.AList"
begin

text \<open>
  \<^verbatim>\<open>internal/service/service.go\<close>: a coordinator that keeps the analyses of workspaces and the hashes of the files
  they were made from, one call after the other. The file system is an argument of every call, with the
  modification times, the order in which Go visits a map, and whether the context is done by the time the
  call first asks after its start.
\<close>

record ServiceResult =
  sv_Workspace :: workspace_LoadResult
  sv_Semantics :: ResolveResult
  sv_Diagnostics :: "Diagnostic list"

record rootCacheEntry =
  rc_result :: ServiceResult
  rc_valid :: bool
  rc_dependencyHashes :: "(string \<times> string) list"

text \<open>A failed load keeps no hash.\<close>

record documentCacheEntry =
  dc_hash :: string
  dc_size :: int
  dc_mtime :: int
  dc_failed :: bool

record coordinator =
  co_profile :: CompatibilityProfile
  co_roots :: "string \<rightharpoonup> rootCacheEntry"
  co_documents :: "string \<rightharpoonup> documentCacheEntry"
  co_dependents :: "(string \<times> string list) list"

datatype svc_error = EmptyWorkspacePath | ContextDone | StatFailed | ReadFailed | SnapshotFailed snapshot_error | SnapshotOf string svc_error

text \<open>What a call sees of the world.\<close>

record svc_world =
  sw_sys :: sys
  sw_mtime :: "string \<Rightarrow> int"
  sw_order :: "string list \<Rightarrow> string list"
  sw_read_error :: "string \<Rightarrow> string"

definition NewCoordinator :: "CompatibilityProfile \<Rightarrow> coordinator" where
  "NewCoordinator p =
     \<lparr>co_profile = (if cp_Name p = [] then NewStrictPortableProfile [] else p), co_roots = Map.empty, co_documents = Map.empty,
      co_dependents = []\<rparr>"

section \<open>Copies\<close>

definition svc_sortDiagnostics :: "Diagnostic list \<Rightarrow> Diagnostic list" where
  "svc_sortDiagnostics ds = sort_by diagnostic_less ds"

definition cloneWorkspaceResult :: "workspace_LoadResult \<Rightarrow> workspace_LoadResult" where
  "cloneWorkspaceResult r =
     \<lparr>wl_Documents = wl_Documents r, wl_Diagnostics = wl_Diagnostics r, wl_ConfigDigest = [], wl_Profile = []\<rparr>"

definition cloneResolveResult :: "ResolveResult \<Rightarrow> ResolveResult" where
  "cloneResolveResult r = r\<lparr>res_Diagnostics := svc_sortDiagnostics (res_Diagnostics r)\<rparr>"

definition cloneServiceResult :: "ServiceResult \<Rightarrow> ServiceResult" where
  "cloneServiceResult r =
     \<lparr>sv_Workspace = cloneWorkspaceResult (sv_Workspace r), sv_Semantics = cloneResolveResult (sv_Semantics r),
      sv_Diagnostics = sv_Diagnostics r\<rparr>"

section \<open>Invalidation\<close>

definition dependents_of :: "(string \<times> string list) list \<Rightarrow> string \<Rightarrow> string list" where
  "dependents_of deps p = (case map_of deps p of None \<Rightarrow> [] | Some rs \<Rightarrow> rs)"

definition mark_invalid :: "string \<Rightarrow> (string \<rightharpoonup> rootCacheEntry) \<Rightarrow> (string \<rightharpoonup> rootCacheEntry)" where
  "mark_invalid r roots = (case roots r of None \<Rightarrow> roots | Some e \<Rightarrow> roots(r \<mapsto> e\<lparr>rc_valid := False\<rparr>))"

text \<open>The queue of \<^verbatim>\<open>invalidateDependents\<close>.\<close>

function invalidate_queue :: "(string \<times> string list) list \<Rightarrow> string list \<Rightarrow> string list \<Rightarrow> (string \<rightharpoonup> rootCacheEntry) \<Rightarrow> (string \<rightharpoonup> rootCacheEntry)" where
  "invalidate_queue deps [] seen roots = roots"
| "invalidate_queue deps (cur # queue) seen roots =
     (if cur \<in> set seen then invalidate_queue deps queue seen roots
      else let rs = filter (\<lambda>r. roots r \<noteq> None) (dependents_of deps cur)
        in invalidate_queue deps (queue @ rs) (cur # seen) (fold mark_invalid rs roots))"
  by pat_completeness auto
termination
proof (relation "inv_image (less_than <*lex*> less_than)
    (\<lambda>(deps, queue, seen, roots). (card (set (map fst deps) - set seen), length queue))", goal_cases)
  case (3 deps cur queue seen roots rs)
  show ?case
  proof (cases "cur \<in> set (map fst deps)")
    case True
    with 3 have "card (set (map fst deps) - set (cur # seen)) < card (set (map fst deps) - set seen)"
      by (intro psubset_card_mono) auto
    then show ?thesis by simp
  next
    case False
    then have "dependents_of deps cur = []" by (simp add: dependents_of_def map_of_eq_None_iff [THEN iffD2])
    moreover have "set (map fst deps) - set (cur # seen) = set (map fst deps) - set seen" using False by auto
    ultimately show ?thesis using 3 by simp
  qed
qed auto

definition invalidateDependents :: "string \<Rightarrow> coordinator \<Rightarrow> coordinator" where
  "invalidateDependents path c = c\<lparr>co_roots := invalidate_queue (co_dependents c) [path] [] (co_roots c)\<rparr>"

section \<open>Snapshots of files\<close>

definition svc_canonicalizePath :: "sys \<Rightarrow> string \<Rightarrow> svc_error + string" where
  "svc_canonicalizePath sy path =
     (let clean = path_clean (trim_space path) in
      if clean = [] \<or> clean = ''.'' then Inl EmptyWorkspacePath
      else let abs = (case abs_path (sys_cwd sy) clean of Some a \<Rightarrow> a | None \<Rightarrow> clean) in
        Inr (case sys_eval sy abs of Some r \<Rightarrow> path_clean r | None \<Rightarrow> path_clean abs))"

definition isExpired :: "documentCacheEntry \<Rightarrow> int \<Rightarrow> int \<Rightarrow> bool" where
  "isExpired e sz mtime \<longleftrightarrow> dc_failed e \<or> dc_size e \<noteq> sz \<or> dc_mtime e \<noteq> mtime"

definition record_document :: "string \<Rightarrow> documentCacheEntry \<Rightarrow> coordinator \<Rightarrow> coordinator" where
  "record_document p e c = c\<lparr>co_documents := (co_documents c)(p \<mapsto> e)\<rparr>"

definition svc_snapshot :: "svc_world \<Rightarrow> bool \<Rightarrow> string \<Rightarrow> coordinator \<Rightarrow> (svc_error + documentCacheEntry) \<times> coordinator" where
  "svc_snapshot w late path c =
     (if late then (Inl ContextDone, c)
      else case svc_canonicalizePath (sw_sys w) path of
        Inl e \<Rightarrow> (Inl e, c)
      | Inr canonical \<Rightarrow>
          (let prev = co_documents c canonical in
           case sys_stat (sw_sys w) canonical of
             None \<Rightarrow>
               (let c1 = record_document canonical \<lparr>dc_hash = [], dc_size = 0, dc_mtime = 0, dc_failed = True\<rparr> c in
                (Inl StatFailed, if (case prev of None \<Rightarrow> False | Some e \<Rightarrow> dc_hash e \<noteq> []) then invalidateDependents canonical c1 else c1))
           | Some info \<Rightarrow>
               (let sz = fi_size info; mtime = sw_mtime w canonical in
                if (case prev of None \<Rightarrow> False | Some e \<Rightarrow> \<not> isExpired e sz mtime) then (Inr (the prev), c)
                else case sys_read (sw_sys w) canonical of
                  None \<Rightarrow>
                    (let c1 = record_document canonical \<lparr>dc_hash = [], dc_size = sz, dc_mtime = mtime, dc_failed = True\<rparr> c in
                     (Inl ReadFailed, if (case prev of None \<Rightarrow> True | Some e \<Rightarrow> dc_hash e \<noteq> [] \<or> dc_failed e)
                        then invalidateDependents canonical c1 else c1))
                | Some bytes \<Rightarrow>
                    (let parsed = NewSnapshot canonical (Some bytes);
                         rec = \<lparr>dc_hash = (case parsed of Inl _ \<Rightarrow> [] | Inr s \<Rightarrow> Snapshot_Hash (Some s)), dc_size = sz, dc_mtime = mtime,
                           dc_failed = (case parsed of Inl _ \<Rightarrow> True | Inr _ \<Rightarrow> False)\<rparr>;
                         c1 = record_document canonical rec c;
                         c2 = (if (case prev of None \<Rightarrow> True | Some e \<Rightarrow> dc_hash e \<noteq> dc_hash rec \<or> dc_failed e)
                               then invalidateDependents canonical c1 else c1)
                     in case parsed of Inl e \<Rightarrow> (Inl (SnapshotFailed e), c2) | Inr _ \<Rightarrow> (Inr rec, c2)))))"

section \<open>Analyses\<close>

definition svc_result :: "workspace_LoadResult \<Rightarrow> ServiceResult" where
  "svc_result loaded =
     (let sem = Resolve (Some (wl_Documents loaded)) in
      \<lparr>sv_Workspace = cloneWorkspaceResult loaded, sv_Semantics = cloneResolveResult sem,
       sv_Diagnostics = svc_sortDiagnostics (wl_Diagnostics loaded @ res_Diagnostics sem)\<rparr>)"

text \<open>The hashes of the files a workspace was loaded from.\<close>

fun document_hashes :: "svc_world \<Rightarrow> bool \<Rightarrow> Document list \<Rightarrow> (string \<times> string) list \<Rightarrow> coordinator \<Rightarrow>
    (svc_error + (string \<times> string) list) \<times> coordinator" where
  "document_hashes w late [] hashes c = (Inr hashes, c)"
| "document_hashes w late (doc # docs) hashes c =
     (if late then (Inl ContextDone, c)
      else case svc_canonicalizePath (sw_sys w) (doc_path doc) of
        Inl e \<Rightarrow> (Inl e, c)
      | Inr path \<Rightarrow>
          (case svc_snapshot w late path c of
             (Inl e, c1) \<Rightarrow> (Inl (SnapshotOf path e), c1)
           | (Inr rec, c1) \<Rightarrow> document_hashes w late docs (AList.update path (dc_hash rec) hashes) c1))"

definition remove_dependent :: "string \<Rightarrow> string \<Rightarrow> (string \<times> string list) list \<Rightarrow> (string \<times> string list) list" where
  "remove_dependent root dep deps =
     (case map_of deps dep of
        None \<Rightarrow> deps
      | Some rs \<Rightarrow> let rs' = removeAll root rs in if rs' = [] then AList.delete dep deps else AList.update dep rs' deps)"

definition add_dependent :: "string \<Rightarrow> string \<Rightarrow> (string \<times> string list) list \<Rightarrow> (string \<times> string list) list" where
  "add_dependent root dep deps =
     AList.update dep (case map_of deps dep of None \<Rightarrow> [root] | Some rs \<Rightarrow> List.insert root rs) deps"

definition storeResult :: "string \<Rightarrow> ServiceResult \<Rightarrow> (string \<times> string) list \<Rightarrow> coordinator \<Rightarrow> coordinator" where
  "storeResult root result hashes c =
     (let old = (case co_roots c root of None \<Rightarrow> [] | Some e \<Rightarrow> map fst (rc_dependencyHashes e));
          deps = fold (add_dependent root) (map fst hashes) (fold (remove_dependent root) old (co_dependents c))
      in c\<lparr>co_dependents := deps,
           co_roots := (co_roots c)(root \<mapsto> \<lparr>rc_result = cloneServiceResult result, rc_valid = True, rc_dependencyHashes = hashes\<rparr>)\<rparr>)"

definition svc_analyze :: "svc_world \<Rightarrow> bool \<Rightarrow> string \<Rightarrow> coordinator \<Rightarrow> (svc_error + ServiceResult) \<times> coordinator" where
  "svc_analyze w late def c =
     (if late then (Inl ContextDone, c)
      else let loaded = LoadWorkspaceWithProfile (sw_read_error w) (sw_order w) (sw_sys w) def (co_profile c) in
        case document_hashes w late (wl_Documents loaded) [] c of
          (Inl e, c1) \<Rightarrow> (Inl e, c1)
        | (Inr hashes, c1) \<Rightarrow> (Inr (svc_result loaded), storeResult def (svc_result loaded) hashes c1))"

fun check_hashes :: "svc_world \<Rightarrow> bool \<Rightarrow> string \<Rightarrow> (string \<times> string) list \<Rightarrow> coordinator \<Rightarrow> (svc_error + bool) \<times> coordinator" where
  "check_hashes w late root [] c = (Inr True, c)"
| "check_hashes w late root ((path, expected) # rest) c =
     (if late then (Inl ContextDone, c)
      else case svc_snapshot w late path c of
        (Inl e, c1) \<Rightarrow> (Inr False, c1\<lparr>co_roots := mark_invalid root (co_roots c1)\<rparr>)
      | (Inr rec, c1) \<Rightarrow>
          if dc_hash rec \<noteq> expected then (Inr False, c1\<lparr>co_roots := mark_invalid root (co_roots c1)\<rparr>)
          else check_hashes w late root rest c1)"

definition svc_hit :: "svc_world \<Rightarrow> bool \<Rightarrow> string \<Rightarrow> coordinator \<Rightarrow> (svc_error + ServiceResult option) \<times> coordinator" where
  "svc_hit w late root c =
     (case co_roots c root of
        None \<Rightarrow> (Inr None, c)
      | Some entry \<Rightarrow>
          if \<not> rc_valid entry then (Inr None, c)
          else let hashes = map (\<lambda>k. (k, the (map_of (rc_dependencyHashes entry) k))) (sw_order w (map fst (rc_dependencyHashes entry))) in
            case check_hashes w late root hashes c of
              (Inl e, c1) \<Rightarrow> (Inl e, c1)
            | (Inr False, c1) \<Rightarrow> (Inr None, c1)
            | (Inr True, c1) \<Rightarrow>
                (case co_roots c1 root of
                   None \<Rightarrow> (Inr None, c1)
                 | Some entry' \<Rightarrow> if rc_valid entry' then (Inr (Some (cloneServiceResult (rc_result entry'))), c1) else (Inr None, c1)))"

definition svc_Analyze :: "svc_world \<Rightarrow> bool \<times> bool \<Rightarrow> string \<Rightarrow> coordinator \<Rightarrow> (svc_error + ServiceResult) \<times> coordinator" where
  "svc_Analyze w cancelled defPath c =
     (if trim_space defPath = [] then (Inl EmptyWorkspacePath, c)
      else if fst cancelled then (Inl ContextDone, c)
      else case svc_canonicalizePath (sw_sys w) defPath of
        Inl e \<Rightarrow> (Inl e, c)
      | Inr canonical \<Rightarrow>
          (case svc_hit w (snd cancelled) canonical c of
             (Inl e, c1) \<Rightarrow> (Inl e, c1)
           | (Inr (Some r), c1) \<Rightarrow> (Inr r, c1)
           | (Inr None, c1) \<Rightarrow> svc_analyze w (snd cancelled) canonical c1))"

section \<open>Calls under way\<close>

text \<open>The call under way for each root, as the number of the call, and the calls that were cancelled.\<close>

record in_flight =
  if_running :: "string \<rightharpoonup> nat"
  if_cancelled :: "nat set"

definition svc_begin :: "string \<Rightarrow> nat \<Rightarrow> in_flight \<Rightarrow> in_flight" where
  "svc_begin root i s =
     \<lparr>if_running = (if_running s)(root \<mapsto> i),
      if_cancelled = (case if_running s root of None \<Rightarrow> if_cancelled s | Some j \<Rightarrow> insert j (if_cancelled s))\<rparr>"

definition svc_end :: "string \<Rightarrow> nat \<Rightarrow> in_flight \<Rightarrow> in_flight" where
  "svc_end root i s = \<lparr>if_running = (if_running s)(root := None), if_cancelled = insert i (if_cancelled s)\<rparr>"

end
