(* ===== verification/Service_Claims.thy ===== *)
theory Service_Claims
  imports Service Semantics_Props
begin

text \<open>
  What the coordinator promises: as long as the files stay as they are, its caches do not show; and a file
  found to have changed leaves no analysis valid that was made from it. Also what it does not: only files
  that were there are watched.
\<close>

section \<open>An analysis without caches\<close>

definition fresh_snapshot :: "svc_world \<Rightarrow> string \<Rightarrow> svc_error + string" where
  "fresh_snapshot w path =
     (case svc_canonicalizePath (sw_sys w) path of
        Inl e \<Rightarrow> Inl e
      | Inr p \<Rightarrow>
          if sys_stat (sw_sys w) p = None then Inl StatFailed
          else case sys_read (sw_sys w) p of
            None \<Rightarrow> Inl ReadFailed
          | Some bytes \<Rightarrow> (case NewSnapshot p (Some bytes) of Inl e \<Rightarrow> Inl (SnapshotFailed e) | Inr s \<Rightarrow> Inr (Snapshot_Hash (Some s))))"

fun fresh_documents :: "svc_world \<Rightarrow> Document list \<Rightarrow> svc_error option" where
  "fresh_documents w [] = None"
| "fresh_documents w (doc # docs) =
     (case svc_canonicalizePath (sw_sys w) (doc_path doc) of
        Inl e \<Rightarrow> Some e
      | Inr path \<Rightarrow> (case fresh_snapshot w path of Inl e \<Rightarrow> Some (SnapshotOf path e) | Inr h \<Rightarrow> fresh_documents w docs))"

definition svc_load :: "svc_world \<Rightarrow> CompatibilityProfile \<Rightarrow> string \<Rightarrow> workspace_LoadResult" where
  "svc_load w p def = LoadWorkspaceWithProfile (sw_read_error w) (sw_order w) (sw_sys w) def p"

definition fresh_Analyze :: "svc_world \<Rightarrow> CompatibilityProfile \<Rightarrow> string \<Rightarrow> svc_error + ServiceResult" where
  "fresh_Analyze w p defPath =
     (if trim_space defPath = [] then Inl EmptyWorkspacePath
      else case svc_canonicalizePath (sw_sys w) defPath of
        Inl e \<Rightarrow> Inl e
      | Inr def \<Rightarrow>
          (case fresh_documents w (wl_Documents (svc_load w p def)) of Some e \<Rightarrow> Inl e | None \<Rightarrow> Inr (svc_result (svc_load w p def))))"

section \<open>What the caches hold\<close>

definition documents_ok :: "svc_world \<Rightarrow> (string \<rightharpoonup> documentCacheEntry) \<Rightarrow> bool" where
  "documents_ok w ds \<longleftrightarrow> (\<forall>p e i. ds p = Some e \<longrightarrow> sys_stat (sw_sys w) p = Some i \<longrightarrow> \<not> isExpired e (fi_size i) (sw_mtime w p) \<longrightarrow>
     (\<exists>bytes s. sys_read (sw_sys w) p = Some bytes \<and> NewSnapshot p (Some bytes) = Inr s \<and> dc_hash e = Snapshot_Hash (Some s)))"

definition roots_ok :: "svc_world \<Rightarrow> CompatibilityProfile \<Rightarrow> (string \<rightharpoonup> rootCacheEntry) \<Rightarrow> bool" where
  "roots_ok w p rs \<longleftrightarrow> (\<forall>r e. rs r = Some e \<longrightarrow> rc_valid e \<longrightarrow>
     rc_result e = svc_result (svc_load w p r) \<and> fresh_documents w (wl_Documents (svc_load w p r)) = None)"

definition cache_ok :: "svc_world \<Rightarrow> CompatibilityProfile \<Rightarrow> coordinator \<Rightarrow> bool" where
  "cache_ok w p c \<longleftrightarrow> co_profile c = p \<and> documents_ok w (co_documents c) \<and> roots_ok w p (co_roots c)"

text \<open>Invalidating only makes entries invalid.\<close>

definition weaker :: "(string \<rightharpoonup> rootCacheEntry) \<Rightarrow> (string \<rightharpoonup> rootCacheEntry) \<Rightarrow> bool" where
  "weaker new old \<longleftrightarrow> (\<forall>r. new r = old r \<or> (\<exists>e. old r = Some e \<and> new r = Some (e\<lparr>rc_valid := False\<rparr>)))"

lemma weaker_refl [simp]: "weaker rs rs"
  by (simp add: weaker_def)

lemma weaker_trans: "weaker a b \<Longrightarrow> weaker b c \<Longrightarrow> weaker a c"
  unfolding weaker_def by (metis (no_types, lifting) option.inject rootCacheEntry.surjective rootCacheEntry.update_convs(2))

lemma weaker_mark: "weaker (mark_invalid r rs) rs"
  by (auto simp: weaker_def mark_invalid_def split: option.splits)

lemma weaker_fold: "weaker (fold mark_invalid xs rs) rs"
  by (induction xs arbitrary: rs) (auto intro: weaker_trans [OF _ weaker_mark])

lemma weaker_queue: "weaker (invalidate_queue deps queue seen rs) rs"
  by (induction deps queue seen rs rule: invalidate_queue.induct)
    (auto simp: Let_def simp del: invalidate_queue.simps(2) intro: weaker_trans [OF _ weaker_fold] simp: invalidate_queue.simps(2))

lemma roots_ok_weaker: "roots_ok w p old \<Longrightarrow> weaker new old \<Longrightarrow> roots_ok w p new"
  unfolding roots_ok_def weaker_def by (metis option.inject rootCacheEntry.select_convs(2) rootCacheEntry.surjective rootCacheEntry.update_convs(2))

lemma cache_ok_invalidate: "cache_ok w p c \<Longrightarrow> cache_ok w p (invalidateDependents path c)"
  by (auto simp: cache_ok_def invalidateDependents_def simp del: invalidate_queue.simps intro: roots_ok_weaker [OF _ weaker_queue])

lemma cache_ok_mark: "cache_ok w p c \<Longrightarrow> cache_ok w p (c\<lparr>co_roots := mark_invalid r (co_roots c)\<rparr>)"
  by (auto simp: cache_ok_def intro: roots_ok_weaker [OF _ weaker_mark])

lemma cache_ok_record:
  assumes "cache_ok w p c"
    and "\<And>i. sys_stat (sw_sys w) path = Some i \<Longrightarrow> \<not> isExpired e (fi_size i) (sw_mtime w path) \<Longrightarrow>
      \<exists>bytes s. sys_read (sw_sys w) path = Some bytes \<and> NewSnapshot path (Some bytes) = Inr s \<and> dc_hash e = Snapshot_Hash (Some s)"
  shows "cache_ok w p (record_document path e c)"
  using assms by (auto simp: cache_ok_def documents_ok_def record_document_def)

lemma snapshot_fresh:
  assumes ok: "cache_ok w p c"
  shows "cache_ok w p (snd (svc_snapshot w False path c)) \<and>
    (case fst (svc_snapshot w False path c) of Inl e \<Rightarrow> fresh_snapshot w path = Inl e | Inr rec \<Rightarrow> fresh_snapshot w path = Inr (dc_hash rec))"
proof (cases "svc_canonicalizePath (sw_sys w) path")
  case (Inl e)
  then show ?thesis using ok by (simp add: svc_snapshot_def fresh_snapshot_def)
next
  case (Inr q)
  note can = this
  show ?thesis
  proof (cases "sys_stat (sw_sys w) q")
    case None
    have "cache_ok w p (record_document q \<lparr>dc_hash = [], dc_size = 0, dc_mtime = 0, dc_failed = True\<rparr> c)"
      by (rule cache_ok_record [OF ok]) (simp add: isExpired_def)
    then show ?thesis using can None cache_ok_invalidate by (simp add: svc_snapshot_def fresh_snapshot_def Let_def)
  next
    case (Some i)
    show ?thesis
    proof (cases "case co_documents c q of None \<Rightarrow> False | Some e \<Rightarrow> \<not> isExpired e (fi_size i) (sw_mtime w q)")
      case True
      then obtain e where e: "co_documents c q = Some e" "\<not> isExpired e (fi_size i) (sw_mtime w q)" by (auto split: option.splits)
      then obtain bytes s where "sys_read (sw_sys w) q = Some bytes" "NewSnapshot q (Some bytes) = Inr s" "dc_hash e = Snapshot_Hash (Some s)"
        using ok Some unfolding cache_ok_def documents_ok_def by blast
      then show ?thesis using can Some e ok by (simp add: svc_snapshot_def fresh_snapshot_def)
    next
      case False
      show ?thesis
      proof (cases "sys_read (sw_sys w) q")
        case None
        have "cache_ok w p (record_document q \<lparr>dc_hash = [], dc_size = fi_size i, dc_mtime = sw_mtime w q, dc_failed = True\<rparr> c)"
          by (rule cache_ok_record [OF ok]) (simp add: isExpired_def)
        then show ?thesis using can Some False None cache_ok_invalidate by (simp add: svc_snapshot_def fresh_snapshot_def Let_def)
      next
        case bytes: (Some bytes)
        define rec where "rec = \<lparr>dc_hash = (case NewSnapshot q (Some bytes) of Inl _ \<Rightarrow> [] | Inr s \<Rightarrow> Snapshot_Hash (Some s)), dc_size = fi_size i,
          dc_mtime = sw_mtime w q, dc_failed = (case NewSnapshot q (Some bytes) of Inl _ \<Rightarrow> True | Inr _ \<Rightarrow> False)\<rparr>"
        have rec: "cache_ok w p (record_document q rec c)"
          by (rule cache_ok_record [OF ok]) (auto simp: isExpired_def rec_def bytes split: sum.splits)
        show ?thesis using can Some False bytes rec cache_ok_invalidate [OF rec, of q]
          by (cases "NewSnapshot q (Some bytes)") (simp_all add: svc_snapshot_def fresh_snapshot_def Let_def rec_def)
      qed
    qed
  qed
qed

lemma hashes_fresh:
  assumes "cache_ok w p c"
  shows "cache_ok w p (snd (document_hashes w False docs hashes c)) \<and>
    (case fst (document_hashes w False docs hashes c) of Inl e \<Rightarrow> fresh_documents w docs = Some e | Inr hs \<Rightarrow> fresh_documents w docs = None)"
  using assms
proof (induction docs arbitrary: hashes c)
  case (Cons doc docs)
  show ?case
  proof (cases "svc_canonicalizePath (sw_sys w) (doc_path doc)")
    case (Inr path)
    obtain r c1 where s: "svc_snapshot w False path c = (r, c1)" by fastforce
    with snapshot_fresh [OF Cons.prems, of path] have c1: "cache_ok w p c1"
      "case r of Inl e \<Rightarrow> fresh_snapshot w path = Inl e | Inr rec \<Rightarrow> fresh_snapshot w path = Inr (dc_hash rec)" by simp_all
    show ?thesis
    proof (cases r)
      case (Inr rec)
      then show ?thesis using Cons.IH [OF c1(1), of "AList.update path (dc_hash rec) hashes"] c1(2) s \<open>svc_canonicalizePath _ _ = Inr path\<close>
        by (auto split: sum.splits)
    qed (use c1 s Inr in simp)
  qed (use Cons.prems in simp)
qed simp

lemma clone_svc_result [simp]: "cloneServiceResult (svc_result loaded) = svc_result loaded"
  by (simp add: cloneServiceResult_def svc_result_def Let_def cloneWorkspaceResult_def cloneResolveResult_def svc_sortDiagnostics_def
      diagnostics.sort_by_idem)

section \<open>Calls\<close>

lemma check_hashes_fresh:
  "cache_ok w p c \<Longrightarrow> cache_ok w p (snd (check_hashes w False root hs c)) \<and> (\<exists>b. fst (check_hashes w False root hs c) = Inr b)"
proof (induction hs arbitrary: c)
  case (Cons h hs)
  obtain path expected where h: "h = (path, expected)" by fastforce
  obtain r c1 where s: "svc_snapshot w False path c = (r, c1)" by fastforce
  with snapshot_fresh [OF Cons.prems, of path] have "cache_ok w p c1" by simp
  then show ?case using Cons.IH [of c1] cache_ok_mark [of w p c1 root] s h by (auto split: sum.splits)
qed (auto intro: exI [of _ True])

lemma hit_fresh:
  assumes "cache_ok w p c" and "svc_hit w False root c = (r, c1)"
  shows "cache_ok w p c1 \<and> (r = Inr None \<or>
    r = Inr (Some (svc_result (svc_load w p root))) \<and> fresh_documents w (wl_Documents (svc_load w p root)) = None)"
proof (cases "co_roots c root")
  case (Some entry)
  show ?thesis
  proof (cases "rc_valid entry")
    case True
    obtain b c2 where c2: "check_hashes w False root
        (map (\<lambda>k. (k, the (map_of (rc_dependencyHashes entry) k))) (sw_order w (map fst (rc_dependencyHashes entry)))) c = (Inr b, c2)"
        "cache_ok w p c2"
      using check_hashes_fresh [OF assms(1)] by (metis fst_conv snd_conv surj_pair)
    have res: "rc_result e = svc_result (svc_load w p root) \<and> fresh_documents w (wl_Documents (svc_load w p root)) = None"
      if "co_roots c2 root = Some e" "rc_valid e" for e
      using that c2(2) by (auto simp: cache_ok_def roots_ok_def)
    show ?thesis
      using assms(2) Some True c2 res by (auto simp: svc_hit_def split: bool.splits option.splits if_splits)
  qed (use assms Some in \<open>auto simp: svc_hit_def\<close>)
qed (use assms in \<open>auto simp: svc_hit_def\<close>)

lemma cache_ok_store:
  assumes "cache_ok w p c" and "fresh_documents w (wl_Documents (svc_load w p root)) = None"
  shows "cache_ok w p (storeResult root (svc_result (svc_load w p root)) hashes c)"
  using assms by (auto simp: cache_ok_def storeResult_def Let_def roots_ok_def)

lemma analyze_fresh:
  assumes "cache_ok w p c"
  shows "cache_ok w p (snd (svc_analyze w False def c)) \<and> fst (svc_analyze w False def c) =
    (case fresh_documents w (wl_Documents (svc_load w p def)) of Some e \<Rightarrow> Inl e | None \<Rightarrow> Inr (svc_result (svc_load w p def)))"
proof -
  have l: "LoadWorkspaceWithProfile (sw_read_error w) (sw_order w) (sw_sys w) def (co_profile c) = svc_load w p def"
    using assms by (simp add: svc_load_def cache_ok_def)
  obtain r c1 where h: "document_hashes w False (wl_Documents (svc_load w p def)) [] c = (r, c1)" by fastforce
  with hashes_fresh [OF assms, of "wl_Documents (svc_load w p def)" "[]"] have "cache_ok w p c1"
    "case r of Inl e \<Rightarrow> fresh_documents w (wl_Documents (svc_load w p def)) = Some e
     | Inr hs \<Rightarrow> fresh_documents w (wl_Documents (svc_load w p def)) = None" by simp_all
  then show ?thesis using h cache_ok_store [of w p c1 def] by (auto simp: svc_analyze_def l Let_def split: sum.splits)
qed

lemma call_fresh:
  assumes "cache_ok w p c"
  shows "cache_ok w p (snd (svc_Analyze w (False, False) d c)) \<and> fst (svc_Analyze w (False, False) d c) = fresh_Analyze w p d"
proof (cases "svc_canonicalizePath (sw_sys w) d")
  case (Inr def)
  obtain r c1 where h: "svc_hit w False def c = (r, c1)" by fastforce
  from hit_fresh [OF assms h] analyze_fresh [of w p c1 def] show ?thesis
    using Inr h assms by (auto simp: svc_Analyze_def fresh_Analyze_def split: option.splits)
qed (use assms in \<open>auto simp: svc_Analyze_def fresh_Analyze_def\<close>)

fun svc_calls :: "svc_world \<Rightarrow> coordinator \<Rightarrow> string list \<Rightarrow> (svc_error + ServiceResult) list" where
  "svc_calls w c [] = []"
| "svc_calls w c (d # ds) = fst (svc_Analyze w (False, False) d c) # svc_calls w (snd (svc_Analyze w (False, False) d c)) ds"

text \<open>C25: The caches of the coordinator do not show: as long as the files stay as they are, any calls for any workspaces
  return exactly what an analysis without caches returns, errors included.\<close>

theorem cache_transparent:
  "svc_calls w (NewCoordinator p) ds = map (fresh_Analyze w (if cp_Name p = [] then NewStrictPortableProfile [] else p)) ds"
proof -
  let ?p = "if cp_Name p = [] then NewStrictPortableProfile [] else p"
  have "cache_ok w ?p c \<Longrightarrow> svc_calls w c ds = map (fresh_Analyze w ?p) ds" for c
    by (induction ds arbitrary: c) (simp_all add: call_fresh)
  moreover have "cache_ok w ?p (NewCoordinator p)" by (simp add: cache_ok_def NewCoordinator_def documents_ok_def roots_ok_def)
  ultimately show ?thesis by simp
qed

section \<open>Changed files\<close>

text \<open>The files a valid analysis was made from know it as a dependent.\<close>

definition deps_ok :: "coordinator \<Rightarrow> bool" where
  "deps_ok c \<longleftrightarrow> (\<forall>r e. co_roots c r = Some e \<longrightarrow> rc_valid e \<longrightarrow>
     (\<forall>path \<in> set (map fst (rc_dependencyHashes e)). r \<in> set (dependents_of (co_dependents c) path)))"

definition framed :: "coordinator \<Rightarrow> coordinator \<Rightarrow> bool" where
  "framed c c' \<longleftrightarrow> co_dependents c' = co_dependents c \<and> weaker (co_roots c') (co_roots c)"

lemma framed_refl [simp]: "framed c c"
  by (simp add: framed_def)

lemma framed_trans: "framed a b \<Longrightarrow> framed b c \<Longrightarrow> framed a c"
  by (auto simp: framed_def intro: weaker_trans)

lemma deps_ok_framed: "deps_ok c \<Longrightarrow> framed c c' \<Longrightarrow> deps_ok c'"
  unfolding deps_ok_def framed_def weaker_def
  by (metis option.inject rootCacheEntry.select_convs(2) rootCacheEntry.surjective rootCacheEntry.update_convs(2))

lemma framed_steps:
  "framed c (record_document q e c)" "framed c (invalidateDependents q c)" "framed c (c\<lparr>co_roots := mark_invalid r (co_roots c)\<rparr>)"
  by (simp_all add: framed_def record_document_def invalidateDependents_def weaker_queue weaker_mark del: invalidate_queue.simps)

lemma framed_snapshot: "framed c (snd (svc_snapshot w late path c))"
proof -
  have "framed c (invalidateDependents q (record_document q e c))" for q e
    by (rule framed_trans [OF framed_steps(1) framed_steps(2)])
  then show ?thesis
    by (auto simp: svc_snapshot_def Let_def framed_steps(1) split: sum.split option.split)
qed

lemma framed_hashes: "framed c (snd (document_hashes w late docs hashes c))"
proof (induction docs arbitrary: hashes c)
  case (Cons doc docs)
  show ?case
    using Cons.IH framed_snapshot [of c w late] framed_trans
    by (auto split: sum.split prod.split) (metis snd_conv framed_snapshot framed_trans)+
qed simp

lemma framed_check: "framed c (snd (check_hashes w late root hs c))"
proof (induction hs arbitrary: c)
  case (Cons h hs)
  obtain path expected where h: "h = (path, expected)" by fastforce
  obtain r c1 where s: "svc_snapshot w late path c = (r, c1)" by fastforce
  then have "framed c c1" using framed_snapshot [of c w late path] by simp
  then show ?case using s h framed_trans [OF \<open>framed c c1\<close>] Cons.IH [of c1] framed_steps(3) [of c1 root] by (auto split: sum.split)
qed simp

lemma framed_hit: "framed c (snd (svc_hit w late root c))"
proof (cases "co_roots c root")
  case (Some entry)
  obtain r c1 where k: "check_hashes w late root
        (map (\<lambda>k. (k, the (map_of (rc_dependencyHashes entry) k))) (sw_order w (map fst (rc_dependencyHashes entry)))) c = (r, c1)" by fastforce
  then have "framed c c1" using framed_check by (metis snd_conv)
  then show ?thesis using Some k by (auto simp: svc_hit_def split: sum.split bool.split option.split)
qed (simp add: svc_hit_def)

lemma removeAll_empty: "removeAll x xs = [] \<longleftrightarrow> set xs \<subseteq> {x}"
  by (induction xs) auto

lemma dependents_remove:
  "r \<noteq> root \<Longrightarrow> r \<in> set (dependents_of (remove_dependent root dep deps) q) \<longleftrightarrow> r \<in> set (dependents_of deps q)"
  by (auto simp: dependents_of_def remove_dependent_def Let_def update_conv' delete_conv' removeAll_empty split: option.splits if_splits)

lemma dependents_add:
  "r \<in> set (dependents_of (add_dependent root dep deps) q) \<longleftrightarrow> q = dep \<and> r = root \<or> r \<in> set (dependents_of deps q)"
  by (auto simp: dependents_of_def add_dependent_def update_conv' split: option.splits if_splits)

lemma deps_ok_store:
  assumes "deps_ok c"
  shows "deps_ok (storeResult root result hashes c)"
proof -
  have rem: "r \<noteq> root \<Longrightarrow> r \<in> set (dependents_of (fold (remove_dependent root) ds deps) q) \<longleftrightarrow> r \<in> set (dependents_of deps q)" for r ds deps q
    by (induction ds arbitrary: deps) (simp_all add: dependents_remove)
  have add: "r \<in> set (dependents_of (fold (add_dependent root) ds deps) q) \<longleftrightarrow> q \<in> set ds \<and> r = root \<or> r \<in> set (dependents_of deps q)" for r ds deps q
    by (induction ds arbitrary: deps) (auto simp: dependents_add)
  show ?thesis
    using assms by (auto simp: deps_ok_def storeResult_def Let_def rem add)
qed

lemma deps_ok_call: "deps_ok c \<Longrightarrow> deps_ok (snd (svc_Analyze w cancelled d c))"
proof -
  assume ok: "deps_ok c"
  have analyze: "deps_ok (snd (svc_analyze w late def c1))" if "deps_ok c1" for late def c1
  proof -
    obtain r c2 where h: "document_hashes w late (wl_Documents (LoadWorkspaceWithProfile (sw_read_error w) (sw_order w) (sw_sys w) def (co_profile c1))) [] c1 = (r, c2)" by fastforce
    then have "deps_ok c2" using deps_ok_framed [OF that framed_hashes] by (metis snd_conv)
    then show ?thesis using h that deps_ok_store by (auto simp: svc_analyze_def Let_def split: sum.split)
  qed
  show ?thesis
  proof (cases "svc_canonicalizePath (sw_sys w) d")
    case (Inr def)
    obtain r c1 where h: "svc_hit w (snd cancelled) def c = (r, c1)" by fastforce
    then have "deps_ok c1" using deps_ok_framed [OF ok framed_hit] by (metis snd_conv)
    then show ?thesis using Inr h ok analyze by (auto simp: svc_Analyze_def split: sum.split option.split)
  qed (use ok in \<open>simp add: svc_Analyze_def\<close>)
qed

text \<open>Any calls, each in a world of its own.\<close>

fun svc_history :: "coordinator \<Rightarrow> (svc_world \<times> (bool \<times> bool) \<times> string) list \<Rightarrow> coordinator" where
  "svc_history c [] = c"
| "svc_history c ((w, cancelled, d) # hs) = svc_history (snd (svc_Analyze w cancelled d c)) hs"

lemma deps_ok_history: "deps_ok c \<Longrightarrow> deps_ok (svc_history c hs)"
  by (induction c hs rule: svc_history.induct) (auto intro: deps_ok_call)

lemma mark_at: "mark_invalid x roots r = (if r = x then map_option (\<lambda>e. e\<lparr>rc_valid := False\<rparr>) (roots r) else roots r)"
  by (auto simp: mark_invalid_def split: option.splits)

lemma marked: "fold mark_invalid rs roots r = (if r \<in> set rs then map_option (\<lambda>e. e\<lparr>rc_valid := False\<rparr>) (roots r) else roots r)"
  by (induction rs arbitrary: roots) (auto simp: mark_at option.map_comp comp_def)

lemma invalidated:
  assumes "r \<in> set (dependents_of (co_dependents c) q)" and "co_roots (invalidateDependents q c) r = Some e"
  shows "\<not> rc_valid e"
proof -
  let ?rs = "filter (\<lambda>r. co_roots c r \<noteq> None) (dependents_of (co_dependents c) q)"
  have eq: "co_roots (invalidateDependents q c) = invalidate_queue (co_dependents c) ?rs [q] (fold mark_invalid ?rs (co_roots c))"
    by (simp add: invalidateDependents_def Let_def)
  have w: "weaker (co_roots (invalidateDependents q c)) (fold mark_invalid ?rs (co_roots c))" unfolding eq by (rule weaker_queue)
  then have "fold mark_invalid ?rs (co_roots c) r \<noteq> None" using assms(2) unfolding weaker_def by (metis option.distinct(1))
  then have "r \<in> set ?rs" using assms(1) by (auto simp: marked split: if_splits)
  then obtain e0 where "fold mark_invalid ?rs (co_roots c) r = Some (e0\<lparr>rc_valid := False\<rparr>)"
    using marked [of ?rs "co_roots c" r] by auto
  then show ?thesis using w assms(2) unfolding weaker_def by (metis option.inject rootCacheEntry.select_convs(2) rootCacheEntry.surjective rootCacheEntry.update_convs(2))
qed

text \<open>C26: A file found to have changed leaves nothing valid that was made from it: after any calls in any worlds, when
  the next look at a file gives another hash than the one kept for it, no analysis that depends on the file
  is still valid.\<close>

theorem changed_file_invalidates:
  assumes "c = svc_history (NewCoordinator p) hs"
    and "svc_canonicalizePath (sw_sys w) path = Inr q" and "co_documents c q = Some kept"
    and "svc_snapshot w False path c = (Inr rec, c')" and "dc_hash rec \<noteq> dc_hash kept"
  shows "\<forall>r e. co_roots c' r = Some e \<longrightarrow> q \<in> set (map fst (rc_dependencyHashes e)) \<longrightarrow> \<not> rc_valid e"
proof (intro allI impI)
  fix r e
  assume e: "co_roots c' r = Some e" "q \<in> set (map fst (rc_dependencyHashes e))"
  have "deps_ok (NewCoordinator p)" by (simp add: deps_ok_def NewCoordinator_def)
  then have ok: "deps_ok c" using deps_ok_history assms(1) by simp
  obtain rec' where c': "c' = invalidateDependents q (record_document q rec' c)"
    using assms(2-5) by (auto simp: svc_snapshot_def Let_def split: option.splits if_splits sum.splits)
  show "\<not> rc_valid e"
  proof
    assume v: "rc_valid e"
    have "deps_ok c'" by (rule deps_ok_framed [OF ok]) (use framed_snapshot [of c w False path] assms(4) in simp)
    then have "r \<in> set (dependents_of (co_dependents c') q)" using e v by (auto simp: deps_ok_def)
    then have "r \<in> set (dependents_of (co_dependents (record_document q rec' c)) q)" by (simp add: c' invalidateDependents_def)
    from invalidated [OF this] e(1) v show False by (simp add: c')
  qed
qed

section \<open>What the coordinator does not promise\<close>

text \<open>A cached analysis only looks at the files it was made from: whatever else the disk holds now, such as a source
  that was missing then, it is returned again.\<close>

lemma new_files_unseen:
  assumes "co_roots c root = Some entry" and "rc_valid entry"
    and "\<And>path. path \<in> set (sw_order w (map fst (rc_dependencyHashes entry))) \<Longrightarrow>
      \<exists>rec. svc_snapshot w False path c = (Inr rec, c) \<and> map_of (rc_dependencyHashes entry) path = Some (dc_hash rec)"
  shows "svc_hit w False root c = (Inr (Some (cloneServiceResult (rc_result entry))), c)"
proof -
  have "check_hashes w False root (map (\<lambda>k. (k, the (map_of (rc_dependencyHashes entry) k))) ks) c = (Inr True, c)"
    if "\<And>path. path \<in> set ks \<Longrightarrow> \<exists>rec. svc_snapshot w False path c = (Inr rec, c) \<and> map_of (rc_dependencyHashes entry) path = Some (dc_hash rec)" for ks
    using that by (induction ks) fastforce+
  from this [OF assms(3)] show ?thesis using assms(1,2) by (simp add: svc_hit_def)
qed

text \<open>The copies leave out the profile and the digest of the configuration.\<close>

lemma profile_lost: "wl_Profile (sv_Workspace (svc_result loaded)) = [] \<and> wl_ConfigDigest (sv_Workspace (svc_result loaded)) = []"
  by (simp add: svc_result_def Let_def cloneWorkspaceResult_def)

text \<open>A call that ends forgets the call that superseded it: a third call no longer cancels the second.\<close>

lemma end_forgets_newer:
  assumes "if_cancelled s = {}" and "if_running s root = None"
  shows "2 \<notin> if_cancelled (svc_begin root 3 (svc_end root 1 (svc_begin root 2 (svc_begin root 1 s))))"
  using assms by (simp add: svc_begin_def svc_end_def)

section \<open>A file that changes\<close>

definition demo_sys :: "string \<Rightarrow> sys" where
  "demo_sys b = \<lparr>sys_cwd = Some ''/'', sys_stat = (\<lambda>p. if p = ''/a.def'' then Some \<lparr>fi_dir = False, fi_size = int (length b)\<rparr> else None),
     sys_lstat = (\<lambda>_. False), sys_eval = (\<lambda>_. None), sys_read = (\<lambda>p. if p = ''/a.def'' then Some b else None), sys_list = (\<lambda>_. [])\<rparr>"

definition demo_world :: "string \<Rightarrow> svc_world" where
  "demo_world b = \<lparr>sw_sys = demo_sys b, sw_mtime = (\<lambda>_. 0), sw_order = (\<lambda>ks. ks), sw_read_error = (\<lambda>_. [])\<rparr>"

definition demo_state :: coordinator where
  "demo_state = svc_history (NewCoordinator (NewStrictPortableProfile [])) [(demo_world [], (False, False), ''/a.def'')]"

lemma demo_path: "trim_space ''/a.def'' = ''/a.def''" "path_clean ''/a.def'' = ''/a.def''" "is_abs ''/a.def''"
  "\<not> equal_fold (path_base ''/a.def'') ''select.def''"
  by code_simp+

lemma demo_canonical: "svc_canonicalizePath (sw_sys (demo_world b)) ''/a.def'' = Inr ''/a.def''"
  by (simp add: svc_canonicalizePath_def demo_world_def demo_sys_def abs_path_def demo_path)

lemma demo_doc: "map_option (\<lambda>d. (doc_sections d, doc_path d)) (parser_Parse ''/a.def'' []) = Some ([], ''/a.def'')"
  by code_simp

lemma demo_load:
  "\<exists>doc. wl_Documents (LoadWorkspaceWithProfile (\<lambda>_. []) (\<lambda>ks. ks) (demo_sys []) ''/a.def'' (NewStrictPortableProfile [])) = [doc] \<and>
     doc_path doc = ''/a.def''"
proof -
  obtain doc where d: "parser_Parse ''/a.def'' [] = Some doc" "doc_sections doc = []" "doc_path doc = ''/a.def''" using demo_doc by auto
  then have "sourceReferences doc p = []" for p by (simp add: sourceReferences_def)
  then show ?thesis
    using d by (simp add: LoadWorkspaceWithProfile_def Let_def demo_sys_def abs_path_def parseWorkspaceFile_def NewStrictPortableProfile_def
        load_manifest_def demo_path)
qed

lemma demo_new_snapshot: "\<exists>s. NewSnapshot ''/a.def'' (Some b) = Inr s \<and> Snapshot_Hash (Some s) = sha256_hex b"
  by (simp add: NewSnapshot_eq demo_path snapshot_of_def Let_def Snapshot_Hash_def)

lemma demo_look:
  "svc_snapshot (demo_world b) False ''/a.def'' c = (Inr rec, c') \<Longrightarrow>
   (case co_documents c ''/a.def'' of None \<Rightarrow> True | Some e \<Rightarrow> dc_size e \<noteq> int (length b)) \<Longrightarrow>
   dc_hash rec = sha256_hex b \<and> dc_size rec = int (length b) \<and> co_documents c' ''/a.def'' = Some rec"
  using demo_new_snapshot [of b] demo_canonical [of b]
  by (auto simp: svc_snapshot_def Let_def demo_world_def demo_sys_def isExpired_def record_document_def invalidateDependents_def
      simp del: invalidate_queue.simps split: option.splits if_splits)

lemma demo_look_ok:
  "(case co_documents c ''/a.def'' of None \<Rightarrow> True | Some e \<Rightarrow> dc_size e \<noteq> int (length b)) \<Longrightarrow>
   \<exists>rec c'. svc_snapshot (demo_world b) False ''/a.def'' c = (Inr rec, c')"
  using demo_new_snapshot [of b] demo_canonical [of b]
  by (auto simp: svc_snapshot_def Let_def demo_world_def demo_sys_def isExpired_def split: option.splits)

lemma demo_kept:
  "\<exists>kept e. co_documents demo_state ''/a.def'' = Some kept \<and> dc_hash kept = sha256_hex [] \<and> dc_size kept = 0 \<and>
     co_roots demo_state ''/a.def'' = Some e \<and> rc_valid e \<and> map fst (rc_dependencyHashes e) = [''/a.def'']"
proof -
  let ?c = "NewCoordinator (NewStrictPortableProfile [])"
  have c0: "co_profile ?c = NewStrictPortableProfile []" "co_roots ?c = Map.empty" "co_documents ?c = Map.empty"
    by (simp_all add: NewCoordinator_def NewStrictPortableProfile_def)
  obtain rec c1 where l: "svc_snapshot (demo_world []) False ''/a.def'' ?c = (Inr rec, c1)" using demo_look_ok [where c = ?c and b = "[]"] c0 by auto
  from demo_look [OF l] have r: "dc_hash rec = sha256_hex []" "dc_size rec = 0" "co_documents c1 ''/a.def'' = Some rec" using c0 by auto
  obtain doc where doc: "wl_Documents (LoadWorkspaceWithProfile (\<lambda>_. []) (\<lambda>ks. ks) (demo_sys []) ''/a.def'' (NewStrictPortableProfile [])) = [doc]"
      "doc_path doc = ''/a.def''" using demo_load by blast
  define ld where "ld = LoadWorkspaceWithProfile (\<lambda>_. []) (\<lambda>ks. ks) (demo_sys []) ''/a.def'' (NewStrictPortableProfile [])"
  have "document_hashes (demo_world []) False [doc] [] ?c = (Inr [(''/a.def'', dc_hash rec)], c1)"
    using l doc(2) demo_canonical by simp
  moreover have "sw_read_error (demo_world []) = (\<lambda>_. [])" "sw_order (demo_world []) = (\<lambda>ks. ks)" "sw_sys (demo_world []) = demo_sys []"
    by (simp_all add: demo_world_def)
  ultimately have "svc_analyze (demo_world []) False ''/a.def'' ?c =
      (Inr (svc_result ld), storeResult ''/a.def'' (svc_result ld) [(''/a.def'', dc_hash rec)] c1)"
    using doc(1) by (simp add: svc_analyze_def c0 ld_def Let_def)
  moreover have "svc_hit (demo_world []) False ''/a.def'' ?c = (Inr None, ?c)" by (simp add: svc_hit_def c0)
  ultimately have "svc_Analyze (demo_world []) (False, False) ''/a.def'' ?c =
      (Inr (svc_result ld), storeResult ''/a.def'' (svc_result ld) [(''/a.def'', dc_hash rec)] c1)"
    by (simp add: svc_Analyze_def demo_path(1) demo_canonical)
  then have ds: "demo_state = storeResult ''/a.def'' (svc_result ld) [(''/a.def'', dc_hash rec)] c1"
    unfolding demo_state_def by simp
  have "co_documents (storeResult root result hashes c1) = co_documents c1"
    "co_roots (storeResult root result hashes c1) root = Some \<lparr>rc_result = cloneServiceResult result, rc_valid = True, rc_dependencyHashes = hashes\<rparr>"
    for root result hashes by (simp_all add: storeResult_def Let_def)
  then show ?thesis unfolding ds using r by auto
qed

theorem changed_file_invalidates_witness:
  "sha256_hex ''x'' = sha256_hex [] \<or>
   (\<exists>rec c' e. svc_snapshot (demo_world ''x'') False ''/a.def'' demo_state = (Inr rec, c') \<and> co_roots c' ''/a.def'' = Some e \<and> \<not> rc_valid e)"
proof (cases "sha256_hex ''x'' = sha256_hex []")
  case False
  obtain kept e where k: "co_documents demo_state ''/a.def'' = Some kept" "dc_hash kept = sha256_hex []" "dc_size kept = 0"
    "co_roots demo_state ''/a.def'' = Some e" "map fst (rc_dependencyHashes e) = [''/a.def'']" using demo_kept by (elim exE conjE) (rule that)
  obtain rec c' where l: "svc_snapshot (demo_world ''x'') False ''/a.def'' demo_state = (Inr rec, c')"
    using demo_look_ok [where c = demo_state and b = "''x''"] k by auto
  from demo_look [OF l] k have "dc_hash rec \<noteq> dc_hash kept" using False by auto
  from changed_file_invalidates [OF demo_state_def demo_canonical k(1) l this]
  have i: "\<And>r e. co_roots c' r = Some e \<Longrightarrow> ''/a.def'' \<in> set (map fst (rc_dependencyHashes e)) \<Longrightarrow> \<not> rc_valid e" by blast
  have "weaker (co_roots c') (co_roots demo_state)" using framed_snapshot [of demo_state "demo_world ''x''" False "''/a.def''"] l by (simp add: framed_def)
  then obtain e' where "co_roots c' ''/a.def'' = Some e'" "rc_dependencyHashes e' = rc_dependencyHashes e"
    using k(4) unfolding weaker_def by (metis (no_types, lifting) option.inject rootCacheEntry.select_convs(3) rootCacheEntry.surjective rootCacheEntry.update_convs(2))
  with i [of "''/a.def''" e'] k(5) l show ?thesis by auto
qed simp

end
