(* ===== verification/Ir_Json.thy ===== *)
theory Ir_Json
  imports Ir Go_Json
begin

text \<open>
  How \<^verbatim>\<open>json.Marshal\<close> writes the types of \<^verbatim>\<open>internal/ir/types.go\<close>, after their struct tags, and what the
  writers of JSON lines rely on: encoded JSON holds no line feed.
\<close>

definition ir_identity_json :: "Identity \<Rightarrow> json" where
  "ir_identity_json i = JObj [(''contractVersion'', JStr (idn_contract i)), (''semanticKey'', JStr (idn_semantic i)),
     (''occurrence'', JStr (idn_occurrence i)), (''store'', JStr (idn_store i))]"

definition ir_position_json :: "SourcePosition \<Rightarrow> json" where
  "ir_position_json p = JObj [(''line'', JInt (Line p)), (''column'', JInt (Column p))]"

definition ir_span_json :: "SourceSpan \<Rightarrow> json" where
  "ir_span_json s = JObj [(''start'', ir_position_json (Start s)), (''end'', ir_position_json (End s))]"

definition ir_symbol_json :: "Symbol \<Rightarrow> json" where
  "ir_symbol_json s = JObj ([(''id'', JStr (sym_id s)), (''identity'', ir_identity_json (sym_identity s)),
     (''kind'', JStr (symbol_kind_str (sym_kind s))), (''name'', JStr (sym_name s)), (''span'', ir_span_json (sym_span s)),
     (''section'', JStr (sym_section s))] @ omit_empty ''raw'' (sym_raw s))"

definition ir_reference_json :: "Reference \<Rightarrow> json" where
  "ir_reference_json r = JObj [(''id'', JStr (ref_id r)), (''identity'', ir_identity_json (ref_identity r)),
     (''kind'', JStr (reference_kind_str (ref_kind r))), (''name'', JStr (ref_name r)), (''raw'', JStr (ref_raw r)),
     (''sourceSymbol'', JStr (ref_source r)), (''target'', JStr (ref_target r)), (''span'', ir_span_json (ref_span r)),
     (''isDynamic'', JBool (ref_dynamic r))]"

definition ir_diagnostic_json :: "Diagnostic \<Rightarrow> json" where
  "ir_diagnostic_json d = JObj ([(''code'', JStr (dg_code d)), (''severity'', JStr (severity_str (dg_severity d))),
     (''message'', JStr (dg_message d)), (''path'', JStr (dg_path d)), (''start'', ir_position_json (dg_start d)),
     (''end'', ir_position_json (dg_end d))] @ omit_empty ''relatedSymbol'' (dg_related d))"

section \<open>Numbers and lines\<close>

lemma json_ints_omit [simp]: "list_all (\<lambda>(k, v). json_ints v) (omit_empty name v)"
  by (simp add: omit_empty_def)

lemma json_ints_int [simp]: "json_ints (JInt i)"
  by auto

lemma json_ints_slice: "(\<And>x. x \<in> set xs \<Longrightarrow> json_ints (f x)) \<Longrightarrow> json_ints (json_slice f xs)"
  by (simp add: json_slice_def list_all_iff)

lemma json_ints_ir [simp]:
  "json_ints (ir_identity_json i)" "json_ints (ir_position_json p)" "json_ints (ir_span_json s)"
  "json_ints (ir_symbol_json y)" "json_ints (ir_reference_json r)" "json_ints (ir_diagnostic_json d)"
  by (simp_all add: ir_identity_json_def ir_position_json_def ir_span_json_def ir_symbol_json_def ir_reference_json_def
      ir_diagnostic_json_def del: json_ints.simps(1))

text \<open>Nothing encoded holds a control byte.\<close>

definition printed :: "string \<Rightarrow> bool" where
  "printed s \<longleftrightarrow> list_all (\<lambda>c. 32 \<le> byte_of c) s"

lemma printed_simps [simp]:
  "printed []" "printed (c # s) \<longleftrightarrow> 32 \<le> byte_of c \<and> printed s" "printed (s @ t) \<longleftrightarrow> printed s \<and> printed t"
  by (auto simp: printed_def)

lemma printed_no_newline: "printed s \<Longrightarrow> CHR 0x0A \<notin> set s"
  by (auto simp: printed_def list_all_iff)

lemma printed_join: "(\<And>w. w \<in> set ws \<Longrightarrow> printed w) \<Longrightarrow> printed sep \<Longrightarrow> printed (join_with sep ws)"
  by (induction sep ws rule: join_with.induct) auto

lemma printed_hex: "n < 16 \<Longrightarrow> 32 \<le> byte_of (hex_digit n)"
  by (simp add: hex_digit_def)

lemma printed_unicode: "n < 65536 \<Longrightarrow> printed (json_unicode n)"
proof -
  assume "n < 65536"
  then have "n div 256 div 16 < 16" "n div 256 mod 16 < 16" "n mod 256 div 16 < 16" "n mod 256 mod 16 < 16" by auto
  then show ?thesis by (simp add: json_unicode_def hex_byte_def printed_hex)
qed

lemma printed_escape_byte: "printed (json_escape_byte c)"
proof (cases "byte_of c < 0x20 \<or> c = CHR ''<'' \<or> c = CHR ''>'' \<or> c = CHR ''&''")
  case True
  then have "byte_of c < 65536" by auto
  then show ?thesis by (auto simp: json_escape_byte_def printed_unicode)
qed (auto simp: json_escape_byte_def)

lemma long_rune_bytes:
  assumes "0x80 \<le> byte_of c"
  shows "snd (decode_rune (c # cs)) = 1 \<and> fst (decode_rune (c # cs)) = rune_error \<or>
    printed (take (snd (decode_rune (c # cs))) (c # cs))"
proof -
  have lead: "lead_byte c = Some (n, lo, hi) \<Longrightarrow> 0x80 \<le> lo" for n lo hi
    by (auto simp: lead_byte_def Let_def split: if_splits)
  show ?thesis
    using assms lead
    by (auto simp: decode_rune_def in_bytes_def is_cont_def split: option.split list.split)
qed

lemma printed_escape_rune: "s \<noteq> [] \<Longrightarrow> printed (json_escape_rune s)"
proof -
  assume "s \<noteq> []"
  then obtain c cs where s: "s = c # cs" by (cases s) auto
  obtain r w where d: "decode_rune s = (r, w)" by fastforce
  then show ?thesis
    using long_rune_bytes [of c cs]
    by (auto simp: s json_escape_rune_def printed_escape_byte printed_unicode rune_error_def Let_def)
qed

lemma printed_escape: "printed (json_escape s)"
proof (induction s rule: json_escape.induct)
  case (1 s)
  then show ?case by (subst json_escape.simps) (auto simp: printed_escape_rune)
qed

lemma printed_string: "printed (json_string s)"
  by (simp add: json_string_def printed_escape)

lemma printed_digits: "printed (nat_digits n)"
proof (induction n rule: nat_digits.induct)
  case (1 n)
  have "32 \<le> byte_of (digit_char (n mod 10))" by (simp add: digit_char_def)
  with 1 show ?case by (subst nat_digits.simps) auto
qed

lemma printed_itoa: "printed (itoa i)"
  by (simp add: itoa_def printed_digits)

lemma printed_encode: "json_ints j \<Longrightarrow> printed (json_encode j)"
proof (induction j)
  case (JArr xs)
  then have "printed (join_with '','' (map json_encode xs))" by (intro printed_join) (auto simp: list_all_iff)
  then show ?case by simp
next
  case (JObj fs)
  then have "printed (join_with '','' (map (\<lambda>(k, v). json_string k @ CHR '':'' # json_encode v) fs))"
    by (intro printed_join) (force simp: list_all_iff printed_string)+
  then show ?case by simp
qed (auto simp: printed_string printed_itoa)

text \<open>So lines of JSON split again into what was written, and each line reads back.\<close>

definition json_lines :: "json list \<Rightarrow> string" where
  "json_lines js = concat (map (\<lambda>j. json_encode j @ [CHR 0x0A]) js)"

lemma split_on_line: "b \<notin> set w \<Longrightarrow> split_on b (w @ b # s) = w # split_on b s"
  by (induction w) auto

lemma split_json_lines: "list_all json_ints js \<Longrightarrow> split_on (CHR 0x0A) (json_lines js) = map json_encode js @ [[]]"
proof (induction js)
  case (Cons j js)
  then have "CHR 0x0A \<notin> set (json_encode j)" using printed_encode printed_no_newline by simp
  then show ?case using Cons by (simp add: json_lines_def split_on_line)
qed (simp add: json_lines_def)

lemma count_newlines: "list_all json_ints js \<Longrightarrow> length (filter (\<lambda>c. c = CHR 0x0A) (json_lines js)) = length js"
proof (induction js)
  case (Cons j js)
  then have "filter (\<lambda>c. c = CHR 0x0A) (json_encode j) = []"
    using printed_no_newline [OF printed_encode [of j]] by (auto simp: filter_empty_conv)
  then show ?case using Cons by (simp add: json_lines_def)
qed (simp add: json_lines_def)

end
