(* ===== verification/Scip.thy ===== *)
theory Scip
  imports Ir_Json
begin

text \<open>
  \<^verbatim>\<open>internal/scip/scip.go\<close>: the export of parsed documents as SCIP-like JSON lines. The writer is a string
  builder, which does not fail.
\<close>

record scip_identity =
  si_ContractVersion :: string
  si_SemanticKey :: string
  si_OccurrenceID :: string
  si_StoreID :: string

record scip_position =
  sp_Line :: int
  sp_Character :: int

record sourceRange =
  sg_Start :: scip_position
  sg_End :: scip_position

record symbolRecord =
  sy_ID :: string
  sy_Identity :: scip_identity
  sy_Name :: string
  sy_Kind :: string
  sy_Range :: sourceRange

record occurrenceRecord =
  oc_Symbol :: string
  oc_Identity :: scip_identity
  oc_Range :: sourceRange
  oc_Roles :: "string list"
  oc_Target :: string

record diagnosticRecord =
  dr_Range :: sourceRange
  dr_Code :: string
  dr_Severity :: string
  dr_Message :: string
  dr_RelatedSymbol :: string

record documentRecord =
  dd_Path :: string
  dd_Language :: string
  dd_Symbols :: "symbolRecord list"
  dd_Occurrences :: "occurrenceRecord list"
  dd_Diagnostics :: "diagnosticRecord list"

section \<open>Identities and positions\<close>

definition scip_canonicalPath :: "string \<Rightarrow> string" where
  "scip_canonicalPath path =
     trim_prefix (path_clean (replace_byte (trim_space path) (CHR 0x5C) ''/'')) ''./''"

definition symbolID :: "Symbol \<Rightarrow> string" where
  "symbolID s =
     (if sym_id s \<noteq> [] then sym_id s
      else if idn_store (sym_identity s) \<noteq> [] then idn_store (sym_identity s)
      else if idn_occurrence (sym_identity s) \<noteq> [] then idn_occurrence (sym_identity s)
      else idn_semantic (sym_identity s))"

definition firstSymbolID :: "Document \<Rightarrow> string" where
  "firstSymbolID d = (case doc_symbols d of [] \<Rightarrow> [] | s # _ \<Rightarrow> symbolID s)"

definition referenceSymbol :: "Reference \<Rightarrow> string" where
  "referenceSymbol r =
     (if ref_target r \<noteq> [] then ref_target r
      else if ref_source r \<noteq> [] then ref_source r
      else if idn_store (ref_identity r) \<noteq> [] then idn_store (ref_identity r)
      else idn_occurrence (ref_identity r))"

definition toIdentity :: "Identity \<Rightarrow> scip_identity" where
  "toIdentity i =
     \<lparr>si_ContractVersion = (if idn_contract i = [] then IdentityContractVersion else idn_contract i),
      si_SemanticKey = idn_semantic i, si_OccurrenceID = idn_occurrence i, si_StoreID = idn_store i\<rparr>"

definition zero_based :: "SourcePosition \<Rightarrow> scip_position" where
  "zero_based p = \<lparr>sp_Line = max 0 (Line p - 1), sp_Character = max 0 (Column p - 1)\<rparr>"

definition toRange :: "SourceSpan \<Rightarrow> sourceRange" where
  "toRange s = \<lparr>sg_Start = zero_based (Start s), sg_End = zero_based (End s)\<rparr>"

definition stringKey :: "sourceRange \<Rightarrow> string" where
  "stringKey r = itoa (sp_Line (sg_Start r)) @ '':'' @ itoa (sp_Character (sg_Start r)) @ '':'' @
     itoa (sp_Line (sg_End r)) @ '':'' @ itoa (sp_Character (sg_End r))"

definition occurrenceKey :: "occurrenceRecord \<Rightarrow> string" where
  "occurrenceKey o' = stringKey (oc_Range o') @ [CHR 0x00] @ oc_Symbol o' @ [CHR 0x00] @ si_OccurrenceID (oc_Identity o') @
     [CHR 0x00] @ join_with '','' (oc_Roles o')"

definition diagnosticKey :: "diagnosticRecord \<Rightarrow> string" where
  "diagnosticKey d = stringKey (dr_Range d) @ [CHR 0x00] @ dr_Code d @ [CHR 0x00] @ dr_Severity d @ [CHR 0x00] @ dr_Message d"

section \<open>Documents\<close>

definition scip_doc_less :: "Document \<Rightarrow> Document \<Rightarrow> bool" where
  "scip_doc_less a b =
     (let left = scip_canonicalPath (doc_path a); right = scip_canonicalPath (doc_path b) in
      if left \<noteq> right then left < right
      else if doc_file_type a \<noteq> doc_file_type b then doc_file_type a < doc_file_type b
      else firstSymbolID a < firstSymbolID b)"

definition symbol_record :: "Symbol \<Rightarrow> symbolRecord" where
  "symbol_record s = \<lparr>sy_ID = symbolID s, sy_Identity = toIdentity (sym_identity s), sy_Name = sym_name s,
     sy_Kind = symbol_kind_str (sym_kind s), sy_Range = toRange (sym_span s)\<rparr>"

definition definition_record :: "Symbol \<Rightarrow> occurrenceRecord" where
  "definition_record s = \<lparr>oc_Symbol = symbolID s, oc_Identity = toIdentity (sym_identity s), oc_Range = toRange (sym_span s),
     oc_Roles = [''definition''], oc_Target = []\<rparr>"

definition reference_record :: "Reference \<Rightarrow> occurrenceRecord" where
  "reference_record r = \<lparr>oc_Symbol = referenceSymbol r, oc_Identity = toIdentity (ref_identity r), oc_Range = toRange (ref_span r),
     oc_Roles = [''reference''], oc_Target = ref_target r\<rparr>"

definition diagnostic_record :: "Diagnostic \<Rightarrow> diagnosticRecord" where
  "diagnostic_record d = \<lparr>dr_Range = toRange \<lparr>Start = dg_start d, End = dg_end d\<rparr>, dr_Code = dg_code d,
     dr_Severity = severity_str (dg_severity d), dr_Message = dg_message d, dr_RelatedSymbol = dg_related d\<rparr>"

definition document_record :: "Document \<Rightarrow> documentRecord" where
  "document_record doc =
     \<lparr>dd_Path = scip_canonicalPath (doc_path doc), dd_Language = doc_file_type doc,
      dd_Symbols = sort_by (\<lambda>a b. sy_ID a < sy_ID b) (map symbol_record (doc_symbols doc)),
      dd_Occurrences = sort_by (\<lambda>a b. occurrenceKey a < occurrenceKey b)
        (map definition_record (doc_symbols doc) @ map reference_record (doc_references doc)),
      dd_Diagnostics = sort_by (\<lambda>a b. diagnosticKey a < diagnosticKey b) (map diagnostic_record (doc_diagnostics doc))\<rparr>"

definition buildDocuments :: "Document list \<Rightarrow> documentRecord list" where
  "buildDocuments docs = map document_record (sort_by scip_doc_less docs)"

section \<open>The lines\<close>

definition scip_identity_json :: "scip_identity \<Rightarrow> json" where
  "scip_identity_json i = JObj (omit_empty ''contractVersion'' (si_ContractVersion i) @ omit_empty ''semanticKey'' (si_SemanticKey i) @
     omit_empty ''occurrence'' (si_OccurrenceID i) @ omit_empty ''store'' (si_StoreID i))"

definition scip_position_json :: "scip_position \<Rightarrow> json" where
  "scip_position_json p = JObj [(''line'', JInt (sp_Line p)), (''character'', JInt (sp_Character p))]"

definition scip_range_json :: "sourceRange \<Rightarrow> json" where
  "scip_range_json r = JObj [(''start'', scip_position_json (sg_Start r)), (''end'', scip_position_json (sg_End r))]"

definition scip_symbol_json :: "symbolRecord \<Rightarrow> json" where
  "scip_symbol_json s = JObj [(''id'', JStr (sy_ID s)), (''identity'', scip_identity_json (sy_Identity s)), (''name'', JStr (sy_Name s)),
     (''kind'', JStr (sy_Kind s)), (''range'', scip_range_json (sy_Range s))]"

definition scip_occurrence_json :: "occurrenceRecord \<Rightarrow> json" where
  "scip_occurrence_json o' = JObj ([(''symbol'', JStr (oc_Symbol o')), (''identity'', scip_identity_json (oc_Identity o')),
     (''range'', scip_range_json (oc_Range o')), (''roles'', JArr (map JStr (oc_Roles o')))] @ omit_empty ''target'' (oc_Target o'))"

definition scip_diagnostic_json :: "diagnosticRecord \<Rightarrow> json" where
  "scip_diagnostic_json d = JObj ([(''range'', scip_range_json (dr_Range d))] @ omit_empty ''code'' (dr_Code d) @
     [(''severity'', JStr (dr_Severity d)), (''message'', JStr (dr_Message d))] @ omit_empty ''relatedSymbol'' (dr_RelatedSymbol d))"

definition document_json :: "documentRecord \<Rightarrow> json" where
  "document_json r = JObj [(''type'', JStr ''document''), (''path'', JStr (dd_Path r)), (''language'', JStr (dd_Language r)),
     (''symbols'', JArr (map scip_symbol_json (dd_Symbols r))), (''occurrences'', JArr (map scip_occurrence_json (dd_Occurrences r))),
     (''diagnostics'', JArr (map scip_diagnostic_json (dd_Diagnostics r)))]"

definition scip_metadata :: json where
  "scip_metadata = JObj [(''type'', JStr ''metadata''), (''protocol'', JStr ''scip-jsonl-subset-1''), (''tool'', JStr ''ikemen-devtools''),
     (''identityContractVersion'', JStr IdentityContractVersion)]"

definition scip_writeJSON :: "json \<Rightarrow> string" where
  "scip_writeJSON v = json_encode v @ [CHR 0x0A]"

definition scip_Export :: "Document list \<Rightarrow> string" where
  "scip_Export docs = scip_writeJSON scip_metadata @ concat (map (\<lambda>doc. scip_writeJSON (document_json doc)) (buildDocuments docs))"

text \<open>What the lines of a SCIP export hold, and on what their order depends.\<close>

lemma scip_lines: "scip_Export docs = json_lines (scip_metadata # map document_json (buildDocuments docs))"
  by (simp add: scip_Export_def scip_writeJSON_def json_lines_def comp_def)

lemma json_ints_scip [simp]:
  "json_ints (scip_identity_json i)" "json_ints (scip_position_json p)" "json_ints (scip_range_json r)"
  "json_ints (scip_symbol_json s)" "json_ints (scip_occurrence_json oc)" "json_ints (scip_diagnostic_json d)"
  "json_ints (document_json doc)" "json_ints scip_metadata"
  by (simp_all add: scip_identity_json_def scip_position_json_def scip_range_json_def scip_symbol_json_def scip_occurrence_json_def
      scip_diagnostic_json_def document_json_def scip_metadata_def list_all_iff omit_empty_def del: json_ints.simps(1))

text \<open>The export is one line of metadata and one line per document, each of which reads back; the record of a
  document holds its symbols, definitions, references and diagnostics, each exactly once.\<close>

theorem scip_lines_read_back:
  "map json_unmarshal (butlast (split_on (CHR 0x0A) (scip_Export docs))) =
     map (\<lambda>j. Some (json_repair j)) (scip_metadata # map document_json (buildDocuments docs)) \<and>
   mset (buildDocuments docs) = image_mset document_record (mset docs) \<and>
   (\<forall>doc. mset (dd_Symbols (document_record doc)) = image_mset symbol_record (mset (doc_symbols doc)) \<and>
     mset (dd_Occurrences (document_record doc)) =
       image_mset definition_record (mset (doc_symbols doc)) + image_mset reference_record (mset (doc_references doc)) \<and>
     mset (dd_Diagnostics (document_record doc)) = image_mset diagnostic_record (mset (doc_diagnostics doc)))"
proof -
  have "list_all json_ints (scip_metadata # map document_json (buildDocuments docs))" by (simp add: list_all_iff)
  from split_json_lines [OF this]
  have "butlast (split_on (CHR 0x0A) (scip_Export docs)) = map json_encode (scip_metadata # map document_json (buildDocuments docs))"
    by (simp only: scip_lines butlast_snoc)
  then show ?thesis
    by (simp add: json_unmarshal_encode buildDocuments_def document_record_def)
qed

section \<open>Order\<close>

lemma scip_doc_order: "weak_order scip_doc_less"
  by (rule weak_order_by_key [of _ "\<lambda>d. (scip_canonicalPath (doc_path d), doc_file_type d, firstSymbolID d)"])
    (auto simp: scip_doc_less_def Let_def)

interpretation scip_docs: weak_order scip_doc_less
  by (rule scip_doc_order)

text \<open>Documents with different paths may come in any order.\<close>

lemma scip_order_independent:
  assumes "mset docs = mset docs'" and "inj_on (\<lambda>d. scip_canonicalPath (doc_path d)) (set docs)"
  shows "scip_Export docs = scip_Export docs'"
proof -
  have "sort_by scip_doc_less docs = sort_by scip_doc_less docs'"
  proof (rule scip_docs.sort_by_perm [OF assms(1)])
    fix x y
    assume "x \<in> set docs" "y \<in> set docs" "\<not> scip_doc_less x y" "\<not> scip_doc_less y x"
    then show "x = y" using assms(2) by (auto simp: scip_doc_less_def Let_def inj_on_def split: if_splits)
  qed
  then show ?thesis by (simp add: scip_Export_def buildDocuments_def)
qed

text \<open>Positions are compared as text: an occurrence in line 10 comes before one in line 9.\<close>

definition on_line :: "int \<Rightarrow> occurrenceRecord" where
  "on_line n = \<lparr>oc_Symbol = ''s'', oc_Identity = toIdentity zero_identity,
     oc_Range = \<lparr>sg_Start = \<lparr>sp_Line = n, sp_Character = 0\<rparr>, sg_End = \<lparr>sp_Line = n, sp_Character = 1\<rparr>\<rparr>,
     oc_Roles = [''definition''], oc_Target = []\<rparr>"

lemma later_line_first:
  "sort_by (\<lambda>a b. occurrenceKey a < occurrenceKey b) [on_line 9, on_line 10] = [on_line 10, on_line 9]"
proof -
  have "itoa 9 = ''9''" "itoa 10 = ''10''" by code_simp+
  then have "occurrenceKey (on_line 10) < occurrenceKey (on_line 9)"
    by (simp add: occurrenceKey_def stringKey_def on_line_def)
  then show ?thesis by simp
qed

end
