(* ===== verification/Operations.thy ===== *)
theory Operations
  imports Contract Graph Index Workspace_Load Scip
begin

text \<open>
  \<^verbatim>\<open>internal/operations/operations.go\<close>: the read-only operations of the command line and of the MCP server. Each
  analyses the workspace, filters rows out of the result, sorts them by their JSON text and answers with one
  page of them. What the operating system answers, the order of map keys and the text of a failed read are an
  argument, \<open>op_env\<close>. A slice expression out of bounds is the error \<open>SlicePanic\<close>.
\<close>

record Options =
  op_Root :: string
  op_Profile :: string
  op_Path :: string
  op_Name :: string
  op_Kind :: string
  op_Code :: string
  op_Severity :: string
  op_Query :: string
  op_Cursor :: string
  op_Limit :: int
  op_IncludeDeclarations :: bool

record op_env =
  oe_sys :: sys
  oe_order :: "string list \<Rightarrow> string list"
  oe_read_error :: "string \<Rightarrow> string"

datatype op_error = OpContextDone | OpConfigFailed ConfigError | OpGraphFailed graph_error | SlicePanic

section \<open>Paths\<close>

definition relative_or_base :: "sys \<Rightarrow> string option \<Rightarrow> string \<Rightarrow> string" where
  "relative_or_base sy absRoot path =
     (case (absRoot, abs_path (sys_cwd sy) path) of
        (Some r, Some p) \<Rightarrow>
          (case path_rel r p of
             Some rel \<Rightarrow> if rel \<noteq> ''..'' \<and> \<not> has_prefix rel ''../'' \<and> \<not> is_abs rel then rel else path_base path
           | None \<Rightarrow> path_base path)
      | _ \<Rightarrow> path_base path)"

definition displayPath :: "sys \<Rightarrow> string \<Rightarrow> string \<Rightarrow> string" where
  "displayPath sy root path =
     (if trim_space path = [] then [] else relative_or_base sy (abs_path (sys_cwd sy) root) path)"

definition op_entry :: "sys \<Rightarrow> string \<Rightarrow> string" where
  "op_entry sy root0 =
     (let root = trim_space root0 in
      if sys_is_dir sy root
      then case find (sys_exists sy) (map (\<lambda>p. path_join [root, p]) [''select.def'', ''data/select.def'', ''system.def'']) of
             Some q \<Rightarrow> q | None \<Rightarrow> root
      else root)"

section \<open>Analysis\<close>

definition dedupe_key :: "Diagnostic \<Rightarrow> string" where
  "dedupe_key d =
     to_lower (path_clean (dg_path d) @ ''|'' @ dg_code d @ ''|'' @ dg_message d @ ''|'' @
       itoa (Line (dg_start d)) @ '':'' @ itoa (Column (dg_start d)) @ ''-'' @
       itoa (Line (dg_end d)) @ '':'' @ itoa (Column (dg_end d)) @ ''|'' @ dg_related d)"

text \<open>The first of every group with the same key, in order.\<close>

fun first_by :: "('a \<Rightarrow> 'k) \<Rightarrow> 'k list \<Rightarrow> 'a list \<Rightarrow> 'a list" where
  "first_by key seen [] = []"
| "first_by key seen (x # xs) =
     (if key x \<in> set seen then first_by key seen xs else x # first_by key (key x # seen) xs)"

definition dedupeDiagnostics :: "Diagnostic list \<Rightarrow> Diagnostic list" where
  "dedupeDiagnostics ds = first_by dedupe_key [] ds"

definition op_document_key :: "Document \<Rightarrow> string" where
  "op_document_key d = to_lower (path_clean (doc_path d))"

definition entry_path :: "WorkspaceConfig \<Rightarrow> string \<Rightarrow> string" where
  "entry_path cfg ep = (if is_abs ep then ep else path_join [wc_Root cfg, ep])"

definition load_entries :: "op_env \<Rightarrow> WorkspaceConfig \<Rightarrow> workspace_LoadResult" where
  "load_entries e cfg =
     (let parts = map (\<lambda>ep. LoadWorkspaceWithProfile (oe_read_error e) (oe_order e) (oe_sys e) (entry_path cfg ep) (ProfileValue cfg))
            (case wc_EntryPoints cfg of None \<Rightarrow> [] | Some eps \<Rightarrow> eps)
      in \<lparr>wl_Documents = first_by op_document_key [] (concat (map wl_Documents parts)),
          wl_Diagnostics = concat (map wl_Diagnostics parts), wl_ConfigDigest = Digest cfg, wl_Profile = cp_Name (ProfileValue cfg)\<rparr>)"

definition snapshot_text :: "Document list \<Rightarrow> string" where
  "snapshot_text docs = concat (map (\<lambda>d. doc_path d @ doc_version d @ concat (map sym_id (doc_symbols d))) docs)"

definition op_flags :: "Options \<Rightarrow> ConfigFlags" where
  "op_flags o' = \<lparr>cf_Root = [], cf_Profile = op_Profile o', cf_Cache = [], cf_EntryPoints = None, cf_Adapters = None,
     cf_ExternalRoots = None, cf_Includes = None, cf_Excludes = None, cf_Budgets = None\<rparr>"

type_synonym analysis = "workspace_LoadResult \<times> ResolveResult \<times> string"

definition op_Analyze :: "op_env \<Rightarrow> bool \<Rightarrow> Options \<Rightarrow> op_error + analysis" where
  "op_Analyze e cancelled o' =
     (if cancelled then Inl OpContextDone
      else case (if sys_is_dir (oe_sys e) (op_Root o')
                 then map_sum OpConfigFailed (load_entries e) (ResolveConfig (oe_order e) (oe_sys e) (op_Root o') (op_flags o'))
                 else Inr (LoadWorkspaceWithProfile (oe_read_error e) (oe_order e) (oe_sys e)
                        (op_entry (oe_sys e) (op_Root o')) (NewStrictPortableProfile []))) of
             Inl err \<Rightarrow> Inl err
           | Inr ws \<Rightarrow>
               Inr (ws\<lparr>wl_Diagnostics := dedupeDiagnostics (wl_Diagnostics ws)\<rparr>, Resolve (Some (wl_Documents ws)),
                    take 16 (sha256_hex (snapshot_text (wl_Documents ws)))))"

section \<open>Pages\<close>

text \<open>\<^verbatim>\<open>fmt.Sscanf(s, "%d", &n)\<close>: white space without a line feed, a sign, digits; the rest is ignored.\<close>

definition scan_decimal :: "string \<Rightarrow> int option" where
  "scan_decimal s =
     (let t = trim_left_space s; signed = t \<noteq> [] \<and> (hd t = CHR ''-'' \<or> hd t = CHR ''+'');
          digits = takeWhile is_digit (if signed then tl t else t)
      in if CHR 0x0A \<in> set (take (length s - length t) s) then None
         else atoi (if signed then hd t # digits else digits))"

definition page_limit :: "int \<Rightarrow> int" where
  "page_limit lim = (if lim \<le> 0 then 100 else lim)"

definition page_start :: "string \<Rightarrow> int \<Rightarrow> int" where
  "page_start cursor len =
     (let start = (if cursor = [] then 0 else case scan_decimal cursor of Some n \<Rightarrow> n | None \<Rightarrow> 0) in
      min (max start 0) len)"

definition json_less :: "('a \<Rightarrow> json) \<Rightarrow> 'a \<Rightarrow> 'a \<Rightarrow> bool" where
  "json_less f a b \<longleftrightarrow> json_encode (f a) < json_encode (f b)"

definition paginate :: "('a \<Rightarrow> json) \<Rightarrow> 'a list \<Rightarrow> Options \<Rightarrow> ('a list \<times> Page \<times> Truncation) option" where
  "paginate f v0 o' =
     (let v = sort_by (json_less f) v0; len = int (length v); lim = page_limit (op_Limit o');
          start = page_start (op_Cursor o') len; end = min (wrap64 (start + lim)) len
      in if end < start then None
         else Some (take (nat (end - start)) (drop (nat start) v),
                    \<lparr>pa_Limit = lim, pa_Returned = end - start, pa_NextCursor = (if end < len then itoa end else [])\<rparr>,
                    \<lparr>tr_Truncated = end < len, tr_Reasons = (if end < len then [''page-limit''] else [])\<rparr>))"

text \<open>A page of a \<^verbatim>\<open>nil\<close> slice is \<^verbatim>\<open>nil\<close>, which is written \<^verbatim>\<open>null\<close>.\<close>

definition rows_json :: "('a \<Rightarrow> json) \<Rightarrow> 'a list \<Rightarrow> 'a list \<Rightarrow> json" where
  "rows_json f v items = (if v = [] then JNull else JArr (map f items))"

section \<open>Answers\<close>

definition op_diagnostic :: "Diagnostic \<Rightarrow> contract_Diagnostic" where
  "op_diagnostic d = \<lparr>cdg_Code = dg_code d, cdg_Severity = severity_str (dg_severity d), cdg_Message = dg_message d, cdg_Path = [],
     cdg_Evidence = Some (JObj [(''nextChecks'', JArr [])])\<rparr>"

definition op_envelope :: "string \<Rightarrow> analysis \<Rightarrow> json \<Rightarrow> Page \<Rightarrow> Truncation \<Rightarrow> Envelope" where
  "op_envelope operation a result page trunc =
     (case a of (ws, sem, snap) \<Rightarrow>
        \<lparr>en_SchemaVersion = SchemaVersion, en_Operation = operation, en_Tool = ''ikm'', en_Status = StatusComplete,
         en_Workspace = \<lparr>wk_Root = [], wk_Profile = (if wl_Profile ws = [] then ''strict-portable'' else wl_Profile ws),
           wk_Configuration = wl_ConfigDigest ws\<rparr>,
         en_Snapshot_ID = snap, en_Result = result,
         en_Diagnostics = map op_diagnostic (wl_Diagnostics ws @ res_Diagnostics sem), en_Page = page, en_Truncation = trunc\<rparr>)"

text \<open>The shape of every query: analyse, collect, sort, cut a page, wrap.\<close>

definition op_query :: "string \<Rightarrow> ('a \<Rightarrow> json) \<Rightarrow> (analysis \<Rightarrow> 'a list) \<Rightarrow> (json \<Rightarrow> json) \<Rightarrow> op_env \<Rightarrow> bool \<Rightarrow> Options \<Rightarrow> op_error + Envelope" where
  "op_query operation f rows wrap e cancelled o' =
     (case op_Analyze e cancelled o' of
        Inl err \<Rightarrow> Inl err
      | Inr a \<Rightarrow>
          (let v = rows a in
           case paginate f v o' of
             None \<Rightarrow> Inl SlicePanic
           | Some (items, page, trunc) \<Rightarrow> Inr (op_envelope operation a (wrap (rows_json f v items)) page trunc)))"

record diagnostic_row =
  dw_Code :: string
  dw_Severity :: string
  dw_Message :: string
  dw_Path :: string
  dw_Span :: SourceSpan

definition diagnostic_row_json :: "diagnostic_row \<Rightarrow> json" where
  "diagnostic_row_json r = JObj [(''Code'', JStr (dw_Code r)), (''Severity'', JStr (dw_Severity r)), (''Message'', JStr (dw_Message r)),
     (''Path'', JStr (dw_Path r)), (''span'', ir_span_json (dw_Span r)), (''evidence'', JObj [(''source'', JStr ''parser'')]),
     (''candidates'', JArr []), (''nextChecks'', JArr [JStr ''inspect source span''])]"

definition diagnostic_selected :: "Options \<Rightarrow> Diagnostic \<Rightarrow> bool" where
  "diagnostic_selected o' d \<longleftrightarrow>
     (op_Path o' = [] \<or> contains (dg_path d) (op_Path o')) \<and> (op_Code o' = [] \<or> dg_code d = op_Code o') \<and>
     (op_Severity o' = [] \<or> equal_fold (severity_str (dg_severity d)) (op_Severity o'))"

definition diagnostic_rows :: "sys \<Rightarrow> Options \<Rightarrow> analysis \<Rightarrow> diagnostic_row list" where
  "diagnostic_rows sy o' a =
     (case a of (ws, sem, _) \<Rightarrow>
        map (\<lambda>d. \<lparr>dw_Code = dg_code d, dw_Severity = severity_str (dg_severity d), dw_Message = dg_message d,
                  dw_Path = displayPath sy (op_Root o') (dg_path d), dw_Span = \<lparr>Start = dg_start d, End = dg_end d\<rparr>\<rparr>)
          (filter (diagnostic_selected o') (wl_Diagnostics ws @ res_Diagnostics sem)))"

definition op_Diagnostics :: "op_env \<Rightarrow> bool \<Rightarrow> Options \<Rightarrow> op_error + Envelope" where
  "op_Diagnostics e cancelled o' =
     op_query ''query.diagnostics'' diagnostic_row_json (diagnostic_rows (oe_sys e) o') (\<lambda>j. j) e cancelled o'"

record symbol_row =
  sw_SemanticKey :: string
  sw_Occurrence :: string
  sw_Kind :: SymbolKind
  sw_Path :: string
  sw_Span :: SourceSpan
  sw_Owner :: string
  sw_Snapshot :: string
  sw_Name :: string

definition symbol_row_json :: "symbol_row \<Rightarrow> json" where
  "symbol_row_json r = JObj ([(''semanticKey'', JStr (sw_SemanticKey r)), (''occurrence'', JStr (sw_Occurrence r)),
     (''kind'', JStr (symbol_kind_str (sw_Kind r))), (''path'', JStr (sw_Path r)), (''span'', ir_span_json (sw_Span r))] @
     omit_empty ''owner'' (sw_Owner r) @ [(''snapshot'', JStr (sw_Snapshot r)), (''name'', JStr (sw_Name r))])"

definition symbol_selected :: "Options \<Rightarrow> IndexedSymbol \<Rightarrow> bool" where
  "symbol_selected o' z \<longleftrightarrow>
     (op_Name o' = [] \<or> contains (to_lower (sym_name (ix_Symbol z))) (to_lower (op_Name o'))) \<and>
     (op_Kind o' = [] \<or> equal_fold (symbol_kind_str (sym_kind (ix_Symbol z))) (op_Kind o'))"

definition symbol_rows :: "Options \<Rightarrow> analysis \<Rightarrow> symbol_row list" where
  "symbol_rows o' a =
     (case a of (_, sem, snap) \<Rightarrow>
        map (\<lambda>z. let s = ix_Symbol z in
               \<lparr>sw_SemanticKey = idn_semantic (sym_identity s), sw_Occurrence = sym_id s, sw_Kind = sym_kind s, sw_Path = ix_Path z,
                sw_Span = sym_span s, sw_Owner = sym_section s, sw_Snapshot = snap, sw_Name = sym_name s\<rparr>)
          (filter (symbol_selected o') (concat (map ie_Symbols (res_Index sem)))))"

definition op_Symbols :: "op_env \<Rightarrow> bool \<Rightarrow> Options \<Rightarrow> op_error + Envelope" where
  "op_Symbols e cancelled o' = op_query ''query.symbols'' symbol_row_json (symbol_rows o') (\<lambda>j. j) e cancelled o'"

definition resolution_json :: "ReferenceResolution \<Rightarrow> json" where
  "resolution_json r = JObj [(''ReferenceID'', JStr (rr_ReferenceID r)), (''ReferenceIdentity'', ir_identity_json (rr_ReferenceIdentity r)),
     (''SourcePath'', JStr (rr_SourcePath r)), (''SourceSymbol'', JStr (rr_SourceSymbol r)), (''TargetSymbolID'', JStr (rr_TargetSymbolID r)),
     (''TargetIdentity'', ir_identity_json (rr_TargetIdentity r)), (''TargetPath'', JStr (rr_TargetPath r)),
     (''Classification'', JStr (classification_str (rr_Classification r))), (''Resolved'', JBool (rr_Resolved r)),
     (''IsDynamic'', JBool (rr_IsDynamic r))]"

definition op_References :: "op_env \<Rightarrow> bool \<Rightarrow> Options \<Rightarrow> op_error + Envelope" where
  "op_References e cancelled o' =
     op_query ''query.references'' resolution_json (\<lambda>(ws, sem, snap). res_References sem) (\<lambda>j. j) e cancelled o'"

record search_hit =
  sh_Path :: string
  sh_Snippet :: string
  sh_Snapshot :: string

definition search_hit_json :: "search_hit \<Rightarrow> json" where
  "search_hit_json h = JObj [(''Path'', JStr (sh_Path h)), (''Snippet'', JStr (sh_Snippet h)), (''Classification'', JStr ''lexical''),
     (''Snapshot'', JStr (sh_Snapshot h)), (''score'', JInt 1)]"

definition path_selected :: "Options \<Rightarrow> Document \<Rightarrow> bool" where
  "path_selected o' d \<longleftrightarrow> op_Path o' = [] \<or> contains (doc_path d) (op_Path o')"

definition search_hits :: "sys \<Rightarrow> Options \<Rightarrow> analysis \<Rightarrow> search_hit list" where
  "search_hits sy o' a =
     (case a of (ws, _, snap) \<Rightarrow>
        concat (map (\<lambda>d. map (\<lambda>l. \<lparr>sh_Path = displayPath sy (op_Root o') (doc_path d), sh_Snippet = trim_space l, sh_Snapshot = snap\<rparr>)
            (filter (\<lambda>l. contains (to_lower l) (to_lower (op_Query o')))
              (split_on (CHR 0x0A) (case sys_read sy (doc_path d) of Some b \<Rightarrow> b | None \<Rightarrow> []))))
          (filter (path_selected o') (wl_Documents ws))))"

definition op_Search :: "op_env \<Rightarrow> bool \<Rightarrow> Options \<Rightarrow> op_error + Envelope" where
  "op_Search e cancelled o' = op_query ''query.search'' search_hit_json (search_hits (oe_sys e) o') (\<lambda>j. j) e cancelled o'"

record document_summary =
  su_Path :: string
  su_Kind :: string
  su_Symbols :: nat
  su_References :: nat
  su_Diagnostics :: nat

definition summary_json :: "document_summary \<Rightarrow> json" where
  "summary_json s = JObj [(''Path'', JStr (su_Path s)), (''Kind'', JStr (su_Kind s)), (''Symbols'', JInt (int (su_Symbols s))),
     (''References'', JInt (int (su_References s))), (''Diagnostics'', JInt (int (su_Diagnostics s)))]"

definition inspected :: "Options \<Rightarrow> Document \<Rightarrow> bool" where
  "inspected o' d \<longleftrightarrow> op_Path o' = [] \<or> path_clean (doc_path d) = path_clean (op_Path o') \<or> has_suffix (doc_path d) (op_Path o')"

definition summaries :: "sys \<Rightarrow> Options \<Rightarrow> analysis \<Rightarrow> document_summary list" where
  "summaries sy o' a =
     (case a of (ws, _, _) \<Rightarrow>
        map (\<lambda>d. \<lparr>su_Path = displayPath sy (op_Root o') (doc_path d), su_Kind = doc_file_type d, su_Symbols = length (doc_symbols d),
                  su_References = length (doc_references d), su_Diagnostics = length (doc_diagnostics d)\<rparr>)
          (filter (inspected o') (wl_Documents ws)))"

definition op_Inspect :: "op_env \<Rightarrow> bool \<Rightarrow> Options \<Rightarrow> op_error + Envelope" where
  "op_Inspect e cancelled o' =
     op_query (''inspect.'' @ op_Kind o') summary_json (summaries (oe_sys e) o')
       (\<lambda>documents. json_map [(''documents'', documents),
          (''entryPoints'', JArr [JStr (displayPath (oe_sys e) (op_Root o') (op_entry (oe_sys e) (op_Root o')))]),
          (''health'', JStr ''ok''), (''budgets'', JObj [(''limit'', JInt (op_Limit o'))])]) e cancelled o'"

text \<open>
  \<^verbatim>\<open>internal/operations/operations.go\<close>, continued: the asset graph and the exports.
\<close>

section \<open>The graph\<close>

definition filterEdges :: "graph_Edge list \<Rightarrow> string \<Rightarrow> bool \<Rightarrow> graph_Edge list" where
  "filterEdges es p reverse = filter (\<lambda>e. if reverse then contains (ge_To e) p else contains (ge_From e) p) es"

text \<open>One pass over the edges, and passes until nothing changes.\<close>

definition path_pass :: "graph_Edge list \<Rightarrow> string list \<Rightarrow> string list" where
  "path_pass es seen = foldl (\<lambda>seen e. if ge_From e \<in> set seen \<and> ge_To e \<notin> set seen then ge_To e # seen else seen) seen es"

lemma path_pass_grows:
  "\<exists>ys. path_pass es seen = ys @ seen \<and> set ys \<subseteq> ge_To ` set es \<and> set ys \<inter> set seen = {}"
proof -
  have "\<exists>ys. path_pass es s = ys @ s \<and> set ys \<subseteq> ge_To ` set es \<and> set ys \<inter> set s = {}" for s
    unfolding path_pass_def
  proof (induction es arbitrary: s)
    case (Cons e es)
    show ?case
    proof (cases "ge_From e \<in> set s \<and> ge_To e \<notin> set s")
      case True
      with Cons [of "ge_To e # s"] obtain ys where "set ys \<subseteq> ge_To ` set es" "set ys \<inter> set (ge_To e # s) = {}"
        "foldl (\<lambda>seen e. if ge_From e \<in> set seen \<and> ge_To e \<notin> set seen then ge_To e # seen else seen) (ge_To e # s) es = ys @ ge_To e # s"
        by blast
      with True show ?thesis by (intro exI [of _ "ys @ [ge_To e]"]) auto
    next
      case False
      then have "foldl (\<lambda>seen e. if ge_From e \<in> set seen \<and> ge_To e \<notin> set seen then ge_To e # seen else seen) s (e # es)
        = foldl (\<lambda>seen e. if ge_From e \<in> set seen \<and> ge_To e \<notin> set seen then ge_To e # seen else seen) s es" by auto
      with Cons [of s] show ?thesis by auto
    qed
  qed simp
  then show ?thesis .
qed

function path_seen :: "graph_Edge list \<Rightarrow> string list \<Rightarrow> string list" where
  "path_seen es seen = (if path_pass es seen = seen then seen else path_seen es (path_pass es seen))"
  by pat_completeness auto
termination
proof (relation "measure (\<lambda>(es, seen). card (ge_To ` set es - set seen))")
  fix es seen
  assume ne: "path_pass es seen \<noteq> seen"
  from path_pass_grows obtain ys where ys: "path_pass es seen = ys @ seen" "set ys \<subseteq> ge_To ` set es" "set ys \<inter> set seen = {}"
    by blast
  with ne obtain y where "y \<in> set ys" by (cases ys) auto
  with ys have "y \<in> ge_To ` set es - set seen" "y \<notin> ge_To ` set es - set (path_pass es seen)" by auto
  moreover have "ge_To ` set es - set (path_pass es seen) \<subseteq> ge_To ` set es - set seen" using ys by auto
  ultimately have "ge_To ` set es - set (path_pass es seen) \<subset> ge_To ` set es - set seen" by blast
  then show "((es, path_pass es seen), es, seen) \<in> measure (\<lambda>(es, seen). card (ge_To ` set es - set seen))"
    by (simp add: psubset_card_mono)
qed simp

declare path_seen.simps [simp del]

definition pathEdges :: "graph_Edge list \<Rightarrow> string \<Rightarrow> graph_Edge list" where
  "pathEdges es p = (let seen = path_seen es [p] in filter (\<lambda>e. ge_From e \<in> set seen \<and> ge_To e \<in> set seen) es)"

definition graph_span_json :: "graph_Span \<Rightarrow> json" where
  "graph_span_json s = JObj [(''path'', JStr (gs_Path s)), (''line'', JInt (int (gs_Line s)))]"

definition graph_node_json :: "graph_Node \<Rightarrow> json" where
  "graph_node_json n = JObj ([(''id'', JStr (gn_ID n)), (''kind'', JStr (graph_kind_str (gn_Kind n)))] @ omit_empty ''authored'' (gn_Authored n) @
     omit_empty ''path'' (gn_Path n) @ [(''status'', JStr (graph_status_str (gn_Status n))), (''span'', graph_span_json (gn_Span n))])"

definition graph_edge_json :: "graph_Edge \<Rightarrow> json" where
  "graph_edge_json e = JObj ([(''from'', JStr (ge_From e)), (''to'', JStr (ge_To e)), (''syntax'', JStr (ge_Syntax e)), (''rule'', JStr (ge_Rule e)),
     (''confidence'', JStr (ge_Confidence e)), (''status'', JStr (graph_status_str (ge_Status e)))] @ omit_empty ''authored'' (ge_Authored e) @
     [(''span'', graph_span_json (ge_Span e))])"

definition graph_diagnostic_json :: "graph_Diagnostic \<Rightarrow> json" where
  "graph_diagnostic_json d = JObj [(''code'', JStr (gd_Code d)), (''message'', JStr (gd_Message d)), (''span'', graph_span_json (gd_Span d))]"

definition displayed_span :: "sys \<Rightarrow> string \<Rightarrow> graph_Span \<Rightarrow> graph_Span" where
  "displayed_span sy root s = s\<lparr>gs_Path := displayPath sy root (gs_Path s)\<rparr>"

definition displayed_graph :: "sys \<Rightarrow> string \<Rightarrow> graph \<Rightarrow> graph" where
  "displayed_graph sy root g =
     \<lparr>gr_Nodes = map (\<lambda>n. n\<lparr>gn_Path := displayPath sy root (gn_Path n), gn_Span := displayed_span sy root (gn_Span n)\<rparr>) (gr_Nodes g),
      gr_Edges = map (\<lambda>e. e\<lparr>ge_Span := displayed_span sy root (ge_Span e)\<rparr>) (gr_Edges g),
      gr_Diagnostics = map (\<lambda>d. d\<lparr>gd_Span := displayed_span sy root (gd_Span d)\<rparr>) (gr_Diagnostics g)\<rparr>"

text \<open>The edges asked for, and whether the slice is not \<^verbatim>\<open>nil\<close> although it may be empty.\<close>

definition selected_edges :: "Options \<Rightarrow> graph_Edge list \<Rightarrow> graph_Edge list \<times> bool" where
  "selected_edges o' es =
     (if op_Kind o' = ''dependencies'' \<and> op_Path o' \<noteq> [] then (filterEdges es (op_Path o') False, True)
      else if op_Kind o' = ''dependents'' \<and> op_Path o' \<noteq> [] then (filterEdges es (op_Path o') True, True)
      else if op_Kind o' = ''path'' \<and> op_Path o' \<noteq> [] then (pathEdges es (op_Path o'), True)
      else (es, False))"

definition op_Graph :: "op_env \<Rightarrow> bool \<Rightarrow> Options \<Rightarrow> op_error + Envelope" where
  "op_Graph e cancelled o' =
     (case op_Analyze e cancelled o' of
        Inl err \<Rightarrow> Inl err
      | Inr a \<Rightarrow>
          (let select = op_entry (oe_sys e) (op_Root o') in
           case graph_Build (oe_sys e) (path_dir select) select of
             Inl err \<Rightarrow> Inl (OpGraphFailed err)
           | Inr g0 \<Rightarrow>
               (let g = displayed_graph (oe_sys e) (op_Root o') g0 in
                case selected_edges o' (gr_Edges g) of (edges, kept) \<Rightarrow>
                  case paginate graph_edge_json edges o' of
                    None \<Rightarrow> Inl SlicePanic
                  | Some (items, page, trunc) \<Rightarrow>
                      Inr (op_envelope (''graph.'' @ op_Kind o') a
                        (json_map [(''edges'', if kept then JArr (map graph_edge_json items) else rows_json graph_edge_json edges items),
                           (''nodes'', json_slice graph_node_json (gr_Nodes g)),
                           (''diagnostics'', json_slice graph_diagnostic_json (gr_Diagnostics g)), (''classification'', JStr ''static'')])
                        page trunc))))"

section \<open>Exports\<close>

definition exportRoot :: "sys \<Rightarrow> string \<Rightarrow> string" where
  "exportRoot sy root =
     (case abs_path (sys_cwd sy) root of
        None \<Rightarrow> root
      | Some a \<Rightarrow> (case sys_stat sy a of Some st \<Rightarrow> if fi_dir st then a else path_dir a | None \<Rightarrow> a))"

definition normalizeExportPath :: "sys \<Rightarrow> string \<Rightarrow> string \<Rightarrow> string" where
  "normalizeExportPath sy root path =
     (if trim_space path = [] then [] else relative_or_base sy (abs_path (sys_cwd sy) (exportRoot sy root)) path)"

definition normalizeExportWorkspace :: "sys \<Rightarrow> string \<Rightarrow> workspace_LoadResult \<Rightarrow> workspace_LoadResult" where
  "normalizeExportWorkspace sy root ws =
     ws\<lparr>wl_Documents := map (\<lambda>d. let p = normalizeExportPath sy root (doc_path d) in
            d\<lparr>doc_path := p, doc_diagnostics := map (\<lambda>g. g\<lparr>dg_path := p\<rparr>) (doc_diagnostics d)\<rparr>) (wl_Documents ws),
        wl_Diagnostics := map (\<lambda>g. g\<lparr>dg_path := normalizeExportPath sy root (dg_path g)\<rparr>) (wl_Diagnostics ws)\<rparr>"

definition normalizeExportSemantics :: "sys \<Rightarrow> string \<Rightarrow> ResolveResult \<Rightarrow> ResolveResult" where
  "normalizeExportSemantics sy root sem =
     sem\<lparr>res_References := map (\<lambda>r. r\<lparr>rr_SourcePath := normalizeExportPath sy root (rr_SourcePath r),
       rr_TargetPath := normalizeExportPath sy root (rr_TargetPath r)\<rparr>) (res_References sem)\<rparr>"

text \<open>\<^verbatim>\<open>strings.ReplaceAll(s, old, "")\<close> for a text \<open>old\<close> that is not empty.\<close>

function erase_all :: "string \<Rightarrow> string \<Rightarrow> string" where
  "erase_all old s =
     (case (if old = [] then None else index_of s old) of
        None \<Rightarrow> s
      | Some i \<Rightarrow> take i s @ erase_all old (drop (i + length old) s))"
  by pat_completeness auto
termination
proof (relation "measure (\<lambda>(old, s). length s)")
  fix old s i
  assume "(if old = [] then None else index_of s old) = Some i"
  then have "old \<noteq> []" "i + length old \<le> length s" using index_of_bound by (auto split: if_splits)
  then show "((old, drop (i + length old) s), old, s) \<in> measure (\<lambda>(old, s). length s)" by (cases old) auto
qed simp

declare erase_all.simps [simp del]

definition root_ends :: "string" where
  "root_ends = [slash, CHR 0x5C, CHR 0x22, CHR 0x27] @ '' ,;:)]}'' @ [CHR 0x0D, CHR 0x0A]"

text \<open>The root itself, up to the first place where a longer name begins with it.\<close>

function erase_root :: "string \<Rightarrow> string \<Rightarrow> string" where
  "erase_root v s =
     (case (if v = [] then None else index_of s v) of
        None \<Rightarrow> s
      | Some i \<Rightarrow>
          (let rest = drop (i + length v) s in
           if rest = [] \<or> hd rest \<in> set root_ends then erase_root v (take i s @ rest) else s))"
  by pat_completeness auto
termination
proof (relation "measure (\<lambda>(v, s). length s)")
  fix v s i rest
  assume "(if v = [] then None else index_of s v) = Some i" "rest = drop (i + length v) s"
  then have "v \<noteq> []" "i + length v \<le> length s" "rest = drop (i + length v) s" using index_of_bound by (auto split: if_splits)
  then show "((v, take i s @ rest), v, s) \<in> measure (\<lambda>(v, s). length s)" by (cases v) auto
qed simp

declare erase_root.simps [simp del]

definition erase_variant :: "string \<Rightarrow> string \<Rightarrow> string" where
  "erase_variant content v =
     erase_root v (erase_all (v @ [CHR 0x5C]) (erase_all (v @ ''/'') (erase_all (v @ ''/'') content)))"

definition sanitizeExportContent :: "sys \<Rightarrow> string \<Rightarrow> string \<Rightarrow> string" where
  "sanitizeExportContent sy root content =
     (case abs_path (sys_cwd sy) (exportRoot sy root) of
        None \<Rightarrow> content
      | Some a \<Rightarrow> foldl erase_variant content
          [a, a, replace_byte a (CHR 0x5C) ''/'', replace_byte a slash [CHR 0x5C]])"

definition file_line :: "string \<Rightarrow> Document \<Rightarrow> json" where
  "file_line snap d = json_map [(''type'', JStr ''file''), (''snapshot'', JStr snap), (''path'', JStr (doc_path d)), (''fileType'', JStr (doc_file_type d))]"

definition symbol_line :: "string \<Rightarrow> Document \<Rightarrow> Symbol \<Rightarrow> json" where
  "symbol_line snap d x = json_map [(''type'', JStr ''symbol''), (''snapshot'', JStr snap), (''path'', JStr (doc_path d)), (''symbol'', ir_symbol_json x)]"

definition export_records :: "string \<Rightarrow> Document list \<Rightarrow> json list" where
  "export_records snap docs = concat (map (\<lambda>d. file_line snap d # map (symbol_line snap d) (doc_symbols d)) docs)"

definition export_text :: "string \<Rightarrow> analysis \<Rightarrow> string" where
  "export_text kind a =
     (case a of (ws, sem, snap) \<Rightarrow>
        if kind = ''sql'' then Export \<lparr>ws_Documents = wl_Documents ws, ws_Diagnostics = wl_Diagnostics ws\<rparr> sem
        else if kind = ''scip'' then scip_Export (wl_Documents ws)
        else json_lines (export_records snap (wl_Documents ws)))"

definition newline_count :: "string \<Rightarrow> nat" where
  "newline_count s = length (filter (\<lambda>c. c = CHR 0x0A) s)"

definition op_Export :: "op_env \<Rightarrow> bool \<Rightarrow> Options \<Rightarrow> string \<Rightarrow> op_error + Envelope" where
  "op_Export e cancelled o' kind =
     (case op_Analyze e cancelled o' of
        Inl err \<Rightarrow> Inl err
      | Inr (ws, sem, snap) \<Rightarrow>
          (let sy = oe_sys e;
               a = (normalizeExportWorkspace sy (op_Root o') ws, normalizeExportSemantics sy (op_Root o') sem, snap);
               content = sanitizeExportContent sy (op_Root o') (export_text kind a); n = int (newline_count content)
           in Inr (op_envelope (''export.'' @ kind) a
                (json_map [(''format'', JStr kind), (''records'', JInt n), (''content'', JStr content)])
                \<lparr>pa_Limit = 0, pa_Returned = n, pa_NextCursor = []\<rparr> \<lparr>tr_Truncated = False, tr_Reasons = []\<rparr>)))"

text \<open>\<^verbatim>\<open>WriteJSON\<close> into a buffer.\<close>

definition op_WriteJSON :: "Envelope \<Rightarrow> string" where
  "op_WriteJSON envelope = fst (CanonicalJSON envelope) @ [CHR 0x0A]"

end
