(* ===== verification/Operations_Claims.thy ===== *)
theory Operations_Claims
  imports Operations
begin

text \<open>
  What a client of the operations can rely on: following the cursors shows every row once, and the path query
  answers with the part of the graph that can be reached.
\<close>

section \<open>Cursors\<close>

lemma digit_not_space: "is_digit c \<Longrightarrow> ws_head (c # s) = 0"
  by (auto simp: is_digit_def ws_head_def ascii_space_def ws2_def ws3_def split: list.splits)

lemma scan_decimal_itoa:
  assumes "0 \<le> n" "n \<le> int64_max"
  shows "scan_decimal (itoa n) = Some n"
proof -
  obtain c cs where d: "nat_digits (nat n) = c # cs" by (cases "nat_digits (nat n)") auto
  have all: "list_all is_digit (c # cs)" using nat_digits_all [of "nat n"] d by simp
  then have c: "is_digit c" "c \<noteq> CHR ''-''" "c \<noteq> CHR ''+''" by auto
  have tw: "takeWhile is_digit cs = cs" using all by (simp add: takeWhile_eq_all_conv list_all_iff)
  have "trim_left_space (c # cs) = c # cs" using digit_not_space [OF c(1)] by (simp add: trim_left_space_def)
  moreover have "itoa n = c # cs" using assms d by (simp add: itoa_def)
  moreover have "atoi (c # cs) = Some n" using atoi_itoa [of n] assms calculation(2) by (simp add: int64_min_def)
  ultimately show ?thesis using c by (simp add: scan_decimal_def Let_def tw)
qed

fun follow_pages :: "nat \<Rightarrow> ('a \<Rightarrow> json) \<Rightarrow> 'a list \<Rightarrow> Options \<Rightarrow> 'a list list option" where
  "follow_pages 0 f v o' = None"
| "follow_pages (Suc n) f v o' =
     (case paginate f v o' of
        None \<Rightarrow> None
      | Some (items, page, trunc) \<Rightarrow>
          if pa_NextCursor page = [] then Some [items]
          else map_option ((#) items) (follow_pages n f v (o'\<lparr>op_Cursor := pa_NextCursor page\<rparr>)))"

lemma itoa_nonempty: "itoa i \<noteq> []"
  by (simp add: itoa_def)

lemma paginate_at:
  assumes "page_start (op_Cursor o') (int (length v)) = int s" and "int (length v) + page_limit (op_Limit o') \<le> int64_max"
  shows "\<exists>page trunc. paginate f v o' = Some (take (nat (page_limit (op_Limit o'))) (drop s (sort_by (json_less f) v)), page, trunc) \<and>
    pa_NextCursor page = (if int s + page_limit (op_Limit o') < int (length v) then itoa (int s + page_limit (op_Limit o')) else [])"
proof -
  let ?lim = "page_limit (op_Limit o')" and ?w = "sort_by (json_less f) v"
  have lim: "0 < ?lim" by (simp add: page_limit_def)
  have s: "int s \<le> int (length v)" using assms(1) unfolding page_start_def Let_def by linarith
  then have "wrap64 (int s + ?lim) = int s + ?lim" using assms(2) lim by (intro wrap64_id) auto
  moreover have "take (nat (min (int s + ?lim) (int (length v)) - int s)) (drop s ?w) = take (nat ?lim) (drop s ?w)"
  proof (cases "int s + ?lim \<le> int (length v)")
    case False
    then have "nat (min (int s + ?lim) (int (length v)) - int s) = length (drop s ?w)" "length (drop s ?w) \<le> nat ?lim"
      using s by auto
    then show ?thesis by simp
  qed simp
  ultimately show ?thesis using assms s lim by (simp add: paginate_def Let_def)
qed

lemma follow_from:
  assumes "int (length v) + page_limit (op_Limit o') \<le> int64_max"
  shows "page_start (op_Cursor o') (int (length v)) = int s \<Longrightarrow> length v - s < n \<Longrightarrow>
    \<exists>pages. follow_pages n f v o' = Some pages \<and> concat pages = drop s (sort_by (json_less f) v) \<and> pages \<noteq> [] \<and>
      list_all (\<lambda>p. int (length p) = page_limit (op_Limit o')) (butlast pages) \<and> int (length (last pages)) \<le> page_limit (op_Limit o')"
  using assms
proof (induction n arbitrary: o' s)
  case (Suc n)
  let ?lim = "page_limit (op_Limit o')" and ?w = "sort_by (json_less f) v"
  have lim: "0 < ?lim" by (simp add: page_limit_def)
  obtain page trunc where p: "paginate f v o' = Some (take (nat ?lim) (drop s ?w), page, trunc)"
    "pa_NextCursor page = (if int s + ?lim < int (length v) then itoa (int s + ?lim) else [])"
    using paginate_at [OF Suc.prems(1,3)] by blast
  show ?case
  proof (cases "int s + ?lim < int (length v)")
    case True
    let ?o = "o'\<lparr>op_Cursor := itoa (int s + ?lim)\<rparr>" and ?s = "s + nat ?lim"
    have "scan_decimal (itoa (int s + ?lim)) = Some (int s + ?lim)" using True lim Suc.prems(3) by (intro scan_decimal_itoa) auto
    then have "page_start (op_Cursor ?o) (int (length v)) = int ?s" using True lim by (simp add: page_start_def itoa_nonempty)
    moreover have "length v - ?s < n" using Suc.prems(2) True lim by linarith
    ultimately obtain pages where "follow_pages n f v ?o = Some pages" "concat pages = drop ?s ?w" "pages \<noteq> []"
      "list_all (\<lambda>p. int (length p) = ?lim) (butlast pages)" "int (length (last pages)) \<le> ?lim"
      using Suc.IH [of ?o ?s] Suc.prems(3) by auto
    moreover have "take (nat ?lim) (drop s ?w) @ drop ?s ?w = drop s ?w" by (metis append_take_drop_id drop_drop add.commute)
    moreover have "int (length (take (nat ?lim) (drop s ?w))) = ?lim" using True lim by simp
    ultimately show ?thesis using p True by (simp add: itoa_nonempty)
  next
    case False
    then have "take (nat ?lim) (drop s ?w) = drop s ?w" using lim by simp
    moreover have "int (length (drop s ?w)) \<le> ?lim" using False lim by simp
    ultimately show ?thesis using p False by simp
  qed
qed simp

text \<open>C27: Starting without a cursor and following the next cursor of each page shows every row exactly once, in order;
  every page but the last is full, and the last page has no cursor.\<close>

theorem pages_cover_once:
  assumes "op_Cursor o' = []" and "int (length v) + page_limit (op_Limit o') \<le> int64_max"
  shows "\<exists>pages. follow_pages (Suc (length v)) f v o' = Some pages \<and> concat pages = sort_by (json_less f) v \<and>
    list_all (\<lambda>p. int (length p) = page_limit (op_Limit o')) (butlast pages) \<and> int (length (last pages)) \<le> page_limit (op_Limit o')"
proof -
  have "page_start (op_Cursor o') (int (length v)) = int 0" using assms(1) by (simp add: page_start_def)
  from follow_from [OF assms(2) this, of "Suc (length v)" f] show ?thesis by auto
qed

definition demo_options :: "int \<Rightarrow> string \<Rightarrow> Options" where
  "demo_options lim cursor = \<lparr>op_Root = ''ws'', op_Profile = [], op_Path = [], op_Name = [], op_Kind = [], op_Code = [], op_Severity = [],
     op_Query = [], op_Cursor = cursor, op_Limit = lim, op_IncludeDeclarations = False\<rparr>"

theorem pages_cover_once_witness:
  "\<exists>pages. follow_pages 4 JStr [''b'', ''c'', ''a''] (demo_options 2 []) = Some pages \<and>
     concat pages = sort_by (json_less JStr) [''b'', ''c'', ''a'']"
  using pages_cover_once [of "demo_options 2 []" "[''b'', ''c'', ''a'']" JStr]
  by (auto simp: demo_options_def page_limit_def int64_max_def numeral_eq_Suc)

text \<open>A limit near the largest integer: the end of the page overflows and slicing panics.\<close>

lemma huge_limit_panics:
  "int (length v) = n \<Longrightarrow> 1 \<le> n \<Longrightarrow> paginate f v (demo_options int64_max ''1'') = None"
proof -
  assume n: "int (length v) = n" "1 \<le> n"
  have "scan_decimal ''1'' = Some 1" by code_simp
  then have "page_start ''1'' n = 1" using n by (simp add: page_start_def)
  moreover have "wrap64 (1 + int64_max) = - (2 ^ 63)" by (simp add: wrap64_def int64_max_def)
  ultimately show ?thesis using n by (simp add: paginate_def demo_options_def page_limit_def int64_max_def Let_def)
qed

text \<open>No rows are written as \<^verbatim>\<open>null\<close>, while a page after the last row is an empty array.\<close>

lemma no_rows_are_null: "rows_json f [] [] = JNull" and "v \<noteq> [] \<Longrightarrow> rows_json f v [] = JArr []"
  by (simp_all add: rows_json_def)

section \<open>Reachability\<close>

definition graph_step :: "graph_Edge list \<Rightarrow> (string \<times> string) set" where
  "graph_step es = (\<lambda>e. (ge_From e, ge_To e)) ` set es"

lemma pass_reachable: "x \<in> set (path_pass es seen) \<Longrightarrow> \<exists>p \<in> set seen. (p, x) \<in> (graph_step es)\<^sup>*"
proof -
  have "set ds \<subseteq> set es \<Longrightarrow> \<forall>x \<in> set s. \<exists>p \<in> set seen. (p, x) \<in> (graph_step es)\<^sup>* \<Longrightarrow>
    x \<in> set (path_pass ds s) \<Longrightarrow> \<exists>p \<in> set seen. (p, x) \<in> (graph_step es)\<^sup>*" for ds s x
    unfolding path_pass_def
  proof (induction ds arbitrary: s)
    case (Cons e ds)
    have st: "(ge_From e, ge_To e) \<in> graph_step es" using Cons.prems(1) by (auto simp: graph_step_def)
    show ?case
    proof (cases "ge_From e \<in> set s \<and> ge_To e \<notin> set s")
      case True
      then obtain p where "p \<in> set seen" "(p, ge_To e) \<in> (graph_step es)\<^sup>*"
        using Cons.prems(2) st by (meson rtrancl.rtrancl_into_rtrancl)
      with Cons.IH [of "ge_To e # s"] Cons.prems True show ?thesis by auto
    next
      case False
      with Cons.IH [of s] Cons.prems show ?thesis by (auto split: if_splits)
    qed
  qed simp
  from this [of es seen x] show "x \<in> set (path_pass es seen) \<Longrightarrow> \<exists>p \<in> set seen. (p, x) \<in> (graph_step es)\<^sup>*" by auto
qed

lemma pass_closed: "path_pass es s = s \<Longrightarrow> e \<in> set es \<Longrightarrow> ge_From e \<in> set s \<Longrightarrow> ge_To e \<in> set s"
proof (induction es)
  case (Cons d es)
  have "\<not> (ge_From d \<in> set s \<and> ge_To d \<notin> set s)"
  proof
    assume d: "ge_From d \<in> set s \<and> ge_To d \<notin> set s"
    then have "path_pass (d # es) s = path_pass es (ge_To d # s)" by (simp add: path_pass_def)
    with path_pass_grows [of es "ge_To d # s"] Cons.prems(1) obtain ys where "s = ys @ ge_To d # s" by auto
    then have "length s = length (ys @ ge_To d # s)" by (rule arg_cong)
    then show False by simp
  qed
  moreover from this have "path_pass (d # es) s = path_pass es s" by (auto simp: path_pass_def)
  ultimately show ?case using Cons by auto
qed simp

lemma seen_reachable: "x \<in> set (path_seen es seen) \<longleftrightarrow> (\<exists>p \<in> set seen. (p, x) \<in> (graph_step es)\<^sup>*)"
proof (induction es seen rule: path_seen.induct)
  case (1 es seen)
  show ?case
  proof (cases "path_pass es seen = seen")
    case True
    have "(p, x) \<in> (graph_step es)\<^sup>* \<Longrightarrow> p \<in> set seen \<Longrightarrow> x \<in> set seen" for p
    proof (induction rule: rtrancl_induct)
      case (step y z)
      then show ?case using pass_closed [OF True] by (auto simp: graph_step_def)
    qed simp
    with True show ?thesis by (subst path_seen.simps) auto
  next
    case False
    obtain ys where "path_pass es seen = ys @ seen" using path_pass_grows by blast
    then have "set seen \<subseteq> set (path_pass es seen)" by auto
    moreover have "x \<in> set (path_seen es seen) \<longleftrightarrow> (\<exists>p \<in> set (path_pass es seen). (p, x) \<in> (graph_step es)\<^sup>*)"
      using 1 [OF False] False by (subst path_seen.simps) simp
    ultimately show ?thesis using pass_reachable by (meson rtrancl_trans subsetD)
  qed
qed

text \<open>C28: The path query keeps exactly the edges on a path from the node asked for, in their order: those whose source
  can be reached from it.\<close>

theorem path_edges_reachable: "pathEdges es p = filter (\<lambda>e. (p, ge_From e) \<in> (graph_step es)\<^sup>*) es"
proof -
  have "(p, ge_From e) \<in> (graph_step es)\<^sup>* \<Longrightarrow> (p, ge_To e) \<in> (graph_step es)\<^sup>*" if "e \<in> set es" for e
  proof -
    have "(ge_From e, ge_To e) \<in> graph_step es" using that by (auto simp: graph_step_def)
    then show "(p, ge_From e) \<in> (graph_step es)\<^sup>* \<Longrightarrow> (p, ge_To e) \<in> (graph_step es)\<^sup>*" by (rule rtrancl.rtrancl_into_rtrancl [rotated])
  qed
  then show ?thesis
    unfolding pathEdges_def Let_def by (intro filter_cong) (auto simp: seen_reachable)
qed

section \<open>Paths shown\<close>

lemma rel_or_base_relative:
  assumes "path_base path \<noteq> ''/''"
  shows "\<not> is_abs (relative_or_base sy root path)"
proof -
  have "\<not> is_abs (path_base path)"
  proof -
    have "slash \<notin> set (after_last_slash s)" for s
      using set_takeWhileD by (fastforce simp: after_last_slash_def)
    moreover have "take (Suc 0) r = [slash] \<Longrightarrow> slash \<in> set r" for r by (cases r) auto
    ultimately show ?thesis using assms by (auto simp: path_base_def Let_def is_abs_def has_prefix_def split: if_splits)
  qed
  then show ?thesis by (auto simp: relative_or_base_def split: option.splits)
qed

text \<open>No path shown is absolute; but the rows of the symbol query hold the path as it is.\<close>

lemma display_path_relative: "path_base path \<noteq> ''/'' \<Longrightarrow> \<not> is_abs (displayPath sy root path)"
  using rel_or_base_relative by (auto simp: displayPath_def is_abs_def)

lemma symbol_rows_show_paths:
  "symbol_rows (demo_options 0 []) (ws, sem, snap) \<noteq> [] \<Longrightarrow>
   map sw_Path (symbol_rows (demo_options 0 []) (ws, sem, snap)) = map ix_Path (concat (map ie_Symbols (res_Index sem)))"
  by (simp add: symbol_rows_def demo_options_def symbol_selected_def comp_def Let_def)

text \<open>Two files whose paths differ in case only are one document.\<close>

lemma case_differing_documents_merge:
  "to_lower (path_clean (doc_path d)) = to_lower (path_clean (doc_path d')) \<Longrightarrow> first_by op_document_key [] [d, d'] = [d]"
  by (simp add: op_document_key_def)

text \<open>The contents of the documents do not enter the identity of a snapshot.\<close>

lemma snapshot_without_contents:
  "map doc_path ds = map doc_path ds' \<Longrightarrow> map doc_version ds = map doc_version ds' \<Longrightarrow>
   map (\<lambda>d. map sym_id (doc_symbols d)) ds = map (\<lambda>d. map sym_id (doc_symbols d)) ds' \<Longrightarrow> snapshot_text ds = snapshot_text ds'"
proof (induction ds arbitrary: ds')
  case (Cons d ds)
  then obtain e es where "ds' = e # es" by (cases ds') auto
  with Cons show ?case by (simp add: snapshot_text_def)
qed (simp add: snapshot_text_def)

text \<open>A longer name that begins with the root hides a later occurrence of the root itself.\<close>

lemma later_root_kept: "erase_variant ''/wsx /ws'' ''/ws'' = ''/wsx /ws''"
  by code_simp

text \<open>The graph of a relative root is looked for under the root twice.\<close>

lemma relative_root_doubled:
  assumes "sys_cwd sy = Some ''/c''" and "sys_read sy ''/c/ws/ws/select.def'' = None"
  shows "graph_Build sy (path_dir ''ws/select.def'') ''ws/select.def'' = Inl (SelectUnreadable ''/c/ws/ws/select.def'')"
proof -
  have "path_dir ''ws/select.def'' = ''ws''" "\<not> is_abs ''ws''" "path_join [''/c'', ''ws''] = ''/c/ws''" "\<not> is_abs ''ws/select.def''"
    "path_clean (path_join [''/c/ws'', ''ws/select.def'']) = ''/c/ws/ws/select.def''"
    by code_simp+
  then show ?thesis using assms by (simp add: graph_Build_def abs_path_def Let_def del: path_join.simps)
qed

end
