(* ===== verification/Report.thy ===== *)
theory Report
  imports Ir_Json Workspace_Load Semantics
begin

text \<open>
  \<^verbatim>\<open>internal/report/report.go\<close>: diagnostics as JSON and as text. The two results a report is made from are
  those of \<^verbatim>\<open>workspace\<close> and \<^verbatim>\<open>semantics\<close>; a report is the list of its diagnostics.
\<close>

record Report =
  rp_Diagnostics :: "Diagnostic list"

definition report_less :: "Diagnostic \<Rightarrow> Diagnostic \<Rightarrow> bool" where
  "report_less l r =
     (if dg_path l \<noteq> dg_path r then dg_path l < dg_path r
      else if Line (dg_start l) \<noteq> Line (dg_start r) then Line (dg_start l) < Line (dg_start r)
      else if Column (dg_start l) \<noteq> Column (dg_start r) then Column (dg_start l) < Column (dg_start r)
      else if Line (dg_end l) \<noteq> Line (dg_end r) then Line (dg_end l) < Line (dg_end r)
      else if Column (dg_end l) \<noteq> Column (dg_end r) then Column (dg_end l) < Column (dg_end r)
      else if dg_code l \<noteq> dg_code r then dg_code l < dg_code r
      else if dg_severity l \<noteq> dg_severity r then severity_str (dg_severity l) < severity_str (dg_severity r)
      else if dg_related l \<noteq> dg_related r then dg_related l < dg_related r
      else if dg_message l \<noteq> dg_message r then dg_message l < dg_message r
      else False)"

definition normalizeDiagnostics :: "Diagnostic list \<Rightarrow> Diagnostic list" where
  "normalizeDiagnostics ds = sort_by report_less ds"

definition cloneAndSort :: "Diagnostic list \<Rightarrow> Diagnostic list" where
  "cloneAndSort ds = normalizeDiagnostics ds"

definition NewFromDiagnostics :: "Diagnostic list \<Rightarrow> Report" where
  "NewFromDiagnostics ds = \<lparr>rp_Diagnostics = normalizeDiagnostics ds\<rparr>"

definition NewFromWorkspace :: "workspace_LoadResult \<Rightarrow> Report" where
  "NewFromWorkspace result = NewFromDiagnostics (wl_Diagnostics result)"

definition NewFromSemantics :: "ResolveResult \<Rightarrow> Report" where
  "NewFromSemantics result = NewFromDiagnostics (res_Diagnostics result)"

definition NewFromWorkspaceAndSemantics :: "workspace_LoadResult \<Rightarrow> ResolveResult \<Rightarrow> Report" where
  "NewFromWorkspaceAndSemantics w s = NewFromDiagnostics (wl_Diagnostics w @ res_Diagnostics s)"

text \<open>The slice is made empty when it is \<^verbatim>\<open>nil\<close>, so the array is never \<^verbatim>\<open>null\<close>.\<close>

definition report_JSON :: "Report \<Rightarrow> string" where
  "report_JSON r = json_encode (JObj [(''diagnostics'', JArr (map ir_diagnostic_json (cloneAndSort (rp_Diagnostics r))))])"

definition formatDiagnosticLine :: "Diagnostic \<Rightarrow> string" where
  "formatDiagnosticLine d =
     (let related = (if dg_related d \<noteq> [] then '' ['' @ dg_related d @ '']'' else []) in
      dg_path d @ '':'' @ itoa (Line (dg_start d)) @ '':'' @ itoa (Column (dg_start d)) @ ''-'' @ itoa (Line (dg_end d)) @ '':'' @
      itoa (Column (dg_end d)) @ '' ['' @ severity_str (dg_severity d) @ ''] '' @ dg_code d @ '': '' @ dg_message d @ related)"

definition Human :: "Report \<Rightarrow> string" where
  "Human r =
     (let ds = cloneAndSort (rp_Diagnostics r) in
      if ds = [] then ''No diagnostics.'' else join_with [CHR 0x0A] (map formatDiagnosticLine ds))"

definition JSONFromDiagnostics :: "Diagnostic list \<Rightarrow> string" where
  "JSONFromDiagnostics ds = report_JSON (NewFromDiagnostics ds)"

definition HumanFromDiagnostics :: "Diagnostic list \<Rightarrow> string" where
  "HumanFromDiagnostics ds = Human (NewFromDiagnostics ds)"

definition JSONFromWorkspaceAndSemantics :: "workspace_LoadResult \<Rightarrow> ResolveResult \<Rightarrow> string" where
  "JSONFromWorkspaceAndSemantics w s = report_JSON (NewFromWorkspaceAndSemantics w s)"

definition HumanFromWorkspaceAndSemantics :: "workspace_LoadResult \<Rightarrow> ResolveResult \<Rightarrow> string" where
  "HumanFromWorkspaceAndSemantics w s = Human (NewFromWorkspaceAndSemantics w s)"

section \<open>The order of the diagnostics does not show\<close>

definition report_key :: "Diagnostic \<Rightarrow> _" where
  "report_key d = (dg_path d, Line (dg_start d), Column (dg_start d), Line (dg_end d), Column (dg_end d), dg_code d,
     severity_str (dg_severity d), dg_related d, dg_message d)"

lemma report_less_key: "report_less a b \<longleftrightarrow> report_key a < report_key b"
proof -
  have "dg_severity a = dg_severity b \<longleftrightarrow> severity_str (dg_severity a) = severity_str (dg_severity b)"
    using severity_str_inj [of "dg_severity a" "dg_severity b"] by auto
  then show ?thesis unfolding report_less_def report_key_def pair_less_if by simp
qed

lemma report_key_inj: "report_key a = report_key b \<Longrightarrow> a = b"
  using severity_str_inj [of "dg_severity a" "dg_severity b"]
  by (auto simp: report_key_def intro!: Diagnostic.equality SourcePosition.equality)

interpretation report_order: weak_order report_less
  by (rule weak_order_by_key [of _ report_key]) (rule report_less_key)

lemma report_sorted_once [simp]: "cloneAndSort (normalizeDiagnostics ds) = normalizeDiagnostics ds"
  by (simp add: cloneAndSort_def normalizeDiagnostics_def)

lemma normalize_diagnostics_order: "mset ds = mset ds' \<Longrightarrow> normalizeDiagnostics ds = normalizeDiagnostics ds'"
  unfolding normalizeDiagnostics_def
  by (rule report_order.sort_by_perm) (auto simp: report_less_key intro: report_key_inj)

lemma report_reads_back:
  "json_unmarshal (JSONFromDiagnostics ds) =
     Some (json_repair (JObj [(''diagnostics'', JArr (map ir_diagnostic_json (normalizeDiagnostics ds)))]))"
proof -
  have "json_ints (JObj [(''diagnostics'', JArr (map ir_diagnostic_json (normalizeDiagnostics ds)))])" by (simp add: list_all_iff)
  from json_unmarshal_encode [OF this] show ?thesis
    by (simp only: JSONFromDiagnostics_def report_JSON_def NewFromDiagnostics_def Report.select_convs report_sorted_once)
qed

text \<open>A report does not depend on the order in which the diagnostics of the workspace and of the resolution were
  found, neither as JSON nor as text, and its JSON reads back to all of them, sorted.\<close>

lemma report_order_independent:
  assumes "mset (wl_Diagnostics w @ res_Diagnostics s) = mset ds"
  shows "JSONFromWorkspaceAndSemantics w s = JSONFromDiagnostics ds \<and> HumanFromWorkspaceAndSemantics w s = HumanFromDiagnostics ds \<and>
    mset (normalizeDiagnostics ds) = mset ds \<and> sorted_wrt (\<lambda>a b. \<not> report_less b a) (normalizeDiagnostics ds)"
  using normalize_diagnostics_order [OF assms] report_order.sorted_sort_by [of ds]
  by (simp add: JSONFromWorkspaceAndSemantics_def NewFromWorkspaceAndSemantics_def NewFromDiagnostics_def JSONFromDiagnostics_def
      HumanFromWorkspaceAndSemantics_def HumanFromDiagnostics_def normalizeDiagnostics_def)

end
