(* ===== verification/Provenance.thy ===== *)
theory Provenance
  imports Go_Any
begin

text \<open>
  \<^verbatim>\<open>internal/provenance/provenance.go\<close> and \<^verbatim>\<open>internal/compat/matrix.go\<close>: how sure an answer is, and which rules of
  the compatibility matrix may be relied on. The keys of a map come in any order; they are sorted afterwards.
\<close>

section \<open>Provenance\<close>

datatype Class = ClassExact | ClassInferred | ClassLexical | ClassAmbiguous | ClassUnresolved | ClassUnsupported | ClassOther string

datatype Completeness = CompletenessComplete | CompletenessPartial | CompletenessUnavailable | CompletenessOther string

record Evidence =
  ev_ID :: string
  ev_Path :: string
  ev_Line :: int
  ev_Syntax :: string
  ev_Rule :: string

record provenance_Result =
  pr_Class :: Class
  pr_Confidence :: string
  pr_Completeness :: Completeness
  pr_Evidence :: "Evidence list"
  pr_Explanation :: "string list"
  pr_AmbiguityGroup :: string
  pr_Refusal :: string

record provenance_Policy =
  pp_Include :: "(Class \<Rightarrow> bool) option"
  pp_Minimum :: Class

definition uniqueSorted :: "string list \<Rightarrow> string list" where
  "uniqueSorted xs = sort_strings (remdups (filter (\<lambda>v. trim_space v \<noteq> []) xs))"

definition evidence_less :: "Evidence \<Rightarrow> Evidence \<Rightarrow> bool" where
  "evidence_less a b = (if ev_ID a \<noteq> ev_ID b then ev_ID a < ev_ID b else ev_Path a < ev_Path b)"

definition provenance_Normalize :: "provenance_Result \<Rightarrow> provenance_Result" where
  "provenance_Normalize r =
     r\<lparr>pr_Evidence := sort_by evidence_less (pr_Evidence r), pr_Explanation := uniqueSorted (pr_Explanation r)\<rparr>"

definition ActionSafe :: "provenance_Result \<Rightarrow> bool" where
  "ActionSafe r \<longleftrightarrow> pr_Class r = ClassExact \<and> pr_Completeness r = CompletenessComplete"

fun class_rank :: "Class \<Rightarrow> int" where
  "class_rank ClassExact = 5"
| "class_rank ClassInferred = 4"
| "class_rank ClassLexical = 3"
| "class_rank ClassAmbiguous = 2"
| "class_rank ClassUnresolved = 1"
| "class_rank ClassUnsupported = 0"
| "class_rank (ClassOther s) = 0"

text \<open>No minimum is the empty string.\<close>

definition Allows :: "provenance_Policy \<Rightarrow> provenance_Result \<Rightarrow> bool" where
  "Allows p r =
     (if (case pp_Include p of Some inc \<Rightarrow> \<not> inc (pr_Class r) | None \<Rightarrow> False) then False
      else if pp_Minimum p = ClassOther [] then True
      else class_rank (pp_Minimum p) \<le> class_rank (pr_Class r))"

fun chain_from :: "nat \<Rightarrow> string list \<Rightarrow> string list \<Rightarrow> string list" where
  "chain_from limit out [] = out"
| "chain_from limit out (s0 # ss) =
     (let s = trim_space s0 in
      if s = [] \<or> s \<in> set out then chain_from limit out ss
      else let out' = out @ [s] in if limit \<le> length out' then out' else chain_from limit out' ss)"

definition provenance_Chain :: "string list \<Rightarrow> int \<Rightarrow> string list" where
  "provenance_Chain steps limit = chain_from (nat (if limit \<le> 0 then 32 else limit)) [] steps"

text \<open>A chain names distinct steps in their first order, none of them blank, and no more than its limit.\<close>

lemma chain_from_spec:
  "length out < n \<Longrightarrow> distinct out \<Longrightarrow> [] \<notin> set out \<Longrightarrow>
   length (chain_from n out ss) \<le> n \<and> distinct (chain_from n out ss) \<and> [] \<notin> set (chain_from n out ss) \<and>
   set (chain_from n out ss) \<subseteq> set out \<union> trim_space ` set ss"
proof (induction n out ss rule: chain_from.induct)
  case (2 limit out s0 ss)
  show ?case
  proof (cases "trim_space s0 = [] \<or> trim_space s0 \<in> set out")
    case True
    with 2(1) [OF refl True] 2(3-) show ?thesis by (auto simp: Let_def)
  next
    case False
    then show ?thesis using 2(2) [OF refl False refl] 2(3-) by (auto simp: Let_def)
  qed
qed simp

lemma chain_bounded:
  "int (length (provenance_Chain steps limit)) \<le> (if limit \<le> 0 then 32 else limit)" (is ?len)
  "distinct (provenance_Chain steps limit)"
proof -
  have "length (provenance_Chain steps limit) \<le> nat (if limit \<le> 0 then 32 else limit) \<and> distinct (provenance_Chain steps limit)"
    unfolding provenance_Chain_def using chain_from_spec [of "[]" "nat (if limit \<le> 0 then 32 else limit)" steps] by auto
  then show ?len "distinct (provenance_Chain steps limit)" by (auto split: if_splits)
qed

text \<open>A result that is safe to act on is allowed by every policy that does not exclude exact answers.\<close>

lemma safe_allowed: "ActionSafe r \<Longrightarrow> (\<And>inc. pp_Include p = Some inc \<Longrightarrow> inc ClassExact) \<Longrightarrow> Allows p r"
  by (cases "pp_Minimum p") (auto simp: ActionSafe_def Allows_def split: option.splits)

section \<open>The compatibility matrix\<close>

datatype rule_State = StateExperimental | StateInferred | StateRuntimeObserved | StateFixtureConfirmed | StateSupported | StateDeprecated
  | StateOther string

fun rule_state_str :: "rule_State \<Rightarrow> string" where
  "rule_state_str StateExperimental = ''experimental''"
| "rule_state_str StateInferred = ''inferred''"
| "rule_state_str StateRuntimeObserved = ''runtime-observed''"
| "rule_state_str StateFixtureConfirmed = ''fixture-confirmed''"
| "rule_state_str StateSupported = ''supported''"
| "rule_state_str StateDeprecated = ''deprecated''"
| "rule_state_str (StateOther s) = s"

record Rule =
  ru_ID :: string
  ru_Profile :: string
  ru_State :: rule_State
  ru_Sources :: "string list"
  ru_Fixtures :: "string list"
  ru_Runs :: "string list"
  ru_Counterexamples :: "string list"
  ru_Owner :: string
  ru_Version :: string

record Matrix =
  ma_Version :: string
  ma_Rules :: "Rule list"

datatype promote_error = BlockedByCounterexample | EvidenceRequired | StateRequired | UnknownRule

definition matrix_Normalize :: "Matrix \<Rightarrow> Matrix" where
  "matrix_Normalize m = m\<lparr>ma_Rules := sort_by (\<lambda>a b. ru_ID a < ru_ID b) (ma_Rules m)\<rparr>"

definition promote_rule :: "Rule \<Rightarrow> promote_error + Rule" where
  "promote_rule r =
     (if ru_Counterexamples r \<noteq> [] then Inl BlockedByCounterexample
      else if ru_Fixtures r = [] \<or> ru_Runs r = [] then Inl EvidenceRequired
      else if ru_State r \<notin> {StateFixtureConfirmed, StateRuntimeObserved, StateSupported} then Inl StateRequired
      else Inr (r\<lparr>ru_State := StateSupported\<rparr>))"

fun promote_first :: "string \<Rightarrow> Rule list \<Rightarrow> promote_error + Rule list" where
  "promote_first i [] = Inl UnknownRule"
| "promote_first i (r # rs) =
     (if ru_ID r \<noteq> i then map_sum id ((#) r) (promote_first i rs)
      else map_sum id (\<lambda>r'. r' # rs) (promote_rule r))"

text \<open>The error and the matrix after it, which is the same matrix then.\<close>

definition Promote :: "string \<Rightarrow> Matrix \<Rightarrow> promote_error option \<times> Matrix" where
  "Promote i m = (case promote_first i (ma_Rules m) of Inl e \<Rightarrow> (Some e, m) | Inr rs \<Rightarrow> (None, m\<lparr>ma_Rules := rs\<rparr>))"

definition Allowed :: "Matrix \<Rightarrow> string \<Rightarrow> bool \<Rightarrow> bool" where
  "Allowed m i strict =
     (case find (\<lambda>r. ru_ID r = i) (ma_Rules m) of
        None \<Rightarrow> False
      | Some r \<Rightarrow> if strict then ru_State r = StateSupported else ru_State r \<noteq> StateExperimental \<and> ru_State r \<noteq> StateDeprecated)"

definition omit_texts :: "string \<Rightarrow> string list \<Rightarrow> (string \<times> json) list" where
  "omit_texts name xs = (if xs = [] then [] else [(name, JArr (map JStr xs))])"

definition rule_json :: "Rule \<Rightarrow> json" where
  "rule_json r = JObj ([(''id'', JStr (ru_ID r)), (''profile'', JStr (ru_Profile r)), (''state'', JStr (rule_state_str (ru_State r)))] @
     omit_texts ''sources'' (ru_Sources r) @ omit_texts ''fixtures'' (ru_Fixtures r) @ omit_texts ''oracleRuns'' (ru_Runs r) @
     omit_texts ''counterexamples'' (ru_Counterexamples r) @ omit_empty ''owner'' (ru_Owner r) @ [(''version'', JStr (ru_Version r))])"

text \<open>The receiver is a copy, its slice is not: the rules of the caller are sorted too, the second component.\<close>

definition matrix_JSON :: "Matrix \<Rightarrow> string \<times> Matrix" where
  "matrix_JSON m =
     (json_encode (JObj [(''version'', JStr (ma_Version m)), (''rules'', json_slice rule_json (ma_Rules (matrix_Normalize m)))]),
      matrix_Normalize m)"

text \<open>Promoting makes no rule supported without a fixture and an oracle run, nor one with a counterexample.\<close>

lemma promote_first_spec:
  "promote_first i rs = Inr rs' \<Longrightarrow>
   \<exists>xs r ys. rs = xs @ r # ys \<and> rs' = xs @ r\<lparr>ru_State := StateSupported\<rparr> # ys \<and> ru_ID r = i \<and> i \<notin> ru_ID ` set xs \<and>
     ru_Counterexamples r = [] \<and> ru_Fixtures r \<noteq> [] \<and> ru_Runs r \<noteq> []"
proof (induction rs arbitrary: rs')
  case (Cons r rs)
  show ?case
  proof (cases "ru_ID r = i")
    case True
    then have "rs' = r\<lparr>ru_State := StateSupported\<rparr> # rs \<and> ru_Counterexamples r = [] \<and> ru_Fixtures r \<noteq> [] \<and> ru_Runs r \<noteq> []"
      using Cons.prems by (auto simp: promote_rule_def split: if_splits)
    with True show ?thesis by (intro exI [of _ "[]"]) auto
  next
    case False
    with Cons.prems obtain rs2 where "promote_first i rs = Inr rs2" "rs' = r # rs2" by (cases "promote_first i rs") auto
    with Cons.IH [of rs2] False obtain xs p ys where "rs = xs @ p # ys" "rs' = (r # xs) @ p\<lparr>ru_State := StateSupported\<rparr> # ys" "ru_ID p = i"
      "i \<notin> ru_ID ` set (r # xs)" "ru_Counterexamples p = []" "ru_Fixtures p \<noteq> []" "ru_Runs p \<noteq> []" by auto
    then show ?thesis by (intro exI [of _ "r # xs"] exI [of _ p] exI [of _ ys]) auto
  qed
qed simp

definition evidenced :: "Rule \<Rightarrow> bool" where
  "evidenced r \<longleftrightarrow> (ru_State r = StateSupported \<longrightarrow> ru_Counterexamples r = [] \<and> ru_Fixtures r \<noteq> [] \<and> ru_Runs r \<noteq> [])"

lemma promote_evidenced: "list_all evidenced (ma_Rules m) \<Longrightarrow> list_all evidenced (ma_Rules (snd (Promote i m)))"
  using promote_first_spec by (fastforce simp: Promote_def evidenced_def split: sum.split)

lemma promoted_allowed: "fst (Promote i m) = None \<Longrightarrow> Allowed (snd (Promote i m)) i strict"
proof -
  assume "fst (Promote i m) = None"
  then obtain rs where rs: "promote_first i (ma_Rules m) = Inr rs" by (auto simp: Promote_def split: sum.splits)
  from promote_first_spec [OF this] obtain xs r ys where "rs = xs @ r\<lparr>ru_State := StateSupported\<rparr> # ys" "ru_ID r = i" "i \<notin> ru_ID ` set xs"
    by blast
  moreover from this(3) have "find (\<lambda>r. ru_ID r = i) (xs @ zs) = find (\<lambda>r. ru_ID r = i) zs" for zs by (induction xs) auto
  ultimately show ?thesis by (simp add: Promote_def rs Allowed_def)
qed

end
