(* ===== verification/Adapters.thy ===== *)
theory Adapters
  imports Go_System
begin

text \<open>
  \<^verbatim>\<open>internal/adapters/{model,source,zss,lua}.go\<close>: the outlines of ZSS and Lua sources. The regular expressions are
  written out as the scans they denote; \<^verbatim>\<open>\s\<close> is the five bytes Go means by it. A function of the source that is
  not closed yet is on a stack, the latest first here.
\<close>

section \<open>Positions\<close>

record ad_Position =
  pos_Line :: nat
  pos_Column :: nat
  pos_Offset :: nat

record ad_Span =
  as_Start :: ad_Position
  as_End :: ad_Position

record sourceLine =
  sl_text :: string
  sl_start :: nat
  sl_length :: nat
  sl_endOffset :: nat
  sl_line :: nat

function lines_from :: "nat \<Rightarrow> nat \<Rightarrow> string \<Rightarrow> sourceLine list" where
  "lines_from start no rest =
     (if rest = [] then []
      else let stop = (case index_byte rest (CHR 0x0A) of Some i \<Rightarrow> i | None \<Rightarrow> length rest); text = drop_cr (take stop rest) in
        \<lparr>sl_text = text, sl_start = start, sl_length = length text, sl_endOffset = start + stop, sl_line = no\<rparr> #
        lines_from (start + stop + 1) (no + 1) (drop (Suc stop) rest))"
  by pat_completeness auto
termination
  by (relation "measure (\<lambda>(start, no, rest). length rest)") auto

declare lines_from.simps [simp del]

definition sourceLines :: "string \<Rightarrow> sourceLine list" where
  "sourceLines s = lines_from 0 1 s"

definition ad_position :: "nat \<Rightarrow> nat \<Rightarrow> nat \<Rightarrow> ad_Position" where
  "ad_position offset column _ = \<lparr>pos_Line = 1, pos_Column = column, pos_Offset = offset\<rparr>"

definition offset_step :: "nat \<times> nat \<Rightarrow> char \<Rightarrow> nat \<times> nat" where
  "offset_step st c = (if c = CHR 0x0A then (fst st + 1, 1) else (fst st, snd st + 1))"

definition offsetPosition :: "string \<Rightarrow> int \<Rightarrow> ad_Position" where
  "offsetPosition s offset0 =
     (let offset = nat (min (max offset0 0) (int (length s))); (line, col) = foldl offset_step (1, 1) (take offset s) in
      \<lparr>pos_Line = line, pos_Column = col, pos_Offset = offset\<rparr>)"

definition spanAt :: "sourceLine \<Rightarrow> int \<Rightarrow> int \<Rightarrow> ad_Span" where
  "spanAt l start0 n0 =
     (let start = nat (min (max start0 0) (int (length (sl_text l)))); n1 = nat (max n0 0);
          n = (if length (sl_text l) < start + n1 then length (sl_text l) - start else n1) in
      \<lparr>as_Start = \<lparr>pos_Line = sl_line l, pos_Column = start + 1, pos_Offset = sl_start l + start\<rparr>,
       as_End = \<lparr>pos_Line = sl_line l, pos_Column = start + n + 1, pos_Offset = sl_start l + start + n\<rparr>\<rparr>)"

definition lineAfterOffset :: "string \<Rightarrow> int \<Rightarrow> nat" where
  "lineAfterOffset s offset =
     (if offset < 0 then 0
      else case index_byte (drop (nat offset) s) (CHR 0x0A) of None \<Rightarrow> length s | Some i \<Rightarrow> nat offset + i + 1)"

section \<open>What an outline holds\<close>

record ad_Diagnostic =
  ag_Code :: string
  ag_Message :: string
  ag_Span :: ad_Span

record ad_Comment =
  ac_Text :: string
  ac_Span :: ad_Span

datatype DependencyKind = DependencyInclude | DependencyRequire

record Dependency =
  dp_Kind :: DependencyKind
  dp_Path :: string
  dp_Span :: ad_Span

record ZSSLine =
  zl_Text :: string
  zl_Span :: ad_Span

record ZSSSection =
  zs_Name :: string
  zs_Header :: string
  zs_Span :: ad_Span
  zs_BodySpan :: ad_Span
  zs_Lines :: "ZSSLine list"

record ZSSDocument =
  zd_Path :: string
  zd_Source :: string
  zd_Sections :: "ZSSSection list"
  zd_Comments :: "ad_Comment list"
  zd_Dependencies :: "Dependency list"
  zd_Diagnostics :: "ad_Diagnostic list"
  zd_Complete :: bool

record LuaFunction =
  lf_Name :: string
  lf_Span :: ad_Span
  lf_HeaderSpan :: ad_Span

record LuaDocument =
  ld_Path :: string
  ld_Source :: string
  ld_Functions :: "LuaFunction list"
  ld_Comments :: "ad_Comment list"
  ld_Dependencies :: "Dependency list"
  ld_Diagnostics :: "ad_Diagnostic list"
  ld_Complete :: bool

text \<open>\<^verbatim>\<open>strings.Index\<close> as the code uses it: -1 where nothing is found.\<close>

definition go_index :: "string \<Rightarrow> string \<Rightarrow> int" where
  "go_index s sub = (case index_of s sub of None \<Rightarrow> -1 | Some i \<Rightarrow> int i)"

definition re_space :: "char \<Rightarrow> bool" where
  "re_space c \<longleftrightarrow> c \<in> {CHR 0x09, CHR 0x0A, CHR 0x0C, CHR 0x0D, CHR '' ''}"

section \<open>ZSS\<close>

definition isZSSComment :: "string \<Rightarrow> bool" where
  "isZSSComment s \<longleftrightarrow> has_prefix s '';'' \<or> has_prefix s ''#'' \<or> has_prefix s ''//''"

text \<open>\<^verbatim>\<open>zssSectionRE\<close>: the name between the brackets.\<close>

definition zss_section_name :: "string \<Rightarrow> string option" where
  "zss_section_name line =
     (let t = dropWhile re_space line in
      if t = [] \<or> hd t \<noteq> CHR ''['' then None
      else let name = takeWhile (\<lambda>c. c \<noteq> CHR '']'') (tl t); after = dropWhile (\<lambda>c. c \<noteq> CHR '']'') (tl t) in
        if name = [] \<or> after = [] then None
        else let rest = dropWhile re_space (tl after) in
          if rest = [] \<or> hd rest = CHR '';'' \<or> hd rest = CHR ''#'' then Some name else None)"

text \<open>The last group of \<^verbatim>\<open>zssDependencyRE\<close>: a value that may begin and end with a quote.\<close>

definition quote_mark :: "char \<Rightarrow> bool" where
  "quote_mark c \<longleftrightarrow> c = CHR 0x22 \<or> c = CHR 0x27"

definition dependency_char :: "char \<Rightarrow> bool" where
  "dependency_char c \<longleftrightarrow> \<not> quote_mark c \<and> \<not> re_space c \<and> c \<noteq> CHR '';'' \<and> c \<noteq> CHR ''#''"

definition dependency_value :: "string \<Rightarrow> string option" where
  "dependency_value t =
     (let opening = takeWhile quote_mark (take 1 t); rest = drop (length opening) t; body = takeWhile dependency_char rest;
          closing = takeWhile quote_mark (take 1 (drop (length body) rest)) in
      if body = [] then None else Some (opening @ body @ closing))"

text \<open>\<^verbatim>\<open>zssDependencyRE\<close> on a trimmed line: the keyword and the value. A value that does not follow the equals sign
  may begin with it.\<close>

definition zss_dependency :: "string \<Rightarrow> (string \<times> string) option" where
  "zss_dependency t =
     (let keyword = take 7 t; w = dropWhile re_space (drop 7 t) in
      if \<not> equal_fold keyword ''include'' \<and> \<not> equal_fold keyword ''require'' then None
      else case (if has_prefix w ''='' then dependency_value (dropWhile re_space (tl w)) else None) of
             Some v \<Rightarrow> Some (keyword, v)
           | None \<Rightarrow> map_option (\<lambda>v. (keyword, v)) (dependency_value w))"

definition zss_dependency_of :: "sourceLine \<Rightarrow> string \<Rightarrow> Dependency list" where
  "zss_dependency_of line trimmed =
     (case zss_dependency trimmed of
        None \<Rightarrow> []
      | Some (keyword, v) \<Rightarrow>
          [\<lparr>dp_Kind = (if equal_fold keyword ''require'' then DependencyRequire else DependencyInclude),
            dp_Path = trim_set v [CHR 0x22, CHR 0x27],
            dp_Span = spanAt line (go_index (sl_text line) trimmed) (int (length trimmed))\<rparr>])"

definition zss_header :: "string \<Rightarrow> sourceLine \<Rightarrow> string \<Rightarrow> ZSSSection" where
  "zss_header s line name =
     (let start = nat (go_index (sl_text line) ''[''); close = nat (go_index (drop start (sl_text line)) '']'') + start + 1;
          here = offsetPosition s (int (sl_endOffset line)) in
      \<lparr>zs_Name = trim_space name, zs_Header = take (close - start) (drop start (sl_text line)),
       zs_Span = spanAt line (int start) (int (close - start)), zs_BodySpan = \<lparr>as_Start = here, as_End = here\<rparr>, zs_Lines = []\<rparr>)"

definition zss_line :: "string \<Rightarrow> ZSSDocument \<Rightarrow> sourceLine \<Rightarrow> ZSSDocument" where
  "zss_line s doc line =
     (let trimmed = trim_space (sl_text line); start = go_index (sl_text line) trimmed in
      if trimmed = [] then doc
      else if isZSSComment trimmed
      then doc\<lparr>zd_Comments := zd_Comments doc @
        [\<lparr>ac_Text = drop (nat start) (sl_text line), ac_Span = spanAt line start (int (length trimmed))\<rparr>]\<rparr>
      else case zss_section_name (sl_text line) of
        Some name \<Rightarrow> doc\<lparr>zd_Sections := zd_Sections doc @ [zss_header s line name]\<rparr>
      | None \<Rightarrow>
          (let bracket = go_index (sl_text line) ''['';
               doc1 = (if has_prefix trimmed ''[''
                       then doc\<lparr>zd_Diagnostics := zd_Diagnostics doc @
                         [\<lparr>ag_Code = ''zss.unterminated-section'', ag_Message = ''section header is missing a closing ]'',
                           ag_Span = spanAt line bracket (int (length (sl_text line)) - bracket)\<rparr>]\<rparr>
                       else doc)
           in doc1\<lparr>zd_Dependencies := zd_Dependencies doc1 @ zss_dependency_of line trimmed\<rparr>))"

text \<open>The body of each section: from the line after its header to the header of the next one.\<close>

definition zss_body :: "string \<Rightarrow> sourceLine list \<Rightarrow> nat \<Rightarrow> ZSSSection \<Rightarrow> ZSSSection" where
  "zss_body s lines end sec =
     (let body = min (lineAfterOffset s (int (pos_Offset (as_End (zs_Span sec))))) end in
      sec\<lparr>zs_BodySpan := \<lparr>as_Start = offsetPosition s (int body), as_End = offsetPosition s (int end)\<rparr>,
          zs_Lines := zs_Lines sec @ map (\<lambda>l. \<lparr>zl_Text = sl_text l, zl_Span = spanAt l 0 (int (length (sl_text l)))\<rparr>)
            (filter (\<lambda>l. body \<le> sl_start l \<and> sl_start l < end) lines)\<rparr>)"

fun zss_bodies :: "string \<Rightarrow> sourceLine list \<Rightarrow> ZSSSection list \<Rightarrow> ZSSSection list" where
  "zss_bodies s lines [] = []"
| "zss_bodies s lines [sec] = [zss_body s lines (length s) sec]"
| "zss_bodies s lines (sec # sec' # secs) =
     zss_body s lines (pos_Offset (as_Start (zs_Span sec'))) sec # zss_bodies s lines (sec' # secs)"

definition ParseZSS :: "string \<Rightarrow> string \<Rightarrow> ZSSDocument" where
  "ParseZSS path s =
     (let lines = sourceLines s;
          doc = foldl (zss_line s) \<lparr>zd_Path = path, zd_Source = s, zd_Sections = [], zd_Comments = [], zd_Dependencies = [],
            zd_Diagnostics = [], zd_Complete = True\<rparr> lines in
      doc\<lparr>zd_Sections := zss_bodies s lines (zd_Sections doc), zd_Complete := zd_Diagnostics doc = []\<rparr>)"

section \<open>Lua\<close>

definition name_start :: "char \<Rightarrow> bool" where
  "name_start c \<longleftrightarrow> is_upper c \<or> is_lower c \<or> c = CHR ''_''"

definition name_char :: "char \<Rightarrow> bool" where
  "name_char c \<longleftrightarrow> name_start c \<or> is_digit c \<or> c = CHR ''.'' \<or> c = CHR '':''"

text \<open>A name and what follows it.\<close>

definition lua_name :: "string \<Rightarrow> (string \<times> string) option" where
  "lua_name t = (if t = [] \<or> \<not> name_start (hd t) then None else Some (takeWhile name_char t, dropWhile name_char t))"

text \<open>A keyword, white space, and what follows.\<close>

definition after_keyword :: "string \<Rightarrow> string \<Rightarrow> string option" where
  "after_keyword keyword t =
     (if has_prefix t keyword \<and> drop (length keyword) t \<noteq> [] \<and> re_space (t ! length keyword)
      then Some (dropWhile re_space (drop (length keyword) t)) else None)"

text \<open>\<^verbatim>\<open>luaFunctionRE\<close> and \<^verbatim>\<open>luaAssignedFunctionRE\<close>: the name of the function.\<close>

definition lua_function_name :: "string \<Rightarrow> string option" where
  "lua_function_name line =
     (let t = dropWhile re_space line; t1 = (case after_keyword ''local'' t of Some r \<Rightarrow> r | None \<Rightarrow> t) in
      case after_keyword ''function'' t1 of
        None \<Rightarrow> None
      | Some r \<Rightarrow> (case lua_name r of
          None \<Rightarrow> None
        | Some (name, rest) \<Rightarrow> if has_prefix (dropWhile re_space rest) ''('' then Some name else None))"

definition lua_assigned_name :: "string \<Rightarrow> string option" where
  "lua_assigned_name line =
     (case lua_name (dropWhile re_space line) of
        None \<Rightarrow> None
      | Some (name, rest) \<Rightarrow>
          (let r = dropWhile re_space rest; r1 = dropWhile re_space (tl r) in
           if has_prefix r ''='' \<and> has_prefix r1 ''function'' \<and> has_prefix (dropWhile re_space (drop 8 r1)) ''(''
           then Some name else None))"

definition word_char :: "char \<Rightarrow> bool" where
  "word_char c \<longleftrightarrow> name_start c \<or> is_digit c"

text \<open>\<^verbatim>\<open>luaDependencyRE\<close> at one place: the keyword, the quoted text, and the length of the match.\<close>

definition lua_dependency_at :: "string \<Rightarrow> (string \<times> string \<times> nat) option" where
  "lua_dependency_at t =
     (let keyword = take 7 t; a = dropWhile re_space (drop 7 t); b = dropWhile re_space (tl a);
          path = takeWhile (\<lambda>c. \<not> quote_mark c) (tl b); c = drop (length path) (tl b); d = dropWhile re_space (tl c) in
      if (equal_fold keyword ''require'' \<or> equal_fold keyword ''include'') \<and> has_prefix a ''('' \<and>
         b \<noteq> [] \<and> quote_mark (hd b) \<and> path \<noteq> [] \<and> c \<noteq> [] \<and> has_prefix d '')''
      then Some (keyword, path, length t - length (tl d)) else None)"

text \<open>\<^verbatim>\<open>FindAllStringSubmatchIndex\<close>: matches from the left that do not overlap; a match begins at a word boundary.\<close>

function lua_dependencies :: "nat \<Rightarrow> bool \<Rightarrow> string \<Rightarrow> (nat \<times> nat \<times> string \<times> string) list" where
  "lua_dependencies i in_word t =
     (if t = [] then []
      else case (if in_word then None else lua_dependency_at t) of
             Some (keyword, path, n) \<Rightarrow> (i, i + max n 1, keyword, path) # lua_dependencies (i + max n 1) False (drop (max n 1) t)
           | None \<Rightarrow> lua_dependencies (i + 1) (word_char (hd t)) (tl t))"
  by pat_completeness auto
termination
  by (relation "measure (\<lambda>(i, in_word, t). length t)") auto

declare lua_dependencies.simps [simp del]

record openFn =
  of_name :: string
  of_line :: sourceLine
  of_headerStart :: int

definition luaBlockEnd :: "string \<Rightarrow> bool" where
  "luaBlockEnd text \<longleftrightarrow> (let t = trim_space text in t = ''end'' \<or> has_prefix t ''end '' \<or> has_prefix t ''end;'')"

definition open_header :: "openFn \<Rightarrow> ad_Span" where
  "open_header opened = spanAt (of_line opened) (of_headerStart opened) (int (length (sl_text (of_line opened))) - of_headerStart opened)"

definition closed_function :: "openFn \<Rightarrow> sourceLine \<Rightarrow> LuaFunction" where
  "closed_function opened line =
     \<lparr>lf_Name = of_name opened,
      lf_Span = \<lparr>as_Start = \<lparr>pos_Line = sl_line (of_line opened), pos_Column = nat (of_headerStart opened + 1),
                             pos_Offset = nat (int (sl_start (of_line opened)) + of_headerStart opened)\<rparr>,
                 as_End = \<lparr>pos_Line = sl_line line, pos_Column = length (sl_text line) + 1, pos_Offset = sl_start line + length (sl_text line)\<rparr>\<rparr>,
      lf_HeaderSpan = open_header opened\<rparr>"

definition lua_line_dependencies :: "sourceLine \<Rightarrow> Dependency list" where
  "lua_line_dependencies line =
     map (\<lambda>(a, b, keyword, path). \<lparr>dp_Kind = (if equal_fold keyword ''include'' then DependencyInclude else DependencyRequire),
            dp_Path = path, dp_Span = spanAt line (int a) (int b - int a)\<rparr>)
       (lua_dependencies 0 False (sl_text line))"

definition lua_line :: "openFn list \<times> LuaDocument \<Rightarrow> sourceLine \<Rightarrow> openFn list \<times> LuaDocument" where
  "lua_line st line =
     (case st of (stack, doc) \<Rightarrow>
        let trimmed = trim_space (sl_text line) in
        if has_prefix trimmed ''--''
        then (stack, doc\<lparr>ld_Comments := ld_Comments doc @
               [\<lparr>ac_Text = trimmed, ac_Span = spanAt line (go_index (sl_text line) trimmed) (int (length trimmed))\<rparr>]\<rparr>)
        else let doc1 = doc\<lparr>ld_Dependencies := ld_Dependencies doc @ lua_line_dependencies line\<rparr> in
          case (case lua_function_name (sl_text line) of Some n \<Rightarrow> Some n | None \<Rightarrow> lua_assigned_name (sl_text line)) of
            Some name \<Rightarrow> (\<lparr>of_name = name, of_line = line, of_headerStart = go_index (sl_text line) ''function''\<rparr> # stack, doc1)
          | None \<Rightarrow>
              (case stack of
                 [] \<Rightarrow> ([], doc1)
               | opened # below \<Rightarrow>
                   if luaBlockEnd (sl_text line) then (below, doc1\<lparr>ld_Functions := ld_Functions doc1 @ [closed_function opened line]\<rparr>)
                   else (stack, doc1)))"

definition ParseLua :: "string \<Rightarrow> string \<Rightarrow> LuaDocument" where
  "ParseLua path s =
     (let doc0 = \<lparr>ld_Path = path, ld_Source = s, ld_Functions = [], ld_Comments = [], ld_Dependencies = [], ld_Diagnostics = [], ld_Complete = True\<rparr>;
          (stack, doc) = foldl lua_line ([], doc0) (sourceLines s);
          ds = map (\<lambda>opened. \<lparr>ag_Code = ''lua.unterminated-function'', ag_Message = ''function is missing a matching end'',
                 ag_Span = open_header opened\<rparr>) (rev stack)
      in doc\<lparr>ld_Diagnostics := ds, ld_Complete := ds = []\<rparr>)"

text \<open>The places an outline names are places of the source, and what the outlines of Lua and ZSS miss.\<close>

section \<open>Lines\<close>

lemma offset_steps_line: "CHR 0x0A \<notin> set t \<Longrightarrow> foldl offset_step (l, c) t = (l, c + length t)"
  by (induction t arbitrary: c) (auto simp: offset_step_def)

lemma drop_cr_take: "\<exists>n. drop_cr s = take n s \<and> n \<le> length s"
  by (cases "s \<noteq> [] \<and> last s = CHR 0x0D") (auto simp: drop_cr_def butlast_conv_take intro: exI [of _ "length s"])

lemma lines_from_places:
  assumes "l \<in> set (lines_from (length pre) no rest)" and "foldl offset_step (1, 1) pre = (no, 1)"
  shows "sl_text l = take (sl_length l) (drop (sl_start l) (pre @ rest)) \<and> sl_start l + sl_length l \<le> length (pre @ rest) \<and>
    (\<forall>k \<le> sl_length l. foldl offset_step (1, 1) (take (sl_start l + k) (pre @ rest)) = (sl_line l, k + 1))"
  using assms
proof (induction "length rest" arbitrary: pre no rest rule: less_induct)
  case less
  show ?case
  proof (cases "rest = []")
    case True
    then show ?thesis using less.prems(1) by (simp add: lines_from.simps)
  next
    case False
    define stop where "stop = (case index_byte rest (CHR 0x0A) of Some i \<Rightarrow> i | None \<Rightarrow> length rest)"
    have nl: "CHR 0x0A \<notin> set (take stop rest)" and stop: "stop \<le> length rest"
      and sep: "stop < length rest \<Longrightarrow> rest ! stop = CHR 0x0A"
    proof -
      show "CHR 0x0A \<notin> set (take stop rest)"
        using index_byte_split [of rest "CHR 0x0A"] index_byte_None [of rest "CHR 0x0A"]
        by (auto simp: stop_def split: option.splits)
      show "stop \<le> length rest" "stop < length rest \<Longrightarrow> rest ! stop = CHR 0x0A"
        by (auto simp: stop_def split: option.splits dest: index_byte_bound index_byte_nth less_imp_le)
    qed
    obtain n where n: "drop_cr (take stop rest) = take n (take stop rest)" "n \<le> stop"
      using drop_cr_take [of "take stop rest"] stop by auto
    let ?first = "\<lparr>sl_text = drop_cr (take stop rest), sl_start = length pre, sl_length = length (drop_cr (take stop rest)),
      sl_endOffset = length pre + stop, sl_line = no\<rparr>"
    have lines: "lines_from (length pre) no rest = ?first # lines_from (length pre + stop + 1) (no + 1) (drop (Suc stop) rest)"
      using False by (subst lines_from.simps) (simp add: stop_def Let_def)
    show ?thesis
    proof (cases "l = ?first")
      case True
      have len: "sl_length l = n" using True n stop by simp
      have "foldl offset_step (1, 1) (take (length pre + k) (pre @ rest)) = (no, k + 1)" if "k \<le> n" for k
      proof -
        have "take k rest = take k (take stop rest)" using that n(2) by simp
        then have "CHR 0x0A \<notin> set (take k rest)" using nl by (metis in_set_takeD)
        then show ?thesis using less.prems(2) offset_steps_line [of "take k rest" no 1] that n(2) stop by simp
      qed
      then show ?thesis using True n stop len by simp
    next
      case False
      with less.prems(1) lines have l: "l \<in> set (lines_from (length pre + stop + 1) (no + 1) (drop (Suc stop) rest))" by simp
      then have "drop (Suc stop) rest \<noteq> []" by (auto simp: lines_from.simps split: if_splits)
      then have lt: "stop < length rest" by simp
      let ?pre = "pre @ take (Suc stop) rest"
      have "take (Suc stop) rest = take stop rest @ [CHR 0x0A]" using lt sep by (simp add: take_Suc_conv_app_nth)
      then have "foldl offset_step (1, 1) ?pre = (no + 1, 1)"
        using less.prems(2) offset_steps_line [OF nl, of no 1] by (simp add: offset_step_def)
      moreover have "length ?pre = length pre + stop + 1" using lt by simp
      moreover have "?pre @ drop (Suc stop) rest = pre @ rest" by simp
      ultimately show ?thesis
        using less.hyps [of "drop (Suc stop) rest" ?pre "no + 1"] l lt by (simp del: take_append drop_append)
    qed
  qed
qed

lemma source_line_place:
  assumes "l \<in> set (sourceLines s)"
  shows "sl_text l = take (sl_length l) (drop (sl_start l) s)" "sl_start l + sl_length l \<le> length s" "sl_length l = length (sl_text l)"
    "k \<le> sl_length l \<Longrightarrow> foldl offset_step (1, 1) (take (sl_start l + k) s) = (sl_line l, k + 1)"
  using lines_from_places [of l "[]" 1 s] assms by (auto simp: sourceLines_def)



section \<open>What the outlines miss\<close>

text \<open>The \<^verbatim>\<open>end\<close> of an inner block closes the function.\<close>

lemma inner_end_closes_function:
  "map (\<lambda>f. (lf_Name f, pos_Line (as_End (lf_Span f))))
     (ld_Functions (ParseLua [] (''function f()'' @ [CHR 0x0A] @ ''if x then'' @ [CHR 0x0A] @ ''end'' @ [CHR 0x0A] @ ''end''))) = [(''f'', 3)]"
  by code_simp

text \<open>A function on one line is never closed.\<close>

lemma one_line_function_unterminated:
  "map ag_Code (ld_Diagnostics (ParseLua [] ''function f() return 1 end'')) = [''lua.unterminated-function'']"
  by code_simp

text \<open>A key that begins with a keyword is a dependency.\<close>

lemma prefix_is_dependency: "map dp_Path (zd_Dependencies (ParseZSS [] ''requirements = 5'')) = [''ments'']"
  by code_simp

text \<open>An indented header is also a line of the section before it.\<close>

lemma indented_header_in_body:
  "map (map zl_Text \<circ> zs_Lines) (zd_Sections (ParseZSS [] (''[a]'' @ [CHR 0x0A] @ '' [b]''))) = [['' [b]''], []]"
  by code_simp

end
