(* ===== verification/Assets.thy ===== *)
theory Assets
  imports Go_Any Ir Sha256
begin

text \<open>
  \<^verbatim>\<open>internal/assets/{classifier,metadata}.go\<close>: what kind of file an asset is, from a bounded prefix of it. What the
  operating system answers for the path is an argument: the text of a failed \<^verbatim>\<open>os.Stat\<close> or the file, of which one
  \<^verbatim>\<open>Read\<close> into a buffer gives bytes and perhaps an error other than the end of the file.
\<close>

datatype asset_Kind = KindAuthoredText | KindSFF | KindSND | KindFont | KindShader | KindImage | KindAudio | KindUnknown

record Limits =
  lm_MaxTextBytes :: int
  lm_MaxHeaderBytes :: int

record asset_Result =
  ar_Path :: string
  ar_Kind :: asset_Kind
  ar_MIME :: string
  ar_Size :: int
  ar_HeaderBytes :: nat
  ar_Identity :: string
  ar_HashPolicy :: string
  ar_ParseComplete :: bool
  ar_Truncated :: bool
  ar_Metadata :: "(string \<times> any) list"
  ar_Diagnostics :: "Diagnostic list"

record asset_file =
  af_regular :: bool
  af_size :: int
  af_mtime :: int
  af_read :: "string + (int \<Rightarrow> string \<times> string option)"

definition DefaultLimits :: Limits where
  "DefaultLimits = \<lparr>lm_MaxTextBytes = 8388608, lm_MaxHeaderBytes = 65536\<rparr>"

definition asset_diagnostic :: "string \<Rightarrow> string \<Rightarrow> string \<Rightarrow> Diagnostic" where
  "asset_diagnostic path code message =
     \<lparr>dg_code = code, dg_severity = SeverityWarning, dg_message = message, dg_path = path,
      dg_start = \<lparr>Line = 1, Column = 1\<rparr>, dg_end = \<lparr>Line = 1, Column = 1\<rparr>, dg_related = []\<rparr>"

definition be32 :: "string \<Rightarrow> nat" where
  "be32 b = byte_of (b ! 0) * 16777216 + byte_of (b ! 1) * 65536 + byte_of (b ! 2) * 256 + byte_of (b ! 3)"

definition png_magic :: string where
  "png_magic = [CHR 0x89, CHR ''P'', CHR ''N'', CHR ''G'', CHR 0x0D, CHR 0x0A, CHR 0x1A, CHR 0x0A]"

text \<open>The kinds that the first bytes decide, and those that the extension decides.\<close>

definition classify_bytes :: "string \<Rightarrow> (asset_Kind \<times> string) option" where
  "classify_bytes b =
     (if take 11 b = ''ElecbyteSpr'' then Some (KindSFF, ''application/x-sff'')
      else if take 11 b = ''ElecbyteSnd'' then Some (KindSND, ''audio/x-ikemen-snd'')
      else if take 8 b = png_magic then Some (KindImage, ''image/png'')
      else if 12 \<le> length b \<and> take 4 b = ''RIFF'' \<and> take 4 (drop 8 b) = ''WAVE'' then Some (KindAudio, ''audio/wav'')
      else if 4 \<le> length b \<and> (take 4 b \<in> {''OTTO'', ''wOFF'', ''wOF2''} \<or> be32 b = 0x00010000) then Some (KindFont, ''font/otf'')
      else if take 4 b = ''OggS'' then Some (KindAudio, ''audio/ogg'')
      else if take 3 b = ''ID3'' then Some (KindAudio, ''audio/mpeg'')
      else None)"

definition classify_extension :: "string \<Rightarrow> asset_Kind \<times> string" where
  "classify_extension e =
     (if e \<in> {''.glsl'', ''.vert'', ''.frag'', ''.shader'', ''.hlsl'', ''.fx''} then (KindShader, ''text/x-shader'')
      else if e \<in> {''.def'', ''.cns'', ''.st'', ''.cmd'', ''.air'', ''.lua'', ''.zss'', ''.ini'', ''.cfg'', ''.txt'', ''.json'', ''.xml'',
                   ''.yaml'', ''.yml'', ''.toml''} then (KindAuthoredText, ''text/plain; charset=utf-8'')
      else if e = ''.png'' then (KindImage, ''image/png'')
      else if e = ''.jpg'' \<or> e = ''.jpeg'' then (KindImage, ''image/jpeg'')
      else if e = ''.bmp'' then (KindImage, ''image/bmp'')
      else if e = ''.gif'' then (KindImage, ''image/gif'')
      else if e = ''.ttf'' then (KindFont, ''font/ttf'')
      else if e = ''.otf'' then (KindFont, ''font/otf'')
      else if e = ''.wav'' then (KindAudio, ''audio/wav'')
      else if e = ''.ogg'' then (KindAudio, ''audio/ogg'')
      else if e = ''.mp3'' then (KindAudio, ''audio/mpeg'')
      else (KindUnknown, ''application/octet-stream''))"

definition classify :: "string \<Rightarrow> string \<Rightarrow> asset_Kind \<times> string" where
  "classify ext b = (case classify_bytes b of Some r \<Rightarrow> r | None \<Rightarrow> classify_extension (to_lower ext))"

definition MetadataFromHeader :: "asset_Kind \<Rightarrow> string \<Rightarrow> (string \<times> any) list \<times> string" where
  "MetadataFromHeader kind header =
     (if kind = KindSFF then
        (if length header < 16 then ([], ''truncated SFF header'') else ([(''version'', VStr (take 4 (drop 12 header)))], []))
      else if kind = KindSND then
        (if length header < 16 then ([], ''truncated SND header'') else ([(''version'', VStr (take 4 (drop 12 header)))], []))
      else if kind = KindImage \<and> 24 \<le> length header \<and> has_prefix header (take 4 png_magic)
      then ([(''width'', VInt (int (be32 (take 4 (drop 16 header))))), (''height'', VInt (int (be32 (take 4 (drop 20 header)))))], [])
      else if kind = KindAudio \<and> 12 \<le> length header \<and> take 4 header = ''RIFF'' \<and> take 4 (drop 8 header) = ''WAVE''
      then ([(''container'', VStr ''WAVE'')], [])
      else ([], []))"

definition effective_limits :: "Limits \<Rightarrow> Limits" where
  "effective_limits l =
     \<lparr>lm_MaxTextBytes = (if lm_MaxTextBytes l \<le> 0 then lm_MaxTextBytes DefaultLimits else lm_MaxTextBytes l),
      lm_MaxHeaderBytes = (if lm_MaxHeaderBytes l \<le> 0 then lm_MaxHeaderBytes DefaultLimits else lm_MaxHeaderBytes l)\<rparr>"

definition header_size :: "Limits \<Rightarrow> int" where
  "header_size l = min (lm_MaxHeaderBytes l) (lm_MaxTextBytes l)"

definition asset_identity :: "string \<Rightarrow> int \<Rightarrow> int \<Rightarrow> string \<Rightarrow> string" where
  "asset_identity path sz mtime buf =
     sha256_hex (path @ '':'' @ itoa sz @ '':'' @ itoa mtime @ '':'' @ concat (map (\<lambda>c. hex_byte (byte_of c)) buf))"

text \<open>What is found wrong with the prefix, in order.\<close>

definition asset_diagnostics :: "string \<Rightarrow> asset_Kind \<Rightarrow> int \<Rightarrow> Limits \<Rightarrow> string \<Rightarrow> string option \<Rightarrow> Diagnostic list" where
  "asset_diagnostics path kind sz l buf read_error =
     (case read_error of Some e \<Rightarrow> [asset_diagnostic path ''asset-read'' e] | None \<Rightarrow> []) @
     (let e = snd (MetadataFromHeader kind buf) in if e \<noteq> [] then [asset_diagnostic path ''metadata-header'' e] else []) @
     (if kind = KindAuthoredText \<and> lm_MaxTextBytes l < sz then [asset_diagnostic path ''text-limit'' ''authored text exceeds bounded read limit''] else []) @
     (if kind = KindUnknown then [asset_diagnostic path ''unsupported-format'' ''file format is not recognized''] else []) @
     (if kind = KindSFF \<and> length buf < 16 then [asset_diagnostic path ''sff-header'' ''truncated SFF header''] else []) @
     (if kind = KindSND \<and> length buf < 16 then [asset_diagnostic path ''snd-header'' ''truncated SND header''] else [])"

definition ClassifyFile :: "string + asset_file \<Rightarrow> string \<Rightarrow> Limits \<Rightarrow> asset_Result" where
  "ClassifyFile stat path limits =
     (let l = effective_limits limits; p = path_clean path;
          r = \<lparr>ar_Path = p, ar_Kind = KindUnknown, ar_MIME = ''application/octet-stream'', ar_Size = 0, ar_HeaderBytes = 0, ar_Identity = [],
               ar_HashPolicy = [], ar_ParseComplete = False, ar_Truncated = False, ar_Metadata = [], ar_Diagnostics = []\<rparr>
      in case stat of
           Inl e \<Rightarrow> r\<lparr>ar_Diagnostics := [asset_diagnostic p ''asset-stat'' e]\<rparr>
         | Inr f \<Rightarrow>
             if \<not> af_regular f then r\<lparr>ar_Diagnostics := [asset_diagnostic p ''asset-not-regular'' ''asset is not a regular file'']\<rparr>
             else case af_read f of
               Inl e \<Rightarrow> r\<lparr>ar_Size := af_size f, ar_Diagnostics := [asset_diagnostic p ''asset-open'' e]\<rparr>
             | Inr read \<Rightarrow>
                 (case read (header_size l) of (buf, read_error) \<Rightarrow>
                   let (kind, mime) = classify (path_ext path) buf;
                       ds = asset_diagnostics p kind (af_size f) l buf read_error in
                   r\<lparr>ar_Size := af_size f, ar_HeaderBytes := length buf, ar_Identity := asset_identity p (af_size f) (af_mtime f) buf,
                     ar_HashPolicy := ''path-size-mtime-header-sha256'', ar_Kind := kind, ar_MIME := mime,
                     ar_Metadata := fst (MetadataFromHeader kind buf),
                     ar_Truncated := (kind = KindAuthoredText \<and> lm_MaxTextBytes l < af_size f),
                     ar_Diagnostics := ds, ar_ParseComplete := (ds = [])\<rparr>))"

definition InventoryFile :: "string + asset_file \<Rightarrow> string \<Rightarrow> Limits \<Rightarrow> asset_Result" where
  "InventoryFile stat path limits = ClassifyFile stat path limits"

section \<open>What a classification promises\<close>

lemma header_size_bounds: "0 < header_size (effective_limits l)"
  by (simp add: header_size_def effective_limits_def DefaultLimits_def)

text \<open>An asset is completely parsed exactly when nothing is wrong with it, and an unknown one never is.\<close>

lemma classify_complete:
  "ar_ParseComplete (ClassifyFile stat path l) \<longleftrightarrow> ar_Diagnostics (ClassifyFile stat path l) = []"
  "ar_Kind (ClassifyFile stat path l) = KindUnknown \<Longrightarrow> ar_Diagnostics (ClassifyFile stat path l) \<noteq> []"
  by (auto simp: ClassifyFile_def Let_def asset_diagnostics_def split: sum.splits prod.splits)

text \<open>Only the prefix is read: a file that agrees on it, on its size and its time is the same asset.\<close>

lemma classify_prefix_only:
  assumes "stat = Inr f" "stat' = Inr f'" "af_regular f = af_regular f'" "af_size f = af_size f'" "af_mtime f = af_mtime f'"
    "af_read f = Inr read" "af_read f' = Inr read'" "read (header_size (effective_limits l)) = read' (header_size (effective_limits l))"
  shows "ClassifyFile stat path l = ClassifyFile stat' path l"
  using assms by (simp add: ClassifyFile_def Let_def)

text \<open>A truncated sprite file is reported twice.\<close>

lemma truncated_reported_twice:
  "map dg_message (asset_diagnostics p KindSFF sz l ''ElecbyteSpr'' None) = [''truncated SFF header'', ''truncated SFF header'']"
  by (simp add: asset_diagnostics_def MetadataFromHeader_def asset_diagnostic_def)

end
