(* ===== verification/Repository.thy ===== *)
theory Repository
  imports Go_Any Go_System
begin

text \<open>
  \<^verbatim>\<open>internal/repository/{repository,snapshot}.go\<close>: document snapshots in the tables that \<^verbatim>\<open>migrations.go\<close> creates. The
  database is the list of rows of each table; a statement is a function on it that fails on a primary or foreign key,
  and deleting a document deletes the rows that refer to it. A transaction is a list of statements with a commit at the
  end; what the driver or the context interrupts, and with which error, is an argument. A value that is
  \<^verbatim>\<open>NULL\<close> is \<^const>\<open>None\<close>, and \<^verbatim>\<open>Scan\<close> into a string fails on it.
\<close>

datatype repo_error = NilDatabase | EmptyPath | ContextCanceled | SnapshotNotFound | NoRows | StaleSnapshot
  | ConstraintFailed | ScanFailed | DriverFailed string

record repo_Symbol =
  ys_ID :: string
  ys_DocumentPath :: string
  ys_Kind :: string
  ys_Name :: string
  ys_Section :: string
  ys_Raw :: string
  ys_StartLine :: int
  ys_StartColumn :: int
  ys_EndLine :: int
  ys_EndColumn :: int

record repo_Reference =
  rs_ID :: string
  rs_DocumentPath :: string
  rs_Kind :: string
  rs_Name :: string
  rs_Raw :: string
  rs_SourceSymbol :: string
  rs_Target :: string
  rs_TargetSymbolID :: string
  rs_TargetPath :: string
  rs_Classification :: string
  rs_Resolved :: bool
  rs_IsDynamic :: bool
  rs_StartLine :: int
  rs_StartColumn :: int
  rs_EndLine :: int
  rs_EndColumn :: int

record repo_Diagnostic =
  ds_Path :: string
  ds_Code :: string
  ds_Severity :: string
  ds_Message :: string
  ds_RelatedSymbol :: string
  ds_StartLine :: int
  ds_StartColumn :: int
  ds_EndLine :: int
  ds_EndColumn :: int

record DependencyEdge =
  de_SourcePath :: string
  de_TargetPath :: string
  de_Type :: string

record repo_Document =
  rd_Path :: string
  rd_FileType :: string
  rd_Version :: string
  rd_ContentHash :: string
  rd_Generation :: int
  rd_UpdatedAtUnix :: int
  rd_Symbols :: "repo_Symbol list"
  rd_References :: "repo_Reference list"
  rd_Diagnostics :: "repo_Diagnostic list"
  rd_DependencyIn :: "DependencyEdge list"

section \<open>Normal form\<close>

definition repo_canonicalizePath :: "string \<Rightarrow> string" where
  "repo_canonicalizePath path =
     (let trimmed = trim_space path in
      if trimmed = [] \<or> trimmed = ''.'' then [] else path_clean (replace_byte trimmed (CHR 0x5C) ''/''))"

definition repo_normalizeLine :: "int \<Rightarrow> int" where
  "repo_normalizeLine v = (if v < 1 then 1 else v)"

definition repo_normalizeColumn :: "int \<Rightarrow> int" where
  "repo_normalizeColumn v = (if v < 1 then 1 else v)"

definition repo_symbol_less :: "repo_Symbol \<Rightarrow> repo_Symbol \<Rightarrow> bool" where
  "repo_symbol_less l r =
     (if ys_DocumentPath l \<noteq> ys_DocumentPath r then ys_DocumentPath l < ys_DocumentPath r
      else if ys_Kind l \<noteq> ys_Kind r then ys_Kind l < ys_Kind r
      else if ys_Name l \<noteq> ys_Name r then ys_Name l < ys_Name r
      else if ys_StartLine l \<noteq> ys_StartLine r then ys_StartLine l < ys_StartLine r
      else if ys_StartColumn l \<noteq> ys_StartColumn r then ys_StartColumn l < ys_StartColumn r
      else ys_ID l < ys_ID r)"

definition repo_reference_less :: "repo_Reference \<Rightarrow> repo_Reference \<Rightarrow> bool" where
  "repo_reference_less l r =
     (if rs_DocumentPath l \<noteq> rs_DocumentPath r then rs_DocumentPath l < rs_DocumentPath r
      else if rs_ID l \<noteq> rs_ID r then rs_ID l < rs_ID r
      else if rs_SourceSymbol l \<noteq> rs_SourceSymbol r then rs_SourceSymbol l < rs_SourceSymbol r
      else if rs_StartLine l \<noteq> rs_StartLine r then rs_StartLine l < rs_StartLine r
      else if rs_StartColumn l \<noteq> rs_StartColumn r then rs_StartColumn l < rs_StartColumn r
      else rs_Name l < rs_Name r)"

definition repo_diagnostic_less :: "repo_Diagnostic \<Rightarrow> repo_Diagnostic \<Rightarrow> bool" where
  "repo_diagnostic_less l r =
     (if ds_Path l \<noteq> ds_Path r then ds_Path l < ds_Path r
      else if ds_Code l \<noteq> ds_Code r then ds_Code l < ds_Code r
      else if ds_StartLine l \<noteq> ds_StartLine r then ds_StartLine l < ds_StartLine r
      else if ds_StartColumn l \<noteq> ds_StartColumn r then ds_StartColumn l < ds_StartColumn r
      else if ds_EndLine l \<noteq> ds_EndLine r then ds_EndLine l < ds_EndLine r
      else if ds_EndColumn l \<noteq> ds_EndColumn r then ds_EndColumn l < ds_EndColumn r
      else if ds_Severity l \<noteq> ds_Severity r then ds_Severity l < ds_Severity r
      else ds_Message l < ds_Message r)"

definition repo_edge_less :: "DependencyEdge \<Rightarrow> DependencyEdge \<Rightarrow> bool" where
  "repo_edge_less l r =
     (if de_SourcePath l \<noteq> de_SourcePath r then de_SourcePath l < de_SourcePath r
      else if de_TargetPath l \<noteq> de_TargetPath r then de_TargetPath l < de_TargetPath r
      else de_Type l < de_Type r)"

definition normal_symbol :: "repo_Symbol \<Rightarrow> repo_Symbol" where
  "normal_symbol s = s\<lparr>ys_DocumentPath := repo_canonicalizePath (ys_DocumentPath s), ys_StartLine := repo_normalizeLine (ys_StartLine s),
     ys_StartColumn := repo_normalizeColumn (ys_StartColumn s), ys_EndLine := repo_normalizeLine (ys_EndLine s), ys_EndColumn := repo_normalizeColumn (ys_EndColumn s)\<rparr>"

definition normal_reference :: "repo_Reference \<Rightarrow> repo_Reference" where
  "normal_reference r = r\<lparr>rs_DocumentPath := repo_canonicalizePath (rs_DocumentPath r), rs_StartLine := repo_normalizeLine (rs_StartLine r),
     rs_StartColumn := repo_normalizeColumn (rs_StartColumn r), rs_EndLine := repo_normalizeLine (rs_EndLine r), rs_EndColumn := repo_normalizeColumn (rs_EndColumn r)\<rparr>"

definition normal_diagnostic :: "repo_Diagnostic \<Rightarrow> repo_Diagnostic" where
  "normal_diagnostic d = d\<lparr>ds_Path := repo_canonicalizePath (ds_Path d), ds_StartLine := repo_normalizeLine (ds_StartLine d),
     ds_StartColumn := repo_normalizeColumn (ds_StartColumn d), ds_EndLine := repo_normalizeLine (ds_EndLine d), ds_EndColumn := repo_normalizeColumn (ds_EndColumn d)\<rparr>"

definition normal_edge :: "DependencyEdge \<Rightarrow> DependencyEdge" where
  "normal_edge e = e\<lparr>de_SourcePath := repo_canonicalizePath (de_SourcePath e), de_TargetPath := repo_canonicalizePath (de_TargetPath e)\<rparr>"

text \<open>\<open>now\<close> is the time of the call.\<close>

definition normalizeSnapshot :: "int \<Rightarrow> repo_Document \<Rightarrow> repo_Document" where
  "normalizeSnapshot now s =
     s\<lparr>rd_Path := repo_canonicalizePath (rd_Path s), rd_FileType := trim_space (rd_FileType s), rd_Version := trim_space (rd_Version s),
       rd_ContentHash := trim_space (rd_ContentHash s), rd_UpdatedAtUnix := now,
       rd_Symbols := map normal_symbol (sort_by repo_symbol_less (rd_Symbols s)),
       rd_References := map normal_reference (sort_by repo_reference_less (rd_References s)),
       rd_Diagnostics := map normal_diagnostic (sort_by repo_diagnostic_less (rd_Diagnostics s)),
       rd_DependencyIn := map normal_edge (sort_by repo_edge_less (rd_DependencyIn s))\<rparr>"

definition DocumentPath :: "repo_Document \<Rightarrow> string" where
  "DocumentPath s = repo_canonicalizePath (rd_Path s)"

section \<open>Tables and statements\<close>

record document_row =
  dor_path :: string
  dor_fileType :: string
  dor_version :: string
  dor_contentHash :: string
  dor_updatedAt :: int
  dor_generation :: int

text \<open>The columns that may be \<^verbatim>\<open>NULL\<close> are kept beside the row.\<close>

record database =
  db_documents :: "document_row list"
  db_symbols :: "repo_Symbol list"
  db_references :: "(repo_Reference \<times> string option \<times> string option) list"
  db_diagnostics :: "(repo_Diagnostic \<times> string option) list"
  db_edges :: "DependencyEdge list"

type_synonym statement = "database \<Rightarrow> database option"

definition has_document :: "string \<Rightarrow> database \<Rightarrow> bool" where
  "has_document path db \<longleftrightarrow> path \<in> dor_path ` set (db_documents db)"

definition repo_symbol_key where
  "repo_symbol_key s = (ys_DocumentPath s, ys_ID s, ys_StartLine s, ys_StartColumn s, ys_EndLine s, ys_EndColumn s)"

definition repo_reference_key where
  "repo_reference_key r = (rs_DocumentPath r, rs_ID r, rs_SourceSymbol r, rs_StartLine r, rs_StartColumn r, rs_EndLine r, rs_EndColumn r)"

definition repo_diagnostic_row_key where
  "repo_diagnostic_row_key d = (ds_Path d, ds_Code d, ds_Severity d, ds_Message d, ds_StartLine d, ds_StartColumn d, ds_EndLine d, ds_EndColumn d)"

definition edge_key where
  "edge_key e = (de_SourcePath e, de_TargetPath e, de_Type e)"

text \<open>A row is inserted when its primary key is new and the document it belongs to is there.\<close>

definition insert_document :: "document_row \<Rightarrow> statement" where
  "insert_document row db = (if has_document (dor_path row) db then None else Some (db\<lparr>db_documents := db_documents db @ [row]\<rparr>))"

definition insert_symbol :: "repo_Symbol \<Rightarrow> statement" where
  "insert_symbol s db =
     (if repo_symbol_key s \<in> repo_symbol_key ` set (db_symbols db) \<or> \<not> has_document (ys_DocumentPath s) db then None
      else Some (db\<lparr>db_symbols := db_symbols db @ [s]\<rparr>))"

definition insert_reference :: "repo_Reference \<times> string option \<times> string option \<Rightarrow> statement" where
  "insert_reference row db =
     (if repo_reference_key (fst row) \<in> (repo_reference_key \<circ> fst) ` set (db_references db) \<or> \<not> has_document (rs_DocumentPath (fst row)) db then None
      else Some (db\<lparr>db_references := db_references db @ [row]\<rparr>))"

definition insert_diagnostic :: "repo_Diagnostic \<times> string option \<Rightarrow> statement" where
  "insert_diagnostic row db =
     (if repo_diagnostic_row_key (fst row) \<in> (repo_diagnostic_row_key \<circ> fst) ` set (db_diagnostics db) \<or> \<not> has_document (ds_Path (fst row)) db then None
      else Some (db\<lparr>db_diagnostics := db_diagnostics db @ [row]\<rparr>))"

definition insert_edge :: "DependencyEdge \<Rightarrow> statement" where
  "insert_edge e db =
     (if edge_key e \<in> edge_key ` set (db_edges db) \<or> \<not> has_document (de_SourcePath e) db then None
      else Some (db\<lparr>db_edges := db_edges db @ [e]\<rparr>))"

definition delete_symbols :: "string \<Rightarrow> statement" where
  "delete_symbols path db = Some (db\<lparr>db_symbols := filter (\<lambda>s. ys_DocumentPath s \<noteq> path) (db_symbols db)\<rparr>)"

definition delete_references :: "string \<Rightarrow> statement" where
  "delete_references path db = Some (db\<lparr>db_references := filter (\<lambda>r. rs_DocumentPath (fst r) \<noteq> path) (db_references db)\<rparr>)"

definition delete_diagnostics :: "string \<Rightarrow> statement" where
  "delete_diagnostics path db = Some (db\<lparr>db_diagnostics := filter (\<lambda>d. ds_Path (fst d) \<noteq> path) (db_diagnostics db)\<rparr>)"

definition delete_edges_by_source :: "string \<Rightarrow> statement" where
  "delete_edges_by_source path db = Some (db\<lparr>db_edges := filter (\<lambda>e. de_SourcePath e \<noteq> path) (db_edges db)\<rparr>)"

definition delete_edges_by_target :: "string \<Rightarrow> statement" where
  "delete_edges_by_target path db = Some (db\<lparr>db_edges := filter (\<lambda>e. de_TargetPath e \<noteq> path) (db_edges db)\<rparr>)"

text \<open>Every foreign key is declared with \<^verbatim>\<open>ON DELETE CASCADE\<close>.\<close>

definition delete_document :: "string \<Rightarrow> statement" where
  "delete_document path db = Some
     \<lparr>db_documents = filter (\<lambda>d. dor_path d \<noteq> path) (db_documents db), db_symbols = filter (\<lambda>s. ys_DocumentPath s \<noteq> path) (db_symbols db),
      db_references = filter (\<lambda>r. rs_DocumentPath (fst r) \<noteq> path) (db_references db),
      db_diagnostics = filter (\<lambda>d. ds_Path (fst d) \<noteq> path) (db_diagnostics db),
      db_edges = filter (\<lambda>e. de_SourcePath e \<noteq> path) (db_edges db)\<rparr>"

text \<open>The statements of a transaction from the \<open>i\<close>-th on, and the commit.\<close>

fun run_steps :: "(nat \<Rightarrow> repo_error option) \<Rightarrow> nat \<Rightarrow> statement list \<Rightarrow> database \<Rightarrow> repo_error + database" where
  "run_steps interrupt i [] db = (case interrupt i of Some e \<Rightarrow> Inl e | None \<Rightarrow> Inr db)"
| "run_steps interrupt i (s # ss) db =
     (case interrupt i of
        Some e \<Rightarrow> Inl e
      | None \<Rightarrow> (case s db of None \<Rightarrow> Inl ConstraintFailed | Some db' \<Rightarrow> run_steps interrupt (Suc i) ss db'))"

text \<open>A transaction that fails is rolled back: the error, if any, and the database after it.\<close>

definition transact :: "(nat \<Rightarrow> repo_error option) \<Rightarrow> statement list \<Rightarrow> database \<Rightarrow> repo_error option \<times> database" where
  "transact interrupt steps db = (case run_steps interrupt 0 steps db of Inl e \<Rightarrow> (Some e, db) | Inr db' \<Rightarrow> (None, db'))"

section \<open>Writing\<close>

definition nilToEmpty :: "string \<Rightarrow> string option" where
  "nilToEmpty s = (if s = [] then None else Some s)"

definition upsertDocument :: "int \<Rightarrow> repo_Document \<Rightarrow> statement list" where
  "upsertDocument now snapshot =
     (let doc = normalizeSnapshot now snapshot in
      [delete_document (rd_Path doc),
       insert_document \<lparr>dor_path = rd_Path doc, dor_fileType = rd_FileType doc, dor_version = rd_Version doc,
         dor_contentHash = rd_ContentHash doc, dor_updatedAt = rd_UpdatedAtUnix doc, dor_generation = rd_Generation doc\<rparr>])"

definition or_path :: "string \<Rightarrow> string \<Rightarrow> string" where
  "or_path p q = (if p = [] then repo_canonicalizePath q else p)"

definition stored_symbol :: "string \<Rightarrow> repo_Symbol \<Rightarrow> repo_Symbol" where
  "stored_symbol documentPath s0 = (let s = normal_symbol s0 in s\<lparr>ys_DocumentPath := or_path (ys_DocumentPath s) documentPath\<rparr>)"

definition upsertSymbols :: "string \<Rightarrow> repo_Symbol list \<Rightarrow> statement list" where
  "upsertSymbols documentPath symbols = delete_symbols documentPath # map (\<lambda>s. insert_symbol (stored_symbol documentPath s)) symbols"

definition stored_reference :: "string \<Rightarrow> repo_Reference \<Rightarrow> repo_Reference \<times> string option \<times> string option" where
  "stored_reference documentPath r0 =
     (let r = normal_reference r0 in
      (r\<lparr>rs_DocumentPath := or_path (rs_DocumentPath r) documentPath\<rparr>, nilToEmpty (rs_TargetSymbolID r), nilToEmpty (rs_TargetPath r)))"

definition upsertReferences :: "string \<Rightarrow> repo_Reference list \<Rightarrow> statement list" where
  "upsertReferences documentPath refs = delete_references documentPath # map (\<lambda>r. insert_reference (stored_reference documentPath r)) refs"

definition stored_diagnostic :: "string \<Rightarrow> repo_Diagnostic \<Rightarrow> repo_Diagnostic \<times> string option" where
  "stored_diagnostic documentPath d0 =
     (let d = normal_diagnostic d0 in (d\<lparr>ds_Path := or_path (ds_Path d) documentPath\<rparr>, nilToEmpty (ds_RelatedSymbol d)))"

definition upsertDiagnostics :: "string \<Rightarrow> repo_Diagnostic list \<Rightarrow> statement list" where
  "upsertDiagnostics documentPath ds = delete_diagnostics documentPath # map (\<lambda>d. insert_diagnostic (stored_diagnostic documentPath d)) ds"

definition stored_edge :: "string \<Rightarrow> DependencyEdge \<Rightarrow> DependencyEdge" where
  "stored_edge sourcePath e0 = (let e = normal_edge e0 in e\<lparr>de_SourcePath := (if de_SourcePath e = [] then sourcePath else de_SourcePath e)\<rparr>)"

definition seen_key :: "DependencyEdge \<Rightarrow> string" where
  "seen_key e = de_SourcePath e @ [CHR 0x00] @ de_TargetPath e @ [CHR 0x00] @ de_Type e"

fun new_edges :: "string list \<Rightarrow> DependencyEdge list \<Rightarrow> DependencyEdge list" where
  "new_edges seen [] = []"
| "new_edges seen (e # es) = (if seen_key e \<in> set seen then new_edges seen es else e # new_edges (seen_key e # seen) es)"

definition upsertDependencyEdges :: "string \<Rightarrow> DependencyEdge list \<Rightarrow> statement list" where
  "upsertDependencyEdges documentPath edges =
     (let sourcePath = repo_canonicalizePath documentPath in
      delete_edges_by_source sourcePath # map insert_edge (new_edges [] (map (stored_edge sourcePath) edges)))"

definition upsert_steps :: "int \<Rightarrow> repo_Document \<Rightarrow> statement list" where
  "upsert_steps now s =
     upsertDocument now s @ upsertSymbols (DocumentPath s) (rd_Symbols s) @ upsertReferences (DocumentPath s) (rd_References s) @
     upsertDiagnostics (DocumentPath s) (rd_Diagnostics s) @ upsertDependencyEdges (DocumentPath s) (rd_DependencyIn s)"

text \<open>The context at the start of a call, and no database as \<^const>\<open>None\<close>.\<close>

definition UpsertDocumentSnapshot :: "(nat \<Rightarrow> repo_error option) \<Rightarrow> bool \<Rightarrow> int \<Rightarrow> repo_Document \<Rightarrow> database option \<Rightarrow>
    repo_error option \<times> database option" where
  "UpsertDocumentSnapshot interrupt cancelled now snapshot conn =
     (case conn of
        None \<Rightarrow> (Some NilDatabase, None)
      | Some db \<Rightarrow>
          if cancelled then (Some ContextCanceled, conn)
          else if trim_space (rd_Path snapshot) = [] then (Some EmptyPath, conn)
          else map_prod id Some (transact interrupt (upsert_steps now (normalizeSnapshot now snapshot)) db))"

text \<open>A document without a path ends the loop with an error, after the statements of the documents before it.\<close>

definition fail_step :: "repo_error \<Rightarrow> nat \<Rightarrow> (nat \<Rightarrow> repo_error option) \<Rightarrow> nat \<Rightarrow> repo_error option" where
  "fail_step e n interrupt i = (if i = n then Some e else interrupt i)"

definition UpsertWorkspaceSnapshot :: "(nat \<Rightarrow> repo_error option) \<Rightarrow> bool \<Rightarrow> int \<Rightarrow> repo_Document list \<Rightarrow> database option \<Rightarrow>
    repo_error option \<times> database option" where
  "UpsertWorkspaceSnapshot interrupt cancelled now docs conn =
     (case conn of
        None \<Rightarrow> (Some NilDatabase, None)
      | Some db \<Rightarrow>
          if cancelled then (Some ContextCanceled, conn)
          else let good = takeWhile (\<lambda>d. DocumentPath d \<noteq> []) docs;
                   steps = concat (map (\<lambda>d. upsert_steps now (normalizeSnapshot now d)) good);
                   interrupt' = (if length good < length docs then fail_step EmptyPath (length steps) interrupt else interrupt)
            in map_prod id Some (transact interrupt' steps db))"

text \<open>\<^verbatim>\<open>DeleteDocumentSnapshot\<close> has no \<^verbatim>\<open>Rollback\<close>: the last component says that a failed transaction is left open.\<close>

definition delete_steps :: "string \<Rightarrow> statement list" where
  "delete_steps path =
     [delete_references path, delete_symbols path, delete_diagnostics path, delete_edges_by_source path, delete_edges_by_target path,
      delete_document path]"

definition DeleteDocumentSnapshot :: "(nat \<Rightarrow> repo_error option) \<Rightarrow> bool \<Rightarrow> string \<Rightarrow> database option \<Rightarrow>
    repo_error option \<times> database option \<times> bool" where
  "DeleteDocumentSnapshot interrupt cancelled path0 conn =
     (case conn of
        None \<Rightarrow> (Some NilDatabase, None, False)
      | Some db \<Rightarrow>
          if cancelled then (Some ContextCanceled, conn, False)
          else let path = repo_canonicalizePath path0 in
            if path = [] then (Some EmptyPath, conn, False)
            else case run_steps interrupt 0 (delete_steps path) db of
                   Inl e \<Rightarrow> (Some e, conn, True)
                 | Inr db' \<Rightarrow> (None, Some db', False))"

section \<open>Reading\<close>

definition select_symbol_key where
  "select_symbol_key s = (ys_DocumentPath s, ys_Kind s, ys_Name s, ys_StartLine s, ys_StartColumn s, ys_EndLine s, ys_EndColumn s, ys_ID s)"

definition select_reference_key where
  "select_reference_key r = (rs_DocumentPath r, rs_ID r, rs_SourceSymbol r, rs_StartLine r, rs_StartColumn r, rs_EndLine r, rs_EndColumn r, rs_Name r)"

text \<open>\<^verbatim>\<open>ORDER BY\<close> the columns of a key.\<close>

definition order_by :: "('a \<Rightarrow> 'k::linorder) \<Rightarrow> 'a list \<Rightarrow> 'a list" where
  "order_by key rows = sort_by (\<lambda>a b. key a < key b) rows"

definition toSnapshot :: "document_row \<Rightarrow> repo_Document" where
  "toSnapshot r = \<lparr>rd_Path = dor_path r, rd_FileType = dor_fileType r, rd_Version = dor_version r, rd_ContentHash = dor_contentHash r,
     rd_Generation = dor_generation r, rd_UpdatedAtUnix = dor_updatedAt r, rd_Symbols = [], rd_References = [], rd_Diagnostics = [],
     rd_DependencyIn = []\<rparr>"

definition readDocumentRow :: "database \<Rightarrow> string \<Rightarrow> repo_error + document_row" where
  "readDocumentRow db path =
     (case find (\<lambda>d. dor_path d = path) (db_documents db) of None \<Rightarrow> Inl SnapshotNotFound | Some r \<Rightarrow> Inr r)"

definition readSymbols :: "database \<Rightarrow> string \<Rightarrow> repo_Symbol list" where
  "readSymbols db path = order_by select_symbol_key (filter (\<lambda>s. ys_DocumentPath s = path) (db_symbols db))"

fun scan_reference :: "repo_Reference \<times> string option \<times> string option \<Rightarrow> repo_Reference option" where
  "scan_reference (r, Some t, Some p) = Some (r\<lparr>rs_TargetSymbolID := t, rs_TargetPath := p\<rparr>)"
| "scan_reference _ = None"

fun scan_diagnostic :: "repo_Diagnostic \<times> string option \<Rightarrow> repo_Diagnostic option" where
  "scan_diagnostic (d, Some s) = Some (d\<lparr>ds_RelatedSymbol := s\<rparr>)"
| "scan_diagnostic (d, None) = None"

definition scan_all :: "('a \<Rightarrow> 'b option) \<Rightarrow> 'a list \<Rightarrow> repo_error + 'b list" where
  "scan_all f rows = (if list_all (\<lambda>r. f r \<noteq> None) rows then Inr (map (the \<circ> f) rows) else Inl ScanFailed)"

definition readReferences :: "database \<Rightarrow> string \<Rightarrow> repo_error + repo_Reference list" where
  "readReferences db path =
     scan_all scan_reference (order_by (select_reference_key \<circ> fst) (filter (\<lambda>r. rs_DocumentPath (fst r) = path) (db_references db)))"

definition readDiagnostics :: "database \<Rightarrow> string \<Rightarrow> repo_error + repo_Diagnostic list" where
  "readDiagnostics db path =
     scan_all scan_diagnostic (order_by (repo_diagnostic_row_key \<circ> fst) (filter (\<lambda>d. ds_Path (fst d) = path) (db_diagnostics db)))"

definition readDependencyEdges :: "database \<Rightarrow> string \<Rightarrow> DependencyEdge list" where
  "readDependencyEdges db path = order_by edge_key (filter (\<lambda>e. de_SourcePath e = path) (db_edges db))"

text \<open>A call that reads: \<open>fault\<close> is the error of the context or of the driver, if there is one.\<close>

definition repo_read :: "repo_error option \<Rightarrow> string \<Rightarrow> (database \<Rightarrow> string \<Rightarrow> repo_error + 'a) \<Rightarrow> database option \<Rightarrow> repo_error + 'a" where
  "repo_read fault path0 read conn =
     (case conn of
        None \<Rightarrow> Inl NilDatabase
      | Some db \<Rightarrow>
          (let path = repo_canonicalizePath path0 in
           if path = [] then Inl EmptyPath else case fault of Some e \<Rightarrow> Inl e | None \<Rightarrow> read db path))"

definition read_snapshot :: "database \<Rightarrow> string \<Rightarrow> repo_error + repo_Document" where
  "read_snapshot db path =
     (case readDocumentRow db path of
        Inl e \<Rightarrow> Inl e
      | Inr doc \<Rightarrow>
          (case readReferences db path of
             Inl e \<Rightarrow> Inl e
           | Inr refs \<Rightarrow>
               (case readDiagnostics db path of
                  Inl e \<Rightarrow> Inl e
                | Inr ds \<Rightarrow> Inr ((toSnapshot doc)\<lparr>rd_Symbols := readSymbols db path, rd_References := refs, rd_Diagnostics := ds,
                    rd_DependencyIn := readDependencyEdges db path\<rparr>))))"

definition ReadDocumentSnapshot :: "bool \<Rightarrow> repo_error option \<Rightarrow> string \<Rightarrow> database option \<Rightarrow> repo_error + repo_Document" where
  "ReadDocumentSnapshot cancelled fault path conn =
     (if conn \<noteq> None \<and> cancelled then Inl ContextCanceled else repo_read fault path read_snapshot conn)"

definition ListDocuments :: "bool \<Rightarrow> repo_error option \<Rightarrow> database option \<Rightarrow> repo_error + repo_Document list" where
  "ListDocuments cancelled fault conn =
     (case conn of
        None \<Rightarrow> Inl NilDatabase
      | Some db \<Rightarrow>
          if cancelled then Inl ContextCanceled
          else case fault of Some e \<Rightarrow> Inl e | None \<Rightarrow> Inr (map toSnapshot (order_by dor_path (db_documents db))))"

definition ReadSymbols :: "repo_error option \<Rightarrow> string \<Rightarrow> database option \<Rightarrow> repo_error + repo_Symbol list" where
  "ReadSymbols fault path conn = repo_read fault path (\<lambda>db p. Inr (readSymbols db p)) conn"

definition ReadReferences :: "repo_error option \<Rightarrow> string \<Rightarrow> database option \<Rightarrow> repo_error + repo_Reference list" where
  "ReadReferences fault path conn = repo_read fault path readReferences conn"

definition ReadDiagnostics :: "repo_error option \<Rightarrow> string \<Rightarrow> database option \<Rightarrow> repo_error + repo_Diagnostic list" where
  "ReadDiagnostics fault path conn = repo_read fault path readDiagnostics conn"

definition ReadDependencyEdges :: "repo_error option \<Rightarrow> string \<Rightarrow> database option \<Rightarrow> repo_error + DependencyEdge list" where
  "ReadDependencyEdges fault path conn = repo_read fault path (\<lambda>db p. Inr (readDependencyEdges db p)) conn"

definition DocumentPathExists :: "bool \<Rightarrow> repo_error option \<Rightarrow> string \<Rightarrow> database option \<Rightarrow> repo_error + bool" where
  "DocumentPathExists cancelled fault path conn =
     (case ReadDocumentSnapshot cancelled fault path conn of
        Inr _ \<Rightarrow> Inr True
      | Inl SnapshotNotFound \<Rightarrow> Inr False
      | Inl e \<Rightarrow> Inl e)"

end
