(* ===== verification/Go_Base64.thy ===== *)
theory Go_Base64
  imports Go_Utf8
begin

text \<open>
  \<^verbatim>\<open>encoding/base64\<close> without padding, in the standard and in the URL alphabet, and \<^verbatim>\<open>fmt.Sscan\<close> into an \<^verbatim>\<open>int\<close>.
  The decoder skips line breaks and ignores the bits that are left over.
\<close>

definition b64_char :: "bool \<Rightarrow> nat \<Rightarrow> char" where
  "b64_char url n =
     (if n < 26 then char_of (65 + n) else if n < 52 then char_of (71 + n) else if n < 62 then char_of (n - 4)
      else if n = 62 then (if url then CHR ''-'' else CHR ''+'') else (if url then CHR ''_'' else CHR ''/''))"

definition b64_value :: "bool \<Rightarrow> char \<Rightarrow> nat option" where
  "b64_value url c =
     (if is_upper c then Some (byte_of c - 65) else if is_lower c then Some (byte_of c - 71) else if is_digit c then Some (byte_of c + 4)
      else if c = (if url then CHR ''-'' else CHR ''+'') then Some 62
      else if c = (if url then CHR ''_'' else CHR ''/'') then Some 63 else None)"

fun b64_sextets :: "nat list \<Rightarrow> nat list" where
  "b64_sextets [] = []"
| "b64_sextets [a] = [a div 4, a mod 4 * 16]"
| "b64_sextets [a, b] = [a div 4, a mod 4 * 16 + b div 16, b mod 16 * 4]"
| "b64_sextets (a # b # c # r) = [a div 4, a mod 4 * 16 + b div 16, b mod 16 * 4 + c div 64, c mod 64] @ b64_sextets r"

fun b64_octets :: "nat list \<Rightarrow> nat list option" where
  "b64_octets [] = Some []"
| "b64_octets [w] = None"
| "b64_octets [w, x] = Some [w * 4 + x div 16]"
| "b64_octets [w, x, y] = Some [w * 4 + x div 16, x mod 16 * 16 + y div 4]"
| "b64_octets (w # x # y # z # r) = map_option ((@) [w * 4 + x div 16, x mod 16 * 16 + y div 4, y mod 4 * 64 + z]) (b64_octets r)"

definition b64_encode :: "bool \<Rightarrow> string \<Rightarrow> string" where
  "b64_encode url s = map (b64_char url) (b64_sextets (map byte_of s))"

definition b64_decode :: "bool \<Rightarrow> string \<Rightarrow> string option" where
  "b64_decode url s =
     (let t = map (b64_value url) (filter (\<lambda>c. c \<noteq> CHR 0x0A \<and> c \<noteq> CHR 0x0D) s) in
      if None \<in> set t then None else map_option (map char_of) (b64_octets (map the t)))"

lemma b64_value_char: "n < 64 \<Longrightarrow> b64_value url (b64_char url n) = Some n"
  by (auto simp: b64_value_def b64_char_def is_upper_def is_lower_def is_digit_def)

lemma b64_char_no_break: "n < 64 \<Longrightarrow> b64_char url n \<noteq> CHR 0x0A \<and> b64_char url n \<noteq> CHR 0x0D"
proof -
  assume "n < 64"
  then have "b64_value url (b64_char url n) \<noteq> None" by (simp add: b64_value_char)
  moreover have "b64_value url (CHR 0x0A) = None" "b64_value url (CHR 0x0D) = None"
    by (simp_all add: b64_value_def is_upper_def is_lower_def is_digit_def)
  ultimately show ?thesis by metis
qed

lemma b64_sextets_bound: "list_all (\<lambda>a. a < 256) bs \<Longrightarrow> list_all (\<lambda>n. n < 64) (b64_sextets bs)"
  by (induction bs rule: b64_sextets.induct) auto

lemma b64_octets_sextets: "list_all (\<lambda>a. a < 256) bs \<Longrightarrow> b64_octets (b64_sextets bs) = Some bs"
proof (induction bs rule: b64_sextets.induct)
  case (4 a b c r)
  have "(a mod 4 * 16 + b div 16) div 16 = a mod 4" "(b mod 16 * 4 + c div 64) div 4 = b mod 16"
    "(a mod 4 * 16 + b div 16) mod 16 = b div 16" "(b mod 16 * 4 + c div 64) mod 4 = c div 64"
    using 4 by auto
  with 4 show ?case by simp
qed auto

lemma b64_round_trip: "b64_decode url (b64_encode url s) = Some s"
proof -
  have bytes: "list_all (\<lambda>a. a < 256) (map byte_of s)" by (simp add: list_all_iff)
  let ?n = "b64_sextets (map byte_of s)"
  have n: "list_all (\<lambda>n. n < 64) ?n" by (rule b64_sextets_bound [OF bytes])
  then have "filter (\<lambda>c. c \<noteq> CHR 0x0A \<and> c \<noteq> CHR 0x0D) (b64_encode url s) = b64_encode url s"
    using b64_char_no_break by (auto simp: b64_encode_def filter_id_conv list_all_iff)
  moreover have "map (b64_value url) (b64_encode url s) = map Some ?n"
    using n b64_value_char by (auto simp: b64_encode_def list_all_iff)
  ultimately show ?thesis
    using b64_octets_sextets [OF bytes] by (auto simp: b64_decode_def Let_def comp_def)
qed

section \<open>Scanning an integer\<close>

text \<open>\<^verbatim>\<open>strconv.ParseUint\<close> with base 0: a prefix gives the base, underscores may separate digits.\<close>

definition number_base :: "string \<Rightarrow> nat \<times> string" where
  "number_base s =
     (if s \<noteq> [] \<and> hd s = CHR ''0'' then
        (if 3 \<le> length s \<and> lower_char (s ! 1) = CHR ''b'' then (2, drop 2 s)
         else if 3 \<le> length s \<and> lower_char (s ! 1) = CHR ''o'' then (8, drop 2 s)
         else if 3 \<le> length s \<and> lower_char (s ! 1) = CHR ''x'' then (16, drop 2 s)
         else (8, tl s))
      else (10, s))"

definition digit_in :: "nat \<Rightarrow> char \<Rightarrow> bool" where
  "digit_in base c \<longleftrightarrow> (case unhex c of Some d \<Rightarrow> d < base | None \<Rightarrow> False)"

fun digits_in :: "nat \<Rightarrow> string \<Rightarrow> nat \<Rightarrow> nat option" where
  "digits_in base [] n = Some n"
| "digits_in base (c # cs) n =
     (if c = CHR ''_'' then digits_in base cs n
      else if digit_in base c then digits_in base cs (n * base + the (unhex c)) else None)"

text \<open>\<^verbatim>\<open>underscoreOK\<close>: the state is whether the last character was a digit, an underscore or neither.\<close>

fun underscores_from :: "bool \<Rightarrow> bool option \<Rightarrow> string \<Rightarrow> bool" where
  "underscores_from hex st [] = (st \<noteq> Some False)"
| "underscores_from hex st (c # cs) =
     (if digit_in (if hex then 16 else 10) c then underscores_from hex (Some True) cs
      else if c = CHR ''_'' then (st = Some True \<and> underscores_from hex (Some False) cs)
      else st \<noteq> Some False \<and> underscores_from hex None cs)"

definition underscores_ok :: "string \<Rightarrow> bool" where
  "underscores_ok s =
     (if 2 \<le> length s \<and> hd s = CHR ''0'' \<and> lower_char (s ! 1) \<in> {CHR ''b'', CHR ''o'', CHR ''x''}
      then underscores_from (lower_char (s ! 1) = CHR ''x'') (Some True) (drop 2 s)
      else underscores_from False None s)"

definition parse_int_base0 :: "bool \<Rightarrow> string \<Rightarrow> int option" where
  "parse_int_base0 neg s =
     (if s = [] then None
      else case number_base s of (base, ds) \<Rightarrow>
        case digits_in base ds 0 of
          None \<Rightarrow> None
        | Some n \<Rightarrow>
            let v = (if neg then - int n else int n) in
            if CHR ''_'' \<in> set s \<and> \<not> underscores_ok s \<or> v < int64_min \<or> int64_max < v then None else Some v)"

text \<open>\<^verbatim>\<open>fmt.Sscan(s, &n)\<close>: the digits taken are those of the base that the prefix announces.\<close>

definition scan_int :: "string \<Rightarrow> int option" where
  "scan_int s =
     (let t = trim_left_space s; signed = t \<noteq> [] \<and> (hd t = CHR ''-'' \<or> hd t = CHR ''+''); neg = signed \<and> hd t = CHR ''-'';
          u = (if signed then tl t else t);
          (prefix, base) = (if u \<noteq> [] \<and> hd u = CHR ''0'' then
             (if 2 \<le> length u \<and> lower_char (u ! 1) = CHR ''b'' then (2, 2) else if 2 \<le> length u \<and> lower_char (u ! 1) = CHR ''o'' then (2, 8)
              else if 2 \<le> length u \<and> lower_char (u ! 1) = CHR ''x'' then (2, 16) else (1, 8)) else (0, 10));
          digits = takeWhile (\<lambda>c. c = CHR ''_'' \<or> digit_in base c) (drop prefix u)
      in parse_int_base0 neg (take prefix u @ digits))"

lemma digits_in_decimal: "list_all is_digit ds \<Longrightarrow> digits_in 10 ds n = Some (foldl (\<lambda>n c. 10 * n + digit_val c) n ds)"
proof (induction ds arbitrary: n)
  case (Cons c ds)
  then have "unhex c = Some (byte_of c - 48)" "byte_of c - 48 < 10" "c \<noteq> CHR ''_''" by (auto simp: unhex_def is_digit_def)
  with Cons show ?case by (simp add: digit_in_def digit_val_def mult.commute add.commute)
qed simp

lemma nat_digits_hd_zero: "hd (nat_digits n) = CHR ''0'' \<Longrightarrow> n = 0"
proof (induction n rule: nat_digits.induct)
  case (1 n)
  show ?case
  proof (cases "n < 10")
    case True
    with 1(2) have "digit_char n = CHR ''0''" by (subst (asm) nat_digits.simps) simp
    then have "byte_of (digit_char n) = byte_of (CHR ''0'')" by simp
    then show ?thesis using True by (simp add: byte_of_digit_char)
  next
    case False
    with 1(2) have "hd (nat_digits (n div 10)) = CHR ''0''" by (subst (asm) nat_digits.simps) simp
    with 1(1) False show ?thesis by auto
  qed
qed

lemma scan_int_itoa:
  assumes "0 \<le> n" "n \<le> int64_max"
  shows "scan_int (itoa n) = Some n"
proof -
  obtain c cs where d: "nat_digits (nat n) = c # cs" by (cases "nat_digits (nat n)") auto
  have all: "list_all is_digit (c # cs)" using nat_digits_all [of "nat n"] d by simp
  then have c: "is_digit c" "c \<noteq> CHR ''-''" "c \<noteq> CHR ''+''" by auto
  have i: "itoa n = c # cs" using assms d by (simp add: itoa_def)
  have "ws_head (c # cs) = 0" using c(1) by (auto simp: is_digit_def ws_head_def ascii_space_def ws2_def ws3_def split: list.splits)
  then have t: "trim_left_space (c # cs) = c # cs" by (simp add: trim_left_space_def)
  have dig: "digit_in 10 x" "x \<noteq> CHR ''_''" if "is_digit x" for x
    using that by (auto simp: digit_in_def unhex_def is_digit_def)
  show ?thesis
  proof (cases "c = CHR ''0''")
    case True
    then have "n = 0" using nat_digits_hd_zero [of "nat n"] d assms(1) by simp
    moreover have "scan_int (itoa 0) = Some 0" by code_simp
    ultimately show ?thesis by simp
  next
    case False
    have "takeWhile (\<lambda>x. x = CHR ''_'' \<or> digit_in 10 x) (c # cs) = c # cs"
      using all dig by (auto simp: takeWhile_eq_all_conv list_all_iff)
    moreover have "digits_in 10 (c # cs) 0 = Some (nat n)"
      using digits_in_decimal [OF all, of 0] digits_val_nat_digits [of "nat n"] d by (simp add: digits_val_def)
    moreover have "CHR ''_'' \<notin> set (c # cs)" using all dig by (auto simp: list_all_iff)
    ultimately show ?thesis
      using False c assms t i by (simp add: scan_int_def parse_int_base0_def number_base_def Let_def int64_min_def)
  qed
qed

end
