(* ===== verification/Repository_Query.thy ===== *)
theory Repository_Query
  imports Repository Go_Base64 Sha256 "HOL-Library.List_Lexorder"
begin

text \<open>
  \<^verbatim>\<open>internal/repository/{migrations,query,invalidation,consistency,inspect}.go\<close>: the schema, the pages of the
  queries over the tables, what a change invalidates, and digests. Executing a schema statement is an argument.
\<close>

section \<open>Migrations\<close>

record Migration =
  mg_Version :: int
  mg_Name :: string
  mg_Statements :: "string list"

definition sql_nl :: string where "sql_nl = [CHR 0x0A]"

definition CurrentSchemaVersion :: int where "CurrentSchemaVersion = 2"

definition migration_1 :: Migration where
  "migration_1 = \<lparr>mg_Version = 1, mg_Name = ''bootstrap'', mg_Statements =
      [''CREATE TABLE IF NOT EXISTS ikm_schema_version ('' @ sql_nl @
         ''    version INTEGER NOT NULL PRIMARY KEY'' @ sql_nl @
         '');'',
       ''INSERT INTO ikm_schema_version (version) VALUES (1);'',
       ''CREATE TABLE IF NOT EXISTS ikm_documents ('' @ sql_nl @
         ''    path TEXT PRIMARY KEY NOT NULL,'' @ sql_nl @
         ''    file_type TEXT NOT NULL,'' @ sql_nl @
         ''    version TEXT NOT NULL,'' @ sql_nl @
         ''    content_hash TEXT NOT NULL,'' @ sql_nl @
         ''    updated_at INTEGER NOT NULL'' @ sql_nl @
         '');'',
       ''CREATE TABLE IF NOT EXISTS ikm_symbols ('' @ sql_nl @
         ''    id TEXT NOT NULL,'' @ sql_nl @
         ''    document_path TEXT NOT NULL,'' @ sql_nl @
         ''    kind TEXT NOT NULL,'' @ sql_nl @
         ''    name TEXT NOT NULL,'' @ sql_nl @
         ''    section TEXT NOT NULL,'' @ sql_nl @
         ''    raw TEXT NOT NULL,'' @ sql_nl @
         ''    start_line INTEGER NOT NULL,'' @ sql_nl @
         ''    start_column INTEGER NOT NULL,'' @ sql_nl @
         ''    end_line INTEGER NOT NULL,'' @ sql_nl @
         ''    end_column INTEGER NOT NULL,'' @ sql_nl @
         ''    PRIMARY KEY (document_path, id, start_line, start_column, end_line, end_column),'' @ sql_nl @
         ''    FOREIGN KEY(document_path) REFERENCES ikm_documents(path) ON DELETE CASCADE'' @ sql_nl @
         '');'',
       ''CREATE TABLE IF NOT EXISTS ikm_references ('' @ sql_nl @
         ''    id TEXT NOT NULL,'' @ sql_nl @
         ''    document_path TEXT NOT NULL,'' @ sql_nl @
         ''    kind TEXT NOT NULL,'' @ sql_nl @
         ''    name TEXT NOT NULL,'' @ sql_nl @
         ''    raw TEXT NOT NULL,'' @ sql_nl @
         ''    source_symbol TEXT NOT NULL,'' @ sql_nl @
         ''    target TEXT NOT NULL,'' @ sql_nl @
         ''    target_symbol_id TEXT,'' @ sql_nl @
         ''    target_path TEXT,'' @ sql_nl @
         ''    classification TEXT NOT NULL,'' @ sql_nl @
         ''    resolved INTEGER NOT NULL,'' @ sql_nl @
         ''    is_dynamic INTEGER NOT NULL,'' @ sql_nl @
         ''    start_line INTEGER NOT NULL,'' @ sql_nl @
         ''    start_column INTEGER NOT NULL,'' @ sql_nl @
         ''    end_line INTEGER NOT NULL,'' @ sql_nl @
         ''    end_column INTEGER NOT NULL,'' @ sql_nl @
         ''    PRIMARY KEY (document_path, id, source_symbol, start_line, start_column, end_line, end_column),'' @ sql_nl @
         ''    FOREIGN KEY(document_path) REFERENCES ikm_documents(path) ON DELETE CASCADE'' @ sql_nl @
         '');'',
       ''CREATE TABLE IF NOT EXISTS ikm_diagnostics ('' @ sql_nl @
         ''    path TEXT NOT NULL,'' @ sql_nl @
         ''    code TEXT NOT NULL,'' @ sql_nl @
         ''    severity TEXT NOT NULL,'' @ sql_nl @
         ''    message TEXT NOT NULL,'' @ sql_nl @
         ''    related_symbol TEXT,'' @ sql_nl @
         ''    start_line INTEGER NOT NULL,'' @ sql_nl @
         ''    start_column INTEGER NOT NULL,'' @ sql_nl @
         ''    end_line INTEGER NOT NULL,'' @ sql_nl @
         ''    end_column INTEGER NOT NULL,'' @ sql_nl @
         ''    PRIMARY KEY (path, code, severity, message, start_line, start_column, end_line, end_column),'' @ sql_nl @
         ''    FOREIGN KEY(path) REFERENCES ikm_documents(path) ON DELETE CASCADE'' @ sql_nl @
         '');'',
       ''CREATE INDEX IF NOT EXISTS ikm_symbols_document_path_idx ON ikm_symbols (document_path);'',
       ''CREATE INDEX IF NOT EXISTS ikm_references_document_path_idx ON ikm_references (document_path);'',
       ''CREATE INDEX IF NOT EXISTS ikm_diagnostics_path_idx ON ikm_diagnostics (path);'']\<rparr>"

definition migration_2 :: Migration where
  "migration_2 = \<lparr>mg_Version = 2, mg_Name = ''dependency-edges'', mg_Statements =
      [''ALTER TABLE ikm_documents ADD COLUMN generation INTEGER NOT NULL DEFAULT 0;'',
       ''CREATE TABLE IF NOT EXISTS ikm_dependency_edges ('' @ sql_nl @
         ''    source_path TEXT NOT NULL,'' @ sql_nl @
         ''    target_path TEXT NOT NULL,'' @ sql_nl @
         ''    edge_type TEXT NOT NULL,'' @ sql_nl @
         ''    PRIMARY KEY (source_path, target_path, edge_type),'' @ sql_nl @
         ''    FOREIGN KEY(source_path) REFERENCES ikm_documents(path) ON DELETE CASCADE'' @ sql_nl @
         '');'',
       ''CREATE INDEX IF NOT EXISTS ikm_dependency_edges_source_idx ON ikm_dependency_edges (source_path);'',
       ''CREATE INDEX IF NOT EXISTS ikm_dependency_edges_target_idx ON ikm_dependency_edges (target_path);'',
       ''DELETE FROM ikm_schema_version;'',
       ''INSERT INTO ikm_schema_version (version) VALUES (2);'']\<rparr>"

definition Migrations :: "Migration list" where
  "Migrations = [migration_1, migration_2]"

definition migrationByVersion :: "int \<Rightarrow> Migration option" where
  "migrationByVersion version = find (\<lambda>m. mg_Version m = version) Migrations"

datatype version_query = VersionIs int | NoVersionRow | VersionFailed string

datatype migration_error = MigrationNoDatabase | MigrationCanceled | SchemaUnsupported int int | VersionUnreadable string
  | MigrationFailed int string | MigrationDriver string

definition currentSchemaVersion :: "version_query \<Rightarrow> migration_error + int" where
  "currentSchemaVersion q =
     (case q of
        VersionIs v \<Rightarrow> Inr v
      | NoVersionRow \<Rightarrow> Inr 0
      | VersionFailed e \<Rightarrow> if contains (to_lower e) ''no such table'' then Inr 0 else Inl (VersionUnreadable e))"

text \<open>The statements to execute, each with its migration.\<close>

definition pending :: "int \<Rightarrow> int \<Rightarrow> Migration list \<Rightarrow> (Migration \<times> string) list" where
  "pending version target ms =
     concat (map (\<lambda>m. map (\<lambda>s. (m, s)) (mg_Statements m)) (filter (\<lambda>m. version < mg_Version m \<and> mg_Version m \<le> target) ms))"

fun exec_all :: "(nat \<Rightarrow> migration_error option) \<Rightarrow> (string \<Rightarrow> 'db \<Rightarrow> 'db option) \<Rightarrow> nat \<Rightarrow> (Migration \<times> string) list \<Rightarrow> 'db \<Rightarrow>
    migration_error + 'db" where
  "exec_all interrupt exec i [] db = (case interrupt i of Some e \<Rightarrow> Inl e | None \<Rightarrow> Inr db)"
| "exec_all interrupt exec i ((m, s) # ss) db =
     (case interrupt i of
        Some e \<Rightarrow> Inl e
      | None \<Rightarrow> (case exec s db of None \<Rightarrow> Inl (MigrationFailed (mg_Version m) (mg_Name m)) | Some db' \<Rightarrow> exec_all interrupt exec (Suc i) ss db'))"

definition ApplyMigrations :: "(nat \<Rightarrow> migration_error option) \<Rightarrow> (string \<Rightarrow> 'db \<Rightarrow> 'db option) \<Rightarrow> bool \<Rightarrow> version_query \<Rightarrow> int \<Rightarrow> 'db option \<Rightarrow>
    migration_error option \<times> 'db option" where
  "ApplyMigrations interrupt exec cancelled query target conn =
     (case conn of
        None \<Rightarrow> (Some MigrationNoDatabase, None)
      | Some db \<Rightarrow>
          if target \<le> 0 then (None, conn)
          else if cancelled then (Some MigrationCanceled, conn)
          else case currentSchemaVersion query of
            Inl e \<Rightarrow> (Some e, conn)
          | Inr version \<Rightarrow>
              if target < version \<or> CurrentSchemaVersion < version then (Some (SchemaUnsupported version target), conn)
              else if version = target then (None, conn)
              else case exec_all interrupt exec 0 (pending version target Migrations) db of
                     Inl e \<Rightarrow> (Some e, conn)
                   | Inr db' \<Rightarrow> (None, Some db'))"

section \<open>Pages\<close>

record 'a repo_Page =
  pg_Items :: "'a list"
  pg_NextCursor :: string
  pg_Visited :: int

record QueryOptions =
  qo_Limit :: int
  qo_Cursor :: string
  qo_MaxVisited :: int

definition queryOffset :: "string \<Rightarrow> int" where
  "queryOffset cursor =
     (if cursor = [] then 0
      else case b64_decode True cursor of
        None \<Rightarrow> 0
      | Some b \<Rightarrow> (case scan_int b of None \<Rightarrow> 0 | Some n \<Rightarrow> if n < 0 then 0 else n))"

definition query_cursor :: "int \<Rightarrow> string" where
  "query_cursor n = b64_encode True (itoa n)"

text \<open>\<^verbatim>\<open>LIMIT ? OFFSET ?\<close>: a negative limit is none.\<close>

definition sql_page :: "int \<Rightarrow> int \<Rightarrow> 'a list \<Rightarrow> 'a list" where
  "sql_page limit offset rows =
     (let rest = drop (nat offset) rows in if limit < 0 then rest else take (nat limit) rest)"

definition query_limit :: "QueryOptions \<Rightarrow> int" where
  "query_limit o' = (if qo_Limit o' \<le> 0 then 100 else qo_Limit o')"

definition query_visited :: "QueryOptions \<Rightarrow> int" where
  "query_visited o' = (if qo_MaxVisited o' \<le> 0 then wrap64 (query_limit o' * 10) else qo_MaxVisited o')"

definition coalesce :: "string option \<Rightarrow> string" where
  "coalesce s = (case s of None \<Rightarrow> [] | Some t \<Rightarrow> t)"

definition diagnostics_by_text :: "database \<Rightarrow> repo_Diagnostic list" where
  "diagnostics_by_text db =
     map (\<lambda>(d, s). d\<lparr>ds_RelatedSymbol := coalesce s\<rparr>)
       (order_by (\<lambda>(d, s). (ds_Path d, ds_Code d, ds_Severity d, ds_Message d, ds_StartLine d, ds_StartColumn d)) (db_diagnostics db))"

text \<open>The limit is cut to what may be visited; a limit below zero makes \<^verbatim>\<open>make\<close> panic.\<close>

definition QueryDiagnostics :: "repo_error option \<Rightarrow> QueryOptions \<Rightarrow> database option \<Rightarrow> repo_error + repo_Diagnostic repo_Page" where
  "QueryDiagnostics fault o' conn =
     (case conn of
        None \<Rightarrow> Inl NilDatabase
      | Some db \<Rightarrow>
          (let visited = query_visited o'; limit = min (query_limit o') visited in
           case fault of
             Some e \<Rightarrow> Inl e
           | None \<Rightarrow>
               if limit < 0 then Inl (DriverFailed ''makeslice: cap out of range'')
               else let rows = sql_page visited (queryOffset (qo_Cursor o')) (diagnostics_by_text db); items = take (nat limit) rows in
                 Inr \<lparr>pg_Items = items,
                      pg_NextCursor = (if length items < length rows then query_cursor (int (length items)) else []),
                      pg_Visited = int (length rows)\<rparr>))"

definition QuerySymbols :: "repo_error option \<Rightarrow> QueryOptions \<Rightarrow> database option \<Rightarrow> repo_error + repo_Symbol repo_Page" where
  "QuerySymbols fault o' conn =
     (case conn of
        None \<Rightarrow> Inl NilDatabase
      | Some db \<Rightarrow>
          (case fault of
             Some e \<Rightarrow> Inl e
           | None \<Rightarrow>
               (let visited = query_visited o'; offset = queryOffset (qo_Cursor o');
                    rows = sql_page visited offset (order_by (\<lambda>s. (ys_DocumentPath s, ys_ID s, ys_StartLine s, ys_StartColumn s)) (db_symbols db));
                    items = take (nat (query_limit o')) rows in
                Inr \<lparr>pg_Items = items,
                     pg_NextCursor = (if int (length rows) = visited \<and> int (length items) = query_limit o'
                       then query_cursor (wrap64 (offset + int (length rows))) else []),
                     pg_Visited = int (length rows)\<rparr>)))"

definition first_page :: "repo_error option \<Rightarrow> QueryOptions \<Rightarrow> (database \<Rightarrow> 'a list) \<Rightarrow> database option \<Rightarrow> repo_error + 'a repo_Page" where
  "first_page fault o' rows conn =
     (case conn of
        None \<Rightarrow> Inl NilDatabase
      | Some db \<Rightarrow>
          (case fault of
             Some e \<Rightarrow> Inl e
           | None \<Rightarrow> Inr \<lparr>pg_Items = sql_page (query_limit o') 0 (rows db), pg_NextCursor = [], pg_Visited = 0\<rparr>))"

definition QueryReferences :: "repo_error option \<Rightarrow> QueryOptions \<Rightarrow> database option \<Rightarrow> repo_error + repo_Reference repo_Page" where
  "QueryReferences fault o' conn =
     first_page fault o' (\<lambda>db. map (\<lambda>(r, t, p). r\<lparr>rs_TargetSymbolID := coalesce t, rs_TargetPath := coalesce p\<rparr>)
       (order_by (\<lambda>(r, t, p). (rs_DocumentPath r, rs_ID r, rs_StartLine r, rs_StartColumn r)) (db_references db))) conn"

text \<open>SQL's \<^verbatim>\<open>LIKE\<close>: \<^verbatim>\<open>%\<close> stands for any text and \<^verbatim>\<open>_\<close> for any character; letters of ASCII match in either case.\<close>

function sql_like :: "string \<Rightarrow> string \<Rightarrow> bool" where
  "sql_like [] s \<longleftrightarrow> s = []"
| "sql_like (c # p) s \<longleftrightarrow>
     (if c = CHR ''%'' then (if s = [] then sql_like p s else sql_like p s \<or> sql_like (c # p) (tl s))
      else if s = [] then False
      else if c = CHR ''_'' then sql_like p (drop (snd (decode_rune s)) s)
      else if lower_char c = lower_char (hd s) then sql_like p (tl s) else False)"
  by pat_completeness auto
termination
  by (relation "measure (\<lambda>(p, s). length p + length s)") auto

record TextResult =
  te_Path :: string
  te_Match :: string

definition SearchText :: "repo_error option \<Rightarrow> string \<Rightarrow> QueryOptions \<Rightarrow> database option \<Rightarrow> repo_error + TextResult repo_Page" where
  "SearchText fault term o' conn =
     first_page fault o' (\<lambda>db. map (\<lambda>d. \<lparr>te_Path = ds_Path d, te_Match = ds_Message d\<rparr>)
       (order_by (\<lambda>d. (ds_Path d, ds_Message d))
         (filter (\<lambda>d. sql_like (''%'' @ term @ ''%'') (ds_Message d)) (map fst (db_diagnostics db))))) conn"

definition QueryEdges :: "repo_error option \<Rightarrow> QueryOptions \<Rightarrow> database option \<Rightarrow> repo_error + DependencyEdge repo_Page" where
  "QueryEdges fault o' conn = first_page fault o' (\<lambda>db. order_by edge_key (db_edges db)) conn"

section \<open>Changes\<close>

text \<open>A map from paths to hashes as the list of its entries; a path that is not in it has the empty hash.\<close>

definition hash_of :: "(string \<times> string) list \<Rightarrow> string \<Rightarrow> string" where
  "hash_of m p = coalesce (map_of m p)"

definition ChangedDocuments :: "(string \<times> string) list \<Rightarrow> (string \<times> string) list \<Rightarrow> string list" where
  "ChangedDocuments previous current =
     sort_strings (map fst (filter (\<lambda>(p, h). hash_of previous p \<noteq> h) current) @
       filter (\<lambda>p. p \<notin> fst ` set current) (map fst previous))"

definition sources_of :: "DependencyEdge list \<Rightarrow> string \<Rightarrow> string list" where
  "sources_of edges p = map de_SourcePath (filter (\<lambda>e. de_TargetPath e = p) edges)"

function dependents_loop :: "DependencyEdge list \<Rightarrow> string list \<Rightarrow> string list \<Rightarrow> string list" where
  "dependents_loop edges seen [] = seen"
| "dependents_loop edges seen (p # q) =
     (if p \<in> set seen then dependents_loop edges seen q
      else dependents_loop edges (p # seen) (q @ filter (\<lambda>d. d \<notin> set (p # seen)) (sources_of edges p)))"
  by pat_completeness auto
termination
proof (relation "measures [\<lambda>(edges, seen, q). card (set q \<union> de_SourcePath ` set edges - set seen), \<lambda>(edges, seen, q). length q]")
  fix edges :: "DependencyEdge list" and seen q :: "string list" and p
  assume "p \<in> set seen"
  then have "set (p # q) \<union> de_SourcePath ` set edges - set seen = set q \<union> de_SourcePath ` set edges - set seen" by auto
  then show "((edges, seen, q), edges, seen, p # q) \<in>
    measures [\<lambda>(edges, seen, q). card (set q \<union> de_SourcePath ` set edges - set seen), \<lambda>(edges, seen, q). length q]"
    by (simp del: Un_insert_left)
next
  fix edges :: "DependencyEdge list" and seen q :: "string list" and p
  assume p: "p \<notin> set seen"
  let ?new = "set (q @ filter (\<lambda>d. d \<notin> set (p # seen)) (sources_of edges p)) \<union> de_SourcePath ` set edges - set (p # seen)"
  let ?old = "set (p # q) \<union> de_SourcePath ` set edges - set seen"
  have "?new \<subseteq> ?old" "p \<in> ?old" "p \<notin> ?new" using p by (auto simp: sources_of_def)
  then have "?new \<subset> ?old" by blast
  then have "card ?new < card ?old" by (intro psubset_card_mono) auto
  then show "((edges, p # seen, q @ filter (\<lambda>d. d \<notin> set (p # seen)) (sources_of edges p)), edges, seen, p # q) \<in>
    measures [\<lambda>(edges, seen, q). card (set q \<union> de_SourcePath ` set edges - set seen), \<lambda>(edges, seen, q). length q]"
    by simp
qed simp

definition TransitiveDependents :: "string list \<Rightarrow> DependencyEdge list \<Rightarrow> string list" where
  "TransitiveDependents changed edges = sort_strings (dependents_loop edges [] changed)"

section \<open>Consistency and inspection\<close>

definition RequireGeneration :: "repo_error option \<Rightarrow> string \<Rightarrow> int \<Rightarrow> database option \<Rightarrow> repo_error option" where
  "RequireGeneration fault path generation conn =
     (case conn of
        None \<Rightarrow> Some NilDatabase
      | Some db \<Rightarrow>
          (case fault of
             Some e \<Rightarrow> Some e
           | None \<Rightarrow>
               (case find (\<lambda>d. dor_path d = repo_canonicalizePath path) (db_documents db) of
                  None \<Rightarrow> Some NoRows
                | Some d \<Rightarrow> if dor_generation d \<noteq> generation then Some StaleSnapshot else None)))"

definition CanonicalSnapshotDigest :: "(string \<times> string) list \<Rightarrow> string" where
  "CanonicalSnapshotDigest hashes =
     sha256_hex (concat (map (\<lambda>k. k @ [CHR 0x00] @ hash_of hashes k @ [CHR 0x00]) (sort_strings (map fst hashes))))"

record Inspection =
  in_Document :: repo_Document
  in_SymbolCount :: nat
  in_ReferenceCount :: nat
  in_DiagnosticCount :: nat

definition repo_Inspect :: "bool \<Rightarrow> repo_error option \<Rightarrow> string \<Rightarrow> database option \<Rightarrow> repo_error + Inspection" where
  "repo_Inspect cancelled fault path conn =
     map_sum id (\<lambda>d. \<lparr>in_Document = d, in_SymbolCount = length (rd_Symbols d), in_ReferenceCount = length (rd_References d),
       in_DiagnosticCount = length (rd_Diagnostics d)\<rparr>) (ReadDocumentSnapshot cancelled fault path conn)"

definition repo_symbol_json :: "repo_Symbol \<Rightarrow> json" where
  "repo_symbol_json s = JObj [(''ID'', JStr (ys_ID s)), (''DocumentPath'', JStr (ys_DocumentPath s)), (''Kind'', JStr (ys_Kind s)),
     (''Name'', JStr (ys_Name s)), (''Section'', JStr (ys_Section s)), (''Raw'', JStr (ys_Raw s)), (''StartLine'', JInt (ys_StartLine s)),
     (''StartColumn'', JInt (ys_StartColumn s)), (''EndLine'', JInt (ys_EndLine s)), (''EndColumn'', JInt (ys_EndColumn s))]"

definition repo_reference_json :: "repo_Reference \<Rightarrow> json" where
  "repo_reference_json r = JObj [(''ID'', JStr (rs_ID r)), (''DocumentPath'', JStr (rs_DocumentPath r)), (''Kind'', JStr (rs_Kind r)),
     (''Name'', JStr (rs_Name r)), (''Raw'', JStr (rs_Raw r)), (''SourceSymbol'', JStr (rs_SourceSymbol r)), (''Target'', JStr (rs_Target r)),
     (''TargetSymbolID'', JStr (rs_TargetSymbolID r)), (''TargetPath'', JStr (rs_TargetPath r)), (''Classification'', JStr (rs_Classification r)),
     (''Resolved'', JBool (rs_Resolved r)), (''IsDynamic'', JBool (rs_IsDynamic r)), (''StartLine'', JInt (rs_StartLine r)),
     (''StartColumn'', JInt (rs_StartColumn r)), (''EndLine'', JInt (rs_EndLine r)), (''EndColumn'', JInt (rs_EndColumn r))]"

definition repo_diagnostic_json :: "repo_Diagnostic \<Rightarrow> json" where
  "repo_diagnostic_json d = JObj [(''Path'', JStr (ds_Path d)), (''Code'', JStr (ds_Code d)), (''Severity'', JStr (ds_Severity d)),
     (''Message'', JStr (ds_Message d)), (''RelatedSymbol'', JStr (ds_RelatedSymbol d)), (''StartLine'', JInt (ds_StartLine d)),
     (''StartColumn'', JInt (ds_StartColumn d)), (''EndLine'', JInt (ds_EndLine d)), (''EndColumn'', JInt (ds_EndColumn d))]"

definition repo_edge_json :: "DependencyEdge \<Rightarrow> json" where
  "repo_edge_json e = JObj [(''SourcePath'', JStr (de_SourcePath e)), (''TargetPath'', JStr (de_TargetPath e)), (''Type'', JStr (de_Type e))]"

definition repo_document_json :: "repo_Document \<Rightarrow> json" where
  "repo_document_json d = JObj [(''Path'', JStr (rd_Path d)), (''FileType'', JStr (rd_FileType d)), (''Version'', JStr (rd_Version d)),
     (''ContentHash'', JStr (rd_ContentHash d)), (''Generation'', JInt (rd_Generation d)), (''UpdatedAtUnix'', JInt (rd_UpdatedAtUnix d)),
     (''Symbols'', JArr (map repo_symbol_json (rd_Symbols d))), (''References'', JArr (map repo_reference_json (rd_References d))),
     (''Diagnostics'', JArr (map repo_diagnostic_json (rd_Diagnostics d))), (''DependencyIn'', JArr (map repo_edge_json (rd_DependencyIn d)))]"

definition ExportSnapshot :: "bool \<Rightarrow> repo_error option \<Rightarrow> string \<Rightarrow> database option \<Rightarrow> repo_error + string" where
  "ExportSnapshot cancelled fault path conn =
     map_sum id (\<lambda>d. json_encode (repo_document_json d)) (ReadDocumentSnapshot cancelled fault path conn)"

end
