(* ===== verification/Repository_Claims.thy ===== *)
theory Repository_Claims
  imports Repository_Query
begin

text \<open>
  What the store promises: a snapshot that was written reads back in its normal form and leaves the other documents
  alone, and a change invalidates exactly what depends on it. The four tables of rows have one interface, a primary
  key that every insertion checks.
\<close>

section \<open>Statements in a row\<close>

fun apply_steps :: "statement list \<Rightarrow> database \<Rightarrow> database option" where
  "apply_steps [] db = Some db"
| "apply_steps (s # ss) db = Option.bind (s db) (apply_steps ss)"

lemma run_steps_applies: "run_steps interrupt i ss db = Inr db' \<Longrightarrow> apply_steps ss db = Some db'"
  by (induction interrupt i ss db rule: run_steps.induct) (auto split: option.splits)

lemma apply_steps_append: "apply_steps (xs @ ys) db = Option.bind (apply_steps xs db) (apply_steps ys)"
  by (induction xs arbitrary: db) (auto split: Option.bind_split)

lemma apply_steps_appendE:
  assumes "apply_steps (xs @ ys) db = Some db'"
  obtains db1 where "apply_steps xs db = Some db1" "apply_steps ys db1 = Some db'"
  using assms by (auto simp: apply_steps_append bind_eq_Some_conv)

section \<open>Tables with a primary key\<close>

locale keyed_table =
  fixes rows :: "database \<Rightarrow> 'r list" and put :: "'r list \<Rightarrow> database \<Rightarrow> database" and key :: "'r \<Rightarrow> 'k"
    and ins :: "'r \<Rightarrow> statement"
  assumes ins_Some: "ins r db = Some db' \<Longrightarrow> db' = put (rows db @ [r]) db \<and> key r \<notin> key ` set (rows db)"
    and rows_put: "rows (put rs db) = rs"
    and put_put: "put rs (put rs' db) = put rs db"
    and put_rows: "put (rows db) db = db"
begin

lemma inserts:
  "apply_steps (map ins rs) db = Some db' \<Longrightarrow>
   db' = put (rows db @ rs) db \<and> distinct (map key rs) \<and> key ` set rs \<inter> key ` set (rows db) = {}"
proof (induction rs arbitrary: db)
  case (Cons r rs)
  then obtain db1 where i: "ins r db = Some db1" and rest: "apply_steps (map ins rs) db1 = Some db'"
    by (auto simp: bind_eq_Some_conv)
  from ins_Some [OF i] have db1: "db1 = put (rows db @ [r]) db" "key r \<notin> key ` set (rows db)" by auto
  from Cons.IH [OF rest] have "db' = put (rows db1 @ rs) db1" "distinct (map key rs)" "key ` set rs \<inter> key ` set (rows db1) = {}"
    by auto
  then show ?case using db1 by (auto simp: rows_put put_put)
qed (simp add: put_rows)

lemma inserted_rows: "apply_steps (map ins rs) db = Some db' \<Longrightarrow> rows db' = rows db @ rs"
  using inserts [of rs db db'] rows_put by simp

end

interpretation symbol_table: keyed_table db_symbols "\<lambda>rs db. db\<lparr>db_symbols := rs\<rparr>" repo_symbol_key insert_symbol
  by unfold_locales (auto simp: insert_symbol_def split: if_splits)

interpretation reference_table: keyed_table db_references "\<lambda>rs db. db\<lparr>db_references := rs\<rparr>" "repo_reference_key \<circ> fst" insert_reference
  by unfold_locales (auto simp: insert_reference_def split: if_splits)

interpretation diagnostic_table: keyed_table db_diagnostics "\<lambda>rs db. db\<lparr>db_diagnostics := rs\<rparr>" "repo_diagnostic_row_key \<circ> fst" insert_diagnostic
  by unfold_locales (auto simp: insert_diagnostic_def split: if_splits)

interpretation edge_table: keyed_table db_edges "\<lambda>rs db. db\<lparr>db_edges := rs\<rparr>" edge_key insert_edge
  by unfold_locales (auto simp: insert_edge_def split: if_splits)

section \<open>What a write leaves in the tables\<close>

definition document_of :: "int \<Rightarrow> repo_Document \<Rightarrow> document_row" where
  "document_of now d = \<lparr>dor_path = rd_Path d, dor_fileType = rd_FileType d, dor_version = rd_Version d,
     dor_contentHash = rd_ContentHash d, dor_updatedAt = now, dor_generation = rd_Generation d\<rparr>"

lemma upsert_result:
  assumes "apply_steps (upsert_steps now d) db = Some db'"
  shows "db' = \<lparr>db_documents = filter (\<lambda>r. dor_path r \<noteq> rd_Path (normalizeSnapshot now d)) (db_documents db) @ [document_of now (normalizeSnapshot now d)],
      db_symbols = filter (\<lambda>s. ys_DocumentPath s \<noteq> DocumentPath d) (filter (\<lambda>s. ys_DocumentPath s \<noteq> rd_Path (normalizeSnapshot now d)) (db_symbols db)) @
        map (stored_symbol (DocumentPath d)) (rd_Symbols d),
      db_references = filter (\<lambda>r. rs_DocumentPath (fst r) \<noteq> DocumentPath d) (filter (\<lambda>r. rs_DocumentPath (fst r) \<noteq> rd_Path (normalizeSnapshot now d)) (db_references db)) @
        map (stored_reference (DocumentPath d)) (rd_References d),
      db_diagnostics = filter (\<lambda>r. ds_Path (fst r) \<noteq> DocumentPath d) (filter (\<lambda>r. ds_Path (fst r) \<noteq> rd_Path (normalizeSnapshot now d)) (db_diagnostics db)) @
        map (stored_diagnostic (DocumentPath d)) (rd_Diagnostics d),
      db_edges = filter (\<lambda>e. de_SourcePath e \<noteq> repo_canonicalizePath (DocumentPath d)) (filter (\<lambda>e. de_SourcePath e \<noteq> rd_Path (normalizeSnapshot now d)) (db_edges db)) @
        new_edges [] (map (stored_edge (repo_canonicalizePath (DocumentPath d))) (rd_DependencyIn d))\<rparr> \<and>
    distinct (map repo_symbol_key (map (stored_symbol (DocumentPath d)) (rd_Symbols d))) \<and>
    distinct (map (repo_reference_key \<circ> fst) (map (stored_reference (DocumentPath d)) (rd_References d))) \<and>
    distinct (map (repo_diagnostic_row_key \<circ> fst) (map (stored_diagnostic (DocumentPath d)) (rd_Diagnostics d)))"
proof -
  let ?p = "DocumentPath d"
  from assms obtain db1 where s1: "apply_steps (upsertDocument now d) db = Some db1" and r1: "apply_steps (upsertSymbols ?p (rd_Symbols d) @
      upsertReferences ?p (rd_References d) @ upsertDiagnostics ?p (rd_Diagnostics d) @ upsertDependencyEdges ?p (rd_DependencyIn d)) db1 = Some db'"
    unfolding upsert_steps_def by (rule apply_steps_appendE)
  from r1 obtain db2 where s2: "apply_steps (upsertSymbols ?p (rd_Symbols d)) db1 = Some db2" and r2: "apply_steps (
      upsertReferences ?p (rd_References d) @ upsertDiagnostics ?p (rd_Diagnostics d) @ upsertDependencyEdges ?p (rd_DependencyIn d)) db2 = Some db'"
    by (rule apply_steps_appendE)
  from r2 obtain db3 where s3: "apply_steps (upsertReferences ?p (rd_References d)) db2 = Some db3"
      and r3: "apply_steps (upsertDiagnostics ?p (rd_Diagnostics d) @ upsertDependencyEdges ?p (rd_DependencyIn d)) db3 = Some db'"
    by (rule apply_steps_appendE)
  from r3 obtain db4 where s4: "apply_steps (upsertDiagnostics ?p (rd_Diagnostics d)) db3 = Some db4"
      and s5: "apply_steps (upsertDependencyEdges ?p (rd_DependencyIn d)) db4 = Some db'"
    by (rule apply_steps_appendE)
  define a where "a = normalizeSnapshot now d"
  have now: "rd_UpdatedAtUnix a = now" by (simp add: a_def normalizeSnapshot_def)
  have d1: "db1 = (the (delete_document (rd_Path a) db))\<lparr>db_documents := filter (\<lambda>r. dor_path r \<noteq> rd_Path a) (db_documents db) @ [document_of now a]\<rparr>"
    using s1 now unfolding upsertDocument_def Let_def a_def [symmetric]
    by (auto simp: delete_document_def insert_document_def document_of_def split: if_splits)
  have d2: "db2 = db1\<lparr>db_symbols := filter (\<lambda>s. ys_DocumentPath s \<noteq> ?p) (db_symbols db1) @ map (stored_symbol ?p) (rd_Symbols d)\<rparr>"
    "distinct (map repo_symbol_key (map (stored_symbol ?p) (rd_Symbols d)))"
    using s2 symbol_table.inserts [of "map (stored_symbol ?p) (rd_Symbols d)" "the (delete_symbols ?p db1)" db2]
    by (auto simp: upsertSymbols_def delete_symbols_def comp_def)
  have d3: "db3 = db2\<lparr>db_references := filter (\<lambda>r. rs_DocumentPath (fst r) \<noteq> ?p) (db_references db2) @ map (stored_reference ?p) (rd_References d)\<rparr>"
    "distinct (map (repo_reference_key \<circ> fst) (map (stored_reference ?p) (rd_References d)))"
    using s3 reference_table.inserts [of "map (stored_reference ?p) (rd_References d)" "the (delete_references ?p db2)" db3]
    by (auto simp: upsertReferences_def delete_references_def comp_def)
  have d4: "db4 = db3\<lparr>db_diagnostics := filter (\<lambda>r. ds_Path (fst r) \<noteq> ?p) (db_diagnostics db3) @ map (stored_diagnostic ?p) (rd_Diagnostics d)\<rparr>"
    "distinct (map (repo_diagnostic_row_key \<circ> fst) (map (stored_diagnostic ?p) (rd_Diagnostics d)))"
    using s4 diagnostic_table.inserts [of "map (stored_diagnostic ?p) (rd_Diagnostics d)" "the (delete_diagnostics ?p db3)" db4]
    by (auto simp: upsertDiagnostics_def delete_diagnostics_def comp_def)
  let ?sp = "repo_canonicalizePath ?p"
  have d5: "db' = db4\<lparr>db_edges := filter (\<lambda>e. de_SourcePath e \<noteq> ?sp) (db_edges db4) @ new_edges [] (map (stored_edge ?sp) (rd_DependencyIn d))\<rparr>"
    using s5 edge_table.inserts [of "new_edges [] (map (stored_edge ?sp) (rd_DependencyIn d))" "the (delete_edges_by_source ?sp db4)" db']
    by (auto simp: upsertDependencyEdges_def delete_edges_by_source_def Let_def)
  show ?thesis
    using d2(2) d3(2) d4(2) unfolding d5 d4(1) d3(1) d2(1) d1 a_def [symmetric] by (simp add: delete_document_def)
qed

section \<open>Rows in order\<close>

lemma order_by_weak: "weak_order (\<lambda>a b. (key a :: 'k::linorder) < key b)"
  by unfold_locales auto

lemma order_by_perm:
  assumes "mset xs = mset ys" and "inj_on key (set xs)"
  shows "order_by key xs = order_by key ys"
  unfolding order_by_def
  by (rule weak_order.sort_by_perm [OF order_by_weak assms(1)]) (use assms(2) in \<open>auto simp: inj_on_def\<close>)

lemma map_insert_by_key:
  "k' (f x) = k x \<Longrightarrow> \<forall>z \<in> set zs. k' (f z) = k z \<Longrightarrow>
   map f (insert_by (\<lambda>a b. k a < k b) x zs) = insert_by (\<lambda>a b. k' a < k' b) (f x) (map f zs)"
  by (induction zs) auto

lemma order_by_map:
  "(\<And>x. x \<in> set xs \<Longrightarrow> k' (f x) = k x) \<Longrightarrow> map f (order_by k xs) = order_by k' (map f xs)"
proof (induction xs)
  case (Cons x xs)
  then show ?case
    using map_insert_by_key [of k' f x k "sort_by (\<lambda>a b. k a < k b) xs"] by (simp add: order_by_def)
qed (simp add: order_by_def)

lemma set_order_by [simp]: "set (order_by k xs) = set xs"
  by (simp add: order_by_def)

section \<open>Written and read back\<close>

text \<open>The rows of a document as they are stored under its path \<open>p\<close>.\<close>

definition located_symbol :: "string \<Rightarrow> repo_Symbol \<Rightarrow> repo_Symbol" where
  "located_symbol p s = (normal_symbol s)\<lparr>ys_DocumentPath := p\<rparr>"

definition located_reference :: "string \<Rightarrow> repo_Reference \<Rightarrow> repo_Reference" where
  "located_reference p r = (normal_reference r)\<lparr>rs_DocumentPath := p\<rparr>"

definition located_diagnostic :: "string \<Rightarrow> repo_Diagnostic \<Rightarrow> repo_Diagnostic" where
  "located_diagnostic p d = (normal_diagnostic d)\<lparr>ds_Path := p\<rparr>"

definition located_edge :: "string \<Rightarrow> DependencyEdge \<Rightarrow> DependencyEdge" where
  "located_edge p e = stored_edge p (normal_edge e)"

text \<open>A canonical path, rows that name the document or no document, and no empty value in a column that may be \<^verbatim>\<open>NULL\<close>.\<close>

definition belongs :: "string \<Rightarrow> string \<Rightarrow> bool" where
  "belongs p q \<longleftrightarrow> repo_canonicalizePath q = [] \<or> repo_canonicalizePath q = p"

definition storable :: "repo_Document \<Rightarrow> bool" where
  "storable s \<longleftrightarrow> repo_canonicalizePath (rd_Path s) = rd_Path s \<and> rd_Path s \<noteq> [] \<and>
     list_all (\<lambda>x. belongs (rd_Path s) (ys_DocumentPath x)) (rd_Symbols s) \<and>
     list_all (\<lambda>x. belongs (rd_Path s) (rs_DocumentPath x) \<and> rs_TargetSymbolID x \<noteq> [] \<and> rs_TargetPath x \<noteq> []) (rd_References s) \<and>
     list_all (\<lambda>x. belongs (rd_Path s) (ds_Path x) \<and> ds_RelatedSymbol x \<noteq> []) (rd_Diagnostics s) \<and>
     list_all (\<lambda>x. belongs (rd_Path s) (de_SourcePath x)) (rd_DependencyIn s)"

lemma canonical_Nil [simp]: "repo_canonicalizePath [] = []"
  by (simp add: repo_canonicalizePath_def)

lemma normal_line_idem [simp]: "repo_normalizeLine (repo_normalizeLine v) = repo_normalizeLine v" "repo_normalizeColumn (repo_normalizeColumn v) = repo_normalizeColumn v"
  by (simp_all add: repo_normalizeLine_def repo_normalizeColumn_def)

lemma belongs_or_path:
  "belongs p q \<Longrightarrow> repo_canonicalizePath p = p \<Longrightarrow> or_path (repo_canonicalizePath (repo_canonicalizePath q)) p = p"
  by (auto simp: belongs_def or_path_def)

lemma stored_symbol_located:
  "belongs p (ys_DocumentPath s) \<Longrightarrow> repo_canonicalizePath p = p \<Longrightarrow> stored_symbol p (normal_symbol s) = located_symbol p s"
  by (simp add: stored_symbol_def located_symbol_def normal_symbol_def belongs_or_path Let_def)

lemma stored_reference_located:
  "belongs p (rs_DocumentPath r) \<Longrightarrow> repo_canonicalizePath p = p \<Longrightarrow> rs_TargetSymbolID r \<noteq> [] \<Longrightarrow> rs_TargetPath r \<noteq> [] \<Longrightarrow>
   stored_reference p (normal_reference r) = (located_reference p r, Some (rs_TargetSymbolID r), Some (rs_TargetPath r))"
  by (simp add: stored_reference_def located_reference_def normal_reference_def belongs_or_path nilToEmpty_def Let_def)

lemma stored_diagnostic_located:
  "belongs p (ds_Path d) \<Longrightarrow> repo_canonicalizePath p = p \<Longrightarrow> ds_RelatedSymbol d \<noteq> [] \<Longrightarrow>
   stored_diagnostic p (normal_diagnostic d) = (located_diagnostic p d, Some (ds_RelatedSymbol d))"
  by (simp add: stored_diagnostic_def located_diagnostic_def normal_diagnostic_def belongs_or_path nilToEmpty_def Let_def)

lemma located_edge_source: "belongs p (de_SourcePath e) \<Longrightarrow> repo_canonicalizePath p = p \<Longrightarrow> de_SourcePath (located_edge p e) = p"
  by (auto simp: located_edge_def stored_edge_def normal_edge_def belongs_def Let_def)

lemma new_edges_spec:
  "set (new_edges seen es) \<subseteq> set es \<and> seen_key ` set (new_edges seen es) \<union> set seen = seen_key ` set es \<union> set seen"
  by (induction seen es rule: new_edges.induct) auto

lemma scan_all_Inr: "(\<And>r. r \<in> set rows \<Longrightarrow> f r = Some (g r)) \<Longrightarrow> scan_all f rows = Inr (map g rows)"
  by (simp add: scan_all_def list_all_iff)

lemma select_symbol_inj:
  assumes "distinct (map repo_symbol_key rows)"
  shows "inj_on select_symbol_key (set rows)"
proof (rule inj_onI)
  fix a b
  assume "a \<in> set rows" "b \<in> set rows" "select_symbol_key a = select_symbol_key b"
  then have "repo_symbol_key a = repo_symbol_key b" by (simp add: repo_symbol_key_def select_symbol_key_def)
  then show "a = b" using assms \<open>a \<in> set rows\<close> \<open>b \<in> set rows\<close> by (auto simp: distinct_map inj_on_def)
qed

lemma select_reference_inj:
  assumes "distinct (map (repo_reference_key \<circ> fst) rows)"
  shows "inj_on (select_reference_key \<circ> fst) (set rows)"
proof (rule inj_onI)
  fix a b
  assume "a \<in> set rows" "b \<in> set rows" "(select_reference_key \<circ> fst) a = (select_reference_key \<circ> fst) b"
  then have "repo_reference_key (fst a) = repo_reference_key (fst b)" by (simp add: repo_reference_key_def select_reference_key_def)
  then show "a = b" using assms \<open>a \<in> set rows\<close> \<open>b \<in> set rows\<close> by (auto simp: distinct_map inj_on_def)
qed

lemma diagnostic_row_inj: "distinct (map (repo_diagnostic_row_key \<circ> fst) rows) \<Longrightarrow> inj_on (repo_diagnostic_row_key \<circ> fst) (set rows)"
  by (auto simp: distinct_map inj_on_def)

lemma filter_other:
  "q \<noteq> p \<Longrightarrow> (\<And>x. x \<in> set rows \<Longrightarrow> f x = p) \<Longrightarrow> filter (\<lambda>x. f x = q) (filter (\<lambda>x. f x \<noteq> p) xs @ rows) = filter (\<lambda>x. f x = q) xs"
  by (induction xs) auto

lemma find_other: "q \<noteq> p \<Longrightarrow> f r = p \<Longrightarrow> find (\<lambda>x. f x = q) (filter (\<lambda>x. f x \<noteq> p) xs @ [r]) = find (\<lambda>x. f x = q) xs"
  by (induction xs) auto

text \<open>The rows of a storable document with their columns that may be \<^verbatim>\<open>NULL\<close>, its edges once each, and the
  database a write leaves.\<close>

definition reference_row :: "string \<Rightarrow> repo_Reference \<Rightarrow> repo_Reference \<times> string option \<times> string option" where
  "reference_row p r = (located_reference p r, Some (rs_TargetSymbolID r), Some (rs_TargetPath r))"

definition diagnostic_entry :: "string \<Rightarrow> repo_Diagnostic \<Rightarrow> repo_Diagnostic \<times> string option" where
  "diagnostic_entry p d = (located_diagnostic p d, Some (ds_RelatedSymbol d))"

definition edges_once :: "repo_Document \<Rightarrow> DependencyEdge list" where
  "edges_once s = new_edges [] (map (located_edge (rd_Path s)) (sort_by repo_edge_less (rd_DependencyIn s)))"

definition after_write :: "int \<Rightarrow> repo_Document \<Rightarrow> database \<Rightarrow> database" where
  "after_write now s db = (let p = rd_Path s in
     \<lparr>db_documents = filter (\<lambda>r. dor_path r \<noteq> p) (db_documents db) @ [document_of now (normalizeSnapshot now (normalizeSnapshot now s))],
      db_symbols = filter (\<lambda>s. ys_DocumentPath s \<noteq> p) (db_symbols db) @ map (located_symbol p) (sort_by repo_symbol_less (rd_Symbols s)),
      db_references = filter (\<lambda>r. rs_DocumentPath (fst r) \<noteq> p) (db_references db) @ map (reference_row p) (sort_by repo_reference_less (rd_References s)),
      db_diagnostics = filter (\<lambda>d. ds_Path (fst d) \<noteq> p) (db_diagnostics db) @ map (diagnostic_entry p) (sort_by repo_diagnostic_less (rd_Diagnostics s)),
      db_edges = filter (\<lambda>e. de_SourcePath e \<noteq> p) (db_edges db) @ edges_once s\<rparr>)"

lemma after_write_simps:
  "db_documents (after_write now s db) = filter (\<lambda>r. dor_path r \<noteq> rd_Path s) (db_documents db) @ [document_of now (normalizeSnapshot now (normalizeSnapshot now s))]"
  "db_symbols (after_write now s db) = filter (\<lambda>x. ys_DocumentPath x \<noteq> rd_Path s) (db_symbols db) @ map (located_symbol (rd_Path s)) (sort_by repo_symbol_less (rd_Symbols s))"
  "db_references (after_write now s db) = filter (\<lambda>r. rs_DocumentPath (fst r) \<noteq> rd_Path s) (db_references db) @ map (reference_row (rd_Path s)) (sort_by repo_reference_less (rd_References s))"
  "db_diagnostics (after_write now s db) = filter (\<lambda>d. ds_Path (fst d) \<noteq> rd_Path s) (db_diagnostics db) @ map (diagnostic_entry (rd_Path s)) (sort_by repo_diagnostic_less (rd_Diagnostics s))"
  "db_edges (after_write now s db) = filter (\<lambda>e. de_SourcePath e \<noteq> rd_Path s) (db_edges db) @ edges_once s"
  by (simp_all add: after_write_def Let_def)

lemma row_paths [simp]:
  "ys_DocumentPath (located_symbol p y) = p" "rs_DocumentPath (fst (reference_row p r)) = p" "ds_Path (fst (diagnostic_entry p g)) = p"
  by (simp_all add: located_symbol_def reference_row_def located_reference_def diagnostic_entry_def located_diagnostic_def)

lemma storable_path: "storable s \<Longrightarrow> repo_canonicalizePath (rd_Path s) = rd_Path s" "storable s \<Longrightarrow> rd_Path s \<noteq> []"
  by (auto simp: storable_def)

lemma storable_normal:
  assumes "storable s"
  shows "DocumentPath (normalizeSnapshot now s) = rd_Path s" "rd_Path (normalizeSnapshot now (normalizeSnapshot now s)) = rd_Path s"
  using storable_path [OF assms] by (simp_all add: DocumentPath_def normalizeSnapshot_def)

lemma edges_once_spec:
  "set (edges_once s) \<subseteq> located_edge (rd_Path s) ` set (rd_DependencyIn s)"
  "seen_key ` set (edges_once s) = seen_key ` located_edge (rd_Path s) ` set (rd_DependencyIn s)"
  using new_edges_spec [of "[]" "map (located_edge (rd_Path s)) (sort_by repo_edge_less (rd_DependencyIn s))"] by (auto simp: edges_once_def)

lemma edges_once_source: "storable s \<Longrightarrow> e \<in> set (edges_once s) \<Longrightarrow> de_SourcePath e = rd_Path s"
  using edges_once_spec(1) [of s] storable_path(1) [of s]
  by (auto simp: storable_def list_all_iff dest!: subsetD intro: located_edge_source)

lemma written:
  assumes "storable s" and "UpsertDocumentSnapshot interrupt False now s (Some db) = (None, Some db')"
  shows "db' = after_write now s db"
    and "distinct (map repo_symbol_key (map (located_symbol (rd_Path s)) (sort_by repo_symbol_less (rd_Symbols s))))"
    and "distinct (map (repo_reference_key \<circ> fst) (map (reference_row (rd_Path s)) (sort_by repo_reference_less (rd_References s))))"
    and "distinct (map (repo_diagnostic_row_key \<circ> fst) (map (diagnostic_entry (rd_Path s)) (sort_by repo_diagnostic_less (rd_Diagnostics s))))"
proof -
  let ?p = "rd_Path s" and ?d = "normalizeSnapshot now s"
  note p = storable_path [OF assms(1)] and dp = storable_normal [OF assms(1)]
  have rows: "rd_Symbols ?d = map normal_symbol (sort_by repo_symbol_less (rd_Symbols s))"
    "rd_References ?d = map normal_reference (sort_by repo_reference_less (rd_References s))"
    "rd_Diagnostics ?d = map normal_diagnostic (sort_by repo_diagnostic_less (rd_Diagnostics s))"
    "rd_DependencyIn ?d = map normal_edge (sort_by repo_edge_less (rd_DependencyIn s))" by (simp_all add: normalizeSnapshot_def)
  have kept: "map (stored_symbol ?p) (rd_Symbols ?d) = map (located_symbol ?p) (sort_by repo_symbol_less (rd_Symbols s))"
    "map (stored_reference ?p) (rd_References ?d) = map (reference_row ?p) (sort_by repo_reference_less (rd_References s))"
    "map (stored_diagnostic ?p) (rd_Diagnostics ?d) = map (diagnostic_entry ?p) (sort_by repo_diagnostic_less (rd_Diagnostics s))"
    "map (stored_edge ?p) (rd_DependencyIn ?d) = map (located_edge ?p) (sort_by repo_edge_less (rd_DependencyIn s))"
    using assms(1) p by (auto simp: rows storable_def list_all_iff stored_symbol_located stored_reference_located stored_diagnostic_located
        reference_row_def diagnostic_entry_def located_edge_def)
  have "trim_space ?p \<noteq> []" using p by (auto simp: repo_canonicalizePath_def)
  then have "apply_steps (upsert_steps now ?d) db = Some db'"
    using assms(2) by (auto simp: UpsertDocumentSnapshot_def transact_def split: sum.splits dest: run_steps_applies)
  from upsert_result [OF this] show "db' = after_write now s db"
    and "distinct (map repo_symbol_key (map (located_symbol ?p) (sort_by repo_symbol_less (rd_Symbols s))))"
    and "distinct (map (repo_reference_key \<circ> fst) (map (reference_row ?p) (sort_by repo_reference_less (rd_References s))))"
    and "distinct (map (repo_diagnostic_row_key \<circ> fst) (map (diagnostic_entry ?p) (sort_by repo_diagnostic_less (rd_Diagnostics s))))"
    unfolding dp p(1) kept edges_once_def [symmetric] after_write_def Let_def by (simp_all add: filter_filter)
qed

text \<open>What the queries find afterwards: the document, its rows in the order of the query, and the rows of other documents.\<close>

lemma document_read_after: "storable s \<Longrightarrow> readDocumentRow (after_write now s db) (rd_Path s) =
    Inr (document_of now (normalizeSnapshot now (normalizeSnapshot now s)))"
proof -
  assume "storable s"
  then have "find (\<lambda>r. dor_path r = rd_Path s) (filter (\<lambda>r. dor_path r \<noteq> rd_Path s) xs @ [document_of now (normalizeSnapshot now (normalizeSnapshot now s))]) =
      Some (document_of now (normalizeSnapshot now (normalizeSnapshot now s)))" for xs
    by (induction xs) (auto simp: document_of_def storable_normal)
  then show ?thesis by (simp add: readDocumentRow_def after_write_simps)
qed

lemma symbols_read_after:
  assumes "distinct (map repo_symbol_key (map (located_symbol (rd_Path s)) (sort_by repo_symbol_less (rd_Symbols s))))"
  shows "readSymbols (after_write now s db) (rd_Path s) = order_by select_symbol_key (map (located_symbol (rd_Path s)) (rd_Symbols s))"
  using order_by_perm [OF _ select_symbol_inj [OF assms], of "map (located_symbol (rd_Path s)) (rd_Symbols s)"]
  by (simp add: readSymbols_def after_write_simps filter_True comp_def)

text \<open>The rows of a table of pairs, inserted in one order and read in the order of the query.\<close>

lemma scanned_in_order:
  assumes "mset xs = mset ys" and "inj_on (k \<circ> fst) (set (map row xs))"
    and "\<And>x. scan (row x) = Some (fst (row x))"
  shows "scan_all scan (order_by (k \<circ> fst) (map row xs)) = Inr (order_by k (map (fst \<circ> row) ys))"
proof -
  have "order_by (k \<circ> fst) (map row xs) = order_by (k \<circ> fst) (map row ys)"
    by (rule order_by_perm [OF _ assms(2)]) (use assms(1) in simp)
  moreover have "scan_all scan (order_by (k \<circ> fst) (map row ys)) = Inr (map fst (order_by (k \<circ> fst) (map row ys)))"
    by (intro scan_all_Inr) (auto simp: assms(3))
  moreover have "map fst (order_by (k \<circ> fst) (map row ys)) = order_by k (map fst (map row ys))" by (rule order_by_map) simp
  ultimately show ?thesis by simp
qed

lemma references_read_after:
  assumes "distinct (map (repo_reference_key \<circ> fst) (map (reference_row (rd_Path s)) (sort_by repo_reference_less (rd_References s))))"
  shows "readReferences (after_write now s db) (rd_Path s) = Inr (order_by select_reference_key (map (located_reference (rd_Path s)) (rd_References s)))"
proof -
  have "scan_reference (reference_row p x) = Some (fst (reference_row p x))" for p x
    by (simp add: reference_row_def located_reference_def normal_reference_def)
  from scanned_in_order [OF mset_sort_by select_reference_inj [OF assms] this]
  show ?thesis by (simp add: readReferences_def after_write_simps filter_True comp_def) (simp add: reference_row_def)
qed

lemma diagnostics_read_after:
  assumes "distinct (map (repo_diagnostic_row_key \<circ> fst) (map (diagnostic_entry (rd_Path s)) (sort_by repo_diagnostic_less (rd_Diagnostics s))))"
  shows "readDiagnostics (after_write now s db) (rd_Path s) = Inr (order_by repo_diagnostic_row_key (map (located_diagnostic (rd_Path s)) (rd_Diagnostics s)))"
proof -
  have "scan_diagnostic (diagnostic_entry p x) = Some (fst (diagnostic_entry p x))" for p x
    by (simp add: diagnostic_entry_def located_diagnostic_def normal_diagnostic_def)
  from scanned_in_order [OF mset_sort_by diagnostic_row_inj [OF assms] this]
  show ?thesis by (simp add: readDiagnostics_def after_write_simps filter_True comp_def) (simp add: diagnostic_entry_def)
qed

lemma edges_read_after: "storable s \<Longrightarrow> readDependencyEdges (after_write now s db) (rd_Path s) = order_by edge_key (edges_once s)"
  by (simp add: readDependencyEdges_def after_write_simps edges_once_source filter_True)

lemma other_read_after:
  assumes "storable s" and "q \<noteq> rd_Path s"
  shows "read_snapshot (after_write now s db) q = read_snapshot db q"
proof -
  let ?a = "after_write now s db"
  have path: "dor_path (document_of now (normalizeSnapshot now (normalizeSnapshot now s))) = rd_Path s"
    using assms(1) by (simp add: document_of_def storable_normal)
  have doc: "readDocumentRow ?a q = readDocumentRow db q"
    using find_other [where f = dor_path, OF assms(2) path] by (simp add: readDocumentRow_def after_write_simps)
  have "filter (\<lambda>x. ys_DocumentPath x = q) (db_symbols ?a) = filter (\<lambda>x. ys_DocumentPath x = q) (db_symbols db)"
    unfolding after_write_simps by (rule filter_other [OF assms(2)]) auto
  moreover have "filter (\<lambda>x. rs_DocumentPath (fst x) = q) (db_references ?a) = filter (\<lambda>x. rs_DocumentPath (fst x) = q) (db_references db)"
    unfolding after_write_simps by (rule filter_other [OF assms(2)]) auto
  moreover have "filter (\<lambda>x. ds_Path (fst x) = q) (db_diagnostics ?a) = filter (\<lambda>x. ds_Path (fst x) = q) (db_diagnostics db)"
    unfolding after_write_simps by (rule filter_other [OF assms(2)]) auto
  moreover have "filter (\<lambda>x. de_SourcePath x = q) (db_edges ?a) = filter (\<lambda>x. de_SourcePath x = q) (db_edges db)"
    unfolding after_write_simps by (rule filter_other [OF assms(2)]) (simp add: edges_once_source [OF assms(1)])
  ultimately have "readSymbols ?a q = readSymbols db q" "readReferences ?a q = readReferences db q"
    "readDiagnostics ?a q = readDiagnostics db q" "readDependencyEdges ?a q = readDependencyEdges db q"
    by (simp_all add: readSymbols_def readReferences_def readDiagnostics_def readDependencyEdges_def)
  with doc show ?thesis unfolding read_snapshot_def by (simp only:)
qed


definition demo_database :: database where
  "demo_database = \<lparr>db_documents = [], db_symbols = [], db_references = [], db_diagnostics = [], db_edges = []\<rparr>"

definition stored_demo_symbol :: repo_Symbol where
  "stored_demo_symbol = \<lparr>ys_ID = ''i'', ys_DocumentPath = [], ys_Kind = ''state'', ys_Name = ''n'', ys_Section = [], ys_Raw = [],
     ys_StartLine = 0, ys_StartColumn = 1, ys_EndLine = 1, ys_EndColumn = 2\<rparr>"

definition stored_demo_document :: "repo_Reference list \<Rightarrow> repo_Document" where
  "stored_demo_document refs = \<lparr>rd_Path = ''a'', rd_FileType = ''cns'', rd_Version = ''1'', rd_ContentHash = ''h'', rd_Generation = 1, rd_UpdatedAtUnix = 0,
     rd_Symbols = [stored_demo_symbol], rd_References = refs, rd_Diagnostics = [], rd_DependencyIn = []\<rparr>"

lemma demo_storable: "storable (stored_demo_document [])"
  by code_simp

lemma demo_written: "\<exists>db'. UpsertDocumentSnapshot (\<lambda>_. None) False 7 (stored_demo_document []) (Some demo_database) = (None, Some db')"
proof -
  have "fst (UpsertDocumentSnapshot (\<lambda>_. None) False 7 (stored_demo_document []) (Some demo_database)) = None" by code_simp
  moreover have "snd (UpsertDocumentSnapshot (\<lambda>_. None) False 7 (stored_demo_document []) (Some demo_database)) \<noteq> None"
    by (simp add: UpsertDocumentSnapshot_def)
  ultimately show ?thesis by (metis option.exhaust prod.collapse)
qed


section \<open>What a change invalidates\<close>

definition depends_on :: "DependencyEdge list \<Rightarrow> (string \<times> string) set" where
  "depends_on edges = (\<lambda>e. (de_TargetPath e, de_SourcePath e)) ` set edges"

lemma dependents_loop_sound:
  "x \<in> set (dependents_loop edges seen q) \<Longrightarrow> x \<in> set seen \<or> (\<exists>p \<in> set q. (p, x) \<in> (depends_on edges)\<^sup>*)"
proof (induction edges seen q rule: dependents_loop.induct)
  case (2 edges seen p q)
  show ?case
  proof (cases "p \<in> set seen")
    case False
    have "(p, d) \<in> depends_on edges" if "d \<in> set (sources_of edges p)" for d
      using that by (force simp: sources_of_def depends_on_def)
    with 2 False show ?thesis by (auto dest: converse_rtrancl_into_rtrancl)
  qed (use 2 in auto)
qed simp

lemma dependents_loop_closed:
  "(\<And>p d. p \<in> set seen \<Longrightarrow> (p, d) \<in> depends_on edges \<Longrightarrow> d \<in> set seen \<union> set q) \<Longrightarrow>
   set seen \<union> set q \<subseteq> set (dependents_loop edges seen q) \<and>
   (\<forall>p d. p \<in> set (dependents_loop edges seen q) \<longrightarrow> (p, d) \<in> depends_on edges \<longrightarrow> d \<in> set (dependents_loop edges seen q))"
proof (induction edges seen q rule: dependents_loop.induct)
  case (2 edges seen p q)
  show ?case
  proof (cases "p \<in> set seen")
    case True
    with 2(1) [OF True] 2(3) show ?thesis by (auto simp: insert_absorb)
  next
    case False
    have "d \<in> set (p # seen) \<union> set (q @ filter (\<lambda>d. d \<notin> set (p # seen)) (sources_of edges p))"
      if "p' \<in> set (p # seen)" "(p', d) \<in> depends_on edges" for p' d
      using that 2(3) by (force simp: sources_of_def depends_on_def)
    from 2(2) [OF False this] False show ?thesis by auto
  qed
qed auto

lemma distinct_dependents: "distinct seen \<Longrightarrow> distinct (dependents_loop edges seen q)"
  by (induction edges seen q rule: dependents_loop.induct) auto

text \<open>C31: The transitive dependents of a change are the changed paths and everything that depends on one of them, directly
  or through others, each once and in order.\<close>

theorem transitive_dependents_exact:
  "set (TransitiveDependents changed edges) = (depends_on edges)\<^sup>* `` set changed \<and>
   distinct (TransitiveDependents changed edges) \<and> sorted (TransitiveDependents changed edges)"
proof -
  have closed: "set changed \<subseteq> set (dependents_loop edges [] changed)"
    "\<And>p d. p \<in> set (dependents_loop edges [] changed) \<Longrightarrow> (p, d) \<in> depends_on edges \<Longrightarrow> d \<in> set (dependents_loop edges [] changed)"
    using dependents_loop_closed [of "[]" edges changed] by auto
  have "x \<in> set (dependents_loop edges [] changed)" if "(p, x) \<in> (depends_on edges)\<^sup>*" "p \<in> set changed" for p x
    using that by (induction rule: rtrancl_induct) (use closed in auto)
  moreover have "distinct (TransitiveDependents changed edges)"
    using distinct_dependents [of "[]" edges changed] unfolding TransitiveDependents_def
    by (metis distinct.simps(1) mset_eq_imp_distinct_iff mset_sort_strings)
  ultimately show ?thesis
    using dependents_loop_sound [of _ edges "[]" changed] by (auto simp: TransitiveDependents_def sorted_sort_strings Image_iff)
qed

section \<open>What the store does not do\<close>

text \<open>A document with an unresolved reference cannot be read: the empty target is stored as \<^verbatim>\<open>NULL\<close>.\<close>

definition stored_demo_reference :: repo_Reference where
  "stored_demo_reference = \<lparr>rs_ID = ''r'', rs_DocumentPath = [], rs_Kind = ''state'', rs_Name = ''9'', rs_Raw = ''9'', rs_SourceSymbol = ''i'',
     rs_Target = ''9'', rs_TargetSymbolID = [], rs_TargetPath = [], rs_Classification = ''unresolved'', rs_Resolved = False,
     rs_IsDynamic = False, rs_StartLine = 1, rs_StartColumn = 1, rs_EndLine = 1, rs_EndColumn = 2\<rparr>"

lemma unresolved_reference_unreadable:
  "case UpsertDocumentSnapshot (\<lambda>_. None) False 7 (stored_demo_document [stored_demo_reference]) (Some demo_database) of
     (e, conn) \<Rightarrow> e = None \<and> ReadDocumentSnapshot False None ''a'' conn = Inl ScanFailed"
  by code_simp

text \<open>The cursor of a page of diagnostics does not depend on where the page begins: every page after the first one
  that is cut short has the same cursor.\<close>

lemma diagnostics_cursor:
  "QueryDiagnostics None o' (Some db) = Inr page \<Longrightarrow> pg_NextCursor page = [] \<or> pg_NextCursor page = query_cursor (int (length (pg_Items page)))"
  by (auto simp only: QueryDiagnostics_def Let_def option.case sum.inject repo_Page.select_convs split: if_splits)

lemma diagnostics_cursor_stuck:
  assumes "QueryDiagnostics None o' (Some db) = Inr page" and "QueryDiagnostics None (o'\<lparr>qo_Cursor := c\<rparr>) (Some db) = Inr page'"
    and "pg_NextCursor page \<noteq> []" and "pg_NextCursor page' \<noteq> []" and "length (pg_Items page) = length (pg_Items page')"
  shows "pg_NextCursor page' = pg_NextCursor page"
  using diagnostics_cursor [OF assms(1)] diagnostics_cursor [OF assms(2)] assms(3-5) by simp

text \<open>A page of symbols shows the first hundred of the thousand rows it visits, and the next page begins after the thousand.\<close>

lemma symbols_skipped:
  assumes "1000 \<le> length (db_symbols db)"
  shows "\<exists>page. QuerySymbols None \<lparr>qo_Limit = 100, qo_Cursor = [], qo_MaxVisited = 0\<rparr> (Some db) = Inr page \<and>
    length (pg_Items page) = 100 \<and> pg_NextCursor page = query_cursor 1000"
  using assms by (simp add: QuerySymbols_def Let_def query_limit_def query_visited_def sql_page_def queryOffset_def wrap64_def order_by_def)

text \<open>A deletion that fails half-way leaves its transaction open.\<close>

lemma failed_delete_left_open:
  "repo_canonicalizePath p \<noteq> [] \<Longrightarrow>
   DeleteDocumentSnapshot (\<lambda>i. if i = 2 then Some (DriverFailed e) else None) False p (Some db) = (Some (DriverFailed e), Some db, True)"
  by (simp add: DeleteDocumentSnapshot_def delete_steps_def delete_references_def delete_symbols_def Let_def)

text \<open>A new document with an empty hash has not changed.\<close>

lemma empty_hash_unchanged: "ChangedDocuments [] [(p, [])] = []"
  by (simp add: ChangedDocuments_def hash_of_def coalesce_def sort_strings_def)

text \<open>The term of a search is a pattern.\<close>

lemma term_is_pattern: "sql_like (''%'' @ ''a_c'' @ ''%'') ''abc''"
  by code_simp

text \<open>Normalizing a path twice is not normalizing it once.\<close>

lemma path_normalized_twice: "repo_canonicalizePath ''./'' = ''.'' \<and> repo_canonicalizePath ''.'' = []"
  by code_simp

end
