(* ===== verification/Mcp.thy ===== *)
theory Mcp
  imports Lsp_Server Capability Mutation Oracle Go_Base64
begin

text \<open>
  \<^verbatim>\<open>internal/mcp/server.go\<close>: the MCP server, a facade over the language server. Its state is the language server's
  documents, the registry of tools, the root it is confined to and, when it was started with write authority, an
  authorizer; a request may change these and the file system. A result is the JSON it is written as. What the server
  asks of its surroundings (\<^verbatim>\<open>url.Parse\<close>, the order of Go's maps, the working directory, the links of the file system,
  the text of a failed preview or transaction) is the record \<open>mcp_world\<close>; what the context answers at the start of a
  request, at the call it makes and later is a triple. Conversions of a float64 outside of \<^verbatim>\<open>int64\<close> are those of amd64.
\<close>

datatype mcp_failure = PreviewFailed patch_error | IssueFailed mutation_error | ApplyRefused mutation_error

record mcp_world =
  mw_url :: lsp_url
  mw_order :: lsp_order
  mw_cwd :: "string option"
  mw_os :: os_view
  mw_text :: "mcp_failure \<Rightarrow> string"

record mcp_Server =
  ms_docs :: lsp_docs
  ms_version :: string
  ms_registry :: "capabilities option"
  ms_root :: string
  ms_allowWrite :: bool
  ms_authorizer :: "Authorizer option"

section \<open>Frames\<close>

datatype mcp_frame_error = McpEOF | McpFrameTooLarge | McpMalformedFrame

text \<open>The last message of a stream need not end in a newline.\<close>

definition mcp_ReadFrame :: "string \<Rightarrow> (mcp_frame_error + string) \<times> string" where
  "mcp_ReadFrame s =
     (case index_byte s (CHR 0x0A) of
        None \<Rightarrow>
          if s = [] then (Inl McpEOF, [])
          else if MaxFrameSize + 1 < int (length s) then (Inl McpFrameTooLarge, [])
          else let body = trim_suffix s [CHR 0x0D] in
            (if body = [] then Inl McpMalformedFrame else Inr body, [])
      | Some i \<Rightarrow>
          let rest = drop (Suc i) s in
          if MaxFrameSize + 1 < int (Suc i) then (Inl McpFrameTooLarge, rest)
          else let body = trim_suffix (take i s) [CHR 0x0D] in
            (if body = [] then Inl McpMalformedFrame else Inr body, rest))"

definition mcp_WriteFrame :: "string \<Rightarrow> mcp_frame_error + string" where
  "mcp_WriteFrame body =
     (if body = [] \<or> MaxFrameSize < int (length body) \<or> CHR 0x0A \<in> set body \<or> CHR 0x0D \<in> set body then Inl McpMalformedFrame
      else Inr (body @ [CHR 0x0A]))"

section \<open>Responses\<close>

datatype mcp_Response = McpResult (mcp_id: json) json | McpError (mcp_id: json) int string "json option"

definition mcp_response_json :: "mcp_Response \<Rightarrow> json" where
  "mcp_response_json r =
     (case r of
        McpResult i v \<Rightarrow> JObj [(''jsonrpc'', JStr ''2.0''), (''id'', i), (''result'', v)]
      | McpError i code message data \<Rightarrow>
          JObj [(''jsonrpc'', JStr ''2.0''), (''id'', i),
            (''error'', JObj ([(''code'', JInt code), (''message'', JStr message)] @
               (case data of None \<Rightarrow> [] | Some d \<Rightarrow> [(''data'', d)])))])"

definition errorResponse :: "json \<Rightarrow> int \<Rightarrow> string \<Rightarrow> mcp_Response" where
  "errorResponse i code message = McpError i code message None"

definition from_lsp :: "lsp_result lsp_Response \<Rightarrow> mcp_Response" where
  "from_lsp r =
     (case r of Answer i v \<Rightarrow> McpResult i (result_json v) | Refusal i e \<Rightarrow> McpError i (le_Code e) (le_Message e) None)"

section \<open>Starting a server\<close>

definition NewServerWithVersion :: "string \<Rightarrow> mcp_Server" where
  "NewServerWithVersion version =
     \<lparr>ms_docs = lsp_NewServer, ms_version = (if trim_space version = [] then ''0.0.0-dev'' else version), ms_registry = DefaultRegistry,
      ms_root = [], ms_allowWrite = False, ms_authorizer = None\<rparr>"

definition write_tools :: "string list" where
  "write_tools = [''patch_preview'', ''patch_apply'', ''rename_prepare'', ''fix_prepare'']"

definition write_descriptor :: "string \<Rightarrow> Descriptor" where
  "write_descriptor name =
     \<lparr>de_Name = name, de_Description = ''Explicitly authorized workspace mutation operation.'',
      de_Authorization = \<lparr>az_Authority = AuthorityWrite, az_RequiresApproval = True\<rparr>,
      de_Input = object_schema [] [], de_Output = object_schema [] [],
      de_Budget = \<lparr>bu_MaxItems = 1000, bu_MaxBytes = 1048576, bu_MaxDuration = ''30s''\<rparr>,
      de_Pagination = \<lparr>pg_Supported = False, pg_DefaultSize = 0, pg_MaximumSize = 0\<rparr>,
      de_Ordering = \<lparr>or_Keys = [''path''], or_Stable = True, or_Descending = False\<rparr>\<rparr>"

definition NewServerWithPolicy :: "string \<Rightarrow> bool \<Rightarrow> mcp_Server" where
  "NewServerWithPolicy version allowWrite =
     (let s = (NewServerWithVersion version)\<lparr>ms_allowWrite := allowWrite\<rparr> in
      if allowWrite
      then s\<lparr>ms_authorizer := Some (NewAuthorizer True),
             ms_registry := register_all (capability_Register \<circ> write_descriptor) write_tools (ms_registry s)\<rparr>
      else s)"

text \<open>None when the working directory cannot be read.\<close>

definition SetRoot :: "string option \<Rightarrow> string \<Rightarrow> mcp_Server \<Rightarrow> mcp_Server option" where
  "SetRoot cwd root s =
     (if trim_space root = [] then Some (s\<lparr>ms_root := []\<rparr>)
      else map_option (\<lambda>a. s\<lparr>ms_root := path_clean a\<rparr>) (abs_path cwd root))"

definition NewServerWithRoot :: "string option \<Rightarrow> string \<Rightarrow> mcp_Server" where
  "NewServerWithRoot cwd root =
     (let s = NewServerWithVersion ''0.0.0-dev'' in case SetRoot cwd root s of None \<Rightarrow> s | Some s' \<Rightarrow> s')"

text \<open>The error of a document outside of the root has this text; one for the working directory is not distinguished.\<close>

definition mcp_SetDocument :: "string option \<Rightarrow> bool \<Rightarrow> string \<Rightarrow> string \<Rightarrow> mcp_Server \<Rightarrow> string option \<times> mcp_Server" where
  "mcp_SetDocument cwd cancelled path source s =
     (let outside = (ms_root s \<noteq> [] \<and>
            (case abs_path cwd path of
               None \<Rightarrow> True
             | Some a \<Rightarrow> (case path_rel (ms_root s) a of None \<Rightarrow> True | Some rel \<Rightarrow> rel = ''..'' \<or> has_prefix rel ''../'')))
      in if outside then (Some ''mcp: document path escapes workspace root'', s)
         else case SetDocument cancelled path source (ms_docs s) of (e, docs) \<Rightarrow> (e, s\<lparr>ms_docs := docs\<rparr>))"

section \<open>Protocol versions\<close>

definition modernProtocolVersion :: string where
  "modernProtocolVersion = ''2026-07-28''"

definition legacyProtocolVersions :: "string list" where
  "legacyProtocolVersions = [''2025-11-25'', ''2025-06-18'', ''2024-11-05'']"

definition supportedProtocolVersions :: "string list" where
  "supportedProtocolVersions = [''2026-07-28'', ''2025-11-25'', ''2025-06-18'', ''2024-11-05'']"

definition serverInfo :: "string \<Rightarrow> json" where
  "serverInfo version = JObj [(''name'', JStr ''ikemen-devtools''), (''version'', JStr version)]"

text \<open>A \<^verbatim>\<open>map[string]json.RawMessage\<close>: \<^verbatim>\<open>null\<close> and everything but an object are none.\<close>

definition raw_map :: "json option \<Rightarrow> (string \<Rightarrow> json option) option" where
  "raw_map raw = (case raw of Some (JObj fs) \<Rightarrow> Some (map_of (rev fs)) | _ \<Rightarrow> None)"

definition raw_keys :: "json option \<Rightarrow> string list" where
  "raw_keys raw = (case raw of Some (JObj fs) \<Rightarrow> map fst fs | _ \<Rightarrow> [])"

text \<open>A string: one that is missing, \<^verbatim>\<open>null\<close>, not a string or empty is none.\<close>

definition raw_string :: "json option \<Rightarrow> string option" where
  "raw_string raw = (case raw of Some (JStr s) \<Rightarrow> (if s = [] then None else Some s) | _ \<Rightarrow> None)"

definition blank_entry :: "(string \<Rightarrow> json option) \<Rightarrow> string \<Rightarrow> bool" where
  "blank_entry m k \<longleftrightarrow> (case m k of Some (JStr s) \<Rightarrow> trim_space s = [] | _ \<Rightarrow> True)"

definition unsupported_version :: "string list \<Rightarrow> string \<Rightarrow> int \<times> string \<times> json option" where
  "unsupported_version supported requested =
     (- 32022, ''Unsupported protocol version'',
      Some (json_map [(''supported'', JArr (map JStr supported)), (''requested'', JStr requested)]))"

definition missing :: "string \<Rightarrow> int \<times> string \<times> json option" where
  "missing what = (- 32602, what, None)"

definition validateModernRequest :: "string \<Rightarrow> json option \<Rightarrow> (int \<times> string \<times> json option) option" where
  "validateModernRequest method params =
     (let absent = (if method = ''server/discover'' then Some (missing ''missing request metadata'') else None) in
      case raw_map params of
        None \<Rightarrow> absent
      | Some ps \<Rightarrow>
          (case ps ''_meta'' of
             None \<Rightarrow> absent
           | Some raw_meta \<Rightarrow>
               (case raw_map (Some raw_meta) of
                  None \<Rightarrow> Some (missing ''missing request metadata'')
                | Some meta \<Rightarrow>
                    (case raw_string (meta ''io.modelcontextprotocol/protocolVersion'') of
                       None \<Rightarrow> Some (missing ''missing protocol version metadata'')
                     | Some version \<Rightarrow>
                         if version \<noteq> modernProtocolVersion then Some (unsupported_version supportedProtocolVersions version)
                         else case raw_map (meta ''io.modelcontextprotocol/clientInfo'') of
                           None \<Rightarrow> Some (missing ''missing client info metadata'')
                         | Some info \<Rightarrow>
                             if blank_entry info ''name'' \<or> blank_entry info ''version'' then Some (missing ''missing client info metadata'')
                             else if raw_map (meta ''io.modelcontextprotocol/clientCapabilities'') = None
                             then Some (missing ''missing client capabilities metadata'')
                             else if method = ''server/discover'' \<and> list_ex (\<lambda>k. k \<noteq> ''_meta'') (raw_keys params)
                             then Some (missing ''server/discover accepts only _meta'')
                             else None))))"

definition legacyInitializeResult :: "json option \<Rightarrow> string \<Rightarrow> (int \<times> string \<times> json option) + json" where
  "legacyInitializeResult params version =
     (case raw_map params of
        None \<Rightarrow> Inl (missing ''invalid initialize params'')
      | Some ps \<Rightarrow>
          (case raw_string (ps ''protocolVersion'') of
             None \<Rightarrow> Inl (missing ''missing protocol version'')
           | Some requested \<Rightarrow>
               if requested \<in> set legacyProtocolVersions
               then Inr (json_map [(''protocolVersion'', JStr requested), (''capabilities'', JObj [(''tools'', JObj [])]),
                      (''serverInfo'', serverInfo version)])
               else Inl (unsupported_version legacyProtocolVersions requested)))"

section \<open>Tools and resources\<close>

definition tool_json :: "Binding \<Rightarrow> json" where
  "tool_json b =
     (let schema = (\<lambda>s kind. json_schema (s\<lparr>sc_Schema := ''https://json-schema.org/draft/2020-12/schema'',
            sc_ID := ''ikm://schema/'' @ bi_Name b @ kind\<rparr>))
      in json_map [(''name'', JStr (bi_Name b)), (''description'', JStr (bi_Description b)),
           (''inputSchema'', schema (bi_InputSchema b) ''/input''), (''outputSchema'', schema (bi_OutputSchema b) ''/output'')])"

definition mcp_bindings :: "mcp_Server \<Rightarrow> Binding list" where
  "mcp_bindings s = MCPDefinitions \<lparr>av_Read = True, av_Write = ms_allowWrite s, av_Runtime = False\<rparr> (ms_registry s)"

text \<open>Without a registry the list is \<^verbatim>\<open>nil\<close>.\<close>

definition toolDefinitions :: "mcp_Server \<Rightarrow> json" where
  "toolDefinitions s = (if ms_registry s = None then JNull else JArr (map tool_json (mcp_bindings s)))"

definition toolCapabilities :: "mcp_Server \<Rightarrow> json" where
  "toolCapabilities s = (if mcp_bindings s = [] then JObj [] else JObj [(''tools'', JObj [])])"

definition discover_result :: "mcp_Server \<Rightarrow> json" where
  "discover_result s = json_map
     [(''resultType'', JStr ''complete''), (''supportedVersions'', JArr (map JStr supportedProtocolVersions)),
      (''capabilities'', toolCapabilities s), (''_meta'', JObj [(''io.modelcontextprotocol/serverInfo'', serverInfo (ms_version s))]),
      (''instructions'', JStr ''Use tools/list, then tools/call. Documents must be explicitly preloaded by the host.''),
      (''ttlMs'', JInt 0), (''cacheScope'', JStr ''public'')]"

definition resourcesList :: json where
  "resourcesList = JArr
     [json_map [(''uri'', JStr ''ikm://workspace''), (''name'', JStr ''Workspace summary''),
        (''description'', JStr ''Active workspace metadata''), (''mimeType'', JStr ''application/json'')],
      json_map [(''uri'', JStr ''ikm://snapshot/current''), (''name'', JStr ''Current snapshot''),
        (''description'', JStr ''Active snapshot identity''), (''mimeType'', JStr ''application/json'')]]"

definition resource_templates :: json where
  "resource_templates = JArr
     [json_map [(''uriTemplate'', JStr ''ikm://file/{path}''), (''name'', JStr ''Source file''), (''mimeType'', JStr ''text/plain'')],
      json_map [(''uriTemplate'', JStr ''ikm://snapshot/{id}''), (''name'', JStr ''Workspace snapshot''), (''mimeType'', JStr ''application/json'')]]"

definition resource_body :: "string \<Rightarrow> string option" where
  "resource_body uri =
     (if uri = ''ikm://workspace'' then
        Some (json_encode (JObj [(''schemaVersion'', JStr ''0.1.0''), (''status'', JStr ''complete''), (''authority'', JStr ''read-only'')]))
      else if uri = ''ikm://snapshot/current'' then Some (json_encode (JObj [(''id'', JStr ''current'')]))
      else None)"

definition uri_field :: "string \<Rightarrow> json \<Rightarrow> string \<Rightarrow> string option" where
  "uri_field k v u = (if equal_fold k ''uri'' then decode_string v (\<lambda>s _. s) u else Some u)"

definition resourceRead :: "bool \<Rightarrow> json \<Rightarrow> json option \<Rightarrow> mcp_Response" where
  "resourceRead cancelled i raw =
     (case Option.bind raw (\<lambda>v. decode_struct uri_field v []) of
        None \<Rightarrow> errorResponse i (- 32602) ''invalid resource URI''
      | Some uri \<Rightarrow>
          if uri = [] \<or> \<not> has_prefix uri ''ikm://'' then errorResponse i (- 32602) ''invalid resource URI''
          else if cancelled then errorResponse i (- 32800) ''request cancelled''
          else case resource_body uri of
            None \<Rightarrow> errorResponse i (- 32602) ''resource not found''
          | Some body \<Rightarrow> McpResult i (JObj [(''contents'', JArr [json_map [(''uri'', JStr uri), (''mimeType'', JStr ''application/json''), (''text'', JStr body)]])]))"

text \<open>
  \<^verbatim>\<open>internal/mcp/server.go\<close>, continued: the call of a tool, the dispatch of a request, batches and the loop over the
  stream of messages.
\<close>

section \<open>Arguments\<close>

text \<open>The whole number a float64 is, if it is one that \<^verbatim>\<open>int\<close> can hold.\<close>

definition float_int :: "float64 \<Rightarrow> int option" where
  "float_int f =
     (case float_ratio f of (num, den) \<Rightarrow>
        let n = (if fl_neg f then - int (num div den) else int (num div den)) in
        if num mod den = 0 \<and> int64_min \<le> n \<and> n \<le> int64_max then Some n else None)"

definition nonNegativeInteger :: "any option \<Rightarrow> int option" where
  "nonNegativeInteger v =
     (case v of
        Some (VFloat f) \<Rightarrow> (case float_int f of Some n \<Rightarrow> if 0 \<le> n then Some n else None | None \<Rightarrow> None)
      | _ \<Rightarrow> None)"

definition bad_limit :: "(string \<times> any) list \<Rightarrow> bool" where
  "bad_limit args \<longleftrightarrow>
     (case map_of args ''limit'' of
        Some (VFloat f) \<Rightarrow> (case float_int f of Some n \<Rightarrow> n < 1 \<or> 1000 < n | None \<Rightarrow> True)
      | _ \<Rightarrow> False)"

text \<open>An entry of a map is set or added; the keys of a written map are sorted.\<close>

definition set_entry :: "string \<Rightarrow> any \<Rightarrow> (string \<times> any) list \<Rightarrow> (string \<times> any) list" where
  "set_entry k v m = as_map (m @ [(k, v)])"

definition with_document :: "(string \<times> any) list \<Rightarrow> (string \<times> any) list option" where
  "with_document args =
     (if map_of args ''textDocument'' \<noteq> None then Some args
      else case string_entry ''uri'' args of
        None \<Rightarrow> None
      | Some uri \<Rightarrow> if uri = [] then None else Some (set_entry ''textDocument'' (VObj [(''uri'', VStr uri)]) args))"

definition with_position :: "(string \<times> any) list \<Rightarrow> (string \<times> any) list option" where
  "with_position args =
     (if map_of args ''position'' \<noteq> None then Some args
      else case (nonNegativeInteger (map_of args ''line''), nonNegativeInteger (map_of args ''character'')) of
        (Some line, Some character) \<Rightarrow>
          Some (filter (\<lambda>(k, v). k \<noteq> ''line'' \<and> k \<noteq> ''character'')
            (set_entry ''position'' (VObj [(''character'', VInt character), (''line'', VInt line)]) args))
      | _ \<Rightarrow> None)"

definition toolParams :: "string \<Rightarrow> (string \<times> any) list option \<Rightarrow> string + json" where
  "toolParams method args0 =
     (case with_document (case args0 of None \<Rightarrow> [] | Some m \<Rightarrow> m) of
        None \<Rightarrow> Inl ''missing uri''
      | Some args \<Rightarrow>
          if method = ''textDocument/diagnostic'' \<or> method = ''textDocument/documentSymbol'' then Inr (snapshot_json (VObj args))
          else case with_position args of
            None \<Rightarrow> Inl ''missing position''
          | Some args' \<Rightarrow> Inr (snapshot_json (VObj args')))"

section \<open>Plans\<close>

definition source_position_field :: "string \<Rightarrow> json \<Rightarrow> SourcePosition \<Rightarrow> SourcePosition option" where
  "source_position_field k v p =
     (if equal_fold k ''line'' then decode_int64 v (\<lambda>i. Line_update (\<lambda>_. i)) p
      else if equal_fold k ''column'' then decode_int64 v (\<lambda>i. Column_update (\<lambda>_. i)) p else Some p)"

definition span_field :: "string \<Rightarrow> json \<Rightarrow> Span \<Rightarrow> Span option" where
  "span_field k v s =
     (if equal_fold k ''ByteStart'' then decode_int64 v (\<lambda>i. ByteStart_update (\<lambda>_. i)) s
      else if equal_fold k ''ByteEnd'' then decode_int64 v (\<lambda>i. ByteEnd_update (\<lambda>_. i)) s
      else if equal_fold k ''Start'' then map_option (\<lambda>p. s\<lparr>span_Start := p\<rparr>) (decode_struct source_position_field v (span_Start s))
      else if equal_fold k ''End'' then map_option (\<lambda>p. s\<lparr>span_End := p\<rparr>) (decode_struct source_position_field v (span_End s))
      else Some s)"

definition plan_identity_field :: "string \<Rightarrow> json \<Rightarrow> Identity \<Rightarrow> Identity option" where
  "plan_identity_field k v i =
     (if equal_fold k ''contractVersion'' then decode_string v (\<lambda>s. idn_contract_update (\<lambda>_. s)) i
      else if equal_fold k ''semanticKey'' then decode_string v (\<lambda>s. idn_semantic_update (\<lambda>_. s)) i
      else if equal_fold k ''occurrence'' then decode_string v (\<lambda>s. idn_occurrence_update (\<lambda>_. s)) i
      else if equal_fold k ''store'' then decode_string v (\<lambda>s. idn_store_update (\<lambda>_. s)) i
      else Some i)"

definition edit_field :: "string \<Rightarrow> json \<Rightarrow> Edit \<Rightarrow> Edit option" where
  "edit_field k v e =
     (if equal_fold k ''Path'' then decode_string v (\<lambda>s. ed_Path_update (\<lambda>_. s)) e
      else if equal_fold k ''ContentHash'' then decode_string v (\<lambda>s. ed_ContentHash_update (\<lambda>_. s)) e
      else if equal_fold k ''IdentityContract'' then decode_string v (\<lambda>s. ed_IdentityContract_update (\<lambda>_. s)) e
      else if equal_fold k ''Identity'' then map_option (\<lambda>i. e\<lparr>ed_Identity := i\<rparr>) (decode_struct plan_identity_field v (ed_Identity e))
      else if equal_fold k ''Span'' then map_option (\<lambda>s. e\<lparr>ed_Span := s\<rparr>) (decode_struct span_field v (ed_Span e))
      else if equal_fold k ''OldText'' then decode_string v (\<lambda>s. ed_OldText_update (\<lambda>_. s)) e
      else if equal_fold k ''NewText'' then decode_string v (\<lambda>s. ed_NewText_update (\<lambda>_. s)) e
      else Some e)"

definition zero_edit :: Edit where
  "zero_edit = \<lparr>ed_Path = [], ed_ContentHash = [], ed_IdentityContract = [], ed_Identity = zero_identity,
     ed_Span = \<lparr>ByteStart = 0, ByteEnd = 0, span_Start = zero_position, span_End = zero_position\<rparr>, ed_OldText = [], ed_NewText = []\<rparr>"

definition plan_field :: "string \<Rightarrow> json \<Rightarrow> PatchPlan \<Rightarrow> PatchPlan option" where
  "plan_field k v p =
     (if equal_fold k ''version'' then decode_string v (\<lambda>s. pl_Version_update (\<lambda>_. s)) p
      else if equal_fold k ''operationId'' then decode_string v (\<lambda>s. pl_OperationID_update (\<lambda>_. s)) p
      else if equal_fold k ''workspaceRoot'' then decode_string v (\<lambda>s. pl_WorkspaceRoot_update (\<lambda>_. s)) p
      else if equal_fold k ''workspaceIdentity'' then decode_string v (\<lambda>s. pl_WorkspaceIdentity_update (\<lambda>_. s)) p
      else if equal_fold k ''profile'' then decode_string v (\<lambda>s. pl_Profile_update (\<lambda>_. s)) p
      else if equal_fold k ''inputSnapshot'' then decode_string v (\<lambda>s. pl_InputSnapshot_update (\<lambda>_. s)) p
      else if equal_fold k ''edits'' then
        map_option (\<lambda>es. p\<lparr>pl_Edits := es\<rparr>) (decode_slice (\<lambda>e v. decode_struct edit_field v e) zero_edit v (pl_Edits p))
      else if equal_fold k ''postconditions'' then
        map_option (\<lambda>es. p\<lparr>pl_Postconditions := es\<rparr>) (decode_slice (\<lambda>s v. decode_string v (\<lambda>t _. t) s) [] v (pl_Postconditions p))
      else Some p)"

text \<open>The argument \<^verbatim>\<open>plan\<close>, written and read again; none when it is missing or is no plan.\<close>

definition mustArguments :: "(string \<times> any) list \<Rightarrow> string \<Rightarrow> string" where
  "mustArguments args key = (case map_of args key of None \<Rightarrow> [] | Some v \<Rightarrow> json_encode (snapshot_json v))"

definition decode_plan :: "string \<Rightarrow> PatchPlan option" where
  "decode_plan s = Option.bind (json_unmarshal s) (\<lambda>v. decode_struct plan_field v zero_plan)"

definition sameRoot :: "string option \<Rightarrow> string \<Rightarrow> string \<Rightarrow> bool" where
  "sameRoot cwd a b =
     (case (abs_path cwd a, abs_path cwd b) of
        (Some x, Some y) \<Rightarrow> path_clean x = path_clean y
      | _ \<Rightarrow> False)"

fun plan_error_text :: "plan_error \<Rightarrow> string" where
  "plan_error_text PlanUnsupportedVersion = ''patch: unsupported plan version''"
| "plan_error_text PlanMissingSnapshot = ''patch: missing input snapshot''"
| "plan_error_text PlanNoEdits = ''patch: plan has no edits''"
| "plan_error_text PlanEditInvalid = ''patch: edit lacks hash, identity, or valid span''"

text \<open>\<^verbatim>\<open>encoding/json\<close> writes a byte slice in base64, padded to a multiple of four.\<close>

definition bytes_json :: "string \<Rightarrow> json" where
  "bytes_json b = (let t = b64_encode False b in JStr (t @ replicate ((4 - length t mod 4) mod 4) CHR ''=''))"

definition preview_json :: "FilePreview list \<Rightarrow> json" where
  "preview_json files = JObj [(''Files'', JArr (map (\<lambda>f. JObj [(''Path'', JStr (fp_Path f)), (''OldHash'', JStr (fp_OldHash f)),
     (''NewHash'', JStr (fp_NewHash f)), (''Bytes'', bytes_json (fp_Bytes f))]) files))]"

section \<open>Tools\<close>

type_synonym mcp_answer = "mcp_Response \<times> mcp_Server \<times> fs"

definition patch_preview :: "mcp_world \<Rightarrow> json \<Rightarrow> (string \<times> any) list \<Rightarrow> mcp_Server \<Rightarrow> fs \<Rightarrow> mcp_answer" where
  "patch_preview w i args s disk =
     (case decode_plan (mustArguments args ''plan'') of
        None \<Rightarrow> (errorResponse i (- 32602) ''invalid patch plan'', s, disk)
      | Some plan \<Rightarrow>
          (case plan_Validate plan of
             Some e \<Rightarrow> (errorResponse i (- 32602) (plan_error_text e), s, disk)
           | None \<Rightarrow>
               if ms_root s \<noteq> [] \<and> \<not> sameRoot (mw_cwd w) (ms_root s) (pl_WorkspaceRoot plan)
               then (errorResponse i (- 32006) ''patch root differs from authorized root'', s, disk)
               else case PreviewPatch (fs_view (mw_os w) disk) (pl_WorkspaceRoot plan) (pl_Edits plan) of
                 Inl e \<Rightarrow> (errorResponse i (- 32006) (mw_text w (PreviewFailed e)), s, disk)
               | Inr files \<Rightarrow>
                   (case Issue plan (ms_authorizer s) of
                      (Inl e, auth) \<Rightarrow> (errorResponse i (- 32006) (mw_text w (IssueFailed e)), s\<lparr>ms_authorizer := auth\<rparr>, disk)
                    | (Inr token, auth) \<Rightarrow>
                        (McpResult i (JObj [(''preview'', preview_json files), (''token'', JStr token)]),
                         s\<lparr>ms_authorizer := auth\<rparr>, disk))))"

definition patch_apply :: "mcp_world \<Rightarrow> bool \<Rightarrow> json \<Rightarrow> (string \<times> any) list \<Rightarrow> mcp_Server \<Rightarrow> fs \<Rightarrow> mcp_answer" where
  "patch_apply w cancelled i args s disk =
     (case decode_plan (mustArguments args ''plan'') of
        None \<Rightarrow> (errorResponse i (- 32602) ''invalid patch plan'', s, disk)
      | Some plan \<Rightarrow>
          let token = (case string_entry ''token'' args of None \<Rightarrow> [] | Some t \<Rightarrow> t) in
          if ms_root s \<noteq> [] \<and> \<not> sameRoot (mw_cwd w) (ms_root s) (pl_WorkspaceRoot plan)
          then (errorResponse i (- 32006) ''patch root differs from authorized root'', s, disk)
          else if token = [] \<or> ms_authorizer s = None then (errorResponse i (- 32006) ''authorization required'', s, disk)
          else case service_Apply cancelled (mw_os w) (pl_WorkspaceRoot plan) token (pl_InputSnapshot plan) (ms_authorizer s) disk of
            (Inl e, auth, disk') \<Rightarrow> (errorResponse i (- 32006) (mw_text w (ApplyRefused e)), s\<lparr>ms_authorizer := auth\<rparr>, disk')
          | (Inr files, auth, disk') \<Rightarrow> (McpResult i (preview_json files), s\<lparr>ms_authorizer := auth\<rparr>, disk'))"

definition tool_method :: "string \<Rightarrow> string" where
  "tool_method name =
     (case map_of [(''document_diagnostics'', ''textDocument/diagnostic''), (''document_symbols'', ''textDocument/documentSymbol''),
        (''hover'', ''textDocument/hover''), (''definition'', ''textDocument/definition''), (''references'', ''textDocument/references'')] name of
        None \<Rightarrow> name
      | Some method \<Rightarrow> method)"

definition text_content :: "string \<Rightarrow> json" where
  "text_content t = JArr [JObj [(''text'', JStr t), (''type'', JStr ''text'')]]"

text \<open>A request for the language server. Written and read again it is the same value.\<close>

definition lsp_request :: "json \<Rightarrow> string \<Rightarrow> json \<Rightarrow> json" where
  "lsp_request i method params = JObj [(''jsonrpc'', JStr ''2.0''), (''id'', i), (''method'', JStr method), (''params'', params)]"

definition semantic_tool :: "mcp_world \<Rightarrow> bool \<times> bool \<Rightarrow> json \<Rightarrow> string \<Rightarrow> (string \<times> any) list option \<Rightarrow> mcp_Server \<Rightarrow> mcp_Response \<times> mcp_Server" where
  "semantic_tool w cancelled i name args s =
     (case toolParams (tool_method name) args of
        Inl e \<Rightarrow> (errorResponse i (- 32602) e, s)
      | Inr params \<Rightarrow>
          (case handle_value (mw_url w) (mw_order w) cancelled (ms_docs s) (lsp_request JNull (tool_method name) params) of
             (inner, docs) \<Rightarrow>
               ((case inner of
                   None \<Rightarrow> errorResponse JNull (- 32603) ''internal error''
                 | Some (Refusal _ e) \<Rightarrow> McpResult i (JObj [(''content'', text_content (le_Message e)), (''isError'', JBool True)])
                 | Some (Answer _ r) \<Rightarrow>
                     McpResult i (JObj [(''_meta'', JObj [(''cache'', JStr ''snapshot''), (''etag'', JStr ''current'')]),
                       (''content'', text_content (json_encode (result_json r))), (''structuredContent'', result_json r)])),
                s\<lparr>ms_docs := docs\<rparr>)))"

record tool_call =
  tc_Name :: string
  tc_Arguments :: "(string \<times> any) list option"

definition tool_field :: "string \<Rightarrow> json \<Rightarrow> tool_call \<Rightarrow> tool_call option" where
  "tool_field k v c =
     (if equal_fold k ''name'' then decode_string v (\<lambda>s. tc_Name_update (\<lambda>_. s)) c
      else if equal_fold k ''arguments'' then map_option (\<lambda>m. c\<lparr>tc_Arguments := m\<rparr>) (decode_map v (tc_Arguments c))
      else Some c)"

definition toolCall :: "mcp_world \<Rightarrow> bool \<times> bool \<Rightarrow> json \<Rightarrow> json option \<Rightarrow> mcp_Server \<Rightarrow> fs \<Rightarrow> mcp_answer" where
  "toolCall w cancelled i raw s disk =
     (case Option.bind raw (\<lambda>v. decode_struct tool_field v \<lparr>tc_Name = [], tc_Arguments = None\<rparr>) of
        None \<Rightarrow> (errorResponse i (- 32602) ''invalid params'', s, disk)
      | Some c \<Rightarrow>
          let name = tc_Name c; args = (case tc_Arguments c of None \<Rightarrow> [] | Some m \<Rightarrow> m) in
          if name = [] then (errorResponse i (- 32602) ''invalid params'', s, disk)
          else if bad_limit args then (errorResponse i (- 32602) ''limit must be between 1 and 1000'', s, disk)
          else if ms_allowWrite s \<and> name = ''patch_preview'' then patch_preview w i args s disk
          else if ms_allowWrite s \<and> name = ''patch_apply'' then patch_apply w (fst cancelled) i args s disk
          else if ms_allowWrite s \<and> (name = ''rename_prepare'' \<or> name = ''fix_prepare'')
          then (errorResponse i (- 32006) ''mutation provider refused: semantic provider unavailable'', s, disk)
          else case semantic_tool w cancelled i name (tc_Arguments c) s of (r, s') \<Rightarrow> (r, s', disk))"

section \<open>Requests\<close>

definition semantic_methods :: "string list" where
  "semantic_methods = [''textDocument/diagnostic'', ''textDocument/documentSymbol'', ''textDocument/hover'', ''textDocument/definition'', ''textDocument/references'']"

definition document_method :: "string \<Rightarrow> string option" where
  "document_method method =
     map_of [(''document/diagnostics'', ''textDocument/diagnostic''), (''document/symbols'', ''textDocument/documentSymbol''),
       (''document/hover'', ''textDocument/hover''), (''document/definition'', ''textDocument/definition''),
       (''document/references'', ''textDocument/references'')] method"

definition forward :: "mcp_world \<Rightarrow> bool \<times> bool \<Rightarrow> mcp_Server \<Rightarrow> json \<Rightarrow> mcp_Response option \<times> mcp_Server" where
  "forward w cancelled s v =
     (case handle_value (mw_url w) (mw_order w) cancelled (ms_docs s) v of
        (r, docs) \<Rightarrow> (map_option from_lsp r, s\<lparr>ms_docs := docs\<rparr>))"

definition or_null :: "json option \<Rightarrow> json" where
  "or_null v = (case v of None \<Rightarrow> JNull | Some j \<Rightarrow> j)"

definition mcp_dispatch :: "mcp_world \<Rightarrow> bool \<times> bool \<Rightarrow> lsp_Request \<Rightarrow> json \<Rightarrow> mcp_Server \<Rightarrow> fs \<Rightarrow> mcp_Response option \<times> mcp_Server \<times> fs" where
  "mcp_dispatch w cancelled rq v s disk =
     (let i = rawID (rq_ID rq); method = rq_Method rq; params = rq_Params rq; answer = (\<lambda>result. (Some (McpResult i result), s, disk)) in
      if method = ''initialize'' then
        (case legacyInitializeResult params (ms_version s) of
           Inl (code, message, data) \<Rightarrow> (Some (McpError i code message data), s, disk)
         | Inr result \<Rightarrow> answer result)
      else if method = ''server/discover'' then answer (discover_result s)
      else if method = ''ping'' then answer (JObj [])
      else if method = ''tools/list'' then answer (JObj [(''tools'', toolDefinitions s)])
      else if method = ''resources/list'' then answer (JObj [(''resources'', resourcesList)])
      else if method = ''resources/read'' then (Some (resourceRead (fst cancelled) i params), s, disk)
      else if method = ''resources/templates/list'' then answer (JObj [(''resourceTemplates'', resource_templates)])
      else if method = ''tools/call'' then
        (case toolCall w cancelled i params s disk of (r, s', disk') \<Rightarrow> (Some r, s', disk'))
      else if method = ''shutdown'' then answer JNull
      else if method \<in> set semantic_methods then
        (case forward w cancelled s v of (r, s') \<Rightarrow> (r, s', disk))
      else case document_method method of
        Some method' \<Rightarrow>
          (case forward w cancelled s (lsp_request (or_null (rq_ID rq)) method' (or_null params)) of (r, s') \<Rightarrow> (r, s', disk))
      | None \<Rightarrow> (Some (errorResponse i (- 32601) ''method not found''), s, disk))"

text \<open>\<^verbatim>\<open>Handle\<close> on the value a message holds. The flags are the answers of the context: here, at the call that is
  made, and later.\<close>

definition mcp_value :: "mcp_world \<Rightarrow> bool \<times> bool \<times> bool \<Rightarrow> json \<Rightarrow> mcp_Server \<Rightarrow> fs \<Rightarrow> mcp_Response option \<times> mcp_Server \<times> fs" where
  "mcp_value w cancelled v s disk =
     (if json_any v = None then (Some (errorResponse JNull (- 32700) ''parse error''), s, disk)
      else case v of
        JObj fs \<Rightarrow>
          (case decode_struct request_field v zero_request of
             None \<Rightarrow> (Some (errorResponse JNull (- 32600) ''invalid request''), s, disk)
           | Some rq \<Rightarrow>
               if rq_JSONRPC rq \<noteq> ''2.0'' \<or> rq_Method rq = [] then (Some (errorResponse JNull (- 32600) ''invalid request''), s, disk)
               else if isNotification (rq_ID rq) then (None, s, disk)
               else if fst cancelled then (Some (errorResponse (rawID (rq_ID rq)) (- 32800) ''request cancelled''), s, disk)
               else case (if rq_Method rq = ''initialize'' then None else validateModernRequest (rq_Method rq) (rq_Params rq)) of
                 Some (code, message, data) \<Rightarrow> (Some (McpError (rawID (rq_ID rq)) code message data), s, disk)
               | None \<Rightarrow> mcp_dispatch w (snd cancelled) rq v s disk)
      | _ \<Rightarrow> (Some (errorResponse JNull (- 32600) ''invalid request''), s, disk))"

definition mcp_Handle :: "mcp_world \<Rightarrow> bool \<times> bool \<times> bool \<Rightarrow> string \<Rightarrow> mcp_Server \<Rightarrow> fs \<Rightarrow> mcp_Response option \<times> mcp_Server \<times> fs" where
  "mcp_Handle w cancelled body s disk =
     (case json_unmarshal body of
        None \<Rightarrow> (Some (errorResponse JNull (- 32700) ''parse error''), s, disk)
      | Some v \<Rightarrow> mcp_value w cancelled v s disk)"

section \<open>The loop\<close>

text \<open>The items of a batch are handled in order.\<close>

fun mcp_batch :: "mcp_world \<Rightarrow> bool \<times> bool \<times> bool \<Rightarrow> json list \<Rightarrow> mcp_Server \<Rightarrow> fs \<Rightarrow> mcp_Response list \<times> mcp_Server \<times> fs" where
  "mcp_batch w cancelled [] s disk = ([], s, disk)"
| "mcp_batch w cancelled (v # vs) s disk =
     (case mcp_value w cancelled v s disk of (r, s1, disk1) \<Rightarrow>
        case mcp_batch w cancelled vs s1 disk1 of (rs, s2, disk2) \<Rightarrow>
          ((case r of None \<Rightarrow> rs | Some r' \<Rightarrow> r' # rs), s2, disk2))"

definition mcp_message :: "mcp_world \<Rightarrow> bool \<times> bool \<times> bool \<Rightarrow> string \<Rightarrow> mcp_Server \<Rightarrow> fs \<Rightarrow> json option \<times> mcp_Server \<times> fs" where
  "mcp_message w cancelled body s disk =
     (case Option.bind (json_unmarshal body) (\<lambda>v. map_option (\<lambda>_. v) (json_any v)) of
        None \<Rightarrow> (Some (mcp_response_json (errorResponse JNull (- 32700) ''parse error'')), s, disk)
      | Some (JArr items) \<Rightarrow>
          if items = [] then (Some (JArr [mcp_response_json (errorResponse JNull (- 32600) ''invalid request'')]), s, disk)
          else (case mcp_batch w cancelled items s disk of (rs, s', disk') \<Rightarrow>
            (if rs = [] then None else Some (JArr (map mcp_response_json rs)), s', disk'))
      | Some v \<Rightarrow>
          (case mcp_value w cancelled v s disk of (r, s', disk') \<Rightarrow> (map_option mcp_response_json r, s', disk')))"

lemma mcp_read_shorter: "mcp_ReadFrame s = (r, rest) \<Longrightarrow> s \<noteq> [] \<Longrightarrow> length rest < length s"
  by (auto simp: mcp_ReadFrame_def Let_def split: option.splits if_splits)

lemma mcp_read_Nil: "mcp_ReadFrame [] = (Inl McpEOF, [])"
  by (simp add: mcp_ReadFrame_def)

datatype mcp_end = McpDone | McpCancelled | McpFailed mcp_frame_error

text \<open>The frames written, the state after them and how the loop ended. Before the \<open>n\<close>-th message the context
  answers the first component of \<open>ctx n\<close>; writing does not fail.\<close>

function mcp_Serve :: "mcp_world \<Rightarrow> (nat \<Rightarrow> bool \<times> bool \<times> bool \<times> bool) \<Rightarrow> nat \<Rightarrow> mcp_Server \<Rightarrow> fs \<Rightarrow> string \<Rightarrow>
    string list \<times> mcp_Server \<times> fs \<times> mcp_end" where
  "mcp_Serve w ctx n s disk stream =
     (if fst (ctx n) then ([], s, disk, McpCancelled)
      else if stream = [] then ([], s, disk, McpDone)
      else case mcp_ReadFrame stream of
        (Inl McpEOF, _) \<Rightarrow> ([], s, disk, McpDone)
      | (Inl McpFrameTooLarge, _) \<Rightarrow> ([], s, disk, McpFailed McpFrameTooLarge)
      | (frame, rest) \<Rightarrow>
          (case (case frame of
                   Inr body \<Rightarrow> mcp_message w (snd (ctx n)) body s disk
                 | Inl _ \<Rightarrow> (Some (mcp_response_json (errorResponse JNull (- 32600) ''invalid request'')), s, disk)) of
             (None, s', disk') \<Rightarrow> mcp_Serve w ctx (Suc n) s' disk' rest
           | (Some reply, s', disk') \<Rightarrow>
               (case mcp_WriteFrame (json_encode reply) of
                  Inl e \<Rightarrow> ([], s', disk', McpFailed e)
                | Inr frame' \<Rightarrow>
                    (case mcp_Serve w ctx (Suc n) s' disk' rest of (out, s'', disk'', e) \<Rightarrow> (frame' # out, s'', disk'', e)))))"
  by pat_completeness auto
termination
  by (relation "measure (\<lambda>(w, ctx, n, s, disk, stream). length stream)") (auto dest: mcp_read_shorter [OF sym])

declare mcp_Serve.simps [simp del]

end
