(* ===== verification/Mcp_Claims.thy ===== *)
theory Mcp_Claims
  imports Mcp Mutation_Claims
begin

text \<open>
  What the MCP server may do: a history of requests changes a file only by applying a plan that an earlier request of
  the same history previewed, with the token that preview answered.
\<close>

section \<open>What one request changes\<close>

text \<open>The tool a request calls, and its arguments.\<close>

definition tool_of :: "json \<Rightarrow> (string \<times> (string \<times> any) list) option" where
  "tool_of v =
     (case decode_struct request_field v zero_request of
        None \<Rightarrow> None
      | Some rq \<Rightarrow>
          map_option (\<lambda>c. (tc_Name c, case tc_Arguments c of None \<Rightarrow> [] | Some m \<Rightarrow> m))
            (Option.bind (rq_Params rq) (\<lambda>p. decode_struct tool_field p \<lparr>tc_Name = [], tc_Arguments = None\<rparr>)))"

text \<open>A request leaves authority, root and version alone. Unless it is a preview or the application of a plan, it leaves
  the tokens and the files alone, too.\<close>

definition read_only :: "mcp_Server \<Rightarrow> fs \<Rightarrow> mcp_Server \<Rightarrow> fs \<Rightarrow> bool" where
  "read_only s disk s' disk' \<longleftrightarrow> disk' = disk \<and> ms_authorizer s' = ms_authorizer s \<and> ms_allowWrite s' = ms_allowWrite s \<and> ms_root s' = ms_root s"

definition effect_of :: "mcp_world \<Rightarrow> bool \<Rightarrow> string \<times> (string \<times> any) list \<Rightarrow> mcp_Server \<Rightarrow> fs \<Rightarrow> mcp_answer \<Rightarrow> bool" where
  "effect_of w cancelled call s disk answer \<longleftrightarrow> ms_allowWrite s \<and>
     ((\<exists>i. fst call = ''patch_preview'' \<and> answer = patch_preview w i (snd call) s disk) \<or>
      (\<exists>i. fst call = ''patch_apply'' \<and> answer = patch_apply w cancelled i (snd call) s disk))"

lemma read_only_refl [simp]: "read_only s disk s disk"
  by (simp add: read_only_def)

lemma read_only_documents [simp]: "read_only s disk (s\<lparr>ms_docs := docs\<rparr>) disk"
  by (simp add: read_only_def)

lemma read_only_semantic_tool: "semantic_tool w cancelled i name args s = (r, s') \<Longrightarrow> read_only s disk s' disk"
  by (auto simp: semantic_tool_def read_only_def split: sum.splits prod.splits)

lemma read_only_forward: "forward w cancelled s v = (r, s') \<Longrightarrow> read_only s disk s' disk"
  by (auto simp: forward_def read_only_def split: prod.splits)

lemma tool_call_effect:
  assumes "toolCall w cancelled i raw s disk = (r, s', disk')"
  shows "read_only s disk s' disk' \<or>
    (\<exists>c. Option.bind raw (\<lambda>v. decode_struct tool_field v \<lparr>tc_Name = [], tc_Arguments = None\<rparr>) = Some c \<and>
       effect_of w (fst cancelled) (tc_Name c, case tc_Arguments c of None \<Rightarrow> [] | Some m \<Rightarrow> m) s disk (r, s', disk'))"
proof (cases "Option.bind raw (\<lambda>v. decode_struct tool_field v \<lparr>tc_Name = [], tc_Arguments = None\<rparr>)")
  case None
  with assms show ?thesis by (simp add: toolCall_def)
next
  case (Some c)
  let ?args = "case tc_Arguments c of None \<Rightarrow> [] | Some m \<Rightarrow> m"
  have "read_only s disk s' disk' \<or> effect_of w (fst cancelled) (tc_Name c, ?args) s disk (toolCall w cancelled i raw s disk)"
  proof (cases "ms_allowWrite s \<and> (tc_Name c = ''patch_preview'' \<or> tc_Name c = ''patch_apply'') \<and> \<not> bad_limit ?args")
    case True
    then have "toolCall w cancelled i raw s disk = (if tc_Name c = ''patch_preview'' then patch_preview w i ?args s disk
        else patch_apply w (fst cancelled) i ?args s disk)"
      using Some by (auto simp: toolCall_def Let_def)
    then show ?thesis using True by (auto simp: effect_of_def)
  next
    case False
    with Some assms show ?thesis
      unfolding toolCall_def Let_def by (auto dest: read_only_semantic_tool split: if_splits prod.splits)
  qed
  then show ?thesis using Some assms by auto
qed

lemma dispatch_effect:
  assumes "mcp_dispatch w cancelled rq v s disk = (r, s', disk')"
  shows "read_only s disk s' disk' \<or>
    (\<exists>c r'. Option.bind (rq_Params rq) (\<lambda>v. decode_struct tool_field v \<lparr>tc_Name = [], tc_Arguments = None\<rparr>) = Some c \<and> r = Some r' \<and>
       effect_of w (fst cancelled) (tc_Name c, case tc_Arguments c of None \<Rightarrow> [] | Some m \<Rightarrow> m) s disk (r', s', disk'))"
proof (cases "rq_Method rq = ''tools/call''")
  case True
  then obtain r' where "toolCall w cancelled (rawID (rq_ID rq)) (rq_Params rq) s disk = (r', s', disk')" "r = Some r'"
    using assms by (auto simp: mcp_dispatch_def Let_def split: prod.splits)
  with tool_call_effect show ?thesis by blast
next
  case False
  with assms have "read_only s disk s' disk'"
    unfolding mcp_dispatch_def Let_def
    by (auto dest: read_only_forward split: if_splits prod.splits sum.splits option.splits)
  then show ?thesis by blast
qed

lemma request_effect:
  assumes "mcp_value w cancelled v s disk = (r, s', disk')"
  shows "read_only s disk s' disk' \<or>
    (\<exists>call r'. tool_of v = Some call \<and> r = Some r' \<and> effect_of w (fst (snd cancelled)) call s disk (r', s', disk'))"
proof (cases "\<exists>rq. decode_struct request_field v zero_request = Some rq \<and> mcp_dispatch w (snd cancelled) rq v s disk = (r, s', disk')")
  case True
  then obtain rq where rq: "decode_struct request_field v zero_request = Some rq" "mcp_dispatch w (snd cancelled) rq v s disk = (r, s', disk')"
    by blast
  from dispatch_effect [OF rq(2)] show ?thesis by (auto simp: tool_of_def rq(1))
next
  case False
  with assms show ?thesis
    by (auto simp: mcp_value_def split: if_splits option.splits json.splits prod.splits)
qed

section \<open>Histories\<close>

text \<open>The requests so far, each with its answer. The surroundings may differ from one request to the next.\<close>

inductive mcp_history :: "mcp_Server \<Rightarrow> fs \<Rightarrow> (json \<times> mcp_Response option) list \<Rightarrow> mcp_Server \<Rightarrow> fs \<Rightarrow> bool" for s0 disk0 where
  begins: "mcp_history s0 disk0 [] s0 disk0"
| request: "mcp_history s0 disk0 es s disk \<Longrightarrow> mcp_value w cancelled v s disk = (r, s', disk') \<Longrightarrow>
    mcp_history s0 disk0 (es @ [(v, r)]) s' disk'"

text \<open>A request that previewed a plan and was answered with the token of that plan.\<close>

definition grants :: "string \<Rightarrow> PatchPlan \<Rightarrow> json \<times> mcp_Response option \<Rightarrow> bool" where
  "grants token plan e \<longleftrightarrow>
     (\<exists>args i preview. tool_of (fst e) = Some (''patch_preview'', args) \<and> decode_plan (mustArguments args ''plan'') = Some plan \<and>
        snd e = Some (McpResult i (JObj [(''preview'', preview), (''token'', JStr token)]))) \<and>
     token = plan_token plan \<and> plan_Validate plan = None"

text \<open>The tokens a server holds are those its history granted.\<close>

definition accounted :: "(json \<times> mcp_Response option) list \<Rightarrow> mcp_Server \<Rightarrow> bool" where
  "accounted es s \<longleftrightarrow>
     (\<forall>a t p. ms_authorizer s = Some a \<longrightarrow> au_tokens a t = Some p \<longrightarrow> (\<exists>plan. p = snd (plan_JSON plan) \<and> list_ex (grants t plan) es))"

lemma preview_effect:
  assumes "patch_preview w i args s disk = (r, s', disk')"
  shows "read_only s disk s' disk' \<or>
    (\<exists>plan preview a. r = McpResult i (JObj [(''preview'', preview), (''token'', JStr (plan_token plan))]) \<and>
       decode_plan (mustArguments args ''plan'') = Some plan \<and> plan_Validate plan = None \<and> ms_authorizer s = Some a \<and>
       s' = s\<lparr>ms_authorizer := Some (a\<lparr>au_tokens := (au_tokens a)(plan_token plan \<mapsto> snd (plan_JSON plan))\<rparr>)\<rparr> \<and> disk' = disk)"
  using assms by (auto simp: patch_preview_def Issue_def read_only_def Let_def split: option.splits sum.splits if_splits)

lemma service_effect:
  assumes "service_Apply cancelled env root token snapshot auth disk = (r, auth', disk')"
  shows "auth' = auth \<and> disk' = disk \<or>
    (\<exists>a p. auth = Some a \<and> au_tokens a token = Some p \<and> auth' = Some (a\<lparr>au_tokens := (au_tokens a)(token := None)\<rparr>) \<and>
       (disk' = disk \<or> disk' = snd (ApplyAtomic env root (pl_Edits p) disk)))"
  using assms by (auto simp: service_Apply_def Consume_def split: option.splits sum.splits prod.splits if_splits)

lemma apply_effect:
  assumes "patch_apply w cancelled i args s disk = (r, s', disk')"
  shows "read_only s disk s' disk' \<or>
    (\<exists>plan token a p. decode_plan (mustArguments args ''plan'') = Some plan \<and> string_entry ''token'' args = Some token \<and>
       (ms_root s = [] \<or> sameRoot (mw_cwd w) (ms_root s) (pl_WorkspaceRoot plan)) \<and> ms_authorizer s = Some a \<and> au_tokens a token = Some p \<and>
       s' = s\<lparr>ms_authorizer := Some (a\<lparr>au_tokens := (au_tokens a)(token := None)\<rparr>)\<rparr> \<and>
       (disk' = disk \<or> disk' = snd (ApplyAtomic (mw_os w) (pl_WorkspaceRoot plan) (pl_Edits p) disk)))"
proof (cases "\<exists>plan token. decode_plan (mustArguments args ''plan'') = Some plan \<and> string_entry ''token'' args = Some token \<and>
    (ms_root s = [] \<or> sameRoot (mw_cwd w) (ms_root s) (pl_WorkspaceRoot plan)) \<and> token \<noteq> [] \<and> ms_authorizer s \<noteq> None")
  case True
  then obtain plan token where c: "decode_plan (mustArguments args ''plan'') = Some plan" "string_entry ''token'' args = Some token"
    "ms_root s = [] \<or> sameRoot (mw_cwd w) (ms_root s) (pl_WorkspaceRoot plan)" "token \<noteq> []" "ms_authorizer s \<noteq> None"
    by blast
  with assms obtain res auth' where "service_Apply cancelled (mw_os w) (pl_WorkspaceRoot plan) token (pl_InputSnapshot plan) (ms_authorizer s) disk = (res, auth', disk')"
    "s' = s\<lparr>ms_authorizer := auth'\<rparr>"
    by (auto simp: patch_apply_def Let_def split: sum.splits prod.splits)
  with service_effect [OF this(1)] c show ?thesis by (auto simp: read_only_def)
next
  case False
  with assms show ?thesis by (auto simp: patch_apply_def Let_def split: option.splits if_splits)
qed

lemma history_kept:
  "mcp_history s0 disk0 es s disk \<Longrightarrow> ms_allowWrite s = ms_allowWrite s0 \<and> ms_root s = ms_root s0"
proof (induction rule: mcp_history.induct)
  case (request es s disk w cancelled v r s' disk')
  from request_effect [OF request.hyps(2)] have "ms_allowWrite s' = ms_allowWrite s \<and> ms_root s' = ms_root s"
    by (auto simp: read_only_def effect_of_def dest!: preview_effect [OF sym] apply_effect [OF sym])
  with request.IH show ?case by simp
qed simp

lemma history_accounted:
  assumes "mcp_history s0 disk0 es s disk" and "accounted [] s0"
  shows "accounted es s"
  using assms
proof (induction rule: mcp_history.induct)
  case (request es s disk w cancelled v r s' disk')
  then have acc: "accounted es s" by blast
  from request_effect [OF request.hyps(2)] consider
      "ms_authorizer s' = ms_authorizer s"
    | args plan preview a i where "tool_of v = Some (''patch_preview'', args)" "r = Some (McpResult i (JObj [(''preview'', preview), (''token'', JStr (plan_token plan))]))"
        "decode_plan (mustArguments args ''plan'') = Some plan" "plan_Validate plan = None" "ms_authorizer s = Some a"
        "ms_authorizer s' = Some (a\<lparr>au_tokens := (au_tokens a)(plan_token plan \<mapsto> snd (plan_JSON plan))\<rparr>)"
    | a token where "ms_authorizer s = Some a" "ms_authorizer s' = Some (a\<lparr>au_tokens := (au_tokens a)(token := None)\<rparr>)"
    by (fastforce simp: read_only_def effect_of_def dest!: preview_effect [OF sym] apply_effect [OF sym])
  then show ?case
  proof cases
    case 2
    then have "grants (plan_token plan) plan (v, r)" by (auto simp: grants_def)
    with 2(5,6) acc show ?thesis by (auto simp: accounted_def split: if_splits)
  qed (use acc in \<open>simp_all add: accounted_def, blast+\<close>)
qed simp

text \<open>C32: What an MCP server changes on disk. A history that starts with a fresh server changes a file only if the server
  was given write authority, and only by a call of \<^verbatim>\<open>patch_apply\<close> with a token that an earlier request of the same
  history was answered with, for a valid plan it asked to preview; what runs is the transaction of that
  plan's edits, inside the root the server is confined to, and the token is worth nothing afterwards.\<close>

theorem mcp_writes_previewed_plans:
  assumes "mcp_history ((NewServerWithPolicy version allow)\<lparr>ms_root := root\<rparr>) disk0 es s disk"
    and "mcp_value w cancelled v s disk = (r, s', disk')" and "disk' \<noteq> disk"
  shows "allow \<and>
    (\<exists>args token asked plan. tool_of v = Some (''patch_apply'', args) \<and> string_entry ''token'' args = Some token \<and>
       decode_plan (mustArguments args ''plan'') = Some asked \<and> (root = [] \<or> sameRoot (mw_cwd w) root (pl_WorkspaceRoot asked)) \<and>
       list_ex (grants token plan) es \<and>
       disk' = snd (ApplyAtomic (mw_os w) (pl_WorkspaceRoot asked) (pl_Edits (snd (plan_JSON plan))) disk) \<and>
       (\<exists>a. ms_authorizer s' = Some a \<and> au_tokens a token = None))"
proof -
  have start: "accounted [] ((NewServerWithPolicy version allow)\<lparr>ms_root := root\<rparr>)"
    by (auto simp: accounted_def NewServerWithPolicy_def NewServerWithVersion_def NewAuthorizer_def Let_def split: if_splits)
  have kept: "ms_allowWrite s = allow" "ms_root s = root"
    using history_kept [OF assms(1)] by (auto simp: NewServerWithPolicy_def NewServerWithVersion_def Let_def)
  from request_effect [OF assms(2)] assms(3) obtain call r' where call: "tool_of v = Some call"
      "effect_of w (fst (snd cancelled)) call s disk (r', s', disk')"
    by (auto simp: read_only_def)
  have "patch_preview w i (snd call) s disk \<noteq> (r', s', disk')" for i
    using assms(3) preview_effect [of w i "snd call" s disk r' s' disk'] by (auto simp: read_only_def)
  with call(2) kept obtain args i where args: "call = (''patch_apply'', args)" "allow"
      "patch_apply w (fst (snd cancelled)) i args s disk = (r', s', disk')"
    by (cases call) (fastforce simp: effect_of_def)
  from apply_effect [OF args(3)] assms(3) obtain asked token a p where
    asked: "decode_plan (mustArguments args ''plan'') = Some asked" "string_entry ''token'' args = Some token"
      "root = [] \<or> sameRoot (mw_cwd w) root (pl_WorkspaceRoot asked)"
    and p: "ms_authorizer s = Some a" "au_tokens a token = Some p"
      "ms_authorizer s' = Some (a\<lparr>au_tokens := (au_tokens a)(token := None)\<rparr>)"
      "disk' = snd (ApplyAtomic (mw_os w) (pl_WorkspaceRoot asked) (pl_Edits p) disk)"
    unfolding kept by (auto simp: read_only_def)
  obtain plan where "p = snd (plan_JSON plan)" "list_ex (grants token plan) es"
    using history_accounted [OF assms(1) start] p(1,2) by (auto simp: accounted_def)
  with asked p args(1,2) call(1) show ?thesis by auto
qed

section \<open>A session\<close>

definition mcp_edit :: Edit where
  "mcp_edit = demo_edit 0 0 [] ''XY''"

definition mcp_plan :: PatchPlan where
  "mcp_plan = zero_plan\<lparr>pl_Version := PlanVersion, pl_InputSnapshot := ''s'', pl_WorkspaceRoot := ''/w'', pl_Edits := [mcp_edit]\<rparr>"

definition mcp_file :: FilePreview where
  "mcp_file = \<lparr>fp_Path = ''a.cns'', fp_OldHash = digest ''abcdef'', fp_NewHash = digest ''XYabcdef'', fp_Bytes = ''XYabcdef''\<rparr>"

definition mcp_place :: mcp_world where
  "mcp_place = \<lparr>mw_url = (\<lambda>_. None), mw_order = id, mw_cwd = None, mw_os = demo_os, mw_text = (\<lambda>_. [])\<rparr>"

definition mcp_plan_json :: json where
  "mcp_plan_json = JObj
     [(''edits'', JArr [JObj [(''ContentHash'', JStr (digest ''abcdef'')), (''IdentityContract'', JStr IdentityContractVersion),
         (''NewText'', JStr ''XY''), (''Path'', JStr ''a.cns'')]]),
      (''inputSnapshot'', JStr ''s''), (''version'', JStr PlanVersion), (''workspaceRoot'', JStr ''/w'')]"

definition mcp_call :: "string \<Rightarrow> (string \<times> json) list \<Rightarrow> json" where
  "mcp_call name tail = JObj [(''id'', JStr ''1''), (''jsonrpc'', JStr ''2.0''), (''method'', JStr ''tools/call''),
     (''params'', JObj [(''arguments'', JObj ((''plan'', mcp_plan_json) # tail)), (''name'', JStr name)])]"

definition mcp_plan_any :: any where
  "mcp_plan_any = VObj
     [(''edits'', VArr [VObj [(''ContentHash'', VStr (digest ''abcdef'')), (''IdentityContract'', VStr IdentityContractVersion),
         (''NewText'', VStr ''XY''), (''Path'', VStr ''a.cns'')]]),
      (''inputSnapshot'', VStr ''s''), (''version'', VStr PlanVersion), (''workspaceRoot'', VStr ''/w'')]"

lemma as_map_sorted:
  assumes "sorted (map fst kvs)" and "distinct (map fst kvs)"
  shows "as_map kvs = kvs"
proof -
  have "sort_strings (map fst kvs) = map fst kvs"
    using properties_for_sort [OF mset_sort_strings sorted_sort_strings, of "map fst kvs"] assms(1) by (simp add: sorted_sort_id)
  moreover have "map (\<lambda>k. (k, the (map_of (rev kvs) k))) (map fst kvs) = kvs"
    unfolding map_map
  proof (rule map_idI)
    fix e
    assume "e \<in> set kvs"
    then have "map_of (rev kvs) (fst e) = Some (snd e)" using assms(2) by (intro map_of_is_SomeI) (auto simp: rev_map [symmetric])
    then show "((\<lambda>k. (k, the (map_of (rev kvs) k))) \<circ> fst) e = e" by simp
  qed
  ultimately show ?thesis using assms(2) by (simp add: as_map_def distinct_remdups_id)
qed

lemma mcp_plan_any: "json_any mcp_plan_json = Some mcp_plan_any"
proof -
  have "sorted [''edits'', ''inputSnapshot'', ''version'', ''workspaceRoot'']" "sorted [''ContentHash'', ''IdentityContract'', ''NewText'', ''Path'']"
    by code_simp+
  then show ?thesis by (simp add: mcp_plan_json_def mcp_plan_any_def as_map_sorted del: sorted2)
qed

lemma snapshot_plan: "snapshot_json mcp_plan_any = mcp_plan_json"
  by (simp add: mcp_plan_json_def mcp_plan_any_def)

lemma plan_keys:
  "\<not> equal_fold ''edits'' ''version''" "\<not> equal_fold ''edits'' ''operationId''" "\<not> equal_fold ''edits'' ''workspaceRoot''"
  "\<not> equal_fold ''edits'' ''workspaceIdentity''" "\<not> equal_fold ''edits'' ''profile''" "\<not> equal_fold ''edits'' ''inputSnapshot''"
  "equal_fold ''edits'' ''edits''" "\<not> equal_fold ''inputSnapshot'' ''version''" "\<not> equal_fold ''inputSnapshot'' ''operationId''"
  "\<not> equal_fold ''inputSnapshot'' ''workspaceRoot''" "\<not> equal_fold ''inputSnapshot'' ''workspaceIdentity''" "\<not> equal_fold ''inputSnapshot'' ''profile''"
  "equal_fold ''inputSnapshot'' ''inputSnapshot''" "equal_fold ''version'' ''version''" "\<not> equal_fold ''workspaceRoot'' ''version''"
  "\<not> equal_fold ''workspaceRoot'' ''operationId''" "equal_fold ''workspaceRoot'' ''workspaceRoot''" "\<not> equal_fold ''ContentHash'' ''Path''"
  "equal_fold ''ContentHash'' ''ContentHash''" "\<not> equal_fold ''IdentityContract'' ''Path''" "\<not> equal_fold ''IdentityContract'' ''ContentHash''"
  "equal_fold ''IdentityContract'' ''IdentityContract''" "\<not> equal_fold ''NewText'' ''Path''" "\<not> equal_fold ''NewText'' ''ContentHash''"
  "\<not> equal_fold ''NewText'' ''IdentityContract''" "\<not> equal_fold ''NewText'' ''Identity''" "\<not> equal_fold ''NewText'' ''Span''"
  "\<not> equal_fold ''NewText'' ''OldText''" "equal_fold ''NewText'' ''NewText''" "equal_fold ''Path'' ''Path''"
  by code_simp+

lemma mcp_plan_decoded: "decode_plan (json_encode mcp_plan_json) = Some mcp_plan"
proof -
  have u: "utf8_repair (digest s) = digest s" for s
    using valid_utf8_ascii [OF sha256_hex_ascii] by (simp add: digest_def valid_utf8_def)
  have "json_ints mcp_plan_json" by (simp add: mcp_plan_json_def)
  moreover have "json_repair mcp_plan_json = mcp_plan_json"
    by (simp add: mcp_plan_json_def u utf8_repair_ascii PlanVersion_def IdentityContractVersion_def)
  ultimately have "json_unmarshal (json_encode mcp_plan_json) = Some mcp_plan_json" by (simp add: json_unmarshal_encode)
  moreover have "decode_struct plan_field mcp_plan_json zero_plan = Some mcp_plan"
    by (simp add: mcp_plan_json_def decode_struct_def plan_field_def edit_field_def decode_string_def decode_slice_def zero_edit_def zero_plan_def
        mcp_plan_def mcp_edit_def demo_edit_def plan_keys)
  ultimately show ?thesis by (simp add: decode_plan_def)
qed

lemma request_keys:
  "equal_fold ''id'' ''id''" "\<not> equal_fold ''id'' ''jsonrpc''" "equal_fold ''jsonrpc'' ''jsonrpc''" "\<not> equal_fold ''method'' ''jsonrpc''"
  "\<not> equal_fold ''method'' ''id''" "equal_fold ''method'' ''method''" "\<not> equal_fold ''params'' ''jsonrpc''" "\<not> equal_fold ''params'' ''id''"
  "\<not> equal_fold ''params'' ''method''" "equal_fold ''params'' ''params''" "equal_fold ''arguments'' ''arguments''" "\<not> equal_fold ''arguments'' ''name''"
  "equal_fold ''name'' ''name''"
  by code_simp+

definition mcp_args :: "(string \<times> any) list \<Rightarrow> (string \<times> any) list" where
  "mcp_args tail = (''plan'', mcp_plan_any) # tail"

lemma mcp_call_decoded:
  assumes "(tail, atail) \<in> {([], []), ([(''token'', JStr t)], [(''token'', VStr t)])}"
  shows "json_any (mcp_call name tail) \<noteq> None"
    and "decode_struct request_field (mcp_call name tail) zero_request = Some \<lparr>rq_JSONRPC = ''2.0'', rq_ID = Some (JStr ''1''),
      rq_Method = ''tools/call'', rq_Params = Some (JObj [(''arguments'', JObj ((''plan'', mcp_plan_json) # tail)), (''name'', JStr name)])\<rparr>"
    and "decode_struct tool_field (JObj [(''arguments'', JObj ((''plan'', mcp_plan_json) # tail)), (''name'', JStr name)])
      \<lparr>tc_Name = [], tc_Arguments = None\<rparr> = Some \<lparr>tc_Name = name, tc_Arguments = Some (mcp_args atail)\<rparr>"
proof -
  show "json_any (mcp_call name tail) \<noteq> None"
    using assms by (auto simp: mcp_call_def mcp_plan_any)
  show "decode_struct request_field (mcp_call name tail) zero_request = Some \<lparr>rq_JSONRPC = ''2.0'', rq_ID = Some (JStr ''1''),
      rq_Method = ''tools/call'', rq_Params = Some (JObj [(''arguments'', JObj ((''plan'', mcp_plan_json) # tail)), (''name'', JStr name)])\<rparr>"
    by (simp add: mcp_call_def decode_struct_def request_field_def request_keys decode_string_def zero_request_def)
  have "sorted [''plan'', ''token'']" by code_simp
  then have "as_map (mcp_args atail) = mcp_args atail" using assms by (auto simp: mcp_args_def intro!: as_map_sorted)
  then show "decode_struct tool_field (JObj [(''arguments'', JObj ((''plan'', mcp_plan_json) # tail)), (''name'', JStr name)])
      \<lparr>tc_Name = [], tc_Arguments = None\<rparr> = Some \<lparr>tc_Name = name, tc_Arguments = Some (mcp_args atail)\<rparr>"
    using assms by (auto simp: decode_struct_def tool_field_def request_keys decode_map_def decode_string_def mcp_plan_any mcp_args_def)
qed

lemma mcp_called:
  assumes "(tail, atail) \<in> {([], []), ([(''token'', JStr t)], [(''token'', VStr t)])}"
  shows "mcp_value mcp_place (False, False, False) (mcp_call name tail) s disk =
      (case toolCall mcp_place (False, False) (JStr ''1'') (Some (JObj [(''arguments'', JObj ((''plan'', mcp_plan_json) # tail)), (''name'', JStr name)])) s disk of
         (r, s', disk') \<Rightarrow> (Some r, s', disk'))"
    and "tool_of (mcp_call name tail) = Some (name, mcp_args atail)"
  using mcp_call_decoded [OF assms, of name]
  by (auto simp: mcp_value_def mcp_call_def isNotification_def validateModernRequest_def raw_map_def mcp_dispatch_def rawID_def Let_def tool_of_def)

lemma mcp_prepare: "prepare demo_os ''/w'' [mcp_edit] = Inr [mcp_file]"
proof -
  have c: "canonicalRelative ''a.cns'' = Some ''a.cns''" "trim_space ''/w'' \<noteq> []" by code_simp+
  have "check_edit ''a.cns'' (digest ''abcdef'') ''abcdef'' mcp_edit = None"
    unfolding mcp_edit_def by (rule demo_check) (simp_all add: bytes_between_def)
  moreover have "apply_edits [mcp_edit] ''abcdef'' = ''XYabcdef''"
    by (simp add: apply_edits_def splice_def mcp_edit_def demo_edit_def)
  moreover have "group_edits [] [mcp_edit] = Some [(''a.cns'', [mcp_edit])]" by (simp add: mcp_edit_def demo_edit_def c)
  moreover have "os_read demo_os ''/w/a.cns'' = Some ''abcdef''" by (simp add: demo_os_def)
  ultimately show ?thesis
    by (simp add: prepare_def c sorted_groups_def preview_file_def demo_resolve mcp_file_def Let_def)
qed

lemma mcp_applied: "snd (ApplyAtomic demo_os ''/w'' [mcp_edit] demo_fs) \<noteq> demo_fs"
proof -
  have p: "prepare (fs_view demo_os demo_fs) ''/w'' [mcp_edit] = Inr [mcp_file]" by (simp add: demo_view mcp_prepare)
  have targets: "targets demo_os ''/w'' [mcp_file] = [''/w/a.cns'']" by (simp add: targets_def mcp_file_def demo_resolve)
  have fresh: "fresh_names demo_os ''/w'' [mcp_file] demo_fs"
    unfolding fresh_names_def targets by (simp add: demo_fs_def tx_names_def backup_path_def)
  have scratch: "''/w/a.cns'' \<notin> scratch_names demo_os ''/w'' [mcp_file] demo_fs"
    unfolding scratch_names_def targets by (simp add: demo_fs_def hidden_def backup_path_def)
  obtain res s' where r: "ApplyAtomic demo_os ''/w'' [mcp_edit] demo_fs = (res, s')" by fastforce
  have f: "at_most_one (fs_faults demo_fs)" "list_all Not (fs_faults demo_fs)" by (simp_all add: demo_fs_def)
  have "fs_files s' ''/w/a.cns'' = new_content demo_os ''/w'' [mcp_file] (fs_files demo_fs) ''/w/a.cns''"
    using apply_atomic_outcome [OF p _ fresh r] f scratch by (auto simp: once_def quiet_def)
  also have "\<dots> = Some \<lparr>f_bytes = ''XYabcdef'', f_mode = 420\<rparr>"
    unfolding new_content_def targets by (simp add: demo_fs_def mcp_file_def)
  finally show ?thesis using r by (auto simp: demo_fs_def)
qed

definition mcp_start :: mcp_Server where
  "mcp_start = (NewServerWithPolicy ''1'' True)\<lparr>ms_root := []\<rparr>"

definition mcp_granted :: mcp_Server where
  "mcp_granted = mcp_start\<lparr>ms_authorizer := Some ((NewAuthorizer True)\<lparr>au_tokens := [plan_token mcp_plan \<mapsto> mcp_plan]\<rparr>)\<rparr>"

lemma mcp_start_simps [simp]:
  "ms_allowWrite mcp_start" "ms_root mcp_start = []" "ms_authorizer mcp_start = Some (NewAuthorizer True)"
  by (simp_all add: mcp_start_def NewServerWithPolicy_def Let_def)

lemma mcp_granted_simps [simp]:
  "ms_allowWrite mcp_granted" "ms_root mcp_granted = []"
  "ms_authorizer mcp_granted = Some ((NewAuthorizer True)\<lparr>au_tokens := [plan_token mcp_plan \<mapsto> mcp_plan]\<rparr>)"
  by (simp_all add: mcp_granted_def)

lemma mcp_plan_valid: "plan_Validate mcp_plan = None" "snd (plan_JSON mcp_plan) = mcp_plan"
proof -
  have "trim_space ''s'' \<noteq> []" by code_simp
  then show "plan_Validate mcp_plan = None"
    by (simp add: plan_Validate_def mcp_plan_def PlanVersion_def plan_edit_invalid_def mcp_edit_def demo_edit_def IdentityContractVersion_def)
  show "snd (plan_JSON mcp_plan) = mcp_plan" by (simp add: plan_JSON_def mcp_plan_def Let_def)
qed

lemma mcp_arguments: "decode_plan (mustArguments (mcp_args tail) ''plan'') = Some mcp_plan"
  by (simp add: mustArguments_def mcp_args_def snapshot_plan mcp_plan_decoded)

lemma no_limit: "\<not> bad_limit (mcp_args [])" "\<not> bad_limit (mcp_args [(''token'', VStr t)])"
  by (simp_all add: bad_limit_def mcp_args_def)

lemma mcp_previews:
  "mcp_value mcp_place (False, False, False) (mcp_call ''patch_preview'' []) mcp_start demo_fs =
     (Some (McpResult (JStr ''1'') (JObj [(''preview'', preview_json [mcp_file]), (''token'', JStr (plan_token mcp_plan))])), mcp_granted, demo_fs)"
proof -
  have "patch_preview mcp_place (JStr ''1'') (mcp_args []) mcp_start demo_fs =
    (McpResult (JStr ''1'') (JObj [(''preview'', preview_json [mcp_file]), (''token'', JStr (plan_token mcp_plan))]), mcp_granted, demo_fs)"
    using mcp_prepare by (simp add: patch_preview_def mcp_arguments mcp_plan_valid mcp_place_def demo_view PreviewPatch_def Issue_def Let_def
        NewAuthorizer_def mcp_granted_def mcp_plan_def [THEN arg_cong [where f = pl_WorkspaceRoot]] mcp_plan_def [THEN arg_cong [where f = pl_Edits]])
  then show ?thesis
    using mcp_called(1) [of "[]" "[]" _ "''patch_preview''"] mcp_call_decoded(3) [of "[]" "[]" _ "''patch_preview''"]
    by (simp add: toolCall_def no_limit)
qed

lemma mcp_applies:
  "\<exists>r s'. mcp_value mcp_place (False, False, False) (mcp_call ''patch_apply'' [(''token'', JStr (plan_token mcp_plan))]) mcp_granted demo_fs =
     (r, s', snd (ApplyAtomic demo_os ''/w'' [mcp_edit] demo_fs))"
proof -
  let ?args = "mcp_args [(''token'', VStr (plan_token mcp_plan))]"
  have token: "string_entry ''token'' ?args = Some (plan_token mcp_plan)" "plan_token mcp_plan \<noteq> []"
    by (simp_all add: string_entry_def mcp_args_def plan_token_def)
  obtain res disk where a: "ApplyAtomic demo_os ''/w'' [mcp_edit] demo_fs = (res, disk)" by fastforce
  have p: "pl_WorkspaceRoot mcp_plan = ''/w''" "pl_Edits mcp_plan = [mcp_edit]" by (simp_all add: mcp_plan_def)
  have "\<exists>r s'. patch_apply mcp_place False (JStr ''1'') ?args mcp_granted demo_fs = (r, s', disk)"
    by (simp add: patch_apply_def mcp_arguments token Let_def service_Apply_def Consume_def mcp_plan_valid p mcp_place_def a split: sum.split)
  then show ?thesis
    using mcp_called(1) [of "[(''token'', JStr (plan_token mcp_plan))]" "[(''token'', VStr (plan_token mcp_plan))]" "plan_token mcp_plan" "''patch_apply''"]
      mcp_call_decoded(3) [of "[(''token'', JStr (plan_token mcp_plan))]" "[(''token'', VStr (plan_token mcp_plan))]" "plan_token mcp_plan" "''patch_apply''"] a
    by (auto simp: toolCall_def no_limit)
qed

theorem mcp_writes_previewed_plans_witness:
  "\<exists>es s r s' disk'. mcp_history mcp_start demo_fs es s demo_fs \<and>
     mcp_value mcp_place (False, False, False) (mcp_call ''patch_apply'' [(''token'', JStr (plan_token mcp_plan))]) s demo_fs = (r, s', disk') \<and>
     disk' \<noteq> demo_fs \<and> (\<exists>token plan. list_ex (grants token plan) es)"
proof -
  let ?e = "(mcp_call ''patch_preview'' [], Some (McpResult (JStr ''1'') (JObj [(''preview'', preview_json [mcp_file]), (''token'', JStr (plan_token mcp_plan))])))"
  have h: "mcp_history mcp_start demo_fs [?e] mcp_granted demo_fs"
    using mcp_history.request [OF mcp_history.begins mcp_previews] by simp
  obtain r s' where a: "mcp_value mcp_place (False, False, False) (mcp_call ''patch_apply'' [(''token'', JStr (plan_token mcp_plan))]) mcp_granted demo_fs =
     (r, s', snd (ApplyAtomic demo_os ''/w'' [mcp_edit] demo_fs))"
    using mcp_applies by blast
  from mcp_writes_previewed_plans [OF h [unfolded mcp_start_def] a mcp_applied]
  have "\<exists>token plan. list_ex (grants token plan) [?e]" by blast
  with h a mcp_applied show ?thesis by blast
qed

section \<open>What the server does not do\<close>

text \<open>A token does not stand for the root its plan was previewed in: the transaction runs in the root of the request.\<close>

lemma token_for_any_root:
  assumes "decode_plan (mustArguments args ''plan'') = Some asked" and "string_entry ''token'' args = Some token" and "token \<noteq> []"
    and "ms_root s = []" and "ms_authorizer s = Some a" and "au_tokens a token = Some p" and "plan_Validate p = None"
    and "pl_InputSnapshot p = pl_InputSnapshot asked"
  shows "snd (snd (patch_apply w False i args s disk)) = snd (ApplyAtomic (mw_os w) (pl_WorkspaceRoot asked) (pl_Edits p) disk)"
  using assms by (simp add: patch_apply_def Let_def service_Apply_def Consume_def split: prod.split sum.split)

text \<open>The text of a document in a request is stored whatever the root is, and the root is not consulted.\<close>

lemma documents_not_confined:
  "forward w cancelled (s\<lparr>ms_root := root\<rparr>) v = (case forward w cancelled s v of (r, s') \<Rightarrow> (r, s'\<lparr>ms_root := root\<rparr>))"
  by (simp add: forward_def split: prod.split)

text \<open>Of the resources that match a template none can be read but the current snapshot.\<close>

lemma templates_not_readable: "has_prefix uri ''ikm://file/'' \<Longrightarrow> resource_body uri = None"
  by (auto simp: resource_body_def has_prefix_def)

text \<open>Sixteen of the tools that are listed are served by nothing.\<close>

lemma listed_tools_unserved:
  "filter (\<lambda>name. tool_method name \<notin> set (''initialize'' # ''shutdown'' # semantic_methods)) default_names = drop 5 default_names"
  by code_simp

end
