(* ===== verification/Ecosystem.thy ===== *)
theory Ecosystem
  imports Profile Scanner Ir_Json
begin

text \<open>
  \<^verbatim>\<open>internal/ecosystem/ecosystem.go\<close>: the rosters of \<^verbatim>\<open>select.def\<close>, the \<^verbatim>\<open>[Files]\<close> sections of characters and the
  actions of AIR files, each line with the status of what it names. The text of a failed read is an argument. A nil list
  of options and an empty one are both left out of the JSON.
\<close>

section \<open>Lines\<close>

fun crlf_to_lf :: "string \<Rightarrow> string" where
  "crlf_to_lf (a # b # s) = (if a = CHR 0x0D \<and> b = CHR 0x0A then CHR 0x0A # crlf_to_lf s else a # crlf_to_lf (b # s))"
| "crlf_to_lf s = s"

text \<open>The lines of a source, numbered from one.\<close>

definition unix_lines :: "string \<Rightarrow> string list" where
  "unix_lines s = split_on (CHR 0x0A) (crlf_to_lf s)"

definition numbered :: "'a list \<Rightarrow> (nat \<times> 'a) list" where
  "numbered xs = zip [1..<Suc (length xs)] xs"

definition splitComment :: "string \<Rightarrow> string" where
  "splitComment s = takeWhile (\<lambda>c. c \<noteq> CHR '';'') s"

definition isHeader :: "string \<Rightarrow> bool" where
  "isHeader s \<longleftrightarrow> 2 \<le> length s \<and> hd s = CHR ''['' \<and> last s = CHR '']''"

definition header_name :: "string \<Rightarrow> string" where
  "header_name s = trim_space (butlast (tl s))"

definition eco_unquote :: "string \<Rightarrow> string" where
  "eco_unquote s =
     (if 2 \<le> length s \<and> (hd s = CHR 0x22 \<and> last s = CHR 0x22 \<or> hd s = CHR 0x27 \<and> last s = CHR 0x27) then butlast (tl s) else s)"

text \<open>The fields between the commas that are outside of quotes; \<open>cur\<close> is the field so far.\<close>

fun csv_from :: "char option \<Rightarrow> string \<Rightarrow> string \<Rightarrow> string list" where
  "csv_from q cur [] = [cur]"
| "csv_from q cur (c # s) =
     (case q of
        Some d \<Rightarrow> csv_from (if c = d then None else q) (cur @ [c]) s
      | None \<Rightarrow>
          if c = CHR 0x27 \<or> c = CHR 0x22 then csv_from (Some c) (cur @ [c]) s
          else if c = CHR '','' then cur # csv_from None [] s
          else csv_from None (cur @ [c]) s)"

definition csv :: "string \<Rightarrow> string list" where
  "csv s = csv_from None [] s"

definition isDef :: "string \<Rightarrow> bool" where
  "isDef s \<longleftrightarrow> has_suffix (to_lower (eco_unquote (trim_space s))) ''.def''"

definition separator :: "string \<Rightarrow> bool" where
  "separator s \<longleftrightarrow> 3 \<le> length s \<and> list_all (\<lambda>c. c \<in> set '' -*=_ .'') s"

definition ignorable :: "string \<Rightarrow> bool" where
  "ignorable s \<longleftrightarrow>
     (let l = to_lower (trim_space s) in l = ''randomselect'' \<or> has_prefix l '';'' \<or> has_prefix l ''#'' \<or> separator l)"

definition isStages :: "string \<Rightarrow> bool" where
  "isStages s \<longleftrightarrow> equal_fold s ''stages'' \<or> equal_fold s ''extrastages''"

definition isRosterSection :: "string \<Rightarrow> bool" where
  "isRosterSection s \<longleftrightarrow> equal_fold s ''characters'' \<or> isStages s"

section \<open>Paths and diagnostics\<close>

definition cleanAbs :: "sys \<Rightarrow> string \<Rightarrow> string" where
  "cleanAbs sy s0 = (let s = path_clean (trim_space s0) in case abs_path (sys_cwd sy) s of Some a \<Rightarrow> a | None \<Rightarrow> s)"

definition cleanPath :: "sys \<Rightarrow> string \<Rightarrow> string" where
  "cleanPath sy s = (if s = [] then [] else cleanAbs sy s)"

definition is_file :: "sys \<Rightarrow> string \<Rightarrow> bool" where
  "is_file sy p \<longleftrightarrow> (case sys_stat sy p of None \<Rightarrow> False | Some i \<Rightarrow> \<not> fi_dir i)"

definition lineSpan :: "nat \<Rightarrow> SourceSpan" where
  "lineSpan line = \<lparr>Start = \<lparr>Line = int line, Column = 1\<rparr>, End = \<lparr>Line = int line, Column = 1\<rparr>\<rparr>"

definition lineDiag :: "string \<Rightarrow> nat \<Rightarrow> string \<Rightarrow> Severity \<Rightarrow> string \<Rightarrow> Diagnostic" where
  "lineDiag path line code severity msg =
     \<lparr>dg_code = code, dg_severity = severity, dg_message = msg, dg_path = path,
      dg_start = \<lparr>Line = int line, Column = 1\<rparr>, dg_end = \<lparr>Line = int line, Column = 1\<rparr>, dg_related = []\<rparr>"

definition eco_diag :: "string \<Rightarrow> string \<Rightarrow> Severity \<Rightarrow> string \<Rightarrow> Diagnostic" where
  "eco_diag path code severity msg = lineDiag path 1 code severity msg"

definition or_strict :: "CompatibilityProfile \<Rightarrow> CompatibilityProfile" where
  "or_strict p = (if cp_Name p = [] then NewStrictPortableProfile [] else p)"

section \<open>Entries\<close>

datatype EcoStatus = EcoResolved | EcoMissing | EcoDuplicate

fun eco_status_str :: "EcoStatus \<Rightarrow> string" where
  "eco_status_str EcoResolved = ''resolved''"
| "eco_status_str EcoMissing = ''missing''"
| "eco_status_str EcoDuplicate = ''duplicate''"

record Entry =
  en_Section :: string
  en_Index :: nat
  en_DeclaredPath :: string
  en_ResolvedPath :: string
  en_Options :: "string list"
  en_Status :: EcoStatus
  en_Span :: SourceSpan

text \<open>The status of a path, given the keys of the files found so far.\<close>

definition entry_status :: "sys \<Rightarrow> CompatibilityProfile \<Rightarrow> string list \<Rightarrow> string \<Rightarrow> EcoStatus" where
  "entry_status sy p seen resolved =
     (if DedupKey p resolved \<in> set seen then EcoDuplicate
      else if resolved = [] \<or> \<not> is_file sy resolved then EcoMissing else EcoResolved)"

definition mark_seen :: "CompatibilityProfile \<Rightarrow> string \<Rightarrow> EcoStatus \<Rightarrow> string list \<Rightarrow> string list" where
  "mark_seen p resolved status seen = (if status = EcoResolved then DedupKey p resolved # seen else seen)"

record SelectReport =
  slr_Path :: string
  slr_Characters :: "Entry list"
  slr_Stages :: "Entry list"
  slr_Diagnostics :: "Diagnostic list"

record ManifestReport =
  mfr_Path :: string
  mfr_Files :: "Entry list"
  mfr_Diagnostics :: "Diagnostic list"

definition entry_json :: "Entry \<Rightarrow> json" where
  "entry_json e = JObj ([(''section'', JStr (en_Section e)), (''index'', JInt (int (en_Index e))), (''declaredPath'', JStr (en_DeclaredPath e))] @
     omit_empty ''resolvedPath'' (en_ResolvedPath e) @
     (if en_Options e = [] then [] else [(''options'', JArr (map JStr (en_Options e)))]) @
     [(''status'', JStr (eco_status_str (en_Status e))), (''span'', ir_span_json (en_Span e))])"

definition select_report_json :: "SelectReport \<Rightarrow> json" where
  "select_report_json r = JObj [(''path'', JStr (slr_Path r)), (''characters'', JArr (map entry_json (slr_Characters r))),
     (''stages'', JArr (map entry_json (slr_Stages r))), (''diagnostics'', JArr (map ir_diagnostic_json (slr_Diagnostics r)))]"

definition manifest_report_json :: "ManifestReport \<Rightarrow> json" where
  "manifest_report_json r = JObj [(''path'', JStr (mfr_Path r)), (''files'', JArr (map entry_json (mfr_Files r))),
     (''diagnostics'', JArr (map ir_diagnostic_json (mfr_Diagnostics r)))]"

section \<open>Rosters\<close>

record select_state =
  ss_section :: string
  ss_characters :: bool
  ss_seenChars :: "string list"
  ss_seenStages :: "string list"
  ss_report :: SelectReport

definition add_select_diag :: "Diagnostic \<Rightarrow> select_state \<Rightarrow> select_state" where
  "add_select_diag d st = st\<lparr>ss_report := (ss_report st)\<lparr>slr_Diagnostics := slr_Diagnostics (ss_report st) @ [d]\<rparr>\<rparr>"

text \<open>The first field that names a definition, and the others without blanks.\<close>

definition def_field :: "string list \<Rightarrow> nat option" where
  "def_field cols = (case filter (\<lambda>(j, f). isDef (trim_space f)) (zip [0..<length cols] cols) of [] \<Rightarrow> None | (j, f) # _ \<Rightarrow> Some j)"

definition entry_options :: "nat \<Rightarrow> string list \<Rightarrow> string list" where
  "entry_options selected cols =
     map (\<lambda>(j, f). trim_space f) (filter (\<lambda>(j, f). j \<noteq> selected \<and> trim_space f \<noteq> []) (zip [0..<length cols] cols))"

definition status_diags :: "EcoStatus \<Rightarrow> Diagnostic \<Rightarrow> Diagnostic \<Rightarrow> Diagnostic list" where
  "status_diags status duplicate missing =
     (case status of EcoResolved \<Rightarrow> [] | EcoDuplicate \<Rightarrow> [duplicate] | EcoMissing \<Rightarrow> [missing])"

definition select_entry :: "sys \<Rightarrow> CompatibilityProfile \<Rightarrow> nat \<Rightarrow> string list \<Rightarrow> nat \<Rightarrow> select_state \<Rightarrow> select_state" where
  "select_entry sy p line cols selected st =
     (let r = ss_report st; path = slr_Path r; declared = eco_unquote (trim_space (cols ! selected));
          resolved = ResolveSourcePath sy p (path_dir path) declared; stages = isStages (ss_section st);
          seen = (if stages then ss_seenStages st else ss_seenChars st); status = entry_status sy p seen resolved;
          entry = \<lparr>en_Section = ss_section st, en_Index = line, en_DeclaredPath = declared, en_ResolvedPath = cleanPath sy resolved,
            en_Options = entry_options selected cols, en_Status = status, en_Span = lineSpan line\<rparr>;
          diags = slr_Diagnostics r @ status_diags status
            (lineDiag path line ''duplicate-entry'' SeverityWarning ''entry resolves to a previously declared path'')
            (lineDiag path line ''missing-entry'' SeverityError ''declared path does not resolve to a file'')
      in if stages
         then st\<lparr>ss_seenStages := mark_seen p resolved status seen,
                ss_report := r\<lparr>slr_Stages := slr_Stages r @ [entry], slr_Diagnostics := diags\<rparr>\<rparr>
         else st\<lparr>ss_seenChars := mark_seen p resolved status seen,
                ss_report := r\<lparr>slr_Characters := slr_Characters r @ [entry], slr_Diagnostics := diags\<rparr>\<rparr>)"

definition select_step :: "sys \<Rightarrow> CompatibilityProfile \<Rightarrow> select_state \<Rightarrow> nat \<times> string \<Rightarrow> select_state" where
  "select_step sy p st numbered_line =
     (case numbered_line of (line, raw) \<Rightarrow>
        let code = trim_space (splitComment raw) in
        if code = [] then st
        else if isHeader code
        then st\<lparr>ss_section := header_name code, ss_characters := ss_characters st \<or> equal_fold (header_name code) ''characters''\<rparr>
        else if \<not> isRosterSection (ss_section st) \<or> ignorable code then st
        else case def_field (csv code) of
          None \<Rightarrow> add_select_diag (lineDiag (slr_Path (ss_report st)) line ''invalid-roster-entry'' SeverityWarning ''roster line has no .def path'') st
        | Some selected \<Rightarrow> select_entry sy p line (csv code) selected st)"

definition AnalyzeSelect :: "(string \<Rightarrow> string) \<Rightarrow> sys \<Rightarrow> string \<Rightarrow> CompatibilityProfile \<Rightarrow> SelectReport" where
  "AnalyzeSelect read_error sy path p0 =
     (let p = or_strict p0; here = cleanAbs sy path; r = \<lparr>slr_Path = here, slr_Characters = [], slr_Stages = [], slr_Diagnostics = []\<rparr> in
      if trim_space path = []
      then r\<lparr>slr_Path := [], slr_Diagnostics := [eco_diag [] ''missing-select'' SeverityError ''select path is empty'']\<rparr>
      else case sys_read sy here of
        None \<Rightarrow> r\<lparr>slr_Diagnostics := [eco_diag here ''select-read-error'' SeverityError (read_error here)]\<rparr>
      | Some content \<Rightarrow>
          (let st = foldl (select_step sy p)
                 \<lparr>ss_section = [], ss_characters = False, ss_seenChars = [], ss_seenStages = [], ss_report = r\<rparr> (numbered (unix_lines content))
           in if ss_characters st then ss_report st
              else (ss_report st)\<lparr>slr_Diagnostics := slr_Diagnostics (ss_report st) @
                     [eco_diag here ''missing-characters-section'' SeverityWarning ''select file has no [Characters] section'']\<rparr>))"

section \<open>Manifests of characters\<close>

definition manifestKey :: "string \<Rightarrow> bool" where
  "manifestKey k0 =
     (let k = to_lower (trim_space k0) in
      k \<in> {''cmd'', ''cns'', ''st'', ''stcommon''} \<or> has_prefix k ''st'' \<and> drop 2 k \<noteq> [] \<and> atoi (drop 2 k) \<noteq> None)"

definition span_diag :: "string \<Rightarrow> SourceSpan \<Rightarrow> string \<Rightarrow> Severity \<Rightarrow> string \<Rightarrow> Diagnostic" where
  "span_diag path span code severity msg = (eco_diag path code severity msg)\<lparr>dg_start := Start span, dg_end := End span\<rparr>"

definition files_line :: "sys \<Rightarrow> CompatibilityProfile \<Rightarrow> string list \<times> nat \<times> ManifestReport \<Rightarrow> SourceLine \<Rightarrow> string list \<times> nat \<times> ManifestReport" where
  "files_line sy p st line =
     (case st of (seen, index0, r) \<Rightarrow>
        if ln_kind line \<noteq> SourceLineKeyValue \<or> \<not> manifestKey (ln_key line) then st
        else let index = Suc index0; declared = NormalizeSourceValue p (ln_value line);
                 resolved = ResolveSourcePath sy p (path_dir (mfr_Path r)) declared; status = entry_status sy p seen resolved;
                 entry = \<lparr>en_Section = ''Files'', en_Index = index, en_DeclaredPath = declared, en_ResolvedPath = cleanPath sy resolved,
                   en_Options = [], en_Status = status, en_Span = ln_span line\<rparr>
          in (mark_seen p resolved status seen, index,
              r\<lparr>mfr_Files := mfr_Files r @ [entry],
                mfr_Diagnostics := mfr_Diagnostics r @ status_diags status
                  (span_diag (mfr_Path r) (ln_span line) ''duplicate-manifest-entry'' SeverityWarning ''manifest path resolves to a previously declared file'')
                  (span_diag (mfr_Path r) (ln_span line) ''missing-manifest-file'' SeverityError ''declared manifest path does not resolve to a file'')\<rparr>))"

definition files_lines :: "Document \<Rightarrow> SourceLine list" where
  "files_lines doc = concat (map sec_lines (filter (\<lambda>sec. equal_fold (trim_space (sec_header sec)) ''files'') (doc_sections doc)))"

definition AnalyzeCharacterDEF :: "(string \<Rightarrow> string) \<Rightarrow> sys \<Rightarrow> string \<Rightarrow> CompatibilityProfile \<Rightarrow> ManifestReport" where
  "AnalyzeCharacterDEF read_error sy path p0 =
     (let p = or_strict p0; here = cleanAbs sy path; r = \<lparr>mfr_Path = here, mfr_Files = [], mfr_Diagnostics = []\<rparr> in
      if trim_space path = []
      then r\<lparr>mfr_Path := [], mfr_Diagnostics := [eco_diag [] ''missing-def'' SeverityError ''DEF path is empty'']\<rparr>
      else case sys_read sy here of
        None \<Rightarrow> r\<lparr>mfr_Diagnostics := [eco_diag here ''def-read-error'' SeverityError (read_error here)]\<rparr>
      | Some content \<Rightarrow>
          (case parser_Parse here content of
             None \<Rightarrow> r\<lparr>mfr_Diagnostics := [eco_diag here ''def-parse-error'' SeverityError ''unable to parse DEF'']\<rparr>
           | Some doc \<Rightarrow> snd (snd (foldl (files_line sy p) ([], 0, r) (files_lines doc)))))"

text \<open>
  \<^verbatim>\<open>internal/ecosystem/ecosystem.go\<close>, continued: the actions of an AIR file and the assets it names. The action that is
  open is the last one; it is kept as its index, as the code does.
\<close>

record AIRAction =
  aa_Number :: int
  aa_Rows :: nat
  aa_LoopStart :: bool
  aa_Span :: SourceSpan

record AIRAsset =
  ax_Kind :: string
  ax_DeclaredPath :: string
  ax_ResolvedPath :: string
  ax_Status :: EcoStatus
  ax_Span :: SourceSpan

record AIRReport =
  ar_Path :: string
  ar_Actions :: "AIRAction list"
  ar_Assets :: "AIRAsset list"
  ar_Diagnostics :: "Diagnostic list"

definition air_report_json :: "AIRReport \<Rightarrow> json" where
  "air_report_json r = JObj [(''path'', JStr (ar_Path r)),
     (''actions'', JArr (map (\<lambda>a. JObj [(''number'', JInt (aa_Number a)), (''rows'', JInt (int (aa_Rows a))),
        (''loopStart'', JBool (aa_LoopStart a)), (''span'', ir_span_json (aa_Span a))]) (ar_Actions r))),
     (''assets'', JArr (map (\<lambda>x. JObj ([(''kind'', JStr (ax_Kind x)), (''declaredPath'', JStr (ax_DeclaredPath x))] @
        omit_empty ''resolvedPath'' (ax_ResolvedPath x) @
        [(''status'', JStr (eco_status_str (ax_Status x))), (''span'', ir_span_json (ax_Span x))])) (ar_Assets r))),
     (''diagnostics'', JArr (map ir_diagnostic_json (ar_Diagnostics r)))]"

text \<open>The number \<^verbatim>\<open>strconv.Atoi\<close> gives along with its error: zero, or the nearest \<^verbatim>\<open>int\<close> when the digits are out of range.\<close>

definition atoi_number :: "string \<Rightarrow> int" where
  "atoi_number s =
     (case atoi s of
        Some n \<Rightarrow> n
      | None \<Rightarrow>
          let signed = s \<noteq> [] \<and> (hd s = CHR ''-'' \<or> hd s = CHR ''+''); ds = (if signed then tl s else s) in
          if ds = [] \<or> \<not> list_all is_digit ds then 0 else if signed \<and> hd s = CHR ''-'' then int64_min else int64_max)"

definition air_kind :: "string \<Rightarrow> string option" where
  "air_kind key =
     (if key \<in> {''sprite'', ''spritefile'', ''sff''} then Some ''sprite''
      else if key \<in> {''animation'', ''animationfile'', ''anim'', ''air''} then Some ''animation''
      else if key \<in> {''sound'', ''soundfile'', ''snd''} then Some ''sound''
      else None)"

definition airAssetKeyValue :: "string \<Rightarrow> (string \<times> string) option" where
  "airAssetKeyValue line =
     (case split_n2 line (CHR ''='') of
        [key, v] \<Rightarrow> map_option (\<lambda>kind. (kind, trim_space v)) (air_kind (to_lower (trim_space key)))
      | _ \<Rightarrow> None)"

text \<open>The first \<open>n\<close> fields as numbers, if all are.\<close>

definition int_fields :: "nat \<Rightarrow> string list \<Rightarrow> int list option" where
  "int_fields n cols = (if length cols < n then None else those (map (atoi \<circ> trim_space) (take n cols)))"

definition invalidAIRClsnRange :: "string \<Rightarrow> bool" where
  "invalidAIRClsnRange line =
     (case split_n2 line (CHR ''='') of
        [_, v] \<Rightarrow> (case int_fields 4 (csv v) of Some [a, b, c, d] \<Rightarrow> c < a \<or> d < b | _ \<Rightarrow> False)
      | _ \<Rightarrow> False)"

record air_state =
  as_actions :: "int list"
  as_assets :: "string list"
  as_current :: "nat option"
  as_report :: AIRReport

definition air_diag :: "nat \<Rightarrow> string \<Rightarrow> Severity \<Rightarrow> string \<Rightarrow> air_state \<Rightarrow> air_state" where
  "air_diag line code severity msg st = st\<lparr>as_report := (as_report st)\<lparr>ar_Diagnostics :=
     ar_Diagnostics (as_report st) @ [lineDiag (ar_Path (as_report st)) line code severity msg]\<rparr>\<rparr>"

definition addAIRAsset :: "sys \<Rightarrow> CompatibilityProfile \<Rightarrow> string \<Rightarrow> string \<Rightarrow> nat \<Rightarrow> air_state \<Rightarrow> air_state" where
  "addAIRAsset sy p kind declared0 line st =
     (let r = as_report st; declared = NormalizeSourceValue p declared0; resolved = ResolveSourcePath sy p (path_dir (ar_Path r)) declared;
          status = (if DedupKey p resolved \<in> set (as_assets st) then EcoDuplicate
                    else if declared = [] \<or> resolved = [] \<or> \<not> is_file sy resolved then EcoMissing else EcoResolved);
          asset = \<lparr>ax_Kind = kind, ax_DeclaredPath = declared, ax_ResolvedPath = cleanPath sy resolved, ax_Status = status, ax_Span = lineSpan line\<rparr>
      in st\<lparr>as_assets := mark_seen p resolved status (as_assets st),
            as_report := r\<lparr>ar_Assets := ar_Assets r @ [asset],
              ar_Diagnostics := ar_Diagnostics r @ status_diags status
                (lineDiag (ar_Path r) line ''duplicate-air-asset'' SeverityWarning ''asset path resolves to a previously declared file'')
                (lineDiag (ar_Path r) line ''missing-air-asset'' SeverityError ''declared asset path does not resolve to a file'')\<rparr>\<rparr>)"

definition update_action :: "nat \<Rightarrow> (AIRAction \<Rightarrow> AIRAction) \<Rightarrow> air_state \<Rightarrow> air_state" where
  "update_action k f st = st\<lparr>as_report := (as_report st)\<lparr>ar_Actions := (ar_Actions (as_report st))[k := f (ar_Actions (as_report st) ! k)]\<rparr>\<rparr>"

definition begins_action :: "string \<Rightarrow> bool" where
  "begins_action code \<longleftrightarrow> has_prefix (to_lower code) ''[begin action'' \<and> has_suffix code '']''"

definition begin_action :: "nat \<Rightarrow> string \<Rightarrow> air_state \<Rightarrow> air_state" where
  "begin_action line code st =
     (let raw = trim_space (butlast (drop 13 code)); number = atoi_number raw;
          st1 = st\<lparr>as_current := Some (length (ar_Actions (as_report st))),
                   as_report := (as_report st)\<lparr>ar_Actions := ar_Actions (as_report st) @
                     [\<lparr>aa_Number = number, aa_Rows = 0, aa_LoopStart = False, aa_Span = lineSpan line\<rparr>]\<rparr>\<rparr>
      in if atoi raw = None \<or> number < 0
         then air_diag line ''invalid-action-number'' SeverityError ''action number must be a non-negative integer'' st1
         else if number \<in> set (as_actions st)
         then air_diag line ''duplicate-action'' SeverityWarning (''action '' @ itoa number @ '' is declared more than once'') st1
         else st1\<lparr>as_actions := number # as_actions st\<rparr>)"

definition action_row :: "nat \<Rightarrow> nat \<Rightarrow> string \<Rightarrow> air_state \<Rightarrow> air_state" where
  "action_row k line code st =
     (if length (csv code) < 5
      then air_diag line ''malformed-action-row'' SeverityError ''action row requires at least five comma-separated fields'' st
      else case int_fields 5 (csv code) of
        None \<Rightarrow> air_diag line ''malformed-action-row'' SeverityError ''action row fields must be integers'' st
      | Some ns \<Rightarrow>
          let st1 = update_action k (\<lambda>a. a\<lparr>aa_Rows := Suc (aa_Rows a)\<rparr>) st;
              st2 = (if ns ! 0 < 0 \<or> ns ! 1 < 0
                     then air_diag line ''invalid-sprite-range'' SeverityError ''sprite group and index must be non-negative'' st1 else st1)
          in if ns ! 4 < - 1 then air_diag line ''invalid-duration'' SeverityError ''sprite duration must be -1 or non-negative'' st2 else st2)"

definition air_line :: "sys \<Rightarrow> CompatibilityProfile \<Rightarrow> air_state \<Rightarrow> nat \<times> string \<Rightarrow> air_state" where
  "air_line sy p st numbered_line =
     (case numbered_line of (line, raw) \<Rightarrow>
        let code = trim_space (splitComment raw) in
        if code = [] then st
        else if begins_action code then begin_action line code st
        else if equal_fold code ''[end action]'' then st\<lparr>as_current := None\<rparr>
        else case airAssetKeyValue code of
          Some (kind, v) \<Rightarrow> addAIRAsset sy p kind v line st
        | None \<Rightarrow>
            (case as_current st of
               None \<Rightarrow> st
             | Some k \<Rightarrow>
                 if equal_fold (to_lower code) ''loopstart'' then update_action k (\<lambda>a. a\<lparr>aa_LoopStart := True\<rparr>) st
                 else if has_prefix (to_lower code) ''clsn'' then
                   (if invalidAIRClsnRange code
                    then air_diag line ''invalid-clsn-range'' SeverityError
                      ''collision box range must have minimum coordinates no greater than maximum coordinates'' st
                    else st)
                 else action_row k line code st))"

definition AnalyzeAIR :: "(string \<Rightarrow> string) \<Rightarrow> sys \<Rightarrow> string \<Rightarrow> CompatibilityProfile \<Rightarrow> AIRReport" where
  "AnalyzeAIR read_error sy path p0 =
     (let p = or_strict p0; here = cleanAbs sy path; r = \<lparr>ar_Path = here, ar_Actions = [], ar_Assets = [], ar_Diagnostics = []\<rparr> in
      if trim_space path = []
      then r\<lparr>ar_Path := [], ar_Diagnostics := [eco_diag [] ''missing-air'' SeverityError ''AIR path is empty'']\<rparr>
      else case sys_read sy here of
        None \<Rightarrow> r\<lparr>ar_Diagnostics := [eco_diag here ''air-read-error'' SeverityError (read_error here)]\<rparr>
      | Some content \<Rightarrow>
          (let ls = unix_lines content;
               st = foldl (air_line sy p) \<lparr>as_actions = [], as_assets = [], as_current = None, as_report = r\<rparr> (numbered ls)
           in as_report (if as_current st = None then st
                else air_diag (length ls) ''unterminated-action'' SeverityError ''action block is missing [End Action]'' st)))"

section \<open>What the analysis promises\<close>

text \<open>The open action is one of the report, whatever the lines are: an index of the code never leaves the list.\<close>

definition air_ok :: "air_state \<Rightarrow> bool" where
  "air_ok st \<longleftrightarrow> (\<forall>k. as_current st = Some k \<longrightarrow> Suc k = length (ar_Actions (as_report st)))"

lemma air_diag_simps [simp]:
  "as_current (air_diag line code severity msg st) = as_current st" "as_actions (air_diag line code severity msg st) = as_actions st"
  "ar_Actions (as_report (air_diag line code severity msg st)) = ar_Actions (as_report st)"
  by (simp_all add: air_diag_def)

lemma update_action_simps [simp]:
  "as_current (update_action k f st) = as_current st" "length (ar_Actions (as_report (update_action k f st))) = length (ar_Actions (as_report st))"
  by (simp_all add: update_action_def)

lemma air_ok_line: "air_ok st \<Longrightarrow> air_ok (air_line sy p st nl)"
  by (auto simp: air_ok_def air_line_def begin_action_def addAIRAsset_def action_row_def Let_def split: prod.splits if_splits option.splits)

text \<open>
  What the analyses of rosters, manifests and AIR files promise: every entry has the status that its path has. The four
  lists of entries are kept in the same way, so one lemma carries them.
\<close>

section \<open>Statuses\<close>

text \<open>Paths with their statuses, in order: a duplicate names what an earlier one was resolved to.\<close>

definition found :: "sys \<Rightarrow> string \<Rightarrow> bool" where
  "found sy path \<longleftrightarrow> path \<noteq> [] \<and> is_file sy path"

definition statuses_exact :: "sys \<Rightarrow> CompatibilityProfile \<Rightarrow> (string \<times> EcoStatus) list \<Rightarrow> bool" where
  "statuses_exact sy p es \<longleftrightarrow>
     list_all (\<lambda>i. snd (es ! i) =
       (if list_ex (\<lambda>e. snd e = EcoResolved \<and> DedupKey p (fst e) = DedupKey p (fst (es ! i))) (take i es) then EcoDuplicate
        else if found sy (fst (es ! i)) then EcoResolved else EcoMissing)) [0..<length es]"

definition seen_keys :: "CompatibilityProfile \<Rightarrow> (string \<times> EcoStatus) list \<Rightarrow> string set" where
  "seen_keys p es = (DedupKey p \<circ> fst) ` {e \<in> set es. snd e = EcoResolved}"

lemma statuses_exact_Nil [simp]: "statuses_exact sy p []" "seen_keys p [] = {}"
  by (simp_all add: statuses_exact_def seen_keys_def)

lemma entry_status_found: "entry_status sy p seen path =
    (if DedupKey p path \<in> set seen then EcoDuplicate else if found sy path then EcoResolved else EcoMissing)"
  by (auto simp: entry_status_def found_def)

lemma seen_keys_snoc: "seen_keys p (es @ [(path, status)]) =
    (if status = EcoResolved then {DedupKey p path} else {}) \<union> seen_keys p es"
proof -
  have "{e \<in> set (es @ [(path, status)]). snd e = EcoResolved} =
      (if status = EcoResolved then {(path, status)} else {}) \<union> {e \<in> set es. snd e = EcoResolved}"
    by auto
  then show ?thesis
    unfolding seen_keys_def by (simp add: image_Un)
qed

lemma statuses_exact_snoc:
  assumes "statuses_exact sy p es" and "set seen = seen_keys p es"
  shows "statuses_exact sy p (es @ [(path, entry_status sy p seen path)])"
    and "set (mark_seen p path (entry_status sy p seen path) seen) = seen_keys p (es @ [(path, entry_status sy p seen path)])"
proof -
  have "DedupKey p path \<in> set seen \<longleftrightarrow> list_ex (\<lambda>e. snd e = EcoResolved \<and> DedupKey p (fst e) = DedupKey p path) es"
    unfolding assms(2) seen_keys_def list_ex_iff by (force simp: image_iff)
  with assms show "statuses_exact sy p (es @ [(path, entry_status sy p seen path)])"
    by (simp add: statuses_exact_def list_all_iff nth_append entry_status_found)
  show "set (mark_seen p path (entry_status sy p seen path) seen) = seen_keys p (es @ [(path, entry_status sy p seen path)])"
    using assms(2) by (simp add: mark_seen_def seen_keys_snoc)
qed

section \<open>The four lists\<close>

definition declared_entry :: "sys \<Rightarrow> CompatibilityProfile \<Rightarrow> string \<Rightarrow> Entry \<Rightarrow> string \<times> EcoStatus" where
  "declared_entry sy p here e = (ResolveSourcePath sy p (path_dir here) (en_DeclaredPath e), en_Status e)"

definition declared_asset :: "sys \<Rightarrow> CompatibilityProfile \<Rightarrow> string \<Rightarrow> AIRAsset \<Rightarrow> string \<times> EcoStatus" where
  "declared_asset sy p here e = (ResolveSourcePath sy p (path_dir here) (ax_DeclaredPath e), ax_Status e)"

definition select_inv :: "sys \<Rightarrow> CompatibilityProfile \<Rightarrow> string \<Rightarrow> select_state \<Rightarrow> bool" where
  "select_inv sy p here st \<longleftrightarrow> slr_Path (ss_report st) = here \<and>
     statuses_exact sy p (map (declared_entry sy p here) (slr_Characters (ss_report st))) \<and>
     set (ss_seenChars st) = seen_keys p (map (declared_entry sy p here) (slr_Characters (ss_report st))) \<and>
     statuses_exact sy p (map (declared_entry sy p here) (slr_Stages (ss_report st))) \<and>
     set (ss_seenStages st) = seen_keys p (map (declared_entry sy p here) (slr_Stages (ss_report st)))"

lemma select_inv_entry: "select_inv sy p here st \<Longrightarrow> select_inv sy p here (select_entry sy p line cols selected st)"
  unfolding select_inv_def select_entry_def
  by (simp add: Let_def declared_entry_def statuses_exact_snoc)

lemma select_inv_line: "select_inv sy p here st \<Longrightarrow> select_inv sy p here (select_step sy p st nl)"
proof -
  assume inv: "select_inv sy p here st"
  then have "select_inv sy p here (add_select_diag d st)" "select_inv sy p here (st\<lparr>ss_section := s, ss_characters := b\<rparr>)" for d s b
    by (simp_all add: select_inv_def add_select_diag_def)
  with inv select_inv_entry show ?thesis
    by (auto simp: select_step_def Let_def split: prod.splits option.splits)
qed

definition manifest_inv :: "sys \<Rightarrow> CompatibilityProfile \<Rightarrow> string \<Rightarrow> string list \<times> nat \<times> ManifestReport \<Rightarrow> bool" where
  "manifest_inv sy p here st \<longleftrightarrow> mfr_Path (snd (snd st)) = here \<and>
     statuses_exact sy p (map (declared_entry sy p here) (mfr_Files (snd (snd st)))) \<and>
     set (fst st) = seen_keys p (map (declared_entry sy p here) (mfr_Files (snd (snd st))))"

lemma files_inv_line: "manifest_inv sy p here st \<Longrightarrow> manifest_inv sy p here (files_line sy p st line)"
  unfolding manifest_inv_def files_line_def
  by (cases st) (simp add: Let_def declared_entry_def statuses_exact_snoc)

definition air_inv :: "sys \<Rightarrow> CompatibilityProfile \<Rightarrow> string \<Rightarrow> air_state \<Rightarrow> bool" where
  "air_inv sy p here st \<longleftrightarrow> ar_Path (as_report st) = here \<and>
     statuses_exact sy p (map (declared_asset sy p here) (ar_Assets (as_report st))) \<and>
     set (as_assets st) = seen_keys p (map (declared_asset sy p here) (ar_Assets (as_report st)))"

lemma resolve_nothing: "ResolveSourcePath sy p dir [] = []"
  by (simp add: ResolveSourcePath_def NormalizeSourceValue_def)

lemma air_inv_asset: "air_inv sy p here st \<Longrightarrow> air_inv sy p here (addAIRAsset sy p kind declared line st)"
proof -
  assume inv: "air_inv sy p here st"
  have status: "(if DedupKey p path \<in> set seen then EcoDuplicate else if d = [] \<or> path = [] \<or> \<not> is_file sy path then EcoMissing else EcoResolved) =
      entry_status sy p seen path" if "path = ResolveSourcePath sy p dir d" for path seen d dir
    using that resolve_nothing by (auto simp: entry_status_def)
  show ?thesis
    using inv unfolding air_inv_def addAIRAsset_def Let_def status [OF refl]
    by (simp add: declared_asset_def statuses_exact_snoc)
qed

lemma air_inv_frame:
  "ar_Path (as_report st') = ar_Path (as_report st) \<Longrightarrow> ar_Assets (as_report st') = ar_Assets (as_report st) \<Longrightarrow> as_assets st' = as_assets st \<Longrightarrow>
   air_inv sy p here st \<Longrightarrow> air_inv sy p here st'"
  by (simp add: air_inv_def)

lemma air_keeps [simp]:
  "ar_Path (as_report (air_diag line code severity msg st)) = ar_Path (as_report st)"
  "ar_Assets (as_report (air_diag line code severity msg st)) = ar_Assets (as_report st)" "as_assets (air_diag line code severity msg st) = as_assets st"
  "ar_Path (as_report (update_action k f st)) = ar_Path (as_report st)"
  "ar_Assets (as_report (update_action k f st)) = ar_Assets (as_report st)" "as_assets (update_action k f st) = as_assets st"
  by (simp_all add: air_diag_def update_action_def)

lemma air_inv_line: "air_inv sy p here st \<Longrightarrow> air_inv sy p here (air_line sy p st nl)"
proof -
  assume inv: "air_inv sy p here st"
  have "air_inv sy p here (begin_action line code st)" "air_inv sy p here (action_row k line code st)" for line code k
    by (rule air_inv_frame [OF _ _ _ inv]; simp add: begin_action_def action_row_def Let_def split: option.split)+
  with inv show ?thesis
    by (auto simp: air_line_def Let_def air_inv_asset split: prod.splits option.splits intro: air_inv_frame [OF _ _ _ inv])
qed

text \<open>C33: Every entry of a roster, a manifest or an AIR file has exactly the status of the path it names: it is a duplicate
  when an earlier entry of its list was resolved to a path with the same key, otherwise it is resolved when the path is
  a file, and missing when it is not.\<close>

theorem ecosystem_statuses_exact:
  "(case AnalyzeSelect read_error sy path p of r \<Rightarrow>
      statuses_exact sy (or_strict p) (map (declared_entry sy (or_strict p) (slr_Path r)) (slr_Characters r)) \<and>
      statuses_exact sy (or_strict p) (map (declared_entry sy (or_strict p) (slr_Path r)) (slr_Stages r))) \<and>
   (case AnalyzeCharacterDEF read_error sy path p of r \<Rightarrow>
      statuses_exact sy (or_strict p) (map (declared_entry sy (or_strict p) (mfr_Path r)) (mfr_Files r))) \<and>
   (case AnalyzeAIR read_error sy path p of r \<Rightarrow>
      statuses_exact sy (or_strict p) (map (declared_asset sy (or_strict p) (ar_Path r)) (ar_Assets r)))"
proof -
  let ?p = "or_strict p" and ?here = "cleanAbs sy path"
  have select: "select_inv sy ?p ?here (foldl (select_step sy ?p) st xs)" if "select_inv sy ?p ?here st" for st xs
    using that by (induction xs arbitrary: st) (auto intro: select_inv_line)
  have manifest: "manifest_inv sy ?p ?here (foldl (files_line sy ?p) st xs)" if "manifest_inv sy ?p ?here st" for st xs
    using that by (induction xs arbitrary: st) (simp_all add: files_inv_line)
  have air: "air_inv sy ?p ?here (foldl (air_line sy ?p) st xs)" if "air_inv sy ?p ?here st" for st xs
    using that by (induction xs arbitrary: st) (auto intro: air_inv_line)
  show ?thesis
    using select [of "\<lparr>ss_section = [], ss_characters = False, ss_seenChars = [], ss_seenStages = [],
        ss_report = \<lparr>slr_Path = ?here, slr_Characters = [], slr_Stages = [], slr_Diagnostics = []\<rparr>\<rparr>"]
      manifest [of "([], 0, \<lparr>mfr_Path = ?here, mfr_Files = [], mfr_Diagnostics = []\<rparr>)"]
      air [of "\<lparr>as_actions = [], as_assets = [], as_current = None, as_report = \<lparr>ar_Path = ?here, ar_Actions = [], ar_Assets = [], ar_Diagnostics = []\<rparr>\<rparr>"]
    by (auto simp: AnalyzeSelect_def AnalyzeCharacterDEF_def AnalyzeAIR_def Let_def select_inv_def manifest_inv_def air_inv_def
        split: option.split)
qed

section \<open>What the analyses do not do\<close>

text \<open>The first field that names a definition is taken for the character: with a folder as the character, it is the stage.\<close>

lemma stage_taken_for_character: "def_field (csv ''kfm, stages/kfm.def'') = Some 1"
  by code_simp

text \<open>An action that is ended by the next one is not reported, only the last one is.\<close>

lemma begin_ends_action:
  "as_current (begin_action line code st) = Some (length (ar_Actions (as_report st)))" "as_current st = Some k \<Longrightarrow>
   filter (\<lambda>d. dg_code d = ''unterminated-action'') (ar_Diagnostics (as_report (begin_action line code st))) =
   filter (\<lambda>d. dg_code d = ''unterminated-action'') (ar_Diagnostics (as_report st))"
  by (simp_all add: begin_action_def Let_def air_diag_def lineDiag_def)

end
