(* ===== verification/Corpus.thy ===== *)
theory Corpus
  imports Ecosystem Workspace_Load "HOL-Library.AList"
begin

text \<open>
  \<^verbatim>\<open>internal/corpus/corpus.go\<close>: every character a \<^verbatim>\<open>select.def\<close> declares is loaded as a workspace, once for each resolved
  path, and the result is summed up. The text of a failed read, the order of directory entries and what the Go runtime
  says of itself are arguments.
\<close>

section \<open>The manifest\<close>

datatype CorpusStatus = CorpusResolved | CorpusDeduplicated | CorpusMissing

fun corpus_status_str :: "CorpusStatus \<Rightarrow> string" where
  "corpus_status_str CorpusResolved = ''resolved''"
| "corpus_status_str CorpusDeduplicated = ''deduplicated''"
| "corpus_status_str CorpusMissing = ''missing''"

record DiagnosticCount =
  dcn_Code :: string
  dcn_Count :: nat
  dcn_Errors :: nat
  dcn_Warnings :: nat
  dcn_Infos :: nat

record ManifestEntry =
  me_Index :: nat
  me_Status :: CorpusStatus
  me_DeclaredPath :: string
  me_ResolvedPath :: string
  me_Span :: SourceSpan
  me_Options :: "string list"
  me_Diagnostics :: "Diagnostic list"
  me_DiagnosticsByCode :: "DiagnosticCount list"

record ProcessMetadata =
  pm_Command :: string
  pm_GoVersion :: string
  pm_OS :: string
  pm_Arch :: string

record CorpusManifest =
  cm_Version :: string
  cm_Profile :: string
  cm_SelectPath :: string
  cm_Entries :: "ManifestEntry list"
  cm_DeclaredSourceCount :: nat
  cm_ResolvedSourceCount :: nat
  cm_ErrorCount :: nat
  cm_WarningCount :: nat
  cm_DiagnosticsByCode :: "DiagnosticCount list"
  cm_Process :: ProcessMetadata

definition diagnostic_count_json :: "DiagnosticCount \<Rightarrow> json" where
  "diagnostic_count_json c = JObj [(''code'', JStr (dcn_Code c)), (''count'', JInt (int (dcn_Count c))),
     (''errors'', JInt (int (dcn_Errors c))), (''warnings'', JInt (int (dcn_Warnings c))), (''infos'', JInt (int (dcn_Infos c)))]"

definition manifest_entry_json :: "ManifestEntry \<Rightarrow> json" where
  "manifest_entry_json e = JObj ([(''index'', JInt (int (me_Index e))), (''status'', JStr (corpus_status_str (me_Status e))),
     (''declaredPath'', JStr (me_DeclaredPath e))] @ omit_empty ''resolvedPath'' (me_ResolvedPath e) @
     [(''span'', ir_span_json (me_Span e)), (''options'', JArr (map JStr (me_Options e))),
      (''diagnostics'', JArr (map ir_diagnostic_json (me_Diagnostics e))),
      (''diagnosticsByCode'', JArr (map diagnostic_count_json (me_DiagnosticsByCode e)))])"

definition process_json :: "ProcessMetadata \<Rightarrow> json" where
  "process_json p = JObj [(''command'', JStr (pm_Command p)), (''goVersion'', JStr (pm_GoVersion p)), (''os'', JStr (pm_OS p)),
     (''arch'', JStr (pm_Arch p))]"

definition corpus_JSON :: "CorpusManifest \<Rightarrow> string" where
  "corpus_JSON m = json_encode (JObj [(''version'', JStr (cm_Version m)), (''profile'', JStr (cm_Profile m)),
     (''selectPath'', JStr (cm_SelectPath m)), (''entries'', JArr (map manifest_entry_json (cm_Entries m))),
     (''declaredSourceCount'', JInt (int (cm_DeclaredSourceCount m))), (''resolvedSourceCount'', JInt (int (cm_ResolvedSourceCount m))),
     (''errorCount'', JInt (int (cm_ErrorCount m))), (''warningCount'', JInt (int (cm_WarningCount m))),
     (''diagnosticsByCode'', JArr (map diagnostic_count_json (cm_DiagnosticsByCode m))), (''process'', process_json (cm_Process m))])"

definition human_entry :: "ManifestEntry \<Rightarrow> string" where
  "human_entry e = ''- '' @ me_DeclaredPath e @ '' ('' @ corpus_status_str (me_Status e) @ ''): '' @
     (if me_ResolvedPath e = [] then ''-'' else me_ResolvedPath e)"

definition corpus_Human :: "CorpusManifest \<Rightarrow> string" where
  "corpus_Human m = join_with [CHR 0x0A]
     ([''Profile: '' @ cm_Profile m, ''Select: '' @ cm_SelectPath m,
       ''Declared sources: '' @ itoa (int (cm_DeclaredSourceCount m)), ''Resolved sources: '' @ itoa (int (cm_ResolvedSourceCount m)),
       ''Errors: '' @ itoa (int (cm_ErrorCount m)), ''Warnings: '' @ itoa (int (cm_WarningCount m)), ''Entries:''] @
      map human_entry (cm_Entries m))"

section \<open>Lines of the roster\<close>

text \<open>The part of a line before its comment; \<open>q\<close> is set inside of quotes, \<open>esc\<close> after a backslash.\<close>

fun code_part :: "bool \<Rightarrow> bool \<Rightarrow> string \<Rightarrow> string" where
  "code_part q esc [] = []"
| "code_part q esc (c # s) =
     (if esc then c # code_part q False s
      else if c = CHR 0x5C then c # code_part q True s
      else if c = CHR 0x22 then c # code_part (\<not> q) False s
      else if \<not> q \<and> (c = CHR '';'' \<or> c = CHR ''#'') then []
      else c # code_part q False s)"

definition corpus_splitLine :: "string \<Rightarrow> string \<times> string" where
  "corpus_splitLine raw =
     (let code = code_part False False raw in (trim_right code ('' '' @ [CHR 0x09]), trim_space (drop (Suc (length code)) raw)))"

definition isSeparatorLine :: "string \<Rightarrow> bool" where
  "isSeparatorLine line \<longleftrightarrow> 3 \<le> length (trim_space line) \<and>
     list_all (\<lambda>c. c = CHR '' '' \<or> c = CHR 0x09 \<or> c \<in> set ''-=*_.'') line"

definition isIgnorableCharactersLine :: "string \<Rightarrow> bool" where
  "isIgnorableCharactersLine trimmed \<longleftrightarrow>
     (let lower = to_lower trimmed in
      has_prefix lower '';'' \<or> has_prefix lower ''#'' \<or> has_prefix lower ''randomselect'' \<or> isSeparatorLine lower)"

record csvField =
  cf_Raw :: string
  cf_Start :: nat
  cf_End :: nat

text \<open>The fields from the position \<open>i\<close> on; \<open>start\<close> and \<open>cur\<close> are the begin and the text of the field that is open.\<close>

fun csv_fields :: "bool \<Rightarrow> bool \<Rightarrow> nat \<Rightarrow> nat \<Rightarrow> string \<Rightarrow> string \<Rightarrow> csvField list" where
  "csv_fields q esc start i cur [] = [\<lparr>cf_Raw = cur, cf_Start = start, cf_End = i\<rparr>]"
| "csv_fields q esc start i cur (c # s) =
     (if esc then csv_fields q False start (Suc i) (cur @ [c]) s
      else if c = CHR 0x5C then csv_fields q True start (Suc i) (cur @ [c]) s
      else if c = CHR 0x22 then csv_fields (\<not> q) False start (Suc i) (cur @ [c]) s
      else if c \<noteq> CHR '','' \<or> q then csv_fields q False start (Suc i) (cur @ [c]) s
      else \<lparr>cf_Raw = cur, cf_Start = start, cf_End = i\<rparr> # csv_fields q False (Suc i) (Suc i) [] s)"

definition splitCSVFields :: "string \<Rightarrow> csvField list" where
  "splitCSVFields line = csv_fields False False 0 0 [] line"

definition fieldSpan :: "csvField \<Rightarrow> nat \<times> nat" where
  "fieldSpan f =
     (let unquoted = eco_unquote (trim_space (cf_Raw f)) in
      if trim_space (cf_Raw f) = [] \<or> unquoted = [] then (0, 0)
      else let start = cf_Start f + (length (cf_Raw f) - length (trim_left (cf_Raw f) ('' '' @ [CHR 0x09]))) + 1
        in (start, start + length unquoted))"

definition isDefPath :: "string \<Rightarrow> bool" where
  "isDefPath v \<longleftrightarrow> to_lower (path_ext v) = ''.def''"

record selectEntry =
  se_declaredPath :: string
  se_span :: SourceSpan
  se_options :: "string list"

definition selected_field :: "csvField list \<Rightarrow> nat option" where
  "selected_field fs = (case filter (\<lambda>i. isDefPath (eco_unquote (trim_space (cf_Raw (fs ! i))))) [0..<length fs] of [] \<Rightarrow> None | i # _ \<Rightarrow> Some i)"

definition field_options :: "nat \<Rightarrow> csvField list \<Rightarrow> string list" where
  "field_options selected fs = filter (\<lambda>v. v \<noteq> [])
     (map (\<lambda>i. trim_space (eco_unquote (cf_Raw (fs ! i)))) (filter (\<lambda>i. i \<noteq> selected) [0..<length fs]))"

definition parseSelectEntryLine :: "string \<Rightarrow> nat \<Rightarrow> selectEntry option" where
  "parseSelectEntryLine line lineNo =
     (let fs = splitCSVFields line in
      case selected_field fs of
        None \<Rightarrow> None
      | Some selected \<Rightarrow>
          (let path = eco_unquote (trim_space (cf_Raw (fs ! selected))) in
           if path = [] \<or> \<not> isDefPath path then None
           else case fieldSpan (fs ! selected) of (start0, end0) \<Rightarrow>
             let start = max 1 start0 in
             Some \<lparr>se_declaredPath = path,
               se_span = \<lparr>Start = \<lparr>Line = int lineNo, Column = int start\<rparr>, End = \<lparr>Line = int lineNo, Column = int (max start end0)\<rparr>\<rparr>,
               se_options = field_options selected fs\<rparr>))"

text \<open>A line, with whether it is inside of the characters, whether there was such a section, and the entries so far.\<close>

definition select_entry_line :: "bool \<times> bool \<times> selectEntry list \<Rightarrow> nat \<times> string \<Rightarrow> bool \<times> bool \<times> selectEntry list" where
  "select_entry_line st numbered_line =
     (case st of (inside, seen, es) \<Rightarrow> case numbered_line of (lineNo, raw) \<Rightarrow>
        let trimmed = trim_space (fst (corpus_splitLine raw)) in
        if trimmed = [] then st
        else if isHeader trimmed
        then (let chars = equal_fold (header_name trimmed) ''characters'' in (chars, seen \<or> chars, es))
        else if \<not> inside \<or> isIgnorableCharactersLine trimmed then st
        else case parseSelectEntryLine trimmed lineNo of None \<Rightarrow> st | Some e \<Rightarrow> (inside, seen, es @ [e]))"

definition corpus_diagnostic :: "string \<Rightarrow> SourceSpan \<Rightarrow> string \<Rightarrow> Severity \<Rightarrow> string \<Rightarrow> Diagnostic" where
  "corpus_diagnostic path span code severity message =
     makeWorkspaceDiagnostic path span code severity (if trim_space message = [] then code else message)"

definition parseSelectEntries :: "string \<Rightarrow> string \<Rightarrow> selectEntry list \<times> Diagnostic list" where
  "parseSelectEntries source selectPath =
     (case foldl select_entry_line (False, False, []) (numbered (unix_lines source)) of (inside, seen, es) \<Rightarrow>
        (es, if seen then []
             else [corpus_diagnostic selectPath first_position ''missing-characters-section'' SeverityWarning
               ''select file has no [Characters] section'']))"

section \<open>Counts\<close>

definition count_diagnostic :: "Diagnostic \<Rightarrow> DiagnosticCount \<Rightarrow> DiagnosticCount" where
  "count_diagnostic d c0 =
     (let c = c0\<lparr>dcn_Code := dg_code d, dcn_Count := Suc (dcn_Count c0)\<rparr> in
      case dg_severity d of
        SeverityError \<Rightarrow> c\<lparr>dcn_Errors := Suc (dcn_Errors c)\<rparr>
      | SeverityWarning \<Rightarrow> c\<lparr>dcn_Warnings := Suc (dcn_Warnings c)\<rparr>
      | SeverityInfo \<Rightarrow> c\<lparr>dcn_Infos := Suc (dcn_Infos c)\<rparr>)"

definition zero_count :: DiagnosticCount where
  "zero_count = \<lparr>dcn_Code = [], dcn_Count = 0, dcn_Errors = 0, dcn_Warnings = 0, dcn_Infos = 0\<rparr>"

definition count_into :: "(string \<times> DiagnosticCount) list \<Rightarrow> Diagnostic \<Rightarrow> (string \<times> DiagnosticCount) list" where
  "count_into counts d =
     AList.update (dg_code d) (count_diagnostic d (case map_of counts (dg_code d) of None \<Rightarrow> zero_count | Some c \<Rightarrow> c)) counts"

definition countsFromDiagnostics :: "Diagnostic list \<Rightarrow> DiagnosticCount list" where
  "countsFromDiagnostics ds =
     (let counts = foldl count_into [] ds in map (\<lambda>code. the (map_of counts code)) (sort_strings (map fst counts)))"

fun count_total :: "nat \<times> nat \<Rightarrow> Diagnostic \<Rightarrow> nat \<times> nat" where
  "count_total (errors, warnings) d =
     (case dg_severity d of SeverityError \<Rightarrow> (Suc errors, warnings) | SeverityWarning \<Rightarrow> (errors, Suc warnings) | _ \<Rightarrow> (errors, warnings))"

definition countsTotalsFromSlice :: "Diagnostic list \<Rightarrow> nat \<times> nat" where
  "countsTotalsFromSlice ds = foldl count_total (0, 0) ds"

definition corpus_hasErrors :: "Diagnostic list \<Rightarrow> bool" where
  "corpus_hasErrors ds \<longleftrightarrow> list_ex (\<lambda>d. dg_severity d = SeverityError) ds"

definition finalizeManifest :: "CorpusManifest \<Rightarrow> Diagnostic list \<Rightarrow> CorpusManifest" where
  "finalizeManifest m ds = m\<lparr>cm_DiagnosticsByCode := countsFromDiagnostics ds,
     cm_ErrorCount := fst (countsTotalsFromSlice ds), cm_WarningCount := snd (countsTotalsFromSlice ds)\<rparr>"

section \<open>Loading the characters\<close>

definition corpus_canonicalPath :: "sys \<Rightarrow> string \<Rightarrow> string" where
  "corpus_canonicalPath sy path = (if path = [] then [] else canonicalWorkspacePath sy path)"

text \<open>The declared path is looked for beside the roster, above it, and in \<^verbatim>\<open>chars\<close>; the first candidate stands for none.\<close>

definition resolveCharacterPath :: "sys \<Rightarrow> string \<Rightarrow> string \<Rightarrow> CompatibilityProfile \<Rightarrow> string" where
  "resolveCharacterPath sy selectPath declared p =
     (let normalized = NormalizeSourceValue p (trim_space declared); dir = path_dir selectPath;
          candidates = filter (\<lambda>c. c \<noteq> [])
            (map (\<lambda>root. ResolveSourcePath sy p root normalized) [dir, path_dir dir, path_join [path_dir dir, ''chars'']])
      in if normalized = [] then []
         else case filter (is_file sy) candidates of
           c # _ \<Rightarrow> corpus_canonicalPath sy c
         | [] \<Rightarrow> corpus_canonicalPath sy (case candidates of [] \<Rightarrow> [] | c # _ \<Rightarrow> c))"

record corpus_state =
  cs_seen :: "string list"
  cs_resolved :: nat
  cs_entries :: "ManifestEntry list"
  cs_diags :: "Diagnostic list"

definition load_entry :: "(string \<Rightarrow> workspace_LoadResult) \<Rightarrow> sys \<Rightarrow> string \<Rightarrow> CompatibilityProfile \<Rightarrow> corpus_state \<Rightarrow> nat \<times> selectEntry \<Rightarrow>
    corpus_state" where
  "load_entry load sy selectPath p st indexed =
     (case indexed of (i, e) \<Rightarrow>
        let resolved = resolveCharacterPath sy selectPath (se_declaredPath e) p; key = DedupKey p resolved;
            result = \<lparr>me_Index = i, me_Status = CorpusDeduplicated, me_DeclaredPath = se_declaredPath e, me_ResolvedPath = resolved,
              me_Span = se_span e, me_Options = se_options e, me_Diagnostics = [], me_DiagnosticsByCode = []\<rparr>
        in if key \<in> set (cs_seen st)
           then let d = corpus_diagnostic selectPath (se_span e) ''deduplicated-source'' SeverityInfo ''character source already processed'' in
             st\<lparr>cs_entries := cs_entries st @ [result\<lparr>me_Diagnostics := [d], me_DiagnosticsByCode := countsFromDiagnostics [d]\<rparr>],
                cs_diags := cs_diags st @ [d]\<rparr>
           else let ds = wl_Diagnostics (load resolved); failed = corpus_hasErrors ds in
             \<lparr>cs_seen = key # cs_seen st, cs_resolved = (if failed then cs_resolved st else Suc (cs_resolved st)),
              cs_entries = cs_entries st @ [result\<lparr>me_Status := (if failed then CorpusMissing else CorpusResolved),
                me_Diagnostics := ds, me_DiagnosticsByCode := countsFromDiagnostics ds\<rparr>],
              cs_diags = cs_diags st @ ds\<rparr>)"

definition newProcessMetadata :: "string \<Rightarrow> string \<Rightarrow> string \<Rightarrow> ProcessMetadata" where
  "newProcessMetadata version os arch = \<lparr>pm_Command = ''ikm corpus'', pm_GoVersion = version, pm_OS = os, pm_Arch = arch\<rparr>"

definition corpus_select_path :: "sys \<Rightarrow> string \<Rightarrow> string" where
  "corpus_select_path sy path = (case abs_path (sys_cwd sy) (trim_space path) of Some a \<Rightarrow> path_clean a | None \<Rightarrow> path_clean (trim_space path))"

definition or_distribution :: "CompatibilityProfile \<Rightarrow> CompatibilityProfile" where
  "or_distribution p = (if cp_Name p = [] then NewDistributionProfile [] else p)"

definition BuildManifest :: "ProcessMetadata \<Rightarrow> (string \<Rightarrow> string) \<Rightarrow> (string list \<Rightarrow> string list) \<Rightarrow> sys \<Rightarrow> string \<Rightarrow> CompatibilityProfile \<Rightarrow>
    CorpusManifest" where
  "BuildManifest process read_error order sy selectPath p0 =
     (let p = or_distribution p0;
          m0 = \<lparr>cm_Version = ''0.1.0'', cm_Profile = cp_Name p, cm_SelectPath = [], cm_Entries = [], cm_DeclaredSourceCount = 0,
            cm_ResolvedSourceCount = 0, cm_ErrorCount = 0, cm_WarningCount = 0, cm_DiagnosticsByCode = [], cm_Process = process\<rparr>
      in if trim_space selectPath = []
         then finalizeManifest m0 [corpus_diagnostic [] first_position ''missing-select'' SeverityError ''select path is empty'']
         else let here = corpus_select_path sy selectPath; m = m0\<lparr>cm_SelectPath := here\<rparr> in
           case sys_read sy here of
             None \<Rightarrow> finalizeManifest m [corpus_diagnostic here first_position ''select-read-error'' SeverityError (read_error here)]
           | Some content \<Rightarrow>
               (case parseSelectEntries content here of (es, parse_diags) \<Rightarrow>
                  let st = foldl (load_entry (\<lambda>path. LoadWorkspaceWithProfile read_error order sy path p) sy here p)
                        \<lparr>cs_seen = [], cs_resolved = 0, cs_entries = [], cs_diags = parse_diags\<rparr> (zip [0..<length es] es)
                  in finalizeManifest (m\<lparr>cm_DeclaredSourceCount := length es, cm_ResolvedSourceCount := cs_resolved st,
                       cm_Entries := cs_entries st\<rparr>) (cs_diags st)))"

section \<open>What the counts are\<close>

definition counted :: "Diagnostic list \<Rightarrow> string \<Rightarrow> DiagnosticCount" where
  "counted ds code =
     (let of_code = filter (\<lambda>d. dg_code d = code) ds; n = (\<lambda>s. length (filter (\<lambda>d. dg_severity d = s) of_code)) in
      \<lparr>dcn_Code = code, dcn_Count = length of_code, dcn_Errors = n SeverityError, dcn_Warnings = n SeverityWarning, dcn_Infos = n SeverityInfo\<rparr>)"

lemma counted_snoc:
  "counted (ds @ [d]) code = (if dg_code d = code then count_diagnostic d (counted ds code) else counted ds code)"
  by (auto simp: counted_def count_diagnostic_def Let_def split: Severity.split)

lemma counted_none: "code \<notin> dg_code ` set ds \<Longrightarrow> counted (ds @ [d]) code = (if dg_code d = code then count_diagnostic d zero_count else counted ds code)"
proof -
  assume "code \<notin> dg_code ` set ds"
  then have "filter (\<lambda>d. dg_code d = code) ds = []"
    by (auto simp: filter_empty_conv)
  then show ?thesis
    by (auto simp: counted_def count_diagnostic_def zero_count_def Let_def split: Severity.split)
qed

lemma count_into_simps:
  "map_of (count_into m d) = (map_of m)(dg_code d \<mapsto> count_diagnostic d (case map_of m (dg_code d) of None \<Rightarrow> zero_count | Some c \<Rightarrow> c))"
  "distinct (map fst m) \<Longrightarrow> distinct (map fst (count_into m d))"
  by (simp_all add: count_into_def update_conv' distinct_update)

lemma count_into_fold:
  "map_of (foldl count_into [] ds) = (\<lambda>code. if code \<in> dg_code ` set ds then Some (counted ds code) else None) \<and>
   distinct (map fst (foldl count_into [] ds))"
proof (induction ds rule: rev_induct)
  case (snoc d ds)
  let ?m = "foldl count_into [] ds"
  have "map_of (count_into ?m d) = (map_of ?m)(dg_code d \<mapsto> counted (ds @ [d]) (dg_code d))"
    using snoc counted_none [of "dg_code d" ds d] by (simp add: count_into_simps counted_snoc)
  moreover have "distinct (map fst (count_into ?m d))"
    using snoc by (simp add: count_into_simps)
  ultimately show ?case
    using snoc by (auto simp: counted_snoc fun_eq_iff)
qed simp

lemma counts_exact: "countsFromDiagnostics ds = map (counted ds) (sort_strings (remdups (map dg_code ds)))"
proof -
  let ?m = "foldl count_into [] ds"
  have m: "map_of ?m = (\<lambda>code. if code \<in> dg_code ` set ds then Some (counted ds code) else None)" and d: "distinct (map fst ?m)"
    using count_into_fold by blast+
  have "fst ` set ?m = dom (map_of ?m)"
    by (simp add: dom_map_of_conv_image_fst)
  also have "\<dots> = dg_code ` set ds"
    unfolding m by (auto split: if_splits)
  finally have keys: "set (map fst ?m) = dg_code ` set ds"
    by simp
  then have "mset (map fst ?m) = mset (remdups (map dg_code ds))"
    using d by (intro set_eq_iff_mset_eq_distinct [THEN iffD1]) auto
  then have "sort_strings (map fst ?m) = sort_strings (remdups (map dg_code ds))"
    by (rule sort_strings_cong)
  then show ?thesis
    by (simp add: countsFromDiagnostics_def m keys)
qed

lemma totals_exact: "countsTotalsFromSlice ds =
   (length (filter (\<lambda>d. dg_severity d = SeverityError) ds), length (filter (\<lambda>d. dg_severity d = SeverityWarning) ds))"
proof -
  have "foldl count_total (a, b) ds =
     (a + length (filter (\<lambda>d. dg_severity d = SeverityError) ds), b + length (filter (\<lambda>d. dg_severity d = SeverityWarning) ds))" for a b
    by (induction ds arbitrary: a b) (auto split: Severity.splits)
  then show ?thesis
    by (simp add: countsTotalsFromSlice_def)
qed

text \<open>Summed over its codes, a property of diagnostics is counted once for each diagnostic.\<close>

lemma sum_over_groups:
  assumes "finite C"
  shows "dg_code ` set ds \<subseteq> C \<Longrightarrow> (\<Sum>code\<in>C. length (filter (\<lambda>d. dg_code d = code \<and> P d) ds)) = length (filter P ds)"
proof (induction ds)
  case (Cons d ds)
  have "length (filter (\<lambda>d. dg_code d = code \<and> P d) (d # ds)) =
      length (filter (\<lambda>d. dg_code d = code \<and> P d) ds) + (if dg_code d = code then (if P d then 1 else 0) else 0)" for code
    by simp
  with Cons assms show ?case
    by (simp only: sum.distrib) simp
qed simp

lemma sum_over_codes:
  "sum_list (map (\<lambda>code. length (filter (\<lambda>d. dg_code d = code \<and> P d) ds)) (sort_strings (remdups (map dg_code ds)))) = length (filter P ds)"
proof -
  have "distinct (sort_strings (remdups (map dg_code ds)))"
    using mset_eq_imp_distinct_iff mset_sort_strings distinct_remdups by metis
  then show ?thesis
    by (simp add: sum_list_distinct_conv_sum_set sum_over_groups)
qed

lemma totals_of_counts:
  "sum_list (map dcn_Errors (countsFromDiagnostics ds)) = fst (countsTotalsFromSlice ds)"
  "sum_list (map dcn_Warnings (countsFromDiagnostics ds)) = snd (countsTotalsFromSlice ds)"
  "sum_list (map dcn_Count (countsFromDiagnostics ds)) = length ds"
  using sum_over_codes [of "\<lambda>_. True" ds]
  by (simp_all add: counts_exact totals_exact counted_def Let_def comp_def sum_over_codes)

section \<open>What a manifest is\<close>

text \<open>An entry repeats an earlier one when its path has the same key; otherwise its workspace was loaded.\<close>

definition entry_exact :: "(string \<Rightarrow> workspace_LoadResult) \<Rightarrow> CompatibilityProfile \<Rightarrow> ManifestEntry list \<Rightarrow> nat \<Rightarrow> bool" where
  "entry_exact load p es i \<longleftrightarrow>
     (let e = es ! i; ds = wl_Diagnostics (load (me_ResolvedPath e)) in
      me_Index e = i \<and> me_DiagnosticsByCode e = countsFromDiagnostics (me_Diagnostics e) \<and>
      (if DedupKey p (me_ResolvedPath e) \<in> (DedupKey p \<circ> me_ResolvedPath) ` set (take i es)
       then me_Status e = CorpusDeduplicated \<and> map dg_code (me_Diagnostics e) = [''deduplicated-source'']
       else me_Status e = (if list_ex (\<lambda>d. dg_severity d = SeverityError) ds then CorpusMissing else CorpusResolved) \<and>
         me_Diagnostics e = ds))"

definition entries_exact :: "(string \<Rightarrow> workspace_LoadResult) \<Rightarrow> CompatibilityProfile \<Rightarrow> ManifestEntry list \<Rightarrow> bool" where
  "entries_exact load p es \<longleftrightarrow> list_all (entry_exact load p es) [0..<length es]"

lemma entries_exact_Nil [simp]: "entries_exact load p []"
  by (simp add: entries_exact_def)

lemma entries_exact_snoc: "entries_exact load p (es @ [e]) \<longleftrightarrow> entries_exact load p es \<and> entry_exact load p (es @ [e]) (length es)"
  by (auto simp: entries_exact_def entry_exact_def list_all_iff Let_def nth_append)

definition corpus_inv :: "(string \<Rightarrow> workspace_LoadResult) \<Rightarrow> CompatibilityProfile \<Rightarrow> Diagnostic list \<Rightarrow> corpus_state \<Rightarrow> bool" where
  "corpus_inv load p parse_diags st \<longleftrightarrow> entries_exact load p (cs_entries st) \<and>
     set (cs_seen st) = (DedupKey p \<circ> me_ResolvedPath) ` set (cs_entries st) \<and>
     cs_resolved st = length (filter (\<lambda>e. me_Status e = CorpusResolved) (cs_entries st)) \<and>
     cs_diags st = parse_diags @ concat (map me_Diagnostics (cs_entries st))"

lemma corpus_inv_step:
  assumes "corpus_inv load p parse_diags st" and "length (cs_entries st) = i"
  shows "corpus_inv load p parse_diags (load_entry load sy here p st (i, e))" and "length (cs_entries (load_entry load sy here p st (i, e))) = Suc i"
proof -
  let ?r = "resolveCharacterPath sy here (se_declaredPath e) p"
  show "corpus_inv load p parse_diags (load_entry load sy here p st (i, e))"
  proof (cases "DedupKey p ?r \<in> set (cs_seen st)")
    case True
    with assms show ?thesis
      by (auto simp: corpus_inv_def load_entry_def Let_def entries_exact_snoc entry_exact_def corpus_diagnostic_def
          makeWorkspaceDiagnostic_def)
  next
    case False
    with assms show ?thesis
      by (auto simp: corpus_inv_def load_entry_def Let_def entries_exact_snoc entry_exact_def corpus_hasErrors_def)
  qed
  show "length (cs_entries (load_entry load sy here p st (i, e))) = Suc i"
    using assms by (simp add: load_entry_def Let_def)
qed

lemma corpus_inv_all:
  "corpus_inv load p parse_diags st \<Longrightarrow> length (cs_entries st) = i \<Longrightarrow>
   corpus_inv load p parse_diags (foldl (load_entry load sy here p) st (zip [i..<i + length es] es)) \<and>
   length (cs_entries (foldl (load_entry load sy here p) st (zip [i..<i + length es] es))) = i + length es"
proof (induction es arbitrary: st i)
  case (Cons e es)
  have "zip [i..<i + length (e # es)] (e # es) = (i, e) # zip [Suc i..<Suc i + length es] es"
    by (simp add: upt_rec)
  with Cons.IH [OF corpus_inv_step [OF Cons.prems]] show ?case
    by simp
qed simp


section \<open>What the spans and the readers are\<close>

text \<open>The columns are those of the trimmed line, and the span of a quoted path begins at its quote and is as long as the path.\<close>

lemma indentation_not_counted:
  "parseSelectEntries ''[Characters]\<newline>    kfm.def'' [] =
     ([\<lparr>se_declaredPath = ''kfm.def'', se_span = \<lparr>Start = \<lparr>Line = 2, Column = 1\<rparr>, End = \<lparr>Line = 2, Column = 8\<rparr>\<rparr>, se_options = []\<rparr>], [])"
  by code_simp

lemma quoted_span_short:
  "se_span (the (parseSelectEntryLine [CHR 0x22, CHR ''k'', CHR ''.'', CHR ''d'', CHR ''e'', CHR ''f'', CHR 0x22] 1)) =
     \<lparr>Start = \<lparr>Line = 1, Column = 1\<rparr>, End = \<lparr>Line = 1, Column = 6\<rparr>\<rparr>"
  by code_simp

text \<open>A number sign begins a comment here, but not for the other reader of rosters; and single quotes hide no comma here.\<close>

lemma readers_disagree:
  "fst (corpus_splitLine ''kfm#2.def'') = ''kfm'' \<and> splitComment ''kfm#2.def'' = ''kfm#2.def''"
  "length (splitCSVFields [CHR 0x27, CHR '','', CHR 0x27]) = 2 \<and> length (csv [CHR 0x27, CHR '','', CHR 0x27]) = 1"
  by code_simp+

end
