(* ===== verification/Release.thy ===== *)
theory Release
  imports Go_System Go_Json Go_Base64 Sha256
begin

text \<open>
  \<^verbatim>\<open>internal/release/release.go\<close>: the metadata of a release, the canonical bytes that are signed, and the signature.
  Ed25519, \<^verbatim>\<open>time.Parse\<close> and the text of a failed read are arguments; keys, signatures and files are byte strings.
\<close>

definition Module :: string where "Module = ''github.com/ikemen-engine/ikemen-devtools''"

datatype release_error =
    ErrMissingTimestamp
  | ErrInvalidTimestamp
  | ErrRequiredFields
  | ErrFilePathRequired
  | ErrHash string
  | ErrPrivateKey
  | ErrPublicKey
  | ErrUnsigned
  | ErrKeyMismatch
  | ErrSignatureEncoding
  | ErrInvalidSignature

record FileHash =
  fh_Path :: string
  fh_SHA256 :: string

record Signature =
  sg_Algorithm :: string
  sg_PublicKey :: string
  sg_Value :: string

record release_Metadata =
  rm_Module :: string
  rm_Version :: string
  rm_Contract :: string
  rm_BuildTimestamp :: string
  rm_Tool :: string
  rm_Compiler :: string
  rm_GoVersion :: string
  rm_OS :: string
  rm_Arch :: string
  rm_VCSRevision :: string
  rm_VCSModified :: string
  rm_VCSTime :: string
  rm_Files :: "FileHash list"
  rm_Signature :: "Signature option"

definition release_clean :: "string \<Rightarrow> string" where
  "release_clean path = path_clean (trim_space path)"

definition sort_files :: "FileHash list \<Rightarrow> FileHash list" where
  "sort_files fs = sort_by (\<lambda>a b. fh_Path a < fh_Path b) fs"

text \<open>The path is trimmed for the listing, but not for the read.\<close>

fun hash_files :: "sys \<Rightarrow> string list \<Rightarrow> release_error + FileHash list" where
  "hash_files sy [] = Inr []"
| "hash_files sy (path # paths) =
     (let clean = release_clean path in
      if clean = ''.'' \<or> clean = [] then Inl ErrFilePathRequired
      else case sys_read sy path of
        None \<Rightarrow> Inl (ErrHash path)
      | Some data \<Rightarrow>
          (case hash_files sy paths of
             Inl e \<Rightarrow> Inl e
           | Inr fs \<Rightarrow> Inr (\<lparr>fh_Path = clean, fh_SHA256 = sha256_hex data\<rparr> # fs)))"

definition release_Build :: "(string \<Rightarrow> bool) \<Rightarrow> sys \<Rightarrow> string \<Rightarrow> string \<Rightarrow> string \<Rightarrow> string \<Rightarrow> string list \<Rightarrow> release_error + release_Metadata" where
  "release_Build rfc3339 sy module version contract timestamp paths =
     (if trim_space timestamp = [] then Inl ErrMissingTimestamp
      else if \<not> rfc3339 timestamp then Inl ErrInvalidTimestamp
      else if trim_space module = [] \<or> trim_space version = [] \<or> trim_space contract = [] then Inl ErrRequiredFields
      else case hash_files sy paths of
        Inl e \<Rightarrow> Inl e
      | Inr fs \<Rightarrow> Inr \<lparr>rm_Module = module, rm_Version = version, rm_Contract = contract, rm_BuildTimestamp = timestamp,
          rm_Tool = [], rm_Compiler = [], rm_GoVersion = [], rm_OS = [], rm_Arch = [], rm_VCSRevision = [], rm_VCSModified = [],
          rm_VCSTime = [], rm_Files = sort_files fs, rm_Signature = None\<rparr>)"

definition file_hash_json :: "FileHash \<Rightarrow> json" where
  "file_hash_json f = JObj [(''path'', JStr (fh_Path f)), (''sha256'', JStr (fh_SHA256 f))]"

definition signature_json :: "Signature \<Rightarrow> json" where
  "signature_json s = JObj [(''algorithm'', JStr (sg_Algorithm s)), (''publicKey'', JStr (sg_PublicKey s)), (''value'', JStr (sg_Value s))]"

definition signature_field :: "Signature option \<Rightarrow> (string \<times> json) list" where
  "signature_field s = (case s of None \<Rightarrow> [] | Some v \<Rightarrow> [(''signature'', signature_json v)])"

text \<open>The fields that are left out when they are empty.\<close>

definition release_optional :: "release_Metadata \<Rightarrow> (string \<times> string) list" where
  "release_optional m = [(''tool'', rm_Tool m), (''compiler'', rm_Compiler m), (''goVersion'', rm_GoVersion m), (''os'', rm_OS m),
     (''arch'', rm_Arch m), (''vcsRevision'', rm_VCSRevision m), (''vcsModified'', rm_VCSModified m), (''vcsTime'', rm_VCSTime m)]"

definition present_fields :: "(string \<times> string) list \<Rightarrow> (string \<times> json) list" where
  "present_fields opts = map (\<lambda>(k, v). (k, JStr v)) (filter (\<lambda>(k, v). v \<noteq> []) opts)"

definition release_required :: "release_Metadata \<Rightarrow> (string \<times> json) list" where
  "release_required m =
     [(''buildTimestamp'', JStr (rm_BuildTimestamp m)), (''contract'', JStr (rm_Contract m)),
      (''files'', JArr (map file_hash_json (sort_files (rm_Files m)))), (''module'', JStr (rm_Module m)), (''version'', JStr (rm_Version m))]"

definition release_fields :: "release_Metadata \<Rightarrow> (string \<times> json) list" where
  "release_fields m = release_required m @ present_fields (release_optional m) @ signature_field (rm_Signature m)"

definition release_CanonicalJSON :: "release_Metadata \<Rightarrow> release_error + string" where
  "release_CanonicalJSON m =
     (if trim_space (rm_BuildTimestamp m) = [] then Inl ErrMissingTimestamp else Inr (json_encode (json_map (release_fields m))))"

definition release_Sign :: "(string \<Rightarrow> string) \<Rightarrow> (string \<Rightarrow> string \<Rightarrow> string) \<Rightarrow> release_Metadata \<Rightarrow> string \<Rightarrow> release_error + release_Metadata" where
  "release_Sign ed_public ed_sign m privateKey =
     (if length privateKey \<noteq> 64 then Inl ErrPrivateKey
      else case release_CanonicalJSON (m\<lparr>rm_Signature := None\<rparr>) of
        Inl e \<Rightarrow> Inl e
      | Inr canonical \<Rightarrow> Inr (m\<lparr>rm_Signature := Some \<lparr>sg_Algorithm = ''Ed25519'', sg_PublicKey = b64_encode False (ed_public privateKey),
          sg_Value = b64_encode False (ed_sign privateKey canonical)\<rparr>\<rparr>))"

text \<open>No result is the acceptance.\<close>

definition release_Verify :: "(string \<Rightarrow> string \<Rightarrow> string \<Rightarrow> bool) \<Rightarrow> release_Metadata \<Rightarrow> string \<Rightarrow> release_error option" where
  "release_Verify ed_verify m publicKey =
     (if length publicKey \<noteq> 32 then Some ErrPublicKey
      else case rm_Signature m of
        None \<Rightarrow> Some ErrUnsigned
      | Some s \<Rightarrow>
          if sg_Algorithm s \<noteq> ''Ed25519'' then Some ErrUnsigned
          else if sg_PublicKey s \<noteq> b64_encode False publicKey then Some ErrKeyMismatch
          else case b64_decode False (sg_Value s) of
            None \<Rightarrow> Some ErrSignatureEncoding
          | Some signature \<Rightarrow>
              if length signature \<noteq> 64 then Some ErrSignatureEncoding
              else case release_CanonicalJSON (m\<lparr>rm_Signature := None\<rparr>) of
                Inl e \<Rightarrow> Some e
              | Inr canonical \<Rightarrow> if ed_verify publicKey canonical signature then None else Some ErrInvalidSignature)"

section \<open>What the signed bytes determine\<close>

lemma map_of_present:
  "distinct (map fst opts) \<Longrightarrow> map_of (present_fields opts) k = Option.bind (map_of opts k) (\<lambda>v. if v = [] then None else Some (JStr v))"
proof (induction opts)
  case (Cons kv opts)
  then have "map_of opts (fst kv) = None" by (simp add: map_of_eq_None_iff)
  with Cons show ?case
    by (cases kv; cases "k = fst kv") (simp_all add: present_fields_def)
qed (simp add: present_fields_def)

lemma present_keys: "fst ` set (present_fields opts) \<subseteq> fst ` set opts" "distinct (map fst opts) \<Longrightarrow> distinct (map fst (present_fields opts))"
proof -
  have "map fst (present_fields opts) = map fst (filter (\<lambda>(k, v). v \<noteq> []) opts)"
    by (simp add: present_fields_def case_prod_beta comp_def)
  then show "fst ` set (present_fields opts) \<subseteq> fst ` set opts" "distinct (map fst opts) \<Longrightarrow> distinct (map fst (present_fields opts))"
    by (metis filter_is_subset image_mono list.set_map, metis distinct_map_filter)
qed

lemma map_of_sorted: "distinct (map fst kvs) \<Longrightarrow> map_of (sort_by lt kvs) = map_of kvs"
proof -
  assume d: "distinct (map fst kvs)"
  have "distinct (map fst (sort_by lt kvs))"
    using d by (metis mset_eq_imp_distinct_iff mset_map mset_sort_by)
  with d show ?thesis
    by (metis map_of_inject_set set_sort_by)
qed

text \<open>A field of an object, as it reads back.\<close>

definition json_lookup :: "json \<Rightarrow> string \<Rightarrow> json option" where
  "json_lookup j key = (case j of JObj fs \<Rightarrow> map_of fs key | _ \<Rightarrow> None)"

lemma lookup_repaired:
  assumes "list_all (\<lambda>(k, v). utf8_repair k = k) kvs"
  shows "map_of (map (\<lambda>(k, v). (utf8_repair k, json_repair v)) kvs) key = map_option json_repair (map_of kvs key)"
  using assms by (induction kvs) auto

lemma lookup_json_map:
  assumes "distinct (map fst kvs)" and "list_all (\<lambda>(k, v). utf8_repair k = k) kvs"
  shows "json_lookup (json_repair (json_map kvs)) key = map_option json_repair (map_of kvs key)"
proof -
  have "list_all (\<lambda>(k, v). utf8_repair k = k) (sort_by (\<lambda>a b. fst a < fst b) kvs)"
    using assms(2) by (simp add: list_all_iff)
  from lookup_repaired [OF this] map_of_sorted [OF assms(1)] show ?thesis
    by (simp add: json_lookup_def json_map_def)
qed

lemma release_key_names:
  "map fst (release_required m) = [''buildTimestamp'', ''contract'', ''files'', ''module'', ''version'']"
  "map fst (release_optional m) = [''tool'', ''compiler'', ''goVersion'', ''os'', ''arch'', ''vcsRevision'', ''vcsModified'', ''vcsTime'']"
  by (simp_all add: release_required_def release_optional_def)

lemma signature_keys: "fst ` set (signature_field s) \<subseteq> {''signature''}" "distinct (map fst (signature_field s))"
  by (cases s; simp add: signature_field_def)+

lemma release_keys: "distinct (map fst (release_fields m))" "list_all (\<lambda>(k, v). utf8_repair k = k) (release_fields m)"
proof -
  let ?R = "set (map fst (release_required m))" and ?O = "set (map fst (release_optional m))"
  let ?o = "present_fields (release_optional m)" and ?s = "signature_field (rm_Signature m)"
  have d: "distinct (map fst (release_required m))" "distinct (map fst ?o)" "distinct (map fst ?s)"
    by (simp_all add: release_key_names signature_keys present_keys(2))
  have disjoint: "?R \<inter> ?O = {}" "''signature'' \<notin> ?R" "''signature'' \<notin> ?O"
    and plain: "\<forall>k \<in> ?R \<union> ?O \<union> {''signature''}. utf8_repair k = k"
    unfolding release_key_names by (simp_all add: utf8_repair_ascii)
  have o: "fst ` set ?o \<subseteq> ?O" and s: "fst ` set ?s \<subseteq> {''signature''}"
    using present_keys(1) signature_keys(1) by auto
  have apart: "A \<inter> (B' \<union> C') = {}" "B' \<inter> C' = {}"
    if "A \<inter> B = {}" "x \<notin> A" "x \<notin> B" "B' \<subseteq> B" "C' \<subseteq> {x}" for A B B' C' :: "string set" and x
    using that by blast+
  have "fst ` set (release_required m) \<inter> (fst ` set ?o \<union> fst ` set ?s) = {}" "fst ` set ?o \<inter> fst ` set ?s = {}"
    using apart [OF disjoint o s] by simp_all
  with d show "distinct (map fst (release_fields m))"
    by (simp add: release_fields_def image_Un)
  have within: "fst ` set (release_fields m) \<subseteq> ?R \<union> ?O \<union> {''signature''}"
    using o s by (simp add: release_fields_def image_Un) blast
  have "utf8_repair (fst e) = fst e" if "e \<in> set (release_fields m)" for e
    by (intro plain [rule_format] subsetD [OF within] imageI that)
  then show "list_all (\<lambda>(k, v). utf8_repair k = k) (release_fields m)"
    by (simp add: list_all_iff case_prod_beta)
qed

lemma release_ints: "json_ints (json_map (release_fields m))"
proof -
  have "json_ints v" if "(k, v) \<in> set (release_fields m)" for k v
    using that by (auto simp: release_fields_def release_required_def signature_field_def present_fields_def file_hash_json_def signature_json_def list_all_iff split: option.splits)
  then show ?thesis
    by (auto simp: json_map_def list_all_iff)
qed

definition repaired_file :: "FileHash \<Rightarrow> FileHash" where
  "repaired_file f = \<lparr>fh_Path = utf8_repair (fh_Path f), fh_SHA256 = utf8_repair (fh_SHA256 f)\<rparr>"

definition repaired_signature :: "Signature \<Rightarrow> Signature" where
  "repaired_signature s = \<lparr>sg_Algorithm = utf8_repair (sg_Algorithm s), sg_PublicKey = utf8_repair (sg_PublicKey s), sg_Value = utf8_repair (sg_Value s)\<rparr>"

text \<open>What of the metadata the canonical bytes keep: everything, with the files in order and invalid bytes replaced.\<close>

definition release_form :: "release_Metadata \<Rightarrow> release_Metadata" where
  "release_form m = \<lparr>rm_Module = utf8_repair (rm_Module m), rm_Version = utf8_repair (rm_Version m), rm_Contract = utf8_repair (rm_Contract m),
     rm_BuildTimestamp = utf8_repair (rm_BuildTimestamp m), rm_Tool = utf8_repair (rm_Tool m), rm_Compiler = utf8_repair (rm_Compiler m),
     rm_GoVersion = utf8_repair (rm_GoVersion m), rm_OS = utf8_repair (rm_OS m), rm_Arch = utf8_repair (rm_Arch m),
     rm_VCSRevision = utf8_repair (rm_VCSRevision m), rm_VCSModified = utf8_repair (rm_VCSModified m), rm_VCSTime = utf8_repair (rm_VCSTime m),
     rm_Files = map repaired_file (sort_files (rm_Files m)), rm_Signature = map_option repaired_signature (rm_Signature m)\<rparr>"

lemma repaired_file_json: "json_repair (file_hash_json f) = file_hash_json (repaired_file f)"
  by (simp add: file_hash_json_def repaired_file_def utf8_repair_ascii)

lemma inj_file_hash_json: "inj file_hash_json"
  by (auto simp: inj_def file_hash_json_def)

lemma release_field_of:
  "map_of (release_fields m) ''buildTimestamp'' = Some (JStr (rm_BuildTimestamp m))"
  "map_of (release_fields m) ''contract'' = Some (JStr (rm_Contract m))"
  "map_of (release_fields m) ''files'' = Some (JArr (map file_hash_json (sort_files (rm_Files m))))"
  "map_of (release_fields m) ''module'' = Some (JStr (rm_Module m))"
  "map_of (release_fields m) ''version'' = Some (JStr (rm_Version m))"
  by (simp_all add: release_fields_def release_required_def)

lemma release_optional_of:
  "map_of (release_optional m) k = Some v \<Longrightarrow> map_of (release_fields m) k = (if v = [] then None else Some (JStr v))"
proof -
  assume v: "map_of (release_optional m) k = Some v"
  then have "k \<in> set (map fst (release_optional m))"
    by (metis map_of_eq_None_iff option.distinct(1) list.set_map)
  then have "k \<notin> set (map fst (release_required m))" and "k \<noteq> ''signature''"
    unfolding release_key_names by auto
  then have "map_of (release_required m) k = None" "map_of (signature_field (rm_Signature m)) k = None"
    using signature_keys(1) [of "rm_Signature m"] by (auto simp: map_of_eq_None_iff)
  with v show ?thesis
    by (simp add: release_fields_def map_add_def map_of_present release_key_names split: option.split)
qed

lemma release_signature_of: "map_of (release_fields m) ''signature'' = map_option signature_json (rm_Signature m)"
proof -
  have "''signature'' \<notin> set (map fst (release_required m))" "''signature'' \<notin> set (map fst (release_optional m))"
    unfolding release_key_names by simp_all
  then have "map_of (release_required m) ''signature'' = None" "map_of (present_fields (release_optional m)) ''signature'' = None"
    using present_keys(1) [of "release_optional m"] by (auto simp: map_of_eq_None_iff)
  then show ?thesis
    by (cases "rm_Signature m") (simp_all add: release_fields_def map_add_def signature_field_def)
qed

lemma canonical_inj:
  assumes "release_CanonicalJSON a = Inr x" and "release_CanonicalJSON b = Inr x"
  shows "release_form a = release_form b"
proof -
  have "json_encode (json_map (release_fields a)) = json_encode (json_map (release_fields b))"
    using assms by (simp add: release_CanonicalJSON_def split: if_splits)
  then have "json_repair (json_map (release_fields a)) = json_repair (json_map (release_fields b))"
    by (rule json_encode_inj [OF _ release_ints release_ints])
  then have eq: "map_option json_repair (map_of (release_fields a) key) = map_option json_repair (map_of (release_fields b) key)" for key
    using lookup_json_map [OF release_keys] by metis
  have words: "utf8_repair u = utf8_repair v"
    if "map_option json_repair (if u = [] then None else Some (JStr u)) = map_option json_repair (if v = [] then None else Some (JStr v))" for u v
    using that by (auto split: if_splits)
  have optional: "utf8_repair u = utf8_repair v" if "map_of (release_optional a) key = Some u" "map_of (release_optional b) key = Some v" for key u v
    by (rule words) (use eq [of key] release_optional_of [OF that(1)] release_optional_of [OF that(2)] in simp)
  have comp: "map (json_repair \<circ> file_hash_json) fs = map file_hash_json (map repaired_file fs)" for fs
    by (simp add: repaired_file_json)
  have "map (json_repair \<circ> file_hash_json) (sort_files (rm_Files a)) = map (json_repair \<circ> file_hash_json) (sort_files (rm_Files b))"
    using eq [of "''files''"] by (simp add: release_field_of)
  then have files: "map repaired_file (sort_files (rm_Files a)) = map repaired_file (sort_files (rm_Files b))"
    unfolding comp by (simp only: inj_map_eq_map [OF inj_file_hash_json])
  have signature: "map_option repaired_signature (rm_Signature a) = map_option repaired_signature (rm_Signature b)"
    using eq [of "''signature''"] by (cases "rm_Signature a"; cases "rm_Signature b")
      (simp_all add: release_signature_of signature_json_def repaired_signature_def)
  show ?thesis
    using eq [of "''buildTimestamp''"] eq [of "''contract''"] eq [of "''module''"] eq [of "''version''"] files signature
      optional [of "''tool''"] optional [of "''compiler''"] optional [of "''goVersion''"] optional [of "''os''"] optional [of "''arch''"]
      optional [of "''vcsRevision''"] optional [of "''vcsModified''"] optional [of "''vcsTime''"]
    by (simp add: release_form_def release_field_of release_optional_def)
qed


definition toy_sign :: "string \<Rightarrow> string \<Rightarrow> string" where
  "toy_sign key message = take 32 key @ take 32 (message @ replicate 32 (CHR ''.''))"

definition release_example :: release_Metadata where
  "release_example = \<lparr>rm_Module = ''m'', rm_Version = ''1'', rm_Contract = ''c'', rm_BuildTimestamp = ''t'', rm_Tool = [], rm_Compiler = [],
     rm_GoVersion = [], rm_OS = [], rm_Arch = [], rm_VCSRevision = [], rm_VCSModified = [], rm_VCSTime = [],
     rm_Files = [\<lparr>fh_Path = ''a'', fh_SHA256 = ''00''\<rparr>], rm_Signature = None\<rparr>"

lemma example_timestamp: "trim_space (rm_BuildTimestamp release_example) \<noteq> []"
  by code_simp


section \<open>What the listing is not\<close>

text \<open>A path is listed without its surrounding blanks, but read with them.\<close>

lemma listed_path_not_read:
  "sys_read sy '' a'' = Some data \<Longrightarrow> hash_files sy ['' a''] = Inr [\<lparr>fh_Path = ''a'', fh_SHA256 = sha256_hex data\<rparr>]"
proof -
  have "release_clean '' a'' = ''a''"
    by code_simp
  then show "sys_read sy '' a'' = Some data \<Longrightarrow> hash_files sy ['' a''] = Inr [\<lparr>fh_Path = ''a'', fh_SHA256 = sha256_hex data\<rparr>]"
    by (simp add: Let_def)
qed

end
