(* ===== verification/Cache.thy ===== *)
theory Cache
  imports Patch_Tx Go_Any Go_System
begin

text \<open>
  \<^verbatim>\<open>internal/cache/cache.go\<close> and \<^verbatim>\<open>internal/doctor/doctor.go\<close>: the cache directory of a workspace with its database, its
  identity and the lock of its writer, and the doctor that looks at it. The files are those of \<^verbatim>\<open>Patch_Tx\<close>, any call on which
  may fail; directories are not modelled. What the SQLite driver does with the bytes of a database, what the clock reads
  at the \<open>n\<close>-th quarantine, what the lock says and the answers of \<^verbatim>\<open>ReadDir\<close> are arguments.
\<close>

section \<open>Opening\<close>

record cache_Identity =
  ci_Schema :: string
  ci_Tool :: string
  ci_IR :: string
  ci_Profile :: string
  ci_Config :: string
  ci_Root :: string
  ci_Snapshot :: string

record Cache =
  ca_Dir :: string
  ca_DBPath :: string
  ca_LockPath :: string
  ca_locked :: bool
  ca_Ephemeral :: bool

datatype cache_error = ErrLocked | ErrDirectory | ErrIO | ErrDatabase

record cache_env =
  ce_cwd :: "string option"
  ce_lock_text :: string
  ce_stamp :: "nat \<Rightarrow> string"
  ce_database :: "string option \<Rightarrow> bool \<times> string option"

definition cache_identity_json :: "cache_Identity \<Rightarrow> string" where
  "cache_identity_json i = json_encode (JObj [(''schema'', JStr (ci_Schema i)), (''tool'', JStr (ci_Tool i)), (''ir'', JStr (ci_IR i)),
     (''profile'', JStr (ci_Profile i)), (''config'', JStr (ci_Config i)), (''root'', JStr (ci_Root i)), (''snapshot'', JStr (ci_Snapshot i))])"

text \<open>\<^verbatim>\<open>os.OpenFile\<close> with \<^verbatim>\<open>O_CREATE\<close> and \<^verbatim>\<open>O_EXCL\<close>, and \<^verbatim>\<open>os.WriteFile\<close> with a mode for a file that is new.\<close>

definition os_create_excl :: "string \<Rightarrow> nat \<Rightarrow> fs \<Rightarrow> bool \<times> fs" where
  "os_create_excl p mode = sys_call (\<lambda>s.
     if fs_files s p \<noteq> None then None else Some (s\<lparr>fs_files := (fs_files s)(p := Some \<lparr>f_bytes = [], f_mode = mode\<rparr>)\<rparr>))"

definition os_write_mode :: "string \<Rightarrow> nat \<Rightarrow> string \<Rightarrow> fs \<Rightarrow> bool \<times> fs" where
  "os_write_mode p mode content = sys_call (\<lambda>s. Some (s\<lparr>fs_files := (fs_files s)(p := Some
     (case fs_files s p of None \<Rightarrow> \<lparr>f_bytes = content, f_mode = mode\<rparr> | Some f \<Rightarrow> f\<lparr>f_bytes := content\<rparr>))\<rparr>))"

definition file_bytes :: "fs \<Rightarrow> string \<Rightarrow> string option" where
  "file_bytes s p = map_option f_bytes (fs_files s p)"

text \<open>The driver opens the database and brings its schema up to date.\<close>

definition open_database :: "cache_env \<Rightarrow> string \<Rightarrow> fs \<Rightarrow> bool \<times> fs" where
  "open_database env p s =
     (case ce_database env (file_bytes s p) of (ok, content) \<Rightarrow>
        (ok, s\<lparr>fs_files := (fs_files s)(p := map_option (\<lambda>c. \<lparr>f_bytes = c, f_mode = 420\<rparr>) content)\<rparr>))"

definition cache_Close :: "Cache \<Rightarrow> fs \<Rightarrow> fs" where
  "cache_Close c s = (if ca_locked c then snd (os_remove (ca_LockPath c) s) else s)"

definition quarantine :: "cache_env \<Rightarrow> nat \<Rightarrow> Cache \<Rightarrow> fs \<Rightarrow> fs" where
  "quarantine env n c s =
     snd (os_remove (ca_LockPath c) (snd (os_rename (ca_DBPath c) (ca_DBPath c @ ''.quarantine-'' @ ce_stamp env n) s)))"

definition cache_at :: "string \<Rightarrow> Cache" where
  "cache_at dir = \<lparr>ca_Dir = dir, ca_DBPath = path_join [dir, ''index.sqlite''], ca_LockPath = path_join [dir, ''writer.lock''],
     ca_locked = True, ca_Ephemeral = False\<rparr>"

definition identity_path :: "string \<Rightarrow> string" where
  "identity_path dir = path_join [dir, ''identity.json'']"

text \<open>After the lock is taken: the database and the identity. No result asks for another attempt.\<close>

definition open_locked :: "cache_env \<Rightarrow> nat \<Rightarrow> string \<Rightarrow> cache_Identity \<Rightarrow> fs \<Rightarrow> (cache_error + Cache) option \<times> fs" where
  "open_locked env n dir identity s0 =
     (let c = cache_at dir; data = cache_identity_json identity in
      case os_store (ca_LockPath c) (ce_lock_text env) s0 of
        (False, s1) \<Rightarrow> (Some (Inl ErrIO), cache_Close c s1)
      | (True, s1) \<Rightarrow>
          (case open_database env (ca_DBPath c) s1 of
             (False, s2) \<Rightarrow> (Some (Inl ErrDatabase), quarantine env n c s2)
           | (True, s2) \<Rightarrow>
               (if (case file_bytes s2 (identity_path dir) of None \<Rightarrow> False | Some old \<Rightarrow> old \<noteq> data)
                then (None, quarantine env n c s2)
                else case os_write_mode (identity_path dir) 384 data s2 of
                  (False, s3) \<Rightarrow> (Some (Inl ErrIO), cache_Close c s3)
                | (True, s3) \<Rightarrow> (Some (Inr c), s3))))"

definition open_once :: "cache_env \<Rightarrow> nat \<Rightarrow> string \<Rightarrow> cache_Identity \<Rightarrow> fs \<Rightarrow> (cache_error + Cache) option \<times> fs" where
  "open_once env n dir identity s0 =
     (case sys_call Some s0 of
        (False, s1) \<Rightarrow> (Some (Inl ErrIO), s1)
      | (True, s1) \<Rightarrow>
          (case os_create_excl (ca_LockPath (cache_at dir)) 384 s1 of
             (False, s2) \<Rightarrow> (Some (Inl (if fs_files s1 (ca_LockPath (cache_at dir)) \<noteq> None \<and> \<not> next_fault s1 then ErrLocked else ErrIO)), s2)
           | (True, s2) \<Rightarrow> open_locked env n dir identity s2))"

text \<open>\<^verbatim>\<open>Open\<close> calls itself again after it has put the database of another identity away; the fuel bounds the attempts.\<close>

fun cache_Open :: "nat \<Rightarrow> cache_env \<Rightarrow> nat \<Rightarrow> string \<Rightarrow> cache_Identity \<Rightarrow> bool \<Rightarrow> fs \<Rightarrow> ((cache_error + Cache) \<times> fs) option" where
  "cache_Open 0 env n dir0 identity ephemeral s = None"
| "cache_Open (Suc fuel) env n dir0 identity ephemeral s =
     (if ephemeral then Some (Inr \<lparr>ca_Dir = [], ca_DBPath = [], ca_LockPath = [], ca_locked = False, ca_Ephemeral = True\<rparr>, s)
      else case abs_path (ce_cwd env) (path_clean dir0) of
        None \<Rightarrow> Some (Inl ErrDirectory, s)
      | Some dir \<Rightarrow>
          (case open_once env n dir identity s of
             (Some r, s') \<Rightarrow> Some (r, s')
           | (None, s') \<Rightarrow> cache_Open fuel env (Suc n) dir identity False s'))"

section \<open>The doctor\<close>

record DoctorReport =
  dr_Path :: string
  dr_Schema :: string
  dr_Snapshot :: string
  dr_Health :: string
  dr_LockOwner :: string
  dr_Size :: nat
  dr_RebuildReason :: string

text \<open>What the files do not tell: the files that cannot be examined, with the message, and those that cannot be read.\<close>

record doctor_env =
  de_stat_error :: "string \<Rightarrow> string option"
  de_unreadable :: "string \<Rightarrow> bool"

definition sqlite_header :: string where
  "sqlite_header = ''SQLite format 3'' @ [CHR 0x00]"

definition doctor_read :: "doctor_env \<Rightarrow> fs \<Rightarrow> string \<Rightarrow> string option" where
  "doctor_read env s p = (if de_unreadable env p then None else file_bytes s p)"

text \<open>The first sixteen bytes; a shorter file leaves the rest of the buffer zero, an empty one cannot be read.\<close>

definition has_sqlite_header :: "doctor_env \<Rightarrow> fs \<Rightarrow> string \<Rightarrow> bool" where
  "has_sqlite_header env s p =
     (case doctor_read env s p of
        None \<Rightarrow> False
      | Some content \<Rightarrow> content \<noteq> [] \<and> take 16 (content @ replicate 16 (CHR 0x00)) = sqlite_header)"

definition index_health :: "doctor_env \<Rightarrow> fs \<Rightarrow> string \<Rightarrow> DoctorReport \<Rightarrow> DoctorReport" where
  "index_health env s p r =
     (case de_stat_error env p of
        Some msg \<Rightarrow> r\<lparr>dr_Health := ''unreadable'', dr_RebuildReason := msg\<rparr>
      | None \<Rightarrow>
          (case file_bytes s p of
             None \<Rightarrow> r
           | Some content \<Rightarrow>
               (if has_sqlite_header env s p then r\<lparr>dr_Size := length content, dr_Health := ''healthy''\<rparr>
                else r\<lparr>dr_Size := length content, dr_Health := ''corrupt'', dr_RebuildReason := ''index is not a SQLite database''\<rparr>)))"

definition cache_identity_field :: "string \<Rightarrow> json \<Rightarrow> string \<times> string \<Rightarrow> (string \<times> string) option" where
  "cache_identity_field k v r =
     (if equal_fold k ''schema'' then decode_string v (\<lambda>x. apfst (\<lambda>_. x)) r
      else if equal_fold k ''snapshot'' then decode_string v (\<lambda>x. apsnd (\<lambda>_. x)) r else Some r)"

definition identity_read :: "string \<Rightarrow> DoctorReport \<Rightarrow> DoctorReport" where
  "identity_read data r =
     (case Option.bind (json_unmarshal data) (\<lambda>v. decode_struct cache_identity_field v ([], [])) of
        None \<Rightarrow> r
      | Some (schema, snapshot) \<Rightarrow> r\<lparr>dr_Schema := schema, dr_Snapshot := snapshot\<rparr>)"

definition lock_read :: "string \<Rightarrow> DoctorReport \<Rightarrow> DoctorReport" where
  "lock_read data r = r\<lparr>dr_LockOwner := data, dr_Health := (if dr_Health r = ''healthy'' then ''locked'' else dr_Health r)\<rparr>"

definition doctor_Inspect :: "doctor_env \<Rightarrow> fs \<Rightarrow> string \<Rightarrow> DoctorReport" where
  "doctor_Inspect env s path =
     (let r0 = \<lparr>dr_Path = path_clean path, dr_Schema = [], dr_Snapshot = [], dr_Health = ''missing'', dr_LockOwner = [], dr_Size = 0, dr_RebuildReason = []\<rparr>;
          r1 = index_health env s (path_join [path, ''index.sqlite'']) r0;
          r2 = (case doctor_read env s (path_join [path, ''identity.json'']) of None \<Rightarrow> r1 | Some data \<Rightarrow> identity_read data r1)
      in case doctor_read env s (path_join [path, ''writer.lock'']) of None \<Rightarrow> r2 | Some data \<Rightarrow> lock_read data r2)"

definition doctor_report_json :: "DoctorReport \<Rightarrow> json" where
  "doctor_report_json r = JObj ([(''path'', JStr (dr_Path r))] @ omit_empty ''schema'' (dr_Schema r) @ omit_empty ''snapshot'' (dr_Snapshot r) @
     [(''health'', JStr (dr_Health r))] @ omit_empty ''lockOwner'' (dr_LockOwner r) @ [(''size'', JInt (int (dr_Size r)))] @
     omit_empty ''rebuildReason'' (dr_RebuildReason r))"

definition doctor_JSON :: "DoctorReport \<Rightarrow> string" where
  "doctor_JSON r = json_encode (doctor_report_json r)"

definition doctor_Human :: "DoctorReport \<Rightarrow> string" where
  "doctor_Human r = ''cache '' @ dr_Path r @ '': '' @ dr_Health r @ '' (size='' @ itoa (int (dr_Size r)) @ '', schema='' @ dr_Schema r @
     '', snapshot='' @ dr_Snapshot r @ '', lock='' @ dr_LockOwner r @ '', reason='' @ dr_RebuildReason r @ '')''"

datatype doctor_error = ErrUnsafePath | ErrRemove | ErrReadDir

definition unsafe_path :: "string \<Rightarrow> bool" where
  "unsafe_path path \<longleftrightarrow> path_clean path = ''.'' \<or> path_clean path = ''/''"

text \<open>A file that is not there is removed well.\<close>

fun remove_present :: "string \<Rightarrow> string list \<Rightarrow> fs \<Rightarrow> doctor_error option \<times> fs" where
  "remove_present path [] s = (None, s)"
| "remove_present path (name # names) s =
     (case os_remove (path_join [path, name]) s of
        (ok, s') \<Rightarrow> if ok \<or> fs_files s (path_join [path, name]) = None \<and> \<not> next_fault s then remove_present path names s' else (Some ErrRemove, s'))"

definition doctor_Rebuild :: "string \<Rightarrow> fs \<Rightarrow> doctor_error option \<times> fs" where
  "doctor_Rebuild path s =
     (if unsafe_path path then (Some ErrUnsafePath, s)
      else remove_present path [''index.sqlite'', ''index.sqlite-shm'', ''index.sqlite-wal'', ''identity.json''] s)"

fun remove_all :: "string \<Rightarrow> string list \<Rightarrow> fs \<Rightarrow> doctor_error option \<times> fs" where
  "remove_all path [] s = (None, s)"
| "remove_all path (name # names) s =
     (case os_remove (path_join [path, name]) s of (ok, s') \<Rightarrow> if ok then remove_all path names s' else (Some ErrRemove, s'))"

definition doctor_Cleanup :: "string list option \<Rightarrow> string \<Rightarrow> fs \<Rightarrow> doctor_error option \<times> fs" where
  "doctor_Cleanup entries path s =
     (if unsafe_path path then (Some ErrUnsafePath, s)
      else case entries of
        None \<Rightarrow> (Some ErrReadDir, s)
      | Some names \<Rightarrow> remove_all path (filter (\<lambda>name. has_prefix name ''index.sqlite.quarantine-'') names) s)"

section \<open>The paths of a cache\<close>

definition below :: "string \<Rightarrow> string" where
  "below dir = slash # concat (map (\<lambda>s. s @ ''/'') (clean_segs dir))"

lemma cache_join_last: "join_with sep (xs @ [y]) = concat (map (\<lambda>x. x @ sep) xs) @ y"
proof (induction xs)
  case (Cons x xs)
  then show ?case by (cases "xs @ [y]") auto
qed simp

lemma path_join_name:
  assumes "is_abs dir" and "slash \<notin> set name" and "name \<notin> {[], ''.'', ''..''}"
  shows "path_join [dir, name] = below dir @ name"
proof -
  have dir: "dir \<noteq> []" "is_abs (dir @ slash # name)"
    using assms(1) by (cases dir; auto simp: is_abs_def)+
  have "clean_segs (dir @ slash # name) = clean_segs dir @ [name]"
    using assms dir(2) by (simp add: clean_segs_def split_on_append_sep split_on_notin clean_step_def)
  with dir show ?thesis
    by (simp add: path_clean_def render_path_def below_def cache_join_last)
qed

lemma cache_paths:
  assumes "is_abs dir"
  shows "ca_LockPath (cache_at dir) = below dir @ ''writer.lock''" "ca_DBPath (cache_at dir) = below dir @ ''index.sqlite''"
    "identity_path dir = below dir @ ''identity.json''"
  using assms by (simp_all add: cache_at_def identity_path_def path_join_name del: path_join.simps)

lemma cache_at_simps [simp]: "ca_locked (cache_at dir)" "\<not> ca_Ephemeral (cache_at dir)"
  by (simp_all add: cache_at_def)

lemma cache_dir_abs: "pred_option is_abs cwd \<Longrightarrow> abs_path cwd (path_clean p) = Some dir \<Longrightarrow> is_abs dir \<and> abs_path cwd (path_clean dir) = Some dir"
proof -
  assume cwd: "pred_option is_abs cwd" and dir: "abs_path cwd (path_clean p) = Some dir"
  have "\<exists>q. dir = path_clean q \<and> is_abs q"
  proof (cases "is_abs (path_clean p)")
    case True
    with dir show ?thesis by (auto simp: abs_path_def)
  next
    case False
    with dir obtain c where c: "cwd = Some c" "dir = path_join [c, path_clean p]" by (auto simp: abs_path_def)
    with cwd obtain c' where "c = slash # c'" by (cases c) (auto simp: is_abs_def)
    with c show ?thesis by (intro exI [of _ "c @ slash # path_clean p"]) (simp add: is_abs_def)
  qed
  then show ?thesis
    by (auto simp: abs_path_def)
qed

section \<open>System calls\<close>

lemma sys_call_cases:
  assumes "sys_call effect s = (ok, s')"
  shows "ok \<Longrightarrow> \<exists>t. effect (s\<lparr>fs_faults := tl (fs_faults s)\<rparr>) = Some t \<and> fs_files s' = fs_files t"
    "\<not> ok \<Longrightarrow> fs_files s' = fs_files s"
    "fs_faults s = [] \<Longrightarrow> \<not> ok \<Longrightarrow> effect (s\<lparr>fs_faults := []\<rparr>) = None"
  using assms by (auto simp: sys_call_def Let_def next_fault_def split: if_splits option.splits)

lemma os_create_excl_cases:
  assumes "os_create_excl p mode s = (ok, s')"
  shows "ok \<Longrightarrow> fs_files s p = None \<and> fs_files s' = (fs_files s)(p := Some \<lparr>f_bytes = [], f_mode = mode\<rparr>)"
    "\<not> ok \<Longrightarrow> fs_files s' = fs_files s"
  using sys_call_cases [OF assms [unfolded os_create_excl_def]] by (auto split: if_splits)

lemma os_store_cases:
  assumes "os_store p content s = (ok, s')"
  shows "\<not> ok \<Longrightarrow> fs_files s' = fs_files s" "q \<noteq> p \<Longrightarrow> fs_files s' q = fs_files s q" "fs_files s' p = None \<longleftrightarrow> fs_files s p = None"
  using sys_call_cases [OF assms [unfolded os_store_def]] by (cases ok; force split: option.splits)+

lemma os_write_mode_cases:
  assumes "os_write_mode p mode content s = (ok, s')"
  shows "\<not> ok \<Longrightarrow> fs_files s' = fs_files s" "q \<noteq> p \<Longrightarrow> fs_files s' q = fs_files s q"
  using sys_call_cases [OF assms [unfolded os_write_mode_def]] by (cases ok; force)+


section \<open>The writer's lock\<close>

definition lock_of :: "string \<Rightarrow> string" where
  "lock_of dir = ca_LockPath (cache_at dir)"

lemma cache_paths_apart:
  assumes "is_abs dir"
  shows "ca_DBPath (cache_at dir) \<noteq> lock_of dir" "identity_path dir \<noteq> lock_of dir" "identity_path dir \<noteq> ca_DBPath (cache_at dir)"
    "ca_DBPath (cache_at dir) @ ''.quarantine-'' @ t \<noteq> lock_of dir" "ca_DBPath (cache_at dir) @ ''.quarantine-'' @ t \<noteq> identity_path dir"
    "ca_DBPath (cache_at dir) @ ''.quarantine-'' @ t \<noteq> ca_DBPath (cache_at dir)"
  using assms by (simp_all add: lock_of_def cache_paths)

lemma open_locked_lock:
  assumes "is_abs dir" and "open_locked env n dir identity s = (Some (Inr c), s')"
  shows "c = cache_at dir \<and> fs_files s' (lock_of dir) = None \<longleftrightarrow> c = cache_at dir \<and> fs_files s (lock_of dir) = None" "c = cache_at dir"
proof -
  let ?lock = "lock_of dir"
  obtain s1 where store: "os_store ?lock (ce_lock_text env) s = (True, s1)"
    using assms(2) by (auto simp: open_locked_def Let_def lock_of_def split: prod.splits bool.splits)
  obtain s2 where db: "open_database env (ca_DBPath (cache_at dir)) s1 = (True, s2)"
    using assms(2) store by (auto simp: open_locked_def Let_def lock_of_def split: prod.splits bool.splits)
  have identity: "os_write_mode (identity_path dir) 384 (cache_identity_json identity) s2 = (True, s')" and c: "c = cache_at dir"
    using assms(2) store db by (auto simp: open_locked_def Let_def lock_of_def split: prod.splits bool.splits if_splits)
  have "fs_files s1 ?lock = None \<longleftrightarrow> fs_files s ?lock = None"
    by (rule os_store_cases(3) [OF store])
  moreover have "fs_files s2 ?lock = fs_files s1 ?lock"
    using db cache_paths_apart(1) [OF assms(1)] by (auto simp: open_database_def split: prod.splits)
  moreover have "fs_files s' ?lock = fs_files s2 ?lock"
    using os_write_mode_cases(2) [OF identity] cache_paths_apart(2) [OF assms(1)] by metis
  ultimately show "c = cache_at dir \<and> fs_files s' ?lock = None \<longleftrightarrow> c = cache_at dir \<and> fs_files s ?lock = None" "c = cache_at dir"
    using c by simp_all
qed

lemma open_once_held: "fs_files s (lock_of dir) \<noteq> None \<Longrightarrow>
    \<exists>e s'. open_once env n dir identity s = (Some (Inl e), s') \<and> fs_files s' = fs_files s"
proof -
  assume held: "fs_files s (lock_of dir) \<noteq> None"
  obtain ok s1 where call: "sys_call Some s = (ok, s1)" by fastforce
  have s1: "fs_files s1 = fs_files s"
    using sys_call_cases(1,2) [OF call] by (cases ok) auto
  obtain created s2 where create: "os_create_excl (lock_of dir) 384 s1 = (created, s2)" by fastforce
  have "\<not> created" "fs_files s2 = fs_files s"
    using os_create_excl_cases [OF create] held s1 by (cases created; auto)+
  with call create s1 show ?thesis
    by (cases ok) (auto simp: open_once_def lock_of_def)
qed

lemma open_once_free:
  assumes "open_once env n dir identity s = (r, s')" and "\<forall>e. r \<noteq> Some (Inl e)"
  obtains s2 where "open_locked env n dir identity s2 = (r, s')" "fs_files s (lock_of dir) = None" "fs_files s2 (lock_of dir) \<noteq> None"
    "\<And>q. q \<noteq> lock_of dir \<Longrightarrow> fs_files s2 q = fs_files s q"
proof -
  obtain s1 where call: "sys_call Some s = (True, s1)"
    using assms by (auto simp: open_once_def split: prod.splits bool.splits)
  obtain s2 where create: "os_create_excl (lock_of dir) 384 s1 = (True, s2)"
    using assms call by (auto simp: open_once_def lock_of_def split: prod.splits bool.splits)
  have "open_locked env n dir identity s2 = (r, s')"
    using assms(1) call create by (simp add: open_once_def lock_of_def)
  moreover have "fs_files s1 = fs_files s"
    using sys_call_cases(1) [OF call] by auto
  moreover note os_create_excl_cases(1) [OF create]
  ultimately show thesis
    by (intro that [of s2]) auto
qed

lemma open_takes_lock:
  "pred_option is_abs (ce_cwd env) \<Longrightarrow> cache_Open fuel env n dir0 identity False s = Some (Inr c, s') \<Longrightarrow>
   \<exists>dir. is_abs dir \<and> c = cache_at dir \<and> abs_path (ce_cwd env) (path_clean dir0) = Some dir \<and>
     fs_files s (lock_of dir) = None \<and> fs_files s' (lock_of dir) \<noteq> None"
proof (induction fuel arbitrary: n dir0 s)
  case (Suc fuel)
  from Suc.prems(2) obtain dir where dir: "abs_path (ce_cwd env) (path_clean dir0) = Some dir"
    by (auto split: option.splits)
  with Suc.prems(1) have abs: "is_abs dir" "abs_path (ce_cwd env) (path_clean dir) = Some dir"
    using cache_dir_abs by blast+
  obtain r s1 where once: "open_once env n dir identity s = (r, s1)" by fastforce
  show ?case
  proof (cases r)
    case None
    obtain s2 where free: "fs_files s (lock_of dir) = None"
      by (rule open_once_free [OF once]) (use None in auto)
    have "cache_Open fuel env (Suc n) dir identity False s1 = Some (Inr c, s')"
      using Suc.prems(2) dir once None by simp
    from Suc.IH [OF Suc.prems(1) this] abs dir free show ?thesis by auto
  next
    case (Some r')
    with Suc.prems(2) dir once have r: "r = Some (Inr c)" "s1 = s'" by auto
    obtain s2 where "open_locked env n dir identity s2 = (Some (Inr c), s')" and free: "fs_files s (lock_of dir) = None" "fs_files s2 (lock_of dir) \<noteq> None"
      by (rule open_once_free [OF once]) (use r in auto)
    from open_locked_lock [OF abs(1) this(1)] free dir abs show ?thesis by auto
  qed
qed simp

text \<open>C36: A cache that was opened was free before and is locked afterwards: whatever calls fail, no other attempt to open it succeeds
  or changes a file while the lock is there, and closing the cache takes the lock away when the removal does not fail.\<close>

theorem cache_lock_exclusive:
  assumes "pred_option is_abs (ce_cwd env)" and "cache_Open fuel env n dir identity False s = Some (Inr c, s')"
  shows "fs_files s (ca_LockPath c) = None \<and> fs_files s' (ca_LockPath c) \<noteq> None \<and>
    (\<forall>attempts m other t. fs_files t (ca_LockPath c) \<noteq> None \<longrightarrow>
       (\<exists>e t'. cache_Open (Suc attempts) env m dir other False t = Some (Inl e, t') \<and> fs_files t' = fs_files t)) \<and>
    (fs_faults s' = [] \<longrightarrow> fs_files (cache_Close c s') (ca_LockPath c) = None)"
proof -
  from open_takes_lock [OF assms] obtain d where d: "c = cache_at d" "abs_path (ce_cwd env) (path_clean dir) = Some d"
    "fs_files s (lock_of d) = None" "fs_files s' (lock_of d) \<noteq> None" by blast
  have "\<exists>e t'. cache_Open (Suc fuel2) env m dir other False t = Some (Inl e, t') \<and> fs_files t' = fs_files t"
    if "fs_files t (lock_of d) \<noteq> None" for fuel2 m other t
    using open_once_held [OF that, of env m other] d(2) by auto
  moreover have "fs_faults s' = [] \<Longrightarrow> fs_files (cache_Close c s') (lock_of d) = None"
    using d(1, 4) by (auto simp: cache_Close_def os_remove_def sys_call_def next_fault_def Let_def lock_of_def)
  ultimately show ?thesis
    using d by (simp add: lock_of_def)
qed


definition cache_demo_env :: cache_env where
  "cache_demo_env = \<lparr>ce_cwd = Some ''/'', ce_lock_text = ''pid=1'', ce_stamp = (\<lambda>n. ''t''),
     ce_database = (\<lambda>c. (True, Some (case c of None \<Rightarrow> sqlite_header | Some b \<Rightarrow> b)))\<rparr>"

definition cache_demo_identity :: cache_Identity where
  "cache_demo_identity = \<lparr>ci_Schema = ''1'', ci_Tool = [], ci_IR = [], ci_Profile = [], ci_Config = [], ci_Root = [], ci_Snapshot = []\<rparr>"

definition cache_demo_fs :: fs where
  "cache_demo_fs = \<lparr>fs_files = (\<lambda>p. None), fs_journal = None, fs_temps = [], fs_faults = [], fs_log = []\<rparr>"

definition opened :: "((cache_error + Cache) \<times> fs) option \<Rightarrow> bool" where
  "opened r = (case r of Some (Inr c, s) \<Rightarrow> True | _ \<Rightarrow> False)"

lemma demo_opens: "opened (cache_Open 1 cache_demo_env 0 ''c'' cache_demo_identity False cache_demo_fs)"
  by code_simp

theorem cache_lock_exclusive_witness:
  "\<exists>c s'. cache_Open 1 cache_demo_env 0 ''c'' cache_demo_identity False cache_demo_fs = Some (Inr c, s') \<and> fs_files s' (ca_LockPath c) \<noteq> None"
proof -
  obtain c s' where opened: "cache_Open 1 cache_demo_env 0 ''c'' cache_demo_identity False cache_demo_fs = Some (Inr c, s')"
    using demo_opens by (auto simp: opened_def split: option.splits sum.splits)
  moreover have "pred_option is_abs (ce_cwd cache_demo_env)"
    by (simp add: cache_demo_env_def is_abs_def)
  ultimately show ?thesis
    using cache_lock_exclusive [OF _ opened] by blast
qed

section \<open>Another identity\<close>

text \<open>Nothing fails, the lock is free, the driver opens every database, and the identity on disk is another one.\<close>

definition other_identity :: "cache_env \<Rightarrow> string \<Rightarrow> cache_Identity \<Rightarrow> fs \<Rightarrow> bool" where
  "other_identity env dir identity s \<longleftrightarrow> fs_faults s = [] \<and> fs_files s (lock_of dir) = None \<and>
     (\<exists>old. file_bytes s (identity_path dir) = Some old \<and> old \<noteq> cache_identity_json identity)"

lemma calls_without_faults:
  "fs_faults s = [] \<Longrightarrow> sys_call effect s = (case effect s of None \<Rightarrow> (False, s) | Some t \<Rightarrow> (True, t\<lparr>fs_log := (fs_files t, fs_journal t) # fs_log t\<rparr>))"
proof -
  assume "fs_faults s = []"
  then have "s\<lparr>fs_faults := tl (fs_faults s)\<rparr> = s" "\<not> next_fault s"
    by (cases s; simp add: next_fault_def)+
  then show ?thesis
    by (simp add: sys_call_def)
qed

lemma plain_calls:
  assumes "fs_faults s = []"
  shows "\<exists>t. sys_call Some s = (True, t) \<and> fs_faults t = [] \<and> fs_files t = fs_files s"
    "fs_files s p = None \<Longrightarrow> \<exists>t. os_create_excl p mode s = (True, t) \<and> fs_faults t = [] \<and> fs_files t = (fs_files s)(p := Some \<lparr>f_bytes = [], f_mode = mode\<rparr>)"
    "fs_files s p = Some f \<Longrightarrow> \<exists>t. os_store p content s = (True, t) \<and> fs_faults t = [] \<and> fs_files t = (fs_files s)(p := Some (f\<lparr>f_bytes := content\<rparr>))"
    "\<exists>t. os_write_mode p mode content s = (True, t) \<and> fs_faults t = [] \<and> (\<forall>q. q \<noteq> p \<longrightarrow> fs_files t q = fs_files s q)"
    "\<exists>ok t. os_remove p s = (ok, t) \<and> fs_faults t = [] \<and> fs_files t = (fs_files s)(p := None) \<and> ok = (fs_files s p \<noteq> None)"
    "fs_faults (snd (os_rename p q s)) = [] \<and> (\<forall>r. r \<noteq> p \<longrightarrow> r \<noteq> q \<longrightarrow> fs_files (snd (os_rename p q s)) r = fs_files s r)"
proof -
  note calls = calls_without_faults [OF assms]
  show "\<exists>t. sys_call Some s = (True, t) \<and> fs_faults t = [] \<and> fs_files t = fs_files s"
    using assms by (simp add: calls)
  show "fs_files s p = None \<Longrightarrow> \<exists>t. os_create_excl p mode s = (True, t) \<and> fs_faults t = [] \<and> fs_files t = (fs_files s)(p := Some \<lparr>f_bytes = [], f_mode = mode\<rparr>)"
    using assms by (simp add: calls os_create_excl_def)
  show "fs_files s p = Some f \<Longrightarrow> \<exists>t. os_store p content s = (True, t) \<and> fs_faults t = [] \<and> fs_files t = (fs_files s)(p := Some (f\<lparr>f_bytes := content\<rparr>))"
    using assms by (simp add: calls os_store_def)
  show "\<exists>t. os_write_mode p mode content s = (True, t) \<and> fs_faults t = [] \<and> (\<forall>q. q \<noteq> p \<longrightarrow> fs_files t q = fs_files s q)"
    using assms by (simp add: calls os_write_mode_def)
  show "\<exists>ok t. os_remove p s = (ok, t) \<and> fs_faults t = [] \<and> fs_files t = (fs_files s)(p := None) \<and> ok = (fs_files s p \<noteq> None)"
    using assms by (cases "fs_files s p") (auto simp: calls os_remove_def fun_upd_idem)
  show "fs_faults (snd (os_rename p q s)) = [] \<and> (\<forall>r. r \<noteq> p \<longrightarrow> r \<noteq> q \<longrightarrow> fs_files (snd (os_rename p q s)) r = fs_files s r)"
    using assms by (cases "fs_files s p") (simp_all add: calls os_rename_def)
qed

lemma quarantine_files:
  assumes "is_abs dir" and "fs_faults s = []" and "quarantine env n (cache_at dir) s = t"
  shows "fs_faults t = [] \<and> fs_files t (lock_of dir) = None \<and> fs_files t (identity_path dir) = fs_files s (identity_path dir)"
proof -
  let ?db = "ca_DBPath (cache_at dir)" and ?q = "ca_DBPath (cache_at dir) @ ''.quarantine-'' @ ce_stamp env n"
  define u where "u = snd (os_rename ?db ?q s)"
  then have rename: "fs_faults u = []" "\<forall>r. r \<noteq> ?db \<longrightarrow> r \<noteq> ?q \<longrightarrow> fs_files u r = fs_files s r"
    using plain_calls(6) [OF assms(2)] by blast+
  obtain ok' v where "os_remove (lock_of dir) u = (ok', v)" "fs_faults v = []" "fs_files v = (fs_files u)(lock_of dir := None)"
    using plain_calls(5) [OF rename(1)] by blast
  moreover have "t = v"
    using assms(3) u_def calculation(1) by (simp add: quarantine_def lock_of_def)
  moreover have "fs_files u (identity_path dir) = fs_files s (identity_path dir)"
    using rename(2) cache_paths_apart(3, 5) [OF assms(1)] by metis
  ultimately show ?thesis
    using cache_paths_apart(2) [OF assms(1)] by simp
qed

text \<open>The database is opened under the lock when nothing fails.\<close>

lemma open_reaches_identity:
  assumes "is_abs dir" and "fs_faults s = []" and "fs_files s (lock_of dir) = None" and "\<forall>c. fst (ce_database env c)"
  obtains t where "fs_faults t = []" "fs_files t (identity_path dir) = fs_files s (identity_path dir)"
    "open_once env n dir identity s =
       (if (case file_bytes t (identity_path dir) of None \<Rightarrow> False | Some old \<Rightarrow> old \<noteq> cache_identity_json identity)
        then (None, quarantine env n (cache_at dir) t)
        else case os_write_mode (identity_path dir) 384 (cache_identity_json identity) t of
          (False, s3) \<Rightarrow> (Some (Inl ErrIO), cache_Close (cache_at dir) s3)
        | (True, s3) \<Rightarrow> (Some (Inr (cache_at dir)), s3))"
proof -
  obtain s1 where s1: "sys_call Some s = (True, s1)" "fs_faults s1 = []" "fs_files s1 = fs_files s"
    using plain_calls(1) [OF assms(2)] by blast
  with assms(3) obtain s2 where s2: "os_create_excl (lock_of dir) 384 s1 = (True, s2)" "fs_faults s2 = []"
      "fs_files s2 = (fs_files s)(lock_of dir := Some \<lparr>f_bytes = [], f_mode = 384\<rparr>)"
    using plain_calls(2) [OF s1(2), of "lock_of dir" 384] by auto
  then obtain s3 where s3: "os_store (lock_of dir) (ce_lock_text env) s2 = (True, s3)" "fs_faults s3 = []"
      "fs_files s3 (identity_path dir) = fs_files s (identity_path dir)"
    using plain_calls(3) [OF s2(2), of "lock_of dir" _ "ce_lock_text env"] cache_paths_apart(2) [OF assms(1)] by force
  obtain content where "ce_database env (file_bytes s3 (ca_DBPath (cache_at dir))) = (True, content)"
    using assms(4) by (metis prod.collapse)
  then obtain t where t: "open_database env (ca_DBPath (cache_at dir)) s3 = (True, t)" "fs_faults t = []"
      "fs_files t (identity_path dir) = fs_files s (identity_path dir)"
    using s3 cache_paths_apart(3) [OF assms(1)] by (simp add: open_database_def)
  show thesis
    by (rule that [OF t(2, 3)]) (use s1 s2 s3 t in \<open>simp add: open_once_def open_locked_def lock_of_def [symmetric] Let_def\<close>)
qed

lemma other_identity_step:
  assumes "is_abs dir" and "other_identity env dir identity s" and "\<forall>c. fst (ce_database env c)"
  shows "\<exists>s'. open_once env n dir identity s = (None, s') \<and> other_identity env dir identity s'"
proof -
  have s: "fs_faults s = []" "fs_files s (lock_of dir) = None"
    using assms(2) by (simp_all add: other_identity_def)
  obtain t where t: "fs_faults t = []" "fs_files t (identity_path dir) = fs_files s (identity_path dir)"
    "open_once env n dir identity s = (None, quarantine env n (cache_at dir) t)"
    by (rule open_reaches_identity [OF assms(1) s assms(3), of n identity]) (use assms(2) in \<open>auto simp: other_identity_def file_bytes_def\<close>)
  with quarantine_files [OF assms(1) t(1) refl, of env n] assms(2) show ?thesis
    by (auto simp: other_identity_def file_bytes_def)
qed

text \<open>The identity of another cache is never taken away: the database is put aside again and again, and \<^verbatim>\<open>Open\<close> does not return.\<close>

lemma changed_identity_never_returns:
  assumes "is_abs dir" and "abs_path (ce_cwd env) (path_clean dir) = Some dir" and "other_identity env dir identity s" and "\<forall>c. fst (ce_database env c)"
  shows "cache_Open fuel env n dir identity False s = None"
  using assms(3)
proof (induction fuel arbitrary: n s)
  case (Suc fuel)
  from other_identity_step [OF assms(1) this(2) assms(4), of n] Suc.IH assms(2) show ?case by auto
qed simp

text \<open>The doctor's \<^verbatim>\<open>Rebuild\<close> removes the identity; then one attempt is enough.\<close>

lemma remove_present_files:
  "fs_faults s = [] \<Longrightarrow> \<exists>t. remove_present path names s = (None, t) \<and> fs_faults t = [] \<and>
     fs_files t = (\<lambda>q. if q \<in> (\<lambda>name. path_join [path, name]) ` set names then None else fs_files s q)"
proof (induction names arbitrary: s)
  case (Cons name names)
  obtain ok u where u: "os_remove (path_join [path, name]) s = (ok, u)" "fs_faults u = []" "fs_files u = (fs_files s)(path_join [path, name] := None)"
      "ok = (fs_files s (path_join [path, name]) \<noteq> None)"
    using plain_calls(5) [OF Cons.prems] by blast
  with Cons.prems have "remove_present path (name # names) s = remove_present path names u"
    by (cases ok) (simp_all add: next_fault_def del: path_join.simps)
  moreover obtain t where "remove_present path names u = (None, t) \<and> fs_faults t = [] \<and>
      fs_files t = (\<lambda>q. if q \<in> (\<lambda>name. path_join [path, name]) ` set names then None else fs_files u q)"
    using Cons.IH [OF u(2)] by blast
  ultimately show ?case
    by (intro exI [of _ t]) (simp add: u(3) fun_eq_iff del: path_join.simps remove_present.simps)
qed simp

lemma rebuild_unblocks:
  assumes "is_abs dir" and "abs_path (ce_cwd env) (path_clean dir) = Some dir" and "\<forall>c. fst (ce_database env c)"
    and "fs_faults s = []" and "fs_files s (lock_of dir) = None" and "\<not> unsafe_path dir"
  shows "\<exists>t. doctor_Rebuild dir s = (None, t) \<and> (\<exists>t'. cache_Open (Suc fuel) env n dir identity False t = Some (Inr (cache_at dir), t'))"
proof -
  let ?names = "[''index.sqlite'', ''index.sqlite-shm'', ''index.sqlite-wal'', ''identity.json'']"
  obtain t where t: "doctor_Rebuild dir s = (None, t)" "fs_faults t = []"
      "fs_files t = (\<lambda>q. if q \<in> (\<lambda>name. path_join [dir, name]) ` set ?names then None else fs_files s q)"
    using remove_present_files [OF assms(4), of dir ?names] assms(6) by (auto simp: doctor_Rebuild_def simp del: path_join.simps)
  have gone: "fs_files t (identity_path dir) = None" "fs_files t (lock_of dir) = None"
    unfolding t(3) using assms(5) by (simp_all add: identity_path_def del: path_join.simps)
  obtain u where u: "fs_faults u = []" "open_once env n dir identity t =
      (case os_write_mode (identity_path dir) 384 (cache_identity_json identity) u of
         (False, s3) \<Rightarrow> (Some (Inl ErrIO), cache_Close (cache_at dir) s3)
       | (True, s3) \<Rightarrow> (Some (Inr (cache_at dir)), s3))"
    by (rule open_reaches_identity [OF assms(1) t(2) gone(2) assms(3), of n identity]) (use gone(1) in \<open>auto simp: file_bytes_def\<close>)
  obtain v where "os_write_mode (identity_path dir) 384 (cache_identity_json identity) u = (True, v)"
    using plain_calls(4) [OF u(1)] by blast
  with t(1) u(2) assms(2) show ?thesis by simp
qed

text \<open>Fifteen bytes are taken for the header of a database.\<close>

lemma short_header_healthy:
  "has_sqlite_header \<lparr>de_stat_error = (\<lambda>p. None), de_unreadable = (\<lambda>p. False)\<rparr>
     (cache_demo_fs\<lparr>fs_files := [''f'' \<mapsto> \<lparr>f_bytes = ''SQLite format 3'', f_mode = 420\<rparr>]\<rparr>) ''f''"
  by code_simp

end
