(* ===== verification/Cli_Flags.thy ===== *)
theory Cli_Flags
  imports Go_Base64 "HOL-Library.AList"
begin

text \<open>
  Go's \<^verbatim>\<open>flag\<close> package as \<^verbatim>\<open>cmd/ikm\<close> uses it: a set of flags with their defaults, parsed up to the first argument that is not
  a flag. The result of a failed parse, also of a call for help, is none; what it prints on standard error is not modelled.
  Durations are read by an argument, \<open>dur\<close>, in place of \<^verbatim>\<open>time.ParseDuration\<close>.
\<close>

section \<open>Values\<close>

datatype flag_value = FlagBool bool | FlagInt int | FlagString string | FlagDuration int | FlagList "string list"

type_synonym flags = "(string \<times> flag_value) list"

definition parse_bool :: "string \<Rightarrow> bool option" where
  "parse_bool s =
     (if s \<in> {''1'', ''t'', ''T'', ''TRUE'', ''true'', ''True''} then Some True
      else if s \<in> {''0'', ''f'', ''F'', ''FALSE'', ''false'', ''False''} then Some False
      else None)"

definition parse_flag_int :: "string \<Rightarrow> int option" where
  "parse_flag_int s =
     (if s = [] then None
      else if hd s = CHR ''+'' then parse_int_base0 False (tl s)
      else if hd s = CHR ''-'' then parse_int_base0 True (tl s)
      else parse_int_base0 False s)"

text \<open>\<^verbatim>\<open>multiStringFlag.Set\<close> and \<^verbatim>\<open>Value.Set\<close>.\<close>

definition multi_Set :: "string list \<Rightarrow> string \<Rightarrow> string list" where
  "multi_Set f v = f @ [v]"

fun set_value :: "(string \<Rightarrow> int option) \<Rightarrow> flag_value \<Rightarrow> string \<Rightarrow> flag_value option" where
  "set_value dur (FlagBool _) s = map_option FlagBool (parse_bool s)"
| "set_value dur (FlagInt _) s = map_option FlagInt (parse_flag_int s)"
| "set_value dur (FlagString _) s = Some (FlagString s)"
| "set_value dur (FlagDuration _) s = map_option FlagDuration (dur s)"
| "set_value dur (FlagList xs) s = Some (FlagList (multi_Set xs s))"

fun is_bool_flag :: "flag_value \<Rightarrow> bool" where
  "is_bool_flag (FlagBool _) \<longleftrightarrow> True"
| "is_bool_flag _ \<longleftrightarrow> False"

section \<open>Parsing\<close>

text \<open>The name and the value after the first equals sign that is not the first character.\<close>

definition split_flag :: "string \<Rightarrow> string \<times> string option" where
  "split_flag name =
     (let key = hd name # takeWhile (\<lambda>c. c \<noteq> CHR ''='') (tl name) in
      (key, if length key < length name then Some (drop (Suc (length key)) name) else None))"

text \<open>What the first argument is: a flag without its dashes, or the end of the flags with what is left.\<close>

datatype flag_head = FlagEnd "string list" | FlagBad | FlagName string "string list"

definition flag_token :: "string \<Rightarrow> string list \<Rightarrow> flag_head" where
  "flag_token arg rest =
     (if length arg < 2 \<or> hd arg \<noteq> CHR ''-'' then FlagEnd (arg # rest)
      else if arg = ''--'' then FlagEnd rest
      else let name = drop (if arg ! 1 = CHR ''-'' then 2 else 1) arg in
        if name = [] \<or> hd name = CHR ''-'' \<or> hd name = CHR ''='' then FlagBad else FlagName name rest)"

definition set_flag :: "(string \<Rightarrow> int option) \<Rightarrow> flags \<Rightarrow> string \<Rightarrow> flag_value \<Rightarrow> string \<Rightarrow> flags option" where
  "set_flag dur fs key old text = map_option (\<lambda>v. AList.update key v fs) (set_value dur old text)"

text \<open>\<^verbatim>\<open>parseOne\<close>: the flags and the arguments that are left, or the end of the flags.\<close>

datatype flag_step = FlagsDone "string list" | FlagsFail | FlagsGo flags "string list"

definition flag_go :: "flags option \<Rightarrow> string list \<Rightarrow> flag_step" where
  "flag_go fs rest = (case fs of None \<Rightarrow> FlagsFail | Some fs' \<Rightarrow> FlagsGo fs' rest)"

definition parse_one :: "(string \<Rightarrow> int option) \<Rightarrow> flags \<Rightarrow> string \<Rightarrow> string list \<Rightarrow> flag_step" where
  "parse_one dur fs arg args =
     (case flag_token arg args of
        FlagEnd positional \<Rightarrow> FlagsDone positional
      | FlagBad \<Rightarrow> FlagsFail
      | FlagName name rest \<Rightarrow>
          (case split_flag name of (key, given) \<Rightarrow>
             (case map_of fs key of
                None \<Rightarrow> FlagsFail
              | Some old \<Rightarrow>
                  (case given of
                     Some text \<Rightarrow> flag_go (set_flag dur fs key old text) rest
                   | None \<Rightarrow>
                       if is_bool_flag old then flag_go (set_flag dur fs key old ''true'') rest
                       else (case rest of [] \<Rightarrow> FlagsFail | text # rest' \<Rightarrow> flag_go (set_flag dur fs key old text) rest')))))"

lemma flag_token_rest:
  "flag_token arg rest = FlagEnd positional \<Longrightarrow> suffix positional (arg # rest)" "flag_token arg rest = FlagName name rest' \<Longrightarrow> rest' = rest"
  by (auto simp: flag_token_def Let_def suffix_ConsI split: if_splits)

lemma flag_go_iff: "flag_go fs rest = FlagsGo fs' rest' \<longleftrightarrow> fs = Some fs' \<and> rest = rest'"
  by (auto simp: flag_go_def split: option.splits)

lemma parse_one_go: "parse_one dur fs arg args = FlagsGo fs' rest \<Longrightarrow>
    suffix rest args \<and> (\<exists>key old text. map_of fs key = Some old \<and> set_flag dur fs key old text = Some fs')"
  by (auto simp: parse_one_def flag_go_iff suffix_ConsI split: flag_head.splits prod.splits option.splits if_splits list.splits
      dest!: flag_token_rest(2))

function flag_parse :: "(string \<Rightarrow> int option) \<Rightarrow> flags \<Rightarrow> string list \<Rightarrow> (flags \<times> string list) option" where
  "flag_parse dur fs [] = Some (fs, [])"
| "flag_parse dur fs (arg # args) =
     (case parse_one dur fs arg args of FlagsDone positional \<Rightarrow> Some (fs, positional) | FlagsFail \<Rightarrow> None | FlagsGo fs' rest \<Rightarrow> flag_parse dur fs' rest)"
  by pat_completeness auto
termination
  by (relation "measure (\<lambda>(dur, fs, args). length args)") (auto dest!: parse_one_go suffix_length_le)

section \<open>Reading the flags\<close>

definition flag_bool :: "flags \<Rightarrow> string \<Rightarrow> bool" where
  "flag_bool fs key \<longleftrightarrow> map_of fs key = Some (FlagBool True)"

definition flag_string :: "flags \<Rightarrow> string \<Rightarrow> string" where
  "flag_string fs key = (case map_of fs key of Some (FlagString s) \<Rightarrow> s | _ \<Rightarrow> [])"

definition flag_int :: "flags \<Rightarrow> string \<Rightarrow> int" where
  "flag_int fs key = (case map_of fs key of Some (FlagInt n) \<Rightarrow> n | Some (FlagDuration n) \<Rightarrow> n | _ \<Rightarrow> 0)"

definition flag_list :: "flags \<Rightarrow> string \<Rightarrow> string list" where
  "flag_list fs key = (case map_of fs key of Some (FlagList xs) \<Rightarrow> xs | _ \<Rightarrow> [])"

section \<open>What parsing keeps\<close>

fun flag_kind :: "flag_value \<Rightarrow> nat" where
  "flag_kind (FlagBool _) = 0"
| "flag_kind (FlagInt _) = 1"
| "flag_kind (FlagString _) = 2"
| "flag_kind (FlagDuration _) = 3"
| "flag_kind (FlagList _) = 4"

definition flag_type :: "flags \<Rightarrow> string \<Rightarrow> nat option" where
  "flag_type fs key = map_option flag_kind (map_of fs key)"

lemma set_value_kind: "set_value dur old text = Some v \<Longrightarrow> flag_kind v = flag_kind old"
  by (cases old) auto

lemma set_flag_type: "set_flag dur fs key old text = Some fs' \<Longrightarrow> map_of fs key = Some old \<Longrightarrow> flag_type fs' = flag_type fs"
  by (auto simp: set_flag_def flag_type_def update_conv' fun_eq_iff dest: set_value_kind)

lemma parse_one_done: "parse_one dur fs arg args = FlagsDone positional \<Longrightarrow> suffix positional (arg # args)"
  by (auto simp: parse_one_def flag_go_def split: flag_head.splits prod.splits option.splits if_splits list.splits dest!: flag_token_rest(1))

text \<open>Every flag keeps its type, and what is left of the arguments is their end.\<close>

lemma flag_parse_types: "flag_parse dur fs args = Some (fs', rest) \<Longrightarrow> flag_type fs' = flag_type fs \<and> suffix rest args"
proof (induction dur fs args rule: flag_parse.induct)
  case (2 dur fs arg args)
  show ?case
  proof (cases "parse_one dur fs arg args")
    case (FlagsDone positional)
    with 2(2) parse_one_done [OF FlagsDone] show ?thesis by simp
  next
    case (FlagsGo fs1 rest1)
    with 2 have "flag_type fs' = flag_type fs1 \<and> suffix rest rest1" by simp
    with parse_one_go [OF FlagsGo] show ?thesis
      by (auto dest: set_flag_type suffix_order.trans intro: suffix_ConsI)
  qed (use 2 in simp)
qed auto

declare flag_parse.simps [simp del]

end
