(* ===== verification/Cli_Output.thy ===== *)
theory Cli_Output
  imports Cache
begin

text \<open>
  \<^verbatim>\<open>cmd/ikm/main.go\<close>, the output files of \<^verbatim>\<open>index\<close> and \<^verbatim>\<open>corpus\<close>: a path may be written when it is none of the paths that were
  read, and is written through a temporary file. The files are those of \<^verbatim>\<open>Patch_Tx\<close>, any call on which may fail. Whether two
  paths that can be examined are the same file is an argument.
\<close>

section \<open>Paths\<close>

definition pathEquals :: "string \<Rightarrow> string \<Rightarrow> bool" where
  "pathEquals left right \<longleftrightarrow> path_clean (trim_space left) = path_clean (trim_space right)"

definition pathsAlias :: "sys \<Rightarrow> (string \<Rightarrow> string \<Rightarrow> bool) \<Rightarrow> string \<Rightarrow> string \<Rightarrow> bool" where
  "pathsAlias sy same_file left0 right0 \<longleftrightarrow>
     (let left = path_clean (trim_space left0); right = path_clean (trim_space right0) in
      pathEquals left right \<or> sys_exists sy left \<and> sys_exists sy right \<and> same_file left right)"

definition output_target :: "sys \<Rightarrow> string \<Rightarrow> string option" where
  "output_target sy path = (if trim_space path = [] then None else abs_path (sys_cwd sy) (path_clean (trim_space path)))"

definition protected_path :: "sys \<Rightarrow> string \<Rightarrow> string" where
  "protected_path sy p = (case abs_path (sys_cwd sy) (path_clean (trim_space p)) of Some a \<Rightarrow> a | None \<Rightarrow> trim_space p)"

text \<open>Whether the path is accepted.\<close>

definition validateOutputPath :: "sys \<Rightarrow> (string \<Rightarrow> string \<Rightarrow> bool) \<Rightarrow> string \<Rightarrow> string list \<Rightarrow> bool" where
  "validateOutputPath sy same_file path protected \<longleftrightarrow>
     (case output_target sy path of
        None \<Rightarrow> False
      | Some target \<Rightarrow>
          list_all (\<lambda>p. trim_space p = [] \<or> \<not> pathsAlias sy same_file target (protected_path sy p)) protected)"

section \<open>Writing\<close>

text \<open>After the temporary file is there: its contents, its mode, the old target out of the way, the new one in its place.\<close>

definition replace_target :: "string \<Rightarrow> string \<Rightarrow> string \<Rightarrow> fs \<Rightarrow> bool \<times> fs" where
  "replace_target target tmp content s0 =
     (case os_store tmp content s0 of
        (False, s1) \<Rightarrow> (False, s1)
      | (True, s1) \<Rightarrow>
          (case os_chmod tmp 420 s1 of
             (False, s2) \<Rightarrow> (False, s2)
           | (True, s2) \<Rightarrow>
               (case (if fs_files s2 target = None then (True, s2) else os_remove target s2) of
                  (False, s3) \<Rightarrow> (False, s3)
                | (True, s3) \<Rightarrow> os_rename tmp target s3)))"

text \<open>The deferred removal of the temporary file is the one that was bound when it was deferred: it also runs at the end.\<close>

definition writeTextToFile :: "sys \<Rightarrow> string \<Rightarrow> string \<Rightarrow> fs \<Rightarrow> bool \<times> fs" where
  "writeTextToFile sy path payload s0 =
     (case output_target sy path of
        None \<Rightarrow> (False, s0)
      | Some target \<Rightarrow>
          (case sys_call Some s0 of
             (False, s1) \<Rightarrow> (False, s1)
           | (True, s1) \<Rightarrow>
               (case os_create_temp s1 of
                  (None, s2) \<Rightarrow> (False, s2)
                | (Some tmp, s2) \<Rightarrow>
                    (case replace_target target tmp (payload @ [CHR 0x0A]) s2 of (ok, s3) \<Rightarrow> (ok, snd (os_remove tmp s3))))))"

definition writeSQLToFile :: "sys \<Rightarrow> string \<Rightarrow> string \<Rightarrow> fs \<Rightarrow> bool \<times> fs" where
  "writeSQLToFile sy path sql s = writeTextToFile sy path sql s"

section \<open>What is written\<close>

lemma os_chmod_cases: "os_chmod p mode s = (ok, s') \<Longrightarrow> q \<noteq> p \<Longrightarrow> fs_files s' q = fs_files s q"
  by (auto simp: os_chmod_def sys_call_def Let_def split: if_splits option.splits)

lemma os_remove_cases: "os_remove p s = (ok, s') \<Longrightarrow> q \<noteq> p \<Longrightarrow> fs_files s' q = fs_files s q"
  by (auto simp: os_remove_def sys_call_def Let_def split: if_splits option.splits)

lemma os_rename_cases: "os_rename p r s = (ok, s') \<Longrightarrow> q \<noteq> p \<Longrightarrow> q \<noteq> r \<Longrightarrow> fs_files s' q = fs_files s q"
  by (auto simp: os_rename_def sys_call_def Let_def split: if_splits option.splits)

lemma os_create_temp_cases:
  "os_create_temp s = (r, s') \<Longrightarrow> fs_files s q \<noteq> None \<Longrightarrow> fs_files s' q = fs_files s q" "os_create_temp s = (Some t, s') \<Longrightarrow> fs_files s t = None"
  by (auto simp: os_create_temp_def sys_call_def Let_def split: if_splits option.splits list.splits prod.splits)

lemma replace_target_files:
  assumes "replace_target target tmp content s = (ok, s')" and "q \<noteq> target" and "q \<noteq> tmp"
  shows "fs_files s' q = fs_files s q"
proof -
  note steps = os_store_cases(2) [OF _ assms(3)] os_chmod_cases [OF _ assms(3)] os_remove_cases [OF _ assms(2)] os_rename_cases [OF _ assms(3) assms(2)]
  show ?thesis
    using assms(1)
    by (auto simp: replace_target_def split: prod.splits bool.splits if_splits dest!: steps)
qed

text \<open>A file that was there before is changed only if it is the target.\<close>

lemma write_only_target:
  assumes "writeTextToFile sy path payload s = (ok, s')" and "fs_files s q \<noteq> None" and "fs_files s' q \<noteq> fs_files s q"
  shows "output_target sy path = Some q"
proof (rule ccontr)
  assume other: "output_target sy path \<noteq> Some q"
  obtain target where target: "output_target sy path = Some target"
    using assms by (cases "output_target sy path") (auto simp: writeTextToFile_def)
  obtain ok1 s1 where call: "sys_call Some s = (ok1, s1)" by fastforce
  have s1: "fs_files s1 = fs_files s"
    using sys_call_cases(1,2) [OF call] by (cases ok1) auto
  obtain t s2 where temp: "os_create_temp s1 = (t, s2)" by fastforce
  have s2: "fs_files s2 q = fs_files s q"
    using os_create_temp_cases(1) [OF temp, of q] s1 assms(2) by simp
  have "fs_files s' q = fs_files s q"
  proof (cases "ok1 \<and> t \<noteq> None")
    case False
    with assms(1) target call temp s1 s2 show ?thesis
      by (cases ok1; cases t) (auto simp: writeTextToFile_def)
  next
    case True
    then obtain tmp where tmp: "t = Some tmp" by auto
    then have "q \<noteq> tmp"
      using os_create_temp_cases(2) [of s1 tmp s2] temp s1 assms(2) by auto
    moreover obtain ok3 s3 where replace: "replace_target target tmp (payload @ [CHR 0x0A]) s2 = (ok3, s3)" by fastforce
    ultimately have "fs_files s3 q = fs_files s q"
      using replace_target_files [OF replace, of q] other target s2 by auto
    moreover have "s' = snd (os_remove tmp s3)"
      using assms(1) target call temp tmp replace True by (simp add: writeTextToFile_def)
    ultimately show ?thesis
      using os_remove_cases [of tmp s3 "fst (os_remove tmp s3)" s' q] \<open>q \<noteq> tmp\<close> by simp
  qed
  with assms(3) show False by contradiction
qed

text \<open>When the last call fails, the old target is gone and the new one is not there.\<close>

lemma failed_rename_loses_target:
  "case writeTextToFile \<lparr>sys_cwd = Some ''/'', sys_stat = (\<lambda>p. None), sys_lstat = (\<lambda>p. False), sys_eval = (\<lambda>p. None), sys_read = (\<lambda>p. None),
       sys_list = (\<lambda>p. [])\<rparr> ''/out'' ''new''
     \<lparr>fs_files = [''/out'' \<mapsto> \<lparr>f_bytes = ''old'', f_mode = 420\<rparr>], fs_journal = None, fs_temps = [''/t''],
      fs_faults = [False, False, False, False, False, True], fs_log = []\<rparr> of
     (ok, s) \<Rightarrow> \<not> ok \<and> fs_files s ''/out'' = None \<and> fs_files s ''/t'' = None"
  by code_simp

lemma accepted_not_protected:
  assumes "validateOutputPath sy same_file path protected" and "p \<in> set protected" and "trim_space p \<noteq> []"
  shows "\<exists>target. output_target sy path = Some target \<and> \<not> pathsAlias sy same_file target (protected_path sy p)"
  using assms by (auto simp: validateOutputPath_def list_all_iff split: option.splits)

end
