(* ===== verification/Cli.thy ===== *)
theory Cli
  imports Cli_Flags Cli_Output Corpus Release Report Operations Mcp Lsp_Server Mutation Trace Oracle Workspace_Discovery
begin

text \<open>
  \<^verbatim>\<open>cmd/ikm\<close>: the commands of \<^verbatim>\<open>main.go\<close> and \<^verbatim>\<open>release_commands.go\<close>. A command answers with its exit code, what it wrote on
  standard output and the files after it; standard error is not modelled. What the commands are told by the system, the
  build and the processes they start is one record, \<open>cli_world\<close>. Files are read in its \<open>cw_sys\<close>; those a command may
  change are the files of \<^verbatim>\<open>Patch_Tx\<close>.
\<close>

section \<open>The world of a command\<close>

record build_info =
  bi_version :: string
  bi_go :: string
  bi_os :: string
  bi_arch :: string
  bi_compiler :: string
  bi_settings :: "(string \<times> string) list"

record cli_world =
  cw_sys :: sys
  cw_order :: "string list \<Rightarrow> string list"
  cw_read_error :: "string \<Rightarrow> string"
  cw_config_error :: "ConfigError \<Rightarrow> string"
  cw_rebuild_error :: "doctor_error \<Rightarrow> string"
  cw_build :: build_info
  cw_duration :: "string \<Rightarrow> int option"
  cw_rfc3339 :: "string \<Rightarrow> bool"
  cw_same_file :: "string \<Rightarrow> string \<Rightarrow> bool"
  cw_url :: url_parse
  cw_tree :: "string \<Rightarrow> entry"
  cw_doctor :: doctor_env
  cw_lsp_url :: lsp_url
  cw_view :: os_view
  cw_mcp_text :: "mcp_failure \<Rightarrow> string"
  cw_start :: "string \<Rightarrow> string list \<Rightarrow> string \<Rightarrow> process"
  cw_exec :: exec
  cw_expired :: bool
  cw_times :: "string \<times> string"
  cw_decode_error :: "nat \<Rightarrow> json"

type_synonym cli_result = "int \<times> string \<times> fs"

definition text_line :: "string \<Rightarrow> string" where
  "text_line s = s @ [CHR 0x0A]"

definition stopped :: "int \<Rightarrow> fs \<Rightarrow> cli_result" where
  "stopped code s = (code, [], s)"

definition writeJSON :: "json \<Rightarrow> fs \<Rightarrow> cli_result" where
  "writeJSON v s = (0, text_line (json_encode v), s)"

text \<open>A document that every \<^verbatim>\<open>map[string]any\<close> payload begins with.\<close>

definition cli_payload :: "string \<Rightarrow> (string \<times> json) list \<Rightarrow> json" where
  "cli_payload operation kvs = json_map ([(''schemaVersion'', JStr SchemaVersion), (''operation'', JStr operation)] @ kvs)"

definition loadWorkspace :: "cli_world \<Rightarrow> string \<Rightarrow> workspace_LoadResult" where
  "loadWorkspace w path = LoadWorkspaceWithProfile (cw_read_error w) (cw_order w) (cw_sys w) path (NewDistributionProfile [])"

definition hasErrorDiagnostics :: "Diagnostic list \<Rightarrow> bool" where
  "hasErrorDiagnostics ds \<longleftrightarrow> list_ex (\<lambda>d. dg_severity d = SeverityError) ds"

section \<open>version, config, capabilities\<close>

definition vcs_setting :: "(string \<times> string) list \<Rightarrow> string \<Rightarrow> string" where
  "vcs_setting settings key = (case map_of (rev settings) key of Some v \<Rightarrow> v | None \<Rightarrow> ''unknown'')"

definition buildVCSMetadata :: "build_info \<Rightarrow> string \<times> string \<times> string" where
  "buildVCSMetadata b =
     (vcs_setting (bi_settings b) ''vcs.revision'', vcs_setting (bi_settings b) ''vcs.modified'', vcs_setting (bi_settings b) ''vcs.time'')"

definition version_json :: "build_info \<Rightarrow> json" where
  "version_json b = (case buildVCSMetadata b of (revision, modified, vcsTime) \<Rightarrow> JObj
     [(''schemaVersion'', JStr SchemaVersion), (''binaryVersion'', JStr (bi_version b)), (''commit'', JStr revision), (''buildTime'', JStr vcsTime),
      (''goVersion'', JStr (bi_go b)), (''os'', JStr (bi_os b)), (''arch'', JStr (bi_arch b)),
      (''schemaVersions'', json_map [(''envelope'', JStr SchemaVersion), (''identity'', JStr IdentityContractVersion)]),
      (''protocolVersions'', json_map [(''mcp'', JStr ''2025-06-18''), (''lsp'', JStr ''3.17'')]),
      (''featureGates'', json_map [(''readOnly'', JBool True), (''mutation'', JBool False), (''runtime'', JBool False)])])"

definition runVersion :: "cli_world \<Rightarrow> string list \<Rightarrow> fs \<Rightarrow> cli_result" where
  "runVersion w args s =
     (case flag_parse (cw_duration w) [(''json'', FlagBool False)] args of
        Some (fl, []) \<Rightarrow>
          (let b = cw_build w in
           if flag_bool fl ''json'' then writeJSON (version_json b) s
           else (0, text_line (''ikm '' @ bi_version b @ '' ('' @ bi_os b @ ''/'' @ bi_arch b @ '', '' @ bi_go b @ '')''), s))
      | _ \<Rightarrow> stopped 2 s)"

definition config_flags :: flags where
  "config_flags = [(''effective'', FlagBool False), (''json'', FlagBool False), (''root'', FlagString ''.'')]"

definition profile_flag :: "string \<Rightarrow> ConfigFlags" where
  "profile_flag profile = \<lparr>cf_Root = [], cf_Profile = profile, cf_Cache = [], cf_EntryPoints = None, cf_Adapters = None,
     cf_ExternalRoots = None, cf_Includes = None, cf_Excludes = None, cf_Budgets = None\<rparr>"

definition config_payload :: "WorkspaceConfig \<Rightarrow> json" where
  "config_payload cfg = cli_payload ''config.show''
     [(''status'', JStr ''complete''), (''config'', config_json cfg), (''digest'', JStr (Digest cfg)),
      (''provenance'', json_map [(''defaults'', JStr ''built-in''), (''workspace'', JStr (path_join [wc_Root cfg, ConfigDirName, ConfigFileName])),
         (''flags'', JStr ''none'')])]"

definition config_text :: "WorkspaceConfig \<Rightarrow> string" where
  "config_text cfg = ''root='' @ wc_Root cfg @ '' profile='' @ wc_Profile cfg @ '' cache='' @ wc_Cache cfg @ '' digest='' @ Digest cfg"

definition runConfig :: "cli_world \<Rightarrow> string list \<Rightarrow> fs \<Rightarrow> cli_result" where
  "runConfig w args s =
     (case flag_parse (cw_duration w) config_flags args of
        None \<Rightarrow> stopped 2 s
      | Some (fl, rest) \<Rightarrow>
          (if rest \<noteq> [] \<and> rest \<noteq> [''show''] \<or> \<not> flag_bool fl ''effective'' then stopped 2 s
           else case ResolveConfig (cw_order w) (cw_sys w) (flag_string fl ''root'') (profile_flag []) of
             Inl e \<Rightarrow> stopped 3 s
           | Inr cfg \<Rightarrow> if flag_bool fl ''json'' then writeJSON (config_payload cfg) s else (0, text_line (config_text cfg), s)))"

definition omit_zero :: "string \<Rightarrow> int \<Rightarrow> (string \<times> json) list" where
  "omit_zero name n = (if n = 0 then [] else [(name, JInt n)])"

definition omit_false :: "string \<Rightarrow> bool \<Rightarrow> (string \<times> json) list" where
  "omit_false name b = (if b then [(name, JBool True)] else [])"

definition descriptor_json :: "Descriptor \<Rightarrow> json" where
  "descriptor_json d =
     (let b = de_Budget d; p = de_Pagination d; r = de_Ordering d; a = de_Authorization d in JObj
      [(''name'', JStr (de_Name d)), (''description'', JStr (de_Description d)),
       (''authorization'', JObj ([(''authority'', JStr (az_Authority a))] @ omit_false ''requiresApproval'' (az_RequiresApproval a))),
       (''input'', json_schema (de_Input d)), (''output'', json_schema (de_Output d)),
       (''budget'', JObj (omit_zero ''maxItems'' (Budget.bu_MaxItems b) @ omit_zero ''maxBytes'' (Budget.bu_MaxBytes b) @
          omit_empty ''maxDuration'' (bu_MaxDuration b))),
       (''pagination'', JObj ([(''supported'', JBool (pg_Supported p))] @ omit_zero ''defaultSize'' (pg_DefaultSize p) @
          omit_zero ''maximumSize'' (pg_MaximumSize p))),
       (''ordering'', JObj ([(''keys'', json_slice JStr (or_Keys r)), (''stable'', JBool (or_Stable r))] @ omit_false ''descending'' (or_Descending r)))])"

definition read_capabilities :: "Descriptor list" where
  "read_capabilities = capability_Filter \<lparr>av_Read = True, av_Write = False, av_Runtime = False\<rparr> DefaultRegistry"

definition runCapabilities :: "cli_world \<Rightarrow> string list \<Rightarrow> fs \<Rightarrow> cli_result" where
  "runCapabilities w args s =
     (case flag_parse (cw_duration w) [(''json'', FlagBool False), (''transport'', FlagString ''cli'')] args of
        Some (fl, []) \<Rightarrow>
          (let transport = flag_string fl ''transport'' in
           if transport \<noteq> ''cli'' \<and> transport \<noteq> ''mcp'' then stopped 2 s
           else if flag_bool fl ''json''
           then writeJSON (cli_payload ''capabilities'' [(''status'', JStr ''complete''), (''transport'', JStr transport),
                  (''capabilities'', JArr (map descriptor_json read_capabilities))]) s
           else (0, concat (map (text_line \<circ> de_Name) read_capabilities), s))
      | _ \<Rightarrow> stopped 2 s)"

section \<open>doctor\<close>

definition doctor_flags :: flags where
  "doctor_flags = [(''json'', FlagBool False), (''root'', FlagString ''.''), (''cache'', FlagString []), (''fix'', FlagBool False),
     (''rebuild-cache'', FlagBool False)]"

definition cli_diagnostic :: "string \<Rightarrow> string \<Rightarrow> string \<Rightarrow> json option \<Rightarrow> contract_Diagnostic" where
  "cli_diagnostic code severity message evidence =
     \<lparr>cdg_Code = code, cdg_Severity = severity, cdg_Message = message, cdg_Path = [], cdg_Evidence = evidence\<rparr>"

text \<open>The health is one of five lower-case words.\<close>

definition upper_health :: "string \<Rightarrow> string" where
  "upper_health h = map (\<lambda>c. if 0x61 \<le> byte_of c \<and> byte_of c \<le> 0x7A then char_of (byte_of c - 0x20) else c) h"

definition cache_findings :: "cli_world \<Rightarrow> string \<Rightarrow> fs \<Rightarrow> contract_Diagnostic list" where
  "cache_findings w cachePath s =
     (let r = doctor_Inspect (cw_doctor w) s cachePath in
      if dr_Health r \<noteq> ''healthy''
      then [cli_diagnostic (''CACHE_'' @ upper_health (dr_Health r)) ''warning'' ''cache is not healthy; rebuild from source'' (Some (doctor_report_json r))]
      else [])"

definition rebuild_findings :: "cli_world \<Rightarrow> bool \<Rightarrow> string \<Rightarrow> fs \<Rightarrow> contract_Diagnostic list \<times> fs" where
  "rebuild_findings w wanted cachePath s =
     (if \<not> wanted then ([], s)
      else case doctor_Rebuild cachePath s of
        (None, s') \<Rightarrow> ([], s')
      | (Some e, s') \<Rightarrow> ([cli_diagnostic ''CACHE_REBUILD_FAILED'' ''error'' (cw_rebuild_error w e) None], s'))"

definition doctor_cache_path :: "string \<Rightarrow> string \<Rightarrow> ConfigError + WorkspaceConfig \<Rightarrow> string" where
  "doctor_cache_path root given cfg =
     (case cfg of
        Inr c \<Rightarrow> if given = [] \<and> wc_Cache c = ''disk'' then path_join [root, ConfigDirName, ''cache''] else given
      | Inl _ \<Rightarrow> given)"

definition doctor_findings :: "cli_world \<Rightarrow> string \<Rightarrow> string \<Rightarrow> bool \<Rightarrow> ConfigError + WorkspaceConfig \<Rightarrow> fs \<Rightarrow> contract_Diagnostic list \<times> fs" where
  "doctor_findings w root cachePath rebuild cfg s =
     (let configured = (case cfg of
             Inl e \<Rightarrow> [cli_diagnostic ''CONFIG_INVALID'' ''error'' (cw_config_error w e) (Some (JObj [(''root'', JStr root)]))]
           | Inr _ \<Rightarrow> [])
      in if cachePath = [] then (configured, s)
         else case rebuild_findings w rebuild cachePath s of
           (failed, s') \<Rightarrow> (configured @ cache_findings w cachePath s @ failed, s'))"

definition doctor_envelope :: "string \<Rightarrow> string \<Rightarrow> bool \<Rightarrow> contract_Diagnostic list \<Rightarrow> Envelope" where
  "doctor_envelope root cachePath rebuild findings =
     \<lparr>en_SchemaVersion = SchemaVersion, en_Operation = ''doctor'', en_Tool = ''ikm'', en_Status = StatusComplete,
      en_Workspace = \<lparr>wk_Root = [], wk_Profile = [], wk_Configuration = []\<rparr>, en_Snapshot_ID = [],
      en_Result = json_map [(''workspace'', JStr root), (''cache'', JStr cachePath), (''readOnly'', JBool (\<not> rebuild))],
      en_Diagnostics = findings, en_Page = \<lparr>pa_Limit = 0, pa_Returned = 0, pa_NextCursor = []\<rparr>,
      en_Truncation = \<lparr>tr_Truncated = False, tr_Reasons = []\<rparr>\<rparr>"

definition doctor_text :: "contract_Diagnostic list \<Rightarrow> string" where
  "doctor_text findings =
     (if findings = [] then text_line ''doctor: healthy''
      else concat (map (\<lambda>f. text_line (cdg_Severity f @ '' '' @ cdg_Code f @ '': '' @ cdg_Message f)) findings))"

definition runDoctor :: "cli_world \<Rightarrow> string list \<Rightarrow> fs \<Rightarrow> cli_result" where
  "runDoctor w args s =
     (case flag_parse (cw_duration w) doctor_flags args of
        Some (fl, []) \<Rightarrow>
          (case abs_path (sys_cwd (cw_sys w)) (flag_string fl ''root'') of
             None \<Rightarrow> stopped 3 s
           | Some root \<Rightarrow>
               if \<not> sys_is_dir (cw_sys w) root then stopped 3 s
               else let cfg = ResolveConfig (cw_order w) (cw_sys w) root (profile_flag []);
                        cachePath = doctor_cache_path root (flag_string fl ''cache'') cfg;
                        rebuild = (flag_bool fl ''fix'' \<and> flag_bool fl ''rebuild-cache'')
                    in case doctor_findings w root cachePath rebuild cfg s of
                      (findings, s') \<Rightarrow>
                        (if findings = [] then 0 else 1,
                         if flag_bool fl ''json'' then text_line (fst (CanonicalJSON (doctor_envelope root cachePath rebuild findings))) else doctor_text findings,
                         s'))
      | _ \<Rightarrow> stopped 2 s)"

section \<open>check, index, corpus\<close>

definition findings_code :: "Diagnostic list \<Rightarrow> int" where
  "findings_code ds = (if hasErrorDiagnostics ds then 1 else 0)"

definition runCheck :: "cli_world \<Rightarrow> string list \<Rightarrow> fs \<Rightarrow> cli_result" where
  "runCheck w args s =
     (case flag_parse (cw_duration w) [(''json'', FlagBool False)] args of
        Some (fl, [arg]) \<Rightarrow>
          (if trim_space arg = [] then stopped 1 s
           else let ws = loadWorkspace w (trim_space arg);
                    merged = NewFromWorkspaceAndSemantics ws (Resolve (Some (wl_Documents ws)))
                in (findings_code (rp_Diagnostics merged), text_line (if flag_bool fl ''json'' then report_JSON merged else Human merged), s))
      | _ \<Rightarrow> stopped 1 s)"

text \<open>A payload goes to standard output, or to the file that \<^verbatim>\<open>--output\<close> names when there are no errors and the file is
  none of the protected ones.\<close>

definition emit :: "cli_world \<Rightarrow> string \<Rightarrow> bool \<Rightarrow> string list \<Rightarrow> string \<Rightarrow> fs \<Rightarrow> cli_result" where
  "emit w out failed protected payload s =
     (if trim_space out = [] then (if failed then 1 else 0, text_line payload, s)
      else if failed then stopped 1 s
      else if \<not> validateOutputPath (cw_sys w) (cw_same_file w) out protected then stopped 1 s
      else case writeTextToFile (cw_sys w) out payload s of (ok, s') \<Rightarrow> stopped (if ok then 0 else 1) s')"

definition index_sql :: "workspace_LoadResult \<Rightarrow> ResolveResult \<Rightarrow> string" where
  "index_sql ws sem = Export \<lparr>ws_Documents = wl_Documents ws, ws_Diagnostics = wl_Diagnostics ws\<rparr> sem"

definition runIndex :: "cli_world \<Rightarrow> string list \<Rightarrow> fs \<Rightarrow> cli_result" where
  "runIndex w args s =
     (case flag_parse (cw_duration w) [(''output'', FlagString [])] args of
        Some (fl, [arg]) \<Rightarrow>
          (if trim_space arg = [] then stopped 1 s
           else let ws = loadWorkspace w arg; sem = Resolve (Some (wl_Documents ws)) in
             emit w (flag_string fl ''output'') (hasErrorDiagnostics (wl_Diagnostics ws @ res_Diagnostics sem)) (map doc_path (wl_Documents ws))
               (index_sql ws sem) s)
      | _ \<Rightarrow> stopped 1 s)"

definition corpus_flags :: flags where
  "corpus_flags = [(''output'', FlagString []), (''json'', FlagBool False)]"

definition corpus_of :: "cli_world \<Rightarrow> string \<Rightarrow> CorpusManifest" where
  "corpus_of w path = BuildManifest (newProcessMetadata (bi_go (cw_build w)) (bi_os (cw_build w)) (bi_arch (cw_build w)))
     (cw_read_error w) (cw_order w) (cw_sys w) path (NewDistributionProfile [])"

definition corpus_protected :: "CorpusManifest \<Rightarrow> string list" where
  "corpus_protected m = cm_SelectPath m # filter (\<lambda>p. p \<noteq> []) (map me_ResolvedPath (cm_Entries m))"

definition runCorpus :: "cli_world \<Rightarrow> string list \<Rightarrow> fs \<Rightarrow> cli_result" where
  "runCorpus w args s =
     (case flag_parse (cw_duration w) corpus_flags args of
        Some (fl, [arg]) \<Rightarrow>
          (if trim_space arg = [] then stopped 1 s
           else let m = corpus_of w (trim_space arg) in
             emit w (flag_string fl ''output'') (0 < cm_ErrorCount m) (corpus_protected m)
               (if flag_bool fl ''json'' then corpus_JSON m else corpus_Human m) s)
      | _ \<Rightarrow> stopped 1 s)"

section \<open>workspace, metadata\<close>

definition workspace_flags :: flags where
  "workspace_flags = [(''root'', FlagString []), (''profile'', FlagString []), (''json'', FlagBool False)]"

definition workspace_envelope :: "string \<Rightarrow> WorkspaceConfig \<Rightarrow> DiscoveryResult \<Rightarrow> Envelope" where
  "workspace_envelope action cfg d =
     \<lparr>en_SchemaVersion = [], en_Operation = ''workspace.'' @ action, en_Tool = ''ikm'', en_Status = StatusComplete,
      en_Workspace = \<lparr>wk_Root = [], wk_Profile = wc_Profile cfg, wk_Configuration = Digest cfg\<rparr>,
      en_Snapshot_ID = sn_ID (discovery_Snapshot d),
      en_Result = json_map [(''files'', JInt (int (length (dr_Files d)))), (''orphans'', JInt (dr_Orphans d))], en_Diagnostics = [],
      en_Page = \<lparr>pa_Limit = 0, pa_Returned = int (length (dr_Files d)), pa_NextCursor = []\<rparr>,
      en_Truncation = \<lparr>tr_Truncated = dr_Truncated d, tr_Reasons = dr_Reasons d\<rparr>\<rparr>"

definition workspace_text :: "WorkspaceConfig \<Rightarrow> DiscoveryResult \<Rightarrow> string" where
  "workspace_text cfg d = concat (map text_line
     [''Root: '' @ wc_Root cfg, ''Profile: '' @ wc_Profile cfg, ''Files: '' @ nat_digits (length (dr_Files d)), ''Orphans: '' @ itoa (dr_Orphans d),
      ''Snapshot: '' @ sn_ID (discovery_Snapshot d)])"

definition runWorkspace :: "cli_world \<Rightarrow> string list \<Rightarrow> fs \<Rightarrow> cli_result" where
  "runWorkspace w args s =
     (case flag_parse (cw_duration w) workspace_flags args of
        Some (fl, [action]) \<Rightarrow>
          (if trim_space (flag_string fl ''root'') = [] then stopped (ExitCode FailureUsage False) s
           else case ResolveConfig (cw_order w) (cw_sys w) (flag_string fl ''root'') (profile_flag (flag_string fl ''profile'')) of
             Inl e \<Rightarrow> stopped (ExitCode FailureInput False) s
           | Inr cfg \<Rightarrow>
               (case Discover (cw_url w) (cw_sys w) (cw_tree w (wc_Root cfg)) (wc_Root cfg) cfg of
                  Inl e \<Rightarrow> stopped (ExitCode FailureInternal False) s
                | Inr d \<Rightarrow>
                    (0, if flag_bool fl ''json'' then text_line (fst (CanonicalJSON (workspace_envelope action cfg d))) else workspace_text cfg d, s)))
      | _ \<Rightarrow> stopped (ExitCode FailureUsage False) s)"

definition metadata_flags :: flags where
  "metadata_flags = [(''timestamp'', FlagString []), (''module'', FlagString Module), (''contract'', FlagString IdentityContractVersion), (''file'', FlagList [])]"

definition metadataPayload :: "build_info \<Rightarrow> release_Metadata" where
  "metadataPayload b = \<lparr>rm_Module = Module, rm_Version = bi_version b, rm_Contract = IdentityContractVersion, rm_BuildTimestamp = [], rm_Tool = [],
     rm_Compiler = [], rm_GoVersion = [], rm_OS = [], rm_Arch = [], rm_VCSRevision = [], rm_VCSModified = [], rm_VCSTime = [], rm_Files = [],
     rm_Signature = None\<rparr>"

definition built_by :: "build_info \<Rightarrow> release_Metadata \<Rightarrow> release_Metadata" where
  "built_by b m = (case buildVCSMetadata b of (revision, modified, vcsTime) \<Rightarrow>
     m\<lparr>rm_Tool := ''ikm'', rm_Compiler := bi_compiler b, rm_GoVersion := bi_go b, rm_OS := bi_os b, rm_Arch := bi_arch b,
       rm_VCSRevision := revision, rm_VCSModified := modified, rm_VCSTime := vcsTime\<rparr>)"

definition runMetadata :: "cli_world \<Rightarrow> string list \<Rightarrow> fs \<Rightarrow> cli_result" where
  "runMetadata w args s =
     (case flag_parse (cw_duration w) metadata_flags args of
        Some (fl, []) \<Rightarrow>
          (case release_Build (cw_rfc3339 w) (cw_sys w) (flag_string fl ''module'') (bi_version (cw_build w)) (flag_string fl ''contract'')
                  (flag_string fl ''timestamp'') (flag_list fl ''file'') of
             Inl e \<Rightarrow> stopped 1 s
           | Inr m \<Rightarrow>
               (case release_CanonicalJSON (built_by (cw_build w) m) of
                  Inl e \<Rightarrow> stopped 1 s
                | Inr payload \<Rightarrow> (0, text_line payload, s)))
      | _ \<Rightarrow> stopped 1 s)"

section \<open>lsp, mcp\<close>

text \<open>The context of both servers is never done.\<close>

definition runLSP :: "cli_world \<Rightarrow> string list \<Rightarrow> string \<Rightarrow> fs \<Rightarrow> cli_result" where
  "runLSP w args stdin s =
     (if args \<noteq> [] then stopped 1 s
      else case lsp_Serve (cw_lsp_url w) (cw_order w) (\<lambda>_. (False, False, False)) 0 lsp_NewServer stdin of
        (frames, docs, e) \<Rightarrow> (if e = ServeDone then 0 else 1, concat frames, s))"

definition mcp_flags :: flags where
  "mcp_flags = [(''file'', FlagList []), (''root'', FlagString []), (''allow-write'', FlagBool False)]"

definition mcp_world_of :: "cli_world \<Rightarrow> mcp_world" where
  "mcp_world_of w = \<lparr>mw_url = cw_lsp_url w, mw_order = cw_order w, mw_cwd = sys_cwd (cw_sys w), mw_os = cw_view w, mw_text = cw_mcp_text w\<rparr>"

text \<open>The documents of a workspace are preloaded when they can be read and are accepted.\<close>

definition preload_document :: "cli_world \<Rightarrow> mcp_Server \<Rightarrow> string \<Rightarrow> mcp_Server" where
  "preload_document w server path =
     (case sys_read (cw_sys w) path of None \<Rightarrow> server | Some b \<Rightarrow> snd (mcp_SetDocument (sys_cwd (cw_sys w)) False path b server))"

definition rooted_server :: "cli_world \<Rightarrow> string \<Rightarrow> mcp_Server \<Rightarrow> mcp_Server option" where
  "rooted_server w root server =
     (if trim_space root = [] then Some server
      else case SetRoot (sys_cwd (cw_sys w)) root server of
        None \<Rightarrow> None
      | Some server' \<Rightarrow> Some (foldl (preload_document w) server' (map doc_path (wl_Documents (loadWorkspace w root)))))"

fun preload_files :: "cli_world \<Rightarrow> string list \<Rightarrow> mcp_Server \<Rightarrow> mcp_Server option" where
  "preload_files w [] server = Some server"
| "preload_files w (path # paths) server =
     (case sys_read (cw_sys w) path of
        None \<Rightarrow> None
      | Some b \<Rightarrow>
          (case mcp_SetDocument (sys_cwd (cw_sys w)) False (path_clean path) b server of
             (Some e, _) \<Rightarrow> None
           | (None, server') \<Rightarrow> preload_files w paths server'))"

definition runMCP :: "cli_world \<Rightarrow> string list \<Rightarrow> string \<Rightarrow> fs \<Rightarrow> cli_result" where
  "runMCP w args stdin s =
     (case flag_parse (cw_duration w) mcp_flags args of
        Some (fl, []) \<Rightarrow>
          (case rooted_server w (flag_string fl ''root'') (NewServerWithPolicy (bi_version (cw_build w)) (flag_bool fl ''allow-write'')) of
             None \<Rightarrow> stopped 3 s
           | Some server \<Rightarrow>
               (case preload_files w (flag_list fl ''file'') server of
                  None \<Rightarrow> stopped 1 s
                | Some server' \<Rightarrow>
                    (case mcp_Serve (mcp_world_of w) (\<lambda>_. (False, False, False, False)) 0 server' s stdin of
                       (frames, server'', s', e) \<Rightarrow> (if e = McpDone then 0 else 1, concat frames, s'))))
      | _ \<Rightarrow> stopped 1 s)"

section \<open>patch, rename, fix\<close>

definition readPatchPlan :: "cli_world \<Rightarrow> string \<Rightarrow> PatchPlan option" where
  "readPatchPlan w path =
     (case Option.bind (sys_read (cw_sys w) path) decode_plan of
        None \<Rightarrow> None
      | Some plan \<Rightarrow> if plan_Validate plan = None then Some plan else None)"

definition patch_answer :: "string \<Rightarrow> string \<Rightarrow> json \<Rightarrow> json" where
  "patch_answer operation root result = cli_payload (''patch.'' @ operation) [(''workspace'', JStr root), (''result'', result)]"

definition patch_apply_command :: "cli_world \<Rightarrow> PatchPlan \<Rightarrow> string list \<Rightarrow> fs \<Rightarrow> cli_result" where
  "patch_apply_command w plan args s =
     (case flag_parse (cw_duration w) [(''allow-write'', FlagBool False)] args of
        None \<Rightarrow> stopped 2 s
      | Some (fl, _) \<Rightarrow>
          (if \<not> flag_bool fl ''allow-write'' then stopped 6 s
           else case Issue plan (Some (NewAuthorizer True)) of
             (Inl e, _) \<Rightarrow> stopped 6 s
           | (Inr token, auth) \<Rightarrow>
               (case service_Apply False (cw_view w) (pl_WorkspaceRoot plan) token (pl_InputSnapshot plan) auth s of
                  (Inl e, _, s') \<Rightarrow> stopped 6 s'
                | (Inr files, _, s') \<Rightarrow> writeJSON (patch_answer ''apply'' (pl_WorkspaceRoot plan) (preview_json files)) s')))"

definition runPatch :: "cli_world \<Rightarrow> string list \<Rightarrow> fs \<Rightarrow> cli_result" where
  "runPatch w args s =
     (if length args < 2 then stopped 2 s
      else case readPatchPlan w (args ! 1) of
        None \<Rightarrow> stopped 3 s
      | Some plan \<Rightarrow>
          let operation = to_lower (hd args); root = pl_WorkspaceRoot plan in
          if operation = ''plan'' \<or> operation = ''diff'' then
            (case PreviewPatch (fs_view (cw_view w) s) root (pl_Edits plan) of
               Inl e \<Rightarrow> stopped 6 s
             | Inr files \<Rightarrow> writeJSON (patch_answer operation root (preview_json files)) s)
          else if operation = ''apply'' then patch_apply_command w plan (drop 2 args) s
          else if operation = ''recover'' then
            (case Recover s of
               (Some e, s') \<Rightarrow> stopped 6 s'
             | (None, s') \<Rightarrow> writeJSON (patch_answer ''recover'' root (JStr ''recovered'')) s')
          else stopped 2 s)"

definition runMutationPrepare :: "string \<Rightarrow> string list \<Rightarrow> fs \<Rightarrow> cli_result" where
  "runMutationPrepare kind args s =
     (case args of
        [] \<Rightarrow> stopped 2 s
      | action # _ \<Rightarrow>
          if action \<noteq> ''prepare'' then stopped 2 s
          else writeJSON (cli_payload (kind @ ''.prepare'')
            [(''result'', json_map [(''status'', JStr ''requires semantic provider''), (''readOnly'', JBool True)])]) s)"

section \<open>runtime\<close>

definition authorizedRuntimeCommand :: "sys \<Rightarrow> string \<Rightarrow> string \<Rightarrow> string list \<Rightarrow> string option" where
  "authorizedRuntimeCommand sy command workdir candidates =
     (if trim_space workdir = [] then None
      else case abs_path (sys_cwd sy) (path_clean workdir) of
        None \<Rightarrow> None
      | Some root \<Rightarrow>
          if \<not> sys_is_dir sy root \<or> candidates = [] then None
          else case abs_path (sys_cwd sy) (path_clean command) of
            None \<Rightarrow> None
          | Some full \<Rightarrow>
              if list_ex (\<lambda>c. case abs_path (sys_cwd sy) (path_clean c) of None \<Rightarrow> False | Some a \<Rightarrow> equal_fold a full) candidates
              then Some full else None)"

text \<open>A byte slice that is \<^verbatim>\<open>nil\<close> when it is empty.\<close>

definition opt_bytes_json :: "string \<Rightarrow> json" where
  "opt_bytes_json b = (if b = [] then JNull else bytes_json b)"

definition omit_object :: "string \<Rightarrow> (string \<times> any) list option \<Rightarrow> (string \<times> json) list" where
  "omit_object name m = (case m of None \<Rightarrow> [] | Some kvs \<Rightarrow> if kvs = [] then [] else [(name, snapshot_json (VObj kvs))])"

definition event_json :: "Event \<Rightarrow> json" where
  "event_json e = JObj
     (omit_zero ''seq'' (ev_Sequence e) @ omit_empty ''type'' (ev_Type e) @ omit_empty ''timestamp'' (ev_Timestamp e) @ omit_empty ''path'' (ev_Path e) @
      [(''identity'', ir_identity_json (ev_Identity e))] @ omit_object ''context'' (ev_Context e) @ omit_object ''payload'' (ev_Payload e))"

text \<open>An error is written as the struct behind it: without a field, except for that of a line that is not JSON.\<close>

definition parse_error_json :: "cli_world \<Rightarrow> trace_ParseError \<Rightarrow> json" where
  "parse_error_json w p = JObj [(''Line'', JInt (int (pe_Line p))), (''Code'', JStr (pe_Code p)),
     (''Err'', case pe_Err p of DecodeFailed \<Rightarrow> cw_decode_error w (pe_Line p) | _ \<Rightarrow> JObj [])]"

definition trace_result_json :: "cli_world \<Rightarrow> string trace_Result \<Rightarrow> json" where
  "trace_result_json w r =
     (let c = tr_Config r in JObj
      [(''Config'', JObj [(''Command'', JStr (tc_Command c)), (''Args'', JArr (map JStr (tc_Args c))), (''WorkingDir'', JStr (tc_WorkingDir c)),
          (''MaxStdoutBytes'', JInt (tc_MaxStdoutBytes c)), (''MaxStderrBytes'', JInt (tc_MaxStderrBytes c))]),
       (''Stdout'', opt_bytes_json (tr_Stdout r)), (''Stderr'', opt_bytes_json (tr_Stderr r)), (''ExitCode'', JInt (tr_ExitCode r)),
       (''StartedAt'', JStr (tr_StartedAt r)), (''FinishedAt'', JStr (tr_FinishedAt r)), (''Events'', json_slice event_json (tr_Events r)),
       (''ParseErrors'', json_slice (parse_error_json w) (tr_ParseErrors r))])"

definition runtime_flags :: flags where
  "runtime_flags = [(''allow-runtime'', FlagBool False), (''workdir'', FlagString []), (''timeout'', FlagDuration 30000000000),
     (''max-stdout'', FlagInt DefaultMaxOutputBytes), (''max-stderr'', FlagInt DefaultMaxOutputBytes), (''allow-executable'', FlagList [])]"

definition trace_command :: "cli_world \<Rightarrow> flags \<Rightarrow> string \<Rightarrow> string list \<Rightarrow> string trace_Result \<times> exec_error bridge_error option" where
  "trace_command w fl command args =
     Bridge_Run (CommandRunner_Run (cw_start w)) (fst (cw_times w)) (snd (cw_times w)) (cw_expired w)
       \<lparr>tc_Command = command, tc_Args = args, tc_WorkingDir = flag_string fl ''workdir'', tc_MaxStdoutBytes = flag_int fl ''max-stdout'',
        tc_MaxStderrBytes = flag_int fl ''max-stderr''\<rparr>"

definition runRuntime :: "cli_world \<Rightarrow> string list \<Rightarrow> fs \<Rightarrow> cli_result" where
  "runRuntime w args s =
     (if args = [] \<or> hd args \<noteq> ''trace'' then stopped 2 s
      else case flag_parse (cw_duration w) runtime_flags (tl args) of
        None \<Rightarrow> stopped 2 s
      | Some (fl, rest) \<Rightarrow>
          if \<not> flag_bool fl ''allow-runtime'' then stopped 6 s
          else if flag_int fl ''timeout'' \<le> 0 \<or> flag_int fl ''max-stdout'' \<le> 0 \<or> flag_int fl ''max-stderr'' \<le> 0 \<or> rest = [] then stopped 2 s
          else case authorizedRuntimeCommand (cw_sys w) (hd rest) (flag_string fl ''workdir'') (flag_list fl ''allow-executable'') of
            None \<Rightarrow> stopped 6 s
          | Some command \<Rightarrow>
              (case trace_command w fl command (tl rest) of
                 (_, Some e) \<Rightarrow> stopped 7 s
               | (r, None) \<Rightarrow> writeJSON (cli_payload ''runtime.trace'' [(''result'', trace_result_json w r)]) s))"

definition mismatch_json :: "Mismatch \<Rightarrow> json" where
  "mismatch_json m = JObj [(''Path'', JStr (mm_Path m)), (''Kind'', JStr (mm_Kind m)), (''Message'', JStr (mm_Message m)),
     (''Expected'', snapshot_json (mm_Expected m)), (''Actual'', snapshot_json (mm_Actual m))]"

definition comparison_json :: "Comparison \<Rightarrow> json" where
  "comparison_json c =
     (let q = cmp_Request c in JObj
      [(''Request'', JObj [(''Command'', JStr (oq_Command q)), (''Args'', JArr (map JStr (oq_Args q))), (''WorkingDir'', JStr (oq_WorkingDir q)),
          (''Timeout'', JInt (oq_Timeout q))]),
       (''ExpectedSnapshot'', bytes_json (cmp_ExpectedSnapshot c)), (''ActualSnapshot'', bytes_json (cmp_ActualSnapshot c)),
       (''Mismatches'', json_slice mismatch_json (cmp_Mismatches c)), (''Stdout'', bytes_json (cmp_Stdout c)), (''Stderr'', bytes_json (cmp_Stderr c)),
       (''ExitCode'', JInt (cmp_ExitCode c))])"

definition oracle_flags :: flags where
  "oracle_flags = [(''allow-runtime'', FlagBool False), (''workdir'', FlagString []), (''timeout'', FlagDuration 30000000000),
     (''expected'', FlagString []), (''allow-executable'', FlagList [])]"

definition oracle_command :: "cli_world \<Rightarrow> flags \<Rightarrow> string \<Rightarrow> string list \<Rightarrow> string \<Rightarrow> Comparison \<times> CommandError compare_error option" where
  "oracle_command w fl command args expected =
     Compare (DefaultRunner_Run (cw_exec w))
       \<lparr>oq_Command = command, oq_Args = args, oq_WorkingDir = flag_string fl ''workdir'', oq_Timeout = flag_int fl ''timeout''\<rparr> expected"

definition runRuntimeOracle :: "cli_world \<Rightarrow> string list \<Rightarrow> fs \<Rightarrow> cli_result" where
  "runRuntimeOracle w args s =
     (case flag_parse (cw_duration w) oracle_flags args of
        None \<Rightarrow> stopped 2 s
      | Some (fl, rest) \<Rightarrow>
          if \<not> flag_bool fl ''allow-runtime'' then stopped 6 s
          else if flag_int fl ''timeout'' \<le> 0 \<or> flag_string fl ''expected'' = [] \<or> rest = [] then stopped 2 s
          else case authorizedRuntimeCommand (cw_sys w) (hd rest) (flag_string fl ''workdir'') (flag_list fl ''allow-executable'') of
            None \<Rightarrow> stopped 6 s
          | Some command \<Rightarrow>
              (case sys_read (cw_sys w) (flag_string fl ''expected'') of
                 None \<Rightarrow> stopped 3 s
               | Some expected \<Rightarrow>
                   (case oracle_command w fl command (tl rest) expected of
                      (_, Some e) \<Rightarrow> stopped 7 s
                    | (c, None) \<Rightarrow>
                        (if Match c then 0 else 1, text_line (json_encode (cli_payload ''runtime.oracle'' [(''result'', comparison_json c)])), s))))"

section \<open>query, graph, inspect, export\<close>

definition read_flags :: flags where
  "read_flags = map (\<lambda>name. (name, FlagString []))
       [''root'', ''profile'', ''path'', ''name'', ''kind'', ''code'', ''severity'', ''query'', ''identity'', ''snapshot'', ''cursor''] @
     [(''limit'', FlagInt 100), (''json'', FlagBool False), (''jsonl'', FlagBool False), (''include-declarations'', FlagBool False)]"

definition read_options :: "string \<Rightarrow> string \<Rightarrow> flags \<Rightarrow> Options" where
  "read_options grp action fl =
     \<lparr>op_Root = flag_string fl ''root'', op_Profile = flag_string fl ''profile'', op_Path = flag_string fl ''path'', op_Name = flag_string fl ''name'',
      op_Kind = (if grp = ''graph'' \<or> grp = ''inspect'' then action else flag_string fl ''kind''), op_Code = flag_string fl ''code'',
      op_Severity = flag_string fl ''severity'', op_Query = flag_string fl ''query'', op_Cursor = flag_string fl ''cursor'',
      op_Limit = flag_int fl ''limit'', op_IncludeDeclarations = flag_bool fl ''include-declarations''\<rparr>"

definition op_env_of :: "cli_world \<Rightarrow> op_env" where
  "op_env_of w = \<lparr>oe_sys = cw_sys w, oe_order = cw_order w, oe_read_error = cw_read_error w\<rparr>"

text \<open>None for a query that is not known.\<close>

definition read_operation :: "op_env \<Rightarrow> string \<Rightarrow> string \<Rightarrow> Options \<Rightarrow> (op_error + Envelope) option" where
  "read_operation e grp action o' =
     (if grp = ''query'' then
        (if action = ''diagnostics'' then Some (op_Diagnostics e False o')
         else if action = ''symbols'' then Some (op_Symbols e False o')
         else if action = ''definition'' \<or> action = ''references'' then Some (op_References e False o')
         else if action = ''search'' then Some (op_Search e False o')
         else None)
      else if grp = ''graph'' then Some (op_Graph e False o')
      else if grp = ''inspect'' then Some (op_Inspect e False o')
      else Some (op_Export e False o' action))"

text \<open>A slice expression out of bounds ends the program with status two.\<close>

fun op_error_code :: "op_error \<Rightarrow> int" where
  "op_error_code OpContextDone = 5"
| "op_error_code SlicePanic = 2"
| "op_error_code (OpConfigFailed _) = 3"
| "op_error_code (OpGraphFailed _) = 3"

text \<open>No result is a \<^verbatim>\<open>[]any\<close>: \<^verbatim>\<open>--jsonl\<close> writes the envelope.\<close>

definition read_output :: "flags \<Rightarrow> Envelope \<Rightarrow> string" where
  "read_output fl e =
     (if flag_bool fl ''jsonl'' then text_line (fst (CanonicalJSON e))
      else if flag_bool fl ''json'' then op_WriteJSON e
      else text_line (json_encode (en_Result e)))"

definition envelope_code :: "Envelope \<Rightarrow> int" where
  "envelope_code e = (if list_ex (\<lambda>d. cdg_Severity d = severity_str SeverityError) (en_Diagnostics e) then 1 else 0)"

definition runReadOnly :: "cli_world \<Rightarrow> string \<Rightarrow> string list \<Rightarrow> fs \<Rightarrow> cli_result" where
  "runReadOnly w grp args s =
     (if args = [] then stopped 2 s
      else case flag_parse (cw_duration w) read_flags (tl args) of
        None \<Rightarrow> stopped 2 s
      | Some (fl, _) \<Rightarrow>
          if trim_space (flag_string fl ''root'') = [] then stopped 2 s
          else let action = to_lower (hd args) in
            case read_operation (op_env_of w) grp action (read_options grp action fl) of
              None \<Rightarrow> stopped 2 s
            | Some (Inl e) \<Rightarrow> stopped (op_error_code e) s
            | Some (Inr e) \<Rightarrow> (envelope_code e, read_output fl e, s))"

section \<open>The program\<close>

definition usage_lines :: "string list" where
  "usage_lines = map (\<lambda>l. ''usage: ikm '' @ l)
     [''workspace --root <path> (scan|status) [--json]'', ''version [--json]'', ''config show --effective [--root <path>] [--json]'',
      ''capabilities [--transport cli|mcp] [--json]'', ''doctor --root <path> [--cache <path>] [--json] [--fix --rebuild-cache]'',
      ''check [--json] <path>'', ''index [--output <file>] <path>'', ''corpus [--json] [--output <file>] <select-path>'',
      ''metadata --timestamp <RFC3339> [--file <path> ...]'', ''lsp'', ''mcp [--file <path> ...]'',
      ''query diagnostics|symbols|definition|references|search --root <path> [flags]'',
      ''graph dependencies|dependents|path|impact --root <path> [flags]'',
      ''inspect workspace|character|stage|file --root <path> [flags]'', ''export jsonl|scip|sql --root <path> [--json]'']"

definition printUsage :: string where
  "printUsage = concat (map text_line usage_lines)"

definition documented_codes :: "(string \<times> int) list" where
  "documented_codes = [(''ok'', 0), (''findings'', 1), (''usage'', 2), (''input'', 3), (''internal'', 4), (''budget'', 5), (''conflict'', 6), (''runtime'', 7)]"

definition help_json :: json where
  "help_json = json_map
     [(''operations'', JArr (map JStr [''workspace'', ''query.diagnostics'', ''query.symbols'', ''query.definition'', ''query.references'', ''query.search'',
         ''graph.dependencies'', ''graph.dependents'', ''graph.path'', ''graph.impact'', ''inspect.workspace'', ''inspect.character'', ''inspect.stage'',
         ''inspect.file'', ''export.jsonl'', ''export.scip'', ''export.sql'', ''rename.prepare'', ''fix.prepare'', ''patch.plan'', ''patch.diff'',
         ''patch.apply'', ''patch.recover'', ''runtime.trace''])),
      (''exitCodes'', json_map (map (\<lambda>(name, n). (name, JInt n)) documented_codes)), (''authority'', JStr ''read-only'')]"

definition runHelp :: "string list \<Rightarrow> fs \<Rightarrow> cli_result" where
  "runHelp args s = (if args \<noteq> [] \<and> hd args = ''--json'' then writeJSON help_json s else (0, printUsage, s))"

definition runRuntimeGroup :: "cli_world \<Rightarrow> string list \<Rightarrow> fs \<Rightarrow> cli_result" where
  "runRuntimeGroup w args s = (if args \<noteq> [] \<and> hd args = ''oracle'' then runRuntimeOracle w (tl args) s else runRuntime w args s)"

definition run_command :: "cli_world \<Rightarrow> string \<Rightarrow> string list \<Rightarrow> string \<Rightarrow> fs \<Rightarrow> cli_result" where
  "run_command w command args stdin s =
     (if command = ''version'' then runVersion w args s
      else if command = ''config'' then runConfig w args s
      else if command = ''capabilities'' then runCapabilities w args s
      else if command = ''doctor'' then runDoctor w args s
      else if command = ''check'' then runCheck w args s
      else if command = ''index'' then runIndex w args s
      else if command = ''corpus'' then runCorpus w args s
      else if command = ''workspace'' then runWorkspace w args s
      else if command = ''metadata'' then runMetadata w args s
      else if command = ''lsp'' then runLSP w args stdin s
      else if command = ''mcp'' then runMCP w args stdin s
      else if command = ''patch'' then runPatch w args s
      else if command = ''rename'' \<or> command = ''fix'' then runMutationPrepare command args s
      else if command = ''runtime'' then runRuntimeGroup w args s
      else if command = ''help'' \<or> command = ''-h'' \<or> command = ''--help'' then runHelp args s
      else if command = ''query'' \<or> command = ''graph'' \<or> command = ''inspect'' \<or> command = ''export'' then runReadOnly w command args s
      else stopped 1 s)"

definition runWithIO :: "cli_world \<Rightarrow> string list \<Rightarrow> string \<Rightarrow> fs \<Rightarrow> cli_result" where
  "runWithIO w args stdin s =
     (case args of [] \<Rightarrow> stopped 1 s | command # rest \<Rightarrow> run_command w (to_lower (trim_space command)) rest stdin s)"

end
