(* ===== verification/Cli_Claims.thy ===== *)
theory Cli_Claims
  imports Cli Mcp_Claims Workspace_Path_Claims
begin

text \<open>
  What the commands promise: which of them change a file and which file, that no source that was read is overwritten,
  which exit codes there are, and which processes are started.
\<close>

section \<open>Which commands write\<close>

definition switched_on :: "cli_world \<Rightarrow> flags \<Rightarrow> string \<Rightarrow> string list \<Rightarrow> bool" where
  "switched_on w fl0 name args \<longleftrightarrow> (case flag_parse (cw_duration w) fl0 args of None \<Rightarrow> False | Some (fl, rest) \<Rightarrow> flag_bool fl name)"

definition output_given :: "cli_world \<Rightarrow> flags \<Rightarrow> string list \<Rightarrow> string option" where
  "output_given w fl0 args =
     (case flag_parse (cw_duration w) fl0 args of
        None \<Rightarrow> None
      | Some (fl, rest) \<Rightarrow> if trim_space (flag_string fl ''output'') = [] then None else Some (flag_string fl ''output''))"

definition asked_to_write :: "cli_world \<Rightarrow> string \<Rightarrow> string list \<Rightarrow> bool" where
  "asked_to_write w command args \<longleftrightarrow>
     command = ''patch'' \<and> 2 \<le> length args \<and>
       (to_lower (hd args) = ''recover'' \<or>
        to_lower (hd args) = ''apply'' \<and> switched_on w [(''allow-write'', FlagBool False)] ''allow-write'' (drop 2 args)) \<or>
     command = ''mcp'' \<and> switched_on w mcp_flags ''allow-write'' args \<or>
     command = ''doctor'' \<and> switched_on w doctor_flags ''fix'' args \<and> switched_on w doctor_flags ''rebuild-cache'' args \<or>
     command = ''index'' \<and> output_given w [(''output'', FlagString [])] args \<noteq> None \<or>
     command = ''corpus'' \<and> output_given w corpus_flags args \<noteq> None"

lemma stopped_files [simp]: "snd (snd (stopped code s)) = s" "fst (stopped code s) = code" "fst (snd (stopped code s)) = []"
  by (simp_all add: stopped_def)

lemma printed_files [simp]: "snd (snd (writeJSON v s)) = s" "fst (writeJSON v s) = 0"
  by (simp_all add: writeJSON_def)

lemma value_without_authority:
  "mcp_value w cancelled v s disk = (r, s', disk') \<Longrightarrow> \<not> ms_allowWrite s \<Longrightarrow> disk' = disk \<and> \<not> ms_allowWrite s'"
  by (drule request_effect) (auto simp: read_only_def effect_of_def)

lemma batch_without_authority:
  "mcp_batch w cancelled vs s disk = (rs, s', disk') \<Longrightarrow> \<not> ms_allowWrite s \<Longrightarrow> disk' = disk \<and> \<not> ms_allowWrite s'"
  by (induction vs arbitrary: s disk rs) (fastforce split: prod.splits dest: value_without_authority)+

lemma message_without_authority:
  "mcp_message w cancelled body s disk = (r, s', disk') \<Longrightarrow> \<not> ms_allowWrite s \<Longrightarrow> disk' = disk \<and> \<not> ms_allowWrite s'"
  by (auto simp: mcp_message_def split: option.splits json.splits prod.splits if_splits
      dest: value_without_authority batch_without_authority)

lemma serve_without_authority:
  "mcp_Serve w ctx n s disk stream = (out, s', disk', e) \<Longrightarrow> \<not> ms_allowWrite s \<Longrightarrow> disk' = disk"
proof (induction "length stream" arbitrary: n s disk stream out s' disk' e rule: less_induct)
  case less
  have rest: "disk2 = disk1"
    if "mcp_ReadFrame stream = (frame, tail)" "stream \<noteq> []" "mcp_Serve w ctx (Suc n) s1 disk1 tail = (out2, s2, disk2, e2)" "\<not> ms_allowWrite s1"
    for frame tail s1 disk1 out2 s2 disk2 e2
    using less(1) [OF mcp_read_shorter [OF that(1,2)] that(3,4)] .
  show ?case
    using less(2,3) unfolding mcp_Serve.simps [of w ctx n s disk stream]
    by (auto split: if_splits prod.splits sum.splits mcp_frame_error.splits option.splits dest!: message_without_authority dest: rest)
qed

text \<open>Preloading documents gives no authority.\<close>

lemma set_document_authority: "mcp_SetDocument cwd cancelled path b server = (e, server') \<Longrightarrow> ms_allowWrite server' = ms_allowWrite server"
  by (auto simp: mcp_SetDocument_def Let_def split: if_splits prod.splits)

lemma preload_document_authority: "ms_allowWrite (preload_document w server path) = ms_allowWrite server"
  using set_document_authority [OF surjective_pairing] by (simp add: preload_document_def split: option.splits)

lemma preload_documents_authority: "ms_allowWrite (foldl (preload_document w) server paths) = ms_allowWrite server"
  by (induction paths arbitrary: server) (simp_all add: preload_document_authority)

lemma rooted_authority: "rooted_server w root server = Some server' \<Longrightarrow> ms_allowWrite server' = ms_allowWrite server"
  by (auto simp: rooted_server_def SetRoot_def preload_documents_authority split: if_splits option.splits)

lemma preload_files_authority: "preload_files w paths server = Some server' \<Longrightarrow> ms_allowWrite server' = ms_allowWrite server"
  by (induction paths arbitrary: server) (auto split: option.splits prod.splits dest: set_document_authority)

lemma new_server_authority: "ms_allowWrite (NewServerWithPolicy version allow) = allow"
  by (simp add: NewServerWithPolicy_def NewServerWithVersion_def Let_def)

lemma mcp_writes: "runMCP w args stdin s = (code, out, s') \<Longrightarrow> s' \<noteq> s \<Longrightarrow> asked_to_write w ''mcp'' args"
  by (auto simp: runMCP_def stopped_def switched_on_def asked_to_write_def split: option.splits prod.splits list.splits
      dest!: serve_without_authority rooted_authority preload_files_authority simp: new_server_authority)

lemma patch_writes:
  "runPatch w args s = (code, out, s') \<Longrightarrow> s' \<noteq> s \<Longrightarrow> asked_to_write w ''patch'' args"
  by (auto simp: runPatch_def patch_apply_command_def asked_to_write_def switched_on_def stopped_def writeJSON_def Let_def
      split: option.splits prod.splits sum.splits if_splits)

lemma doctor_writes:
  "runDoctor w args s = (code, out, s') \<Longrightarrow> s' \<noteq> s \<Longrightarrow> asked_to_write w ''doctor'' args"
  by (auto simp: runDoctor_def doctor_findings_def rebuild_findings_def asked_to_write_def switched_on_def stopped_def Let_def
      split: option.splits prod.splits sum.splits if_splits list.splits)

lemma emit_writes: "emit w out failed protected payload s = (code, text, s') \<Longrightarrow> s' \<noteq> s \<Longrightarrow>
    trim_space out \<noteq> [] \<and> \<not> failed \<and> validateOutputPath (cw_sys w) (cw_same_file w) out protected \<and>
    (\<exists>ok. writeTextToFile (cw_sys w) out payload s = (ok, s'))"
  by (auto simp: emit_def stopped_def split: if_splits prod.splits)

lemma index_writes: "runIndex w args s = (code, out, s') \<Longrightarrow> s' \<noteq> s \<Longrightarrow> asked_to_write w ''index'' args"
  by (auto simp: runIndex_def asked_to_write_def output_given_def stopped_def Let_def split: option.splits prod.splits list.splits if_splits
      dest!: emit_writes)

lemma corpus_writes: "runCorpus w args s = (code, out, s') \<Longrightarrow> s' \<noteq> s \<Longrightarrow> asked_to_write w ''corpus'' args"
  by (auto simp: runCorpus_def asked_to_write_def output_given_def stopped_def Let_def split: option.splits prod.splits list.splits if_splits
      dest!: emit_writes)

lemma version_reads: "snd (snd (runVersion w args s)) = s"
  by (simp add: runVersion_def Let_def split: option.splits prod.splits list.splits)

lemma config_reads: "snd (snd (runConfig w args s)) = s"
  by (simp add: runConfig_def Let_def split: option.splits prod.splits sum.splits)

lemma capabilities_reads: "snd (snd (runCapabilities w args s)) = s"
  by (simp add: runCapabilities_def Let_def split: option.splits prod.splits list.splits)

lemma check_reads: "snd (snd (runCheck w args s)) = s"
  by (simp add: runCheck_def Let_def split: option.splits prod.splits list.splits)

lemma workspace_reads: "snd (snd (runWorkspace w args s)) = s"
  by (simp add: runWorkspace_def Let_def split: option.splits prod.splits list.splits sum.splits)

lemma metadata_reads: "snd (snd (runMetadata w args s)) = s"
  by (simp add: runMetadata_def Let_def split: option.splits prod.splits list.splits sum.splits)

lemma lsp_reads: "snd (snd (runLSP w args stdin s)) = s"
  by (simp add: runLSP_def split: prod.splits)

lemma prepare_reads: "snd (snd (runMutationPrepare kind args s)) = s"
  by (simp add: runMutationPrepare_def split: list.splits)

lemma trace_reads: "snd (snd (runRuntime w args s)) = s"
  unfolding runRuntime_def by (auto split: option.split prod.split)

lemma oracle_reads: "snd (snd (runRuntimeOracle w args s)) = s"
  unfolding runRuntimeOracle_def by (auto split: option.split prod.split)

lemma runtime_reads: "snd (snd (runRuntimeGroup w args s)) = s"
  by (simp add: runRuntimeGroup_def trace_reads oracle_reads)

lemma help_reads: "snd (snd (runHelp args s)) = s"
  by (simp add: runHelp_def)

lemma read_only_reads: "snd (snd (runReadOnly w grp args s)) = s"
  unfolding runReadOnly_def Let_def by (split if_split option.split prod.split sum.split | rule conjI impI allI | simp only: stopped_files fst_conv snd_conv)+

lemmas commands_read = version_reads config_reads capabilities_reads check_reads workspace_reads metadata_reads lsp_reads prepare_reads
  runtime_reads help_reads read_only_reads

lemma run_command_cases:
  assumes "command = ''version'' \<Longrightarrow> P (runVersion w args s)" and "command = ''config'' \<Longrightarrow> P (runConfig w args s)"
    and "command = ''capabilities'' \<Longrightarrow> P (runCapabilities w args s)" and "command = ''doctor'' \<Longrightarrow> P (runDoctor w args s)"
    and "command = ''check'' \<Longrightarrow> P (runCheck w args s)" and "command = ''index'' \<Longrightarrow> P (runIndex w args s)"
    and "command = ''corpus'' \<Longrightarrow> P (runCorpus w args s)" and "command = ''workspace'' \<Longrightarrow> P (runWorkspace w args s)"
    and "command = ''metadata'' \<Longrightarrow> P (runMetadata w args s)" and "command = ''lsp'' \<Longrightarrow> P (runLSP w args stdin s)"
    and "command = ''mcp'' \<Longrightarrow> P (runMCP w args stdin s)" and "command = ''patch'' \<Longrightarrow> P (runPatch w args s)"
    and "P (runMutationPrepare command args s)" and "command = ''runtime'' \<Longrightarrow> P (runRuntimeGroup w args s)"
    and "P (runHelp args s)" and "command = ''query'' \<or> command = ''graph'' \<or> command = ''inspect'' \<or> command = ''export'' \<Longrightarrow> P (runReadOnly w command args s)" and "P (stopped 1 s)"
  shows "P (run_command w command args stdin s)"
  unfolding run_command_def
  by (intro if_split [where P = P, THEN iffD2] conjI impI)
    (erule assms(1-12,14,16) | rule assms(13,15,17))+

lemma command_writes: "snd (snd (run_command w command args stdin s)) \<noteq> s \<longrightarrow> asked_to_write w command args"
proof (rule run_command_cases [where P = "\<lambda>r. snd (snd r) \<noteq> s \<longrightarrow> asked_to_write w command args"], goal_cases)
  case 4
  then show ?case using doctor_writes [of w args s] by (cases "runDoctor w args s") auto
next
  case 6
  then show ?case using index_writes [of w args s] by (cases "runIndex w args s") auto
next
  case 7
  then show ?case using corpus_writes [of w args s] by (cases "runCorpus w args s") auto
next
  case 11
  then show ?case using mcp_writes [of w args stdin s] by (cases "runMCP w args stdin s") auto
next
  case 12
  then show ?case using patch_writes [of w args s] by (cases "runPatch w args s") auto
qed (simp_all add: commands_read)

text \<open>C37: When a file of the disk changes in a run of the program, the command line asked for it: a patch is applied with
  \<^verbatim>\<open>--allow-write\<close> or recovered, an MCP server was started with \<^verbatim>\<open>--allow-write\<close>, \<^verbatim>\<open>doctor\<close> was given both
  \<^verbatim>\<open>--fix\<close> and \<^verbatim>\<open>--rebuild-cache\<close>, or \<^verbatim>\<open>index\<close> or \<^verbatim>\<open>corpus\<close> an \<^verbatim>\<open>--output\<close>. No other command, and no text on
  standard input, changes the disk.\<close>

theorem cli_writes_only_when_asked:
  assumes "snd (snd (runWithIO w (command # args) stdin s)) \<noteq> s"
  shows "asked_to_write w (to_lower (trim_space command)) args"
  using assms command_writes by (simp add: runWithIO_def)

definition cli_demo :: "string \<Rightarrow> cli_world" where
  "cli_demo content = \<lparr>cw_sys = \<lparr>sys_cwd = Some ''/'', sys_stat = (\<lambda>p. if p = ''/w'' then Some \<lparr>fi_dir = True, fi_size = 0\<rparr> else None), sys_lstat = (\<lambda>p. False),
       sys_eval = (\<lambda>p. None), sys_read = (\<lambda>p. Some content), sys_list = (\<lambda>p. [])\<rparr>,
     cw_order = id, cw_read_error = (\<lambda>_. []), cw_config_error = (\<lambda>_. []), cw_rebuild_error = (\<lambda>_. []),
     cw_build = \<lparr>bi_version = ''0'', bi_go = [], bi_os = [], bi_arch = [], bi_compiler = [], bi_settings = []\<rparr>,
     cw_duration = (\<lambda>_. None), cw_rfc3339 = (\<lambda>_. True), cw_same_file = (\<lambda>p q. p = q), cw_url = (\<lambda>_. None), cw_tree = (\<lambda>_. EFail),
     cw_doctor = \<lparr>de_stat_error = (\<lambda>_. None), de_unreadable = (\<lambda>_. False)\<rparr>, cw_lsp_url = (\<lambda>_. None), cw_view = demo_os,
     cw_mcp_text = (\<lambda>_. []), cw_start = (\<lambda>_ _ _. \<lparr>pr_stdout = [], pr_stderr = [], pr_error = None\<rparr>),
     cw_exec = (\<lambda>_ _ _ _. \<lparr>ex_stdout = [], ex_stderr = [], ex_error = None, ex_deadline = False\<rparr>), cw_expired = False, cw_times = ([], []),
     cw_decode_error = (\<lambda>_. JNull)\<rparr>"

definition cli_fs :: fs where
  "cli_fs = \<lparr>fs_files = [''/s.def'' \<mapsto> \<lparr>f_bytes = ''x'', f_mode = 420\<rparr>], fs_journal = Some \<lparr>j_Phase = [], j_Root = [], j_Backups = []\<rparr>,
     fs_temps = [''/t''], fs_faults = [], fs_log = []\<rparr>"

lemma demo_recovers: "runWithIO (cli_demo (json_encode mcp_plan_json)) [''patch'', ''recover'', ''/p''] stdin cli_fs =
    writeJSON (patch_answer ''recover'' ''/w'' (JStr ''recovered'')) (snd (Recover cli_fs))"
proof -
  have "to_lower (trim_space ''patch'') = ''patch''" "to_lower ''recover'' = ''recover''" by code_simp+
  moreover obtain s' where "Recover cli_fs = (None, s')"
    by (simp add: Recover_def cli_fs_def remove_journal_def sys_call_def next_fault_def Let_def)
  moreover have "readPatchPlan (cli_demo (json_encode mcp_plan_json)) ''/p'' = Some mcp_plan"
    by (simp add: readPatchPlan_def cli_demo_def mcp_plan_decoded mcp_plan_valid)
  moreover have "pl_WorkspaceRoot mcp_plan = ''/w''" by (simp add: mcp_plan_def)
  ultimately show ?thesis
    by (simp add: runWithIO_def run_command_def runPatch_def Let_def)
qed

theorem cli_writes_only_when_asked_witness:
  "\<exists>w. snd (snd (runWithIO w [''patch'', ''recover'', ''/p''] [] cli_fs)) \<noteq> cli_fs \<and>
       asked_to_write w (to_lower (trim_space ''patch'')) [''recover'', ''/p'']"
proof -
  have "fs_journal (snd (Recover cli_fs)) \<noteq> fs_journal cli_fs"
    by (simp add: Recover_def cli_fs_def remove_journal_def sys_call_def next_fault_def Let_def)
  then have "snd (snd (runWithIO (cli_demo (json_encode mcp_plan_json)) [''patch'', ''recover'', ''/p''] [] cli_fs)) \<noteq> cli_fs"
    by (auto simp: demo_recovers)
  with cli_writes_only_when_asked [OF this] show ?thesis by blast
qed

section \<open>Which file is written\<close>

text \<open>The paths a command that writes an output has read.\<close>

definition sources_read :: "cli_world \<Rightarrow> string \<Rightarrow> string list \<Rightarrow> string list" where
  "sources_read w command args =
     (if command = ''index'' then
        (case flag_parse (cw_duration w) [(''output'', FlagString [])] args of
           Some (fl, [arg]) \<Rightarrow> map doc_path (wl_Documents (loadWorkspace w arg)) | _ \<Rightarrow> [])
      else (case flag_parse (cw_duration w) corpus_flags args of
           Some (fl, [arg]) \<Rightarrow> corpus_protected (corpus_of w (trim_space arg)) | _ \<Rightarrow> []))"

definition output_of :: "cli_world \<Rightarrow> string \<Rightarrow> string list \<Rightarrow> string option" where
  "output_of w command args = output_given w (if command = ''index'' then [(''output'', FlagString [])] else corpus_flags) args"

lemma output_target_clean:
  assumes "output_target sy path = Some q" and "\<forall>d. sys_cwd sy = Some d \<longrightarrow> is_abs d" and "trim_space q = q"
  shows "protected_path sy q = q"
proof -
  have q: "abs_path (sys_cwd sy) (path_clean (trim_space path)) = Some q" using assms(1) by (simp add: output_target_def split: if_splits)
  then have "is_abs q" using assms(2) path_join_abs by (auto simp: abs_path_def simp del: path_join.simps split: if_splits)
  moreover have "path_clean q = q" using q by (auto simp: abs_path_def split: if_splits)
  ultimately show ?thesis using assms(3) by (simp add: protected_path_def abs_path_def)
qed

lemma emit_spares:
  assumes "emit w out failed protected payload s = (code, text, s')" and "fs_files s q \<noteq> None" and "fs_files s' q \<noteq> fs_files s q"
    and "\<forall>d. sys_cwd (cw_sys w) = Some d \<longrightarrow> is_abs d"
  shows "trim_space out \<noteq> [] \<and> output_target (cw_sys w) out = Some q \<and> \<not> (q \<in> set protected \<and> trim_space q = q)"
proof -
  have w: "trim_space out \<noteq> []" "validateOutputPath (cw_sys w) (cw_same_file w) out protected" "\<exists>ok. writeTextToFile (cw_sys w) out payload s = (ok, s')"
    using emit_writes [OF assms(1)] assms(3) by auto
  have target: "output_target (cw_sys w) out = Some q" using w(3) write_only_target assms(2,3) by blast
  have "\<not> (q \<in> set protected \<and> trim_space q = q)"
  proof
    assume q: "q \<in> set protected \<and> trim_space q = q"
    have "q \<noteq> []" using target abs_path_not_Nil by (auto simp: output_target_def split: if_splits)
    with q accepted_not_protected [OF w(2)] target have "\<not> pathsAlias (cw_sys w) (cw_same_file w) q (protected_path (cw_sys w) q)" by force
    then show False
      using output_target_clean [OF target assms(4)] q by (simp add: pathsAlias_def pathEquals_def)
  qed
  with w(1) target show ?thesis by blast
qed

lemma index_spares:
  assumes "runIndex w args s = (code, text, s')" and "fs_files s q \<noteq> None" and "fs_files s' q \<noteq> fs_files s q"
    and "\<forall>d. sys_cwd (cw_sys w) = Some d \<longrightarrow> is_abs d"
  shows "\<exists>out. output_of w ''index'' args = Some out \<and> output_target (cw_sys w) out = Some q \<and>
    \<not> (q \<in> set (sources_read w ''index'' args) \<and> trim_space q = q)"
  using assms
  by (auto simp: runIndex_def stopped_def output_of_def output_given_def sources_read_def Let_def split: option.splits prod.splits list.splits if_splits
      dest!: emit_spares)

lemma corpus_spares:
  assumes "runCorpus w args s = (code, text, s')" and "fs_files s q \<noteq> None" and "fs_files s' q \<noteq> fs_files s q"
    and "\<forall>d. sys_cwd (cw_sys w) = Some d \<longrightarrow> is_abs d"
  shows "\<exists>out. output_of w ''corpus'' args = Some out \<and> output_target (cw_sys w) out = Some q \<and>
    \<not> (q \<in> set (sources_read w ''corpus'' args) \<and> trim_space q = q)"
  using assms
  by (auto simp: runCorpus_def stopped_def output_of_def output_given_def sources_read_def Let_def split: option.splits prod.splits list.splits if_splits
      dest!: emit_spares)


definition demo_roster :: string where
  "demo_roster = ''[Characters]'' @ [CHR 0x0A]"

lemma demo_corpus: "cm_ErrorCount (corpus_of (cli_demo demo_roster) ''/a.def'') = 0" "corpus_protected (corpus_of (cli_demo demo_roster) ''/a.def'') = [''/a.def'']"
  by code_simp+

lemma demo_output_accepted:
  "output_target (cw_sys (cli_demo demo_roster)) ''/s.def'' = Some ''/s.def''"
  "validateOutputPath (cw_sys (cli_demo demo_roster)) (cw_same_file (cli_demo demo_roster)) ''/s.def'' [''/a.def'']"
  "flag_parse (cw_duration (cli_demo demo_roster)) corpus_flags [''--output'', ''/s.def'', ''/a.def''] =
     Some ([(''output'', FlagString ''/s.def''), (''json'', FlagBool False)], [''/a.def''])"
  "trim_space ''/a.def'' = ''/a.def''" "trim_space ''/s.def'' = ''/s.def''" "to_lower (trim_space ''corpus'') = ''corpus''"
  by code_simp+

lemma demo_output_written: "fs_files (snd (writeTextToFile (cw_sys (cli_demo demo_roster)) ''/s.def'' payload cli_fs)) ''/s.def'' \<noteq> fs_files cli_fs ''/s.def''"
  by (simp add: writeTextToFile_def demo_output_accepted replace_target_def os_create_temp_def os_store_def os_chmod_def os_remove_def os_rename_def
      sys_call_def next_fault_def cli_fs_def Let_def)


section \<open>Exit codes\<close>

lemma analyze_not_done: "op_Analyze e False o' \<noteq> Inl OpContextDone"
  by (cases "ResolveConfig (oe_order e) (oe_sys e) (op_Root o') (op_flags o')") (simp_all add: op_Analyze_def Let_def)

lemma query_not_done: "op_query operation f rows wrap e False o' \<noteq> Inl OpContextDone"
  using analyze_not_done [of e o'] by (auto simp: op_query_def Let_def split: sum.splits option.splits)

lemma graph_not_done: "op_Graph e False o' \<noteq> Inl OpContextDone"
  using analyze_not_done [of e o'] by (auto simp: op_Graph_def Let_def split: sum.splits option.splits prod.splits)

lemma export_not_done: "op_Export e False o' kind \<noteq> Inl OpContextDone"
  using analyze_not_done [of e o'] by (auto simp: op_Export_def Let_def split: sum.splits prod.splits)

lemma read_not_done: "read_operation e grp action o' \<noteq> Some (Inl OpContextDone)"
  by (simp add: read_operation_def op_Diagnostics_def op_Symbols_def op_References_def op_Search_def op_Inspect_def query_not_done graph_not_done
      export_not_done)

definition documented_result :: "cli_result \<Rightarrow> bool" where
  "documented_result r \<longleftrightarrow> fst r \<in> {0, 1} \<or> fst r \<in> {2, 3, 4, 6, 7} \<and> fst (snd r) = []"

lemma documented_stopped [simp]: "documented_result (stopped code s) \<longleftrightarrow> code \<in> {0, 1, 2, 3, 4, 6, 7}"
  by (auto simp: documented_result_def)

lemma documented_printed [simp]: "documented_result (writeJSON v s)" "documented_result (0, text)" "documented_result (1, text)"
  by (simp_all add: documented_result_def)

lemma read_only_code: "documented_result (runReadOnly w grp args s)"
proof -
  have "op_error_code e \<in> {2, 3}" if "read_operation (op_env_of w) grp action o' = Some (Inl e)" for action o' e
    using that read_not_done by (cases e) auto
  then show ?thesis
    unfolding runReadOnly_def Let_def envelope_code_def by (auto split: option.split sum.split)
qed

lemma doctor_code: "documented_result (runDoctor w args s)"
  unfolding runDoctor_def Let_def by (auto simp: documented_result_def split: option.split list.split prod.split)

lemma emit_code: "documented_result (emit w out failed protected payload s)"
  by (auto simp: emit_def split: prod.splits)

lemma index_code: "documented_result (runIndex w args s)"
  unfolding runIndex_def Let_def by (auto simp: emit_code split: option.split list.split)

lemma corpus_code: "documented_result (runCorpus w args s)"
  unfolding runCorpus_def Let_def by (auto simp: emit_code split: option.split list.split)

lemma check_code: "documented_result (runCheck w args s)"
  unfolding runCheck_def Let_def findings_code_def by (auto split: option.split list.split)

lemma workspace_code: "documented_result (runWorkspace w args s)"
  unfolding runWorkspace_def Let_def by (auto simp: ExitCode_def split: option.split list.split sum.split)

lemma metadata_code: "documented_result (runMetadata w args s)"
  unfolding runMetadata_def by (auto split: option.split list.split sum.split)

lemma version_code: "documented_result (runVersion w args s)"
  unfolding runVersion_def Let_def by (auto split: option.split list.split)

lemma config_code: "documented_result (runConfig w args s)"
  unfolding runConfig_def by (auto split: option.split sum.split)

lemma capabilities_code: "documented_result (runCapabilities w args s)"
  unfolding runCapabilities_def Let_def by (auto split: option.split list.split)

lemma lsp_code: "documented_result (runLSP w args stdin s)"
  by (auto simp: runLSP_def documented_result_def split: prod.splits)

lemma mcp_code: "documented_result (runMCP w args stdin s)"
  unfolding runMCP_def by (auto simp: documented_result_def split: option.split list.split prod.split)

lemma patch_code: "documented_result (runPatch w args s)"
  unfolding runPatch_def patch_apply_command_def Let_def by (auto split: option.split sum.split prod.split)

lemma prepare_code: "documented_result (runMutationPrepare kind args s)"
  by (simp add: runMutationPrepare_def split: list.splits)

lemma trace_code: "documented_result (runRuntime w args s)"
  unfolding runRuntime_def by (auto split: option.split prod.split)

lemma oracle_code: "documented_result (runRuntimeOracle w args s)"
  unfolding runRuntimeOracle_def by (auto split: option.split prod.split)

lemma help_code: "documented_result (runHelp args s)"
  by (simp add: runHelp_def)


section \<open>Which processes are started\<close>

text \<open>The process is one that the flags authorize: runtime execution is allowed, the working directory is there, and the
  program is on the list, where letters are compared without their case.\<close>

definition authorized_start :: "cli_world \<Rightarrow> flags \<Rightarrow> string list \<Rightarrow> string \<Rightarrow> bool" where
  "authorized_start w fl0 args program \<longleftrightarrow>
     (case flag_parse (cw_duration w) fl0 args of
        None \<Rightarrow> False
      | Some (fl, rest) \<Rightarrow>
          flag_bool fl ''allow-runtime'' \<and> 0 < flag_int fl ''timeout'' \<and> rest \<noteq> [] \<and>
          abs_path (sys_cwd (cw_sys w)) (path_clean (hd rest)) = Some program \<and>
          (\<exists>root. abs_path (sys_cwd (cw_sys w)) (path_clean (flag_string fl ''workdir'')) = Some root \<and> sys_is_dir (cw_sys w) root) \<and>
          list_ex (\<lambda>c. \<exists>a. abs_path (sys_cwd (cw_sys w)) (path_clean c) = Some a \<and> equal_fold a program) (flag_list fl ''allow-executable''))"

definition may_start :: "cli_world \<Rightarrow> string list \<Rightarrow> string \<Rightarrow> bool" where
  "may_start w args program \<longleftrightarrow>
     args \<noteq> [] \<and> authorized_start w (if hd args = ''oracle'' then oracle_flags else runtime_flags) (tl args) program"

lemma authorized_program:
  assumes "authorizedRuntimeCommand sy command workdir candidates = Some program"
  shows "abs_path (sys_cwd sy) (path_clean command) = Some program"
    "\<exists>root. abs_path (sys_cwd sy) (path_clean workdir) = Some root \<and> sys_is_dir sy root"
    "list_ex (\<lambda>c. \<exists>a. abs_path (sys_cwd sy) (path_clean c) = Some a \<and> equal_fold a program) candidates"
  using assms by (auto simp: authorizedRuntimeCommand_def list_ex_iff split: if_splits option.splits)

lemma with_defaults_command [simp]: "tc_Command (withDefaults cfg) = tc_Command cfg"
  by (simp add: withDefaults_def Let_def)

lemma runner_same: "(\<And>arguments dir. start (tc_Command cfg) arguments dir = start' (tc_Command cfg) arguments dir) \<Longrightarrow>
    CommandRunner_Run start cfg = CommandRunner_Run start' cfg"
  by (simp add: CommandRunner_Run_def)

lemma trace_same:
  assumes "\<And>arguments dir. start program arguments dir = cw_start w program arguments dir"
  shows "trace_command (w\<lparr>cw_start := start, cw_exec := execute\<rparr>) fl program args = trace_command w fl program args"
proof -
  have "CommandRunner_Run start (withDefaults cfg) = CommandRunner_Run (cw_start w) (withDefaults cfg)" if "tc_Command cfg = program" for cfg
    using runner_same [of start "withDefaults cfg" "cw_start w"] assms that by simp
  then show ?thesis by (simp add: trace_command_def Bridge_Run_def Let_def)
qed

lemma compare_same:
  assumes "\<And>arguments dir deadline. execute program arguments dir deadline = cw_exec w program arguments dir deadline"
  shows "oracle_command (w\<lparr>cw_start := start, cw_exec := execute\<rparr>) fl program args expected = oracle_command w fl program args expected"
proof -
  have "DefaultRunner_Run execute d q = DefaultRunner_Run (cw_exec w) d q" if "oq_Command q = program" for d q
    using assms that by (simp add: DefaultRunner_Run_def)
  then show ?thesis by (cases "normalizeJSON expected") (simp_all add: oracle_command_def Compare_def)
qed

lemma result_same: "trace_result_json (w\<lparr>cw_start := start, cw_exec := execute\<rparr>) r = trace_result_json w r"
proof -
  have "parse_error_json (w\<lparr>cw_start := start, cw_exec := execute\<rparr>) = parse_error_json w"
    by (rule ext) (simp add: parse_error_json_def split: trace_cause.split)
  then show ?thesis by (simp add: trace_result_json_def Let_def)
qed

lemma runtime_same:
  assumes "\<And>program arguments dir. authorized_start w runtime_flags (tl args) program \<Longrightarrow> start program arguments dir = cw_start w program arguments dir"
  shows "runRuntime (w\<lparr>cw_start := start, cw_exec := execute\<rparr>) args s = runRuntime w args s"
proof (cases "flag_parse (cw_duration w) runtime_flags (tl args)")
  case (Some p)
  obtain fl rest where p: "p = (fl, rest)" by force
  show ?thesis
  proof (cases "flag_bool fl ''allow-runtime'' \<and> 0 < flag_int fl ''timeout'' \<and> rest \<noteq> [] \<and>
      (\<exists>program. authorizedRuntimeCommand (cw_sys w) (hd rest) (flag_string fl ''workdir'') (flag_list fl ''allow-executable'') = Some program)")
    case True
    then obtain program where program:
      "authorizedRuntimeCommand (cw_sys w) (hd rest) (flag_string fl ''workdir'') (flag_list fl ''allow-executable'') = Some program" by blast
    with True have "authorized_start w runtime_flags (tl args) program"
      using authorized_program [OF program] by (simp add: authorized_start_def Some p)
    from trace_same [of start program w, OF assms [OF this]] show ?thesis by (simp add: runRuntime_def Some p program result_same)
  next
    case False
    then show ?thesis by (auto simp: runRuntime_def Some p)
  qed
qed (simp add: runRuntime_def)

lemma oracle_same:
  assumes "\<And>program arguments dir deadline. authorized_start w oracle_flags args program \<Longrightarrow>
      execute program arguments dir deadline = cw_exec w program arguments dir deadline"
  shows "runRuntimeOracle (w\<lparr>cw_start := start, cw_exec := execute\<rparr>) args s = runRuntimeOracle w args s"
proof (cases "flag_parse (cw_duration w) oracle_flags args")
  case (Some p)
  obtain fl rest where p: "p = (fl, rest)" by force
  show ?thesis
  proof (cases "flag_bool fl ''allow-runtime'' \<and> 0 < flag_int fl ''timeout'' \<and> rest \<noteq> [] \<and>
      (\<exists>program. authorizedRuntimeCommand (cw_sys w) (hd rest) (flag_string fl ''workdir'') (flag_list fl ''allow-executable'') = Some program)")
    case True
    then obtain program where program:
      "authorizedRuntimeCommand (cw_sys w) (hd rest) (flag_string fl ''workdir'') (flag_list fl ''allow-executable'') = Some program" by blast
    with True have "authorized_start w oracle_flags args program"
      using authorized_program [OF program] by (simp add: authorized_start_def Some p)
    from compare_same [of execute program w, OF assms [OF this]] show ?thesis
      by (cases "sys_read (cw_sys w) (flag_string fl ''expected'')") (simp_all add: runRuntimeOracle_def Some p program)
  next
    case False
    then show ?thesis by (auto simp: runRuntimeOracle_def Some p)
  qed
qed (simp add: runRuntimeOracle_def)

text \<open>C40: A run of \<^verbatim>\<open>runtime\<close> starts no process but the one its flags authorize: whatever every other program on the system
  would do when it is started, the exit code, the output and the files are the same.\<close>

theorem runtime_starts_only_authorized:
  assumes "\<And>program arguments dir. may_start w args program \<Longrightarrow> start program arguments dir = cw_start w program arguments dir"
    and "\<And>program arguments dir deadline. may_start w args program \<Longrightarrow>
      execute program arguments dir deadline = cw_exec w program arguments dir deadline"
  shows "runRuntimeGroup (w\<lparr>cw_start := start, cw_exec := execute\<rparr>) args s = runRuntimeGroup w args s"
proof (cases "args \<noteq> [] \<and> hd args = ''oracle''")
  case True
  with assms(2) have "runRuntimeOracle (w\<lparr>cw_start := start, cw_exec := execute\<rparr>) (tl args) s = runRuntimeOracle w (tl args) s"
    by (intro oracle_same) (simp add: may_start_def)
  with True show ?thesis by (simp add: runRuntimeGroup_def)
next
  case False
  show ?thesis
  proof (cases args)
    case Nil
    then show ?thesis by (simp add: runRuntimeGroup_def runRuntime_def)
  next
    case (Cons action rest)
    with False assms(1) have "runRuntime (w\<lparr>cw_start := start, cw_exec := execute\<rparr>) args s = runRuntime w args s"
      by (intro runtime_same) (simp add: may_start_def)
    with False show ?thesis by (auto simp: runRuntimeGroup_def)
  qed
qed

definition runtime_args :: "string list" where
  "runtime_args = [''trace'', ''--allow-runtime'', ''--workdir'', ''/w'', ''--allow-executable'', ''/bin/tool'', ''/bin/tool'']"

definition other_programs :: "cli_world \<Rightarrow> string \<Rightarrow> string list \<Rightarrow> string \<Rightarrow> process" where
  "other_programs w program arguments dir =
     (if program = ''/bin/tool'' then cw_start w program arguments dir else \<lparr>pr_stdout = [''x''], pr_stderr = [], pr_error = None\<rparr>)"

lemma runtime_args_parsed:
  "flag_parse (cw_duration (cli_demo [])) runtime_flags (tl runtime_args) =
     Some ([(''allow-runtime'', FlagBool True), (''workdir'', FlagString ''/w''), (''timeout'', FlagDuration 30000000000),
        (''max-stdout'', FlagInt DefaultMaxOutputBytes), (''max-stderr'', FlagInt DefaultMaxOutputBytes), (''allow-executable'', FlagList [''/bin/tool''])],
       [''/bin/tool''])"
  "abs_path (sys_cwd (cw_sys (cli_demo []))) (path_clean ''/bin/tool'') = Some ''/bin/tool''"
  "abs_path (sys_cwd (cw_sys (cli_demo []))) (path_clean ''/w'') = Some ''/w''" "sys_is_dir (cw_sys (cli_demo [])) ''/w''"
  by code_simp+

lemma runtime_args_allowed: "may_start (cli_demo []) runtime_args program \<longleftrightarrow> program = ''/bin/tool''"
proof -
  have "runtime_args \<noteq> []" "hd runtime_args \<noteq> ''oracle''" by (simp_all add: runtime_args_def)
  then show ?thesis
    by (auto simp: may_start_def authorized_start_def runtime_args_parsed flag_bool_def flag_int_def flag_string_def flag_list_def equal_fold_def)
qed

theorem runtime_starts_only_authorized_witness:
  "\<exists>w. may_start w runtime_args ''/bin/tool'' \<and> other_programs w \<noteq> cw_start w \<and>
     runRuntimeGroup (w\<lparr>cw_start := other_programs w, cw_exec := cw_exec w\<rparr>) runtime_args cli_fs = runRuntimeGroup w runtime_args cli_fs"
proof -
  let ?w = "cli_demo []"
  have "other_programs ?w ''/bin/other'' [] [] \<noteq> cw_start ?w ''/bin/other'' [] []" by (simp add: other_programs_def cli_demo_def)
  then have "other_programs ?w \<noteq> cw_start ?w" by metis
  moreover have "runRuntimeGroup (?w\<lparr>cw_start := other_programs ?w, cw_exec := cw_exec ?w\<rparr>) runtime_args cli_fs = runRuntimeGroup ?w runtime_args cli_fs"
    by (rule runtime_starts_only_authorized) (simp_all add: runtime_args_allowed other_programs_def)
  ultimately show ?thesis using runtime_args_allowed by blast
qed

section \<open>Where the program and its documents differ\<close>

text \<open>Parsing ends at the first argument that is no flag.\<close>

lemma positional_ends_flags: "arg \<noteq> [] \<Longrightarrow> hd arg \<noteq> CHR ''-'' \<Longrightarrow> flag_parse dur fl (arg # args) = Some (fl, arg # args)"
  by (simp add: flag_parse.simps parse_one_def flag_token_def)

text \<open>\<^verbatim>\<open>ikm config show --effective\<close> is the documented call.\<close>

lemma documented_config_refused: "runConfig w (''show'' # args) s = stopped 2 s"
  by (simp add: runConfig_def positional_ends_flags flag_bool_def config_flags_def)

lemma root_parsed:
  assumes "action \<noteq> []" and "hd action \<noteq> CHR ''-''"
  shows "flag_parse dur workspace_flags (''--root'' # root # action # args) =
    Some ([(''root'', FlagString root), (''profile'', FlagString []), (''json'', FlagBool False)], action # args)"
proof -
  have "parse_one dur workspace_flags ''--root'' (root # action # args) =
      FlagsGo [(''root'', FlagString root), (''profile'', FlagString []), (''json'', FlagBool False)] (action # args)"
    by (simp add: parse_one_def flag_token_def split_flag_def flag_go_def set_flag_def workspace_flags_def Let_def)
  then show ?thesis using positional_ends_flags [of action, OF assms] by (simp add: flag_parse.simps(2))
qed

text \<open>\<^verbatim>\<open>ikm workspace --root <path> scan --json\<close> is the documented call.\<close>

lemma documented_workspace_refused: "runWorkspace w [''--root'', root, ''scan'', ''--json''] s = stopped 2 s"
  by (simp add: runWorkspace_def root_parsed ExitCode_def)

text \<open>A wrong call of an older command ends like one with findings.\<close>

lemma usage_reported_as_findings: "fst (runCheck w [] s) = 1" "(''usage'', 2) \<in> set documented_codes" "(''findings'', 1) \<in> set documented_codes"
  by (simp_all add: runCheck_def flag_parse.simps documented_codes_def)

lemma jsonl_is_json: "flag_bool fl ''jsonl'' \<Longrightarrow> read_output fl e = op_WriteJSON e"
  by (simp add: read_output_def op_WriteJSON_def text_line_def)

text \<open>What \<^verbatim>\<open>version\<close> says of the protocol is not the version the server prefers.\<close>

lemma version_names_old_protocol: "modernProtocolVersion \<noteq> ''2025-06-18''"
  by (simp add: modernProtocolVersion_def)

lemma allowlist_ignores_case:
  "authorizedRuntimeCommand (cw_sys (cli_demo [])) ''/bin/Tool'' ''/w'' [''/bin/tool''] = Some ''/bin/Tool''"
  by code_simp

text \<open>The journal of a root is replayed without \<^verbatim>\<open>--allow-write\<close>.\<close>

lemma recovery_needs_no_authority:
  "snd (snd (runWithIO (cli_demo (json_encode mcp_plan_json)) [''patch'', ''recover'', ''/p''] [] cli_fs)) \<noteq> cli_fs"
proof -
  have "fs_journal (snd (Recover cli_fs)) \<noteq> fs_journal cli_fs"
    by (simp add: Recover_def cli_fs_def remove_journal_def sys_call_def next_fault_def Let_def)
  then show ?thesis by (auto simp: demo_recovers)
qed

text \<open>The database is removed while its writer holds the lock, and the cache that was just rebuilt is still reported.\<close>

definition locked_cache :: fs where
  "locked_cache = cli_fs\<lparr>fs_files := [''/c/index.sqlite'' \<mapsto> \<lparr>f_bytes = sqlite_header, f_mode = 420\<rparr>, ''/c/writer.lock'' \<mapsto> \<lparr>f_bytes = ''1'', f_mode = 384\<rparr>]\<rparr>"

lemma rebuild_ignores_lock:
  "map cdg_Code (fst (doctor_findings (cli_demo []) ''/w'' ''/c'' True (Inr DefaultWorkspaceConfig) locked_cache)) = [''CACHE_LOCKED'']"
  "fs_files (snd (doctor_findings (cli_demo []) ''/w'' ''/c'' True (Inr DefaultWorkspaceConfig) locked_cache)) ''/c/index.sqlite'' = None"
  by code_simp+

text \<open>No action of \<^verbatim>\<open>workspace\<close> is refused: all of them scan.\<close>

lemma workspace_action_unchecked:
  assumes "action \<noteq> []" and "hd action \<noteq> CHR ''-''" and "action' \<noteq> []" and "hd action' \<noteq> CHR ''-''"
  shows "runWorkspace w [''--root'', root, action] s = runWorkspace w [''--root'', root, action'] s"
  by (simp add: runWorkspace_def root_parsed assms flag_bool_def flag_string_def split: sum.split)

end
