(* ===== verification/Conformance.thy ===== *)
theory Conformance
  imports Mcp
begin

text \<open>
  \<^verbatim>\<open>internal/conformance/harness.go\<close>: the checks of what the MCP server writes, as a client that knows only JSON-RPC sees it. A
  member of an object is kept as the text it is written with, the \<^verbatim>\<open>json.RawMessage\<close> of the code. Running the program is an
  argument. The checks hold of the responses of the model of the server.
\<close>

section \<open>Raw members\<close>

definition raw_value :: "string \<Rightarrow> (string \<times> string) option" where
  "raw_value s =
     (case json_value (2 * length s + 2) s of
        None \<Rightarrow> None
      | Some (v, rest) \<Rightarrow> Some (take (length (json_ws s) - length rest) (json_ws s), rest))"

text \<open>One member: its key, its text and what follows.\<close>

definition raw_member :: "string \<Rightarrow> ((string \<times> string) \<times> string) option" where
  "raw_member s =
     (case json_ws s of
        [] \<Rightarrow> None
      | q # qs \<Rightarrow>
          if q \<noteq> CHR 0x22 then None
          else case json_body qs of
            None \<Rightarrow> None
          | Some (k, r) \<Rightarrow>
              (case json_ws r of
                 [] \<Rightarrow> None
               | d # ds \<Rightarrow>
                   if d \<noteq> CHR '':'' then None
                   else map_option (\<lambda>(raw, rest). ((k, raw), json_ws rest)) (raw_value ds)))"

fun raw_members :: "nat \<Rightarrow> string \<Rightarrow> (string \<times> string) list option" where
  "raw_members 0 s = None"
| "raw_members (Suc n) s =
     (case raw_member s of
        None \<Rightarrow> None
      | Some (m, rest) \<Rightarrow>
          (case rest of
             [] \<Rightarrow> None
           | c # cs \<Rightarrow>
               if c = CHR '','' then map_option (\<lambda>ms. m # ms) (raw_members n cs)
               else if c = CHR ''}'' then Some [m] else None))"

fun raw_items :: "nat \<Rightarrow> string \<Rightarrow> string list option" where
  "raw_items 0 s = None"
| "raw_items (Suc n) s =
     (case raw_value s of
        None \<Rightarrow> None
      | Some (raw, rest) \<Rightarrow>
          (case json_ws rest of
             [] \<Rightarrow> None
           | c # cs \<Rightarrow>
               if c = CHR '','' then map_option (\<lambda>xs. raw # xs) (raw_items n cs)
               else if c = CHR '']'' then Some [raw] else None))"

type_synonym raw_object = "(string \<times> string) list"

text \<open>\<^verbatim>\<open>null\<close> is the \<^verbatim>\<open>nil\<close> map; of two members with one key the later counts.\<close>

definition Decode :: "string \<Rightarrow> raw_object option" where
  "Decode frame =
     (case json_unmarshal frame of
        Some JNull \<Rightarrow> Some []
      | Some (JObj []) \<Rightarrow> Some []
      | Some (JObj _) \<Rightarrow> map_option rev (raw_members (length frame) (tl (json_ws frame)))
      | _ \<Rightarrow> None)"

definition decode_items :: "string \<Rightarrow> string list option" where
  "decode_items frame =
     (case json_unmarshal frame of
        Some JNull \<Rightarrow> Some []
      | Some (JArr []) \<Rightarrow> Some []
      | Some (JArr _) \<Rightarrow> raw_items (length frame) (tl (json_ws frame))
      | _ \<Rightarrow> None)"

section \<open>The checks\<close>

record WireResult =
  wr_Stdout :: string
  wr_Stderr :: string
  wr_Err :: bool

text \<open>\<^verbatim>\<open>Run\<close>, given what a program does with its arguments and its standard input.\<close>

definition conformance_Run :: "(string \<Rightarrow> string list \<Rightarrow> string \<Rightarrow> WireResult) \<Rightarrow> string \<Rightarrow> string \<Rightarrow> WireResult" where
  "conformance_Run execute binary input = execute binary [''mcp''] input"

datatype conformance_error =
    BlankFrame | InvalidFrame string | LongFrame | NotDecoded | VersionMissing | ResultOrError | EmptyID
  | NotificationAnswered nat | BatchLength nat nat | BatchID nat string string | NotObjectSchema

fun frames_of :: "string list \<Rightarrow> conformance_error + string list" where
  "frames_of [] = Inr []"
| "frames_of (l # ls) =
     (let line = trim_space l in
      if line = [] then Inl BlankFrame
      else if json_unmarshal line = None then Inl (InvalidFrame line)
      else case frames_of ls of Inl e \<Rightarrow> Inl e | Inr fs \<Rightarrow> Inr (line # fs))"

definition Frames :: "string \<Rightarrow> conformance_error + string list" where
  "Frames raw =
     (case scan_tokens 16777217 raw of (ls, long) \<Rightarrow>
        (case frames_of ls of Inl e \<Rightarrow> Inl e | Inr fs \<Rightarrow> if long then Inl LongFrame else Inr fs))"

definition shape_error :: "raw_object \<Rightarrow> conformance_error option" where
  "shape_error obj =
     (if map_of obj ''jsonrpc'' \<noteq> Some (json_string ''2.0'') then Some VersionMissing
      else if (map_of obj ''result'' = None) = (map_of obj ''error'' = None) then Some ResultOrError
      else if map_of obj ''id'' = Some [] then Some EmptyID
      else None)"

definition AssertResponseShape :: "string \<Rightarrow> conformance_error option" where
  "AssertResponseShape frame = (case Decode frame of None \<Rightarrow> Some NotDecoded | Some obj \<Rightarrow> shape_error obj)"

fun first_failed :: "('a \<Rightarrow> 'e option) \<Rightarrow> 'a list \<Rightarrow> 'e option" where
  "first_failed check [] = None"
| "first_failed check (x # xs) = (case check x of Some e \<Rightarrow> Some e | None \<Rightarrow> first_failed check xs)"

definition AssertNoStdoutPollution :: "WireResult \<Rightarrow> conformance_error option" where
  "AssertNoStdoutPollution r = (case Frames (wr_Stdout r) of Inl e \<Rightarrow> Some e | Inr fs \<Rightarrow> first_failed AssertResponseShape fs)"

definition AssertNotificationOnly :: "WireResult \<Rightarrow> conformance_error option" where
  "AssertNotificationOnly r =
     (case Frames (wr_Stdout r) of Inl e \<Rightarrow> Some e | Inr fs \<Rightarrow> if fs = [] then None else Some (NotificationAnswered (length fs)))"

text \<open>A \<^verbatim>\<open>json.Number\<close>: the text of a number, also in quotes; \<^verbatim>\<open>null\<close> leaves it empty.\<close>

definition decode_number :: "string option \<Rightarrow> string option" where
  "decode_number raw =
     (case Option.bind raw json_unmarshal of
        Some (JNum lit) \<Rightarrow> Some lit
      | Some (JStr t) \<Rightarrow> (case json_number t of Some (JNum lit, []) \<Rightarrow> Some lit | _ \<Rightarrow> None)
      | Some JNull \<Rightarrow> Some []
      | _ \<Rightarrow> None)"

text \<open>The members of an answer are written again before their shape is looked at, which changes neither which members there
  are nor the text of a version.\<close>

fun batch_errors :: "nat \<Rightarrow> raw_object list \<Rightarrow> string list \<Rightarrow> conformance_error option" where
  "batch_errors i (obj # objs) (want # wants) =
     (case shape_error obj of
        Some e \<Rightarrow> Some e
      | None \<Rightarrow>
          if decode_number (map_of obj ''id'') \<noteq> Some want
          then Some (BatchID i (case decode_number (map_of obj ''id'') of None \<Rightarrow> [] | Some got \<Rightarrow> got) want)
          else batch_errors (Suc i) objs wants)"
| "batch_errors i _ _ = None"

definition AssertBatchIDs :: "string \<Rightarrow> string list \<Rightarrow> conformance_error option" where
  "AssertBatchIDs frame want =
     (case Option.bind (decode_items frame) (\<lambda>xs. those (map Decode xs)) of
        None \<Rightarrow> Some NotDecoded
      | Some values \<Rightarrow>
          if length values \<noteq> length want then Some (BatchLength (length values) (length want)) else batch_errors 0 values want)"

definition ValidateObjectSchema :: "string \<Rightarrow> conformance_error option" where
  "ValidateObjectSchema schema =
     (case Decode schema of
        None \<Rightarrow> Some NotDecoded
      | Some obj \<Rightarrow> if map_of obj ''type'' \<noteq> Some (json_string ''object'') then Some NotObjectSchema else None)"

section \<open>What the server writes\<close>

lemma raw_value_encode:
  assumes "json_ints v" and "json_stop rest"
  shows "raw_value (json_encode v @ rest) = Some (json_encode v, rest)"
proof -
  obtain n where "json_value n (json_encode v @ rest) = Some (json_repair v, rest)"
    using reads_backE [OF json_reads_back [OF assms(1)] assms(2)] by blast
  then have "json_value (2 * length (json_encode v @ rest) + 2) (json_encode v @ rest) = Some (json_repair v, rest)"
    by (rule json_value_enough)
  moreover have "json_ws (json_encode v @ rest) = json_encode v @ rest"
    using json_encode_first [OF assms(1)] by (intro json_ws_id) auto
  ultimately show ?thesis unfolding raw_value_def by simp
qed

lemma raw_member_encode:
  assumes "json_ints v" and "json_stop rest"
  shows "raw_member (json_string k @ CHR '':'' # json_encode v @ rest) = Some ((utf8_repair k, json_encode v), rest)"
  using raw_value_encode [OF assms] json_ws_stop [OF assms(2)]
  by (simp add: raw_member_def json_string_def json_ws_id json_body_escape)

lemma raw_members_encode:
  assumes "list_all (\<lambda>(k, v). json_ints v) fs" and "fs \<noteq> []" and "length fs \<le> n"
  shows "raw_members n (join_with '','' (map (\<lambda>(k, v). json_string k @ CHR '':'' # json_encode v) fs) @ CHR ''}'' # rest) =
    Some (map (\<lambda>(k, v). (utf8_repair k, json_encode v)) fs)"
  using assms
proof (induction fs arbitrary: n rule: induct_list012)
  case (2 x)
  then obtain m where "n = Suc m" by (cases n) auto
  with 2 show ?case by (cases x) (simp add: raw_member_encode)
next
  case (3 x y ys)
  then obtain m where m: "n = Suc m" by (cases n) auto
  with 3 show ?case by (cases x) (simp add: raw_member_encode)
qed simp

lemma joined_length: "length fs \<le> length (join_with '','' (map (\<lambda>(k, v). json_string k @ CHR '':'' # json_encode v) fs))"
  by (induction fs rule: induct_list012) (auto split: prod.splits)

lemma decode_encoded:
  assumes "list_all (\<lambda>(k, v). json_ints v) fs" and "fs \<noteq> []"
  shows "Decode (json_encode (JObj fs)) = Some (rev (map (\<lambda>(k, v). (utf8_repair k, json_encode v)) fs))"
proof -
  have "json_unmarshal (json_encode (JObj fs)) = Some (JObj (map (\<lambda>(k, v). (utf8_repair k, json_repair v)) fs))"
    using json_unmarshal_encode [of "JObj fs"] assms(1) by simp
  moreover have "length fs \<le> length (json_encode (JObj fs))" using joined_length [of fs] by simp
  moreover have "tl (json_ws (json_encode (JObj fs))) =
      join_with '','' (map (\<lambda>(k, v). json_string k @ CHR '':'' # json_encode v) fs) @ CHR ''}'' # []"
    by (simp add: json_ws_id)
  ultimately show ?thesis
    using raw_members_encode [OF assms, of "length (json_encode (JObj fs))" "[]"] assms(2)
    by (cases fs) (auto simp: Decode_def simp del: json_encode.simps)
qed

lemma conforming_object:
  assumes "json_ints i" and "json_ints v" and "k = ''result'' \<or> k = ''error''"
  shows "AssertResponseShape (json_encode (JObj [(''jsonrpc'', JStr ''2.0''), (''id'', i), (k, v)])) = None"
proof -
  have keys: "utf8_repair ''jsonrpc'' = ''jsonrpc''" "utf8_repair ''id'' = ''id''" "utf8_repair k = k"
    using assms(3) by (auto simp: utf8_repair_ascii)
  have "Decode (json_encode (JObj [(''jsonrpc'', JStr ''2.0''), (''id'', i), (k, v)])) =
      Some [(k, json_encode v), (''id'', json_encode i), (''jsonrpc'', json_string ''2.0'')]"
    using decode_encoded [of "[(''jsonrpc'', JStr ''2.0''), (''id'', i), (k, v)]"] assms(1,2) by (simp add: keys del: json_encode.simps(6))
  moreover have "json_encode i \<noteq> []" using json_encode_first [OF assms(1)] by blast
  ultimately show ?thesis using assms(3) by (auto simp: AssertResponseShape_def shape_error_def)
qed

text \<open>Every response of the server has the shape the harness asks for.\<close>

lemma conforming_response:
  assumes "json_ints (mcp_response_json r)"
  shows "AssertResponseShape (json_encode (mcp_response_json r)) = None"
proof (cases r)
  case (McpResult i v)
  with assms show ?thesis by (simp only: mcp_response_json_def mcp_Response.case) (intro conforming_object, simp_all)
next
  case (McpError i code message data)
  with assms show ?thesis by (simp only: mcp_response_json_def mcp_Response.case) (intro conforming_object, simp_all)
qed

text \<open>The answer of a batch is an array, which no check of the output accepts; a response without an
  identifier passes.\<close>

lemma batch_not_accepted: "list_all json_ints rs \<Longrightarrow> AssertResponseShape (json_encode (JArr rs)) = Some NotDecoded"
  using json_unmarshal_encode [of "JArr rs"] by (simp add: AssertResponseShape_def Decode_def del: json_encode.simps)

lemma missing_id_accepted: "AssertResponseShape (json_encode (JObj [(''jsonrpc'', JStr ''2.0''), (''result'', JNull)])) = None"
  by code_simp

end
