(* ===== verification/Spec2Isabelle.thy ===== *)
theory Spec2Isabelle
  imports Parser_Claims DocumentSnapshot Expr_Props Expr_Parser_Props Patch_Claims Patch_Tx_Claims Semantics_Claims Index_Claims Mutation_Claims Capability Contract Oracle Trace Workspace_Session Workspace_Claims Graph Lsp_Claims Service_Claims Scip Operations_Claims Report Provenance Adapters Assets Repository_Claims Mcp_Claims Corpus Release Cache Cli_Claims Conformance
begin

text \<open>
  ikemen-devtools is a tool set for the game data of the Ikemen engine: it parses definition, command and
  state files, indexes and resolves what they define, edits them transactionally, and serves the result
  through a command line, a language server and an MCP server. This development models the Go packages
  under \<^verbatim>\<open>src/internal\<close> that decide what the tools answer and what they write, and the command line under
  \<^verbatim>\<open>src/cmd/ikm\<close> that calls them.

  \<^bold>\<open>How the program is put together.\<close> A workspace is configured and discovered
  (\<^verbatim>\<open>workspace\<close>, \<^verbatim>\<open>profile\<close>), each file is scanned (\<^verbatim>\<open>syntax\<close>) and adapted to the IR (\<^verbatim>\<open>parser\<close>, \<^verbatim>\<open>ir\<close>),
  kept with its bytes (\<^verbatim>\<open>document\<close>), its trigger expressions are parsed and evaluated (\<^verbatim>\<open>expr\<close>), its references
  are resolved across files (\<^verbatim>\<open>semantics\<close>), and the result is exported (\<^verbatim>\<open>index\<close>) or built into a graph of
  assets (\<^verbatim>\<open>graph\<close>). Changes go the other way: a provider makes a plan (\<^verbatim>\<open>mutation\<close>), a token authorizes it,
  and \<^verbatim>\<open>patch\<close> previews and applies it with a journal. \<^verbatim>\<open>oracle\<close> and \<^verbatim>\<open>trace\<close> run external commands under a
  policy and read what they print; \<^verbatim>\<open>capability\<close> and \<^verbatim>\<open>contract\<close> state the public operations and their envelope.

  \<^bold>\<open>The theories.\<close> Each theory names its source file first; a record or datatype carries the name of the Go
  type, its fields the names of the Go fields with a short prefix, and every operation the name of its
  function (a name two packages share is prefixed by its package).

  \<^item> The language and its library: \<^verbatim>\<open>Prelude\<close> (byte strings, cutting and splitting, \<open>first_error\<close>, grouping, the
    comparator sort \<open>sort_by\<close> for \<^verbatim>\<open>sort.Slice\<close>), \<^verbatim>\<open>Go_Strings\<close>, \<^verbatim>\<open>Go_Utf8\<close>, \<^verbatim>\<open>Go_Paths\<close>, \<^verbatim>\<open>Go_Json\<close>
    (and that decoding undoes encoding), \<^verbatim>\<open>Go_Any\<close>, \<^verbatim>\<open>Go_System\<close> (what the operating system
    answers at one moment: the working directory, \<^verbatim>\<open>Stat\<close>, \<^verbatim>\<open>ReadFile\<close>, \<^verbatim>\<open>EvalSymlinks\<close>), \<^verbatim>\<open>Sha256\<close>.
  \<^item> \<^verbatim>\<open>internal/ir\<close>: \<^verbatim>\<open>Ir\<close>. \<^verbatim>\<open>internal/syntax\<close>, \<^verbatim>\<open>internal/parser\<close>: \<^verbatim>\<open>Scanner\<close>, \<^verbatim>\<open>Adapter\<close>, with the invariants of the
    fold in \<^verbatim>\<open>Scanner_Props\<close>, \<^verbatim>\<open>Adapter_Props\<close>, \<^verbatim>\<open>Parser_Props\<close> and the properties in \<^verbatim>\<open>Parser_Claims\<close>.
  \<^item> \<^verbatim>\<open>internal/document\<close>: \<^verbatim>\<open>DocumentSnapshot\<close>. \<^verbatim>\<open>internal/expr\<close>: \<^verbatim>\<open>Expr\<close> (evaluation, int64 as \<open>64 word\<close>),
    \<^verbatim>\<open>Expr_Parser\<close>, and \<^verbatim>\<open>Expr_Props\<close>, \<^verbatim>\<open>Expr_Parser_Props\<close> (the grammar the parser follows).
  \<^item> \<^verbatim>\<open>internal/semantics\<close>: \<^verbatim>\<open>Semantics\<close>, \<^verbatim>\<open>Semantics_Props\<close>, \<^verbatim>\<open>Semantics_Claims\<close>. \<^verbatim>\<open>internal/index\<close>: \<^verbatim>\<open>Index\<close>,
    \<^verbatim>\<open>Index_Props\<close> (a reader of SQL statements), \<^verbatim>\<open>Index_Claims\<close>.
  \<^item> \<^verbatim>\<open>internal/patch\<close>: \<^verbatim>\<open>Patch\<close> (previews), \<^verbatim>\<open>Patch_Tx\<close> (the transaction as calls on a file system any one of
    which may fail), with \<^verbatim>\<open>Patch_Props\<close>, \<^verbatim>\<open>Patch_Claims\<close>, \<^verbatim>\<open>Patch_Tx_Props\<close>, \<^verbatim>\<open>Patch_Tx_Claims\<close>. \<^verbatim>\<open>internal/mutation\<close>:
    \<^verbatim>\<open>Mutation\<close>, \<^verbatim>\<open>Mutation_Claims\<close>.
  \<^item> \<^verbatim>\<open>internal/capability\<close>, \<^verbatim>\<open>internal/contract\<close>: \<^verbatim>\<open>Registry\<close> (the locale of registries, interpreted for the
    capabilities and for the mutation providers), \<^verbatim>\<open>Capability\<close>, \<^verbatim>\<open>Contract\<close>.
  \<^item> \<^verbatim>\<open>internal/profile\<close>, \<^verbatim>\<open>internal/workspace\<close>: \<^verbatim>\<open>Profile\<close>, \<^verbatim>\<open>Workspace_Path\<close>, \<^verbatim>\<open>Workspace_Config\<close>,
    \<^verbatim>\<open>Startup_Manifest\<close>, \<^verbatim>\<open>Workspace_Discovery\<close>, \<^verbatim>\<open>Workspace_Session\<close> (concurrent scans as a step relation),
    \<^verbatim>\<open>Workspace_Load\<close>, with \<^verbatim>\<open>Workspace_Path_Claims\<close>, \<^verbatim>\<open>Workspace_Claims\<close>.
  \<^item> \<^verbatim>\<open>internal/oracle\<close>, \<^verbatim>\<open>internal/trace\<close>: \<^verbatim>\<open>Oracle\<close>, \<^verbatim>\<open>Trace\<close>.
  \<^item> \<^verbatim>\<open>Graph\<close>: the asset graph of a \<^verbatim>\<open>select.def\<close> (\<^verbatim>\<open>graph/graph.go\<close>), its
    nodes, edges and diagnostics as the lists the code keeps; the lemmas show that it is closed, acyclic and
    rooted.
  \<^item> \<^verbatim>\<open>Lsp_Protocol\<close>, \<^verbatim>\<open>Lsp_Server\<close>, \<^verbatim>\<open>Lsp_Claims\<close>: the language server (\<^verbatim>\<open>lsp/protocol.go\<close>,
    \<^verbatim>\<open>lsp/server.go\<close>): frames over a byte list, requests as decoded values, the document map as an
    association list, \<^verbatim>\<open>Handle\<close> and \<^verbatim>\<open>Serve\<close> as functions on them.
  \<^item> \<^verbatim>\<open>Service\<close>, \<^verbatim>\<open>Service_Claims\<close>: the caching coordinator (\<^verbatim>\<open>service/service.go\<close>): the caches as maps,
    each call a function of the state and of the world it runs in.
  \<^item> \<^verbatim>\<open>Ir_Json\<close>, \<^verbatim>\<open>Scip\<close>: the IR as JSON and the line index of \<^verbatim>\<open>scip/scip.go\<close>. \<^verbatim>\<open>Report\<close>:
    \<^verbatim>\<open>report/report.go\<close>. \<^verbatim>\<open>Provenance\<close>: \<^verbatim>\<open>provenance\<close> and the rule matrix of \<^verbatim>\<open>compat\<close>.
  \<^item> \<^verbatim>\<open>Operations\<close>, \<^verbatim>\<open>Operations_Claims\<close>: the read-only queries (\<^verbatim>\<open>operations/operations.go\<close>),
    their pages and cursors, the path query over the graph and the sanitized export.
  \<^item> \<^verbatim>\<open>Adapters\<close>: the outlines of ZSS and Lua sources (\<^verbatim>\<open>adapters\<close>). \<^verbatim>\<open>Assets\<close>: the
    classification of files by their first bytes (\<^verbatim>\<open>assets\<close>).
  \<^item> \<^verbatim>\<open>Repository\<close>, \<^verbatim>\<open>Repository_Query\<close>, \<^verbatim>\<open>Repository_Claims\<close>: the store of snapshots (\<^verbatim>\<open>repository\<close>). A table
    is the list of its rows, a statement a function that fails on a primary or foreign key, a transaction a list of
    statements; \<open>keyed_table\<close> is the locale of tables with a key, interpreted for each of the four. \<^verbatim>\<open>Go_Base64\<close>
    holds the cursors' encoding and \<^verbatim>\<open>fmt.Sscan\<close>.
  \<^item> \<^verbatim>\<open>Mcp\<close>, \<^verbatim>\<open>Mcp_Claims\<close>: the MCP server (\<^verbatim>\<open>mcp/server.go\<close>): newline frames, requests as decoded values, the
    tools, and the loop over a stream as a function of the server and the disk; \<open>mcp_history\<close> is the step relation of the
    requests one server has answered. \<^verbatim>\<open>Conformance\<close>: the checks of what it writes (\<^verbatim>\<open>conformance/harness.go\<close>), which
    its responses pass.
  \<^item> \<^verbatim>\<open>Ecosystem\<close>: the packaged manifests and the rosters, animations and sprites they are checked against
    (\<^verbatim>\<open>ecosystem/ecosystem.go\<close>). \<^verbatim>\<open>Corpus\<close>: the manifest of a roster's sources (\<^verbatim>\<open>corpus/corpus.go\<close>).
  \<^item> \<^verbatim>\<open>Release\<close>: release metadata, its canonical bytes and their signature (\<^verbatim>\<open>release/release.go\<close>), with Ed25519 as an
    argument. \<^verbatim>\<open>Cache\<close>: the cache directory with its lock (\<^verbatim>\<open>cache/cache.go\<close>) and the doctor that looks at it
    (\<^verbatim>\<open>doctor\<close>), on the files of \<^verbatim>\<open>Patch_Tx\<close>.
  \<^item> \<^verbatim>\<open>Cli_Flags\<close> (Go's \<^verbatim>\<open>flag\<close> package), \<^verbatim>\<open>Cli_Output\<close> (the output files), \<^verbatim>\<open>Cli\<close> (every command of \<^verbatim>\<open>cmd/ikm/main.go\<close>
    and \<^verbatim>\<open>cmd/ikm/release_commands.go\<close>), \<^verbatim>\<open>Cli_Claims\<close>. A command is a function from the record \<open>cli_world\<close>, its arguments,
    standard input and the files to the exit code, standard output and the files after it; it calls the models of the
    components above, so the properties of \<^verbatim>\<open>Cli_Claims\<close> are about the whole program.

  \<^bold>\<open>What the lemmas show.\<close> The theories named \<^verbatim>\<open>_Props\<close> hold the invariants and the reference definitions, those
  named \<^verbatim>\<open>_Claims\<close> the properties, each after its statement in words, and beside them the lemmas that show where
  the code does not do what it means to. The main lines: nothing of a file is lost between bytes and
  IR, and identifiers are unique; the expression parser follows its grammar and evaluation is total and
  wraps; resolution is exact, package-aware and independent of the order of the documents; the
  exported script cuts into exactly the intended statements and holds exactly the values; an edit is
  applied to the bytes it was made for, inside the workspace, and a transaction with at most one fault
  is all or nothing; a token is redeemed once and stands for one plan; paths are handed out only below
  an authorized root; commands run only as the policy allows; a cache has one writer; a signature covers
  all metadata; and the program changes a file, starts a process or gives an exit code only as its command
  line asks and its help says.

  \<^bold>\<open>Fuel and bounds.\<close> Recursive descents over input (\<^verbatim>\<open>Expr_Parser\<close>, \<^verbatim>\<open>Go_Json\<close>) take fuel from the length of the
  input and are proved not to run out of it (\<open>expr_parse_follows_grammar\<close>, \<open>json_value_fuel\<close>); the walk of the
  startup manifest has the code's own depth limit of 64; \<open>climb\<close> and \<open>nearest_existing\<close> descend the elements
  of a path. Loops over bytes are structural or have a measure. \<^verbatim>\<open>int\<close> is unbounded in the model
  where it counts bytes, lines or files in memory, and \<open>64 word\<close> where arithmetic is on data (\<^verbatim>\<open>expr\<close>).

  \<^bold>\<open>What is a parameter.\<close> Other packages' decisions that the source leaves open are arguments: the process
  a command starts, the clock, \<^verbatim>\<open>url.Parse\<close>, the order in which Go visits a map, the tree a directory walk sees,
  and the resolvers the mutation providers are built with.

  \<^bold>\<open>What is not modelled.\<close> Letters outside ASCII are not folded by \<open>to_lower\<close>, and \<open>equal_fold\<close> folds ASCII; the
  host is not Windows. Standard error is not modelled, nor are directories, file times and access rights of the disk, and the texts of errors that
  come from the system. The SQLite driver and the statements it runs are the tables of \<^verbatim>\<open>Repository\<close>; its connection
  (\<^verbatim>\<open>repository/sqlite.go\<close>) and the constants that hold SQL text are left out. What a child process does to the disk is not
  part of a command's effect. Constructors and accessors that only pass a field on, and functions that are other names of a
  modelled one, have no definition of their own.
\<close>

end
